(* ===== verification/Prelude.thy ===== *)
theory Prelude imports Complex_Main "HOL-Library.Char_ord" "HOL-Library.List_Lexorder" begin

text \<open>
  Shared vocabulary of the development: Python values that several components use and
  the generic lemmas about them.

  Text.  A Python \<open>str\<close> is a \<open>string\<close>, the list of the bytes of its UTF-8 encoding.
  Equality, concatenation, containment, prefix tests and splitting at ASCII separators agree
  with the code points' ones.  \<open>upper\<close>, \<open>lower\<close> and \<open>strip\<close> treat the ASCII range.
  The program's Korean display messages are written in English translation (theory sources
  are ASCII); every interpolated value, separator and line break is kept.  Korean keywords
  the program compares with are written as their UTF-8 bytes (\<open>utf8\<close>).

  Errors.  A raised exception is the left injection of \<open>py_error + 'a\<close>.
\<close>

named_theorems route_simps \<open>routing functions of the graph\<close>
named_theorems frame_simps \<open>fields an operation leaves unchanged\<close>

datatype py_error =
    ValueError
  | ParseError
  | TypeErr
  | AttributeError
  | KeyErr
  | IndexErr
  | TimeoutErr
  | RuntimeErr
  | CancelledErr
  | OtherError

type_synonym 'a result = "py_error + 'a"

fun result_bind :: "'a result \<Rightarrow> ('a \<Rightarrow> 'b result) \<Rightarrow> 'b result" where
  "result_bind (Inl e) f = Inl e"
| "result_bind (Inr a) f = f a"

lemma result_bind_Inr_iff:
  "result_bind r f = Inr b \<longleftrightarrow> (\<exists>a. r = Inr a \<and> f a = Inr b)"
  by (cases r) auto

lemma result_bind_Inl_iff:
  "result_bind r f = Inl e \<longleftrightarrow> r = Inl e \<or> (\<exists>a. r = Inr a \<and> f a = Inl e)"
  by (cases r) auto

section \<open>Text\<close>

definition utf8 :: "nat list \<Rightarrow> string" where
  "utf8 bs = map char_of bs"

definition is_ascii_space :: "char \<Rightarrow> bool" where
  "is_ascii_space c \<longleftrightarrow> of_char c \<in> {9, 10, 11, 12, 13, 28, 29, 30, 31, 32 :: nat}"

definition py_lstrip :: "string \<Rightarrow> string" where
  "py_lstrip s = dropWhile is_ascii_space s"

definition py_strip :: "string \<Rightarrow> string" where
  "py_strip s = rev (py_lstrip (rev (py_lstrip s)))"

definition py_rstrip :: "string \<Rightarrow> string" where
  "py_rstrip s = rev (py_lstrip (rev s))"

text \<open>The words of a text, \<open>s.split()\<close>, and its number of code points, \<open>len(s)\<close>: continuation
  bytes do not count.\<close>

function py_words :: "string \<Rightarrow> string list" where
  "py_words s =
     (case dropWhile is_ascii_space s of
        [] \<Rightarrow> []
      | c # cs \<Rightarrow> takeWhile (\<lambda>x. \<not> is_ascii_space x) (c # cs) # py_words (dropWhile (\<lambda>x. \<not> is_ascii_space x) (c # cs)))"
  by pat_completeness auto
termination
proof (relation "measure length", simp)
  fix s and c :: char and cs
  assume d: "dropWhile is_ascii_space s = c # cs"
  then have "\<not> is_ascii_space c" by (simp add: dropWhile_eq_Cons_conv)
  moreover have "length (dropWhile (\<lambda>x. \<not> is_ascii_space x) cs) \<le> length cs" by (rule length_dropWhile_le)
  moreover have "length (c # cs) \<le> length s" using length_dropWhile_le [of is_ascii_space s] d by simp
  ultimately show "(dropWhile (\<lambda>x. \<not> is_ascii_space x) (c # cs), s) \<in> measure length" by simp
qed

declare py_words.simps [simp del]

definition py_len :: "string \<Rightarrow> nat" where
  "py_len s = length (filter (\<lambda>c. \<not> (128 \<le> (of_char c :: nat) \<and> (of_char c :: nat) < 192)) s)"

text \<open>The first \<open>n\<close> code points of a text, \<open>s[:n]\<close>.\<close>

definition inner_byte :: "char \<Rightarrow> bool" where
  "inner_byte c \<longleftrightarrow> 128 \<le> (of_char c :: nat) \<and> (of_char c :: nat) < 192"

fun take_chars :: "nat \<Rightarrow> string \<Rightarrow> string" where
  "take_chars n [] = []"
| "take_chars n (c # cs) =
     (if inner_byte c then c # take_chars n cs
      else case n of 0 \<Rightarrow> [] | Suc m \<Rightarrow> c # take_chars m cs)"

definition upper_char :: "char \<Rightarrow> char" where
  "upper_char c = (let n = (of_char c :: nat) in if 97 \<le> n \<and> n \<le> 122 then char_of (n - 32) else c)"

definition lower_char :: "char \<Rightarrow> char" where
  "lower_char c = (let n = (of_char c :: nat) in if 65 \<le> n \<and> n \<le> 90 then char_of (n + 32) else c)"

definition py_upper :: "string \<Rightarrow> string" where
  "py_upper s = map upper_char s"

definition py_lower :: "string \<Rightarrow> string" where
  "py_lower s = map lower_char s"

fun starts_with :: "string \<Rightarrow> string \<Rightarrow> bool" where
  "starts_with s [] = True"
| "starts_with [] (p # ps) = False"
| "starts_with (c # s) (p # ps) = (c = p \<and> starts_with s ps)"

definition ends_with :: "string \<Rightarrow> string \<Rightarrow> bool" where
  "ends_with s p = starts_with (rev s) (rev p)"

fun contains :: "string \<Rightarrow> string \<Rightarrow> bool" where
  "contains [] p = (p = [])"
| "contains (c # s) p = (starts_with (c # s) p \<or> contains s p)"

text \<open>\<open>sep.join(xs)\<close>\<close>

fun py_join :: "string \<Rightarrow> string list \<Rightarrow> string" where
  "py_join sep [] = []"
| "py_join sep [x] = x"
| "py_join sep (x # y # zs) = x @ sep @ py_join sep (y # zs)"

text \<open>\<open>s.split(c)\<close> at a one-character separator; \<open>split_once\<close> is \<open>s.split(sep, 1)\<close>.\<close>

fun split_char :: "char \<Rightarrow> string \<Rightarrow> string list" where
  "split_char c [] = [[]]"
| "split_char c (x # xs) =
     (if x = c then [] # split_char c xs
      else (case split_char c xs of [] \<Rightarrow> [[x]] | y # ys \<Rightarrow> (x # y) # ys))"

fun split_once :: "string \<Rightarrow> string \<Rightarrow> (string \<times> string) option" where
  "split_once sep [] = (if sep = [] then Some ([], []) else None)"
| "split_once sep (c # s) =
     (if starts_with (c # s) sep then Some ([], drop (length sep) (c # s))
      else map_option (\<lambda>(a, b). (c # a, b)) (split_once sep s))"

fun nat_digits :: "nat \<Rightarrow> string" where
  "nat_digits n = (if n < 10 then [char_of (48 + n)]
     else nat_digits (n div 10) @ [char_of (48 + n mod 10)])"

declare nat_digits.simps [simp del]

definition str_int :: "int \<Rightarrow> string" where
  "str_int i = (if i < 0 then CHR ''-'' # nat_digits (nat (- i)) else nat_digits (nat i))"

lemma starts_with_append [simp]: "starts_with (p @ s) p"
  by (induction p) auto

lemma starts_with_iff: "starts_with s p \<longleftrightarrow> (\<exists>t. s = p @ t)"
  by (induction s p rule: starts_with.induct) auto

lemma contains_iff: "contains s p \<longleftrightarrow> (\<exists>u v. s = u @ p @ v)"
proof (induction s)
  case Nil
  then show ?case by auto
next
  case (Cons c s)
  have "(\<exists>u v. c # s = u @ p @ v) \<longleftrightarrow> (\<exists>v. c # s = p @ v) \<or> (\<exists>u v. s = u @ p @ v)"
    by (metis append_Cons append_Nil neq_Nil_conv list.inject)
  with Cons.IH show ?case
    by (simp add: starts_with_iff)
qed

lemma split_char_nonempty [simp]: "split_char c s \<noteq> []"
  by (induction s) (auto split: list.splits)

lemma py_join_split_char: "py_join [c] (split_char c s) = s"
proof (induction s)
  case (Cons x s)
  then show ?case
    by (cases "split_char c s"; cases "tl (split_char c s)") (auto split: list.splits)
qed simp

lemma split_char_append: "split_char c (a @ c # b) = split_char c a @ split_char c b"
proof (induction a)
  case (Cons x a)
  then show ?case by (auto split: list.splits)
qed simp

lemma split_char_parts: "x \<in> set (split_char c s) \<Longrightarrow> \<exists>u v. s = u @ x @ v"
proof (induction s arbitrary: x)
  case (Cons y s)
  show ?case
  proof (cases "y = c")
    case True
    with Cons.prems consider "x = []" | "x \<in> set (split_char c s)" by auto
    then show ?thesis
    proof cases
      case 2
      with Cons.IH obtain u v where "s = u @ x @ v" by blast
      then show ?thesis by (metis append_Cons)
    next
      case 1
      then show ?thesis by (metis append_Nil)
    qed
  next
    case False
    obtain z zs where z: "split_char c s = z # zs" by (cases "split_char c s") auto
    with Cons.prems False have "x = y # z \<or> x \<in> set zs" by auto
    moreover have "\<exists>v. s = z @ v"
      using py_join_split_char [of c s] z by (cases zs) auto
    ultimately show ?thesis using Cons.IH z
      by (metis append_Cons append_Nil list.set_intros(2))
  qed
qed simp

lemma split_once_None: "split_once sep s = None \<longleftrightarrow> \<not> contains s sep"
  by (induction s) auto

lemma split_once_first:
  "\<not> contains a sep \<Longrightarrow> split_once sep (a @ sep @ b) = Some (u, v) \<Longrightarrow> length u \<le> length a"
proof (induction a arbitrary: u)
  case Nil
  then show ?case using starts_with_append [of sep b] by (cases "sep @ b") (auto split: if_splits)
next
  case (Cons x a)
  then show ?case by (auto split: if_splits)
qed

lemma split_once_Some: "split_once sep s = Some (a, b) \<Longrightarrow> s = a @ sep @ b"
proof (induction s arbitrary: a)
  case Nil
  then show ?case by (auto split: if_splits)
next
  case (Cons c s)
  show ?case
  proof (cases "starts_with (c # s) sep")
    case True
    with Cons.prems have "a = []" and "b = drop (length sep) (c # s)" by auto
    with True show ?thesis by (metis append_Nil append_eq_conv_conj starts_with_iff)
  next
    case False
    with Cons show ?thesis by auto
  qed
qed

lemma nat_digits_nonempty [simp]: "nat_digits n \<noteq> []"
  by (subst nat_digits.simps) simp

text \<open>The digits of a number determine it.\<close>

definition digit_value :: "char \<Rightarrow> nat" where
  "digit_value c = of_char c - 48"

lemma digit_value_char: "k < 10 \<Longrightarrow> digit_value (char_of (48 + k)) = k"
proof -
  assume "k < 10"
  then have "(48 + k) mod 256 = 48 + k" by simp
  then show ?thesis by (simp add: digit_value_def of_char_of)
qed

lemma digits_value: "foldl (\<lambda>acc c. acc * 10 + digit_value c) 0 (nat_digits n) = n"
proof (induction n rule: nat_digits.induct)
  case (1 n)
  show ?case
  proof (cases "n < 10")
    case True
    then have "nat_digits n = [char_of (48 + n)]" by (subst nat_digits.simps) simp
    with True show ?thesis by (simp add: digit_value_char)
  next
    case False
    then have "nat_digits n = nat_digits (n div 10) @ [char_of (48 + n mod 10)]"
      by (subst nat_digits.simps) simp
    moreover have "n mod 10 < 10" by simp
    ultimately show ?thesis using 1 [OF False] by (simp add: digit_value_char)
  qed
qed

lemma nat_digits_inject: "nat_digits m = nat_digits n \<Longrightarrow> m = n"
  by (metis digits_value)

section \<open>Lists\<close>

text \<open>
  The loop \<open>for i, x in enumerate(xs): if p(x): xs[i] = f(x); break\<close>: only the first match
  is replaced.
\<close>

fun update_first :: "('a \<Rightarrow> bool) \<Rightarrow> ('a \<Rightarrow> 'a) \<Rightarrow> 'a list \<Rightarrow> 'a list" where
  "update_first p f [] = []"
| "update_first p f (x # xs) = (if p x then f x # xs else x # update_first p f xs)"

lemma length_update_first [simp]: "length (update_first p f xs) = length xs"
  by (induction xs) auto

lemma update_first_none [simp]: "\<forall>x\<in>set xs. \<not> p x \<Longrightarrow> update_first p f xs = xs"
  by (induction xs) auto

lemma map_update_first: "(\<And>x. p x \<Longrightarrow> g (f x) = g x) \<Longrightarrow> map g (update_first p f xs) = map g xs"
  by (induction xs) auto

lemma set_update_first: "set (update_first p f xs) \<subseteq> set xs \<union> f ` {x \<in> set xs. p x}"
  by (induction xs) auto

lemma in_update_firstD:
  "y \<in> set (update_first p f xs) \<Longrightarrow> y \<in> set xs \<or> (\<exists>x\<in>set xs. p x \<and> y = f x)"
  using set_update_first [of p f xs] by auto

text \<open>\<open>d.setdefault(k, []).append(v)\<close> over an insertion-ordered dictionary.\<close>

fun dict_append :: "'k \<Rightarrow> 'v \<Rightarrow> ('k \<times> 'v list) list \<Rightarrow> ('k \<times> 'v list) list" where
  "dict_append k v [] = [(k, [v])]"
| "dict_append k v ((k', vs) # d) =
     (if k' = k then (k', vs @ [v]) # d else (k', vs) # dict_append k v d)"

text \<open>\<open>d[k] = v\<close> over an insertion-ordered dictionary: an existing key keeps its place.\<close>

fun dict_set :: "'k \<Rightarrow> 'v \<Rightarrow> ('k \<times> 'v) list \<Rightarrow> ('k \<times> 'v) list" where
  "dict_set k v [] = [(k, v)]"
| "dict_set k v ((k', w) # d) = (if k' = k then (k', v) # d else (k', w) # dict_set k v d)"

lemma map_of_dict_set: "map_of (dict_set k v d) = (map_of d)(k \<mapsto> v)"
  by (induction d) (auto simp: fun_eq_iff)

lemma distinct_dict_set: "distinct (map fst d) \<Longrightarrow> distinct (map fst (dict_set k v d))"
proof (induction d)
  case (Cons x d)
  have "fst ` set (dict_set k v d) = insert k (fst ` set d)"
    using arg_cong [where f = dom, OF map_of_dict_set [of k v d]] by (simp add: dom_map_of_conv_image_fst)
  with Cons show ?case by (cases x) auto
qed simp

lemma map_of_dict_append:
  "map_of (dict_append k v d) =
     (map_of d)(k \<mapsto> (case map_of d k of None \<Rightarrow> [v] | Some vs \<Rightarrow> vs @ [v]))"
  by (induction d) (auto simp: fun_eq_iff)

lemma fst_set_dict_append: "fst ` set (dict_append k v d) = insert k (fst ` set d)"
  using arg_cong [where f = dom, OF map_of_dict_append [of k v d]]
  by (simp add: dom_map_of_conv_image_fst)

text \<open>The slice \<open>xs[:n]\<close>: a negative bound counts from the end.\<close>

definition py_take :: "int \<Rightarrow> 'a list \<Rightarrow> 'a list" where
  "py_take n xs = (if n < 0 then take (nat (int (length xs) + n)) xs else take (nat n) xs)"

lemma py_take_nonneg: "0 \<le> n \<Longrightarrow> py_take n xs = take (nat n) xs"
  by (simp add: py_take_def)

lemma set_py_take: "set (py_take n xs) \<subseteq> set xs"
  by (auto simp: py_take_def dest: in_set_takeD)

lemma length_py_take: "0 \<le> n \<Longrightarrow> int (length (py_take n xs)) \<le> n"
  by (simp add: py_take_def)

section \<open>Transition systems\<close>

text \<open>
  The interface every step relation of the program offers to its invariant proofs:
  start states, steps, and an invariant the steps keep.
\<close>

locale step_invariant =
  fixes init :: "'s \<Rightarrow> bool"
    and step :: "'s \<Rightarrow> 's \<Rightarrow> bool"
    and inv :: "'s \<Rightarrow> bool"
  assumes inv_init: "init s \<Longrightarrow> inv s"
    and inv_step: "inv s \<Longrightarrow> step s t \<Longrightarrow> inv t"
begin

lemma inv_run: "step\<^sup>*\<^sup>* s t \<Longrightarrow> inv s \<Longrightarrow> inv t"
  by (induction rule: rtranclp_induct) (auto intro: inv_step)

lemma inv_reachable: "init s \<Longrightarrow> step\<^sup>*\<^sup>* s t \<Longrightarrow> inv t"
  by (blast intro: inv_run inv_init)

end

text \<open>A step relation with a rank that every step from an invariant state decreases.\<close>

locale ranked_steps =
  fixes step :: "'s \<Rightarrow> 's \<Rightarrow> bool"
    and inv :: "'s \<Rightarrow> bool"
    and rank :: "'s \<Rightarrow> nat"
  assumes rank_inv: "inv s \<Longrightarrow> step s t \<Longrightarrow> inv t"
    and rank_less: "inv s \<Longrightarrow> step s t \<Longrightarrow> rank t < rank s"
begin

lemma run_bounded: "(step ^^ n) s t \<Longrightarrow> inv s \<Longrightarrow> inv t \<and> n + rank t \<le> rank s"
proof (induction n arbitrary: t)
  case (Suc n)
  then obtain u where u: "(step ^^ n) s u" "step u t" by auto
  with Suc have "inv u \<and> n + rank u \<le> rank s" by simp
  with u(2) rank_inv [of u t] rank_less [of u t] show ?case by fastforce
qed simp

lemma no_long_run: "inv s \<Longrightarrow> rank s < n \<Longrightarrow> \<not> (step ^^ n) s t"
  using run_bounded [of n s t] by auto

end

end
