(* ===== verification/CircuitBreaker.thy ===== *)
theory CircuitBreaker imports Prelude begin

text \<open>
  The LLM circuit breaker, \<open>src/src/utils/llm/circuit_breaker.py\<close>.  \<open>time.monotonic()\<close> is an
  argument (\<open>now\<close>), exact where Python has a float.  The asynchronous context manager
  \<open>guard\<close> is two atomic operations, as in the code: \<open>guard_enter\<close> under the lock before
  the block and \<open>guard_exit\<close> (\<open>_on_success\<close> / \<open>_on_failure\<close>, each under the lock) after it;
  \<open>cb_step\<close> interleaves them for any number of concurrent calls.  Logging is left out.
\<close>

datatype circuit_state = CB_CLOSED | CB_OPEN | CB_HALF_OPEN

record breaker =
  fail_threshold :: int
  reset_timeout_sec :: rat
  cb_state :: circuit_state
  consecutive_failures :: int
  opened_at :: rat

definition new_breaker :: "int \<Rightarrow> rat \<Rightarrow> breaker" where
  "new_breaker threshold timeout =
     \<lparr>fail_threshold = threshold, reset_timeout_sec = timeout, cb_state = CB_CLOSED,
      consecutive_failures = 0, opened_at = 0\<rparr>"

text \<open>
  What the guarded block ends with.  \<open>exc_counted\<close>: the exception is an instance of
  \<open>counted_excs\<close>; \<open>exc_is_exception\<close>: it derives from \<open>Exception\<close>, so \<open>except Exception\<close>
  catches it (a task cancellation does not); \<open>exc_status_code\<close>: its integer
  \<open>status_code\<close> attribute, if it has one.
\<close>

record block_exc =
  exc_counted :: bool
  exc_is_exception :: bool
  exc_status_code :: "int option"

datatype block_outcome = Completed | Raised block_exc

definition remaining_reset_sec :: "rat \<Rightarrow> breaker \<Rightarrow> rat" where
  "remaining_reset_sec now b = max 0 (reset_timeout_sec b - (now - opened_at b))"

definition maybe_transition_to_half_open :: "rat \<Rightarrow> breaker \<Rightarrow> breaker" where
  "maybe_transition_to_half_open now b =
     (if cb_state b \<noteq> CB_OPEN then b
      else if remaining_reset_sec now b > 0 then b
      else b\<lparr>cb_state := CB_HALF_OPEN\<rparr>)"

definition on_success :: "breaker \<Rightarrow> breaker" where
  "on_success b = b\<lparr>cb_state := CB_CLOSED, consecutive_failures := 0, opened_at := 0\<rparr>"

definition on_failure :: "rat \<Rightarrow> breaker \<Rightarrow> breaker" where
  "on_failure now b =
     (let b1 = b\<lparr>consecutive_failures := consecutive_failures b + 1\<rparr>
      in if cb_state b1 = CB_HALF_OPEN \<or> consecutive_failures b1 \<ge> fail_threshold b1
         then b1\<lparr>cb_state := CB_OPEN, opened_at := now\<rparr>
         else b1)"

definition reset_breaker :: "breaker \<Rightarrow> breaker" where
  "reset_breaker b = b\<lparr>cb_state := CB_CLOSED, consecutive_failures := 0, opened_at := 0\<rparr>"

definition is_server_side_status_error :: "block_exc \<Rightarrow> bool" where
  "is_server_side_status_error e =
     (case exc_status_code e of Some c \<Rightarrow> 500 \<le> c \<and> c < 600 | None \<Rightarrow> False)"

text \<open>\<open>guard\<close>, first half: \<open>None\<close> is \<open>CircuitOpenError\<close>.\<close>

definition guard_enter :: "rat \<Rightarrow> breaker \<Rightarrow> bool \<times> breaker" where
  "guard_enter now b =
     (let b1 = maybe_transition_to_half_open now b
      in (cb_state b1 \<noteq> CB_OPEN, b1))"

text \<open>\<open>guard\<close>, second half: the \<open>except\<close> / \<open>else\<close> clauses in the code's order.\<close>

fun guard_exit :: "rat \<Rightarrow> block_outcome \<Rightarrow> breaker \<Rightarrow> breaker" where
  "guard_exit now Completed b = on_success b"
| "guard_exit now (Raised e) b =
     (if exc_counted e then on_failure now b
      else if exc_is_exception e
        then (if is_server_side_status_error e then on_failure now b else b)
      else b)"

declare guard_exit.simps(2) [simp del]

text \<open>\<open>call\<close>: enter, run the factory's coroutine, exit.  The result says whether the call ran.\<close>

definition cb_call :: "rat \<Rightarrow> rat \<Rightarrow> block_outcome \<Rightarrow> breaker \<Rightarrow> block_outcome option \<times> breaker" where
  "cb_call t1 t2 out b =
     (case guard_enter t1 b of
        (admitted, b1) \<Rightarrow> if admitted then (Some out, guard_exit t2 out b1) else (None, b1))"

definition counts_as_failure :: "block_exc \<Rightarrow> bool" where
  "counts_as_failure e \<longleftrightarrow>
     exc_counted e \<or> exc_is_exception e \<and> is_server_side_status_error e"

section \<open>Concurrent calls\<close>

record cb_sys =
  brk :: breaker
  in_flight :: nat

inductive cb_step :: "cb_sys \<Rightarrow> cb_sys \<Rightarrow> bool" where
  cb_admit: "guard_enter now (brk s) = (True, b) \<Longrightarrow>
     cb_step s (s\<lparr>brk := b, in_flight := Suc (in_flight s)\<rparr>)"
| cb_reject: "guard_enter now (brk s) = (False, b) \<Longrightarrow> cb_step s (s\<lparr>brk := b\<rparr>)"
| cb_finish: "in_flight s = Suc n \<Longrightarrow>
     cb_step s (s\<lparr>brk := guard_exit now out (brk s), in_flight := n\<rparr>)"
| cb_manual_reset: "cb_step s (s\<lparr>brk := reset_breaker (brk s)\<rparr>)"

inductive_cases cb_stepE: "cb_step s t"

definition cb_init :: "int \<Rightarrow> rat \<Rightarrow> cb_sys \<Rightarrow> bool" where
  "cb_init threshold timeout s \<longleftrightarrow> s = \<lparr>brk = new_breaker threshold timeout, in_flight = 0\<rparr>"

text \<open>The circuit is closed exactly while the failure count is below the threshold.\<close>

definition cb_ok :: "breaker \<Rightarrow> bool" where
  "cb_ok b \<longleftrightarrow> 1 \<le> fail_threshold b \<and> 0 \<le> consecutive_failures b \<and>
     (cb_state b = CB_CLOSED \<longleftrightarrow> consecutive_failures b < fail_threshold b)"

lemmas cb_defs = maybe_transition_to_half_open_def on_success_def on_failure_def
  reset_breaker_def guard_enter_def Let_def

lemma maybe_ok: "cb_ok b \<Longrightarrow> cb_ok (maybe_transition_to_half_open now b)"
  by (auto simp: cb_ok_def cb_defs)

lemma guard_enter_ok: "cb_ok b \<Longrightarrow> guard_enter now b = (a, b') \<Longrightarrow> cb_ok b'"
  by (auto simp: guard_enter_def Let_def maybe_ok)

lemma on_success_ok: "cb_ok b \<Longrightarrow> cb_ok (on_success b)"
  and on_failure_ok: "cb_ok b \<Longrightarrow> cb_ok (on_failure now b)"
  and reset_ok: "cb_ok b \<Longrightarrow> cb_ok (reset_breaker b)"
  by (auto simp: cb_ok_def cb_defs)

lemma guard_exit_ok: "cb_ok b \<Longrightarrow> cb_ok (guard_exit now out b)"
  by (cases out) (auto simp: guard_exit.simps on_success_ok on_failure_ok)

lemma cb_step_ok: "cb_ok (brk s) \<Longrightarrow> cb_step s t \<Longrightarrow> cb_ok (brk t)"
  by (auto elim!: cb_stepE intro: guard_enter_ok guard_exit_ok reset_ok)

lemma new_breaker_ok: "1 \<le> threshold \<Longrightarrow> cb_ok (new_breaker threshold timeout)"
  by (simp add: new_breaker_def cb_ok_def)

interpretation cb: step_invariant "\<lambda>s. \<exists>threshold timeout. 1 \<le> threshold \<and> cb_init threshold timeout s"
  cb_step "\<lambda>s. cb_ok (brk s)"
  by unfold_locales (auto simp: cb_init_def new_breaker_ok intro: cb_step_ok)

text \<open>A sequence of calls, one after the other: entry time, exit time, outcome.\<close>

fun cb_run :: "breaker \<Rightarrow> (rat \<times> rat \<times> block_outcome) list \<Rightarrow> breaker" where
  "cb_run b [] = b"
| "cb_run b ((t1, t2, out) # cs) = cb_run (snd (cb_call t1 t2 out b)) cs"

definition counted_failures :: "(rat \<times> rat \<times> block_outcome) list \<Rightarrow> bool" where
  "counted_failures cs \<longleftrightarrow>
     list_all (\<lambda>(t1, t2, out). case out of Completed \<Rightarrow> False | Raised e \<Rightarrow> counts_as_failure e) cs"

lemma cb_call_closed:
  "cb_state b = CB_CLOSED \<Longrightarrow> cb_call t1 t2 out b = (Some out, guard_exit t2 out b)"
  by (simp add: cb_call_def guard_enter_def maybe_transition_to_half_open_def Let_def)

lemma guard_exit_counted: "counts_as_failure e \<Longrightarrow> guard_exit now (Raised e) b = on_failure now b"
  by (auto simp: counts_as_failure_def guard_exit.simps)

lemma guard_exit_uncounted: "\<not> counts_as_failure e \<Longrightarrow> guard_exit now (Raised e) b = b"
  by (auto simp: counts_as_failure_def guard_exit.simps)

lemma on_failure_closed:
  "cb_state b = CB_CLOSED \<Longrightarrow>
     consecutive_failures (on_failure now b) = consecutive_failures b + 1 \<and>
     fail_threshold (on_failure now b) = fail_threshold b \<and>
     (cb_state (on_failure now b) = CB_CLOSED \<longleftrightarrow> consecutive_failures b + 1 < fail_threshold b)"
  by (auto simp: on_failure_def Let_def)

lemma cb_run_counts:
  assumes "cb_state b = CB_CLOSED" and "counted_failures cs"
    and "consecutive_failures b + int (length cs) < fail_threshold b"
  shows "cb_state (cb_run b cs) = CB_CLOSED \<and>
    consecutive_failures (cb_run b cs) = consecutive_failures b + int (length cs) \<and>
    fail_threshold (cb_run b cs) = fail_threshold b"
  using assms
proof (induction b cs rule: cb_run.induct)
  case (2 b t1 t2 out cs)
  then obtain e where e: "out = Raised e" "counts_as_failure e"
    by (cases out) (auto simp: counted_failures_def)
  with 2 have c: "snd (cb_call t1 t2 out b) = on_failure t2 b"
    by (simp add: cb_call_closed guard_exit_counted)
  show ?case
    using 2 c on_failure_closed [of b t2] by (simp add: counted_failures_def)
qed simp

section \<open>Properties\<close>

text \<open>
  C35: Under every interleaving of concurrent calls and manual resets, from a fresh breaker
  with a positive threshold, the circuit is closed exactly while fewer than
  \<open>fail_threshold\<close> consecutive failures are recorded.
\<close>
theorem breaker_closed_iff_below_threshold:
  assumes "1 \<le> threshold" and "cb_init threshold timeout s" and "cb_step\<^sup>*\<^sup>* s t"
  shows "cb_state (brk t) = CB_CLOSED \<longleftrightarrow> consecutive_failures (brk t) < fail_threshold (brk t)"
  using cb.inv_reachable [of s t] assms by (auto simp: cb_ok_def)

theorem breaker_closed_iff_below_threshold_witness:
  "let s = \<lparr>brk = new_breaker 5 30, in_flight = 0\<rparr>; t = s\<lparr>brk := reset_breaker (brk s)\<rparr>
   in cb_state (brk t) = CB_CLOSED \<longleftrightarrow> consecutive_failures (brk t) < fail_threshold (brk t)"
  unfolding Let_def
  by (rule breaker_closed_iff_below_threshold [of 5 30 "\<lparr>brk = new_breaker 5 30, in_flight = 0\<rparr>"])
     (use cb_manual_reset [of "\<lparr>brk = new_breaker 5 30, in_flight = 0\<rparr>"] in \<open>auto simp: cb_init_def\<close>)

text \<open>
  An open circuit fails fast: a call that enters before \<open>reset_timeout_sec\<close> has passed is
  refused without running, and the breaker is unchanged.
\<close>
theorem open_circuit_fails_fast:
  assumes "cb_state b = CB_OPEN" and "t1 - opened_at b < reset_timeout_sec b"
  shows "cb_call t1 t2 out b = (None, b)"
  using assms by (simp add: cb_call_def cb_defs remaining_reset_sec_def)

theorem open_circuit_fails_fast_witness:
  "cb_call 20 21 Completed ((new_breaker 5 30)\<lparr>cb_state := CB_OPEN, opened_at := 10\<rparr>) =
     (None, (new_breaker 5 30)\<lparr>cb_state := CB_OPEN, opened_at := 10\<rparr>)"
  by (rule open_circuit_fails_fast) (simp_all add: new_breaker_def)

text \<open>
  Once the timeout has passed a call is admitted as a trial: success closes the circuit
  with its counters cleared, a counted failure reopens it from the failure's time whatever
  the count, and an uncounted exception (4xx, cancellation) leaves the circuit half open.
\<close>
theorem trial_call_decides:
  assumes "cb_state b = CB_OPEN" and "reset_timeout_sec b \<le> t1 - opened_at b"
  shows "cb_call t1 t2 out b =
    (Some out,
     (case out of
        Completed \<Rightarrow> b\<lparr>cb_state := CB_CLOSED, consecutive_failures := 0, opened_at := 0\<rparr>
      | Raised e \<Rightarrow>
          if counts_as_failure e
          then b\<lparr>consecutive_failures := consecutive_failures b + 1, opened_at := t2\<rparr>
          else b\<lparr>cb_state := CB_HALF_OPEN\<rparr>))"
proof -
  have m: "maybe_transition_to_half_open t1 b = b\<lparr>cb_state := CB_HALF_OPEN\<rparr>"
    using assms by (simp add: maybe_transition_to_half_open_def remaining_reset_sec_def)
  show ?thesis
  proof (cases out)
    case Completed
    with m show ?thesis by (simp add: cb_call_def guard_enter_def on_success_def)
  next
    case (Raised e)
    show ?thesis
    proof (cases "counts_as_failure e")
      case True
      with m Raised assms(1) show ?thesis
        by (cases b) (simp add: cb_call_def guard_enter_def guard_exit_counted on_failure_def)
    next
      case False
      with m Raised show ?thesis
        by (simp add: cb_call_def guard_enter_def guard_exit_uncounted)
    qed
  qed
qed

theorem trial_call_decides_witness:
  "snd (cb_call 50 55 (Raised \<lparr>exc_counted = False, exc_is_exception = True, exc_status_code = Some 503\<rparr>)
     ((new_breaker 5 30)\<lparr>cb_state := CB_OPEN, consecutive_failures := 5, opened_at := 10\<rparr>)) =
   (new_breaker 5 30)\<lparr>cb_state := CB_OPEN, consecutive_failures := 6, opened_at := 55\<rparr>"
  by (subst trial_call_decides)
     (simp_all add: new_breaker_def counts_as_failure_def is_server_side_status_error_def)

text \<open>
  From a fresh breaker, counted failures in a row open the circuit at exactly the
  threshold: a shorter run leaves it closed, and one more counted failure after
  \<open>fail_threshold - 1\<close> of them opens it.
\<close>
theorem opens_exactly_at_threshold:
  assumes "counted_failures cs" and "int (length cs) + 1 \<le> threshold" and "counts_as_failure e"
  shows "cb_state (cb_run (new_breaker threshold timeout) cs) = CB_CLOSED \<and>
    (cb_state (snd (cb_call t1 t2 (Raised e) (cb_run (new_breaker threshold timeout) cs))) = CB_OPEN
       \<longleftrightarrow> int (length cs) + 1 = threshold)"
proof -
  let ?b = "cb_run (new_breaker threshold timeout) cs"
  have b: "cb_state ?b = CB_CLOSED" "consecutive_failures ?b = int (length cs)"
    "fail_threshold ?b = threshold"
    using cb_run_counts [of "new_breaker threshold timeout" cs] assms(1,2)
    by (simp_all add: new_breaker_def)
  with assms(2,3) show ?thesis
    by (auto simp: cb_call_closed guard_exit_counted on_failure_def Let_def)
qed

theorem opens_exactly_at_threshold_witness:
  "cb_state (snd (cb_call 3 4 (Raised \<lparr>exc_counted = True, exc_is_exception = True, exc_status_code = None\<rparr>)
     (cb_run (new_breaker 2 30)
        [(1, 2, Raised \<lparr>exc_counted = True, exc_is_exception = True, exc_status_code = None\<rparr>)]))) = CB_OPEN"
  using opens_exactly_at_threshold
    [of "[(1, 2, Raised \<lparr>exc_counted = True, exc_is_exception = True, exc_status_code = None\<rparr>)]" 2
        "\<lparr>exc_counted = True, exc_is_exception = True, exc_status_code = None\<rparr>" 30 3 4]
  by (simp add: counted_failures_def counts_as_failure_def)

text \<open>
  In the half-open state the guard does not limit the trials: once the timeout has
  passed, any number of concurrent calls is admitted before the first of them finishes.
\<close>
theorem half_open_admits_any_number:
  assumes "cb_state (brk s) = CB_OPEN"
    and "reset_timeout_sec (brk s) \<le> now - opened_at (brk s)"
  shows "cb_step\<^sup>*\<^sup>* s (s\<lparr>brk := (brk s)\<lparr>cb_state := CB_HALF_OPEN\<rparr>, in_flight := in_flight s + Suc n\<rparr>)"
proof (induction n)
  case 0
  have "guard_enter now (brk s) = (True, (brk s)\<lparr>cb_state := CB_HALF_OPEN\<rparr>)"
    using assms by (simp add: guard_enter_def maybe_transition_to_half_open_def remaining_reset_sec_def)
  from cb_admit [OF this] show ?case by simp
next
  case (Suc n)
  let ?u = "s\<lparr>brk := (brk s)\<lparr>cb_state := CB_HALF_OPEN\<rparr>, in_flight := in_flight s + Suc n\<rparr>"
  have "guard_enter now (brk ?u) = (True, brk ?u)"
    by (simp add: guard_enter_def maybe_transition_to_half_open_def)
  from cb_admit [OF this] have "cb_step ?u (?u\<lparr>in_flight := in_flight s + Suc (Suc n)\<rparr>)" by simp
  with Suc show ?case by simp
qed

theorem half_open_admits_any_number_witness:
  "cb_step\<^sup>*\<^sup>* \<lparr>brk = (new_breaker 5 30)\<lparr>cb_state := CB_OPEN, opened_at := 10\<rparr>, in_flight = 0\<rparr>
     \<lparr>brk = (new_breaker 5 30)\<lparr>cb_state := CB_HALF_OPEN, opened_at := 10\<rparr>, in_flight = 7\<rparr>"
  using half_open_admits_any_number
    [of "\<lparr>brk = (new_breaker 5 30)\<lparr>cb_state := CB_OPEN, opened_at := 10\<rparr>, in_flight = 0\<rparr>" 40 6]
  by (simp add: new_breaker_def)

end
