(* ===== verification/Enums.thy ===== *)
theory Enums imports Prelude begin

text \<open>
  The enumerations of \<open>src/src/models/enums.py\<close>, one constructor per member.  Members whose
  names occur in several classes carry a prefix (\<open>QS_\<close> QueryStatus, \<open>Hyp_\<close>
  HypothesisStatus, \<open>Step_\<close> StepStatus, \<open>Sel_\<close> SelectionStatus, \<open>Fin_\<close> FinalStatus,
  \<open>Vis_\<close> VisualizationType, \<open>CL_\<close> ConfidenceLevel).  A \<open>_value\<close> function is the member's
  \<open>.value\<close>, where the program prints or compares it.
\<close>

datatype history_decision = HD_CONTINUE | HD_NEW | HD_UNSURE | HD_SKIP

datatype intent_type =
    DATA_EXTRACTION | DATA_ANALYSIS | CLARIFICATION_NEEDED | GENERAL_QUESTION
  | CASUAL_TALK | META_QUESTION | UNKNOWN

datatype query_status =
    QS_PENDING | QS_PREPROCESSING | QS_INTENT_CLASSIFIED | QS_QUERY_NORMALIZED
  | QS_AWAITING_CLARIFICATION | QS_CONTINUE_ORCHESTRATION_PENDING | QS_CONTEXT_COLLECTED
  | QS_SQL_GENERATED | QS_SQL_VALIDATED | QS_SQL_RETRY | QS_EXECUTED | QS_ANALYZED
  | QS_FORMATTED | QS_COMPLETED | QS_CANCELLED | QS_ERROR

datatype continue_route = REDISPLAY | ANALYZE | REGENERATE | REFINE

datatype visualization_type =
    Vis_NONE | Vis_TABLE_ONLY | Vis_INFO_CARD | Vis_BAR_CHART | Vis_HORIZONTAL_BAR
  | Vis_GROUPED_BAR | Vis_STACKED_BAR | Vis_LINE_CHART | Vis_PIE_CHART | Vis_DONUT_CHART
  | Vis_SCATTER_PLOT | Vis_WATERFALL_CHART | Vis_HEATMAP | Vis_FLOWCHART | Vis_TIMELINE
  | Vis_MIND_MAP | Vis_ORG_CHART | Vis_PROCESS_DIAGRAM | Vis_VENN_DIAGRAM
  | Vis_MATRIX_CHART | Vis_VALUE_CHAIN

datatype confidence_level = CL_HIGH | CL_MEDIUM | CL_LOW

datatype confidence_status = UNRESOLVED | CANDIDATE | PROBABLE | CONFIRMED | CONFLICTED

datatype failure_type =
    NO_KNOWLEDGE | NO_TABLE | TERM_UNRESOLVABLE | SQL_SYNTAX | SQL_SEMANTIC_LOCAL
  | SQL_STRUCTURAL | EMPTY_RESULT | DB_ERROR | GENERATION_FAILED

datatype phase = PLANNING | EXPLORING | GENERATING | VALIDATING | REPLANNING | DONE

datatype hypothesis_status = Hyp_PENDING | Hyp_ACTIVE | Hyp_SUCCESS | Hyp_FAILED

datatype step_status = Step_PENDING | Step_DONE | Step_SKIPPED | Step_FAILED

datatype selection_status = Sel_PENDING | SELECTED | REJECTED | REFERENCE

datatype final_status =
    Fin_PENDING | Fin_SUCCESS | Fin_CANCELLED | Fin_FAILURE | Fin_AWAITING_CLARIFICATION

datatype target_db_status = FORCED | SINGLE | AMBIGUOUS | NO_SELECTION

fun confidence_status_value :: "confidence_status \<Rightarrow> string" where
  "confidence_status_value UNRESOLVED = ''UNRESOLVED''"
| "confidence_status_value CANDIDATE = ''CANDIDATE''"
| "confidence_status_value PROBABLE = ''PROBABLE''"
| "confidence_status_value CONFIRMED = ''CONFIRMED''"
| "confidence_status_value CONFLICTED = ''CONFLICTED''"

fun failure_type_value :: "failure_type \<Rightarrow> string" where
  "failure_type_value NO_KNOWLEDGE = ''NO_KNOWLEDGE''"
| "failure_type_value NO_TABLE = ''NO_TABLE''"
| "failure_type_value TERM_UNRESOLVABLE = ''TERM_UNRESOLVABLE''"
| "failure_type_value SQL_SYNTAX = ''SQL_SYNTAX''"
| "failure_type_value SQL_SEMANTIC_LOCAL = ''SQL_SEMANTIC_LOCAL''"
| "failure_type_value SQL_STRUCTURAL = ''SQL_STRUCTURAL''"
| "failure_type_value EMPTY_RESULT = ''EMPTY_RESULT''"
| "failure_type_value DB_ERROR = ''DB_ERROR''"
| "failure_type_value GENERATION_FAILED = ''GENERATION_FAILED''"

fun selection_status_value :: "selection_status \<Rightarrow> string" where
  "selection_status_value Sel_PENDING = ''PENDING''"
| "selection_status_value SELECTED = ''SELECTED''"
| "selection_status_value REJECTED = ''REJECTED''"
| "selection_status_value REFERENCE = ''REFERENCE''"

fun continue_route_value :: "continue_route \<Rightarrow> string" where
  "continue_route_value REDISPLAY = ''redisplay''"
| "continue_route_value ANALYZE = ''analyze''"
| "continue_route_value REGENERATE = ''regenerate''"
| "continue_route_value REFINE = ''refine''"

section \<open>JSON values\<close>

text \<open>
  The values of untyped fields (\<open>Any\<close>, tool results, \<open>json.loads\<close> output).  An object is
  its key/value list in insertion order.
\<close>

datatype json =
    JNull
  | JBool bool
  | JNum rat
  | JStr string
  | JList "json list"
  | JObj "(string \<times> json) list"

text \<open>Python truth value of such a value.\<close>

fun json_true :: "json \<Rightarrow> bool" where
  "json_true JNull = False"
| "json_true (JBool b) = b"
| "json_true (JNum q) = (q \<noteq> 0)"
| "json_true (JStr s) = (s \<noteq> [])"
| "json_true (JList xs) = (xs \<noteq> [])"
| "json_true (JObj kvs) = (kvs \<noteq> [])"

text \<open>
  \<open>v.get(k, d)\<close>: an attribute error unless \<open>v\<close> is a dict.
\<close>

fun json_get :: "json \<Rightarrow> string \<Rightarrow> json \<Rightarrow> json result" where
  "json_get (JObj kvs) k d = Inr (case map_of kvs k of None \<Rightarrow> d | Some v \<Rightarrow> v)"
| "json_get _ k d = Inl AttributeError"

fun as_str :: "json \<Rightarrow> string option" where
  "as_str (JStr s) = Some s"
| "as_str _ = None"

text \<open>\<open>str(v)\<close>; \<open>show_json\<close> is Python's text of a value that is no string.\<close>

definition py_str :: "(json \<Rightarrow> string) \<Rightarrow> json \<Rightarrow> string" where
  "py_str show_json v = (case v of JStr t \<Rightarrow> t | _ \<Rightarrow> show_json v)"

end
