(* ===== verification/ReasonState.thy ===== *)
theory ReasonState imports Enums begin

text \<open>
  The state model: \<open>src/src/agents/state/state.py\<close>, the slots of a normalised query
  (\<open>agents/models/normalization.py\<close>), the clarification signal
  (\<open>agents/models/clarification.py\<close>), the turn snapshot (\<open>agents/models/snapshot.py\<close>), the
  result and trace models (\<open>models/result.py\<close>, \<open>models/trace.py\<close>) and the settings the
  modelled code reads (\<open>config.py\<close>).  A pydantic class is a record; field names carry a
  prefix for the class where several classes share them.  Python floats are rationals.
\<close>

section \<open>Settings\<close>

record settings =
  MAX_TOOL_CALLS :: int
  MAX_REPLANS :: int
  MAX_GENERATES :: int
  MAX_LOCAL_FIXES :: int
  MAX_ASK_USER_ROUNDS :: int
  force_generate_after_replans :: int
  target_db_code :: string
  target_db_schema_map :: "(string \<times> string) list"
  system_db_overrides :: "(string \<times> string) list"
  normalization_enabled :: bool
  validate_layer2b_enabled :: bool
  pii_masking_enabled :: bool
  max_query_rows :: int
  clarification_max_turns :: int

definition default_settings :: settings where
  "default_settings =
     \<lparr>MAX_TOOL_CALLS = 40, MAX_REPLANS = 10, MAX_GENERATES = 0, MAX_LOCAL_FIXES = 5,
      MAX_ASK_USER_ROUNDS = 2, force_generate_after_replans = 5,
      target_db_code = ''ADW'', target_db_schema_map = [(''ADW'', ''ADWOWN'')],
      system_db_overrides = [], normalization_enabled = True,
      validate_layer2b_enabled = True, pii_masking_enabled = True, max_query_rows = 10000,
      clarification_max_turns = 3\<rparr>"

definition resolve_system_connector :: "settings \<Rightarrow> string \<Rightarrow> string" where
  "resolve_system_connector cfg code =
     (case map_of (system_db_overrides cfg) code of None \<Rightarrow> code | Some c \<Rightarrow> c)"

definition target_schema :: "settings \<Rightarrow> string" where
  "target_schema cfg =
     (case map_of (target_db_schema_map cfg) (target_db_code cfg) of None \<Rightarrow> [] | Some s \<Rightarrow> s)"

text \<open>\<open>_validate_target_db_code\<close>: the start-up check of the settings, with its normalisation.\<close>

definition validate_settings :: "settings \<Rightarrow> settings result" where
  "validate_settings cfg =
     (let known_systems = map fst (target_db_schema_map cfg);
          known_connectors = ''TEST'' # known_systems;
          normalized = py_upper (py_strip (target_db_code cfg))
      in if target_db_code cfg \<noteq> [] \<and> normalized \<notin> set known_systems then Inl ValueError
         else
           let cfg1 = (if target_db_code cfg \<noteq> [] then cfg\<lparr>target_db_code := normalized\<rparr> else cfg)
           in if list_all (\<lambda>(sys, conn). sys \<in> set known_systems \<and> conn \<in> set known_connectors)
                  (system_db_overrides cfg)
              then Inr cfg1 else Inl ValueError)"

section \<open>Normalised query slots\<close>

record intent_slot =
  is_primary :: string
  is_secondary :: "string list"

record entity_slot =
  es_term :: string
  es_type :: string
  es_confidence :: string
  es_normalized_term :: "string option"
  es_note :: "string option"

record measure_slot =
  ms_term :: string
  ms_measure_type :: string
  ms_agg_function :: string
  ms_confidence :: string
  ms_normalized_term :: "string option"
  ms_note :: "string option"

record dimension_slot =
  ds_term :: string
  ds_role :: string
  ds_granularity :: string
  ds_confidence :: string
  ds_normalized_term :: "string option"
  ds_is_time_dimension :: bool
  ds_note :: "string option"

record filter_slot =
  fs_target :: string
  fs_filter_type :: string
  fs_position :: string
  fs_confidence :: string
  fs_values :: "string list option"
  fs_note :: "string option"

record time_period =
  tp_label :: string
  tp_resolve :: string
  tp_n :: "int option"
  tp_absolute_start :: "string option"
  tp_absolute_end :: "string option"

record time_slot =
  tsl_type :: string
  tsl_base_period :: "time_period option"
  tsl_compare_period :: "time_period option"

record modifier_slot =
  md_type :: string
  md_direction :: "string option"
  md_limit :: "int option"
  md_by :: "string option"
  md_note :: "string option"

record output_hint_slot =
  oh_format :: string
  oh_doc_type :: "string option"
  oh_expected_columns :: "string list"
  oh_confidence :: string
  oh_note :: "string option"

record search_keywords =
  sk_meta_search :: "string list"
  sk_vector_search :: string
  sk_sql_history_search :: string

record normalized_query =
  nq_original_query :: string
  nq_rewritten_query :: string
  nq_intent :: intent_slot
  nq_entities :: "entity_slot list"
  nq_measures :: "measure_slot list"
  nq_dimensions :: "dimension_slot list"
  nq_filters :: "filter_slot list"
  nq_time :: time_slot
  nq_modifiers :: "modifier_slot list"
  nq_output_hint :: output_hint_slot
  nq_ambiguities :: "json list"
  nq_search_keywords :: search_keywords

section \<open>Clarification signal\<close>

datatype ambiguity_type = AT_TABLE | AT_INTENT | AT_VALUE | AT_FORMULA | AT_TIMEFRAME | AT_CONTEXT | AT_CONFLICT

datatype question_type = FREE_TEXT | SINGLE_SELECT | CONFIRM

datatype signal_decision = ASK | INFER

record ambiguity_signal =
  sg_source_node :: string
  sg_ambiguity_type :: ambiguity_type
  sg_decision :: signal_decision
  sg_confidence :: confidence_level
  sg_question :: string
  sg_question_type :: question_type
  sg_options :: "string list"
  sg_inferred_value :: "string option"
  sg_reasoning :: string
  sg_override_reason :: "string option"
  sg_answer :: "string option"
  sg_resolved_at :: "nat option"
  sg_turn_id :: "string option"

definition is_resolved :: "ambiguity_signal \<Rightarrow> bool" where
  "is_resolved s \<longleftrightarrow> sg_decision s = INFER \<or> sg_answer s \<noteq> None"

definition display_value :: "ambiguity_signal \<Rightarrow> string" where
  "display_value s =
     (if sg_decision s = INFER
      then (case sg_inferred_value s of None \<Rightarrow> [] | Some v \<Rightarrow> v)
      else (case sg_answer s of None \<Rightarrow> [] | Some v \<Rightarrow> v))"

section \<open>Reasoning sub-types\<close>

record knowledge_item =
  ki_id :: string
  ki_key :: string
  ki_value :: string
  ki_confidence :: rat
  ki_status :: confidence_status
  ki_source :: string
  ki_evidence :: "string list"
  ki_is_critical :: bool

definition new_knowledge_item :: "string \<Rightarrow> confidence_status \<Rightarrow> knowledge_item" where
  "new_knowledge_item key st =
     \<lparr>ki_id = [], ki_key = key, ki_value = [], ki_confidence = 0, ki_status = st,
      ki_source = [], ki_evidence = [], ki_is_critical = True\<rparr>"

definition promote :: "confidence_status \<Rightarrow> string \<Rightarrow> rat \<Rightarrow> string \<Rightarrow> string \<Rightarrow> knowledge_item \<Rightarrow> knowledge_item" where
  "promote new_status value confidence source evidence ki =
     ki\<lparr>ki_status := new_status, ki_value := value, ki_confidence := confidence,
        ki_source := source, ki_evidence := ki_evidence ki @ [evidence]\<rparr>"

record hypothesis =
  hyp_id :: string
  hyp_description :: string
  hyp_based_on_use_case :: "string option"
  hyp_missing_terms :: "string list"
  hyp_priority :: rat
  hyp_strategy :: string
  hyp_status :: hypothesis_status
  hyp_readiness_score :: "rat option"
  hyp_readiness_verdict :: string

record execution_step =
  es_step :: int
  es_tool :: string
  es_input :: string
  es_purpose :: string
  es_status :: step_status
  es_insight :: "string option"
  es_raw_result :: "json option"
  es_hypothesis_id :: string

datatype key_date_source = PK_RULE | ALT_NAME_RULE | LLM_FALLBACK

record key_date_column =
  kd_column_name :: string
  kd_suffix :: string
  kd_source :: key_date_source

record observed_date_column =
  od_column_name :: string
  od_date_range :: string
  od_date_pattern :: string
  od_recent_values :: "string list"

record column_info =
  col_name :: string
  col_alt_name :: string
  col_description :: string
  col_type :: string
  col_is_pk :: bool
  col_total_rows :: "int option"
  col_non_null_count :: "int option"
  col_null_count :: "int option"
  col_null_rate :: "rat option"
  col_distinct_count :: "int option"
  col_min_val :: "string option"
  col_max_val :: "string option"
  col_discovered_values :: "string list option"

record biz_manual_entry =
  bm_id :: string
  bm_content :: string
  bm_score :: rat
  bm_source :: string
  bm_point_id :: string
  bm_source_step :: int
  bm_hypothesis_id :: string
  bm_selection_status :: selection_status
  bm_selection_reason :: string

record biz_term_entry =
  bt_id :: string
  bt_term :: string
  bt_definition :: string
  bt_synonyms :: "string list"
  bt_related_tables :: "string list"
  bt_source :: string
  bt_source_step :: int
  bt_hypothesis_id :: string
  bt_selection_status :: selection_status
  bt_selection_reason :: string

record use_case_entry =
  uc_id :: string
  uc_description :: string
  uc_sql :: string
  uc_domain :: string
  uc_score :: rat
  uc_point_id :: string
  uc_source_step :: int
  uc_hypothesis_id :: string
  uc_relevant :: bool
  uc_eval_reason :: string
  uc_enrichment_tables :: "json list"
  uc_enrichment_codes :: "(string \<times> json) list"

record table_meta =
  tm_table_name :: string
  tm_alt_name :: string
  tm_description :: string
  tm_schema_name :: string
  tm_db_source :: string
  tm_subject_area :: string
  tm_source_step :: int
  tm_hypothesis_id :: string
  tm_columns :: "column_info list"
  tm_key_date_columns :: "key_date_column list"
  tm_observed_date_columns :: "observed_date_column list"
  tm_sample_rows :: "(string \<times> json) list list option"
  tm_inference_confidence :: rat
  tm_selection_status :: selection_status
  tm_selection_reason :: string

text \<open>\<open>ConnectorManager.parse_db_source\<close> (\<open>src/src/connectors/manager.py\<close>).\<close>

definition parse_db_source :: "settings \<Rightarrow> string \<Rightarrow> string" where
  "parse_db_source cfg table_name =
     (let name = last (split_char CHR ''.'' (py_upper table_name));
          parts = split_char CHR ''_'' name
      in if length parts \<ge> 3 \<and> parts ! 0 = ''TB'' \<and>
            parts ! 1 \<in> set (map fst (target_db_schema_map cfg))
         then parts ! 1 else [])"

text \<open>A pydantic \<open>str\<close> field accepts a string only.\<close>

definition str_field :: "json \<Rightarrow> string result" where
  "str_field v = (case v of JStr s \<Rightarrow> Inr s | _ \<Rightarrow> Inl ValueError)"

text \<open>The value \<open>d.get(k, default)\<close> of a dictionary known to be one.\<close>

definition obj_get :: "(string \<times> json) list \<Rightarrow> string \<Rightarrow> json \<Rightarrow> json" where
  "obj_get kvs k d = (case map_of kvs k of None \<Rightarrow> d | Some v \<Rightarrow> v)"

definition new_column_info ::
  "string \<Rightarrow> string \<Rightarrow> string \<Rightarrow> string \<Rightarrow> bool \<Rightarrow> column_info" where
  "new_column_info name alt desc ty pk =
     \<lparr>col_name = name, col_alt_name = alt, col_description = desc, col_type = ty, col_is_pk = pk,
      col_total_rows = None, col_non_null_count = None, col_null_count = None,
      col_null_rate = None, col_distinct_count = None, col_min_val = None, col_max_val = None,
      col_discovered_values = None\<rparr>"

definition column_from_meta :: "(string \<times> json) list \<Rightarrow> column_info result" where
  "column_from_meta c =
     result_bind (str_field (obj_get c ''name'' JNull)) (\<lambda>name.
     result_bind (str_field (obj_get c ''alt_name'' (JStr []))) (\<lambda>alt.
     result_bind (str_field (obj_get c ''description'' (JStr []))) (\<lambda>desc.
     result_bind (str_field (obj_get c ''type'' (JStr []))) (\<lambda>ty.
       Inr (new_column_info name alt desc ty (json_true (obj_get c ''is_pk'' JNull)))))))"

fun columns_from_meta :: "json list \<Rightarrow> column_info list result" where
  "columns_from_meta [] = Inr []"
| "columns_from_meta (JObj c # cs) =
     (if json_true (obj_get c ''name'' JNull)
      then result_bind (column_from_meta c) (\<lambda>ci.
           result_bind (columns_from_meta cs) (\<lambda>cis. Inr (ci # cis)))
      else columns_from_meta cs)"
| "columns_from_meta (_ # cs) = columns_from_meta cs"

definition py_or :: "json \<Rightarrow> json \<Rightarrow> json" where
  "py_or a b = (if json_true a then a else b)"

text \<open>
  \<open>TableMeta.from_meta\<close>: \<open>Inr None\<close> when the table has no name.  Columns are read first,
  then the table name is parsed (an attribute error on a name that is no string), then
  pydantic checks the remaining fields.
\<close>

fun from_meta :: "settings \<Rightarrow> json \<Rightarrow> table_meta option result" where
  "from_meta cfg (JObj meta) =
     (let table_name = py_or (obj_get meta ''name'' (JStr [])) (obj_get meta ''table_name'' (JStr []))
      in if \<not> json_true table_name then Inr None
         else
           result_bind
             (case obj_get meta ''columns'' (JList []) of
                JList cs \<Rightarrow> columns_from_meta cs | _ \<Rightarrow> Inr []) (\<lambda>cols.
           (case table_name of
              JStr tn \<Rightarrow>
                result_bind (str_field (obj_get meta ''alt_name'' (JStr []))) (\<lambda>alt.
                result_bind (str_field (py_or (obj_get meta ''description'' JNull)
                                              (obj_get meta ''table_description'' (JStr [])))) (\<lambda>desc.
                result_bind (str_field (obj_get meta ''schema_name'' (JStr []))) (\<lambda>schema.
                result_bind (str_field (obj_get meta ''subject_area'' (JStr []))) (\<lambda>area.
                  Inr (Some \<lparr>tm_table_name = tn, tm_alt_name = alt, tm_description = desc,
                             tm_schema_name = schema, tm_db_source = parse_db_source cfg tn,
                             tm_subject_area = area, tm_source_step = 0, tm_hypothesis_id = [],
                             tm_columns = cols, tm_key_date_columns = [],
                             tm_observed_date_columns = [], tm_sample_rows = None,
                             tm_inference_confidence = 0, tm_selection_status = Sel_PENDING,
                             tm_selection_reason = []\<rparr>)))))
            | _ \<Rightarrow> Inl AttributeError)))"
| "from_meta cfg _ = Inl AttributeError"

definition qualified_name :: "table_meta \<Rightarrow> string" where
  "qualified_name t =
     (if tm_schema_name t \<noteq> [] then tm_schema_name t @ ''.'' @ tm_table_name t
      else tm_table_name t)"

record code_meta =
  cm_column_name :: string
  cm_column_desc :: string
  cm_codes :: "(string \<times> string) list"

record dead_end =
  de_hypothesis_id :: string
  de_failure_type :: failure_type
  de_reason :: string
  de_lessons_learned :: string
  de_related_knowledge_ids :: "string list"

record target_db_decision =
  td_status :: target_db_status
  td_target :: string
  td_chosen_tables :: "string list"
  td_dropped_tables :: "(string \<times> string) list"
  td_decision_rationale :: string

section \<open>Loop guard\<close>

record loop_guard =
  total_tool_calls :: int
  replan_count :: int
  generate_attempts :: int
  local_fix_count :: int
  ask_user_count :: int

definition new_loop_guard :: loop_guard where
  "new_loop_guard = \<lparr>total_tool_calls = 0, replan_count = 0, generate_attempts = 0,
     local_fix_count = 0, ask_user_count = 0\<rparr>"

definition increment_tool_calls :: "loop_guard \<Rightarrow> loop_guard" where
  "increment_tool_calls g = g\<lparr>total_tool_calls := total_tool_calls g + 1\<rparr>"

definition increment_replan :: "loop_guard \<Rightarrow> loop_guard" where
  "increment_replan g = g\<lparr>replan_count := replan_count g + 1\<rparr>"

definition increment_generate :: "loop_guard \<Rightarrow> loop_guard" where
  "increment_generate g = g\<lparr>generate_attempts := generate_attempts g + 1\<rparr>"

definition increment_local_fix :: "loop_guard \<Rightarrow> loop_guard" where
  "increment_local_fix g = g\<lparr>local_fix_count := local_fix_count g + 1\<rparr>"

definition increment_ask_user :: "loop_guard \<Rightarrow> loop_guard" where
  "increment_ask_user g = g\<lparr>ask_user_count := ask_user_count g + 1\<rparr>"

definition should_escalate_to_structural :: "settings \<Rightarrow> loop_guard \<Rightarrow> bool" where
  "should_escalate_to_structural cfg g \<longleftrightarrow> local_fix_count g \<ge> MAX_LOCAL_FIXES cfg"

section \<open>Structural hints\<close>

record structural_hints =
  join_patterns :: "string list"
  code_columns :: "(string \<times> string list) list"
  agg_expressions :: "string list"
  date_filters :: "(string \<times> string) list list"
  source_tables :: "string list"
  select_columns :: "string list"
  group_by_columns :: "string list"
  order_by_columns :: "string list"
  limit_value :: "int option"
  has_distinct :: bool
  has_subquery :: bool
  has_having :: bool

definition hints_is_empty :: "structural_hints \<Rightarrow> bool" where
  "hints_is_empty h \<longleftrightarrow>
     \<not> (join_patterns h \<noteq> [] \<or> code_columns h \<noteq> [] \<or> agg_expressions h \<noteq> [] \<or>
        date_filters h \<noteq> [] \<or> source_tables h \<noteq> [])"

text \<open>\<open>repr\<close> of a string, for strings without quotes or control characters.\<close>

definition py_repr :: "string \<Rightarrow> string" where
  "py_repr s = [char_of (39 :: nat)] @ s @ [char_of (39 :: nat)]"

definition hints_to_prompt_text :: "structural_hints \<Rightarrow> string" where
  "hints_to_prompt_text h =
     py_join [char_of (10 :: nat)]
       ((if source_tables h \<noteq> [] then [''Use-case tables: '' @ py_join '', '' (source_tables h)] else []) @
        (if join_patterns h \<noteq> [] then [''Verified join patterns: '' @ py_join ''; '' (join_patterns h)] else []) @
        (if code_columns h \<noteq> []
         then [''Code values used before: '' @
               py_join ''; '' (map (\<lambda>(col, vals). col @ '' IN ('' @ py_join '', '' (map py_repr vals) @ '')'')
                                 (code_columns h))] else []) @
        (if agg_expressions h \<noteq> [] then [''Aggregations of similar queries: '' @ py_join '', '' (agg_expressions h)] else []) @
        (if select_columns h \<noteq> [] then [''Output columns of similar queries: '' @ py_join '', '' (select_columns h)] else []) @
        (if group_by_columns h \<noteq> [] then [''GROUP BY of similar queries: '' @ py_join '', '' (group_by_columns h)] else []) @
        (if date_filters h \<noteq> []
         then [''Date conditions: '' @
               py_join '', '' (map (\<lambda>df. (case map_of df ''column'' of None \<Rightarrow> ''?'' | Some c \<Rightarrow> c) @ '' ('' @
                                      (case map_of df ''format'' of None \<Rightarrow> ''?'' | Some f \<Rightarrow> f) @ '' format)'')
                                 (date_filters h))] else []))"

section \<open>Reasoning state\<close>

text \<open>
  \<open>query_decomposition\<close>, the dict \<open>reasoning_preparer\<close> builds; the empty dict and the dict of
  empty lists are read alike by every \<open>.get\<close> of the program.
\<close>

record decomposition =
  dc_measures :: "(string \<times> string) list"
  dc_filters :: "(string \<times> string \<times> string list option) list"
  dc_group_by :: "string list"
  dc_order_limit :: "(string \<times> string) list"
  dc_required_concepts :: "string list"
  dc_output_format :: string
  dc_doc_type :: "string option"
  dc_expected_columns :: "string list"

definition empty_decomposition :: decomposition where
  "empty_decomposition = \<lparr>dc_measures = [], dc_filters = [], dc_group_by = [],
     dc_order_limit = [], dc_required_concepts = [], dc_output_format = [], dc_doc_type = None, dc_expected_columns = []\<rparr>"

datatype exploration_phase = EP_INITIAL | EP_RECOVERY

datatype entry_source = ES_READINESS_GATE | ES_SQL_VALIDATOR | ES_SQL_GENERATOR

record reasoning_state =
  phase :: phase
  query_decomposition :: decomposition
  hypotheses :: "hypothesis list"
  current_hypothesis :: "hypothesis option"
  execution_plan :: "execution_step list"
  knowledge_items :: "knowledge_item list"
  explored_use_cases :: "use_case_entry list"
  explored_tables :: "table_meta list"
  explored_biz_manuals :: "biz_manual_entry list"
  explored_biz_terms :: "biz_term_entry list"
  explored_codes :: "(string \<times> code_meta) list"
  executed_tool_keys :: "string set"
  discovered_facts :: "string list"
  dead_ends :: "dead_end list"
  target_db :: string
  target_db_decision :: "target_db_decision option"
  generated_sql :: "string option"
  validated_sql :: "string option"
  sql_explanation :: string
  previous_turn_sql :: string
  previous_turn_sql_explanation :: string
  pending_assumptions :: "string list"
  validation_checks :: "(string \<times> json) list"
  validation_summary :: string
  confidence_score :: rat
  failure_type :: "failure_type option"
  failure_reason :: "string option"
  fix_history :: "string list"
  loop_guard :: loop_guard
  exploration_phase :: exploration_phase
  recovery_rounds :: int
  recovery_entry_source :: "entry_source option"
  is_force_generated :: bool
  final_status :: final_status
  exploration_summary :: string

definition new_reasoning_state :: reasoning_state where
  "new_reasoning_state =
     \<lparr>phase = PLANNING, query_decomposition = empty_decomposition, hypotheses = [],
      current_hypothesis = None, execution_plan = [], knowledge_items = [],
      explored_use_cases = [], explored_tables = [], explored_biz_manuals = [],
      explored_biz_terms = [], explored_codes = [], executed_tool_keys = {},
      discovered_facts = [], dead_ends = [], target_db = [], target_db_decision = None,
      generated_sql = None, validated_sql = None, sql_explanation = [],
      previous_turn_sql = [], previous_turn_sql_explanation = [], pending_assumptions = [],
      validation_checks = [], validation_summary = [], confidence_score = 0,
      failure_type = None, failure_reason = None, fix_history = [],
      loop_guard = new_loop_guard, exploration_phase = EP_INITIAL, recovery_rounds = 0,
      recovery_entry_source = None, is_force_generated = False, final_status = Fin_PENDING,
      exploration_summary = []\<rparr>"

definition is_confirmed :: "knowledge_item \<Rightarrow> bool" where
  "is_confirmed ki \<longleftrightarrow> ki_status ki = CONFIRMED \<or> ki_status ki = PROBABLE"

definition get_confirmed_knowledge :: "reasoning_state \<Rightarrow> knowledge_item list" where
  "get_confirmed_knowledge r = filter is_confirmed (knowledge_items r)"

definition newline :: string where
  "newline = [char_of (10 :: nat)]"

definition format_confirmed_text :: "reasoning_state \<Rightarrow> string" where
  "format_confirmed_text r =
     (let items = get_confirmed_knowledge r
      in if items = [] then ''(no usable knowledge item)''
         else py_join newline
           (map (\<lambda>ki. ''- ('' @ ki_id ki @ '') '' @ ki_key ki @ '': '' @ ki_value ki @ '' ('' @
                      ki_source ki @ '') -- '' @
                      (if ki_status ki = CONFIRMED then ''confirmed'' else ''presumed'')) items))"

definition format_dead_ends_text :: "reasoning_state \<Rightarrow> string" where
  "format_dead_ends_text r =
     (if dead_ends r = [] then ''(none)''
      else py_join newline
        (map (\<lambda>de. ''- `'' @ failure_type_value (de_failure_type de) @ ''` '' @ de_reason de @
                   (if de_lessons_learned de \<noteq> []
                    then newline @ ''  Lesson: '' @ de_lessons_learned de else []))
             (dead_ends r)))"

definition get_unresolved_knowledge :: "reasoning_state \<Rightarrow> knowledge_item list" where
  "get_unresolved_knowledge r = filter (\<lambda>ki. ki_status ki = UNRESOLVED) (knowledge_items r)"

definition get_pending_hypotheses :: "reasoning_state \<Rightarrow> hypothesis list" where
  "get_pending_hypotheses r = filter (\<lambda>h. hyp_status h = Hyp_PENDING) (hypotheses r)"

definition should_terminate :: "settings \<Rightarrow> reasoning_state \<Rightarrow> bool" where
  "should_terminate cfg r \<longleftrightarrow>
     (let g = loop_guard r; pending = get_pending_hypotheses r
      in total_tool_calls g \<ge> MAX_TOOL_CALLS cfg \<or>
         replan_count g \<ge> MAX_REPLANS cfg \<or>
         (MAX_GENERATES cfg > 0 \<and> generate_attempts g \<ge> MAX_GENERATES cfg) \<or>
         final_status r = Fin_FAILURE \<or>
         (length pending = 0 \<and> current_hypothesis r = None))"

end
