(* ===== verification/TargetDb.thy ===== *)
theory TargetDb imports ReasonState begin

text \<open>
  The choice of the database a query runs on (\<open>src/src/services/target_db_resolver.py\<close>): from
  the tables the interpreter has SELECTED and the operator's setting.
\<close>

definition selected_tables :: "reasoning_state \<Rightarrow> table_meta list" where
  "selected_tables r = filter (\<lambda>t. tm_selection_status t = SELECTED) (explored_tables r)"

text \<open>The loop that splits the selected tables into those of the forced system and the rest.\<close>

fun forced_split :: "string \<Rightarrow> table_meta list \<Rightarrow> string list \<Rightarrow> (string \<times> string) list \<Rightarrow>
    string list \<times> (string \<times> string) list" where
  "forced_split target [] chosen dropped = (chosen, dropped)"
| "forced_split target (ct # cts) chosen dropped =
     (if tm_selection_status ct \<noteq> SELECTED then forced_split target cts chosen dropped
      else if tm_db_source ct = target
        then forced_split target cts (chosen @ [tm_table_name ct]) dropped
      else forced_split target cts chosen
             (dropped @ [(tm_table_name ct, if tm_db_source ct \<noteq> [] then tm_db_source ct else ''unknown'')]))"

text \<open>The loop that groups the selected tables by the system they belong to.\<close>

fun group_sources :: "table_meta list \<Rightarrow> (string \<times> string list) list \<Rightarrow> (string \<times> string list) list" where
  "group_sources [] sources = sources"
| "group_sources (ct # cts) sources =
     (if tm_selection_status ct \<noteq> SELECTED then group_sources cts sources
      else if tm_db_source ct = [] then group_sources cts sources
      else group_sources cts (dict_append (tm_db_source ct) (tm_table_name ct) sources))"

definition resolve_target_db :: "settings \<Rightarrow> reasoning_state \<Rightarrow> target_db_decision" where
  "resolve_target_db cfg r =
     (if target_db_code cfg \<noteq> [] then
        let target_system = target_db_code cfg;
            (chosen, dropped) = forced_split target_system (explored_tables r) [] []
        in \<lparr>td_status = FORCED, td_target = target_system, td_chosen_tables = chosen,
            td_dropped_tables = dropped,
            td_decision_rationale = ''By operator setting only the system '' @ py_repr target_system @ '' is used.''\<rparr>
      else
        let sources = group_sources (explored_tables r) []
        in if sources = [] then
             \<lparr>td_status = NO_SELECTION, td_target = [], td_chosen_tables = [], td_dropped_tables = [],
              td_decision_rationale = ''No table is selected, the database cannot be decided.''\<rparr>
           else if length sources = 1 then
             let target = fst (hd sources)
             in \<lparr>td_status = SINGLE, td_target = target, td_chosen_tables = snd (hd sources),
                 td_dropped_tables = [],
                 td_decision_rationale = ''All selected tables belong to the system '' @ py_repr target @
                   '', the query runs on that DB.''\<rparr>
           else
             \<lparr>td_status = AMBIGUOUS, td_target = [], td_chosen_tables = [], td_dropped_tables = [],
              td_decision_rationale = ''A query over several systems ('' @ py_join '', '' (sort (map fst sources)) @
                '') is not supported. Please narrow it to one system.''\<rparr>)"

section \<open>Specification: the systems the selection spans\<close>

definition spanned_systems :: "reasoning_state \<Rightarrow> string set" where
  "spanned_systems r = set (filter (\<lambda>sys. sys \<noteq> []) (map tm_db_source (selected_tables r)))"

definition tables_of_system :: "string \<Rightarrow> table_meta list \<Rightarrow> string list" where
  "tables_of_system sys ts =
     map tm_table_name (filter (\<lambda>t. tm_selection_status t = SELECTED \<and> tm_db_source t = sys) ts)"

lemma forced_split_spec:
  "forced_split target ts chosen dropped =
     (chosen @ tables_of_system target ts,
      dropped @ map (\<lambda>t. (tm_table_name t, if tm_db_source t \<noteq> [] then tm_db_source t else ''unknown''))
        (filter (\<lambda>t. tm_selection_status t = SELECTED \<and> tm_db_source t \<noteq> target) ts))"
  by (induction target ts chosen dropped rule: forced_split.induct) (auto simp: tables_of_system_def)

lemma group_sources_map_of:
  "map_of (group_sources ts d) sys =
     (let new = (if sys = [] then [] else tables_of_system sys ts)
      in case map_of d sys of None \<Rightarrow> (if new = [] then None else Some new) | Some vs \<Rightarrow> Some (vs @ new))"
proof (induction ts d rule: group_sources.induct)
  case (2 ct cts d)
  then show ?case
    by (cases "map_of d sys")
       (auto simp: map_of_dict_append tables_of_system_def Let_def split: if_splits option.splits)
qed (simp add: tables_of_system_def Let_def split: option.splits)

lemma group_sources_keys:
  "fst ` set (group_sources ts d) =
     fst ` set d \<union> {tm_db_source t |t. t \<in> set ts \<and> tm_selection_status t = SELECTED \<and> tm_db_source t \<noteq> []}"
  by (induction ts d rule: group_sources.induct) (auto simp: fst_set_dict_append)

lemma distinct_dict_append: "distinct (map fst d) \<Longrightarrow> distinct (map fst (dict_append k v d))"
proof (induction d)
  case (Cons x d)
  then show ?case using fst_set_dict_append [of k v d] by (cases x) auto
qed simp

lemma group_sources_distinct:
  "distinct (map fst d) \<Longrightarrow> distinct (map fst (group_sources ts d))"
  by (induction ts d rule: group_sources.induct) (auto simp: distinct_dict_append)

lemma group_sources_systems: "set (map fst (group_sources (explored_tables r) [])) = spanned_systems r"
  using group_sources_keys [of "explored_tables r" "[]"]
  by (auto simp: spanned_systems_def selected_tables_def)

lemma length_group_sources: "length (group_sources (explored_tables r) []) = card (spanned_systems r)"
  using distinct_card [OF group_sources_distinct [of "[]" "explored_tables r"]]
  unfolding group_sources_systems by simp

lemma spanned_systems_finite [simp]: "finite (spanned_systems r)"
  by (simp add: spanned_systems_def)

lemma group_sources_Nil_iff: "group_sources (explored_tables r) [] = [] \<longleftrightarrow> spanned_systems r = {}"
  using length_group_sources [of r] by (metis card_eq_0_iff length_0_conv spanned_systems_finite)

lemma group_sources_single:
  assumes "spanned_systems r = {sys}"
  shows "group_sources (explored_tables r) [] = [(sys, tables_of_system sys (explored_tables r))]"
proof -
  let ?g = "group_sources (explored_tables r) []"
  have "length ?g = 1" using assms by (simp add: length_group_sources)
  then obtain k vs where g: "?g = [(k, vs)]"
    by (metis One_nat_def length_0_conv length_Suc_conv surj_pair)
  with group_sources_systems [of r] assms have k: "k = sys" by simp
  with assms have "sys \<noteq> []" by (auto simp: spanned_systems_def)
  with group_sources_map_of [of "explored_tables r" "[]" sys] g k
  have "vs = tables_of_system sys (explored_tables r)" by (auto simp: Let_def split: if_splits)
  with g k show ?thesis by simp
qed

section \<open>Properties\<close>

text \<open>
  C34: The decision depends only on the operator's code and on the set of systems the selected
  tables span: a code forces its system; no system gives NO_SELECTION; exactly one gives
  SINGLE with that system and, in order, the selected tables of it; two or more give AMBIGUOUS
  with no target, never a choice by priority.
\<close>
theorem resolve_target_db_spec:
  "(target_db_code cfg \<noteq> [] \<longrightarrow>
      td_status (resolve_target_db cfg r) = FORCED \<and>
      td_target (resolve_target_db cfg r) = target_db_code cfg \<and>
      td_chosen_tables (resolve_target_db cfg r) = tables_of_system (target_db_code cfg) (explored_tables r)) \<and>
   (target_db_code cfg = [] \<and> spanned_systems r = {} \<longrightarrow>
      td_status (resolve_target_db cfg r) = NO_SELECTION \<and> td_target (resolve_target_db cfg r) = []) \<and>
   (target_db_code cfg = [] \<and> spanned_systems r = {sys} \<longrightarrow>
      td_status (resolve_target_db cfg r) = SINGLE \<and> td_target (resolve_target_db cfg r) = sys \<and>
      td_chosen_tables (resolve_target_db cfg r) = tables_of_system sys (explored_tables r)) \<and>
   (target_db_code cfg = [] \<and> 1 < card (spanned_systems r) \<longrightarrow>
      td_status (resolve_target_db cfg r) = AMBIGUOUS \<and> td_target (resolve_target_db cfg r) = [] \<and>
      td_chosen_tables (resolve_target_db cfg r) = [])"
proof -
  note [simp] = resolve_target_db_def forced_split_spec Let_def
  have "group_sources (explored_tables r) [] \<noteq> []" if "1 < card (spanned_systems r)"
    using that by (auto simp: group_sources_Nil_iff)
  then show ?thesis
    using length_group_sources [of r] by (auto simp: group_sources_Nil_iff group_sources_single)
qed

definition sample_table :: "string \<Rightarrow> string \<Rightarrow> selection_status \<Rightarrow> table_meta" where
  "sample_table name src st =
     \<lparr>tm_table_name = name, tm_alt_name = [], tm_description = [], tm_schema_name = [],
      tm_db_source = src, tm_subject_area = [], tm_source_step = 0, tm_hypothesis_id = [],
      tm_columns = [], tm_key_date_columns = [], tm_observed_date_columns = [],
      tm_sample_rows = None, tm_inference_confidence = 0, tm_selection_status = st,
      tm_selection_reason = []\<rparr>"

theorem resolve_target_db_spec_witness:
  "td_status (resolve_target_db (default_settings\<lparr>target_db_code := []\<rparr>)
     (new_reasoning_state\<lparr>explored_tables :=
        [sample_table ''TB_ADW_1'' ''ADW'' SELECTED, sample_table ''TB_BDP_1'' ''BDP'' REJECTED,
         sample_table ''TB_ADW_2'' ''ADW'' SELECTED]\<rparr>)) = SINGLE \<and>
   td_chosen_tables (resolve_target_db (default_settings\<lparr>target_db_code := []\<rparr>)
     (new_reasoning_state\<lparr>explored_tables :=
        [sample_table ''TB_ADW_1'' ''ADW'' SELECTED, sample_table ''TB_BDP_1'' ''BDP'' REJECTED,
         sample_table ''TB_ADW_2'' ''ADW'' SELECTED]\<rparr>)) = [''TB_ADW_1'', ''TB_ADW_2'']"
proof -
  let ?r = "new_reasoning_state\<lparr>explored_tables :=
        [sample_table ''TB_ADW_1'' ''ADW'' SELECTED, sample_table ''TB_BDP_1'' ''BDP'' REJECTED,
         sample_table ''TB_ADW_2'' ''ADW'' SELECTED]\<rparr>"
  have "spanned_systems ?r = {''ADW''}"
    by (simp add: spanned_systems_def selected_tables_def sample_table_def)
  then show ?thesis
    using resolve_target_db_spec [of "default_settings\<lparr>target_db_code := []\<rparr>" ?r "''ADW''"]
    by (simp add: tables_of_system_def sample_table_def)
qed

end
