(* ===== verification/Readiness.thy ===== *)
theory Readiness imports ReasonState begin

text \<open>
  The readiness score and verdict (\<open>src/src/services/confidence_scorer.py\<close>).  Scores are
  exact rationals rounded half to even at three digits, as \<open>round(total, 3)\<close>; a Python float
  differs from them only where the exact total is a rounding tie at the fourth digit, which
  happens at neither threshold for fewer than 1400 critical items.
\<close>

definition round_half_even :: "rat \<Rightarrow> int" where
  "round_half_even q =
     (let f = \<lfloor>q\<rfloor>; r = q - of_int f
      in if r < 1 / 2 then f else if r > 1 / 2 then f + 1 else if even f then f else f + 1)"

definition py_round3 :: "rat \<Rightarrow> rat" where
  "py_round3 q = of_int (round_half_even (q * 1000)) / 1000"

lemma round_half_even_bounds:
  "q - 1 / 2 \<le> of_int (round_half_even q) \<and> of_int (round_half_even q) \<le> q + 1 / 2"
  unfolding round_half_even_def Let_def by (auto simp: algebra_simps) linarith+

lemma round_half_even_int [simp]: "round_half_even (of_int k) = k"
  by (simp add: round_half_even_def)

lemma py_round3_le: "q \<le> of_int k / 1000 \<Longrightarrow> py_round3 q \<le> of_int k / 1000"
proof -
  assume "q \<le> of_int k / 1000"
  then have "of_int (round_half_even (q * 1000)) \<le> (of_int k + 1 / 2 :: rat)"
    using round_half_even_bounds [of "q * 1000"] by simp
  then have "round_half_even (q * 1000) \<le> k" by linarith
  then show ?thesis by (simp add: py_round3_def divide_right_mono)
qed

lemma py_round3_ge: "of_int k / 1000 \<le> q \<Longrightarrow> of_int k / 1000 \<le> py_round3 q"
proof -
  assume "of_int k / 1000 \<le> q"
  then have "(of_int k - 1 / 2 :: rat) \<le> of_int (round_half_even (q * 1000))"
    using round_half_even_bounds [of "q * 1000"] by simp
  then have "k \<le> round_half_even (q * 1000)" by linarith
  then show ?thesis by (simp add: py_round3_def divide_right_mono)
qed

definition THRESHOLD_GENERATE :: rat where "THRESHOLD_GENERATE = 65 / 100"
definition THRESHOLD_FORCE_GENERATE :: rat where "THRESHOLD_FORCE_GENERATE = 55 / 100"

datatype readiness_verdict = V_EXPLORE | V_GENERATE | V_REPLAN | V_TERMINATE

fun verdict_value :: "readiness_verdict \<Rightarrow> string" where
  "verdict_value V_EXPLORE = ''explore''"
| "verdict_value V_GENERATE = ''generate_sql''"
| "verdict_value V_REPLAN = ''replan''"
| "verdict_value V_TERMINATE = ''conclude_failure''"

fun VERDICT_TO_PHASE :: "readiness_verdict \<Rightarrow> phase" where
  "VERDICT_TO_PHASE V_GENERATE = GENERATING"
| "VERDICT_TO_PHASE V_REPLAN = REPLANNING"
| "VERDICT_TO_PHASE V_EXPLORE = EXPLORING"
| "VERDICT_TO_PHASE V_TERMINATE = DONE"

fun PROMOTION_ORDER :: "confidence_status \<Rightarrow> nat" where
  "PROMOTION_ORDER UNRESOLVED = 0"
| "PROMOTION_ORDER CANDIDATE = 1"
| "PROMOTION_ORDER PROBABLE = 2"
| "PROMOTION_ORDER CONFIRMED = 3"
| "PROMOTION_ORDER CONFLICTED = 4"

definition term_score :: "reasoning_state \<Rightarrow> rat" where
  "term_score r =
     (let items = filter ki_is_critical (knowledge_items r)
      in if items \<noteq> []
         then of_nat (length (filter is_confirmed items)) / of_nat (length items)
         else 0)"

definition use_case_score :: "reasoning_state \<Rightarrow> rat" where
  "use_case_score r =
     (if explored_use_cases r \<noteq> []
      then min (of_nat (length (filter uc_relevant (explored_use_cases r))) / 3) 1
      else 0)"

definition calculate_readiness :: "reasoning_state \<Rightarrow> rat" where
  "calculate_readiness r = py_round3 (term_score r * (70 / 100) + use_case_score r * (30 / 100))"

definition all_critical_confirmed :: "reasoning_state \<Rightarrow> bool" where
  "all_critical_confirmed r =
     (let unresolved_critical =
            filter (\<lambda>ki. ki_is_critical ki \<and> ki_status ki \<in> {UNRESOLVED, CANDIDATE, CONFLICTED})
              (knowledge_items r)
      in length unresolved_critical = 0)"

definition has_conflicted_items :: "reasoning_state \<Rightarrow> bool" where
  "has_conflicted_items r = (\<exists>ki\<in>set (knowledge_items r). ki_status ki = CONFLICTED)"

definition evaluate_readiness :: "settings \<Rightarrow> reasoning_state \<Rightarrow> readiness_verdict" where
  "evaluate_readiness cfg r =
     (if should_terminate cfg r then V_TERMINATE
      else
        let score = calculate_readiness r
        in if score \<ge> THRESHOLD_GENERATE \<and> all_critical_confirmed r
           then (if explored_tables r = [] then V_REPLAN else V_GENERATE)
           else
             let remaining = filter (\<lambda>s. es_status s = Step_PENDING) (execution_plan r)
             in if remaining \<noteq> [] then V_EXPLORE else V_REPLAN)"

section \<open>Facts about the score\<close>

lemma use_case_score_range: "0 \<le> use_case_score r \<and> use_case_score r \<le> 1"
  by (simp add: use_case_score_def)

lemma term_score_range: "0 \<le> term_score r \<and> term_score r \<le> 1"
proof -
  let ?xs = "filter ki_is_critical (knowledge_items r)"
  have "length (filter is_confirmed ?xs) \<le> length ?xs" by (rule length_filter_le)
  then show ?thesis
    unfolding term_score_def Let_def by (simp add: divide_le_eq_1 del: filter_filter length_filter_le)
qed

lemma not_unresolved_is_confirmed:
  "ki_status ki \<notin> {UNRESOLVED, CANDIDATE, CONFLICTED} \<longleftrightarrow> is_confirmed ki"
  by (cases "ki_status ki") (auto simp: is_confirmed_def)

lemma all_critical_confirmed_iff:
  "all_critical_confirmed r \<longleftrightarrow> (\<forall>ki\<in>set (knowledge_items r). ki_is_critical ki \<longrightarrow> is_confirmed ki)"
  unfolding all_critical_confirmed_def Let_def
  by (auto simp: filter_empty_conv not_unresolved_is_confirmed [symmetric])

lemma term_score_all_confirmed:
  assumes "all_critical_confirmed r" and "\<exists>ki\<in>set (knowledge_items r). ki_is_critical ki"
  shows "term_score r = 1"
proof -
  have "filter is_confirmed (filter ki_is_critical (knowledge_items r)) = filter ki_is_critical (knowledge_items r)"
    using assms(1) by (auto simp: all_critical_confirmed_iff filter_id_conv simp del: filter_filter)
  moreover have "filter ki_is_critical (knowledge_items r) \<noteq> []"
    using assms(2) by (auto simp: filter_empty_conv)
  ultimately show ?thesis unfolding term_score_def Let_def by (simp del: filter_filter)
qed

lemma readiness_no_critical:
  assumes "\<not> (\<exists>ki\<in>set (knowledge_items r). ki_is_critical ki)"
  shows "calculate_readiness r \<le> 30 / 100"
proof -
  have "term_score r = 0" using assms by (simp add: term_score_def Let_def filter_empty_conv)
  then have "term_score r * (70 / 100) + use_case_score r * (30 / 100) \<le> of_int 300 / 1000"
    using use_case_score_range [of r] by simp
  from py_round3_le [OF this] show ?thesis by (simp add: calculate_readiness_def)
qed

lemma readiness_all_confirmed:
  assumes "all_critical_confirmed r" and "\<exists>ki\<in>set (knowledge_items r). ki_is_critical ki"
  shows "70 / 100 \<le> calculate_readiness r"
proof -
  have "of_int 700 / 1000 \<le> term_score r * (70 / 100) + use_case_score r * (30 / 100)"
    using term_score_all_confirmed [OF assms] use_case_score_range [of r] by simp
  from py_round3_ge [OF this] show ?thesis by (simp add: calculate_readiness_def)
qed

lemma generate_condition:
  "calculate_readiness r \<ge> THRESHOLD_GENERATE \<and> all_critical_confirmed r \<longleftrightarrow>
   all_critical_confirmed r \<and> (\<exists>ki\<in>set (knowledge_items r). ki_is_critical ki)"
  using readiness_no_critical [of r] readiness_all_confirmed [of r]
  by (force simp: THRESHOLD_GENERATE_def)

section \<open>Properties\<close>

text \<open>
  The readiness score is always between 0 and 1.
\<close>
theorem readiness_in_unit_interval: "0 \<le> calculate_readiness r \<and> calculate_readiness r \<le> 1"
proof -
  let ?q = "term_score r * (70 / 100) + use_case_score r * (30 / 100)"
  have "of_int 0 / 1000 \<le> ?q" and "?q \<le> of_int 1000 / 1000"
    using term_score_range [of r] use_case_score_range [of r] by simp_all
  from py_round3_ge [OF this(1)] py_round3_le [OF this(2)] show ?thesis
    by (simp add: calculate_readiness_def)
qed

text \<open>
  The decision table of the single source of truth.  The score test is redundant: given
  that no critical item is open, the threshold 0.65 is passed exactly when there is a critical
  item.  So the verdict is to terminate under an exhausted guard, to generate when there are
  critical items, all are confirmed or probable and a table was found (to replan when none
  was), and otherwise to explore while steps are pending and to replan when none is.
\<close>
theorem readiness_decision_table:
  "evaluate_readiness cfg r =
     (if should_terminate cfg r then V_TERMINATE
      else if (\<exists>ki\<in>set (knowledge_items r). ki_is_critical ki) \<and>
              (\<forall>ki\<in>set (knowledge_items r). ki_is_critical ki \<longrightarrow> is_confirmed ki)
        then (if explored_tables r = [] then V_REPLAN else V_GENERATE)
      else if (\<exists>s\<in>set (execution_plan r). es_status s = Step_PENDING) then V_EXPLORE
      else V_REPLAN)"
proof -
  have "(filter (\<lambda>s. es_status s = Step_PENDING) (execution_plan r) \<noteq> []) =
        (\<exists>s\<in>set (execution_plan r). es_status s = Step_PENDING)"
    by (simp add: filter_empty_conv)
  then show ?thesis
    unfolding evaluate_readiness_def Let_def generate_condition
    unfolding all_critical_confirmed_iff by (auto simp del: bex_simps ball_simps)
qed

theorem readiness_decision_table_witness:
  "evaluate_readiness default_settings
     (new_reasoning_state\<lparr>current_hypothesis := Some \<lparr>hyp_id = ''H1'', hyp_description = [],
        hyp_based_on_use_case = None, hyp_missing_terms = [], hyp_priority = 1 / 2,
        hyp_strategy = [], hyp_status = Hyp_ACTIVE, hyp_readiness_score = None,
        hyp_readiness_verdict = []\<rparr>\<rparr>) = V_REPLAN"
  by (simp add: readiness_decision_table should_terminate_def new_reasoning_state_def
      default_settings_def new_loop_guard_def)

text \<open>
  The module's header says that all critical items being resolved guarantees a score of at
  least 0.70.  Without a critical item the condition holds vacuously and the score is at most
  0.30, so such a query is never ready, whatever was found for it.
\<close>
theorem no_critical_items_never_ready:
  assumes "\<not> (\<exists>ki\<in>set (knowledge_items r). ki_is_critical ki)"
  shows "all_critical_confirmed r \<and> calculate_readiness r \<le> 30 / 100 \<and>
    evaluate_readiness cfg r \<noteq> V_GENERATE"
  using assms readiness_no_critical [OF assms]
  by (auto simp: all_critical_confirmed_iff evaluate_readiness_def THRESHOLD_GENERATE_def Let_def)

theorem no_critical_items_never_ready_witness:
  "all_critical_confirmed new_reasoning_state \<and> calculate_readiness new_reasoning_state \<le> 30 / 100"
  using no_critical_items_never_ready [of new_reasoning_state default_settings]
  by (simp add: new_reasoning_state_def)

end
