(* ===== verification/ReadinessGate.thy ===== *)
theory ReadinessGate imports TargetDb Readiness begin

text \<open>
  The readiness gate (\<open>src/src/agents/nodes/reason/readiness_gate.py\<close>): the node that turns
  the score and verdict of \<open>Readiness\<close> into the phase the graph routes on, decides the
  target database and records why exploration was not enough.
\<close>

text \<open>\<open>f"{score:.0%}"\<close>, on the exact value of the score.\<close>

definition percent_text :: "rat \<Rightarrow> string" where
  "percent_text score = str_int (round_half_even (score * 100)) @ ''%''"

definition bullet_sep :: string where
  "bullet_sep = newline @ ''- ''"

definition apply_force_generate :: "settings \<Rightarrow> readiness_verdict \<Rightarrow> reasoning_state \<Rightarrow> rat \<Rightarrow> readiness_verdict" where
  "apply_force_generate cfg verdict r score =
     (if verdict_value verdict \<in> {''replan'', ''conclude_failure''} \<and>
         replan_count (loop_guard r) \<ge> force_generate_after_replans cfg \<and>
         score \<ge> THRESHOLD_FORCE_GENERATE \<and> explored_tables r \<noteq> []
      then V_GENERATE else verdict)"

definition gate_failure_type :: "reasoning_state \<Rightarrow> failure_type" where
  "gate_failure_type r =
     (if length (selected_tables r) = 0 then NO_TABLE
      else if length (knowledge_items r) = 0 then NO_KNOWLEDGE
      else TERM_UNRESOLVABLE)"

definition gate_failure_reason :: "reasoning_state \<Rightarrow> rat \<Rightarrow> failure_type \<Rightarrow> string" where
  "gate_failure_reason r score ft =
     (let ki_total = length (knowledge_items r);
          ki_confirmed = length (filter (\<lambda>i. ki_confidence i \<ge> 8 / 10) (knowledge_items r));
          explored_count = length (explored_tables r);
          selected_count = length (selected_tables r);
          unresolved = map ki_key (filter (\<lambda>ki. ki_status ki \<in> {UNRESOLVED, CONFLICTED}) (knowledge_items r));
          unresolved_part = (if unresolved \<noteq> []
                             then [''Unresolved terms: '' @ py_join '', '' (take 5 unresolved)] else []);
          candidates_part = ''Candidate tables: '' @ str_int (int selected_count) @ '' (explored '' @
                              str_int (int explored_count) @ '')'';
          score_part = ''Confidence '' @ percent_text score @ '' is below the generation threshold''
      in case ft of
           NO_TABLE \<Rightarrow>
             py_join bullet_sep
               ([''The tables needed to generate SQL are not available.'',
                 (if explored_count = 0
                  then ''There are 0 candidate tables, no data source could be identified.''
                  else ''All '' @ str_int (int explored_count) @
                       '' explored tables were judged unsuitable (REJECTED), no table is usable.'')] @
                unresolved_part @ [score_part])
         | NO_KNOWLEDGE \<Rightarrow>
             py_join bullet_sep
               [''Query normalisation extracted no measure or condition, so no knowledge item exists.'',
                ''Decompose the query from another view, or find the needed measures in similar SQL.'',
                candidates_part, score_part]
         | _ \<Rightarrow>
             py_join bullet_sep
               ([''The information needed to generate SQL is insufficient.'',
                 (if ki_confirmed = 0
                  then ''No knowledge item has a confirmed table/column mapping (total '' @
                       str_int (int ki_total) @ '', confirmed 0)''
                  else ''Confirmed knowledge: '' @ str_int (int ki_confirmed) @ ''/'' @ str_int (int ki_total)),
                 candidates_part] @ unresolved_part @ [score_part]))"

definition set_failure_context :: "reasoning_state \<Rightarrow> rat \<Rightarrow> reasoning_state" where
  "set_failure_context r score =
     (let ft = gate_failure_type r
      in r\<lparr>failure_type := Some ft, failure_reason := Some (gate_failure_reason r score ft)\<rparr>)"

text \<open>\<open>_finalize_phase\<close>, its three steps in order.\<close>

definition finalize_exploring :: "reasoning_state \<Rightarrow> reasoning_state" where
  "finalize_exploring r =
     (if phase r = EXPLORING \<and>
         (\<not> (\<exists>s\<in>set (execution_plan r). es_status s = Step_PENDING) \<or> exploration_phase r \<noteq> EP_INITIAL)
      then r\<lparr>phase := REPLANNING\<rparr> else r)"

definition finalize_generating :: "settings \<Rightarrow> reasoning_state \<Rightarrow> reasoning_state" where
  "finalize_generating cfg r =
     (if phase r = GENERATING then
        let decision = resolve_target_db cfg r
        in if td_status decision \<in> {NO_SELECTION, AMBIGUOUS}
           then r\<lparr>target_db_decision := Some decision, target_db := [], phase := REPLANNING,
                  failure_type := Some NO_TABLE, failure_reason := Some (td_decision_rationale decision)\<rparr>
           else r\<lparr>target_db_decision := Some decision, target_db := td_target decision\<rparr>
      else r)"

definition finalize_replanning :: "reasoning_state \<Rightarrow> rat \<Rightarrow> reasoning_state" where
  "finalize_replanning r score =
     (if phase r = REPLANNING then
        let r1 = r\<lparr>exploration_phase := EP_RECOVERY, recovery_entry_source := Some ES_READINESS_GATE\<rparr>
        in if failure_type r1 = None then set_failure_context r1 score else r1
      else r)"

definition finalize_phase :: "settings \<Rightarrow> reasoning_state \<Rightarrow> rat \<Rightarrow> reasoning_state" where
  "finalize_phase cfg r score =
     finalize_replanning (finalize_generating cfg (finalize_exploring r)) score"

text \<open>The verdict on the current hypothesis and on its first entry in the list of hypotheses.\<close>

definition record_readiness :: "rat \<Rightarrow> readiness_verdict \<Rightarrow> reasoning_state \<Rightarrow> reasoning_state" where
  "record_readiness score verdict r =
     (case current_hypothesis r of
        None \<Rightarrow> r
      | Some ch \<Rightarrow>
          let mark = (\<lambda>h. h\<lparr>hyp_readiness_score := Some score, hyp_readiness_verdict := verdict_value verdict\<rparr>)
          in r\<lparr>current_hypothesis := Some (mark ch),
               hypotheses := update_first (\<lambda>h. hyp_id h = hyp_id ch) mark (hypotheses r)\<rparr>)"

definition readiness_gate_verdict :: "settings \<Rightarrow> reasoning_state \<Rightarrow> readiness_verdict" where
  "readiness_gate_verdict cfg r =
     apply_force_generate cfg (evaluate_readiness cfg r) r (calculate_readiness r)"

definition readiness_gate_reason :: "settings \<Rightarrow> reasoning_state \<Rightarrow> reasoning_state" where
  "readiness_gate_reason cfg r =
     (let score = calculate_readiness r;
          verdict = readiness_gate_verdict cfg r;
          r1 = record_readiness score verdict r
      in finalize_phase cfg (r1\<lparr>phase := VERDICT_TO_PHASE verdict\<rparr>) score)"

section \<open>What the gate leaves alone\<close>

lemma record_readiness_frame [frame_simps]:
  "explored_tables (record_readiness sc v r) = explored_tables r"
  "knowledge_items (record_readiness sc v r) = knowledge_items r"
  "execution_plan (record_readiness sc v r) = execution_plan r"
  "exploration_phase (record_readiness sc v r) = exploration_phase r"
  "loop_guard (record_readiness sc v r) = loop_guard r"
  "final_status (record_readiness sc v r) = final_status r"
  "failure_type (record_readiness sc v r) = failure_type r"
  "failure_reason (record_readiness sc v r) = failure_reason r"
  "validated_sql (record_readiness sc v r) = validated_sql r"
  "generated_sql (record_readiness sc v r) = generated_sql r"
  "target_db (record_readiness sc v r) = target_db r"
  "is_force_generated (record_readiness sc v r) = is_force_generated r"
  "dead_ends (record_readiness sc v r) = dead_ends r"
  by (simp_all add: record_readiness_def Let_def split: option.split)

lemma record_readiness_hypotheses [frame_simps]:
  "map hyp_id (hypotheses (record_readiness sc v r)) = map hyp_id (hypotheses r)"
  "map hyp_status (hypotheses (record_readiness sc v r)) = map hyp_status (hypotheses r)"
  "map_option hyp_id (current_hypothesis (record_readiness sc v r)) = map_option hyp_id (current_hypothesis r)"
  by (auto simp: record_readiness_def Let_def map_update_first split: option.split)

lemma finalize_phase_frame [frame_simps]:
  "explored_tables (finalize_phase cfg r sc) = explored_tables r"
  "knowledge_items (finalize_phase cfg r sc) = knowledge_items r"
  "execution_plan (finalize_phase cfg r sc) = execution_plan r"
  "hypotheses (finalize_phase cfg r sc) = hypotheses r"
  "current_hypothesis (finalize_phase cfg r sc) = current_hypothesis r"
  "loop_guard (finalize_phase cfg r sc) = loop_guard r"
  "final_status (finalize_phase cfg r sc) = final_status r"
  "validated_sql (finalize_phase cfg r sc) = validated_sql r"
  "generated_sql (finalize_phase cfg r sc) = generated_sql r"
  "is_force_generated (finalize_phase cfg r sc) = is_force_generated r"
  "dead_ends (finalize_phase cfg r sc) = dead_ends r"
  by (simp_all add: finalize_phase_def finalize_replanning_def finalize_generating_def
      finalize_exploring_def set_failure_context_def Let_def)

lemma readiness_gate_frame [frame_simps]:
  "explored_tables (readiness_gate_reason cfg r) = explored_tables r"
  "knowledge_items (readiness_gate_reason cfg r) = knowledge_items r"
  "execution_plan (readiness_gate_reason cfg r) = execution_plan r"
  "loop_guard (readiness_gate_reason cfg r) = loop_guard r"
  "final_status (readiness_gate_reason cfg r) = final_status r"
  "validated_sql (readiness_gate_reason cfg r) = validated_sql r"
  "generated_sql (readiness_gate_reason cfg r) = generated_sql r"
  "is_force_generated (readiness_gate_reason cfg r) = is_force_generated r"
  "dead_ends (readiness_gate_reason cfg r) = dead_ends r"
  by (simp_all add: readiness_gate_reason_def Let_def frame_simps)

lemma evaluate_readiness_cases:
  "evaluate_readiness cfg r = V_EXPLORE \<Longrightarrow>
     \<not> should_terminate cfg r \<and> (\<exists>s\<in>set (execution_plan r). es_status s = Step_PENDING)"
  "evaluate_readiness cfg r = V_GENERATE \<Longrightarrow>
     \<not> should_terminate cfg r \<and> explored_tables r \<noteq> [] \<and> calculate_readiness r \<ge> THRESHOLD_GENERATE"
  "evaluate_readiness cfg r = V_TERMINATE \<Longrightarrow> should_terminate cfg r"
  by (auto simp: evaluate_readiness_def Let_def filter_empty_conv split: if_splits)

lemma gate_verdict_cases:
  "readiness_gate_verdict cfg r = V_EXPLORE \<Longrightarrow> evaluate_readiness cfg r = V_EXPLORE"
  "readiness_gate_verdict cfg r = V_TERMINATE \<Longrightarrow> evaluate_readiness cfg r = V_TERMINATE"
  "readiness_gate_verdict cfg r = V_GENERATE \<Longrightarrow>
     explored_tables r \<noteq> [] \<and> calculate_readiness r \<ge> THRESHOLD_FORCE_GENERATE"
  using evaluate_readiness_cases(2) [of cfg r]
  by (auto simp: readiness_gate_verdict_def apply_force_generate_def THRESHOLD_GENERATE_def
      THRESHOLD_FORCE_GENERATE_def split: if_splits)

lemma resolve_target_db_usable:
  "td_status (resolve_target_db cfg r) \<notin> {NO_SELECTION, AMBIGUOUS} \<Longrightarrow>
   td_target (resolve_target_db cfg r) \<noteq> [] \<and>
   (target_db_code cfg = [] \<longrightarrow> spanned_systems r = {td_target (resolve_target_db cfg r)})"
proof -
  assume a: "td_status (resolve_target_db cfg r) \<notin> {NO_SELECTION, AMBIGUOUS}"
  show ?thesis
  proof (cases "target_db_code cfg = []")
    case False
    then show ?thesis by (simp add: resolve_target_db_def forced_split_spec Let_def)
  next
    case True
    with a have "length (group_sources (explored_tables r) []) = 1"
      by (auto simp: resolve_target_db_def Let_def split: if_splits)
    then obtain sys where sys: "spanned_systems r = {sys}"
      by (metis length_group_sources card_1_singletonE)
    then have "sys \<noteq> []" by (auto simp: spanned_systems_def)
    with sys True show ?thesis
      by (simp add: resolve_target_db_def group_sources_single Let_def)
  qed
qed

lemma resolve_target_db_cong:
  "explored_tables r = explored_tables r' \<Longrightarrow> resolve_target_db cfg r = resolve_target_db cfg r'"
  by (simp add: resolve_target_db_def)

lemma spanned_systems_cong:
  "explored_tables r = explored_tables r' \<Longrightarrow> spanned_systems r = spanned_systems r'"
  by (simp add: spanned_systems_def selected_tables_def)

text \<open>The phase the gate decides, verdict by verdict.\<close>

lemma gate_phase_explore:
  assumes "readiness_gate_verdict cfg r = V_EXPLORE"
  shows "phase (readiness_gate_reason cfg r) = (if exploration_phase r = EP_INITIAL then EXPLORING else REPLANNING)"
  using evaluate_readiness_cases(1) [OF gate_verdict_cases(1) [OF assms]] assms
  by (auto simp: readiness_gate_reason_def finalize_phase_def finalize_exploring_def
      finalize_generating_def finalize_replanning_def set_failure_context_def Let_def frame_simps)

lemma gate_phase_terminate:
  assumes "readiness_gate_verdict cfg r = V_TERMINATE"
  shows "readiness_gate_reason cfg r = (record_readiness (calculate_readiness r) V_TERMINATE r)\<lparr>phase := DONE\<rparr>"
  using assms by (simp add: readiness_gate_reason_def finalize_phase_def finalize_exploring_def
      finalize_generating_def finalize_replanning_def Let_def)

lemma gate_phase_replan:
  assumes "readiness_gate_verdict cfg r = V_REPLAN"
  shows "phase (readiness_gate_reason cfg r) = REPLANNING"
  using assms by (simp add: readiness_gate_reason_def finalize_phase_def finalize_exploring_def
      finalize_generating_def finalize_replanning_def set_failure_context_def Let_def)

lemma gate_phase_generate:
  assumes "readiness_gate_verdict cfg r = V_GENERATE"
  shows "if td_status (resolve_target_db cfg r) \<in> {NO_SELECTION, AMBIGUOUS}
     then phase (readiness_gate_reason cfg r) = REPLANNING \<and> target_db (readiness_gate_reason cfg r) = []
     else phase (readiness_gate_reason cfg r) = GENERATING \<and>
       target_db (readiness_gate_reason cfg r) = td_target (resolve_target_db cfg r) \<and>
       target_db_decision (readiness_gate_reason cfg r) = Some (resolve_target_db cfg r)"
proof -
  let ?r1 = "(record_readiness (calculate_readiness r) V_GENERATE r)\<lparr>phase := GENERATING\<rparr>"
  have "resolve_target_db cfg ?r1 = resolve_target_db cfg r"
    by (rule resolve_target_db_cong) (simp add: frame_simps)
  with assms show ?thesis
    by (simp add: readiness_gate_reason_def finalize_phase_def finalize_exploring_def
        finalize_generating_def finalize_replanning_def Let_def)
qed

lemma gate_replanning_entry:
  "phase (readiness_gate_reason cfg r) = REPLANNING \<Longrightarrow>
     exploration_phase (readiness_gate_reason cfg r) = EP_RECOVERY \<and>
     recovery_entry_source (readiness_gate_reason cfg r) = Some ES_READINESS_GATE \<and>
     failure_type (readiness_gate_reason cfg r) \<noteq> None"
  by (auto simp: readiness_gate_reason_def finalize_phase_def finalize_replanning_def
      set_failure_context_def Let_def split: if_splits)

section \<open>Properties\<close>



end
