(* ===== verification/Connectors.thy ===== *)
theory Connectors imports TargetDb begin

text \<open>
  The registry of business databases (\<open>ConnectorManager\<close>,
  \<open>src/src/connectors/manager.py\<close>): which connectors are created, which survive start-up, and
  how a system code is resolved to one.  A connector is its registry name and its SQL dialect;
  whether a connection succeeds is an argument.
\<close>

record connector =
  conn_name :: string
  conn_dialect :: string

record connector_manager =
  cm_connected :: bool
  cm_db_connectors :: "(string \<times> connector) list"

text \<open>
  The factory of \<open>_init_system_db_connectors\<close>; the dialect of each is the connector class's.
  The set of required names has no order, the registry is listed in factory order.
\<close>

definition required_connectors :: "settings \<Rightarrow> string set" where
  "required_connectors cfg = resolve_system_connector cfg ` set (map fst (target_db_schema_map cfg))"

definition factory_names :: "string list" where
  "factory_names = [''ADW'', ''BDP'', ''CRP'', ''TEST'']"

definition init_system_db_connectors :: "(string \<Rightarrow> string) \<Rightarrow> settings \<Rightarrow> (string \<times> connector) list" where
  "init_system_db_connectors dialect_of cfg =
     map (\<lambda>n. (n, \<lparr>conn_name = n, conn_dialect = dialect_of n\<rparr>))
       (filter (\<lambda>n. n \<in> required_connectors cfg) factory_names)"

definition new_connector_manager :: "(string \<Rightarrow> string) \<Rightarrow> settings \<Rightarrow> connector_manager" where
  "new_connector_manager dialect_of cfg =
     \<lparr>cm_connected = False, cm_db_connectors = init_system_db_connectors dialect_of cfg\<rparr>"

definition REQUIRED_INFRA :: "string list" where
  "REQUIRED_INFRA = [''mongo'', ''qdrant'', ''postgres'']"

text \<open>
  \<open>connect_all\<close>: start-up fails on a required store, a business database that cannot be
  reached is dropped from the registry.  The optional tier is empty in the code.
\<close>

definition connect_all :: "(string \<Rightarrow> bool) \<Rightarrow> connector_manager \<Rightarrow> connector_manager result" where
  "connect_all reach m =
     (if cm_connected m then Inr m
      else if \<not> list_all reach REQUIRED_INFRA then Inl OtherError
      else Inr (m\<lparr>cm_db_connectors := filter (\<lambda>(n, _). reach n) (cm_db_connectors m), cm_connected := True\<rparr>))"

text \<open>\<open>get_query_db\<close>, in its order: explicit source, decided target, the only connector.\<close>

definition get_query_db ::
  "settings \<Rightarrow> (string \<times> connector) list \<Rightarrow> string \<Rightarrow> string \<Rightarrow> connector result" where
  "get_query_db cfg dbs target db_source =
     (let system = (if db_source \<noteq> [] then db_source else target);
          fallback = (if length dbs = 1 then Inr (snd (hd dbs)) else Inl RuntimeErr)
      in if system \<noteq> []
         then (case map_of dbs (resolve_system_connector cfg system) of
                 Some conn \<Rightarrow> Inr conn | None \<Rightarrow> fallback)
         else fallback)"

section \<open>Facts\<close>

lemma init_names:
  "map fst (init_system_db_connectors d cfg) = filter (\<lambda>n. n \<in> required_connectors cfg) factory_names"
  by (simp add: init_system_db_connectors_def comp_def)

lemma init_entry: "(n, c) \<in> set (init_system_db_connectors d cfg) \<Longrightarrow> conn_name c = n"
  by (auto simp: init_system_db_connectors_def)

lemma distinct_init: "distinct (map fst (init_system_db_connectors d cfg))"
  unfolding init_names by (rule distinct_filter) (simp add: factory_names_def)

lemma connect_all_registry:
  assumes "connect_all reach (new_connector_manager d cfg) = Inr m"
  shows "cm_connected m" and "list_all reach REQUIRED_INFRA"
    and "cm_db_connectors m = filter (\<lambda>(n, _). reach n) (init_system_db_connectors d cfg)"
  using assms by (auto simp: connect_all_def new_connector_manager_def split: if_splits)

lemma get_query_db_hit:
  "target \<noteq> [] \<Longrightarrow> map_of dbs (resolve_system_connector cfg target) = Some c \<Longrightarrow>
   get_query_db cfg dbs target [] = Inr c"
  by (simp add: get_query_db_def Let_def)

lemma get_query_db_in_registry: "get_query_db cfg dbs target src = Inr c \<Longrightarrow> c \<in> snd ` set dbs"
  by (cases dbs) (auto simp: get_query_db_def Let_def split: if_splits option.splits
      dest!: map_of_SomeD intro: rev_image_eqI)

section \<open>Properties\<close>

text \<open>
  Routing after start-up.  With two or more databases connected, a query for a decided
  system either runs on that system's connector or is refused with a runtime error: it never
  reaches another system's database.
\<close>
theorem query_db_never_misroutes:
  assumes "connect_all reach (new_connector_manager d cfg) = Inr m"
    and "length (cm_db_connectors m) \<noteq> 1" and "target \<noteq> []"
  shows "get_query_db cfg (cm_db_connectors m) target [] = Inl RuntimeErr \<or>
    (\<exists>c. get_query_db cfg (cm_db_connectors m) target [] = Inr c \<and>
         conn_name c = resolve_system_connector cfg target \<and> reach (conn_name c))"
proof (cases "map_of (cm_db_connectors m) (resolve_system_connector cfg target)")
  case None
  with assms(2,3) show ?thesis by (simp add: get_query_db_def Let_def)
next
  case (Some c)
  from map_of_SomeD [OF this] connect_all_registry(3) [OF assms(1)]
  have "conn_name c = resolve_system_connector cfg target" "reach (conn_name c)"
    by (auto dest: init_entry)
  with get_query_db_hit [OF assms(3) Some] show ?thesis by blast
qed

definition two_systems :: settings where
  "two_systems = default_settings\<lparr>target_db_code := [],
     target_db_schema_map := [(''ADW'', ''ADWOWN''), (''BDP'', ''BDPOWN'')]\<rparr>"

definition sample_dialect :: "string \<Rightarrow> string" where
  "sample_dialect n = (if n = ''ADW'' then ''tsql'' else ''postgres'')"

lemma two_systems_init:
  "init_system_db_connectors sample_dialect two_systems =
     [(''ADW'', \<lparr>conn_name = ''ADW'', conn_dialect = ''tsql''\<rparr>),
      (''BDP'', \<lparr>conn_name = ''BDP'', conn_dialect = ''postgres''\<rparr>)]"
  by (simp add: init_system_db_connectors_def required_connectors_def factory_names_def
      two_systems_def default_settings_def resolve_system_connector_def sample_dialect_def)

theorem query_db_never_misroutes_witness:
  "get_query_db two_systems (init_system_db_connectors sample_dialect two_systems) ''BDP'' [] = Inl RuntimeErr \<or>
   (\<exists>c. get_query_db two_systems (init_system_db_connectors sample_dialect two_systems) ''BDP'' [] = Inr c \<and>
     conn_name c = resolve_system_connector two_systems ''BDP'' \<and> True)"
proof -
  let ?m = "\<lparr>cm_connected = True, cm_db_connectors = init_system_db_connectors sample_dialect two_systems\<rparr>"
  have "connect_all (\<lambda>_. True) (new_connector_manager sample_dialect two_systems) = Inr ?m"
    by (simp add: connect_all_def new_connector_manager_def REQUIRED_INFRA_def case_prod_unfold)
  from query_db_never_misroutes [OF this, of "''BDP''"] show ?thesis
    by (simp add: two_systems_init)
qed

text \<open>
  A degraded start-up changes that.  When a single database is left, a query decided for
  any other system is answered by the one that is left.
\<close>
theorem single_connector_answers_every_system:
  assumes "connect_all reach (new_connector_manager d cfg) = Inr m"
    and "cm_db_connectors m = [(n, c)]"
  shows "get_query_db cfg (cm_db_connectors m) target src = Inr c \<and> conn_name c = n"
proof -
  have "(n, c) \<in> set (init_system_db_connectors d cfg)"
    using arg_cong [where f = set, OF connect_all_registry(3) [OF assms(1)]] assms(2) by auto
  from init_entry [OF this] assms(2) show ?thesis by (simp add: get_query_db_def Let_def)
qed

theorem single_connector_answers_every_system_witness:
  "get_query_db two_systems [(''ADW'', \<lparr>conn_name = ''ADW'', conn_dialect = ''tsql''\<rparr>)] ''BDP'' [] =
     Inr \<lparr>conn_name = ''ADW'', conn_dialect = ''tsql''\<rparr>"
proof -
  let ?c = "\<lparr>conn_name = ''ADW'', conn_dialect = ''tsql''\<rparr>"
  let ?m = "\<lparr>cm_connected = True, cm_db_connectors = [(''ADW'', ?c)]\<rparr>"
  have "connect_all (\<lambda>n. n \<noteq> ''BDP'') (new_connector_manager sample_dialect two_systems) = Inr ?m"
    by (simp add: connect_all_def new_connector_manager_def REQUIRED_INFRA_def two_systems_init)
  from single_connector_answers_every_system [OF this, of "''ADW''" ?c "''BDP''" "[]"]
  show ?thesis by simp
qed

end
