(* ===== verification/LlmRetry.thy ===== *)
theory LlmRetry imports Prelude begin

text \<open>
  Calls of the language model whose reply must parse (\<open>src/src/utils/llm/retry.py\<close>) and the
  extraction of a JSON object from a reply (\<open>src/src/utils/llm/response.py\<close>).  The model
  client is an argument: a function from the attempt's number and the messages sent to the
  reply text or the exception.
\<close>

type_synonym messages = "(string \<times> string) list"

definition truncate_at :: "int \<Rightarrow> string \<Rightarrow> string" where
  "truncate_at limit v = (if limit \<le> 0 \<or> int (py_len v) \<le> limit then v else take_chars (nat limit) v @ ''...'')"

definition nl :: string where "nl = [char_of (10 :: nat)]"

definition build_correction_msg :: "int \<Rightarrow> string \<Rightarrow> string \<Rightarrow> string" where
  "build_correction_msg log_limit failed_response parse_error =
     py_join nl
       ([''[output format error]''] @
        (if failed_response \<noteq> [] then [''Your reply: '' @ truncate_at log_limit failed_response] else []) @
        (if parse_error \<noteq> [] then [''Cause of the parse failure: '' @ parse_error] else []) @
        [''Output only JSON that fits the [output format] of the system prompt.''])"

definition append_correction :: "int \<Rightarrow> messages \<Rightarrow> string \<Rightarrow> string \<Rightarrow> messages" where
  "append_correction log_limit msgs failed_response parse_error =
     msgs @ [(''user'', build_correction_msg log_limit failed_response parse_error)]"

text \<open>
  A parse function's outcome: \<open>Inr\<close> the value, \<open>Inl (ValueError, msg)\<close> a value error with
  its text, or another exception, which is not caught.
\<close>

type_synonym 'a parsed = "(py_error \<times> string) + 'a"

text \<open>
  The loop \<open>for attempt in range(1 + max_retries)\<close> of \<open>llm_call_with_parse_retry\<close>; the first
  argument counts the attempts left, the second is the attempt's number.
\<close>

fun retry_loop ::
  "nat \<Rightarrow> nat \<Rightarrow> int \<Rightarrow> (nat \<Rightarrow> messages \<Rightarrow> string result) \<Rightarrow> (string \<Rightarrow> 'a parsed) \<Rightarrow> messages \<Rightarrow>
   (string \<times> 'a) result" where
  "retry_loop 0 i lg client parse msgs = Inl ParseError"
| "retry_loop (Suc n) i lg client parse msgs =
     (case client i msgs of
        Inl e \<Rightarrow> Inl e
      | Inr reply \<Rightarrow>
          let last_text = py_strip reply
          in if last_text = [] then
               retry_loop n (Suc i) lg client parse
                 (if n > 0 then append_correction lg msgs last_text ''the reply is empty'' else msgs)
             else
               (case parse last_text of
                  Inr v \<Rightarrow> Inr (last_text, v)
                | Inl (ValueError, msg) \<Rightarrow>
                    retry_loop n (Suc i) lg client parse
                      (if n > 0 then append_correction lg msgs last_text msg else msgs)
                | Inl (e, _) \<Rightarrow> Inl e))"

definition llm_call_with_parse_retry ::
  "int \<Rightarrow> int \<Rightarrow> (nat \<Rightarrow> messages \<Rightarrow> string result) \<Rightarrow> (string \<Rightarrow> 'a parsed) \<Rightarrow> messages \<Rightarrow> (string \<times> 'a) result" where
  "llm_call_with_parse_retry max_retries lg client parse msgs =
     retry_loop (nat (1 + max_retries)) 0 lg client parse msgs"

section \<open>Streaming calls and their events\<close>

datatype delta_event =
    Delta_start
  | Delta_chunk string
  | Delta_reset
  | Delta_end
  | Delta_end_error string
  | Delta_end_cancelled

text \<open>
  One stream: the events the client yields, \<open>Inl e\<close> an exception in mid-stream, and the
  answers of the cancel test, one per event.  The accumulated text and the chunks sent.
\<close>

datatype stream_item = Text string | Thinking string | Broken py_error

fun stream_accumulate :: "(stream_item \<times> bool) list \<Rightarrow> string result \<times> delta_event list" where
  "stream_accumulate [] = (Inr [], [])"
| "stream_accumulate ((Broken e, c) # evs) = (Inl e, [])"
| "stream_accumulate ((Thinking t, c) # evs) =
     (if c then (Inl CancelledErr, []) else stream_accumulate evs)"
| "stream_accumulate ((Text t, c) # evs) =
     (if c then (Inl CancelledErr, [])
      else if t = [] then stream_accumulate evs
      else let (r, ds) = stream_accumulate evs
           in (result_bind r (\<lambda>s. Inr (t @ s)), Delta_chunk t # ds))"

text \<open>
  \<open>_stream_parse_with_retries\<close>: the loop with its reset events, and the \<open>PARSE_FAIL\<close> end
  when the attempts are used up.
\<close>

fun stream_loop ::
  "nat \<Rightarrow> nat \<Rightarrow> int \<Rightarrow> (nat \<Rightarrow> messages \<Rightarrow> (stream_item \<times> bool) list) \<Rightarrow> (string \<Rightarrow> 'a parsed) \<Rightarrow> messages \<Rightarrow>
   (string \<times> 'a) result \<times> delta_event list" where
  "stream_loop 0 i lg client parse msgs = (Inl ParseError, [Delta_end_error ''PARSE_FAIL''])"
| "stream_loop (Suc n) i lg client parse msgs =
     (let rs = (if i > 0 then [Delta_reset] else []);
          (r, ds) = stream_accumulate (client i msgs)
      in case r of
           Inl e \<Rightarrow> (Inl e, rs @ ds)
         | Inr last_text \<Rightarrow>
             (case parse last_text of
                Inr v \<Rightarrow> (Inr (last_text, v), rs @ ds)
              | Inl (ValueError, msg) \<Rightarrow>
                  let (r', es) = stream_loop n (Suc i) lg client parse
                        (if n > 0 then append_correction lg msgs last_text msg else msgs)
                  in (r', rs @ ds @ es)
              | Inl (e, _) \<Rightarrow> (Inl e, rs @ ds)))"

text \<open>
  \<open>llm_stream_with_parse_retry\<close>: start, the loop, and the end event of each way out.  The loop
  has already sent the end event of a parse failure.
\<close>

definition llm_stream_with_parse_retry ::
  "int \<Rightarrow> int \<Rightarrow> (nat \<Rightarrow> messages \<Rightarrow> (stream_item \<times> bool) list) \<Rightarrow> (string \<Rightarrow> 'a parsed) \<Rightarrow> messages \<Rightarrow>
   (string \<times> 'a) result \<times> delta_event list" where
  "llm_stream_with_parse_retry max_retries lg client parse msgs =
     (let (r, ds) = stream_loop (nat (1 + max_retries)) 0 lg client parse msgs
      in (r, Delta_start # ds @
             (case r of
                Inr _ \<Rightarrow> [Delta_end]
              | Inl CancelledErr \<Rightarrow> [Delta_end_cancelled]
              | Inl ParseError \<Rightarrow> []
              | Inl _ \<Rightarrow> [Delta_end_error ''STREAM_ERROR''])))"

section \<open>JSON extraction\<close>

definition fence :: string where "fence = ''```''"

text \<open>\<open>_strip_code_fence\<close>: the text between the first fence, with its \<open>json\<close> tag, and the next.\<close>

definition strip_code_fence :: "string \<Rightarrow> string" where
  "strip_code_fence raw =
     (case split_once fence raw of
        None \<Rightarrow> raw
      | Some (_, rest) \<Rightarrow>
          let body = (if starts_with rest ''json'' then drop 4 rest else rest)
          in (case split_once fence body of None \<Rightarrow> raw | Some (inner, _) \<Rightarrow> py_strip inner))"

text \<open>The span from the first opening brace to the last closing one, if there is one.\<close>

definition json_object_span :: "string \<Rightarrow> string option" where
  "json_object_span raw =
     (let s = dropWhile (\<lambda>c. c \<noteq> CHR ''{'') raw;
          t = rev (dropWhile (\<lambda>c. c \<noteq> CHR ''}'') (rev s))
      in if t = [] then None else Some t)"

text \<open>\<open>extract_json(strict=False)\<close>; \<open>loads\<close> is \<open>json.loads\<close>, \<open>None\<close> its decode error.\<close>

definition extract_json :: "(string \<Rightarrow> 'j option) \<Rightarrow> string \<Rightarrow> 'j option" where
  "extract_json loads raw =
     (case loads (strip_code_fence raw) of
        Some v \<Rightarrow> Some v
      | None \<Rightarrow> (case json_object_span raw of None \<Rightarrow> None | Some t \<Rightarrow> loads t))"

section \<open>Facts about the retry loop\<close>

text \<open>Which replies count as a format failure, with the text the correction quotes.\<close>

definition format_failure :: "(string \<Rightarrow> 'a parsed) \<Rightarrow> string \<Rightarrow> string option" where
  "format_failure parse reply =
     (if py_strip reply = [] then Some ''the reply is empty''
      else case parse (py_strip reply) of Inl (ValueError, msg) \<Rightarrow> Some msg | _ \<Rightarrow> None)"

text \<open>The messages sent in attempt \<open>k\<close>, while every earlier attempt was a format failure.\<close>

fun attempt_messages ::
  "nat \<Rightarrow> nat \<Rightarrow> int \<Rightarrow> (nat \<Rightarrow> messages \<Rightarrow> string result) \<Rightarrow> (string \<Rightarrow> 'a parsed) \<Rightarrow> messages \<Rightarrow> messages option" where
  "attempt_messages i 0 lg client parse msgs = Some msgs"
| "attempt_messages i (Suc k) lg client parse msgs =
     (case client i msgs of
        Inl e \<Rightarrow> None
      | Inr reply \<Rightarrow>
          (case format_failure parse reply of
             None \<Rightarrow> None
           | Some msg \<Rightarrow>
               attempt_messages (Suc i) k lg client parse (append_correction lg msgs (py_strip reply) msg)))"

lemma attempt_messages_length:
  "attempt_messages i k lg client parse msgs = Some ms \<Longrightarrow> length ms = length msgs + k"
  by (induction i k lg client parse msgs rule: attempt_messages.induct)
     (auto simp: append_correction_def split: sum.splits option.splits)

lemma attempt_messages_prefix:
  "attempt_messages i k lg client parse msgs = Some ms \<Longrightarrow> take (length msgs) ms = msgs"
proof (induction i k lg client parse msgs rule: attempt_messages.induct)
  case (2 i k lg client parse msgs)
  then obtain reply msg where r: "client i msgs = Inr reply" "format_failure parse reply = Some msg"
    by (auto split: sum.splits option.splits)
  with "2.IH" [OF r] "2.prems"
  have "take (length (append_correction lg msgs (py_strip reply) msg)) ms =
      append_correction lg msgs (py_strip reply) msg" by simp
  then have "take (length msgs) (take (length (append_correction lg msgs (py_strip reply) msg)) ms) = msgs"
    by (simp add: append_correction_def)
  then show ?case by (simp add: append_correction_def min_def)
qed simp

text \<open>One attempt, without the case distinctions of the code.\<close>

lemma retry_loop_Suc:
  "retry_loop (Suc n) i lg client parse msgs =
     (case client i msgs of
        Inl e \<Rightarrow> Inl e
      | Inr reply \<Rightarrow>
          (case format_failure parse reply of
             Some msg \<Rightarrow>
               retry_loop n (Suc i) lg client parse
                 (if n > 0 then append_correction lg msgs (py_strip reply) msg else msgs)
           | None \<Rightarrow> (case parse (py_strip reply) of Inr v \<Rightarrow> Inr (py_strip reply, v) | Inl (e, _) \<Rightarrow> Inl e)))"
  by (auto simp: format_failure_def Let_def split: sum.splits prod.splits py_error.splits)

lemma retry_loop_0_any: "retry_loop 0 i lg client parse msgs = retry_loop 0 i lg client parse msgs'"
  by simp

lemma retry_loop_Inr_iff:
  "retry_loop n i lg client parse msgs = Inr (t, v) \<longleftrightarrow>
     (\<exists>k<n. \<exists>ms reply. attempt_messages i k lg client parse msgs = Some ms \<and>
        client (i + k) ms = Inr reply \<and> t = py_strip reply \<and> t \<noteq> [] \<and> parse t = Inr v)"
proof (induction n arbitrary: i msgs)
  case (Suc n)
  show ?case
  proof (cases "client i msgs")
    case (Inl e)
    have only: "attempt_messages i k lg client parse msgs = Some ms \<Longrightarrow> k = 0 \<and> ms = msgs" for k ms
      using Inl by (cases k) auto
    from Inl show ?thesis by (auto simp: retry_loop_Suc simp del: retry_loop.simps dest!: only)
  next
    case (Inr reply)
    show ?thesis
    proof (cases "format_failure parse reply")
      case None
      have only: "attempt_messages i k lg client parse msgs = Some ms \<Longrightarrow> k = 0 \<and> ms = msgs" for k ms
        using Inr None by (cases k) auto
      have "(case parse (py_strip reply) of Inr v \<Rightarrow> Inr (py_strip reply, v) | Inl (e, _) \<Rightarrow> Inl e) =
          (Inr (t, v) :: (string \<times> 'a) result) \<longleftrightarrow> t = py_strip reply \<and> t \<noteq> [] \<and> parse t = Inr v"
        using None by (auto simp: format_failure_def split: sum.splits if_splits)
      then show ?thesis using Inr None
        by (auto simp: retry_loop_Suc simp del: retry_loop.simps dest!: only intro!: exI [of _ 0])
    next
      case (Some msg)
      let ?m = "append_correction lg msgs (py_strip reply) msg"
      have no0: "\<not> (t = py_strip reply \<and> t \<noteq> [] \<and> parse t = Inr v)"
        using Some by (auto simp: format_failure_def split: if_splits)
      have "retry_loop (Suc n) i lg client parse msgs = retry_loop n (Suc i) lg client parse ?m"
        using Inr Some by (cases n) (simp_all add: retry_loop_Suc del: retry_loop.simps(2))
      with Suc.IH [of "Suc i" ?m] have *: "retry_loop (Suc n) i lg client parse msgs = Inr (t, v) \<longleftrightarrow>
          (\<exists>k<n. \<exists>ms reply. attempt_messages (Suc i) k lg client parse ?m = Some ms \<and>
             client (Suc i + k) ms = Inr reply \<and> t = py_strip reply \<and> t \<noteq> [] \<and> parse t = Inr v)" by simp
      have step: "attempt_messages i (Suc k) lg client parse msgs = attempt_messages (Suc i) k lg client parse ?m" for k
        using Inr Some by simp
      show ?thesis unfolding * Ex_less_Suc2 using no0 Inr step Some by auto
    qed
  qed
qed simp

section \<open>Facts about the event stream\<close>

definition is_chunk :: "delta_event \<Rightarrow> bool" where
  "is_chunk d = (case d of Delta_chunk _ \<Rightarrow> True | _ \<Rightarrow> False)"

definition is_end :: "delta_event \<Rightarrow> bool" where
  "is_end d = (case d of Delta_end \<Rightarrow> True | Delta_end_error _ \<Rightarrow> True | Delta_end_cancelled \<Rightarrow> True | _ \<Rightarrow> False)"

text \<open>The documented protocol \<open>start, chunk*, (reset, chunk*)*, end\<close> as an automaton.\<close>

fun body_ok :: "delta_event list \<Rightarrow> bool" where
  "body_ok [] = False"
| "body_ok [d] = is_end d"
| "body_ok (d # e # ds) = ((is_chunk d \<or> d = Delta_reset) \<and> body_ok (e # ds))"

fun protocol_ok :: "delta_event list \<Rightarrow> bool" where
  "protocol_ok (Delta_start # ds) = body_ok ds"
| "protocol_ok _ = False"

lemma body_ok_append:
  "\<forall>d\<in>set ds. is_chunk d \<or> d = Delta_reset \<Longrightarrow> body_ok (ds @ es) = body_ok es \<or> es = []"
proof (induction ds)
  case (Cons d ds)
  then show ?case by (cases "ds @ es") auto
qed simp

lemma body_okI:
  "\<forall>d\<in>set ds. is_chunk d \<or> d = Delta_reset \<Longrightarrow> is_end e \<Longrightarrow> body_ok (ds @ [e])"
  using body_ok_append [of ds "[e]"] by simp

lemma stream_accumulate_chunks: "stream_accumulate evs = (r, ds) \<Longrightarrow> \<forall>d\<in>set ds. is_chunk d"
  by (induction evs arbitrary: r ds rule: stream_accumulate.induct)
     (auto simp: is_chunk_def split: if_splits prod.splits)

text \<open>The text returned is the concatenation of the chunks sent.\<close>

fun chunk_text :: "delta_event \<Rightarrow> string" where
  "chunk_text (Delta_chunk t) = t"
| "chunk_text _ = []"

lemma stream_accumulate_text:
  "stream_accumulate evs = (Inr s, ds) \<Longrightarrow> s = concat (map chunk_text ds)"
  by (induction evs arbitrary: s ds rule: stream_accumulate.induct)
     (auto simp: result_bind_Inr_iff split: if_splits prod.splits)

text \<open>The events of the loop: chunks and resets, and a last \<open>PARSE_FAIL\<close> on exhaustion.\<close>

definition no_parse_error :: "(nat \<Rightarrow> messages \<Rightarrow> (stream_item \<times> bool) list) \<Rightarrow> (string \<Rightarrow> 'a parsed) \<Rightarrow> bool" where
  "no_parse_error client parse \<longleftrightarrow>
     (\<forall>i ms. \<forall>ev\<in>set (client i ms). fst ev \<noteq> Broken ParseError) \<and>
     (\<forall>s msg. parse s \<noteq> Inl (ParseError, msg))"

lemma stream_accumulate_no_parse_error:
  "stream_accumulate evs = (Inl e, ds) \<Longrightarrow> \<forall>ev\<in>set evs. fst ev \<noteq> Broken ParseError \<Longrightarrow> e \<noteq> ParseError"
  by (induction evs arbitrary: e ds rule: stream_accumulate.induct)
     (auto split: if_splits prod.splits, (metis result_bind.simps sum.exhaust sum.simps(4))+)

lemma stream_loop_events:
  assumes "stream_loop n i lg client parse msgs = (r, ds)" and "no_parse_error client parse"
  shows "if r = Inl ParseError
     then \<exists>es. ds = es @ [Delta_end_error ''PARSE_FAIL''] \<and> (\<forall>d\<in>set es. is_chunk d \<or> d = Delta_reset)
     else \<forall>d\<in>set ds. is_chunk d \<or> d = Delta_reset"
  using assms
proof (induction n i lg client parse msgs arbitrary: r ds rule: stream_loop.induct)
  case (2 n i lg client parse msgs)
  obtain a cs where a: "stream_accumulate (client i msgs) = (a, cs)" by force
  let ?rs = "if i > 0 then [Delta_reset] else []"
  have cs: "\<forall>d\<in>set (?rs @ cs). is_chunk d \<or> d = Delta_reset"
    using stream_accumulate_chunks [OF a] by auto
  show ?case
  proof (cases a)
    case (Inl e)
    with "2.prems" a have "r = Inl e" "ds = ?rs @ cs" by (auto simp: Let_def)
    moreover have "e \<noteq> ParseError"
      using stream_accumulate_no_parse_error a Inl "2.prems"(2) unfolding no_parse_error_def by blast
    ultimately show ?thesis using cs by auto
  next
    case (Inr s)
    show ?thesis
    proof (cases "\<exists>msg. parse s = Inl (ValueError, msg)")
      case True
      then obtain msg where p: "parse s = Inl (ValueError, msg)" by blast
      let ?m = "if n > 0 then append_correction lg msgs s msg else msgs"
      obtain es where rec: "stream_loop n (Suc i) lg client parse ?m = (r, es)" "ds = ?rs @ cs @ es"
        using "2.prems"(1) a Inr p by (auto simp: Let_def split: prod.splits)
      note ih = "2.IH" [OF refl a [symmetric] refl Inr p refl refl rec(1) "2.prems"(2)]
      from ih rec(2) cs show ?thesis
        by (auto split: if_splits)
    next
      case False
      with "2.prems" a Inr have "ds = ?rs @ cs" and "r \<noteq> Inl ParseError"
        by (auto simp: Let_def no_parse_error_def split: sum.splits prod.splits py_error.splits)
      with cs show ?thesis by simp
    qed
  qed
qed simp

section \<open>Properties\<close>

text \<open>
  The retry contract.  With a non-negative bound a call returns \<open>(t, v)\<close> exactly when
  some attempt \<open>k\<close> of at most \<open>1 + max_retries\<close> gets the stripped, non-empty reply \<open>t\<close> with
  parse value \<open>v\<close>, every earlier attempt having been an empty or unparsable reply that was
  answered with one more correction message.
\<close>
theorem llm_retry_returns_first_parse:
  assumes "0 \<le> max_retries"
  shows "llm_call_with_parse_retry max_retries lg client parse msgs = Inr (t, v) \<longleftrightarrow>
     (\<exists>k ms reply. int k \<le> max_retries \<and> attempt_messages 0 k lg client parse msgs = Some ms \<and>
        length ms = length msgs + k \<and> client k ms = Inr reply \<and>
        t = py_strip reply \<and> t \<noteq> [] \<and> parse t = Inr v)"
proof -
  have b: "k < nat (1 + max_retries) \<longleftrightarrow> int k \<le> max_retries" for k using assms by linarith
  show ?thesis
    unfolding llm_call_with_parse_retry_def retry_loop_Inr_iff b
    by (auto dest: attempt_messages_length)
qed

theorem llm_retry_returns_first_parse_witness:
  "llm_call_with_parse_retry 1 0 (\<lambda>i ms. Inr (if i = 0 then [] else ''ok '')) (\<lambda>s. Inr (length s)) [] =
     Inr (''ok'', 2)"
proof -
  have "py_strip ''ok '' = ''ok''" and "py_strip [] = []"
    by (simp_all add: py_strip_def py_lstrip_def is_ascii_space_def)
  then show ?thesis
    by (subst llm_retry_returns_first_parse)
       (auto simp: format_failure_def append_correction_def intro!: exI [of _ 1])
qed

text \<open>
  C38: The delta protocol.  As long as neither the client nor the parser raises a parse error of
  its own, every streaming call sends \<open>start\<close>, then chunks and resets, then exactly one end
  event, last of all, on every way out: success, exhausted attempts, cancellation or a broken
  stream.
\<close>
theorem stream_events_follow_protocol:
  assumes "no_parse_error client parse" and "0 \<le> max_retries"
  shows "protocol_ok (snd (llm_stream_with_parse_retry max_retries lg client parse msgs))"
proof -
  obtain r ds where l: "stream_loop (nat (1 + max_retries)) 0 lg client parse msgs = (r, ds)" by force
  note ev = stream_loop_events [OF l assms(1)]
  show ?thesis
  proof (cases "r = Inl ParseError")
    case True
    with ev obtain es where "ds = es @ [Delta_end_error ''PARSE_FAIL'']"
      "\<forall>d\<in>set es. is_chunk d \<or> d = Delta_reset" by auto
    with True show ?thesis
      by (simp add: llm_stream_with_parse_retry_def l body_okI is_end_def)
  next
    case False
    with ev have ds: "\<forall>d\<in>set ds. is_chunk d \<or> d = Delta_reset" by simp
    then have "body_ok (ds @ [e])" if "is_end e" for e using body_okI that by blast
    with False show ?thesis
      by (cases r) (auto simp: llm_stream_with_parse_retry_def l is_end_def split: py_error.splits)
  qed
qed

theorem stream_events_follow_protocol_witness:
  "protocol_ok (snd (llm_stream_with_parse_retry 1 0
     (\<lambda>i ms. if i = 0 then [(Text ''{'', False)] else [(Text ''x'', True)])
     (\<lambda>s. Inl (ValueError, ''no JSON'') :: nat parsed) []))"
  by (rule stream_events_follow_protocol) (simp_all add: no_parse_error_def)

end
