(* ===== verification/TurnState.thy ===== *)
theory TurnState imports ReasonState begin

text \<open>
  \<open>PipelineState\<close> of \<open>src/src/agents/state/state.py\<close>: the whole shared state of the graph,
  the per-turn reset \<open>turn_reset_updates\<close>, the result and trace models
  (\<open>src/src/models/result.py\<close>, \<open>trace.py\<close>) and \<open>TurnSnapshot\<close>
  (\<open>src/src/agents/models/snapshot.py\<close>).
\<close>

text \<open>A cell of a result row: a \<open>Decimal\<close> or any JSON value.\<close>

datatype cell = Decimal rat | Plain json

record sql_result =
  sr_columns :: "string list"
  sr_rows :: "(string \<times> cell) list list"
  sr_row_count :: int
  sr_execution_time_ms :: rat

definition new_sql_result :: sql_result where
  "new_sql_result = \<lparr>sr_columns = [], sr_rows = [], sr_row_count = 0, sr_execution_time_ms = 0\<rparr>"

text \<open>
  \<open>ensure_json_serializable\<close>: only the first row is tested for decimals.  An integral
  decimal becomes an int, any other a float; both are \<open>JNum\<close>.
\<close>

fun is_decimal :: "cell \<Rightarrow> bool" where
  "is_decimal (Decimal q) = True"
| "is_decimal (Plain j) = False"

fun plain_cell :: "cell \<Rightarrow> cell" where
  "plain_cell (Decimal q) = Plain (JNum q)"
| "plain_cell (Plain j) = Plain j"

definition ensure_json_serializable :: "(string \<times> cell) list list \<Rightarrow> (string \<times> cell) list list" where
  "ensure_json_serializable v =
     (case v of [] \<Rightarrow> v
      | first # _ \<Rightarrow>
          if \<not> (\<exists>kv\<in>set first. is_decimal (snd kv)) then v
          else map (map (\<lambda>(k, c). (k, plain_cell c))) v)"

record visualization_data =
  vz_svg_code :: string
  vz_chart_type :: visualization_type
  vz_title :: string
  vz_judgment_reason :: string

definition new_visualization_data :: visualization_data where
  "new_visualization_data =
     \<lparr>vz_svg_code = [], vz_chart_type = Vis_NONE, vz_title = [], vz_judgment_reason = []\<rparr>"

record analysis_result =
  ar_summary :: string
  ar_initial_reading :: "string list"
  ar_insights :: "string list"
  ar_statistics :: "(string \<times> json) list"
  ar_action_items :: "string list"
  ar_reasoning_summary :: string

definition new_analysis_result :: analysis_result where
  "new_analysis_result = \<lparr>ar_summary = [], ar_initial_reading = [], ar_insights = [],
     ar_statistics = [], ar_action_items = [], ar_reasoning_summary = []\<rparr>"

record trace_entry =
  te_node :: string
  te_action :: string
  te_detail :: string
  te_timestamp :: string

record turn_snapshot =
  sn_user_message_seq :: int
  sn_intent :: intent_type
  sn_generated_sql :: "string option"
  sn_sql_explanation :: string
  sn_result_data :: "json option"
  sn_visualization :: "json option"
  sn_selected_tables :: "table_meta list"
  sn_explored_codes :: "(string \<times> code_meta) list"
  sn_normalized_query :: "normalized_query option"
  sn_knowledge_items :: "knowledge_item list"
  sn_query_decomposition :: decomposition
  sn_target_db :: string
  sn_inferred_signals :: "json list"

record pipeline_state =
  user_input :: string
  session_id :: string
  original_query :: string
  conversation_history :: "(string \<times> string) list list"
  turn_id :: string
  preprocessed_input :: string
  analysis_query :: string
  intent :: intent_type
  intent_confidence :: rat
  query_category :: string
  is_continuation :: bool
  needs_analyzer :: bool
  continue_context :: string
  normalized_query :: "normalized_query option"
  pending_signals :: "ambiguity_signal list"
  resolved_signals :: "ambiguity_signal list"
  reason :: reasoning_state
  sql_result :: sql_result
  analysis_result :: analysis_result
  visualization :: visualization_data
  formatted_response :: string
  result_data :: "json option"
  process_summary :: "json option"
  streaming_enabled :: bool
  streaming_delivered :: bool
  status :: query_status
  error_message :: string
  trace_log :: "trace_entry list"
  turn_snapshots :: "turn_snapshot list"
  reference_turns :: "string list"
  route :: "continue_route option"
  handoff_note :: string
  current_user_message_seq :: "int option"

text \<open>\<open>PipelineState()\<close>, every field at its default.\<close>

definition new_pipeline_state :: pipeline_state where
  "new_pipeline_state =
     \<lparr>user_input = [], session_id = [], original_query = [], conversation_history = [],
      turn_id = [], preprocessed_input = [], analysis_query = [], intent = UNKNOWN,
      intent_confidence = 0, query_category = [], is_continuation = False,
      needs_analyzer = False, continue_context = [], normalized_query = None,
      pending_signals = [], resolved_signals = [], reason = new_reasoning_state,
      sql_result = new_sql_result, analysis_result = new_analysis_result,
      visualization = new_visualization_data, formatted_response = [], result_data = None,
      process_summary = None, streaming_enabled = False, streaming_delivered = False,
      status = QS_PENDING, error_message = [], trace_log = [], turn_snapshots = [],
      reference_turns = [], route = None, handoff_note = [], current_user_message_seq = None\<rparr>"

text \<open>\<open>add_trace\<close>: the log with one more entry; the clock is an argument.\<close>

definition add_trace :: "string \<Rightarrow> pipeline_state \<Rightarrow> string \<Rightarrow> string \<Rightarrow> string \<Rightarrow> trace_entry list" where
  "add_trace now s node action detail =
     trace_log s @ [\<lparr>te_node = node, te_action = action, te_detail = detail, te_timestamp = now\<rparr>]"

text \<open>
  \<open>turn_reset_updates\<close>, applied to the state as the graph applies a node's updates: the
  listed keys are overwritten, every other field is kept.
\<close>

definition turn_reset :: "pipeline_state \<Rightarrow> pipeline_state" where
  "turn_reset s = s\<lparr>
     analysis_query := [],
     intent := UNKNOWN,
     intent_confidence := 0,
     query_category := [],
     is_continuation := False,
     needs_analyzer := False,
     continue_context := [],
     normalized_query := None,
     pending_signals := [],
     resolved_signals := [],
     reason := new_reasoning_state,
     sql_result := new_sql_result,
     analysis_result := new_analysis_result,
     visualization := new_visualization_data,
     formatted_response := [],
     result_data := None,
     process_summary := None,
     streaming_enabled := False,
     streaming_delivered := False,
     status := QS_PENDING,
     error_message := [],
     trace_log := [],
     reference_turns := [],
     route := None,
     handoff_note := [],
     current_user_message_seq := None\<rparr>"

text \<open>
  What \<open>turn_reset\<close> may not touch: the fields the runner sets for the turn and the session's
  snapshots.  A state is determined by this part and the turn-scoped part.
\<close>

definition session_part ::
  "pipeline_state \<Rightarrow> string \<times> string \<times> string \<times> (string \<times> string) list list \<times> string \<times> string \<times> turn_snapshot list" where
  "session_part s = (user_input s, session_id s, original_query s, conversation_history s,
     turn_id s, preprocessed_input s, turn_snapshots s)"

lemma turn_reset_session_part: "session_part (turn_reset s) = session_part s"
  by (simp add: session_part_def turn_reset_def)

lemma turn_reset_status [simp]: "status (turn_reset s) = QS_PENDING"
  and turn_reset_reason [simp]: "reason (turn_reset s) = new_reasoning_state"
  and turn_reset_pending [simp]: "pending_signals (turn_reset s) = []"
  and turn_reset_error [simp]: "error_message (turn_reset s) = []"
  and turn_reset_route [simp]: "route (turn_reset s) = None"
  by (simp_all add: turn_reset_def)

text \<open>The state after a reset is a fresh state with the session part of the old one.\<close>

definition fresh_turn ::
  "string \<times> string \<times> string \<times> (string \<times> string) list list \<times> string \<times> string \<times> turn_snapshot list \<Rightarrow> pipeline_state" where
  "fresh_turn p = (case p of (ui, sid, oq, hist, tid, pre, snaps) \<Rightarrow>
     new_pipeline_state\<lparr>user_input := ui, session_id := sid, original_query := oq,
       conversation_history := hist, turn_id := tid, preprocessed_input := pre,
       turn_snapshots := snaps\<rparr>)"

lemma turn_reset_fresh: "turn_reset s = fresh_turn (session_part s)"
  by (cases s) (simp only: turn_reset_def fresh_turn_def session_part_def new_pipeline_state_def
      pipeline_state.update_convs pipeline_state.select_convs prod.case)


text \<open>
  The turn reset is the first node of the graph, after the runner has filled the initial
  state, and it clears two fields the runner has just set for this very turn: the client's
  streaming choice and the sequence number of the stored user message never reach a later
  node.
\<close>
theorem turn_reset_drops_runner_fields:
  "streaming_enabled (turn_reset (s\<lparr>streaming_enabled := b, current_user_message_seq := n\<rparr>)) = False \<and>
   current_user_message_seq (turn_reset (s\<lparr>streaming_enabled := b, current_user_message_seq := n\<rparr>)) = None"
  by (simp add: turn_reset_def)

end
