(* ===== verification/SqlGenerator.thy ===== *)
theory SqlGenerator imports Connectors LlmRetry TurnState begin

text \<open>
  The SQL generator node (\<open>src/src/agents/nodes/reason/sql_generator.py\<close>): what it writes to
  the state for each outcome of the model call, the reading of the reply, the texts that
  describe tables and code values, and the conversion of assumptions into signals.  The call's
  outcome is an argument; the system prompts themselves are not modelled.
\<close>

section \<open>Table descriptions\<close>

definition format_table_header :: "table_meta \<Rightarrow> string" where
  "format_table_header ct =
     ''- '' @ qualified_name ct @
     (if tm_alt_name ct \<noteq> [] then '' ('' @ tm_alt_name ct @ '')'' else []) @
     (if tm_subject_area ct \<noteq> [] then '' ['' @ tm_subject_area ct @ '']'' else []) @
     (if tm_description ct \<noteq> [] then '': '' @ tm_description ct else []) @
     (if tm_selection_status ct = REFERENCE
      then newline @ ''  [reference] for reading the SQL history, do not use it for SQL generation.'' else [])"

definition format_column_line :: "column_info \<Rightarrow> string" where
  "format_column_line c =
     ''    '' @ col_name c @
     (if col_alt_name c \<noteq> [] then ''('' @ col_alt_name c @ '')'' else []) @
     (if col_type c \<noteq> [] then '' '' @ col_type c else []) @
     (if col_is_pk c then '' (PK)'' else []) @
     (if col_description c \<noteq> [] then '' -- '' @ col_description c else [])"

definition format_columns :: "table_meta \<Rightarrow> string list" where
  "format_columns ct =
     (if tm_columns ct = [] then [] else ''  columns:'' # map format_column_line (tm_columns ct))"

text \<open>
  The code values of the columns of the given tables: columns without codes and columns of
  other tables are left out.
\<close>

definition table_columns :: "table_meta list \<Rightarrow> string set" where
  "table_columns ts = (\<Union>ct\<in>set ts. col_name ` set (tm_columns ct))"

definition code_line :: "string \<times> code_meta \<Rightarrow> string" where
  "code_line kv =
     (case kv of (col, cm) \<Rightarrow>
        ''- '' @ col @ (if cm_column_desc cm \<noteq> [] then '' ('' @ cm_column_desc cm @ '')'' else []) @ '': '' @
        py_join '', '' (map (\<lambda>(k, v). k @ ''='' @ v) (cm_codes cm)))"

definition relevant_codes :: "table_meta list \<Rightarrow> (string \<times> code_meta) list \<Rightarrow> (string \<times> code_meta) list" where
  "relevant_codes ts codes = filter (\<lambda>(col, cm). col \<in> table_columns ts \<and> cm_codes cm \<noteq> []) codes"

definition format_codes_for_tables :: "table_meta list \<Rightarrow> (string \<times> code_meta) list \<Rightarrow> string" where
  "format_codes_for_tables ts codes =
     (if codes = [] then ''(none)''
      else let lines = map code_line (relevant_codes ts codes)
           in if lines \<noteq> [] then py_join newline lines else ''(none)'')"

text \<open>The tables the generator's prompt lists.\<close>

definition generator_tables :: "reasoning_state \<Rightarrow> table_meta list" where
  "generator_tables r = filter (\<lambda>t. tm_selection_status t \<in> {SELECTED, REFERENCE}) (explored_tables r)"

text \<open>
  The retry section of the user message: earlier failures numbered from 1, the current one
  last.  The last entry of the history is the current reason, appended on entry.
\<close>

definition fix_history_section :: "reasoning_state \<Rightarrow> string \<Rightarrow> string" where
  "fix_history_section r reason_text =
     (let prevs = butlast (fix_history r);
          history = (if length (fix_history r) > 1
                     then [''### Approaches that failed in earlier attempts''] @
                          map (\<lambda>(i, p). ''[attempt '' @ str_int (int i) @ ''] '' @ p) (enumerate 1 prevs) @ [[]]
                     else [])
      in py_join newline (history @ [''### Current problem (must be fixed)'', reason_text]))"

section \<open>Reading the reply\<close>

record sql_reply =
  rp_status :: string
  rp_sql :: string
  rp_reasoning_summary :: json
  rp_failure_reasons :: json
  rp_assumptions :: json
  rp_explanation :: json

text \<open>\<open>_clean_sql_response\<close>: the lines inside fences, or the whole reply when there is none.\<close>

fun fenced_lines :: "bool \<Rightarrow> string list \<Rightarrow> string list" where
  "fenced_lines in_block [] = []"
| "fenced_lines in_block (l # ls) =
     (if starts_with (py_strip l) fence then fenced_lines (\<not> in_block) ls
      else if in_block then l # fenced_lines in_block ls
      else fenced_lines in_block ls)"

definition clean_sql_response :: "string \<Rightarrow> string" where
  "clean_sql_response raw =
     (if \<not> contains raw fence then py_strip raw
      else py_strip (py_join newline (fenced_lines False (split_char (char_of (10 :: nat)) raw))))"

text \<open>
  \<open>str(data.get("status", "success")).lower()\<close>, replaced by \<open>fail\<close> when it is neither word; the
  string of a value that is no string is never one of the two.
\<close>

definition reply_status :: "json \<Rightarrow> string" where
  "reply_status v =
     (case v of
        JStr s \<Rightarrow> if py_lower s \<in> {''success'', ''fail''} then py_lower s else ''fail''
      | _ \<Rightarrow> ''fail'')"

text \<open>
  \<open>_parse_sql_response\<close>.  A \<open>sql\<close> entry that is no string raises an attribute error, which the
  retry loop does not catch.
\<close>

definition parse_sql_response :: "(string \<Rightarrow> json option) \<Rightarrow> string \<Rightarrow> sql_reply parsed" where
  "parse_sql_response loads raw =
     (case extract_json loads raw of
        Some (JObj kvs) \<Rightarrow>
          if kvs \<noteq> [] then
            (case obj_get kvs ''sql'' (JStr []) of
               JStr sql \<Rightarrow>
                 Inr \<lparr>rp_status = reply_status (obj_get kvs ''status'' (JStr ''success'')),
                      rp_sql = py_strip sql,
                      rp_reasoning_summary = obj_get kvs ''reasoning_summary'' (JStr []),
                      rp_failure_reasons = obj_get kvs ''failure_reasons'' (obj_get kvs ''reasons'' (JList [])),
                      rp_assumptions = obj_get kvs ''assumptions'' (JList []),
                      rp_explanation = obj_get kvs ''explanation'' (JStr [])\<rparr>
             | _ \<Rightarrow> Inl (AttributeError, ''strip''))
          else if clean_sql_response raw \<noteq> []
            then Inr \<lparr>rp_status = ''success'', rp_sql = clean_sql_response raw, rp_reasoning_summary = JStr [],
                      rp_failure_reasons = JList [], rp_assumptions = JList [], rp_explanation = JStr []\<rparr>
            else Inl (ValueError, ''no SQL can be extracted: JSON parse failure, no code block'')
      | _ \<Rightarrow>
          if clean_sql_response raw \<noteq> []
          then Inr \<lparr>rp_status = ''success'', rp_sql = clean_sql_response raw, rp_reasoning_summary = JStr [],
                    rp_failure_reasons = JList [], rp_assumptions = JList [], rp_explanation = JStr []\<rparr>
          else Inl (ValueError, ''no SQL can be extracted: JSON parse failure, no code block''))"

definition call_llm_for_sql ::
  "int \<Rightarrow> int \<Rightarrow> (nat \<Rightarrow> messages \<Rightarrow> string result) \<Rightarrow> (string \<Rightarrow> json option) \<Rightarrow> string \<Rightarrow> (string \<times> sql_reply) result" where
  "call_llm_for_sql max_retries lg client loads query =
     llm_call_with_parse_retry max_retries lg client (parse_sql_response loads) [(''user'', query)]"

section \<open>The node\<close>

fun error_name :: "py_error \<Rightarrow> string" where
  "error_name ValueError = ''ValueError''"
| "error_name ParseError = ''ParseError''"
| "error_name TypeErr = ''TypeError''"
| "error_name AttributeError = ''AttributeError''"
| "error_name KeyErr = ''KeyError''"
| "error_name IndexErr = ''IndexError''"
| "error_name TimeoutErr = ''TimeoutError''"
| "error_name RuntimeErr = ''RuntimeError''"
| "error_name CancelledErr = ''CancelledError''"
| "error_name OtherError = ''Exception''"

definition failed_call_reply :: "py_error \<Rightarrow> sql_reply" where
  "failed_call_reply e =
     \<lparr>rp_status = ''fail'', rp_sql = [], rp_reasoning_summary = JStr [],
      rp_failure_reasons = JList [JStr (''LLM call error: '' @ error_name e)],
      rp_assumptions = JList [], rp_explanation = JStr []\<rparr>"

text \<open>
  \<open>"\n".join(v)\<close> of a JSON value: a list of strings, the keys of a dict, a type error for
  anything else but a string (whose characters are joined; its bytes are, here, so only
  ASCII strings are joined as the code does).
\<close>

fun json_strings :: "json list \<Rightarrow> string list result" where
  "json_strings [] = Inr []"
| "json_strings (JStr s # vs) = result_bind (json_strings vs) (\<lambda>ss. Inr (s # ss))"
| "json_strings (_ # vs) = Inl TypeErr"

fun join_json :: "string \<Rightarrow> json \<Rightarrow> string result" where
  "join_json sep (JList vs) = result_bind (json_strings vs) (\<lambda>ss. Inr (py_join sep ss))"
| "join_json sep (JObj kvs) = Inr (py_join sep (map fst kvs))"
| "join_json sep (JStr s) = Inr (py_join sep (map (\<lambda>c. [c]) s))"
| "join_json sep _ = Inl TypeErr"

definition reply_succeeds :: "sql_reply \<Rightarrow> bool" where
  "reply_succeeds rp \<longleftrightarrow> rp_status rp = ''success'' \<and> rp_sql rp \<noteq> []"

text \<open>
  The text fields the state declares as \<open>str\<close> and \<open>list[str]\<close> are assigned unchecked; a value
  of another type is kept here as far as later code can read it as text.
\<close>

definition json_text :: "json \<Rightarrow> string" where
  "json_text v = (case v of JStr s \<Rightarrow> s | _ \<Rightarrow> [])"

definition json_text_list :: "json \<Rightarrow> string list" where
  "json_text_list v = (case v of JList vs \<Rightarrow> map json_text vs | _ \<Rightarrow> [])"

text \<open>On entry: the phase, and the last failure is appended to the history of fixes.\<close>

definition enter_generator :: "reasoning_state \<Rightarrow> reasoning_state" where
  "enter_generator r =
     r\<lparr>phase := GENERATING,
       fix_history := fix_history r @
         (case failure_reason r of None \<Rightarrow> [] | Some t \<Rightarrow> if t \<noteq> [] then [t] else [])\<rparr>"

definition generator_success :: "sql_reply \<Rightarrow> reasoning_state \<Rightarrow> reasoning_state" where
  "generator_success rp r =
     r\<lparr>loop_guard := increment_generate (loop_guard r),
       generated_sql := Some (rp_sql rp),
       sql_explanation := json_text (rp_explanation rp),
       failure_type := None,
       failure_reason := None,
       pending_assumptions := json_text_list (rp_assumptions rp)\<rparr>"

definition generator_refusal :: "sql_reply \<Rightarrow> reasoning_state \<Rightarrow> reasoning_state result" where
  "generator_refusal rp r =
     result_bind
       (if json_true (rp_failure_reasons rp) then join_json newline (rp_failure_reasons rp)
        else Inr ''SQL generation failed (no reason given)'') (\<lambda>text.
     Inr (r\<lparr>generated_sql := None, pending_assumptions := [],
            failure_type := Some GENERATION_FAILED, failure_reason := Some text,
            recovery_entry_source := Some ES_SQL_GENERATOR\<rparr>))"

text \<open>
  \<open>sql_generator_node\<close>.  The connector is resolved before the model is called; every exception
  of the call but a cancellation becomes a refusal.
\<close>

definition sql_generator_reason ::
  "settings \<Rightarrow> (string \<times> connector) list \<Rightarrow> sql_reply result \<Rightarrow> reasoning_state \<Rightarrow> reasoning_state result" where
  "sql_generator_reason cfg dbs outcome r =
     (let r1 = enter_generator r
      in result_bind (get_query_db cfg dbs (target_db r1) []) (\<lambda>db.
         result_bind
           (case outcome of Inr rp \<Rightarrow> Inr rp
            | Inl CancelledErr \<Rightarrow> Inl CancelledErr
            | Inl e \<Rightarrow> Inr (failed_call_reply e)) (\<lambda>rp.
         if reply_succeeds rp then Inr (generator_success rp r1)
         else generator_refusal rp r1)))"

section \<open>Assumption signals\<close>

definition arrow :: string where "arrow = utf8 [226, 134, 146]"

definition assumption_signal :: "string \<Rightarrow> string \<Rightarrow> ambiguity_signal" where
  "assumption_signal tid text =
     (let (question, inferred) =
        (case split_once arrow text of
           Some (q, v) \<Rightarrow> (py_strip q, py_strip v)
         | None \<Rightarrow>
             (case split_once ''->'' text of
                Some (q, v) \<Rightarrow> (py_strip q, py_strip v)
              | None \<Rightarrow> (text, text)))
      in \<lparr>sg_source_node = ''sql_generator'', sg_ambiguity_type = AT_INTENT, sg_decision = INFER,
          sg_confidence = CL_MEDIUM, sg_question = question, sg_question_type = CONFIRM,
          sg_options = [], sg_inferred_value = Some inferred,
          sg_reasoning = ''interpretive choice made when generating SQL'', sg_override_reason = None,
          sg_answer = None, sg_resolved_at = None, sg_turn_id = Some tid\<rparr>)"

definition build_assumption_signals :: "string list \<Rightarrow> string \<Rightarrow> ambiguity_signal list" where
  "build_assumption_signals assumptions tid = map (assumption_signal tid) assumptions"

text \<open>
  \<open>_cross_check_reasoning_summary\<close>: tables the summary mentions that the SQL does not use.  The
  table names found in either text are arguments (a regular expression and a SQL parser).
\<close>

definition missing_in_sql :: "string \<Rightarrow> string \<Rightarrow> string list \<Rightarrow> string list \<Rightarrow> string list" where
  "missing_in_sql summary sql mentioned sql_tables =
     (if summary = [] \<or> sql = [] then []
      else let used = set (map py_upper sql_tables);
               named = set (map py_upper mentioned)
           in if used = {} \<or> named = {} \<or> named - used = {} then []
              else sorted_list_of_set (named - used))"

lemma char_of_10: "char_of (10 :: nat) = CHR 0x0A"
  by code_simp

section \<open>Facts about the node\<close>

lemma enter_generator_frame [frame_simps]:
  "validated_sql (enter_generator r) = validated_sql r"
  "loop_guard (enter_generator r) = loop_guard r"
  "target_db (enter_generator r) = target_db r"
  "explored_tables (enter_generator r) = explored_tables r"
  "knowledge_items (enter_generator r) = knowledge_items r"
  "explored_use_cases (enter_generator r) = explored_use_cases r"
  "hypotheses (enter_generator r) = hypotheses r"
  "current_hypothesis (enter_generator r) = current_hypothesis r"
  "final_status (enter_generator r) = final_status r"
  "is_force_generated (enter_generator r) = is_force_generated r"
  by (simp_all add: enter_generator_def)

text \<open>What the generator never writes.\<close>

definition generator_frame :: "reasoning_state \<Rightarrow> reasoning_state \<Rightarrow> bool" where
  "generator_frame r r' \<longleftrightarrow>
     validated_sql r' = validated_sql r \<and> target_db r' = target_db r \<and>
     explored_tables r' = explored_tables r \<and> knowledge_items r' = knowledge_items r \<and>
     explored_use_cases r' = explored_use_cases r \<and> hypotheses r' = hypotheses r \<and>
     current_hypothesis r' = current_hypothesis r \<and> final_status r' = final_status r \<and>
     is_force_generated r' = is_force_generated r \<and>
     total_tool_calls (loop_guard r') = total_tool_calls (loop_guard r) \<and>
     replan_count (loop_guard r') = replan_count (loop_guard r) \<and>
     local_fix_count (loop_guard r') = local_fix_count (loop_guard r) \<and>
     ask_user_count (loop_guard r') = ask_user_count (loop_guard r)"

definition generator_succeeded :: "sql_reply \<Rightarrow> reasoning_state \<Rightarrow> reasoning_state \<Rightarrow> bool" where
  "generator_succeeded rp r r' \<longleftrightarrow>
     generated_sql r' = Some (rp_sql rp) \<and> rp_sql rp \<noteq> [] \<and> failure_type r' = None \<and>
     failure_reason r' = None \<and>
     generate_attempts (loop_guard r') = generate_attempts (loop_guard r) + 1 \<and>
     recovery_entry_source r' = recovery_entry_source r"

definition generator_refused :: "reasoning_state \<Rightarrow> reasoning_state \<Rightarrow> bool" where
  "generator_refused r r' \<longleftrightarrow>
     generated_sql r' = None \<and> failure_type r' = Some GENERATION_FAILED \<and> failure_reason r' \<noteq> None \<and>
     loop_guard r' = loop_guard r \<and> recovery_entry_source r' = Some ES_SQL_GENERATOR"

lemma generator_success_effect:
  "reply_succeeds rp \<Longrightarrow>
   generator_succeeded rp r (generator_success rp (enter_generator r)) \<and>
   generator_frame r (generator_success rp (enter_generator r))"
  by (simp add: generator_succeeded_def generator_frame_def generator_success_def reply_succeeds_def
      increment_generate_def enter_generator_def)

lemma generator_refusal_effect:
  "generator_refusal rp (enter_generator r) = Inr r' \<Longrightarrow> generator_refused r r' \<and> generator_frame r r'"
  by (auto simp: generator_refused_def generator_frame_def generator_refusal_def result_bind_Inr_iff
      enter_generator_def)

lemma sql_generator_cases:
  assumes "sql_generator_reason cfg dbs outcome r = Inr r'"
  obtains (success) rp where "outcome = Inr rp" "reply_succeeds rp" "r' = generator_success rp (enter_generator r)"
  | (refusal) rp where "\<not> reply_succeeds rp" "generator_refusal rp (enter_generator r) = Inr r'"
proof -
  from assms obtain db rp where
    "(case outcome of Inr rp \<Rightarrow> Inr rp | Inl CancelledErr \<Rightarrow> Inl CancelledErr
      | Inl e \<Rightarrow> Inr (failed_call_reply e)) = Inr rp"
    and r': "(if reply_succeeds rp then Inr (generator_success rp (enter_generator r))
       else generator_refusal rp (enter_generator r)) = Inr r'"
    by (auto simp: sql_generator_reason_def Let_def result_bind_Inr_iff)
  then consider "outcome = Inr rp" | e where "rp = failed_call_reply e"
    by (auto split: sum.splits py_error.splits)
  then show thesis
  proof cases
    case 1
    with r' success refusal show thesis by (auto split: if_splits)
  next
    case 2
    then have "\<not> reply_succeeds rp" by (simp add: reply_succeeds_def failed_call_reply_def)
    with r' refusal show thesis by simp
  qed
qed

section \<open>Properties\<close>



text \<open>
  A reply in which no JSON is found and no code fence occurs is taken as SQL as it stands,
  with status success.  The value error that would make the caller ask for the documented
  format again ("JSON parse failure, no code block") is therefore never raised for such a
  reply, whatever prose it is.
\<close>
theorem prose_reply_accepted_as_sql:
  assumes "extract_json loads raw = None" and "\<not> contains raw fence" and "py_strip raw \<noteq> []"
  shows "\<exists>rp. parse_sql_response loads raw = Inr rp \<and> reply_succeeds rp \<and> rp_sql rp = py_strip raw"
  using assms by (simp add: parse_sql_response_def clean_sql_response_def reply_succeeds_def)

theorem prose_reply_accepted_as_sql_witness:
  "\<exists>rp. parse_sql_response (\<lambda>_. None) ''I cannot answer'' = Inr rp \<and> reply_succeeds rp \<and>
     rp_sql rp = ''I cannot answer''"
proof -
  have "py_strip ''I cannot answer'' = ''I cannot answer''"
    by (simp add: py_strip_def py_lstrip_def is_ascii_space_def)
  moreover have "\<not> contains ''I cannot answer'' fence" by (simp add: fence_def)
  moreover have "extract_json (\<lambda>_. None) ''I cannot answer'' = (None :: json option)"
    by (simp add: extract_json_def split: option.split)
  ultimately show ?thesis
    using prose_reply_accepted_as_sql [of "\<lambda>_. None" "''I cannot answer''"] by simp
qed

text \<open>
  A refusal whose \<open>sql\<close> entry is JSON null is not read as the refusal it is.  The attribute
  error passes the retry loop at the first attempt, and the node records the error's name in
  place of the reasons the model gave.
\<close>
theorem null_sql_loses_reasons:
  assumes "extract_json loads (py_strip reply) = Some (JObj kvs)" and "map_of kvs ''sql'' = Some JNull"
    and "py_strip reply \<noteq> []" and "client 0 [(''user'', query)] = Inr reply" and "0 \<le> max_retries"
    and "get_query_db cfg dbs (target_db r) [] = Inr db"
  shows "\<exists>r'. sql_generator_reason cfg dbs
       (map_sum id snd (call_llm_for_sql max_retries lg client loads query)) r = Inr r' \<and>
     failure_reason r' = Some ''LLM call error: AttributeError''"
proof -
  have "parse_sql_response loads (py_strip reply) = Inl (AttributeError, ''strip'')"
    using assms(1,2) by (auto simp: parse_sql_response_def obj_get_def)
  moreover obtain n where "nat (1 + max_retries) = Suc n" using assms(5) by (metis Suc_nat_eq_nat_zadd1 add.commute)
  ultimately have "call_llm_for_sql max_retries lg client loads query = Inl AttributeError"
    using assms(3,4) by (simp add: call_llm_for_sql_def llm_call_with_parse_retry_def Let_def)
  with assms(6) show ?thesis
    by (simp add: sql_generator_reason_def failed_call_reply_def reply_succeeds_def
        generator_refusal_def Let_def frame_simps)
qed

theorem null_sql_loses_reasons_witness:
  "\<exists>r'. sql_generator_reason default_settings [(''ADW'', \<lparr>conn_name = ''ADW'', conn_dialect = ''tsql''\<rparr>)]
       (map_sum id snd (call_llm_for_sql 2 0 (\<lambda>_ _. Inr ''{..}'')
          (\<lambda>_. Some (JObj [(''status'', JStr ''fail''), (''sql'', JNull),
             (''failure_reasons'', JList [JStr ''no such column''])])) ''q'')) new_reasoning_state = Inr r' \<and>
     failure_reason r' = Some ''LLM call error: AttributeError''"
proof (rule null_sql_loses_reasons [where kvs = "[(''status'', JStr ''fail''), (''sql'', JNull),
             (''failure_reasons'', JList [JStr ''no such column''])]"])
  show "py_strip ''{..}'' \<noteq> []" by (simp add: py_strip_def py_lstrip_def is_ascii_space_def)
qed (simp_all add: extract_json_def get_query_db_def new_reasoning_state_def)

text \<open>
  An answer in a code block is read back exactly.  For any SQL text none of whose lines
  starts a fence, the reply that wraps it in a \<open>sql\<close> fence, after any leading text without
  fences, is cleaned to the stripped SQL.
\<close>
theorem fenced_sql_roundtrip:
  assumes "\<forall>l\<in>set (split_char (char_of (10 :: nat)) sql). \<not> starts_with (py_strip l) fence"
    and "\<forall>l\<in>set (split_char (char_of (10 :: nat)) intro). \<not> starts_with (py_strip l) fence"
  shows "clean_sql_response (intro @ newline @ ''```sql'' @ newline @ sql @ newline @ ''```'') = py_strip sql"
proof -
  let ?n = "char_of (10 :: nat) :: char"
  have skip: "\<forall>l\<in>set ls. \<not> starts_with (py_strip l) fence \<Longrightarrow> fenced_lines False (ls @ ms) = fenced_lines False ms"
    and keep: "\<forall>l\<in>set ls. \<not> starts_with (py_strip l) fence \<Longrightarrow> fenced_lines True (ls @ ms) = ls @ fenced_lines True ms"
    for ls ms by (induction ls) auto
  have open_fence: "starts_with (py_strip ''```sql'') fence" and close: "starts_with (py_strip ''```'') fence"
    by (simp_all add: py_strip_def py_lstrip_def is_ascii_space_def fence_def)
  have one: "split_char ?n ''```sql'' = [''```sql'']" "split_char ?n ''```'' = [''```'']"
    by (simp_all add: char_of_10)
  have lines: "split_char ?n (intro @ newline @ ''```sql'' @ newline @ sql @ newline @ ''```'') =
      split_char ?n intro @ [''```sql''] @ split_char ?n sql @ [''```'']"
    using split_char_append [of ?n intro] split_char_append [of ?n "''```sql''" "sql @ newline @ ''```''"]
      split_char_append [of ?n sql "''```''"] one
    by (simp add: newline_def del: split_char.simps)
  have block: "fenced_lines False (split_char ?n intro @ [a] @ split_char ?n sql @ [b]) = split_char ?n sql"
    if "starts_with (py_strip a) fence" "starts_with (py_strip b) fence" for a b
    using that skip [OF assms(2)] keep [OF assms(1)] by simp
  have has: "contains (u @ v @ w @ x @ y @ fence) fence" for u v w x y
    unfolding contains_iff by (rule exI [of _ "u @ v @ w @ x @ y"]) simp
  have "contains (intro @ newline @ ''```sql'' @ newline @ sql @ newline @ ''```'') fence"
    using has [of "intro @ newline" "''```sql''" newline sql newline] by (simp add: fence_def)
  then show ?thesis
    unfolding clean_sql_response_def newline_def [symmetric] lines block [OF open_fence close]
    using py_join_split_char [of ?n sql] by (simp add: newline_def)
qed

theorem fenced_sql_roundtrip_witness:
  "clean_sql_response (''Here it is:'' @ newline @ ''```sql'' @ newline @ ''SELECT 1'' @ newline @ ''```'') = ''SELECT 1''"
proof -
  have "py_strip ''SELECT 1'' = ''SELECT 1''"
    by (simp add: py_strip_def py_lstrip_def is_ascii_space_def)
  moreover have "clean_sql_response (''Here it is:'' @ newline @ ''```sql'' @ newline @ ''SELECT 1'' @ newline @ ''```'') =
      py_strip ''SELECT 1''"
    by (rule fenced_sql_roundtrip) (simp_all add: py_strip_def py_lstrip_def is_ascii_space_def fence_def)
  ultimately show ?thesis by simp
qed

end
