(* ===== verification/Security.thy ===== *)
theory Security imports Prelude begin

text \<open>
  SQL guards and masking of \<open>src/src/utils/security.py\<close>.  Regular expressions are values of
  \<open>rx\<close>, the fragment the guards use, and \<open>rx_rest\<close> is the backtracking matcher of Python's
  \<open>re\<close>: the rests after a match, in the order the engine tries them.  Letters match without
  regard to case, as under \<open>re.IGNORECASE\<close>; a byte outside ASCII counts as a word character.
  \<open>unicodedata.normalize("NFKC", _)\<close> is the argument \<open>nfkc\<close>.
\<close>

section \<open>Regular expressions\<close>

datatype rx =
    RSet "char \<Rightarrow> bool"
  | RSeq rx rx
  | RAlt rx rx
  | RMany "char \<Rightarrow> bool"
  | RWordB
  | RNoPrev "char \<Rightarrow> bool"
  | RNoNext "char \<Rightarrow> bool"
  | REps

definition is_word_char :: "char \<Rightarrow> bool" where
  "is_word_char c \<longleftrightarrow>
     (let n = (of_char c :: nat)
      in (48 \<le> n \<and> n \<le> 57) \<or> (65 \<le> n \<and> n \<le> 90) \<or> (97 \<le> n \<and> n \<le> 122) \<or> n = 95 \<or> 128 \<le> n)"

definition is_digit_char :: "char \<Rightarrow> bool" where
  "is_digit_char c \<longleftrightarrow> (let n = (of_char c :: nat) in 48 \<le> n \<and> n \<le> 57)"

text \<open>The same test on the bits, for evaluation.\<close>

lemma is_word_char_code [code]:
  "is_word_char (Char b0 b1 b2 b3 b4 b5 b6 b7) =
     (if b7 then True
      else if b6 then
        (if b5 then \<not> (b4 \<and> b3 \<and> (b2 \<or> (b1 \<and> b0))) \<and> (b0 \<or> b1 \<or> b2 \<or> b3 \<or> b4)
         else (b0 \<and> b1 \<and> b2 \<and> b3 \<and> b4) \<or>
              (\<not> (b4 \<and> b3 \<and> (b2 \<or> (b1 \<and> b0))) \<and> (b0 \<or> b1 \<or> b2 \<or> b3 \<or> b4)))
      else b5 \<and> b4 \<and> (\<not> b3 \<or> (\<not> b2 \<and> \<not> b1)))"
  by (cases b0; cases b1; cases b2; cases b3; cases b4; cases b5; cases b6; cases b7;
      simp add: is_word_char_def)

fun word_opt :: "char option \<Rightarrow> bool" where
  "word_opt None = False"
| "word_opt (Some c) = is_word_char c"

fun head_opt :: "string \<Rightarrow> char option" where
  "head_opt [] = None"
| "head_opt (c # s) = Some c"

fun many_rest :: "(char \<Rightarrow> bool) \<Rightarrow> char option \<Rightarrow> string \<Rightarrow> (char option \<times> string) list" where
  "many_rest p prev [] = [(prev, [])]"
| "many_rest p prev (c # s) = (if p c then many_rest p (Some c) s @ [(prev, c # s)] else [(prev, c # s)])"

fun rx_rest :: "rx \<Rightarrow> char option \<Rightarrow> string \<Rightarrow> (char option \<times> string) list" where
  "rx_rest (RSet p) prev s = (case s of [] \<Rightarrow> [] | c # s' \<Rightarrow> if p c then [(Some c, s')] else [])"
| "rx_rest (RSeq a b) prev s = concat (map (\<lambda>(prev', s'). rx_rest b prev' s') (rx_rest a prev s))"
| "rx_rest (RAlt a b) prev s = rx_rest a prev s @ rx_rest b prev s"
| "rx_rest (RMany p) prev s = many_rest p prev s"
| "rx_rest RWordB prev s = (if word_opt prev \<noteq> word_opt (head_opt s) then [(prev, s)] else [])"
| "rx_rest (RNoPrev p) prev s = (case prev of Some c \<Rightarrow> if p c then [] else [(prev, s)] | None \<Rightarrow> [(prev, s)])"
| "rx_rest (RNoNext p) prev s = (case s of c # s' \<Rightarrow> if p c then [] else [(prev, s)] | [] \<Rightarrow> [(prev, s)])"
| "rx_rest REps prev s = [(prev, s)]"

text \<open>\<open>re.search\<close>, from the left.\<close>

fun rx_search_from :: "rx \<Rightarrow> char option \<Rightarrow> string \<Rightarrow> bool" where
  "rx_search_from r prev [] = (rx_rest r prev [] \<noteq> [])"
| "rx_search_from r prev (c # s) = (rx_rest r prev (c # s) \<noteq> [] \<or> rx_search_from r (Some c) s)"

definition rx_search :: "rx \<Rightarrow> string \<Rightarrow> bool" where
  "rx_search r s = rx_search_from r None s"

text \<open>\<open>re.sub(r, "", s)\<close> for expressions that match no empty text.\<close>

function rx_delete_from :: "rx \<Rightarrow> char option \<Rightarrow> string \<Rightarrow> string" where
  "rx_delete_from r prev s =
     (case rx_rest r prev s of
        (prev', s') # _ \<Rightarrow>
          if length s' < length s then rx_delete_from r prev' s'
          else (case s of [] \<Rightarrow> [] | c # t \<Rightarrow> c # rx_delete_from r (Some c) t)
      | [] \<Rightarrow> (case s of [] \<Rightarrow> [] | c # t \<Rightarrow> c # rx_delete_from r (Some c) t))"
  by pat_completeness auto
termination by (relation "measure (\<lambda>(r, prev, s). length s)") auto

declare rx_delete_from.simps [simp del]

definition rx_delete :: "rx \<Rightarrow> string \<Rightarrow> string" where
  "rx_delete r s = rx_delete_from r None s"

definition r_char :: "char \<Rightarrow> rx" where
  "r_char c = (let u = upper_char c; l = lower_char c in RSet (\<lambda>d. d = u \<or> d = l))"

fun r_str :: "string \<Rightarrow> rx" where
  "r_str [] = REps"
| "r_str [c] = r_char c"
| "r_str (c # d # s) = RSeq (r_char c) (r_str (d # s))"

fun r_alts :: "rx list \<Rightarrow> rx" where
  "r_alts [] = RSet (\<lambda>_. False)"
| "r_alts [r] = r"
| "r_alts (r # q # rs) = RAlt r (r_alts (q # rs))"

fun r_seqs :: "rx list \<Rightarrow> rx" where
  "r_seqs [] = REps"
| "r_seqs [r] = r"
| "r_seqs (r # q # rs) = RSeq r (r_seqs (q # rs))"

definition r_ws0 :: rx where "r_ws0 = RMany is_ascii_space"
definition r_ws1 :: rx where "r_ws1 = RSeq (RSet is_ascii_space) (RMany is_ascii_space)"
definition r_word1 :: rx where "r_word1 = RSeq (RSet is_word_char) (RMany is_word_char)"

text \<open>\<open>\b(w1|w2|...)\b\<close>\<close>

definition r_words :: "string list \<Rightarrow> rx" where
  "r_words ws = r_seqs [RWordB, r_alts (map r_str ws), RWordB]"

section \<open>Forbidden SQL patterns\<close>

definition DML_WORDS :: "string list" where
  "DML_WORDS = [''INSERT'', ''UPDATE'', ''DELETE'', ''DROP'', ''TRUNCATE'', ''ALTER'', ''CREATE'',
     ''GRANT'', ''REVOKE'']"

definition FORBIDDEN_SQL_PATTERNS :: "(rx \<times> string) list" where
  "FORBIDDEN_SQL_PATTERNS =
     [(r_words DML_WORDS, ''DML/DDL statements are not allowed''),
      (r_seqs [RWordB, r_str ''EXEC'', RAlt (r_str ''UTE'') REps, RWordB], ''procedure execution is not allowed''),
      (r_words [''CALL''], ''procedure calls are not allowed''),
      (r_seqs [RWordB, r_alts [r_str ''information_schema'', RSeq (r_str ''pg_'') r_word1,
                               RSeq (r_str ''sys.'') r_word1, RSeq (r_str ''mysql.'') r_word1], RWordB],
       ''system catalog access is forbidden''),
      (r_seqs [r_str '';'', r_ws0, r_word1], ''multiple queries are not allowed''),
      (r_seqs [RWordB, r_str ''INTO'', r_ws1, r_str ''OUTFILE'', RWordB], ''file output is not allowed''),
      (r_seqs [RWordB, r_str ''INTO'', r_ws1, r_str ''DUMPFILE'', RWordB], ''file dump is not allowed''),
      (r_seqs [RWordB, r_str ''LOAD_FILE'', r_ws0, r_str ''(''], ''file reads are not allowed''),
      (r_seqs [RWordB, r_str ''LOAD'', r_ws1, r_str ''DATA'', RWordB], ''data load is not allowed''),
      (r_seqs [RWordB, r_str ''SLEEP'', r_ws0, r_str ''(''], ''time delay functions are not allowed''),
      (r_seqs [RWordB, r_str ''WAITFOR'', r_ws1, r_str ''DELAY'', RWordB], ''time delay functions are not allowed''),
      (r_seqs [RWordB, r_str ''BENCHMARK'', r_ws0, r_str ''(''], ''time delay functions are not allowed''),
      (r_seqs [RWordB, r_str ''PG_SLEEP'', r_ws0, r_str ''(''], ''time delay functions are not allowed''),
      (r_str ''--'', ''SQL comments are not allowed''),
      (r_str ''/*'', ''SQL block comments are not allowed''),
      (r_seqs [RWordB, r_str ''xp_'', r_word1], ''extended stored procedures are not allowed'')]"

definition check_forbidden_patterns :: "string \<Rightarrow> string list" where
  "check_forbidden_patterns sql = map snd (filter (\<lambda>(r, _). rx_search r sql) FORBIDDEN_SQL_PATTERNS)"

text \<open>
  The control characters \<open>normalize_unicode\<close> deletes, as code points below 128; those from 128
  to 159 are two bytes and are left to \<open>nfkc\<close> here.
\<close>

definition is_removed_control :: "char \<Rightarrow> bool" where
  "is_removed_control c \<longleftrightarrow>
     (let n = (of_char c :: nat) in n \<le> 8 \<or> n = 11 \<or> n = 12 \<or> (14 \<le> n \<and> n \<le> 31) \<or> n = 127)"

definition normalize_unicode :: "(string \<Rightarrow> string) \<Rightarrow> string \<Rightarrow> string" where
  "normalize_unicode nfkc text = filter (\<lambda>c. \<not> is_removed_control c) (nfkc text)"

definition check_sql_safety_quick :: "(string \<Rightarrow> string) \<Rightarrow> string \<Rightarrow> bool \<times> string list" where
  "check_sql_safety_quick nfkc raw =
     (let sql = normalize_unicode nfkc raw;
          sql_upper = py_strip (py_upper sql);
          errors = (if starts_with sql_upper ''SELECT'' \<or> starts_with sql_upper ''WITH'' then []
                    else [''only SELECT statements are allowed'']) @ check_forbidden_patterns sql
      in (length errors = 0, errors))"

section \<open>Masking\<close>

definition is_alpha_char :: "char \<Rightarrow> bool" where
  "is_alpha_char c \<longleftrightarrow> (let n = (of_char c :: nat) in (65 \<le> n \<and> n \<le> 90) \<or> (97 \<le> n \<and> n \<le> 122))"

definition is_masked_kind :: "char \<Rightarrow> bool" where
  "is_masked_kind c \<longleftrightarrow> is_digit_char c \<or> is_alpha_char c"

text \<open>The loop of \<open>_make_masked\<close>, with the running index of digits and letters.\<close>

fun mask_from :: "nat \<Rightarrow> nat \<Rightarrow> string \<Rightarrow> string" where
  "mask_from tot i [] = []"
| "mask_from tot i (c # s) =
     (if \<not> is_masked_kind c then c # mask_from tot i s
      else (if i < 2 \<or> int i \<ge> int tot - 2 then c else CHR ''*'') # mask_from tot (i + 1) s)"

definition make_masked :: "string \<Rightarrow> string" where
  "make_masked m = mask_from (length (filter is_masked_kind m)) 0 m"

section \<open>Facts\<close>

lemma check_forbidden_empty:
  "check_forbidden_patterns sql = [] \<longleftrightarrow> (\<forall>(r, m)\<in>set FORBIDDEN_SQL_PATTERNS. \<not> rx_search r sql)"
  by (auto simp: check_forbidden_patterns_def filter_empty_conv)

lemma rx_rest_append_search:
  "rx_rest r (if u = [] then prev else Some (last u)) v \<noteq> [] \<Longrightarrow> rx_search_from r prev (u @ v)"
proof (induction u arbitrary: prev)
  case Nil
  then show ?case by (cases v) auto
next
  case (Cons c u)
  then show ?case by (cases u) auto
qed

text \<open>A literal matches any text that equals it up to case.\<close>

lemma upper_char_eq: "upper_char d = upper_char c \<Longrightarrow> d = upper_char c \<or> d = lower_char c"
proof -
  assume a: "upper_char d = upper_char c"
  define m n where "m = (of_char d :: nat)" and "n = (of_char c :: nat)"
  have mn: "d = char_of m" "c = char_of n" "m < 256" "n < 256"
    by (simp_all add: m_def n_def)
  have inj: "char_of i = (char_of j :: char) \<Longrightarrow> i < 256 \<Longrightarrow> j < 256 \<Longrightarrow> i = j" for i j :: nat
    by (simp add: char_of_eq_iff take_bit_eq_mod)
  show ?thesis
    using a mn inj [of "m - 32" n] inj [of m "n - 32"] inj [of "m - 32" "n - 32"] inj [of m n]
    by (auto simp: upper_char_def lower_char_def Let_def m_def [symmetric] n_def [symmetric] split: if_splits)
qed

lemma r_char_rest: "upper_char d = upper_char c \<Longrightarrow> rx_rest (r_char c) prev (d # s) = [(Some d, s)]"
  using upper_char_eq [of d c] by (auto simp: r_char_def Let_def)

lemma r_str_rest: "w \<noteq> [] \<Longrightarrow> map upper_char x = map upper_char w \<Longrightarrow> rx_rest (r_str w) prev (x @ s) = [(Some (last x), s)]"
proof (induction w arbitrary: x prev rule: r_str.induct)
  case (2 c)
  then obtain y where "x = [y]" "upper_char y = upper_char c" by auto
  then show ?case by (simp add: r_char_rest)
next
  case (3 c d w)
  then obtain y ys where x: "x = y # ys" "upper_char y = upper_char c" "map upper_char ys = map upper_char (d # w)"
    by auto
  with "3.IH" [of ys "Some y"] show ?case
    by (cases ys) (auto simp: r_char_rest)
qed simp

lemma r_alts_rest: "r \<in> set rs \<Longrightarrow> set (rx_rest r prev s) \<subseteq> set (rx_rest (r_alts rs) prev s)"
  by (induction rs rule: r_alts.induct) auto

lemma rx_rest_RSeq_iff:
  "(q, t) \<in> set (rx_rest (RSeq a b) p s) \<longleftrightarrow>
     (\<exists>p' s'. (p', s') \<in> set (rx_rest a p s) \<and> (q, t) \<in> set (rx_rest b p' s'))"
  by force

lemma upper_char_idem: "upper_char (upper_char c) = upper_char c"
proof (cases "97 \<le> (of_char c :: nat) \<and> (of_char c :: nat) \<le> 122")
  case True
  then have "(of_char c - 32) mod 256 = (of_char c - 32 :: nat)" by (intro mod_less) linarith
  moreover have "\<not> 97 \<le> (of_char c - 32 :: nat)" using True by linarith
  ultimately show ?thesis using True by (simp add: upper_char_def Let_def)
next
  case False
  then have "upper_char c = c" by (auto simp: upper_char_def Let_def)
  then show ?thesis by simp
qed

lemma r_words_search:
  assumes "w \<in> set ws" and "w \<noteq> []" and "map upper_char x = map upper_char w"
    and "\<not> word_opt (if u = [] then None else Some (last u))" and "\<not> word_opt (head_opt v)"
    and "is_word_char (hd x)" and "is_word_char (last x)"
  shows "rx_search (r_words ws) (u @ x @ v)"
proof -
  let ?p = "if u = [] then None else Some (last u)"
  obtain y ys where x: "x = y # ys" using assms(2,3) by (cases x) auto
  have b: "rx_rest RWordB ?p (x @ v) = [(?p, x @ v)]" using assms(4,6) x by simp
  have "(Some (last x), v) \<in> set (rx_rest (r_alts (map r_str ws)) ?p (x @ v))"
    using r_alts_rest [of "r_str w" "map r_str ws" ?p "x @ v"] r_str_rest [OF assms(2,3), of ?p v] assms(1) by auto
  moreover have "rx_rest RWordB (Some (last x)) v = [(Some (last x), v)]" using assms(5,7) by simp
  ultimately have "(Some (last x), v) \<in> set (rx_rest (r_words ws) ?p (x @ v))"
    unfolding r_words_def r_seqs.simps rx_rest_RSeq_iff b using assms(7) by auto
  then have "rx_rest (r_words ws) ?p (x @ v) \<noteq> []" by force
  from rx_rest_append_search [of "r_words ws" u None, OF this]
  show ?thesis by (simp add: rx_search_def)
qed

lemma mask_from_length: "length (mask_from tot i s) = length s"
  by (induction tot i s rule: mask_from.induct) auto

lemma mask_from_all: "tot \<le> 4 \<Longrightarrow> i + length (filter is_masked_kind s) = tot \<Longrightarrow> mask_from tot i s = s"
  by (induction tot i s rule: mask_from.induct) auto

text \<open>What is shown: the digits and letters of rank below 2 or among the last 2.\<close>

lemma mask_from_revealed:
  "i + length (filter is_masked_kind s) = tot \<Longrightarrow>
   length (filter is_masked_kind (mask_from tot i s)) =
     (min 2 tot - min 2 i) + (tot - max i (max 2 (tot - 2)))"
proof (induction tot i s rule: mask_from.induct)
  case (1 tot i)
  then show ?case by simp
next
  case (2 tot i c s)
  have star: "\<not> is_masked_kind CHR ''*''" by (simp add: is_masked_kind_def is_digit_char_def is_alpha_char_def)
  show ?case
  proof (cases "is_masked_kind c")
    case False
    with 2 show ?thesis by simp
  next
    case True
    with 2 have "length (filter is_masked_kind (mask_from tot (i + 1) s)) =
        (min 2 tot - min 2 (i + 1)) + (tot - max (i + 1) (max 2 (tot - 2)))" by simp
    moreover have "i < tot" using "2.prems" True by simp
    ultimately show ?thesis using True star by (auto simp: min_def max_def)
  qed
qed

section \<open>Properties\<close>



text \<open>
  The guard judges the normalised text, and the original one is executed.  Normalisation
  deletes form feeds and vertical tabs, which separate words, so it can join a keyword with
  the word after it: the guard accepts this statement although the text that is executed
  contains DELETE as a word.
\<close>
theorem quick_check_misses_form_feed:
  "fst (check_sql_safety_quick id (''WITH X AS (SELECT 1) DELETE'' @ [CHR 0x0C] @ ''FROM T'')) \<and>
   rx_search (r_words DML_WORDS) (''WITH X AS (SELECT 1) DELETE'' @ [CHR 0x0C] @ ''FROM T'')"
proof
  show "fst (check_sql_safety_quick id (''WITH X AS (SELECT 1) DELETE'' @ [CHR 0x0C] @ ''FROM T''))"
    by code_simp
  show "rx_search (r_words DML_WORDS) (''WITH X AS (SELECT 1) DELETE'' @ [CHR 0x0C] @ ''FROM T'')"
    by code_simp
qed

text \<open>
  Masking keeps the length and shows at most four letters or digits, the first two and the
  last two; a match of four or fewer is returned as it is.
\<close>
theorem masking_bounds:
  "length (make_masked m) = length m \<and>
   length (filter is_masked_kind (make_masked m)) = min 4 (length (filter is_masked_kind m)) \<and>
   (if length (filter is_masked_kind m) \<le> 4 then make_masked m = m else make_masked m \<noteq> m)"
proof -
  let ?t = "length (filter is_masked_kind m)"
  have len: "length (make_masked m) = length m"
    by (simp add: make_masked_def mask_from_length)
  have shown: "length (filter is_masked_kind (make_masked m)) = min 4 ?t"
    using mask_from_revealed [of 0 m ?t] by (auto simp: make_masked_def min_def max_def)
  have "make_masked m = m" if "?t \<le> 4"
    using mask_from_all [of ?t 0 m] that by (simp add: make_masked_def)
  moreover have "make_masked m \<noteq> m" if "\<not> ?t \<le> 4"
    using shown that by (metis min_def nat_le_linear)
  ultimately show ?thesis using len shown by simp
qed

end
