(* ===== verification/SqlSafety.thy ===== *)
theory SqlSafety imports Security ReasonState begin

text \<open>
  The five-stage safety check of generated SQL (\<open>src/src/services/sql_safety_checker.py\<close>).
  Whether a text parses in the dialect (\<open>sqlglot\<close>) and the list of personal-data columns (a
  resource file) are arguments.
\<close>

record safety_check_result =
  is_safe :: bool
  safety_errors :: "string list"
  safety_feedback :: string

definition AGG_PATTERN :: rx where
  "AGG_PATTERN = r_seqs [RWordB, r_alts (map r_str [''COUNT'', ''SUM'', ''AVG'', ''MIN'', ''MAX'']), r_ws0, r_str ''('']"

text \<open>\<open>\bSELECT\b(.+?)\bFROM\b\<close>: the text between the first SELECT and the next FROM.\<close>

fun until_from :: "string \<Rightarrow> string option" where
  "until_from [] = None"
| "until_from (c # s) =
     (if rx_rest (r_words [''FROM'']) (Some c) s \<noteq> [] then Some [c]
      else map_option (\<lambda>t. c # t) (until_from s))"

fun select_clause_from :: "char option \<Rightarrow> string \<Rightarrow> string option" where
  "select_clause_from prev [] = None"
| "select_clause_from prev (c # s) =
     (case rx_rest (r_words [''SELECT'']) prev (c # s) of
        (_, rest) # _ \<Rightarrow> until_from rest
      | [] \<Rightarrow> select_clause_from (Some c) s)"

definition strip_noise :: "string \<Rightarrow> string" where
  "strip_noise s = filter (\<lambda>c. \<not> (c \<in> {CHR ''('', CHR '')'', CHR '','', CHR ''*'', CHR 0x27} \<or>
      is_ascii_space c \<or> is_digit_char c)) s"

definition is_aggregate_query :: "string \<Rightarrow> bool" where
  "is_aggregate_query sql_upper =
     (if \<not> rx_search AGG_PATTERN sql_upper then False
      else if contains sql_upper ''GROUP BY'' then True
      else
        (case select_clause_from None sql_upper of
           None \<Rightarrow> False
         | Some select_clause \<Rightarrow>
             let stripped = rx_delete (r_seqs [RWordB, r_str ''AS'', r_ws1, r_word1]) select_clause;
                 stripped = rx_delete (r_seqs [AGG_PATTERN, RMany (\<lambda>c. c \<noteq> CHR '')''), r_str '')'']) stripped
             in py_strip (strip_noise stripped) = []))"

definition check_sql_syntax :: "(string \<Rightarrow> bool) \<Rightarrow> string \<Rightarrow> string list" where
  "check_sql_syntax parses sql = (if parses sql then [] else [''the SQL cannot be parsed''])"

text \<open>\<open>\b{col}\b\<close> without the ignore-case flag.\<close>

fun r_exact :: "string \<Rightarrow> rx" where
  "r_exact [] = REps"
| "r_exact (c # s) = RSeq (RSet (\<lambda>d. d = c)) (r_exact s)"

definition check_pii_columns :: "settings \<Rightarrow> string list \<Rightarrow> string \<Rightarrow> string list" where
  "check_pii_columns cfg pii sql_upper =
     (if \<not> pii_masking_enabled cfg then []
      else map (\<lambda>col. ''personal data column '' @ py_repr col @ '' cannot be queried'')
             (filter (\<lambda>col. rx_search (r_seqs [RWordB, r_exact col, RWordB]) sql_upper) pii))"

definition build_validation_feedback :: "string list \<Rightarrow> string \<Rightarrow> string" where
  "build_validation_feedback errors sql =
     ''Failed SQL:'' @ newline @ sql @ newline @ newline @ ''Problems found:'' @ newline @
     py_join newline (map (\<lambda>(i, e). str_int (int i) @ ''. '' @ e) (enumerate 1 errors))"

definition has_row_limit :: "string \<Rightarrow> string \<Rightarrow> bool" where
  "has_row_limit dialect sql_upper \<longleftrightarrow>
     contains sql_upper ''LIMIT'' \<or> (dialect = ''tsql'' \<and> contains sql_upper ''TOP '')"

definition validate_sql_safety ::
  "settings \<Rightarrow> (string \<Rightarrow> string) \<Rightarrow> (string \<Rightarrow> bool) \<Rightarrow> string list \<Rightarrow> string \<Rightarrow> string \<Rightarrow> safety_check_result" where
  "validate_sql_safety cfg nfkc parses pii raw_sql dialect =
     (let sql = normalize_unicode nfkc (py_strip raw_sql)
      in if sql = [] then
           \<lparr>is_safe = False, safety_errors = [''the SQL is empty''],
            safety_feedback = ''The SQL is empty. A valid SELECT statement must be output.''\<rparr>
         else
           let sql_upper = py_upper sql
           in if \<not> (starts_with sql_upper ''SELECT'' \<or> starts_with sql_upper ''WITH'') then
                \<lparr>is_safe = False, safety_errors = [''only SELECT statements are allowed''],
                 safety_feedback = build_validation_feedback [''only SELECT statements are allowed''] sql\<rparr>
              else
                let errors = check_forbidden_patterns sql @ check_sql_syntax parses sql @
                             check_pii_columns cfg pii sql_upper @
                             (if \<not> has_row_limit dialect sql_upper \<and> \<not> is_aggregate_query sql_upper
                              then [''no LIMIT clause. Include LIMIT to avoid bulk reads''] else [])
                in if errors \<noteq> []
                   then \<lparr>is_safe = False, safety_errors = errors,
                         safety_feedback = build_validation_feedback errors sql\<rparr>
                   else \<lparr>is_safe = True, safety_errors = [], safety_feedback = []\<rparr>)"

section \<open>Properties\<close>

lemma safe_iff:
  "is_safe (validate_sql_safety cfg nfkc parses pii raw d) \<longleftrightarrow>
     (let sql = normalize_unicode nfkc (py_strip raw)
      in sql \<noteq> [] \<and> (starts_with (py_upper sql) ''SELECT'' \<or> starts_with (py_upper sql) ''WITH'') \<and>
         check_forbidden_patterns sql = [] \<and> parses sql \<and> check_pii_columns cfg pii (py_upper sql) = [] \<and>
         (has_row_limit d (py_upper sql) \<or> is_aggregate_query (py_upper sql)))"
  by (auto simp: validate_sql_safety_def check_sql_syntax_def Let_def)



text \<open>
  The row limit test looks for the letters LIMIT anywhere, so a query without a LIMIT
  clause passes when a column name contains them.
\<close>
theorem limit_test_accepts_column_name:
  "is_safe (validate_sql_safety default_settings id (\<lambda>_. True) [] ''SELECT LIMIT_A FROM T'' ''tsql'') \<and>
   \<not> is_safe (validate_sql_safety default_settings id (\<lambda>_. True) [] ''SELECT A FROM T'' ''tsql'')"
proof
  have "normalize_unicode id (py_strip ''SELECT LIMIT_A FROM T'') = ''SELECT LIMIT_A FROM T''"
    and "check_forbidden_patterns ''SELECT LIMIT_A FROM T'' = []"
    and "py_upper ''SELECT LIMIT_A FROM T'' = ''SELECT LIMIT_A FROM T''"
    by code_simp+
  then show "is_safe (validate_sql_safety default_settings id (\<lambda>_. True) [] ''SELECT LIMIT_A FROM T'' ''tsql'')"
    by (simp add: safe_iff Let_def has_row_limit_def check_pii_columns_def)
  have "normalize_unicode id (py_strip ''SELECT A FROM T'') = ''SELECT A FROM T''"
    and "py_upper ''SELECT A FROM T'' = ''SELECT A FROM T''" and "\<not> is_aggregate_query ''SELECT A FROM T''"
    by code_simp+
  then show "\<not> is_safe (validate_sql_safety default_settings id (\<lambda>_. True) [] ''SELECT A FROM T'' ''tsql'')"
    by (simp add: safe_iff Let_def has_row_limit_def)
qed

end
