(* ===== verification/RunStores.thy ===== *)
theory RunStores imports Prelude begin

text \<open>
  The two per-session flags a running pipeline consults: the cancel flag
  (\<open>src/src/services/cancel_store.py\<close>, \<open>src/src/agents/graph/cancel.py\<close>) and the active-run
  flag (\<open>src/src/services/active_run_store.py\<close>, \<open>src/src/agents/graph/active_run.py\<close>).  The
  in-memory stores are modelled; the Redis stores send the same operations to a server that
  is not part of the repository.  A store call that raises is \<open>Inl\<close>.
\<close>

section \<open>Interfaces\<close>

text \<open>What the pipeline relies on, whichever store the settings select.\<close>

locale cancel_store =
  fixes set_c :: "string \<Rightarrow> string \<Rightarrow> 'st \<Rightarrow> 'st"
    and is_c :: "string \<Rightarrow> string \<Rightarrow> 'st \<Rightarrow> bool"
    and clear_c :: "string \<Rightarrow> 'st \<Rightarrow> 'st"
    and pop_c :: "string \<Rightarrow> 'st \<Rightarrow> string option \<times> 'st"
  assumes is_set: "is_c sid t (set_c sid u st) \<longleftrightarrow> t = u"
    and is_set_other: "sid' \<noteq> sid \<Longrightarrow> is_c sid' t (set_c sid u st) \<longleftrightarrow> is_c sid' t st"
    and is_clear: "\<not> is_c sid t (clear_c sid st)"
    and is_clear_other: "sid' \<noteq> sid \<Longrightarrow> is_c sid' t (clear_c sid st) \<longleftrightarrow> is_c sid' t st"
    and pop_state: "snd (pop_c sid st) = clear_c sid st"
    and pop_value: "fst (pop_c sid st) = Some t \<longleftrightarrow> is_c sid t st"
begin

lemma one_flag_per_session: "is_c sid t st \<Longrightarrow> is_c sid u st \<Longrightarrow> t = u"
  using pop_value by (metis option.inject)

lemma pop_twice: "fst (pop_c sid (snd (pop_c sid st))) = None"
  using pop_value [of sid "clear_c sid st"] is_clear by (metis not_Some_eq pop_state)

lemma later_cancel_wins: "is_c sid t (set_c sid u (set_c sid t st)) \<Longrightarrow> t = u"
  by (simp add: is_set)

end

locale active_store =
  fixes set_a :: "string \<Rightarrow> string \<Rightarrow> 'st \<Rightarrow> 'st"
    and clear_a :: "string \<Rightarrow> string \<Rightarrow> 'st \<Rightarrow> 'st"
    and holder :: "string \<Rightarrow> 'st \<Rightarrow> string option"
    and is_a :: "string \<Rightarrow> 'st \<Rightarrow> bool"
  assumes holder_set: "holder sid' (set_a sid t st) = (if sid' = sid then Some t else holder sid' st)"
    and holder_clear: "holder sid' (clear_a sid t st) =
          (if sid' = sid \<and> holder sid st = Some t then None else holder sid' st)"
    and active_iff: "is_a sid st \<longleftrightarrow> holder sid st \<noteq> None"
begin

lemma stale_clear_keeps: "holder sid st = Some t \<Longrightarrow> u \<noteq> t \<Longrightarrow> is_a sid (clear_a sid u st)"
  by (simp add: active_iff holder_clear)

lemma other_session: "sid' \<noteq> sid \<Longrightarrow> is_a sid' (clear_a sid t st) = is_a sid' st \<and> is_a sid' (set_a sid t st) = is_a sid' st"
  by (simp add: active_iff holder_clear holder_set)

end

section \<open>Cancel flag\<close>

type_synonym cancel_flags = "string \<Rightarrow> string option"

definition mem_set_cancel :: "string \<Rightarrow> string \<Rightarrow> cancel_flags \<Rightarrow> cancel_flags" where
  "mem_set_cancel sid tid flags = flags(sid \<mapsto> tid)"

definition mem_is_cancelled :: "string \<Rightarrow> string \<Rightarrow> cancel_flags \<Rightarrow> bool" where
  "mem_is_cancelled sid tid flags = (case flags sid of None \<Rightarrow> False | Some stored \<Rightarrow> stored = tid)"

definition mem_clear_cancel :: "string \<Rightarrow> cancel_flags \<Rightarrow> cancel_flags" where
  "mem_clear_cancel sid flags = flags(sid := None)"

definition mem_pop_cancel :: "string \<Rightarrow> cancel_flags \<Rightarrow> string option \<times> cancel_flags" where
  "mem_pop_cancel sid flags = (flags sid, flags(sid := None))"

interpretation mem_cancel: cancel_store mem_set_cancel mem_is_cancelled mem_clear_cancel mem_pop_cancel
  by unfold_locales
    (auto simp: mem_set_cancel_def mem_is_cancelled_def mem_clear_cancel_def mem_pop_cancel_def
      split: option.splits)

text \<open>
  \<open>check_cancel\<close>: no store means never cancelled; an exception of the store means not
  cancelled.  \<open>is_c\<close> is the store's possibly failing test.
\<close>

definition check_cancel :: "(string \<Rightarrow> string \<Rightarrow> bool result) option \<Rightarrow> string \<Rightarrow> string \<Rightarrow> bool" where
  "check_cancel store sid tid =
     (case store of
        None \<Rightarrow> False
      | Some is_c \<Rightarrow>
          (case is_c sid tid of
             Inl _ \<Rightarrow> False
           | Inr True \<Rightarrow> True
           | Inr False \<Rightarrow>
               if tid \<noteq> ''*'' then (case is_c sid ''*'' of Inl _ \<Rightarrow> False | Inr b \<Rightarrow> b) else False))"

definition clear_cancel :: "cancel_flags option \<Rightarrow> string \<Rightarrow> cancel_flags option" where
  "clear_cancel store sid = map_option (mem_clear_cancel sid) store"

definition pop_cancel :: "cancel_flags option \<Rightarrow> string \<Rightarrow> string option \<times> cancel_flags option" where
  "pop_cancel store sid =
     (case store of None \<Rightarrow> (None, None)
      | Some flags \<Rightarrow> let (v, flags') = mem_pop_cancel sid flags in (v, Some flags'))"

definition mem_check_cancel :: "cancel_flags \<Rightarrow> string \<Rightarrow> string \<Rightarrow> bool" where
  "mem_check_cancel flags = check_cancel (Some (\<lambda>sid tid. Inr (mem_is_cancelled sid tid flags)))"

lemma mem_check_cancel_iff:
  "mem_check_cancel flags sid tid \<longleftrightarrow> mem_is_cancelled sid tid flags \<or> mem_is_cancelled sid ''*'' flags"
  by (auto simp: mem_check_cancel_def check_cancel_def split: bool.splits)

section \<open>Active run flag\<close>

type_synonym active_runs = "string \<Rightarrow> string option"

definition mem_set_active :: "string \<Rightarrow> string \<Rightarrow> active_runs \<Rightarrow> active_runs" where
  "mem_set_active sid tid act = act(sid \<mapsto> tid)"

definition mem_clear_active :: "string \<Rightarrow> string \<Rightarrow> active_runs \<Rightarrow> active_runs" where
  "mem_clear_active sid tid act = (if act sid = Some tid then act(sid := None) else act)"

definition mem_is_active :: "string \<Rightarrow> active_runs \<Rightarrow> bool" where
  "mem_is_active sid act = (act sid \<noteq> None)"

interpretation mem_active: active_store mem_set_active mem_clear_active "\<lambda>sid act. act sid" mem_is_active
  by unfold_locales (auto simp: mem_set_active_def mem_clear_active_def mem_is_active_def)

text \<open>
  \<open>mark_active\<close>, \<open>clear_active\<close> and \<open>check_active\<close>: a missing store or a failing call
  (\<open>fails\<close>) is passed over in silence.
\<close>

definition mark_active :: "bool \<Rightarrow> string \<Rightarrow> string \<Rightarrow> active_runs option \<Rightarrow> active_runs option" where
  "mark_active fails sid tid store =
     (case store of None \<Rightarrow> None | Some act \<Rightarrow> Some (if fails then act else mem_set_active sid tid act))"

definition clear_active :: "bool \<Rightarrow> string \<Rightarrow> string \<Rightarrow> active_runs option \<Rightarrow> active_runs option" where
  "clear_active fails sid tid store =
     (case store of None \<Rightarrow> None | Some act \<Rightarrow> Some (if fails then act else mem_clear_active sid tid act))"

definition check_active :: "bool \<Rightarrow> string \<Rightarrow> active_runs option \<Rightarrow> bool" where
  "check_active fails sid store =
     (case store of None \<Rightarrow> False | Some act \<Rightarrow> if fails then False else mem_is_active sid act)"

text \<open>Starts and ends of runs, of any sessions, in the order they reach the store.\<close>

datatype run_event = Run_start string string | Run_end string string

fun run_apply :: "run_event \<Rightarrow> active_runs \<Rightarrow> active_runs" where
  "run_apply (Run_start sid tid) act = mem_set_active sid tid act"
| "run_apply (Run_end sid tid) act = mem_clear_active sid tid act"

text \<open>The turn a history leaves running: the last start, unless its own end follows.\<close>

fun last_running :: "string \<Rightarrow> run_event list \<Rightarrow> string option" where
  "last_running sid [] = None"
| "last_running sid (Run_start s t # es) =
     (if s = sid then Some t else last_running sid es)"
| "last_running sid (Run_end s t # es) =
     (if s = sid \<and> last_running sid es = Some t then None else last_running sid es)"

section \<open>Properties\<close>

text \<open>
  A cancel request reaches its own turn and no other.  After the request for turn \<open>u\<close> (or
  \<open>*\<close>) of a session the check of a turn \<open>t\<close> of the session answers yes exactly when
  \<open>t\<close> is that turn or the request was the wildcard; other sessions are not affected; and
  popping the flag returns the request once and leaves nothing behind.
\<close>
theorem cancel_reaches_its_turn:
  "mem_check_cancel (mem_set_cancel sid u flags) sid' t =
     (if sid' = sid then t = u \<or> u = ''*'' else mem_check_cancel flags sid' t) \<and>
   fst (mem_pop_cancel sid (mem_set_cancel sid u flags)) = Some u \<and>
   \<not> mem_check_cancel (snd (mem_pop_cancel sid flags)) sid t"
  by (auto simp: mem_check_cancel_iff mem_cancel.is_set mem_cancel.is_set_other mem_cancel.pop_value
      mem_cancel.pop_state mem_cancel.is_clear)


end
