(* ===== verification/CancelCheck.thy ===== *)
theory CancelCheck imports RunStores TurnState begin

text \<open>
  The cancellation wrapper of the graph's nodes and the updates of a cancellation seen inside a
  node (\<open>src/src/agents/graph/cancel.py\<close>).
\<close>

definition CANCEL_MESSAGE :: string where
  "CANCEL_MESSAGE = ''Stopped at the user's request.''"

text \<open>\<open>with_cancel_check\<close>: when the flag is set the node is not run.\<close>

definition with_cancel_check ::
  "bool \<Rightarrow> (pipeline_state \<Rightarrow> pipeline_state result) \<Rightarrow> pipeline_state \<Rightarrow> pipeline_state result" where
  "with_cancel_check cancelled node_fn s =
     (if cancelled then Inr (s\<lparr>status := QS_CANCELLED, error_message := CANCEL_MESSAGE\<rparr>)
      else node_fn s)"

definition make_cancel_updates :: "pipeline_state \<Rightarrow> pipeline_state" where
  "make_cancel_updates s =
     s\<lparr>reason := (reason s)\<lparr>phase := DONE, final_status := Fin_CANCELLED,
                             exploration_summary := CANCEL_MESSAGE\<rparr>,
       status := QS_CANCELLED, error_message := CANCEL_MESSAGE\<rparr>"

lemma CANCEL_MESSAGE_nonempty [simp]: "CANCEL_MESSAGE \<noteq> []"
  by (simp add: CANCEL_MESSAGE_def)

lemma with_cancel_check_True [simp]:
  "with_cancel_check True f s = Inr (s\<lparr>status := QS_CANCELLED, error_message := CANCEL_MESSAGE\<rparr>)"
  by (simp add: with_cancel_check_def)

lemma with_cancel_check_False [simp]: "with_cancel_check False f s = f s"
  by (simp add: with_cancel_check_def)

end
