(* ===== verification/SqlValidator.thy ===== *)
theory SqlValidator imports SqlGenerator SqlSafety CancelCheck begin

text \<open>
  The SQL validator node (\<open>src/src/agents/nodes/reason/sql_validator.py\<close>): a rule layer, a
  structural layer, a trial execution and a judgement by the model, in that order, and what
  each failure writes to the state.  The SQL parser's answers, the database's answer to the
  limited query, the model's reply and the cancel flag are fields of \<open>validator_env\<close>.
\<close>

record validator_env =
  ve_nfkc :: "string \<Rightarrow> string"
  ve_pii :: "string list"
  ve_parses :: "string \<Rightarrow> string \<Rightarrow> bool"
  ve_tables :: "string \<Rightarrow> string \<Rightarrow> string list"
  ve_columns :: "string \<Rightarrow> string \<Rightarrow> string list"
  ve_execute :: "string \<Rightarrow> (int, string) sum"
  ve_reply :: "json result"
  ve_cancelled :: bool
  ve_float :: "string \<Rightarrow> rat option"

text \<open>\<open>ve_execute\<close> is \<open>Inl n\<close> for \<open>n\<close> rows and \<open>Inr text\<close> for an exception with that text.\<close>

datatype layer = Layer_pass | Layer_fail string

section \<open>Layer 1: rules\<close>

definition active_tables :: "reasoning_state \<Rightarrow> table_meta list" where
  "active_tables r = filter (\<lambda>t. tm_selection_status t \<noteq> REJECTED) (explored_tables r)"

definition unknown_tables :: "string list \<Rightarrow> table_meta list \<Rightarrow> string list" where
  "unknown_tables used active =
     (let candidates = set (map (\<lambda>t. py_upper (tm_table_name t)) active)
      in if candidates = {} then [] else filter (\<lambda>t. py_upper t \<notin> candidates) used)"

definition allowed_columns :: "table_meta list \<Rightarrow> string set" where
  "allowed_columns active = set (concat (map (\<lambda>t. map (\<lambda>c. py_upper (col_name c)) (tm_columns t)) active))"

definition unknown_columns :: "string list \<Rightarrow> table_meta list \<Rightarrow> string list" where
  "unknown_columns used active =
     (if allowed_columns active = {} then []
      else filter (\<lambda>c. py_upper c \<notin> allowed_columns active) used)"

definition validate_layer1 ::
  "settings \<Rightarrow> validator_env \<Rightarrow> string \<Rightarrow> reasoning_state \<Rightarrow> string \<Rightarrow> layer" where
  "validate_layer1 cfg env sql r dialect =
     (let safety = validate_sql_safety cfg (ve_nfkc env) (ve_parses env dialect) (ve_pii env) sql dialect
      in if \<not> is_safe safety then Layer_fail (py_join ''; '' (safety_errors safety))
         else if \<not> ve_parses env dialect sql then Layer_pass
         else
           let active = active_tables r;
               unknown = unknown_tables (ve_tables env dialect sql) active;
               table_errors =
                 (if unknown \<noteq> []
                  then [''unknown tables: '' @ py_join '', '' unknown @
                        '' -- not in the list of usable tables. Use only confirmed tables: '' @
                        py_join '', '' (sort (map qualified_name active))]
                  else []);
               unknown_cols = (if active \<noteq> [] \<and> table_errors = []
                               then unknown_columns (ve_columns env dialect sql) active else []);
               errors = table_errors @
                 (if unknown_cols \<noteq> []
                  then [''unknown columns: '' @ py_join '', '' unknown_cols @
                        '' -- not in the columns of the candidate tables. Use only confirmed columns.'']
                  else [])
           in if errors \<noteq> [] then Layer_fail (py_join ''; '' errors) else Layer_pass)"

section \<open>Layer 2a: structure\<close>

definition CONCRETE_AGGS :: "string list" where
  "CONCRETE_AGGS = [''SUM'', ''AVG'', ''COUNT'', ''COUNT_DISTINCT'', ''MAX'', ''MIN'']"

definition validate_layer2a :: "string \<Rightarrow> reasoning_state \<Rightarrow> layer" where
  "validate_layer2a sql r =
     (let decomp = query_decomposition r;
          sql_upper = py_upper sql;
          has_grouping = contains sql_upper ''GROUP BY'' \<or> contains sql_upper ''PARTITION BY'' \<or>
                         contains sql_upper ''DISTINCT'';
          has_agg = (\<exists>kw\<in>set [''COUNT('', ''SUM('', ''AVG('', ''MIN('', ''MAX('']. contains sql_upper kw);
          has_agg_in_decomp = (\<exists>m\<in>set (dc_measures decomp). py_upper (snd m) \<in> set CONCRETE_AGGS);
          failed =
            (if dc_group_by decomp \<noteq> [] \<and> \<not> has_grouping
             then [''query_decomposition has group_by but the SQL has no GROUP BY/PARTITION BY/DISTINCT''] else []) @
            (if has_agg_in_decomp \<and> \<not> has_agg
             then [''query_decomposition has an aggregate but the SQL has none''] else [])
      in if failed \<noteq> [] then Layer_fail (py_join ''; '' failed) else Layer_pass)"

section \<open>Layer 3: trial execution\<close>

datatype execution = Exec_rows int | Exec_empty string | Exec_error string

definition limited_sql :: "string \<Rightarrow> string \<Rightarrow> string" where
  "limited_sql dialect sql =
     (if dialect = ''tsql'' then ''SELECT TOP 5 * FROM ('' @ sql @ '') _t''
      else ''SELECT * FROM ('' @ sql @ '') _t LIMIT 5'')"

definition validate_layer3 :: "validator_env \<Rightarrow> string \<Rightarrow> string \<Rightarrow> execution" where
  "validate_layer3 env dialect sql =
     (case ve_execute env (limited_sql dialect sql) of
        Inl n \<Rightarrow>
          if n = 0 then
            Exec_empty (''The SQL was generated and run without error but returned 0 rows.'' @ newline @
              ''The conditions may be too narrow, or there is no data for the period.'' @ newline @
              ''Current SQL:'' @ newline @ sql)
          else Exec_rows n
      | Inr e \<Rightarrow> Exec_error (''DB execution error: '' @ e))"

section \<open>Layer 2b: judgement by the model\<close>

record judgement =
  jd_pass :: bool
  jd_feedback :: string
  jd_classification :: json
  jd_checks :: "(string \<times> json) list"
  jd_summary :: string
  jd_score :: json

definition judgement_unavailable :: judgement where
  "judgement_unavailable =
     \<lparr>jd_pass = False, jd_feedback = ''the semantic check by the LLM failed, the SQL cannot be settled'',
      jd_classification = JStr ''structural'', jd_checks = [], jd_summary = [], jd_score = JNum 0\<rparr>"

text \<open>
  The verdicts of the single checks; a check that is no dict raises an attribute error, which
  the node's \<open>except\<close> turns into \<open>judgement_unavailable\<close>.
\<close>

fun failed_checks :: "(string \<times> json) list \<Rightarrow> string list option" where
  "failed_checks [] = Some []"
| "failed_checks ((k, JObj v) # cs) =
     map_option (\<lambda>fs.
       if obj_get v ''verdict'' JNull = JStr ''PASS'' then fs
       else (k @ '': '' @ json_text (obj_get v ''detail'' (JStr []))) # fs) (failed_checks cs)"
| "failed_checks (_ # cs) = None"

definition judge_reply :: "json \<Rightarrow> judgement" where
  "judge_reply data =
     (case data of
        JObj d \<Rightarrow>
          (case obj_get d ''checks'' (JObj []) of
             JObj checks \<Rightarrow>
               (case failed_checks checks of
                  None \<Rightarrow> judgement_unavailable
                | Some failed \<Rightarrow>
                    let fix_text = obj_get d ''fix_instruction'' (JStr []);
                        classification = obj_get d ''failure_classification'' (JStr ''structural'');
                        score = obj_get d ''confidence_score'' (JNum 0);
                        summary = json_text (obj_get d ''validation_summary'' (JStr []))
                    in if obj_get d ''final_verdict'' (JStr ''PASS'') = JStr ''FAIL'' \<and> failed \<noteq> []
                       then \<lparr>jd_pass = False,
                             jd_feedback = (if json_true fix_text then json_text fix_text else py_join ''; '' failed),
                             jd_classification = classification, jd_checks = [], jd_summary = summary,
                             jd_score = score\<rparr>
                       else \<lparr>jd_pass = True, jd_feedback = [], jd_classification = classification,
                             jd_checks = checks, jd_summary = summary, jd_score = score\<rparr>)
           | _ \<Rightarrow> judgement_unavailable)
      | _ \<Rightarrow> judgement_unavailable)"

text \<open>
  The call, with the parse function \<open>extract_json\<close> and truthiness already applied: a parse
  error or any other exception of the call is \<open>Inl\<close>.  A cancellation is not caught.
\<close>

definition validate_layer2b :: "validator_env \<Rightarrow> judgement result" where
  "validate_layer2b env =
     (case ve_reply env of
        Inl CancelledErr \<Rightarrow> Inl CancelledErr
      | Inl _ \<Rightarrow> Inr judgement_unavailable
      | Inr data \<Rightarrow> Inr (judge_reply data))"

text \<open>\<open>min(max(float(v), 0.0), 1.0)\<close>, 0 where \<open>float\<close> raises.\<close>

definition clamp_score :: "(string \<Rightarrow> rat option) \<Rightarrow> json \<Rightarrow> rat" where
  "clamp_score to_float v =
     (case v of
        JNum q \<Rightarrow> min (max q 0) 1
      | JBool b \<Rightarrow> if b then 1 else 0
      | JStr t \<Rightarrow> (case to_float t of None \<Rightarrow> 0 | Some q \<Rightarrow> min (max q 0) 1)
      | _ \<Rightarrow> 0)"

section \<open>What a failure writes\<close>

definition default_entry_source :: "reasoning_state \<Rightarrow> reasoning_state" where
  "default_entry_source r =
     (if recovery_entry_source r = None then r\<lparr>recovery_entry_source := Some ES_SQL_VALIDATOR\<rparr> else r)"

definition layer1_failure :: "string \<Rightarrow> reasoning_state \<Rightarrow> reasoning_state" where
  "layer1_failure feedback r =
     r\<lparr>loop_guard := increment_local_fix (loop_guard r), failure_type := Some SQL_SYNTAX,
       failure_reason := Some feedback\<rparr>"

definition build_layer2a_failure :: "settings \<Rightarrow> string \<Rightarrow> reasoning_state \<Rightarrow> reasoning_state" where
  "build_layer2a_failure cfg feedback r =
     default_entry_source
       ((if should_escalate_to_structural cfg (loop_guard r)
         then r\<lparr>failure_type := Some SQL_STRUCTURAL\<rparr>
         else r\<lparr>failure_type := Some SQL_SEMANTIC_LOCAL, loop_guard := increment_local_fix (loop_guard r)\<rparr>)
        \<lparr>failure_reason := Some feedback\<rparr>)"

definition build_layer2b_failure ::
  "settings \<Rightarrow> (string \<Rightarrow> rat option) \<Rightarrow> judgement \<Rightarrow> reasoning_state \<Rightarrow> reasoning_state" where
  "build_layer2b_failure cfg to_float j r =
     default_entry_source
       ((if jd_classification j = JStr ''local_fix'' \<and> \<not> should_escalate_to_structural cfg (loop_guard r)
         then r\<lparr>failure_type := Some SQL_SEMANTIC_LOCAL, loop_guard := increment_local_fix (loop_guard r)\<rparr>
         else r\<lparr>failure_type := Some SQL_STRUCTURAL\<rparr>)
        \<lparr>failure_reason := Some (jd_feedback j), validation_summary := jd_summary j,
         confidence_score := clamp_score to_float (jd_score j)\<rparr>)"

definition layer3_failure :: "failure_type \<Rightarrow> string \<Rightarrow> reasoning_state \<Rightarrow> reasoning_state" where
  "layer3_failure ft feedback r =
     default_entry_source (r\<lparr>failure_type := Some ft, failure_reason := Some feedback\<rparr>)"

definition all_passed :: "string \<Rightarrow> reasoning_state \<Rightarrow> reasoning_state" where
  "all_passed sql r = r\<lparr>validated_sql := Some sql, failure_type := None, failure_reason := None\<rparr>"

section \<open>The node\<close>

text \<open>After the trial execution: layer 2b when it is enabled, and the final decision.\<close>

definition decide_with_llm ::
  "settings \<Rightarrow> validator_env \<Rightarrow> string \<Rightarrow> execution \<Rightarrow> judgement \<Rightarrow> reasoning_state \<Rightarrow> reasoning_state" where
  "decide_with_llm cfg env sql ex j r =
     (if \<not> jd_pass j then build_layer2b_failure cfg (ve_float env) j r
      else
        let r1 = r\<lparr>validation_checks := jd_checks j, validation_summary := jd_summary j,
                   confidence_score := clamp_score (ve_float env) (jd_score j)\<rparr>
        in (case ex of
              Exec_error feedback \<Rightarrow> layer3_failure DB_ERROR feedback r1
            | _ \<Rightarrow> all_passed sql r1))"

definition decide_without_llm :: "string \<Rightarrow> execution \<Rightarrow> reasoning_state \<Rightarrow> reasoning_state" where
  "decide_without_llm sql ex r =
     (case ex of
        Exec_error feedback \<Rightarrow> layer3_failure DB_ERROR feedback r
      | Exec_empty feedback \<Rightarrow> layer3_failure EMPTY_RESULT feedback r
      | Exec_rows n \<Rightarrow> all_passed sql r)"

definition sql_validator_node ::
  "settings \<Rightarrow> (string \<times> connector) list \<Rightarrow> validator_env \<Rightarrow> pipeline_state \<Rightarrow> pipeline_state result" where
  "sql_validator_node cfg dbs env s =
     (let r = (reason s)\<lparr>phase := VALIDATING\<rparr>
      in case generated_sql r of
           None \<Rightarrow> Inr (s\<lparr>reason := r\<lparr>failure_type := Some SQL_SYNTAX,
                                    failure_reason := Some ''No SQL was generated.''\<rparr>\<rparr>)
         | Some sql \<Rightarrow>
             if sql = [] then
               Inr (s\<lparr>reason := r\<lparr>failure_type := Some SQL_SYNTAX,
                                  failure_reason := Some ''No SQL was generated.''\<rparr>\<rparr>)
             else
               result_bind (get_query_db cfg dbs (target_db r) []) (\<lambda>db.
                 (case validate_layer1 cfg env sql r (conn_dialect db) of
                    Layer_fail fb \<Rightarrow> Inr (s\<lparr>reason := layer1_failure fb r\<rparr>)
                  | Layer_pass \<Rightarrow>
                      (case validate_layer2a sql r of
                         Layer_fail fb \<Rightarrow> Inr (s\<lparr>reason := build_layer2a_failure cfg fb r\<rparr>)
                       | Layer_pass \<Rightarrow>
                           let ex = validate_layer3 env (conn_dialect db) sql
                           in if validate_layer2b_enabled cfg then
                                if ve_cancelled env then Inr (make_cancel_updates s)
                                else result_bind (validate_layer2b env) (\<lambda>j.
                                       Inr (s\<lparr>reason := decide_with_llm cfg env sql ex j r\<rparr>))
                              else Inr (s\<lparr>reason := decide_without_llm sql ex r\<rparr>)))))"

text \<open>\<open>_infer_trace_routing\<close>: the node the trace says comes next.\<close>

definition infer_trace_routing :: "settings \<Rightarrow> reasoning_state \<Rightarrow> string" where
  "infer_trace_routing cfg r =
     (case failure_type r of
        None \<Rightarrow> ''result_finalizer''
      | Some ft \<Rightarrow>
          if ft \<in> {SQL_SYNTAX, SQL_SEMANTIC_LOCAL} then
            if should_escalate_to_structural cfg (loop_guard r) then ''recovery_agent''
            else if MAX_GENERATES cfg > 0 \<and> generate_attempts (loop_guard r) \<ge> MAX_GENERATES cfg
              then ''result_finalizer''
            else ''sql_generator''
          else ''recovery_agent'')"

section \<open>Facts\<close>

lemma default_entry_source_frame [frame_simps]:
  "validated_sql (default_entry_source r) = validated_sql r"
  "failure_type (default_entry_source r) = failure_type r"
  "failure_reason (default_entry_source r) = failure_reason r"
  "loop_guard (default_entry_source r) = loop_guard r"
  "generated_sql (default_entry_source r) = generated_sql r"
  "explored_tables (default_entry_source r) = explored_tables r"
  "knowledge_items (default_entry_source r) = knowledge_items r"
  "explored_use_cases (default_entry_source r) = explored_use_cases r"
  "hypotheses (default_entry_source r) = hypotheses r"
  "current_hypothesis (default_entry_source r) = current_hypothesis r"
  "final_status (default_entry_source r) = final_status r"
  "target_db (default_entry_source r) = target_db r"
  "is_force_generated (default_entry_source r) = is_force_generated r"
  "recovery_entry_source (default_entry_source r) =
     Some (case recovery_entry_source r of None \<Rightarrow> ES_SQL_VALIDATOR | Some e \<Rightarrow> e)"
  by (auto simp: default_entry_source_def split: option.split)

lemmas validator_defs =
  layer1_failure_def build_layer2a_failure_def build_layer2b_failure_def layer3_failure_def
  all_passed_def decide_with_llm_def decide_without_llm_def make_cancel_updates_def

text \<open>
  What acceptance means: every layer has passed \<open>sql\<close> on the resolved database and, with
  layer 2b enabled, the model judged it; without layer 2b rows must have come back.
\<close>

definition accepted ::
  "settings \<Rightarrow> (string \<times> connector) list \<Rightarrow> validator_env \<Rightarrow> pipeline_state \<Rightarrow> string \<Rightarrow> bool" where
  "accepted cfg dbs env s sql \<longleftrightarrow>
     generated_sql (reason s) = Some sql \<and> sql \<noteq> [] \<and>
     (\<exists>db. get_query_db cfg dbs (target_db (reason s)) [] = Inr db \<and>
        validate_layer1 cfg env sql ((reason s)\<lparr>phase := VALIDATING\<rparr>) (conn_dialect db) = Layer_pass \<and>
        validate_layer2a sql ((reason s)\<lparr>phase := VALIDATING\<rparr>) = Layer_pass \<and>
        (if validate_layer2b_enabled cfg
         then \<not> ve_cancelled env \<and>
              (\<exists>j. validate_layer2b env = Inr j \<and> jd_pass j) \<and>
              (\<forall>e. validate_layer3 env (conn_dialect db) sql \<noteq> Exec_error e)
         else (\<exists>n. validate_layer3 env (conn_dialect db) sql = Exec_rows n)))"

lemma decide_with_llm_cases:
  "(jd_pass j \<and> (\<forall>e. ex \<noteq> Exec_error e) \<and> validated_sql (decide_with_llm cfg env sql ex j r) = Some sql \<and>
      failure_type (decide_with_llm cfg env sql ex j r) = None \<and>
      loop_guard (decide_with_llm cfg env sql ex j r) = loop_guard r) \<or>
   (\<not> (jd_pass j \<and> (\<forall>e. ex \<noteq> Exec_error e)) \<and>
      validated_sql (decide_with_llm cfg env sql ex j r) = validated_sql r \<and>
      failure_type (decide_with_llm cfg env sql ex j r) \<noteq> None)"
  by (auto simp: validator_defs frame_simps Let_def split: execution.splits)

lemma decide_without_llm_cases:
  "((\<exists>n. ex = Exec_rows n) \<and> validated_sql (decide_without_llm sql ex r) = Some sql \<and>
      failure_type (decide_without_llm sql ex r) = None) \<or>
   (\<not> (\<exists>n. ex = Exec_rows n) \<and> validated_sql (decide_without_llm sql ex r) = validated_sql r \<and>
      failure_type (decide_without_llm sql ex r) \<noteq> None)"
  by (auto simp: validator_defs frame_simps split: execution.splits)

text \<open>A run that resolves the database, split by the layer that decides.\<close>

lemma sql_validator_node_cases:
  assumes "sql_validator_node cfg dbs env s = Inr s'"
  obtains (no_sql) "generated_sql (reason s) \<in> {None, Some []}"
      "s' = s\<lparr>reason := (reason s)\<lparr>phase := VALIDATING, failure_type := Some SQL_SYNTAX,
               failure_reason := Some ''No SQL was generated.''\<rparr>\<rparr>"
  | (layer1) sql db fb where "generated_sql (reason s) = Some sql" "sql \<noteq> []"
      "get_query_db cfg dbs (target_db (reason s)) [] = Inr db"
      "validate_layer1 cfg env sql ((reason s)\<lparr>phase := VALIDATING\<rparr>) (conn_dialect db) = Layer_fail fb"
      "s' = s\<lparr>reason := layer1_failure fb ((reason s)\<lparr>phase := VALIDATING\<rparr>)\<rparr>"
  | (layer2a) sql db fb where "generated_sql (reason s) = Some sql" "sql \<noteq> []"
      "get_query_db cfg dbs (target_db (reason s)) [] = Inr db"
      "validate_layer2a sql ((reason s)\<lparr>phase := VALIDATING\<rparr>) = Layer_fail fb"
      "s' = s\<lparr>reason := build_layer2a_failure cfg fb ((reason s)\<lparr>phase := VALIDATING\<rparr>)\<rparr>"
  | (cancelled) "s' = make_cancel_updates s" "validate_layer2b_enabled cfg" "ve_cancelled env"
  | (judged) sql db j where "generated_sql (reason s) = Some sql" "sql \<noteq> []"
      "get_query_db cfg dbs (target_db (reason s)) [] = Inr db"
      "validate_layer1 cfg env sql ((reason s)\<lparr>phase := VALIDATING\<rparr>) (conn_dialect db) = Layer_pass"
      "validate_layer2a sql ((reason s)\<lparr>phase := VALIDATING\<rparr>) = Layer_pass"
      "validate_layer2b_enabled cfg" "\<not> ve_cancelled env" "validate_layer2b env = Inr j"
      "s' = s\<lparr>reason := decide_with_llm cfg env sql (validate_layer3 env (conn_dialect db) sql) j
               ((reason s)\<lparr>phase := VALIDATING\<rparr>)\<rparr>"
  | (unjudged) sql db where "generated_sql (reason s) = Some sql" "sql \<noteq> []"
      "get_query_db cfg dbs (target_db (reason s)) [] = Inr db"
      "validate_layer1 cfg env sql ((reason s)\<lparr>phase := VALIDATING\<rparr>) (conn_dialect db) = Layer_pass"
      "validate_layer2a sql ((reason s)\<lparr>phase := VALIDATING\<rparr>) = Layer_pass"
      "\<not> validate_layer2b_enabled cfg"
      "s' = s\<lparr>reason := decide_without_llm sql (validate_layer3 env (conn_dialect db) sql)
               ((reason s)\<lparr>phase := VALIDATING\<rparr>)\<rparr>"
proof (cases "generated_sql (reason s)")
  case None
  with assms no_sql show thesis by (simp add: sql_validator_node_def Let_def)
next
  case (Some sql)
  show thesis
  proof (cases "sql = []")
    case True
    with Some assms no_sql show thesis by (simp add: sql_validator_node_def Let_def)
  next
    case False
    note nonempty = this
    from Some False assms obtain db where db: "get_query_db cfg dbs (target_db (reason s)) [] = Inr db"
      by (auto simp: sql_validator_node_def Let_def result_bind_Inr_iff)
    show thesis
    proof (cases "validate_layer1 cfg env sql ((reason s)\<lparr>phase := VALIDATING\<rparr>) (conn_dialect db)")
      case (Layer_fail fb)
      with Some False db assms layer1 show thesis by (simp add: sql_validator_node_def Let_def)
    next
      case Layer_pass
      note l1 = this
      show thesis
      proof (cases "validate_layer2a sql ((reason s)\<lparr>phase := VALIDATING\<rparr>)")
        case (Layer_fail fb)
        with Some False db l1 assms layer2a show thesis by (simp add: sql_validator_node_def Let_def)
      next
        case Layer_pass
        note l2 = this
        have run: "(if validate_layer2b_enabled cfg then
            if ve_cancelled env then Inr (make_cancel_updates s)
            else result_bind (validate_layer2b env) (\<lambda>j. Inr (s\<lparr>reason :=
              decide_with_llm cfg env sql (validate_layer3 env (conn_dialect db) sql) j ((reason s)\<lparr>phase := VALIDATING\<rparr>)\<rparr>))
            else Inr (s\<lparr>reason := decide_without_llm sql (validate_layer3 env (conn_dialect db) sql)
              ((reason s)\<lparr>phase := VALIDATING\<rparr>)\<rparr>)) = Inr s'"
          using assms Some nonempty db l1 l2 by (simp add: sql_validator_node_def Let_def)
        show thesis
        proof (cases "validate_layer2b_enabled cfg")
          case False
          with run unjudged [OF Some nonempty db l1 l2] show thesis by simp
        next
          case enabled: True
          show thesis
          proof (cases "ve_cancelled env")
            case True
            with run enabled cancelled show thesis by simp
          next
            case False
            with run enabled obtain j where "validate_layer2b env = Inr j"
              "s' = s\<lparr>reason := decide_with_llm cfg env sql (validate_layer3 env (conn_dialect db) sql) j
                 ((reason s)\<lparr>phase := VALIDATING\<rparr>)\<rparr>"
              by (auto simp: result_bind_Inr_iff)
            with judged [OF Some nonempty db l1 l2 enabled False] show thesis by simp
          qed
        qed
      qed
    qed
  qed
qed

section \<open>Properties\<close>

text \<open>
  C3: The validator confirms nothing unchecked.  A run that returns either accepted the
  generated SQL, which then is the validated SQL with the failure cleared, or left the
  validated SQL as it was and reports a failure type or a cancellation.  Acceptance means that
  all enabled layers have passed on the database the target resolves to.
\<close>
theorem validator_confirms_only_accepted:
  assumes "sql_validator_node cfg dbs env s = Inr s'"
  shows "(\<exists>sql. accepted cfg dbs env s sql \<and> validated_sql (reason s') = Some sql \<and>
       failure_type (reason s') = None \<and> status s' = status s) \<or>
     (validated_sql (reason s') = validated_sql (reason s) \<and>
      (failure_type (reason s') \<noteq> None \<or> status s' = QS_CANCELLED))"
  using assms
proof (cases rule: sql_validator_node_cases)
  case (judged sql db j)
  with decide_with_llm_cases [of j "validate_layer3 env (conn_dialect db) sql" cfg env sql
      "(reason s)\<lparr>phase := VALIDATING\<rparr>"]
  show ?thesis by (auto simp: accepted_def)
next
  case (unjudged sql db)
  with decide_without_llm_cases [of "validate_layer3 env (conn_dialect db) sql" sql
      "(reason s)\<lparr>phase := VALIDATING\<rparr>"]
  show ?thesis by (auto simp: accepted_def)
qed (auto simp: validator_defs frame_simps)

definition idle_env :: validator_env where
  "idle_env = \<lparr>ve_nfkc = id, ve_pii = [], ve_parses = \<lambda>_ _. True, ve_tables = \<lambda>_ _. [],
     ve_columns = \<lambda>_ _. [], ve_execute = \<lambda>_. Inl 0, ve_reply = Inl TimeoutErr,
     ve_cancelled = False, ve_float = \<lambda>_. None\<rparr>"

theorem validator_confirms_only_accepted_witness:
  "\<exists>s'. sql_validator_node default_settings [] idle_env new_pipeline_state = Inr s' \<and>
     validated_sql (reason s') = None"
proof -
  have "\<exists>s'. sql_validator_node default_settings [] idle_env new_pipeline_state = Inr s'"
    by (simp add: sql_validator_node_def new_pipeline_state_def new_reasoning_state_def)
  then obtain s' where s': "sql_validator_node default_settings [] idle_env new_pipeline_state = Inr s'" ..
  from validator_confirms_only_accepted [OF this]
  have "validated_sql (reason s') = None"
    by (auto simp: accepted_def new_pipeline_state_def new_reasoning_state_def)
  with s' show ?thesis by blast
qed

text \<open>
  The local-fix budget.  A run raises the local-fix counter by at most one, raises it
  whenever it reports a semantic local failure, and reports one only while the budget is not
  used up; so no state it reports as locally fixable has a counter above the limit.  No other
  counter moves.
\<close>
theorem validator_local_fix_budget:
  assumes "sql_validator_node cfg dbs env s = Inr s'"
  shows "(loop_guard (reason s') = loop_guard (reason s) \<or>
      loop_guard (reason s') = increment_local_fix (loop_guard (reason s))) \<and>
    (failure_type (reason s') = Some SQL_SEMANTIC_LOCAL \<and> status s' \<noteq> QS_CANCELLED \<longrightarrow>
      loop_guard (reason s') = increment_local_fix (loop_guard (reason s)) \<and>
      local_fix_count (loop_guard (reason s')) \<le> MAX_LOCAL_FIXES cfg)"
  using assms
  by (cases rule: sql_validator_node_cases)
     (auto simp: validator_defs frame_simps increment_local_fix_def should_escalate_to_structural_def Let_def
       split: execution.splits)

theorem validator_local_fix_budget_witness:
  "\<exists>s'. sql_validator_node default_settings [] idle_env new_pipeline_state = Inr s' \<and>
     (loop_guard (reason s') = new_loop_guard \<or> loop_guard (reason s') = increment_local_fix new_loop_guard)"
proof -
  have "\<exists>s'. sql_validator_node default_settings [] idle_env new_pipeline_state = Inr s'"
    by (simp add: sql_validator_node_def new_pipeline_state_def new_reasoning_state_def)
  then obtain s' where s': "sql_validator_node default_settings [] idle_env new_pipeline_state = Inr s'" ..
  from validator_local_fix_budget [OF this] s' show ?thesis
    by (auto simp: new_pipeline_state_def new_reasoning_state_def)
qed

text \<open>
  What layer 1 guarantees about names.  SQL that passes and parses uses only tables that
  are not rejected, as soon as one such table is known, and only columns of those tables, as
  soon as one of their columns is known; names are compared without case.
\<close>
theorem layer1_whitelist:
  assumes "validate_layer1 cfg env sql r d = Layer_pass" and "ve_parses env d sql"
  shows "is_safe (validate_sql_safety cfg (ve_nfkc env) (ve_parses env d) (ve_pii env) sql d) \<and>
    (active_tables r = [] \<or>
      (\<forall>t\<in>set (ve_tables env d sql).
         \<exists>ct\<in>set (explored_tables r). tm_selection_status ct \<noteq> REJECTED \<and>
           py_upper (tm_table_name ct) = py_upper t)) \<and>
    (allowed_columns (active_tables r) = {} \<or>
      (\<forall>c\<in>set (ve_columns env d sql). py_upper c \<in> allowed_columns (active_tables r)))"
proof -
  have ut: "unknown_tables (ve_tables env d sql) (active_tables r) = []"
    and uc: "active_tables r = [] \<or> unknown_columns (ve_columns env d sql) (active_tables r) = []"
    and safe: "is_safe (validate_sql_safety cfg (ve_nfkc env) (ve_parses env d) (ve_pii env) sql d)"
    using assms by (auto simp: validate_layer1_def Let_def split: if_splits)
  have ac: "active_tables r = [] \<Longrightarrow> allowed_columns (active_tables r) = {}"
    by (simp add: allowed_columns_def)
  from ut have "active_tables r = [] \<or>
      (\<forall>t\<in>set (ve_tables env d sql). py_upper t \<in> (\<lambda>ct. py_upper (tm_table_name ct)) ` set (active_tables r))"
    by (auto simp: unknown_tables_def filter_empty_conv Let_def split: if_splits)
  moreover from uc ac have "allowed_columns (active_tables r) = {} \<or>
      (\<forall>c\<in>set (ve_columns env d sql). py_upper c \<in> allowed_columns (active_tables r))"
    by (auto simp: unknown_columns_def filter_empty_conv split: if_splits)
  ultimately show ?thesis using safe by (fastforce simp: active_tables_def)
qed

theorem layer1_whitelist_witness:
  "\<exists>ct\<in>set [sample_table ''T1'' ''ADW'' SELECTED]. py_upper (tm_table_name ct) = py_upper ''t1''"
proof -
  let ?env = "idle_env\<lparr>ve_tables := \<lambda>_ _. [''t1'']\<rparr>"
  let ?r = "new_reasoning_state\<lparr>explored_tables := [sample_table ''T1'' ''ADW'' SELECTED]\<rparr>"
  have safe: "is_safe (validate_sql_safety default_settings id (\<lambda>_. True) [] ''SELECT 1 LIMIT 5'' ''tsql'')"
  proof -
    have "normalize_unicode id (py_strip ''SELECT 1 LIMIT 5'') = ''SELECT 1 LIMIT 5''"
      and "check_forbidden_patterns ''SELECT 1 LIMIT 5'' = []"
      and "py_upper ''SELECT 1 LIMIT 5'' = ''SELECT 1 LIMIT 5''" by code_simp+
    then show ?thesis by (simp add: safe_iff Let_def has_row_limit_def check_pii_columns_def)
  qed
  have up: "py_upper ''t1'' = ''T1''" "py_upper ''T1'' = ''T1''" by code_simp+
  have tn: "tm_table_name (sample_table ''T1'' ''ADW'' SELECTED) = ''T1''"
    by (simp add: sample_table_def)
  have active: "active_tables ?r = [sample_table ''T1'' ''ADW'' SELECTED]"
    by (simp add: active_tables_def sample_table_def)
  have "validate_layer1 default_settings ?env ''SELECT 1 LIMIT 5'' ?r ''tsql'' = Layer_pass"
    using safe up tn by (simp add: validate_layer1_def idle_env_def active unknown_tables_def unknown_columns_def Let_def)
  from layer1_whitelist [OF this] active show ?thesis by (auto simp: idle_env_def)
qed

text \<open>
  A text the dialect's parser rejects, as checked and as written, never reaches the trial
  execution: the safety check already counts it as an error, so the branch of layer 1 that
  means to hand such a text to the database is not taken.
\<close>
theorem unparsable_never_delegated:
  assumes "\<not> ve_parses env d (normalize_unicode (ve_nfkc env) (py_strip sql))"
  shows "\<exists>fb. validate_layer1 cfg env sql r d = Layer_fail fb"
  using assms safe_iff [of cfg "ve_nfkc env" "ve_parses env d" "ve_pii env" sql d]
  by (auto simp: validate_layer1_def Let_def)

theorem unparsable_never_delegated_witness:
  "\<exists>fb. validate_layer1 default_settings (idle_env\<lparr>ve_parses := \<lambda>_ _. False\<rparr>) ''SELECT TOP 1 * FROM T''
     new_reasoning_state ''tsql'' = Layer_fail fb"
  by (rule unparsable_never_delegated) simp

text \<open>
  A reply whose verdict is FAIL but which lists no failing check counts as passed, so the
  SQL it rejects is confirmed when the trial execution raised no error.
\<close>
theorem bare_fail_verdict_passes:
  assumes "map_of d ''final_verdict'' = Some (JStr ''FAIL'')" and "map_of d ''checks'' \<in> {None, Some (JObj [])}"
  shows "jd_pass (judge_reply (JObj d)) \<and>
    (case ex of Exec_error e \<Rightarrow> True
     | _ \<Rightarrow> validated_sql (decide_with_llm cfg env sql ex (judge_reply (JObj d)) r) = Some sql)"
proof -
  have "jd_pass (judge_reply (JObj d))"
    using assms by (auto simp: judge_reply_def obj_get_def Let_def)
  then show ?thesis by (auto simp: decide_with_llm_def all_passed_def Let_def split: execution.split)
qed

theorem bare_fail_verdict_passes_witness:
  "jd_pass (judge_reply (JObj [(''final_verdict'', JStr ''FAIL''), (''fix_instruction'', JStr ''wrong join'')]))"
  using bare_fail_verdict_passes [where d = "[(''final_verdict'', JStr ''FAIL''), (''fix_instruction'', JStr ''wrong join'')]"
      and ex = "Exec_error []"] by simp

text \<open>
  The entry source is only filled in when it is empty.  Once an earlier replanning has set
  it, a validation failure keeps the old one, so the recovery agent is told it was entered
  from the readiness gate although the SQL failed validation; a syntax failure of layer 1
  does not set it at all.
\<close>
theorem validator_keeps_stale_entry_source:
  assumes "sql_validator_node cfg dbs env s = Inr s'" and "recovery_entry_source (reason s) = Some e"
  shows "recovery_entry_source (reason s') = Some e"
  using assms(1)
  by (cases rule: sql_validator_node_cases)
     (use assms(2) in \<open>auto simp: validator_defs frame_simps Let_def split: execution.splits\<close>)

theorem validator_keeps_stale_entry_source_witness:
  "\<exists>s'. sql_validator_node default_settings [] idle_env
      (new_pipeline_state\<lparr>reason := new_reasoning_state\<lparr>recovery_entry_source := Some ES_READINESS_GATE\<rparr>\<rparr>) = Inr s' \<and>
    recovery_entry_source (reason s') = Some ES_READINESS_GATE"
proof -
  let ?s = "new_pipeline_state\<lparr>reason := new_reasoning_state\<lparr>recovery_entry_source := Some ES_READINESS_GATE\<rparr>\<rparr>"
  have "\<exists>s'. sql_validator_node default_settings [] idle_env ?s = Inr s'"
    by (simp add: sql_validator_node_def new_reasoning_state_def)
  then obtain s' where s': "sql_validator_node default_settings [] idle_env ?s = Inr s'" ..
  from validator_keeps_stale_entry_source [OF this, of ES_READINESS_GATE] s' show ?thesis by auto
qed

end
