(* ===== verification/Recovery.thy ===== *)
theory Recovery imports SqlGenerator Readiness begin

text \<open>
  The recovery agent (\<open>src/src/agents/nodes/reason/recovery_agent.py\<close>): hypothesis transition,
  dead ends, reading of the model's plan, the questions to the user, and giving up.  The
  outcome of the model call is an argument; most of the prompt's sections are not modelled.
\<close>

section \<open>Hypotheses and dead ends\<close>

definition open_critical_ids :: "reasoning_state \<Rightarrow> string list" where
  "open_critical_ids r =
     map ki_id (filter (\<lambda>ki. ki_status ki \<in> {UNRESOLVED, CONFLICTED} \<and> ki_is_critical ki) (knowledge_items r))"

definition new_dead_end :: "string \<Rightarrow> failure_type \<Rightarrow> string \<Rightarrow> string list \<Rightarrow> dead_end" where
  "new_dead_end hid ft why ids =
     \<lparr>de_hypothesis_id = hid, de_failure_type = ft, de_reason = why, de_lessons_learned = [],
      de_related_knowledge_ids = ids\<rparr>"

text \<open>\<open>x or d\<close> of an optional text.\<close>

definition text_or :: "string option \<Rightarrow> string \<Rightarrow> string" where
  "text_or x d = (case x of None \<Rightarrow> d | Some t \<Rightarrow> if t \<noteq> [] then t else d)"

text \<open>
  \<open>_consume_next_pending\<close>: the stable descending sort puts the first hypothesis of highest
  priority in front; it is replaced by an active copy at the first entry with its id.
\<close>

definition top_pending :: "hypothesis list \<Rightarrow> hypothesis option" where
  "top_pending hs =
     (let pending = filter (\<lambda>h. hyp_status h = Hyp_PENDING) hs
      in if pending = [] then None else Some (hd (sort_key (\<lambda>h. - hyp_priority h) pending)))"

definition consume_next_pending :: "hypothesis list \<Rightarrow> hypothesis option \<times> hypothesis list" where
  "consume_next_pending hs =
     (case top_pending hs of
        None \<Rightarrow> (None, hs)
      | Some p \<Rightarrow>
          let nxt = p\<lparr>hyp_status := Hyp_ACTIVE\<rparr>
          in (Some nxt, update_first (\<lambda>h. hyp_id h = hyp_id nxt) (\<lambda>_. nxt) hs))"

text \<open>The first half of \<open>_handle_hypothesis_transition\<close>: the failed hypothesis, the dead end.\<close>

definition fail_current :: "reasoning_state \<Rightarrow> reasoning_state" where
  "fail_current r =
     (let ids = open_critical_ids r;
          no_hypothesis = (case failure_type r of
             None \<Rightarrow> r
           | Some ft \<Rightarrow>
               r\<lparr>dead_ends := dead_ends r @
                   [new_dead_end ''no_hypothesis'' ft (text_or (failure_reason r) ''failed without a hypothesis'') ids]\<rparr>)
      in case current_hypothesis r of
           None \<Rightarrow> no_hypothesis
         | Some ch \<Rightarrow>
             if hyp_status ch = Hyp_ACTIVE then
               let failed = ch\<lparr>hyp_status := Hyp_FAILED\<rparr>
               in r\<lparr>hypotheses := update_first (\<lambda>h. hyp_id h = hyp_id failed) (\<lambda>_. failed) (hypotheses r),
                    dead_ends := dead_ends r @
                      [new_dead_end (hyp_id failed)
                         (case failure_type r of None \<Rightarrow> TERM_UNRESOLVABLE | Some ft \<Rightarrow> ft)
                         (text_or (failure_reason r) ''no failure reason given'') ids]\<rparr>
             else no_hypothesis)"

definition handle_hypothesis_transition :: "reasoning_state \<Rightarrow> reasoning_state" where
  "handle_hypothesis_transition r =
     (let r1 = fail_current r
      in case consume_next_pending (hypotheses r1) of
           (None, hs) \<Rightarrow> r1\<lparr>current_hypothesis := None\<rparr>
         | (Some nxt, hs) \<Rightarrow>
             r1\<lparr>hypotheses := hs, current_hypothesis := Some nxt,
                loop_guard := (loop_guard r1)\<lparr>local_fix_count := 0\<rparr>\<rparr>)"

section \<open>Questions to the user\<close>

definition has_clarification_answer :: "pipeline_state \<Rightarrow> bool" where
  "has_clarification_answer s \<longleftrightarrow>
     (\<exists>sg\<in>set (resolved_signals s). sg_turn_id sg = Some (turn_id s) \<and>
        sg_source_node sg = ''recovery_agent'' \<and> sg_answer sg \<noteq> None)"

definition estimate_item_failure_count :: "knowledge_item \<Rightarrow> dead_end list \<Rightarrow> nat" where
  "estimate_item_failure_count ki des =
     length (filter (\<lambda>de. ki_id ki \<in> set (de_related_knowledge_ids de)) des)"

definition build_ask_user_eligible_items :: "reasoning_state \<Rightarrow> string" where
  "build_ask_user_eligible_items r =
     (let unresolved = filter (\<lambda>ki. ki_status ki \<in> {UNRESOLVED, CONFLICTED} \<and> ki_is_critical ki) (knowledge_items r)
      in if unresolved = [] then ''(no unresolved item)''
         else py_join newline (map (\<lambda>ki.
                let n = estimate_item_failure_count ki (dead_ends r)
                in ''- ('' @ ki_id ki @ '') '' @ ki_key ki @ '' -> failed '' @ str_int (int n) @ '' times'' @
                   (if n \<ge> 2 then '', exploration limit'' else [])) unresolved))"

section \<open>The model's plan\<close>

record clarification_request =
  cr_type :: string
  cr_question :: string
  cr_options :: "string list option"

record recovery_plan =
  pl_action :: string
  pl_lessons :: string
  pl_steps :: "execution_step list"
  pl_new_hypothesis :: "hypothesis option"
  pl_clarification :: "clarification_request option"

definition give_up_plan :: "string \<Rightarrow> recovery_plan" where
  "give_up_plan lessons = \<lparr>pl_action = ''give_up'', pl_lessons = lessons, pl_steps = [],
     pl_new_hypothesis = None, pl_clarification = None\<rparr>"

text \<open>Field checks of the pydantic models, with their error as a parse outcome.\<close>

definition str_parsed :: "json \<Rightarrow> string parsed" where
  "str_parsed v = (case v of JStr s \<Rightarrow> Inr s | _ \<Rightarrow> Inl (ValueError, ''validation error''))"

fun str_list_parsed :: "json list \<Rightarrow> string list parsed" where
  "str_list_parsed [] = Inr []"
| "str_list_parsed (JStr s # vs) = map_sum id (\<lambda>ss. s # ss) (str_list_parsed vs)"
| "str_list_parsed (_ # vs) = Inl (ValueError, ''validation error'')"

fun parsed_bind :: "'a parsed \<Rightarrow> ('a \<Rightarrow> 'b parsed) \<Rightarrow> 'b parsed" where
  "parsed_bind (Inl e) f = Inl e"
| "parsed_bind (Inr a) f = f a"

definition options_parsed :: "json \<Rightarrow> string list option parsed" where
  "options_parsed v =
     (case v of
        JNull \<Rightarrow> Inr None
      | JList vs \<Rightarrow> map_sum id Some (str_list_parsed vs)
      | _ \<Rightarrow> Inl (ValueError, ''validation error''))"

definition clarification_type :: "json \<Rightarrow> string" where
  "clarification_type v =
     (case v of
        JStr s \<Rightarrow> let t = py_strip (py_lower s)
                 in if t \<in> {''single_select'', ''free_text''} then t else ''free_text''
      | _ \<Rightarrow> ''free_text'')"

definition parse_ask_user :: "(string \<times> json) list \<Rightarrow> recovery_plan parsed" where
  "parse_ask_user d =
     (case py_or (obj_get d ''clarification'' JNull) (JObj []) of
        JObj cd \<Rightarrow>
          parsed_bind (str_parsed (obj_get cd ''question'' (JStr ''More information is needed.''))) (\<lambda>q.
          parsed_bind (options_parsed (obj_get cd ''options'' JNull)) (\<lambda>opts.
          parsed_bind (str_parsed (obj_get d ''lessons_learned'' (JStr []))) (\<lambda>lessons.
            Inr \<lparr>pl_action = ''ask_user'', pl_lessons = lessons, pl_steps = [], pl_new_hypothesis = None,
                 pl_clarification = Some \<lparr>cr_type = clarification_type (obj_get cd ''type'' (JStr ''free_text'')),
                                          cr_question = q, cr_options = opts\<rparr>\<rparr>)))
      | _ \<Rightarrow> Inl (AttributeError, ''get''))"

definition new_step :: "int \<Rightarrow> string \<Rightarrow> string \<Rightarrow> string \<Rightarrow> execution_step" where
  "new_step n tool inp purp =
     \<lparr>es_step = n, es_tool = tool, es_input = inp, es_purpose = purp, es_status = Step_PENDING,
      es_insight = None, es_raw_result = None, es_hypothesis_id = []\<rparr>"

text \<open>The loop over \<open>execution_plan\<close>; the first argument is the index plus one.\<close>

fun parse_steps :: "int \<Rightarrow> json list \<Rightarrow> execution_step list parsed" where
  "parse_steps i [] = Inr []"
| "parse_steps i (JObj d # vs) =
     (if json_true (obj_get d ''tool'' JNull) then
        parsed_bind (str_parsed (obj_get d ''tool'' JNull)) (\<lambda>tool.
        parsed_bind (str_parsed (obj_get d ''input'' (JStr []))) (\<lambda>inp.
        parsed_bind (str_parsed (obj_get d ''purpose'' (JStr []))) (\<lambda>purp.
          map_sum id (\<lambda>ss. new_step i tool inp purp # ss) (parse_steps (i + 1) vs))))
      else parse_steps (i + 1) vs)"
| "parse_steps i (_ # vs) = parse_steps (i + 1) vs"

definition plan_entries :: "json \<Rightarrow> json list parsed" where
  "plan_entries v =
     (case v of
        JList vs \<Rightarrow> Inr vs
      | JStr s \<Rightarrow> Inr (map (\<lambda>c. JStr [c]) s)
      | JObj kvs \<Rightarrow> Inr (map (\<lambda>kv. JStr (fst kv)) kvs)
      | _ \<Rightarrow> Inl (TypeErr, ''not iterable''))"

definition llm_hypothesis :: "string \<Rightarrow> string \<Rightarrow> hypothesis" where
  "llm_hypothesis desc strat =
     \<lparr>hyp_id = [], hyp_description = desc, hyp_based_on_use_case = None, hyp_missing_terms = [],
      hyp_priority = 7 / 10, hyp_strategy = strat, hyp_status = Hyp_ACTIVE,
      hyp_readiness_score = None, hyp_readiness_verdict = []\<rparr>"

definition parse_new_hypothesis :: "json \<Rightarrow> execution_step list \<Rightarrow> hypothesis parsed" where
  "parse_new_hypothesis v steps =
     (let inferred = llm_hypothesis (es_purpose (hd steps)) (py_join '', '' (map es_purpose steps))
      in case v of
           JObj hd1 \<Rightarrow>
             if json_true (obj_get hd1 ''description'' JNull) then
               parsed_bind (str_parsed (obj_get hd1 ''description'' JNull)) (\<lambda>desc.
               parsed_bind (str_parsed (obj_get hd1 ''strategy'' (JStr []))) (\<lambda>strat.
                 Inr (llm_hypothesis desc strat)))
             else Inr inferred
         | _ \<Rightarrow> Inr inferred)"

definition parse_replan :: "(string \<times> json) list \<Rightarrow> recovery_plan parsed" where
  "parse_replan d =
     parsed_bind (plan_entries (obj_get d ''execution_plan'' (JList []))) (\<lambda>vs.
     parsed_bind (parse_steps 1 vs) (\<lambda>steps.
       if steps = [] then
         parsed_bind (str_parsed (obj_get d ''lessons_learned'' (JStr []))) (\<lambda>lessons. Inr (give_up_plan lessons))
       else
         parsed_bind (parse_new_hypothesis (obj_get d ''new_hypothesis'' JNull) steps) (\<lambda>h.
         parsed_bind (str_parsed (obj_get d ''lessons_learned'' (JStr []))) (\<lambda>lessons.
           Inr \<lparr>pl_action = ''replan'', pl_lessons = lessons, pl_steps = steps,
                pl_new_hypothesis = Some h, pl_clarification = None\<rparr>))))"

definition parse_plan_data :: "json \<Rightarrow> recovery_plan parsed" where
  "parse_plan_data data =
     (if \<not> json_true data then Inl (ValueError, ''no JSON in the recovery reply'')
      else case data of
        JObj d \<Rightarrow>
          (let action = obj_get d ''action'' (JStr ''give_up'')
           in if action = JStr ''ask_user'' then parse_ask_user d
              else if action = JStr ''give_up'' then
                parsed_bind (str_parsed (obj_get d ''lessons_learned'' (JStr []))) (\<lambda>lessons. Inr (give_up_plan lessons))
              else parse_replan d)
      | _ \<Rightarrow> Inl (AttributeError, ''get''))"

definition parse_plan_response :: "(string \<Rightarrow> json option) \<Rightarrow> string \<Rightarrow> recovery_plan parsed" where
  "parse_plan_response loads raw =
     (case extract_json loads raw of
        None \<Rightarrow> Inl (ValueError, ''no JSON in the recovery reply'')
      | Some data \<Rightarrow> parse_plan_data data)"

text \<open>
  \<open>_build_recovery_plan\<close>: parse errors, value errors and time-outs of the call become no plan,
  anything else is raised.
\<close>

definition build_recovery_plan ::
  "int \<Rightarrow> int \<Rightarrow> (nat \<Rightarrow> messages \<Rightarrow> string result) \<Rightarrow> (string \<Rightarrow> json option) \<Rightarrow> messages \<Rightarrow> recovery_plan option result" where
  "build_recovery_plan max_retries lg client loads msgs =
     (case llm_call_with_parse_retry max_retries lg client (parse_plan_response loads) msgs of
        Inr (_, plan) \<Rightarrow> Inr (Some plan)
      | Inl e \<Rightarrow> if e \<in> {ParseError, ValueError, TimeoutErr} then Inr None else Inl e)"

section \<open>Giving up\<close>

definition failure_lines :: "nat \<times> dead_end \<Rightarrow> string list" where
  "failure_lines ide =
     (case ide of (i, de) \<Rightarrow>
        [str_int (int i) @ ''. '' @ failure_type_value (de_failure_type de)] @
        map (\<lambda>sub. ''  - '' @ py_strip sub)
          (filter (\<lambda>sub. py_strip sub \<noteq> []) (split_char (char_of (10 :: nat)) (de_reason de))) @
        (if de_lessons_learned de \<noteq> [] then [''  - (lesson) '' @ de_lessons_learned de] else []))"

definition build_failure_summary :: "reasoning_state \<Rightarrow> string" where
  "build_failure_summary r =
     (let unresolved = get_unresolved_knowledge r
      in py_join newline
           ([''In total '' @ str_int (total_tool_calls (loop_guard r)) @ '' tool calls, '' @
             str_int (replan_count (loop_guard r)) @ '' replans tried''] @
            (if dead_ends r \<noteq> []
             then ''Failed paths:'' # concat (map failure_lines (enumerate 1 (dead_ends r))) else []) @
            (if unresolved \<noteq> []
             then [''Unresolved terms: '' @
                   py_join '', '' (map (\<lambda>ki. ''('' @ ki_id ki @ '') '' @ ki_key ki) unresolved)] else [])))"

definition finalize_give_up :: "reasoning_state \<Rightarrow> reasoning_state" where
  "finalize_give_up r =
     (if calculate_readiness r \<ge> THRESHOLD_FORCE_GENERATE
      then r\<lparr>phase := GENERATING, is_force_generated := True\<rparr>
      else let r1 = r\<lparr>phase := DONE, final_status := Fin_FAILURE\<rparr>
           in r1\<lparr>exploration_summary := build_failure_summary r1\<rparr>)"

definition attach_lessons :: "reasoning_state \<Rightarrow> recovery_plan option \<Rightarrow> reasoning_state" where
  "attach_lessons r plan =
     (case plan of
        None \<Rightarrow> r
      | Some p \<Rightarrow>
          if pl_lessons p \<noteq> [] \<and> dead_ends r \<noteq> []
          then r\<lparr>dead_ends := butlast (dead_ends r) @ [(last (dead_ends r))\<lparr>de_lessons_learned := pl_lessons p\<rparr>]\<rparr>
          else r)"

definition diagnose_termination :: "settings \<Rightarrow> reasoning_state \<Rightarrow> string" where
  "diagnose_termination cfg r =
     (let g = loop_guard r
      in if total_tool_calls g \<ge> MAX_TOOL_CALLS cfg
         then ''tool call limit exceeded('' @ str_int (total_tool_calls g) @ ''/'' @ str_int (MAX_TOOL_CALLS cfg) @ '')''
         else if replan_count g \<ge> MAX_REPLANS cfg
         then ''replan limit exceeded('' @ str_int (replan_count g) @ ''/'' @ str_int (MAX_REPLANS cfg) @ '')''
         else if MAX_GENERATES cfg > 0 \<and> generate_attempts g \<ge> MAX_GENERATES cfg
         then ''SQL generation limit exceeded('' @ str_int (generate_attempts g) @ ''/'' @ str_int (MAX_GENERATES cfg) @ '')''
         else if final_status r = Fin_FAILURE then ''final failure state''
         else if length (get_pending_hypotheses r) = 0 \<and> current_hypothesis r = None then ''hypotheses used up''
         else ''unknown termination'')"

section \<open>The node\<close>

definition build_ask_user_signal :: "recovery_plan \<Rightarrow> string \<Rightarrow> ambiguity_signal" where
  "build_ask_user_signal p tid =
     (let q = pl_clarification p
      in \<lparr>sg_source_node = ''recovery_agent'', sg_ambiguity_type = AT_CONTEXT, sg_decision = ASK,
          sg_confidence = CL_LOW,
          sg_question = (case q of None \<Rightarrow> ''More information is needed.'' | Some c \<Rightarrow> cr_question c),
          sg_question_type = (case q of Some c \<Rightarrow> if cr_type c = ''single_select'' then SINGLE_SELECT else FREE_TEXT
                              | None \<Rightarrow> FREE_TEXT),
          sg_options = (case q of None \<Rightarrow> [] | Some c \<Rightarrow> (case cr_options c of None \<Rightarrow> [] | Some os \<Rightarrow> os)),
          sg_inferred_value = None, sg_reasoning = pl_lessons p, sg_override_reason = None,
          sg_answer = None, sg_resolved_at = None, sg_turn_id = Some tid\<rparr>)"

definition enter_recovery :: "bool \<Rightarrow> reasoning_state \<Rightarrow> reasoning_state" where
  "enter_recovery reentry r =
     (let r1 = r\<lparr>phase := REPLANNING, exploration_phase := EP_RECOVERY, target_db := [], target_db_decision := None\<rparr>
      in if reentry then r1
         else let r2 = handle_hypothesis_transition r1
              in r2\<lparr>loop_guard := increment_replan (loop_guard r2), failure_type := None, failure_reason := None\<rparr>)"

definition give_up :: "recovery_plan option \<Rightarrow> reasoning_state \<Rightarrow> reasoning_state" where
  "give_up plan r = finalize_give_up (attach_lessons r plan)"

definition inject_hypothesis :: "recovery_plan \<Rightarrow> reasoning_state \<Rightarrow> reasoning_state" where
  "inject_hypothesis p r =
     (case pl_new_hypothesis p of
        None \<Rightarrow> r
      | Some h \<Rightarrow>
          if pl_action p = ''replan'' then
            let h' = h\<lparr>hyp_id := CHR ''H'' # str_int (int (length (hypotheses r)) + 1)\<rparr>
            in r\<lparr>hypotheses := hypotheses r @ [h'], current_hypothesis := Some h'\<rparr>
          else r)"

definition max_step :: "execution_step list \<Rightarrow> int" where
  "max_step ss = (if ss = [] then 0 else Max (set (map es_step ss)))"

definition number_steps :: "int \<Rightarrow> string \<Rightarrow> execution_step list \<Rightarrow> execution_step list" where
  "number_steps m hid ss =
     map (\<lambda>(i, s). s\<lparr>es_step := m + int i + 1, es_hypothesis_id := hid\<rparr>) (enumerate 0 ss)"

definition extend_plan :: "recovery_plan \<Rightarrow> reasoning_state \<Rightarrow> reasoning_state" where
  "extend_plan p r =
     r\<lparr>execution_plan := execution_plan r @
         number_steps (max_step (execution_plan r))
           (case current_hypothesis r of None \<Rightarrow> [] | Some h \<Rightarrow> hyp_id h) (pl_steps p),
       phase := EXPLORING\<rparr>"

text \<open>After the call: either the question's updates or the reasoning state.\<close>

definition continue_or_give_up :: "settings \<Rightarrow> recovery_plan option \<Rightarrow> reasoning_state \<Rightarrow> reasoning_state" where
  "continue_or_give_up cfg plan r =
     (let r1 = (case plan of None \<Rightarrow> r | Some p \<Rightarrow> inject_hypothesis p r)
      in if should_terminate cfg r1 then give_up plan r1
         else case plan of
           None \<Rightarrow> give_up plan r1
         | Some p \<Rightarrow> if pl_action p = ''give_up'' then give_up plan r1
                    else extend_plan p (attach_lessons r1 plan))"

definition recovery_agent_node ::
  "settings \<Rightarrow> recovery_plan option result \<Rightarrow> pipeline_state \<Rightarrow> pipeline_state result" where
  "recovery_agent_node cfg outcome s =
     (let r = enter_recovery (has_clarification_answer s) (reason s)
      in result_bind outcome (\<lambda>plan.
           case plan of
             None \<Rightarrow> Inr (s\<lparr>reason := continue_or_give_up cfg plan r\<rparr>)
           | Some p \<Rightarrow>
               if pl_action p = ''ask_user'' then
                 if ask_user_count (loop_guard r) \<ge> MAX_ASK_USER_ROUNDS cfg
                 then Inr (s\<lparr>reason := continue_or_give_up cfg (Some (give_up_plan (pl_lessons p))) r\<rparr>)
                 else Inr (s\<lparr>reason := attach_lessons (r\<lparr>loop_guard := increment_ask_user (loop_guard r)\<rparr>) plan,
                             pending_signals := [build_ask_user_signal p (turn_id s)]\<rparr>)
               else Inr (s\<lparr>reason := continue_or_give_up cfg plan r\<rparr>)))"

section \<open>Facts about hypotheses\<close>

lemma top_pending_Some:
  assumes "top_pending hs = Some p"
  shows "p \<in> set hs" and "hyp_status p = Hyp_PENDING"
    and "\<forall>q\<in>set hs. hyp_status q = Hyp_PENDING \<longrightarrow> hyp_priority q \<le> hyp_priority p"
proof -
  let ?P = "filter (\<lambda>h. hyp_status h = Hyp_PENDING) hs"
  let ?S = "sort_key (\<lambda>h. - hyp_priority h) ?P"
  have ne: "?P \<noteq> []" and p: "p = hd ?S"
    using assms by (auto simp: top_pending_def Let_def split: if_splits)
  then have "?S \<noteq> []" by (metis set_empty set_sort)
  then obtain t where S: "?S = p # t" using p by (cases ?S) auto
  then have "p \<in> set ?P" by (metis list.set_intros(1) set_sort)
  then show "p \<in> set hs" "hyp_status p = Hyp_PENDING" by auto
  have "sorted (map (\<lambda>h. - hyp_priority h) (p # t))" by (metis S sorted_sort_key)
  then have "\<forall>q\<in>set (p # t). hyp_priority q \<le> hyp_priority p" by auto
  then have "\<forall>q\<in>set ?P. hyp_priority q \<le> hyp_priority p" by (metis S set_sort)
  then show "\<forall>q\<in>set hs. hyp_status q = Hyp_PENDING \<longrightarrow> hyp_priority q \<le> hyp_priority p" by auto
qed

lemma top_pending_None: "top_pending hs = None \<longleftrightarrow> (\<forall>h\<in>set hs. hyp_status h \<noteq> Hyp_PENDING)"
  by (auto simp: top_pending_def Let_def filter_empty_conv)

lemma update_first_in: "x \<in> set xs \<Longrightarrow> P x \<Longrightarrow> f y = y' \<Longrightarrow> (\<And>z. f z = y') \<Longrightarrow> y' \<in> set (update_first P f xs)"
  by (induction xs) auto

lemma update_first_pending_count:
  assumes "p \<in> set hs" "distinct (map hyp_id hs)" "hyp_status p = Hyp_PENDING" "hyp_status t \<noteq> Hyp_PENDING"
    and "hyp_id t = hyp_id p"
  shows "Suc (length (filter (\<lambda>h. hyp_status h = Hyp_PENDING) (update_first (\<lambda>h. hyp_id h = hyp_id t) (\<lambda>_. t) hs))) =
    length (filter (\<lambda>h. hyp_status h = Hyp_PENDING) hs)"
  using assms
proof (induction hs)
  case (Cons x hs)
  show ?case
  proof (cases "x = p")
    case True
    with Cons.prems show ?thesis by simp
  next
    case False
    with Cons.prems have "p \<in> set hs" "hyp_id x \<noteq> hyp_id p" by auto
    with Cons show ?thesis by auto
  qed
qed simp

section \<open>What the agent leaves alone\<close>

lemma fail_current_frame [frame_simps]:
  "loop_guard (fail_current r) = loop_guard r"
  "validated_sql (fail_current r) = validated_sql r"
  "execution_plan (fail_current r) = execution_plan r"
  "explored_tables (fail_current r) = explored_tables r"
  "explored_use_cases (fail_current r) = explored_use_cases r"
  "knowledge_items (fail_current r) = knowledge_items r"
  "target_db (fail_current r) = target_db r"
  "target_db_decision (fail_current r) = target_db_decision r"
  "failure_type (fail_current r) = failure_type r"
  "final_status (fail_current r) = final_status r"
  "phase (fail_current r) = phase r"
  by (simp_all add: fail_current_def Let_def split: option.split)

lemma handle_transition_frame [frame_simps]:
  "validated_sql (handle_hypothesis_transition r) = validated_sql r"
  "execution_plan (handle_hypothesis_transition r) = execution_plan r"
  "explored_tables (handle_hypothesis_transition r) = explored_tables r"
  "explored_use_cases (handle_hypothesis_transition r) = explored_use_cases r"
  "knowledge_items (handle_hypothesis_transition r) = knowledge_items r"
  "target_db (handle_hypothesis_transition r) = target_db r"
  "target_db_decision (handle_hypothesis_transition r) = target_db_decision r"
  "final_status (handle_hypothesis_transition r) = final_status r"
  "phase (handle_hypothesis_transition r) = phase r"
  "total_tool_calls (loop_guard (handle_hypothesis_transition r)) = total_tool_calls (loop_guard r)"
  "replan_count (loop_guard (handle_hypothesis_transition r)) = replan_count (loop_guard r)"
  "generate_attempts (loop_guard (handle_hypothesis_transition r)) = generate_attempts (loop_guard r)"
  "ask_user_count (loop_guard (handle_hypothesis_transition r)) = ask_user_count (loop_guard r)"
  by (simp_all add: handle_hypothesis_transition_def Let_def frame_simps split: prod.split option.split)

lemma enter_recovery_frame [frame_simps]:
  "validated_sql (enter_recovery b r) = validated_sql r"
  "execution_plan (enter_recovery b r) = execution_plan r"
  "explored_tables (enter_recovery b r) = explored_tables r"
  "explored_use_cases (enter_recovery b r) = explored_use_cases r"
  "knowledge_items (enter_recovery b r) = knowledge_items r"
  "target_db (enter_recovery b r) = []"
  "target_db_decision (enter_recovery b r) = None"
  "final_status (enter_recovery b r) = final_status r"
  "phase (enter_recovery b r) = REPLANNING"
  "failure_type (enter_recovery b r) = (if b then failure_type r else None)"
  "total_tool_calls (loop_guard (enter_recovery b r)) = total_tool_calls (loop_guard r)"
  "replan_count (loop_guard (enter_recovery b r)) = replan_count (loop_guard r) + (if b then 0 else 1)"
  "generate_attempts (loop_guard (enter_recovery b r)) = generate_attempts (loop_guard r)"
  "ask_user_count (loop_guard (enter_recovery b r)) = ask_user_count (loop_guard r)"
  by (simp_all add: enter_recovery_def Let_def increment_replan_def frame_simps)

lemma attach_lessons_frame [frame_simps]:
  "validated_sql (attach_lessons r p) = validated_sql r"
  "execution_plan (attach_lessons r p) = execution_plan r"
  "explored_tables (attach_lessons r p) = explored_tables r"
  "explored_use_cases (attach_lessons r p) = explored_use_cases r"
  "knowledge_items (attach_lessons r p) = knowledge_items r"
  "target_db (attach_lessons r p) = target_db r"
  "target_db_decision (attach_lessons r p) = target_db_decision r"
  "final_status (attach_lessons r p) = final_status r"
  "phase (attach_lessons r p) = phase r"
  "failure_type (attach_lessons r p) = failure_type r"
  "loop_guard (attach_lessons r p) = loop_guard r"
  "hypotheses (attach_lessons r p) = hypotheses r"
  "current_hypothesis (attach_lessons r p) = current_hypothesis r"
  by (simp_all add: attach_lessons_def split: option.split)

lemma inject_hypothesis_frame [frame_simps]:
  "validated_sql (inject_hypothesis p r) = validated_sql r"
  "execution_plan (inject_hypothesis p r) = execution_plan r"
  "explored_tables (inject_hypothesis p r) = explored_tables r"
  "explored_use_cases (inject_hypothesis p r) = explored_use_cases r"
  "knowledge_items (inject_hypothesis p r) = knowledge_items r"
  "target_db (inject_hypothesis p r) = target_db r"
  "target_db_decision (inject_hypothesis p r) = target_db_decision r"
  "final_status (inject_hypothesis p r) = final_status r"
  "failure_type (inject_hypothesis p r) = failure_type r"
  "loop_guard (inject_hypothesis p r) = loop_guard r"
  by (simp_all add: inject_hypothesis_def Let_def split: option.split)

lemma give_up_frame [frame_simps]:
  "validated_sql (give_up p r) = validated_sql r"
  "execution_plan (give_up p r) = execution_plan r"
  "explored_tables (give_up p r) = explored_tables r"
  "target_db (give_up p r) = target_db r"
  "target_db_decision (give_up p r) = target_db_decision r"
  "failure_type (give_up p r) = failure_type r"
  "loop_guard (give_up p r) = loop_guard r"
  by (simp_all add: give_up_def finalize_give_up_def Let_def frame_simps)

lemma calculate_readiness_cong:
  "knowledge_items r = knowledge_items r' \<Longrightarrow> explored_use_cases r = explored_use_cases r' \<Longrightarrow>
   calculate_readiness r = calculate_readiness r'"
  by (simp add: calculate_readiness_def term_score_def use_case_score_def Let_def)

lemma give_up_cases:
  "if calculate_readiness r \<ge> THRESHOLD_FORCE_GENERATE
   then phase (give_up p r) = GENERATING \<and> is_force_generated (give_up p r) \<and> final_status (give_up p r) = final_status r
   else phase (give_up p r) = DONE \<and> final_status (give_up p r) = Fin_FAILURE"
proof -
  have "calculate_readiness (attach_lessons r p) = calculate_readiness r"
    by (rule calculate_readiness_cong) (simp_all add: frame_simps)
  then show ?thesis by (simp add: give_up_def finalize_give_up_def Let_def frame_simps)
qed

lemma extend_plan_frame [frame_simps]:
  "validated_sql (extend_plan p r) = validated_sql r"
  "explored_tables (extend_plan p r) = explored_tables r"
  "target_db (extend_plan p r) = target_db r"
  "target_db_decision (extend_plan p r) = target_db_decision r"
  "failure_type (extend_plan p r) = failure_type r"
  "loop_guard (extend_plan p r) = loop_guard r"
  "final_status (extend_plan p r) = final_status r"
  "phase (extend_plan p r) = EXPLORING"
  "hypotheses (extend_plan p r) = hypotheses r"
  "current_hypothesis (extend_plan p r) = current_hypothesis r"
  by (simp_all add: extend_plan_def)

lemma continue_frame [frame_simps]:
  "validated_sql (continue_or_give_up cfg plan r) = validated_sql r"
  "target_db (continue_or_give_up cfg plan r) = target_db r"
  "target_db_decision (continue_or_give_up cfg plan r) = target_db_decision r"
  "failure_type (continue_or_give_up cfg plan r) = failure_type r"
  "loop_guard (continue_or_give_up cfg plan r) = loop_guard r"
  "explored_tables (continue_or_give_up cfg plan r) = explored_tables r"
  by (simp_all add: continue_or_give_up_def Let_def frame_simps split: option.split)

text \<open>The new steps of an extended plan.\<close>

lemma length_number_steps [simp]: "length (number_steps m hid ss) = length ss"
  by (simp add: number_steps_def)

lemma number_steps_nums: "map es_step (number_steps m hid ss) = map (\<lambda>i. m + int i + 1) [0..<length ss]"
  by (auto simp: number_steps_def comp_def case_prod_unfold enumerate_eq_zip
      intro!: nth_equalityI)

lemma number_steps_status: "map es_status (number_steps m hid ss) = map es_status ss"
  by (auto simp: number_steps_def comp_def case_prod_unfold enumerate_eq_zip intro!: nth_equalityI)

lemma max_step_ge: "s \<in> set ss \<Longrightarrow> es_step s \<le> max_step ss"
  by (auto simp: max_step_def intro: Max_ge)

lemma extended_steps_distinct:
  assumes "distinct (map es_step ss)"
  shows "distinct (map es_step (ss @ number_steps (max_step ss) hid ns))"
proof -
  have "distinct (map (\<lambda>i. max_step ss + int i + 1) [0..<length ns])" by (simp add: distinct_map inj_on_def)
  moreover have "set (map es_step ss) \<inter> set (map (\<lambda>i. max_step ss + int i + 1) [0..<length ns]) = {}"
    using max_step_ge [of _ ss] by force
  ultimately show ?thesis using assms by (simp add: number_steps_nums del: set_map)
qed

text \<open>What the reading of a reply guarantees.\<close>

definition plan_ok :: "recovery_plan \<Rightarrow> bool" where
  "plan_ok p \<longleftrightarrow>
     pl_action p \<in> {''replan'', ''ask_user'', ''give_up''} \<and>
     (pl_action p = ''replan'' \<longrightarrow> pl_steps p \<noteq> [] \<and> pl_new_hypothesis p \<noteq> None \<and>
        (\<forall>s\<in>set (pl_steps p). es_status s = Step_PENDING))"

lemma parsed_bind_Inr: "parsed_bind r f = Inr b \<longleftrightarrow> (\<exists>a. r = Inr a \<and> f a = Inr b)"
  by (cases r) auto

lemma map_sum_Inr: "map_sum f g r = Inr b \<longleftrightarrow> (\<exists>a. r = Inr a \<and> b = g a)"
  by (cases r) auto

lemma parse_steps_pending: "parse_steps i vs = Inr ss \<Longrightarrow> \<forall>s\<in>set ss. es_status s = Step_PENDING"
  by (induction i vs arbitrary: ss rule: parse_steps.induct)
     (auto simp: parsed_bind_Inr map_sum_Inr new_step_def split: if_splits)

lemma parse_plan_ok: "parse_plan_response loads raw = Inr p \<Longrightarrow> plan_ok p"
  by (auto simp: parse_plan_response_def parse_plan_data_def parse_ask_user_def parse_replan_def
      parsed_bind_Inr plan_ok_def give_up_plan_def Let_def
      dest: parse_steps_pending split: option.splits json.splits if_splits)

lemma build_recovery_plan_ok:
  "build_recovery_plan mr lg client loads msgs = Inr (Some p) \<Longrightarrow> plan_ok p"
  by (auto simp: build_recovery_plan_def llm_call_with_parse_retry_def retry_loop_Inr_iff
      dest: parse_plan_ok split: sum.splits if_splits)

text \<open>The run, split by what it does to the state.\<close>

lemma continue_cases:
  assumes "\<forall>p. plan = Some p \<longrightarrow> plan_ok p \<and> pl_action p \<noteq> ''ask_user''"
  obtains (explored) p where "plan = Some p" "pl_action p = ''replan''" "plan_ok p"
      "\<not> should_terminate cfg (inject_hypothesis p r)"
      "continue_or_give_up cfg plan r = extend_plan p (attach_lessons (inject_hypothesis p r) plan)"
  | (gave_up) r1 where "continue_or_give_up cfg plan r = give_up plan r1"
      "knowledge_items r1 = knowledge_items r" "explored_use_cases r1 = explored_use_cases r"
      "execution_plan r1 = execution_plan r"
proof (cases plan)
  case None
  with gave_up [of r] show thesis by (simp add: continue_or_give_up_def Let_def)
next
  case (Some p)
  with assms have ok: "plan_ok p" "pl_action p \<noteq> ''ask_user''" by simp_all
  show thesis
  proof (cases "should_terminate cfg (inject_hypothesis p r) \<or> pl_action p = ''give_up''")
    case True
    with Some gave_up [of "inject_hypothesis p r"] show thesis
      by (auto simp: continue_or_give_up_def Let_def frame_simps)
  next
    case False
    with Some ok explored [of p] show thesis
      by (auto simp: continue_or_give_up_def Let_def plan_ok_def)
  qed
qed

lemma recovery_cases:
  assumes "recovery_agent_node cfg outcome s = Inr s'" and "outcome = build_recovery_plan mr lg client loads msgs"
  obtains (asked) p where "pl_action p = ''ask_user''"
      "ask_user_count (loop_guard (reason s)) < MAX_ASK_USER_ROUNDS cfg"
      "s' = s\<lparr>reason := attach_lessons ((enter_recovery (has_clarification_answer s) (reason s))
                 \<lparr>loop_guard := increment_ask_user (loop_guard (enter_recovery (has_clarification_answer s) (reason s)))\<rparr>) (Some p),
              pending_signals := [build_ask_user_signal p (turn_id s)]\<rparr>"
  | (decided) plan where "\<forall>p. plan = Some p \<longrightarrow> plan_ok p \<and> pl_action p \<noteq> ''ask_user''"
      "s' = s\<lparr>reason := continue_or_give_up cfg plan (enter_recovery (has_clarification_answer s) (reason s))\<rparr>"
proof -
  let ?r = "enter_recovery (has_clarification_answer s) (reason s)"
  from assms(1) obtain plan where plan: "outcome = Inr plan"
    by (auto simp: recovery_agent_node_def Let_def result_bind_Inr_iff)
  have ok: "plan_ok p" if "plan = Some p" for p
    using build_recovery_plan_ok plan assms(2) that by metis
  show thesis
  proof (cases plan)
    case None
    with assms(1) plan decided [of None] show thesis by (simp add: recovery_agent_node_def Let_def)
  next
    case (Some p)
    show thesis
    proof (cases "pl_action p = ''ask_user''")
      case False
      with assms(1) plan Some ok [OF Some] decided [of plan] show thesis by (simp add: recovery_agent_node_def Let_def)
    next
      case ask: True
      show thesis
      proof (cases "ask_user_count (loop_guard (reason s)) < MAX_ASK_USER_ROUNDS cfg")
        case True
        with assms(1) plan Some ask asked [of p] show thesis
          by (simp add: recovery_agent_node_def Let_def frame_simps)
      next
        case False
        with assms(1) plan Some ask decided [of "Some (give_up_plan (pl_lessons p))"] show thesis
          by (simp add: recovery_agent_node_def Let_def frame_simps plan_ok_def give_up_plan_def)
      qed
    qed
  qed
qed

section \<open>Properties\<close>

text \<open>
  C5: The four ways out of a recovery run whose plan was read from a reply.  It asks the user
  one question, within the configured number of rounds; or it explores, with at least one new
  pending step whose numbers continue the old ones, so that step numbers stay distinct; or it
  forces a generation, only with a score of at least the force threshold; or it ends in
  failure, only below that threshold.  The validated SQL is untouched and the target database
  is cleared on every way.
\<close>
theorem recovery_outcomes:
  assumes "recovery_agent_node cfg outcome s = Inr s'" and "outcome = build_recovery_plan mr lg client loads msgs"
    and "distinct (map es_step (execution_plan (reason s)))"
  shows "validated_sql (reason s') = validated_sql (reason s) \<and> target_db (reason s') = [] \<and>
    distinct (map es_step (execution_plan (reason s'))) \<and>
    ((\<exists>sg. pending_signals s' = [sg] \<and> sg_decision sg = ASK \<and> sg_source_node sg = ''recovery_agent'' \<and>
        sg_turn_id sg = Some (turn_id s) \<and>
        ask_user_count (loop_guard (reason s')) = ask_user_count (loop_guard (reason s)) + 1 \<and>
        ask_user_count (loop_guard (reason s')) \<le> MAX_ASK_USER_ROUNDS cfg) \<or>
     (pending_signals s' = pending_signals s \<and>
       (case phase (reason s') of
          EXPLORING \<Rightarrow> (\<exists>new. new \<noteq> [] \<and> execution_plan (reason s') = execution_plan (reason s) @ new \<and>
                          (\<forall>st\<in>set new. es_status st = Step_PENDING \<and> es_step st > max_step (execution_plan (reason s))))
        | GENERATING \<Rightarrow> is_force_generated (reason s') \<and> calculate_readiness (reason s) \<ge> THRESHOLD_FORCE_GENERATE
        | DONE \<Rightarrow> final_status (reason s') = Fin_FAILURE \<and> calculate_readiness (reason s) < THRESHOLD_FORCE_GENERATE
        | _ \<Rightarrow> False)))"
  using assms(1,2)
proof (cases rule: recovery_cases)
  case (asked p)
  with assms(3) show ?thesis
    by (simp add: frame_simps build_ask_user_signal_def increment_ask_user_def Let_def)
next
  case (decided plan)
  let ?r = "enter_recovery (has_clarification_answer s) (reason s)"
  have s': "reason s' = continue_or_give_up cfg plan ?r" "pending_signals s' = pending_signals s"
    using decided(2) by simp_all
  have score: "calculate_readiness ?r = calculate_readiness (reason s)"
    by (rule calculate_readiness_cong) (simp_all add: frame_simps)
  from decided(1) show ?thesis
  proof (cases rule: continue_cases [of plan cfg ?r])
    case (explored p)
    let ?e = "execution_plan (reason s)"
    define new where "new = number_steps (max_step ?e)
      (case current_hypothesis (inject_hypothesis p ?r) of None \<Rightarrow> [] | Some h \<Rightarrow> hyp_id h) (pl_steps p)"
    have ep: "execution_plan (reason s') = ?e @ new"
      by (simp add: s' explored(5) extend_plan_def new_def frame_simps)
    have ne: "pl_steps p \<noteq> []" and pend: "\<forall>st\<in>set (pl_steps p). es_status st = Step_PENDING"
      using explored(2,3) by (auto simp: plan_ok_def)
    have "es_status ` set new = es_status ` set (pl_steps p)"
      using arg_cong [where f = set, OF number_steps_status] by (simp add: new_def)
    with pend have n1: "\<forall>st\<in>set new. es_status st = Step_PENDING" by (metis image_iff)
    have "es_step ` set new = (\<lambda>i. max_step ?e + int i + 1) ` {0..<length (pl_steps p)}"
      using arg_cong [where f = set, OF number_steps_nums] by (simp add: new_def)
    then have n2: "\<forall>st\<in>set new. es_step st > max_step ?e" by force
    have "new \<noteq> []" using ne length_number_steps [of "max_step ?e" _ "pl_steps p"] unfolding new_def
      by (metis length_0_conv)
    moreover have "distinct (map es_step (execution_plan (reason s')))"
      unfolding ep new_def by (rule extended_steps_distinct [OF assms(3)])
    moreover have "phase (reason s') = EXPLORING" "validated_sql (reason s') = validated_sql (reason s)"
      "target_db (reason s') = []" by (simp_all add: s' explored(5) frame_simps)
    ultimately show ?thesis using ep n1 n2 s'(2) by auto
  next
    case (gave_up r1)
    have "calculate_readiness r1 = calculate_readiness (reason s)"
      using score calculate_readiness_cong [OF gave_up(2,3)] by simp
    with give_up_cases [of r1 plan] assms(3) show ?thesis
      unfolding s' gave_up(1)
      using continue_frame(1,2) [of cfg plan ?r] gave_up
      by (auto simp: frame_simps split: if_splits)
  qed
qed

definition sample_plan_json :: json where
  "sample_plan_json = JObj [(''action'', JStr ''replan''), (''execution_plan'',
     JList [JObj [(''tool'', JStr ''search_table_meta''), (''input'', JStr ''loan'')]])]"

theorem recovery_outcomes_witness:
  "\<exists>s'. recovery_agent_node default_settings
       (build_recovery_plan 0 0 (\<lambda>_ _. Inr ''x'') (\<lambda>_. Some sample_plan_json) []) new_pipeline_state = Inr s' \<and>
     target_db (reason s') = []"
proof -
  let ?o = "build_recovery_plan 0 0 (\<lambda>_ _. Inr ''x'') (\<lambda>_. Some sample_plan_json) []"
  have x: "py_strip ''x'' = ''x''" by (simp add: py_strip_def py_lstrip_def is_ascii_space_def)
  have "\<exists>p. ?o = Inr (Some p) \<and> pl_action p = ''replan''"
    by (simp add: build_recovery_plan_def llm_call_with_parse_retry_def x parse_plan_response_def
        extract_json_def parse_plan_data_def sample_plan_json_def parse_replan_def obj_get_def
        plan_entries_def str_parsed_def parse_new_hypothesis_def)
  then have "\<exists>s'. recovery_agent_node default_settings ?o new_pipeline_state = Inr s'"
    by (auto simp: recovery_agent_node_def Let_def)
  then obtain s' where s': "recovery_agent_node default_settings ?o new_pipeline_state = Inr s'" ..
  from recovery_outcomes [OF this refl] s' show ?thesis
    by (auto simp: new_pipeline_state_def new_reasoning_state_def)
qed

text \<open>
  The order of hypotheses.  The hypothesis the agent turns to is a pending one of highest
  priority, it is made active in place, and with distinct ids exactly one pending hypothesis
  is used up; so the list runs out after as many replannings as it has pending entries.
\<close>
theorem consume_next_pending_best:
  assumes "consume_next_pending hs = (Some t, hs')" and "distinct (map hyp_id hs)"
  shows "(\<exists>p\<in>set hs. hyp_status p = Hyp_PENDING \<and> t = p\<lparr>hyp_status := Hyp_ACTIVE\<rparr> \<and>
      (\<forall>q\<in>set hs. hyp_status q = Hyp_PENDING \<longrightarrow> hyp_priority q \<le> hyp_priority p)) \<and>
    map hyp_id hs' = map hyp_id hs \<and> t \<in> set hs' \<and>
    Suc (length (filter (\<lambda>h. hyp_status h = Hyp_PENDING) hs')) = length (filter (\<lambda>h. hyp_status h = Hyp_PENDING) hs)"
proof -
  obtain p where p: "top_pending hs = Some p" and t: "t = p\<lparr>hyp_status := Hyp_ACTIVE\<rparr>"
    and hs': "hs' = update_first (\<lambda>h. hyp_id h = hyp_id t) (\<lambda>_. t) hs"
    using assms(1) by (auto simp: consume_next_pending_def Let_def split: option.splits)
  note tp = top_pending_Some [OF p]
  have "map hyp_id hs' = map hyp_id hs" unfolding hs' by (rule map_update_first) simp
  moreover have "t \<in> set hs'" unfolding hs' using tp(1) t by (auto intro: update_first_in)
  ultimately show ?thesis
    using tp t update_first_pending_count [OF tp(1) assms(2) tp(2), of t] hs' by auto
qed

theorem consume_next_pending_best_witness:
  "hyp_id (the (fst (consume_next_pending [(llm_hypothesis [] [])\<lparr>hyp_id := ''H1'', hyp_status := Hyp_PENDING\<rparr>]))) = ''H1''"
proof -
  let ?h = "(llm_hypothesis [] [])\<lparr>hyp_id := ''H1'', hyp_status := Hyp_PENDING\<rparr>"
  obtain t hs' where "consume_next_pending [?h] = (Some t, hs')"
    by (simp add: consume_next_pending_def top_pending_def Let_def)
  with consume_next_pending_best [OF this] show ?thesis by auto
qed

text \<open>
  Counting.  A run counts one replanning unless the turn already holds an answer of the
  user to the agent, and it never touches the tool call and generation counters.  The answer
  stays for the rest of the turn, so from the first answered question on no entry of any kind
  is counted, the failure it was entered with is kept, and the replan limit stops working.
\<close>
theorem answered_question_stops_replan_count:
  assumes "recovery_agent_node cfg outcome s = Inr s'" and "outcome = build_recovery_plan mr lg client loads msgs"
  shows "replan_count (loop_guard (reason s')) =
      replan_count (loop_guard (reason s)) + (if has_clarification_answer s then 0 else 1) \<and>
    failure_type (reason s') = (if has_clarification_answer s then failure_type (reason s) else None) \<and>
    total_tool_calls (loop_guard (reason s')) = total_tool_calls (loop_guard (reason s)) \<and>
    generate_attempts (loop_guard (reason s')) = generate_attempts (loop_guard (reason s)) \<and>
    has_clarification_answer s' = has_clarification_answer s"
  using assms
proof (cases rule: recovery_cases)
  case (asked p)
  then show ?thesis by (simp add: frame_simps increment_ask_user_def has_clarification_answer_def)
next
  case (decided plan)
  then show ?thesis by (simp add: frame_simps has_clarification_answer_def)
qed

theorem answered_question_stops_replan_count_witness:
  "\<exists>s'. recovery_agent_node default_settings
       (build_recovery_plan 0 0 (\<lambda>_ _. Inl TimeoutErr) (\<lambda>_. None) []) new_pipeline_state = Inr s' \<and>
     replan_count (loop_guard (reason s')) = 1"
proof -
  let ?o = "build_recovery_plan 0 0 (\<lambda>_ _. Inl TimeoutErr) (\<lambda>_. None) []"
  have "?o = Inr None" by (simp add: build_recovery_plan_def llm_call_with_parse_retry_def)
  then obtain s' where s': "recovery_agent_node default_settings ?o new_pipeline_state = Inr s'"
    by (auto simp: recovery_agent_node_def Let_def)
  from answered_question_stops_replan_count [OF this refl] s' show ?thesis
    by (auto simp: has_clarification_answer_def new_pipeline_state_def new_reasoning_state_def new_loop_guard_def)
qed

text \<open>
  A pending hypothesis is lost by every replanning.  The transition takes the best pending
  hypothesis and makes it active; a replanning reply always carries a new hypothesis, which
  takes its place at once.  The pending one stays active in the list, is never explored, and
  no later run marks it as failed.
\<close>
theorem replan_orphans_pending_hypothesis:
  assumes "\<not> has_clarification_answer s" and "pl_action p = ''replan''" and "pl_new_hypothesis p = Some h"
    and "top_pending (hypotheses (fail_current (reason s))) = Some q"
    and "recovery_agent_node cfg (Inr (Some p)) s = Inr s'" and "phase (reason s') = EXPLORING"
  shows "q\<lparr>hyp_status := Hyp_ACTIVE\<rparr> \<in> set (hypotheses (reason s')) \<and>
    map_option hyp_description (current_hypothesis (reason s')) = Some (hyp_description h)"
proof -
  let ?base = "(reason s)\<lparr>phase := REPLANNING, exploration_phase := EP_RECOVERY, target_db := [], target_db_decision := None\<rparr>"
  let ?r = "enter_recovery (has_clarification_answer s) (reason s)"
  have hyps: "hypotheses (fail_current ?base) = hypotheses (fail_current (reason s))"
    by (simp add: fail_current_def Let_def split: option.split)
  have "q\<lparr>hyp_status := Hyp_ACTIVE\<rparr> \<in> set (update_first (\<lambda>h. hyp_id h = hyp_id q) (\<lambda>_. q\<lparr>hyp_status := Hyp_ACTIVE\<rparr>)
      (hypotheses (fail_current (reason s))))"
    using top_pending_Some(1) [OF assms(4)] by (rule update_first_in) auto
  then have "q\<lparr>hyp_status := Hyp_ACTIVE\<rparr> \<in> set (hypotheses ?r)"
    using assms(1,4) by (simp add: enter_recovery_def handle_hypothesis_transition_def consume_next_pending_def hyps Let_def)
  then have q: "q\<lparr>hyp_status := Hyp_ACTIVE\<rparr> \<in> set (hypotheses (inject_hypothesis p ?r))"
    using assms(2,3) by (simp add: inject_hypothesis_def Let_def)
  have r': "reason s' = continue_or_give_up cfg (Some p) ?r"
    using assms(2,5) by (auto simp: recovery_agent_node_def Let_def)
  have "\<not> should_terminate cfg (inject_hypothesis p ?r)"
    using assms(6) give_up_cases [of "inject_hypothesis p ?r" "Some p"] r'
    by (auto simp: continue_or_give_up_def Let_def split: if_splits)
  with r' assms(2) have "reason s' = extend_plan p (attach_lessons (inject_hypothesis p ?r) (Some p))"
    by (simp add: continue_or_give_up_def Let_def)
  with q assms(2,3) show ?thesis by (simp add: frame_simps) (simp add: inject_hypothesis_def Let_def)
qed

theorem replan_orphans_pending_hypothesis_witness:
  "\<exists>s'. recovery_agent_node default_settings (Inr (Some \<lparr>pl_action = ''replan'', pl_lessons = [],
       pl_steps = [new_step 1 ''search_table_meta'' ''loan'' []], pl_new_hypothesis = Some (llm_hypothesis ''B'' []),
       pl_clarification = None\<rparr>))
     (new_pipeline_state\<lparr>reason := new_reasoning_state\<lparr>hypotheses :=
        [(llm_hypothesis ''A'' [])\<lparr>hyp_id := ''H1'', hyp_status := Hyp_PENDING\<rparr>]\<rparr>\<rparr>) = Inr s' \<and>
     (llm_hypothesis ''A'' [])\<lparr>hyp_id := ''H1'', hyp_status := Hyp_ACTIVE\<rparr> \<in> set (hypotheses (reason s'))"
proof -
  let ?h = "(llm_hypothesis ''A'' [])\<lparr>hyp_id := ''H1'', hyp_status := Hyp_PENDING\<rparr>"
  let ?p = "\<lparr>pl_action = ''replan'', pl_lessons = [],
       pl_steps = [new_step 1 ''search_table_meta'' ''loan'' []], pl_new_hypothesis = Some (llm_hypothesis ''B'' []),
       pl_clarification = None\<rparr>"
  let ?s = "new_pipeline_state\<lparr>reason := new_reasoning_state\<lparr>hypotheses := [?h]\<rparr>\<rparr>"
  have run: "\<exists>s'. recovery_agent_node default_settings (Inr (Some ?p)) ?s = Inr s' \<and> phase (reason s') = EXPLORING"
    by (simp add: recovery_agent_node_def Let_def continue_or_give_up_def should_terminate_def frame_simps)
       (simp add: enter_recovery_def handle_hypothesis_transition_def fail_current_def consume_next_pending_def
         top_pending_def inject_hypothesis_def new_reasoning_state_def new_loop_guard_def increment_replan_def
         default_settings_def has_clarification_answer_def new_pipeline_state_def Let_def)
  then obtain s' where s': "recovery_agent_node default_settings (Inr (Some ?p)) ?s = Inr s'"
    "phase (reason s') = EXPLORING" by blast
  have "top_pending (hypotheses (fail_current (reason ?s))) = Some ?h"
    by (simp add: fail_current_def top_pending_def new_reasoning_state_def Let_def)
  from replan_orphans_pending_hypothesis [OF _ _ _ this s'] s'(1) show ?thesis
    by (auto simp: has_clarification_answer_def new_pipeline_state_def)
qed

text \<open>
  A forced generation runs without a decided database.  The agent clears the target on
  entry and the gate is not passed again, so the generator that follows fails with a runtime
  error unless exactly one database is connected.
\<close>
theorem forced_generation_has_no_target:
  assumes "recovery_agent_node cfg outcome s = Inr s'" and "outcome = build_recovery_plan mr lg client loads msgs"
    and "length dbs \<noteq> 1"
  shows "target_db (reason s') = [] \<and> target_db_decision (reason s') = None \<and>
    sql_generator_reason cfg dbs reply (reason s') = Inl RuntimeErr"
proof -
  from assms(1,2) have "target_db (reason s') = [] \<and> target_db_decision (reason s') = None"
    by (cases rule: recovery_cases) (simp_all add: frame_simps)
  with assms(3) show ?thesis
    by (simp add: sql_generator_reason_def get_query_db_def frame_simps Let_def)
qed

theorem forced_generation_has_no_target_witness:
  "\<exists>s'. recovery_agent_node default_settings
       (build_recovery_plan 0 0 (\<lambda>_ _. Inl TimeoutErr) (\<lambda>_. None) []) new_pipeline_state = Inr s' \<and>
     sql_generator_reason default_settings [] (Inl TimeoutErr) (reason s') = Inl RuntimeErr"
proof -
  let ?o = "build_recovery_plan 0 0 (\<lambda>_ _. Inl TimeoutErr) (\<lambda>_. None) []"
  have "?o = Inr None" by (simp add: build_recovery_plan_def llm_call_with_parse_retry_def)
  then obtain s' where s': "recovery_agent_node default_settings ?o new_pipeline_state = Inr s'"
    by (auto simp: recovery_agent_node_def Let_def)
  from forced_generation_has_no_target [OF this refl, of "[]"] s' show ?thesis by auto
qed

text \<open>
  Malformed replies that crash the node.  A replanning reply whose plan is JSON null raises
  a type error, and a question whose clarification is a non-empty text or list an attribute
  error; neither is retried and neither is among the errors the node turns into giving up.
\<close>
theorem malformed_plan_escapes:
  assumes "client 0 msgs = Inr reply" and "py_strip reply \<noteq> []" and "0 \<le> mr"
    and "extract_json loads (py_strip reply) = Some (JObj d)"
    and "(map_of d ''action'' = Some (JStr ''replan'') \<and> map_of d ''execution_plan'' = Some JNull) \<or>
         (map_of d ''action'' = Some (JStr ''ask_user'') \<and> (\<exists>t. map_of d ''clarification'' = Some (JStr t) \<and> t \<noteq> []))"
  shows "build_recovery_plan mr lg client loads msgs \<in> {Inl TypeErr, Inl AttributeError}"
proof -
  have "d \<noteq> []" using assms(5) by auto
  then have "parse_plan_response loads (py_strip reply) \<in> {Inl (TypeErr, ''not iterable''), Inl (AttributeError, ''get'')}"
    using assms(4,5)
    by (auto simp: parse_plan_response_def parse_plan_data_def parse_replan_def parse_ask_user_def obj_get_def
        plan_entries_def py_or_def)
  moreover obtain n where "nat (1 + mr) = Suc n" using assms(3) by (metis Suc_nat_eq_nat_zadd1 add.commute)
  ultimately show ?thesis
    using assms(1,2) by (auto simp: build_recovery_plan_def llm_call_with_parse_retry_def Let_def)
qed

theorem malformed_plan_escapes_witness:
  "build_recovery_plan 2 0 (\<lambda>_ _. Inr ''x'') (\<lambda>_. Some (JObj [(''action'', JStr ''replan''), (''execution_plan'', JNull)])) []
     \<in> {Inl TypeErr, Inl AttributeError}"
proof (rule malformed_plan_escapes [where d = "[(''action'', JStr ''replan''), (''execution_plan'', JNull)]"])
  show "py_strip ''x'' \<noteq> []" by (simp add: py_strip_def py_lstrip_def is_ascii_space_def)
qed (simp_all add: extract_json_def)

end
