(* ===== verification/Clarification.thy ===== *)
theory Clarification imports TurnState begin

text \<open>
  The single clarification node (\<open>src/src/agents/nodes/interpret/clarification_handler.py\<close>):
  guard rails that turn guesses into questions, the choice of the one question asked, and the
  check of the answer.  The user's answer to the interrupt and the clock are arguments.
\<close>

definition should_override_to_ask :: "ambiguity_signal \<Rightarrow> string option" where
  "should_override_to_ask sg =
     (if sg_decision sg = ASK then None
      else case sg_ambiguity_type sg of
        AT_FORMULA \<Rightarrow> Some ''a formula may not be inferred (financial regulation)''
      | AT_TABLE \<Rightarrow>
          (if length (sg_options sg) \<ge> 2 \<and> sg_confidence sg = CL_LOW
           then Some ''the choice of the table is not certain enough'' else None)
      | AT_INTENT \<Rightarrow>
          (if sg_confidence sg = CL_LOW then Some ''the reading of the intent is not certain enough'' else None)
      | _ \<Rightarrow> None)"

fun PRIORITY :: "ambiguity_type \<Rightarrow> nat" where
  "PRIORITY AT_INTENT = 1"
| "PRIORITY AT_FORMULA = 1"
| "PRIORITY AT_TABLE = 2"
| "PRIORITY AT_VALUE = 2"
| "PRIORITY AT_TIMEFRAME = 3"
| "PRIORITY AT_CONTEXT = 4"
| "PRIORITY AT_CONFLICT = 4"

text \<open>\<open>validate_answer\<close>: \<open>None\<close> is the value error.\<close>

definition validate_answer :: "string \<Rightarrow> ambiguity_signal \<Rightarrow> string option" where
  "validate_answer raw sg =
     (let answer = py_strip raw
      in if answer = [] then None
         else if sg_question_type sg = SINGLE_SELECT \<and> sg_options sg \<noteq> []
           then map_option snd
                  (find (\<lambda>(i, opt). answer = str_int (int i) \<or> answer = opt) (enumerate 1 (sg_options sg)))
         else Some answer)"

definition tag_turn :: "string \<Rightarrow> ambiguity_signal \<Rightarrow> ambiguity_signal" where
  "tag_turn tid sg = sg\<lparr>sg_turn_id := Some tid\<rparr>"

definition apply_guard :: "ambiguity_signal \<Rightarrow> ambiguity_signal" where
  "apply_guard sg =
     (case should_override_to_ask sg of
        None \<Rightarrow> sg
      | Some why \<Rightarrow> sg\<lparr>sg_decision := ASK, sg_override_reason := Some why\<rparr>)"

text \<open>\<open>min(ask, key=...)\<close>: the first signal of least priority number.\<close>

definition best_ask :: "ambiguity_signal list \<Rightarrow> ambiguity_signal" where
  "best_ask asks = hd (sort_key (\<lambda>sg. PRIORITY (sg_ambiguity_type sg)) asks)"

definition answered :: "nat \<Rightarrow> string \<Rightarrow> ambiguity_signal \<Rightarrow> ambiguity_signal" where
  "answered now user_answer sg =
     sg\<lparr>sg_answer := Some (case validate_answer user_answer sg of Some a \<Rightarrow> a | None \<Rightarrow> py_strip user_answer),
        sg_resolved_at := Some now\<rparr>"

definition clarification_handler_node :: "nat \<Rightarrow> string \<Rightarrow> pipeline_state \<Rightarrow> pipeline_state" where
  "clarification_handler_node now user_answer s =
     (if pending_signals s = [] then s
      else
        let signals = map (\<lambda>sg. apply_guard (tag_turn (turn_id s) sg)) (pending_signals s);
            asks = filter (\<lambda>sg. sg_decision sg = ASK) signals;
            infers = map (\<lambda>sg. sg\<lparr>sg_resolved_at := Some now\<rparr>) (filter (\<lambda>sg. sg_decision sg = INFER) signals)
        in if asks = []
           then s\<lparr>resolved_signals := resolved_signals s @ infers, pending_signals := []\<rparr>
           else s\<lparr>resolved_signals := resolved_signals s @ infers @ [answered now user_answer (best_ask asks)],
                  pending_signals := []\<rparr>)"

text \<open>The section of later prompts that reports the clarifications of the current turn.\<close>

definition is_current :: "pipeline_state \<Rightarrow> ambiguity_signal \<Rightarrow> bool" where
  "is_current s sg \<longleftrightarrow> sg_turn_id sg = Some (turn_id s)"

definition ask_lines :: "nat \<times> ambiguity_signal \<Rightarrow> string list" where
  "ask_lines isg =
     (case isg of (i, sg) \<Rightarrow>
        [''Round '' @ str_int (int i) @ '':'', ''  Question: '' @ sg_question sg] @
        (if sg_options sg \<noteq> [] then [''  Options: '' @ py_join '', '' (sg_options sg)] else []) @
        [''  Answer: '' @ (case sg_answer sg of None \<Rightarrow> ''None'' | Some a \<Rightarrow> a)])"

definition build_clarification_context :: "pipeline_state \<Rightarrow> string" where
  "build_clarification_context s =
     (if turn_id s = [] then []
      else
        let current = filter (is_current s) (resolved_signals s);
            asks = filter (\<lambda>sg. sg_decision sg = ASK) current;
            infers = filter (\<lambda>sg. sg_decision sg = INFER) current
        in py_join [char_of (10 :: nat)]
             ((if asks \<noteq> [] then ''[Clarification dialogue]'' # concat (map ask_lines (enumerate 1 asks)) else []) @
              (if infers \<noteq> []
               then ([char_of (10 :: nat)] @ ''[Conditions inferred automatically]'') #
                    map (\<lambda>sg. ''- '' @ sg_question sg @ '' -> '' @
                               (case sg_inferred_value sg of None \<Rightarrow> ''None'' | Some v \<Rightarrow> v) @
                               '' (reason: '' @ sg_reasoning sg @ '')'') infers
               else [])))"

section \<open>Facts\<close>

lemma best_ask_props:
  assumes "asks \<noteq> []"
  shows "best_ask asks \<in> set asks"
    and "\<forall>sg\<in>set asks. PRIORITY (sg_ambiguity_type (best_ask asks)) \<le> PRIORITY (sg_ambiguity_type sg)"
proof -
  let ?k = "\<lambda>sg. PRIORITY (sg_ambiguity_type sg)"
  have "sort_key ?k asks \<noteq> []" using assms by (metis set_empty set_sort)
  then obtain b t where S: "sort_key ?k asks = b # t" by (cases "sort_key ?k asks") auto
  then have b: "best_ask asks = b" by (simp add: best_ask_def)
  show "best_ask asks \<in> set asks" using b S by (metis list.set_intros(1) set_sort)
  have "sorted (map ?k (b # t))" by (metis S sorted_sort_key)
  then have "\<forall>sg\<in>set (b # t). ?k b \<le> ?k sg" by auto
  then show "\<forall>sg\<in>set asks. ?k (best_ask asks) \<le> ?k sg" using b S by (metis set_sort)
qed

lemma apply_guard_frame [frame_simps]:
  "sg_source_node (apply_guard sg) = sg_source_node sg"
  "sg_ambiguity_type (apply_guard sg) = sg_ambiguity_type sg"
  "sg_options (apply_guard sg) = sg_options sg"
  "sg_confidence (apply_guard sg) = sg_confidence sg"
  "sg_turn_id (apply_guard sg) = sg_turn_id sg"
  "sg_answer (apply_guard sg) = sg_answer sg"
  by (simp_all add: apply_guard_def split: option.split)

lemma apply_guard_decision:
  "sg_decision (apply_guard sg) = (if sg_decision sg = ASK \<or> should_override_to_ask sg \<noteq> None then ASK else INFER)"
  by (cases "sg_decision sg") (auto simp: apply_guard_def should_override_to_ask_def split: option.split)

text \<open>Guesses the guard rails never let through.\<close>

definition guess_forbidden :: "ambiguity_signal \<Rightarrow> bool" where
  "guess_forbidden sg \<longleftrightarrow>
     sg_ambiguity_type sg = AT_FORMULA \<or>
     (sg_ambiguity_type sg = AT_TABLE \<and> length (sg_options sg) \<ge> 2 \<and> sg_confidence sg = CL_LOW) \<or>
     (sg_ambiguity_type sg = AT_INTENT \<and> sg_confidence sg = CL_LOW)"

lemma guard_forbidden: "sg_decision (apply_guard sg) = INFER \<Longrightarrow> \<not> guess_forbidden sg"
  by (auto simp: apply_guard_decision guess_forbidden_def should_override_to_ask_def
      split: if_splits ambiguity_type.splits)

section \<open>Properties\<close>


definition sample_signal :: "ambiguity_type \<Rightarrow> signal_decision \<Rightarrow> ambiguity_signal" where
  "sample_signal ty dec =
     \<lparr>sg_source_node = ''query_normalizer'', sg_ambiguity_type = ty, sg_decision = dec,
      sg_confidence = CL_LOW, sg_question = ''?'', sg_question_type = FREE_TEXT, sg_options = [],
      sg_inferred_value = Some ''v'', sg_reasoning = [], sg_override_reason = None, sg_answer = None,
      sg_resolved_at = None, sg_turn_id = None\<rparr>"


text \<open>
  Answers to a choice.  A number from 1 to the number of options, or the text of an
  option, selects that option (the earliest, when both readings fit); any other non-empty
  answer is refused by the check and then taken over as it stands.
\<close>
theorem single_select_answer:
  assumes "sg_question_type sg = SINGLE_SELECT" and "sg_options sg \<noteq> []" and "py_strip raw \<noteq> []"
  shows "(case validate_answer raw sg of
      Some a \<Rightarrow> a \<in> set (sg_options sg) \<and>
        (\<exists>i<length (sg_options sg). a = sg_options sg ! i \<and>
           (py_strip raw = str_int (int i + 1) \<or> py_strip raw = sg_options sg ! i) \<and>
           (\<forall>j<i. py_strip raw \<noteq> str_int (int j + 1) \<and> py_strip raw \<noteq> sg_options sg ! j))
    | None \<Rightarrow>
        (\<forall>i<length (sg_options sg). py_strip raw \<noteq> str_int (int i + 1) \<and> py_strip raw \<noteq> sg_options sg ! i) \<and>
        sg_answer (answered now raw sg) = Some (py_strip raw))"
proof -
  let ?P = "\<lambda>(i, opt). py_strip raw = str_int (int i) \<or> py_strip raw = opt"
  have v: "validate_answer raw sg = map_option snd (find ?P (enumerate 1 (sg_options sg)))"
    using assms by (simp add: validate_answer_def Let_def)
  have nth: "enumerate 1 (sg_options sg) ! i = (i + 1, sg_options sg ! i)" if "i < length (sg_options sg)" for i
    using that by (simp add: nth_enumerate_eq)
  show ?thesis
  proof (cases "find ?P (enumerate 1 (sg_options sg))")
    case None
    then have "\<forall>i<length (sg_options sg). \<not> ?P (i + 1, sg_options sg ! i)"
      unfolding find_None_iff using nth nth_mem [of _ "enumerate 1 (sg_options sg)"] by fastforce
    then show ?thesis using v None by (simp add: answered_def add.commute)
  next
    case (Some x)
    then obtain i where i: "i < length (enumerate 1 (sg_options sg))" "?P (enumerate 1 (sg_options sg) ! i)"
      "x = enumerate 1 (sg_options sg) ! i" "\<forall>j<i. \<not> ?P (enumerate 1 (sg_options sg) ! j)"
      by (auto simp: find_Some_iff)
    then have i': "i < length (sg_options sg)" by simp
    have "\<not> ?P (j + 1, sg_options sg ! j)" if "j < i" for j
    proof -
      have j: "j < length (sg_options sg)" using that i' by simp
      from i(4) [rule_format, OF that] show ?thesis unfolding nth [OF j] .
    qed
    then have least: "\<forall>j<i. py_strip raw \<noteq> str_int (int j + 1) \<and> py_strip raw \<noteq> sg_options sg ! j"
      by (simp add: add.commute)
    have res: "validate_answer raw sg = Some (sg_options sg ! i)" using v Some i(3) nth [OF i'] by simp
    have "py_strip raw = str_int (int i + 1) \<or> py_strip raw = sg_options sg ! i"
      using i(2) nth [OF i'] by (simp add: add.commute)
    with least i' show ?thesis unfolding res option.case by (blast intro: nth_mem)
  qed
qed

theorem single_select_answer_witness:
  "validate_answer ''2'' ((sample_signal AT_TABLE ASK)\<lparr>sg_question_type := SINGLE_SELECT, sg_options := [''A'', ''B'']\<rparr>)
     \<in> {None, Some ''A'', Some ''B''}"
proof -
  have "py_strip ''2'' \<noteq> []" by (simp add: py_strip_def py_lstrip_def is_ascii_space_def)
  from single_select_answer [where sg = "(sample_signal AT_TABLE ASK)\<lparr>sg_question_type := SINGLE_SELECT, sg_options := [''A'', ''B'']\<rparr>", OF _ _ this]
  show ?thesis by (auto split: option.splits)
qed

end
