(* ===== verification/ResultFinalizer.thy ===== *)
theory ResultFinalizer imports SqlValidator begin

text \<open>
  The end of the reasoning layer (\<open>src/src/agents/nodes/reason/result_finalizer.py\<close>) and the
  execution of the confirmed SQL (\<open>src/src/agents/nodes/present/sql_executor.py\<close>) with the
  user messages both use (\<open>src/src/agents/models/user_messages.py\<close>).
\<close>

section \<open>User messages\<close>

definition ERR_SQL_EXECUTION :: string where "ERR_SQL_EXECUTION = ''An error occurred while reading the data.''"
definition ERR_SQL_SECURITY :: string where "ERR_SQL_SECURITY = ''The security check failed.''"
definition ERR_GENERIC :: string where "ERR_GENERIC = ''An error occurred during processing.''"
definition RETRY_GUIDE :: string where "RETRY_GUIDE = ''Please try again in a moment.''"
definition REPHRASE_GUIDE :: string where
  "REPHRASE_GUIDE = ''Please try again, or make the request a little more specific.''"
definition ERR_SQL_RETRY_EXHAUSTED :: string where
  "ERR_SQL_RETRY_EXHAUSTED = ''Sorry. Several attempts did not produce safe SQL.'' @ newline @
     ''Could you enter the request again a little more specifically?''"

definition format_error :: "bool \<Rightarrow> string \<Rightarrow> string" where
  "format_error with_retry msg = (if with_retry then msg @ '' '' @ RETRY_GUIDE else msg)"

section \<open>Finalizer\<close>

definition TABLE_PREFIX :: string where "TABLE_PREFIX = ''table:''"

definition build_success_summary :: "reasoning_state \<Rightarrow> string" where
  "build_success_summary r =
     (let g = loop_guard r;
          confirmed_tables = map (\<lambda>ki. drop (length TABLE_PREFIX) (ki_key ki))
            (filter (\<lambda>ki. starts_with (ki_key ki) TABLE_PREFIX \<and> ki_status ki = CONFIRMED) (knowledge_items r))
      in py_join '' | ''
           ([''tool calls '' @ str_int (total_tool_calls g) @ '', SQL generations '' @ str_int (generate_attempts g)] @
            (if replan_count g > 0 then [''replans '' @ str_int (replan_count g)] else []) @
            (if confirmed_tables \<noteq> [] then [''tables used: '' @ py_join '', '' confirmed_tables] else []) @
            (if explored_use_cases r \<noteq> []
             then [''use cases consulted: '' @ str_int (int (length (explored_use_cases r)))] else [])))"

definition first_line :: "string \<Rightarrow> string" where
  "first_line t = py_strip (hd (split_char (char_of (10 :: nat)) t))"

definition FAILURE_HEAD :: string where "FAILURE_HEAD = ''The requested data could not be read.''"

definition build_failure_output :: "reasoning_state \<Rightarrow> string" where
  "build_failure_output r =
     (let from_dead_end = (if dead_ends r \<noteq> [] then first_line (de_reason (last (dead_ends r))) else []);
          from_failure = (case failure_reason r of None \<Rightarrow> [] | Some t \<Rightarrow> if t \<noteq> [] then first_line t else [])
      in if from_dead_end \<noteq> [] then FAILURE_HEAD @ newline @ ''('' @ from_dead_end @ '')''
         else if from_failure \<noteq> [] then FAILURE_HEAD @ newline @ ''('' @ from_failure @ '')''
         else ''The requested data is hard to read.'')"

definition build_cancel_summary :: "reasoning_state \<Rightarrow> string" where
  "build_cancel_summary r =
     (let tables = map tm_table_name (selected_tables r);
          confirmed = get_confirmed_knowledge r
      in py_join '' ''
           ([''The request was stopped.''] @
            (if tables \<noteq> [] then [''Tables explored: '' @ py_join '', '' tables] else []) @
            (if confirmed \<noteq> [] then [str_int (int (length confirmed)) @ '' confirmed items are available.''] else [])))"

definition has_validated :: "reasoning_state \<Rightarrow> bool" where
  "has_validated r \<longleftrightarrow> (case validated_sql r of None \<Rightarrow> False | Some q \<Rightarrow> q \<noteq> [])"

definition result_finalizer_node :: "pipeline_state \<Rightarrow> pipeline_state" where
  "result_finalizer_node s =
     (let r = (reason s)\<lparr>phase := DONE\<rparr>
      in if status s = QS_CANCELLED then
           let summary = build_cancel_summary r
           in s\<lparr>reason := r\<lparr>final_status := Fin_CANCELLED, exploration_summary := summary\<rparr>,
                formatted_response := summary, error_message := summary\<rparr>
         else if has_validated r then
           s\<lparr>reason := r\<lparr>final_status := Fin_SUCCESS,
                          exploration_summary := build_success_summary (r\<lparr>final_status := Fin_SUCCESS\<rparr>)\<rparr>,
             resolved_signals := resolved_signals s @ build_assumption_signals (pending_assumptions r) (turn_id s)\<rparr>
         else
           let r1 = r\<lparr>final_status := Fin_FAILURE\<rparr>;
               r2 = (if exploration_summary r1 = []
                     then r1\<lparr>exploration_summary := build_failure_output r1\<rparr> else r1)
           in s\<lparr>reason := r2, error_message := exploration_summary r2, status := QS_ERROR\<rparr>)"

section \<open>Executor\<close>

text \<open>
  \<open>sql_executor_node\<close>.  The database's answer, \<open>Inl\<close> an exception, the elapsed time and the
  clock are arguments; the SQL is checked a second time before it is sent.
\<close>

definition executed_result :: "settings \<Rightarrow> rat \<Rightarrow> (string \<times> cell) list list \<Rightarrow> sql_result" where
  "executed_result cfg elapsed all_rows =
     (let rows = (if int (length all_rows) > max_query_rows cfg
                  then py_take (max_query_rows cfg) all_rows else all_rows)
      in \<lparr>sr_columns = (case rows of [] \<Rightarrow> [] | row # _ \<Rightarrow> map fst row),
          sr_rows = ensure_json_serializable rows, sr_row_count = int (length rows),
          sr_execution_time_ms = elapsed\<rparr>)"

definition sql_executor_node ::
  "settings \<Rightarrow> (string \<times> connector) list \<Rightarrow> (string \<Rightarrow> string) \<Rightarrow>
   (string \<Rightarrow> (string \<times> cell) list list result) \<Rightarrow> rat \<Rightarrow> string \<Rightarrow> string \<Rightarrow> pipeline_state \<Rightarrow> pipeline_state result" where
  "sql_executor_node cfg dbs nfkc execute elapsed now detail s =
     result_bind (get_query_db cfg dbs (target_db (reason s)) []) (\<lambda>db.
       (let sql = (case validated_sql (reason s) of None \<Rightarrow> [] | Some q \<Rightarrow> q)
        in if \<not> fst (check_sql_safety_quick nfkc sql)
           then Inr (s\<lparr>sql_result := new_sql_result, status := QS_ERROR, error_message := ERR_SQL_SECURITY\<rparr>)
           else (case execute sql of
                   Inl CancelledErr \<Rightarrow> Inl CancelledErr
                 | Inl _ \<Rightarrow> Inr (s\<lparr>sql_result := new_sql_result, status := QS_ERROR,
                                    error_message := format_error True ERR_SQL_EXECUTION\<rparr>)
                 | Inr rows \<Rightarrow>
                     Inr (s\<lparr>sql_result := executed_result cfg elapsed rows, status := QS_EXECUTED,
                            trace_log := add_trace now s ''SQL execution'' ''query executed'' detail\<rparr>))))"

section \<open>Facts\<close>

lemma py_join_nonempty: "x \<noteq> [] \<Longrightarrow> py_join sep (x # xs) \<noteq> []"
  by (cases xs) auto

lemma build_failure_output_nonempty [simp]: "build_failure_output r \<noteq> []"
  by (simp add: build_failure_output_def FAILURE_HEAD_def Let_def)

lemma build_cancel_summary_nonempty [simp]: "build_cancel_summary r \<noteq> []"
  by (simp add: build_cancel_summary_def py_join_nonempty Let_def)

lemma result_finalizer_frame [frame_simps]:
  "validated_sql (reason (result_finalizer_node s)) = validated_sql (reason s)"
  "target_db (reason (result_finalizer_node s)) = target_db (reason s)"
  "pending_signals (result_finalizer_node s) = pending_signals s"
  "turn_id (result_finalizer_node s) = turn_id s"
  "intent (result_finalizer_node s) = intent s"
  by (simp_all add: result_finalizer_node_def Let_def)

section \<open>Properties\<close>

text \<open>
  Three disjoint endings of the reasoning layer.  A cancelled turn stays cancelled and gets
  a message, whatever SQL was validated; otherwise validated SQL means success, with one
  guess per assumption added to the turn's resolved signals and no new error; otherwise the
  turn ends in error with a non-empty message.
\<close>
theorem finalizer_endings:
  "(if status s = QS_CANCELLED
    then final_status (reason (result_finalizer_node s)) = Fin_CANCELLED \<and>
      status (result_finalizer_node s) = QS_CANCELLED \<and> error_message (result_finalizer_node s) \<noteq> []
    else if has_validated (reason s)
    then final_status (reason (result_finalizer_node s)) = Fin_SUCCESS \<and>
      status (result_finalizer_node s) = status s \<and> error_message (result_finalizer_node s) = error_message s \<and>
      (\<exists>new. resolved_signals (result_finalizer_node s) = resolved_signals s @ new \<and>
         length new = length (pending_assumptions (reason s)) \<and>
         list_all (\<lambda>sg. sg_decision sg = INFER \<and> sg_turn_id sg = Some (turn_id s)) new)
    else final_status (reason (result_finalizer_node s)) = Fin_FAILURE \<and>
      status (result_finalizer_node s) = QS_ERROR \<and> error_message (result_finalizer_node s) \<noteq> [])"
  by (auto simp: result_finalizer_node_def has_validated_def Let_def build_assumption_signals_def
      list_all_iff assumption_signal_def split: option.splits prod.splits)



end
