(* ===== verification/Snapshots.thy ===== *)
theory Snapshots imports SqlGenerator begin

text \<open>
  Saving a turn for later turns (\<open>src/src/agents/nodes/present/save_turn_snapshot.py\<close> with the
  projection of \<open>src/src/services/turn_snapshot_store.py\<close>) and reading its chart back.
\<close>

section \<open>Saving\<close>

text \<open>The \<open>.value\<close> of a visualization type.\<close>

fun visualization_type_value :: "visualization_type \<Rightarrow> string" where
  "visualization_type_value Vis_NONE = ''none''"
| "visualization_type_value Vis_TABLE_ONLY = ''table_only''"
| "visualization_type_value Vis_INFO_CARD = ''info_card''"
| "visualization_type_value Vis_BAR_CHART = ''bar_chart''"
| "visualization_type_value Vis_HORIZONTAL_BAR = ''horizontal_bar''"
| "visualization_type_value Vis_GROUPED_BAR = ''grouped_bar''"
| "visualization_type_value Vis_STACKED_BAR = ''stacked_bar''"
| "visualization_type_value Vis_LINE_CHART = ''line_chart''"
| "visualization_type_value Vis_PIE_CHART = ''pie_chart''"
| "visualization_type_value Vis_DONUT_CHART = ''donut_chart''"
| "visualization_type_value Vis_SCATTER_PLOT = ''scatter_plot''"
| "visualization_type_value Vis_WATERFALL_CHART = ''waterfall_chart''"
| "visualization_type_value Vis_HEATMAP = ''heatmap''"
| "visualization_type_value Vis_FLOWCHART = ''flowchart''"
| "visualization_type_value Vis_TIMELINE = ''timeline''"
| "visualization_type_value Vis_MIND_MAP = ''mind_map''"
| "visualization_type_value Vis_ORG_CHART = ''org_chart''"
| "visualization_type_value Vis_PROCESS_DIAGRAM = ''process_diagram''"
| "visualization_type_value Vis_VENN_DIAGRAM = ''venn_diagram''"
| "visualization_type_value Vis_MATRIX_CHART = ''matrix_chart''"
| "visualization_type_value Vis_VALUE_CHAIN = ''value_chain''"

definition SNAPSHOT_RESULT_DATA_KEYS :: "string list" where
  "SNAPSHOT_RESULT_DATA_KEYS =
     [''columns'', ''column_formats'', ''total_count'', ''displayed_count'', ''execution_time_ms'']"

text \<open>
  \<open>extract_snapshot_result_data\<close> on the state's \<open>result_data\<close>, a dict or nothing: the listed
  keys that are present, in the order of the list.
\<close>

definition extract_snapshot_result_data :: "json option \<Rightarrow> json option" where
  "extract_snapshot_result_data raw =
     (case raw of
        Some (JObj data) \<Rightarrow>
          let extracted = concat (map (\<lambda>k. case map_of data k of None \<Rightarrow> [] | Some v \<Rightarrow> [(k, v)])
                                      SNAPSHOT_RESULT_DATA_KEYS)
          in if extracted \<noteq> [] then Some (JObj extracted) else None
      | _ \<Rightarrow> None)"

definition extract_visualization :: "visualization_data \<Rightarrow> json option" where
  "extract_visualization vz =
     (let chart_type = visualization_type_value (vz_chart_type vz)
      in if chart_type = [] \<or> chart_type = visualization_type_value Vis_NONE then None
         else Some (JObj [(''svg_code'', JStr (vz_svg_code vz)), (''chart_type'', JStr chart_type),
                          (''title'', JStr (vz_title vz)), (''judgment_reason'', JStr (vz_judgment_reason vz))]))"

definition snapshot_signal :: "string \<Rightarrow> ambiguity_signal \<Rightarrow> bool" where
  "snapshot_signal tid sg \<longleftrightarrow>
     sg_decision sg = INFER \<and> sg_source_node sg \<noteq> ''intent_classifier'' \<and>
     \<not> (tid \<noteq> [] \<and> sg_turn_id sg \<noteq> None \<and> sg_turn_id sg \<noteq> Some tid)"

definition signal_to_json :: "ambiguity_signal \<Rightarrow> json" where
  "signal_to_json sg =
     JObj [(''question'', JStr (sg_question sg)),
           (''value'', JStr (case sg_inferred_value sg of None \<Rightarrow> [] | Some v \<Rightarrow> v)),
           (''source_node'', JStr (sg_source_node sg)), (''reason'', JStr (sg_reasoning sg))]"

definition extract_inferred_signals :: "pipeline_state \<Rightarrow> json list" where
  "extract_inferred_signals s = map signal_to_json (filter (snapshot_signal (turn_id s)) (resolved_signals s))"

definition sql_or_none :: "string option \<Rightarrow> string option" where
  "sql_or_none q = (case q of None \<Rightarrow> None | Some t \<Rightarrow> if t = [] then None else Some t)"

definition build_snapshot :: "pipeline_state \<Rightarrow> turn_snapshot" where
  "build_snapshot s =
     (let r = reason s
      in \<lparr>sn_user_message_seq = (case current_user_message_seq s of None \<Rightarrow> 0 | Some n \<Rightarrow> n),
          sn_intent = intent s,
          sn_generated_sql = (case sql_or_none (validated_sql r) of Some q \<Rightarrow> Some q
                              | None \<Rightarrow> sql_or_none (generated_sql r)),
          sn_sql_explanation = sql_explanation r,
          sn_result_data = extract_snapshot_result_data (result_data s),
          sn_visualization = extract_visualization (visualization s),
          sn_selected_tables = filter (\<lambda>t. tm_selection_status t = SELECTED) (explored_tables r),
          sn_explored_codes = explored_codes r,
          sn_normalized_query = normalized_query s,
          sn_knowledge_items = knowledge_items r,
          sn_query_decomposition = query_decomposition r,
          sn_target_db = target_db r,
          sn_inferred_signals = extract_inferred_signals s\<rparr>)"

definition save_turn_snapshot :: "pipeline_state \<Rightarrow> pipeline_state" where
  "save_turn_snapshot s =
     (if sql_or_none (validated_sql (reason s)) = None then s
      else s\<lparr>turn_snapshots := turn_snapshots s @ [build_snapshot s]\<rparr>)"

section \<open>Reading a chart back\<close>

definition all_visualization_types :: "visualization_type list" where
  "all_visualization_types =
     [Vis_NONE, Vis_TABLE_ONLY, Vis_INFO_CARD, Vis_BAR_CHART, Vis_HORIZONTAL_BAR, Vis_GROUPED_BAR,
      Vis_STACKED_BAR, Vis_LINE_CHART, Vis_PIE_CHART, Vis_DONUT_CHART, Vis_SCATTER_PLOT,
      Vis_WATERFALL_CHART, Vis_HEATMAP, Vis_FLOWCHART, Vis_TIMELINE, Vis_MIND_MAP, Vis_ORG_CHART,
      Vis_PROCESS_DIAGRAM, Vis_VENN_DIAGRAM, Vis_MATRIX_CHART, Vis_VALUE_CHAIN]"

definition visualization_type_of :: "json \<Rightarrow> visualization_type result" where
  "visualization_type_of v =
     (case v of
        JStr t \<Rightarrow> (case find (\<lambda>vt. visualization_type_value vt = t) all_visualization_types of
                     None \<Rightarrow> Inl ValueError | Some vt \<Rightarrow> Inr vt)
      | _ \<Rightarrow> Inl ValueError)"

text \<open>\<open>VisualizationData(**d)\<close>: a missing field takes its default, unknown keys are ignored.\<close>

definition visualization_from_json :: "json \<Rightarrow> visualization_data result" where
  "visualization_from_json v =
     (case v of
        JObj d \<Rightarrow>
          result_bind (str_field (obj_get d ''svg_code'' (JStr []))) (\<lambda>svg.
          result_bind (visualization_type_of (obj_get d ''chart_type'' (JStr ''none''))) (\<lambda>ct.
          result_bind (str_field (obj_get d ''title'' (JStr []))) (\<lambda>title.
          result_bind (str_field (obj_get d ''judgment_reason'' (JStr []))) (\<lambda>why.
            Inr \<lparr>vz_svg_code = svg, vz_chart_type = ct, vz_title = title, vz_judgment_reason = why\<rparr>))))
      | _ \<Rightarrow> Inl TypeErr)"

lemma visualization_type_of_value:
  "visualization_type_of (JStr (visualization_type_value vt)) = Inr vt"
  by (cases vt) (simp_all add: visualization_type_of_def all_visualization_types_def)

section \<open>Properties\<close>

text \<open>
  A saved chart is read back as it was.  The dictionary a snapshot keeps of a turn's
  visualization, whenever there is one, is accepted by the model class and gives the same
  visualization; only a turn without a chart keeps none.
\<close>
theorem visualization_roundtrip:
  "case extract_visualization vz of
     None \<Rightarrow> vz_chart_type vz = Vis_NONE
   | Some j \<Rightarrow> visualization_from_json j = Inr vz"
proof (cases "vz_chart_type vz = Vis_NONE")
  case False
  then have "extract_visualization vz = Some (JObj [(''svg_code'', JStr (vz_svg_code vz)),
      (''chart_type'', JStr (visualization_type_value (vz_chart_type vz))),
      (''title'', JStr (vz_title vz)), (''judgment_reason'', JStr (vz_judgment_reason vz))])"
    by (cases "vz_chart_type vz") (simp_all add: extract_visualization_def)
  then show ?thesis
    by (simp add: visualization_from_json_def obj_get_def str_field_def visualization_type_of_value)
qed (simp add: extract_visualization_def)

text \<open>
  What a completed turn adds to the session.  Snapshots are only appended, at most one a
  turn and only when SQL was validated; the new one carries that SQL, the selected tables
  only, and no guess made by the intent classifier or in another turn.
\<close>
theorem snapshot_of_validated_turns:
  "turn_snapshots (save_turn_snapshot s) = turn_snapshots s @
     (if sql_or_none (validated_sql (reason s)) = None then [] else [build_snapshot s]) \<and>
   (sql_or_none (validated_sql (reason s)) \<noteq> None \<longrightarrow>
      sn_generated_sql (build_snapshot s) = validated_sql (reason s)) \<and>
   (\<forall>t\<in>set (sn_selected_tables (build_snapshot s)). tm_selection_status t = SELECTED) \<and>
   set (sn_inferred_signals (build_snapshot s)) \<subseteq>
     signal_to_json ` {sg \<in> set (resolved_signals s). sg_decision sg = INFER \<and>
       sg_source_node sg \<noteq> ''intent_classifier'' \<and>
       (turn_id s \<noteq> [] \<longrightarrow> sg_turn_id sg = None \<or> sg_turn_id sg = Some (turn_id s))}"
  by (auto simp: save_turn_snapshot_def build_snapshot_def sql_or_none_def extract_inferred_signals_def
      snapshot_signal_def Let_def split: option.splits if_splits)

end
