(* ===== verification/ContinueOrchestrator.thy ===== *)
theory ContinueOrchestrator imports Snapshots begin

text \<open>
  Continuing an earlier turn (\<open>src/src/agents/nodes/interpret/continue_orchestrator.py\<close>): the
  reading of the model's reply, the restoration of the snapshot for the chosen route and the
  node, which names its successor itself.
\<close>

section \<open>The orchestrator's reply\<close>

definition ROUTE_TO_NODE :: "continue_route \<Rightarrow> string" where
  "ROUTE_TO_NODE rt = (case rt of REDISPLAY \<Rightarrow> ''visualizer'' | ANALYZE \<Rightarrow> ''analyzer''
     | REGENERATE \<Rightarrow> ''sql_generator'' | REFINE \<Rightarrow> ''query_normalizer'')"

text \<open>The Korean section headers a note must contain, one for each route.\<close>

definition ROUTE_REQUIRED_HEADERS :: "continue_route \<Rightarrow> string list" where
  "ROUTE_REQUIRED_HEADERS rt = (case rt of
       REDISPLAY \<Rightarrow> [''### '' @ utf8 [236, 139, 156, 234, 176, 129, 237, 153, 148, 47, 237, 143, 172, 235, 167, 183, 32, 236, 167, 128, 236, 139, 156]]
     | ANALYZE \<Rightarrow> [''### '' @ utf8 [235, 182, 132, 236, 132, 157, 32, 236, 180, 136, 236, 160, 144]]
     | REGENERATE \<Rightarrow> [''### SQL '' @ utf8 [236, 131, 157, 236, 132, 177, 32, 236, 167, 128, 236, 139, 156]]
     | REFINE \<Rightarrow> [''### '' @ utf8 [236, 151, 176, 236, 134, 141, 32, 236, 178, 152, 235, 166, 172, 32, 236, 157, 152, 235, 143, 132]])"

definition missing_headers :: "continue_route \<Rightarrow> string \<Rightarrow> string list" where
  "missing_headers rt note = filter (\<lambda>h. \<not> contains note h) (ROUTE_REQUIRED_HEADERS rt)"

text \<open>\<open>ContinueRoute(text)\<close>, \<open>None\<close> its value error.\<close>

definition route_of_text :: "string \<Rightarrow> continue_route option" where
  "route_of_text t =
     (if t = continue_route_value REDISPLAY then Some REDISPLAY
      else if t = continue_route_value ANALYZE then Some ANALYZE
      else if t = continue_route_value REGENERATE then Some REGENERATE
      else if t = continue_route_value REFINE then Some REFINE else None)"

text \<open>
  The pattern \<open>"name"\s*:\s*"([^"]*)"\<close> (with \<open>+\<close> for a field that may not be empty), ignoring
  the case of the name, tried at one position and then searched for; the group, stripped.
\<close>

definition quote :: char where "quote = CHR 0x22"

definition field_here :: "bool \<Rightarrow> string \<Rightarrow> string \<Rightarrow> string option" where
  "field_here nonempty name s =
     (let q = quote # name @ [quote]
      in if \<not> starts_with (py_lower s) q then None
         else (case py_lstrip (drop (length q) s) of
                 CHR '':'' # t \<Rightarrow>
                   (case py_lstrip t of
                      c # u \<Rightarrow>
                        if c \<noteq> quote then None
                        else let v = takeWhile (\<lambda>c. c \<noteq> quote) u
                             in if length v = length u \<or> (nonempty \<and> v = []) then None else Some v
                    | [] \<Rightarrow> None)
               | _ \<Rightarrow> None))"

fun find_field :: "bool \<Rightarrow> string \<Rightarrow> string \<Rightarrow> string option" where
  "find_field nonempty name [] = None"
| "find_field nonempty name (c # s) =
     (case field_here nonempty name (c # s) of
        Some v \<Rightarrow> Some v | None \<Rightarrow> find_field nonempty name s)"

definition extract_field :: "bool \<Rightarrow> string \<Rightarrow> string \<Rightarrow> string" where
  "extract_field nonempty name raw =
     (case find_field nonempty name raw of None \<Rightarrow> [] | Some v \<Rightarrow> py_strip v)"

definition regex_fallback_parse :: "string \<Rightarrow> json option" where
  "regex_fallback_parse raw =
     (let rt = extract_field True ''route'' raw
      in if rt = [] then None
         else Some (JObj [(''route'', JStr rt),
                          (''handoff_note'', JStr (extract_field False ''handoff_note'' raw)),
                          (''reasoning'', JStr (extract_field False ''reasoning'' raw))]))"

text \<open>
  \<open>_parse_orchestrator_response\<close>; \<open>show_json\<close> is Python's \<open>str\<close> of a JSON value that is no
  string.
\<close>

record handoff =
  ho_route :: continue_route
  ho_note :: string
  ho_reasoning :: string

definition parse_orchestrator_response ::
  "(string \<Rightarrow> json option) \<Rightarrow> (json \<Rightarrow> string) \<Rightarrow> string \<Rightarrow> handoff parsed" where
  "parse_orchestrator_response loads show_json raw =
     (let data = (case extract_json loads raw of
                    Some JNull \<Rightarrow> regex_fallback_parse raw
                  | Some v \<Rightarrow> Some v
                  | None \<Rightarrow> regex_fallback_parse raw)
      in case data of
           Some (JObj d) \<Rightarrow>
             (case route_of_text (py_strip (py_lower (py_str show_json (obj_get d ''route'' (JStr []))))) of
                None \<Rightarrow> Inl (ValueError, ''route not allowed'')
              | Some rt \<Rightarrow>
                  Inr \<lparr>ho_route = rt,
                       ho_note = py_strip (py_str show_json (obj_get d ''handoff_note'' (JStr []))),
                       ho_reasoning = py_strip (py_str show_json (obj_get d ''reasoning'' (JStr [])))\<rparr>)
         | _ \<Rightarrow> Inl (ValueError, ''JSON parse failure''))"

section \<open>Restoring a snapshot\<close>

text \<open>
  The rows of the earlier result.  \<open>stored\<close> is what the message table holds for the sequence
  number, \<open>None\<close> when there is no pool, no row or an error; \<open>execute\<close> runs SQL on the database.
\<close>

type_synonym rows = "(string \<times> cell) list list"

definition fetch_rows_from_metadata :: "rows option \<Rightarrow> string \<Rightarrow> int \<Rightarrow> rows option" where
  "fetch_rows_from_metadata stored sid user_seq =
     (if sid = [] \<or> user_seq \<le> 0 then None else stored)"

definition fetch_rows_via_sql_reexecute ::
  "settings \<Rightarrow> (string \<times> connector) list \<Rightarrow> (string \<Rightarrow> rows result) \<Rightarrow> turn_snapshot \<Rightarrow> rows option result" where
  "fetch_rows_via_sql_reexecute cfg dbs execute snap =
     (let sql = py_strip (case sn_generated_sql snap of None \<Rightarrow> [] | Some q \<Rightarrow> q);
          target = py_strip (sn_target_db snap)
      in if sql = [] \<or> target = [] then Inr None
         else (case get_query_db cfg dbs [] target of
                 Inl e \<Rightarrow> Inr None
               | Inr conn \<Rightarrow>
                   (case execute sql of
                      Inl CancelledErr \<Rightarrow> Inl CancelledErr
                    | Inl e \<Rightarrow> Inr None
                    | Inr rs \<Rightarrow> Inr (Some rs))))"

text \<open>The metadata of the earlier result; the counts are numbers, as the formatter writes them.\<close>

definition columns_field :: "json \<Rightarrow> string list result" where
  "columns_field v =
     (case v of
        JList vs \<Rightarrow> (case json_strings vs of Inl e \<Rightarrow> Inl ValueError | Inr cs \<Rightarrow> Inr cs)
      | JObj kvs \<Rightarrow> Inr (map fst kvs)
      | JStr t \<Rightarrow> Inr (map (\<lambda>c. [c]) t)
      | _ \<Rightarrow> Inl TypeErr)"

definition count_field :: "json \<Rightarrow> int result" where
  "count_field v =
     (case v of
        JNum q \<Rightarrow> if of_int \<lfloor>q\<rfloor> = q then Inr \<lfloor>q\<rfloor> else Inl ValueError
      | JBool b \<Rightarrow> Inr (if b then 1 else 0)
      | _ \<Rightarrow> Inl ValueError)"

definition restored_result :: "turn_snapshot \<Rightarrow> rows \<Rightarrow> sql_result result" where
  "restored_result snap rs =
     (let d = (case sn_result_data snap of Some (JObj d) \<Rightarrow> d | _ \<Rightarrow> [])
      in result_bind (columns_field (obj_get d ''columns'' (JList []))) (\<lambda>cols.
         result_bind (count_field (py_or (obj_get d ''total_count'' (JNum 0)) (obj_get d ''displayed_count'' (JNum 0)))) (\<lambda>n.
           Inr \<lparr>sr_columns = cols, sr_rows = ensure_json_serializable rs, sr_row_count = n,
                sr_execution_time_ms = 0\<rparr>)))"

definition restored_reason :: "turn_snapshot \<Rightarrow> reasoning_state" where
  "restored_reason snap =
     (let r = new_reasoning_state\<lparr>knowledge_items := sn_knowledge_items snap,
                query_decomposition := sn_query_decomposition snap, target_db := sn_target_db snap,
                explored_tables := sn_selected_tables snap, explored_codes := sn_explored_codes snap\<rparr>
      in case sql_or_none (sn_generated_sql snap) of
           None \<Rightarrow> r
         | Some q \<Rightarrow> r\<lparr>previous_turn_sql := q, previous_turn_sql_explanation := sn_sql_explanation snap\<rparr>)"

text \<open>
  \<open>_build_hydration_updates\<close> on the state; \<open>Inr None\<close> is the error of rows that cannot be
  restored.  A stored chart the model class does not accept is dropped.
\<close>

definition restore_chart :: "continue_route \<Rightarrow> turn_snapshot \<Rightarrow> pipeline_state \<Rightarrow> pipeline_state" where
  "restore_chart rt snap s =
     (case sn_visualization snap of
        Some j \<Rightarrow> if rt = REDISPLAY \<and> json_true j
                  then (case visualization_from_json j of Inr vz \<Rightarrow> s\<lparr>visualization := vz\<rparr> | Inl e \<Rightarrow> s)
                  else s
      | None \<Rightarrow> s)"

definition hydrate ::
  "settings \<Rightarrow> (string \<times> connector) list \<Rightarrow> rows option \<Rightarrow> (string \<Rightarrow> rows result) \<Rightarrow> continue_route \<Rightarrow>
   turn_snapshot \<Rightarrow> pipeline_state \<Rightarrow> pipeline_state option result" where
  "hydrate cfg dbs stored execute rt snap s =
     (if rt = REFINE then Inr (Some s)
      else
        let s1 = (case sn_normalized_query snap of None \<Rightarrow> s | Some nq \<Rightarrow> s\<lparr>normalized_query := Some nq\<rparr>);
            s2 = s1\<lparr>reason := restored_reason snap\<rparr>
        in if rt = REGENERATE then Inr (Some s2)
           else result_bind
             (case fetch_rows_from_metadata stored (session_id s) (sn_user_message_seq snap) of
                Some rs \<Rightarrow> Inr (Some rs)
              | None \<Rightarrow> fetch_rows_via_sql_reexecute cfg dbs execute snap) (\<lambda>found.
             case found of
               None \<Rightarrow> Inr None
             | Some rs \<Rightarrow>
                 result_bind (restored_result snap rs) (\<lambda>sr.
                   Inr (Some (restore_chart rt snap (s2\<lparr>sql_result := sr\<rparr>))))))"

section \<open>The node\<close>

definition ORCHESTRATOR_FALLBACK_ERROR :: string where
  "ORCHESTRATOR_FALLBACK_ERROR = ''The follow-up question was not understood. Please try again with a new question.''"

definition error_end_command :: "string \<Rightarrow> string \<Rightarrow> pipeline_state \<Rightarrow> pipeline_state \<times> string" where
  "error_end_command now why s =
     (s\<lparr>status := QS_ERROR, error_message := ORCHESTRATOR_FALLBACK_ERROR,
        trace_log := add_trace now s ''continue orchestrator'' ''ERROR_END'' why\<rparr>, ''error_end'')"

definition effective_route :: "continue_route \<Rightarrow> turn_snapshot \<Rightarrow> continue_route" where
  "effective_route rt snap =
     (if rt = REGENERATE \<and> (sn_normalized_query snap = None \<or> py_strip (sn_target_db snap) = [])
      then REFINE else rt)"

text \<open>
  \<open>continue_orchestrator_node\<close>: the new state and the successor.  \<open>reply\<close> is the outcome of the
  model call with \<open>parse_orchestrator_response\<close>.
\<close>

definition continue_orchestrator_node ::
  "settings \<Rightarrow> (string \<times> connector) list \<Rightarrow> (string \<times> handoff) result \<Rightarrow> rows option \<Rightarrow> (string \<Rightarrow> rows result) \<Rightarrow>
   string \<Rightarrow> string \<Rightarrow> pipeline_state \<Rightarrow> (pipeline_state \<times> string) result" where
  "continue_orchestrator_node cfg dbs reply stored execute now detail s =
     (if turn_snapshots s = [] then Inr (error_end_command now ''no snapshot to continue from'' s)
      else case reply of
        Inl CancelledErr \<Rightarrow> Inl CancelledErr
      | Inl e \<Rightarrow> Inr (error_end_command now ''model call or parse failure'' s)
      | Inr (_, ho) \<Rightarrow>
          if missing_headers (ho_route ho) (ho_note ho) \<noteq> []
          then Inr (error_end_command now ''handoff note without its header'' s)
          else
            let snap = last (turn_snapshots s);
                rt = effective_route (ho_route ho) snap;
                new_intent = (if rt = ANALYZE then DATA_ANALYSIS else sn_intent snap);
                next_node = ROUTE_TO_NODE rt
            in result_bind (hydrate cfg dbs stored execute rt snap s) (\<lambda>h.
                 case h of
                   None \<Rightarrow> Inr (error_end_command now ''rows not restored'' s)
                 | Some s' \<Rightarrow>
                     Inr (s'\<lparr>route := Some rt, handoff_note := ho_note ho, intent := new_intent,
                            status := QS_INTENT_CLASSIFIED,
                            trace_log := add_trace now s ''continue orchestrator''
                              (py_upper (continue_route_value rt) @ '' -> '' @ next_node) detail\<rparr>, next_node)))"

section \<open>Facts\<close>

lemma restored_reason_fields [simp]:
  "validated_sql (restored_reason snap) = None"
  "generated_sql (restored_reason snap) = None"
  "failure_type (restored_reason snap) = None"
  "target_db (restored_reason snap) = sn_target_db snap"
  "loop_guard (restored_reason snap) = new_loop_guard"
  "is_force_generated (restored_reason snap) = False"
  "phase (restored_reason snap) = PLANNING"
  by (simp_all add: restored_reason_def new_reasoning_state_def Let_def split: option.split)

lemma restore_chart_frame [frame_simps]:
  "reason (restore_chart rt snap s) = reason s"
  "sql_result (restore_chart rt snap s) = sql_result s"
  "normalized_query (restore_chart rt snap s) = normalized_query s"
  "pending_signals (restore_chart rt snap s) = pending_signals s"
  "error_message (restore_chart rt snap s) = error_message s"
  by (simp_all add: restore_chart_def split: option.split sum.split)

lemma ORCHESTRATOR_FALLBACK_ERROR_nonempty [simp]: "ORCHESTRATOR_FALLBACK_ERROR \<noteq> []"
  by (simp add: ORCHESTRATOR_FALLBACK_ERROR_def)

text \<open>The run, split by the command it returns.\<close>

definition gives_up :: "pipeline_state \<Rightarrow> pipeline_state \<Rightarrow> bool" where
  "gives_up s s' \<longleftrightarrow> status s' = QS_ERROR \<and> error_message s' \<noteq> [] \<and> reason s' = reason s \<and>
     pending_signals s' = pending_signals s"

lemma error_end_command_gives_up: "error_end_command now why s = (s', goto) \<Longrightarrow> goto = ''error_end'' \<and> gives_up s s'"
  by (auto simp: error_end_command_def gives_up_def)

lemma orchestrator_cases:
  assumes "continue_orchestrator_node cfg dbs reply stored execute now detail s = Inr (s', goto)"
  obtains (ended) "goto = ''error_end''" "gives_up s s'"
  | (routed) last_text ho h where "reply = Inr (last_text, ho)" "turn_snapshots s \<noteq> []"
      "missing_headers (ho_route ho) (ho_note ho) = []"
      "hydrate cfg dbs stored execute (effective_route (ho_route ho) (last (turn_snapshots s)))
         (last (turn_snapshots s)) s = Inr (Some h)"
      "goto = ROUTE_TO_NODE (effective_route (ho_route ho) (last (turn_snapshots s)))"
      "route s' = Some (effective_route (ho_route ho) (last (turn_snapshots s)))"
      "reason s' = reason h" "sql_result s' = sql_result h" "normalized_query s' = normalized_query h"
      "visualization s' = visualization h" "pending_signals s' = pending_signals h"
      "error_message s' = error_message h" "status s' = QS_INTENT_CLASSIFIED" "handoff_note s' = ho_note ho"
proof (cases "turn_snapshots s = []")
  case True
  with assms ended error_end_command_gives_up show thesis by (simp add: continue_orchestrator_node_def)
next
  case False
  show thesis
  proof (cases reply)
    case (Inl e)
    with False assms ended error_end_command_gives_up show thesis
      by (auto simp: continue_orchestrator_node_def split: py_error.splits)
  next
    case (Inr p)
    obtain last_text ho where p: "p = (last_text, ho)" by (cases p)
    show thesis
    proof (cases "missing_headers (ho_route ho) (ho_note ho) = []")
      case True
      let ?h = "hydrate cfg dbs stored execute (effective_route (ho_route ho) (last (turn_snapshots s)))
         (last (turn_snapshots s)) s"
      from assms False Inr p True obtain hs where hs: "?h = Inr hs"
        by (cases ?h) (simp_all add: continue_orchestrator_node_def Let_def)
      show thesis
      proof (cases hs)
        case None
        with assms False Inr p True hs ended error_end_command_gives_up show thesis
          by (simp add: continue_orchestrator_node_def Let_def)
      next
        case (Some h)
        with assms False Inr p True hs show thesis
          by (intro routed [of last_text ho h]) (auto simp: continue_orchestrator_node_def Let_def)
      qed
    next
      case headers: False
      with assms False Inr p ended error_end_command_gives_up show thesis
        by (simp add: continue_orchestrator_node_def)
    qed
  qed
qed

lemma hydrate_refine [simp]: "hydrate cfg dbs stored execute REFINE snap s = Inr (Some s)"
  by (simp add: hydrate_def)

lemma hydrate_regenerate:
  "hydrate cfg dbs stored execute REGENERATE snap s = Inr (Some h) \<Longrightarrow>
   reason h = restored_reason snap \<and>
   normalized_query h = (case sn_normalized_query snap of None \<Rightarrow> normalized_query s | Some nq \<Rightarrow> Some nq) \<and>
   pending_signals h = pending_signals s \<and> error_message h = error_message s"
  by (auto simp: hydrate_def Let_def split: option.splits)

lemma hydrate_rows:
  assumes "hydrate cfg dbs stored execute rt snap s = Inr (Some h)" and "rt \<in> {REDISPLAY, ANALYZE}"
  obtains rs where "reason h = restored_reason snap"
    "pending_signals h = pending_signals s" "error_message h = error_message s"
    "restored_result snap rs = Inr (sql_result h)"
    "fetch_rows_from_metadata stored (session_id s) (sn_user_message_seq snap) = Some rs \<or>
     fetch_rows_from_metadata stored (session_id s) (sn_user_message_seq snap) = None \<and>
     fetch_rows_via_sql_reexecute cfg dbs execute snap = Inr (Some rs)"
proof -
  from assms(2) have "rt \<noteq> REFINE" "rt \<noteq> REGENERATE" by auto
  with assms(1) obtain found where
    found: "(case fetch_rows_from_metadata stored (session_id s) (sn_user_message_seq snap) of
        Some rs \<Rightarrow> Inr (Some rs)
      | None \<Rightarrow> fetch_rows_via_sql_reexecute cfg dbs execute snap) = Inr found"
    and rest: "(case found of None \<Rightarrow> Inr None
      | Some rs \<Rightarrow> result_bind (restored_result snap rs) (\<lambda>sr.
          Inr (Some (restore_chart rt snap ((case sn_normalized_query snap of None \<Rightarrow> s
            | Some nq \<Rightarrow> s\<lparr>normalized_query := Some nq\<rparr>)\<lparr>reason := restored_reason snap, sql_result := sr\<rparr>)))))
      = Inr (Some h)"
    by (auto simp: hydrate_def Let_def result_bind_Inr_iff)
  from rest obtain rs sr where rs: "found = Some rs" "restored_result snap rs = Inr sr"
    and h: "h = restore_chart rt snap ((case sn_normalized_query snap of None \<Rightarrow> s
            | Some nq \<Rightarrow> s\<lparr>normalized_query := Some nq\<rparr>)\<lparr>reason := restored_reason snap, sql_result := sr\<rparr>)"
    by (auto simp: result_bind_Inr_iff split: option.splits)
  show thesis
    by (rule that [of rs]) (use found rs h in \<open>auto simp: frame_simps split: option.splits\<close>)
qed

lemma restored_result_rows:
  assumes "restored_result snap rs = Inr sr"
  shows "sr_rows sr = ensure_json_serializable rs" and "restored_result snap [] = Inr (sr\<lparr>sr_rows := []\<rparr>)"
proof -
  from assms obtain cols n where sr: "sr = \<lparr>sr_columns = cols, sr_rows = ensure_json_serializable rs, sr_row_count = n,
      sr_execution_time_ms = 0\<rparr>" and "restored_result snap [] =
      Inr \<lparr>sr_columns = cols, sr_rows = ensure_json_serializable [], sr_row_count = n, sr_execution_time_ms = 0\<rparr>"
    by (auto simp: restored_result_def result_bind_Inr_iff Let_def)
  then show "sr_rows sr = ensure_json_serializable rs" "restored_result snap [] = Inr (sr\<lparr>sr_rows := []\<rparr>)"
    by (simp_all add: ensure_json_serializable_def)
qed

lemma effective_route_regenerate:
  "effective_route rt snap = REGENERATE \<Longrightarrow>
   rt = REGENERATE \<and> sn_normalized_query snap \<noteq> None \<and> py_strip (sn_target_db snap) \<noteq> []"
  by (auto simp: effective_route_def split: if_splits)

section \<open>Properties\<close>


definition sample_snapshot :: "int \<Rightarrow> turn_snapshot" where
  "sample_snapshot seq = (build_snapshot (new_pipeline_state\<lparr>reason := new_reasoning_state\<lparr>
     validated_sql := Some ''SELECT 1'', target_db := ''ADW''\<rparr>, current_user_message_seq := Some seq\<rparr>))"

definition sample_note :: handoff where
  "sample_note = \<lparr>ho_route = ANALYZE, ho_note = hd (ROUTE_REQUIRED_HEADERS ANALYZE), ho_reasoning = []\<rparr>"

lemma sample_note_ok: "ho_route sample_note = ANALYZE" "missing_headers ANALYZE (ho_note sample_note) = []"
  by (simp_all add: sample_note_def missing_headers_def ROUTE_REQUIRED_HEADERS_def contains_iff)
     (metis append_Nil append_Nil2)

lemma sample_run:
  "\<exists>s'. continue_orchestrator_node default_settings [] (Inr ([], sample_note))
     (Some [[(''N'', Plain (JNum 3))]]) execute [] []
     (new_pipeline_state\<lparr>session_id := ''s'', turn_snapshots := [sample_snapshot 7]\<rparr>) = Inr (s', ''analyzer'')"
  by (simp add: continue_orchestrator_node_def sample_note_ok effective_route_def hydrate_def
      fetch_rows_from_metadata_def sample_snapshot_def build_snapshot_def restored_result_def
      extract_snapshot_result_data_def new_pipeline_state_def obj_get_def columns_field_def count_field_def
      py_or_def ROUTE_TO_NODE_def new_reasoning_state_def Let_def)


text \<open>
  A continued turn that shows or analyses the earlier result is never a turn to continue
  from.  The restored reasoning state has no validated SQL, so whatever the presenting nodes do
  to the other fields, saving adds no snapshot: the chart a redisplay has just changed is not
  preserved, and the next follow-up continues the older turn.
\<close>
theorem redisplayed_turn_not_saved:
  assumes "continue_orchestrator_node cfg dbs reply stored execute now detail s = Inr (s', goto)"
    and "goto \<in> {''visualizer'', ''analyzer''}" and "reason s2 = reason s'"
  shows "save_turn_snapshot s2 = s2"
  using assms(1)
proof (cases rule: orchestrator_cases)
  case (routed last_text ho h)
  define rt where "rt = effective_route (ho_route ho) (last (turn_snapshots s))"
  have "rt \<in> {REDISPLAY, ANALYZE}"
    using assms(2) routed(5) by (cases rt) (auto simp: rt_def [symmetric] ROUTE_TO_NODE_def)
  from hydrate_rows [OF routed(4) this [unfolded rt_def]] have "validated_sql (reason h) = None"
    by (metis restored_reason_fields(1))
  with routed(7) assms(3) show ?thesis by (simp add: save_turn_snapshot_def sql_or_none_def)
qed (use assms(2) in simp)

theorem redisplayed_turn_not_saved_witness:
  "\<exists>s'. continue_orchestrator_node default_settings [] (Inr ([], sample_note))
     (Some [[(''N'', Plain (JNum 3))]]) (\<lambda>_. Inl OtherError) [] []
     (new_pipeline_state\<lparr>session_id := ''s'', turn_snapshots := [sample_snapshot 7]\<rparr>) = Inr (s', ''analyzer'') \<and>
     save_turn_snapshot s' = s'"
proof -
  from sample_run obtain s' where s': "continue_orchestrator_node default_settings [] (Inr ([], sample_note))
     (Some [[(''N'', Plain (JNum 3))]]) (\<lambda>_. Inl OtherError) [] []
     (new_pipeline_state\<lparr>session_id := ''s'', turn_snapshots := [sample_snapshot 7]\<rparr>) = Inr (s', ''analyzer'')" by blast
  from redisplayed_turn_not_saved [OF this] s' show ?thesis by auto
qed

text \<open>
  A snapshot taken within a running session cannot be matched with its stored message.
  The turn reset has cleared the sequence number the runner set, so the snapshot records zero,
  for which the message table is never asked: the rows of an earlier turn are always read by
  running its SQL again, whatever the table holds.
\<close>
theorem live_snapshot_rows_always_reexecuted:
  assumes "current_user_message_seq s = current_user_message_seq (turn_reset s0)"
    and "rt \<in> {REDISPLAY, ANALYZE}"
  shows "fetch_rows_from_metadata stored sid (sn_user_message_seq (build_snapshot s)) = None \<and>
    hydrate cfg dbs stored execute rt (build_snapshot s) t = hydrate cfg dbs None execute rt (build_snapshot s) t"
proof -
  have "sn_user_message_seq (build_snapshot s) = 0"
    using assms(1) by (simp add: build_snapshot_def turn_reset_def Let_def)
  then have none: "fetch_rows_from_metadata st i (sn_user_message_seq (build_snapshot s)) = None" for st i
    by (simp add: fetch_rows_from_metadata_def)
  show ?thesis by (simp add: hydrate_def none Let_def)
qed

theorem live_snapshot_rows_always_reexecuted_witness:
  "fetch_rows_from_metadata (Some [[]]) ''session''
     (sn_user_message_seq (build_snapshot (turn_reset (new_pipeline_state\<lparr>current_user_message_seq := Some 5\<rparr>)))) = None"
  using live_snapshot_rows_always_reexecuted [OF refl, of REDISPLAY] by simp

text \<open>
  Restored rows bypass the limits of execution.  When the message table gives nothing, the
  earlier SQL is sent to its database as it stands and every row that comes back is kept,
  beyond the configured maximum too, while the row count is the earlier turn's.
\<close>
theorem restored_rows_unbounded:
  assumes "fetch_rows_via_sql_reexecute cfg dbs execute snap = Inr (Some rs)"
    and "fetch_rows_from_metadata stored (session_id s) (sn_user_message_seq snap) = None"
    and "hydrate cfg dbs stored execute rt snap s = Inr (Some h)" and "rt \<in> {REDISPLAY, ANALYZE}"
  shows "execute (py_strip (case sn_generated_sql snap of None \<Rightarrow> [] | Some q \<Rightarrow> q)) = Inr rs \<and>
    length (sr_rows (sql_result h)) = length rs \<and>
    restored_result snap [] = Inr ((sql_result h)\<lparr>sr_rows := []\<rparr>)"
proof -
  from assms(1) have "execute (py_strip (case sn_generated_sql snap of None \<Rightarrow> [] | Some q \<Rightarrow> q)) = Inr rs"
    by (auto simp: fetch_rows_via_sql_reexecute_def Let_def split: if_splits sum.splits py_error.splits)
  moreover from hydrate_rows [OF assms(3,4)] assms(1,2) have "restored_result snap rs = Inr (sql_result h)"
    by (metis Inr_inject option.inject option.distinct(1))
  moreover have "length (ensure_json_serializable rs) = length rs"
    by (simp add: ensure_json_serializable_def split: list.split)
  ultimately show ?thesis by (simp add: restored_result_rows)
qed

theorem restored_rows_unbounded_witness:
  "\<exists>h. hydrate (default_settings\<lparr>max_query_rows := 1\<rparr>) [(''ADW'', \<lparr>conn_name = ''ADW'', conn_dialect = ''tsql''\<rparr>)]
     None (\<lambda>_. Inr [[(''N'', Plain (JNum 1))], [(''N'', Plain (JNum 2))]]) ANALYZE (sample_snapshot 0) new_pipeline_state
     = Inr (Some h) \<and> length (sr_rows (sql_result h)) = 2"
proof -
  let ?cfg = "default_settings\<lparr>max_query_rows := 1\<rparr>"
  let ?dbs = "[(''ADW'', \<lparr>conn_name = ''ADW'', conn_dialect = ''tsql''\<rparr>)]"
  let ?ex = "\<lambda>_. Inr [[(''N'', Plain (JNum 1))], [(''N'', Plain (JNum 2))]] :: rows result"
  have strip: "py_strip ''SELECT 1'' = ''SELECT 1''" "py_strip ''ADW'' = ''ADW''"
    by (simp_all add: py_strip_def py_lstrip_def is_ascii_space_def)
  have fetch: "fetch_rows_via_sql_reexecute ?cfg ?dbs ?ex (sample_snapshot 0) =
      Inr (Some [[(''N'', Plain (JNum 1))], [(''N'', Plain (JNum 2))]])"
    by (simp add: fetch_rows_via_sql_reexecute_def sample_snapshot_def build_snapshot_def sql_or_none_def
        get_query_db_def strip Let_def)
  have seq: "fetch_rows_from_metadata None (session_id new_pipeline_state) (sn_user_message_seq (sample_snapshot 0)) = None"
    by (simp add: fetch_rows_from_metadata_def)
  have "\<exists>h. hydrate ?cfg ?dbs None ?ex ANALYZE (sample_snapshot 0) new_pipeline_state = Inr (Some h)"
    by (simp add: hydrate_def seq fetch Let_def)
       (simp add: restored_result_def sample_snapshot_def build_snapshot_def extract_snapshot_result_data_def
        new_pipeline_state_def obj_get_def columns_field_def count_field_def py_or_def Let_def)
  then obtain h where h: "hydrate ?cfg ?dbs None ?ex ANALYZE (sample_snapshot 0) new_pipeline_state = Inr (Some h)" ..
  from restored_rows_unbounded [OF fetch seq h] h show ?thesis by auto
qed

end
