(* ===== verification/ContextRetriever.thy ===== *)
theory ContextRetriever imports Snapshots ReadinessGate begin

text \<open>
  The tool runner of the exploration loop (\<open>src/src/agents/nodes/reason/context_retriever.py\<close>
  with the dispatch of \<open>src/src/agents/nodes/reason/tools.py\<close>): duplicate steps, schema
  qualification, one step, the follow-up look-ups of a use case and the node with its tool
  budget.  Tool results, meta look-ups and the structural analysis of SQL are arguments; the
  steps of a batch run in plan order.
\<close>

section \<open>Tables the operator allows\<close>

definition filter_by_forced_target :: "settings \<Rightarrow> table_meta list \<Rightarrow> table_meta list" where
  "filter_by_forced_target cfg tables =
     (if target_db_code cfg = [] then tables
      else filter (\<lambda>t. tm_db_source t = [] \<or> tm_db_source t = target_db_code cfg) tables)"

section \<open>Names in a tool's input\<close>

definition first_part :: "string \<Rightarrow> string" where
  "first_part inp = py_strip (hd (split_char CHR '','' inp))"

definition bare_name :: "string \<Rightarrow> string" where
  "bare_name n = last (split_char CHR ''.'' n)"

definition tool_key :: "string \<Rightarrow> string \<Rightarrow> string" where
  "tool_key tool inp = tool @ '':'' @ inp"

text \<open>\<open>_should_skip_step\<close>: the step, marked when it is skipped.\<close>

definition skip_reason :: "execution_step \<Rightarrow> string set \<Rightarrow> table_meta list \<Rightarrow> string option" where
  "skip_reason st keys tables =
     (if tool_key (es_tool st) (es_input st) \<in> keys then Some ''tool and input already run -- skipped''
      else if es_tool st = ''get_sample_rows'' \<and>
              (\<exists>t\<in>set tables. tm_table_name t = bare_name (first_part (es_input st)) \<and> tm_sample_rows t \<noteq> None)
        then Some ''sample of this table already read -- skipped''
      else None)"

definition should_skip_step ::
  "execution_step \<Rightarrow> string set \<Rightarrow> table_meta list \<Rightarrow> bool \<times> execution_step" where
  "should_skip_step st keys tables =
     (case skip_reason st keys tables of
        None \<Rightarrow> (False, st)
      | Some why \<Rightarrow> (True, st\<lparr>es_status := Step_SKIPPED, es_insight := Some why\<rparr>))"

definition DB_QUERY_TOOLS :: "string list" where
  "DB_QUERY_TOOLS = [''get_sample_rows'', ''get_column_profile'', ''get_date_distribution'', ''get_column_values'']"

text \<open>
  The loop over the explored tables: the first entry of that name with a schema, else the
  system of the last entry of that name.
\<close>

fun schema_lookup :: "string \<Rightarrow> string \<Rightarrow> table_meta list \<Rightarrow> string + string" where
  "schema_lookup name src [] = Inl src"
| "schema_lookup name src (t # ts) =
     (if tm_table_name t = name \<and> tm_schema_name t \<noteq> [] then Inr (tm_schema_name t)
      else schema_lookup name (if tm_table_name t = name then tm_db_source t else src) ts)"

text \<open>\<open>default_schema\<close> is the connector's; the connection it names may not exist.\<close>

definition qualify_table_in_input ::
  "settings \<Rightarrow> (string \<times> connector) list \<Rightarrow> (connector \<Rightarrow> string) \<Rightarrow> string \<Rightarrow> string \<Rightarrow> table_meta list \<Rightarrow> string result" where
  "qualify_table_in_input cfg dbs default_schema tool inp tables =
     (if tool \<notin> set DB_QUERY_TOOLS then Inr inp
      else
        let parts = map py_strip (split_char CHR '','' inp);
            raw = hd parts
        in if CHR ''.'' \<in> set raw then Inr inp
           else (case schema_lookup raw [] tables of
                   Inr schema \<Rightarrow> Inr (py_join '','' ((schema @ ''.'' @ raw) # tl parts))
                 | Inl matched \<Rightarrow>
                     let src = (if matched \<noteq> [] then matched else parse_db_source cfg raw)
                     in if src = [] then Inr inp
                        else result_bind (get_query_db cfg dbs [] src) (\<lambda>db.
                               Inr (if default_schema db \<noteq> []
                                    then py_join '','' ((default_schema db @ ''.'' @ raw) # tl parts) else inp))))"

section \<open>Tables in a meta answer\<close>

definition TABLE_META_TOOLS :: "string list" where
  "TABLE_META_TOOLS = [''lookup_table_meta'', ''search_table_meta'']"

definition DATE_SUFFIXES :: "string list" where
  "DATE_SUFFIXES = [''YMD'', ''YM'', ''YY'', ''DT'', ''DATE'']"

definition has_suffix :: "string \<Rightarrow> string \<Rightarrow> bool" where
  "has_suffix upper suffix \<longleftrightarrow> ends_with upper (CHR ''_'' # suffix) \<or> upper = suffix"

definition date_suffix :: "string \<Rightarrow> string option" where
  "date_suffix name = find (has_suffix (py_upper name)) DATE_SUFFIXES"

definition identify_key_date_columns :: "string list \<Rightarrow> key_date_column list" where
  "identify_key_date_columns pks =
     concat (map (\<lambda>c. case date_suffix c of None \<Rightarrow> []
        | Some sx \<Rightarrow> [\<lparr>kd_column_name = c, kd_suffix = sx, kd_source = PK_RULE\<rparr>]) pks)"

text \<open>The Korean words for a base date, a base month, a transaction or an execution date.\<close>

definition KOREAN_DATE_KEYWORDS :: "string list" where
  "KOREAN_DATE_KEYWORDS =
     [utf8 [234, 184, 176, 236, 164, 128, 236, 157, 188],
      utf8 [234, 184, 176, 236, 164, 128, 235, 133, 132, 236, 155, 148],
      utf8 [234, 184, 176, 236, 164, 128, 235, 133, 132, 236, 155, 148, 236, 157, 188],
      utf8 [234, 184, 176, 236, 164, 128, 235, 133, 132],
      utf8 [234, 177, 176, 235, 158, 152, 236, 157, 188],
      utf8 [236, 139, 164, 237, 150, 137, 236, 157, 188]]"

text \<open>\<open>kw in alt\<close> for some keyword: containment in a text, membership in a list or dict.\<close>

definition mentions_date :: "json \<Rightarrow> bool result" where
  "mentions_date alt =
     (case alt of
        JStr t \<Rightarrow> Inr (\<exists>kw\<in>set KOREAN_DATE_KEYWORDS. contains t kw)
      | JList vs \<Rightarrow> Inr (\<exists>kw\<in>set KOREAN_DATE_KEYWORDS. JStr kw \<in> set vs)
      | JObj kvs \<Rightarrow> Inr (\<exists>kw\<in>set KOREAN_DATE_KEYWORDS. kw \<in> fst ` set kvs)
      | _ \<Rightarrow> Inl TypeErr)"

fun identify_key_date_by_alt_name :: "json list \<Rightarrow> key_date_column list result" where
  "identify_key_date_by_alt_name [] = Inr []"
| "identify_key_date_by_alt_name (JObj c # cs) =
     (if \<not> json_true (obj_get c ''alt_name'' (JStr [])) then identify_key_date_by_alt_name cs
      else result_bind (mentions_date (obj_get c ''alt_name'' (JStr []))) (\<lambda>hit.
        if \<not> hit then identify_key_date_by_alt_name cs
        else (case obj_get c ''name'' (JStr []) of
                JStr name \<Rightarrow>
                  result_bind (identify_key_date_by_alt_name cs) (\<lambda>ks.
                    Inr (\<lparr>kd_column_name = name,
                          kd_suffix = (case date_suffix name of None \<Rightarrow> [] | Some sx \<Rightarrow> sx),
                          kd_source = ALT_NAME_RULE\<rparr> # ks))
              | _ \<Rightarrow> Inl AttributeError)))"
| "identify_key_date_by_alt_name (_ # cs) = Inl AttributeError"

definition resolve_key_date_columns :: "string list \<Rightarrow> json \<Rightarrow> key_date_column list result" where
  "resolve_key_date_columns pks raw_cols =
     (let ks = identify_key_date_columns pks
      in if ks \<noteq> [] then Inr ks
         else identify_key_date_by_alt_name (case raw_cols of JList cs \<Rightarrow> cs | _ \<Rightarrow> []))"

definition parse_meta_columns :: "json \<Rightarrow> (column_info list \<times> string list) result" where
  "parse_meta_columns raw_cols =
     result_bind (case raw_cols of JList cs \<Rightarrow> columns_from_meta cs | _ \<Rightarrow> Inr []) (\<lambda>cols.
       Inr (cols, map col_name (filter col_is_pk cols)))"

definition finalize_table_meta ::
  "settings \<Rightarrow> (string \<times> connector) list \<Rightarrow> (connector \<Rightarrow> string) \<Rightarrow> (string \<times> json) list \<Rightarrow> table_meta \<Rightarrow> table_meta result" where
  "finalize_table_meta cfg dbs default_schema meta ct =
     result_bind
       (if tm_schema_name ct = []
        then result_bind (get_query_db cfg dbs [] (tm_db_source ct)) (\<lambda>db. Inr (ct\<lparr>tm_schema_name := default_schema db\<rparr>))
        else Inr ct) (\<lambda>ct1.
     result_bind (parse_meta_columns (obj_get meta ''columns'' (JList []))) (\<lambda>(cols, pks).
     result_bind (resolve_key_date_columns pks (obj_get meta ''columns'' (JList []))) (\<lambda>ks.
       Inr (ct1\<lparr>tm_key_date_columns := ks\<rparr>))))"

fun tables_of_metas ::
  "settings \<Rightarrow> (string \<times> connector) list \<Rightarrow> (connector \<Rightarrow> string) \<Rightarrow> json list \<Rightarrow> table_meta list result" where
  "tables_of_metas cfg dbs ds [] = Inr []"
| "tables_of_metas cfg dbs ds (m # ms) =
     result_bind (from_meta cfg m) (\<lambda>found.
       case found of
         None \<Rightarrow> tables_of_metas cfg dbs ds ms
       | Some ct \<Rightarrow>
           result_bind (finalize_table_meta cfg dbs ds (case m of JObj d \<Rightarrow> d | _ \<Rightarrow> []) ct) (\<lambda>ct1.
           result_bind (tables_of_metas cfg dbs ds ms) (\<lambda>cts. Inr (ct1 # cts))))"

definition extract_tables ::
  "settings \<Rightarrow> (string \<times> connector) list \<Rightarrow> (connector \<Rightarrow> string) \<Rightarrow> string \<Rightarrow> json \<Rightarrow> table_meta list result" where
  "extract_tables cfg dbs ds tool answer =
     (if tool \<notin> set TABLE_META_TOOLS then Inr []
      else (case answer of
              JList ms \<Rightarrow> result_bind (tables_of_metas cfg dbs ds ms) (\<lambda>cts. Inr (filter_by_forced_target cfg cts))
            | _ \<Rightarrow> Inr []))"

section \<open>Dumps of the model classes\<close>

definition json_option :: "('a \<Rightarrow> json) \<Rightarrow> 'a option \<Rightarrow> json" where
  "json_option f o' = (case o' of None \<Rightarrow> JNull | Some v \<Rightarrow> f v)"

definition jint :: "int \<Rightarrow> json" where "jint i = JNum (of_int i)"

definition jstrs :: "string list \<Rightarrow> json" where "jstrs ss = JList (map JStr ss)"

definition dump_column :: "column_info \<Rightarrow> json" where
  "dump_column c = JObj [(''name'', JStr (col_name c)), (''alt_name'', JStr (col_alt_name c)),
     (''description'', JStr (col_description c)), (''col_type'', JStr (col_type c)),
     (''is_pk'', JBool (col_is_pk c)), (''total_rows'', json_option jint (col_total_rows c)),
     (''non_null_count'', json_option jint (col_non_null_count c)),
     (''null_count'', json_option jint (col_null_count c)), (''null_rate'', json_option JNum (col_null_rate c)),
     (''distinct_count'', json_option jint (col_distinct_count c)), (''min_val'', json_option JStr (col_min_val c)),
     (''max_val'', json_option JStr (col_max_val c)), (''discovered_values'', json_option jstrs (col_discovered_values c))]"

definition dump_key_date :: "key_date_column \<Rightarrow> json" where
  "dump_key_date k = JObj [(''column_name'', JStr (kd_column_name k)), (''suffix'', JStr (kd_suffix k)),
     (''source'', JStr (case kd_source k of PK_RULE \<Rightarrow> ''pk_rule'' | ALT_NAME_RULE \<Rightarrow> ''alt_name_rule''
                        | LLM_FALLBACK \<Rightarrow> ''llm_fallback''))]"

definition dump_observed :: "observed_date_column \<Rightarrow> json" where
  "dump_observed o' = JObj [(''column_name'', JStr (od_column_name o')), (''date_range'', JStr (od_date_range o')),
     (''date_pattern'', JStr (od_date_pattern o')), (''recent_values'', jstrs (od_recent_values o'))]"

definition dump_table :: "table_meta \<Rightarrow> json" where
  "dump_table t = JObj [(''table_name'', JStr (tm_table_name t)), (''alt_name'', JStr (tm_alt_name t)),
     (''description'', JStr (tm_description t)), (''schema_name'', JStr (tm_schema_name t)),
     (''db_source'', JStr (tm_db_source t)), (''subject_area'', JStr (tm_subject_area t)),
     (''source_step'', jint (tm_source_step t)), (''hypothesis_id'', JStr (tm_hypothesis_id t)),
     (''columns'', JList (map dump_column (tm_columns t))),
     (''key_date_columns'', JList (map dump_key_date (tm_key_date_columns t))),
     (''observed_date_columns'', JList (map dump_observed (tm_observed_date_columns t))),
     (''sample_rows'', json_option (\<lambda>rs. JList (map JObj rs)) (tm_sample_rows t)),
     (''inference_confidence'', JNum (tm_inference_confidence t)),
     (''selection_status'', JStr (selection_status_value (tm_selection_status t))),
     (''selection_reason'', JStr (tm_selection_reason t))]"

section \<open>Outside the node\<close>

record retriever_env =
  rv_tool :: "string \<Rightarrow> string \<Rightarrow> string list \<Rightarrow> json result"
  rv_meta :: "string \<Rightarrow> json result"
  rv_code :: "string \<Rightarrow> json result"
  rv_hints :: "string \<Rightarrow> string list \<times> string list"
  rv_schema :: "connector \<Rightarrow> string"
  rv_show :: "json \<Rightarrow> string"
  rv_error :: "py_error \<Rightarrow> string"

definition TOOL_MAP :: "string list" where
  "TOOL_MAP = [''search_use_cases'', ''lookup_table_meta'', ''search_table_meta'', ''lookup_code_meta'',
     ''search_manual'', ''search_biz_terms'', ''get_sample_rows'', ''get_column_values'',
     ''get_column_profile'', ''get_date_distribution'']"

definition QDRANT_TOOLS :: "string list" where
  "QDRANT_TOOLS = [''search_use_cases'', ''search_manual'']"

text \<open>\<open>execute_tool\<close>: an unknown tool answers \<open>None\<close>; only the vector searches exclude ids.\<close>

definition execute_tool :: "retriever_env \<Rightarrow> string \<Rightarrow> string \<Rightarrow> string list \<Rightarrow> json result" where
  "execute_tool env tool inp exclude =
     (if tool \<notin> set TOOL_MAP then Inr JNull
      else rv_tool env tool inp (if tool \<in> set QDRANT_TOOLS then exclude else []))"

section \<open>Follow-up look-ups of use cases\<close>

definition first_occurrences :: "'a list \<Rightarrow> 'a list" where
  "first_occurrences xs = rev (remdups (rev xs))"

text \<open>The executed keys and the tables known within a batch.\<close>

type_synonym batch = "string set \<times> table_meta list"

definition fetch_table ::
  "settings \<Rightarrow> (string \<times> connector) list \<Rightarrow> retriever_env \<Rightarrow> string \<Rightarrow> batch \<Rightarrow> batch \<times> table_meta list result" where
  "fetch_table cfg dbs env name b =
     (let keys = insert (tool_key ''lookup_table_meta'' name) (fst b)
      in case rv_meta env name of
           Inr (JList ms) \<Rightarrow>
             (case tables_of_metas cfg dbs (rv_schema env) ms of
                Inl e \<Rightarrow> ((keys, snd b), Inl e)
              | Inr cts \<Rightarrow> ((keys, snd b @ filter_by_forced_target cfg cts), Inr (filter_by_forced_target cfg cts)))
         | _ \<Rightarrow> ((keys, snd b), Inr []))"

fun fetch_tables ::
  "settings \<Rightarrow> (string \<times> connector) list \<Rightarrow> retriever_env \<Rightarrow> string list \<Rightarrow> batch \<Rightarrow>
   batch \<times> (string \<times> table_meta list) list result" where
  "fetch_tables cfg dbs env [] b = (b, Inr [])"
| "fetch_tables cfg dbs env (n # ns) b =
     (case fetch_table cfg dbs env n b of
        (b1, Inl e) \<Rightarrow> (b1, Inl e)
      | (b1, Inr ts) \<Rightarrow>
          (case fetch_tables cfg dbs env ns b1 of
             (b2, Inl e) \<Rightarrow> (b2, Inl e)
           | (b2, Inr rest) \<Rightarrow> (b2, Inr (if ts \<noteq> [] then (n, ts) # rest else rest))))"

fun add_codes :: "json list \<Rightarrow> (string \<times> json) list \<Rightarrow> (string \<times> json) list result" where
  "add_codes [] found = Inr found"
| "add_codes (JObj d # items) found =
     (let f = obj_get d ''code_field'' (JStr [])
      in if \<not> json_true f then add_codes items found
         else (case f of
                 JStr c \<Rightarrow>
                   if c \<in> fst ` set found then add_codes items found
                   else add_codes items (found @ [(c, JObj [(''column_name'', JStr c),
                          (''column_desc'', obj_get d ''code_field_desc'' (JStr [])),
                          (''codes'', obj_get d ''codes'' (JObj []))])])
               | _ \<Rightarrow> Inl TypeErr))"
| "add_codes (_ # items) found = Inl AttributeError"

fun fetch_codes ::
  "retriever_env \<Rightarrow> string list \<Rightarrow> string set \<Rightarrow> (string \<times> json) list \<Rightarrow> string set \<times> (string \<times> json) list result" where
  "fetch_codes env [] keys found = (keys, Inr found)"
| "fetch_codes env (c # cs) keys found =
     (let keys1 = insert (tool_key ''lookup_code_meta'' c) keys
      in case rv_code env c of
           Inr (JList items) \<Rightarrow>
             (case add_codes items found of
                Inl e \<Rightarrow> (keys1, Inl e)
              | Inr found1 \<Rightarrow> fetch_codes env cs keys1 found1)
         | _ \<Rightarrow> fetch_codes env cs keys1 found)"

text \<open>A use case's id and the tables and code columns of its SQL.\<close>

definition use_case_hints :: "retriever_env \<Rightarrow> json \<Rightarrow> (string \<times> string list \<times> string list) result" where
  "use_case_hints env uc =
     (case uc of
        JObj d \<Rightarrow>
          let i = py_str (rv_show env) (obj_get d ''_point_id'' (JStr [])); q = obj_get d ''sql'' (JStr [])
          in if \<not> json_true q then Inr (i, [], [])
             else (case q of JStr t \<Rightarrow> Inr (i, rv_hints env t) | _ \<Rightarrow> Inl TypeErr)
      | _ \<Rightarrow> Inl AttributeError)"

fun collect_hints :: "retriever_env \<Rightarrow> json list \<Rightarrow> (string \<times> string list \<times> string list) list result" where
  "collect_hints env [] = Inr []"
| "collect_hints env (uc # ucs) =
     result_bind (use_case_hints env uc) (\<lambda>h.
     result_bind (collect_hints env ucs) (\<lambda>hs. Inr (h # hs)))"

definition enrich_one ::
  "(string \<times> table_meta list) list \<Rightarrow> (string \<times> json) list \<Rightarrow> table_meta list \<Rightarrow> string list \<times> string list \<Rightarrow> json \<Rightarrow> json" where
  "enrich_one fetched codes known h uc =
     (let found = (\<lambda>n. case map_of fetched n of Some ts \<Rightarrow> ts | None \<Rightarrow> filter (\<lambda>t. tm_table_name t = n) known);
          ts = concat (map found (fst h));
          cs = concat (map (\<lambda>c. case map_of codes c of None \<Rightarrow> [] | Some v \<Rightarrow> [(c, v)]) (first_occurrences (snd h)))
      in case uc of
           JObj d \<Rightarrow> JObj (dict_set ''enrichment_codes'' (JObj cs)
                            (dict_set ''enrichment_tables'' (JList (map dump_table ts)) d))
         | _ \<Rightarrow> uc)"

text \<open>
  \<open>_enrich_use_cases\<close>.  The names are looked up in order of first occurrence (the code
  iterates over a set); a later use case with the same id replaces the hints of an earlier one.
\<close>

definition enrich_use_cases ::
  "settings \<Rightarrow> (string \<times> connector) list \<Rightarrow> retriever_env \<Rightarrow> string set \<Rightarrow> json list \<Rightarrow> batch \<Rightarrow> batch \<times> json list result" where
  "enrich_use_cases cfg dbs env known_codes ucs b =
     (case collect_hints env ucs of
        Inl e \<Rightarrow> (b, Inl e)
      | Inr hs \<Rightarrow>
          let by_id = fold (\<lambda>(i, h). dict_set i h) hs [];
              names = filter (\<lambda>n. tool_key ''lookup_table_meta'' n \<notin> fst b \<and> n \<notin> tm_table_name ` set (snd b))
                        (first_occurrences (concat (map (fst \<circ> snd) hs)));
              (b1, r) = fetch_tables cfg dbs env names b
          in case r of
               Inl e \<Rightarrow> (b1, Inl e)
             | Inr fetched \<Rightarrow>
                 let cols = filter (\<lambda>c. tool_key ''lookup_code_meta'' c \<notin> fst b1 \<and> c \<notin> known_codes)
                              (first_occurrences (concat (map (snd \<circ> snd) hs)));
                     (keys2, rc) = fetch_codes env cols (fst b1) []
                 in case rc of
                      Inl e \<Rightarrow> ((keys2, snd b1), Inl e)
                    | Inr codes \<Rightarrow>
                        ((keys2, snd b1),
                         Inr (map (\<lambda>(h, uc). enrich_one fetched codes (snd b)
                                     (case map_of by_id (fst h) of Some x \<Rightarrow> x | None \<Rightarrow> ([], [])) uc) (zip hs ucs))))"

section \<open>One step\<close>

text \<open>\<open>_apply_tool_result\<close> for the tools without table meta; \<open>None\<close> leaves the raw result alone.\<close>

definition apply_tool_result ::
  "settings \<Rightarrow> (string \<times> connector) list \<Rightarrow> retriever_env \<Rightarrow> string set \<Rightarrow> string \<Rightarrow> json \<Rightarrow> batch \<Rightarrow> batch \<times> json option result" where
  "apply_tool_result cfg dbs env known_codes tool answer b =
     (if \<not> json_true answer then (b, Inr None)
      else if tool = ''search_use_cases'' then
        (case answer of
           JList ucs \<Rightarrow>
             (case enrich_use_cases cfg dbs env known_codes ucs b of
                (b1, Inl e) \<Rightarrow> (b1, Inl e)
              | (b1, Inr out) \<Rightarrow> (b1, Inr (Some (JObj [(''use_cases'', JList out)]))))
         | _ \<Rightarrow> (b, Inl AttributeError))
      else if tool = ''get_date_distribution'' then
        (case answer of
           JList vs \<Rightarrow>
             (case json_strings vs of
                Inl e \<Rightarrow> (b, Inl e)
              | Inr ds \<Rightarrow> (b, Inr (Some (JObj [(''dates'', answer), (''recent_values'', jstrs (take 10 (rev (sort ds))))]))))
         | _ \<Rightarrow> (b, Inr (Some answer)))
      else (b, Inr (Some answer)))"

definition failed_step :: "retriever_env \<Rightarrow> py_error \<Rightarrow> execution_step \<Rightarrow> execution_step" where
  "failed_step env e st = st\<lparr>es_status := Step_FAILED, es_insight := Some (''tool run failed: '' @ rv_error env e)\<rparr>"

text \<open>
  The body of \<open>_run_step\<close>'s try block: the batch reached and the finished step or the error.
  The key is recorded before the answer is read.
\<close>

definition run_tool ::
  "settings \<Rightarrow> (string \<times> connector) list \<Rightarrow> retriever_env \<Rightarrow> string set \<Rightarrow> (string \<times> string list) list \<Rightarrow>
   execution_step \<Rightarrow> batch \<Rightarrow> batch \<times> execution_step result" where
  "run_tool cfg dbs env known_codes seen st b =
     (let exclude = (case map_of seen (es_tool st) of None \<Rightarrow> [] | Some ids \<Rightarrow> ids);
          st1 = st\<lparr>es_status := Step_DONE\<rparr>
      in case execute_tool env (es_tool st) (es_input st) exclude of
           Inl e \<Rightarrow> (b, Inl e)
         | Inr answer \<Rightarrow>
             let keys = insert (tool_key (es_tool st) (es_input st)) (fst b)
             in case extract_tables cfg dbs (rv_schema env) (es_tool st) answer of
                  Inl e \<Rightarrow> ((keys, snd b), Inl e)
                | Inr new \<Rightarrow>
                    let b1 = (keys, snd b @ new)
                    in if es_tool st \<in> set TABLE_META_TOOLS
                       then (b1, Inr (st1\<lparr>es_raw_result := Some (JObj [(''tables'', JList (map dump_table new))])\<rparr>))
                       else (case apply_tool_result cfg dbs env known_codes (es_tool st) answer b1 of
                               (b2, Inl e) \<Rightarrow> (b2, Inl e)
                             | (b2, Inr None) \<Rightarrow> (b2, Inr st1)
                             | (b2, Inr (Some raw)) \<Rightarrow> (b2, Inr (st1\<lparr>es_raw_result := Some raw\<rparr>))))"

text \<open>
  \<open>_run_step\<close>: the input is qualified outside the try block, so an error there is raised; every
  other exception but a cancellation becomes a failed step.
\<close>

definition run_step ::
  "settings \<Rightarrow> (string \<times> connector) list \<Rightarrow> retriever_env \<Rightarrow> string set \<Rightarrow> (string \<times> string list) list \<Rightarrow>
   execution_step \<Rightarrow> batch \<Rightarrow> batch \<times> execution_step result" where
  "run_step cfg dbs env known_codes seen st b =
     (case qualify_table_in_input cfg dbs (rv_schema env) (es_tool st) (es_input st) (snd b) of
        Inl e \<Rightarrow> (b, Inl e)
      | Inr inp \<Rightarrow>
          let st1 = st\<lparr>es_input := inp\<rparr>
          in case run_tool cfg dbs env known_codes seen st1 b of
               (b1, Inl CancelledErr) \<Rightarrow> (b1, Inl CancelledErr)
             | (b1, Inl e) \<Rightarrow> (b1, Inr (failed_step env e st1))
             | (b1, Inr st2) \<Rightarrow> (b1, Inr st2))"

section \<open>The node\<close>

definition mark_skipped :: "string set \<Rightarrow> table_meta list \<Rightarrow> execution_step \<Rightarrow> execution_step" where
  "mark_skipped keys tables st =
     (if es_status st = Step_PENDING then snd (should_skip_step st keys tables) else st)"

definition is_pending :: "execution_step \<Rightarrow> bool" where
  "is_pending st \<longleftrightarrow> es_status st = Step_PENDING"

text \<open>The first \<open>n\<close> pending steps of the plan are run in place.\<close>

fun run_batch ::
  "settings \<Rightarrow> (string \<times> connector) list \<Rightarrow> retriever_env \<Rightarrow> string set \<Rightarrow> (string \<times> string list) list \<Rightarrow>
   nat \<Rightarrow> execution_step list \<Rightarrow> batch \<Rightarrow> batch \<times> execution_step list result" where
  "run_batch cfg dbs env kc seen n [] b = (b, Inr [])"
| "run_batch cfg dbs env kc seen n (st # sts) b =
     (if is_pending st \<and> 0 < n then
        (case run_step cfg dbs env kc seen st b of
           (b1, Inl e) \<Rightarrow> (b1, Inl e)
         | (b1, Inr st1) \<Rightarrow>
             (case run_batch cfg dbs env kc seen (n - 1) sts b1 of
                (b2, Inl e) \<Rightarrow> (b2, Inl e)
              | (b2, Inr sts1) \<Rightarrow> (b2, Inr (st1 # sts1))))
      else
        (case run_batch cfg dbs env kc seen n sts b of
           (b2, Inl e) \<Rightarrow> (b2, Inl e)
         | (b2, Inr sts1) \<Rightarrow> (b2, Inr (st # sts1))))"

definition seen_ids :: "reasoning_state \<Rightarrow> (string \<times> string list) list" where
  "seen_ids r =
     [(''search_use_cases'', filter (\<lambda>i. i \<noteq> []) (map uc_point_id (explored_use_cases r))),
      (''search_manual'', filter (\<lambda>i. i \<noteq> []) (map bm_point_id (explored_biz_manuals r)))]"

definition marked_plan :: "reasoning_state \<Rightarrow> execution_step list" where
  "marked_plan r = map (mark_skipped (executed_tool_keys r) (explored_tables r)) (execution_plan r)"

definition steps_to_run :: "settings \<Rightarrow> reasoning_state \<Rightarrow> nat" where
  "steps_to_run cfg r =
     length (py_take (MAX_TOOL_CALLS cfg - total_tool_calls (loop_guard r)) (filter is_pending (marked_plan r)))"

definition context_retriever_node ::
  "settings \<Rightarrow> (string \<times> connector) list \<Rightarrow> retriever_env \<Rightarrow> pipeline_state \<Rightarrow> pipeline_state result" where
  "context_retriever_node cfg dbs env s =
     (let r = reason s;
          n = steps_to_run cfg r
      in case run_batch cfg dbs env (fst ` set (explored_codes r)) (seen_ids r) n (marked_plan r)
                (executed_tool_keys r, explored_tables r) of
           (b, Inl e) \<Rightarrow> Inl e
         | (b, Inr plan) \<Rightarrow>
             Inr (s\<lparr>reason := r\<lparr>phase := EXPLORING, execution_plan := plan, executed_tool_keys := fst b,
               loop_guard := (loop_guard r)\<lparr>total_tool_calls := total_tool_calls (loop_guard r) + int n\<rparr>\<rparr>\<rparr>))"

section \<open>Facts\<close>

lemma run_tool_status:
  "run_tool cfg dbs env kc seen st b = (b1, Inr st1) \<Longrightarrow>
   es_status st1 = Step_DONE \<and> es_tool st1 = es_tool st \<and> es_step st1 = es_step st \<and>
   es_hypothesis_id st1 = es_hypothesis_id st \<and> es_input st1 = es_input st"
  by (auto simp: run_tool_def Let_def split: sum.splits option.splits prod.splits if_splits)

lemma run_step_status:
  assumes "run_step cfg dbs env kc seen st b = (b1, Inr st1)"
  shows "es_status st1 \<in> {Step_DONE, Step_FAILED} \<and> es_tool st1 = es_tool st \<and> es_step st1 = es_step st \<and>
    es_hypothesis_id st1 = es_hypothesis_id st"
  using assms
  by (auto simp: run_step_def failed_step_def Let_def dest!: run_tool_status
      split: sum.splits prod.splits py_error.splits)

lemma run_batch_plan:
  assumes "run_batch cfg dbs env kc seen n sts b = (b1, Inr sts1)"
  shows "map es_step sts1 = map es_step sts \<and> map es_tool sts1 = map es_tool sts \<and>
    length (filter is_pending sts1) = length (filter is_pending sts) - n \<and>
    (\<forall>i < length sts. \<not> is_pending (sts ! i) \<longrightarrow> sts1 ! i = sts ! i)"
  using assms
proof (induction cfg dbs env kc seen n sts b arbitrary: b1 sts1 rule: run_batch.induct)
  case (2 cfg dbs env kc seen n st sts b)
  show ?case
  proof (cases "is_pending st \<and> 0 < n")
    case True
    with "2.prems" obtain b2 st1 sts2 where run: "run_step cfg dbs env kc seen st b = (b2, Inr st1)"
      and rest: "run_batch cfg dbs env kc seen (n - 1) sts b2 = (b1, Inr sts2)" and sts1: "sts1 = st1 # sts2"
      by (auto split: prod.splits sum.splits)
    from run_step_status [OF run] "2.IH"(1) [OF True run [symmetric] refl rest] True show ?thesis
      by (auto simp: sts1 is_pending_def nth_Cons split: nat.split)
  next
    case False
    with "2.prems" obtain sts2 where rest: "run_batch cfg dbs env kc seen n sts b = (b1, Inr sts2)"
      and sts1: "sts1 = st # sts2"
      by (auto split: prod.splits sum.splits)
    from "2.IH"(2) [OF False rest] False show ?thesis
      by (auto simp: sts1 nth_Cons split: nat.split)
  qed
qed simp

lemma steps_to_run_bound:
  assumes "total_tool_calls (loop_guard r) \<le> MAX_TOOL_CALLS cfg"
  shows "int (steps_to_run cfg r) = min (MAX_TOOL_CALLS cfg - total_tool_calls (loop_guard r))
     (int (length (filter is_pending (marked_plan r))))"
  using assms by (simp add: steps_to_run_def py_take_nonneg)

lemma mark_skipped_frame [frame_simps]:
  "es_step (mark_skipped keys ts st) = es_step st"
  "es_tool (mark_skipped keys ts st) = es_tool st"
  "\<not> is_pending st \<Longrightarrow> mark_skipped keys ts st = st"
  by (simp_all add: mark_skipped_def should_skip_step_def is_pending_def split: option.split)

lemma context_retriever_result:
  assumes "context_retriever_node cfg dbs env s = Inr s'"
  obtains b plan where
    "run_batch cfg dbs env (fst ` set (explored_codes (reason s))) (seen_ids (reason s)) (steps_to_run cfg (reason s))
       (marked_plan (reason s)) (executed_tool_keys (reason s), explored_tables (reason s)) = (b, Inr plan)"
    "s' = s\<lparr>reason := (reason s)\<lparr>phase := EXPLORING, execution_plan := plan, executed_tool_keys := fst b,
       loop_guard := (loop_guard (reason s))\<lparr>total_tool_calls :=
         total_tool_calls (loop_guard (reason s)) + int (steps_to_run cfg (reason s))\<rparr>\<rparr>\<rparr>"
  using assms by (auto simp: context_retriever_node_def Let_def split: prod.splits sum.splits)

text \<open>The errors of reading a meta answer; none is a cancellation.\<close>

lemma get_query_db_error [simp]: "get_query_db cfg dbs tg src \<noteq> Inl CancelledErr"
  by (auto simp: get_query_db_def Let_def split: option.splits)

lemma str_field_error [simp]: "str_field v \<noteq> Inl CancelledErr"
  by (auto simp: str_field_def split: json.splits)

lemma columns_from_meta_error [simp]: "columns_from_meta cs \<noteq> Inl CancelledErr"
  by (induction cs rule: columns_from_meta.induct) (simp_all add: result_bind_Inl_iff column_from_meta_def)

lemma from_meta_error [simp]: "from_meta cfg m \<noteq> Inl CancelledErr"
  by (cases m) (auto simp: result_bind_Inl_iff Let_def split: json.splits)

lemma alt_name_error [simp]: "identify_key_date_by_alt_name cs \<noteq> Inl CancelledErr"
  by (induction cs rule: identify_key_date_by_alt_name.induct)
     (auto simp: result_bind_Inl_iff mentions_date_def split: if_splits json.splits)

lemma finalize_error [simp]: "finalize_table_meta cfg dbs ds meta ct \<noteq> Inl CancelledErr"
  by (auto simp: finalize_table_meta_def result_bind_Inl_iff parse_meta_columns_def
      resolve_key_date_columns_def Let_def split: if_splits json.splits)

lemma tables_of_metas_error [simp]: "tables_of_metas cfg dbs ds ms \<noteq> Inl CancelledErr"
  by (induction ms) (auto simp: result_bind_Inl_iff split: option.splits)

lemma ex_Inl_bind:
  "(\<exists>e. result_bind r f = Inl e) \<longleftrightarrow> (\<exists>e. r = Inl e) \<or> (\<exists>a e. r = Inr a \<and> f a = Inl e)"
  by (cases r) auto

lemma unresolved_fails:
  assumes "m \<in> set ms" and "from_meta cfg m = Inr (Some ct)" and "tm_schema_name ct = []"
    and "get_query_db cfg dbs [] (tm_db_source ct) = Inl RuntimeErr"
  shows "\<exists>e. tables_of_metas cfg dbs ds ms = Inl e"
  using assms(1)
proof (induction ms)
  case (Cons x xs)
  show ?case
  proof (cases "x = m")
    case True
    with assms(2-4) show ?thesis by (simp add: finalize_table_meta_def)
  next
    case False
    with Cons obtain e where e: "tables_of_metas cfg dbs ds xs = Inl e" by auto
    then show ?thesis
      by (cases "from_meta cfg x")
         (auto simp: ex_Inl_bind split: option.split, metis sum.exhaust)
  qed
qed simp

section \<open>Properties\<close>

text \<open>
  C6: The tool budget and progress.  Started within the budget, a run that returns stays
  within it and counts exactly the steps it ran; afterwards either no step of the plan is
  pending or the budget is used up; steps that were already settled, and the numbers and tools
  of all steps, are unchanged, and nothing but the plan, the keys, the phase and the count is
  written.
\<close>
theorem retriever_budget_and_progress:
  assumes "context_retriever_node cfg dbs env s = Inr s'"
    and "total_tool_calls (loop_guard (reason s)) \<le> MAX_TOOL_CALLS cfg"
  shows "total_tool_calls (loop_guard (reason s')) \<le> MAX_TOOL_CALLS cfg \<and>
    total_tool_calls (loop_guard (reason s')) = total_tool_calls (loop_guard (reason s)) + int (steps_to_run cfg (reason s)) \<and>
    (filter is_pending (execution_plan (reason s')) = [] \<or>
     total_tool_calls (loop_guard (reason s')) = MAX_TOOL_CALLS cfg) \<and>
    map es_step (execution_plan (reason s')) = map es_step (execution_plan (reason s)) \<and>
    map es_tool (execution_plan (reason s')) = map es_tool (execution_plan (reason s)) \<and>
    (\<forall>i < length (execution_plan (reason s)). \<not> is_pending (execution_plan (reason s) ! i) \<longrightarrow>
       execution_plan (reason s') ! i = execution_plan (reason s) ! i) \<and>
    s' = s\<lparr>reason := (reason s)\<lparr>phase := EXPLORING, execution_plan := execution_plan (reason s'),
       executed_tool_keys := executed_tool_keys (reason s'), loop_guard := loop_guard (reason s')\<rparr>\<rparr>"
proof -
  from assms(1) obtain b plan where
    run: "run_batch cfg dbs env (fst ` set (explored_codes (reason s))) (seen_ids (reason s)) (steps_to_run cfg (reason s))
       (marked_plan (reason s)) (executed_tool_keys (reason s), explored_tables (reason s)) = (b, Inr plan)"
    and s': "s' = s\<lparr>reason := (reason s)\<lparr>phase := EXPLORING, execution_plan := plan, executed_tool_keys := fst b,
       loop_guard := (loop_guard (reason s))\<lparr>total_tool_calls :=
         total_tool_calls (loop_guard (reason s)) + int (steps_to_run cfg (reason s))\<rparr>\<rparr>\<rparr>"
    by (rule context_retriever_result)
  note plan = run_batch_plan [OF run]
  note bound = steps_to_run_bound [OF assms(2)]
  have kept: "\<forall>i < length (execution_plan (reason s)). \<not> is_pending (execution_plan (reason s) ! i) \<longrightarrow>
      plan ! i = execution_plan (reason s) ! i"
    using plan by (auto simp: marked_plan_def frame_simps)
  have "map es_step plan = map es_step (execution_plan (reason s))"
    "map es_tool plan = map es_tool (execution_plan (reason s))"
    using plan by (simp_all add: marked_plan_def comp_def frame_simps)
  moreover have "length (filter is_pending plan) = 0 \<or>
      total_tool_calls (loop_guard (reason s)) + int (steps_to_run cfg (reason s)) = MAX_TOOL_CALLS cfg"
    using plan bound by linarith
  ultimately show ?thesis using bound kept by (simp add: s')
qed

definition sample_step :: "string \<Rightarrow> string \<Rightarrow> execution_step" where
  "sample_step tool inp = \<lparr>es_step = 1, es_tool = tool, es_input = inp, es_purpose = [],
     es_status = Step_PENDING, es_insight = None, es_raw_result = None, es_hypothesis_id = ''H1''\<rparr>"

definition sample_env :: retriever_env where
  "sample_env = \<lparr>rv_tool = (\<lambda>_ _ _. Inr (JList [])), rv_meta = (\<lambda>_. Inr (JList [])), rv_code = (\<lambda>_. Inr (JList [])),
     rv_hints = (\<lambda>_. ([], [])), rv_schema = (\<lambda>_. []), rv_show = (\<lambda>_. []), rv_error = (\<lambda>_. [])\<rparr>"

lemma sample_retriever_run:
  "\<exists>s'. context_retriever_node default_settings [] sample_env
      (new_pipeline_state\<lparr>reason := new_reasoning_state\<lparr>execution_plan := [sample_step ''search_biz_terms'' ''loan'']\<rparr>\<rparr>) = Inr s'"
  by (simp add: context_retriever_node_def marked_plan_def mark_skipped_def should_skip_step_def skip_reason_def
      new_reasoning_state_def sample_step_def steps_to_run_def is_pending_def default_settings_def new_loop_guard_def
      py_take_nonneg run_step_def qualify_table_in_input_def DB_QUERY_TOOLS_def run_tool_def execute_tool_def
      sample_env_def TOOL_MAP_def QDRANT_TOOLS_def extract_tables_def TABLE_META_TOOLS_def apply_tool_result_def Let_def)

theorem retriever_budget_and_progress_witness:
  "\<exists>s'. context_retriever_node default_settings [] sample_env
      (new_pipeline_state\<lparr>reason := new_reasoning_state\<lparr>execution_plan := [sample_step ''search_biz_terms'' ''loan'']\<rparr>\<rparr>) = Inr s' \<and>
     total_tool_calls (loop_guard (reason s')) \<le> 40"
proof -
  from sample_retriever_run obtain s' where s': "context_retriever_node default_settings [] sample_env
      (new_pipeline_state\<lparr>reason := new_reasoning_state\<lparr>execution_plan := [sample_step ''search_biz_terms'' ''loan'']\<rparr>\<rparr>) = Inr s'" ..
  from retriever_budget_and_progress [OF this] s' show ?thesis
    by (simp add: default_settings_def new_reasoning_state_def new_loop_guard_def)
qed

text \<open>
  The gate never sends exploration back to the retriever.  After a run within the budget,
  in any state that has kept the statuses of the plan and the tool count (the interpreter in
  between writes neither), the gate does not decide EXPLORING: its edge to the retriever is
  never taken, exploration continues only through the recovery agent.
\<close>
theorem explore_edge_dead:
  assumes "context_retriever_node cfg dbs env s = Inr s'"
    and "total_tool_calls (loop_guard (reason s)) \<le> MAX_TOOL_CALLS cfg"
    and "map es_status (execution_plan r) = map es_status (execution_plan (reason s'))"
    and "total_tool_calls (loop_guard r) = total_tool_calls (loop_guard (reason s'))"
  shows "phase (readiness_gate_reason cfg r) \<noteq> EXPLORING"
proof
  assume explore: "phase (readiness_gate_reason cfg r) = EXPLORING"
  have verdict: "readiness_gate_verdict cfg r = V_EXPLORE"
  proof (cases "readiness_gate_verdict cfg r")
    case V_GENERATE
    with gate_phase_generate [of cfg r] explore show ?thesis by (auto split: if_splits)
  next
    case V_REPLAN
    with gate_phase_replan [of cfg r] explore show ?thesis by simp
  next
    case V_TERMINATE
    with gate_phase_terminate [of cfg r] explore show ?thesis by simp
  qed
  from evaluate_readiness_cases(1) [OF gate_verdict_cases(1) [OF this]]
  have "\<not> should_terminate cfg r" and "Step_PENDING \<in> es_status ` set (execution_plan r)"
    by (blast, metis imageI)
  moreover have "es_status ` set (execution_plan r) = es_status ` set (execution_plan (reason s'))"
    using assms(3) by (metis set_map)
  ultimately have "Step_PENDING \<in> es_status ` set (execution_plan (reason s'))" by simp
  then have "filter is_pending (execution_plan (reason s')) \<noteq> []"
    by (force simp: filter_empty_conv is_pending_def)
  with retriever_budget_and_progress [OF assms(1,2)] have "total_tool_calls (loop_guard r) = MAX_TOOL_CALLS cfg"
    using assms(4) by simp
  then have "should_terminate cfg r" by (simp add: should_terminate_def Let_def)
  with \<open>\<not> should_terminate cfg r\<close> show False by simp
qed

theorem explore_edge_dead_witness:
  "\<exists>s'. context_retriever_node default_settings [] sample_env
      (new_pipeline_state\<lparr>reason := new_reasoning_state\<lparr>execution_plan := [sample_step ''search_biz_terms'' ''loan'']\<rparr>\<rparr>) = Inr s' \<and>
     phase (readiness_gate_reason default_settings (reason s')) \<noteq> EXPLORING"
proof -
  from sample_retriever_run obtain s' where s': "context_retriever_node default_settings [] sample_env
      (new_pipeline_state\<lparr>reason := new_reasoning_state\<lparr>execution_plan := [sample_step ''search_biz_terms'' ''loan'']\<rparr>\<rparr>) = Inr s'" ..
  from explore_edge_dead [OF this _ refl refl] s' show ?thesis
    by (simp add: default_settings_def new_reasoning_state_def new_loop_guard_def)
qed

text \<open>
  A repeated database step is not recognised.  When the retriever has added the schema to
  a step's input, the key it records is the qualified one: a later step with the very same tool
  and input is not skipped as a duplicate but run again.
\<close>
theorem qualified_key_not_recognised:
  assumes "run_step cfg dbs env kc seen st b = (b1, Inr st1)" and "es_status st1 = Step_DONE"
    and "es_tool st \<in> {''get_column_profile'', ''get_date_distribution'', ''get_column_values''}"
    and "es_input st1 \<noteq> es_input st" and "skip_reason st (fst b) tables = None"
  shows "tool_key (es_tool st) (es_input st1) \<in> fst b1 \<and> skip_reason st (fst b1) tables' = None"
proof -
  have tools: "es_tool st \<notin> set TABLE_META_TOOLS" "es_tool st \<noteq> ''search_use_cases''" "es_tool st \<noteq> ''get_sample_rows''"
    using assms(3) by (auto simp: TABLE_META_TOOLS_def)
  from assms(1,2) obtain inp where run: "run_tool cfg dbs env kc seen (st\<lparr>es_input := inp\<rparr>) b = (b1, Inr st1)"
    by (auto simp: run_step_def failed_step_def Let_def split: sum.splits prod.splits py_error.splits)
  with run_tool_status [OF run] have inp: "inp = es_input st1" by simp
  have same: "apply_tool_result cfg dbs env kc (es_tool st) answer bb = (b', r) \<Longrightarrow> b' = bb" for answer bb b' r
    using tools(2) by (auto simp: apply_tool_result_def split: if_splits json.splits sum.splits)
  have "fst b1 = insert (tool_key (es_tool st) inp) (fst b)"
    using run tools(1) by (auto simp: run_tool_def Let_def dest!: same split: sum.splits prod.splits option.splits)
  moreover have "tool_key (es_tool st) (es_input st) \<noteq> tool_key (es_tool st) inp"
    using assms(4) inp by (simp add: tool_key_def)
  ultimately show ?thesis
    using assms(5) inp tools(3) by (auto simp: skip_reason_def split: if_splits)
qed

theorem qualified_key_not_recognised_witness:
  "\<exists>b1 st1. run_step default_settings [(''ADW'', \<lparr>conn_name = ''ADW'', conn_dialect = ''tsql''\<rparr>)]
      (sample_env\<lparr>rv_schema := (\<lambda>_. ''ADWOWN'')\<rparr>) {} [] (sample_step ''get_column_profile'' ''TB_ADW_X,A'') ({}, []) = (b1, Inr st1) \<and>
     skip_reason (sample_step ''get_column_profile'' ''TB_ADW_X,A'') (fst b1) [] = None"
proof -
  let ?st = "sample_step ''get_column_profile'' ''TB_ADW_X,A''"
  let ?run = "run_step default_settings [(''ADW'', \<lparr>conn_name = ''ADW'', conn_dialect = ''tsql''\<rparr>)]
      (sample_env\<lparr>rv_schema := (\<lambda>_. ''ADWOWN'')\<rparr>) {} [] ?st ({}, [])"
  have strip: "py_strip ''TB_ADW_X'' = ''TB_ADW_X''" "py_strip ''A'' = ''A''"
    by (simp_all add: py_strip_def py_lstrip_def is_ascii_space_def)
  have src: "parse_db_source default_settings ''TB_ADW_X'' = ''ADW''" by code_simp
  have q: "qualify_table_in_input default_settings [(''ADW'', \<lparr>conn_name = ''ADW'', conn_dialect = ''tsql''\<rparr>)]
      (\<lambda>_. ''ADWOWN'') ''get_column_profile'' ''TB_ADW_X,A'' [] = Inr ''ADWOWN.TB_ADW_X,A''"
    by (simp add: qualify_table_in_input_def DB_QUERY_TOOLS_def strip src get_query_db_def Let_def)
  have "\<exists>b1 st1. ?run = (b1, Inr st1) \<and> es_status st1 = Step_DONE \<and> es_input st1 = ''ADWOWN.TB_ADW_X,A''"
    by (simp add: run_step_def sample_step_def sample_env_def q run_tool_def execute_tool_def TOOL_MAP_def
        QDRANT_TOOLS_def extract_tables_def TABLE_META_TOOLS_def apply_tool_result_def Let_def)
  then obtain b1 st1 where run: "?run = (b1, Inr st1)" "es_status st1 = Step_DONE" "es_input st1 = ''ADWOWN.TB_ADW_X,A''"
    by blast
  have "skip_reason ?st (fst b1) [] = None"
    by (rule conjunct2 [OF qualified_key_not_recognised [OF run(1,2), where tables = "[]"]])
       (simp_all add: run(3) sample_step_def skip_reason_def)
  with run(1) show ?thesis by blast
qed

text \<open>
  A table that cannot be resolved spoils the answer it comes in.  If one entry of a meta
  answer has no schema and its system has no connector, the whole answer is discarded, although
  the filter on the operator's system would have dropped that entry; the key is recorded, so
  the same look-up is skipped from then on.
\<close>
theorem unresolved_table_discards_answer:
  assumes "execute_tool env (es_tool st) (es_input st) [] = Inr (JList ms)"
    and "es_tool st \<in> set TABLE_META_TOOLS" and "map_of seen (es_tool st) = None"
    and "m \<in> set ms" and "from_meta cfg m = Inr (Some ct)"
    and "tm_schema_name ct = []" and "get_query_db cfg dbs [] (tm_db_source ct) = Inl RuntimeErr"
  shows "\<exists>b1 st1. run_step cfg dbs env kc seen st b = (b1, Inr st1) \<and> es_status st1 = Step_FAILED \<and>
    snd b1 = snd b \<and> skip_reason st (fst b1) tables \<noteq> None"
proof -
  obtain e where e: "tables_of_metas cfg dbs (rv_schema env) ms = Inl e"
    using unresolved_fails [OF assms(4-7)] by blast
  then have "e \<noteq> CancelledErr" by auto
  have "es_tool st \<notin> set DB_QUERY_TOOLS"
    using assms(2) by (auto simp: TABLE_META_TOOLS_def DB_QUERY_TOOLS_def)
  then have q: "qualify_table_in_input cfg dbs (rv_schema env) (es_tool st) (es_input st) (snd b) = Inr (es_input st)"
    by (simp add: qualify_table_in_input_def)
  have "run_tool cfg dbs env kc seen st b = ((insert (tool_key (es_tool st) (es_input st)) (fst b), snd b), Inl e)"
    using assms(1-3) e by (simp add: run_tool_def extract_tables_def Let_def)
  with q \<open>e \<noteq> CancelledErr\<close> show ?thesis
    by (cases e) (simp_all add: run_step_def failed_step_def skip_reason_def Let_def)
qed

theorem unresolved_table_discards_answer_witness:
  "\<exists>b1 st1. run_step default_settings [] (sample_env\<lparr>rv_tool := (\<lambda>_ _ _. Inr (JList [JObj [(''name'', JStr ''T'')]]))\<rparr>)
      {} [] (sample_step ''lookup_table_meta'' ''T'') ({}, []) = (b1, Inr st1) \<and> es_status st1 = Step_FAILED"
proof -
  let ?env = "sample_env\<lparr>rv_tool := (\<lambda>_ _ _. Inr (JList [JObj [(''name'', JStr ''T'')]]))\<rparr>"
  have "parse_db_source default_settings ''T'' = []" by code_simp
  then obtain ct where ct: "from_meta default_settings (JObj [(''name'', JStr ''T'')]) = Inr (Some ct)"
    "tm_schema_name ct = []" "tm_db_source ct = []"
    by (simp add: obj_get_def py_or_def str_field_def Let_def)
  moreover have "JObj [(''name'', JStr ''T'')] \<in> set [JObj [(''name'', JStr ''T'')]]" by simp
  moreover have "execute_tool ?env (es_tool (sample_step ''lookup_table_meta'' ''T'')) (es_input (sample_step ''lookup_table_meta'' ''T'')) []
      = Inr (JList [JObj [(''name'', JStr ''T'')]])"
    by (simp add: execute_tool_def sample_step_def TOOL_MAP_def)
  moreover have "get_query_db default_settings [] [] (tm_db_source ct) = Inl RuntimeErr"
    by (simp add: ct(3) get_query_db_def)
  ultimately have "\<exists>b1 st1. run_step default_settings [] ?env {} [] (sample_step ''lookup_table_meta'' ''T'') ({}, []) = (b1, Inr st1) \<and>
      es_status st1 = Step_FAILED \<and> snd b1 = snd (({}, []) :: batch) \<and>
      skip_reason (sample_step ''lookup_table_meta'' ''T'') (fst b1) [] \<noteq> None"
    by (intro unresolved_table_discards_answer [OF _ _ _ _ ct(1,2)])
      (assumption | simp add: sample_step_def TABLE_META_TOOLS_def)+
  then show ?thesis by blast
qed

text \<open>
  A planned query on a system without connector ends the turn.  The schema of a database
  step is completed before the step's error handling begins, so a table that is named without
  a schema and whose system cannot be resolved is no failed step: the error of the connector
  registry is raised out of the node.
\<close>
theorem unresolved_schema_escapes:
  assumes "execution_plan (reason s) = [st]" and "is_pending st"
    and "skip_reason st (executed_tool_keys (reason s)) (explored_tables (reason s)) = None"
    and "total_tool_calls (loop_guard (reason s)) < MAX_TOOL_CALLS cfg"
    and "qualify_table_in_input cfg dbs (rv_schema env) (es_tool st) (es_input st) (explored_tables (reason s)) = Inl RuntimeErr"
  shows "context_retriever_node cfg dbs env s = Inl RuntimeErr"
proof -
  have marked: "marked_plan (reason s) = [st]"
    using assms(1,3) by (simp add: marked_plan_def mark_skipped_def should_skip_step_def)
  have "0 < steps_to_run cfg (reason s)"
    using steps_to_run_bound [of "reason s" cfg] assms(2,4) marked by simp
  then show ?thesis
    using assms(2,5) by (simp add: context_retriever_node_def marked run_step_def Let_def)
qed

theorem unresolved_schema_escapes_witness:
  "context_retriever_node default_settings [] sample_env
     (new_pipeline_state\<lparr>reason := new_reasoning_state\<lparr>execution_plan := [sample_step ''get_sample_rows'' ''TB_ADW_X'']\<rparr>\<rparr>)
   = Inl RuntimeErr"
proof (rule unresolved_schema_escapes [where st = "sample_step ''get_sample_rows'' ''TB_ADW_X''"])
  have strip: "py_strip ''TB_ADW_X'' = ''TB_ADW_X''"
    by (simp add: py_strip_def py_lstrip_def is_ascii_space_def)
  have src: "parse_db_source default_settings ''TB_ADW_X'' = ''ADW''" by code_simp
  show "qualify_table_in_input default_settings [] (rv_schema sample_env)
      (es_tool (sample_step ''get_sample_rows'' ''TB_ADW_X'')) (es_input (sample_step ''get_sample_rows'' ''TB_ADW_X''))
      (explored_tables (reason (new_pipeline_state\<lparr>reason := new_reasoning_state\<lparr>execution_plan :=
        [sample_step ''get_sample_rows'' ''TB_ADW_X'']\<rparr>\<rparr>))) = Inl RuntimeErr"
    by (simp add: qualify_table_in_input_def DB_QUERY_TOOLS_def sample_step_def strip src get_query_db_def
        new_reasoning_state_def Let_def)
qed (simp_all add: is_pending_def sample_step_def skip_reason_def new_reasoning_state_def default_settings_def new_loop_guard_def)

end
