(* ===== verification/Interpret.thy ===== *)
theory Interpret imports TurnState begin

text \<open>
  The interpret layer's nodes after their model calls
  (\<open>src/src/agents/nodes/interpret/intent_classifier.py\<close> and \<open>query_normalizer.py\<close>) and the
  short answers to talk that is no data request
  (\<open>src/src/agents/nodes/present/simple_responder.py\<close>).  The classification and the
  normalization are results of services and arguments here, as are the texts of trace entries.
\<close>

section \<open>Signals from a model's answer\<close>

definition ambiguity_type_of :: "json \<Rightarrow> ambiguity_type result" where
  "ambiguity_type_of v =
     (case v of
        JStr t \<Rightarrow>
          if t = ''TABLE'' then Inr AT_TABLE else if t = ''INTENT'' then Inr AT_INTENT
          else if t = ''VALUE'' then Inr AT_VALUE else if t = ''FORMULA'' then Inr AT_FORMULA
          else if t = ''TIMEFRAME'' then Inr AT_TIMEFRAME else if t = ''CONTEXT'' then Inr AT_CONTEXT
          else if t = ''CONFLICT'' then Inr AT_CONFLICT else Inl ValueError
      | _ \<Rightarrow> Inl ValueError)"

definition question_type_of :: "json \<Rightarrow> question_type result" where
  "question_type_of v =
     (case v of
        JStr t \<Rightarrow>
          if t = ''free_text'' then Inr FREE_TEXT else if t = ''single_select'' then Inr SINGLE_SELECT
          else if t = ''confirm'' then Inr CONFIRM else Inl ValueError
      | _ \<Rightarrow> Inl ValueError)"

definition confidence_of :: "json \<Rightarrow> confidence_level result" where
  "confidence_of v =
     (case v of
        JStr t \<Rightarrow> if t = ''HIGH'' then Inr CL_HIGH else if t = ''MEDIUM'' then Inr CL_MEDIUM
                  else if t = ''LOW'' then Inr CL_LOW else Inl ValueError
      | _ \<Rightarrow> Inl ValueError)"

definition decision_of :: "json \<Rightarrow> signal_decision result" where
  "decision_of v =
     (case v of
        JStr t \<Rightarrow> if t = ''ASK'' then Inr ASK else if t = ''INFER'' then Inr INFER else Inl ValueError
      | _ \<Rightarrow> Inl ValueError)"

definition text_option :: "json \<Rightarrow> string option result" where
  "text_option v = (case v of JNull \<Rightarrow> Inr None | JStr t \<Rightarrow> Inr (Some t) | _ \<Rightarrow> Inl ValueError)"

fun str_items :: "json list \<Rightarrow> string list result" where
  "str_items [] = Inr []"
| "str_items (JStr t # vs) = result_bind (str_items vs) (\<lambda>ts. Inr (t # ts))"
| "str_items (_ # vs) = Inl ValueError"

definition options_of :: "json \<Rightarrow> string list result" where
  "options_of v =
     (if \<not> json_true v then Inr [] else case v of JList vs \<Rightarrow> str_items vs | _ \<Rightarrow> Inl ValueError)"

text \<open>
  The class's constructor on the entries of a dictionary, with the caller's defaults; a value a
  field does not accept is a validation error.
\<close>

record signal_defaults =
  sd_decision :: string
  sd_type :: string
  sd_question :: string
  sd_question_type :: string
  sd_reasoning :: string

definition make_signal ::
  "string \<Rightarrow> signal_defaults \<Rightarrow> bool \<Rightarrow> string option \<Rightarrow> (string \<times> json) list \<Rightarrow> ambiguity_signal result" where
  "make_signal source d own_decision tid amb =
     result_bind (if own_decision then decision_of (obj_get amb ''decision'' (JStr (sd_decision d)))
                  else decision_of (JStr (sd_decision d))) (\<lambda>dec.
     result_bind (ambiguity_type_of (obj_get amb ''ambiguity_type'' (JStr (sd_type d)))) (\<lambda>ty.
     result_bind (confidence_of (obj_get amb ''confidence'' (JStr ''LOW''))) (\<lambda>cl.
     result_bind (str_field (obj_get amb ''question'' (JStr (sd_question d)))) (\<lambda>q.
     result_bind (question_type_of (obj_get amb ''question_type'' (JStr (sd_question_type d)))) (\<lambda>qt.
     result_bind (options_of (obj_get amb ''options'' JNull)) (\<lambda>os.
     result_bind (text_option (obj_get amb ''inferred_value'' JNull)) (\<lambda>iv.
     result_bind (str_field (obj_get amb ''reasoning'' (JStr (sd_reasoning d)))) (\<lambda>why.
       Inr \<lparr>sg_source_node = source, sg_ambiguity_type = ty, sg_decision = dec, sg_confidence = cl,
            sg_question = q, sg_question_type = qt, sg_options = os, sg_inferred_value = iv,
            sg_reasoning = why, sg_override_reason = None, sg_answer = None, sg_resolved_at = None,
            sg_turn_id = tid\<rparr>))))))))"

section \<open>Intent classifier\<close>

record intent_result =
  ir_resolution :: history_decision
  ir_intent :: intent_type
  ir_confidence :: rat
  ir_category :: string
  ir_reason :: string
  ir_continue_reason :: string
  ir_continue_context :: string
  ir_ambiguities :: "json list"
  ir_needs_analyzer :: bool
  ir_is_error :: bool

definition ask_count :: "pipeline_state \<Rightarrow> nat" where
  "ask_count s = length (filter (\<lambda>sg. sg_decision sg = ASK) (resolved_signals s))"

definition forced_signal :: "nat \<Rightarrow> string \<Rightarrow> ambiguity_signal" where
  "forced_signal n tid =
     \<lparr>sg_source_node = ''intent_classifier'', sg_ambiguity_type = AT_INTENT, sg_decision = INFER,
      sg_confidence = CL_LOW,
      sg_question = ''The limit of clarifications is reached, proceeding with data extraction'',
      sg_question_type = CONFIRM, sg_options = [], sg_inferred_value = Some ''data extraction'',
      sg_reasoning = ''more than '' @ str_int (int n) @ '' clarifications'', sg_override_reason = None,
      sg_answer = None, sg_resolved_at = None, sg_turn_id = Some tid\<rparr>"

definition forced_progression :: "trace_entry list \<Rightarrow> pipeline_state \<Rightarrow> pipeline_state" where
  "forced_progression tr s =
     s\<lparr>intent := DATA_EXTRACTION, intent_confidence := 4 / 10, query_category := ''DATA_EXTRACTION'',
       is_continuation := False,
       resolved_signals := resolved_signals s @ [forced_signal (ask_count s) (turn_id s)],
       status := QS_INTENT_CLASSIFIED, trace_log := tr\<rparr>"

definition build_ambiguity_signal :: "intent_result \<Rightarrow> ambiguity_signal result" where
  "build_ambiguity_signal r =
     (let unsure = (ir_resolution r = HD_UNSURE);
          d = \<lparr>sd_decision = ''ASK'', sd_type = (if unsure then ''CONTEXT'' else ''INTENT''),
               sd_question = (if unsure then ''Does the question continue the earlier dialogue or look for new data?''
                              else ''Please be a little more specific.'' @ [char_of (10 :: nat)] @ ir_reason r),
               sd_question_type = (if unsure then ''confirm'' else ''single_select''),
               sd_reasoning = ir_reason r\<rparr>
      in case ir_ambiguities r of
           [] \<Rightarrow> make_signal ''intent_classifier'' d False None []
         | JObj amb # _ \<Rightarrow> make_signal ''intent_classifier'' d False None amb
         | _ \<Rightarrow> Inl AttributeError)"

definition handle_ambiguous_or_unsure ::
  "settings \<Rightarrow> intent_result \<Rightarrow> trace_entry list \<Rightarrow> pipeline_state \<Rightarrow> pipeline_state result" where
  "handle_ambiguous_or_unsure cfg r tr s =
     (if int (ask_count s) \<ge> clarification_max_turns cfg then Inr (forced_progression tr s)
      else result_bind (build_ambiguity_signal r) (\<lambda>sg.
        Inr (s\<lparr>pending_signals := [sg], intent := ir_intent r, intent_confidence := ir_confidence r,
               query_category := ir_category r, status := QS_INTENT_CLASSIFIED, trace_log := tr\<rparr>)))"

definition continuation_signal :: "intent_result \<Rightarrow> string \<Rightarrow> ambiguity_signal" where
  "continuation_signal r tid =
     \<lparr>sg_source_node = ''intent_classifier'', sg_ambiguity_type = AT_CONTEXT, sg_decision = INFER,
      sg_confidence = CL_MEDIUM, sg_question = ''Read as a continuation of the earlier dialogue'',
      sg_question_type = CONFIRM, sg_options = [],
      sg_inferred_value = Some ''follow-up question on the earlier context'',
      sg_reasoning = ir_continue_reason r, sg_override_reason = None, sg_answer = None,
      sg_resolved_at = None, sg_turn_id = Some tid\<rparr>"

definition apply_continue_updates :: "intent_result \<Rightarrow> pipeline_state \<Rightarrow> pipeline_state \<Rightarrow> pipeline_state" where
  "apply_continue_updates r old s =
     (let s1 = s\<lparr>continue_context := ir_continue_context r,
                preprocessed_input := (if ir_continue_context r \<noteq> [] then ir_continue_context r
                                       else preprocessed_input s),
                resolved_signals := resolved_signals old @ [continuation_signal r (turn_id old)]\<rparr>
      in if turn_snapshots old \<noteq> [] then s1\<lparr>status := QS_CONTINUE_ORCHESTRATION_PENDING\<rparr> else s1)"

definition ERR_INTENT :: string where
  "ERR_INTENT = ''The question could not be read. Please try again.''"

definition intent_classifier_node ::
  "settings \<Rightarrow> intent_result \<Rightarrow> trace_entry list \<Rightarrow> pipeline_state \<Rightarrow> pipeline_state result" where
  "intent_classifier_node cfg r tr s =
     (if ir_is_error r then
        Inr (s\<lparr>intent := ir_intent r, intent_confidence := ir_confidence r, status := QS_ERROR,
               error_message := ERR_INTENT\<rparr>)
      else if ir_resolution r = HD_UNSURE \<or> ir_category r = ''AMBIGUOUS''
        then handle_ambiguous_or_unsure cfg r tr s
      else
        let s1 = s\<lparr>intent := ir_intent r, intent_confidence := ir_confidence r, query_category := ir_category r,
                  is_continuation := (ir_resolution r = HD_CONTINUE), needs_analyzer := ir_needs_analyzer r,
                  status := QS_INTENT_CLASSIFIED, trace_log := tr\<rparr>
        in Inr (if ir_resolution r = HD_CONTINUE then apply_continue_updates r s s1 else s1))"

section \<open>Query normalizer\<close>

definition new_normalized_query :: "string \<Rightarrow> normalized_query" where
  "new_normalized_query original =
     \<lparr>nq_original_query = original, nq_rewritten_query = [],
      nq_intent = \<lparr>is_primary = ''EXTRACT'', is_secondary = []\<rparr>, nq_entities = [], nq_measures = [],
      nq_dimensions = [], nq_filters = [],
      nq_time = \<lparr>tsl_type = ''NONE'', tsl_base_period = None, tsl_compare_period = None\<rparr>,
      nq_modifiers = [],
      nq_output_hint = \<lparr>oh_format = ''NONE'', oh_doc_type = None, oh_expected_columns = [],
                        oh_confidence = ''MEDIUM'', oh_note = None\<rparr>,
      nq_ambiguities = [],
      nq_search_keywords = \<lparr>sk_meta_search = [], sk_vector_search = [], sk_sql_history_search = []\<rparr>\<rparr>"

text \<open>
  \<open>_rewrite_for_analysis\<close>; \<open>extraction\<close> is the rewriter's answer to the text, an error leaves
  the text.
\<close>

definition rewrite_for_analysis :: "(string \<Rightarrow> string result) \<Rightarrow> pipeline_state \<Rightarrow> pipeline_state result" where
  "rewrite_for_analysis extraction s =
     (if intent s = DATA_ANALYSIS then
        let s1 = s\<lparr>analysis_query := preprocessed_input s\<rparr>
        in (case extraction (preprocessed_input s) of
              Inl CancelledErr \<Rightarrow> Inl CancelledErr
            | Inl e \<Rightarrow> Inr s1
            | Inr t \<Rightarrow> Inr (if t \<noteq> [] then s1\<lparr>preprocessed_input := t\<rparr> else s1))
      else Inr s)"

definition normalizer_defaults :: signal_defaults where
  "normalizer_defaults = \<lparr>sd_decision = ''INFER'', sd_type = ''CONTEXT'', sd_question = [],
     sd_question_type = ''single_select'', sd_reasoning = []\<rparr>"

fun normalizer_signals :: "string \<Rightarrow> json list \<Rightarrow> ambiguity_signal list result" where
  "normalizer_signals tid [] = Inr []"
| "normalizer_signals tid (JObj amb # vs) =
     result_bind (make_signal ''query_normalizer'' normalizer_defaults True (Some tid) amb) (\<lambda>sg.
     result_bind (normalizer_signals tid vs) (\<lambda>sgs. Inr (sg # sgs)))"
| "normalizer_signals tid (_ # vs) = Inl AttributeError"

definition add_normalizer_signals :: "ambiguity_signal list \<Rightarrow> pipeline_state \<Rightarrow> pipeline_state" where
  "add_normalizer_signals sgs s =
     (let asks = filter (\<lambda>sg. sg_decision sg = ASK) sgs;
          infers = filter (\<lambda>sg. sg_decision sg \<noteq> ASK) sgs;
          s1 = (if asks \<noteq> [] then s\<lparr>pending_signals := asks\<rparr> else s)
      in if infers \<noteq> [] then s1\<lparr>resolved_signals := resolved_signals s @ infers\<rparr> else s1)"

definition query_normalizer_node ::
  "(string \<Rightarrow> string result) \<Rightarrow> (string \<Rightarrow> normalized_query result) \<Rightarrow> trace_entry list \<Rightarrow>
   pipeline_state \<Rightarrow> pipeline_state result" where
  "query_normalizer_node extraction run_normalization tr s =
     result_bind (rewrite_for_analysis extraction s) (\<lambda>s1.
       let raw_query = preprocessed_input s1
       in case run_normalization raw_query of
            Inl CancelledErr \<Rightarrow> Inl CancelledErr
          | Inl e \<Rightarrow> Inr (s1\<lparr>normalized_query := Some (new_normalized_query raw_query),
                            status := QS_QUERY_NORMALIZED, trace_log := tr\<rparr>)
          | Inr nq \<Rightarrow>
              result_bind (normalizer_signals (turn_id s) (nq_ambiguities nq)) (\<lambda>sgs.
                Inr (add_normalizer_signals sgs
                  (s1\<lparr>normalized_query := Some nq, status := QS_QUERY_NORMALIZED, trace_log := tr\<rparr>))))"

section \<open>Simple responder\<close>

text \<open>The Korean keywords (a greeting, thanks, a job well done, enough, stop) and the answers.\<close>

definition CASUAL_RESPONSES :: "(string \<times> string) list" where
  "CASUAL_RESPONSES =
     [(utf8 [236, 149, 136, 235, 133, 149], ''Hello! If you have a question about data, just ask.''),
      (utf8 [234, 176, 144, 236, 130, 172], ''I am glad it helped. Tell me if you need more data.''),
      (utf8 [236, 136, 152, 234, 179, 160], ''Thank you! Tell me any time if you need more.''),
      (utf8 [235, 144, 144, 236, 150, 180], ''All right. Tell me when you need new data.''),
      (utf8 [234, 183, 184, 235, 167, 140], ''All right. Tell me when you need new data.'')]"

definition CASUAL_DEFAULT :: string where
  "CASUAL_DEFAULT = ''Hello! I am an assistant for data analysis. Just ask if you need data extracted or analysed.''"

definition META_RESPONSE :: string where
  "META_RESPONSE =
     ''I am an AI assistant that reads and analyses business data of the bank.'' @ [char_of (10 :: nat), char_of (10 :: nat)] @
     ''I can handle requests like these:'' @ [char_of (10 :: nat)] @
     ''- business data of customers, loans, deposits and cards'' @ [char_of (10 :: nat)] @
     ''- trends over a period, comparisons of branches'' @ [char_of (10 :: nat)] @
     ''- key figures such as delinquency rates and results'' @ [char_of (10 :: nat), char_of (10 :: nat)] @
     ''Just tell me what data you are interested in!''"

definition match_casual_response :: "string \<Rightarrow> string" where
  "match_casual_response query =
     (case find (\<lambda>(k, _). contains (py_strip query) k) CASUAL_RESPONSES of
        Some (_, response) \<Rightarrow> response | None \<Rightarrow> CASUAL_DEFAULT)"

definition simple_responder_node :: "trace_entry list \<Rightarrow> pipeline_state \<Rightarrow> pipeline_state" where
  "simple_responder_node tr s =
     s\<lparr>formatted_response :=
         (if intent s = CASUAL_TALK then match_casual_response (preprocessed_input s)
          else if intent s = META_QUESTION then META_RESPONSE else CASUAL_DEFAULT),
       status := QS_COMPLETED, is_continuation := False, continue_context := [], trace_log := tr\<rparr>"

section \<open>Properties\<close>

lemma rewrite_frame [frame_simps]:
  "rewrite_for_analysis extraction s = Inr s1 \<Longrightarrow>
   reason s1 = reason s \<and> turn_id s1 = turn_id s \<and> pending_signals s1 = pending_signals s \<and>
   resolved_signals s1 = resolved_signals s \<and> route s1 = route s \<and> error_message s1 = error_message s \<and>
   intent s1 = intent s"
  by (auto simp: rewrite_for_analysis_def Let_def split: if_splits sum.splits py_error.splits)

lemma normalizer_cases:
  assumes "query_normalizer_node extraction run_norm tr s = Inr s'"
  obtains (failed) s1 where "rewrite_for_analysis extraction s = Inr s1"
      "s' = s1\<lparr>normalized_query := Some (new_normalized_query (preprocessed_input s1)),
               status := QS_QUERY_NORMALIZED, trace_log := tr\<rparr>"
  | (normalized) s1 nq sgs where "rewrite_for_analysis extraction s = Inr s1"
      "run_norm (preprocessed_input s1) = Inr nq" "normalizer_signals (turn_id s) (nq_ambiguities nq) = Inr sgs"
      "s' = add_normalizer_signals sgs
         (s1\<lparr>normalized_query := Some nq, status := QS_QUERY_NORMALIZED, trace_log := tr\<rparr>)"
proof -
  from assms obtain s1 where s1: "rewrite_for_analysis extraction s = Inr s1"
    by (auto simp: query_normalizer_node_def result_bind_Inr_iff)
  show thesis
  proof (cases "run_norm (preprocessed_input s1)")
    case (Inl e)
    with assms s1 failed [OF s1] show thesis
      by (cases e) (simp_all add: query_normalizer_node_def Let_def)
  next
    case (Inr nq)
    with assms s1 normalized [OF s1 Inr] show thesis
      by (auto simp: query_normalizer_node_def result_bind_Inr_iff Let_def)
  qed
qed

text \<open>The classifier's run, split by its ending.\<close>

lemma intent_classifier_cases:
  assumes "intent_classifier_node cfg r tr s = Inr s'"
  obtains (error) "ir_is_error r" "s' = s\<lparr>intent := ir_intent r, intent_confidence := ir_confidence r,
      status := QS_ERROR, error_message := ERR_INTENT\<rparr>"
  | (forced) "int (ask_count s) \<ge> clarification_max_turns cfg" "s' = forced_progression tr s"
  | (asked) sg where "int (ask_count s) < clarification_max_turns cfg" "build_ambiguity_signal r = Inr sg"
      "s' = s\<lparr>pending_signals := [sg], intent := ir_intent r, intent_confidence := ir_confidence r,
               query_category := ir_category r, status := QS_INTENT_CLASSIFIED, trace_log := tr\<rparr>"
  | (classified) s1 where "ir_resolution r \<noteq> HD_UNSURE" "ir_category r \<noteq> ''AMBIGUOUS''"
      "s1 = s\<lparr>intent := ir_intent r, intent_confidence := ir_confidence r, query_category := ir_category r,
              is_continuation := (ir_resolution r = HD_CONTINUE), needs_analyzer := ir_needs_analyzer r,
              status := QS_INTENT_CLASSIFIED, trace_log := tr\<rparr>"
      "s' = (if ir_resolution r = HD_CONTINUE then apply_continue_updates r s s1 else s1)"
proof (cases "ir_is_error r")
  case True
  with assms error show thesis by (simp add: intent_classifier_node_def)
next
  case False
  show thesis
  proof (cases "ir_resolution r = HD_UNSURE \<or> ir_category r = ''AMBIGUOUS''")
    case True
    with assms False have "handle_ambiguous_or_unsure cfg r tr s = Inr s'" by (simp add: intent_classifier_node_def)
    then show thesis using forced asked
      by (auto simp: handle_ambiguous_or_unsure_def result_bind_Inr_iff split: if_splits)
  next
    case clear: False
    then have "ir_resolution r \<noteq> HD_UNSURE" "ir_category r \<noteq> ''AMBIGUOUS''" by simp_all
    then show thesis
      by (rule classified [OF _ _ refl]) (use assms False clear in \<open>simp add: intent_classifier_node_def Let_def\<close>)
  qed
qed

lemma intent_classifier_frame:
  assumes "intent_classifier_node cfg r tr s = Inr s'"
  shows "reason s' = reason s \<and> route s' = route s \<and> turn_snapshots s' = turn_snapshots s \<and>
    (error_message s' \<noteq> error_message s \<longrightarrow> status s' = QS_ERROR)"
  using assms
  by (cases rule: intent_classifier_cases)
     (simp_all add: forced_progression_def apply_continue_updates_def Let_def)

text \<open>
  The classifier's four endings.  A run that returns leaves the reasoning state alone and
  ends with an error and its message; or with one question to the user, put only below the limit of
  questions of the turn; or, the limit being reached, by proceeding with data extraction; or
  with the classification of the service.  Only a continuation with an earlier snapshot is
  handed to the orchestrator.
\<close>
theorem intent_classifier_endings:
  assumes "intent_classifier_node cfg r tr s = Inr s'"
  shows "reason s' = reason s \<and>
    ((status s' = QS_ERROR \<and> error_message s' \<noteq> [] \<and> pending_signals s' = pending_signals s) \<or>
     (\<exists>sg. pending_signals s' = [sg] \<and> sg_decision sg = ASK \<and> int (ask_count s) < clarification_max_turns cfg \<and>
        status s' = QS_INTENT_CLASSIFIED \<and> resolved_signals s' = resolved_signals s) \<or>
     (pending_signals s' = pending_signals s \<and> int (ask_count s) \<ge> clarification_max_turns cfg \<and>
        intent s' = DATA_EXTRACTION \<and> status s' = QS_INTENT_CLASSIFIED \<and> ask_count s' = ask_count s) \<or>
     (pending_signals s' = pending_signals s \<and> intent s' = ir_intent r \<and> ask_count s' = ask_count s \<and>
        ir_resolution r \<noteq> HD_UNSURE \<and> ir_category r \<noteq> ''AMBIGUOUS'')) \<and>
    (status s' = QS_CONTINUE_ORCHESTRATION_PENDING \<longrightarrow>
       ir_resolution r = HD_CONTINUE \<and> turn_snapshots s \<noteq> [] \<and> is_continuation s')"
proof -
  have ask: "build_ambiguity_signal r = Inr sg \<Longrightarrow> sg_decision sg = ASK" for sg
    by (auto simp: build_ambiguity_signal_def make_signal_def decision_of_def result_bind_Inr_iff Let_def
        split: list.splits json.splits)
  note frame = intent_classifier_frame [OF assms]
  from assms show ?thesis
  proof (cases rule: intent_classifier_cases)
    case error
    with frame show ?thesis by (simp add: ERR_INTENT_def)
  next
    case forced
    with frame show ?thesis by (simp add: forced_progression_def ask_count_def forced_signal_def)
  next
    case (asked sg)
    with frame ask [of sg] show ?thesis by simp
  next
    case (classified s1)
    with frame show ?thesis
      by (simp add: apply_continue_updates_def ask_count_def continuation_signal_def Let_def)
  qed
qed

definition unsure_result :: intent_result where
  "unsure_result = \<lparr>ir_resolution = HD_UNSURE, ir_intent = UNKNOWN, ir_confidence = 0, ir_category = [],
     ir_reason = [], ir_continue_reason = [], ir_continue_context = [], ir_ambiguities = [],
     ir_needs_analyzer = False, ir_is_error = False\<rparr>"

theorem intent_classifier_endings_witness:
  "\<exists>s'. intent_classifier_node default_settings unsure_result [] new_pipeline_state = Inr s' \<and>
     reason s' = new_reasoning_state"
proof -
  have "\<exists>s'. intent_classifier_node default_settings unsure_result [] new_pipeline_state = Inr s'"
    by (simp add: intent_classifier_node_def unsure_result_def handle_ambiguous_or_unsure_def ask_count_def
        new_pipeline_state_def default_settings_def build_ambiguity_signal_def make_signal_def decision_of_def
        ambiguity_type_of_def confidence_of_def question_type_of_def options_of_def text_option_def str_field_def
        obj_get_def Let_def)
  then obtain s' where s': "intent_classifier_node default_settings unsure_result [] new_pipeline_state = Inr s'" ..
  from intent_classifier_endings [OF this] s' show ?thesis by (auto simp: new_pipeline_state_def)
qed

text \<open>
  The normalizer asks without a limit.  Whatever number of questions the user has already
  answered in this turn, every ambiguity the model marks as a question becomes a pending signal
  and the turn is interrupted again; the configured maximum bounds the classifier's questions
  only.
\<close>
theorem normalizer_asks_without_limit:
  assumes "query_normalizer_node extraction run_norm tr s = Inr s'" and "rewrite_for_analysis extraction s = Inr s1"
    and "run_norm (preprocessed_input s1) = Inr nq" and "JObj amb \<in> set (nq_ambiguities nq)"
    and "map_of amb ''decision'' = Some (JStr ''ASK'')"
  shows "pending_signals s' \<noteq> [] \<and>
    list_all (\<lambda>sg. sg_decision sg = ASK \<and> sg_source_node sg = ''query_normalizer'' \<and> sg_turn_id sg = Some (turn_id s))
      (pending_signals s')"
proof -
  have sgs: "normalizer_signals tid vs = Inr sgs \<Longrightarrow>
      (\<forall>sg\<in>set sgs. sg_source_node sg = ''query_normalizer'' \<and> sg_turn_id sg = Some tid) \<and>
      (JObj amb \<in> set vs \<longrightarrow> (\<exists>sg\<in>set sgs. sg_decision sg = ASK))" for tid vs sgs
    by (induction tid vs arbitrary: sgs rule: normalizer_signals.induct)
       (auto simp: result_bind_Inr_iff make_signal_def obj_get_def decision_of_def assms(5))
  from assms(1-3) obtain sgs where "normalizer_signals (turn_id s) (nq_ambiguities nq) = Inr sgs"
    "s' = add_normalizer_signals sgs (s1\<lparr>normalized_query := Some nq, status := QS_QUERY_NORMALIZED, trace_log := tr\<rparr>)"
    by (auto simp: query_normalizer_node_def result_bind_Inr_iff Let_def)
  with sgs [of "turn_id s" "nq_ambiguities nq" sgs] assms(4) show ?thesis
    by (auto simp: add_normalizer_signals_def list_all_iff filter_empty_conv Let_def)
qed

theorem normalizer_asks_without_limit_witness:
  "\<exists>s'. query_normalizer_node (\<lambda>_. Inl OtherError)
     (\<lambda>t. Inr ((new_normalized_query t)\<lparr>nq_ambiguities := [JObj [(''decision'', JStr ''ASK'')]]\<rparr>)) []
     (new_pipeline_state\<lparr>resolved_signals := replicate 9 ((forced_signal 0 [])\<lparr>sg_decision := ASK\<rparr>)\<rparr>) = Inr s' \<and>
     pending_signals s' \<noteq> []"
proof -
  let ?nq = "\<lambda>t. Inr ((new_normalized_query t)\<lparr>nq_ambiguities := [JObj [(''decision'', JStr ''ASK'')]]\<rparr>)"
  let ?s = "new_pipeline_state\<lparr>resolved_signals := replicate 9 ((forced_signal 0 [])\<lparr>sg_decision := ASK\<rparr>)\<rparr>"
  have rw: "rewrite_for_analysis (\<lambda>_. Inl OtherError) ?s = Inr ?s"
    by (simp add: rewrite_for_analysis_def new_pipeline_state_def)
  then obtain s' where s': "query_normalizer_node (\<lambda>_. Inl OtherError) ?nq [] ?s = Inr s'"
    by (simp add: query_normalizer_node_def make_signal_def decision_of_def normalizer_defaults_def
        ambiguity_type_of_def confidence_of_def question_type_of_def options_of_def text_option_def str_field_def
        obj_get_def Let_def)
  have "pending_signals s' \<noteq> []"
    by (rule conjunct1 [OF normalizer_asks_without_limit [OF s' rw refl, where amb = "[(''decision'', JStr ''ASK'')]"]])
       simp_all
  with s' show ?thesis by blast
qed

text \<open>
  The original question of an analysis is lost on the second pass.  After a clarification
  the normalizer runs again on the text it has rewritten itself, and keeps that text, not the
  user's question, as the one the analyzer is to answer.
\<close>
theorem second_normalization_loses_question:
  assumes "query_normalizer_node extraction run_norm tr s = Inr s1" and "intent s = DATA_ANALYSIS"
    and "extraction (preprocessed_input s) = Inr rewritten" and "rewritten \<noteq> []"
    and "intent s2 = intent s1" and "preprocessed_input s2 = preprocessed_input s1"
    and "query_normalizer_node extraction run_norm tr2 s2 = Inr s3"
  shows "analysis_query s1 = preprocessed_input s \<and> analysis_query s3 = rewritten"
proof -
  have add: "analysis_query (add_normalizer_signals sgs t) = analysis_query t"
    "preprocessed_input (add_normalizer_signals sgs t) = preprocessed_input t"
    "intent (add_normalizer_signals sgs t) = intent t" for sgs t
    by (simp_all add: add_normalizer_signals_def Let_def)
  from assms(1-4) have one: "analysis_query s1 = preprocessed_input s" "preprocessed_input s1 = rewritten"
    "intent s1 = DATA_ANALYSIS"
    by (cases rule: normalizer_cases, auto simp: rewrite_for_analysis_def add Let_def)+
  have "analysis_query s3 = preprocessed_input s2"
    using assms(7) one(3) assms(5)
    by (cases rule: normalizer_cases)
       (auto simp: rewrite_for_analysis_def add Let_def split: sum.splits py_error.splits if_splits)
  with one assms(6) show ?thesis by simp
qed

theorem second_normalization_loses_question_witness:
  "\<exists>s1 s3. query_normalizer_node (\<lambda>_. Inr ''sales'') (\<lambda>t. Inr (new_normalized_query t)) []
       (new_pipeline_state\<lparr>intent := DATA_ANALYSIS, preprocessed_input := ''why did sales fall''\<rparr>) = Inr s1 \<and>
     query_normalizer_node (\<lambda>_. Inr ''sales'') (\<lambda>t. Inr (new_normalized_query t)) [] s1 = Inr s3 \<and>
     analysis_query s3 = ''sales''"
proof -
  let ?node = "query_normalizer_node (\<lambda>_. Inr ''sales'') (\<lambda>t. Inr (new_normalized_query t)) []"
  let ?s = "new_pipeline_state\<lparr>intent := DATA_ANALYSIS, preprocessed_input := ''why did sales fall''\<rparr>"
  have run: "\<exists>s'. ?node t = Inr s'" for t
    by (simp add: query_normalizer_node_def rewrite_for_analysis_def new_normalized_query_def Let_def)
  obtain s1 where s1: "?node ?s = Inr s1" using run by blast
  obtain s3 where s3: "?node s1 = Inr s3" using run by blast
  have "analysis_query s1 = preprocessed_input ?s \<and> analysis_query s3 = ''sales''"
    by (rule second_normalization_loses_question [OF s1 _ _ _ refl refl s3]) simp_all
  with s1 s3 show ?thesis by blast
qed

end
