(* ===== verification/ReasoningPreparer.thy ===== *)
theory ReasoningPreparer imports TurnState begin

text \<open>
  The start of the reasoning layer (\<open>src/src/agents/nodes/reason/reasoning_preparer.py\<close>): from
  the eight slots of the normalized query to the first knowledge items, hypothesis and plan.
\<close>

definition list_repr :: "string list \<Rightarrow> string" where
  "list_repr vs = ''['' @ py_join '', '' (map py_repr vs) @ '']''"

definition modifier_value :: "modifier_slot \<Rightarrow> string" where
  "modifier_value m =
     (case md_limit m of
        Some n \<Rightarrow> if n \<noteq> 0 then str_int n else (case md_by m of None \<Rightarrow> [] | Some t \<Rightarrow> t)
      | None \<Rightarrow> (case md_by m of None \<Rightarrow> [] | Some t \<Rightarrow> t))"

definition build_decomposition_from_normalized :: "normalized_query option \<Rightarrow> decomposition" where
  "build_decomposition_from_normalized nq =
     (case nq of
        None \<Rightarrow> empty_decomposition
      | Some q \<Rightarrow>
          \<lparr>dc_measures = map (\<lambda>m. (ms_term m, ms_agg_function m)) (nq_measures q),
           dc_filters = map (\<lambda>f. (fs_target f, fs_filter_type f, fs_values f)) (nq_filters q),
           dc_group_by = map ds_term (filter (\<lambda>d. ds_role d = ''GROUP'') (nq_dimensions q)),
           dc_order_limit = map (\<lambda>m. (md_type m, modifier_value m)) (nq_modifiers q),
           dc_required_concepts = map es_term (nq_entities q) @ map ms_term (nq_measures q),
           dc_output_format = oh_format (nq_output_hint q), dc_doc_type = oh_doc_type (nq_output_hint q),
           dc_expected_columns = oh_expected_columns (nq_output_hint q)\<rparr>)"

text \<open>The Korean words for a vague output (statement, status, information, ...) and an extraction.\<close>

definition VAGUE_OUTPUT_KEYWORDS :: "string list" where
  "VAGUE_OUTPUT_KEYWORDS =
     [utf8 [235, 170, 133, 236, 132, 184], utf8 [237, 152, 132, 237, 153, 169],
      utf8 [236, 160, 149, 235, 179, 180], utf8 [235, 130, 180, 236, 151, 173],
      utf8 [235, 141, 176, 236, 157, 180, 237, 132, 176], utf8 [235, 170, 169, 235, 161, 157],
      utf8 [235, 166, 172, 236, 138, 164, 237, 138, 184]]"

definition EXTRACTION_KEYWORDS :: "string list" where
  "EXTRACTION_KEYWORDS =
     [utf8 [235, 189, 145, 236, 149, 132], utf8 [236, 182, 148, 236, 182, 156],
      utf8 [236, 161, 176, 237, 154, 140]]"

definition concrete_aggs :: "string list" where
  "concrete_aggs = [''SUM'', ''AVG'', ''COUNT'', ''COUNT_DISTINCT'', ''MAX'', ''MIN'']"

definition build_output_scope_item :: knowledge_item where
  "build_output_scope_item =
     (new_knowledge_item ''output_scope'' CONFLICTED)\<lparr>ki_source := ''reasoning_preparer'',
       ki_evidence := [''The question has a general output keyword but names no measure or column''],
       ki_is_critical := True\<rparr>"

definition detect_ambiguous_output :: "decomposition \<Rightarrow> string \<Rightarrow> knowledge_item option" where
  "detect_ambiguous_output d query =
     (let has_vague = (\<exists>kw\<in>set VAGUE_OUTPUT_KEYWORDS. contains query kw);
          has_extract = (\<exists>kw\<in>set EXTRACTION_KEYWORDS. contains query kw)
      in if query = [] \<or> \<not> (has_vague \<or> has_extract) then None
         else if dc_measures d = [] then Some build_output_scope_item
         else if (\<forall>m\<in>set (dc_measures d). py_upper (snd m) \<notin> set concrete_aggs) \<and> has_vague
           then Some build_output_scope_item
         else None)"

definition filter_items :: "string \<times> string \<times> string list option \<Rightarrow> knowledge_item list" where
  "filter_items f =
     (case f of (term, op, vals) \<Rightarrow>
        (case vals of
           Some vs \<Rightarrow> if term \<noteq> [] \<and> vs \<noteq> []
                      then [new_knowledge_item (''filter:'' @ term @ ''='' @ list_repr vs) UNRESOLVED] else []
         | None \<Rightarrow> []))"

definition initialize_knowledge_items :: "decomposition \<Rightarrow> string \<Rightarrow> knowledge_item list" where
  "initialize_knowledge_items d query =
     map (\<lambda>m. new_knowledge_item (''measure:'' @ fst m) UNRESOLVED) (filter (\<lambda>m. fst m \<noteq> []) (dc_measures d)) @
     concat (map filter_items (dc_filters d)) @
     (case detect_ambiguous_output d query of None \<Rightarrow> [] | Some ki \<Rightarrow> [ki])"

definition number_items :: "knowledge_item list \<Rightarrow> knowledge_item list" where
  "number_items kis = map (\<lambda>(i, ki). ki\<lparr>ki_id := CHR ''K'' # str_int (int i + 1)\<rparr>) (enumerate 0 kis)"

definition build_initial_hypothesis :: hypothesis where
  "build_initial_hypothesis =
     \<lparr>hyp_id = ''H1'', hyp_description = ''First exploration from similar SQL and table meta data'',
      hyp_based_on_use_case = None, hyp_missing_terms = [], hyp_priority = 0,
      hyp_strategy = ''Judge from similar SQL, and from the meta data of the tables found in it and by the slot keywords, whether SQL can be generated'',
      hyp_status = Hyp_ACTIVE, hyp_readiness_score = None, hyp_readiness_verdict = []\<rparr>"

definition extract_meta_search_query :: "normalized_query option \<Rightarrow> string \<Rightarrow> string" where
  "extract_meta_search_query nq fallback =
     (case nq of
        None \<Rightarrow> fallback
      | Some q \<Rightarrow> if sk_meta_search (nq_search_keywords q) \<noteq> []
                  then py_join '' '' (sk_meta_search (nq_search_keywords q)) else fallback)"

definition plan_step :: "int \<Rightarrow> string \<Rightarrow> string \<Rightarrow> string \<Rightarrow> execution_step" where
  "plan_step n tool inp purpose =
     \<lparr>es_step = n, es_tool = tool, es_input = inp, es_purpose = purpose, es_status = Step_PENDING,
      es_insight = None, es_raw_result = None, es_hypothesis_id = []\<rparr>"

definition page_one :: "string \<Rightarrow> string" where
  "page_one q = q @ '', page=1''"

definition build_execution_plan ::
  "string set \<Rightarrow> normalized_query option \<Rightarrow> string \<Rightarrow> execution_step list" where
  "build_execution_plan keys nq query =
     (let first = (if query \<noteq> []
                   then [plan_step 1 ''search_use_cases'' (page_one query)
                           ''find similar SQL and collect its tables and codes''] else []);
          meta = extract_meta_search_query nq query
      in first @
         (if meta \<noteq> [] \<and> ''search_table_meta:'' @ page_one meta \<notin> keys
          then [plan_step (int (length first) + 1) ''search_table_meta'' (page_one meta)
                  ''search table meta data by the slot keywords''] else []))"

definition use_case_query :: "normalized_query option \<Rightarrow> string \<Rightarrow> string" where
  "use_case_query nq query =
     (let rewritten = (case nq of None \<Rightarrow> [] | Some q \<Rightarrow> nq_rewritten_query q)
      in if rewritten \<noteq> [] \<and> rewritten \<noteq> query then query @ newline @ rewritten else query)"

definition reasoning_preparer_node :: "pipeline_state \<Rightarrow> pipeline_state" where
  "reasoning_preparer_node s =
     (let nq = normalized_query s;
          query = preprocessed_input s;
          d = build_decomposition_from_normalized nq;
          h = build_initial_hypothesis
      in s\<lparr>reason := (reason s)\<lparr>exploration_phase := EP_INITIAL, recovery_rounds := 0,
             recovery_entry_source := None, is_force_generated := False, query_decomposition := d,
             knowledge_items := number_items (initialize_knowledge_items d query),
             hypotheses := [h], current_hypothesis := Some h,
             execution_plan := map (\<lambda>st. st\<lparr>es_hypothesis_id := hyp_id h\<rparr>)
               (build_execution_plan (executed_tool_keys (reason s)) nq (use_case_query nq query)),
             phase := EXPLORING\<rparr>\<rparr>)"

section \<open>Facts\<close>

lemma number_items_ids: "map ki_id (number_items kis) = map (\<lambda>i. CHR ''K'' # str_int (int i + 1)) [0..<length kis]"
  by (auto simp: number_items_def comp_def case_prod_unfold enumerate_eq_zip intro!: nth_equalityI)

lemma number_items_statuses: "map ki_status (number_items kis) = map ki_status kis"
  by (auto simp: number_items_def comp_def case_prod_unfold enumerate_eq_zip intro!: nth_equalityI)

lemma filter_items_open: "ki \<in> set (filter_items f) \<Longrightarrow> ki_status ki = UNRESOLVED \<and> ki_is_critical ki"
  by (auto simp: filter_items_def new_knowledge_item_def split: prod.splits option.splits if_splits)

lemma detect_output_item: "detect_ambiguous_output d q = Some ki \<Longrightarrow> ki = build_output_scope_item"
  by (simp add: detect_ambiguous_output_def Let_def split: if_splits)

lemma initial_items_open:
  assumes "ki \<in> set (initialize_knowledge_items d q)"
  shows "ki_status ki \<in> {UNRESOLVED, CONFLICTED} \<and> ki_is_critical ki"
proof -
  from assms consider "ki_status ki = UNRESOLVED" "ki_is_critical ki"
    | f where "f \<in> set (dc_filters d)" "ki \<in> set (filter_items f)"
    | "detect_ambiguous_output d q = Some ki"
    by (auto simp: initialize_knowledge_items_def new_knowledge_item_def split: option.splits)
  then show ?thesis
  proof cases
    case 3
    then have "ki = build_output_scope_item" by (rule detect_output_item)
    then show ?thesis by (simp add: build_output_scope_item_def new_knowledge_item_def)
  qed (auto dest: filter_items_open)
qed

section \<open>Properties\<close>

text \<open>
  The state exploration starts from.  Knowledge items carry distinct ids and none is
  resolved; there is one active hypothesis, the current one; the plan has at most two steps,
  pending, numbered from one and tagged with it; the phase is the initial exploration.  The loop
  guard, the failure and any SQL are kept as they were.
\<close>
theorem preparer_initial_state:
  fixes s
  defines "r' \<equiv> reason (reasoning_preparer_node s)"
  shows "distinct (map ki_id (knowledge_items r')) \<and> list_all (\<lambda>ki. \<not> is_confirmed ki) (knowledge_items r') \<and>
    (\<exists>h. hypotheses r' = [h] \<and> current_hypothesis r' = Some h \<and> hyp_status h = Hyp_ACTIVE \<and>
       list_all (\<lambda>st. es_hypothesis_id st = hyp_id h) (execution_plan r')) \<and>
    length (execution_plan r') \<le> 2 \<and> list_all (\<lambda>st. es_status st = Step_PENDING) (execution_plan r') \<and>
    map es_step (execution_plan r') = map (\<lambda>i. int i + 1) [0..<length (execution_plan r')] \<and>
    phase r' = EXPLORING \<and> exploration_phase r' = EP_INITIAL \<and> \<not> is_force_generated r' \<and>
    loop_guard r' = loop_guard (reason s) \<and> failure_type r' = failure_type (reason s) \<and>
    validated_sql r' = validated_sql (reason s) \<and> generated_sql r' = generated_sql (reason s)"
proof -
  let ?kis = "initialize_knowledge_items (build_decomposition_from_normalized (normalized_query s)) (preprocessed_input s)"
  have ki: "knowledge_items r' = number_items ?kis"
    by (simp add: r'_def reasoning_preparer_node_def Let_def)
  have "inj_on (\<lambda>i. CHR ''K'' # str_int (int i + 1)) {0..<length ?kis}"
    by (auto simp: inj_on_def str_int_def nat_add_distrib dest!: nat_digits_inject)
  then have ids: "distinct (map ki_id (knowledge_items r'))"
    by (simp add: ki number_items_ids distinct_map)
  have "ki_status ` set (number_items ?kis) = ki_status ` set ?kis"
    using arg_cong [where f = set, OF number_items_statuses] by simp
  then have open_items: "list_all (\<lambda>ki. \<not> is_confirmed ki) (knowledge_items r')"
    using initial_items_open [of _ "build_decomposition_from_normalized (normalized_query s)" "preprocessed_input s"]
    by (force simp: ki list_all_iff is_confirmed_def)
  show ?thesis
    using ids open_items
    by (simp add: r'_def reasoning_preparer_node_def build_execution_plan_def build_initial_hypothesis_def
        plan_step_def Let_def)
qed

end
