(* ===== verification/ModelReaders.thy ===== *)
theory ModelReaders imports ContextRetriever Interpret begin

text \<open>
  The constructors of the pydantic classes of \<open>src/src/agents/state/state.py\<close> on the entries of
  a dictionary (\<open>TableMeta(**fields)\<close> and its nested classes): the fields are checked in
  pydantic's lax mode, and an entry that does not fit is a validation error, which is a
  \<open>ValueError\<close>.  \<open>num\<close> is pydantic's reading of a text as a number.
\<close>

section \<open>Loops over untyped values\<close>

fun map_result :: "('a \<Rightarrow> 'b result) \<Rightarrow> 'a list \<Rightarrow> 'b list result" where
  "map_result f [] = Inr []"
| "map_result f (x # xs) = result_bind (f x) (\<lambda>y. result_bind (map_result f xs) (\<lambda>ys. Inr (y # ys)))"

text \<open>A loop that updates a state, left by the first exception.\<close>

fun fold_result :: "('a \<Rightarrow> 's \<Rightarrow> 's result) \<Rightarrow> 'a list \<Rightarrow> 's \<Rightarrow> 's result" where
  "fold_result f [] s = Inr s"
| "fold_result f (x # xs) s = result_bind (f x s) (fold_result f xs)"

lemma map_result_Inr: "map_result f (map g xs) = Inr ys \<longleftrightarrow> map_result (f \<circ> g) xs = Inr ys"
  by (induction xs arbitrary: ys) (auto simp: result_bind_Inr_iff)

lemma map_result_all: "(\<And>x. x \<in> set xs \<Longrightarrow> f (g x) = Inr x) \<Longrightarrow> map_result f (map g xs) = Inr xs"
  by (induction xs) auto

lemma map_result_set: "map_result f xs = Inr ys \<Longrightarrow> y \<in> set ys \<Longrightarrow> \<exists>x\<in>set xs. f x = Inr y"
  by (induction xs arbitrary: ys) (auto simp: result_bind_Inr_iff)

text \<open>A property kept by every round of the loop is kept by the loop.\<close>

lemma fold_result_invariant:
  assumes "fold_result f xs s = Inr s'" and "P s"
    and "\<And>x u v. x \<in> set xs \<Longrightarrow> P u \<Longrightarrow> f x u = Inr v \<Longrightarrow> P v"
  shows "P s'"
  using assms by (induction xs arbitrary: s) (auto simp: result_bind_Inr_iff)

text \<open>The first round that raises ends the loop.\<close>

lemma fold_result_raises:
  "fold_result f xs s = Inr u \<Longrightarrow> f x u = Inl e \<Longrightarrow> fold_result f (xs @ x # ys) s = Inl e"
  by (induction xs arbitrary: s) (auto simp: result_bind_Inr_iff)

text \<open>The characters of a text, each as its UTF-8 bytes, and \<open>for x in v\<close>.\<close>

definition continuation_byte :: "char \<Rightarrow> bool" where
  "continuation_byte c \<longleftrightarrow> of_char c div 64 = (2 :: nat)"

function utf8_chars :: "string \<Rightarrow> string list" where
  "utf8_chars [] = []"
| "utf8_chars (c # cs) = (c # takeWhile continuation_byte cs) # utf8_chars (dropWhile continuation_byte cs)"
  by pat_completeness auto
termination
  by (relation "measure length") (auto simp: le_imp_less_Suc length_dropWhile_le)

fun json_iter :: "json \<Rightarrow> json list result" where
  "json_iter (JList xs) = Inr xs"
| "json_iter (JObj kvs) = Inr (map (JStr \<circ> fst) kvs)"
| "json_iter (JStr s) = Inr (map JStr (utf8_chars s))"
| "json_iter _ = Inl TypeErr"

text \<open>A value used as a key of a dictionary or a set.\<close>

fun hashable :: "json \<Rightarrow> bool" where
  "hashable (JList xs) = False"
| "hashable (JObj kvs) = False"
| "hashable _ = True"

definition as_key :: "json \<Rightarrow> json result" where
  "as_key v = (if hashable v then Inr v else Inl TypeErr)"

section \<open>Field checks\<close>

definition whole :: "rat \<Rightarrow> int result" where
  "whole q = (if of_int \<lfloor>q\<rfloor> = q then Inr \<lfloor>q\<rfloor> else Inl ValueError)"

definition float_field :: "(string \<Rightarrow> rat option) \<Rightarrow> json \<Rightarrow> rat result" where
  "float_field num v =
     (case v of JNum q \<Rightarrow> Inr q | JBool b \<Rightarrow> Inr (if b then 1 else 0)
      | JStr t \<Rightarrow> (case num t of Some q \<Rightarrow> Inr q | None \<Rightarrow> Inl ValueError) | _ \<Rightarrow> Inl ValueError)"

definition int_field :: "(string \<Rightarrow> rat option) \<Rightarrow> json \<Rightarrow> int result" where
  "int_field num v = result_bind (float_field num v) whole"

definition TRUE_WORDS :: "string list" where
  "TRUE_WORDS = [''1'', ''on'', ''t'', ''true'', ''y'', ''yes'']"

definition FALSE_WORDS :: "string list" where
  "FALSE_WORDS = [''0'', ''off'', ''f'', ''false'', ''n'', ''no'']"

definition bool_field :: "json \<Rightarrow> bool result" where
  "bool_field v =
     (case v of JBool b \<Rightarrow> Inr b
      | JNum q \<Rightarrow> if q = 1 then Inr True else if q = 0 then Inr False else Inl ValueError
      | JStr t \<Rightarrow> if py_lower t \<in> set TRUE_WORDS then Inr True
                 else if py_lower t \<in> set FALSE_WORDS then Inr False else Inl ValueError
      | _ \<Rightarrow> Inl ValueError)"

definition option_field :: "(json \<Rightarrow> 'a result) \<Rightarrow> json \<Rightarrow> 'a option result" where
  "option_field f v = (if v = JNull then Inr None else result_bind (f v) (\<lambda>x. Inr (Some x)))"

definition list_field :: "(json \<Rightarrow> 'a result) \<Rightarrow> json \<Rightarrow> 'a list result" where
  "list_field f v = (case v of JList xs \<Rightarrow> map_result f xs | _ \<Rightarrow> Inl ValueError)"

definition dict_field :: "json \<Rightarrow> (string \<times> json) list result" where
  "dict_field v = (case v of JObj kvs \<Rightarrow> Inr kvs | _ \<Rightarrow> Inl ValueError)"

text \<open>A required field.\<close>

definition required :: "(string \<times> json) list \<Rightarrow> string \<Rightarrow> json result" where
  "required kvs k = (case map_of kvs k of None \<Rightarrow> Inl ValueError | Some v \<Rightarrow> Inr v)"

definition str_at :: "(string \<times> json) list \<Rightarrow> string \<Rightarrow> string result" where
  "str_at kvs k = str_field (obj_get kvs k (JStr []))"

section \<open>Columns\<close>

definition read_column :: "(string \<Rightarrow> rat option) \<Rightarrow> json \<Rightarrow> column_info result" where
  "read_column num v =
     result_bind (dict_field v) (\<lambda>d.
     result_bind (result_bind (required d ''name'') str_field) (\<lambda>name.
     result_bind (str_at d ''alt_name'') (\<lambda>alt.
     result_bind (str_at d ''description'') (\<lambda>desc.
     result_bind (str_at d ''col_type'') (\<lambda>ty.
     result_bind (bool_field (obj_get d ''is_pk'' (JBool False))) (\<lambda>pk.
     result_bind (option_field (int_field num) (obj_get d ''total_rows'' JNull)) (\<lambda>rows.
     result_bind (option_field (int_field num) (obj_get d ''non_null_count'' JNull)) (\<lambda>non_null.
     result_bind (option_field (int_field num) (obj_get d ''null_count'' JNull)) (\<lambda>nulls.
     result_bind (option_field (float_field num) (obj_get d ''null_rate'' JNull)) (\<lambda>rate.
     result_bind (option_field (int_field num) (obj_get d ''distinct_count'' JNull)) (\<lambda>dist.
     result_bind (option_field str_field (obj_get d ''min_val'' JNull)) (\<lambda>lo.
     result_bind (option_field str_field (obj_get d ''max_val'' JNull)) (\<lambda>hi.
     result_bind (option_field (list_field str_field) (obj_get d ''discovered_values'' JNull)) (\<lambda>vals.
       Inr \<lparr>col_name = name, col_alt_name = alt, col_description = desc, col_type = ty, col_is_pk = pk,
            col_total_rows = rows, col_non_null_count = non_null, col_null_count = nulls,
            col_null_rate = rate, col_distinct_count = dist, col_min_val = lo, col_max_val = hi,
            col_discovered_values = vals\<rparr>))))))))))))))"

definition key_date_source_of :: "json \<Rightarrow> key_date_source result" where
  "key_date_source_of v =
     (if v = JStr ''pk_rule'' then Inr PK_RULE
      else if v = JStr ''alt_name_rule'' then Inr ALT_NAME_RULE
      else if v = JStr ''llm_fallback'' then Inr LLM_FALLBACK
      else Inl ValueError)"

definition read_key_date :: "json \<Rightarrow> key_date_column result" where
  "read_key_date v =
     result_bind (dict_field v) (\<lambda>d.
     result_bind (result_bind (required d ''column_name'') str_field) (\<lambda>name.
     result_bind (str_at d ''suffix'') (\<lambda>suffix.
     result_bind (key_date_source_of (obj_get d ''source'' (JStr ''pk_rule''))) (\<lambda>src.
       Inr \<lparr>kd_column_name = name, kd_suffix = suffix, kd_source = src\<rparr>))))"

definition read_observed :: "json \<Rightarrow> observed_date_column result" where
  "read_observed v =
     result_bind (dict_field v) (\<lambda>d.
     result_bind (result_bind (required d ''column_name'') str_field) (\<lambda>name.
     result_bind (str_at d ''date_range'') (\<lambda>range.
     result_bind (str_at d ''date_pattern'') (\<lambda>pattern.
     result_bind (list_field str_field (obj_get d ''recent_values'' (JList []))) (\<lambda>recent.
       Inr \<lparr>od_column_name = name, od_date_range = range, od_date_pattern = pattern,
            od_recent_values = recent\<rparr>)))))"

section \<open>Tables\<close>

definition selection_status_of :: "json \<Rightarrow> selection_status result" where
  "selection_status_of v =
     (case v of
        JStr t \<Rightarrow>
          (if t = ''PENDING'' then Inr Sel_PENDING else if t = ''SELECTED'' then Inr SELECTED
           else if t = ''REJECTED'' then Inr REJECTED else if t = ''REFERENCE'' then Inr REFERENCE
           else Inl ValueError)
      | _ \<Rightarrow> Inl ValueError)"

definition read_table :: "(string \<Rightarrow> rat option) \<Rightarrow> (string \<times> json) list \<Rightarrow> table_meta result" where
  "read_table num d =
     result_bind (result_bind (required d ''table_name'') str_field) (\<lambda>name.
     result_bind (str_at d ''alt_name'') (\<lambda>alt.
     result_bind (str_at d ''description'') (\<lambda>desc.
     result_bind (str_at d ''schema_name'') (\<lambda>schema.
     result_bind (str_at d ''db_source'') (\<lambda>src.
     result_bind (str_at d ''subject_area'') (\<lambda>area.
     result_bind (int_field num (obj_get d ''source_step'' (JNum 0))) (\<lambda>step.
     result_bind (str_at d ''hypothesis_id'') (\<lambda>hyp.
     result_bind (list_field (read_column num) (obj_get d ''columns'' (JList []))) (\<lambda>cols.
     result_bind (list_field read_key_date (obj_get d ''key_date_columns'' (JList []))) (\<lambda>keys.
     result_bind (list_field read_observed (obj_get d ''observed_date_columns'' (JList []))) (\<lambda>obs.
     result_bind (option_field (list_field dict_field) (obj_get d ''sample_rows'' JNull)) (\<lambda>sample.
     result_bind (float_field num (obj_get d ''inference_confidence'' (JNum 0))) (\<lambda>conf.
     result_bind (selection_status_of (obj_get d ''selection_status'' (JStr ''PENDING''))) (\<lambda>sel.
     result_bind (str_at d ''selection_reason'') (\<lambda>why.
       Inr \<lparr>tm_table_name = name, tm_alt_name = alt, tm_description = desc, tm_schema_name = schema,
            tm_db_source = src, tm_subject_area = area, tm_source_step = step, tm_hypothesis_id = hyp,
            tm_columns = cols, tm_key_date_columns = keys, tm_observed_date_columns = obs,
            tm_sample_rows = sample, tm_inference_confidence = conf, tm_selection_status = sel,
            tm_selection_reason = why\<rparr>)))))))))))))))"

definition read_code :: "(string \<times> json) list \<Rightarrow> code_meta result" where
  "read_code d =
     result_bind (result_bind (required d ''column_name'') str_field) (\<lambda>name.
     result_bind (str_at d ''column_desc'') (\<lambda>desc.
     result_bind (dict_field (obj_get d ''codes'' (JObj []))) (\<lambda>codes.
     result_bind (map_result (\<lambda>kv. result_bind (str_field (snd kv)) (\<lambda>t. Inr (fst kv, t))) codes) (\<lambda>texts.
       Inr \<lparr>cm_column_name = name, cm_column_desc = desc, cm_codes = texts\<rparr>))))"

section \<open>Reading what was dumped\<close>

lemma int_field_jint [simp]: "int_field num (jint i) = Inr i"
  by (simp add: int_field_def float_field_def whole_def jint_def)

lemma option_field_json_option:
  "(\<And>x. v = Some x \<Longrightarrow> g x \<noteq> JNull \<and> f (g x) = Inr x) \<Longrightarrow> option_field f (json_option g v) = Inr v"
  by (cases v) (simp_all add: option_field_def json_option_def)

lemma option_ints [simp]: "option_field (int_field num) (json_option jint v) = Inr v"
  by (rule option_field_json_option) (simp add: jint_def int_field_def float_field_def whole_def)

lemma option_floats [simp]: "option_field (float_field num) (json_option JNum v) = Inr v"
  by (rule option_field_json_option) (simp add: float_field_def)

lemma option_texts [simp]: "option_field str_field (json_option JStr v) = Inr v"
  by (rule option_field_json_option) (simp add: str_field_def)

lemma list_texts [simp]: "list_field str_field (jstrs ts) = Inr ts"
  by (simp add: list_field_def jstrs_def map_result_all str_field_def)

lemma option_text_lists [simp]: "option_field (list_field str_field) (json_option jstrs v) = Inr v"
  by (rule option_field_json_option) (simp, simp add: jstrs_def)

lemma list_dicts [simp]: "list_field dict_field (JList (map JObj rs)) = Inr rs"
  by (simp add: list_field_def map_result_all dict_field_def)

lemma option_rows [simp]:
  "option_field (list_field dict_field) (json_option (\<lambda>rs. JList (map JObj rs)) v) = Inr v"
  by (rule option_field_json_option) simp

lemmas dump_read_simps = dict_field_def required_def str_at_def obj_get_def str_field_def

lemma read_dump_column [simp]: "read_column num (dump_column c) = Inr c"
  by (simp add: read_column_def dump_column_def dump_read_simps bool_field_def)

lemma read_dump_key_date [simp]: "read_key_date (dump_key_date k) = Inr k"
  by (cases "kd_source k")
     (simp_all add: read_key_date_def dump_key_date_def dump_read_simps key_date_source_of_def)

lemma read_dump_observed [simp]: "read_observed (dump_observed o') = Inr o'"
  by (simp add: read_observed_def dump_observed_def dump_read_simps)

lemma list_field_dump: "(\<And>x. f (g x) = Inr x) \<Longrightarrow> list_field f (JList (map g xs)) = Inr xs"
  by (simp add: list_field_def map_result_all)

lemma selection_status_value_read [simp]: "selection_status_of (JStr (selection_status_value s)) = Inr s"
  by (cases s) (simp_all add: selection_status_of_def)

text \<open>
  Round trip of the table metadata: the dump the retriever stores in a step's raw result
  (\<open>model_dump\<close> of every table an answer names) is read back by the class's constructor as the
  same table, every nested column, date column, observation and sample row included.
\<close>
theorem table_dump_roundtrip:
  "result_bind (dict_field (dump_table t)) (read_table num) = Inr t"
proof -
  obtain kvs where kvs: "dump_table t = JObj kvs" by (simp add: dump_table_def)
  have "read_table num kvs = Inr t"
    using kvs unfolding dump_table_def
    by (auto simp: read_table_def required_def str_at_def obj_get_def str_field_def list_field_dump float_field_def)
  with kvs show ?thesis by (simp add: dict_field_def)
qed

end
