(* ===== verification/ContextInterpreter.thy ===== *)
theory ContextInterpreter imports ModelReaders Security "HOL-Library.Sublist" begin

text \<open>
  The interpretation of tool results (\<open>src/src/agents/nodes/reason/context_interpreter.py\<close>): the
  model's reading of the finished steps in one call or step by step, the guard on its updates of
  the knowledge, the table, use case, term and manual judgements, the loading of raw results,
  observations and follow-up look-ups, and the node.  The rendered tool results, the model's
  replies (parsed JSON) and \<open>str\<close> of values that are no strings are arguments.

  The classes do not check assignments, so a reason or an insight may be any value; it is kept as
  the text later code makes of it.
\<close>

record interpreter_env =
  it_rendered :: "execution_step list \<Rightarrow> string result"
  it_rendered_one :: "execution_step \<Rightarrow> string result"
  it_reply :: "json result"
  it_step_reply :: "execution_step \<Rightarrow> json result"
  it_cancelled :: "execution_step \<Rightarrow> bool result"
  it_num :: "string \<Rightarrow> rat option"
  it_show :: "json \<Rightarrow> string"

text \<open>The last entry of a list that satisfies \<open>p\<close>: the object a dictionary built from the list holds.\<close>

definition update_last :: "('a \<Rightarrow> bool) \<Rightarrow> ('a \<Rightarrow> 'a) \<Rightarrow> 'a list \<Rightarrow> 'a list" where
  "update_last p f xs = rev (update_first p f (rev xs))"

definition reason_text :: "interpreter_env \<Rightarrow> json \<Rightarrow> string" where
  "reason_text env v = (if v = JNull then [] else py_str (it_show env) v)"

section \<open>Updates of the knowledge\<close>

record batch_result =
  br_interpretations :: "json list"
  br_updates :: "knowledge_item list"

definition confidence_status_of :: "json \<Rightarrow> confidence_status result" where
  "confidence_status_of v =
     (if v = JStr ''UNRESOLVED'' then Inr UNRESOLVED else if v = JStr ''CANDIDATE'' then Inr CANDIDATE
      else if v = JStr ''PROBABLE'' then Inr PROBABLE else if v = JStr ''CONFIRMED'' then Inr CONFIRMED
      else if v = JStr ''CONFLICTED'' then Inr CONFLICTED else Inl ValueError)"

definition strip_parens :: "string \<Rightarrow> string" where
  "strip_parens s = (let p = (\<lambda>c. c = CHR ''('' \<or> c = CHR '')'') in rev (dropWhile p (rev (dropWhile p s))))"

definition normal_id :: "string \<Rightarrow> string" where
  "normal_id s = py_strip (strip_parens (py_strip (py_upper s)))"

definition well_formed_id :: "string \<Rightarrow> bool" where
  "well_formed_id s \<longleftrightarrow> (case s of c # ds \<Rightarrow> c = CHR ''K'' \<and> ds \<noteq> [] \<and> list_all is_digit_char ds | [] \<Rightarrow> False)"

text \<open>\<open>_build_knowledge_update\<close>: \<open>None\<close> is a dropped update.\<close>

definition build_knowledge_update ::
  "(string \<Rightarrow> rat option) \<Rightarrow> string set \<Rightarrow> string \<Rightarrow> json \<Rightarrow> knowledge_item option result" where
  "build_knowledge_update num ids default_source ku =
     (case ku of
        JObj d \<Rightarrow>
          (case py_or (obj_get d ''id'' JNull) (JStr []) of
             JStr t \<Rightarrow>
               let raw_id = normal_id t
               in if \<not> well_formed_id raw_id \<or> raw_id \<notin> ids then Inr None
                  else result_bind (str_at d ''value'') (\<lambda>value.
                       result_bind (float_field num (obj_get d ''confidence'' (JNum (1/2)))) (\<lambda>conf.
                       result_bind (confidence_status_of (obj_get d ''new_status'' (JStr ''CANDIDATE''))) (\<lambda>st.
                       result_bind (str_field (obj_get d ''source'' (JStr default_source))) (\<lambda>src.
                       result_bind (str_at d ''evidence'') (\<lambda>ev.
                         Inr (Some \<lparr>ki_id = raw_id, ki_key = [], ki_value = value, ki_confidence = conf,
                                    ki_status = st, ki_source = src, ki_evidence = [ev],
                                    ki_is_critical = False\<rparr>))))))
           | _ \<Rightarrow> Inl AttributeError)
      | _ \<Rightarrow> Inl AttributeError)"

definition add_update ::
  "(string \<Rightarrow> rat option) \<Rightarrow> string set \<Rightarrow> string \<Rightarrow> json \<Rightarrow> knowledge_item list \<Rightarrow> knowledge_item list result" where
  "add_update num ids src ku acc =
     result_bind (build_knowledge_update num ids src ku) (\<lambda>u.
       Inr (case u of None \<Rightarrow> acc | Some ki \<Rightarrow> acc @ [ki]))"

text \<open>The loop over \<open>interp.get("knowledge_updates", [])\<close>.\<close>

definition updates_of ::
  "(string \<Rightarrow> rat option) \<Rightarrow> string set \<Rightarrow> string \<Rightarrow> json \<Rightarrow> knowledge_item list \<Rightarrow> knowledge_item list result" where
  "updates_of num ids src interp acc =
     result_bind (json_get interp ''knowledge_updates'' (JList [])) (\<lambda>v.
     result_bind (json_iter v) (\<lambda>kus. fold_result (add_update num ids src) kus acc))"

definition parse_batch_result :: "(string \<Rightarrow> rat option) \<Rightarrow> string set \<Rightarrow> json \<Rightarrow> batch_result result" where
  "parse_batch_result num ids data =
     result_bind (json_get data ''interpretations'' (JList [])) (\<lambda>v.
     result_bind (json_iter v) (\<lambda>interps.
     result_bind (fold_result (updates_of num ids ''batch interpretation'') interps []) (\<lambda>kis.
       Inr \<lparr>br_interpretations = interps, br_updates = kis\<rparr>)))"

section \<open>The model's reading\<close>

definition failed_reading :: "string \<Rightarrow> execution_step \<Rightarrow> json" where
  "failed_reading why st =
     JObj [(''tool_name'', JStr (es_tool st)), (''tool_input'', JStr (es_input st)),
           (''insight'', JStr (es_tool st @ ''('' @ es_input st @ '') '' @ why))]"

text \<open>\<open>_interpret_batch_fallback\<close>: the failure is the insight of every finished step.\<close>

definition interpret_batch_fallback :: "execution_step list \<Rightarrow> batch_result \<times> execution_step list" where
  "interpret_batch_fallback plan =
     (\<lparr>br_interpretations = map (failed_reading ''LLM interpretation failed'')
          (filter (\<lambda>st. es_status st = Step_DONE) plan), br_updates = []\<rparr>,
      map (\<lambda>st. if es_status st = Step_DONE
                then st\<lparr>es_insight := Some (es_tool st @ ''('' @ es_input st @ '') LLM interpretation failed'')\<rparr>
                else st) plan)"

definition interpret_level0 ::
  "interpreter_env \<Rightarrow> string set \<Rightarrow> execution_step list \<Rightarrow> (batch_result \<times> execution_step list) result" where
  "interpret_level0 env ids plan =
     (case result_bind (it_reply env) (parse_batch_result (it_num env) ids) of
        Inr br \<Rightarrow> Inr (br, plan)
      | Inl CancelledErr \<Rightarrow> Inl CancelledErr
      | Inl _ \<Rightarrow> Inr (interpret_batch_fallback plan))"

text \<open>
  The updates of one step's reading, kept up to the first one that raises; the flag tells
  whether one raised.
\<close>

fun updates_until_error ::
  "(string \<Rightarrow> rat option) \<Rightarrow> string set \<Rightarrow> json list \<Rightarrow> knowledge_item list \<times> bool" where
  "updates_until_error num ids [] = ([], False)"
| "updates_until_error num ids (ku # kus) =
     (case build_knowledge_update num ids ''step interpretation'' ku of
        Inl e \<Rightarrow> ([], True)
      | Inr u \<Rightarrow>
          let (rest, bad) = updates_until_error num ids kus
          in (case u of None \<Rightarrow> rest | Some ki \<Rightarrow> ki # rest, bad))"

definition step_updates :: "(string \<Rightarrow> rat option) \<Rightarrow> string set \<Rightarrow> json \<Rightarrow> knowledge_item list \<times> bool" where
  "step_updates num ids reply =
     (case result_bind (json_get reply ''knowledge_updates'' (JList [])) json_iter of
        Inl e \<Rightarrow> ([], True)
      | Inr kus \<Rightarrow> updates_until_error num ids kus)"

text \<open>
  \<open>_interpret_level1\<close>, the loop over the finished steps: a cancellation ends it, a step without
  text is left out, and a step whose reading fails is recorded as failed -- after its own reading
  when only an update of it was malformed.
\<close>

fun interpret_level1 ::
  "interpreter_env \<Rightarrow> string set \<Rightarrow> execution_step list \<Rightarrow> batch_result result" where
  "interpret_level1 env ids [] = Inr \<lparr>br_interpretations = [], br_updates = []\<rparr>"
| "interpret_level1 env ids (st # sts) =
     (let go_on = (\<lambda>interps kis. result_bind (interpret_level1 env ids sts) (\<lambda>br.
            Inr \<lparr>br_interpretations = interps @ br_interpretations br, br_updates = kis @ br_updates br\<rparr>))
      in result_bind (it_cancelled env st) (\<lambda>stop.
         if stop then Inr \<lparr>br_interpretations = [], br_updates = []\<rparr>
         else result_bind (it_rendered_one env st) (\<lambda>text.
           if text = [] then go_on [] []
           else (case it_step_reply env st of
                   Inl CancelledErr \<Rightarrow> Inl CancelledErr
                 | Inl _ \<Rightarrow> go_on [failed_reading ''Level 1 interpretation failed'' st] []
                 | Inr reply \<Rightarrow>
                     let (kis, bad) = step_updates (it_num env) ids reply
                     in go_on (if bad then [reply, failed_reading ''Level 1 interpretation failed'' st]
                               else [reply]) kis))))"

definition TOKEN_BUDGET_CHARS :: nat where
  "TOKEN_BUDGET_CHARS = 12000"

definition interpret_batch ::
  "interpreter_env \<Rightarrow> string set \<Rightarrow> execution_step list \<Rightarrow> (batch_result \<times> execution_step list) result" where
  "interpret_batch env ids plan =
     (let finished = filter (\<lambda>st. es_status st = Step_DONE) plan
      in if finished = [] then Inr (\<lparr>br_interpretations = [], br_updates = []\<rparr>, plan)
         else result_bind (it_rendered env plan) (\<lambda>text.
           if py_len text > TOKEN_BUDGET_CHARS
           then result_bind (interpret_level1 env ids finished) (\<lambda>br. Inr (br, plan))
           else interpret_level0 env ids plan))"

section \<open>Insights and facts\<close>

text \<open>\<open>_apply_batch_insights\<close>: a later reading of the same tool input replaces an earlier one.\<close>

fun insight_map :: "json list \<Rightarrow> (json \<times> json) list \<Rightarrow> (json \<times> json) list result" where
  "insight_map [] m = Inr m"
| "insight_map (interp # interps) m =
     result_bind (json_get interp ''tool_input'' (JStr [])) (\<lambda>k.
       if json_true k then
         result_bind (as_key k) (\<lambda>k.
         result_bind (json_get interp ''insight'' (JStr [])) (\<lambda>v. insight_map interps (dict_set k v m)))
       else insight_map interps m)"

definition no_insight :: "execution_step \<Rightarrow> bool" where
  "no_insight st \<longleftrightarrow> es_insight st \<in> {None, Some []}"

definition set_insight :: "interpreter_env \<Rightarrow> (json \<times> json) list \<Rightarrow> execution_step \<Rightarrow> execution_step" where
  "set_insight env m st =
     (if es_status st = Step_DONE \<and> no_insight st then
        (case map_of m (JStr (es_input st)) of
           Some v \<Rightarrow> if json_true v then st\<lparr>es_insight := Some (py_str (it_show env) v)\<rparr> else st
         | None \<Rightarrow> st)
      else st)"

definition apply_batch_insights ::
  "interpreter_env \<Rightarrow> json list \<Rightarrow> execution_step list \<Rightarrow> execution_step list result" where
  "apply_batch_insights env interps plan =
     result_bind (insight_map interps []) (\<lambda>m. Inr (map (set_insight env m) plan))"

text \<open>\<open>_populate_discovered_facts\<close>\<close>

definition fact_of :: "execution_step \<Rightarrow> string list" where
  "fact_of st =
     (case es_insight st of
        Some t \<Rightarrow> if es_status st = Step_DONE \<and> t \<noteq> []
                  then [CHR ''['' # es_tool st @ ''('' @ es_input st @ '')] '' @ t] else []
      | None \<Rightarrow> [])"

definition populate_discovered_facts :: "execution_step list \<Rightarrow> string list \<Rightarrow> string list" where
  "populate_discovered_facts plan facts = facts @ concat (map fact_of plan)"

section \<open>Loading of raw results\<close>

definition named :: "string \<Rightarrow> table_meta \<Rightarrow> bool" where
  "named n t \<longleftrightarrow> tm_table_name t = n"

text \<open>
  The loop over the tables of a dictionary: one without a name or with a known name is left out,
  the others are built with the given fields set.
\<close>

definition load_table ::
  "(string \<Rightarrow> rat option) \<Rightarrow> (string \<times> json) list \<Rightarrow> json \<Rightarrow> table_meta list \<Rightarrow> table_meta list result" where
  "load_table num fixed t_data tables =
     (case t_data of
        JObj d \<Rightarrow>
          (let n = obj_get d ''table_name'' (JStr [])
           in if \<not> json_true n then Inr tables
              else result_bind (as_key n) (\<lambda>n.
                if n \<in> JStr ` tm_table_name ` set tables then Inr tables
                else result_bind (read_table num (fold (\<lambda>(k, v). dict_set k v) fixed d)) (\<lambda>t.
                       Inr (tables @ [t]))))
      | _ \<Rightarrow> Inl AttributeError)"

text \<open>\<open>raw.get(k, [])\<close> and the loop over it; a raw result that is no dict has no entries.\<close>

definition raw_items :: "string \<Rightarrow> json \<Rightarrow> json list result" where
  "raw_items k raw = (case raw of JObj d \<Rightarrow> json_iter (obj_get d k (JList [])) | _ \<Rightarrow> Inr [])"

definition raw_list :: "json \<Rightarrow> json list" where
  "raw_list raw = (case raw of JList xs \<Rightarrow> xs | _ \<Rightarrow> [])"

definition pending_fields :: "execution_step \<Rightarrow> (string \<times> json) list" where
  "pending_fields st =
     [(''selection_status'', JStr ''PENDING''), (''source_step'', jint (es_step st)),
      (''hypothesis_id'', JStr (es_hypothesis_id st))]"

definition hydrate_tables_from_raw ::
  "(string \<Rightarrow> rat option) \<Rightarrow> execution_step \<Rightarrow> json \<Rightarrow> table_meta list \<Rightarrow> table_meta list result" where
  "hydrate_tables_from_raw num st raw tables =
     result_bind (raw_items ''tables'' raw) (\<lambda>ts. fold_result (load_table num (pending_fields st)) ts tables)"

definition load_use_case ::
  "interpreter_env \<Rightarrow> execution_step \<Rightarrow> json \<Rightarrow> use_case_entry list \<Rightarrow> use_case_entry list result" where
  "load_use_case env st uc_data ucs =
     (case uc_data of
        JObj d \<Rightarrow>
          (let i = py_str (it_show env) (obj_get d ''_point_id'' (JStr []))
           in if i = [] \<or> i \<in> uc_id ` set ucs then Inr ucs
              else result_bind (str_at d ''description'') (\<lambda>desc.
                   result_bind (str_at d ''sql'') (\<lambda>sql.
                   result_bind (str_at d ''domain'') (\<lambda>domain.
                   result_bind (float_field (it_num env) (obj_get d ''score'' (JNum 0))) (\<lambda>score.
                     Inr (ucs @ [\<lparr>uc_id = i, uc_description = desc, uc_sql = sql, uc_domain = domain,
                       uc_score = score, uc_point_id = i, uc_source_step = es_step st,
                       uc_hypothesis_id = es_hypothesis_id st, uc_relevant = False, uc_eval_reason = [],
                       uc_enrichment_tables = [], uc_enrichment_codes = []\<rparr>]))))))
      | _ \<Rightarrow> Inl AttributeError)"

definition hydrate_use_cases_from_raw ::
  "interpreter_env \<Rightarrow> execution_step \<Rightarrow> json \<Rightarrow> use_case_entry list \<Rightarrow> use_case_entry list result" where
  "hydrate_use_cases_from_raw env st raw ucs =
     result_bind (raw_items ''use_cases'' raw) (\<lambda>items. fold_result (load_use_case env st) items ucs)"

text \<open>The ids \<open>bt_001\<close>, \<open>bm_001\<close>, ...\<close>

definition numbered :: "string \<Rightarrow> nat \<Rightarrow> string" where
  "numbered pre n = (let ds = nat_digits n in pre @ replicate (3 - length ds) CHR ''0'' @ ds)"

definition load_biz_term ::
  "execution_step \<Rightarrow> json \<Rightarrow> nat \<times> biz_term_entry list \<Rightarrow> (nat \<times> biz_term_entry list) result" where
  "load_biz_term st item acc =
     (case item of
        JObj d \<Rightarrow>
          (let name = obj_get d ''name'' (JStr []); table = obj_get d ''table_name'' (JStr []);
               k = fst acc + 1; i = numbered ''bt_'' k
           in if \<not> json_true name then Inr acc
              else if i \<in> bt_id ` set (snd acc) then Inr (k, snd acc)
              else result_bind (str_field name) (\<lambda>term.
                   result_bind (str_at d ''biz_term_definition'') (\<lambda>definition.
                   result_bind (list_field str_field (obj_get d ''synonyms'' (JList []))) (\<lambda>synonyms.
                   result_bind (if json_true table then result_bind (str_field table) (\<lambda>t. Inr [t]) else Inr []) (\<lambda>related.
                     Inr (k, snd acc @ [\<lparr>bt_id = i, bt_term = term, bt_definition = definition,
                       bt_synonyms = synonyms, bt_related_tables = related, bt_source = es_input st,
                       bt_source_step = es_step st, bt_hypothesis_id = es_hypothesis_id st,
                       bt_selection_status = Sel_PENDING, bt_selection_reason = []\<rparr>]))))))
      | _ \<Rightarrow> Inl AttributeError)"

definition load_biz_manual ::
  "interpreter_env \<Rightarrow> execution_step \<Rightarrow> json \<Rightarrow> nat \<times> biz_manual_entry list \<Rightarrow> (nat \<times> biz_manual_entry list) result" where
  "load_biz_manual env st item acc =
     (case item of
        JObj d \<Rightarrow>
          (let content = py_or (obj_get d ''content'' (JStr [])) (obj_get d ''text'' (JStr []));
               k = fst acc + 1; i = numbered ''bm_'' k
           in if \<not> json_true content then Inr acc
              else if i \<in> bm_id ` set (snd acc) then Inr (k, snd acc)
              else result_bind (str_field content) (\<lambda>body.
                   result_bind (float_field (it_num env) (obj_get d ''score'' (JNum 0))) (\<lambda>score.
                     Inr (k, snd acc @ [\<lparr>bm_id = i, bm_content = body, bm_score = score, bm_source = es_input st,
                       bm_point_id = py_str (it_show env) (obj_get d ''_point_id'' (JStr [])),
                       bm_source_step = es_step st, bm_hypothesis_id = es_hypothesis_id st,
                       bm_selection_status = Sel_PENDING, bm_selection_reason = []\<rparr>]))))
      | _ \<Rightarrow> Inl AttributeError)"

definition load_code ::
  "json \<Rightarrow> (string \<times> code_meta) list \<Rightarrow> (string \<times> code_meta) list result" where
  "load_code item codes =
     (case item of
        JObj d \<Rightarrow>
          (let c = obj_get d ''code_field'' (JStr [])
           in if \<not> json_true c then Inr codes
              else result_bind (as_key c) (\<lambda>c.
                if c \<in> JStr ` fst ` set codes then Inr codes
                else result_bind (read_code [(''column_name'', c),
                       (''column_desc'', obj_get d ''code_field_desc'' (JStr [])),
                       (''codes'', obj_get d ''codes'' (JObj []))]) (\<lambda>cm.
                     Inr (codes @ [(cm_column_name cm, cm)]))))
      | _ \<Rightarrow> Inl AttributeError)"

text \<open>What the node collects about the catalogue.\<close>

record explored =
  ex_tables :: "table_meta list"
  ex_use_cases :: "use_case_entry list"
  ex_terms :: "biz_term_entry list"
  ex_manuals :: "biz_manual_entry list"
  ex_codes :: "(string \<times> code_meta) list"

text \<open>
  One step of \<open>_hydrate_from_raw_results\<close>; the counters of the term and manual ids run over the
  whole plan.
\<close>

definition hydrate_step ::
  "interpreter_env \<Rightarrow> execution_step \<Rightarrow> nat \<times> nat \<times> explored \<Rightarrow> (nat \<times> nat \<times> explored) result" where
  "hydrate_step env st acc =
     (case acc of (bt, bm, ex) \<Rightarrow>
        case es_raw_result st of
          None \<Rightarrow> Inr acc
        | Some raw \<Rightarrow>
            if es_status st \<noteq> Step_DONE then Inr acc
            else if es_tool st \<in> set TABLE_META_TOOLS then
              result_bind (hydrate_tables_from_raw (it_num env) st raw (ex_tables ex)) (\<lambda>ts.
                Inr (bt, bm, ex\<lparr>ex_tables := ts\<rparr>))
            else if es_tool st = ''search_use_cases'' then
              result_bind (hydrate_use_cases_from_raw env st raw (ex_use_cases ex)) (\<lambda>ucs.
                Inr (bt, bm, ex\<lparr>ex_use_cases := ucs\<rparr>))
            else if es_tool st = ''search_biz_terms'' then
              result_bind (fold_result (load_biz_term st) (raw_list raw) (bt, ex_terms ex)) (\<lambda>(bt', ts).
                Inr (bt', bm, ex\<lparr>ex_terms := ts\<rparr>))
            else if es_tool st = ''search_manual'' then
              result_bind (fold_result (load_biz_manual env st) (raw_list raw) (bm, ex_manuals ex)) (\<lambda>(bm', ms).
                Inr (bt, bm', ex\<lparr>ex_manuals := ms\<rparr>))
            else if es_tool st = ''lookup_code_meta'' then
              result_bind (fold_result load_code (raw_list raw) (ex_codes ex)) (\<lambda>cs.
                Inr (bt, bm, ex\<lparr>ex_codes := cs\<rparr>))
            else Inr acc)"

definition hydrate_from_raw_results ::
  "interpreter_env \<Rightarrow> execution_step list \<Rightarrow> explored \<Rightarrow> explored result" where
  "hydrate_from_raw_results env plan ex =
     result_bind (fold_result (hydrate_step env) plan (length (ex_terms ex), length (ex_manuals ex), ex))
       (\<lambda>(bt, bm, ex'). Inr ex')"

section \<open>Judgements\<close>

definition parse_selection_status :: "json \<Rightarrow> selection_status" where
  "parse_selection_status v = (case selection_status_of v of Inr st \<Rightarrow> st | Inl _ \<Rightarrow> Sel_PENDING)"

text \<open>\<open>_build_enrichment_table_index\<close>\<close>

definition index_table :: "json \<Rightarrow> (json \<times> json) list \<Rightarrow> (json \<times> json) list result" where
  "index_table t_data index =
     result_bind (json_get t_data ''table_name'' (JStr [])) (\<lambda>n.
       if \<not> json_true n then Inr index
       else result_bind (as_key n) (\<lambda>n. Inr (if n \<in> fst ` set index then index else index @ [(n, t_data)])))"

definition index_use_case :: "json \<Rightarrow> (json \<times> json) list \<Rightarrow> (json \<times> json) list result" where
  "index_use_case uc_data index =
     result_bind (json_get uc_data ''enrichment_tables'' (JList [])) (\<lambda>v.
     result_bind (json_iter v) (\<lambda>ts. fold_result index_table ts index))"

definition index_step :: "execution_step \<Rightarrow> (json \<times> json) list \<Rightarrow> (json \<times> json) list result" where
  "index_step st index =
     (case es_raw_result st of
        Some raw \<Rightarrow>
          if es_tool st = ''search_use_cases''
          then result_bind (raw_items ''use_cases'' raw) (\<lambda>ucs. fold_result index_use_case ucs index)
          else Inr index
      | None \<Rightarrow> Inr index)"

definition build_enrichment_table_index :: "execution_step list \<Rightarrow> (json \<times> json) list result" where
  "build_enrichment_table_index plan = fold_result index_step plan []"

text \<open>\<open>_create_table_from_enrichment\<close>\<close>

definition create_table_from_enrichment ::
  "(string \<Rightarrow> rat option) \<Rightarrow> json \<Rightarrow> json \<Rightarrow> table_meta result" where
  "create_table_from_enrichment num t_data why =
     (case t_data of
        JObj d \<Rightarrow> read_table num (dict_set ''selection_reason'' why
                    (dict_set ''selection_status'' (JStr ''SELECTED'') d))
      | _ \<Rightarrow> Inl AttributeError)"

definition judge_table_entry :: "interpreter_env \<Rightarrow> json \<Rightarrow> json \<Rightarrow> table_meta \<Rightarrow> table_meta" where
  "judge_table_entry env st why t =
     (if tm_selection_status t \<in> {Sel_PENDING, REFERENCE}
      then t\<lparr>tm_selection_status := parse_selection_status st, tm_selection_reason := reason_text env why\<rparr>
      else t)"

definition apply_table_judgment ::
  "interpreter_env \<Rightarrow> (json \<times> json) list \<Rightarrow> json \<Rightarrow> table_meta list \<Rightarrow> table_meta list result" where
  "apply_table_judgment env index j tables =
     result_bind (json_get j ''table_name'' (JStr [])) (\<lambda>n.
     result_bind (json_get j ''status'' (JStr [])) (\<lambda>st.
     result_bind (json_get j ''reason'' (JStr [])) (\<lambda>why.
     result_bind (as_key n) (\<lambda>n.
       if n \<in> JStr ` tm_table_name ` set tables
       then Inr (update_last (\<lambda>t. JStr (tm_table_name t) = n) (judge_table_entry env st why) tables)
       else if st = JStr ''SELECTED'' \<and> n \<in> fst ` set index
       then result_bind (create_table_from_enrichment (it_num env) (the (map_of index n)) why) (\<lambda>t.
              Inr (tables @ [t]))
       else Inr tables))))"

definition apply_use_case_judgment ::
  "interpreter_env \<Rightarrow> json \<Rightarrow> use_case_entry list \<Rightarrow> use_case_entry list result" where
  "apply_use_case_judgment env j ucs =
     result_bind (json_get j ''sql_id'' (JStr [])) (\<lambda>i.
     result_bind (as_key i) (\<lambda>i.
       if i \<notin> JStr ` uc_id ` set ucs then Inr ucs
       else result_bind (json_get j ''status'' (JStr [])) (\<lambda>st.
            result_bind (json_get j ''reason'' (JStr [])) (\<lambda>why.
              Inr (update_last (\<lambda>uc. JStr (uc_id uc) = i)
                (\<lambda>uc. uc\<lparr>uc_relevant := (st = JStr ''SELECTED''), uc_eval_reason := reason_text env why\<rparr>) ucs)))))"

definition apply_biz_term_judgment ::
  "interpreter_env \<Rightarrow> json \<Rightarrow> biz_term_entry list \<Rightarrow> biz_term_entry list result" where
  "apply_biz_term_judgment env j bts =
     result_bind (json_get j ''biz_term_id'' (JStr [])) (\<lambda>i.
     result_bind (as_key i) (\<lambda>i.
       if i \<notin> JStr ` bt_id ` set bts then Inr bts
       else result_bind (json_get j ''status'' (JStr [])) (\<lambda>st.
            result_bind (json_get j ''reason'' (JStr [])) (\<lambda>why.
              Inr (update_last (\<lambda>bt. JStr (bt_id bt) = i)
                (\<lambda>bt. if bt_selection_status bt = Sel_PENDING
                      then bt\<lparr>bt_selection_status := parse_selection_status st,
                              bt_selection_reason := reason_text env why\<rparr> else bt) bts)))))"

definition apply_biz_manual_judgment ::
  "interpreter_env \<Rightarrow> json \<Rightarrow> biz_manual_entry list \<Rightarrow> biz_manual_entry list result" where
  "apply_biz_manual_judgment env j bms =
     result_bind (json_get j ''biz_manual_id'' (JStr [])) (\<lambda>i.
     result_bind (as_key i) (\<lambda>i.
       if i \<notin> JStr ` bm_id ` set bms then Inr bms
       else result_bind (json_get j ''status'' (JStr [])) (\<lambda>st.
            result_bind (json_get j ''reason'' (JStr [])) (\<lambda>why.
              Inr (update_last (\<lambda>bm. JStr (bm_id bm) = i)
                (\<lambda>bm. if bm_selection_status bm = Sel_PENDING
                      then bm\<lparr>bm_selection_status := parse_selection_status st,
                              bm_selection_reason := reason_text env why\<rparr> else bm) bms)))))"

text \<open>\<open>interp.get(k, [])\<close> and the loop over it.\<close>

definition judgments :: "string \<Rightarrow> json \<Rightarrow> json list result" where
  "judgments k interp = result_bind (json_get interp k (JList [])) json_iter"

definition apply_judgments_of ::
  "interpreter_env \<Rightarrow> (json \<times> json) list \<Rightarrow> json \<Rightarrow> explored \<Rightarrow> explored result" where
  "apply_judgments_of env index interp ex =
     result_bind (judgments ''explored_tables'' interp) (\<lambda>js.
     result_bind (fold_result (apply_table_judgment env index) js (ex_tables ex)) (\<lambda>ts.
     result_bind (judgments ''explored_use_cases'' interp) (\<lambda>js.
     result_bind (fold_result (apply_use_case_judgment env) js (ex_use_cases ex)) (\<lambda>ucs.
     result_bind (judgments ''explored_biz_terms'' interp) (\<lambda>js.
     result_bind (fold_result (apply_biz_term_judgment env) js (ex_terms ex)) (\<lambda>bts.
     result_bind (judgments ''explored_biz_manuals'' interp) (\<lambda>js.
     result_bind (fold_result (apply_biz_manual_judgment env) js (ex_manuals ex)) (\<lambda>bms.
       Inr (ex\<lparr>ex_tables := ts, ex_use_cases := ucs, ex_terms := bts, ex_manuals := bms\<rparr>)))))))))"

definition apply_judgments ::
  "interpreter_env \<Rightarrow> json list \<Rightarrow> execution_step list \<Rightarrow> explored \<Rightarrow> explored result" where
  "apply_judgments env interps plan ex =
     result_bind (build_enrichment_table_index plan) (\<lambda>index.
       fold_result (apply_judgments_of env index) interps ex)"

section \<open>Observations\<close>

definition input_parts :: "execution_step \<Rightarrow> string list" where
  "input_parts st = map py_strip (split_char CHR '','' (es_input st))"

text \<open>\<open>_resolve_table_for_step\<close>: the name of the table.\<close>

definition step_table :: "execution_step \<Rightarrow> string" where
  "step_table st = bare_name (hd (input_parts st))"

definition step_column :: "execution_step \<Rightarrow> string" where
  "step_column st = (case input_parts st of _ # c # _ \<Rightarrow> c | _ \<Rightarrow> [])"

definition row_of :: "json \<Rightarrow> (string \<times> json) list" where
  "row_of v = (case v of JObj d \<Rightarrow> d | _ \<Rightarrow> [])"

definition apply_sample_rows :: "json \<Rightarrow> table_meta \<Rightarrow> table_meta" where
  "apply_sample_rows raw t =
     (case raw of
        JList rows \<Rightarrow> if tm_sample_rows t = None then t\<lparr>tm_sample_rows := Some (map row_of rows)\<rparr> else t
      | _ \<Rightarrow> t)"

definition infer_date_pattern :: "string \<Rightarrow> string" where
  "infer_date_pattern sample =
     (if py_len sample = 8 then ''YYYYMMDD''
      else if py_len sample = 6 then ''YYYYMM''
      else if py_len sample = 10 \<and> CHR ''-'' \<in> set sample then ''YYYY-MM-DD''
      else sample)"

definition first_ten :: "json \<Rightarrow> json list result" where
  "first_ten v =
     (case v of JList xs \<Rightarrow> Inr (take 10 xs) | JStr t \<Rightarrow> Inr (map (\<lambda>c. JStr [c]) (take 10 t)) | _ \<Rightarrow> Inl TypeErr)"

definition apply_date_distribution ::
  "interpreter_env \<Rightarrow> execution_step \<Rightarrow> json \<Rightarrow> table_meta \<Rightarrow> table_meta result" where
  "apply_date_distribution env st raw t =
     (case raw of
        JObj d \<Rightarrow>
          (let c = step_column st; dates = obj_get d ''dates'' (JList [])
           in if c = [] \<or> \<not> json_true dates then Inr t
              else result_bind (json_iter dates) (\<lambda>vs.
                (let ds = sort (map (py_str (it_show env)) vs)
                 in if c \<in> od_column_name ` set (tm_observed_date_columns t) then Inr t
                    else result_bind (first_ten (obj_get d ''recent_values'' (JList []))) (\<lambda>recent.
                      Inr (t\<lparr>tm_observed_date_columns := tm_observed_date_columns t @
                        [\<lparr>od_column_name = c, od_date_range = hd ds @ '' ~ '' @ last ds,
                          od_date_pattern = infer_date_pattern (hd ds),
                          od_recent_values = map (py_str (it_show env)) recent\<rparr>]\<rparr>)))))
      | _ \<Rightarrow> Inr t)"

definition update_column :: "string \<Rightarrow> (column_info \<Rightarrow> column_info) \<Rightarrow> table_meta \<Rightarrow> table_meta" where
  "update_column c f t =
     (if c = [] then t else t\<lparr>tm_columns := update_first (\<lambda>ci. col_name ci = c) f (tm_columns t)\<rparr>)"

definition add_values :: "string list \<Rightarrow> column_info \<Rightarrow> column_info" where
  "add_values vs ci =
     ci\<lparr>col_discovered_values := Some (case col_discovered_values ci of
          None \<Rightarrow> vs | Some old \<Rightarrow> old @ filter (\<lambda>v. v \<notin> set old) vs)\<rparr>"

definition apply_column_values :: "interpreter_env \<Rightarrow> execution_step \<Rightarrow> json \<Rightarrow> table_meta \<Rightarrow> table_meta" where
  "apply_column_values env st raw t =
     (case raw of
        JList vs \<Rightarrow> update_column (step_column st) (add_values (map (py_str (it_show env)) vs)) t
      | _ \<Rightarrow> t)"

text \<open>
  A profile entry; one that is absent or null leaves the field alone.  The tool counts rows, so a
  count is a whole number.
\<close>

definition number_entry :: "(string \<times> json) list \<Rightarrow> string \<Rightarrow> rat option \<Rightarrow> rat option" where
  "number_entry d k old = (case obj_get d k JNull of JNum q \<Rightarrow> Some q | _ \<Rightarrow> old)"

definition count_entry :: "(string \<times> json) list \<Rightarrow> string \<Rightarrow> int option \<Rightarrow> int option" where
  "count_entry d k old = map_option floor (number_entry d k (map_option of_int old))"

definition text_entry :: "interpreter_env \<Rightarrow> (string \<times> json) list \<Rightarrow> string \<Rightarrow> string option \<Rightarrow> string option" where
  "text_entry env d k old =
     (let v = obj_get d k JNull in if v = JNull then old else Some (py_str (it_show env) v))"

definition set_profile :: "interpreter_env \<Rightarrow> (string \<times> json) list \<Rightarrow> column_info \<Rightarrow> column_info" where
  "set_profile env d ci =
     ci\<lparr>col_total_rows := count_entry d ''total_rows'' (col_total_rows ci),
        col_non_null_count := count_entry d ''non_null_count'' (col_non_null_count ci),
        col_null_count := count_entry d ''null_count'' (col_null_count ci),
        col_null_rate := number_entry d ''null_rate'' (col_null_rate ci),
        col_distinct_count := count_entry d ''distinct_count'' (col_distinct_count ci),
        col_min_val := text_entry env d ''min_val'' (col_min_val ci),
        col_max_val := text_entry env d ''max_val'' (col_max_val ci)\<rparr>"

definition apply_column_profile :: "interpreter_env \<Rightarrow> execution_step \<Rightarrow> json \<Rightarrow> table_meta \<Rightarrow> table_meta" where
  "apply_column_profile env st raw t =
     (case raw of JObj d \<Rightarrow> update_column (step_column st) (set_profile env d) t | _ \<Rightarrow> t)"

text \<open>\<open>_OBS_DISPATCHERS\<close>\<close>

definition observe :: "interpreter_env \<Rightarrow> execution_step \<Rightarrow> json \<Rightarrow> table_meta \<Rightarrow> table_meta result" where
  "observe env st raw t =
     (if es_tool st = ''get_sample_rows'' then Inr (apply_sample_rows raw t)
      else if es_tool st = ''get_date_distribution'' then apply_date_distribution env st raw t
      else if es_tool st = ''get_column_values'' then Inr (apply_column_values env st raw t)
      else if es_tool st = ''get_column_profile'' then Inr (apply_column_profile env st raw t)
      else Inr t)"

text \<open>The last table of the step's name is observed; names do not change on the way.\<close>

fun observe_first :: "(table_meta \<Rightarrow> table_meta result) \<Rightarrow> string \<Rightarrow> table_meta list \<Rightarrow> table_meta list result" where
  "observe_first f n [] = Inr []"
| "observe_first f n (t # ts) =
     (if tm_table_name t = n then result_bind (f t) (\<lambda>t'. Inr (t' # ts))
      else result_bind (observe_first f n ts) (\<lambda>ts'. Inr (t # ts')))"

definition observe_step :: "interpreter_env \<Rightarrow> execution_step \<Rightarrow> table_meta list \<Rightarrow> table_meta list result" where
  "observe_step env st tables =
     (case es_raw_result st of
        Some raw \<Rightarrow>
          if es_status st = Step_DONE
          then result_bind (observe_first (observe env st raw) (step_table st) (rev tables)) (\<lambda>ts. Inr (rev ts))
          else Inr tables
      | None \<Rightarrow> Inr tables)"

definition apply_observation_data ::
  "interpreter_env \<Rightarrow> execution_step list \<Rightarrow> table_meta list \<Rightarrow> table_meta list result" where
  "apply_observation_data env plan tables = fold_result (observe_step env) plan tables"

section \<open>Follow-up look-ups of selected use cases\<close>

definition select_id :: "json \<Rightarrow> json list \<Rightarrow> json list result" where
  "select_id j sel =
     result_bind (json_get j ''status'' (JStr [])) (\<lambda>st.
       if st \<noteq> JStr ''SELECTED'' then Inr sel
       else result_bind (json_get j ''sql_id'' (JStr [])) (\<lambda>i.
              if json_true i then result_bind (as_key i) (\<lambda>i. Inr (sel @ [i])) else Inr sel))"

definition collect_selected_use_case_ids :: "json list \<Rightarrow> json list result" where
  "collect_selected_use_case_ids interps =
     fold_result (\<lambda>interp sel. result_bind (judgments ''explored_use_cases'' interp) (\<lambda>js. fold_result select_id js sel))
       interps []"

definition load_enrichment_code ::
  "string \<times> json \<Rightarrow> (string \<times> code_meta) list \<Rightarrow> (string \<times> code_meta) list result" where
  "load_enrichment_code kv codes =
     (if fst kv \<in> fst ` set codes then Inr codes
      else result_bind (json_get (snd kv) ''column_name'' (JStr (fst kv))) (\<lambda>c.
           result_bind (json_get (snd kv) ''column_desc'' (JStr [])) (\<lambda>desc.
           result_bind (json_get (snd kv) ''codes'' (JObj [])) (\<lambda>cs.
           result_bind (read_code [(''column_name'', c), (''column_desc'', desc), (''codes'', cs)]) (\<lambda>cm.
             Inr (codes @ [(fst kv, cm)]))))))"

definition items_of :: "json \<Rightarrow> (string \<times> json) list result" where
  "items_of v = (case v of JObj d \<Rightarrow> Inr d | _ \<Rightarrow> Inl AttributeError)"

definition enrich_use_case ::
  "interpreter_env \<Rightarrow> json list \<Rightarrow> json \<Rightarrow> explored \<Rightarrow> explored result" where
  "enrich_use_case env sel uc_data ex =
     (case uc_data of
        JObj d \<Rightarrow>
          (let i = py_str (it_show env) (obj_get d ''_point_id'' (JStr []))
           in if i = [] \<or> JStr i \<notin> set sel then Inr ex
              else result_bind (json_iter (obj_get d ''enrichment_tables'' (JList []))) (\<lambda>ts.
                   result_bind (fold_result (load_table (it_num env) [(''selection_status'', JStr ''REFERENCE'')])
                                  ts (ex_tables ex)) (\<lambda>tables.
                   result_bind (items_of (obj_get d ''enrichment_codes'' (JObj []))) (\<lambda>kvs.
                   result_bind (fold_result load_enrichment_code kvs (ex_codes ex)) (\<lambda>codes.
                     Inr (ex\<lparr>ex_tables := tables, ex_codes := codes\<rparr>))))))
      | _ \<Rightarrow> Inl AttributeError)"

definition enrich_step :: "interpreter_env \<Rightarrow> json list \<Rightarrow> execution_step \<Rightarrow> explored \<Rightarrow> explored result" where
  "enrich_step env sel st ex =
     (case es_raw_result st of
        Some raw \<Rightarrow>
          if es_tool st = ''search_use_cases'' \<and> es_status st = Step_DONE
          then result_bind (raw_items ''use_cases'' raw) (\<lambda>ucs. fold_result (enrich_use_case env sel) ucs ex)
          else Inr ex
      | None \<Rightarrow> Inr ex)"

definition hydrate_enrichment ::
  "interpreter_env \<Rightarrow> json list \<Rightarrow> execution_step list \<Rightarrow> explored \<Rightarrow> explored result" where
  "hydrate_enrichment env sel plan ex = fold_result (enrich_step env sel) plan ex"

section \<open>The knowledge after the judgements\<close>

definition TABLE_KEY_PREFIX :: string where
  "TABLE_KEY_PREFIX = ''table:''"

text \<open>The table a knowledge item is about.\<close>

definition item_table :: "knowledge_item \<Rightarrow> string option" where
  "item_table ki =
     (if starts_with (ki_key ki) TABLE_KEY_PREFIX then Some (drop (length TABLE_KEY_PREFIX) (ki_key ki)) else None)"

definition is_rejected_table_knowledge :: "string set \<Rightarrow> knowledge_item \<Rightarrow> bool" where
  "is_rejected_table_knowledge rejected ki \<longleftrightarrow> (case item_table ki of None \<Rightarrow> False | Some n \<Rightarrow> n \<in> rejected)"

definition rejected_names :: "table_meta list \<Rightarrow> string set" where
  "rejected_names tables = set (map tm_table_name (filter (\<lambda>t. tm_selection_status t = REJECTED) tables))"

definition cleanup_rejected_knowledge :: "table_meta list \<Rightarrow> knowledge_item list \<Rightarrow> knowledge_item list" where
  "cleanup_rejected_knowledge tables kis =
     filter (\<lambda>ki. \<not> is_rejected_table_knowledge (rejected_names tables) ki) kis"

fun status_rank :: "confidence_status \<Rightarrow> nat" where
  "status_rank UNRESOLVED = 0"
| "status_rank CONFLICTED = 0"
| "status_rank CANDIDATE = 1"
| "status_rank PROBABLE = 2"
| "status_rank CONFIRMED = 3"

definition should_promote :: "confidence_status \<Rightarrow> confidence_status \<Rightarrow> bool" where
  "should_promote current incoming \<longleftrightarrow> status_rank incoming > status_rank current"

definition add_evidence :: "string list \<Rightarrow> string list \<Rightarrow> string list" where
  "add_evidence new old = fold (\<lambda>ev evs. if ev \<noteq> [] \<and> ev \<notin> set evs then evs @ [ev] else evs) new old"

definition merge_item :: "knowledge_item \<Rightarrow> knowledge_item \<Rightarrow> knowledge_item" where
  "merge_item upd base =
     base\<lparr>ki_value := (if ki_value upd \<noteq> [] then ki_value upd else ki_value base),
          ki_status := (if should_promote (ki_status base) (ki_status upd) then ki_status upd else ki_status base),
          ki_confidence := max (ki_confidence base) (ki_confidence upd),
          ki_source := (if ki_source upd \<noteq> [] then ki_source upd else ki_source base),
          ki_evidence := add_evidence (ki_evidence upd) (ki_evidence base)\<rparr>"

definition merge_updates_into_items :: "knowledge_item list \<Rightarrow> knowledge_item list \<Rightarrow> knowledge_item list" where
  "merge_updates_into_items updates kis =
     fold (\<lambda>upd. update_last (\<lambda>ki. ki_id ki \<noteq> [] \<and> ki_id ki = ki_id upd) (merge_item upd)) updates kis"

text \<open>\<open>_dedup_knowledge_items\<close>: per id the first item of highest confidence, items without an id go.\<close>

fun dedup_from :: "knowledge_item list \<Rightarrow> knowledge_item list \<Rightarrow> knowledge_item list" where
  "dedup_from seen [] = []"
| "dedup_from seen (ki # kis) =
     (if ki_id ki \<noteq> [] \<and>
         \<not> (\<exists>x\<in>set seen. ki_id x = ki_id ki \<and> ki_confidence x \<ge> ki_confidence ki) \<and>
         \<not> (\<exists>x\<in>set kis. ki_id x = ki_id ki \<and> ki_confidence x > ki_confidence ki)
      then ki # dedup_from (seen @ [ki]) kis else dedup_from (seen @ [ki]) kis)"

definition dedup_knowledge_items :: "knowledge_item list \<Rightarrow> knowledge_item list" where
  "dedup_knowledge_items kis = dedup_from [] kis"

definition sampled_names :: "table_meta list \<Rightarrow> string set" where
  "sampled_names tables = set (map tm_table_name (filter (\<lambda>t. tm_sample_rows t \<notin> {None, Some []}) tables))"

definition promote_sampled :: "string set \<Rightarrow> knowledge_item \<Rightarrow> knowledge_item" where
  "promote_sampled names ki =
     (case item_table ki of
        None \<Rightarrow> ki
      | Some n \<Rightarrow>
          if n \<in> names \<and> ki_confidence ki < 4/5
          then ki\<lparr>ki_confidence := 17/20, ki_status := CONFIRMED,
                  ki_evidence := ki_evidence ki @ [''sample data checked'']\<rparr>
          else ki)"

definition promote_sampled_confidence :: "table_meta list \<Rightarrow> knowledge_item list \<Rightarrow> knowledge_item list" where
  "promote_sampled_confidence tables kis = map (promote_sampled (sampled_names tables)) kis"

definition clear_raw_results :: "execution_step list \<Rightarrow> execution_step list" where
  "clear_raw_results plan =
     map (\<lambda>st. if es_status st = Step_DONE then st\<lparr>es_raw_result := None\<rparr> else st) plan"

definition update_knowledge :: "table_meta list \<Rightarrow> knowledge_item list \<Rightarrow> knowledge_item list \<Rightarrow> knowledge_item list" where
  "update_knowledge tables updates kis =
     promote_sampled_confidence tables
       (dedup_knowledge_items (merge_updates_into_items updates (cleanup_rejected_knowledge tables kis)))"

section \<open>The node\<close>

definition known_ids :: "knowledge_item list \<Rightarrow> string set" where
  "known_ids kis = {i \<in> ki_id ` set kis. i \<noteq> []}"

definition explored_of :: "reasoning_state \<Rightarrow> explored" where
  "explored_of r = \<lparr>ex_tables = explored_tables r, ex_use_cases = explored_use_cases r,
     ex_terms = explored_biz_terms r, ex_manuals = explored_biz_manuals r, ex_codes = explored_codes r\<rparr>"

text \<open>Steps 2.5 to 5: what the node makes of the catalogue.\<close>

definition interpret_catalogue ::
  "interpreter_env \<Rightarrow> json list \<Rightarrow> execution_step list \<Rightarrow> explored \<Rightarrow> explored result" where
  "interpret_catalogue env interps plan ex =
     result_bind (hydrate_from_raw_results env plan ex) (\<lambda>ex1.
     result_bind (apply_judgments env interps plan ex1) (\<lambda>ex2.
     result_bind (apply_observation_data env plan (ex_tables ex2)) (\<lambda>ts.
     result_bind (collect_selected_use_case_ids interps) (\<lambda>sel.
       hydrate_enrichment env sel plan (ex2\<lparr>ex_tables := ts\<rparr>)))))"

definition context_interpreter_node :: "interpreter_env \<Rightarrow> pipeline_state \<Rightarrow> pipeline_state result" where
  "context_interpreter_node env s =
     (let r = reason s
      in result_bind (interpret_batch env (known_ids (knowledge_items r)) (execution_plan r)) (\<lambda>(br, plan0).
         result_bind (apply_batch_insights env (br_interpretations br) plan0) (\<lambda>plan.
         result_bind (interpret_catalogue env (br_interpretations br) plan (explored_of r)) (\<lambda>ex.
           Inr (s\<lparr>reason := r\<lparr>
             knowledge_items := update_knowledge (ex_tables ex) (br_updates br) (knowledge_items r),
             explored_tables := ex_tables ex, explored_use_cases := ex_use_cases ex,
             explored_biz_terms := ex_terms ex, explored_biz_manuals := ex_manuals ex,
             explored_codes := ex_codes ex, execution_plan := clear_raw_results plan,
             discovered_facts := populate_discovered_facts plan (discovered_facts r)\<rparr>\<rparr>)))))"

section \<open>Facts about the knowledge\<close>

lemma length_update_last [simp]: "length (update_last p f xs) = length xs"
  by (simp add: update_last_def)

lemma map_update_last: "(\<And>x. p x \<Longrightarrow> g (f x) = g x) \<Longrightarrow> map g (update_last p f xs) = map g xs"
  by (simp add: update_last_def rev_map [symmetric] map_update_first)

lemma update_first_rel: "(\<And>x. R x x) \<Longrightarrow> (\<And>x. R x (f x)) \<Longrightarrow> list_all2 R xs (update_first p f xs)"
  by (induction xs) (auto intro: list_all2_refl)

lemma update_last_rel: "(\<And>x. R x x) \<Longrightarrow> (\<And>x. R x (f x)) \<Longrightarrow> list_all2 R xs (update_last p f xs)"
  unfolding update_last_def using update_first_rel [of R f "rev xs" p] by (metis list_all2_rev1)

text \<open>What a run may do to an item: only add evidence and confidence, never demote.\<close>

definition ki_evolves :: "knowledge_item \<Rightarrow> knowledge_item \<Rightarrow> bool" where
  "ki_evolves ki ki' \<longleftrightarrow>
     ki_id ki' = ki_id ki \<and> ki_key ki' = ki_key ki \<and> ki_is_critical ki' = ki_is_critical ki \<and>
     status_rank (ki_status ki) \<le> status_rank (ki_status ki') \<and> ki_confidence ki \<le> ki_confidence ki' \<and>
     prefix (ki_evidence ki) (ki_evidence ki') \<and>
     (ki_status ki' = CONFLICTED \<longrightarrow> ki_status ki = CONFLICTED)"

lemma ki_evolves_refl [simp]: "ki_evolves ki ki"
  by (simp add: ki_evolves_def)

lemma ki_evolves_trans: "ki_evolves a b \<Longrightarrow> ki_evolves b c \<Longrightarrow> ki_evolves a c"
  by (auto simp: ki_evolves_def)

lemma add_evidence_prefix: "prefix old (add_evidence new old)"
  unfolding add_evidence_def
proof (induction new arbitrary: old)
  case (Cons ev new)
  show ?case
  proof (cases "ev \<noteq> [] \<and> ev \<notin> set old")
    case True
    with Cons.IH [of "old @ [ev]"] show ?thesis by (auto intro: prefix_order.trans [of old "old @ [ev]"])
  next
    case False
    with Cons.IH [of old] show ?thesis by auto
  qed
qed simp

lemma merge_item_evolves: "ki_evolves ki (merge_item upd ki)"
proof -
  have "should_promote (ki_status ki) (ki_status upd) \<Longrightarrow> ki_status upd \<noteq> CONFLICTED"
    by (auto simp: should_promote_def)
  then show ?thesis
    by (auto simp: ki_evolves_def merge_item_def add_evidence_prefix should_promote_def)
qed

lemma merge_updates_evolves: "list_all2 ki_evolves kis (merge_updates_into_items updates kis)"
  unfolding merge_updates_into_items_def
proof (induction updates arbitrary: kis)
  case Nil
  then show ?case by (simp add: list_all2_refl)
next
  case (Cons upd updates)
  let ?step = "update_last (\<lambda>ki. ki_id ki \<noteq> [] \<and> ki_id ki = ki_id upd) (merge_item upd)"
  have "list_all2 ki_evolves kis (?step kis)"
    by (rule update_last_rel) (simp_all add: merge_item_evolves)
  moreover have "list_all2 ki_evolves (?step kis)
      (fold (\<lambda>upd. update_last (\<lambda>ki. ki_id ki \<noteq> [] \<and> ki_id ki = ki_id upd) (merge_item upd)) updates (?step kis))"
    by (rule Cons.IH)
  ultimately show ?case
    by (simp add: list_all2_trans [of ki_evolves ki_evolves ki_evolves, OF ki_evolves_trans])
qed

lemma promote_sampled_evolves: "ki_evolves ki (promote_sampled names ki)"
  by (cases "ki_status ki") (auto simp: promote_sampled_def ki_evolves_def split: option.splits)

lemma promote_evolves: "list_all2 ki_evolves kis (promote_sampled_confidence tables kis)"
  by (simp add: promote_sampled_confidence_def list_all2_conv_all_nth promote_sampled_evolves)

lemma dedup_from_subseq: "subseq (dedup_from seen kis) kis"
  by (induction seen kis rule: dedup_from.induct) auto

lemma dedup_from_distinct:
  "distinct (map ki_id kis) \<Longrightarrow> [] \<notin> ki_id ` set kis \<Longrightarrow> ki_id ` set seen \<inter> ki_id ` set kis = {} \<Longrightarrow>
   dedup_from seen kis = kis"
  by (induction seen kis rule: dedup_from.induct) (auto simp: image_iff)

lemma evolves_ids: "list_all2 ki_evolves kis kis' \<Longrightarrow> map ki_id kis' = map ki_id kis"
  by (induction rule: list_all2_induct) (auto simp: ki_evolves_def)

text \<open>With the ids the preparer numbers, only items of rejected tables go.\<close>

lemma update_knowledge_evolves:
  assumes "distinct (map ki_id kis)" and "[] \<notin> ki_id ` set kis"
  shows "list_all2 ki_evolves (cleanup_rejected_knowledge tables kis) (update_knowledge tables updates kis)"
proof -
  let ?k = "cleanup_rejected_knowledge tables kis"
  let ?m = "merge_updates_into_items updates ?k"
  have m: "list_all2 ki_evolves ?k ?m" by (rule merge_updates_evolves)
  have ids: "map ki_id ?m = map ki_id ?k" by (rule evolves_ids [OF m])
  have "distinct (map ki_id ?k)" using assms(1) by (simp add: cleanup_rejected_knowledge_def distinct_map_filter)
  moreover have "[] \<notin> set (map ki_id ?k)" using assms(2) by (auto simp: cleanup_rejected_knowledge_def)
  ultimately have "distinct (map ki_id ?m)" "[] \<notin> set (map ki_id ?m)" by (simp_all only: ids not_False_eq_True)
  then have "dedup_knowledge_items ?m = ?m"
    unfolding dedup_knowledge_items_def by (intro dedup_from_distinct) auto
  then have "update_knowledge tables updates kis = promote_sampled_confidence tables ?m"
    by (simp add: update_knowledge_def)
  then show ?thesis
    using list_all2_trans [of ki_evolves ki_evolves ki_evolves, OF ki_evolves_trans m promote_evolves] by simp
qed

text \<open>In general every item that remains comes from one of the same id.\<close>

lemma update_knowledge_origin:
  assumes "ki' \<in> set (update_knowledge tables updates kis)"
  shows "\<exists>ki\<in>set kis. ki_evolves ki ki'"
proof -
  have all2: "\<And>xs ys y. list_all2 ki_evolves xs ys \<Longrightarrow> y \<in> set ys \<Longrightarrow> \<exists>x\<in>set xs. ki_evolves x y"
    by (metis in_set_conv_nth list_all2_conv_all_nth)
  let ?m = "merge_updates_into_items updates (cleanup_rejected_knowledge tables kis)"
  from assms have "ki' \<in> set (promote_sampled_confidence tables (dedup_knowledge_items ?m))"
    by (simp add: update_knowledge_def)
  then obtain d where d: "d \<in> set (dedup_knowledge_items ?m)" "ki_evolves d ki'"
    using all2 [OF promote_evolves] by blast
  from d(1) have "d \<in> set ?m"
    using dedup_from_subseq [of "[]" ?m] by (auto simp: dedup_knowledge_items_def dest: list_emb_set)
  then obtain ki where "ki \<in> set (cleanup_rejected_knowledge tables kis)" "ki_evolves ki d"
    using all2 [OF merge_updates_evolves] by blast
  with d(2) show ?thesis
    by (auto simp: cleanup_rejected_knowledge_def intro: ki_evolves_trans)
qed

section \<open>Facts about the tables\<close>

text \<open>A run keeps the tables it found, their names and every verdict already given.\<close>

definition table_evolves :: "table_meta \<Rightarrow> table_meta \<Rightarrow> bool" where
  "table_evolves t t' \<longleftrightarrow>
     tm_table_name t' = tm_table_name t \<and>
     (tm_selection_status t \<in> {SELECTED, REJECTED} \<longrightarrow>
        tm_selection_status t' = tm_selection_status t \<and> tm_selection_reason t' = tm_selection_reason t)"

definition tables_extend :: "table_meta list \<Rightarrow> table_meta list \<Rightarrow> bool" where
  "tables_extend ts ts' \<longleftrightarrow> (\<exists>us new. ts' = us @ new \<and> list_all2 table_evolves ts us)"

lemma table_evolves_refl [simp]: "table_evolves t t"
  by (simp add: table_evolves_def)

lemma table_evolves_trans: "table_evolves a b \<Longrightarrow> table_evolves b c \<Longrightarrow> table_evolves a c"
  by (auto simp: table_evolves_def)

lemma tables_extend_refl [simp]: "tables_extend ts ts"
  unfolding tables_extend_def by (intro exI [of _ ts] exI [of _ "[]"]) (simp add: list_all2_refl)

lemma tables_extend_all2: "list_all2 table_evolves ts us \<Longrightarrow> tables_extend ts us"
  unfolding tables_extend_def by (intro exI [of _ us] exI [of _ "[]"]) simp

lemma tables_extend_append [simp]: "tables_extend ts (ts @ new)"
  unfolding tables_extend_def by (intro exI [of _ ts] exI [of _ new]) (simp add: list_all2_refl)

lemma tables_extend_trans:
  assumes "tables_extend a b" and "tables_extend b c"
  shows "tables_extend a c"
proof -
  from assms obtain us new vs more where b: "b = us @ new" "list_all2 table_evolves a us"
    and c: "c = vs @ more" "list_all2 table_evolves b vs" by (auto simp: tables_extend_def)
  from c(2) b(1) obtain v1 v2 where v: "vs = v1 @ v2" "list_all2 table_evolves us v1"
    by (auto simp: list_all2_append1)
  have "list_all2 table_evolves a v1"
    by (rule list_all2_trans [of table_evolves table_evolves table_evolves, OF table_evolves_trans b(2) v(2)])
  with c(1) v(1) show ?thesis unfolding tables_extend_def by (intro exI [of _ v1] exI [of _ "v2 @ more"]) simp
qed

lemma fold_result_extends:
  assumes "fold_result f xs s = Inr s'" and "\<And>x u v. f x u = Inr v \<Longrightarrow> tables_extend (g u) (g v)"
  shows "tables_extend (g s) (g s')"
  by (rule fold_result_invariant [OF assms(1), where P = "\<lambda>u. tables_extend (g s) (g u)"])
     (auto intro: tables_extend_trans assms(2))

lemma load_tables_extends:
  "fold_result f xs ts = Inr ts' \<Longrightarrow> (\<And>x u v. f x u = Inr v \<Longrightarrow> tables_extend u v) \<Longrightarrow> tables_extend ts ts'"
  by (erule fold_result_extends [where g = "\<lambda>x. x"])

lemma load_table_extends: "load_table num fixed t_data ts = Inr ts' \<Longrightarrow> tables_extend ts ts'"
  by (auto simp: load_table_def result_bind_Inr_iff Let_def split: json.splits if_splits)

lemma hydrate_tables_extends: "hydrate_tables_from_raw num st raw ts = Inr ts' \<Longrightarrow> tables_extend ts ts'"
  unfolding hydrate_tables_from_raw_def result_bind_Inr_iff
  by (auto elim!: load_tables_extends intro: load_table_extends)

lemma hydrate_step_extends:
  "hydrate_step env st acc = Inr acc' \<Longrightarrow> tables_extend (ex_tables (snd (snd acc))) (ex_tables (snd (snd acc')))"
  by (auto simp: hydrate_step_def result_bind_Inr_iff split: prod.splits option.splits if_splits
      intro: hydrate_tables_extends)

lemma judge_table_entry_evolves: "table_evolves t (judge_table_entry env st why t)"
  by (auto simp: table_evolves_def judge_table_entry_def)

lemma apply_table_judgment_extends:
  "apply_table_judgment env index j ts = Inr ts' \<Longrightarrow> tables_extend ts ts'"
  by (auto simp: apply_table_judgment_def result_bind_Inr_iff update_last_rel judge_table_entry_evolves
      split: if_splits intro: tables_extend_all2)

lemma apply_judgments_of_extends:
  "apply_judgments_of env index interp ex = Inr ex' \<Longrightarrow> tables_extend (ex_tables ex) (ex_tables ex')"
  by (auto simp: apply_judgments_of_def result_bind_Inr_iff
      elim!: load_tables_extends intro: apply_table_judgment_extends)

lemma observe_evolves: "observe env st raw t = Inr t' \<Longrightarrow> table_evolves t t'"
  by (auto simp: observe_def table_evolves_def apply_sample_rows_def apply_date_distribution_def
      apply_column_values_def apply_column_profile_def update_column_def result_bind_Inr_iff Let_def
      split: json.splits if_splits)

lemma observe_first_evolves:
  "observe_first f n ts = Inr ts' \<Longrightarrow> (\<And>t t'. f t = Inr t' \<Longrightarrow> table_evolves t t') \<Longrightarrow>
   list_all2 table_evolves ts ts'"
  by (induction ts arbitrary: ts') (auto simp: result_bind_Inr_iff list_all2_refl split: if_splits)

lemma observe_step_extends: "observe_step env st ts = Inr ts' \<Longrightarrow> tables_extend ts ts'"
proof -
  assume run: "observe_step env st ts = Inr ts'"
  show ?thesis
  proof (cases "ts' = ts")
    case False
    with run obtain raw us where us: "observe_first (observe env st raw) (step_table st) (rev ts) = Inr us"
      and "ts' = rev us"
      by (auto simp: observe_step_def result_bind_Inr_iff split: option.splits if_splits)
    moreover from us have "list_all2 table_evolves (rev ts) us"
      by (rule observe_first_evolves) (rule observe_evolves)
    ultimately show ?thesis by (auto intro!: tables_extend_all2 simp: list_all2_rev1)
  qed simp
qed

lemma enrich_use_case_extends:
  "enrich_use_case env sel uc ex = Inr ex' \<Longrightarrow> tables_extend (ex_tables ex) (ex_tables ex')"
  by (auto simp: enrich_use_case_def result_bind_Inr_iff Let_def split: json.splits if_splits
      elim!: load_tables_extends intro: load_table_extends)

lemma enrich_step_extends:
  "enrich_step env sel st ex = Inr ex' \<Longrightarrow> tables_extend (ex_tables ex) (ex_tables ex')"
  by (auto simp: enrich_step_def result_bind_Inr_iff split: option.splits if_splits
      elim!: fold_result_extends [where g = ex_tables] intro: enrich_use_case_extends)

lemma interpret_catalogue_extends:
  assumes "interpret_catalogue env interps plan ex = Inr ex'"
  shows "tables_extend (ex_tables ex) (ex_tables ex')"
proof -
  from assms obtain ex1 ex2 ts sel index acc where
    1: "fold_result (hydrate_step env) plan (length (ex_terms ex), length (ex_manuals ex), ex) = Inr acc"
       "ex1 = snd (snd acc)"
    and 2: "fold_result (apply_judgments_of env index) interps ex1 = Inr ex2"
    and 3: "fold_result (observe_step env) plan (ex_tables ex2) = Inr ts"
    and 4: "fold_result (enrich_step env sel) plan (ex2\<lparr>ex_tables := ts\<rparr>) = Inr ex'"
    by (auto simp: interpret_catalogue_def hydrate_from_raw_results_def apply_judgments_def
        apply_observation_data_def hydrate_enrichment_def result_bind_Inr_iff split: prod.splits)
  have "tables_extend (ex_tables ex) (ex_tables ex1)"
    using fold_result_extends [OF 1(1), where g = "\<lambda>acc. ex_tables (snd (snd acc))"] hydrate_step_extends 1(2) by simp
  moreover have "tables_extend (ex_tables ex1) (ex_tables ex2)"
    using fold_result_extends [OF 2, where g = ex_tables] apply_judgments_of_extends by blast
  moreover have "tables_extend (ex_tables ex2) ts"
    using fold_result_extends [OF 3, where g = id] observe_step_extends by simp
  moreover have "tables_extend ts (ex_tables ex')"
    using fold_result_extends [OF 4, where g = ex_tables] enrich_step_extends by simp
  ultimately show ?thesis by (blast intro: tables_extend_trans)
qed

section \<open>A run of the node\<close>

lemma context_interpreter_cases:
  assumes "context_interpreter_node env s = Inr s'"
  obtains br plan0 plan ex where
    "interpret_batch env (known_ids (knowledge_items (reason s))) (execution_plan (reason s)) = Inr (br, plan0)"
    "apply_batch_insights env (br_interpretations br) plan0 = Inr plan"
    "interpret_catalogue env (br_interpretations br) plan (explored_of (reason s)) = Inr ex"
    "s' = s\<lparr>reason := (reason s)\<lparr>
       knowledge_items := update_knowledge (ex_tables ex) (br_updates br) (knowledge_items (reason s)),
       explored_tables := ex_tables ex, explored_use_cases := ex_use_cases ex,
       explored_biz_terms := ex_terms ex, explored_biz_manuals := ex_manuals ex,
       explored_codes := ex_codes ex, execution_plan := clear_raw_results plan,
       discovered_facts := populate_discovered_facts plan (discovered_facts (reason s))\<rparr>\<rparr>"
proof -
  from assms obtain brp where brp:
    "interpret_batch env (known_ids (knowledge_items (reason s))) (execution_plan (reason s)) = Inr brp"
    by (auto simp only: context_interpreter_node_def Let_def result_bind_Inr_iff)
  obtain br plan0 where "brp = (br, plan0)" by (cases brp)
  with assms brp show thesis
    by (auto simp only: context_interpreter_node_def Let_def result_bind_Inr_iff result_bind.simps prod.case
        sum.inject intro: that)
qed

text \<open>What the node leaves alone; the steps keep their status.\<close>

lemma interpret_batch_plan:
  "interpret_batch env ids plan = Inr (br, plan0) \<Longrightarrow>
   plan0 = plan \<or> (br, plan0) = interpret_batch_fallback plan"
  by (auto simp: interpret_batch_def interpret_level0_def Let_def result_bind_Inr_iff
      split: if_splits sum.splits py_error.splits)

lemma fallback_statuses: "map es_status (snd (interpret_batch_fallback plan)) = map es_status plan"
  by (simp add: interpret_batch_fallback_def)

lemma batch_insights_statuses:
  "apply_batch_insights env interps plan = Inr plan' \<Longrightarrow> map es_status plan' = map es_status plan"
  by (auto simp: apply_batch_insights_def result_bind_Inr_iff set_insight_def split: option.splits)

lemma clear_raw_results_statuses [simp]: "map es_status (clear_raw_results plan) = map es_status plan"
  by (auto simp: clear_raw_results_def)

lemma context_interpreter_frame:
  assumes "context_interpreter_node env s = Inr s'"
  shows "\<exists>kis ts ucs bts bms cs plan facts. s' = s\<lparr>reason := (reason s)\<lparr>
       knowledge_items := kis, explored_tables := ts, explored_use_cases := ucs,
       explored_biz_terms := bts, explored_biz_manuals := bms, explored_codes := cs,
       execution_plan := plan, discovered_facts := facts\<rparr>\<rparr> \<and>
     map es_status plan = map es_status (execution_plan (reason s))"
  using assms
proof (cases rule: context_interpreter_cases)
  case (1 br plan0 plan ex)
  from interpret_batch_plan [OF 1(1)] have "map es_status plan0 = map es_status (execution_plan (reason s))"
    using fallback_statuses by (metis snd_conv)
  with batch_insights_statuses [OF 1(2)]
  have "map es_status (clear_raw_results plan) = map es_status (execution_plan (reason s))"
    by simp
  with 1(4) show ?thesis by blast
qed

section \<open>A concrete run\<close>

definition conflict_reply :: json where
  "conflict_reply = JObj [(''interpretations'', JList [JObj [(''tool_input'', JStr ''T''),
     (''insight'', JStr ''two sources disagree''),
     (''explored_tables'', JList [JObj [(''table_name'', JStr ''T''), (''status'', JStr ''REJECTED'')]]),
     (''knowledge_updates'', JList [JObj [(''id'', JStr ''K1''), (''value'', JStr ''B''),
        (''new_status'', JStr ''CONFLICTED'')]])]])]"

definition reading_env :: "json result \<Rightarrow> interpreter_env" where
  "reading_env reply = \<lparr>it_rendered = (\<lambda>_. Inr ''results''), it_rendered_one = (\<lambda>_. Inr ''result''),
     it_reply = reply, it_step_reply = (\<lambda>_. Inl TimeoutErr), it_cancelled = (\<lambda>_. Inr False),
     it_num = (\<lambda>_. None), it_show = (\<lambda>_. ''value'')\<rparr>"

definition confirmed_item :: knowledge_item where
  "confirmed_item = (new_knowledge_item ''filter:status'' CONFIRMED)
     \<lparr>ki_id := ''K1'', ki_value := ''A'', ki_confidence := 9/10\<rparr>"

definition done_step :: execution_step where
  "done_step = (sample_step ''get_sample_rows'' ''T'')\<lparr>es_status := Step_DONE\<rparr>"

definition reading_state :: "confidence_status \<Rightarrow> pipeline_state" where
  "reading_state st = new_pipeline_state\<lparr>reason := new_reasoning_state\<lparr>knowledge_items := [confirmed_item\<lparr>ki_status := st\<rparr>],
     explored_tables := [sample_table ''T'' ''ADW'' SELECTED], execution_plan := [done_step]\<rparr>\<rparr>"

definition reads :: "confidence_status \<Rightarrow> pipeline_state \<Rightarrow> bool" where
  "reads st s' \<longleftrightarrow> map ki_status (knowledge_items (reason s')) = [st] \<and>
     map ki_value (knowledge_items (reason s')) = [''B''] \<and>
     map tm_selection_status (explored_tables (reason s')) = [SELECTED] \<and>
     discovered_facts (reason s') = [''[get_sample_rows(T)] two sources disagree'']"

lemma reading_run:
  obtains s' where "context_interpreter_node (reading_env (Inr conflict_reply)) (reading_state CONFIRMED) = Inr s'"
    "reads CONFIRMED s'"
proof -
  have "(case context_interpreter_node (reading_env (Inr conflict_reply)) (reading_state CONFIRMED) of
           Inl e \<Rightarrow> False | Inr s' \<Rightarrow> reads CONFIRMED s')"
    by code_simp
  then show thesis by (auto split: sum.splits intro: that)
qed

lemma conflicted_run:
  obtains s' where "context_interpreter_node (reading_env (Inr conflict_reply)) (reading_state CONFLICTED) = Inr s'"
    "reads CONFLICTED s'"
proof -
  have "(case context_interpreter_node (reading_env (Inr conflict_reply)) (reading_state CONFLICTED) of
           Inl e \<Rightarrow> False | Inr s' \<Rightarrow> reads CONFLICTED s')"
    by code_simp
  then show thesis by (auto split: sum.splits intro: that)
qed

section \<open>Properties\<close>

text \<open>
  C10: The model cannot invent, rename or demote knowledge.  Whatever it answers, after a run of
  the interpreter the knowledge items are, in order, the old ones except those of rejected
  tables; each keeps its id, key and criticality, its status has not fallen in the order of
  promotion, its confidence has not fallen and its evidence has only been extended.
\<close>
theorem interpreter_knowledge_only_grows:
  assumes "context_interpreter_node env s = Inr s'"
    and "distinct (map ki_id (knowledge_items (reason s)))"
    and "[] \<notin> ki_id ` set (knowledge_items (reason s))"
  shows "list_all2 ki_evolves
           (cleanup_rejected_knowledge (explored_tables (reason s')) (knowledge_items (reason s)))
           (knowledge_items (reason s'))"
  using assms(1)
proof (cases rule: context_interpreter_cases)
  case (1 br plan0 plan ex)
  then show ?thesis by (simp add: update_knowledge_evolves [OF assms(2,3)])
qed

theorem interpreter_knowledge_only_grows_witness:
  "\<exists>s'. context_interpreter_node (reading_env (Inr conflict_reply)) (reading_state CONFIRMED) = Inr s' \<and>
     list_all2 ki_evolves (cleanup_rejected_knowledge (explored_tables (reason s')) [confirmed_item])
       (knowledge_items (reason s')) \<and> reads CONFIRMED s'"
proof -
  from reading_run obtain s' where
    s': "context_interpreter_node (reading_env (Inr conflict_reply)) (reading_state CONFIRMED) = Inr s'"
      "reads CONFIRMED s'" .
  from interpreter_knowledge_only_grows [OF s'(1)] s' show ?thesis
    by (simp add: reading_state_def confirmed_item_def new_knowledge_item_def)
qed

text \<open>
  A conflict is never recorded.  The prompt tells the model to report contradicting sources
  as CONFLICTED, and the merge drops that status: after any run an item is CONFLICTED only if
  the item of the same id was before it, so a confirmed item stays confirmed.
\<close>
theorem reported_conflict_never_recorded:
  assumes "context_interpreter_node env s = Inr s'"
    and "ki' \<in> set (knowledge_items (reason s'))" and "ki_status ki' = CONFLICTED"
  shows "\<exists>ki\<in>set (knowledge_items (reason s)). ki_id ki = ki_id ki' \<and> ki_status ki = CONFLICTED"
  using assms(1)
proof (cases rule: context_interpreter_cases)
  case (1 br plan0 plan ex)
  with assms(2) have "ki' \<in> set (update_knowledge (ex_tables ex) (br_updates br) (knowledge_items (reason s)))"
    by simp
  from update_knowledge_origin [OF this] assms(3) show ?thesis by (auto simp: ki_evolves_def)
qed

theorem reported_conflict_never_recorded_witness:
  "\<exists>s'. context_interpreter_node (reading_env (Inr conflict_reply)) (reading_state CONFLICTED) = Inr s' \<and>
     reads CONFLICTED s' \<and>
     (\<exists>ki\<in>set (knowledge_items (reason (reading_state CONFLICTED))). ki_status ki = CONFLICTED)"
proof -
  from conflicted_run obtain s' where
    s': "context_interpreter_node (reading_env (Inr conflict_reply)) (reading_state CONFLICTED) = Inr s'"
      "reads CONFLICTED s'" .
  then obtain ki' where "ki' \<in> set (knowledge_items (reason s'))" "ki_status ki' = CONFLICTED"
    by (auto simp: reads_def)
  from reported_conflict_never_recorded [OF s'(1) this] s' show ?thesis by blast
qed

text \<open>
  A verdict on a table is final: a run of the interpreter keeps every table it was given in
  place, with its name, and a table already selected or rejected keeps its status and reason;
  new tables are only appended.
\<close>
theorem table_verdicts_final:
  assumes "context_interpreter_node env s = Inr s'"
  shows "tables_extend (explored_tables (reason s)) (explored_tables (reason s'))"
  using assms
proof (cases rule: context_interpreter_cases)
  case (1 br plan0 plan ex)
  then show ?thesis using interpret_catalogue_extends [OF 1(3)] by (simp add: explored_of_def)
qed

theorem table_verdicts_final_witness:
  "\<exists>s'. context_interpreter_node (reading_env (Inr conflict_reply)) (reading_state CONFIRMED) = Inr s' \<and>
     tables_extend [sample_table ''T'' ''ADW'' SELECTED] (explored_tables (reason s'))"
proof -
  from reading_run obtain s' where
    s': "context_interpreter_node (reading_env (Inr conflict_reply)) (reading_state CONFIRMED) = Inr s'" .
  from table_verdicts_final [OF s'] s' show ?thesis by (simp add: reading_state_def)
qed

lemma fact_of_clear: "concat (map fact_of (clear_raw_results plan)) = concat (map fact_of plan)"
proof -
  have "fact_of (st\<lparr>es_raw_result := None\<rparr>) = fact_of st" for st
    by (auto simp: fact_of_def split: option.split)
  then show ?thesis by (induction plan) (simp_all add: clear_raw_results_def)
qed

lemma set_insight_facts: "subseq (concat (map fact_of plan)) (concat (map fact_of (map (set_insight env m) plan)))"
proof (induction plan)
  case (Cons st plan)
  have "fact_of st = [] \<or> set_insight env m st = st"
    by (auto simp: fact_of_def set_insight_def no_insight_def split: option.splits)
  with Cons.IH show ?case by (auto intro: list_emb_append_mono)
qed simp

text \<open>
  Facts are recorded again in every round.  The facts of a run are those of every finished
  step of the plan, also the steps of earlier rounds; so the next run (unless its model call
  failed) appends all of them a second time, and the list the recovery prompt quotes grows with
  duplicates.
\<close>
theorem facts_recorded_again:
  assumes "context_interpreter_node env s = Inr s'" and "context_interpreter_node env' s' = Inr s''"
    and "interpret_batch env' (known_ids (knowledge_items (reason s'))) (execution_plan (reason s')) =
           Inr (br', execution_plan (reason s'))"
  shows "\<exists>facts facts'. discovered_facts (reason s') = discovered_facts (reason s) @ facts \<and>
           discovered_facts (reason s'') = discovered_facts (reason s') @ facts' \<and> subseq facts facts'"
  using assms(1)
proof (cases rule: context_interpreter_cases)
  case (1 br plan0 plan ex)
  note first = this
  show ?thesis using assms(2)
  proof (cases rule: context_interpreter_cases)
    case (1 br2 plan2 plan3 ex2)
    from 1(1) assms(3) have "plan2 = clear_raw_results plan" by (simp add: first(4))
    with 1(2) obtain m where "plan3 = map (set_insight env' m) (clear_raw_results plan)"
      by (auto simp: apply_batch_insights_def result_bind_Inr_iff)
    then have "subseq (concat (map fact_of plan)) (concat (map fact_of plan3))"
      using set_insight_facts [of "clear_raw_results plan"] by (simp only: fact_of_clear)
    with first(4) 1(4) show ?thesis by (simp add: populate_discovered_facts_def)
  qed
qed

theorem facts_recorded_again_witness:
  "\<exists>s' s''. context_interpreter_node (reading_env (Inr conflict_reply)) (reading_state CONFIRMED) = Inr s' \<and>
     context_interpreter_node (reading_env (Inr (JObj []))) s' = Inr s'' \<and>
     reads CONFIRMED s' \<and> subseq (discovered_facts (reason s') @ discovered_facts (reason s')) (discovered_facts (reason s''))"
proof -
  from reading_run obtain s' where
    s': "context_interpreter_node (reading_env (Inr conflict_reply)) (reading_state CONFIRMED) = Inr s'"
      "reads CONFIRMED s'" .
  have "(case context_interpreter_node (reading_env (Inr conflict_reply)) (reading_state CONFIRMED) of
     Inr t \<Rightarrow> (\<exists>br. interpret_batch (reading_env (Inr (JObj []))) (known_ids (knowledge_items (reason t)))
                (execution_plan (reason t)) = Inr (br, execution_plan (reason t))) | Inl e \<Rightarrow> False)"
    using s' context_interpreter_frame [OF s'(1)]
    by (auto simp: interpret_batch_def reading_state_def done_step_def sample_step_def reading_env_def interpret_level0_def
        parse_batch_result_def py_len_def TOKEN_BUDGET_CHARS_def)
  with s'(1) obtain br where
    br: "interpret_batch (reading_env (Inr (JObj []))) (known_ids (knowledge_items (reason s')))
      (execution_plan (reason s')) = Inr (br, execution_plan (reason s'))" by auto
  have "(case context_interpreter_node (reading_env (Inr conflict_reply)) (reading_state CONFIRMED) of
     Inr t \<Rightarrow> (case context_interpreter_node (reading_env (Inr (JObj []))) t of Inr u \<Rightarrow> True | Inl e \<Rightarrow> False)
     | Inl e \<Rightarrow> False)" by code_simp
  with s'(1) obtain s'' where s'': "context_interpreter_node (reading_env (Inr (JObj []))) s' = Inr s''"
    by (auto split: sum.splits)
  from facts_recorded_again [OF s'(1) s'' br] s' s'' show ?thesis
    by (auto simp: reading_state_def new_reasoning_state_def intro: list_emb_append_mono)
qed

lemma fold_result_rounds: "fold_result f xs s = Inr s' \<Longrightarrow> x \<in> set xs \<Longrightarrow> \<exists>u v. f x u = Inr v"
  by (induction xs arbitrary: s) (auto simp: result_bind_Inr_iff)

text \<open>
  A malformed judgement ends the turn.  A model call that fails is meant to fall back to a
  rule; but only the shape of the knowledge updates is checked inside the guarded call, so a
  reading whose list of table judgements is no list (say null) is accepted there and raised
  outside it, by the node.
\<close>
theorem malformed_judgment_escapes:
  assumes "interpret_batch env (known_ids (knowledge_items (reason s))) (execution_plan (reason s)) = Inr (br, plan0)"
    and "interp \<in> set (br_interpretations br)" and "judgments ''explored_tables'' interp = Inl e"
  shows "\<exists>e'. context_interpreter_node env s = Inl e'"
proof (cases "context_interpreter_node env s")
  case (Inr s')
  then show ?thesis
  proof (cases rule: context_interpreter_cases)
    case (1 br2 plan2 plan ex)
    from 1(1) assms(1) have "br2 = br" by simp
    with 1(3) obtain index u v where "fold_result (apply_judgments_of env index) (br_interpretations br) u = Inr v"
      by (auto simp: interpret_catalogue_def apply_judgments_def result_bind_Inr_iff)
    from fold_result_rounds [OF this assms(2)] obtain x y where "apply_judgments_of env index interp x = Inr y"
      by blast
    with assms(3) show ?thesis by (simp add: apply_judgments_of_def)
  qed
qed simp

theorem malformed_judgment_escapes_witness:
  "\<exists>e. context_interpreter_node
     (reading_env (Inr (JObj [(''interpretations'', JList [JObj [(''explored_tables'', JNull)]])])))
     (reading_state CONFIRMED) = Inl e"
proof (rule malformed_judgment_escapes [where e = TypeErr and interp = "JObj [(''explored_tables'', JNull)]"])
  show "interpret_batch
     (reading_env (Inr (JObj [(''interpretations'', JList [JObj [(''explored_tables'', JNull)]])])))
     (known_ids (knowledge_items (reason (reading_state CONFIRMED)))) (execution_plan (reason (reading_state CONFIRMED))) =
     Inr (\<lparr>br_interpretations = [JObj [(''explored_tables'', JNull)]], br_updates = []\<rparr>,
          execution_plan (reason (reading_state CONFIRMED)))"
    by (simp add: interpret_batch_def reading_state_def done_step_def sample_step_def reading_env_def interpret_level0_def
        parse_batch_result_def py_len_def TOKEN_BUDGET_CHARS_def updates_of_def)
qed (simp_all add: judgments_def)

text \<open>The table as it is loaded from the raw result of a step.\<close>

definition pending_table :: "execution_step \<Rightarrow> table_meta \<Rightarrow> table_meta" where
  "pending_table st t =
     t\<lparr>tm_source_step := es_step st, tm_hypothesis_id := es_hypothesis_id st, tm_selection_status := Sel_PENDING\<rparr>"

lemma dump_pending_table:
  assumes "dump_table t = JObj kvs"
  shows "fold (\<lambda>(k, v). dict_set k v) (pending_fields st) kvs = row_of (dump_table (pending_table st t))"
    and "map_of kvs ''table_name'' = Some (JStr (tm_table_name t))"
  using assms by (auto simp: dump_table_def pending_fields_def pending_table_def row_of_def)

lemma read_dump: "read_table num (row_of (dump_table t)) = Inr t"
proof -
  obtain kvs where "dump_table t = JObj kvs" by (simp add: dump_table_def)
  then show ?thesis using table_dump_roundtrip [of t num] by (simp add: dict_field_def row_of_def)
qed

lemma load_dumped_table:
  assumes "tm_table_name t \<noteq> []" and "tm_table_name t \<notin> tm_table_name ` set tables"
  shows "load_table num (pending_fields st) (dump_table t) tables = Inr (tables @ [pending_table st t])"
proof -
  obtain kvs where kvs: "dump_table t = JObj kvs" by (simp add: dump_table_def)
  have "obj_get kvs ''table_name'' (JStr []) = JStr (tm_table_name t)"
    by (simp add: obj_get_def dump_pending_table(2) [OF kvs])
  with assms show ?thesis
    by (auto simp: load_table_def kvs as_key_def dump_pending_table(1) [OF kvs] read_dump)
qed

text \<open>
  What the retriever found is what is judged: the tables dumped into the raw result of a
  meta search are loaded again, in order and unchanged but for the step and hypothesis that
  found them and the pending status, when their names are new.
\<close>
theorem retrieved_tables_loaded:
  assumes "distinct (map tm_table_name ts)" and "[] \<notin> tm_table_name ` set ts"
    and "tm_table_name ` set ts \<inter> tm_table_name ` set tables = {}"
  shows "hydrate_tables_from_raw num st (JObj [(''tables'', JList (map dump_table ts))]) tables =
           Inr (tables @ map (pending_table st) ts)"
proof -
  have "fold_result (load_table num (pending_fields st)) (map dump_table ts) tables =
          Inr (tables @ map (pending_table st) ts)"
    using assms
  proof (induction ts arbitrary: tables)
    case (Cons t ts)
    have "load_table num (pending_fields st) (dump_table t) tables = Inr (tables @ [pending_table st t])"
      using Cons.prems by (intro load_dumped_table) auto
    moreover have "fold_result (load_table num (pending_fields st)) (map dump_table ts)
        (tables @ [pending_table st t]) = Inr ((tables @ [pending_table st t]) @ map (pending_table st) ts)"
      using Cons.prems by (intro Cons.IH) (auto simp: pending_table_def)
    ultimately show ?case by simp
  qed simp
  then show ?thesis by (simp add: hydrate_tables_from_raw_def raw_items_def obj_get_def)
qed

theorem retrieved_tables_loaded_witness:
  "hydrate_tables_from_raw (\<lambda>_. None) done_step
     (JObj [(''tables'', JList (map dump_table [sample_table ''T'' ''ADW'' SELECTED]))]) [] =
   Inr [pending_table done_step (sample_table ''T'' ''ADW'' SELECTED)]"
  using retrieved_tables_loaded [of "[sample_table ''T'' ''ADW'' SELECTED]" "[]"] by (simp add: sample_table_def)

end
