(* ===== verification/ResponseFormat.thy ===== *)
theory ResponseFormat imports Readiness TurnState ModelReaders begin

text \<open>
  The rule-based report of a result (\<open>src/src/services/response_formatter.py\<close>): amounts, rates
  and counts in words, the format of a column from its name or alias, the table and the summary
  line, the analysis report and the substitution of code values.  The columns behind the aliases
  of a SELECT (a SQL parser) and \<open>str\<close> of a value that is no text are arguments.
\<close>

section \<open>Numbers\<close>

text \<open>\<open>f"{n:,}"\<close>\<close>

fun group3 :: "string \<Rightarrow> string" where
  "group3 (a # b # c # d # ds) = a # b # c # CHR '','' # group3 (d # ds)"
| "group3 ds = ds"

definition commas :: "nat \<Rightarrow> string" where
  "commas n = rev (group3 (rev (nat_digits n)))"

definition sign_text :: "bool \<Rightarrow> string" where
  "sign_text negative = (if negative then ''-'' else [])"

definition comma_int :: "int \<Rightarrow> string" where
  "comma_int i = sign_text (i < 0) @ commas (nat \<bar>i\<bar>)"

text \<open>\<open>f"{q:.df}"\<close>, with thousands separators when asked for.\<close>

definition fixed :: "nat \<Rightarrow> bool \<Rightarrow> rat \<Rightarrow> string" where
  "fixed d sep q =
     (let n = nat (round_half_even (\<bar>q\<bar> * 10 ^ d)); whole = n div 10 ^ d; frac = nat_digits (n mod 10 ^ d)
      in sign_text (q < 0) @ (if sep then commas whole else nat_digits whole) @ ''.'' @
         replicate (d - length frac) CHR ''0'' @ frac)"

definition JO :: string where "JO = utf8 [236, 161, 176]"
definition EOK :: string where "EOK = utf8 [236, 150, 181]"
definition MAN :: string where "MAN = utf8 [235, 167, 140]"
definition WON :: string where "WON = utf8 [236, 155, 144]"
definition GEON :: string where "GEON = utf8 [234, 177, 180]"

definition won_text :: "nat \<Rightarrow> string" where
  "won_text n =
     (if n \<ge> 1000000000000 then
        let jo = n div 1000000000000; eok = n mod 1000000000000 div 100000000
        in if eok \<noteq> 0 then nat_digits jo @ JO @ '' '' @ commas eok @ EOK @ WON else nat_digits jo @ JO @ WON
      else if n \<ge> 100000000 then
        let eok = n div 100000000; man = n mod 100000000 div 10000
        in if man \<noteq> 0 then commas eok @ EOK @ '' '' @ commas man @ MAN @ WON else commas eok @ EOK @ WON
      else if n \<ge> 10000 then commas (n div 10000) @ MAN @ WON
      else commas n @ WON)"

definition format_currency :: "rat \<Rightarrow> string" where
  "format_currency q =
     (let n = nat (round_half_even \<bar>q\<bar>) in sign_text (q < 0 \<and> n > 0) @ won_text n)"

definition format_rate :: "rat \<Rightarrow> string" where
  "format_rate q = fixed 1 False q @ ''%''"

text \<open>\<open>int(value)\<close> truncates.\<close>

definition py_int :: "rat \<Rightarrow> int" where
  "py_int q = (if q < 0 then - \<lfloor>- q\<rfloor> else \<lfloor>q\<rfloor>)"

definition format_count :: "rat \<Rightarrow> string" where
  "format_count q = comma_int (py_int q) @ GEON"

datatype column_format = Fmt_currency | Fmt_rate | Fmt_count | Fmt_text

text \<open>\<open>isinstance(value, (int, float))\<close>: a decimal is neither, a boolean is an int.\<close>

definition plain_number :: "cell \<Rightarrow> rat option" where
  "plain_number c = (case c of Plain (JNum q) \<Rightarrow> Some q | Plain (JBool b) \<Rightarrow> Some (if b then 1 else 0) | _ \<Rightarrow> None)"

definition cell_text :: "(cell \<Rightarrow> string) \<Rightarrow> cell \<Rightarrow> string" where
  "cell_text show_cell c = (case c of Plain (JStr t) \<Rightarrow> t | _ \<Rightarrow> show_cell c)"

definition format_value :: "(cell \<Rightarrow> string) \<Rightarrow> cell \<Rightarrow> column_format \<Rightarrow> string" where
  "format_value show_cell c fmt =
     (case plain_number c of
        None \<Rightarrow> cell_text show_cell c
      | Some q \<Rightarrow>
          (case fmt of
             Fmt_currency \<Rightarrow> format_currency q
           | Fmt_rate \<Rightarrow> format_rate q
           | Fmt_count \<Rightarrow> format_count q
           | Fmt_text \<Rightarrow> if of_int \<lfloor>q\<rfloor> = q then comma_int \<lfloor>q\<rfloor> else fixed 2 True q))"

section \<open>The format of a column\<close>

definition CURRENCY_SUFFIXES :: "string list" where
  "CURRENCY_SUFFIXES = [''_AMT'', ''_BAL'', ''_PRIN'', ''_INT_AMT'', ''_TAMT'', ''_QTY_AMT'']"

definition RATE_SUFFIXES :: "string list" where
  "RATE_SUFFIXES = [''_RT'', ''_RATE'', ''_RTO'', ''_RATIO'']"

definition COUNT_SUFFIXES :: "string list" where
  "COUNT_SUFFIXES = [''_CNT'', ''_NUM'', ''_QTY'']"

definition infer_from_column :: "string \<Rightarrow> column_format" where
  "infer_from_column col =
     (let up = py_upper col
      in if list_ex (ends_with up) CURRENCY_SUFFIXES then Fmt_currency
         else if list_ex (ends_with up) RATE_SUFFIXES then Fmt_rate
         else if list_ex (ends_with up) COUNT_SUFFIXES then Fmt_count
         else Fmt_text)"

text \<open>The Korean words for counts, amounts and rates.\<close>

definition COUNT_WORDS :: "string list" where
  "COUNT_WORDS = [utf8 [234, 177, 180, 236, 136, 152],
     utf8 [236, 136, 152, 235, 159, 137],
     utf8 [237, 154, 159, 236, 136, 152],
     utf8 [236, 157, 184, 236, 155, 144]]"

definition CURRENCY_WORDS :: "string list" where
  "CURRENCY_WORDS = [utf8 [234, 184, 136, 236, 149, 161],
     utf8 [236, 158, 148, 236, 149, 161],
     utf8 [237, 149, 169, 234, 179, 132],
     utf8 [236, 155, 144, 234, 184, 136],
     utf8 [236, 157, 180, 236, 158, 144],
     utf8 [236, 139, 164, 236, 160, 129]]"

definition RATE_WORDS :: "string list" where
  "RATE_WORDS = [utf8 [236, 156, 168],
     utf8 [235, 185, 132, 236, 156, 168],
     utf8 [235, 185, 132, 236, 164, 145]]"

definition infer_from_alias :: "string \<Rightarrow> column_format" where
  "infer_from_alias alias =
     (if list_ex (contains alias) COUNT_WORDS then Fmt_count
      else if list_ex (contains alias) CURRENCY_WORDS then Fmt_currency
      else if list_ex (contains alias) RATE_WORDS then Fmt_rate
      else Fmt_text)"

definition detect_column_formats ::
  "(string \<Rightarrow> (string \<times> string option) list) \<Rightarrow> string \<Rightarrow> (string \<times> column_format) list" where
  "detect_column_formats alias_map sql =
     (if sql = [] then []
      else map (\<lambda>(alias, orig). (alias, case orig of None \<Rightarrow> infer_from_alias alias | Some c \<Rightarrow> infer_from_column c))
             (alias_map sql))"

section \<open>The table\<close>

definition format_of :: "(string \<times> column_format) list \<Rightarrow> string \<Rightarrow> column_format" where
  "format_of formats col = (case map_of formats col of Some f \<Rightarrow> f | None \<Rightarrow> Fmt_text)"

text \<open>The zero-width space in front of a heading mark at the start of a line.\<close>

definition ZWSP :: string where "ZWSP = utf8 [226, 128, 139]"

fun break_headings :: "string \<Rightarrow> string" where
  "break_headings (a # b # c # s) =
     (if a = CHR 0x0A \<and> b = CHR ''#'' \<and> c = CHR ''#''
      then CHR 0x0A # ZWSP @ ''##'' @ break_headings s else a # break_headings (b # c # s))"
| "break_headings s = s"

definition defuse :: "string \<Rightarrow> string" where
  "defuse t = break_headings (if starts_with t ''##'' then ZWSP @ t else t)"

definition format_cell :: "(cell \<Rightarrow> string) \<Rightarrow> (string \<times> column_format) list \<Rightarrow> string \<Rightarrow> cell \<Rightarrow> string" where
  "format_cell show_cell formats col c =
     (if c = Plain JNull then [] else defuse (format_value show_cell c (format_of formats col)))"

definition row_cell :: "(string \<times> cell) list \<Rightarrow> string \<Rightarrow> cell" where
  "row_cell row col = (case map_of row col of Some c \<Rightarrow> c | None \<Rightarrow> Plain (JStr []))"

definition table_row :: "string list \<Rightarrow> string" where
  "table_row cells = ''| '' @ py_join '' | '' cells @ '' |''"

definition format_report_table ::
  "(cell \<Rightarrow> string) \<Rightarrow> string list \<Rightarrow> (string \<times> cell) list list \<Rightarrow> (string \<times> column_format) list \<Rightarrow> nat \<Rightarrow> string" where
  "format_report_table show_cell columns rows formats max_rows =
     (if columns = [] \<or> rows = [] then ''(no result)''
      else
        let body = map (\<lambda>row. table_row (map (\<lambda>col. format_cell show_cell formats col (row_cell row col)) columns))
              (take max_rows rows);
            table = py_join newline (table_row columns # table_row (map (\<lambda>_. ''---'') columns) # body);
            n = length rows
        in table @ newline @ newline @
           (if n > max_rows then ''(first '' @ nat_digits max_rows @ '' of '' @ commas n @ '' rows)''
            else ''('' @ commas n @ '' rows)''))"

section \<open>The summary line\<close>

definition is_number :: "cell \<Rightarrow> rat option" where
  "is_number c = (case c of Decimal q \<Rightarrow> Some q | _ \<Rightarrow> plain_number c)"

text \<open>\<open>a > b\<close> of two cells: numbers and texts compare among themselves only.\<close>

definition cell_greater :: "cell \<Rightarrow> cell \<Rightarrow> bool result" where
  "cell_greater a b =
     (case (is_number a, is_number b) of
        (Some x, Some y) \<Rightarrow> Inr (x > y)
      | _ \<Rightarrow> (case (a, b) of (Plain (JStr x), Plain (JStr y)) \<Rightarrow> Inr (x > y) | _ \<Rightarrow> Inl TypeErr))"

text \<open>\<open>max(values, key=...)\<close>: the first of the greatest.\<close>

fun max_pair :: "'r \<times> cell \<Rightarrow> ('r \<times> cell) list \<Rightarrow> ('r \<times> cell) result" where
  "max_pair best [] = Inr best"
| "max_pair best (x # xs) =
     result_bind (cell_greater (snd x) (snd best)) (\<lambda>g. max_pair (if g then x else best) xs)"

fun first_with :: "('a \<Rightarrow> bool) \<Rightarrow> 'a list \<Rightarrow> 'a option" where
  "first_with p [] = None"
| "first_with p (x # xs) = (if p x then Some x else first_with p xs)"

definition cell_true :: "cell \<Rightarrow> bool" where
  "cell_true c = (case c of Decimal q \<Rightarrow> q \<noteq> 0 | Plain j \<Rightarrow> json_true j)"

definition count_line :: "nat \<Rightarrow> string" where
  "count_line n = commas n @ '' rows were found in all.''"

definition build_summary_line ::
  "(cell \<Rightarrow> string) \<Rightarrow> string list \<Rightarrow> (string \<times> cell) list list \<Rightarrow> (string \<times> column_format) list \<Rightarrow> string result" where
  "build_summary_line show_cell columns rows formats =
     (let n = length rows;
          metric = first_with (\<lambda>c. map_of formats c \<in> {Some Fmt_currency, Some Fmt_count}) columns;
          label = first_with (\<lambda>c. map_of formats c = Some Fmt_text) columns
      in if n = 0 then Inr []
         else case metric of
           None \<Rightarrow> Inr (count_line n)
         | Some m \<Rightarrow>
             if m = [] then Inr (count_line n)
             else if n = 1 then
               (case map_of (hd rows) m of
                  Some c \<Rightarrow> if c = Plain JNull then Inr (count_line n)
                            else Inr (m @ '' is '' @ format_value show_cell c (format_of formats m) @ ''.'')
                | None \<Rightarrow> Inr (count_line n))
             else
               (case concat (map (\<lambda>r. case map_of r m of Some c \<Rightarrow> if c = Plain JNull then [] else [(r, c)] | None \<Rightarrow> []) rows) of
                  [] \<Rightarrow> Inr (count_line n)
                | v # vs \<Rightarrow>
                    result_bind (max_pair v vs) (\<lambda>(r, c).
                      let lab = (case label of None \<Rightarrow> Plain (JStr []) | Some l \<Rightarrow> if l = [] then Plain (JStr []) else row_cell r l)
                      in if cell_true lab
                         then Inr (commas n @ '' rows were found, '' @ cell_text show_cell lab @ '' is the largest with '' @
                                   format_value show_cell c (format_of formats m) @ ''.'')
                         else Inr (count_line n))))"

section \<open>The analysis report\<close>

text \<open>The headings of an analysis.\<close>

definition SUMMARY_TITLE :: string where "SUMMARY_TITLE = utf8 [237, 149, 181, 236, 139, 172, 32, 236, 154, 148, 236, 149, 189]"
definition READING_TITLE :: string where "READING_TITLE = utf8 [235, 141, 176, 236, 157, 180, 237, 132, 176, 32, 237, 152, 132, 237, 153, 169]"
definition INSIGHT_TITLE :: string where "INSIGHT_TITLE = utf8 [235, 182, 132, 236, 132, 157, 32, 236, 157, 184, 236, 130, 172, 236, 157, 180, 237, 138, 184]"
definition ACTION_TITLE :: string where "ACTION_TITLE = utf8 [237, 155, 132, 236, 134, 141, 32, 236, 161, 176, 236, 185, 152]"

definition report_section :: "string \<Rightarrow> string list \<Rightarrow> string list" where
  "report_section title items =
     (if items = [] then [] else [''## '' @ title @ newline @ py_join newline (map (\<lambda>i. ''- '' @ i) items)])"

definition build_analysis_report :: "analysis_result \<Rightarrow> string" where
  "build_analysis_report a =
     py_join (newline @ newline)
       ((if ar_summary a \<noteq> [] then [''## '' @ SUMMARY_TITLE @ newline @ ar_summary a] else []) @
        report_section READING_TITLE (ar_initial_reading a) @
        report_section INSIGHT_TITLE (ar_insights a) @
        report_section ACTION_TITLE (ar_action_items a))"

section \<open>Code values\<close>

definition coded_columns ::
  "(string \<times> string option) list \<Rightarrow> (string \<times> code_meta) list \<Rightarrow> (string \<times> (string \<times> string) list) list" where
  "coded_columns aliases codes =
     concat (map (\<lambda>(alias, orig). case orig of
         None \<Rightarrow> []
       | Some c \<Rightarrow> (case map_of codes c of
             Some cm \<Rightarrow> if c \<noteq> [] \<and> cm_codes cm \<noteq> [] then [(alias, cm_codes cm)] else []
           | None \<Rightarrow> [])) aliases)"

definition map_code ::
  "(cell \<Rightarrow> string) \<Rightarrow> string \<times> (string \<times> string) list \<Rightarrow> (string \<times> cell) list \<Rightarrow> (string \<times> cell) list" where
  "map_code show_cell cc row =
     (case map_of row (fst cc) of
        None \<Rightarrow> row
      | Some v \<Rightarrow> (case map_of (snd cc) (cell_text show_cell v) of
                     None \<Rightarrow> row
                   | Some name \<Rightarrow> dict_set (fst cc) (Plain (JStr name)) row))"

definition apply_code_mappings ::
  "(cell \<Rightarrow> string) \<Rightarrow> (string \<Rightarrow> (string \<times> string option) list) \<Rightarrow> (string \<times> code_meta) list \<Rightarrow> string \<Rightarrow>
   (string \<times> cell) list list \<Rightarrow> (string \<times> cell) list list" where
  "apply_code_mappings show_cell alias_map codes sql rows =
     (if codes = [] \<or> sql = [] then rows
      else let ccs = coded_columns (alias_map sql) codes
           in if ccs = [] then rows else map (fold (map_code show_cell) ccs) rows)"

section \<open>Facts\<close>

lemma fst_dict_set: "map_of row k \<noteq> None \<Longrightarrow> map fst (dict_set k v row) = map fst row"
  by (induction row) (auto split: if_splits)

lemma map_code_keys: "map fst (map_code show_cell cc row) = map fst row"
  by (auto simp: map_code_def fst_dict_set split: option.splits)

lemma map_codes_keys: "map fst (fold (map_code show_cell) ccs row) = map fst row"
  by (induction ccs arbitrary: row) (simp_all add: map_code_keys)

lemma ZWSP_shape: "ZWSP = [char_of (226 :: nat), char_of (128 :: nat), char_of (139 :: nat)]"
  by (simp add: ZWSP_def utf8_def)

lemma ZWSP_no_newline: "contains (ZWSP @ s) (CHR 0x0A # p) = contains s (CHR 0x0A # p)"
  by (simp add: ZWSP_shape char_of_def)

lemma break_headings_first: "\<exists>r. break_headings (x # xs) = x # r"
  by (induction "x # xs" rule: break_headings.induct) auto

lemma break_headings_marks: "starts_with (break_headings s) ''##'' \<Longrightarrow> starts_with s ''##''"
proof (induction s rule: break_headings.induct)
  case (1 a b c s)
  obtain r where "break_headings (b # c # s) = b # r" using break_headings_first by blast
  with 1 show ?case by (auto split: if_splits)
qed auto

lemma break_headings_free: "\<not> contains (break_headings s) (CHR 0x0A # ''##'')"
proof (induction s rule: break_headings.induct)
  case (1 a b c s)
  show ?case
  proof (cases "a = CHR 0x0A \<and> b = CHR ''#'' \<and> c = CHR ''#''")
    case True
    then have "break_headings (a # b # c # s) = CHR 0x0A # ZWSP @ ''##'' @ break_headings s" by simp
    moreover have "\<not> contains (''##'' @ break_headings s) (CHR 0x0A # ''##'')" using 1(1) [OF True] by simp
    ultimately show ?thesis by (simp add: ZWSP_shape char_of_def)
  next
    case False
    have "\<not> starts_with (a # break_headings (b # c # s)) (CHR 0x0A # ''##'')"
      using False break_headings_marks [of "b # c # s"] by auto
    moreover from False have "break_headings (a # b # c # s) = a # break_headings (b # c # s)" by auto
    ultimately show ?thesis using 1(2) [OF False] by simp
  qed
qed simp_all

section \<open>Properties\<close>

text \<open>
  A cell cannot open a section of the report: however the database's text reads, no line of
  the cell written into the table starts with a heading mark.
\<close>
theorem cell_opens_no_heading:
  "\<not> starts_with (format_cell show_cell formats col c) ''##'' \<and>
   \<not> contains (format_cell show_cell formats col c) (CHR 0x0A # ''##'')"
proof -
  have "\<not> starts_with (defuse t) ''##''" for t
    using break_headings_marks [of t] break_headings_marks [of "ZWSP @ t"]
    by (auto simp: defuse_def ZWSP_shape char_of_def)
  moreover have "\<not> contains (defuse t) (CHR 0x0A # ''##'')" for t
    by (simp add: defuse_def break_headings_free)
  ultimately show ?thesis by (simp add: format_cell_def)
qed

end
