(* ===== verification/Present.thy ===== *)
theory Present imports ResponseFormat ResultFinalizer begin

text \<open>
  The presentation layer's nodes: analyzer, visualizer and formatter
  (\<open>src/src/agents/nodes/present/analyzer.py\<close>, \<open>visualizer.py\<close>, \<open>formatter.py\<close>).  The
  analysis service, the chart service, the process summary and the trace texts are arguments.
\<close>

definition ERR_DATA_ANALYSIS :: string where
  "ERR_DATA_ANALYSIS = ''An error occurred while analysing the data.''"

definition ERR_FORMATTING :: string where
  "ERR_FORMATTING = ''An error occurred while formatting the result.''"

section \<open>Analyzer\<close>

text \<open>\<open>analyze_data\<close> answers the analysis and whether it was streamed.\<close>

definition analyzer_node ::
  "(analysis_result \<times> bool) result \<Rightarrow> trace_entry list \<Rightarrow> pipeline_state \<Rightarrow> pipeline_state result" where
  "analyzer_node analysis tr s =
     (case analysis of
        Inl CancelledErr \<Rightarrow> Inl CancelledErr
      | Inl _ \<Rightarrow>
          Inr (s\<lparr>analysis_result := new_analysis_result\<lparr>ar_summary := format_error True ERR_DATA_ANALYSIS\<rparr>,
                 status := QS_ERROR, error_message := format_error True ERR_DATA_ANALYSIS\<rparr>)
      | Inr (a, delivered) \<Rightarrow>
          Inr (s\<lparr>analysis_result := a, streaming_delivered := delivered, status := QS_ANALYZED, trace_log := tr\<rparr>))"

section \<open>Visualizer\<close>

text \<open>\<open>build_visualization\<close> is not guarded: its exceptions leave the node.\<close>

definition visualizer_node ::
  "int \<Rightarrow> visualization_data result \<Rightarrow> trace_entry list \<Rightarrow> pipeline_state \<Rightarrow> pipeline_state result" where
  "visualizer_node min_rows chart tr s =
     (if sr_row_count (sql_result s) < min_rows
      then Inr (s\<lparr>visualization := new_visualization_data\<rparr>)
      else result_bind chart (\<lambda>viz. Inr (s\<lparr>visualization := viz, trace_log := tr\<rparr>)))"

section \<open>Formatter\<close>

record formatter_env =
  fe_alias_map :: "string \<Rightarrow> (string \<times> string option) list"
  fe_show :: "cell \<Rightarrow> string"
  fe_max_rows :: nat
  fe_summary :: "pipeline_state \<Rightarrow> json option"
  fe_now :: string

text \<open>A cell as it is sent: a decimal is serialised as its text by the web framework.\<close>

definition cell_json :: "(cell \<Rightarrow> string) \<Rightarrow> cell \<Rightarrow> json" where
  "cell_json show_cell c = (case c of Plain j \<Rightarrow> j | Decimal q \<Rightarrow> JStr (show_cell c))"

fun column_format_value :: "column_format \<Rightarrow> string" where
  "column_format_value Fmt_currency = ''currency''"
| "column_format_value Fmt_rate = ''rate''"
| "column_format_value Fmt_count = ''count''"
| "column_format_value Fmt_text = ''text''"

definition build_result_data ::
  "formatter_env \<Rightarrow> string list \<Rightarrow> (string \<times> cell) list list \<Rightarrow> (string \<times> column_format) list \<Rightarrow> json option" where
  "build_result_data env columns rows formats =
     (if columns = [] \<or> rows = [] then None
      else let shown = take (fe_max_rows env) rows
           in Some (JObj [(''columns'', JList (map JStr columns)),
                (''rows'', JList (map (\<lambda>r. JObj (map (\<lambda>(k, c). (k, cell_json (fe_show env) c)) r)) shown)),
                (''column_formats'', JObj (map (\<lambda>(k, f). (k, JStr (column_format_value f))) formats)),
                (''total_count'', JNum (of_nat (length rows))),
                (''displayed_count'', JNum (of_nat (length shown)))]))"

definition NO_ROWS_TEXT :: string where
  "NO_ROWS_TEXT = ''The SQL was written, but the query returned no rows.'' @ newline @
     ''Please check its filter conditions and whether its tables hold data.''"

definition render_formatted_text ::
  "formatter_env \<Rightarrow> pipeline_state \<Rightarrow> (string \<times> cell) list list \<Rightarrow> (string \<times> column_format) list \<Rightarrow> string result" where
  "render_formatted_text env s rows formats =
     (let a = analysis_result s
      in result_bind
           (if ar_initial_reading a \<noteq> [] \<or> ar_insights a \<noteq> [] \<or> ar_action_items a \<noteq> []
            then Inr (build_analysis_report a)
            else if ar_summary a \<noteq> [] then Inr (ar_summary a)
            else build_summary_line (fe_show env) (sr_columns (sql_result s)) rows formats)
           (\<lambda>text. Inr (if text \<noteq> [] then text else NO_ROWS_TEXT)))"

definition FORCE_NOTE :: string where
  "FORCE_NOTE = ''**Note**: not enough was confirmed, so the query includes some inference.'' @
     '' If the result differs from what you expected, please ask more specifically.''"

definition formatter_node :: "formatter_env \<Rightarrow> pipeline_state \<Rightarrow> pipeline_state" where
  "formatter_node env s =
     (if formatted_response s \<noteq> [] \<and> sr_rows (sql_result s) = []
      then s\<lparr>trace_log := add_trace (fe_now env) s ''formatting'' ''plain answer passed on'' []\<rparr>
      else
        let sql = (case validated_sql (reason s) of None \<Rightarrow> [] | Some q \<Rightarrow> q);
            formats = detect_column_formats (fe_alias_map env) sql;
            rows = apply_code_mappings (fe_show env) (fe_alias_map env) (explored_codes (reason s)) sql (sr_rows (sql_result s))
        in case render_formatted_text env s rows formats of
             Inl e \<Rightarrow> s\<lparr>formatted_response := format_error True ERR_FORMATTING, status := QS_ERROR,
                        error_message := ERR_FORMATTING,
                        trace_log := add_trace (fe_now env) s ''formatting'' (''error: '' @ ERR_FORMATTING) []\<rparr>
           | Inr text \<Rightarrow>
               s\<lparr>formatted_response :=
                   (if is_force_generated (reason s) then FORCE_NOTE @ newline @ newline @ text else text),
                 result_data := build_result_data env (sr_columns (sql_result s)) rows formats,
                 process_summary := fe_summary env s, status := QS_FORMATTED,
                 trace_log := add_trace (fe_now env) s ''formatting'' ''result formatted'' []\<rparr>)"

section \<open>Facts\<close>

lemma analyzer_frame [frame_simps]:
  "analyzer_node a tr s = Inr s' \<Longrightarrow> reason s' = reason s \<and> session_part s' = session_part s"
  by (auto simp: analyzer_node_def session_part_def split: sum.splits py_error.splits)

lemma visualizer_frame [frame_simps]:
  "visualizer_node m chart tr s = Inr s' \<Longrightarrow>
   reason s' = reason s \<and> status s' = status s \<and> error_message s' = error_message s"
  by (auto simp: visualizer_node_def result_bind_Inr_iff split: if_splits)

lemma formatter_frame [frame_simps]: "reason (formatter_node env s) = reason s"
  by (simp add: formatter_node_def Let_def split: sum.split)

lemma NO_ROWS_TEXT_nonempty [simp]: "NO_ROWS_TEXT \<noteq> []"
  by (simp add: NO_ROWS_TEXT_def)

lemma render_nonempty: "render_formatted_text env s rows formats = Inr text \<Longrightarrow> text \<noteq> []"
  by (auto simp: render_formatted_text_def result_bind_Inr_iff Let_def split: if_splits)

section \<open>Properties\<close>

text \<open>
  The answer always has a text and never carries more rows than the limit: after the
  formatter the response is not empty, and structured data it set holds at most the configured
  number of rows.
\<close>
theorem formatter_answers:
  "formatted_response (formatter_node env s) \<noteq> [] \<and>
   (result_data (formatter_node env s) = result_data s \<or> result_data (formatter_node env s) = None \<or>
    (\<exists>d rows. result_data (formatter_node env s) = Some (JObj d) \<and> map_of d ''rows'' = Some (JList rows) \<and>
       length rows \<le> fe_max_rows env \<and> map_of d ''displayed_count'' = Some (JNum (of_nat (length rows)))))"
proof -
  have data: "build_result_data env columns rows formats = None \<or>
      (\<exists>d rs. build_result_data env columns rows formats = Some (JObj d) \<and> map_of d ''rows'' = Some (JList rs) \<and>
         length rs \<le> fe_max_rows env \<and> map_of d ''displayed_count'' = Some (JNum (of_nat (length rs))))"
    for columns rows formats
    by (simp add: build_result_data_def Let_def)
  let ?sql = "case validated_sql (reason s) of None \<Rightarrow> [] | Some q \<Rightarrow> q"
  let ?fs = "detect_column_formats (fe_alias_map env) ?sql"
  let ?rows = "apply_code_mappings (fe_show env) (fe_alias_map env) (explored_codes (reason s)) ?sql (sr_rows (sql_result s))"
  show ?thesis
  proof (cases "formatted_response s \<noteq> [] \<and> sr_rows (sql_result s) = []")
    case False
    show ?thesis
    proof (cases "render_formatted_text env s ?rows ?fs")
      case (Inl e)
      with False show ?thesis by (auto simp: formatter_node_def Let_def format_error_def ERR_FORMATTING_def)
    next
      case (Inr report)
      then have "report \<noteq> []" by (rule render_nonempty)
      with False Inr have "formatted_response (formatter_node env s) \<noteq> []"
        "result_data (formatter_node env s) = build_result_data env (sr_columns (sql_result s)) ?rows ?fs"
        by (auto simp: formatter_node_def Let_def FORCE_NOTE_def)
      with data [of "sr_columns (sql_result s)" ?rows ?fs] show ?thesis by simp
    qed
  qed (simp add: formatter_node_def)
qed

text \<open>
  An analysis that failed is presented as a success.  The analyzer reports the error in the
  status, the edge to the visualizer is unconditional, and the formatter replaces the status: the
  turn ends FORMATTED, with the error text as its report and the error message still set.
\<close>
theorem failed_analysis_ends_formatted:
  assumes "analyzer_node (Inl e) tr s = Inr s1" and "visualizer_node m chart tr2 s1 = Inr s2"
    and "sr_rows (sql_result s) \<noteq> []"
  shows "status s1 = QS_ERROR \<and> status (formatter_node env s2) = QS_FORMATTED \<and>
         error_message (formatter_node env s2) = format_error True ERR_DATA_ANALYSIS"
proof -
  from assms(1) have s1: "s1 = s\<lparr>analysis_result := new_analysis_result\<lparr>ar_summary := format_error True ERR_DATA_ANALYSIS\<rparr>,
      status := QS_ERROR, error_message := format_error True ERR_DATA_ANALYSIS\<rparr>"
    by (auto simp: analyzer_node_def split: py_error.splits)
  have s2: "sql_result s2 = sql_result s1 \<and> analysis_result s2 = analysis_result s1 \<and> error_message s2 = error_message s1"
    using assms(2) by (auto simp: visualizer_node_def result_bind_Inr_iff split: if_splits)
  have "render_formatted_text env s2 rows formats = Inr (format_error True ERR_DATA_ANALYSIS)" for rows formats
    using s2 by (simp add: render_formatted_text_def s1 new_analysis_result_def format_error_def ERR_DATA_ANALYSIS_def)
  with s2 assms(3) show ?thesis by (simp add: formatter_node_def s1 Let_def)
qed

theorem failed_analysis_ends_formatted_witness:
  "\<exists>s1 s2. analyzer_node (Inl TimeoutErr) []
       (new_pipeline_state\<lparr>sql_result := new_sql_result\<lparr>sr_rows := [[(''n'', Plain (JNum 1))]]\<rparr>\<rparr>) = Inr s1 \<and>
     visualizer_node 2 (Inr new_visualization_data) [] s1 = Inr s2 \<and>
     status s1 = QS_ERROR \<and>
     status (formatter_node \<lparr>fe_alias_map = (\<lambda>_. []), fe_show = (\<lambda>_. []), fe_max_rows = 10,
                             fe_summary = (\<lambda>_. None), fe_now = []\<rparr> s2) = QS_FORMATTED"
proof -
  let ?s = "new_pipeline_state\<lparr>sql_result := new_sql_result\<lparr>sr_rows := [[(''n'', Plain (JNum 1))]]\<rparr>\<rparr>"
  obtain s1 where s1: "analyzer_node (Inl TimeoutErr) [] ?s = Inr s1" by (simp add: analyzer_node_def)
  obtain s2 where s2: "visualizer_node 2 (Inr new_visualization_data) [] s1 = Inr s2"
    by (cases "sr_row_count (sql_result s1) < 2") (simp_all add: visualizer_node_def)
  from failed_analysis_ends_formatted [OF s1 s2] s1 s2 show ?thesis by simp
qed

end
