(* ===== verification/Pipeline.thy ===== *)
theory Pipeline
  imports ReadinessGate SqlValidator Recovery Clarification ResultFinalizer ContinueOrchestrator
    ContextRetriever Interpret ReasoningPreparer ContextInterpreter Present
begin

text \<open>
  The graph of a turn (\<open>src/src/agents/graph/pipeline.py\<close>): the routing functions and their edge
  tables, the nodes with the cancellation wrapper of \<open>build_pipeline\<close>, and the runs of the graph
  as a step relation.  A node's name is the string the builder registers; \<open>END\<close> is the
  framework's.
\<close>

section \<open>Routing\<close>

definition next_after_intent :: "settings \<Rightarrow> string" where
  "next_after_intent cfg = (if normalization_enabled cfg then ''query_normalizer'' else ''reasoning_preparer'')"

definition route_after_intent_classifier :: "settings \<Rightarrow> pipeline_state \<Rightarrow> string" where
  "route_after_intent_classifier cfg s =
     (if pending_signals s \<noteq> [] then ''clarification_handler''
      else if status s = QS_CANCELLED then ''error_end''
      else if status s = QS_ERROR then ''error_end''
      else if status s = QS_CONTINUE_ORCHESTRATION_PENDING then ''continue_orchestrator''
      else if intent s \<in> {CASUAL_TALK, META_QUESTION} then ''simple_responder''
      else next_after_intent cfg)"

definition route_after_normalize :: "pipeline_state \<Rightarrow> string" where
  "route_after_normalize s =
     (if status s = QS_CANCELLED then ''error_end''
      else if pending_signals s \<noteq> [] then ''clarification_handler''
      else ''reasoning_preparer'')"

definition PHASE_TO_ROUTE :: "phase \<Rightarrow> string option" where
  "PHASE_TO_ROUTE p = (case p of EXPLORING \<Rightarrow> Some ''explore'' | GENERATING \<Rightarrow> Some ''generate_sql''
     | REPLANNING \<Rightarrow> Some ''recovery'' | DONE \<Rightarrow> Some ''conclude_failure'' | _ \<Rightarrow> None)"

definition route_after_readiness_gate :: "pipeline_state \<Rightarrow> string" where
  "route_after_readiness_gate s =
     (if status s = QS_CANCELLED then ''conclude_failure''
      else if pending_signals s \<noteq> [] then ''clarification_handler''
      else (case PHASE_TO_ROUTE (phase (reason s)) of None \<Rightarrow> ''conclude_failure'' | Some k \<Rightarrow> k))"

definition route_after_sql_generator :: "pipeline_state \<Rightarrow> string" where
  "route_after_sql_generator s =
     (if failure_type (reason s) = Some GENERATION_FAILED then
        if is_force_generated (reason s) then ''conclude_failure''
        else if route s = Some REGENERATE then ''conclude_failure''
        else ''replan''
      else if pending_signals s \<noteq> [] then ''clarification_handler''
      else ''sql_validator'')"

text \<open>The retry branches: escalation, then the limit of generations, then the given key.\<close>

definition retry_route :: "settings \<Rightarrow> reasoning_state \<Rightarrow> string \<Rightarrow> string" where
  "retry_route cfg r key =
     (if should_escalate_to_structural cfg (loop_guard r) then ''replan''
      else if MAX_GENERATES cfg > 0 \<and> generate_attempts (loop_guard r) \<ge> MAX_GENERATES cfg
        then ''conclude_failure''
      else key)"

definition route_after_sql_validator :: "settings \<Rightarrow> pipeline_state \<Rightarrow> string" where
  "route_after_sql_validator cfg s =
     (let r = reason s; ft = failure_type r
      in if route s = Some REGENERATE \<and> ft \<notin> {None, Some SQL_SYNTAX, Some SQL_SEMANTIC_LOCAL}
         then ''conclude_failure''
         else case ft of
           None \<Rightarrow> ''conclude_success''
         | Some SQL_SYNTAX \<Rightarrow> retry_route cfg r ''fix_syntax''
         | Some SQL_SEMANTIC_LOCAL \<Rightarrow> retry_route cfg r ''fix_local''
         | Some _ \<Rightarrow> ''replan'')"

definition route_after_recovery_agent :: "pipeline_state \<Rightarrow> string" where
  "route_after_recovery_agent s =
     (if status s = QS_CANCELLED then ''result_finalizer''
      else if pending_signals s \<noteq> [] then ''clarification_handler''
      else if phase (reason s) = EXPLORING then ''context_retriever''
      else if phase (reason s) = GENERATING then ''sql_generator''
      else ''result_finalizer'')"

definition route_after_result_finalizer :: "pipeline_state \<Rightarrow> string" where
  "route_after_result_finalizer s =
     (if status s = QS_CANCELLED then ''error_end''
      else if error_message s \<noteq> [] then ''error_end''
      else if has_validated (reason s) then ''sql_executor''
      else ''error_end'')"

definition route_after_execution :: "pipeline_state \<Rightarrow> string" where
  "route_after_execution s =
     (if status s \<in> {QS_ERROR, QS_CANCELLED} then ''error_end''
      else if intent s = DATA_ANALYSIS \<and> needs_analyzer s then ''analyzer''
      else ''visualizer'')"

definition VALID_RETURN_TARGETS :: "string list" where
  "VALID_RETURN_TARGETS = [''intent_classifier'', ''query_normalizer'', ''recovery_agent'', ''continue_orchestrator'']"

definition LEGACY_TARGET_MAP :: "(string \<times> string) list" where
  "LEGACY_TARGET_MAP = [(''resolve_history'', ''intent_classifier''), (''classify_intent'', ''intent_classifier''),
     (''resolve_and_classify'', ''intent_classifier'')]"

definition route_after_clarify :: "pipeline_state \<Rightarrow> string" where
  "route_after_clarify s =
     (let current = filter (\<lambda>sg. sg_turn_id sg = Some (turn_id s)) (resolved_signals s)
      in if current = [] then ''intent_classifier''
         else
           let source = sg_source_node (last current);
               target = (case map_of LEGACY_TARGET_MAP source of None \<Rightarrow> source | Some t \<Rightarrow> t)
           in if target \<in> set VALID_RETURN_TARGETS then target else ''intent_classifier'')"

section \<open>Edges\<close>

definition static_edges :: "(string \<times> string) list" where
  "static_edges =
     [(''turn_reset'', ''intent_classifier''), (''reasoning_preparer'', ''context_retriever''),
      (''context_retriever'', ''context_interpreter''), (''context_interpreter'', ''readiness_gate''),
      (''analyzer'', ''visualizer''), (''visualizer'', ''formatter''), (''simple_responder'', ''formatter''),
      (''formatter'', ''save_turn_snapshot''), (''save_turn_snapshot'', ''END''), (''error_end'', ''END'')]"

definition same_names :: "string list \<Rightarrow> (string \<times> string) list" where
  "same_names ns = map (\<lambda>n. (n, n)) ns"

definition conditional_edges :: "(string \<times> (string \<times> string) list) list" where
  "conditional_edges =
     [(''intent_classifier'', same_names [''clarification_handler'', ''continue_orchestrator'', ''simple_responder'',
         ''query_normalizer'', ''reasoning_preparer'', ''error_end'']),
      (''query_normalizer'', same_names [''error_end'', ''clarification_handler'', ''reasoning_preparer'']),
      (''readiness_gate'', [(''explore'', ''context_retriever''), (''generate_sql'', ''sql_generator''),
         (''recovery'', ''recovery_agent''), (''conclude_failure'', ''result_finalizer''),
         (''clarification_handler'', ''clarification_handler'')]),
      (''sql_generator'', [(''sql_validator'', ''sql_validator''), (''clarification_handler'', ''clarification_handler''),
         (''replan'', ''recovery_agent''), (''conclude_failure'', ''result_finalizer'')]),
      (''sql_validator'', [(''conclude_success'', ''result_finalizer''), (''fix_syntax'', ''sql_generator''),
         (''fix_local'', ''sql_generator''), (''replan'', ''recovery_agent''), (''conclude_failure'', ''result_finalizer'')]),
      (''recovery_agent'', same_names [''context_retriever'', ''sql_generator'', ''result_finalizer'', ''clarification_handler'']),
      (''result_finalizer'', same_names [''sql_executor'', ''error_end'']),
      (''clarification_handler'', same_names VALID_RETURN_TARGETS),
      (''sql_executor'', same_names [''analyzer'', ''visualizer'', ''error_end''])]"

text \<open>The routing function the builder attaches to a node.\<close>

definition route_key :: "settings \<Rightarrow> string \<Rightarrow> pipeline_state \<Rightarrow> string" where
  "route_key cfg n s =
     (if n = ''intent_classifier'' then route_after_intent_classifier cfg s
      else if n = ''query_normalizer'' then route_after_normalize s
      else if n = ''readiness_gate'' then route_after_readiness_gate s
      else if n = ''sql_generator'' then route_after_sql_generator s
      else if n = ''sql_validator'' then route_after_sql_validator cfg s
      else if n = ''recovery_agent'' then route_after_recovery_agent s
      else if n = ''result_finalizer'' then route_after_result_finalizer s
      else if n = ''clarification_handler'' then route_after_clarify s
      else route_after_execution s)"

text \<open>The successor of a node; a key missing from its edge table would be an error of the framework.\<close>

definition next_node :: "settings \<Rightarrow> string \<Rightarrow> pipeline_state \<Rightarrow> string option" where
  "next_node cfg n s =
     (case map_of static_edges n of
        Some m \<Rightarrow> Some m
      | None \<Rightarrow> (case map_of conditional_edges n of
                   Some table \<Rightarrow> map_of table (route_key cfg n s)
                 | None \<Rightarrow> None))"

definition NODES :: "string list" where
  "NODES = [''turn_reset'', ''intent_classifier'', ''continue_orchestrator'', ''query_normalizer'',
     ''clarification_handler'', ''reasoning_preparer'', ''context_retriever'', ''context_interpreter'',
     ''readiness_gate'', ''sql_generator'', ''sql_validator'', ''recovery_agent'', ''result_finalizer'',
     ''sql_executor'', ''analyzer'', ''visualizer'', ''formatter'', ''save_turn_snapshot'',
     ''simple_responder'', ''error_end'']"

section \<open>The error node\<close>

definition handle_error :: "settings \<Rightarrow> json option \<Rightarrow> pipeline_state \<Rightarrow> pipeline_state" where
  "handle_error cfg summary s =
     (if status s = QS_CANCELLED then
        s\<lparr>formatted_response := (if formatted_response s \<noteq> [] then formatted_response s
                                else ''The request was stopped.''),
          status := QS_CANCELLED, process_summary := summary\<rparr>
      else
        let error_msg = (if error_message s \<noteq> [] then error_message s else ERR_GENERIC);
            user_message =
              (if MAX_GENERATES cfg > 0 \<and> generate_attempts (loop_guard (reason s)) \<ge> MAX_GENERATES cfg
               then ERR_SQL_RETRY_EXHAUSTED
               else ''Sorry. '' @ error_msg @ newline @ REPHRASE_GUIDE)
        in s\<lparr>formatted_response := user_message, status := QS_ERROR, process_summary := summary\<rparr>)"

section \<open>Runs\<close>

definition CANCELLABLE :: "string list" where
  "CANCELLABLE = [''intent_classifier'', ''query_normalizer'', ''context_retriever'', ''context_interpreter'',
     ''readiness_gate'', ''sql_generator'', ''sql_validator'', ''recovery_agent'', ''sql_executor'',
     ''analyzer'', ''visualizer'', ''formatter'']"

text \<open>
  A node's run, without the cancellation wrapper.  What comes from outside (replies of the model,
  tools, databases, the user and the clock) is any value.  A run that raises has no successor.
\<close>

inductive node_body ::
  "settings \<Rightarrow> (string \<times> connector) list \<Rightarrow> string \<Rightarrow> pipeline_state \<Rightarrow> pipeline_state \<Rightarrow> bool"
  for cfg dbs where
  nb_turn_reset: "node_body cfg dbs ''turn_reset'' s (turn_reset s)"
| nb_intent_classifier: "intent_classifier_node cfg r tr s = Inr s' \<Longrightarrow> node_body cfg dbs ''intent_classifier'' s s'"
| nb_query_normalizer: "query_normalizer_node ex nq tr s = Inr s' \<Longrightarrow> node_body cfg dbs ''query_normalizer'' s s'"
| nb_clarification_handler: "node_body cfg dbs ''clarification_handler'' s (clarification_handler_node now answer s)"
| nb_reasoning_preparer: "node_body cfg dbs ''reasoning_preparer'' s (reasoning_preparer_node s)"
| nb_context_retriever: "context_retriever_node cfg dbs renv s = Inr s' \<Longrightarrow> node_body cfg dbs ''context_retriever'' s s'"
| nb_context_interpreter: "context_interpreter_node ienv s = Inr s' \<Longrightarrow> node_body cfg dbs ''context_interpreter'' s s'"
| nb_readiness_gate: "node_body cfg dbs ''readiness_gate'' s (s\<lparr>reason := readiness_gate_reason cfg (reason s)\<rparr>)"
| nb_sql_generator: "sql_generator_reason cfg dbs outcome (reason s) = Inr r' \<Longrightarrow>
    node_body cfg dbs ''sql_generator'' s (s\<lparr>reason := r'\<rparr>)"
| nb_sql_validator: "sql_validator_node cfg dbs venv s = Inr s' \<Longrightarrow> node_body cfg dbs ''sql_validator'' s s'"
| nb_recovery_agent: "recovery_agent_node cfg (build_recovery_plan mr lg client loads msgs) s = Inr s' \<Longrightarrow>
    node_body cfg dbs ''recovery_agent'' s s'"
| nb_result_finalizer: "node_body cfg dbs ''result_finalizer'' s (result_finalizer_node s)"
| nb_sql_executor: "sql_executor_node cfg dbs nfkc execute elapsed now detail s = Inr s' \<Longrightarrow>
    node_body cfg dbs ''sql_executor'' s s'"
| nb_analyzer: "analyzer_node analysis tr s = Inr s' \<Longrightarrow> node_body cfg dbs ''analyzer'' s s'"
| nb_visualizer: "visualizer_node min_rows chart tr s = Inr s' \<Longrightarrow> node_body cfg dbs ''visualizer'' s s'"
| nb_formatter: "node_body cfg dbs ''formatter'' s (formatter_node fenv s)"
| nb_save_turn_snapshot: "node_body cfg dbs ''save_turn_snapshot'' s (save_turn_snapshot s)"
| nb_simple_responder: "node_body cfg dbs ''simple_responder'' s (simple_responder_node tr s)"
| nb_error_end: "node_body cfg dbs ''error_end'' s (handle_error cfg summary s)"

text \<open>With the wrapper: \<open>c\<close> is the cancel flag when the node is entered.\<close>

definition node_run ::
  "settings \<Rightarrow> (string \<times> connector) list \<Rightarrow> bool \<Rightarrow> string \<Rightarrow> pipeline_state \<Rightarrow> pipeline_state \<Rightarrow> bool" where
  "node_run cfg dbs c n s s' \<longleftrightarrow>
     (if c \<and> n \<in> set CANCELLABLE then s' = s\<lparr>status := QS_CANCELLED, error_message := CANCEL_MESSAGE\<rparr>
      else node_body cfg dbs n s s')"

text \<open>
  A step of the graph: a node and its successor by the edge tables, or the orchestrator's own
  command, which names the next node.
\<close>

inductive graph_step ::
  "settings \<Rightarrow> (string \<times> connector) list \<Rightarrow> bool \<Rightarrow> string \<times> pipeline_state \<Rightarrow> string \<times> pipeline_state \<Rightarrow> bool"
  for cfg dbs c where
  by_edge: "node_run cfg dbs c n s s' \<Longrightarrow> next_node cfg n s' = Some m \<Longrightarrow> graph_step cfg dbs c (n, s) (m, s')"
| by_command: "continue_orchestrator_node cfg dbs reply stored execute now detail s = Inr (s', m) \<Longrightarrow>
    graph_step cfg dbs c (''continue_orchestrator'', s) (m, s')"

inductive_cases graph_stepE: "graph_step cfg dbs c (n, s) (m, s')"

text \<open>A step of a turn; the user may set the flag at any time.\<close>

definition turn_step ::
  "settings \<Rightarrow> (string \<times> connector) list \<Rightarrow> string \<times> pipeline_state \<Rightarrow> string \<times> pipeline_state \<Rightarrow> bool" where
  "turn_step cfg dbs x y \<longleftrightarrow> (\<exists>c. graph_step cfg dbs c x y)"

inductive_cases at_turn_reset: "node_body cfg dbs ''turn_reset'' s s'"
inductive_cases at_intent_classifier: "node_body cfg dbs ''intent_classifier'' s s'"
inductive_cases at_query_normalizer: "node_body cfg dbs ''query_normalizer'' s s'"
inductive_cases at_clarification_handler: "node_body cfg dbs ''clarification_handler'' s s'"
inductive_cases at_reasoning_preparer: "node_body cfg dbs ''reasoning_preparer'' s s'"
inductive_cases at_context_retriever: "node_body cfg dbs ''context_retriever'' s s'"
inductive_cases at_context_interpreter: "node_body cfg dbs ''context_interpreter'' s s'"
inductive_cases at_readiness_gate: "node_body cfg dbs ''readiness_gate'' s s'"
inductive_cases at_sql_generator: "node_body cfg dbs ''sql_generator'' s s'"
inductive_cases at_sql_validator: "node_body cfg dbs ''sql_validator'' s s'"
inductive_cases at_recovery_agent: "node_body cfg dbs ''recovery_agent'' s s'"
inductive_cases at_result_finalizer: "node_body cfg dbs ''result_finalizer'' s s'"

section \<open>Successors\<close>

text \<open>The successor of each node, with its routing function unfolded to the edge table.\<close>

lemmas edge_simps = next_node_def static_edges_def conditional_edges_def route_key_def same_names_def

lemma next_turn_reset: "next_node cfg ''turn_reset'' s = Some ''intent_classifier''"
  by (simp add: edge_simps)

lemma next_reasoning_preparer: "next_node cfg ''reasoning_preparer'' s = Some ''context_retriever''"
  by (simp add: edge_simps)

lemma next_context_retriever: "next_node cfg ''context_retriever'' s = Some ''context_interpreter''"
  by (simp add: edge_simps)

lemma next_context_interpreter: "next_node cfg ''context_interpreter'' s = Some ''readiness_gate''"
  by (simp add: edge_simps)

lemma next_intent_classifier:
  "next_node cfg ''intent_classifier'' s = Some (route_after_intent_classifier cfg s)"
  by (simp add: edge_simps route_after_intent_classifier_def next_after_intent_def)

lemma next_query_normalizer: "next_node cfg ''query_normalizer'' s = Some (route_after_normalize s)"
  by (simp add: edge_simps route_after_normalize_def)

lemma next_readiness_gate:
  "next_node cfg ''readiness_gate'' s = Some
     (if status s = QS_CANCELLED then ''result_finalizer''
      else if pending_signals s \<noteq> [] then ''clarification_handler''
      else case phase (reason s) of EXPLORING \<Rightarrow> ''context_retriever'' | GENERATING \<Rightarrow> ''sql_generator''
           | REPLANNING \<Rightarrow> ''recovery_agent'' | _ \<Rightarrow> ''result_finalizer'')"
  by (simp add: edge_simps route_after_readiness_gate_def PHASE_TO_ROUTE_def split: phase.split)

lemma next_sql_generator:
  "next_node cfg ''sql_generator'' s = Some
     (if failure_type (reason s) = Some GENERATION_FAILED then
        if is_force_generated (reason s) \<or> route s = Some REGENERATE then ''result_finalizer'' else ''recovery_agent''
      else if pending_signals s \<noteq> [] then ''clarification_handler'' else ''sql_validator'')"
  by (simp add: edge_simps route_after_sql_generator_def)

definition retry_node :: "settings \<Rightarrow> reasoning_state \<Rightarrow> string" where
  "retry_node cfg r =
     (if should_escalate_to_structural cfg (loop_guard r) then ''recovery_agent''
      else if MAX_GENERATES cfg > 0 \<and> generate_attempts (loop_guard r) \<ge> MAX_GENERATES cfg
        then ''result_finalizer''
      else ''sql_generator'')"

lemma next_sql_validator:
  "next_node cfg ''sql_validator'' s = Some
     (case failure_type (reason s) of
        None \<Rightarrow> ''result_finalizer''
      | Some ft \<Rightarrow>
          if ft \<in> {SQL_SYNTAX, SQL_SEMANTIC_LOCAL} then retry_node cfg (reason s)
          else if route s = Some REGENERATE then ''result_finalizer'' else ''recovery_agent'')"
  by (cases "failure_type (reason s)"; cases "the (failure_type (reason s))")
     (simp_all add: edge_simps route_after_sql_validator_def retry_route_def retry_node_def)

lemma next_recovery_agent: "next_node cfg ''recovery_agent'' s = Some (route_after_recovery_agent s)"
  by (simp add: edge_simps route_after_recovery_agent_def)

lemma next_result_finalizer: "next_node cfg ''result_finalizer'' s = Some (route_after_result_finalizer s)"
  by (simp add: edge_simps route_after_result_finalizer_def)

lemma next_clarification_handler:
  "next_node cfg ''clarification_handler'' s = Some (route_after_clarify s) \<and>
   route_after_clarify s \<in> set VALID_RETURN_TARGETS"
proof -
  have "route_after_clarify s \<in> set VALID_RETURN_TARGETS"
    by (simp add: route_after_clarify_def VALID_RETURN_TARGETS_def Let_def)
  then show ?thesis by (auto simp: edge_simps VALID_RETURN_TARGETS_def)
qed

lemma next_sql_executor: "next_node cfg ''sql_executor'' s = Some (route_after_execution s)"
  by (simp add: edge_simps route_after_execution_def)

lemmas next_simps = next_turn_reset next_reasoning_preparer next_context_retriever next_context_interpreter
  next_intent_classifier next_query_normalizer next_readiness_gate next_sql_generator next_sql_validator
  next_recovery_agent next_result_finalizer next_sql_executor

definition closed_at :: "settings \<Rightarrow> pipeline_state \<Rightarrow> string \<Rightarrow> bool" where
  "closed_at cfg s n \<longleftrightarrow> (\<exists>m. next_node cfg n s = Some m \<and> m \<in> insert ''END'' (set NODES))"

lemma closed_atI: "next_node cfg n s = Some m \<Longrightarrow> m \<in> insert ''END'' (set NODES) \<Longrightarrow> closed_at cfg s n"
  by (auto simp: closed_at_def)

lemma static_closed: "map_of static_edges n = Some m \<Longrightarrow> closed_at cfg s n"
proof (rule closed_atI)
  assume m: "map_of static_edges n = Some m"
  then show "next_node cfg n s = Some m" by (simp add: next_node_def)
  have "list_all (\<lambda>e. snd e \<in> insert ''END'' (set NODES)) static_edges" by code_simp
  with map_of_SomeD [OF m] show "m \<in> insert ''END'' (set NODES)" by (auto simp: list_all_iff)
qed

lemma intent_classifier_closed: "closed_at cfg s ''intent_classifier''"
  by (rule closed_atI [OF next_intent_classifier])
     (simp add: route_after_intent_classifier_def next_after_intent_def NODES_def)

lemma query_normalizer_closed: "closed_at cfg s ''query_normalizer''"
  by (rule closed_atI [OF next_query_normalizer]) (simp add: route_after_normalize_def NODES_def)

lemma readiness_gate_closed: "closed_at cfg s ''readiness_gate''"
  by (rule closed_atI [OF next_readiness_gate]) (simp add: NODES_def split: phase.split)

lemma sql_generator_closed: "closed_at cfg s ''sql_generator''"
  by (rule closed_atI [OF next_sql_generator]) (simp add: NODES_def)

lemma sql_validator_closed: "closed_at cfg s ''sql_validator''"
  by (rule closed_atI [OF next_sql_validator]) (simp add: retry_node_def NODES_def split: option.split)

lemma recovery_agent_closed: "closed_at cfg s ''recovery_agent''"
  by (rule closed_atI [OF next_recovery_agent]) (simp add: route_after_recovery_agent_def NODES_def)

lemma result_finalizer_closed: "closed_at cfg s ''result_finalizer''"
  by (rule closed_atI [OF next_result_finalizer]) (simp add: route_after_result_finalizer_def NODES_def)

lemma sql_executor_closed: "closed_at cfg s ''sql_executor''"
  by (rule closed_atI [OF next_sql_executor]) (simp add: route_after_execution_def NODES_def)

lemma clarification_handler_closed: "closed_at cfg s ''clarification_handler''"
proof -
  have "set VALID_RETURN_TARGETS \<subseteq> set NODES" by code_simp
  with next_clarification_handler [of cfg s] show ?thesis by (auto intro: closed_atI)
qed

text \<open>The nodes with a routing function.\<close>

definition routed_nodes :: "string list" where
  "routed_nodes = map fst conditional_edges"

lemma routed_closed: "list_all (closed_at cfg s) routed_nodes"
  by (simp add: routed_nodes_def conditional_edges_def intent_classifier_closed query_normalizer_closed
      readiness_gate_closed sql_generator_closed sql_validator_closed recovery_agent_closed
      result_finalizer_closed sql_executor_closed clarification_handler_closed)

lemma nodes_have_edges:
  "list_all (\<lambda>n. n = ''continue_orchestrator'' \<or> map_of static_edges n \<noteq> None \<or> n \<in> set routed_nodes) NODES"
  by code_simp

text \<open>
  C12: The graph is closed: whatever the state, every node but the orchestrator (which names its
  successor itself) has a successor, no routing function returns a key its edge table lacks, and
  the successor is a registered node or the end.
\<close>
theorem routing_total:
  assumes "n \<in> set NODES" and "n \<noteq> ''continue_orchestrator''"
  shows "\<exists>m. next_node cfg n s = Some m \<and> m \<in> insert ''END'' (set NODES)"
proof -
  from nodes_have_edges assms(1)
  have "n = ''continue_orchestrator'' \<or> map_of static_edges n \<noteq> None \<or> n \<in> set routed_nodes"
    unfolding list_all_iff by (rule bspec)
  with assms(2) have "map_of static_edges n \<noteq> None \<or> n \<in> set routed_nodes" by iprover
  then have "closed_at cfg s n"
  proof
    assume "map_of static_edges n \<noteq> None"
    then show ?thesis by (auto intro: static_closed)
  next
    assume "n \<in> set routed_nodes"
    with routed_closed show ?thesis unfolding list_all_iff by (rule bspec)
  qed
  then show ?thesis by (simp only: closed_at_def)
qed

theorem routing_total_witness:
  "\<exists>m. next_node default_settings ''sql_validator'' new_pipeline_state = Some m \<and> m \<in> insert ''END'' (set NODES)"
  by (rule routing_total) (simp_all add: NODES_def)

section \<open>What reaches the database\<close>

text \<open>The nodes before SQL is confirmed, and those after the turn's data is there or has failed.\<close>

definition REASONING_NODES :: "string list" where
  "REASONING_NODES = [''intent_classifier'', ''continue_orchestrator'', ''query_normalizer'', ''clarification_handler'',
     ''reasoning_preparer'', ''context_retriever'', ''context_interpreter'', ''readiness_gate'', ''sql_generator'',
     ''sql_validator'', ''recovery_agent'']"

definition PRESENTING_NODES :: "string list" where
  "PRESENTING_NODES = [''analyzer'', ''visualizer'', ''formatter'', ''save_turn_snapshot'', ''simple_responder'',
     ''error_end'', ''END'']"

definition not_to_executor :: "settings \<Rightarrow> pipeline_state \<Rightarrow> string \<Rightarrow> bool" where
  "not_to_executor cfg s n \<longleftrightarrow> next_node cfg n s \<noteq> Some ''sql_executor''"

lemma intent_not_to_executor: "not_to_executor cfg s ''intent_classifier''"
  by (simp add: not_to_executor_def next_intent_classifier route_after_intent_classifier_def next_after_intent_def)

lemma orchestrator_not_to_executor: "not_to_executor cfg s ''continue_orchestrator''"
  by (simp add: not_to_executor_def edge_simps)

lemma normalizer_not_to_executor: "not_to_executor cfg s ''query_normalizer''"
  by (simp add: not_to_executor_def next_query_normalizer route_after_normalize_def)

lemma clarify_not_to_executor: "not_to_executor cfg s ''clarification_handler''"
proof -
  have "''sql_executor'' \<notin> set VALID_RETURN_TARGETS" by code_simp
  with next_clarification_handler [of cfg s] show ?thesis by (auto simp: not_to_executor_def)
qed

lemma static_not_to_executor:
  "not_to_executor cfg s ''reasoning_preparer''" "not_to_executor cfg s ''context_retriever''"
  "not_to_executor cfg s ''context_interpreter''"
  by (simp_all add: not_to_executor_def next_reasoning_preparer next_context_retriever next_context_interpreter)

lemma gate_not_to_executor: "not_to_executor cfg s ''readiness_gate''"
  by (simp add: not_to_executor_def next_readiness_gate split: phase.split)

lemma generator_not_to_executor: "not_to_executor cfg s ''sql_generator''"
  by (simp add: not_to_executor_def next_sql_generator)

lemma validator_not_to_executor: "not_to_executor cfg s ''sql_validator''"
  by (simp add: not_to_executor_def next_sql_validator retry_node_def split: option.split)

lemma recovery_not_to_executor: "not_to_executor cfg s ''recovery_agent''"
  by (simp add: not_to_executor_def next_recovery_agent route_after_recovery_agent_def)

lemma reasoning_not_to_executor:
  assumes "n \<in> set REASONING_NODES" and "next_node cfg n s = Some m"
  shows "m \<noteq> ''sql_executor''"
proof -
  have "list_all (not_to_executor cfg s) REASONING_NODES"
    by (simp only: REASONING_NODES_def list.pred_inject intent_not_to_executor orchestrator_not_to_executor
        normalizer_not_to_executor clarify_not_to_executor static_not_to_executor gate_not_to_executor
        generator_not_to_executor validator_not_to_executor recovery_not_to_executor simp_thms)
  then have "not_to_executor cfg s n" using assms(1) unfolding list_all_iff by (rule bspec)
  with assms(2) show ?thesis by (auto simp: not_to_executor_def)
qed

lemma presenting_stays:
  "n \<in> set (''sql_executor'' # PRESENTING_NODES) \<Longrightarrow> next_node cfg n s = Some m \<Longrightarrow> m \<in> set PRESENTING_NODES"
proof -
  have "list_all (\<lambda>n. \<forall>m. next_node cfg n s = Some m \<longrightarrow> m \<in> set PRESENTING_NODES)
      (''sql_executor'' # PRESENTING_NODES)"
    by (simp add: PRESENTING_NODES_def edge_simps route_after_execution_def)
  then show "n \<in> set (''sql_executor'' # PRESENTING_NODES) \<Longrightarrow> next_node cfg n s = Some m \<Longrightarrow> m \<in> set PRESENTING_NODES"
    unfolding list_all_iff by blast
qed

lemma normalizer_reason:
  assumes "query_normalizer_node ex nq tr s = Inr s'"
  shows "reason s' = reason s"
  using assms
  by (cases rule: normalizer_cases) (auto simp: add_normalizer_signals_def Let_def dest: rewrite_frame)

lemma recovery_validated:
  assumes "recovery_agent_node cfg (build_recovery_plan mr lg client loads msgs) s = Inr s'"
  shows "validated_sql (reason s') = validated_sql (reason s)"
  using assms refl
  by (cases rule: recovery_cases) (simp_all add: frame_simps)

lemma generator_validated:
  "sql_generator_reason cfg dbs outcome r = Inr r' \<Longrightarrow> validated_sql r' = validated_sql r"
  by (cases rule: sql_generator_cases)
     (auto simp: generator_frame_def dest: generator_success_effect generator_refusal_effect)

lemma orchestrator_validated:
  assumes "continue_orchestrator_node cfg dbs reply stored execute now detail s = Inr (s', m)"
    and "validated_sql (reason s) = None"
  shows "validated_sql (reason s') = None"
  using assms(1)
proof (cases rule: orchestrator_cases)
  case ended
  with assms(2) show ?thesis by (simp add: gives_up_def)
next
  case (routed last_text ho h)
  let ?rt = "effective_route (ho_route ho) (last (turn_snapshots s))"
  have "validated_sql (reason h) = None"
  proof (cases ?rt)
    case REFINE
    with routed(4) assms(2) show ?thesis by simp
  next
    case REGENERATE
    with routed(4) hydrate_regenerate show ?thesis by fastforce
  next
    case REDISPLAY
    with hydrate_rows [OF routed(4)] show ?thesis by (metis insertI1 restored_reason_fields(1))
  next
    case ANALYZE
    with hydrate_rows [OF routed(4)] show ?thesis by (metis insertCI restored_reason_fields(1))
  qed
  with routed(7) show ?thesis by simp
qed

text \<open>No node before the validator writes the validated SQL.\<close>

lemma reasoning_validated:
  assumes "node_body cfg dbs n s s'" and "n \<in> set REASONING_NODES" and "n \<noteq> ''sql_validator''"
    and "validated_sql (reason s) = None"
  shows "validated_sql (reason s') = None"
  using assms(1)
proof (cases rule: node_body.cases)
  case nb_intent_classifier
  with assms(4) show ?thesis by (simp add: intent_classifier_frame)
next
  case nb_query_normalizer
  with assms(4) show ?thesis by (simp add: normalizer_reason)
next
  case nb_clarification_handler
  with assms(4) show ?thesis by (simp add: clarification_handler_node_def Let_def)
next
  case nb_reasoning_preparer
  with assms(4) show ?thesis by (simp add: reasoning_preparer_node_def Let_def)
next
  case nb_context_retriever
  with assms(4) show ?thesis
    by (auto simp: context_retriever_node_def Let_def split: prod.splits sum.splits)
next
  case nb_context_interpreter
  with assms(4) context_interpreter_frame show ?thesis by fastforce
next
  case nb_readiness_gate
  with assms(4) show ?thesis by (simp add: readiness_gate_reason_def Let_def frame_simps)
next
  case nb_sql_generator
  with assms(4) show ?thesis by (simp add: generator_validated)
next
  case nb_recovery_agent
  with assms(4) show ?thesis by (simp add: recovery_validated)
qed (use assms(2,3) in \<open>simp_all add: REASONING_NODES_def\<close>)

lemma validator_effect:
  assumes "sql_validator_node cfg dbs env s = Inr s'" and "validated_sql (reason s) = None"
  shows "generated_sql (reason s') = generated_sql (reason s) \<and>
    (validated_sql (reason s') = None \<or>
     (\<exists>q. validated_sql (reason s') = Some q \<and> accepted cfg dbs env s q \<and> failure_type (reason s') = None))"
  using assms(1)
proof (cases rule: sql_validator_node_cases)
  case (judged sql db j)
  let ?r = "(reason s)\<lparr>phase := VALIDATING\<rparr>"
  let ?ex = "validate_layer3 env (conn_dialect db) sql"
  have gen: "generated_sql (decide_with_llm cfg env sql ?ex j ?r) = generated_sql (reason s)"
    by (simp add: validator_defs frame_simps Let_def split: execution.split)
  from decide_with_llm_cases [of j ?ex cfg env sql ?r] judged gen assms(2) show ?thesis
    by (auto simp: accepted_def)
next
  case (unjudged sql db)
  let ?r = "(reason s)\<lparr>phase := VALIDATING\<rparr>"
  let ?ex = "validate_layer3 env (conn_dialect db) sql"
  have gen: "generated_sql (decide_without_llm sql ?ex ?r) = generated_sql (reason s)"
    by (simp add: validator_defs frame_simps split: execution.split)
  from decide_without_llm_cases [of ?ex sql ?r] unjudged gen assms(2) show ?thesis
    by (auto simp: accepted_def)
qed (use assms(2) in \<open>simp_all add: validator_defs frame_simps\<close>)

text \<open>
  The SQL of the state is what a validator run of this turn accepted: \<open>s0\<close> is the state the turn
  was started with, \<open>sv\<close> the state of that run.
\<close>

definition confirmed :: "settings \<Rightarrow> (string \<times> connector) list \<Rightarrow> pipeline_state \<Rightarrow> pipeline_state \<Rightarrow> bool" where
  "confirmed cfg dbs s0 s \<longleftrightarrow>
     (\<exists>q env sv. generated_sql (reason s) = Some q \<and> validated_sql (reason s) = Some q \<and>
        (turn_step cfg dbs)\<^sup>*\<^sup>* (''turn_reset'', s0) (''sql_validator'', sv) \<and> accepted cfg dbs env sv q)"

definition sql_inv :: "settings \<Rightarrow> (string \<times> connector) list \<Rightarrow> pipeline_state \<Rightarrow> string \<times> pipeline_state \<Rightarrow> bool" where
  "sql_inv cfg dbs s0 x \<longleftrightarrow>
     (turn_step cfg dbs)\<^sup>*\<^sup>* (''turn_reset'', s0) x \<and>
     (fst x \<in> set (''turn_reset'' # ''result_finalizer'' # ''sql_executor'' # REASONING_NODES @ PRESENTING_NODES)) \<and>
     (fst x \<in> set REASONING_NODES \<longrightarrow> validated_sql (reason (snd x)) = None) \<and>
     (fst x = ''result_finalizer'' \<longrightarrow> validated_sql (reason (snd x)) = None \<or> confirmed cfg dbs s0 (snd x)) \<and>
     (fst x = ''sql_executor'' \<longrightarrow> confirmed cfg dbs s0 (snd x) \<and> status (snd x) \<noteq> QS_CANCELLED \<and>
        error_message (snd x) = [])"

lemma node_names:
  "set (''turn_reset'' # ''result_finalizer'' # ''sql_executor'' # REASONING_NODES @ PRESENTING_NODES) =
   insert ''END'' (set NODES)"
  by code_simp

text \<open>What a step needs to keep the invariant, by the kind of its target.\<close>

lemma sql_invI:
  assumes "(turn_step cfg dbs)\<^sup>*\<^sup>* (''turn_reset'', s0) (m, s)" and "m \<in> insert ''END'' (set NODES)"
    and "m \<noteq> ''sql_executor''" and "validated_sql (reason s) = None"
  shows "sql_inv cfg dbs s0 (m, s)"
  using assms unfolding sql_inv_def node_names by simp

lemma presenting_other:
  "m \<in> set PRESENTING_NODES \<Longrightarrow> m \<notin> set REASONING_NODES \<and> m \<noteq> ''result_finalizer'' \<and> m \<noteq> ''sql_executor''"
proof -
  have "list_all (\<lambda>m. m \<notin> set REASONING_NODES \<and> m \<noteq> ''result_finalizer'' \<and> m \<noteq> ''sql_executor'') PRESENTING_NODES"
    by code_simp
  then show "m \<in> set PRESENTING_NODES \<Longrightarrow> m \<notin> set REASONING_NODES \<and> m \<noteq> ''result_finalizer'' \<and> m \<noteq> ''sql_executor''"
    unfolding list_all_iff by (rule bspec)
qed

lemma sql_inv_presenting:
  assumes "(turn_step cfg dbs)\<^sup>*\<^sup>* (''turn_reset'', s0) (m, s)" and "m \<in> set PRESENTING_NODES"
  shows "sql_inv cfg dbs s0 (m, s)"
  using assms presenting_other [OF assms(2)] unfolding sql_inv_def by simp

lemma node_run_cases:
  assumes "node_run cfg dbs c n s s'"
  obtains (body) "node_body cfg dbs n s s'"
  | (cancelled) "n \<in> set CANCELLABLE" "s' = s\<lparr>status := QS_CANCELLED, error_message := CANCEL_MESSAGE\<rparr>"
  using assms by (auto simp: node_run_def split: if_splits)

lemma finalizer_generated: "generated_sql (reason (result_finalizer_node s)) = generated_sql (reason s)"
  by (simp add: result_finalizer_node_def Let_def)

lemma successor_known: "next_node cfg n s = Some m \<Longrightarrow> m \<in> insert ''END'' (set NODES)"
proof -
  assume m: "next_node cfg n s = Some m"
  have "closed_at cfg s n"
  proof (cases "map_of static_edges n")
    case None
    with m obtain edges where "map_of conditional_edges n = Some edges"
      by (auto simp: next_node_def split: option.splits)
    then have "n \<in> set routed_nodes" by (auto simp: routed_nodes_def image_iff intro!: bexI dest: map_of_SomeD)
    with routed_closed show ?thesis unfolding list_all_iff by (rule bspec)
  qed (rule static_closed)
  with m show ?thesis by (auto simp only: closed_at_def option.inject)
qed

lemma orchestrator_targets:
  assumes "continue_orchestrator_node cfg dbs reply stored execute now detail s = Inr (s', m)"
  shows "m = ''error_end'' \<or> (\<exists>rt. m = ROUTE_TO_NODE rt)"
  using assms by (cases rule: orchestrator_cases) blast+

lemma route_to_node_known: "ROUTE_TO_NODE rt \<in> set NODES \<and> ROUTE_TO_NODE rt \<noteq> ''sql_executor''"
  by (cases rt) (simp_all add: ROUTE_TO_NODE_def NODES_def)

lemma graph_step_cases:
  assumes "graph_step cfg dbs c (n, s) (m, s')"
  obtains (edge) "node_run cfg dbs c n s s'" "next_node cfg n s' = Some m"
  | (command) reply stored execute now detail where "n = ''continue_orchestrator''"
      "continue_orchestrator_node cfg dbs reply stored execute now detail s = Inr (s', m)"
  using assms by (auto elim: graph_stepE)

text \<open>The five kinds of steps.\<close>

lemma reset_keeps_inv:
  assumes "node_run cfg dbs c ''turn_reset'' s s'" and "next_node cfg ''turn_reset'' s' = Some m"
    and "(turn_step cfg dbs)\<^sup>*\<^sup>* (''turn_reset'', s0) (m, s')"
  shows "sql_inv cfg dbs s0 (m, s')"
proof -
  from assms(1) have "s' = turn_reset s"
    by (auto simp: node_run_def CANCELLABLE_def elim: at_turn_reset)
  with assms(2,3) show ?thesis
    by (intro sql_invI) (auto simp: next_turn_reset new_reasoning_state_def NODES_def)
qed

lemma reasoning_keeps_inv:
  assumes "node_run cfg dbs c n s s'" and "next_node cfg n s' = Some m" and "n \<in> set REASONING_NODES"
    and "n \<noteq> ''sql_validator''" and "validated_sql (reason s) = None"
    and "(turn_step cfg dbs)\<^sup>*\<^sup>* (''turn_reset'', s0) (m, s')" and "m \<in> insert ''END'' (set NODES)"
  shows "sql_inv cfg dbs s0 (m, s')"
proof -
  from assms(1) have "validated_sql (reason s') = None"
    by (cases rule: node_run_cases) (use assms(3-5) in \<open>auto intro: reasoning_validated\<close>)
  then show ?thesis using reasoning_not_to_executor [OF assms(3,2)] assms(6,7) by (intro sql_invI)
qed

lemma validator_keeps_inv:
  assumes "node_run cfg dbs c ''sql_validator'' s s'" and "next_node cfg ''sql_validator'' s' = Some m"
    and "validated_sql (reason s) = None" and "(turn_step cfg dbs)\<^sup>*\<^sup>* (''turn_reset'', s0) (''sql_validator'', s)"
    and "(turn_step cfg dbs)\<^sup>*\<^sup>* (''turn_reset'', s0) (m, s')" and "m \<in> insert ''END'' (set NODES)"
  shows "sql_inv cfg dbs s0 (m, s')"
proof (cases "validated_sql (reason s')")
  case None
  have "''sql_validator'' \<in> set REASONING_NODES" by (simp add: REASONING_NODES_def)
  from reasoning_not_to_executor [OF this assms(2)] None assms(5,6) show ?thesis by (intro sql_invI)
next
  case (Some q)
  with assms(1,3) obtain venv where "sql_validator_node cfg dbs venv s = Inr s'"
    by (cases rule: node_run_cases) (auto elim: at_sql_validator)
  from validator_effect [OF this assms(3)] Some have q: "accepted cfg dbs venv s q" "failure_type (reason s') = None"
    "generated_sql (reason s') = generated_sql (reason s)" by auto
  from q(1) have "generated_sql (reason s) = Some q" by (simp add: accepted_def)
  with q Some assms(4) have "confirmed cfg dbs s0 s'" unfolding confirmed_def by auto
  moreover from assms(2) q(2) have "m = ''result_finalizer''" by (simp add: next_sql_validator)
  ultimately show ?thesis using assms(5) by (simp add: sql_inv_def REASONING_NODES_def)
qed

lemma finalizer_keeps_inv:
  assumes "node_run cfg dbs c ''result_finalizer'' s s'" and "next_node cfg ''result_finalizer'' s' = Some m"
    and "validated_sql (reason s) = None \<or> confirmed cfg dbs s0 s"
    and "(turn_step cfg dbs)\<^sup>*\<^sup>* (''turn_reset'', s0) (m, s')"
  shows "sql_inv cfg dbs s0 (m, s')"
proof -
  from assms(1) have s': "s' = result_finalizer_node s"
    by (auto simp: node_run_def CANCELLABLE_def elim: at_result_finalizer)
  show ?thesis
  proof (cases "m = ''sql_executor''")
    case True
    with assms(2) have route: "status s' \<noteq> QS_CANCELLED" "error_message s' = []" "has_validated (reason s')"
      by (auto simp: next_result_finalizer route_after_result_finalizer_def split: if_splits)
    from route(3) have "validated_sql (reason s) \<noteq> None"
      by (auto simp: has_validated_def s' result_finalizer_frame split: option.splits)
    with assms(3) have "confirmed cfg dbs s0 s" by simp
    then have "confirmed cfg dbs s0 s'"
      by (simp add: confirmed_def s' result_finalizer_frame finalizer_generated)
    with True route assms(4) show ?thesis by (simp add: sql_inv_def REASONING_NODES_def)
  next
    case False
    with assms(2) have "m = ''error_end''"
      by (auto simp: next_result_finalizer route_after_result_finalizer_def split: if_splits)
    with assms(4) show ?thesis by (intro sql_inv_presenting) (simp_all add: PRESENTING_NODES_def)
  qed
qed

lemma sql_inv_step:
  assumes inv: "sql_inv cfg dbs s0 x" and step: "turn_step cfg dbs x y"
  shows "sql_inv cfg dbs s0 y"
proof -
  obtain n s m s' where x: "x = (n, s)" and y: "y = (m, s')" by (cases x, cases y)
  from inv x have reach: "(turn_step cfg dbs)\<^sup>*\<^sup>* (''turn_reset'', s0) (n, s)" by (simp add: sql_inv_def)
  with step x y have reach': "(turn_step cfg dbs)\<^sup>*\<^sup>* (''turn_reset'', s0) (m, s')" by (auto intro: rtranclp.rtrancl_into_rtrancl)
  from step x y obtain c where "graph_step cfg dbs c (n, s) (m, s')" by (auto simp: turn_step_def)
  then show ?thesis
  proof (cases rule: graph_step_cases)
    case by_edge: edge
    have known: "m \<in> insert ''END'' (set NODES)" by (rule successor_known [OF by_edge(2)])
    from inv x have "n = ''turn_reset'' \<or> n = ''result_finalizer'' \<or> n = ''sql_executor'' \<or>
        n \<in> set REASONING_NODES \<or> n \<in> set PRESENTING_NODES"
      by (simp only: sql_inv_def fst_conv list.set set_append insert_iff Un_iff)
    then consider "n = ''turn_reset''" | "n = ''result_finalizer''"
      | "n = ''sql_executor'' \<or> n \<in> set PRESENTING_NODES"
      | "n = ''sql_validator''" | "n \<in> set REASONING_NODES" "n \<noteq> ''sql_validator''"
      by blast
    then show ?thesis
    proof cases
      case 1
      with by_edge reach' y show ?thesis by (auto intro: reset_keeps_inv)
    next
      case 2
      with inv x have "validated_sql (reason s) = None \<or> confirmed cfg dbs s0 s" by (simp add: sql_inv_def)
      with 2 by_edge reach' y show ?thesis by (auto intro: finalizer_keeps_inv)
    next
      case 3
      then have "n \<in> set (''sql_executor'' # PRESENTING_NODES)" by simp
      from presenting_stays [OF this by_edge(2)] reach' y show ?thesis by (auto intro: sql_inv_presenting)
    next
      case 4
      with inv x have "validated_sql (reason s) = None" by (simp add: sql_inv_def REASONING_NODES_def)
      with 4 by_edge reach reach' known y show ?thesis by (auto intro: validator_keeps_inv)
    next
      case 5
      with inv x have "validated_sql (reason s) = None" by (simp add: sql_inv_def)
      with reasoning_keeps_inv [OF by_edge 5] reach' known y show ?thesis by simp
    qed
  next
    case by_command: (command reply stored execute now detail)
    from inv x by_command(1) have "validated_sql (reason s) = None" by (simp add: sql_inv_def REASONING_NODES_def)
    with orchestrator_validated [OF by_command(2)] have "validated_sql (reason s') = None" by simp
    moreover have "m \<in> insert ''END'' (set NODES) \<and> m \<noteq> ''sql_executor''"
      using orchestrator_targets [OF by_command(2)] route_to_node_known by (auto simp: NODES_def)
    ultimately show ?thesis using reach' y by (auto intro: sql_invI)
  qed
qed

interpretation turn: step_invariant "\<lambda>x. x = (''turn_reset'', s0)" "turn_step cfg dbs" "sql_inv cfg dbs s0"
  for s0 cfg dbs
proof
  show "sql_inv cfg dbs s0 x" if "x = (''turn_reset'', s0)" for x
    using that by (simp add: sql_inv_def REASONING_NODES_def)
qed (rule sql_inv_step)

section \<open>Properties of a turn\<close>


text \<open>A concrete turn that rewrites the SQL of the previous one and runs it.\<close>

definition sample_cfg :: settings where
  "sample_cfg = default_settings\<lparr>validate_layer2b_enabled := False\<rparr>"

definition sample_dbs :: "(string \<times> connector) list" where
  "sample_dbs = [(''ADW'', \<lparr>conn_name = ''ADW'', conn_dialect = ''postgres''\<rparr>)]"

definition rewrite_note :: handoff where
  "rewrite_note = \<lparr>ho_route = REGENERATE, ho_note = concat (ROUTE_REQUIRED_HEADERS REGENERATE), ho_reasoning = []\<rparr>"

definition sample_reply :: sql_reply where
  "sample_reply = \<lparr>rp_status = ''success'', rp_sql = ''SELECT N FROM T LIMIT 5'', rp_reasoning_summary = JStr [],
     rp_failure_reasons = JList [], rp_assumptions = JList [], rp_explanation = JStr []\<rparr>"

definition continue_result :: intent_result where
  "continue_result = unsure_result\<lparr>ir_resolution := HD_CONTINUE, ir_intent := DATA_EXTRACTION\<rparr>"

definition sample_start :: pipeline_state where
  "sample_start = new_pipeline_state\<lparr>session_id := ''s'',
     turn_snapshots := [(sample_snapshot 7)\<lparr>sn_normalized_query := Some (new_normalized_query [])\<rparr>]\<rparr>"

definition passing_env :: validator_env where
  "passing_env = idle_env\<lparr>ve_execute := \<lambda>_. Inl 5\<rparr>"

text \<open>The states of the turn, one for each node it runs.\<close>

definition sample_turn :: "(string \<times> pipeline_state) list result" where
  "sample_turn =
     (let s1 = turn_reset sample_start
      in result_bind (intent_classifier_node sample_cfg continue_result [] s1) (\<lambda>s2.
         result_bind (continue_orchestrator_node sample_cfg sample_dbs (Inr ([], rewrite_note)) None
                        (\<lambda>_. Inl OtherError) [] [] s2) (\<lambda>(s3, m).
         result_bind (sql_generator_reason sample_cfg sample_dbs (Inr sample_reply) (reason s3)) (\<lambda>r4.
         result_bind (sql_validator_node sample_cfg sample_dbs passing_env (s3\<lparr>reason := r4\<rparr>)) (\<lambda>s5.
           Inr [(''turn_reset'', sample_start), (''intent_classifier'', s1), (''continue_orchestrator'', s2), (m, s3),
                (''sql_validator'', s3\<lparr>reason := r4\<rparr>), (''result_finalizer'', s5),
                (''sql_executor'', result_finalizer_node s5)])))))"

text \<open>Each state is followed by the successor the edge tables give.\<close>

definition follows :: "(string \<times> pipeline_state) \<Rightarrow> (string \<times> pipeline_state) \<Rightarrow> bool" where
  "follows x y \<longleftrightarrow> fst x = ''continue_orchestrator'' \<or> next_node sample_cfg (fst x) (snd y) = Some (fst y)"

lemma sample_turn_runs:
  "(case sample_turn of
      Inr [x0, x1, x2, x3, x4, x5, x6] \<Rightarrow>
        follows x0 x1 \<and> follows x1 x2 \<and> fst x3 = ''sql_generator'' \<and> follows x3 x4 \<and> follows x4 x5 \<and> follows x5 x6
    | _ \<Rightarrow> False)"
  by code_simp

lemma followsD:
  "follows (n, s) (m, s') \<Longrightarrow> n \<noteq> ''continue_orchestrator'' \<Longrightarrow> node_body sample_cfg sample_dbs n s s' \<Longrightarrow>
    turn_step sample_cfg sample_dbs (n, s) (m, s')"
  by (auto simp: follows_def turn_step_def node_run_def intro!: exI [of _ False] by_edge)

lemma seven_states:
  assumes "(case r of Inr [x0, x1, x2, x3, x4, x5, x6] \<Rightarrow> P x0 x1 x2 x3 x4 x5 x6 | _ \<Rightarrow> False)"
  obtains x0 x1 x2 x3 x4 x5 x6 where "r = Inr [x0, x1, x2, x3, x4, x5, x6]" "P x0 x1 x2 x3 x4 x5 x6"
  using assms by (auto split: sum.splits list.splits)

lemma path_of_six: "R a b \<Longrightarrow> R b c \<Longrightarrow> R c d \<Longrightarrow> R d e \<Longrightarrow> R e f \<Longrightarrow> R f g \<Longrightarrow> R\<^sup>*\<^sup>* a g"
  by (iprover intro: converse_rtranclp_into_rtranclp rtranclp.rtrancl_refl)

lemma sample_turn_reaches:
  "\<exists>s. (turn_step sample_cfg sample_dbs)\<^sup>*\<^sup>* (''turn_reset'', sample_start) (''sql_executor'', s)"
proof -
  let ?c = sample_cfg and ?d = sample_dbs
  define s1 where "s1 = turn_reset sample_start"
  obtain s2 s3 m r4 s5 where
      b2: "intent_classifier_node ?c continue_result [] s1 = Inr s2"
    and b3: "continue_orchestrator_node ?c ?d (Inr ([], rewrite_note)) None (\<lambda>_. Inl OtherError) [] [] s2 = Inr (s3, m)"
    and b4: "sql_generator_reason ?c ?d (Inr sample_reply) (reason s3) = Inr r4"
    and b5: "sql_validator_node ?c ?d passing_env (s3\<lparr>reason := r4\<rparr>) = Inr s5"
    and f: "follows (''turn_reset'', sample_start) (''intent_classifier'', s1)"
      "follows (''intent_classifier'', s1) (''continue_orchestrator'', s2)" "m = ''sql_generator''"
      "follows (m, s3) (''sql_validator'', s3\<lparr>reason := r4\<rparr>)"
      "follows (''sql_validator'', s3\<lparr>reason := r4\<rparr>) (''result_finalizer'', s5)"
      "follows (''result_finalizer'', s5) (''sql_executor'', result_finalizer_node s5)"
    using sample_turn_runs
    by (elim seven_states) (auto simp: sample_turn_def s1_def Let_def result_bind_Inr_iff)
  have t1: "turn_step ?c ?d (''turn_reset'', sample_start) (''intent_classifier'', s1)"
    using f(1) by (rule followsD) (simp, unfold s1_def, rule nb_turn_reset)
  have t2: "turn_step ?c ?d (''intent_classifier'', s1) (''continue_orchestrator'', s2)"
    using f(2) by (rule followsD) (simp, rule nb_intent_classifier [OF b2])
  have t3: "turn_step ?c ?d (''continue_orchestrator'', s2) (m, s3)"
    unfolding turn_step_def by (rule exI [of _ False], rule by_command [OF b3])
  have t4: "turn_step ?c ?d (m, s3) (''sql_validator'', s3\<lparr>reason := r4\<rparr>)"
    using f(4) unfolding f(3) by (rule followsD) (simp, rule nb_sql_generator [OF b4])
  have t5: "turn_step ?c ?d (''sql_validator'', s3\<lparr>reason := r4\<rparr>) (''result_finalizer'', s5)"
    using f(5) by (rule followsD) (simp, rule nb_sql_validator [OF b5])
  have t6: "turn_step ?c ?d (''result_finalizer'', s5) (''sql_executor'', result_finalizer_node s5)"
    using f(6) by (rule followsD) (simp, rule nb_result_finalizer)
  have "(turn_step ?c ?d)\<^sup>*\<^sup>* (''turn_reset'', sample_start) (''sql_executor'', result_finalizer_node s5)"
    by (rule path_of_six [of "turn_step ?c ?d", OF t1 t2 t3 t4 t5 t6])
  then show ?thesis by (rule exI)
qed


end
