(* ===== verification/RetryLoops.thy ===== *)
theory RetryLoops
  imports Pipeline
begin

text \<open>
  The loops of the graph around the SQL generator: the local-fix loop with the validator, which
  the loop guard bounds; the same loop after a cancellation, which nothing bounds; and the
  forced generations after recovery has given up, which no counter bounds either.  Also the
  routing the validator writes to its trace, against the routing the graph takes.
\<close>

section \<open>The local-fix loop\<close>

text \<open>One round that is not cancelled: a generator run and a validator run that sends the state back.\<close>

definition fix_round ::
  "settings \<Rightarrow> (string \<times> connector) list \<Rightarrow> pipeline_state \<Rightarrow> pipeline_state \<Rightarrow> bool" where
  "fix_round cfg dbs s t \<longleftrightarrow>
     (\<exists>v. graph_step cfg dbs False (''sql_generator'', s) (''sql_validator'', v) \<and>
          graph_step cfg dbs False (''sql_validator'', v) (''sql_generator'', t))"

lemma generator_to_validator:
  assumes "graph_step cfg dbs False (''sql_generator'', s) (''sql_validator'', v)"
  shows "failure_type (reason v) = None \<and> generated_sql (reason v) \<notin> {None, Some []} \<and>
    local_fix_count (loop_guard (reason v)) = local_fix_count (loop_guard (reason s)) \<and>
    generate_attempts (loop_guard (reason v)) = generate_attempts (loop_guard (reason s)) + 1"
  using assms
proof (cases rule: graph_step_cases)
  case edge
  from edge(1) obtain outcome r' where r': "sql_generator_reason cfg dbs outcome (reason s) = Inr r'"
    "v = s\<lparr>reason := r'\<rparr>" by (auto simp: node_run_def elim: at_sql_generator)
  with edge(2) have "failure_type r' \<noteq> Some GENERATION_FAILED" by (auto simp: next_sql_generator split: if_splits)
  with r'(1) show ?thesis
  proof (cases rule: sql_generator_cases)
    case (success rp)
    with generator_success_effect [of rp "reason s"] r'(2) show ?thesis
      by (auto simp: generator_succeeded_def generator_frame_def)
  next
    case (refusal rp)
    with generator_refusal_effect [of rp "reason s" r'] \<open>failure_type r' \<noteq> _\<close> show ?thesis
      by (simp add: generator_refused_def)
  qed
qed simp

lemma sent_back:
  assumes "next_node cfg ''sql_validator'' t = Some ''sql_generator''"
  shows "failure_type (reason t) \<in> {Some SQL_SYNTAX, Some SQL_SEMANTIC_LOCAL} \<and>
    local_fix_count (loop_guard (reason t)) < MAX_LOCAL_FIXES cfg"
  using assms by (auto simp: next_sql_validator retry_node_def should_escalate_to_structural_def
      split: option.splits if_splits)

lemma validator_counts_fix:
  assumes "sql_validator_node cfg dbs env v = Inr t" and "failure_type (reason v) = None"
    and "generated_sql (reason v) \<notin> {None, Some []}"
    and "failure_type (reason t) \<in> {Some SQL_SYNTAX, Some SQL_SEMANTIC_LOCAL}"
  shows "loop_guard (reason t) = increment_local_fix (loop_guard (reason v))"
  using assms(1)
  by (cases rule: sql_validator_node_cases)
     (use assms(2-4) in \<open>auto simp: validator_defs frame_simps Let_def split: execution.splits if_splits\<close>)

lemma fix_round_counts:
  assumes "fix_round cfg dbs s t"
  shows "local_fix_count (loop_guard (reason t)) = local_fix_count (loop_guard (reason s)) + 1 \<and>
    generate_attempts (loop_guard (reason t)) = generate_attempts (loop_guard (reason s)) + 1 \<and>
    local_fix_count (loop_guard (reason t)) < MAX_LOCAL_FIXES cfg"
proof -
  from assms obtain v where gen: "graph_step cfg dbs False (''sql_generator'', s) (''sql_validator'', v)"
    and val: "graph_step cfg dbs False (''sql_validator'', v) (''sql_generator'', t)" by (auto simp: fix_round_def)
  note v = generator_to_validator [OF gen]
  from val obtain env where env: "sql_validator_node cfg dbs env v = Inr t"
    and nx: "next_node cfg ''sql_validator'' t = Some ''sql_generator''"
    by (cases rule: graph_step_cases) (auto simp: node_run_def elim: at_sql_validator)
  from v sent_back [OF nx] have "loop_guard (reason t) = increment_local_fix (loop_guard (reason v))"
    by (intro validator_counts_fix [OF env]) simp_all
  with v sent_back [OF nx] show ?thesis by (simp add: increment_local_fix_def)
qed

interpretation fixing: ranked_steps "fix_round cfg dbs" "\<lambda>_. True"
  "\<lambda>s. nat (MAX_LOCAL_FIXES cfg - local_fix_count (loop_guard (reason s)))" for cfg dbs
  by unfold_locales (use fix_round_counts in fastforce)+

text \<open>
  C4: The local-fix loop ends.  Generator and validator can send a turn back and forth, without
  a cancellation, at most as often as the local-fix counter is below its limit, whatever the
  model writes and whichever layer rejects it: from the counter a turn starts with, never more
  than MAX_LOCAL_FIXES rounds.
\<close>
theorem local_fix_loop_bounded:
  assumes "(fix_round cfg dbs ^^ n) s t"
  shows "int n \<le> max 0 (MAX_LOCAL_FIXES cfg - local_fix_count (loop_guard (reason s)))"
  using fixing.run_bounded [OF assms] by simp

section \<open>The loop after a cancellation\<close>

lemma cancelled_step:
  assumes "n \<in> set CANCELLABLE" and "next_node cfg n (s\<lparr>status := QS_CANCELLED, error_message := CANCEL_MESSAGE\<rparr>) = Some m"
  shows "graph_step cfg dbs True (n, s) (m, s\<lparr>status := QS_CANCELLED, error_message := CANCEL_MESSAGE\<rparr>)"
  using assms by (intro by_edge) (simp_all add: node_run_def)

lemma cancelled_step_det:
  assumes "graph_step cfg dbs True (n, s) (m, s')" and "n \<in> set CANCELLABLE"
  shows "s' = s\<lparr>status := QS_CANCELLED, error_message := CANCEL_MESSAGE\<rparr> \<and> next_node cfg n s' = Some m"
  using assms(1)
proof (cases rule: graph_step_cases)
  case edge
  with assms(2) show ?thesis by (simp add: node_run_def)
next
  case command
  with assms(2) show ?thesis by (simp add: CANCELLABLE_def)
qed

text \<open>The state a local failure leaves, with retries left.\<close>

definition retrying :: "settings \<Rightarrow> pipeline_state \<Rightarrow> bool" where
  "retrying cfg s \<longleftrightarrow>
     failure_type (reason s) \<in> {Some SQL_SYNTAX, Some SQL_SEMANTIC_LOCAL} \<and> pending_signals s = [] \<and>
     local_fix_count (loop_guard (reason s)) < MAX_LOCAL_FIXES cfg \<and>
     (MAX_GENERATES cfg > 0 \<longrightarrow> generate_attempts (loop_guard (reason s)) < MAX_GENERATES cfg)"

definition at_retry :: "settings \<Rightarrow> string \<times> pipeline_state \<Rightarrow> bool" where
  "at_retry cfg x \<longleftrightarrow> fst x \<in> {''sql_generator'', ''sql_validator''} \<and> retrying cfg (snd x)"

lemma retrying_cancelled: "retrying cfg (s\<lparr>status := st, error_message := e\<rparr>) = retrying cfg s"
  by (simp add: retrying_def)

lemma retrying_next:
  assumes "retrying cfg s"
  shows "next_node cfg ''sql_generator'' s = Some ''sql_validator''"
    and "next_node cfg ''sql_validator'' s = Some ''sql_generator''"
  using assms
  by (auto simp: retrying_def next_sql_generator next_sql_validator retry_node_def should_escalate_to_structural_def)

lemma at_retry_step:
  assumes "at_retry cfg x"
  shows "\<exists>y. graph_step cfg dbs True x y" and "graph_step cfg dbs True x y \<Longrightarrow> at_retry cfg y"
proof -
  obtain n s where x: "x = (n, s)" by (cases x)
  let ?s = "s\<lparr>status := QS_CANCELLED, error_message := CANCEL_MESSAGE\<rparr>"
  from assms x have n: "n = ''sql_generator'' \<or> n = ''sql_validator''" and "retrying cfg ?s"
    by (auto simp: at_retry_def retrying_cancelled)
  note to = retrying_next [OF this(2)]
  have c: "n \<in> set CANCELLABLE" using n by (auto simp: CANCELLABLE_def)
  from n to obtain m where m: "next_node cfg n ?s = Some m" by blast
  show "\<exists>y. graph_step cfg dbs True x y" unfolding x by (rule exI [of _ "(m, ?s)"], rule cancelled_step [OF c m])
  show "at_retry cfg y" if "graph_step cfg dbs True x y"
  proof -
    obtain m s' where y: "y = (m, s')" by (cases y)
    from cancelled_step_det [OF _ c, of cfg dbs s m s'] that x y have "s' = ?s" "next_node cfg n s' = Some m" by auto
    with n to \<open>retrying cfg ?s\<close> y show ?thesis by (auto simp: at_retry_def)
  qed
qed

text \<open>
  A cancelled retry never ends by itself.  When the user cancels while a locally fixable
  failure is being retried, the wrapper skips both nodes, so the failure stays, no counter moves
  and neither routing function looks at the cancelled status: after any number of steps the turn
  is still between the generator and the validator, and it can always go on.
\<close>
theorem cancelled_retry_livelock:
  assumes "at_retry cfg x"
  shows "(\<exists>y. (graph_step cfg dbs True ^^ k) x y) \<and>
    (\<forall>y. (graph_step cfg dbs True ^^ k) x y \<longrightarrow> at_retry cfg y)"
proof (induction k)
  case (Suc k)
  then obtain y where y: "(graph_step cfg dbs True ^^ k) x y" "at_retry cfg y" by blast
  from at_retry_step(1) [OF y(2)] obtain z where "graph_step cfg dbs True y z" by blast
  with y(1) have "(graph_step cfg dbs True ^^ Suc k) x z" by (rule relpowp_Suc_I)
  moreover have "at_retry cfg z" if z: "(graph_step cfg dbs True ^^ Suc k) x z" for z
  proof -
    from z obtain w where "(graph_step cfg dbs True ^^ k) x w" "graph_step cfg dbs True w z"
      by (rule relpowp_Suc_E)
    with Suc show ?thesis by (blast intro: at_retry_step(2))
  qed
  ultimately show ?case by blast
qed (use assms in auto)

definition rejected_state :: pipeline_state where
  "rejected_state = new_pipeline_state\<lparr>reason := (reason new_pipeline_state)\<lparr>
     failure_type := Some SQL_SYNTAX, failure_reason := Some ''rejected'', generated_sql := Some ''DELETE FROM T''\<rparr>\<rparr>"

theorem cancelled_retry_livelock_witness:
  "\<exists>m s. (graph_step sample_cfg sample_dbs True ^^ 100) (''sql_generator'', rejected_state) (m, s) \<and>
     m \<in> {''sql_generator'', ''sql_validator''}"
proof -
  have "at_retry sample_cfg (''sql_generator'', rejected_state)" by code_simp
  from cancelled_retry_livelock [OF this, where k = 100 and dbs = sample_dbs] show ?thesis
    unfolding at_retry_def by (metis fst_conv surj_pair)
qed

section \<open>Forced generations\<close>

text \<open>A reply the first layer always rejects: its SQL is no SELECT.\<close>

definition delete_reply :: sql_reply where
  "delete_reply = sample_reply\<lparr>rp_sql := ''DELETE FROM T''\<rparr>"

lemma delete_unsafe: "\<not> is_safe (validate_sql_safety cfg id parses pii ''DELETE FROM T'' d)"
proof -
  have "normalize_unicode id (py_strip ''DELETE FROM T'') = ''DELETE FROM T''" by code_simp
  moreover have "\<not> starts_with (py_upper ''DELETE FROM T'') ''SELECT''"
    "\<not> starts_with (py_upper ''DELETE FROM T'') ''WITH''" by code_simp+
  ultimately show ?thesis by (simp add: validate_sql_safety_def Let_def)
qed

lemma delete_rejected:
  assumes "generated_sql (reason s) = Some ''DELETE FROM T''"
    and "get_query_db cfg dbs (target_db (reason s)) [] = Inr db"
  shows "\<exists>fb. sql_validator_node cfg dbs idle_env s =
    Inr (s\<lparr>reason := layer1_failure fb ((reason s)\<lparr>phase := VALIDATING\<rparr>)\<rparr>)"
  using assms delete_unsafe
  by (auto simp: sql_validator_node_def validate_layer1_def idle_env_def Let_def)

text \<open>A generator run with that reply and the validator run after it.\<close>

lemma delete_round:
  assumes "length dbs = 1" and "pending_signals s = []" and "target_db (reason s) = []"
  obtains v t where "graph_step cfg dbs False (''sql_generator'', s) (''sql_validator'', v)"
    "node_body cfg dbs ''sql_validator'' v t"
    "t = s\<lparr>reason := reason t\<rparr>" "failure_type (reason t) = Some SQL_SYNTAX"
    "loop_guard (reason t) = increment_local_fix (increment_generate (loop_guard (reason s)))"
    "hypotheses (reason t) = hypotheses (reason s)" "calculate_readiness (reason t) = calculate_readiness (reason s)"
    "target_db (reason t) = []"
proof -
  from assms(1) obtain db where db: "get_query_db cfg dbs [] [] = Inr db"
    by (auto simp: get_query_db_def Let_def)
  define v where "v = s\<lparr>reason := generator_success delete_reply (enter_generator (reason s))\<rparr>"
  have ok: "reply_succeeds delete_reply"
    by (simp add: reply_succeeds_def delete_reply_def sample_reply_def)
  have gen: "sql_generator_reason cfg dbs (Inr delete_reply) (reason s) = Inr (reason v)"
    using db assms(3) ok by (simp add: sql_generator_reason_def v_def frame_simps)
  have v: "generated_sql (reason v) = Some ''DELETE FROM T''" "failure_type (reason v) = None"
    "loop_guard (reason v) = increment_generate (loop_guard (reason s))" "target_db (reason v) = []"
    "hypotheses (reason v) = hypotheses (reason s)" "calculate_readiness (reason v) = calculate_readiness (reason s)"
    "pending_signals v = []"
    using assms(2,3)
    by (auto simp: v_def generator_success_def enter_generator_def delete_reply_def Let_def
        intro: calculate_readiness_cong)
  have "node_body cfg dbs ''sql_generator'' s v"
    using nb_sql_generator [OF gen] by (simp add: v_def)
  with v have step: "graph_step cfg dbs False (''sql_generator'', s) (''sql_validator'', v)"
    by (intro by_edge) (simp_all add: node_run_def next_sql_generator)
  from delete_rejected [OF v(1), of cfg dbs db] v(4) db obtain fb where
    val: "sql_validator_node cfg dbs idle_env v = Inr (v\<lparr>reason := layer1_failure fb ((reason v)\<lparr>phase := VALIDATING\<rparr>)\<rparr>)"
    by auto
  show thesis
  proof (rule that [OF step nb_sql_validator [OF val]])
    show "calculate_readiness (reason (v\<lparr>reason := layer1_failure fb ((reason v)\<lparr>phase := VALIDATING\<rparr>)\<rparr>)) =
        calculate_readiness (reason s)"
      unfolding v(6) [symmetric] by (rule calculate_readiness_cong) (simp_all add: layer1_failure_def)
  qed (use v in \<open>simp_all add: layer1_failure_def\<close>, simp add: v_def)
qed

theorem local_fix_loop_bounded_witness:
  "\<exists>t. (fix_round sample_cfg sample_dbs ^^ 1) new_pipeline_state t \<and>
     1 \<le> max 0 (MAX_LOCAL_FIXES sample_cfg - local_fix_count (loop_guard (reason new_pipeline_state)))"
proof -
  have "length sample_dbs = 1" "pending_signals new_pipeline_state = []" "target_db (reason new_pipeline_state) = []"
    by (simp_all add: sample_dbs_def new_pipeline_state_def new_reasoning_state_def)
  from delete_round [OF this, of sample_cfg] obtain v t where
      gen: "graph_step sample_cfg sample_dbs False (''sql_generator'', new_pipeline_state) (''sql_validator'', v)"
    and body: "node_body sample_cfg sample_dbs ''sql_validator'' v t" and ft: "failure_type (reason t) = Some SQL_SYNTAX"
    and lg: "loop_guard (reason t) = increment_local_fix (increment_generate (loop_guard (reason new_pipeline_state)))"
    by blast
  have "local_fix_count (loop_guard (reason t)) = 1" "MAX_GENERATES sample_cfg = 0" "MAX_LOCAL_FIXES sample_cfg = 5"
    by (simp_all add: lg increment_local_fix_def increment_generate_def new_pipeline_state_def new_reasoning_state_def
        new_loop_guard_def sample_cfg_def default_settings_def)
  with ft have "next_node sample_cfg ''sql_validator'' t = Some ''sql_generator''"
    by (simp add: next_sql_validator retry_node_def should_escalate_to_structural_def)
  with body have "graph_step sample_cfg sample_dbs False (''sql_validator'', v) (''sql_generator'', t)"
    by (intro by_edge) (simp_all add: node_run_def)
  with gen have "(fix_round sample_cfg sample_dbs ^^ 1) new_pipeline_state t" by (auto simp: fix_round_def OO_def)
  with local_fix_loop_bounded [OF this] show ?thesis by auto
qed

text \<open>Recovery without a plan, as after a time-out of its call.\<close>

lemma no_plan: "build_recovery_plan 0 lg (\<lambda>_ _. Inl TimeoutErr) loads msgs = Inr None"
  by (simp add: build_recovery_plan_def llm_call_with_parse_retry_def)

definition forced_ready :: "(string \<times> connector) list \<Rightarrow> settings \<Rightarrow> pipeline_state \<Rightarrow> bool" where
  "forced_ready dbs cfg s \<longleftrightarrow>
     length dbs = 1 \<and> pending_signals s = [] \<and> status s \<noteq> QS_CANCELLED \<and>
     calculate_readiness (reason s) \<ge> THRESHOLD_FORCE_GENERATE \<and>
     get_pending_hypotheses (reason s) = [] \<and>
     local_fix_count (loop_guard (reason s)) \<ge> MAX_LOCAL_FIXES cfg"

lemma no_pending_transition:
  assumes "get_pending_hypotheses r = []"
  shows "get_pending_hypotheses (enter_recovery b r) = []"
    and "loop_guard (enter_recovery b r) = (if b then loop_guard r else increment_replan (loop_guard r))"
proof -
  let ?r = "r\<lparr>phase := REPLANNING, exploration_phase := EP_RECOVERY, target_db := [], target_db_decision := None\<rparr>"
  have failed: "\<forall>h\<in>set (hypotheses (fail_current ?r)). hyp_status h \<noteq> Hyp_PENDING"
    using assms
    by (auto simp: fail_current_def get_pending_hypotheses_def filter_empty_conv Let_def
        dest!: in_update_firstD split: option.splits)
  then have "consume_next_pending (hypotheses (fail_current ?r)) = (None, hypotheses (fail_current ?r))"
    by (simp add: consume_next_pending_def top_pending_None [THEN iffD2])
  with failed assms show "get_pending_hypotheses (enter_recovery b r) = []"
    "loop_guard (enter_recovery b r) = (if b then loop_guard r else increment_replan (loop_guard r))"
    by (auto simp: enter_recovery_def handle_hypothesis_transition_def get_pending_hypotheses_def
        filter_empty_conv frame_simps Let_def)
qed

text \<open>One forced round: recovery, generator, validator, and recovery again.\<close>

lemma forced_round:
  assumes "forced_ready dbs cfg s"
  obtains t where "(graph_step cfg dbs False ^^ 3) (''recovery_agent'', s) (''recovery_agent'', t)"
    "forced_ready dbs cfg t"
    "generate_attempts (loop_guard (reason t)) = generate_attempts (loop_guard (reason s)) + 1"
    "total_tool_calls (loop_guard (reason t)) = total_tool_calls (loop_guard (reason s))"
    "replan_count (loop_guard (reason t)) \<ge> replan_count (loop_guard (reason s))"
proof -
  let ?r = "enter_recovery (has_clarification_answer s) (reason s)"
  define u where "u = s\<lparr>reason := give_up None ?r\<rparr>"
  have score: "calculate_readiness ?r = calculate_readiness (reason s)"
    by (rule calculate_readiness_cong) (simp_all add: frame_simps)
  note hyp = no_pending_transition [of "reason s" "has_clarification_answer s"]
  have r: "reason u = ?r\<lparr>phase := GENERATING, is_force_generated := True\<rparr>"
    using assms score
    by (simp add: u_def give_up_def attach_lessons_def finalize_give_up_def forced_ready_def)
  have "node_body cfg dbs ''recovery_agent'' s u"
    by (rule nb_recovery_agent [of _ 0 0 "\<lambda>_ _. Inl TimeoutErr" "\<lambda>_. None" "[]"])
       (simp add: no_plan recovery_agent_node_def continue_or_give_up_def u_def Let_def)
  moreover have "next_node cfg ''recovery_agent'' u = Some ''sql_generator''"
    using assms r by (simp add: next_recovery_agent route_after_recovery_agent_def u_def forced_ready_def)
  ultimately have step1: "graph_step cfg dbs False (''recovery_agent'', s) (''sql_generator'', u)"
    by (intro by_edge) (simp_all add: node_run_def)
  have "length dbs = 1" "pending_signals u = []" "target_db (reason u) = []"
    using assms r by (simp_all add: forced_ready_def u_def frame_simps)
  from delete_round [OF this, of cfg] obtain v t where
      step2: "graph_step cfg dbs False (''sql_generator'', u) (''sql_validator'', v)"
    and body: "node_body cfg dbs ''sql_validator'' v t"
    and t: "t = u\<lparr>reason := reason t\<rparr>" "failure_type (reason t) = Some SQL_SYNTAX"
      "loop_guard (reason t) = increment_local_fix (increment_generate (loop_guard (reason u)))"
      "hypotheses (reason t) = hypotheses (reason u)" "calculate_readiness (reason t) = calculate_readiness (reason u)"
    by blast
  have used: "local_fix_count (loop_guard (reason t)) \<ge> MAX_LOCAL_FIXES cfg"
    using assms t(3) r hyp(2)
    by (simp add: forced_ready_def increment_local_fix_def increment_generate_def increment_replan_def)
  with t(2) have "next_node cfg ''sql_validator'' t = Some ''recovery_agent''"
    by (simp add: next_sql_validator retry_node_def should_escalate_to_structural_def)
  with body have step3: "graph_step cfg dbs False (''sql_validator'', v) (''recovery_agent'', t)"
    by (intro by_edge) (simp_all add: node_run_def)
  have three: "(graph_step cfg dbs False ^^ 3) (''recovery_agent'', s) (''recovery_agent'', t)"
    using step1 step2 step3 by (auto simp: numeral_3_eq_3)
  have "calculate_readiness (reason u) = calculate_readiness (reason s)"
    unfolding score [symmetric] r by (rule calculate_readiness_cong) simp_all
  with assms t r hyp(1) used have "forced_ready dbs cfg t"
    by (cases t) (auto simp: forced_ready_def get_pending_hypotheses_def u_def)
  with three show thesis
    by (rule that)
       (use assms t(3) r hyp(2) in \<open>simp_all add: forced_ready_def increment_local_fix_def
         increment_generate_def increment_replan_def\<close>)
qed


definition spent_state :: pipeline_state where
  "spent_state = new_pipeline_state\<lparr>reason := (reason new_pipeline_state)\<lparr>
     knowledge_items := [new_knowledge_item ''measure:N'' CONFIRMED],
     loop_guard := new_loop_guard\<lparr>total_tool_calls := 40, replan_count := 10, local_fix_count := 5\<rparr>\<rparr>\<rparr>"

lemma spent_state_ready: "forced_ready sample_dbs sample_cfg spent_state"
  by code_simp


section \<open>The routing in the trace\<close>

text \<open>
  The next node the validator writes to its trace is the node the graph takes after the
  state it returns, except exactly where the turn rewrites the previous SQL and the failure is
  not locally fixable: there the trace names the recovery agent, but the graph ends the turn.
\<close>
theorem trace_routing_vs_graph:
  "(next_node cfg ''sql_validator'' s = Some (infer_trace_routing cfg (reason s))) =
   (\<not> (route s = Some REGENERATE \<and> failure_type (reason s) \<notin> {None, Some SQL_SYNTAX, Some SQL_SEMANTIC_LOCAL}))"
  by (auto simp: next_sql_validator infer_trace_routing_def retry_node_def split: option.split)

section \<open>The error node\<close>

text \<open>
  Every turn that ends in the error node is answered.  Its response is never empty; a
  cancelled turn stays cancelled and keeps a response it already had, any other turn becomes
  an error; the node changes nothing but the response, the status and the summary.
\<close>
theorem error_end_answers:
  "formatted_response (handle_error cfg sm s) \<noteq> [] \<and>
   status (handle_error cfg sm s) = (if status s = QS_CANCELLED then QS_CANCELLED else QS_ERROR) \<and>
   (status s = QS_CANCELLED \<and> formatted_response s \<noteq> [] \<longrightarrow>
      formatted_response (handle_error cfg sm s) = formatted_response s) \<and>
   reason (handle_error cfg sm s) = reason s \<and> error_message (handle_error cfg sm s) = error_message s \<and>
   pending_signals (handle_error cfg sm s) = pending_signals s"
  by (simp add: handle_error_def Let_def ERR_SQL_RETRY_EXHAUSTED_def)

theorem error_end_answers_witness:
  "formatted_response (handle_error sample_cfg None (rejected_state\<lparr>status := QS_CANCELLED, formatted_response := ''R''\<rparr>)) = ''R''"
  using error_end_answers [of sample_cfg None "rejected_state\<lparr>status := QS_CANCELLED, formatted_response := ''R''\<rparr>"]
  by simp

end
