(* ===== verification/Normalization.thy ===== *)
theory Normalization imports ModelReaders begin

text \<open>
  The normalization of a question (\<open>src/src/services/query_normalizer.py\<close>): the checks and
  corrections of the model's JSON, the post-processing, and the reading of the result into the
  slot classes of \<open>src/src/agents/models/normalization.py\<close>.  The two model calls with their
  prompts, and the text Python prints for a value that is no string (\<open>show_json\<close>), are arguments;
  what is only logged is left out.
\<close>

section \<open>Admissible values\<close>

definition VALID_INTENTS :: "string list" where
  "VALID_INTENTS = [''EXTRACT'', ''AGGREGATE'', ''COMPARE'', ''TREND'', ''RANK'', ''DISTRIBUTE'',
     ''EXIST_CHECK'', ''DEDUP'', ''PIVOT'']"

definition VALID_ENTITY_TYPES :: "string list" where
  "VALID_ENTITY_TYPES = [''DIRECT'', ''INDIRECT'', ''IMPLIED'']"

definition VALID_AGG_FUNCS :: "string list" where
  "VALID_AGG_FUNCS = [''SUM'', ''AVG'', ''COUNT'', ''COUNT_DISTINCT'', ''MAX'', ''MIN'', ''NONE'',
     ''UNKNOWN'']"

definition VALID_MEASURE_TYPES :: "string list" where
  "VALID_MEASURE_TYPES = [''RAW'', ''DERIVED'', ''RATIO'', ''WINDOW'']"

definition VALID_DIM_ROLES :: "string list" where
  "VALID_DIM_ROLES = [''GROUP'', ''PARTITION'', ''FILTER'', ''DISPLAY'']"

definition VALID_TIME_GRAN :: "string list" where
  "VALID_TIME_GRAN = [''YEAR'', ''QUARTER'', ''MONTH'', ''WEEK'', ''DAY'', ''HOUR'', ''UNKNOWN'']"

definition VALID_DIM_GRAN :: "string list" where
  "VALID_DIM_GRAN = [''INDIVIDUAL'', ''CATEGORY'', ''HIERARCHY'', ''UNKNOWN'']"

definition VALID_FILTER_TYPES :: "string list" where
  "VALID_FILTER_TYPES = [''EQUALS'', ''NOT_EQUALS'', ''IN'', ''NOT_IN'', ''RANGE'', ''GT'', ''GTE'',
     ''LT'', ''LTE'', ''LIKE'', ''IS_NULL'', ''IS_NOT_NULL'', ''EXISTS'', ''NOT_EXISTS'', ''IMPLICIT'']"

definition VALID_FILTER_POS :: "string list" where
  "VALID_FILTER_POS = [''PRE_AGG'', ''POST_AGG'']"

definition VALID_TIME_TYPES :: "string list" where
  "VALID_TIME_TYPES = [''ABSOLUTE'', ''RELATIVE'', ''COMPARISON'', ''CUMULATIVE'', ''NONE'']"

definition VALID_TIME_RESOLVE :: "string list" where
  "VALID_TIME_RESOLVE = [''TODAY'', ''YESTERDAY'', ''LAST_N_DAYS'', ''THIS_WEEK'', ''LAST_WEEK'',
     ''LAST_N_WEEKS'', ''THIS_MONTH'', ''LAST_MONTH'', ''LAST_N_MONTHS'', ''THIS_QUARTER'',
     ''LAST_QUARTER'', ''PREVIOUS_QUARTER'', ''LAST_N_QUARTERS'', ''THIS_HALF'', ''LAST_HALF'',
     ''THIS_YEAR'', ''LAST_YEAR'', ''LAST_N_YEARS'', ''YTD'', ''MTD'', ''QTD'', ''ABSOLUTE_RANGE'']"

definition VALID_MOD_TYPES :: "string list" where
  "VALID_MOD_TYPES = [''SORT'', ''LIMIT'', ''RANK'', ''RATIO'', ''DELTA'', ''DELTA_RATE'', ''CUMULATIVE'',
     ''MOVING_AVG'', ''PERCENTAGE'']"

definition VALID_SORT_DIR :: "string list" where
  "VALID_SORT_DIR = [''ASC'', ''DESC'']"

definition VALID_OUTPUT_FMT :: "string list" where
  "VALID_OUTPUT_FMT = [''SPEC_SHEET'', ''SUMMARY'', ''DETAIL_LIST'', ''REPORT'', ''COMPARISON'',
     ''NONE'']"

section \<open>Preprocessing\<close>

text \<open>A run of ASCII or full-width tildes becomes one tilde.\<close>

definition WIDE_TILDE :: string where
  "WIDE_TILDE = [CHR 0xEF, CHR 0xBD, CHR 0x9E]"

fun skip_tildes :: "string \<Rightarrow> bool \<Rightarrow> string" where
  "skip_tildes [] after = []"
| "skip_tildes (c # cs) after =
     (if c = CHR ''~'' then (if after then skip_tildes cs True else CHR ''~'' # skip_tildes cs True)
      else case cs of
        d # e # rest \<Rightarrow>
          if [c, d, e] = WIDE_TILDE
          then (if after then skip_tildes rest True else CHR ''~'' # skip_tildes rest True)
          else c # skip_tildes cs False
      | _ \<Rightarrow> c # skip_tildes cs False)"

definition preprocess_for_normalization :: "string \<Rightarrow> string" where
  "preprocess_for_normalization t = skip_tildes t False"

section \<open>Checks of the structure\<close>

text \<open>
  \<open>_validate_enum\<close>: a value that is no text is either not hashable (a list, a dictionary) or has
  no \<open>upper\<close>.
\<close>

definition validate_enum :: "string list \<Rightarrow> json \<Rightarrow> string option result" where
  "validate_enum valid v =
     (if \<not> json_true v then Inr None
      else case v of
        JStr t \<Rightarrow> if t \<in> set valid then Inr (Some t)
                  else if py_upper t \<in> set valid then Inr (Some (py_upper t)) else Inr None
      | JList _ \<Rightarrow> Inl TypeErr
      | JObj _ \<Rightarrow> Inl TypeErr
      | _ \<Rightarrow> Inl AttributeError)"

text \<open>\<open>if not _validate_enum(e.get(k, d), ...): e[k] = fallback\<close>\<close>

definition fix_enum ::
  "string list \<Rightarrow> string \<Rightarrow> string \<Rightarrow> (string \<times> json) list \<Rightarrow> (string \<times> json) list result" where
  "fix_enum valid k fallback e =
     result_bind (validate_enum valid (obj_get e k JNull)) (\<lambda>r.
       Inr (if r = None then dict_set k (JStr fallback) e else e))"

definition as_object :: "json \<Rightarrow> (string \<times> json) list result" where
  "as_object v = (case v of JObj d \<Rightarrow> Inr d | _ \<Rightarrow> Inl AttributeError)"

text \<open>The loop over \<open>data.get(k, [])\<close> that updates its elements in place.\<close>

definition update_items ::
  "string \<Rightarrow> ((string \<times> json) list \<Rightarrow> (string \<times> json) list result) \<Rightarrow> (string \<times> json) list \<Rightarrow>
   (string \<times> json) list result" where
  "update_items k f data =
     (case map_of data k of
        None \<Rightarrow> Inr data
      | Some v \<Rightarrow>
          result_bind (json_iter v) (\<lambda>items.
          result_bind (map_result (\<lambda>x. result_bind (as_object x) (\<lambda>e. result_bind (f e) (\<lambda>e'. Inr (JObj e')))) items)
            (\<lambda>items'. Inr (case v of JList _ \<Rightarrow> dict_set k (JList items') data | _ \<Rightarrow> data))))"

definition valid_texts :: "string list \<Rightarrow> json list \<Rightarrow> json list result" where
  "valid_texts valid vs =
     result_bind (map_result (validate_enum valid) vs) (\<lambda>rs.
       Inr (concat (map (\<lambda>r. case r of None \<Rightarrow> [] | Some t \<Rightarrow> [JStr t]) rs)))"

definition validate_intent :: "(string \<times> json) list \<Rightarrow> (string \<times> json) list result" where
  "validate_intent data =
     result_bind (as_object (obj_get data ''intent'' (JObj []))) (\<lambda>i.
     result_bind (validate_enum VALID_INTENTS (obj_get i ''primary'' (JStr []))) (\<lambda>corrected.
     let i1 = dict_set ''primary'' (JStr (case corrected of None \<Rightarrow> ''EXTRACT'' | Some t \<Rightarrow> t)) i
     in result_bind (json_iter (obj_get i1 ''secondary'' (JList []))) (\<lambda>vs.
        result_bind (valid_texts VALID_INTENTS vs) (\<lambda>secondaries.
          Inr (dict_set ''intent'' (JObj (dict_set ''secondary'' (JList secondaries) i1)) data)))))"

definition dict_pop :: "string \<Rightarrow> (string \<times> json) list \<Rightarrow> (string \<times> json) list" where
  "dict_pop k d = filter (\<lambda>kv. fst kv \<noteq> k) d"

definition validate_entity :: "(string \<times> json) list \<Rightarrow> (string \<times> json) list result" where
  "validate_entity e =
     result_bind (fix_enum VALID_ENTITY_TYPES ''type'' ''DIRECT'' e) (\<lambda>e1. Inr (dict_pop ''confidence'' e1))"

definition validate_measure :: "(string \<times> json) list \<Rightarrow> (string \<times> json) list result" where
  "validate_measure m =
     result_bind (fix_enum VALID_AGG_FUNCS ''agg_function'' ''UNKNOWN'' m)
       (fix_enum VALID_MEASURE_TYPES ''measure_type'' ''RAW'')"

definition validate_dimension :: "(string \<times> json) list \<Rightarrow> (string \<times> json) list result" where
  "validate_dimension d =
     result_bind (fix_enum VALID_DIM_ROLES ''role'' ''DISPLAY'' d)
       (fix_enum (VALID_TIME_GRAN @ VALID_DIM_GRAN) ''granularity'' ''UNKNOWN'')"

definition validate_filter :: "(json \<Rightarrow> string) \<Rightarrow> (string \<times> json) list \<Rightarrow> (string \<times> json) list result" where
  "validate_filter show_json f =
     result_bind (fix_enum VALID_FILTER_TYPES ''filter_type'' ''EQUALS'' f) (\<lambda>f1.
     result_bind (fix_enum VALID_FILTER_POS ''position'' ''PRE_AGG'' f1) (\<lambda>f2.
       Inr (case obj_get f2 ''values'' JNull of
              JList vs \<Rightarrow> dict_set ''values'' (JList (map (JStr \<circ> py_str show_json) vs)) f2
            | _ \<Rightarrow> f2)))"

definition validate_period :: "string \<Rightarrow> (string \<times> json) list \<Rightarrow> (string \<times> json) list result" where
  "validate_period pk t =
     (let period = obj_get t pk JNull
      in if \<not> json_true period then Inr t
         else result_bind (as_object period) (\<lambda>p.
           if \<not> json_true (obj_get p ''resolve'' JNull) then Inr t
           else result_bind (fix_enum VALID_TIME_RESOLVE ''resolve'' ''ABSOLUTE_RANGE'' p) (\<lambda>p'.
             Inr (dict_set pk (JObj p') t))))"

definition validate_time :: "(string \<times> json) list \<Rightarrow> (string \<times> json) list result" where
  "validate_time data =
     result_bind (as_object (obj_get data ''time'' (JObj []))) (\<lambda>t.
     result_bind (fix_enum VALID_TIME_TYPES ''type'' ''NONE'' t) (\<lambda>t1.
     result_bind (validate_period ''base_period'' t1) (\<lambda>t2.
     result_bind (validate_period ''compare_period'' t2) (\<lambda>t3.
       Inr (dict_set ''time'' (JObj t3) data)))))"

definition validate_modifier :: "(string \<times> json) list \<Rightarrow> (string \<times> json) list result" where
  "validate_modifier m =
     result_bind (validate_enum VALID_MOD_TYPES (obj_get m ''type'' (JStr []))) (\<lambda>r.
     let m1 = (if r = None then dict_set ''_remove'' (JBool True) m else m)
     in if json_true (obj_get m1 ''direction'' JNull)
        then fix_enum VALID_SORT_DIR ''direction'' ''DESC'' m1
        else Inr m1)"

definition kept_modifier :: "json \<Rightarrow> bool" where
  "kept_modifier m = (case m of JObj d \<Rightarrow> \<not> json_true (obj_get d ''_remove'' JNull) | _ \<Rightarrow> True)"

definition validate_modifiers :: "(string \<times> json) list \<Rightarrow> (string \<times> json) list result" where
  "validate_modifiers data =
     result_bind (update_items ''modifiers'' validate_modifier data) (\<lambda>d1.
     result_bind (json_iter (obj_get d1 ''modifiers'' (JList []))) (\<lambda>ms.
       Inr (dict_set ''modifiers'' (JList (filter kept_modifier ms)) d1)))"

definition no_output_hint :: json where
  "no_output_hint = JObj [(''format'', JStr ''NONE''), (''doc_type'', JNull), (''expected_columns'', JList [])]"

definition validate_output_hint :: "(string \<times> json) list \<Rightarrow> (string \<times> json) list result" where
  "validate_output_hint data =
     (let oh = obj_get data ''output_hint'' (JObj [])
      in if json_true oh
         then result_bind (as_object oh) (\<lambda>o1.
              result_bind (fix_enum VALID_OUTPUT_FMT ''format'' ''NONE'' o1) (\<lambda>o2.
                Inr (dict_set ''output_hint'' (JObj o2) data)))
         else Inr (dict_set ''output_hint'' no_output_hint data))"

definition validate_structure ::
  "(json \<Rightarrow> string) \<Rightarrow> (string \<times> json) list \<Rightarrow> (string \<times> json) list result" where
  "validate_structure show_json data =
     result_bind (validate_intent data) (\<lambda>d1.
     result_bind (update_items ''entities'' validate_entity d1) (\<lambda>d2.
     result_bind (update_items ''measures'' validate_measure d2) (\<lambda>d3.
     result_bind (update_items ''dimensions'' validate_dimension d3) (\<lambda>d4.
     result_bind (update_items ''filters'' (validate_filter show_json) d4) (\<lambda>d5.
     result_bind (validate_time d5) (\<lambda>d6.
     result_bind (validate_modifiers d6) validate_output_hint))))))"

section \<open>Post-processing\<close>

text \<open>The particles, endings and requests that are no search keywords.\<close>

definition POST_STOPWORDS :: "string list" where
  "POST_STOPWORDS =
     [[CHR 0xEC, CHR 0xA2, CHR 0x80], [CHR 0xEC, CHR 0x9D, CHR 0x84],
      [CHR 0xEB, CHR 0xA5, CHR 0xBC], [CHR 0xEC, CHR 0x9D, CHR 0xB4],
      [CHR 0xEA, CHR 0xB0, CHR 0x80], [CHR 0xEC, CHR 0x9D, CHR 0x98],
      [CHR 0xEC, CHR 0x97, CHR 0x90], [CHR 0xEC, CHR 0x97, CHR 0x90, CHR 0xEC, CHR 0x84, CHR 0x9C],
      [CHR 0xEC, CHR 0x9C, CHR 0xBC, CHR 0xEB, CHR 0xA1, CHR 0x9C], [CHR 0xEB, CHR 0xA1, CHR 0x9C],
      [CHR 0xED, CHR 0x95, CHR 0x9C], [CHR 0xEB, CHR 0x90, CHR 0x9C],
      [CHR 0xED, CHR 0x95, CHR 0x98, CHR 0xEB, CHR 0x8A, CHR 0x94],
      [CHR 0xEC, CHR 0x9E, CHR 0x88, CHR 0xEB, CHR 0x8A, CHR 0x94],
      [CHR 0xED, CHR 0x95, CHR 0xB4, CHR 0xEC, CHR 0xA4, CHR 0x98], [CHR 0xEC, CHR 0xA4, CHR 0x98],
      [CHR 0xED, CHR 0x95, CHR 0xB4, CHR 0xEC, CHR 0xA3, CHR 0xBC, CHR 0xEC, CHR 0x84, CHR 0xB8, CHR 0xEC, CHR 0x9A, CHR 0x94],
      [CHR 0xEC, CHR 0x95, CHR 0x8C, CHR 0xEB, CHR 0xA0, CHR 0xA4, CHR 0xEC, CHR 0xA4, CHR 0x98],
      [CHR 0xEB, CHR 0xBD, CHR 0x91, CHR 0xEC, CHR 0x95, CHR 0x84, CHR 0xEC, CHR 0xA4, CHR 0x98],
      [CHR 0xEB, CHR 0xB3, CHR 0xB4, CHR 0xEC, CHR 0x97, CHR 0xAC, CHR 0xEC, CHR 0xA4, CHR 0x98],
      [CHR 0xEB, CHR 0xB6, CHR 0x84, CHR 0xEC, CHR 0x84, CHR 0x9D, CHR 0xED, CHR 0x95, CHR 0xB4, CHR 0xEC, CHR 0xA4, CHR 0x98],
      [CHR 0xEC, CHR 0xA1, CHR 0xB0, CHR 0xED, CHR 0x9A, CHR 0x8C, CHR 0xED, CHR 0x95, CHR 0xB4, CHR 0xEC, CHR 0xA4, CHR 0x98],
      [CHR 0xED, CHR 0x99, CHR 0x95, CHR 0xEC, CHR 0x9D, CHR 0xB8, CHR 0xED, CHR 0x95, CHR 0xB4, CHR 0xEC, CHR 0xA4, CHR 0x98],
      [CHR 0xEB, CHR 0xB6, CHR 0x80, CHR 0xED, CHR 0x83, CHR 0x81],
      [CHR 0xEA, CHR 0xB0, CHR 0x90, CHR 0xEC, CHR 0x82, CHR 0xAC],
      [CHR 0xEA, CHR 0xB7, CHR 0xB8, CHR 0xEB, CHR 0xA6, CHR 0xAC, CHR 0xEA, CHR 0xB3, CHR 0xA0],
      [CHR 0xEB, CHR 0x98, CHR 0x90, CHR 0xEB, CHR 0x8A, CHR 0x94], [CHR 0xEB, CHR 0xB0, CHR 0x8F],
      [CHR 0xEC, CHR 0x99, CHR 0x80], [CHR 0xEA, CHR 0xB3, CHR 0xBC]]"

definition INTENT_ACTION_MAP :: "(string \<times> string) list" where
  "INTENT_ACTION_MAP =
     [(''EXTRACT'', [CHR 0xEC, CHR 0xA1, CHR 0xB0, CHR 0xED, CHR 0x9A, CHR 0x8C]),
      (''AGGREGATE'', [CHR 0xEC, CHR 0xA7, CHR 0x91, CHR 0xEA, CHR 0xB3, CHR 0x84]),
      (''COMPARE'', [CHR 0xEB, CHR 0xB9, CHR 0x84, CHR 0xEA, CHR 0xB5, CHR 0x90]),
      (''TREND'', [CHR 0xEC, CHR 0xB6, CHR 0x94, CHR 0xEC, CHR 0x9D, CHR 0xB4, CHR 0x20, CHR 0xEB, CHR 0xB6, CHR 0x84, CHR 0xEC, CHR 0x84, CHR 0x9D]),
      (''RANK'', [CHR 0xEC, CHR 0x88, CHR 0x9C, CHR 0xEC, CHR 0x9C, CHR 0x84]),
      (''DISTRIBUTE'', [CHR 0xEB, CHR 0xB6, CHR 0x84, CHR 0xED, CHR 0x8F, CHR 0xAC]),
      (''EXIST_CHECK'', [CHR 0xEC, CHR 0xA1, CHR 0xB4, CHR 0xEC, CHR 0x9E, CHR 0xAC, CHR 0x20, CHR 0xEC, CHR 0x97, CHR 0xAC, CHR 0xEB, CHR 0xB6, CHR 0x80, CHR 0x20, CHR 0xED, CHR 0x99, CHR 0x95, CHR 0xEC, CHR 0x9D, CHR 0xB8]),
      (''DEDUP'', [CHR 0xEC, CHR 0xA4, CHR 0x91, CHR 0xEB, CHR 0xB3, CHR 0xB5, CHR 0x20, CHR 0xEC, CHR 0xA0, CHR 0x9C, CHR 0xEA, CHR 0xB1, CHR 0xB0]),
      (''PIVOT'', [CHR 0xEA, CHR 0xB5, CHR 0x90, CHR 0xEC, CHR 0xB0, CHR 0xA8, CHR 0x20, CHR 0xEB, CHR 0xB6, CHR 0x84, CHR 0xEC, CHR 0x84, CHR 0x9D])]"

definition objects_of :: "string \<Rightarrow> (string \<times> json) list \<Rightarrow> (string \<times> json) list list result" where
  "objects_of k data = result_bind (json_iter (obj_get data k (JList []))) (map_result as_object)"

definition aggregate_ambiguity :: "(json \<Rightarrow> string) \<Rightarrow> (string \<times> json) list \<Rightarrow> json" where
  "aggregate_ambiguity show_json m =
     JObj [(''ambiguity_type'', JStr ''INTENT''), (''confidence'', JStr ''MEDIUM''),
       (''question'', JStr (''How should '' @ py_repr (py_str show_json (obj_get m ''term'' (JStr []))) @ '' be aggregated?'')),
       (''question_type'', JStr ''single_select''),
       (''options'', JList [JStr ''sum (SUM)'', JStr ''average (AVG)'', JStr ''count (COUNT)'', JStr ''maximum (MAX)'']),
       (''inferred_value'', JStr ''SUM''),
       (''reasoning'', JStr ''without an aggregate function the sum is the most common in a grouped query'')]"

definition unaggregated :: "(string \<times> json) list \<Rightarrow> bool" where
  "unaggregated m \<longleftrightarrow> obj_get m ''agg_function'' JNull = JStr ''NONE''"

definition add_ambiguities :: "json list \<Rightarrow> (string \<times> json) list \<Rightarrow> (string \<times> json) list result" where
  "add_ambiguities new data =
     (if new = [] then Inr data
      else case obj_get data ''ambiguities'' (JList []) of
        JList old \<Rightarrow> Inr (dict_set ''ambiguities'' (JList (old @ new)) data)
      | _ \<Rightarrow> Inl AttributeError)"

definition post_aggregate_fix ::
  "(json \<Rightarrow> string) \<Rightarrow> json set \<Rightarrow> (string \<times> json) list \<Rightarrow> (string \<times> json) list result" where
  "post_aggregate_fix show_json intent_set data =
     result_bind (objects_of ''dimensions'' data) (\<lambda>dims.
       if \<not> ((\<exists>d\<in>set dims. obj_get d ''role'' JNull = JStr ''GROUP'') \<or> JStr ''AGGREGATE'' \<in> intent_set) then Inr data
       else result_bind (objects_of ''measures'' data) (\<lambda>ms.
            result_bind (update_items ''measures''
                (\<lambda>m. Inr (if unaggregated m then dict_set ''agg_function'' (JStr ''SUM'') m else m)) data)
              (add_ambiguities (map (aggregate_ambiguity show_json) (filter unaggregated ms)))))"

definition post_rank_fix :: "(string \<times> json) list \<Rightarrow> (string \<times> json) list result" where
  "post_rank_fix data =
     result_bind (objects_of ''measures'' data) (\<lambda>ms.
       update_items ''modifiers''
         (\<lambda>m. Inr (if obj_get m ''type'' JNull = JStr ''RANK'' \<and> \<not> json_true (obj_get m ''by'' JNull) \<and> ms \<noteq> []
                  then dict_set ''by'' (obj_get (hd ms) ''term'' (JStr [])) m else m)) data)"

text \<open>Without the key \<open>search_keywords\<close> the columns are merged into a dictionary of their own.\<close>

definition merge_columns :: "json list \<Rightarrow> (string \<times> json) list \<Rightarrow> (string \<times> json) list result" where
  "merge_columns cols sk =
     result_bind (json_iter (obj_get sk ''meta_search'' (JList []))) (\<lambda>known.
     if \<not> list_all hashable known \<or> \<not> list_all hashable cols then Inl TypeErr
     else
       let new = filter (\<lambda>c. c \<notin> set known) cols
       in if new = [] then Inr sk
          else case obj_get sk ''meta_search'' (JList []) of
            JList old \<Rightarrow> Inr (dict_set ''meta_search'' (JList (old @ new)) sk)
          | _ \<Rightarrow> Inl AttributeError)"

definition post_output_hint_merge :: "(string \<times> json) list \<Rightarrow> (string \<times> json) list result" where
  "post_output_hint_merge data =
     result_bind (as_object (obj_get data ''output_hint'' (JObj []))) (\<lambda>oh.
       let expected = obj_get oh ''expected_columns'' JNull
       in if \<not> json_true expected then Inr data
          else result_bind (as_object (obj_get data ''search_keywords'' (JObj []))) (\<lambda>sk.
               result_bind (json_iter expected) (\<lambda>cols.
               result_bind (merge_columns cols sk) (\<lambda>sk'.
                 Inr (if map_of data ''search_keywords'' = None then data
                      else dict_set ''search_keywords'' (JObj sk') data)))))"

text \<open>One round of the keyword loop; \<open>seen\<close> holds exactly the kept keywords.\<close>

definition keep_keyword :: "json \<Rightarrow> string list \<Rightarrow> string list result" where
  "keep_keyword kw optimized =
     (case kw of
        JStr t \<Rightarrow>
          (let kw_clean = py_strip t
           in Inr (if kw_clean \<noteq> [] \<and> kw_clean \<notin> set POST_STOPWORDS \<and> kw_clean \<notin> set optimized
                   then optimized @ [kw_clean] else optimized))
      | _ \<Rightarrow> Inl AttributeError)"

definition post_optimize_keywords :: "(string \<times> json) list \<Rightarrow> (string \<times> json) list result" where
  "post_optimize_keywords data =
     (case obj_get data ''search_keywords'' (JObj []) of
        JObj sk \<Rightarrow>
          (case map_of sk ''meta_search'' of
             None \<Rightarrow> Inr data
           | Some v \<Rightarrow>
               result_bind (json_iter v) (\<lambda>kws.
               result_bind (fold_result keep_keyword kws []) (\<lambda>optimized.
                 Inr (dict_set ''search_keywords''
                   (JObj (dict_set ''meta_search'' (JList (map JStr optimized)) sk)) data))))
      | JStr t \<Rightarrow> if contains t ''meta_search'' then Inl TypeErr else Inr data
      | JList xs \<Rightarrow> if JStr ''meta_search'' \<in> set xs then Inl TypeErr else Inr data
      | _ \<Rightarrow> Inl TypeErr)"

definition slot_term :: "(string \<times> json) list \<Rightarrow> json" where
  "slot_term item = py_or (obj_get item ''normalized_term'' JNull) (obj_get item ''term'' (JStr []))"

definition collect_slot_terms :: "(string \<times> json) list list \<Rightarrow> json list" where
  "collect_slot_terms items = filter json_true (map slot_term items)"

text \<open>The Korean suffix for \<open>by\<close>, as in \<open>by branch\<close>.\<close>

definition BY_SUFFIX :: string where
  "BY_SUFFIX = [CHR 0xEB, CHR 0xB3, CHR 0x84]"

definition dimension_label :: "(string \<times> json) list \<Rightarrow> json list result" where
  "dimension_label d =
     (let term = obj_get d ''term'' (JStr [])
      in if \<not> json_true term then Inr []
         else case term of
           JStr t \<Rightarrow> Inr [JStr (if ends_with t BY_SUFFIX then t else t @ BY_SUFFIX)]
         | _ \<Rightarrow> Inl AttributeError)"

definition collect_dimension_labels :: "(string \<times> json) list list \<Rightarrow> json list result" where
  "collect_dimension_labels ds = result_bind (map_result dimension_label ds) (\<lambda>ls. Inr (concat ls))"

definition json_strip :: "json \<Rightarrow> string result" where
  "json_strip v = (case v of JStr t \<Rightarrow> Inr (py_strip t) | _ \<Rightarrow> Inl AttributeError)"

definition missing_terms :: "string \<Rightarrow> json list \<Rightarrow> string list result" where
  "missing_terms base_lower terms =
     result_bind (map_result (\<lambda>t. case t of JStr x \<Rightarrow> Inr x | _ \<Rightarrow> Inl AttributeError) terms) (\<lambda>ts.
       Inr (filter (\<lambda>t. \<not> contains base_lower (py_lower t)) ts))"

definition action_of :: "json \<Rightarrow> string" where
  "action_of primary = (case primary of JStr t \<Rightarrow> (case map_of INTENT_ACTION_MAP t of None \<Rightarrow> [] | Some a \<Rightarrow> a) | _ \<Rightarrow> [])"

definition post_build_sql_history_search :: "(string \<times> json) list \<Rightarrow> (string \<times> json) list result" where
  "post_build_sql_history_search data =
     result_bind (json_strip (py_or (py_or (obj_get data ''rewritten_query'' (JStr []))
                                          (obj_get data ''original_query'' (JStr []))) (JStr []))) (\<lambda>base.
     result_bind (as_object (obj_get data ''intent'' (JObj []))) (\<lambda>i.
     let action = action_of (obj_get i ''primary'' (JStr []))
     in result_bind (objects_of ''entities'' data) (\<lambda>es.
        result_bind (objects_of ''measures'' data) (\<lambda>ms.
        result_bind (objects_of ''dimensions'' data) (\<lambda>ds.
        result_bind (collect_dimension_labels ds) (\<lambda>labels.
        result_bind (missing_terms (py_lower base) (collect_slot_terms es @ collect_slot_terms ms @ labels)) (\<lambda>extra.
        let parts = (if base \<noteq> [] then [base] else []) @
                    (if action \<noteq> [] \<and> \<not> contains base action then [action] else []) @ extra
        in case obj_get data ''search_keywords'' (JObj []) of
             JObj sk \<Rightarrow> Inr (dict_set ''search_keywords''
                          (JObj (dict_set ''sql_history_search'' (JStr (py_join '' '' parts)) sk)) data)
           | _ \<Rightarrow> Inl TypeErr)))))))"

definition intent_values :: "(string \<times> json) list \<Rightarrow> json set result" where
  "intent_values data =
     result_bind (as_object (obj_get data ''intent'' (JObj []))) (\<lambda>i.
     result_bind (json_iter (obj_get i ''secondary'' (JList []))) (\<lambda>vs.
       Inr (insert (obj_get i ''primary'' JNull) (set vs))))"

definition postprocess :: "(json \<Rightarrow> string) \<Rightarrow> (string \<times> json) list \<Rightarrow> (string \<times> json) list result" where
  "postprocess show_json data =
     result_bind (intent_values data) (\<lambda>intent_set.
     result_bind (post_aggregate_fix show_json intent_set data) (\<lambda>d1.
     result_bind (post_rank_fix d1) (\<lambda>d2.
     result_bind (post_output_hint_merge d2) (\<lambda>d3.
     result_bind (post_optimize_keywords d3) post_build_sql_history_search))))"

section \<open>The slot classes\<close>

definition read_intent_slot :: "json \<Rightarrow> intent_slot result" where
  "read_intent_slot v =
     result_bind (dict_field v) (\<lambda>d.
     result_bind (result_bind (required d ''primary'') str_field) (\<lambda>p.
     result_bind (list_field str_field (obj_get d ''secondary'' (JList []))) (\<lambda>sec.
       Inr \<lparr>is_primary = p, is_secondary = sec\<rparr>)))"

definition read_entity_slot :: "json \<Rightarrow> entity_slot result" where
  "read_entity_slot v =
     result_bind (dict_field v) (\<lambda>d.
     result_bind (result_bind (required d ''term'') str_field) (\<lambda>t.
     result_bind (str_field (obj_get d ''type'' (JStr ''DIRECT''))) (\<lambda>ty.
     result_bind (str_field (obj_get d ''confidence'' (JStr ''MEDIUM''))) (\<lambda>c.
     result_bind (option_field str_field (obj_get d ''normalized_term'' JNull)) (\<lambda>n.
     result_bind (option_field str_field (obj_get d ''note'' JNull)) (\<lambda>w.
       Inr \<lparr>es_term = t, es_type = ty, es_confidence = c, es_normalized_term = n, es_note = w\<rparr>))))))"

definition read_measure_slot :: "json \<Rightarrow> measure_slot result" where
  "read_measure_slot v =
     result_bind (dict_field v) (\<lambda>d.
     result_bind (result_bind (required d ''term'') str_field) (\<lambda>t.
     result_bind (str_field (obj_get d ''measure_type'' (JStr ''RAW''))) (\<lambda>ty.
     result_bind (str_field (obj_get d ''agg_function'' (JStr ''UNKNOWN''))) (\<lambda>a.
     result_bind (str_field (obj_get d ''confidence'' (JStr ''MEDIUM''))) (\<lambda>c.
     result_bind (option_field str_field (obj_get d ''normalized_term'' JNull)) (\<lambda>n.
     result_bind (option_field str_field (obj_get d ''note'' JNull)) (\<lambda>w.
       Inr \<lparr>ms_term = t, ms_measure_type = ty, ms_agg_function = a, ms_confidence = c, ms_normalized_term = n, ms_note = w\<rparr>)))))))"

definition read_dimension_slot :: "json \<Rightarrow> dimension_slot result" where
  "read_dimension_slot v =
     result_bind (dict_field v) (\<lambda>d.
     result_bind (result_bind (required d ''term'') str_field) (\<lambda>t.
     result_bind (str_field (obj_get d ''role'' (JStr ''GROUP''))) (\<lambda>r.
     result_bind (str_field (obj_get d ''granularity'' (JStr ''UNKNOWN''))) (\<lambda>g.
     result_bind (str_field (obj_get d ''confidence'' (JStr ''MEDIUM''))) (\<lambda>c.
     result_bind (option_field str_field (obj_get d ''normalized_term'' JNull)) (\<lambda>n.
     result_bind (bool_field (obj_get d ''is_time_dimension'' (JBool False))) (\<lambda>b.
     result_bind (option_field str_field (obj_get d ''note'' JNull)) (\<lambda>w.
       Inr \<lparr>ds_term = t, ds_role = r, ds_granularity = g, ds_confidence = c, ds_normalized_term = n, ds_is_time_dimension = b, ds_note = w\<rparr>))))))))"

definition read_filter_slot :: "json \<Rightarrow> filter_slot result" where
  "read_filter_slot v =
     result_bind (dict_field v) (\<lambda>d.
     result_bind (str_field (obj_get d ''target'' (JStr []))) (\<lambda>t.
     result_bind (str_field (obj_get d ''filter_type'' (JStr ''EQUALS''))) (\<lambda>ty.
     result_bind (str_field (obj_get d ''position'' (JStr ''PRE_AGG''))) (\<lambda>pos.
     result_bind (str_field (obj_get d ''confidence'' (JStr ''MEDIUM''))) (\<lambda>c.
     result_bind (option_field (list_field str_field) (obj_get d ''values'' JNull)) (\<lambda>vs.
     result_bind (option_field str_field (obj_get d ''note'' JNull)) (\<lambda>w.
       Inr \<lparr>fs_target = t, fs_filter_type = ty, fs_position = pos, fs_confidence = c, fs_values = vs, fs_note = w\<rparr>)))))))"

definition read_time_period :: "(string \<Rightarrow> rat option) \<Rightarrow> json \<Rightarrow> time_period result" where
  "read_time_period num v =
     result_bind (dict_field v) (\<lambda>d.
     result_bind (str_field (obj_get d ''label'' (JStr []))) (\<lambda>l.
     result_bind (str_field (obj_get d ''resolve'' (JStr []))) (\<lambda>r.
     result_bind (option_field (int_field num) (obj_get d ''n'' JNull)) (\<lambda>n.
     result_bind (option_field str_field (obj_get d ''absolute_start'' JNull)) (\<lambda>a.
     result_bind (option_field str_field (obj_get d ''absolute_end'' JNull)) (\<lambda>e.
       Inr \<lparr>tp_label = l, tp_resolve = r, tp_n = n, tp_absolute_start = a, tp_absolute_end = e\<rparr>))))))"

definition read_time_slot :: "(string \<Rightarrow> rat option) \<Rightarrow> json \<Rightarrow> time_slot result" where
  "read_time_slot num v =
     result_bind (dict_field v) (\<lambda>d.
     result_bind (str_field (obj_get d ''type'' (JStr ''NONE''))) (\<lambda>ty.
     result_bind (option_field (read_time_period num) (obj_get d ''base_period'' JNull)) (\<lambda>b.
     result_bind (option_field (read_time_period num) (obj_get d ''compare_period'' JNull)) (\<lambda>c.
       Inr \<lparr>tsl_type = ty, tsl_base_period = b, tsl_compare_period = c\<rparr>))))"

definition read_modifier_slot :: "(string \<Rightarrow> rat option) \<Rightarrow> json \<Rightarrow> modifier_slot result" where
  "read_modifier_slot num v =
     result_bind (dict_field v) (\<lambda>d.
     result_bind (result_bind (required d ''type'') str_field) (\<lambda>ty.
     result_bind (option_field str_field (obj_get d ''direction'' JNull)) (\<lambda>dir.
     result_bind (option_field (int_field num) (obj_get d ''limit'' JNull)) (\<lambda>l.
     result_bind (option_field str_field (obj_get d ''by'' JNull)) (\<lambda>b.
     result_bind (option_field str_field (obj_get d ''note'' JNull)) (\<lambda>w.
       Inr \<lparr>md_type = ty, md_direction = dir, md_limit = l, md_by = b, md_note = w\<rparr>))))))"

definition read_output_hint_slot :: "json \<Rightarrow> output_hint_slot result" where
  "read_output_hint_slot v =
     result_bind (dict_field v) (\<lambda>d.
     result_bind (str_field (obj_get d ''format'' (JStr ''NONE''))) (\<lambda>f.
     result_bind (option_field str_field (obj_get d ''doc_type'' JNull)) (\<lambda>dt.
     result_bind (list_field str_field (obj_get d ''expected_columns'' (JList []))) (\<lambda>cols.
     result_bind (str_field (obj_get d ''confidence'' (JStr ''MEDIUM''))) (\<lambda>c.
     result_bind (option_field str_field (obj_get d ''note'' JNull)) (\<lambda>w.
       Inr \<lparr>oh_format = f, oh_doc_type = dt, oh_expected_columns = cols, oh_confidence = c, oh_note = w\<rparr>))))))"

definition read_search_keywords :: "json \<Rightarrow> search_keywords result" where
  "read_search_keywords v =
     result_bind (dict_field v) (\<lambda>d.
     result_bind (list_field str_field (obj_get d ''meta_search'' (JList []))) (\<lambda>ks.
     result_bind (str_field (obj_get d ''vector_search'' (JStr []))) (\<lambda>vec.
     result_bind (str_field (obj_get d ''sql_history_search'' (JStr []))) (\<lambda>h.
       Inr \<lparr>sk_meta_search = ks, sk_vector_search = vec, sk_sql_history_search = h\<rparr>))))"

definition read_normalized_query :: "(string \<Rightarrow> rat option) \<Rightarrow> json \<Rightarrow> normalized_query result" where
  "read_normalized_query num v =
     result_bind (dict_field v) (\<lambda>d.
     result_bind (str_field (obj_get d ''original_query'' (JStr []))) (\<lambda>orig.
     result_bind (str_field (obj_get d ''rewritten_query'' (JStr []))) (\<lambda>rew.
     result_bind (read_intent_slot (obj_get d ''intent'' (JObj [(''primary'', JStr ''EXTRACT'')]))) (\<lambda>i.
     result_bind (list_field read_entity_slot (obj_get d ''entities'' (JList []))) (\<lambda>es.
     result_bind (list_field read_measure_slot (obj_get d ''measures'' (JList []))) (\<lambda>ms.
     result_bind (list_field read_dimension_slot (obj_get d ''dimensions'' (JList []))) (\<lambda>ds.
     result_bind (list_field read_filter_slot (obj_get d ''filters'' (JList []))) (\<lambda>fs.
     result_bind (read_time_slot num (obj_get d ''time'' (JObj []))) (\<lambda>t.
     result_bind (list_field (read_modifier_slot num) (obj_get d ''modifiers'' (JList []))) (\<lambda>mods.
     result_bind (read_output_hint_slot (obj_get d ''output_hint'' (JObj []))) (\<lambda>oh.
     result_bind (list_field dict_field (obj_get d ''ambiguities'' (JList []))) (\<lambda>ambs.
     result_bind (read_search_keywords (obj_get d ''search_keywords'' (JObj []))) (\<lambda>sk.
       Inr \<lparr>nq_original_query = orig, nq_rewritten_query = rew, nq_intent = i, nq_entities = es, nq_measures = ms, nq_dimensions = ds, nq_filters = fs, nq_time = t, nq_modifiers = mods, nq_output_hint = oh, nq_ambiguities = map JObj ambs, nq_search_keywords = sk\<rparr>)))))))))))))"

section \<open>The service\<close>

text \<open>
  \<open>call1\<close> and \<open>call2\<close> are the two model calls with the JSON found in their replies; the second
  one, which sees the first one's checked result, is made when \<open>phase2\<close> is set.
\<close>

definition checked_reply ::
  "(json \<Rightarrow> string) \<Rightarrow> string \<Rightarrow> json \<Rightarrow> (string \<times> json) list result" where
  "checked_reply show_json raw_query reply =
     result_bind (as_object reply) (\<lambda>d.
     result_bind (validate_structure show_json d) (\<lambda>d'.
       Inr (dict_set ''original_query'' (JStr raw_query) d')))"

definition run_normalization ::
  "(json \<Rightarrow> string) \<Rightarrow> (string \<Rightarrow> rat option) \<Rightarrow> bool \<Rightarrow> (string \<Rightarrow> json result) \<Rightarrow>
   (string \<Rightarrow> json \<Rightarrow> json result) \<Rightarrow> string \<Rightarrow> normalized_query result" where
  "run_normalization show_json num phase2 call1 call2 raw_query =
     (let cleaned = preprocess_for_normalization raw_query
      in result_bind (call1 cleaned) (\<lambda>r1.
         result_bind (checked_reply show_json raw_query r1) (\<lambda>d1.
         result_bind (if phase2 then result_bind (call2 cleaned (JObj d1)) (checked_reply show_json raw_query)
                      else Inr d1) (\<lambda>d.
         result_bind (postprocess show_json d) (\<lambda>final.
           read_normalized_query num (JObj final))))))"

section \<open>What the checks establish\<close>

definition enum_ok :: "string list \<Rightarrow> string \<Rightarrow> (string \<times> json) list \<Rightarrow> bool" where
  "enum_ok valid k e \<longleftrightarrow> (\<exists>t. map_of e k = Some (JStr t) \<and> (t \<in> set valid \<or> py_upper t \<in> set valid))"

text \<open>A step that writes the one key only.\<close>

definition writes_only :: "string \<Rightarrow> (string \<times> json) list \<Rightarrow> (string \<times> json) list \<Rightarrow> bool" where
  "writes_only k d d' \<longleftrightarrow> (\<forall>k'. k' \<noteq> k \<longrightarrow> map_of d' k' = map_of d k')"

lemma writes_only_dict_set: "writes_only k d (dict_set k v d)"
  by (simp add: writes_only_def map_of_dict_set)

lemma writes_only_refl: "writes_only k d d"
  by (simp add: writes_only_def)

lemma enum_ok_cong: "map_of e k = map_of e' k \<Longrightarrow> enum_ok valid k e = enum_ok valid k e'"
  by (simp add: enum_ok_def)

lemma enum_ok_frame: "writes_only k' e e' \<Longrightarrow> k' \<noteq> k \<Longrightarrow> enum_ok valid k e' = enum_ok valid k e"
  by (simp add: enum_ok_def writes_only_def)

lemma validate_enum_Some:
  "validate_enum valid v = Inr (Some t) \<Longrightarrow> t \<in> set valid \<and> (\<exists>u. v = JStr u \<and> (u = t \<or> py_upper u = t))"
  by (auto simp: validate_enum_def split: json.splits if_splits)

lemma fix_enum_ok:
  assumes "fix_enum valid k fallback e = Inr e'" and "fallback \<in> set valid"
  shows "enum_ok valid k e'" and "writes_only k e e'"
proof -
  from assms(1) obtain r where r: "validate_enum valid (obj_get e k JNull) = Inr r"
    and e': "e' = (if r = None then dict_set k (JStr fallback) e else e)"
    by (auto simp: fix_enum_def result_bind_Inr_iff)
  show "writes_only k e e'" using e' by (simp add: writes_only_dict_set writes_only_refl)
  show "enum_ok valid k e'"
  proof (cases r)
    case None
    with e' assms(2) show ?thesis by (simp add: enum_ok_def map_of_dict_set)
  next
    case (Some t)
    with validate_enum_Some [of valid "obj_get e k JNull" t] r obtain u where
      "obj_get e k JNull = JStr u" "u = t \<or> py_upper u = t" "t \<in> set valid" by auto
    with e' Some show ?thesis by (auto simp: enum_ok_def obj_get_def split: option.splits)
  qed
qed

text \<open>The elements of a slot that is a list.\<close>

definition all_items :: "((string \<times> json) list \<Rightarrow> bool) \<Rightarrow> string \<Rightarrow> (string \<times> json) list \<Rightarrow> bool" where
  "all_items P k data \<longleftrightarrow>
     (\<forall>xs. map_of data k = Some (JList xs) \<longrightarrow> (\<forall>x\<in>set xs. \<exists>e. x = JObj e \<and> P e))"

lemma all_items_frame: "writes_only k' d d' \<Longrightarrow> k' \<noteq> k \<Longrightarrow> all_items P k d' = all_items P k d"
  by (simp add: all_items_def writes_only_def)

lemma map_result_texts:
  assumes "map_result (\<lambda>x. result_bind (as_object x) g) (map JStr ts) = Inr ys"
  shows "ts = []"
  using assms by (cases ts) (simp_all add: as_object_def)

lemma update_items_cases:
  assumes "update_items k f data = Inr d'"
  obtains (same) "d' = data" "\<forall>xs. map_of data k \<noteq> Some (JList xs)"
      "json_iter (obj_get data k (JList [])) = Inr []"
  | (items) xs ys where "map_of data k = Some (JList xs)" "d' = dict_set k (JList ys) data"
      "\<forall>y\<in>set ys. \<exists>e e'. JObj e \<in> set xs \<and> f e = Inr e' \<and> y = JObj e'"
proof (cases "map_of data k")
  case None
  with assms same show thesis by (simp add: update_items_def obj_get_def)
next
  case (Some v)
  show thesis
  proof (cases v)
    case (JList xs)
    with Some assms obtain ys where d': "d' = dict_set k (JList ys) data"
      and ys: "map_result (\<lambda>x. result_bind (as_object x) (\<lambda>e. result_bind (f e) (\<lambda>e'. Inr (JObj e')))) xs = Inr ys"
      by (auto simp: update_items_def result_bind_Inr_iff)
    have "\<exists>e e'. JObj e \<in> set xs \<and> f e = Inr e' \<and> y = JObj e'" if "y \<in> set ys" for y
    proof -
      from map_result_set [OF ys that] obtain x e e' where x: "x \<in> set xs" "as_object x = Inr e" "f e = Inr e'" "y = JObj e'"
        by (auto simp: result_bind_Inr_iff)
      then have "x = JObj e" by (auto simp: as_object_def split: json.splits)
      with x show ?thesis by auto
    qed
    with items Some JList d' show thesis by blast
  next
    case (JStr t)
    with Some assms have "utf8_chars t = []" "d' = data"
      by (auto simp: update_items_def result_bind_Inr_iff dest: map_result_texts)
    with Some JStr same show thesis by (simp add: obj_get_def)
  next
    case (JObj kvs)
    with Some assms have "map fst kvs = []" "d' = data"
      by (auto simp: update_items_def result_bind_Inr_iff map_map [symmetric] simp del: map_map map_is_Nil_conv
          dest: map_result_texts)
    with Some JObj same show thesis by (simp add: obj_get_def)
  qed (use Some assms in \<open>auto simp: update_items_def\<close>)
qed

lemma update_items_frame:
  assumes "update_items k f data = Inr d'"
  shows "writes_only k data d'"
  using assms by (cases rule: update_items_cases) (simp_all add: writes_only_dict_set writes_only_refl)

lemma update_items_all:
  assumes "update_items k f data = Inr d'" and "all_items P k data"
    and "\<And>e e'. P e \<Longrightarrow> f e = Inr e' \<Longrightarrow> Q e'"
  shows "all_items Q k d'"
  using assms(1)
proof (cases rule: update_items_cases)
  case same
  then show ?thesis by (simp add: all_items_def)
next
  case (items xs ys)
  have "\<exists>e. y = JObj e \<and> Q e" if "y \<in> set ys" for y
  proof -
    from items(3) that obtain e e' where e: "JObj e \<in> set xs" "f e = Inr e'" "y = JObj e'" by blast
    with assms(2) items(1) have "P e" by (fastforce simp: all_items_def)
    with assms(3) e show ?thesis by blast
  qed
  with items(2) show ?thesis by (simp add: all_items_def map_of_dict_set)
qed

lemma update_items_establish:
  "update_items k f data = Inr d' \<Longrightarrow> (\<And>e e'. f e = Inr e' \<Longrightarrow> Q e') \<Longrightarrow> all_items Q k d'"
  by (cases rule: update_items_cases, assumption) (fastforce simp: all_items_def map_of_dict_set)+

text \<open>The invariant the structure check establishes, and the writes of the single checks.\<close>

definition slots_ok :: "(string \<times> json) list \<Rightarrow> bool" where
  "slots_ok d \<longleftrightarrow>
     (\<exists>i p ss. map_of d ''intent'' = Some (JObj i) \<and> map_of i ''primary'' = Some (JStr p) \<and>
        map_of i ''secondary'' = Some (JList (map JStr ss)) \<and> set (p # ss) \<subseteq> set VALID_INTENTS) \<and>
     all_items (enum_ok VALID_ENTITY_TYPES ''type'') ''entities'' d \<and>
     all_items (\<lambda>m. enum_ok VALID_AGG_FUNCS ''agg_function'' m \<and> enum_ok VALID_MEASURE_TYPES ''measure_type'' m) ''measures'' d \<and>
     all_items (\<lambda>x. enum_ok VALID_DIM_ROLES ''role'' x \<and> enum_ok (VALID_TIME_GRAN @ VALID_DIM_GRAN) ''granularity'' x) ''dimensions'' d \<and>
     all_items (\<lambda>f. enum_ok VALID_FILTER_TYPES ''filter_type'' f \<and> enum_ok VALID_FILTER_POS ''position'' f) ''filters'' d \<and>
     (\<exists>t. map_of d ''time'' = Some (JObj t) \<and> enum_ok VALID_TIME_TYPES ''type'' t) \<and>
     all_items (enum_ok VALID_MOD_TYPES ''type'') ''modifiers'' d \<and>
     (\<exists>oh. map_of d ''output_hint'' = Some (JObj oh) \<and> enum_ok VALID_OUTPUT_FMT ''format'' oh)"

lemma extract_valid: "''EXTRACT'' \<in> set VALID_INTENTS"
  by (simp add: VALID_INTENTS_def)

lemma validate_intent_ok:
  assumes "validate_intent data = Inr d"
  shows "\<exists>i p ss. map_of d ''intent'' = Some (JObj i) \<and> map_of i ''primary'' = Some (JStr p) \<and>
    map_of i ''secondary'' = Some (JList (map JStr ss)) \<and> set (p # ss) \<subseteq> set VALID_INTENTS"
    and "writes_only ''intent'' data d"
proof -
  from assms obtain i corrected vs sec where
      c: "validate_enum VALID_INTENTS (obj_get i ''primary'' (JStr [])) = Inr corrected"
    and sec: "valid_texts VALID_INTENTS vs = Inr sec"
    and d: "d = dict_set ''intent'' (JObj (dict_set ''secondary'' (JList sec)
              (dict_set ''primary'' (JStr (case corrected of None \<Rightarrow> ''EXTRACT'' | Some t \<Rightarrow> t)) i))) data"
    by (auto simp: validate_intent_def result_bind_Inr_iff Let_def)
  let ?p = "case corrected of None \<Rightarrow> ''EXTRACT'' | Some t \<Rightarrow> t"
  have p: "?p \<in> set VALID_INTENTS"
    using validate_enum_Some c extract_valid by (cases corrected) auto
  from sec obtain rs where rs: "map_result (validate_enum VALID_INTENTS) vs = Inr rs"
    and sec': "sec = concat (map (\<lambda>r. case r of None \<Rightarrow> [] | Some t \<Rightarrow> [JStr t]) rs)"
    by (auto simp: valid_texts_def result_bind_Inr_iff)
  define ss where "ss = map the (filter (\<lambda>r. r \<noteq> None) rs)"
  have "sec = map JStr ss"
    unfolding sec' ss_def by (induction rs) (auto split: option.splits)
  moreover have "set ss \<subseteq> set VALID_INTENTS"
    using map_result_set [OF rs] validate_enum_Some by (fastforce simp: ss_def)
  ultimately show "\<exists>i p ss. map_of d ''intent'' = Some (JObj i) \<and> map_of i ''primary'' = Some (JStr p) \<and>
    map_of i ''secondary'' = Some (JList (map JStr ss)) \<and> set (p # ss) \<subseteq> set VALID_INTENTS"
    using p d by (auto simp: map_of_dict_set)
  show "writes_only ''intent'' data d" using d by (simp add: writes_only_dict_set)
qed

lemma map_of_dict_pop: "map_of (dict_pop k d) k' = (if k' = k then None else map_of d k')"
  by (induction d) (auto simp: dict_pop_def)

lemma validate_entity_ok: "validate_entity e = Inr e' \<Longrightarrow> enum_ok VALID_ENTITY_TYPES ''type'' e'"
  using fix_enum_ok(1) [of VALID_ENTITY_TYPES "''type''" "''DIRECT''" e]
  by (auto simp: validate_entity_def result_bind_Inr_iff enum_ok_def map_of_dict_pop VALID_ENTITY_TYPES_def)

lemma two_enums_ok:
  assumes "result_bind (fix_enum v1 k1 f1 e) (fix_enum v2 k2 f2) = Inr e'"
    and "f1 \<in> set v1" and "f2 \<in> set v2" and "k2 \<noteq> k1"
  shows "enum_ok v1 k1 e' \<and> enum_ok v2 k2 e'"
proof -
  from assms(1) obtain e1 where "fix_enum v1 k1 f1 e = Inr e1" "fix_enum v2 k2 f2 e1 = Inr e'"
    by (auto simp: result_bind_Inr_iff)
  with fix_enum_ok [of v1 k1 f1 e e1] fix_enum_ok [of v2 k2 f2 e1 e'] assms(2-4) show ?thesis
    by (simp add: enum_ok_frame)
qed

lemma validate_measure_ok:
  "validate_measure m = Inr m' \<Longrightarrow> enum_ok VALID_AGG_FUNCS ''agg_function'' m' \<and> enum_ok VALID_MEASURE_TYPES ''measure_type'' m'"
  unfolding validate_measure_def by (erule two_enums_ok) (simp_all add: VALID_AGG_FUNCS_def VALID_MEASURE_TYPES_def)

lemma validate_dimension_ok:
  "validate_dimension d = Inr d' \<Longrightarrow>
   enum_ok VALID_DIM_ROLES ''role'' d' \<and> enum_ok (VALID_TIME_GRAN @ VALID_DIM_GRAN) ''granularity'' d'"
  unfolding validate_dimension_def
  by (erule two_enums_ok) (simp_all add: VALID_DIM_ROLES_def VALID_TIME_GRAN_def)

lemma validate_filter_ok:
  assumes "validate_filter show_json f = Inr f'"
  shows "enum_ok VALID_FILTER_TYPES ''filter_type'' f' \<and> enum_ok VALID_FILTER_POS ''position'' f'"
proof -
  from assms obtain f2 where f2: "result_bind (fix_enum VALID_FILTER_TYPES ''filter_type'' ''EQUALS'' f)
      (fix_enum VALID_FILTER_POS ''position'' ''PRE_AGG'') = Inr f2"
    and f': "f' = (case obj_get f2 ''values'' JNull of
              JList vs \<Rightarrow> dict_set ''values'' (JList (map (JStr \<circ> py_str show_json) vs)) f2 | _ \<Rightarrow> f2)"
    by (auto simp: validate_filter_def result_bind_Inr_iff)
  have "enum_ok VALID_FILTER_TYPES ''filter_type'' f2 \<and> enum_ok VALID_FILTER_POS ''position'' f2"
    using f2 by (rule two_enums_ok) (simp_all add: VALID_FILTER_TYPES_def VALID_FILTER_POS_def)
  moreover have "writes_only ''values'' f2 f'"
    using f' by (auto simp: writes_only_dict_set writes_only_refl split: json.splits)
  ultimately show ?thesis by (simp add: enum_ok_frame)
qed

lemma validate_period_frame: "validate_period pk t = Inr t' \<Longrightarrow> writes_only pk t t'"
  by (auto simp: validate_period_def result_bind_Inr_iff writes_only_dict_set writes_only_refl Let_def split: if_splits)

lemma validate_time_ok:
  assumes "validate_time data = Inr d"
  shows "(\<exists>t. map_of d ''time'' = Some (JObj t) \<and> enum_ok VALID_TIME_TYPES ''type'' t)" and "writes_only ''time'' data d"
proof -
  from assms obtain t t1 t2 t3 where t: "fix_enum VALID_TIME_TYPES ''type'' ''NONE'' t = Inr t1"
      "validate_period ''base_period'' t1 = Inr t2" "validate_period ''compare_period'' t2 = Inr t3"
    and d: "d = dict_set ''time'' (JObj t3) data"
    by (auto simp: validate_time_def result_bind_Inr_iff)
  have "enum_ok VALID_TIME_TYPES ''type'' t1" using t(1) by (rule fix_enum_ok(1)) (simp add: VALID_TIME_TYPES_def)
  with validate_period_frame [OF t(2)] validate_period_frame [OF t(3)]
  have "enum_ok VALID_TIME_TYPES ''type'' t3" by (simp add: enum_ok_frame)
  with d show "(\<exists>t. map_of d ''time'' = Some (JObj t) \<and> enum_ok VALID_TIME_TYPES ''type'' t)"
    by (simp add: map_of_dict_set)
  show "writes_only ''time'' data d" using d by (simp add: writes_only_dict_set)
qed

lemma validate_modifier_ok:
  assumes "validate_modifier m = Inr m'"
  shows "enum_ok VALID_MOD_TYPES ''type'' m' \<or> json_true (obj_get m' ''_remove'' JNull)"
proof -
  from assms obtain r where r: "validate_enum VALID_MOD_TYPES (obj_get m ''type'' (JStr [])) = Inr r"
    by (auto simp: validate_modifier_def result_bind_Inr_iff)
  define m1 where "m1 = (if r = None then dict_set ''_remove'' (JBool True) m else m)"
  have "enum_ok VALID_MOD_TYPES ''type'' m1 \<or> map_of m1 ''_remove'' = Some (JBool True)"
  proof (cases r)
    case (Some t)
    with r validate_enum_Some [of VALID_MOD_TYPES "obj_get m ''type'' (JStr [])" t] obtain u where
      "obj_get m ''type'' (JStr []) = JStr u" "u = t \<or> py_upper u = t" "t \<in> set VALID_MOD_TYPES" "u \<noteq> []"
      by (auto simp: validate_enum_def split: if_splits)
    with Some show ?thesis by (auto simp: m1_def enum_ok_def obj_get_def split: option.splits)
  qed (simp add: m1_def map_of_dict_set)
  moreover have "writes_only ''direction'' m1 m'"
    using assms r fix_enum_ok(2) [of VALID_SORT_DIR "''direction''" "''DESC''" m1 m']
    by (auto simp: validate_modifier_def result_bind_Inr_iff m1_def [symmetric] Let_def writes_only_refl
        VALID_SORT_DIR_def split: if_splits)
  ultimately show ?thesis by (auto simp: enum_ok_frame writes_only_def obj_get_def)
qed

lemma validate_modifiers_ok:
  assumes "validate_modifiers data = Inr d"
  shows "all_items (enum_ok VALID_MOD_TYPES ''type'') ''modifiers'' d" and "writes_only ''modifiers'' data d"
proof -
  from assms obtain d1 ms where d1: "update_items ''modifiers'' validate_modifier data = Inr d1"
    and ms: "json_iter (obj_get d1 ''modifiers'' (JList [])) = Inr ms"
    and d: "d = dict_set ''modifiers'' (JList (filter kept_modifier ms)) d1"
    by (auto simp: validate_modifiers_def result_bind_Inr_iff)
  show "writes_only ''modifiers'' data d"
    using update_items_frame [OF d1] d by (simp add: writes_only_def map_of_dict_set)
  have "\<exists>e. x = JObj e \<and> enum_ok VALID_MOD_TYPES ''type'' e" if x: "x \<in> set ms" "kept_modifier x" for x
    using d1
  proof (cases rule: update_items_cases)
    case same
    with ms x(1) show ?thesis by simp
  next
    case (items xs ys)
    with ms have "ms = ys" by (simp add: obj_get_def map_of_dict_set)
    with items(3) x(1) obtain e e' where "validate_modifier e = Inr e'" "x = JObj e'" by blast
    with validate_modifier_ok [of e e'] x(2) show ?thesis by (auto simp: kept_modifier_def)
  qed
  then show "all_items (enum_ok VALID_MOD_TYPES ''type'') ''modifiers'' d"
    using d by (simp add: all_items_def map_of_dict_set)
qed

lemma validate_output_hint_ok:
  assumes "validate_output_hint data = Inr d"
  shows "\<exists>oh. map_of d ''output_hint'' = Some (JObj oh) \<and> enum_ok VALID_OUTPUT_FMT ''format'' oh"
    and "writes_only ''output_hint'' data d"
proof -
  have none: "''NONE'' \<in> set VALID_OUTPUT_FMT" by (simp add: VALID_OUTPUT_FMT_def)
  then show "\<exists>oh. map_of d ''output_hint'' = Some (JObj oh) \<and> enum_ok VALID_OUTPUT_FMT ''format'' oh"
    using assms fix_enum_ok(1) [of VALID_OUTPUT_FMT "''format''" "''NONE''"]
    by (auto simp: validate_output_hint_def result_bind_Inr_iff map_of_dict_set no_output_hint_def enum_ok_def Let_def
        split: if_splits)
  show "writes_only ''output_hint'' data d"
    using assms by (auto simp: validate_output_hint_def result_bind_Inr_iff writes_only_dict_set Let_def split: if_splits)
qed

lemma writes_onlyD: "writes_only k d d' \<Longrightarrow> k' \<noteq> k \<Longrightarrow> map_of d' k' = map_of d k'"
  by (simp add: writes_only_def)

lemma validate_structure_ok:
  assumes "validate_structure show_json data = Inr d"
  shows "slots_ok d"
proof -
  from assms obtain d1 d2 d3 d4 d5 d6 d7 where steps:
      "validate_intent data = Inr d1" "update_items ''entities'' validate_entity d1 = Inr d2"
      "update_items ''measures'' validate_measure d2 = Inr d3" "update_items ''dimensions'' validate_dimension d3 = Inr d4"
      "update_items ''filters'' (validate_filter show_json) d4 = Inr d5" "validate_time d5 = Inr d6"
      "validate_modifiers d6 = Inr d7" "validate_output_hint d7 = Inr d"
    by (auto simp: validate_structure_def result_bind_Inr_iff)
  note frames = update_items_frame [OF steps(2)] update_items_frame [OF steps(3)] update_items_frame [OF steps(4)]
    update_items_frame [OF steps(5)] validate_time_ok(2) [OF steps(6)] validate_modifiers_ok(2) [OF steps(7)]
    validate_output_hint_ok(2) [OF steps(8)]
  have "map_of d ''intent'' = map_of d1 ''intent''" "map_of d ''time'' = map_of d6 ''time''"
    using frames by (simp_all add: writes_onlyD)
  moreover have "all_items (enum_ok VALID_ENTITY_TYPES ''type'') ''entities'' d"
    using update_items_establish [OF steps(2) validate_entity_ok] frames by (simp add: all_items_frame)
  moreover have "all_items (\<lambda>m. enum_ok VALID_AGG_FUNCS ''agg_function'' m \<and> enum_ok VALID_MEASURE_TYPES ''measure_type'' m) ''measures'' d"
    using update_items_establish [OF steps(3) validate_measure_ok] frames by (simp add: all_items_frame)
  moreover have "all_items (\<lambda>x. enum_ok VALID_DIM_ROLES ''role'' x \<and> enum_ok (VALID_TIME_GRAN @ VALID_DIM_GRAN) ''granularity'' x) ''dimensions'' d"
    using update_items_establish [OF steps(4) validate_dimension_ok] frames by (simp add: all_items_frame)
  moreover have "all_items (\<lambda>f. enum_ok VALID_FILTER_TYPES ''filter_type'' f \<and> enum_ok VALID_FILTER_POS ''position'' f) ''filters'' d"
    using update_items_establish [OF steps(5) validate_filter_ok] frames by (simp add: all_items_frame)
  moreover have "all_items (enum_ok VALID_MOD_TYPES ''type'') ''modifiers'' d"
    using validate_modifiers_ok(1) [OF steps(7)] frames by (simp add: all_items_frame)
  ultimately show ?thesis
    using validate_intent_ok(1) [OF steps(1)] validate_time_ok(1) [OF steps(6)] validate_output_hint_ok(1) [OF steps(8)]
    unfolding slots_ok_def by simp
qed

section \<open>What the post-processing keeps and establishes\<close>

lemma slots_ok_cong:
  assumes "\<And>k. k \<in> {''intent'', ''entities'', ''measures'', ''dimensions'', ''filters'', ''time'', ''modifiers'', ''output_hint''} \<Longrightarrow>
    map_of d' k = map_of d k"
  shows "slots_ok d' = slots_ok d"
  using assms by (simp add: slots_ok_def all_items_def)

lemma add_ambiguities_frame: "add_ambiguities new d = Inr d' \<Longrightarrow> writes_only ''ambiguities'' d d'"
  by (auto simp: add_ambiguities_def writes_only_dict_set writes_only_refl split: if_splits json.splits)

text \<open>A measure without its aggregate function.\<close>

definition sum_of :: "(string \<times> json) list \<Rightarrow> (string \<times> json) list" where
  "sum_of m = (if unaggregated m then dict_set ''agg_function'' (JStr ''SUM'') m else m)"

lemma sum_of_ok:
  "enum_ok VALID_AGG_FUNCS ''agg_function'' m \<and> enum_ok VALID_MEASURE_TYPES ''measure_type'' m \<Longrightarrow>
   enum_ok VALID_AGG_FUNCS ''agg_function'' (sum_of m) \<and> enum_ok VALID_MEASURE_TYPES ''measure_type'' (sum_of m)"
  by (auto simp: sum_of_def enum_ok_def map_of_dict_set VALID_AGG_FUNCS_def)

lemma post_aggregate_cases:
  assumes "post_aggregate_fix show_json ivs data = Inr d"
  obtains (idle) dims where "d = data" "objects_of ''dimensions'' data = Inr dims"
      "\<forall>x\<in>set dims. obj_get x ''role'' JNull \<noteq> JStr ''GROUP''" "JStr ''AGGREGATE'' \<notin> ivs"
  | (fixed) d1 where "update_items ''measures'' (\<lambda>m. Inr (sum_of m)) data = Inr d1" "writes_only ''ambiguities'' d1 d"
  using assms add_ambiguities_frame
  by (auto simp: post_aggregate_fix_def result_bind_Inr_iff sum_of_def [abs_def] split: if_splits)

definition grouped :: "(string \<times> json) list \<Rightarrow> bool" where
  "grouped d \<longleftrightarrow>
     (\<exists>xs e. map_of d ''dimensions'' = Some (JList xs) \<and> JObj e \<in> set xs \<and> map_of e ''role'' = Some (JStr ''GROUP''))"

lemma not_grouped:
  assumes "objects_of ''dimensions'' d = Inr dims" and "\<forall>x\<in>set dims. obj_get x ''role'' JNull \<noteq> JStr ''GROUP''"
  shows "\<not> grouped d"
proof
  assume "grouped d"
  then obtain xs e where e: "map_of d ''dimensions'' = Some (JList xs)" "JObj e \<in> set xs" "map_of e ''role'' = Some (JStr ''GROUP'')"
    by (auto simp: grouped_def)
  from e(1) assms(1) have "map_result as_object xs = Inr dims" by (auto simp: objects_of_def obj_get_def)
  from this e(2) have "e \<in> set dims"
    by (induction xs arbitrary: dims) (auto simp: result_bind_Inr_iff as_object_def)
  with e(3) assms(2) show False by (auto simp: obj_get_def)
qed

lemma post_aggregate_ok:
  assumes "post_aggregate_fix show_json ivs data = Inr d" and "slots_ok data"
  shows "slots_ok d"
    and "map_of d k = map_of data k \<or> k = ''measures'' \<or> k = ''ambiguities''"
    and "(\<not> grouped data \<and> JStr ''AGGREGATE'' \<notin> ivs) \<or> all_items (\<lambda>m. \<not> unaggregated m) ''measures'' d"
  using assms(1)
proof (atomize(full), cases rule: post_aggregate_cases)
  case (idle dims)
  with assms(2) not_grouped [OF idle(2,3)]
  show "slots_ok d \<and> (map_of d k = map_of data k \<or> k = ''measures'' \<or> k = ''ambiguities'') \<and>
    ((\<not> grouped data \<and> JStr ''AGGREGATE'' \<notin> ivs) \<or> all_items (\<lambda>m. \<not> unaggregated m) ''measures'' d)" by simp
next
  case (fixed d1)
  note f1 = update_items_frame [OF fixed(1)] and f2 = fixed(2)
  let ?P = "\<lambda>m. enum_ok VALID_AGG_FUNCS ''agg_function'' m \<and> enum_ok VALID_MEASURE_TYPES ''measure_type'' m"
  have "all_items ?P ''measures'' d1"
    by (rule update_items_all [OF fixed(1), where P = ?P]) (use assms(2) sum_of_ok in \<open>auto simp: slots_ok_def\<close>)
  moreover have other: "map_of d k' = map_of data k'" if "k' \<noteq> ''measures''" "k' \<noteq> ''ambiguities''" for k'
    using f1 f2 that by (simp add: writes_onlyD)
  moreover have "map_of d ''measures'' = map_of d1 ''measures''" using f2 by (simp add: writes_onlyD)
  ultimately have "slots_ok d"
    using assms(2) by (simp add: slots_ok_def all_items_def)
  moreover have "all_items (\<lambda>m. \<not> unaggregated m) ''measures'' d"
    using update_items_establish [OF fixed(1), of "\<lambda>m. \<not> unaggregated m"] f2
    by (auto simp: all_items_frame sum_of_def unaggregated_def obj_get_def map_of_dict_set)
  ultimately show "slots_ok d \<and> (map_of d k = map_of data k \<or> k = ''measures'' \<or> k = ''ambiguities'') \<and>
    ((\<not> grouped data \<and> JStr ''AGGREGATE'' \<notin> ivs) \<or> all_items (\<lambda>m. \<not> unaggregated m) ''measures'' d)"
    using other by blast
qed

definition ranked_by :: "(string \<times> json) list \<Rightarrow> bool" where
  "ranked_by m \<longleftrightarrow> \<not> (map_of m ''type'' = Some (JStr ''RANK'') \<and> \<not> json_true (obj_get m ''by'' JNull))"

lemma writes_only_by: "writes_only ''by'' m (if c then dict_set ''by'' v m else m)"
  by (simp add: writes_only_dict_set writes_only_refl)

lemma post_rank_ok:
  assumes "post_rank_fix data = Inr d" and "slots_ok data"
  shows "slots_ok d" and "writes_only ''modifiers'' data d"
proof -
  from assms(1) obtain ms where up: "update_items ''modifiers''
         (\<lambda>m. Inr (if obj_get m ''type'' JNull = JStr ''RANK'' \<and> \<not> json_true (obj_get m ''by'' JNull) \<and> ms \<noteq> []
                  then dict_set ''by'' (obj_get (hd ms) ''term'' (JStr [])) m else m)) data = Inr d"
    by (auto simp: post_rank_fix_def result_bind_Inr_iff)
  show frame: "writes_only ''modifiers'' data d" by (rule update_items_frame [OF up])
  have "all_items (enum_ok VALID_MOD_TYPES ''type'') ''modifiers'' d"
  proof (rule update_items_all [OF up])
    show "all_items (enum_ok VALID_MOD_TYPES ''type'') ''modifiers'' data" using assms(2) by (simp add: slots_ok_def)
  qed (use enum_ok_frame [OF writes_only_by] in auto)
  with frame assms(2) show "slots_ok d" by (simp add: slots_ok_def all_items_def writes_onlyD)
qed

lemma post_output_hint_frame: "post_output_hint_merge data = Inr d \<Longrightarrow> writes_only ''search_keywords'' data d"
  by (auto simp: post_output_hint_merge_def result_bind_Inr_iff writes_only_dict_set writes_only_refl Let_def
      split: if_splits)

lemma post_optimize_frame: "post_optimize_keywords data = Inr d \<Longrightarrow> writes_only ''search_keywords'' data d"
  by (auto simp: post_optimize_keywords_def result_bind_Inr_iff writes_only_dict_set writes_only_refl
      split: if_splits json.splits option.splits)

lemma post_build_cases:
  assumes "post_build_sql_history_search data = Inr d"
  obtains sk t where "obj_get data ''search_keywords'' (JObj []) = JObj sk"
    "d = dict_set ''search_keywords'' (JObj (dict_set ''sql_history_search'' (JStr t) sk)) data"
proof (cases "obj_get data ''search_keywords'' (JObj [])")
  case (JObj sk)
  with assms that [of sk] show thesis
    by (auto simp: post_build_sql_history_search_def result_bind_Inr_iff Let_def)
qed (use assms in \<open>auto simp: post_build_sql_history_search_def result_bind_Inr_iff Let_def\<close>)

lemma post_build_frame: "post_build_sql_history_search data = Inr d \<Longrightarrow> writes_only ''search_keywords'' data d"
  by (elim post_build_cases) (simp add: writes_only_dict_set)

lemma py_strip_idem: "py_strip (py_strip s) = py_strip s"
proof -
  let ?P = is_ascii_space
  define t where "t = dropWhile ?P s"
  define u where "u = rev (dropWhile ?P (rev t))"
  obtain v where v: "rev t = v @ dropWhile ?P (rev t)" by (metis takeWhile_dropWhile_id)
  then have t: "t = u @ rev v" unfolding u_def by (metis rev_append rev_rev_ident)
  have "dropWhile ?P u = u"
  proof (cases u)
    case (Cons c w)
    with t have "t \<noteq> []" "hd t = c" by auto
    with hd_dropWhile [of ?P s] have "\<not> ?P c" by (auto simp: t_def)
    with Cons show ?thesis by simp
  qed simp
  moreover have "dropWhile ?P (rev u) = rev u" by (simp add: u_def dropWhile_idem)
  ultimately show ?thesis by (simp add: py_strip_def py_lstrip_def t_def [symmetric] u_def [symmetric])
qed

text \<open>The keywords after the optimisation.\<close>

definition clean_keywords :: "string list \<Rightarrow> bool" where
  "clean_keywords ks \<longleftrightarrow> distinct ks \<and> (\<forall>k\<in>set ks. k \<noteq> [] \<and> py_strip k = k \<and> k \<notin> set POST_STOPWORDS)"

lemma keep_keyword_clean: "keep_keyword kw ks = Inr ks' \<Longrightarrow> clean_keywords ks \<Longrightarrow> clean_keywords ks'"
  by (auto simp: keep_keyword_def clean_keywords_def py_strip_idem Let_def split: json.splits if_splits)

lemma optimized_clean:
  assumes "post_optimize_keywords data = Inr d" and "map_of d ''search_keywords'' = Some (JObj sk)"
  shows "\<exists>ks. obj_get sk ''meta_search'' (JList []) = JList (map JStr ks) \<and> clean_keywords ks"
proof (cases "\<exists>old v. map_of data ''search_keywords'' = Some (JObj old) \<and> map_of old ''meta_search'' = Some v")
  case True
  then obtain old v kws ks where old: "map_of data ''search_keywords'' = Some (JObj old)" "map_of old ''meta_search'' = Some v"
    and loop: "fold_result keep_keyword kws [] = Inr ks"
    and d: "d = dict_set ''search_keywords'' (JObj (dict_set ''meta_search'' (JList (map JStr ks)) old)) data"
    using assms(1) by (auto simp: post_optimize_keywords_def obj_get_def result_bind_Inr_iff)
  have "clean_keywords ks"
    by (rule fold_result_invariant [OF loop]) (simp add: clean_keywords_def, rule keep_keyword_clean)
  with d assms(2) show ?thesis by (auto simp: map_of_dict_set obj_get_def)
next
  case False
  with assms(1) have "d = data"
    by (auto simp: post_optimize_keywords_def obj_get_def split: option.splits json.splits if_splits)
  with False assms(2) have "map_of sk ''meta_search'' = None" by auto
  then show ?thesis by (auto simp: obj_get_def clean_keywords_def intro!: exI [of _ "[]"])
qed

text \<open>Reading a slot that is a list.\<close>

lemma list_field_all:
  assumes "list_field f (obj_get d k (JList [])) = Inr ys" and "all_items P k d" and "y \<in> set ys"
  obtains e where "P e" "f (JObj e) = Inr y"
proof -
  from assms(1) obtain xs where xs: "obj_get d k (JList []) = JList xs" "map_result f xs = Inr ys"
    by (auto simp: list_field_def split: json.splits)
  from map_result_set [OF xs(2) assms(3)] obtain x where x: "x \<in> set xs" "f x = Inr y" by blast
  then have "map_of d k = Some (JList xs)" using xs(1) by (auto simp: obj_get_def split: option.splits)
  with assms(2) x(1) obtain e where "x = JObj e" "P e" by (auto simp: all_items_def)
  with x(2) that show thesis by blast
qed

definition known :: "string list \<Rightarrow> string \<Rightarrow> bool" where
  "known valid t \<longleftrightarrow> t \<in> set valid \<or> py_upper t \<in> set valid"

lemma enum_ok_get: "enum_ok valid k e \<Longrightarrow> str_field (obj_get e k v) = Inr t \<Longrightarrow> known valid t"
  by (auto simp: enum_ok_def obj_get_def str_field_def known_def)

lemma read_entity_kind: "read_entity_slot (JObj e) = Inr s \<Longrightarrow> str_field (obj_get e ''type'' (JStr ''DIRECT'')) = Inr (es_type s)"
  by (auto simp: read_entity_slot_def dict_field_def result_bind_Inr_iff)

lemma read_measure_kinds:
  assumes "read_measure_slot (JObj e) = Inr s"
  shows "str_field (obj_get e ''agg_function'' (JStr ''UNKNOWN'')) = Inr (ms_agg_function s)"
    and "str_field (obj_get e ''measure_type'' (JStr ''RAW'')) = Inr (ms_measure_type s)"
  using assms by (auto simp: read_measure_slot_def dict_field_def result_bind_Inr_iff)

lemma read_dimension_kinds:
  assumes "read_dimension_slot (JObj e) = Inr s"
  shows "str_field (obj_get e ''role'' (JStr ''GROUP'')) = Inr (ds_role s)"
    and "str_field (obj_get e ''granularity'' (JStr ''UNKNOWN'')) = Inr (ds_granularity s)"
  using assms by (auto simp: read_dimension_slot_def dict_field_def result_bind_Inr_iff)

lemma read_filter_kinds:
  assumes "read_filter_slot (JObj e) = Inr s"
  shows "str_field (obj_get e ''filter_type'' (JStr ''EQUALS'')) = Inr (fs_filter_type s)"
    and "str_field (obj_get e ''position'' (JStr ''PRE_AGG'')) = Inr (fs_position s)"
  using assms by (auto simp: read_filter_slot_def dict_field_def result_bind_Inr_iff)

lemma read_modifier_kind: "read_modifier_slot num (JObj e) = Inr s \<Longrightarrow> map_of e ''type'' = Some (JStr (md_type s))"
  by (auto simp: read_modifier_slot_def dict_field_def result_bind_Inr_iff required_def str_field_def
      split: option.splits json.splits)

lemma str_items_map: "map_result str_field (map JStr ts) = Inr ts"
  by (induction ts) (simp_all add: str_field_def)

lemma str_field_text: "str_field (JStr t) = Inr t"
  by (simp add: str_field_def)

lemma read_intent_eq:
  "map_of i ''primary'' = Some (JStr p) \<Longrightarrow> map_of i ''secondary'' = Some (JList (map JStr ss)) \<Longrightarrow>
   read_intent_slot (JObj i) = Inr \<lparr>is_primary = p, is_secondary = ss\<rparr>"
  by (simp add: read_intent_slot_def dict_field_def required_def list_field_def obj_get_def str_items_map str_field_text)

text \<open>The result, slot by slot.\<close>

definition normal_form :: "string \<Rightarrow> normalized_query \<Rightarrow> bool" where
  "normal_form raw q \<longleftrightarrow>
     nq_original_query q = raw \<and>
     set (is_primary (nq_intent q) # is_secondary (nq_intent q)) \<subseteq> set VALID_INTENTS \<and>
     list_all (\<lambda>e. known VALID_ENTITY_TYPES (es_type e)) (nq_entities q) \<and>
     list_all (\<lambda>m. known VALID_AGG_FUNCS (ms_agg_function m) \<and> known VALID_MEASURE_TYPES (ms_measure_type m)) (nq_measures q) \<and>
     list_all (\<lambda>d. known VALID_DIM_ROLES (ds_role d) \<and> known (VALID_TIME_GRAN @ VALID_DIM_GRAN) (ds_granularity d)) (nq_dimensions q) \<and>
     list_all (\<lambda>f. known VALID_FILTER_TYPES (fs_filter_type f) \<and> known VALID_FILTER_POS (fs_position f)) (nq_filters q) \<and>
     known VALID_TIME_TYPES (tsl_type (nq_time q)) \<and>
     list_all (\<lambda>m. known VALID_MOD_TYPES (md_type m)) (nq_modifiers q) \<and>
     known VALID_OUTPUT_FMT (oh_format (nq_output_hint q)) \<and>
     clean_keywords (sk_meta_search (nq_search_keywords q))"

lemma read_normal_form:
  assumes "read_normalized_query num (JObj d) = Inr q" and "slots_ok d" and "map_of d ''original_query'' = Some (JStr raw)"
    and "map_of d ''search_keywords'' = Some (JObj sk)"
    and "\<exists>ks. obj_get sk ''meta_search'' (JList []) = JList (map JStr ks) \<and> clean_keywords ks"
  shows "normal_form raw q"
proof -
  from assms(2) obtain i p ss t oh where
      i: "map_of d ''intent'' = Some (JObj i)" "map_of i ''primary'' = Some (JStr p)"
         "map_of i ''secondary'' = Some (JList (map JStr ss))" "set (p # ss) \<subseteq> set VALID_INTENTS"
    and t: "map_of d ''time'' = Some (JObj t)" "enum_ok VALID_TIME_TYPES ''type'' t"
    and oh: "map_of d ''output_hint'' = Some (JObj oh)" "enum_ok VALID_OUTPUT_FMT ''format'' oh"
    unfolding slots_ok_def by blast
  from assms(1) have
      orig: "str_field (obj_get d ''original_query'' (JStr [])) = Inr (nq_original_query q)"
    and int: "read_intent_slot (obj_get d ''intent'' (JObj [(''primary'', JStr ''EXTRACT'')])) = Inr (nq_intent q)"
    and es: "list_field read_entity_slot (obj_get d ''entities'' (JList [])) = Inr (nq_entities q)"
    and ms: "list_field read_measure_slot (obj_get d ''measures'' (JList [])) = Inr (nq_measures q)"
    and ds: "list_field read_dimension_slot (obj_get d ''dimensions'' (JList [])) = Inr (nq_dimensions q)"
    and fs: "list_field read_filter_slot (obj_get d ''filters'' (JList [])) = Inr (nq_filters q)"
    and ti: "read_time_slot num (obj_get d ''time'' (JObj [])) = Inr (nq_time q)"
    and mo: "list_field (read_modifier_slot num) (obj_get d ''modifiers'' (JList [])) = Inr (nq_modifiers q)"
    and ou: "read_output_hint_slot (obj_get d ''output_hint'' (JObj [])) = Inr (nq_output_hint q)"
    and sk: "read_search_keywords (obj_get d ''search_keywords'' (JObj [])) = Inr (nq_search_keywords q)"
    by (auto simp: read_normalized_query_def dict_field_def result_bind_Inr_iff)
  have "nq_original_query q = raw" using orig assms(3) by (simp add: obj_get_def str_field_def)
  moreover have "set (is_primary (nq_intent q) # is_secondary (nq_intent q)) \<subseteq> set VALID_INTENTS"
  proof -
    from int i(1) read_intent_eq [OF i(2,3)] have "nq_intent q = \<lparr>is_primary = p, is_secondary = ss\<rparr>"
      by (simp add: obj_get_def)
    with i(4) show ?thesis by simp
  qed
  moreover have "known VALID_ENTITY_TYPES (es_type e)" if "e \<in> set (nq_entities q)" for e
    using es _ that
    by (rule list_field_all [where P = "enum_ok VALID_ENTITY_TYPES ''type''"])
       (use assms(2) in \<open>auto simp: slots_ok_def intro: enum_ok_get read_entity_kind\<close>)
  moreover have "known VALID_AGG_FUNCS (ms_agg_function m) \<and> known VALID_MEASURE_TYPES (ms_measure_type m)"
    if "m \<in> set (nq_measures q)" for m
    using ms _ that
    by (rule list_field_all [where P = "\<lambda>m. enum_ok VALID_AGG_FUNCS ''agg_function'' m \<and> enum_ok VALID_MEASURE_TYPES ''measure_type'' m"])
       (use assms(2) in \<open>auto simp: slots_ok_def intro: enum_ok_get read_measure_kinds\<close>)
  moreover have "known VALID_DIM_ROLES (ds_role x) \<and> known (VALID_TIME_GRAN @ VALID_DIM_GRAN) (ds_granularity x)"
    if "x \<in> set (nq_dimensions q)" for x
    using ds _ that
    by (rule list_field_all [where P = "\<lambda>x. enum_ok VALID_DIM_ROLES ''role'' x \<and> enum_ok (VALID_TIME_GRAN @ VALID_DIM_GRAN) ''granularity'' x"])
       (use assms(2) in \<open>auto simp: slots_ok_def intro: enum_ok_get read_dimension_kinds\<close>)
  moreover have "known VALID_FILTER_TYPES (fs_filter_type f) \<and> known VALID_FILTER_POS (fs_position f)"
    if "f \<in> set (nq_filters q)" for f
    using fs _ that
    by (rule list_field_all [where P = "\<lambda>f. enum_ok VALID_FILTER_TYPES ''filter_type'' f \<and> enum_ok VALID_FILTER_POS ''position'' f"])
       (use assms(2) in \<open>auto simp: slots_ok_def intro: enum_ok_get read_filter_kinds\<close>)
  moreover have "known VALID_TIME_TYPES (tsl_type (nq_time q))"
    using ti t by (auto simp: obj_get_def read_time_slot_def dict_field_def result_bind_Inr_iff enum_ok_def
        str_field_text known_def dest!: sym [of _ "nq_time q"])
  moreover have "known VALID_MOD_TYPES (md_type m)" if "m \<in> set (nq_modifiers q)" for m
    using mo _ that
    by (rule list_field_all [where P = "enum_ok VALID_MOD_TYPES ''type''"])
       (use assms(2) in \<open>auto simp: slots_ok_def enum_ok_def known_def dest: read_modifier_kind\<close>)
  moreover have "known VALID_OUTPUT_FMT (oh_format (nq_output_hint q))"
    using ou oh by (auto simp: obj_get_def read_output_hint_slot_def dict_field_def result_bind_Inr_iff enum_ok_def
        str_field_text known_def dest!: sym [of _ "nq_output_hint q"])
  moreover have "clean_keywords (sk_meta_search (nq_search_keywords q))"
    using sk assms(4,5)
    by (auto simp: obj_get_def [of d] read_search_keywords_def dict_field_def list_field_def result_bind_Inr_iff
        str_items_map dest!: sym [of _ "nq_search_keywords q"])
  ultimately show ?thesis by (simp add: normal_form_def list_all_iff)
qed

lemma postprocess_ok:
  assumes "postprocess show_json d0 = Inr d" and "slots_ok d0"
  shows "slots_ok d" and "map_of d ''original_query'' = map_of d0 ''original_query''"
    and "\<exists>sk. map_of d ''search_keywords'' = Some (JObj sk) \<and>
           (\<exists>ks. obj_get sk ''meta_search'' (JList []) = JList (map JStr ks) \<and> clean_keywords ks)"
    and "map_of d ''intent'' = map_of d0 ''intent''"
    and "\<exists>ivs. intent_values d0 = Inr ivs \<and>
           ((\<not> grouped d \<and> JStr ''AGGREGATE'' \<notin> ivs) \<or> all_items (\<lambda>m. \<not> unaggregated m) ''measures'' d)"
proof -
  from assms(1) obtain ivs d1 d2 d3 d4 where steps: "intent_values d0 = Inr ivs"
      "post_aggregate_fix show_json ivs d0 = Inr d1" "post_rank_fix d1 = Inr d2" "post_output_hint_merge d2 = Inr d3"
      "post_optimize_keywords d3 = Inr d4" "post_build_sql_history_search d4 = Inr d"
    by (auto simp: postprocess_def result_bind_Inr_iff)
  note agg = post_aggregate_ok [OF steps(2) assms(2)]
  note rank = post_rank_ok [OF steps(3) agg(1)]
  note frames = post_output_hint_frame [OF steps(4)] post_optimize_frame [OF steps(5)] post_build_frame [OF steps(6)]
  have later: "map_of d k = map_of d2 k" if "k \<noteq> ''search_keywords''" for k
    using frames that by (simp add: writes_onlyD)
  from rank(1) later show "slots_ok d" by (subst slots_ok_cong) auto
  have other: "map_of d k = map_of d0 k"
    if "k \<notin> {''search_keywords'', ''modifiers'', ''measures'', ''ambiguities''}" for k
    using later [of k] writes_onlyD [OF rank(2), of k] agg(2) [of k] that by auto
  show "map_of d ''original_query'' = map_of d0 ''original_query''" "map_of d ''intent'' = map_of d0 ''intent''"
    by (simp_all add: other)
  have "grouped d = grouped d0" by (simp add: grouped_def other)
  moreover have "all_items P ''measures'' d = all_items P ''measures'' d1" for P
    using later [of "''measures''"] writes_onlyD [OF rank(2), of "''measures''"] by (simp add: all_items_def)
  ultimately show "\<exists>ivs. intent_values d0 = Inr ivs \<and>
      ((\<not> grouped d \<and> JStr ''AGGREGATE'' \<notin> ivs) \<or> all_items (\<lambda>m. \<not> unaggregated m) ''measures'' d)"
    using steps(1) agg(3) by auto
  from steps(6) obtain sk t where sk: "obj_get d4 ''search_keywords'' (JObj []) = JObj sk"
    "d = dict_set ''search_keywords'' (JObj (dict_set ''sql_history_search'' (JStr t) sk)) d4" by (rule post_build_cases)
  have "\<exists>ks. obj_get sk ''meta_search'' (JList []) = JList (map JStr ks) \<and> clean_keywords ks"
  proof (cases "map_of d4 ''search_keywords''")
    case None
    with sk(1) have "sk = []" by (simp add: obj_get_def)
    then show ?thesis by (auto simp: obj_get_def clean_keywords_def intro!: exI [of _ "[]"])
  next
    case (Some v)
    with sk(1) optimized_clean [OF steps(5), of sk] show ?thesis by (simp add: obj_get_def)
  qed
  with sk(2) show "\<exists>sk. map_of d ''search_keywords'' = Some (JObj sk) \<and>
      (\<exists>ks. obj_get sk ''meta_search'' (JList []) = JList (map JStr ks) \<and> clean_keywords ks)"
    by (auto simp: map_of_dict_set obj_get_def)
qed

lemma checked_reply_ok:
  assumes "checked_reply show_json raw reply = Inr d"
  shows "slots_ok d" and "map_of d ''original_query'' = Some (JStr raw)"
proof -
  from assms obtain d0 d1 where "validate_structure show_json d0 = Inr d1" and d: "d = dict_set ''original_query'' (JStr raw) d1"
    by (auto simp: checked_reply_def result_bind_Inr_iff)
  then have "slots_ok d1" by (simp add: validate_structure_ok)
  then show "slots_ok d" unfolding d by (subst slots_ok_cong [of _ d1]) (auto simp: map_of_dict_set)
  show "map_of d ''original_query'' = Some (JStr raw)" by (simp add: d map_of_dict_set)
qed

lemma run_normalization_final:
  assumes "run_normalization show_json num phase2 call1 call2 raw = Inr q"
  obtains d0 d where "slots_ok d0" "map_of d0 ''original_query'' = Some (JStr raw)"
    "postprocess show_json d0 = Inr d" "read_normalized_query num (JObj d) = Inr q"
proof -
  from assms obtain reply d0 d where "checked_reply show_json raw reply = Inr d0"
    "postprocess show_json d0 = Inr d" "read_normalized_query num (JObj d) = Inr q"
    by (auto simp: run_normalization_def result_bind_Inr_iff Let_def split: if_splits)
  with checked_reply_ok [of show_json raw reply d0] that show thesis by blast
qed

lemma run_normalization_normal:
  assumes "run_normalization show_json num phase2 call1 call2 raw = Inr q"
  shows "normal_form raw q"
  using assms
proof (rule run_normalization_final)
  fix d0 d
  assume d: "slots_ok d0" "map_of d0 ''original_query'' = Some (JStr raw)"
    "postprocess show_json d0 = Inr d" "read_normalized_query num (JObj d) = Inr q"
  from postprocess_ok [OF d(3,1)] d(2) obtain sk where "slots_ok d" "map_of d ''original_query'' = Some (JStr raw)"
    "map_of d ''search_keywords'' = Some (JObj sk)"
    "\<exists>ks. obj_get sk ''meta_search'' (JList []) = JList (map JStr ks) \<and> clean_keywords ks" by auto
  with d(4) show ?thesis by (rule read_normal_form)
qed

section \<open>Properties\<close>

lemma new_query_normal: "normal_form raw (new_normalized_query raw)"
  by (simp add: normal_form_def new_normalized_query_def extract_valid clean_keywords_def known_def
      VALID_TIME_TYPES_def VALID_OUTPUT_FMT_def)


text \<open>A reply with values in lower case and doubled keywords.\<close>

definition sample_reply_json :: json where
  "sample_reply_json = JObj
     [(''intent'', JObj [(''primary'', JStr ''aggregate''), (''secondary'', JList [JStr ''rank'', JStr ''other''])]),
      (''measures'', JList [JObj [(''term'', JStr ''balance''), (''agg_function'', JStr ''NONE'')]]),
      (''dimensions'', JList [JObj [(''term'', JStr ''branch''), (''role'', JStr ''GROUP'')]]),
      (''modifiers'', JList [JObj [(''type'', JStr ''RANK'')], JObj [(''type'', JStr ''SHUFFLE'')]]),
      (''search_keywords'', JObj [(''meta_search'', JList [JStr '' loan'', JStr ''loan'', JStr []])])]"

definition sample_normalized :: normalized_query where
  "sample_normalized = (case run_normalization (\<lambda>_. []) (\<lambda>_. None) False (\<lambda>_. Inr sample_reply_json) (\<lambda>_ _. Inl TimeoutErr) ''q''
     of Inr q \<Rightarrow> q | Inl _ \<Rightarrow> new_normalized_query [])"

lemma sample_normalization_runs:
  "run_normalization (\<lambda>_. []) (\<lambda>_. None) False (\<lambda>_. Inr sample_reply_json) (\<lambda>_ _. Inl TimeoutErr) ''q'' = Inr sample_normalized \<and>
   is_primary (nq_intent sample_normalized) = ''AGGREGATE'' \<and> is_secondary (nq_intent sample_normalized) = [''RANK''] \<and>
   map ms_agg_function (nq_measures sample_normalized) = [''SUM''] \<and>
   map md_by (nq_modifiers sample_normalized) = [Some ''balance''] \<and>
   sk_meta_search (nq_search_keywords sample_normalized) = [''loan'']"
  by code_simp

lemma sample_node_runs:
  "(case query_normalizer_node (\<lambda>_. Inl TimeoutErr)
       (run_normalization (\<lambda>_. []) (\<lambda>_. None) False (\<lambda>_. Inr sample_reply_json) (\<lambda>_ _. Inl TimeoutErr)) []
       (new_pipeline_state\<lparr>preprocessed_input := ''q''\<rparr>) of
      Inr s' \<Rightarrow> preprocessed_input s' = ''q'' \<and> normalized_query s' = Some sample_normalized
    | Inl _ \<Rightarrow> False)"
  by code_simp


text \<open>
  A grouped query aggregates.  In every query the service returns, if a dimension groups the
  rows or one of the intents is an aggregation, no measure is left without an aggregate function.
\<close>
theorem grouped_measures_aggregated:
  assumes "run_normalization show_json num phase2 call1 call2 raw = Inr q"
    and "''GROUP'' \<in> ds_role ` set (nq_dimensions q) \<or>
         ''AGGREGATE'' \<in> set (is_primary (nq_intent q) # is_secondary (nq_intent q))"
  shows "''NONE'' \<notin> ms_agg_function ` set (nq_measures q)"
  using assms(1)
proof (rule run_normalization_final)
  fix d0 d
  assume d: "slots_ok d0" "map_of d0 ''original_query'' = Some (JStr raw)"
    "postprocess show_json d0 = Inr d" "read_normalized_query num (JObj d) = Inr q"
  note ok = postprocess_ok [OF d(3,1)]
  from ok(1) obtain i p ss where i: "map_of d ''intent'' = Some (JObj i)" "map_of i ''primary'' = Some (JStr p)"
    "map_of i ''secondary'' = Some (JList (map JStr ss))" unfolding slots_ok_def by blast
  from d(4) have ds: "list_field read_dimension_slot (obj_get d ''dimensions'' (JList [])) = Inr (nq_dimensions q)"
    and ms: "list_field read_measure_slot (obj_get d ''measures'' (JList [])) = Inr (nq_measures q)"
    and int: "read_intent_slot (obj_get d ''intent'' (JObj [(''primary'', JStr ''EXTRACT'')])) = Inr (nq_intent q)"
    by (auto simp: read_normalized_query_def dict_field_def result_bind_Inr_iff)
  from int i(1) read_intent_eq [OF i(2,3)] have nq: "nq_intent q = \<lparr>is_primary = p, is_secondary = ss\<rparr>"
    by (simp add: obj_get_def)
  from ok(5) obtain ivs where ivs: "intent_values d0 = Inr ivs"
    "(\<not> grouped d \<and> JStr ''AGGREGATE'' \<notin> ivs) \<or> all_items (\<lambda>m. \<not> unaggregated m) ''measures'' d" by blast
  from ivs(1) i ok(4) have "ivs = insert (JStr p) (JStr ` set ss)"
    by (auto simp: intent_values_def obj_get_def as_object_def result_bind_Inr_iff)
  then have intents: "JStr ''AGGREGATE'' \<in> ivs \<longleftrightarrow> ''AGGREGATE'' \<in> set (is_primary (nq_intent q) # is_secondary (nq_intent q))"
    by (auto simp: nq)
  have dims: "grouped d" if group: "''GROUP'' \<in> ds_role ` set (nq_dimensions q)"
  proof -
    from group obtain x where that: "x \<in> set (nq_dimensions q)" "ds_role x = ''GROUP''" by auto
    from ds obtain xs where xs: "obj_get d ''dimensions'' (JList []) = JList xs" "map_result read_dimension_slot xs = Inr (nq_dimensions q)"
      by (auto simp: list_field_def split: json.splits)
    from map_result_set [OF xs(2) that(1)] obtain v where v: "v \<in> set xs" "read_dimension_slot v = Inr x" by blast
    then obtain e where e: "v = JObj e" by (auto simp: read_dimension_slot_def dict_field_def split: json.splits)
    from v xs(1) have xs': "map_of d ''dimensions'' = Some (JList xs)" by (auto simp: obj_get_def split: option.splits)
    with ok(1) v(1) e have "enum_ok VALID_DIM_ROLES ''role'' e" by (fastforce simp: slots_ok_def all_items_def)
    with read_dimension_kinds(1) [of e x] v(2) e that(2) have "map_of e ''role'' = Some (JStr ''GROUP'')"
      by (auto simp: enum_ok_def obj_get_def str_field_text)
    with xs' v(1) e show ?thesis by (auto simp: grouped_def)
  qed
  from ivs(2) assms(2) intents dims have agg: "all_items (\<lambda>m. \<not> unaggregated m) ''measures'' d" by blast
  have "ms_agg_function m \<noteq> ''NONE''" if "m \<in> set (nq_measures q)" for m
  proof -
    from ms agg that obtain e where e: "\<not> unaggregated e" "read_measure_slot (JObj e) = Inr m" by (rule list_field_all)
    from read_measure_kinds(1) [OF e(2)] e(1) show ?thesis
      by (auto simp: unaggregated_def obj_get_def str_field_def split: option.splits json.splits)
  qed
  then show ?thesis unfolding image_iff by metis
qed

theorem grouped_measures_aggregated_witness:
  "''NONE'' \<notin> ms_agg_function ` set (nq_measures sample_normalized)"
  using grouped_measures_aggregated [OF conjunct1 [OF sample_normalization_runs]] sample_normalization_runs by simp

text \<open>
  Values in lower case are reported as corrected and stay as they are.  Except for the
  intents, a value that is admissible only in upper case is accepted by the check, which logs
  the corrected spelling and writes nothing back: the slot keeps the lower case, which the
  comparisons of the later stages do not recognise.
\<close>
theorem lower_case_value_not_corrected:
  assumes "map_of e k = Some (JStr t)" and "t \<notin> set valid" and "py_upper t \<in> set valid" and "t \<noteq> []"
  shows "validate_enum valid (JStr t) = Inr (Some (py_upper t)) \<and> fix_enum valid k fallback e = Inr e"
  using assms by (simp add: fix_enum_def validate_enum_def obj_get_def)

theorem lower_case_value_not_corrected_witness:
  "fix_enum VALID_DIM_ROLES ''role'' ''DISPLAY'' [(''role'', JStr ''group'')] = Inr [(''role'', JStr ''group'')]"
proof -
  have "''group'' \<notin> set VALID_DIM_ROLES" "py_upper ''group'' \<in> set VALID_DIM_ROLES" by code_simp+
  with lower_case_value_not_corrected [of "[(''role'', JStr ''group'')]" "''role''" "''group''" VALID_DIM_ROLES "''DISPLAY''"]
  show ?thesis by simp
qed

text \<open>
  Expected columns can be lost.  The columns the user expects are merged into the search
  keywords; when the model left the keywords out they are merged into a dictionary that is not
  part of the result, and no keyword search will look for them.
\<close>
theorem expected_columns_lost:
  assumes "post_output_hint_merge data = Inr d" and "map_of data ''search_keywords'' = None"
  shows "d = data"
  using assms by (auto simp: post_output_hint_merge_def result_bind_Inr_iff Let_def split: if_splits)

theorem expected_columns_lost_witness:
  "post_output_hint_merge [(''output_hint'', JObj [(''expected_columns'', JList [JStr ''BALANCE''])])] =
     Inr [(''output_hint'', JObj [(''expected_columns'', JList [JStr ''BALANCE''])])]"
proof -
  let ?d = "[(''output_hint'', JObj [(''expected_columns'', JList [JStr ''BALANCE''])])]"
  obtain d where d: "post_output_hint_merge ?d = Inr d"
    by (auto simp: post_output_hint_merge_def merge_columns_def as_object_def obj_get_def result_bind_Inr_iff Let_def)
  with expected_columns_lost [OF this] show ?thesis by simp
qed

end
