(* ===== verification/SqlFormatter.thy ===== *)
theory SqlFormatter imports Prelude begin

text \<open>
  The pretty printer of SQL, \<open>src/src/utils/sql_formatter.py\<close>, which lays out the SQL that the
  traces, the answers and the stored turns show.  The syntax tree comes from the parser
  \<open>sqlparse\<close>: \<open>sql_node\<close> has its tokens and groups as far as the code tells them apart, a group's
  value is the text of its tokens, and \<open>sql_lib\<close> has the two functions of the library the code
  calls.  The state of one run is \<open>render_ctx\<close>; the rendering functions are state transformers.
  The formatter calls itself on the text of a complex subquery; \<open>format_sql\<close> counts these calls,
  and at the end of the count the text is returned as it is, as it is at Python's recursion limit.
\<close>

section \<open>Constants\<close>

definition INDENT_UNIT :: int where "INDENT_UNIT = 8"
definition BLOCK_INDENT :: int where "BLOCK_INDENT = 6"
definition PAD_WIDTH :: nat where "PAD_WIDTH = 7"
definition MAX_DEPTH :: nat where "MAX_DEPTH = 30"

definition CLAUSE_KEYWORDS :: "string list" where
  "CLAUSE_KEYWORDS = [''SELECT'', ''FROM'', ''WHERE'', ''GROUP BY'', ''HAVING'', ''ORDER BY'', ''OFFSET'',
     ''INSERT INTO'', ''VALUES'', ''UPDATE'', ''SET'', ''DELETE FROM'', ''RETURNING'', ''WITH'', ''LIMIT'',
     ''CONNECT BY'', ''START WITH'', ''QUALIFY'', ''DECLARE'', ''IF'']"

definition JOIN_KEYWORDS :: "string list" where
  "JOIN_KEYWORDS = [''JOIN'', ''INNER JOIN'', ''LEFT JOIN'', ''RIGHT JOIN'', ''FULL JOIN'', ''CROSS JOIN'',
     ''LEFT OUTER JOIN'', ''RIGHT OUTER JOIN'', ''FULL OUTER JOIN'', ''NATURAL JOIN'', ''LEFT INNER JOIN'']"

definition SET_OP_KEYWORDS :: "string list" where
  "SET_OP_KEYWORDS = [''UNION'', ''UNION ALL'', ''UNION DISTINCT'', ''EXCEPT'', ''EXCEPT ALL'', ''INTERSECT'',
     ''INTERSECT ALL'', ''MINUS'']"

definition LOGICAL_KEYWORDS :: "string list" where
  "LOGICAL_KEYWORDS = [''AND'', ''OR'']"

definition CASE_INNER :: "string list" where
  "CASE_INNER = [''WHEN'', ''THEN'', ''ELSE'']"

datatype keyword_kind =
  K_CLAUSE | K_JOIN | K_SET_OP | K_LOGICAL | K_CASE_START | K_CASE_INNER | K_CASE_END |
  K_BLOCK_START | K_BLOCK_END | K_ON | K_OTHER

section \<open>Keywords\<close>

definition blanks :: "int \<Rightarrow> string" where
  "blanks n = replicate (nat n) (CHR '' '')"

definition rjust :: "nat \<Rightarrow> string \<Rightarrow> string" where
  "rjust w s = blanks (int w - int (py_len s)) @ s"

definition pad_keyword :: "string \<Rightarrow> string" where
  "pad_keyword token_text =
     (case split_once '' '' token_text of
        Some (first, tail) \<Rightarrow> rjust PAD_WIDTH first @ '' '' @ tail
      | None \<Rightarrow> rjust PAD_WIDTH token_text)"

definition classify_keyword :: "string \<Rightarrow> keyword_kind" where
  "classify_keyword s =
     (if s \<in> set CLAUSE_KEYWORDS then K_CLAUSE
      else if s \<in> set JOIN_KEYWORDS then K_JOIN
      else if s \<in> set SET_OP_KEYWORDS then K_SET_OP
      else if s \<in> set LOGICAL_KEYWORDS then K_LOGICAL
      else if s = ''BEGIN'' then K_BLOCK_START
      else if s = ''CASE'' then K_CASE_START
      else if s \<in> set CASE_INNER then K_CASE_INNER
      else if s = ''END'' then K_CASE_END
      else if s = ''ON'' then K_ON
      else K_OTHER)"

definition normalize_keyword :: "string \<Rightarrow> string" where
  "normalize_keyword v = py_join '' '' (py_words (py_upper v))"

section \<open>The syntax tree\<close>

text \<open>
  \<open>T_Keyword\<close> stands for the keyword types other than \<open>DML\<close> and \<open>CTE\<close>, \<open>T_Comment\<close> for the comment
  types, \<open>T_Whitespace\<close> for blanks and line ends, \<open>T_Other\<close> for all remaining types;
  \<open>Other_node\<close> for the groups the code does not name, such as \<open>Where\<close>.
\<close>

datatype token_type = T_Whitespace | T_Keyword | T_DML | T_CTE | T_Punctuation | T_Comment | T_Other

datatype group_class =
  Case_node | Parenthesis | Identifier_list | Identifier | Comparison | Function_node | Comment_node | Other_node

datatype sql_node = Leaf token_type string | Group group_class "sql_node list"

fun flatten :: "sql_node \<Rightarrow> (token_type \<times> string) list" where
  "flatten (Leaf ty v) = [(ty, v)]"
| "flatten (Group k ts) = concat (map flatten ts)"

definition node_value :: "sql_node \<Rightarrow> string" where
  "node_value t = concat (map snd (flatten t))"

definition nodes_text :: "sql_node list \<Rightarrow> string" where
  "nodes_text ts = concat (map node_value ts)"

text \<open>\<open>sqlparse.parse\<close> gives the statements, \<open>get_identifiers\<close> the entries of a list of identifiers.\<close>

record sql_lib =
  lib_parse :: "string \<Rightarrow> sql_node list list result"
  lib_identifiers :: "sql_node list \<Rightarrow> sql_node list"

definition keyword_type :: "token_type \<Rightarrow> bool" where
  "keyword_type ty \<longleftrightarrow> ty \<in> {T_Keyword, T_DML, T_CTE}"

fun is_keyword :: "sql_node \<Rightarrow> bool" where
  "is_keyword (Leaf ty v) = keyword_type ty"
| "is_keyword (Group k ts) = False"

fun is_blank :: "sql_node \<Rightarrow> bool" where
  "is_blank (Leaf ty v) = (ty = T_Whitespace)"
| "is_blank (Group k ts) = False"

fun is_comment :: "sql_node \<Rightarrow> bool" where
  "is_comment (Leaf ty v) = (ty = T_Comment)"
| "is_comment (Group k ts) = (k = Comment_node)"

definition bracket_token :: "sql_node \<Rightarrow> bool" where
  "bracket_token t \<longleftrightarrow> t \<in> {Leaf T_Punctuation ''('', Leaf T_Punctuation '')''}"

text \<open>The search for a \<open>SELECT\<close> below a parenthesis goes \<open>max_depth\<close> levels down.\<close>

fun has_select :: "nat \<Rightarrow> sql_node list \<Rightarrow> bool" where
  "has_select 0 ts = False"
| "has_select (Suc d) ts =
     list_ex (\<lambda>t. case t of
        Leaf ty v \<Rightarrow> ty \<in> {T_DML, T_CTE} \<and> normalize_keyword v \<in> {''SELECT'', ''WITH''}
      | Group k us \<Rightarrow> has_select d us) ts"

definition parenthesis_has_select :: "sql_node list \<Rightarrow> bool" where
  "parenthesis_has_select ts = has_select 5 ts"

fun subquery_node :: "sql_node \<Rightarrow> bool" where
  "subquery_node (Group Parenthesis ts) = parenthesis_has_select ts"
| "subquery_node t = False"

text \<open>The positions, counted from \<open>i\<close>, of the \<open>AND\<close> that belongs to a \<open>BETWEEN\<close>.\<close>

fun find_between_and :: "bool \<Rightarrow> nat \<Rightarrow> sql_node list \<Rightarrow> nat list" where
  "find_between_and waiting i [] = []"
| "find_between_and waiting i (t # ts) =
     (if \<not> is_keyword t then find_between_and waiting (Suc i) ts
      else let s = normalize_keyword (node_value t)
           in if s = ''BETWEEN'' then find_between_and True (Suc i) ts
              else if waiting \<and> s = ''AND'' then i # find_between_and False (Suc i) ts
              else find_between_and (waiting \<and> classify_keyword s \<notin> {K_CLAUSE, K_JOIN, K_SET_OP}) (Suc i) ts)"

section \<open>The state of a rendering\<close>

record indent_stack =
  top_level :: int
  block_level :: int

definition indent_str :: "indent_stack \<Rightarrow> string" where
  "indent_str st = blanks (INDENT_UNIT * max 0 (top_level st) + BLOCK_INDENT * max 0 (block_level st))"

definition increase_top :: "indent_stack \<Rightarrow> indent_stack" where
  "increase_top st = st\<lparr>top_level := top_level st + 1\<rparr>"

definition decrease_top :: "indent_stack \<Rightarrow> indent_stack" where
  "decrease_top st = st\<lparr>top_level := max 0 (top_level st - 1)\<rparr>"

definition increase_block :: "indent_stack \<Rightarrow> indent_stack" where
  "increase_block st = st\<lparr>block_level := block_level st + 1\<rparr>"

definition decrease_block :: "indent_stack \<Rightarrow> indent_stack" where
  "decrease_block st = st\<lparr>block_level := max 0 (block_level st - 1)\<rparr>"

record render_ctx =
  rc_parts :: "string list"
  rc_stack :: indent_stack
  rc_uppercase :: bool
  rc_after_space :: bool
  rc_after_comma_newline :: bool
  rc_depth :: nat
  rc_block_origins :: "string list"
  rc_current_clause :: string

definition new_render_ctx :: "bool \<Rightarrow> render_ctx" where
  "new_render_ctx uppercase =
     \<lparr>rc_parts = [], rc_stack = \<lparr>top_level = 0, block_level = 0\<rparr>, rc_uppercase = uppercase,
      rc_after_space = False, rc_after_comma_newline = False, rc_depth = 0, rc_block_origins = [],
      rc_current_clause = []\<rparr>"

definition emit :: "string \<Rightarrow> render_ctx \<Rightarrow> render_ctx" where
  "emit s ctx = ctx\<lparr>rc_parts := rc_parts ctx @ [s], rc_after_space := False\<rparr>"

definition emit_space :: "render_ctx \<Rightarrow> render_ctx" where
  "emit_space ctx = ctx\<lparr>rc_after_space := True\<rparr>"

definition flush_space :: "render_ctx \<Rightarrow> render_ctx" where
  "flush_space ctx =
     (if rc_after_space ctx then ctx\<lparr>rc_parts := rc_parts ctx @ ['' ''], rc_after_space := False\<rparr> else ctx)"

definition has_content :: "render_ctx \<Rightarrow> bool" where
  "has_content ctx \<longleftrightarrow> rc_parts ctx \<noteq> []"

definition line_end :: string where
  "line_end = [CHR 0x0A]"

text \<open>The text written so far and the recurring steps: a word between blanks, a line start.\<close>

definition out :: "render_ctx \<Rightarrow> string" where
  "out ctx = concat (rc_parts ctx)"

definition emit_word :: "string \<Rightarrow> render_ctx \<Rightarrow> render_ctx" where
  "emit_word s ctx = emit_space (emit s (flush_space ctx))"

definition no_pending :: "render_ctx \<Rightarrow> render_ctx" where
  "no_pending ctx = ctx\<lparr>rc_after_space := False, rc_after_comma_newline := False\<rparr>"

definition newline_if_content :: "render_ctx \<Rightarrow> string" where
  "newline_if_content ctx = (if has_content ctx then line_end else [])"

definition flush_comma_newline :: "render_ctx \<Rightarrow> render_ctx" where
  "flush_comma_newline ctx =
     (if rc_after_comma_newline ctx
      then (emit (line_end @ indent_str (rc_stack ctx)) ctx)\<lparr>rc_after_comma_newline := False\<rparr>
      else ctx)"

section \<open>Keywords and punctuation\<close>

definition on_stack :: "(indent_stack \<Rightarrow> indent_stack) \<Rightarrow> render_ctx \<Rightarrow> render_ctx" where
  "on_stack f ctx = ctx\<lparr>rc_stack := f (rc_stack ctx)\<rparr>"

definition emit_clause :: "string \<Rightarrow> render_ctx \<Rightarrow> render_ctx" where
  "emit_clause keyword ctx0 =
     (let ctx = no_pending ctx0;
          ctx = (if 0 < top_level (rc_stack ctx) then on_stack decrease_top ctx else ctx);
          ctx = emit (newline_if_content ctx @ indent_str (rc_stack ctx) @ pad_keyword keyword @ '' '') ctx
      in on_stack increase_top (ctx\<lparr>rc_current_clause := py_upper keyword\<rparr>))"

definition emit_join_like :: "string \<Rightarrow> render_ctx \<Rightarrow> render_ctx" where
  "emit_join_like keyword ctx0 =
     (let ctx = on_stack decrease_top (no_pending ctx0)
      in on_stack increase_top
           (emit (newline_if_content ctx @ indent_str (rc_stack ctx) @ pad_keyword keyword @ '' '') ctx))"

definition emit_set_op :: "string \<Rightarrow> render_ctx \<Rightarrow> render_ctx" where
  "emit_set_op keyword ctx0 =
     (let ctx = on_stack (\<lambda>st. st\<lparr>top_level := 0, block_level := 0\<rparr>) (no_pending ctx0)
      in emit (newline_if_content ctx @ pad_keyword keyword) ctx)"

definition emit_block_start :: "string \<Rightarrow> render_ctx \<Rightarrow> render_ctx" where
  "emit_block_start kw_text ctx0 =
     (let ctx = on_stack decrease_top (no_pending ctx0);
          ctx = emit (newline_if_content ctx @ indent_str (rc_stack ctx) @ pad_keyword kw_text) ctx;
          ctx = on_stack (\<lambda>st. increase_block (st\<lparr>top_level := 0\<rparr>)) ctx
      in ctx\<lparr>rc_after_comma_newline := True\<rparr>)"

definition emit_block_end :: "string \<Rightarrow> render_ctx \<Rightarrow> render_ctx" where
  "emit_block_end kw_text ctx0 =
     (let ctx = on_stack decrease_top (no_pending (on_stack decrease_block ctx0));
          ctx = emit (line_end @ indent_str (rc_stack ctx) @ pad_keyword kw_text) ctx
      in emit_space (on_stack (\<lambda>st. st\<lparr>top_level := 0\<rparr>) ctx))"

definition dispatch_keyword :: "keyword_kind \<Rightarrow> string \<Rightarrow> render_ctx \<Rightarrow> render_ctx" where
  "dispatch_keyword kind kw_text ctx =
     (case kind of
        K_CLAUSE \<Rightarrow> emit_clause kw_text ctx
      | K_JOIN \<Rightarrow> emit_join_like kw_text ctx
      | K_LOGICAL \<Rightarrow> emit_join_like kw_text ctx
      | K_SET_OP \<Rightarrow> emit_set_op kw_text ctx
      | K_ON \<Rightarrow> emit_join_like kw_text ctx
      | K_BLOCK_START \<Rightarrow> emit_block_start kw_text ctx
      | K_BLOCK_END \<Rightarrow> emit_block_end kw_text ctx
      | _ \<Rightarrow> emit_word kw_text (flush_comma_newline ctx))"

fun is_separator :: "sql_node \<Rightarrow> bool" where
  "is_separator (Leaf ty v) = (ty = T_Punctuation \<and> v \<in> {'','', '';''})"
| "is_separator (Group k ts) = False"

definition handle_punctuation :: "string \<Rightarrow> render_ctx \<Rightarrow> render_ctx" where
  "handle_punctuation v ctx =
     (if v = '','' then (emit '','' (ctx\<lparr>rc_after_space := False\<rparr>))\<lparr>rc_after_comma_newline := True\<rparr>
      else (emit '';'' (on_stack (\<lambda>st. st\<lparr>top_level := 0\<rparr>) (ctx\<lparr>rc_after_space := False\<rparr>)))\<lparr>rc_after_comma_newline := True\<rparr>)"

text \<open>Two-word keywords: \<open>ts\<close> are the tokens behind the current one.\<close>

fun peek_next_keyword :: "sql_node list \<Rightarrow> string" where
  "peek_next_keyword [] = []"
| "peek_next_keyword (t # ts) =
     (if is_blank t then peek_next_keyword ts
      else if is_keyword t then normalize_keyword (node_value t) else [])"

fun tokens_up_to :: "string \<Rightarrow> sql_node list \<Rightarrow> nat" where
  "tokens_up_to kw [] = 0"
| "tokens_up_to kw (t # ts) =
     (if is_keyword t \<and> normalize_keyword (node_value t) = kw then 1 else Suc (tokens_up_to kw ts))"

definition in_case :: "bool \<Rightarrow> string \<Rightarrow> string" where
  "in_case uppercase s = (if uppercase then s else py_lower s)"

definition resolve_dml_compound :: "string \<Rightarrow> sql_node list \<Rightarrow> bool \<Rightarrow> string \<times> string \<times> nat" where
  "resolve_dml_compound s ts uppercase =
     (let next_kw = peek_next_keyword ts; compound = s @ '' '' @ next_kw
      in if s \<in> {''INSERT'', ''DELETE'', ''START'', ''CONNECT''} \<and> compound \<in> set CLAUSE_KEYWORDS
         then (compound, in_case uppercase compound, tokens_up_to next_kw ts)
         else (s, in_case uppercase s, 0))"

text \<open>Which \<open>BEGIN\<close> or \<open>CASE\<close> an \<open>END\<close> closes is read off the stack of open ones.\<close>

definition track_block :: "keyword_kind \<Rightarrow> render_ctx \<Rightarrow> keyword_kind \<times> render_ctx" where
  "track_block kind ctx =
     (let open_blocks = rc_block_origins ctx in
      case kind of
        K_BLOCK_START \<Rightarrow> (kind, ctx\<lparr>rc_block_origins := open_blocks @ [''BEGIN'']\<rparr>)
      | K_CASE_START \<Rightarrow> (kind, ctx\<lparr>rc_block_origins := open_blocks @ [''CASE'']\<rparr>)
      | K_CASE_END \<Rightarrow>
          if open_blocks = [] then (kind, ctx)
          else (if last open_blocks = ''BEGIN'' then K_BLOCK_END else kind, ctx\<lparr>rc_block_origins := butlast open_blocks\<rparr>)
      | _ \<Rightarrow> (kind, ctx))"

definition handle_keyword :: "string \<Rightarrow> nat \<Rightarrow> sql_node list \<Rightarrow> nat list \<Rightarrow> render_ctx \<Rightarrow> nat \<times> render_ctx" where
  "handle_keyword v idx ts between_and_set ctx0 =
     (case resolve_dml_compound (normalize_keyword v) ts (rc_uppercase ctx0) of (s, kw_text, extra) \<Rightarrow>
      let kind0 = classify_keyword s;
          kind1 = (if kind0 = K_LOGICAL \<and> idx \<in> set between_and_set then K_OTHER else kind0)
      in case track_block kind1 ctx0 of (kind, ctx1) \<Rightarrow>
         let ctx = (if kind \<notin> {K_OTHER, K_CASE_START, K_CASE_INNER, K_CASE_END}
                    then ctx1\<lparr>rc_after_comma_newline := False\<rparr> else ctx1)
         in (extra, dispatch_keyword kind kw_text ctx))"

definition render_comment :: "string \<Rightarrow> render_ctx \<Rightarrow> render_ctx" where
  "render_comment v ctx =
     (let comment_text = rev (dropWhile (\<lambda>c. c = CHR 0x0D \<or> c = CHR 0x0A) (rev v))
      in if rc_after_comma_newline ctx then emit ('' '' @ comment_text) ctx
         else emit_word comment_text ctx)"

section \<open>Identifiers, lists and comparisons\<close>

text \<open>\<open>collapse_ws\<close> replaces every run of white space by a blank.\<close>

fun collapse_ws :: "bool \<Rightarrow> string \<Rightarrow> string" where
  "collapse_ws in_run [] = []"
| "collapse_ws in_run (c # cs) =
     (if is_ascii_space c then (if in_run then [] else '' '') @ collapse_ws True cs
      else c # collapse_ws False cs)"

definition cased_text :: "sql_node list \<Rightarrow> string" where
  "cased_text ts = concat (map (\<lambda>(ty, v). if keyword_type ty then py_upper v else v) (concat (map flatten ts)))"

definition render_identifier_value :: "sql_node list \<Rightarrow> bool \<Rightarrow> string" where
  "render_identifier_value ts uppercase =
     (if \<not> uppercase then py_join '' '' (py_words (nodes_text ts))
      else py_strip (collapse_ws False (cased_text ts)))"

fun is_case :: "sql_node \<Rightarrow> bool" where
  "is_case (Group Case_node ts) = True"
| "is_case t = False"

definition identifier_needs_recursion :: "sql_node list \<Rightarrow> bool" where
  "identifier_needs_recursion ts = list_ex (\<lambda>t. is_case t \<or> subquery_node t) ts"

fun has_case_node :: "sql_node \<Rightarrow> bool" where
  "has_case_node (Group k ts) = (k = Case_node \<or> list_ex is_case ts)"
| "has_case_node (Leaf ty v) = False"

definition is_simple_list :: "sql_lib \<Rightarrow> sql_node list \<Rightarrow> bool" where
  "is_simple_list lib ts =
     (\<not> list_ex has_case_node ts \<and>
      list_all (\<lambda>t. \<not> list_ex (contains (py_upper (node_value t))) [''('', ''+'', ''-'', ''*'', ''/'', ''||''])
        (lib_identifiers lib ts))"

definition render_inline_list :: "sql_lib \<Rightarrow> sql_node list \<Rightarrow> render_ctx \<Rightarrow> render_ctx" where
  "render_inline_list lib ts ctx =
     emit_word (py_join '', '' (map (\<lambda>t. render_identifier_value [t] (rc_uppercase ctx)) (lib_identifiers lib ts))) ctx"

definition current_line_length :: "render_ctx \<Rightarrow> nat" where
  "current_line_length ctx = py_len (takeWhile (\<lambda>c. c \<noteq> CHR 0x0A) (rev (out ctx)))"

definition comparison_has_subquery :: "sql_node list \<Rightarrow> bool" where
  "comparison_has_subquery ts = list_ex subquery_node ts"

definition extract_inner_sql :: "sql_node list \<Rightarrow> string" where
  "extract_inner_sql ts = py_strip (nodes_text (filter (\<lambda>t. \<not> bracket_token t) ts))"

text \<open>\<open>count s p\<close> is the number of non-overlapping occurrences, \<open>s.count(p)\<close>.\<close>

fun occurrences :: "nat \<Rightarrow> string \<Rightarrow> string \<Rightarrow> nat" where
  "occurrences skip [] p = 0"
| "occurrences (Suc n) (c # cs) p = occurrences n cs p"
| "occurrences 0 (c # cs) p =
     (if starts_with (c # cs) p then Suc (occurrences (length p - 1) cs p) else occurrences 0 cs p)"

definition is_simple_subquery :: "sql_node list \<Rightarrow> bool" where
  "is_simple_subquery paren =
     (let raw = '' '' @ py_upper (nodes_text paren) @ '' '' in
      \<not> contains raw '' JOIN '' \<and>
      \<not> list_ex (contains raw) ['' GROUP BY '', '' HAVING '', '' ORDER BY '', '' LIMIT '', '' UNION '', '' INTERSECT '',
          '' EXCEPT '', '' MINUS ''] \<and>
      int (occurrences 0 raw '' AND '') - int (occurrences 0 raw '' BETWEEN '') + int (occurrences 0 raw '' OR '') \<le> 0)"

fun comparison_left_token :: "sql_node \<Rightarrow> render_ctx \<Rightarrow> render_ctx" where
  "comparison_left_token (Leaf ty v) ctx =
     (if ty = T_Whitespace then ctx
      else emit_word (if rc_uppercase ctx \<and> keyword_type ty then py_upper v else v) ctx)"
| "comparison_left_token (Group k ts) ctx =
     (if k \<in> {Identifier, Function_node} then emit_word (render_identifier_value ts (rc_uppercase ctx)) ctx else ctx)"

definition emit_comparison_left :: "sql_node list \<Rightarrow> render_ctx \<Rightarrow> render_ctx" where
  "emit_comparison_left ts ctx = fold comparison_left_token ts ctx"

definition render_comparison_subquery :: "(bool \<Rightarrow> string \<Rightarrow> string) \<Rightarrow> sql_node list \<Rightarrow> render_ctx \<Rightarrow> render_ctx" where
  "render_comparison_subquery fmt ts ctx0 =
     (case dropWhile (\<lambda>t. \<not> subquery_node t) ts of
        Group k paren # rest \<Rightarrow>
          if is_simple_subquery paren then emit_word (render_identifier_value ts (rc_uppercase ctx0)) ctx0
          else
            let ctx = flush_space (emit_comparison_left (takeWhile (\<lambda>t. \<not> subquery_node t) ts) ctx0);
                open_col = current_line_length ctx;
                lines = split_char (CHR 0x0A) (fmt (rc_uppercase ctx) (extract_inner_sql paren));
                ctx = emit (''('' @ py_lstrip (hd lines)) ctx;
                ctx = fold (\<lambda>line. emit (line_end @ blanks (int open_col) @ line)) (tl lines) ctx
            in emit_space (emit '')'' ctx)
      | _ \<Rightarrow> ctx0)"

section \<open>Rendering the tree\<close>

definition inner_tokens :: "sql_node list \<Rightarrow> sql_node list" where
  "inner_tokens ts = filter (\<lambda>t. \<not> bracket_token t) ts"

definition open_subquery :: "render_ctx \<Rightarrow> render_ctx" where
  "open_subquery ctx0 =
     (let ctx = emit ''('' (flush_space ctx0)
      in ctx\<lparr>rc_stack := \<lparr>top_level = 0, block_level = block_level (rc_stack ctx) + 1\<rparr>, rc_depth := rc_depth ctx + 1\<rparr>)"

definition close_subquery :: "indent_stack \<Rightarrow> render_ctx \<Rightarrow> render_ctx" where
  "close_subquery saved ctx =
     emit_space (emit (line_end @ indent_str saved @ '')'')
       (ctx\<lparr>rc_depth := rc_depth ctx - 1,
            rc_stack := (rc_stack ctx)\<lparr>top_level := top_level saved, block_level := block_level saved\<rparr>\<rparr>))"

definition render_inline_parenthesis :: "sql_node list \<Rightarrow> render_ctx \<Rightarrow> render_ctx" where
  "render_inline_parenthesis ts ctx =
     emit_word (if rc_uppercase ctx then cased_text ts else nodes_text ts) ctx"

definition case_keyword :: "string \<Rightarrow> string \<Rightarrow> bool \<Rightarrow> render_ctx \<Rightarrow> render_ctx" where
  "case_keyword base_indent v first_when ctx =
     (let s = normalize_keyword v; kw_text = (if rc_uppercase ctx then py_upper v else v);
          when_indent = base_indent @ blanks 5; bare = ctx\<lparr>rc_after_space := False\<rparr>
      in if s = ''CASE'' then emit (kw_text @ '' '') (flush_space ctx)
         else if s = ''WHEN'' then
           (if first_when then emit (kw_text @ '' '') bare
            else emit (line_end @ when_indent @ kw_text @ '' '') bare)
         else if s = ''THEN'' then emit ('' '' @ kw_text @ '' '') bare
         else if s = ''ELSE'' then emit (line_end @ when_indent @ kw_text @ '' '') bare
         else if s = ''END'' then emit_space (emit (line_end @ base_indent @ kw_text) bare)
         else emit_word kw_text ctx)"

lemma size_filter_nodes: "size_list size (filter P ts) \<le> size_list size (ts :: sql_node list)"
  by (induction ts) auto

lemma size_drop_nodes: "size_list size (drop n ts) \<le> size_list size (ts :: sql_node list)"
proof (induction ts arbitrary: n)
  case (Cons t ts)
  show ?case using Cons.IH [of "n - 1"] by (cases n) auto
qed simp

definition node_weight ::
  "(sql_lib \<times> (bool \<Rightarrow> string \<Rightarrow> string) \<times> nat list \<times> nat \<times> sql_node list \<times> render_ctx) +
   (sql_lib \<times> (bool \<Rightarrow> string \<Rightarrow> string) \<times> group_class \<times> sql_node list \<times> render_ctx) +
   (sql_lib \<times> (bool \<Rightarrow> string \<Rightarrow> string) \<times> string \<times> bool \<times> sql_node list \<times> render_ctx) \<Rightarrow> nat" where
  "node_weight x = (case x of
       Inl (_, _, _, _, ts, _) \<Rightarrow> 2 * size_list size ts
     | Inr (Inl (_, _, _, ts, _)) \<Rightarrow> 2 * size_list size ts + 1
     | Inr (Inr (_, _, _, _, ts, _)) \<Rightarrow> 2 * size_list size ts)"

text \<open>
  \<open>render_tokens\<close> walks through a list of tokens, \<open>i\<close> being the position of the first one in the
  list whose \<open>AND\<close>s of \<open>BETWEEN\<close>s are \<open>bs\<close>; \<open>render_group\<close> renders a group by its class, and
  \<open>render_case\<close> the tokens of a \<open>CASE\<close>, of which the first \<open>WHEN\<close> stays on the line.
\<close>

function (sequential) render_tokens ::
    "sql_lib \<Rightarrow> (bool \<Rightarrow> string \<Rightarrow> string) \<Rightarrow> nat list \<Rightarrow> nat \<Rightarrow> sql_node list \<Rightarrow> render_ctx \<Rightarrow> render_ctx"
  and render_group ::
    "sql_lib \<Rightarrow> (bool \<Rightarrow> string \<Rightarrow> string) \<Rightarrow> group_class \<Rightarrow> sql_node list \<Rightarrow> render_ctx \<Rightarrow> render_ctx"
  and render_case ::
    "sql_lib \<Rightarrow> (bool \<Rightarrow> string \<Rightarrow> string) \<Rightarrow> string \<Rightarrow> bool \<Rightarrow> sql_node list \<Rightarrow> render_ctx \<Rightarrow> render_ctx" where
  "render_tokens lib fmt bs i [] ctx = ctx"
| "render_tokens lib fmt bs i (t # ts) ctx =
     (if is_blank t then render_tokens lib fmt bs (Suc i) ts ctx
      else if is_comment t then render_tokens lib fmt bs (Suc i) ts (render_comment (node_value t) ctx)
      else if is_separator t then render_tokens lib fmt bs (Suc i) ts (handle_punctuation (node_value t) ctx)
      else if is_keyword t then
        (case handle_keyword (node_value t) i ts bs ctx of
           (extra, ctx') \<Rightarrow> render_tokens lib fmt bs (i + 1 + extra) (drop extra ts) ctx')
      else (case t of
          Group k us \<Rightarrow> render_tokens lib fmt bs (Suc i) ts (render_group lib fmt k us (flush_comma_newline ctx))
        | Leaf ty v \<Rightarrow> render_tokens lib fmt bs (Suc i) ts (emit_word v (flush_comma_newline ctx))))"
| "render_group lib fmt k ts ctx =
     (case k of
        Case_node \<Rightarrow> render_case lib fmt (indent_str (rc_stack ctx)) True ts ctx
      | Parenthesis \<Rightarrow>
          if parenthesis_has_select ts then
            if MAX_DEPTH \<le> rc_depth ctx then emit_word (nodes_text ts) ctx
            else close_subquery (rc_stack ctx)
                   (render_tokens lib fmt (find_between_and False 0 (inner_tokens ts)) 0 (inner_tokens ts) (open_subquery ctx))
          else render_inline_parenthesis ts ctx
      | Identifier_list \<Rightarrow>
          if rc_current_clause ctx \<in> {''GROUP BY'', ''ORDER BY''} \<and> is_simple_list lib ts then render_inline_list lib ts ctx
          else render_tokens lib fmt (find_between_and False 0 ts) 0 ts ctx
      | Identifier \<Rightarrow>
          if identifier_needs_recursion ts then render_tokens lib fmt (find_between_and False 0 ts) 0 ts ctx
          else emit_word (render_identifier_value ts (rc_uppercase ctx)) ctx
      | Comparison \<Rightarrow>
          if comparison_has_subquery ts then render_comparison_subquery fmt ts ctx
          else emit_word (render_identifier_value ts (rc_uppercase ctx)) ctx
      | Function_node \<Rightarrow> emit_word (render_identifier_value ts (rc_uppercase ctx)) ctx
      | _ \<Rightarrow> render_tokens lib fmt (find_between_and False 0 ts) 0 ts ctx)"
| "render_case lib fmt base_indent first_when [] ctx = ctx"
| "render_case lib fmt base_indent first_when (t # ts) ctx =
     (if is_blank t then render_case lib fmt base_indent first_when ts ctx
      else if is_keyword t then
        render_case lib fmt base_indent (first_when \<and> normalize_keyword (node_value t) \<noteq> ''WHEN'') ts
          (case_keyword base_indent (node_value t) first_when ctx)
      else (case t of
          Leaf ty v \<Rightarrow> render_case lib fmt base_indent first_when ts (emit_word v ctx)
        | Group k us \<Rightarrow>
            if k = Comparison \<and> comparison_has_subquery us
            then render_case lib fmt base_indent first_when ts (render_comparison_subquery fmt us ctx)
            else if k \<in> {Identifier, Comparison}
            then render_case lib fmt base_indent first_when ts (emit_word (render_identifier_value us (rc_uppercase ctx)) ctx)
            else render_case lib fmt base_indent first_when ts (render_group lib fmt k us (flush_space ctx))))"
  by pat_completeness auto

termination
  apply (relation "measure node_weight")
  apply (auto simp: node_weight_def inner_tokens_def)
  subgoal for bs i t ts ctx x y using size_drop_nodes [of x ts] by simp
  subgoal for ts ctx using size_filter_nodes [of "\<lambda>t. \<not> bracket_token t" ts] by simp
  done

declare render_group.simps [simp del]

section \<open>Cleaning up\<close>

text \<open>
  Blanks before a line end are dropped, runs of blanks behind the indentation become one blank,
  and line ends at the start and at the end are dropped.
\<close>

fun drop_trailing_blanks :: "string \<Rightarrow> string" where
  "drop_trailing_blanks [] = []"
| "drop_trailing_blanks (c # cs) =
     (if c = CHR '' '' \<and> starts_with (dropWhile (\<lambda>x. x = CHR '' '') cs) line_end then drop_trailing_blanks cs
      else c # drop_trailing_blanks cs)"

fun squeeze_blanks :: "bool \<Rightarrow> string \<Rightarrow> string" where
  "squeeze_blanks in_run [] = []"
| "squeeze_blanks in_run (c # cs) =
     (if c = CHR '' '' then (if in_run then [] else '' '') @ squeeze_blanks True cs else c # squeeze_blanks False cs)"

definition clean_line :: "string \<Rightarrow> string" where
  "clean_line line =
     takeWhile (\<lambda>c. c = CHR '' '') line @ py_rstrip (squeeze_blanks False (dropWhile (\<lambda>c. c = CHR '' '') line))"

definition post_process :: "string \<Rightarrow> string" where
  "post_process sql =
     (let cleaned = py_join line_end (map clean_line (split_char (CHR 0x0A) (drop_trailing_blanks sql)))
      in rev (dropWhile (\<lambda>c. c = CHR 0x0A) (rev (dropWhile (\<lambda>c. c = CHR 0x0A) cleaned))))"

section \<open>The formatter\<close>

definition render_statement :: "sql_lib \<Rightarrow> (bool \<Rightarrow> string \<Rightarrow> string) \<Rightarrow> bool \<Rightarrow> sql_node list \<Rightarrow> string" where
  "render_statement lib fmt uppercase ts =
     post_process (out (render_tokens lib fmt (find_between_and False 0 ts) 0 ts (new_render_ctx uppercase)))"

fun format_sql :: "sql_lib \<Rightarrow> nat \<Rightarrow> bool \<Rightarrow> string \<Rightarrow> string" where
  "format_sql lib 0 uppercase sql = sql"
| "format_sql lib (Suc n) uppercase sql =
     (if py_strip sql = [] then sql
      else case lib_parse lib (py_strip sql) of
        Inl _ \<Rightarrow> sql
      | Inr stmts \<Rightarrow>
          let results = map (render_statement lib (format_sql lib n) uppercase)
                          (filter (\<lambda>ts. py_strip (nodes_text ts) \<noteq> []) stmts)
          in if results = [] then sql else py_join line_end results)"

section \<open>What a text says\<close>

text \<open>\<open>squeezed\<close> is a text without its white space and in upper case.\<close>

definition squeezed :: "string \<Rightarrow> string" where
  "squeezed s = py_upper (filter (\<lambda>c. \<not> is_ascii_space c) s)"

named_theorems squeezed_simps \<open>operations that change white space and case only\<close>

lemma upper_char_code: "of_char (upper_char c) = (let n = of_char c in if 97 \<le> n \<and> n \<le> 122 then n - 32 else (n :: nat))"
  by (auto simp: upper_char_def Let_def)

lemma lower_char_code: "of_char (lower_char c) = (let n = of_char c in if 65 \<le> n \<and> n \<le> 90 then n + 32 else (n :: nat))"
  by (auto simp: lower_char_def Let_def)

lemma space_upper [simp]: "is_ascii_space (upper_char c) \<longleftrightarrow> is_ascii_space c"
  by (auto simp: is_ascii_space_def upper_char_code Let_def)

lemma space_lower [simp]: "is_ascii_space (lower_char c) \<longleftrightarrow> is_ascii_space c"
  by (auto simp: is_ascii_space_def lower_char_code Let_def)

lemma upper_upper [simp]: "upper_char (upper_char c) = upper_char c"
  by (auto simp: upper_char_def Let_def)

lemma upper_lower [simp]: "upper_char (lower_char c) = upper_char c"
  by (auto simp: upper_char_def lower_char_def Let_def)

lemma space_blank [simp]: "is_ascii_space (CHR '' '')"
  by (simp add: is_ascii_space_def)

lemma space_newline [simp]: "is_ascii_space (CHR 0x0A)"
  by (simp add: is_ascii_space_def)

lemma squeezed_append [simp]: "squeezed (s @ t) = squeezed s @ squeezed t"
  by (simp add: squeezed_def py_upper_def)

lemma squeezed_Nil [simp]: "squeezed [] = []"
  by (simp add: squeezed_def py_upper_def)

lemma squeezed_Cons: "squeezed (c # s) = (if is_ascii_space c then [] else [upper_char c]) @ squeezed s"
  by (simp add: squeezed_def py_upper_def)

lemma squeezed_blank [simp]: "squeezed (CHR '' '' # s) = squeezed s"
  by (simp add: squeezed_Cons is_ascii_space_def)

lemma squeezed_newline [simp]: "squeezed (CHR 0x0A # s) = squeezed s"
  by (simp add: squeezed_Cons is_ascii_space_def)

lemma squeezed_upper [squeezed_simps]: "squeezed (py_upper s) = squeezed s"
  by (simp add: squeezed_def py_upper_def filter_map o_def)

lemma squeezed_lower [squeezed_simps]: "squeezed (py_lower s) = squeezed s"
  by (simp add: squeezed_def py_upper_def py_lower_def filter_map o_def)

lemma squeezed_concat: "squeezed (concat xs) = concat (map squeezed xs)"
  by (induction xs) auto

lemma squeezed_empty: "squeezed s = [] \<longleftrightarrow> (\<forall>c\<in>set s. is_ascii_space c)"
  by (auto simp: squeezed_def py_upper_def filter_empty_conv)

lemma squeezed_replicate [simp]: "is_ascii_space c \<Longrightarrow> squeezed (replicate n c) = []"
  by (simp add: squeezed_empty)

lemma squeezed_blanks [squeezed_simps]: "squeezed (blanks n) = []"
  by (simp add: blanks_def is_ascii_space_def)

lemma squeezed_line_end [squeezed_simps]: "squeezed line_end = []"
  by (simp add: line_end_def)

lemma squeezed_indent [squeezed_simps]: "squeezed (indent_str st) = []"
  by (simp add: indent_str_def squeezed_simps)

lemma squeezed_join: "squeezed sep = [] \<Longrightarrow> squeezed (py_join sep xs) = concat (map squeezed xs)"
  by (induction sep xs rule: py_join.induct) auto

lemma squeezed_split: "is_ascii_space c \<Longrightarrow> concat (map squeezed (split_char c s)) = squeezed s"
  using squeezed_join [of "[c]" "split_char c s"] by (simp add: py_join_split_char squeezed_Cons)

lemma squeezed_dropWhile: "(\<And>c. P c \<Longrightarrow> is_ascii_space c) \<Longrightarrow> squeezed (dropWhile P s) = squeezed s"
  by (induction s) (auto simp: squeezed_Cons)

lemma squeezed_takeWhile: "(\<And>c. P c \<Longrightarrow> is_ascii_space c) \<Longrightarrow> squeezed (takeWhile P s) = []"
  by (auto simp: squeezed_empty dest: set_takeWhileD)

lemma squeezed_rev: "squeezed (rev s) = rev (squeezed s)"
  by (simp add: squeezed_def py_upper_def rev_filter rev_map)

lemma squeezed_rev_dropWhile: "(\<And>c. P c \<Longrightarrow> is_ascii_space c) \<Longrightarrow> squeezed (rev (dropWhile P (rev s))) = squeezed s"
  by (simp add: squeezed_rev squeezed_dropWhile)

lemma squeezed_drop_blanks [squeezed_simps]: "squeezed (dropWhile (\<lambda>c. c = CHR '' '') s) = squeezed s"
  by (rule squeezed_dropWhile) simp

lemma squeezed_take_blanks [squeezed_simps]: "squeezed (takeWhile (\<lambda>c. c = CHR '' '') s) = []"
  by (rule squeezed_takeWhile) simp

lemma squeezed_drop_newlines [squeezed_simps]: "squeezed (dropWhile (\<lambda>c. c = CHR 0x0A) s) = squeezed s"
  by (rule squeezed_dropWhile) simp

lemma squeezed_drop_last_newlines [squeezed_simps]: "squeezed (rev (dropWhile (\<lambda>c. c = CHR 0x0A) (rev s))) = squeezed s"
  by (rule squeezed_rev_dropWhile) simp

lemma squeezed_drop_line_ends [squeezed_simps]:
  "squeezed (rev (dropWhile (\<lambda>c. c = CHR 0x0D \<or> c = CHR 0x0A) (rev s))) = squeezed s"
  by (rule squeezed_rev_dropWhile) (auto simp: is_ascii_space_def)

lemma squeezed_lstrip [squeezed_simps]: "squeezed (py_lstrip s) = squeezed s"
  by (simp add: py_lstrip_def squeezed_dropWhile)

lemma squeezed_strip [squeezed_simps]: "squeezed (py_strip s) = squeezed s"
  by (simp add: py_strip_def squeezed_rev squeezed_lstrip)

lemma squeezed_rstrip [squeezed_simps]: "squeezed (py_rstrip s) = squeezed s"
  by (simp add: py_rstrip_def squeezed_rev squeezed_lstrip)

lemma squeezed_words [squeezed_simps]: "concat (map squeezed (py_words s)) = squeezed s"
proof (induction s rule: py_words.induct)
  case (1 s)
  show ?case
  proof (cases "dropWhile is_ascii_space s")
    case Nil
    then have "squeezed s = []" by (simp add: squeezed_empty dropWhile_eq_Nil_conv)
    moreover from Nil have "py_words s = []" by (subst py_words.simps) (simp only: Nil list.case)
    ultimately show ?thesis by simp
  next
    case (Cons c cs)
    let ?p = "\<lambda>x. \<not> is_ascii_space x"
    have "squeezed s = squeezed (c # cs)" using squeezed_dropWhile [of is_ascii_space s] Cons by simp
    also have "\<dots> = squeezed (takeWhile ?p (c # cs) @ dropWhile ?p (c # cs))" by (simp only: takeWhile_dropWhile_id)
    also have "\<dots> = squeezed (takeWhile ?p (c # cs)) @ concat (map squeezed (py_words (dropWhile ?p (c # cs))))"
      by (simp only: squeezed_append 1 [OF Cons])
    finally show ?thesis by (simp add: py_words.simps [of s] Cons)
  qed
qed

lemma squeezed_normalize [squeezed_simps]: "squeezed (normalize_keyword v) = squeezed v"
  by (simp add: normalize_keyword_def squeezed_join squeezed_simps)

lemma squeezed_pad [squeezed_simps]: "squeezed (pad_keyword s) = squeezed s"
  by (auto simp: pad_keyword_def rjust_def squeezed_simps split: option.splits dest: split_once_Some)

lemma squeezed_in_case [squeezed_simps]: "squeezed (in_case u s) = squeezed s"
  by (simp add: in_case_def squeezed_simps)

lemma squeezed_collapse [squeezed_simps]: "squeezed (collapse_ws b s) = squeezed s"
  by (induction b s rule: collapse_ws.induct) (auto simp: squeezed_Cons)

lemma squeezed_squeeze [squeezed_simps]: "squeezed (squeeze_blanks b s) = squeezed s"
  by (induction b s rule: squeeze_blanks.induct) (auto simp: squeezed_Cons is_ascii_space_def)

lemma squeezed_drop_trailing [squeezed_simps]: "squeezed (drop_trailing_blanks s) = squeezed s"
  by (induction s) (auto simp: squeezed_Cons is_ascii_space_def)

lemma squeezed_clean_line [squeezed_simps]: "squeezed (clean_line s) = squeezed s"
  by (simp add: clean_line_def squeezed_simps)

lemma squeezed_post_process [squeezed_simps]: "squeezed (post_process s) = squeezed s"
proof -
  have "concat (map (squeezed \<circ> clean_line) (split_char (CHR 0x0A) (drop_trailing_blanks s))) = squeezed s"
    using squeezed_split [OF space_newline, of "drop_trailing_blanks s"] by (simp add: o_def squeezed_simps)
  then show ?thesis
    by (simp add: post_process_def Let_def squeezed_join squeezed_simps o_def)
qed

section \<open>Rendering keeps the text\<close>

text \<open>
  What the tree of a statement has to be like: the blank tokens are blank, a parenthesis is
  enclosed in its brackets, the entries of a list of identifiers are separated by commas, and
  a comparison with a subquery has it as its last operand, after identifiers, functions and
  single tokens.
\<close>

definition parenthesised :: "sql_node list \<Rightarrow> bool" where
  "parenthesised ts \<longleftrightarrow> ts = Leaf T_Punctuation ''('' # inner_tokens ts @ [Leaf T_Punctuation '')'']"

fun left_operand :: "sql_node \<Rightarrow> bool" where
  "left_operand (Leaf ty v) = True"
| "left_operand (Group k ts) = (k \<in> {Identifier, Function_node})"

definition subquery_last :: "sql_node list \<Rightarrow> bool" where
  "subquery_last ts \<longleftrightarrow> comparison_has_subquery ts \<longrightarrow>
     list_all left_operand (takeWhile (\<lambda>t. \<not> subquery_node t) ts) \<and>
     squeezed (nodes_text (tl (dropWhile (\<lambda>t. \<not> subquery_node t) ts))) = []"

definition comma_separated :: "sql_lib \<Rightarrow> sql_node list \<Rightarrow> bool" where
  "comma_separated lib ts \<longleftrightarrow>
     squeezed (py_join '','' (map node_value (lib_identifiers lib ts))) = squeezed (nodes_text ts)"

fun regular :: "sql_lib \<Rightarrow> sql_node \<Rightarrow> bool" where
  "regular lib (Leaf ty v) = (ty = T_Whitespace \<longrightarrow> squeezed v = [])"
| "regular lib (Group k ts) =
     (list_all (regular lib) ts \<and>
      (case k of Parenthesis \<Rightarrow> parenthesised ts | Comparison \<Rightarrow> subquery_last ts
         | Identifier_list \<Rightarrow> comma_separated lib ts | _ \<Rightarrow> True))"

lemma node_value_Group [simp]: "node_value (Group k ts) = nodes_text ts"
  by (induction ts) (simp_all add: node_value_def nodes_text_def)

lemma node_value_Leaf [simp]: "node_value (Leaf ty v) = v"
  by (simp add: node_value_def)

lemma nodes_text_simps [simp]:
  "nodes_text [] = []" "nodes_text (t # ts) = node_value t @ nodes_text ts"
  "nodes_text (ts @ us) = nodes_text ts @ nodes_text us"
  by (simp_all add: nodes_text_def)

lemma squeezed_cased [squeezed_simps]: "squeezed (cased_text ts) = squeezed (nodes_text ts)"
proof -
  have "squeezed (concat (map (\<lambda>(ty, v). if keyword_type ty then py_upper v else v) xs)) = squeezed (concat (map snd xs))" for xs
    by (induction xs) (auto simp: squeezed_simps)
  then show ?thesis by (induction ts) (simp_all add: cased_text_def node_value_def)
qed

lemma squeezed_identifier [squeezed_simps]: "squeezed (render_identifier_value ts u) = squeezed (nodes_text ts)"
  by (simp add: render_identifier_value_def squeezed_join squeezed_simps)

text \<open>What the steps write.\<close>

lemma out_update [simp]:
  "out (ctx\<lparr>rc_after_space := b\<rparr>) = out ctx" "out (ctx\<lparr>rc_after_comma_newline := b\<rparr>) = out ctx"
  "out (ctx\<lparr>rc_stack := st\<rparr>) = out ctx" "out (ctx\<lparr>rc_depth := d\<rparr>) = out ctx"
  "out (ctx\<lparr>rc_block_origins := xs\<rparr>) = out ctx" "out (ctx\<lparr>rc_current_clause := c\<rparr>) = out ctx"
  "out (emit_space ctx) = out ctx" "out (no_pending ctx) = out ctx" "out (on_stack f ctx) = out ctx"
  "out (emit s ctx) = out ctx @ s"
  by (simp_all add: out_def emit_space_def no_pending_def on_stack_def emit_def)

lemma squeezed_flush [squeezed_simps]: "squeezed (out (flush_space ctx)) = squeezed (out ctx)"
  by (simp add: flush_space_def out_def)

lemma squeezed_emit_word [squeezed_simps]: "squeezed (out (emit_word s ctx)) = squeezed (out ctx) @ squeezed s"
  by (simp add: emit_word_def squeezed_simps)

lemma squeezed_newline_if [squeezed_simps]: "squeezed (newline_if_content ctx) = []"
  by (simp add: newline_if_content_def squeezed_simps)

lemma squeezed_flush_comma [squeezed_simps]: "squeezed (out (flush_comma_newline ctx)) = squeezed (out ctx)"
  by (simp add: flush_comma_newline_def squeezed_simps)

lemma squeezed_dispatch [squeezed_simps]:
  "squeezed (out (dispatch_keyword kind s ctx)) = squeezed (out ctx) @ squeezed s"
  by (cases kind)
    (simp_all add: dispatch_keyword_def emit_clause_def emit_join_like_def emit_set_op_def emit_block_start_def
      emit_block_end_def Let_def squeezed_simps)

lemma out_track_block: "track_block kind ctx = (kind', ctx') \<Longrightarrow> out ctx' = out ctx"
  by (auto simp: track_block_def Let_def split: keyword_kind.splits if_splits)

lemma squeezed_comment [squeezed_simps]: "squeezed (out (render_comment v ctx)) = squeezed (out ctx) @ squeezed v"
  by (simp add: render_comment_def Let_def squeezed_simps)

lemma squeezed_punctuation:
  "is_separator t \<Longrightarrow> squeezed (out (handle_punctuation (node_value t) ctx)) = squeezed (out ctx) @ squeezed (node_value t)"
  by (cases t) (auto simp: handle_punctuation_def)

lemma squeezed_case_keyword [squeezed_simps]:
  "squeezed base = [] \<Longrightarrow> squeezed (out (case_keyword base v first ctx)) = squeezed (out ctx) @ squeezed v"
  by (simp add: case_keyword_def Let_def squeezed_simps)

lemma blank_regular: "regular lib t \<Longrightarrow> is_blank t \<Longrightarrow> squeezed (node_value t) = []"
  by (cases t) auto

lemma next_keyword_text:
  assumes "list_all (regular lib) ts" and "peek_next_keyword ts = kw" and "kw \<noteq> []"
  shows "squeezed (nodes_text ts) = squeezed kw @ squeezed (nodes_text (drop (tokens_up_to kw ts) ts))"
  using assms
proof (induction ts)
  case (Cons t ts)
  show ?case
  proof (cases "is_blank t")
    case True
    then have "\<not> is_keyword t" by (cases t) (auto simp: keyword_type_def)
    with Cons True blank_regular [of lib t] show ?thesis by simp
  next
    case False
    with Cons.prems have "is_keyword t" "normalize_keyword (node_value t) = kw" by (auto split: if_splits)
    then show ?thesis by (auto simp: squeezed_simps)
  qed
qed simp

lemma clause_keyword_end: "s @ '' '' \<notin> set CLAUSE_KEYWORDS"
proof
  assume "s @ '' '' \<in> set CLAUSE_KEYWORDS"
  moreover have "list_all (\<lambda>k. last k \<noteq> CHR '' '') CLAUSE_KEYWORDS" by code_simp
  ultimately show False by (force simp: list_all_iff)
qed

lemma compound_text:
  assumes "list_all (regular lib) ts" and "resolve_dml_compound s ts u = (s', kw_text, extra)"
  shows "squeezed kw_text @ squeezed (nodes_text (drop extra ts)) = squeezed s @ squeezed (nodes_text ts)"
proof (cases "s' = s")
  case True
  with assms(2) show ?thesis by (auto simp: resolve_dml_compound_def Let_def squeezed_simps split: if_splits)
next
  case False
  let ?kw = "peek_next_keyword ts"
  from False assms(2) have r: "s @ '' '' @ ?kw \<in> set CLAUSE_KEYWORDS" "kw_text = in_case u (s @ '' '' @ ?kw)" "extra = tokens_up_to ?kw ts"
    by (auto simp: resolve_dml_compound_def Let_def split: if_splits)
  from r(1) clause_keyword_end [of s] have "?kw \<noteq> []" by auto
  from next_keyword_text [OF assms(1) refl this] r(2,3) show ?thesis by (simp add: squeezed_simps)
qed

lemma handle_keyword_text:
  assumes "list_all (regular lib) ts" and "handle_keyword v i ts bs ctx = (extra, ctx')"
  shows "squeezed (out ctx') @ squeezed (nodes_text (drop extra ts)) = squeezed (out ctx) @ squeezed v @ squeezed (nodes_text ts)"
proof -
  obtain s kw_text n where r: "resolve_dml_compound (normalize_keyword v) ts (rc_uppercase ctx) = (s, kw_text, n)"
    by (metis prod_cases3)
  from assms(2) have "extra = n" "squeezed (out ctx') = squeezed (out ctx) @ squeezed kw_text"
    by (auto simp: handle_keyword_def r Let_def squeezed_simps split: prod.splits dest: out_track_block)
  with compound_text [OF assms(1) r] show ?thesis by (simp add: squeezed_simps)
qed

lemma comparison_left_text:
  "list_all (regular lib) ts \<Longrightarrow> list_all left_operand ts \<Longrightarrow>
   squeezed (out (emit_comparison_left ts ctx)) = squeezed (out ctx) @ squeezed (nodes_text ts)"
proof (induction ts arbitrary: ctx)
  case (Cons t ts)
  then have "squeezed (out (comparison_left_token t ctx)) = squeezed (out ctx) @ squeezed (node_value t)"
    by (cases t) (auto simp: squeezed_simps)
  with Cons show ?case by (simp add: emit_comparison_left_def)
qed (simp add: emit_comparison_left_def)

lemma emit_lines_text:
  "squeezed (out (fold (\<lambda>line. emit (line_end @ blanks n @ line)) ls ctx)) = squeezed (out ctx) @ concat (map squeezed ls)"
  by (induction ls arbitrary: ctx) (simp_all add: squeezed_simps)

lemma parenthesised_text:
  assumes "parenthesised ts"
  shows "squeezed (nodes_text ts) = ''('' @ squeezed (nodes_text (inner_tokens ts)) @ '')''"
proof -
  have "nodes_text ts = ''('' @ nodes_text (inner_tokens ts) @ '')''"
    using arg_cong [OF assms [unfolded parenthesised_def], of nodes_text] by simp
  then show ?thesis by (simp add: squeezed_Cons is_ascii_space_def upper_char_def)
qed

lemma regular_inner: "list_all (regular lib) ts \<Longrightarrow> list_all (regular lib) (inner_tokens ts)"
  by (auto simp: inner_tokens_def list_all_iff)

lemma comparison_subquery_text:
  assumes fmt: "\<forall>u s. squeezed (fmt u s) = squeezed s"
    and reg: "list_all (regular lib) ts" "subquery_last ts" "comparison_has_subquery ts"
  shows "squeezed (out (render_comparison_subquery fmt ts ctx)) = squeezed (out ctx) @ squeezed (nodes_text ts)"
proof -
  let ?left = "takeWhile (\<lambda>t. \<not> subquery_node t) ts"
  from reg(3) have "dropWhile (\<lambda>t. \<not> subquery_node t) ts \<noteq> []" by (auto simp: comparison_has_subquery_def list_ex_iff)
  then obtain t rest where d: "dropWhile (\<lambda>t. \<not> subquery_node t) ts = t # rest" by (cases "dropWhile (\<lambda>t. \<not> subquery_node t) ts") auto
  then have "subquery_node t" by (simp add: dropWhile_eq_Cons_conv)
  then obtain paren where t: "t = Group Parenthesis paren" by (cases t rule: subquery_node.cases) auto
  have ts: "ts = ?left @ t # rest" using takeWhile_dropWhile_id [of "\<lambda>t. \<not> subquery_node t" ts] by (simp add: d)
  then have "list_all (regular lib) (?left @ t # rest)" using reg(1) by simp
  then have r: "list_all (regular lib) ?left" "parenthesised paren" by (simp_all add: t)
  from reg(2,3) d have l: "list_all left_operand ?left" "squeezed (nodes_text rest) = []" by (simp_all add: subquery_last_def)
  have "nodes_text ts = nodes_text (?left @ t # rest)" using ts by simp
  then have n: "squeezed (nodes_text ts) = squeezed (nodes_text ?left) @ squeezed (nodes_text paren)" by (simp add: t l(2))
  define ls where "ls = split_char (CHR 0x0A) (fmt (rc_uppercase (flush_space (emit_comparison_left ?left ctx))) (extract_inner_sql paren))"
  have "concat (map squeezed ls) = squeezed (nodes_text (inner_tokens paren))"
    by (simp add: ls_def squeezed_split fmt extract_inner_sql_def inner_tokens_def squeezed_simps)
  moreover have "ls \<noteq> []" by (simp add: ls_def)
  ultimately have "squeezed (hd ls) @ concat (map squeezed (tl ls)) = squeezed (nodes_text (inner_tokens paren))"
    by (cases ls) auto
  then show ?thesis
    by (simp add: render_comparison_subquery_def d t Let_def ls_def [symmetric] emit_lines_text squeezed_simps n
        comparison_left_text [OF r(1) l(1)] parenthesised_text [OF r(2)] squeezed_Cons is_ascii_space_def upper_char_def)
qed

lemma inline_list_text:
  assumes "comma_separated lib ts"
  shows "squeezed (out (render_inline_list lib ts ctx)) = squeezed (out ctx) @ squeezed (nodes_text ts)"
proof -
  have "squeezed (py_join '', '' (map f us)) = squeezed (py_join '','' (map node_value us))"
    if "\<And>t. squeezed (f t) = squeezed (node_value t)" for f :: "sql_node \<Rightarrow> string" and us
    using that by (induction us rule: induct_list012) (simp_all add: squeezed_Cons)
  from this [of "\<lambda>t. render_identifier_value [t] (rc_uppercase ctx)"] assms show ?thesis
    by (simp add: render_inline_list_def comma_separated_def squeezed_simps)
qed

lemma subquery_state_text [squeezed_simps]:
  "squeezed (out (open_subquery ctx)) = squeezed (out ctx) @ squeezed ''(''"
  "squeezed (out (close_subquery st ctx)) = squeezed (out ctx) @ squeezed '')''"
  by (simp_all add: open_subquery_def close_subquery_def Let_def squeezed_simps)

lemma rendering_keeps_text:
  fixes fmt :: "bool \<Rightarrow> string \<Rightarrow> string"
  shows "\<forall>u s. squeezed (fmt u s) = squeezed s \<Longrightarrow> list_all (regular lib) ts \<Longrightarrow>
      squeezed (out (render_tokens lib fmt bs i ts ctx)) = squeezed (out ctx) @ squeezed (nodes_text ts)"
    and "\<forall>u s. squeezed (fmt u s) = squeezed s \<Longrightarrow> regular lib (Group k ts) \<Longrightarrow>
      squeezed (out (render_group lib fmt k ts ctx)) = squeezed (out ctx) @ squeezed (nodes_text ts)"
    and "\<forall>u s. squeezed (fmt u s) = squeezed s \<Longrightarrow> list_all (regular lib) ts \<Longrightarrow> squeezed base = [] \<Longrightarrow>
      squeezed (out (render_case lib fmt base first ts ctx)) = squeezed (out ctx) @ squeezed (nodes_text ts)"
proof (induction lib fmt bs i ts ctx and lib fmt k ts ctx and lib fmt base first ts ctx
    rule: render_tokens_render_group_render_case.induct)
  case (2 lib fmt bs i t ts ctx)
  then have fmt: "\<forall>u s. squeezed (fmt u s) = squeezed s"
    and reg: "regular lib t" "list_all (regular lib) ts" by simp_all
  note IH = 2(1-7)
  show ?case
  proof (cases "is_blank t")
    case True
    with IH(1) reg fmt blank_regular [OF reg(1)] show ?thesis by simp
  next
    case blank: False
    show ?thesis
    proof (cases "is_comment t")
      case True
      with IH(2) [OF blank] reg fmt blank show ?thesis by (simp add: squeezed_simps)
    next
      case comment: False
      show ?thesis
      proof (cases "is_separator t")
        case True
        with IH(3) [OF blank comment] reg fmt blank comment squeezed_punctuation [of t ctx] show ?thesis by simp
      next
        case sep: False
        show ?thesis
        proof (cases "is_keyword t")
          case True
          obtain extra ctx' where h: "handle_keyword (node_value t) i ts bs ctx = (extra, ctx')" by fastforce
          have "list_all (regular lib) (drop extra ts)" using reg(2) by (auto simp: list_all_iff dest: in_set_dropD)
          from IH(4) [OF blank comment sep True h [symmetric] fmt this] handle_keyword_text [OF reg(2) h]
          show ?thesis using blank comment sep True h by simp
        next
          case kw: False
          show ?thesis
          proof (cases t)
            case (Group k us)
            from IH(6) [OF blank comment sep kw Group] IH(7) [OF blank comment sep kw Group] reg fmt
            show ?thesis using blank comment sep kw Group by (simp add: squeezed_simps)
          next
            case (Leaf ty v)
            with IH(5) [OF blank comment sep kw Leaf] reg fmt show ?thesis using blank comment sep kw by (auto simp: squeezed_simps)
          qed
        qed
      qed
    qed
  qed
next
  case (3 lib fmt k ts ctx)
  then have fmt: "\<forall>u s. squeezed (fmt u s) = squeezed s" and reg: "list_all (regular lib) ts" by simp_all
  show ?case
  proof (cases k)
    case Case_node
    with 3 reg fmt show ?thesis by (simp add: squeezed_simps render_group.simps)
  next
    case Parenthesis
    show ?thesis
    proof (cases "parenthesis_has_select ts \<and> \<not> MAX_DEPTH \<le> rc_depth ctx")
      case True
      with 3(2) [OF Parenthesis] regular_inner [OF reg] parenthesised_text [of ts] 3(8) fmt show ?thesis
        by (simp add: render_group.simps Parenthesis squeezed_simps squeezed_Cons is_ascii_space_def upper_char_def)
    next
      case False
      with Parenthesis show ?thesis by (auto simp: render_group.simps render_inline_parenthesis_def squeezed_simps)
    qed
  next
    case Identifier_list
    with 3 reg fmt show ?thesis by (auto simp: squeezed_simps render_group.simps inline_list_text)
  next
    case Identifier
    with 3 reg fmt show ?thesis by (auto simp: squeezed_simps render_group.simps)
  next
    case Comparison
    with 3 reg fmt show ?thesis by (auto simp: squeezed_simps render_group.simps comparison_subquery_text [OF fmt, of lib])
  next
    case Function_node
    then show ?thesis by (simp add: squeezed_simps render_group.simps)
  next
    case Comment_node
    with 3 reg fmt show ?thesis by (simp add: render_group.simps)
  next
    case Other_node
    with 3 reg fmt show ?thesis by (simp add: render_group.simps)
  qed
next
  case (5 lib fmt base first t ts ctx)
  then have fmt: "\<forall>u s. squeezed (fmt u s) = squeezed s"
    and reg: "regular lib t" "list_all (regular lib) ts" and base: "squeezed base = []" by simp_all
  show ?case
  proof (cases "is_blank t")
    case True
    with 5(1) reg base fmt blank_regular [OF reg(1)] show ?thesis by simp
  next
    case blank: False
    show ?thesis
    proof (cases "is_keyword t")
      case True
      with 5(2) blank reg base fmt show ?thesis by (simp add: squeezed_simps)
    next
      case kw: False
      show ?thesis
      proof (cases t)
        case (Leaf ty v)
        with 5 blank kw reg base fmt show ?thesis by (simp add: squeezed_simps)
      next
        case (Group k us)
        note t = this
        consider "k = Comparison \<and> comparison_has_subquery us"
          | "\<not> (k = Comparison \<and> comparison_has_subquery us)" "k \<in> {Identifier, Comparison}"
          | "\<not> (k = Comparison \<and> comparison_has_subquery us)" "k \<notin> {Identifier, Comparison}" by blast
        then show ?thesis
        proof cases
          case 1
          with 5(4) [OF blank kw Group] reg base fmt blank kw Group show ?thesis
            by (simp add: comparison_subquery_text [OF fmt, of lib])
        next
          case 2
          with 5(5) [OF blank kw Group] reg base fmt blank kw Group show ?thesis by (auto simp: squeezed_simps)
        next
          case 3
          with 5(6,7) [OF blank kw Group] reg base fmt blank kw Group show ?thesis by (simp add: squeezed_simps)
        qed
      qed
    qed
  qed
qed simp_all

text \<open>
  Only the texts of the complex subqueries are handed to the formatter again, and they are
  shorter than the text around them.
\<close>

lemma length_inner: "parenthesised ts \<Longrightarrow> length (squeezed (nodes_text (inner_tokens ts))) < length (squeezed (nodes_text ts))"
  by (simp add: parenthesised_text)

lemma comparison_subquery_cong:
  assumes "\<And>u s. length (squeezed s) < m \<Longrightarrow> fmt u s = fmt' u s"
    and "length (squeezed (nodes_text ts)) \<le> m" and "list_all (regular lib) ts"
  shows "render_comparison_subquery fmt ts ctx = render_comparison_subquery fmt' ts ctx"
proof (cases "dropWhile (\<lambda>t. \<not> subquery_node t) ts")
  case (Cons t rest)
  then have "subquery_node t" by (simp add: dropWhile_eq_Cons_conv)
  then obtain paren where t: "t = Group Parenthesis paren" by (cases t rule: subquery_node.cases) auto
  have ts: "ts = takeWhile (\<lambda>t. \<not> subquery_node t) ts @ t # rest"
    using takeWhile_dropWhile_id [of "\<lambda>t. \<not> subquery_node t" ts] by (simp add: Cons)
  then have "list_all (regular lib) (takeWhile (\<lambda>t. \<not> subquery_node t) ts @ t # rest)" using assms(3) by simp
  then have paren: "parenthesised paren" by (simp add: t)
  have "length (squeezed (nodes_text (takeWhile (\<lambda>t. \<not> subquery_node t) ts @ t # rest))) \<le> m" using assms(2) ts by simp
  then have "length (squeezed (nodes_text paren)) \<le> m" by (simp add: t)
  with length_inner [OF paren] have "length (squeezed (extract_inner_sql paren)) < m"
    by (simp add: extract_inner_sql_def inner_tokens_def squeezed_simps)
  then show ?thesis by (simp add: render_comparison_subquery_def Cons t assms(1))
next
  case Nil
  then show ?thesis by (simp only: render_comparison_subquery_def list.case)
qed

lemma drop_text: "length (squeezed (nodes_text (drop n ts))) \<le> length (squeezed (nodes_text ts))"
  by (metis append_take_drop_id le_add2 length_append nodes_text_simps(3) squeezed_append)

lemma rendering_cong:
  fixes fmt :: "bool \<Rightarrow> string \<Rightarrow> string"
  shows "(\<And>u s. length (squeezed s) < m \<Longrightarrow> fmt u s = fmt' u s) \<Longrightarrow> list_all (regular lib) ts \<Longrightarrow>
      length (squeezed (nodes_text ts)) \<le> m \<Longrightarrow> render_tokens lib fmt bs i ts ctx = render_tokens lib fmt' bs i ts ctx"
    and "(\<And>u s. length (squeezed s) < m \<Longrightarrow> fmt u s = fmt' u s) \<Longrightarrow> regular lib (Group k ts) \<Longrightarrow>
      length (squeezed (nodes_text ts)) \<le> m \<Longrightarrow> render_group lib fmt k ts ctx = render_group lib fmt' k ts ctx"
    and "(\<And>u s. length (squeezed s) < m \<Longrightarrow> fmt u s = fmt' u s) \<Longrightarrow> list_all (regular lib) ts \<Longrightarrow>
      length (squeezed (nodes_text ts)) \<le> m \<Longrightarrow> render_case lib fmt base first ts ctx = render_case lib fmt' base first ts ctx"
proof (induction lib fmt bs i ts ctx and lib fmt k ts ctx and lib fmt base first ts ctx
    rule: render_tokens_render_group_render_case.induct)
  case (2 lib fmt bs i t ts ctx)
  have drop: "list_all (regular lib) (drop n ts)" "length (squeezed (nodes_text (drop n ts))) \<le> m" for n
    using 2(9,10) drop_text [of n ts] by (auto simp: list_all_iff dest: in_set_dropD)
  show ?case
  proof (cases t)
    case (Leaf ty v)
    from 2 show ?thesis by (auto simp: drop Leaf split: prod.splits)
  next
    case (Group k us)
    show ?thesis
    proof (cases "k = Comment_node")
      case True
      with 2(2,8-10) Group show ?thesis by simp
    next
      case False
      with 2(6-10) Group have
        "render_group lib fmt k us (flush_comma_newline ctx) = render_group lib fmt' k us (flush_comma_newline ctx)"
        "render_tokens lib fmt bs (Suc i) ts (render_group lib fmt k us (flush_comma_newline ctx)) =
         render_tokens lib fmt' bs (Suc i) ts (render_group lib fmt k us (flush_comma_newline ctx))" by simp_all
      with False Group show ?thesis by simp
    qed
  qed
next
  case (3 lib fmt k ts ctx)
  have reg: "list_all (regular lib) ts" using 3(8) by simp
  show ?case
  proof (cases k)
    case Parenthesis
    with 3(8,9) length_inner [of ts] have "length (squeezed (nodes_text (inner_tokens ts))) \<le> m" by auto
    with 3 Parenthesis regular_inner [OF reg] show ?thesis by (auto simp: render_group.simps)
  next
    case Comparison
    with comparison_subquery_cong [of m fmt fmt' ts lib ctx] 3(7,9) reg show ?thesis by (auto simp: render_group.simps)
  qed (use 3 reg in \<open>auto simp: render_group.simps\<close>)
next
  case (5 lib fmt base first t ts ctx)
  have "render_comparison_subquery fmt us ctx = render_comparison_subquery fmt' us ctx" if "t = Group k us" for k us
    using comparison_subquery_cong [of m fmt fmt' us lib ctx] 5(8-10) that by auto
  with 5 show ?case by (cases t) auto
qed simp_all

section \<open>Properties\<close>

definition regular_parser :: "sql_lib \<Rightarrow> bool" where
  "regular_parser lib \<longleftrightarrow> (\<forall>s stmts. lib_parse lib s = Inr stmts \<longrightarrow>
     squeezed (concat (map nodes_text stmts)) = squeezed s \<and> list_all (list_all (regular lib)) stmts)"


text \<open>A parser that knows one statement, \<open>select a from (select b from t) where a > 1\<close>, and a library around it.\<close>

definition kw_leaf :: "string \<Rightarrow> sql_node" where "kw_leaf s = Leaf (if s = ''select'' then T_DML else T_Keyword) s"
definition ws_leaf :: sql_node where "ws_leaf = Leaf T_Whitespace '' ''"
definition name_of :: "string \<Rightarrow> sql_node" where "name_of s = Group Identifier [Leaf T_Other s]"

definition sample_tree :: "sql_node list" where
  "sample_tree =
     [kw_leaf ''select'', ws_leaf, name_of ''a'', ws_leaf, kw_leaf ''from'', ws_leaf,
      Group Parenthesis [Leaf T_Punctuation ''('', kw_leaf ''select'', ws_leaf, name_of ''b'', ws_leaf, kw_leaf ''from'', ws_leaf, name_of ''t'', Leaf T_Punctuation '')''],
      ws_leaf, Group Other_node [kw_leaf ''where'', ws_leaf, Group Comparison [name_of ''a'', ws_leaf, Leaf T_Other ''>'', ws_leaf, Leaf T_Other ''1'']]]"

definition sample_sql_lib :: sql_lib where
  "sample_sql_lib =
     \<lparr>lib_parse = (\<lambda>s. if s = ''select a from (select b from t) where a > 1'' then Inr [sample_tree] else Inl ValueError),
      lib_identifiers = (\<lambda>ts. filter (\<lambda>t. \<not> is_blank t) ts)\<rparr>"

lemma regular_sample: "regular_parser sample_sql_lib"
proof -
  have "squeezed (concat (map nodes_text [sample_tree])) = squeezed ''select a from (select b from t) where a > 1''"
    by code_simp
  moreover have "list_all (regular sample_sql_lib) sample_tree" by code_simp
  ultimately show ?thesis by (simp add: regular_parser_def sample_sql_lib_def)
qed




text \<open>
  A parser that fails leaves the text as it is.
\<close>
theorem unparsable_sql_unchanged:
  assumes "lib_parse lib (py_strip sql) = Inl e"
  shows "format_sql lib n uppercase sql = sql"
  using assms by (cases n) simp_all

theorem unparsable_sql_unchanged_witness: "format_sql sample_sql_lib 3 True ''x'' = ''x''"
proof (rule unparsable_sql_unchanged)
  have "py_strip ''x'' = ''x''" by (simp add: py_strip_def py_lstrip_def is_ascii_space_def)
  then show "lib_parse sample_sql_lib (py_strip ''x'') = Inl ValueError" by (simp add: sample_sql_lib_def)
qed

text \<open>
  What stands behind a complex subquery in a comparison is not written: \<open>(SELECT ..) > 5\<close> loses
  its right-hand side in the displayed text.
\<close>
theorem right_operand_dropped:
  assumes "list_all (\<lambda>t. \<not> subquery_node t) left" and "parenthesis_has_select paren" and "\<not> is_simple_subquery paren"
  shows "render_comparison_subquery fmt (left @ Group Parenthesis paren # rest) ctx =
    render_comparison_subquery fmt (left @ [Group Parenthesis paren]) ctx"
proof -
  have d: "dropWhile (\<lambda>t. \<not> subquery_node t) (left @ Group Parenthesis paren # us) = Group Parenthesis paren # us"
    "takeWhile (\<lambda>t. \<not> subquery_node t) (left @ Group Parenthesis paren # us) = left" for us
    using assms(1,2) by (induction left) auto
  show ?thesis using assms(3) by (simp add: render_comparison_subquery_def d)
qed

theorem right_operand_dropped_witness:
  "render_comparison_subquery fmt [Group Parenthesis [kw_leaf ''select'', Leaf T_Other '' a or b ''], Leaf T_Other ''> 5''] ctx =
   render_comparison_subquery fmt [Group Parenthesis [kw_leaf ''select'', Leaf T_Other '' a or b '']] ctx"
proof -
  have "parenthesis_has_select [kw_leaf ''select'', Leaf T_Other '' a or b '']" "\<not> is_simple_subquery [kw_leaf ''select'', Leaf T_Other '' a or b '']"
    by code_simp+
  from right_operand_dropped [OF _ this, of "[]" fmt "[Leaf T_Other ''> 5'']" ctx] show ?thesis by simp
qed

text \<open>
  Blanks inside a literal are collapsed like any others: \<open>'A  B'\<close> is shown as \<open>'A B'\<close>.
\<close>
theorem literal_blanks_collapsed:
  "render_statement lib fmt u [Leaf T_Other (CHR 0x27 # ''A  B'' @ [CHR 0x27])] = CHR 0x27 # ''A B'' @ [CHR 0x27]"
  by (simp add: render_statement_def keyword_type_def emit_word_def emit_space_def emit_def flush_space_def flush_comma_newline_def
      new_render_ctx_def out_def post_process_def Let_def clean_line_def py_rstrip_def py_lstrip_def is_ascii_space_def line_end_def)

text \<open>
  A comment to the end of the line swallows what follows: its line end is removed and the next
  word is written behind it.
\<close>
theorem line_comment_swallows:
  assumes "v \<noteq> []" and "last v \<noteq> CHR 0x0D" and "last v \<noteq> CHR 0x0A"
  shows "out (render_tokens lib fmt bs i [Leaf T_Comment (v @ line_end), Leaf T_Other w] (new_render_ctx u)) = v @ '' '' @ w"
proof -
  have "dropWhile (\<lambda>c. c = CHR 0x0D \<or> c = CHR 0x0A) (rev v) = rev v"
    using assms by (cases "rev v") (auto simp: last_rev dest: arg_cong [of _ _ last])
  then show ?thesis
    by (simp add: line_end_def render_comment_def keyword_type_def emit_word_def emit_space_def emit_def flush_space_def
        flush_comma_newline_def new_render_ctx_def out_def)
qed

theorem line_comment_swallows_witness:
  "out (render_tokens lib fmt bs i [Leaf T_Comment (''-- why'' @ line_end), Leaf T_Other ''+ 1''] (new_render_ctx True)) = ''-- why + 1''"
  using line_comment_swallows [of "''-- why''" lib fmt bs i "''+ 1''" True] by simp

text \<open>
  A subquery written over several lines counts as simple, because the test for clauses and
  logical operators looks for blanks around them.
\<close>
theorem multi_line_subquery_counts_as_simple:
  "is_simple_subquery [Leaf T_Other (''(select a'' @ line_end @ ''or b)'')]"
  "\<not> is_simple_subquery [Leaf T_Other ''(select a or b)'']"
  by code_simp+

end
