(* ===== verification/IntentService.thy ===== *)
theory IntentService imports LlmRetry Pipeline begin

text \<open>
  The classification of a question, \<open>src/src/services/intent_classifier.py\<close>, and the filling of
  prompt templates, \<open>src/src/utils/llm/prompt.py\<close>: the history the prompt quotes, the reading
  of the model's reply into a flat dictionary, the result with its error case, and the way from
  a reply through the node to the next node of the graph.  The model client, \<open>json.loads\<close> and
  the texts of exceptions are arguments.
\<close>

section \<open>Prompt templates\<close>

text \<open>\<open>s.replace(old, new)\<close> for a non-empty \<open>old\<close>; the first argument counts the characters still to skip.\<close>

fun py_replace_from :: "nat \<Rightarrow> string \<Rightarrow> string \<Rightarrow> string \<Rightarrow> string" where
  "py_replace_from skip [] old new = []"
| "py_replace_from (Suc n) (c # cs) old new = py_replace_from n cs old new"
| "py_replace_from 0 (c # cs) old new =
     (if starts_with (c # cs) old then new @ py_replace_from (length old - 1) cs old new
      else c # py_replace_from 0 cs old new)"

definition py_replace :: "string \<Rightarrow> string \<Rightarrow> string \<Rightarrow> string" where
  "py_replace old new s = py_replace_from 0 s old new"

definition is_brace :: "char \<Rightarrow> bool" where
  "is_brace c \<longleftrightarrow> c = CHR ''{'' \<or> c = CHR ''}''"

definition strip_braces :: "string \<Rightarrow> string" where
  "strip_braces k = rev (dropWhile is_brace (rev (dropWhile is_brace k)))"

definition render_prompt :: "string \<Rightarrow> (string \<times> string) list \<Rightarrow> string \<times> (string \<times> string) list" where
  "render_prompt template replacements =
     (fold (\<lambda>(k, v) p. py_replace k v p) replacements template,
      fold (\<lambda>(k, v) vars. dict_set (strip_braces k) v vars) replacements [])"

section \<open>The conversation in the prompt\<close>

record history_turn =
  ht_role :: string
  ht_content :: string
  ht_type :: "string option"

definition last_turns :: "int \<Rightarrow> 'a list \<Rightarrow> 'a list" where
  "last_turns n xs = (if 0 < n then drop (length xs - nat n) xs else xs)"

definition history_line :: "history_turn \<Rightarrow> string" where
  "history_line t =
     ''  '' @ (if ht_type t = Some ''clarification'' then ''[clarification] '' else []) @
     (if ht_role t = ''user'' then ''user'' else ''system'') @ '': '' @ ht_content t"

definition format_history :: "int \<Rightarrow> history_turn list \<Rightarrow> string" where
  "format_history max_turns history = py_join newline (map history_line (last_turns max_turns history))"

section \<open>The reply\<close>

definition CONF_MAP :: "string \<Rightarrow> rat option" where
  "CONF_MAP c = (if c = ''HIGH'' then Some (95 / 100) else if c = ''MEDIUM'' then Some (7 / 10)
     else if c = ''LOW'' then Some (4 / 10) else None)"

definition CATEGORY_INTENT_MAP :: "(string \<times> intent_type) list" where
  "CATEGORY_INTENT_MAP =
     [(''DATA_EXTRACTION'', DATA_EXTRACTION), (''DATA_ANALYSIS'', DATA_ANALYSIS), (''DATA_QUERY'', DATA_EXTRACTION),
      (''CASUAL_TALK'', CASUAL_TALK), (''META_QUESTION'', META_QUESTION), (''CLARIFICATION'', CLARIFICATION_NEEDED),
      (''AMBIGUOUS'', CLARIFICATION_NEEDED)]"

definition map_category_to_intent :: "string \<Rightarrow> string \<Rightarrow> intent_type \<times> rat" where
  "map_category_to_intent category confidence_str =
     ((case map_of CATEGORY_INTENT_MAP category of None \<Rightarrow> CLARIFICATION_NEEDED | Some i \<Rightarrow> i),
      (case CONF_MAP confidence_str of None \<Rightarrow> 1 / 2 | Some q \<Rightarrow> q))"

definition VALID_QUERY_CATEGORIES :: "string list" where
  "VALID_QUERY_CATEGORIES =
     [''DATA_EXTRACTION'', ''DATA_ANALYSIS'', ''DATA_QUERY'', ''CASUAL_TALK'', ''META_QUESTION'', ''AMBIGUOUS'']"

definition history_decision_of :: "string \<Rightarrow> history_decision option" where
  "history_decision_of t =
     (if t = ''CONTINUE'' then Some HD_CONTINUE else if t = ''NEW'' then Some HD_NEW
      else if t = ''UNSURE'' then Some HD_UNSURE else if t = ''SKIP'' then Some HD_SKIP else None)"

text \<open>The flat dictionary; a key that is not set stands for the default its reader uses.\<close>

record flat_reply =
  fl_resolution :: history_decision
  fl_category :: string
  fl_continuity_confidence :: string
  fl_intent_confidence :: string
  fl_intent_reason :: json
  fl_needs_analyzer :: bool
  fl_needs_analyzer_reason :: json
  fl_continue_reason :: json
  fl_continue_context :: json
  fl_continuity_reason :: json
  fl_ambiguities :: json

definition upper_text :: "json \<Rightarrow> string result" where
  "upper_text v = (case v of JStr t \<Rightarrow> Inr (py_upper t) | _ \<Rightarrow> Inl AttributeError)"

definition checked_category :: "history_decision \<Rightarrow> string \<Rightarrow> string" where
  "checked_category resolution label =
     (let cat = (if label = ''CLARIFICATION'' then ''AMBIGUOUS'' else label);
          cat = (if resolution = HD_UNSURE \<and> cat = [] then ''AMBIGUOUS'' else cat)
      in if cat \<notin> set VALID_QUERY_CATEGORIES then ''AMBIGUOUS'' else cat)"

definition wants_analyzer :: "json \<Rightarrow> bool" where
  "wants_analyzer raw =
     (case raw of JStr t \<Rightarrow> py_lower (py_strip t) \<in> {''true'', ''1'', ''yes''} | _ \<Rightarrow> json_true raw)"

definition parse_response :: "json \<Rightarrow> flat_reply result" where
  "parse_response data =
     result_bind (json_get data ''continuity'' (JObj [])) (\<lambda>continuity.
     result_bind (json_get data ''intent'' (JObj [])) (\<lambda>intent_obj.
     result_bind (json_get continuity ''label'' (JStr [])) (\<lambda>cl.
     result_bind (upper_text cl) (\<lambda>label.
       case history_decision_of label of
         None \<Rightarrow> Inl ValueError
       | Some resolution \<Rightarrow>
         result_bind (json_get intent_obj ''label'' (JStr [])) (\<lambda>il.
         result_bind (upper_text il) (\<lambda>cat0.
         result_bind (json_get continuity ''confidence'' (JStr ''MEDIUM'')) (\<lambda>cc.
         result_bind (upper_text cc) (\<lambda>cconf.
         result_bind (json_get intent_obj ''confidence'' (JStr ''MEDIUM'')) (\<lambda>ic.
         result_bind (upper_text ic) (\<lambda>iconf.
         result_bind (json_get intent_obj ''needs_analyzer'' (JBool False)) (\<lambda>raw_needs.
         result_bind (json_get intent_obj ''label_reason'' (JStr [])) (\<lambda>ireason.
         result_bind (json_get intent_obj ''needs_analyzer_reason'' (JStr [])) (\<lambda>nreason.
         result_bind (json_get continuity ''reason'' (JStr [])) (\<lambda>creason.
         result_bind (json_get continuity ''context'' (JStr [])) (\<lambda>ccontext.
         result_bind (json_get data ''ambiguities'' (JList [])) (\<lambda>ambiguities.
           Inr \<lparr>fl_resolution = resolution, fl_category = checked_category resolution cat0,
                fl_continuity_confidence = cconf, fl_intent_confidence = iconf, fl_intent_reason = ireason,
                fl_needs_analyzer = wants_analyzer raw_needs, fl_needs_analyzer_reason = nreason,
                fl_continue_reason = (if resolution = HD_CONTINUE then creason else JStr []),
                fl_continue_context = (if resolution = HD_CONTINUE then ccontext else JStr []),
                fl_continuity_reason = (if resolution = HD_CONTINUE then JStr [] else creason),
                fl_ambiguities = (if json_true ambiguities then ambiguities else JList [])\<rparr>))))))))))))))))"

section \<open>The classification\<close>

text \<open>
  The dataclass checks no types: the fields taken from the reply hold any JSON value.
  \<open>typed_classification\<close> is the result the node works with, when the values are of the declared
  types.
\<close>

record classification =
  cl_resolution :: history_decision
  cl_intent :: intent_type
  cl_confidence :: rat
  cl_category :: string
  cl_reason :: json
  cl_continue_reason :: json
  cl_continue_context :: json
  cl_ambiguities :: json
  cl_needs_analyzer :: bool
  cl_needs_analyzer_reason :: json
  cl_is_error :: bool

definition failed_classification :: classification where
  "failed_classification =
     \<lparr>cl_resolution = HD_SKIP, cl_intent = UNKNOWN, cl_confidence = 0, cl_category = [], cl_reason = JStr [],
      cl_continue_reason = JStr [], cl_continue_context = JStr [], cl_ambiguities = JList [],
      cl_needs_analyzer = False, cl_needs_analyzer_reason = JStr [], cl_is_error = True\<rparr>"

definition classification_of :: "flat_reply \<Rightarrow> classification" where
  "classification_of f =
     (let confidence_str = (if fl_resolution f = HD_UNSURE then fl_continuity_confidence f else fl_intent_confidence f)
      in case map_category_to_intent (fl_category f) confidence_str of (i, conf) \<Rightarrow>
        \<lparr>cl_resolution = fl_resolution f, cl_intent = i, cl_confidence = conf, cl_category = fl_category f,
         cl_reason = (if fl_resolution f = HD_CONTINUE then fl_intent_reason f
                      else py_or (fl_intent_reason f) (fl_continuity_reason f)),
         cl_continue_reason = fl_continue_reason f, cl_continue_context = fl_continue_context f,
         cl_ambiguities = (if fl_resolution f = HD_CONTINUE then JList [] else fl_ambiguities f),
         cl_needs_analyzer = fl_needs_analyzer f, cl_needs_analyzer_reason = fl_needs_analyzer_reason f,
         cl_is_error = False\<rparr>)"

text \<open>The parser of the reply text, with the text of the error it raises.\<close>

definition parse_reply :: "(string \<Rightarrow> json option) \<Rightarrow> (py_error \<Rightarrow> string) \<Rightarrow> string \<Rightarrow> flat_reply parsed" where
  "parse_reply loads err_text raw =
     (case extract_json loads raw of
        None \<Rightarrow> Inl (ValueError, err_text ValueError)
      | Some data \<Rightarrow> (case parse_response data of Inl e \<Rightarrow> Inl (e, err_text e) | Inr f \<Rightarrow> Inr f))"

definition classify_intent ::
  "(string \<Rightarrow> json option) \<Rightarrow> (py_error \<Rightarrow> string) \<Rightarrow> int \<Rightarrow> int \<Rightarrow> int \<Rightarrow> (nat \<Rightarrow> messages \<Rightarrow> string result) \<Rightarrow>
   string \<Rightarrow> string \<Rightarrow> history_turn list \<Rightarrow> string \<Rightarrow> classification result" where
  "classify_intent loads err_text window max_retries lg client user_template query history clarification_history =
     (let history_text = (if history \<noteq> [] then format_history window history else []);
          user_prompt = fst (render_prompt user_template
            [(''{history}'', history_text), (''{query}'', query), (''{clarification_history}'', clarification_history)])
      in case llm_call_with_parse_retry max_retries lg client (parse_reply loads err_text) [(''user'', user_prompt)] of
           Inl CancelledErr \<Rightarrow> Inl CancelledErr
         | Inl _ \<Rightarrow> Inr failed_classification
         | Inr (raw_text, parsed) \<Rightarrow> Inr (classification_of parsed))"

definition typed_classification :: "classification \<Rightarrow> intent_result option" where
  "typed_classification c =
     (case (cl_reason c, cl_continue_reason c, cl_continue_context c, cl_ambiguities c) of
        (JStr r, JStr cr, JStr cc, JList ambs) \<Rightarrow>
          Some \<lparr>ir_resolution = cl_resolution c, ir_intent = cl_intent c, ir_confidence = cl_confidence c,
                ir_category = cl_category c, ir_reason = r, ir_continue_reason = cr, ir_continue_context = cc,
                ir_ambiguities = ambs, ir_needs_analyzer = cl_needs_analyzer c, ir_is_error = cl_is_error c\<rparr>
      | _ \<Rightarrow> None)"

section \<open>What a classification is\<close>

definition sound_classification :: "classification \<Rightarrow> bool" where
  "sound_classification c \<longleftrightarrow>
     (if cl_is_error c then c = failed_classification
      else cl_category c \<in> set VALID_QUERY_CATEGORIES \<and>
        map_of CATEGORY_INTENT_MAP (cl_category c) = Some (cl_intent c) \<and>
        cl_confidence c \<in> {4 / 10, 1 / 2, 7 / 10, 95 / 100} \<and>
        (cl_resolution c = HD_CONTINUE \<longrightarrow> cl_ambiguities c = JList []) \<and>
        (cl_resolution c \<noteq> HD_CONTINUE \<longrightarrow> cl_continue_reason c = JStr [] \<and> cl_continue_context c = JStr []))"

lemma checked_category_valid: "checked_category r l \<in> set VALID_QUERY_CATEGORIES"
  by (auto simp: checked_category_def VALID_QUERY_CATEGORIES_def Let_def)

lemma parse_response_flat:
  assumes "parse_response data = Inr f"
  shows "fl_category f \<in> set VALID_QUERY_CATEGORIES"
    and "fl_resolution f \<noteq> HD_CONTINUE \<Longrightarrow> fl_continue_reason f = JStr [] \<and> fl_continue_context f = JStr []"
  using assms checked_category_valid
  by (auto simp: parse_response_def result_bind_Inr_iff split: option.splits if_splits)

lemma valid_category_intent:
  assumes "c \<in> set VALID_QUERY_CATEGORIES"
  obtains i where "map_of CATEGORY_INTENT_MAP c = Some i"
  using assms by (auto simp: VALID_QUERY_CATEGORIES_def CATEGORY_INTENT_MAP_def)

lemma classification_of_sound:
  assumes "parse_response data = Inr f"
  shows "sound_classification (classification_of f)"
proof -
  obtain i where "map_of CATEGORY_INTENT_MAP (fl_category f) = Some i"
    using valid_category_intent [OF parse_response_flat(1) [OF assms]] .
  with parse_response_flat [OF assms] show ?thesis
    by (auto simp: sound_classification_def classification_of_def map_category_to_intent_def CONF_MAP_def Let_def split: option.splits)
qed

lemma classify_intent_sound:
  assumes "classify_intent loads err_text window max_retries lg client tmpl query history clar = Inr c"
  shows "sound_classification c"
proof (cases "cl_is_error c")
  case False
  let ?call = "\<lambda>p. llm_call_with_parse_retry max_retries lg client (parse_reply loads err_text) [(''user'', p)]"
  from assms False obtain p t f where call: "?call p = Inr (t, f)" and c: "c = classification_of f"
    by (auto simp: classify_intent_def Let_def failed_classification_def split: sum.splits py_error.splits)
  from call obtain k ms reply where "parse_reply loads err_text (py_strip reply) = Inr f"
    by (auto simp: llm_call_with_parse_retry_def retry_loop_Inr_iff)
  then obtain data where "parse_response data = Inr f" by (auto simp: parse_reply_def split: option.splits sum.splits)
  with classification_of_sound c show ?thesis by simp
next
  case True
  with assms show ?thesis
    by (auto simp: classify_intent_def Let_def classification_of_def sound_classification_def
        split: sum.splits py_error.splits prod.splits)
qed

text \<open>
  Every outcome of the classification is the error result or a sound one.  Whatever the model
  replies, and however often the call is repeated, the category is one of the six admissible
  ones, the intent is the one the table gives for it and never \<open>UNKNOWN\<close>, the confidence is one
  of four values, and the texts of a continuation are empty unless the model found one.
\<close>
theorem classification_sound:
  assumes "classify_intent loads err_text window max_retries lg client tmpl query history clar = Inr c"
  shows "sound_classification c"
  using assms by (rule classify_intent_sound)

section \<open>From a reply to the next node\<close>

lemma sound_intent:
  assumes "sound_classification c" and "\<not> cl_is_error c"
  shows "cl_intent c \<in> {CASUAL_TALK, META_QUESTION} \<longleftrightarrow> cl_category c \<in> {''CASUAL_TALK'', ''META_QUESTION''}"
proof -
  have "map_of CATEGORY_INTENT_MAP (cl_category c) = Some (cl_intent c)" using assms by (simp add: sound_classification_def)
  then show ?thesis by (auto simp: CATEGORY_INTENT_MAP_def split: if_splits)
qed

lemma typed_fields:
  assumes "typed_classification c = Some r"
  shows "ir_resolution r = cl_resolution c" "ir_intent r = cl_intent c" "ir_category r = cl_category c" "ir_is_error r = cl_is_error c"
  using assms by (auto simp: typed_classification_def split: json.splits)

text \<open>
  Where a question goes.  From the model's labels alone follows the next node of the graph: a
  failed classification ends the turn; an unsure or ambiguous one asks the user until the limit of
  questions is reached and is then taken as a data request; a continuation with earlier turns
  goes to the orchestrator; talk is answered directly; everything else is a data request.
\<close>
theorem classified_question_goes:
  assumes "classify_intent loads err_text window max_retries lg client tmpl query history clar = Inr c"
    and "typed_classification c = Some r" and "intent_classifier_node cfg r tr s = Inr s'" and "pending_signals s = []"
  shows "route_after_intent_classifier cfg s' =
    (if cl_is_error c then ''error_end''
     else if cl_resolution c = HD_UNSURE \<or> cl_category c = ''AMBIGUOUS'' then
       (if clarification_max_turns cfg \<le> int (ask_count s) then next_after_intent cfg else ''clarification_handler'')
     else if cl_resolution c = HD_CONTINUE \<and> turn_snapshots s \<noteq> [] then ''continue_orchestrator''
     else if cl_category c \<in> {''CASUAL_TALK'', ''META_QUESTION''} then ''simple_responder''
     else next_after_intent cfg)"
proof (cases "cl_is_error c")
  case True
  with assms(3,4) typed_fields [OF assms(2)] show ?thesis
    by (auto simp: intent_classifier_node_def route_after_intent_classifier_def)
next
  case False
  note fields = typed_fields [OF assms(2)]
  note talk = sound_intent [OF classify_intent_sound [OF assms(1)] False]
  consider (ask) "cl_resolution c = HD_UNSURE \<or> cl_category c = ''AMBIGUOUS''"
    | (clear) "\<not> (cl_resolution c = HD_UNSURE \<or> cl_category c = ''AMBIGUOUS'')" by blast
  then show ?thesis
  proof cases
    case ask
    with assms(3) False fields have "handle_ambiguous_or_unsure cfg r tr s = Inr s'" by (simp add: intent_classifier_node_def)
    with ask False assms(4) show ?thesis
      by (auto simp: handle_ambiguous_or_unsure_def route_after_intent_classifier_def forced_progression_def result_bind_Inr_iff
          split: if_splits)
  next
    case clear
    with assms(3) False fields have
      "pending_signals s' = []" "intent s' = cl_intent c"
      "status s' = (if cl_resolution c = HD_CONTINUE \<and> turn_snapshots s \<noteq> [] then QS_CONTINUE_ORCHESTRATION_PENDING else QS_INTENT_CLASSIFIED)"
      using assms(4) by (auto simp: intent_classifier_node_def apply_continue_updates_def Let_def split: if_splits)
    with clear False talk show ?thesis by (simp add: route_after_intent_classifier_def)
  qed
qed

lemma classify_intent_call:
  assumes "\<And>ms. llm_call_with_parse_retry max_retries lg client (parse_reply loads err_text) ms = Inr (t, f)"
  shows "classify_intent loads err_text window max_retries lg client tmpl query history clar = Inr (classification_of f)"
  by (simp add: classify_intent_def Let_def assms)

text \<open>A reply with the labels \<open>new\<close> and \<open>casual_talk\<close>.\<close>

definition sample_labels :: json where
  "sample_labels = JObj [(''continuity'', JObj [(''label'', JStr ''new'')]), (''intent'', JObj [(''label'', JStr ''casual_talk'')])]"

definition sample_classification :: classification where
  "sample_classification =
     \<lparr>cl_resolution = HD_NEW, cl_intent = CASUAL_TALK, cl_confidence = 7 / 10, cl_category = ''CASUAL_TALK'', cl_reason = JStr [],
      cl_continue_reason = JStr [], cl_continue_context = JStr [], cl_ambiguities = JList [],
      cl_needs_analyzer = False, cl_needs_analyzer_reason = JStr [], cl_is_error = False\<rparr>"

lemma sample_classified:
  "classify_intent (\<lambda>t. Some sample_labels) (\<lambda>e. []) 6 1 0 (\<lambda>i ms. Inr ''x'') ''{query}'' ''hi'' [] [] = Inr sample_classification"
proof -
  let ?f = "\<lparr>fl_resolution = HD_NEW, fl_category = ''CASUAL_TALK'', fl_continuity_confidence = ''MEDIUM'',
      fl_intent_confidence = ''MEDIUM'', fl_intent_reason = JStr [], fl_needs_analyzer = False, fl_needs_analyzer_reason = JStr [],
      fl_continue_reason = JStr [], fl_continue_context = JStr [], fl_continuity_reason = JStr [], fl_ambiguities = JList []\<rparr>"
  have up: "py_upper ''new'' = ''NEW''" "py_upper ''casual_talk'' = ''CASUAL_TALK''" "py_upper ''MEDIUM'' = ''MEDIUM''" by code_simp+
  have p: "parse_response sample_labels = Inr ?f"
    by (simp add: parse_response_def sample_labels_def upper_text_def up history_decision_of_def checked_category_def
        VALID_QUERY_CATEGORIES_def wants_analyzer_def Let_def)
  have x: "py_strip ''x'' = ''x''" by (simp add: py_strip_def py_lstrip_def is_ascii_space_def)
  have e: "extract_json (\<lambda>t. Some sample_labels) ''x'' = Some sample_labels" by (simp add: extract_json_def)
  have two: "nat (1 + 1) = Suc 1" by simp
  have "llm_call_with_parse_retry 1 0 (\<lambda>i ms. Inr ''x'') (parse_reply (\<lambda>t. Some sample_labels) (\<lambda>e. [])) ms = Inr (''x'', ?f)" for ms
    unfolding llm_call_with_parse_retry_def two by (simp add: x parse_reply_def e p)
  from classify_intent_call [OF this]
  show ?thesis by (simp add: classification_of_def map_category_to_intent_def CATEGORY_INTENT_MAP_def CONF_MAP_def py_or_def sample_classification_def)
qed

lemma sample_typed:
  "typed_classification sample_classification = Some \<lparr>ir_resolution = HD_NEW, ir_intent = CASUAL_TALK, ir_confidence = 7 / 10,
     ir_category = ''CASUAL_TALK'', ir_reason = [], ir_continue_reason = [], ir_continue_context = [], ir_ambiguities = [],
     ir_needs_analyzer = False, ir_is_error = False\<rparr>"
  by (simp add: typed_classification_def sample_classification_def)

theorem classified_question_goes_witness:
  "\<exists>r s'. typed_classification sample_classification = Some r \<and> intent_classifier_node sample_cfg r [] sample_start = Inr s' \<and>
     route_after_intent_classifier sample_cfg s' = ''simple_responder''"
proof -
  obtain r where r: "typed_classification sample_classification = Some r" "ir_resolution r = HD_NEW" "ir_category r = ''CASUAL_TALK''"
    "ir_is_error r = False" using sample_typed by simp
  then obtain s' where s': "intent_classifier_node sample_cfg r [] sample_start = Inr s'" by (simp add: intent_classifier_node_def Let_def)
  have "pending_signals sample_start = []" by (simp add: sample_start_def new_pipeline_state_def)
  from classified_question_goes [OF sample_classified r(1) s' this] r(1) s' show ?thesis
    by (simp add: sample_classification_def)
qed

theorem classification_sound_witness: "sound_classification sample_classification"
  by (rule classification_sound [OF sample_classified])

text \<open>
  A reply may carry the label \<open>SKIP\<close>, which is documented as the mark of a failed call only.
\<close>
theorem skip_label_accepted:
  assumes "map_of continuity ''label'' = Some (JStr ''skip'')" and "map_of continuity ''confidence'' = None"
  shows "\<exists>f. parse_response (JObj [(''continuity'', JObj continuity)]) = Inr f \<and> fl_resolution f = HD_SKIP \<and>
    \<not> cl_is_error (classification_of f)"
proof -
  have "py_upper ''skip'' = ''SKIP''" "py_upper ''MEDIUM'' = ''MEDIUM''" "py_upper [] = []" by code_simp+
  with assms show ?thesis
    by (simp add: parse_response_def upper_text_def history_decision_of_def classification_of_def map_category_to_intent_def Let_def)
qed

theorem skip_label_accepted_witness:
  "\<exists>f. parse_response (JObj [(''continuity'', JObj [(''label'', JStr ''skip'')])]) = Inr f \<and> fl_resolution f = HD_SKIP \<and>
    \<not> cl_is_error (classification_of f)"
  by (rule skip_label_accepted) simp_all

text \<open>
  A template's place holders are filled one after the other in the text filled so far, so a place
  holder inside a value is filled as well: a user who writes \<open>{clarification_history}\<close> into the
  question gets that history there.
\<close>
theorem placeholder_in_value_filled:
  "fst (render_prompt ''Q: {query}'' [(''{query}'', ''see {clar}''), (''{clar}'', ''X'')]) = ''Q: see X''"
  by code_simp

end
