(* ===== verification/MessageStore.thy ===== *)
theory MessageStore imports IntentService begin

text \<open>
  The conversation store, \<open>src/src/services/message_store.py\<close>, and the session service over it,
  \<open>src/src/services/session_service.py\<close>.  The two tables are lists of rows, in the order of
  insertion, and each SQL statement is the function it denotes on them; the connections commit
  every statement of its own (\<open>autocommit\<close>).  The answers of the server to the statements, its
  generated identifiers and its clock are arguments.  \<open>_pending_messages\<close>, the messages of a
  session that could not be stored, is part of the state.
\<close>

section \<open>Rows\<close>

record message_data =
  md_thread_id :: string
  md_role :: string
  md_content :: string
  md_client_ip :: "string option"
  md_user_agent :: "string option"
  md_message_type :: string
  md_intent :: "string option"
  md_token_count :: "int option"
  md_latency_ms :: "int option"
  md_request_id :: "string option"
  md_status :: string
  md_error_type :: "string option"
  md_error_message :: "string option"
  md_exit_node :: "string option"
  md_model_id :: "string option"
  md_trace_id :: "string option"
  md_executed_sql :: "string option"
  md_sql_explanation :: "string option"
  md_target_db :: "string option"
  md_metadata :: "(string \<times> json) list"

record stored_message =
  sm_data :: message_data
  sm_seq :: int
  sm_uuid :: string
  sm_created_at :: nat
  sm_is_liked :: "bool option"
  sm_feedback :: "string option"
  sm_liked_at :: "nat option"
  sm_is_downloaded :: bool
  sm_downloaded_at :: "nat option"

record session_row =
  sx_thread_id :: string
  sx_user_id :: string
  sx_user_dept :: "string option"
  sx_title :: "string option"
  sx_is_archived :: bool
  sx_created_at :: nat
  sx_last_active :: nat

record message_db =
  db_messages :: "stored_message list"
  db_sessions :: "session_row list"

record store_state =
  ss_db :: message_db
  ss_pending :: "(string \<times> message_data list) list"

section \<open>Saving a message\<close>

text \<open>\<open>COALESCE((SELECT MAX(seq) + 1 ...), 1)\<close>\<close>

definition thread_messages :: "string \<Rightarrow> message_db \<Rightarrow> stored_message list" where
  "thread_messages t db = filter (\<lambda>m. md_thread_id (sm_data m) = t) (db_messages db)"

definition next_seq :: "string \<Rightarrow> message_db \<Rightarrow> int" where
  "next_seq t db =
     (case thread_messages t db of [] \<Rightarrow> 1 | m # ms \<Rightarrow> fold max (map sm_seq ms) (sm_seq m) + 1)"

definition insert_message :: "nat \<Rightarrow> string \<Rightarrow> message_data \<Rightarrow> message_db \<Rightarrow> message_db" where
  "insert_message now uuid d db =
     db\<lparr>db_messages := db_messages db @
        [\<lparr>sm_data = d, sm_seq = next_seq (md_thread_id d) db, sm_uuid = uuid, sm_created_at = now, sm_is_liked = None,
          sm_feedback = None, sm_liked_at = None, sm_is_downloaded = False, sm_downloaded_at = None\<rparr>]\<rparr>"

text \<open>
  What becomes of an \<open>INSERT\<close>: the row is stored and its identifier returned; nothing is stored
  and an exception raised (no connection, a conflict); or the row is stored and the connection
  lost before the answer.
\<close>

datatype insert_outcome = Inserted string | Refused | Answer_lost string

text \<open>
  The loop over the messages to store: the table, the number of messages counted as saved, the
  identifier and number of the last one, and whether an exception ended the loop.
\<close>

fun insert_all ::
  "nat \<Rightarrow> (nat \<Rightarrow> insert_outcome) \<Rightarrow> nat \<Rightarrow> message_data list \<Rightarrow> (string option \<times> int) \<Rightarrow> message_db \<Rightarrow>
   message_db \<times> nat \<times> (string option \<times> int) \<times> bool" where
  "insert_all now answer saved [] last_row db = (db, saved, last_row, False)"
| "insert_all now answer saved (d # ds) last_row db =
     (case answer saved of
        Inserted uuid \<Rightarrow>
          insert_all now answer (Suc saved) ds (Some uuid, next_seq (md_thread_id d) db) (insert_message now uuid d db)
      | Refused \<Rightarrow> (db, saved, last_row, True)
      | Answer_lost uuid \<Rightarrow> (insert_message now uuid d db, saved, last_row, True))"

definition dict_remove :: "'k \<Rightarrow> ('k \<times> 'v) list \<Rightarrow> ('k \<times> 'v) list" where
  "dict_remove k d = filter (\<lambda>kv. fst kv \<noteq> k) d"

definition pending_of :: "string \<Rightarrow> store_state \<Rightarrow> message_data list" where
  "pending_of t s = (case map_of (ss_pending s) t of None \<Rightarrow> [] | Some ms \<Rightarrow> ms)"

text \<open>\<open>xs[-n:]\<close>, the whole list for \<open>n = 0\<close>.\<close>

definition last_items :: "int \<Rightarrow> 'a list \<Rightarrow> 'a list" where
  "last_items n xs = (if 0 < n then drop (length xs - nat n) xs else drop (nat (- n)) xs)"

definition kept_unsaved :: "int \<Rightarrow> 'a list \<Rightarrow> 'a list" where
  "kept_unsaved max_pending unsaved =
     (if int (length unsaved) > max_pending then last_items max_pending unsaved else unsaved)"

text \<open>
  The call in three parts, since other calls may run while it waits for the server: the pending
  messages are taken out, the rows inserted, and what was not saved is put back.
\<close>

definition begin_save :: "message_data \<Rightarrow> store_state \<Rightarrow> message_data list \<times> store_state" where
  "begin_save d s =
     (pending_of (md_thread_id d) s @ [d], s\<lparr>ss_pending := dict_remove (md_thread_id d) (ss_pending s)\<rparr>)"

definition end_save ::
  "int \<Rightarrow> string \<Rightarrow> message_data list \<Rightarrow> nat \<Rightarrow> (string option \<times> int) \<Rightarrow> bool \<Rightarrow> store_state \<Rightarrow>
   store_state \<times> (string option \<times> int) option" where
  "end_save max_pending t pending saved last_row failed s =
     (if failed then
        let unsaved = kept_unsaved max_pending (drop saved pending)
        in (if unsaved \<noteq> [] then s\<lparr>ss_pending := dict_set t unsaved (ss_pending s)\<rparr> else s, None)
      else (s, Some last_row))"

definition save_message ::
  "int \<Rightarrow> nat \<Rightarrow> (nat \<Rightarrow> insert_outcome) \<Rightarrow> message_data \<Rightarrow> store_state \<Rightarrow> store_state \<times> (string option \<times> int) option" where
  "save_message max_pending now answer d s =
     (case begin_save d s of (pending, s1) \<Rightarrow>
      case insert_all now answer 0 pending (None, 0) (ss_db s1) of (db, saved, last_row, failed) \<Rightarrow>
        end_save max_pending (md_thread_id d) pending saved last_row failed (s1\<lparr>ss_db := db\<rparr>))"

section \<open>Reading and changing messages\<close>

definition on_messages :: "(stored_message \<Rightarrow> stored_message) \<Rightarrow> string \<Rightarrow> message_db \<Rightarrow> message_db" where
  "on_messages f uuid db = db\<lparr>db_messages := map (\<lambda>m. if sm_uuid m = uuid then f m else m) (db_messages db)\<rparr>"

text \<open>\<open>a || b\<close> on objects: the keys of \<open>b\<close> win.\<close>

definition json_concat :: "(string \<times> json) list \<Rightarrow> (string \<times> json) list \<Rightarrow> (string \<times> json) list" where
  "json_concat a b = fold (\<lambda>(k, v). dict_set k v) b a"

text \<open>The statement fails when the flag is set; the failure is logged only.\<close>

definition update_message_metadata :: "bool \<Rightarrow> string \<Rightarrow> (string \<times> json) list \<Rightarrow> message_db \<Rightarrow> message_db" where
  "update_message_metadata fails uuid metadata db =
     (if uuid = [] \<or> fails then db
      else on_messages (\<lambda>m. m\<lparr>sm_data := (sm_data m)\<lparr>md_metadata := json_concat (md_metadata (sm_data m)) metadata\<rparr>\<rparr>) uuid db)"

definition get_conversation_history :: "string \<Rightarrow> message_db \<Rightarrow> history_turn list" where
  "get_conversation_history t db =
     map (\<lambda>m. \<lparr>ht_role = md_role (sm_data m), ht_content = md_content (sm_data m),
               ht_type = Some (if md_message_type (sm_data m) \<noteq> [] then md_message_type (sm_data m) else ''normal'')\<rparr>)
       (sort_key sm_seq (thread_messages t db))"

text \<open>
  The light view of a session's messages.  \<open>metadata->k\<close> is \<open>NULL\<close> without the key; \<open>delete_path\<close>
  is the server's \<open>#-\<close>, whose error ends the whole query.
\<close>

record message_view =
  mv_message :: stored_message
  mv_has_metadata :: bool
  mv_trace_files :: "json option"
  mv_process_summary :: "json option"
  mv_result_data_meta :: "json option"
  mv_visualization :: "json option"
  mv_clarification :: "json option"

definition HYDRATION_PATHS :: "string list list" where
  "HYDRATION_PATHS = [[''interpretation'', ''_raw''], [''context'', ''_knowledge_items''], [''_query_decomposition'']]"

fun delete_paths :: "(json \<Rightarrow> string list \<Rightarrow> json result) \<Rightarrow> string list list \<Rightarrow> json \<Rightarrow> json result" where
  "delete_paths delete_path [] v = Inr v"
| "delete_paths delete_path (p # ps) v = result_bind (delete_path v p) (delete_paths delete_path ps)"

definition view_message :: "(json \<Rightarrow> string list \<Rightarrow> json result) \<Rightarrow> stored_message \<Rightarrow> message_view result" where
  "view_message delete_path m =
     (let d = md_metadata (sm_data m)
      in result_bind (case map_of d ''process_summary'' of
                        None \<Rightarrow> Inr None
                      | Some v \<Rightarrow> result_bind (delete_paths delete_path HYDRATION_PATHS v) (\<lambda>v'. Inr (Some v'))) (\<lambda>summary.
         Inr \<lparr>mv_message = m, mv_has_metadata = (d \<noteq> []), mv_trace_files = map_of d ''trace_files'',
              mv_process_summary = summary, mv_result_data_meta = map_of d ''result_data'',
              mv_visualization = map_of d ''visualization'', mv_clarification = map_of d ''clarification''\<rparr>))"

fun view_messages :: "(json \<Rightarrow> string list \<Rightarrow> json result) \<Rightarrow> stored_message list \<Rightarrow> message_view list result" where
  "view_messages delete_path [] = Inr []"
| "view_messages delete_path (m # ms) =
     result_bind (view_message delete_path m) (\<lambda>v. result_bind (view_messages delete_path ms) (\<lambda>vs. Inr (v # vs)))"

definition get_session_messages_for_ui ::
  "(json \<Rightarrow> string list \<Rightarrow> json result) \<Rightarrow> string \<Rightarrow> message_db \<Rightarrow> message_view list result" where
  "get_session_messages_for_ui delete_path t db = view_messages delete_path (sort_key sm_seq (thread_messages t db))"

definition message_by_uuid :: "string \<Rightarrow> message_db \<Rightarrow> stored_message option" where
  "message_by_uuid uuid db = find (\<lambda>m. sm_uuid m = uuid) (db_messages db)"

definition get_message_metadata :: "string \<Rightarrow> message_db \<Rightarrow> (string \<times> json) list option" where
  "get_message_metadata uuid db = map_option (\<lambda>m. md_metadata (sm_data m)) (message_by_uuid uuid db)"

definition toggle_like ::
  "nat \<Rightarrow> string \<Rightarrow> bool option \<Rightarrow> string option \<Rightarrow> message_db \<Rightarrow> message_db \<times> (bool option \<times> string option \<times> nat option) option" where
  "toggle_like now uuid is_liked feedback db =
     (let db' = on_messages (\<lambda>m. m\<lparr>sm_is_liked := is_liked, sm_feedback := feedback,
                                     sm_liked_at := (if is_liked \<noteq> None then Some now else None)\<rparr>) uuid db
      in (db', map_option (\<lambda>m. (sm_is_liked m, sm_feedback m, sm_liked_at m)) (message_by_uuid uuid db')))"

definition mark_downloaded :: "nat \<Rightarrow> string \<Rightarrow> message_db \<Rightarrow> message_db \<times> (bool \<times> nat option) option" where
  "mark_downloaded now uuid db =
     (let db' = on_messages (\<lambda>m. m\<lparr>sm_is_downloaded := True,
                                     sm_downloaded_at := (case sm_downloaded_at m of None \<Rightarrow> Some now | Some x \<Rightarrow> Some x)\<rparr>) uuid db
      in (db', map_option (\<lambda>m. (sm_is_downloaded m, sm_downloaded_at m)) (message_by_uuid uuid db')))"

section \<open>Sessions\<close>

definition upsert_session_index ::
  "nat \<Rightarrow> string \<Rightarrow> string \<Rightarrow> string option \<Rightarrow> string option \<Rightarrow> message_db \<Rightarrow> message_db" where
  "upsert_session_index now t user dept title db =
     (if t \<in> sx_thread_id ` set (db_sessions db)
      then db\<lparr>db_sessions := map (\<lambda>x. if sx_thread_id x = t then x\<lparr>sx_last_active := now\<rparr> else x) (db_sessions db)\<rparr>
      else db\<lparr>db_sessions := db_sessions db @
             [\<lparr>sx_thread_id = t, sx_user_id = user, sx_user_dept = dept, sx_title = title, sx_is_archived = False,
               sx_created_at = now, sx_last_active = now\<rparr>]\<rparr>)"

definition listed_session :: "string \<Rightarrow> message_db \<Rightarrow> session_row \<Rightarrow> bool" where
  "listed_session user db x \<longleftrightarrow>
     sx_user_id x = user \<and> \<not> sx_is_archived x \<and> thread_messages (sx_thread_id x) db \<noteq> []"

text \<open>Sessions active at the same instant come in the order of the index.\<close>

definition get_sessions_for_user :: "string \<Rightarrow> nat \<Rightarrow> nat \<Rightarrow> message_db \<Rightarrow> session_row list \<times> nat" where
  "get_sessions_for_user user max_rows offset db =
     (let found = filter (listed_session user db) (db_sessions db)
      in (take max_rows (drop offset (sort_key (\<lambda>x. - int (sx_last_active x)) found)), length found))"

definition get_session_title :: "string \<Rightarrow> message_db \<Rightarrow> string option" where
  "get_session_title t db =
     (case find (\<lambda>x. sx_thread_id x = t \<and> \<not> sx_is_archived x) (db_sessions db) of None \<Rightarrow> None | Some x \<Rightarrow> sx_title x)"

text \<open>An \<open>UPDATE\<close> of the session rows with a condition, and whether it changed a row.\<close>

definition update_sessions :: "(session_row \<Rightarrow> bool) \<Rightarrow> (session_row \<Rightarrow> session_row) \<Rightarrow> message_db \<Rightarrow> message_db \<times> bool" where
  "update_sessions p f db =
     (db\<lparr>db_sessions := map (\<lambda>x. if p x then f x else x) (db_sessions db)\<rparr>, list_ex p (db_sessions db))"

definition archive_session :: "string \<Rightarrow> message_db \<Rightarrow> message_db \<times> bool" where
  "archive_session t = update_sessions (\<lambda>x. sx_thread_id x = t \<and> \<not> sx_is_archived x) (\<lambda>x. x\<lparr>sx_is_archived := True\<rparr>)"

definition unarchive_session :: "string \<Rightarrow> message_db \<Rightarrow> message_db \<times> bool" where
  "unarchive_session t = update_sessions (\<lambda>x. sx_thread_id x = t \<and> sx_is_archived x) (\<lambda>x. x\<lparr>sx_is_archived := False\<rparr>)"

definition update_session_title :: "string \<Rightarrow> string \<Rightarrow> message_db \<Rightarrow> message_db \<times> bool" where
  "update_session_title t title =
     update_sessions (\<lambda>x. sx_thread_id x = t \<and> \<not> sx_is_archived x) (\<lambda>x. x\<lparr>sx_title := Some title\<rparr>)"

section \<open>The session service\<close>

definition parse_trace_files :: "(string \<Rightarrow> json option) \<Rightarrow> json option \<Rightarrow> json list" where
  "parse_trace_files loads raw =
     (case raw of
        Some (JList xs) \<Rightarrow> xs
      | Some (JStr t) \<Rightarrow> (case loads t of Some (JList xs) \<Rightarrow> xs | _ \<Rightarrow> [])
      | _ \<Rightarrow> [])"

text \<open>
  \<open>get_session_detail\<close>: the title, and each message's view with its trace files.  The response
  model requires a dictionary, or nothing, for the summary, the result data, the chart and the
  clarification.
\<close>

definition dict_or_none :: "json option \<Rightarrow> json option result" where
  "dict_or_none v =
     (case v of None \<Rightarrow> Inr None | Some JNull \<Rightarrow> Inr None | Some (JObj d) \<Rightarrow> Inr (Some (JObj d)) | _ \<Rightarrow> Inl ValueError)"

definition message_summary :: "(string \<Rightarrow> json option) \<Rightarrow> message_view \<Rightarrow> (message_view \<times> json list) result" where
  "message_summary loads v =
     result_bind (dict_or_none (mv_process_summary v)) (\<lambda>ps.
     result_bind (dict_or_none (mv_result_data_meta v)) (\<lambda>rd.
     result_bind (dict_or_none (mv_visualization v)) (\<lambda>vz.
     result_bind (dict_or_none (mv_clarification v)) (\<lambda>cl.
       Inr (v\<lparr>mv_process_summary := ps, mv_result_data_meta := rd, mv_visualization := vz, mv_clarification := cl\<rparr>,
            parse_trace_files loads (mv_trace_files v))))))"

fun message_summaries :: "(string \<Rightarrow> json option) \<Rightarrow> message_view list \<Rightarrow> (message_view \<times> json list) list result" where
  "message_summaries loads [] = Inr []"
| "message_summaries loads (v # vs) =
     result_bind (message_summary loads v) (\<lambda>x. result_bind (message_summaries loads vs) (\<lambda>xs. Inr (x # xs)))"

definition get_session_detail ::
  "(json \<Rightarrow> string list \<Rightarrow> json result) \<Rightarrow> (string \<Rightarrow> json option) \<Rightarrow> string \<Rightarrow> message_db \<Rightarrow>
   (string \<times> (message_view \<times> json list) list) option result" where
  "get_session_detail delete_path loads t db =
     (case get_session_title t db of
        None \<Rightarrow> Inr None
      | Some title \<Rightarrow>
          result_bind (get_session_messages_for_ui delete_path t db) (\<lambda>vs.
          result_bind (message_summaries loads vs) (\<lambda>ms. Inr (Some (title, ms)))))"

section \<open>The order of the messages\<close>

definition stored_data :: "string \<Rightarrow> store_state \<Rightarrow> message_data list" where
  "stored_data t s = map sm_data (thread_messages t (ss_db s))"

definition well_numbered :: "message_db \<Rightarrow> bool" where
  "well_numbered db \<longleftrightarrow> (\<forall>t. map sm_seq (thread_messages t db) = [1..int (length (thread_messages t db))])"

lemma thread_messages_insert:
  "thread_messages t (insert_message now uuid d db) =
     thread_messages t db @ (if md_thread_id d = t
       then [\<lparr>sm_data = d, sm_seq = next_seq t db, sm_uuid = uuid, sm_created_at = now, sm_is_liked = None,
              sm_feedback = None, sm_liked_at = None, sm_is_downloaded = False, sm_downloaded_at = None\<rparr>] else [])"
  by (simp add: insert_message_def thread_messages_def)

lemma fold_max: "fold max xs (a :: int) = Max (set (a # xs))"
  by (metis Max.set_eq_fold)

lemma next_seq_numbered:
  assumes "well_numbered db"
  shows "next_seq t db = int (length (thread_messages t db)) + 1"
proof (cases "thread_messages t db")
  case (Cons m ms)
  have seqs: "map sm_seq (thread_messages t db) = [1..int (length (thread_messages t db))]"
    using assms by (simp add: well_numbered_def)
  have "fold max (map sm_seq ms) (sm_seq m) = Max (set (map sm_seq (thread_messages t db)))"
    by (simp add: fold_max Cons)
  also have "\<dots> = Max {1..int (length (thread_messages t db))}" by (simp only: seqs set_upto)
  also have "\<dots> = int (length (thread_messages t db))" by (rule Max_eqI) (auto simp: Cons)
  finally show ?thesis by (simp add: next_seq_def Cons)
qed (simp add: next_seq_def)

lemma numbered_insert: "well_numbered db \<Longrightarrow> well_numbered (insert_message now uuid d db)"
  unfolding well_numbered_def
proof
  fix t
  assume "\<forall>t. map sm_seq (thread_messages t db) = [1..int (length (thread_messages t db))]"
  then have n: "well_numbered db" and e: "map sm_seq (thread_messages t db) = [1..int (length (thread_messages t db))]"
    by (simp_all add: well_numbered_def)
  have "[1..int (length (thread_messages t db)) + 1] =
      [1..int (length (thread_messages t db))] @ [int (length (thread_messages t db)) + 1]"
    by (simp add: upto_rec2)
  with e next_seq_numbered [OF n] show "map sm_seq (thread_messages t (insert_message now uuid d db)) =
      [1..int (length (thread_messages t (insert_message now uuid d db)))]"
    by (simp add: thread_messages_insert add.commute)
qed

definition exact_answers :: "(nat \<Rightarrow> insert_outcome) \<Rightarrow> bool" where
  "exact_answers answer \<longleftrightarrow> (\<forall>k u. answer k \<noteq> Answer_lost u)"

lemma insert_all_spec:
  assumes "insert_all now answer saved ds last_row db = (db', saved', last', failed)"
    and "exact_answers answer" and "\<forall>d\<in>set ds. md_thread_id d = t" and "well_numbered db"
  shows "saved \<le> saved' \<and> saved' - saved \<le> length ds \<and> well_numbered db' \<and> db_sessions db' = db_sessions db \<and>
    map sm_data (thread_messages t db') = map sm_data (thread_messages t db) @ take (saved' - saved) ds \<and>
    (\<forall>t'. t' \<noteq> t \<longrightarrow> thread_messages t' db' = thread_messages t' db) \<and>
    (\<not> failed \<longrightarrow> saved' - saved = length ds \<and>
       (ds \<noteq> [] \<longrightarrow> snd last' = int (length (thread_messages t db')) \<and> fst last' \<noteq> None))"
  using assms
proof (induction now answer saved ds last_row db rule: insert_all.induct)
  case (2 now answer saved d ds last_row db)
  show ?case
  proof (cases "answer saved")
    case (Inserted uuid)
    from 2(1) [OF Inserted] 2(2-5) Inserted numbered_insert [OF 2(5)]
    have IH: "Suc saved \<le> saved'" "saved' - Suc saved \<le> length ds" "well_numbered db'" "db_sessions db' = db_sessions db"
      "map sm_data (thread_messages t db') = map sm_data (thread_messages t (insert_message now uuid d db)) @ take (saved' - Suc saved) ds"
      "\<forall>t'. t' \<noteq> t \<longrightarrow> thread_messages t' db' = thread_messages t' (insert_message now uuid d db)"
      "\<not> failed \<longrightarrow> saved' - Suc saved = length ds \<and> (ds \<noteq> [] \<longrightarrow> snd last' = int (length (thread_messages t db')) \<and> fst last' \<noteq> None)"
      by (auto simp: insert_message_def)
    have t: "md_thread_id d = t" using 2(4) by simp
    have last: "snd last' = int (length (thread_messages t db')) \<and> fst last' \<noteq> None" if "\<not> failed" "ds = []"
      using 2(2) that Inserted next_seq_numbered [OF 2(5)] t by (auto simp: thread_messages_insert)
    from IH t last show ?thesis
      by (auto simp: thread_messages_insert take_Cons' Suc_diff_le Suc_le_eq)
  qed (use 2 in \<open>auto simp: exact_answers_def\<close>)
qed auto

lemma map_of_dict_remove [simp]: "map_of (dict_remove k d) = (map_of d)(k := None)"
  by (induction d) (auto simp: dict_remove_def fun_eq_iff)

definition store_ok :: "store_state \<Rightarrow> bool" where
  "store_ok s \<longleftrightarrow> well_numbered (ss_db s) \<and> (\<forall>t. \<forall>d\<in>set (pending_of t s). md_thread_id d = t)"

lemma kept_unsaved_drop:
  obtains k where "kept_unsaved n xs = drop k xs" and "int (length xs) \<le> n \<Longrightarrow> k = 0"
proof (cases "int (length xs) > n")
  case True
  then have "kept_unsaved n xs = drop (if 0 < n then length xs - nat n else nat (- n)) xs"
    by (simp add: kept_unsaved_def last_items_def)
  with True that show ?thesis by (metis not_le)
next
  case False
  then show ?thesis using that [of 0] by (simp add: kept_unsaved_def)
qed

lemma save_message_spec:
  assumes "save_message max_pending now answer d s = (s', r)" and "store_ok s" and "exact_answers answer"
  shows "store_ok s'"
    and "\<forall>t. t \<noteq> md_thread_id d \<longrightarrow> stored_data t s' = stored_data t s \<and> pending_of t s' = pending_of t s"
    and "\<exists>dropped. stored_data (md_thread_id d) s @ pending_of (md_thread_id d) s @ [d] =
        stored_data (md_thread_id d) s' @ dropped @ pending_of (md_thread_id d) s' \<and>
        (int (length (pending_of (md_thread_id d) s)) < max_pending \<longrightarrow> dropped = [])"
    and "r = Some row \<Longrightarrow> pending_of (md_thread_id d) s' = [] \<and> fst row \<noteq> None \<and>
        snd row = int (length (stored_data (md_thread_id d) s'))"
proof -
  let ?t = "md_thread_id d"
  define ds where "ds = pending_of (md_thread_id d) s @ [d]"
  have len: "length ds = Suc (length (pending_of ?t s))" by (simp add: ds_def)
  obtain db saved last_row failed where ins: "insert_all now answer 0 ds (None, 0) (ss_db s) = (db, saved, last_row, failed)"
    by (metis prod_cases4)
  have t: "\<forall>x\<in>set ds. md_thread_id x = ?t" using assms(2) by (auto simp: store_ok_def ds_def)
  have n: "well_numbered (ss_db s)" using assms(2) by (simp add: store_ok_def)
  note spec = insert_all_spec [OF ins assms(3) t n]
  define unsaved where "unsaved = (if failed then kept_unsaved max_pending (drop saved ds) else [])"
  have "s' = s\<lparr>ss_db := db, ss_pending := (if unsaved \<noteq> [] then dict_set ?t unsaved (dict_remove ?t (ss_pending s))
      else dict_remove ?t (ss_pending s))\<rparr>"
    using assms(1) by (auto simp: save_message_def begin_save_def end_save_def ds_def [symmetric] ins unsaved_def Let_def split: if_splits)
  then have s': "ss_db s' = db" "pending_of t s' = (if t = ?t then unsaved else pending_of t s)" for t
    by (simp_all add: pending_of_def map_of_dict_set)
  obtain k where k: "unsaved = drop (saved + k) ds" "int (length ds) \<le> max_pending \<Longrightarrow> k = 0"
  proof (cases failed)
    case True
    obtain j where "kept_unsaved max_pending (drop saved ds) = drop j (drop saved ds)"
      "int (length (drop saved ds)) \<le> max_pending \<Longrightarrow> j = 0" using kept_unsaved_drop [of max_pending "drop saved ds"] by blast
    then show ?thesis using that [of j] True by (simp add: unsaved_def add.commute)
  next
    case False
    then show ?thesis using that [of 0] spec by (simp add: unsaved_def)
  qed
  show "store_ok s'" using spec t k(1) assms(2) by (auto simp: store_ok_def s' dest: in_set_dropD)
  show "\<forall>t. t \<noteq> ?t \<longrightarrow> stored_data t s' = stored_data t s \<and> pending_of t s' = pending_of t s"
    using spec by (simp add: stored_data_def s')
  have "ds = take saved ds @ take k (drop saved ds) @ unsaved"
    by (metis append_take_drop_id drop_drop k(1) add.commute)
  then show "\<exists>dropped. stored_data ?t s @ pending_of ?t s @ [d] = stored_data ?t s' @ dropped @ pending_of ?t s' \<and>
      (int (length (pending_of ?t s)) < max_pending \<longrightarrow> dropped = [])"
    using spec k(2) len unfolding ds_def [symmetric] by (intro exI [of _ "take k (drop saved ds)"]) (auto simp: stored_data_def s' ds_def [symmetric])
  show "pending_of ?t s' = [] \<and> fst row \<noteq> None \<and> snd row = int (length (stored_data ?t s'))" if "r = Some row"
  proof -
    from assms(1) that have "\<not> failed" "row = last_row"
      by (auto simp: save_message_def begin_save_def end_save_def ds_def [symmetric] ins Let_def split: if_splits)
    moreover from len have "ds \<noteq> []" by auto
    moreover have "length (stored_data ?t s') = length (thread_messages ?t db)" by (simp add: stored_data_def s')
    ultimately show ?thesis using spec by (simp add: s' unsaved_def)
  qed
qed

section \<open>Properties\<close>

definition empty_store :: store_state where
  "empty_store = \<lparr>ss_db = \<lparr>db_messages = [], db_sessions = []\<rparr>, ss_pending = []\<rparr>"

definition submit :: "int \<Rightarrow> nat \<times> (nat \<Rightarrow> insert_outcome) \<times> message_data \<Rightarrow> store_state \<Rightarrow> store_state" where
  "submit max_pending call s = (case call of (now, answer, d) \<Rightarrow> fst (save_message max_pending now answer d s))"

lemma submit_all:
  assumes "\<forall>(now, answer, d)\<in>set calls. exact_answers answer" and "store_ok s"
    and "\<forall>t. int (length (pending_of t s)) + int (length calls) \<le> max_pending"
  shows "store_ok (fold (submit max_pending) calls s) \<and>
    stored_data t (fold (submit max_pending) calls s) @ pending_of t (fold (submit max_pending) calls s) =
      stored_data t s @ pending_of t s @ filter (\<lambda>d. md_thread_id d = t) (map (snd \<circ> snd) calls)"
  using assms
proof (induction calls arbitrary: s)
  case (Cons call calls)
  obtain now answer d where call: "call = (now, answer, d)" by (metis prod_cases3)
  obtain s' r where save: "save_message max_pending now answer d s = (s', r)" by fastforce
  have exact: "exact_answers answer" using Cons.prems(1) call by simp
  have s': "submit max_pending (now, answer, d) s = s'" by (simp add: submit_def save)
  note spec = save_message_spec [OF save Cons.prems(2) exact]
  let ?t = "md_thread_id d"
  have "int (length (pending_of ?t s)) < max_pending" using Cons.prems(3) [rule_format, of ?t] by simp
  with spec(3) have log: "stored_data ?t s' @ pending_of ?t s' = stored_data ?t s @ pending_of ?t s @ [d]" by auto
  obtain dropped where "stored_data ?t s @ pending_of ?t s @ [d] = stored_data ?t s' @ dropped @ pending_of ?t s'"
    using spec(3) by blast
  have "length (stored_data ?t s) \<le> length (stored_data ?t s')"
  proof -
    obtain db saved last_row failed where ins: "insert_all now answer 0 (pending_of ?t s @ [d]) (None, 0) (ss_db s) = (db, saved, last_row, failed)"
      by (metis prod_cases4)
    have "ss_db s' = db" using save by (auto simp: save_message_def begin_save_def end_save_def ins Let_def split: if_splits)
    moreover have "map sm_data (thread_messages ?t db) = map sm_data (thread_messages ?t (ss_db s)) @ take saved (pending_of ?t s @ [d])"
      using insert_all_spec [OF ins exact] Cons.prems(2) by (simp add: store_ok_def)
    ultimately show ?thesis by (simp add: stored_data_def)
  qed
  with arg_cong [OF log, of length] have "length (pending_of ?t s') \<le> Suc (length (pending_of ?t s))" by simp
  then have "\<forall>t. int (length (pending_of t s')) + int (length calls) \<le> max_pending"
    using Cons.prems(3) spec(2) by (smt (verit) length_Cons of_nat_Suc of_nat_mono)
  from Cons.IH [OF _ spec(1) this] Cons.prems(1) log spec(2) show ?case
    by (cases "t = ?t") (simp_all add: s' call)
qed simp


text \<open>Messages of a session, and three calls of which the first one is refused.\<close>

definition sample_message :: "string \<Rightarrow> string \<Rightarrow> message_data" where
  "sample_message t content =
     \<lparr>md_thread_id = t, md_role = ''user'', md_content = content, md_client_ip = None, md_user_agent = None,
      md_message_type = ''normal'', md_intent = None, md_token_count = None, md_latency_ms = None, md_request_id = None,
      md_status = ''success'', md_error_type = None, md_error_message = None, md_exit_node = None, md_model_id = None,
      md_trace_id = None, md_executed_sql = None, md_sql_explanation = None, md_target_db = None, md_metadata = []\<rparr>"


text \<open>
  A lost answer stores a message twice: the row is there, but the message is kept as unsaved and
  inserted again by the next call.
\<close>
theorem lost_answer_stores_twice:
  assumes "pending_of t s = []" and "md_thread_id d = t" and "md_thread_id d' = t" and "0 < max_pending"
  shows "let s1 = fst (save_message max_pending n1 (\<lambda>_. Answer_lost u) d s);
             s2 = fst (save_message max_pending n2 (\<lambda>k. Inserted (us k)) d' s1)
         in stored_data t s2 = stored_data t s @ [d, d, d']"
proof -
  have k: "kept_unsaved max_pending [d] = [d]" using assms(4) by (simp add: kept_unsaved_def)
  have s1: "fst (save_message max_pending n1 (\<lambda>_. Answer_lost u) d s) =
      s\<lparr>ss_db := insert_message n1 u d (ss_db s), ss_pending := dict_set t [d] (dict_remove t (ss_pending s))\<rparr>"
    using assms by (simp add: save_message_def begin_save_def end_save_def Let_def k)
  let ?s1 = "s\<lparr>ss_db := insert_message n1 u d (ss_db s), ss_pending := dict_set t [d] (dict_remove t (ss_pending s))\<rparr>"
  have p: "pending_of t ?s1 = [d]" by (simp add: pending_of_def map_of_dict_set)
  have s2: "fst (save_message max_pending n2 (\<lambda>k. Inserted (us k)) d' ?s1) =
      ?s1\<lparr>ss_db := insert_message n2 (us 1) d' (insert_message n2 (us 0) d (ss_db ?s1)), ss_pending := dict_remove t (ss_pending ?s1)\<rparr>"
    unfolding save_message_def begin_save_def end_save_def assms(3) p by simp
  show ?thesis unfolding Let_def s1 s2 using assms(2,3) by (simp add: stored_data_def thread_messages_insert)
qed

theorem lost_answer_stores_twice_witness:
  "let s1 = fst (save_message 50 1 (\<lambda>_. Answer_lost ''u'') (sample_message ''t'' ''a'') empty_store);
       s2 = fst (save_message 50 2 (\<lambda>k. Inserted ''v'') (sample_message ''t'' ''b'') s1)
   in stored_data ''t'' s2 = [sample_message ''t'' ''a'', sample_message ''t'' ''a'', sample_message ''t'' ''b'']"
  using lost_answer_stores_twice [of "''t''" empty_store "sample_message ''t'' ''a''" "sample_message ''t'' ''b''" 50 1 "''u''" 2 "\<lambda>_. ''v''"]
  by (simp add: empty_store_def pending_of_def stored_data_def thread_messages_def sample_message_def Let_def)

text \<open>
  Two calls for one session that overlap and both fail lose a message: the second one puts its
  own message back over the first one's.
\<close>
theorem overlapping_failures_lose_message:
  assumes "begin_save d1 s = (p1, s1)" and "begin_save d2 s1 = (p2, s2)" and "pending_of t s = []"
    and "md_thread_id d1 = t" and "md_thread_id d2 = t" and "0 < max_pending"
    and "s3 = fst (end_save max_pending t p1 0 (None, 0) True s2)"
    and "s4 = fst (end_save max_pending t p2 0 (None, 0) True s3)"
  shows "pending_of t s4 = [d2] \<and> ss_db s4 = ss_db s"
proof -
  have k: "kept_unsaved max_pending [d] = [d]" for d :: message_data using assms(6) by (simp add: kept_unsaved_def)
  show ?thesis using assms(1-5,7,8)
    by (auto simp: begin_save_def end_save_def Let_def k pending_of_def map_of_dict_set split: option.splits)
qed

theorem overlapping_failures_lose_message_witness:
  "\<exists>s4. pending_of ''t'' s4 = [sample_message ''t'' ''b''] \<and> ss_db s4 = ss_db empty_store"
proof -
  obtain p1 s1 where a: "begin_save (sample_message ''t'' ''a'') empty_store = (p1, s1)" by fastforce
  obtain p2 s2 where b: "begin_save (sample_message ''t'' ''b'') s1 = (p2, s2)" by fastforce
  from overlapping_failures_lose_message [OF a b, of "''t''" 50] show ?thesis
    by (auto simp: pending_of_def empty_store_def sample_message_def)
qed

text \<open>
  Archiving is undone by unarchiving.  A listed session's title is hidden while it is archived,
  and unarchiving gives the index back as it was.
\<close>
theorem archive_roundtrip:
  assumes "distinct (map sx_thread_id (db_sessions db))" and "x \<in> set (db_sessions db)"
    and "sx_thread_id x = t" and "\<not> sx_is_archived x"
  shows "snd (archive_session t db) \<and> get_session_title t (fst (archive_session t db)) = None \<and>
    unarchive_session t (fst (archive_session t db)) = (db, True)"
proof -
  have same: "y = x" if "y \<in> set (db_sessions db)" "sx_thread_id y = t" for y
    using assms(1-3) that by (metis distinct_map inj_onD)
  have "map (\<lambda>y. if sx_thread_id y = t \<and> sx_is_archived y then y\<lparr>sx_is_archived := False\<rparr> else y)
      (map (\<lambda>y. if sx_thread_id y = t \<and> \<not> sx_is_archived y then y\<lparr>sx_is_archived := True\<rparr> else y) (db_sessions db)) = db_sessions db"
    unfolding map_map by (rule map_idI) (use same assms(4) in auto)
  then have rows: "db_sessions (fst (unarchive_session t (fst (archive_session t db)))) = db_sessions db"
    by (simp add: archive_session_def unarchive_session_def update_sessions_def)
  have first: "snd (archive_session t db)"
    using assms(2-4) by (auto simp: archive_session_def update_sessions_def list_ex_iff)
  have archived: "sx_is_archived y" if y: "y \<in> set (db_sessions (fst (archive_session t db)))" "sx_thread_id y = t" for y
  proof -
    from y(1) have "(\<exists>x. y = x\<lparr>sx_is_archived := True\<rparr>) \<or> (sx_thread_id y = t \<longrightarrow> sx_is_archived y)"
      unfolding archive_session_def update_sessions_def by (simp add: image_iff) blast
    with y(2) show ?thesis by auto
  qed
  have "find (\<lambda>x. sx_thread_id x = t \<and> \<not> sx_is_archived x) (db_sessions (fst (archive_session t db))) = None"
    unfolding find_None_iff using archived by blast
  then have "get_session_title t (fst (archive_session t db)) = None" by (simp add: get_session_title_def)
  moreover have "snd (unarchive_session t (fst (archive_session t db)))"
  proof -
    let ?f = "\<lambda>y. if sx_thread_id y = t \<and> \<not> sx_is_archived y then y\<lparr>sx_is_archived := True\<rparr> else y"
    have "?f x \<in> ?f ` set (db_sessions db)" using assms(2) by (rule imageI)
    then have "\<exists>y\<in>?f ` set (db_sessions db). sx_thread_id y = t \<and> sx_is_archived y"
      by (rule rev_bexI) (use assms(3,4) in simp)
    moreover have "set (db_sessions (fst (archive_session t db))) = ?f ` set (db_sessions db)"
      by (simp add: archive_session_def update_sessions_def)
    ultimately show ?thesis
      unfolding unarchive_session_def update_sessions_def list_ex_iff by (simp only: snd_conv)
  qed
  moreover have "db_messages (fst (unarchive_session t (fst (archive_session t db)))) = db_messages db"
    by (simp add: archive_session_def unarchive_session_def update_sessions_def)
  ultimately show ?thesis using rows first by (simp add: prod_eq_iff)
qed

theorem archive_roundtrip_witness:
  "let x = \<lparr>sx_thread_id = ''t'', sx_user_id = ''anonymous'', sx_user_dept = None, sx_title = Some ''q'', sx_is_archived = False,
            sx_created_at = 1, sx_last_active = 1\<rparr>; db = \<lparr>db_messages = [], db_sessions = [x]\<rparr>
   in unarchive_session ''t'' (fst (archive_session ''t'' db)) = (db, True)"
  using archive_roundtrip [of "\<lparr>db_messages = [], db_sessions = [\<lparr>sx_thread_id = ''t'', sx_user_id = ''anonymous'', sx_user_dept = None,
      sx_title = Some ''q'', sx_is_archived = False, sx_created_at = 1, sx_last_active = 1\<rparr>]\<rparr>"] by (simp add: Let_def)

text \<open>
  One message without a summary hides its whole session.  The metadata of a turn without a
  process summary holds a JSON \<open>null\<close> for it; where the server refuses to delete a path in a
  scalar, the query for the session's messages fails for every message.
\<close>
theorem null_summary_breaks_session_view:
  assumes "\<And>p. delete_path JNull p = Inl e" and "m \<in> set (thread_messages t db)"
    and "map_of (md_metadata (sm_data m)) ''process_summary'' = Some JNull"
  shows "\<exists>e'. get_session_messages_for_ui delete_path t db = Inl e'"
proof -
  have v: "view_message delete_path m = Inl e"
    by (simp add: view_message_def Let_def assms HYDRATION_PATHS_def)
  have "\<exists>e'. view_messages delete_path ms = Inl e'" if "m \<in> set ms" for ms
    using that
  proof (induction ms)
    case (Cons a ms)
    show ?case
    proof (cases "view_message delete_path a")
      case (Inr w)
      with v Cons.prems have "m \<in> set ms" by auto
      with Cons.IH Inr show ?thesis by auto
    qed simp
  qed simp
  with assms(2) show ?thesis by (simp add: get_session_messages_for_ui_def)
qed

definition sample_row :: "message_data \<Rightarrow> stored_message" where
  "sample_row d = \<lparr>sm_data = d, sm_seq = 1, sm_uuid = ''u'', sm_created_at = 1, sm_is_liked = None, sm_feedback = None,
     sm_liked_at = None, sm_is_downloaded = False, sm_downloaded_at = None\<rparr>"

theorem null_summary_breaks_session_view_witness:
  "\<exists>e'. get_session_messages_for_ui (\<lambda>v p. if v = JNull then Inl OtherError else Inr v) ''t''
     \<lparr>db_messages = [sample_row ((sample_message ''t'' ''a'')\<lparr>md_metadata := [(''process_summary'', JNull)]\<rparr>)], db_sessions = []\<rparr> = Inl e'"
  by (rule null_summary_breaks_session_view [where e = OtherError
        and m = "sample_row ((sample_message ''t'' ''a'')\<lparr>md_metadata := [(''process_summary'', JNull)]\<rparr>)"])
    (simp_all add: thread_messages_def sample_row_def sample_message_def)

text \<open>With a buffer of size 0 nothing is dropped: \<open>unsaved[-0:]\<close> is the whole list.\<close>

theorem zero_buffer_keeps_all: "kept_unsaved 0 ms = ms"
  by (simp add: kept_unsaved_def last_items_def)

end
