(* ===== verification/ProcessSummary.thy ===== *)
theory ProcessSummary imports Normalization SqlFormatter ContextInterpreter Snapshots ResponseFormat begin

text \<open>
  The summary of a turn's work, \<open>src/src/services/process_summary_builder.py\<close>, that the clients
  show and the message store keeps, with the dumps of the models it contains
  (\<open>model_dump(mode="json")\<close>).  The tables a statement reads are an answer of the parser
  \<open>sqlglot\<close> and an argument, with the SQL parser of the formatter and the depth of its calls.
\<close>

section \<open>Dumps\<close>

definition dump_intent_slot :: "intent_slot \<Rightarrow> json" where
  "dump_intent_slot i = JObj [(''primary'', JStr (is_primary i)), (''secondary'', jstrs (is_secondary i))]"

definition dump_entity_slot :: "entity_slot \<Rightarrow> json" where
  "dump_entity_slot e = JObj [(''term'', JStr (es_term e)), (''type'', JStr (es_type e)),
     (''confidence'', JStr (es_confidence e)), (''normalized_term'', json_option JStr (es_normalized_term e)),
     (''note'', json_option JStr (es_note e))]"

definition dump_measure_slot :: "measure_slot \<Rightarrow> json" where
  "dump_measure_slot m = JObj [(''term'', JStr (ms_term m)), (''measure_type'', JStr (ms_measure_type m)),
     (''agg_function'', JStr (ms_agg_function m)), (''confidence'', JStr (ms_confidence m)),
     (''normalized_term'', json_option JStr (ms_normalized_term m)), (''note'', json_option JStr (ms_note m))]"

definition dump_dimension_slot :: "dimension_slot \<Rightarrow> json" where
  "dump_dimension_slot d = JObj [(''term'', JStr (ds_term d)), (''role'', JStr (ds_role d)),
     (''granularity'', JStr (ds_granularity d)), (''confidence'', JStr (ds_confidence d)),
     (''normalized_term'', json_option JStr (ds_normalized_term d)),
     (''is_time_dimension'', JBool (ds_is_time_dimension d)), (''note'', json_option JStr (ds_note d))]"

definition dump_filter_slot :: "filter_slot \<Rightarrow> json" where
  "dump_filter_slot f = JObj [(''target'', JStr (fs_target f)), (''filter_type'', JStr (fs_filter_type f)),
     (''position'', JStr (fs_position f)), (''confidence'', JStr (fs_confidence f)),
     (''values'', json_option jstrs (fs_values f)), (''note'', json_option JStr (fs_note f))]"

definition dump_time_period :: "time_period \<Rightarrow> json" where
  "dump_time_period p = JObj [(''label'', JStr (tp_label p)), (''resolve'', JStr (tp_resolve p)),
     (''n'', json_option jint (tp_n p)), (''absolute_start'', json_option JStr (tp_absolute_start p)),
     (''absolute_end'', json_option JStr (tp_absolute_end p))]"

definition dump_time_slot :: "time_slot \<Rightarrow> json" where
  "dump_time_slot t = JObj [(''type'', JStr (tsl_type t)), (''base_period'', json_option dump_time_period (tsl_base_period t)),
     (''compare_period'', json_option dump_time_period (tsl_compare_period t))]"

definition dump_modifier_slot :: "modifier_slot \<Rightarrow> json" where
  "dump_modifier_slot m = JObj [(''type'', JStr (md_type m)), (''direction'', json_option JStr (md_direction m)),
     (''limit'', json_option jint (md_limit m)), (''by'', json_option JStr (md_by m)), (''note'', json_option JStr (md_note m))]"

definition dump_output_hint_slot :: "output_hint_slot \<Rightarrow> json" where
  "dump_output_hint_slot h = JObj [(''format'', JStr (oh_format h)), (''doc_type'', json_option JStr (oh_doc_type h)),
     (''expected_columns'', jstrs (oh_expected_columns h)), (''confidence'', JStr (oh_confidence h)),
     (''note'', json_option JStr (oh_note h))]"

definition dump_search_keywords :: "search_keywords \<Rightarrow> json" where
  "dump_search_keywords k = JObj [(''meta_search'', jstrs (sk_meta_search k)), (''vector_search'', JStr (sk_vector_search k)),
     (''sql_history_search'', JStr (sk_sql_history_search k))]"

definition dump_normalized_query :: "normalized_query \<Rightarrow> json" where
  "dump_normalized_query q = JObj
     [(''original_query'', JStr (nq_original_query q)), (''rewritten_query'', JStr (nq_rewritten_query q)),
      (''intent'', dump_intent_slot (nq_intent q)), (''entities'', JList (map dump_entity_slot (nq_entities q))),
      (''measures'', JList (map dump_measure_slot (nq_measures q))),
      (''dimensions'', JList (map dump_dimension_slot (nq_dimensions q))),
      (''filters'', JList (map dump_filter_slot (nq_filters q))), (''time'', dump_time_slot (nq_time q)),
      (''modifiers'', JList (map dump_modifier_slot (nq_modifiers q))),
      (''output_hint'', dump_output_hint_slot (nq_output_hint q)), (''ambiguities'', JList (nq_ambiguities q)),
      (''search_keywords'', dump_search_keywords (nq_search_keywords q))]"

definition dump_knowledge_item :: "knowledge_item \<Rightarrow> json" where
  "dump_knowledge_item k = JObj
     [(''id'', JStr (ki_id k)), (''key'', JStr (ki_key k)), (''value'', JStr (ki_value k)), (''confidence'', JNum (ki_confidence k)),
      (''status'', JStr (confidence_status_value (ki_status k))), (''source'', JStr (ki_source k)),
      (''evidence'', jstrs (ki_evidence k)), (''is_critical'', JBool (ki_is_critical k))]"

definition read_knowledge_item :: "(string \<Rightarrow> rat option) \<Rightarrow> (string \<times> json) list \<Rightarrow> knowledge_item result" where
  "read_knowledge_item num d =
     result_bind (str_at d ''id'') (\<lambda>i.
     result_bind (str_at d ''key'') (\<lambda>k.
     result_bind (str_at d ''value'') (\<lambda>v.
     result_bind (float_field num (obj_get d ''confidence'' (JNum 0))) (\<lambda>c.
     result_bind (confidence_status_of (obj_get d ''status'' (JStr ''UNRESOLVED''))) (\<lambda>st.
     result_bind (str_at d ''source'') (\<lambda>src.
     result_bind (list_field str_field (obj_get d ''evidence'' (JList []))) (\<lambda>ev.
     result_bind (bool_field (obj_get d ''is_critical'' (JBool True))) (\<lambda>cr.
       Inr \<lparr>ki_id = i, ki_key = k, ki_value = v, ki_confidence = c, ki_status = st, ki_source = src,
            ki_evidence = ev, ki_is_critical = cr\<rparr>))))))))"

text \<open>
  The decomposition is a dictionary in the program; the preparer's one has these entries.  The
  empty dictionary and the one of empty lists are the same value of the model.
\<close>

definition decomposition_dict :: "decomposition \<Rightarrow> (string \<times> json) list" where
  "decomposition_dict d =
     [(''measures'', JList (map (\<lambda>(t, a). JObj [(''term'', JStr t), (''agg_function'', JStr a)]) (dc_measures d))),
      (''filters'', JList (map (\<lambda>(t, o', v). JObj [(''term'', JStr t), (''operator'', JStr o'), (''value'', json_option jstrs v)]) (dc_filters d))),
      (''group_by'', jstrs (dc_group_by d)),
      (''order_limit'', JList (map (\<lambda>(t, v). JObj [(''type'', JStr t), (''value'', JStr v)]) (dc_order_limit d))),
      (''required_concepts'', jstrs (dc_required_concepts d)),
      (''output_hint'', JObj [(''format'', JStr (dc_output_format d)), (''doc_type'', json_option JStr (dc_doc_type d)),
                              (''expected_columns'', jstrs (dc_expected_columns d))])]"

section \<open>The parts of the summary\<close>

record summary_env =
  se_tables :: "string \<Rightarrow> string list"
  se_lib :: sql_lib
  se_depth :: nat

definition entry :: "bool \<Rightarrow> string \<Rightarrow> json \<Rightarrow> (string \<times> json) list" where
  "entry c k v = (if c then [(k, v)] else [])"

fun intent_type_value :: "intent_type \<Rightarrow> string" where
  "intent_type_value DATA_EXTRACTION = ''data_extraction''"
| "intent_type_value DATA_ANALYSIS = ''data_analysis''"
| "intent_type_value CLARIFICATION_NEEDED = ''clarification_needed''"
| "intent_type_value GENERAL_QUESTION = ''general_question''"
| "intent_type_value CASUAL_TALK = ''casual_talk''"
| "intent_type_value META_QUESTION = ''meta_question''"
| "intent_type_value UNKNOWN = ''unknown''"

definition INTENT_LABELS :: "(string \<times> string) list" where
  "INTENT_LABELS = [(''data_extraction'', ''data extraction''), (''data_analysis'', ''data analysis'')]"

definition build_intent_dict :: "pipeline_state \<Rightarrow> (string \<times> json) list" where
  "build_intent_dict s =
     [(''label'', JStr (case map_of INTENT_LABELS (intent_type_value (intent s)) of
                          None \<Rightarrow> intent_type_value (intent s) | Some l \<Rightarrow> l)),
      (''is_continuation'', JBool (is_continuation s))]"

definition nonempty :: "string list \<Rightarrow> string list" where
  "nonempty ts = filter (\<lambda>t. t \<noteq> []) ts"

definition build_interpretation_dict :: "pipeline_state \<Rightarrow> (string \<times> json) list" where
  "build_interpretation_dict s =
     (case normalized_query s of
        None \<Rightarrow> []
      | Some q \<Rightarrow>
          let terms = nonempty (map ms_term (nq_measures q)); items = nonempty (map fs_target (nq_filters q)) in
          entry (nq_rewritten_query q \<noteq> [] \<and> nq_rewritten_query q \<noteq> nq_original_query q) ''rewritten_query'' (JStr (nq_rewritten_query q)) @
          entry (terms \<noteq> []) ''measures'' (jstrs terms) @
          entry (items \<noteq> []) ''filters'' (jstrs items) @
          (case tsl_base_period (nq_time q) of
             None \<Rightarrow> []
           | Some p \<Rightarrow> [(''period'', JStr (if tp_label p \<noteq> [] then tp_label p else if tp_resolve p \<noteq> [] then tp_resolve p
                                         else tsl_type (nq_time q)))]) @
          entry (nq_entities q \<noteq> []) ''entities'' (jstrs (map es_term (nq_entities q))) @
          entry (nq_dimensions q \<noteq> []) ''dimensions'' (jstrs (map ds_term (nq_dimensions q))) @
          [(''_raw'', dump_normalized_query q)])"

definition turn_sql :: "reasoning_state \<Rightarrow> string option" where
  "turn_sql r = (case sql_or_none (validated_sql r) of Some q \<Rightarrow> Some q | None \<Rightarrow> sql_or_none (generated_sql r))"

definition table_label :: "table_meta \<Rightarrow> string" where
  "table_label t = (if tm_alt_name t \<noteq> [] then tm_alt_name t else if tm_description t \<noteq> [] then tm_description t else tm_table_name t)"

definition used_table :: "summary_env \<Rightarrow> reasoning_state \<Rightarrow> table_meta \<Rightarrow> bool" where
  "used_table env r t =
     (case turn_sql r of None \<Rightarrow> False | Some q \<Rightarrow> py_upper (tm_table_name t) \<in> set (map py_upper (se_tables env q)))"

definition MAX_MANUAL_LEN :: nat where "MAX_MANUAL_LEN = 60"

definition ellipsis :: string where "ellipsis = [CHR 0xE2, CHR 0x80, CHR 0xA6]"

definition short_manual :: "string \<Rightarrow> string" where
  "short_manual c = concat (take MAX_MANUAL_LEN (utf8_chars c)) @ (if py_len c > MAX_MANUAL_LEN then ellipsis else [])"

definition build_context_dict :: "summary_env \<Rightarrow> pipeline_state \<Rightarrow> (string \<times> json) list" where
  "build_context_dict env s =
     (let r = reason s;
          non_rejected = filter (\<lambda>t. tm_selection_status t \<noteq> REJECTED) (explored_tables r);
          rejected = filter (\<lambda>t. tm_selection_status t = REJECTED) (explored_tables r);
          relevant_ucs = filter uc_relevant (explored_use_cases r);
          manuals = filter (\<lambda>m. bm_selection_status m = SELECTED) (explored_biz_manuals r);
          terms = filter (\<lambda>t. bt_selection_status t = SELECTED) (explored_biz_terms r)
      in entry (non_rejected \<noteq> []) ''tables'' (JList (map (\<lambda>t. JObj
           [(''name'', JStr (tm_table_name t)), (''label'', JStr (table_label t)),
            (''status'', JStr (selection_status_value (tm_selection_status t))), (''used'', JBool (used_table env r t)),
            (''reason'', JStr (tm_selection_reason t))]) non_rejected)) @
         entry (rejected \<noteq> []) ''rejected_tables'' (JList (map (\<lambda>t. JObj
           [(''name'', JStr (tm_table_name t)), (''label'', JStr (table_label t))]) rejected)) @
         entry (relevant_ucs \<noteq> []) ''use_cases'' (jstrs (nonempty (map uc_description relevant_ucs))) @
         entry (manuals \<noteq> []) ''manuals'' (jstrs (map short_manual (nonempty (map bm_content manuals)))) @
         entry (terms \<noteq> []) ''biz_terms'' (jstrs (map bt_term terms)) @
         entry (knowledge_items r \<noteq> []) ''_knowledge_items'' (JList (map dump_knowledge_item (knowledge_items r))))"

text \<open>An inference shown to the user: question, value, source node, and a reason except for the database choice.\<close>

record inference =
  inf_question :: string
  inf_value :: string
  inf_source_node :: string
  inf_reason :: "string option"

definition inference_json :: "inference \<Rightarrow> json" where
  "inference_json i = JObj ([(''question'', JStr (inf_question i)), (''value'', JStr (inf_value i)),
     (''source_node'', JStr (inf_source_node i))] @ (case inf_reason i of None \<Rightarrow> [] | Some w \<Rightarrow> [(''reason'', JStr w)]))"

definition DB_CHOICE_QUESTION :: string where "DB_CHOICE_QUESTION = ''choice of the database''"

definition bar :: "string \<Rightarrow> string \<Rightarrow> string" where "bar a b = a @ ''|'' @ b"

definition db_choice :: "reasoning_state \<Rightarrow> string option" where
  "db_choice r =
     (case target_db_decision r of
        Some d \<Rightarrow> if td_status d = AMBIGUOUS \<and> td_decision_rationale d \<noteq> [] then Some (td_decision_rationale d) else None
      | None \<Rightarrow> None)"

definition add_inference ::
  "string \<Rightarrow> ambiguity_signal \<Rightarrow> inference list \<times> string list \<Rightarrow> inference list \<times> string list" where
  "add_inference tid sg acc =
     (case acc of (infs, seen) \<Rightarrow>
      if sg_decision sg = INFER \<and> sg_turn_id sg = Some tid then
        let key = bar (sg_question sg) (case sg_inferred_value sg of None \<Rightarrow> ''None'' | Some v \<Rightarrow> v)
        in if key \<in> set seen then (infs, seen)
           else (infs @ [\<lparr>inf_question = sg_question sg,
                          inf_value = (case sg_inferred_value sg of None \<Rightarrow> [] | Some v \<Rightarrow> v),
                          inf_source_node = sg_source_node sg, inf_reason = Some (sg_reasoning sg)\<rparr>], seen @ [key])
      else (infs, seen))"

definition inferences_of :: "pipeline_state \<Rightarrow> inference list" where
  "inferences_of s =
     (let start = (case db_choice (reason s) of
                     None \<Rightarrow> ([], [])
                   | Some w \<Rightarrow> ([\<lparr>inf_question = DB_CHOICE_QUESTION, inf_value = w, inf_source_node = ''readiness_gate'',
                                  inf_reason = None\<rparr>], [bar DB_CHOICE_QUESTION w]))
      in if turn_id s \<noteq> [] then fst (fold (add_inference (turn_id s)) (resolved_signals s) start) else fst start)"

definition overlaps :: "inference list \<Rightarrow> string \<Rightarrow> bool" where
  "overlaps infs a = list_ex (\<lambda>i. inf_value i \<noteq> [] \<and> (contains (inf_value i) a \<or> contains a (inf_value i))) infs"

definition build_ai_decision_dict :: "pipeline_state \<Rightarrow> (string \<times> json) list option" where
  "build_ai_decision_dict s =
     (let infs = inferences_of s;
          pending = filter (\<lambda>a. \<not> overlaps infs a) (pending_assumptions (reason s))
      in if infs = [] \<and> pending = [] then None
         else Some (entry (infs \<noteq> []) ''inferences'' (JList (map inference_json infs)) @
                    entry (pending \<noteq> []) ''pending_assumptions'' (jstrs pending) @
                    [(''notice'', JStr ''Say so if other criteria are wanted'')]))"

definition check_dicts :: "reasoning_state \<Rightarrow> (string \<times> json) list list" where
  "check_dicts r = concat (map (\<lambda>(k, v). case v of JObj d \<Rightarrow> [d] | _ \<Rightarrow> []) (validation_checks r))"

definition checks_summary :: "reasoning_state \<Rightarrow> string" where
  "checks_summary r =
     ''SQL validation: '' @ nat_digits (length (check_dicts r)) @ '' items, '' @
     nat_digits (length (filter (\<lambda>d. map_of d ''verdict'' = Some (JStr ''PASS'')) (check_dicts r))) @ '' passed''"

definition build_validation_dict :: "summary_env \<Rightarrow> pipeline_state \<Rightarrow> (string \<times> json) list" where
  "build_validation_dict env s =
     (let r = reason s; n = sr_row_count (sql_result s)
      in (case turn_sql r of None \<Rightarrow> [] | Some q \<Rightarrow> [(''sql'', JStr (format_sql (se_lib env) (se_depth env) True q))]) @
         (if validation_summary r \<noteq> [] then [(''summary'', JStr (validation_summary r))]
          else entry (validation_checks r \<noteq> []) ''summary'' (JStr (checks_summary r))) @
         (if 0 < n then [(''row_count'', jint n), (''row_label'', JStr (comma_int n @ '' rows found.''))]
          else [(''row_count'', jint 0), (''row_label'', JStr ''No rows found.'')]) @
         entry (vz_judgment_reason (visualization s) \<noteq> []) ''viz_judgment'' (JStr (vz_judgment_reason (visualization s))))"

definition build_process_summary :: "summary_env \<Rightarrow> pipeline_state \<Rightarrow> (string \<times> json) list option" where
  "build_process_summary env s =
     (let i = build_intent_dict s; p = build_interpretation_dict s; c = build_context_dict env s;
          v = build_validation_dict env s; d = query_decomposition (reason s)
      in if i = [] \<and> p = [] \<and> c = [] \<and> v = [] then None
         else Some ([(''intent'', JObj i), (''interpretation'', JObj p), (''context'', JObj c), (''validation'', JObj v)] @
                    (case build_ai_decision_dict s of None \<Rightarrow> [] | Some a \<Rightarrow> [(''ai_decisions'', JObj a)]) @
                    entry (d \<noteq> empty_decomposition) ''_query_decomposition'' (JObj (decomposition_dict d))))"

section \<open>Dumps are read back\<close>

lemma read_dump_intent [simp]: "read_intent_slot (dump_intent_slot i) = Inr i"
  by (simp add: read_intent_slot_def dump_intent_slot_def dump_read_simps)

lemma read_dump_entity [simp]: "read_entity_slot (dump_entity_slot e) = Inr e"
  by (simp add: read_entity_slot_def dump_entity_slot_def dump_read_simps)

lemma read_dump_measure [simp]: "read_measure_slot (dump_measure_slot m) = Inr m"
  by (simp add: read_measure_slot_def dump_measure_slot_def dump_read_simps)

lemma read_dump_dimension [simp]: "read_dimension_slot (dump_dimension_slot d) = Inr d"
  by (simp add: read_dimension_slot_def dump_dimension_slot_def dump_read_simps bool_field_def)

lemma read_dump_filter [simp]: "read_filter_slot (dump_filter_slot f) = Inr f"
  by (simp add: read_filter_slot_def dump_filter_slot_def dump_read_simps)

lemma read_dump_period [simp]: "read_time_period num (dump_time_period p) = Inr p"
  by (simp add: read_time_period_def dump_time_period_def dump_read_simps)

lemma option_periods [simp]: "option_field (read_time_period num) (json_option dump_time_period p) = Inr p"
  by (rule option_field_json_option) (simp, simp add: dump_time_period_def)

lemma read_dump_time [simp]: "read_time_slot num (dump_time_slot t) = Inr t"
  by (simp add: read_time_slot_def dump_time_slot_def dump_read_simps)

lemma read_dump_modifier [simp]: "read_modifier_slot num (dump_modifier_slot m) = Inr m"
  by (simp add: read_modifier_slot_def dump_modifier_slot_def dump_read_simps)

lemma read_dump_hint [simp]: "read_output_hint_slot (dump_output_hint_slot h) = Inr h"
  by (simp add: read_output_hint_slot_def dump_output_hint_slot_def dump_read_simps)

lemma read_dump_keywords [simp]: "read_search_keywords (dump_search_keywords k) = Inr k"
  by (simp add: read_search_keywords_def dump_search_keywords_def dump_read_simps)

definition dict_ambiguities :: "normalized_query \<Rightarrow> bool" where
  "dict_ambiguities q \<longleftrightarrow> list_all (\<lambda>a. case a of JObj d \<Rightarrow> True | _ \<Rightarrow> False) (nq_ambiguities q)"

lemma dict_field_JObj [simp]: "dict_field (JObj d) = Inr d"
  by (simp add: dict_field_def)

lemma dict_list:
  "list_all (\<lambda>a. case a of JObj d \<Rightarrow> True | _ \<Rightarrow> False) xs \<Longrightarrow> \<exists>ds. list_field dict_field (JList xs) = Inr ds \<and> map JObj ds = xs"
proof (induction xs)
  case (Cons x xs)
  then obtain ds where "list_field dict_field (JList xs) = Inr ds" "map JObj ds = xs" by auto
  moreover from Cons.prems obtain d where "x = JObj d" by (auto split: json.splits)
  ultimately show ?case by (auto simp: list_field_def intro!: exI [of _ "d # ds"])
qed (simp add: list_field_def)

lemma read_dump_query:
  assumes "dict_ambiguities q"
  shows "read_normalized_query num (dump_normalized_query q) = Inr q"
proof -
  obtain ds where "list_field dict_field (JList (nq_ambiguities q)) = Inr ds" "map JObj ds = nq_ambiguities q"
    using dict_list [of "nq_ambiguities q"] assms by (auto simp: dict_ambiguities_def)
  then show ?thesis
    by (simp add: read_normalized_query_def dump_normalized_query_def dict_field_def obj_get_def str_field_def list_field_dump)
qed

lemma read_dump_knowledge [simp]:
  "result_bind (dict_field (dump_knowledge_item k)) (read_knowledge_item num) = Inr k"
  by (cases "ki_status k")
    (simp_all add: read_knowledge_item_def dump_knowledge_item_def dump_read_simps bool_field_def float_field_def confidence_status_of_def)

end
