(* ===== verification/TurnRestore.thy ===== *)
theory TurnRestore imports ProcessSummary MessageStore ContinueOrchestrator begin

text \<open>
  The row the runner writes for an answered turn (\<open>_execute_and_finalize\<close> of
  \<open>src/src/agents/graph/runner.py\<close>) and the snapshots rebuilt from the rows when a session is
  opened again, \<open>src/src/services/turn_snapshot_store.py\<close>.  The tables and code values looked up
  again, the columns a statement names (\<open>sqlglot\<close>), and \<open>json.loads\<close> are arguments.
\<close>

section \<open>The row of an answered turn\<close>

text \<open>\<open>str\<close> of a member of the enumeration is its name, not its value.\<close>

fun intent_type_name :: "intent_type \<Rightarrow> string" where
  "intent_type_name DATA_EXTRACTION = ''DATA_EXTRACTION''"
| "intent_type_name DATA_ANALYSIS = ''DATA_ANALYSIS''"
| "intent_type_name CLARIFICATION_NEEDED = ''CLARIFICATION_NEEDED''"
| "intent_type_name GENERAL_QUESTION = ''GENERAL_QUESTION''"
| "intent_type_name CASUAL_TALK = ''CASUAL_TALK''"
| "intent_type_name META_QUESTION = ''META_QUESTION''"
| "intent_type_name UNKNOWN = ''UNKNOWN''"

definition str_intent :: "intent_type \<Rightarrow> string" where
  "str_intent i = ''IntentType.'' @ intent_type_name i"

text \<open>What the runner knows of a request, the trace handler's answers and the chosen model.\<close>

record run_info =
  rn_user_input :: string
  rn_client_ip :: "string option"
  rn_user_agent :: "string option"
  rn_latency_ms :: "int option"
  rn_exit_node :: "string option"
  rn_model_id :: string
  rn_run_id :: string
  rn_trace_files :: json
  rn_insight :: json

definition run_message :: "run_info \<Rightarrow> string \<Rightarrow> string \<Rightarrow> string \<Rightarrow> string \<Rightarrow> message_data" where
  "run_message rn t role content kind =
     \<lparr>md_thread_id = t, md_role = role, md_content = content, md_client_ip = rn_client_ip rn,
      md_user_agent = rn_user_agent rn, md_message_type = kind, md_intent = None, md_token_count = None,
      md_latency_ms = None, md_request_id = Some t, md_status = ''success'', md_error_type = None,
      md_error_message = None, md_exit_node = None, md_model_id = None, md_trace_id = None, md_executed_sql = None,
      md_sql_explanation = None, md_target_db = None, md_metadata = []\<rparr>"

definition user_message :: "run_info \<Rightarrow> string \<Rightarrow> string \<Rightarrow> message_data" where
  "user_message rn t kind = run_message rn t ''user'' (rn_user_input rn) kind"

definition answer_message :: "summary_env \<Rightarrow> run_info \<Rightarrow> string \<Rightarrow> pipeline_state \<Rightarrow> message_data" where
  "answer_message env rn t s =
     (let r = reason s
      in (run_message rn t ''assistant'' (formatted_response s) ''normal'')
         \<lparr>md_intent := Some (str_intent (intent s)), md_latency_ms := rn_latency_ms rn,
          md_status := (if status s = QS_CANCELLED then ''cancelled'' else ''success''),
          md_exit_node := rn_exit_node rn, md_model_id := Some (rn_model_id rn), md_trace_id := Some (rn_run_id rn),
          md_executed_sql := map_option (format_sql (se_lib env) (se_depth env) True) (sql_or_none (validated_sql r)),
          md_sql_explanation := Some (sql_explanation r),
          md_target_db := (if target_db r = [] then None else Some (target_db r))\<rparr>)"

definition clarification_message :: "run_info \<Rightarrow> string \<Rightarrow> json \<Rightarrow> message_data" where
  "clarification_message rn t request =
     (run_message rn t ''assistant''
        (case request of JObj d \<Rightarrow> (case obj_get d ''question'' (JStr []) of JStr q \<Rightarrow> q | _ \<Rightarrow> []) | _ \<Rightarrow> []) ''clarification'')
     \<lparr>md_metadata := [(''clarification'', request)]\<rparr>"

definition error_row :: "run_info \<Rightarrow> string \<Rightarrow> string \<Rightarrow> string \<Rightarrow> string \<Rightarrow> message_data" where
  "error_row rn t generic kind why =
     (run_message rn t ''assistant'' generic ''error'')
     \<lparr>md_status := ''failure'', md_error_type := Some kind, md_error_message := Some why\<rparr>"

definition dump_visualization :: "visualization_data \<Rightarrow> json" where
  "dump_visualization vz =
     JObj [(''svg_code'', JStr (vz_svg_code vz)), (''chart_type'', JStr (visualization_type_value (vz_chart_type vz))),
           (''title'', JStr (vz_title vz)), (''judgment_reason'', JStr (vz_judgment_reason vz))]"

definition dump_trace_entry :: "trace_entry \<Rightarrow> json" where
  "dump_trace_entry e = JObj [(''node'', JStr (te_node e)), (''action'', JStr (te_action e)),
     (''detail'', JStr (te_detail e)), (''timestamp'', JStr (te_timestamp e))]"

definition answer_metadata :: "run_info \<Rightarrow> pipeline_state \<Rightarrow> (string \<times> json) list" where
  "answer_metadata rn s =
     [(''trace_log'', JList (map dump_trace_entry (trace_log s))), (''insight'', rn_insight rn),
      (''visualization'', dump_visualization (visualization s)),
      (''sql_result'', JObj [(''columns'', jstrs (sr_columns (sql_result s))), (''row_count'', jint (sr_row_count (sql_result s)))]),
      (''trace_files'', rn_trace_files rn),
      (''result_data'', json_option id (result_data s)), (''process_summary'', json_option id (process_summary s))]"

text \<open>
  The end of a turn that returned a state, with a pool of connections: the user's message unless
  it was stored at the start, the answer, and the metadata of the answer when that was stored.
\<close>

definition store_answer ::
  "int \<Rightarrow> nat \<Rightarrow> (nat \<Rightarrow> insert_outcome) \<Rightarrow> (nat \<Rightarrow> insert_outcome) \<Rightarrow> bool \<Rightarrow> summary_env \<Rightarrow> run_info \<Rightarrow> bool \<Rightarrow>
   string \<Rightarrow> pipeline_state \<Rightarrow> store_state \<Rightarrow> store_state \<times> string option" where
  "store_answer max_pending now user_answer answer meta_fails env rn saved_early t s st =
     (let st1 = (if saved_early then st else fst (save_message max_pending now user_answer (user_message rn t ''normal'') st))
      in case save_message max_pending now answer (answer_message env rn t s) st1 of (st2, saved) \<Rightarrow>
         (case saved of
            None \<Rightarrow> (st2, None)
          | Some (uuid, n) \<Rightarrow>
              (case uuid of
                 None \<Rightarrow> (st2, None)
               | Some u \<Rightarrow> (st2\<lparr>ss_db := update_message_metadata meta_fails u (answer_metadata rn s) (ss_db st2)\<rparr>, Some u))))"

section \<open>Rows of past turns\<close>

record turn_row =
  tr_seq :: int
  tr_intent :: "string option"
  tr_executed_sql :: "string option"
  tr_sql_explanation :: "string option"
  tr_target_db :: "string option"
  tr_result_data :: json
  tr_visualization :: json
  tr_process_summary :: json

definition turn_row_of :: "stored_message \<Rightarrow> turn_row" where
  "turn_row_of m =
     (let d = sm_data m
      in \<lparr>tr_seq = sm_seq m, tr_intent = md_intent d, tr_executed_sql = md_executed_sql d,
          tr_sql_explanation = md_sql_explanation d, tr_target_db = md_target_db d,
          tr_result_data = obj_get (md_metadata d) ''result_data'' JNull,
          tr_visualization = obj_get (md_metadata d) ''visualization'' JNull,
          tr_process_summary = obj_get (md_metadata d) ''process_summary'' JNull\<rparr>)"

definition answered_turn :: "stored_message \<Rightarrow> bool" where
  "answered_turn m \<longleftrightarrow> md_role (sm_data m) = ''assistant'' \<and> md_message_type (sm_data m) = ''normal'' \<and>
     md_status (sm_data m) = ''success'' \<and> md_executed_sql (sm_data m) \<noteq> None"

definition MAX_SNAPSHOTS :: nat where "MAX_SNAPSHOTS = 4"

definition fetch_assistant_rows :: "string \<Rightarrow> nat \<Rightarrow> message_db \<Rightarrow> turn_row list" where
  "fetch_assistant_rows t n db =
     map turn_row_of (take n (sort_key (\<lambda>m. - sm_seq m) (filter answered_turn (thread_messages t db))))"

definition asked_before :: "int \<Rightarrow> stored_message \<Rightarrow> bool" where
  "asked_before n m \<longleftrightarrow> sm_seq m < n \<and> md_role (sm_data m) = ''user'' \<and> md_message_type (sm_data m) = ''normal''"

definition fetch_user_seq :: "string \<Rightarrow> message_db \<Rightarrow> int \<Rightarrow> int option" where
  "fetch_user_seq t db n =
     (case map sm_seq (filter (asked_before n) (thread_messages t db)) of [] \<Rightarrow> None | k # ks \<Rightarrow> Some (fold max ks k))"

section \<open>Reading a row\<close>

text \<open>\<open>json.loads\<close> is a partial function: no value is its error.\<close>

definition safe_dict :: "(string \<Rightarrow> json option) \<Rightarrow> json \<Rightarrow> (string \<times> json) list option result" where
  "safe_dict loads v =
     (case v of
        JObj d \<Rightarrow> Inr (Some d)
      | JStr t \<Rightarrow> (case loads t of Some (JObj d) \<Rightarrow> Inr (Some d) | _ \<Rightarrow> Inl ValueError)
      | _ \<Rightarrow> Inr None)"

definition if_dict :: "(string \<Rightarrow> json option) \<Rightarrow> json \<Rightarrow> 'a \<Rightarrow> ((string \<times> json) list \<Rightarrow> 'a result) \<Rightarrow> 'a result" where
  "if_dict loads v d f = result_bind (safe_dict loads v) (\<lambda>ps. case ps of None \<Rightarrow> Inr d | Some e \<Rightarrow> f e)"

text \<open>\<open>(d.get(k) or {}).get(k')\<close>\<close>

definition sub_get :: "(string \<times> json) list \<Rightarrow> string \<Rightarrow> string \<Rightarrow> json result" where
  "sub_get d k k' = json_get (py_or (obj_get d k JNull) (JObj [])) k' JNull"

definition used_names :: "json \<Rightarrow> json list" where
  "used_names v =
     (case v of
        JObj e \<Rightarrow> if json_true (obj_get e ''used'' JNull) \<and> json_true (obj_get e ''name'' JNull) then [obj_get e ''name'' JNull] else []
      | _ \<Rightarrow> [])"

definition extract_table_names :: "(string \<Rightarrow> json option) \<Rightarrow> json \<Rightarrow> json list result" where
  "extract_table_names loads ps =
     if_dict loads ps [] (\<lambda>d.
       result_bind (sub_get d ''context'' ''tables'') (\<lambda>tables.
       result_bind (json_iter (py_or tables (JList []))) (\<lambda>ts. Inr (concat (map used_names ts)))))"

definition CODE_SUFFIXES :: "string list" where
  "CODE_SUFFIXES = [''_CD'', ''_TP'', ''_FG'', ''_TYPE'', ''_CODE'', ''_FLAG'', ''_KD'', ''_KND'', ''_STAT'', ''_STS'', ''_GB'', ''_GBN'']"

text \<open>
  The pattern of code columns, on column names of one line; letters outside ASCII that fold to
  letters of a suffix do not count.
\<close>

definition is_code_column :: "string \<Rightarrow> bool" where
  "is_code_column c \<longleftrightarrow> list_ex (\<lambda>x. length x < length c \<and> ends_with (py_upper c) x) CODE_SUFFIXES"

definition extract_code_columns :: "(string \<Rightarrow> string list) \<Rightarrow> string \<Rightarrow> string list" where
  "extract_code_columns columns q = (if q = [] then [] else map py_upper (filter is_code_column (columns q)))"

definition all_intents :: "intent_type list" where
  "all_intents = [DATA_EXTRACTION, DATA_ANALYSIS, CLARIFICATION_NEEDED, GENERAL_QUESTION, CASUAL_TALK, META_QUESTION, UNKNOWN]"

definition parse_intent :: "string \<Rightarrow> intent_type result" where
  "parse_intent raw =
     (if raw = [] then Inr UNKNOWN
      else case find (\<lambda>i. intent_type_value i = raw) all_intents of None \<Rightarrow> Inl ValueError | Some i \<Rightarrow> Inr i)"

definition inferred_signal :: "json \<Rightarrow> json list" where
  "inferred_signal v =
     (case v of
        JObj e \<Rightarrow>
          if obj_get e ''source_node'' JNull = JStr ''intent_classifier'' then []
          else [JObj [(''question'', obj_get e ''question'' (JStr [])), (''value'', obj_get e ''value'' (JStr [])),
                      (''source_node'', obj_get e ''source_node'' (JStr [])),
                      (''reason'', py_or (obj_get e ''reason'' JNull) (obj_get e ''reasoning'' (JStr [])))]]
      | _ \<Rightarrow> [])"

definition extract_signals :: "(string \<Rightarrow> json option) \<Rightarrow> json \<Rightarrow> json list result" where
  "extract_signals loads ps =
     if_dict loads ps [] (\<lambda>d.
       result_bind (sub_get d ''ai_decisions'' ''inferences'') (\<lambda>infs.
       result_bind (json_iter (py_or infs (JList []))) (\<lambda>vs. Inr (concat (map inferred_signal vs)))))"

definition extract_normalized_query ::
  "(string \<Rightarrow> json option) \<Rightarrow> (string \<Rightarrow> rat option) \<Rightarrow> json \<Rightarrow> normalized_query option result" where
  "extract_normalized_query loads num ps =
     if_dict loads ps None (\<lambda>d.
       result_bind (sub_get d ''interpretation'' ''_raw'') (\<lambda>raw.
         case raw of
           JObj (x # xs) \<Rightarrow> result_bind (read_normalized_query num raw) (\<lambda>q. Inr (Some q))
         | _ \<Rightarrow> Inr None))"

definition dicts_of :: "json list \<Rightarrow> (string \<times> json) list list" where
  "dicts_of vs = concat (map (\<lambda>v. case v of JObj d \<Rightarrow> [d] | _ \<Rightarrow> []) vs)"

definition extract_knowledge_items ::
  "(string \<Rightarrow> json option) \<Rightarrow> (string \<Rightarrow> rat option) \<Rightarrow> json \<Rightarrow> knowledge_item list result" where
  "extract_knowledge_items loads num ps =
     if_dict loads ps [] (\<lambda>d.
       result_bind (sub_get d ''context'' ''_knowledge_items'') (\<lambda>raw.
         case raw of
           JList vs \<Rightarrow> map_result (read_knowledge_item num) (dicts_of vs)
         | _ \<Rightarrow> Inr []))"

definition extract_query_decomposition :: "(string \<Rightarrow> json option) \<Rightarrow> json \<Rightarrow> (string \<times> json) list result" where
  "extract_query_decomposition loads ps =
     if_dict loads ps [] (\<lambda>d. Inr (case obj_get d ''_query_decomposition'' JNull of JObj e \<Rightarrow> e | _ \<Rightarrow> []))"

section \<open>Looking tables and codes up again\<close>

record restore_env =
  re_pool :: bool
  re_rows_fail :: bool
  re_seqs_fail :: bool
  re_settings :: settings
  re_loads :: "string \<Rightarrow> json option"
  re_num :: "string \<Rightarrow> rat option"
  re_columns :: "string \<Rightarrow> string list"
  re_table_meta :: "json \<Rightarrow> json result"
  re_code_meta :: "string \<Rightarrow> json result"

definition build_code_meta :: "string \<Rightarrow> json \<Rightarrow> code_meta result" where
  "build_code_meta col raw =
     result_bind (json_get raw ''column_desc'' JNull) (\<lambda>d1.
     result_bind (json_get raw ''description'' JNull) (\<lambda>d2.
     result_bind (json_get raw ''codes'' JNull) (\<lambda>cs.
     result_bind (str_field (py_or d1 (py_or d2 (JStr [])))) (\<lambda>desc.
     result_bind (case py_or cs (JObj []) of JObj d \<Rightarrow> Inr d | _ \<Rightarrow> Inl ValueError) (\<lambda>codes.
     result_bind (map_result (\<lambda>kv. result_bind (str_field (snd kv)) (\<lambda>t. Inr (fst kv, t))) codes) (\<lambda>texts.
       Inr \<lparr>cm_column_name = col, cm_column_desc = desc, cm_codes = texts\<rparr>))))))"

text \<open>Names are compared to be put in order: texts with texts, numbers with numbers.\<close>

definition sortable :: "json list \<Rightarrow> bool" where
  "sortable vs \<longleftrightarrow> length (remdups vs) \<le> 1 \<or> list_all (\<lambda>v. case v of JStr t \<Rightarrow> True | _ \<Rightarrow> False) vs \<or>
     list_all (\<lambda>v. case v of JNum q \<Rightarrow> True | JBool b \<Rightarrow> True | _ \<Rightarrow> False) vs"

text \<open>
  The two indexes.  The code looks the names up in alphabetical order and here they come as the
  rows mention them: it decides only which of several malformed answers raises.
\<close>

fun index_tables :: "restore_env \<Rightarrow> json list \<Rightarrow> (json \<times> table_meta) list result" where
  "index_tables env [] = Inr []"
| "index_tables env (n # ns) =
     (case re_table_meta env n of
        Inr (JList (m # ms)) \<Rightarrow>
          result_bind (from_meta (re_settings env) m) (\<lambda>t.
          result_bind (index_tables env ns) (\<lambda>ix. Inr (case t of None \<Rightarrow> ix | Some t' \<Rightarrow> (n, t') # ix)))
      | _ \<Rightarrow> index_tables env ns)"

fun index_codes :: "restore_env \<Rightarrow> string list \<Rightarrow> (string \<times> code_meta) list result" where
  "index_codes env [] = Inr []"
| "index_codes env (c # cs) =
     (case re_code_meta env c of
        Inr (JList (m # ms)) \<Rightarrow>
          result_bind (build_code_meta c m) (\<lambda>cm. result_bind (index_codes env cs) (\<lambda>ix. Inr ((c, cm) # ix)))
      | _ \<Rightarrow> index_codes env cs)"

section \<open>Snapshots\<close>

text \<open>The snapshot of a row; its decomposition is the dictionary as it was stored.\<close>

record restored_turn =
  rt_user_message_seq :: int
  rt_intent :: intent_type
  rt_generated_sql :: "string option"
  rt_sql_explanation :: string
  rt_result_data :: "json option"
  rt_visualization :: "(string \<times> json) list option"
  rt_selected_tables :: "table_meta list"
  rt_explored_codes :: "(string \<times> code_meta) list"
  rt_normalized_query :: "normalized_query option"
  rt_knowledge_items :: "knowledge_item list"
  rt_query_decomposition :: "(string \<times> json) list"
  rt_target_db :: string
  rt_inferred_signals :: "json list"

definition text_or_empty :: "string option \<Rightarrow> string" where
  "text_or_empty v = (case v of None \<Rightarrow> [] | Some t \<Rightarrow> t)"

definition indexed :: "('k \<times> 'v) list \<Rightarrow> 'k list \<Rightarrow> ('k \<times> 'v) list" where
  "indexed ix ks = concat (map (\<lambda>k. case map_of ix k of None \<Rightarrow> [] | Some v \<Rightarrow> [(k, v)]) ks)"

definition build_snapshot_from_row ::
  "restore_env \<Rightarrow> (int \<Rightarrow> int option) \<Rightarrow> (json \<times> table_meta) list \<Rightarrow> (string \<times> code_meta) list \<Rightarrow> turn_row \<Rightarrow> restored_turn result" where
  "build_snapshot_from_row env user_seq tables codes row =
     (let ps = tr_process_summary row; loads = re_loads env; q = sql_or_none (tr_executed_sql row)
      in result_bind (parse_intent (text_or_empty (tr_intent row))) (\<lambda>i.
         result_bind (safe_dict loads (tr_result_data row)) (\<lambda>rd.
         result_bind (safe_dict loads (tr_visualization row)) (\<lambda>vz.
         result_bind (extract_table_names loads ps) (\<lambda>names.
         result_bind (extract_signals loads ps) (\<lambda>sigs.
         result_bind (extract_normalized_query loads (re_num env) ps) (\<lambda>nq.
         result_bind (extract_knowledge_items loads (re_num env) ps) (\<lambda>ks.
         result_bind (extract_query_decomposition loads ps) (\<lambda>dc.
           Inr \<lparr>rt_user_message_seq = (case user_seq (tr_seq row) of None \<Rightarrow> 0 | Some n \<Rightarrow> n), rt_intent = i,
                rt_generated_sql = q, rt_sql_explanation = text_or_empty (tr_sql_explanation row),
                rt_result_data = extract_snapshot_result_data (map_option JObj rd), rt_visualization = vz,
                rt_selected_tables = map snd (indexed tables names),
                rt_explored_codes = indexed codes (rev (remdups (rev (extract_code_columns (re_columns env) (text_or_empty q))))),
                rt_normalized_query = nq, rt_knowledge_items = ks, rt_query_decomposition = dc,
                rt_target_db = text_or_empty (tr_target_db row), rt_inferred_signals = sigs\<rparr>)))))))))"

text \<open>Rows that cannot be built are left out.\<close>

definition kept_snapshots ::
  "restore_env \<Rightarrow> (int \<Rightarrow> int option) \<Rightarrow> (json \<times> table_meta) list \<Rightarrow> (string \<times> code_meta) list \<Rightarrow> turn_row list \<Rightarrow> restored_turn list" where
  "kept_snapshots env user_seq tables codes rows =
     concat (map (\<lambda>r. case build_snapshot_from_row env user_seq tables codes r of Inl e \<Rightarrow> [] | Inr x \<Rightarrow> [x]) rows)"

definition restore_from_db :: "restore_env \<Rightarrow> string \<Rightarrow> nat \<Rightarrow> message_db \<Rightarrow> restored_turn list result" where
  "restore_from_db env t n db =
     (if \<not> re_pool env \<or> re_rows_fail env then Inr []
      else
        let rows = fetch_assistant_rows t n db;
            user_seq = (if re_seqs_fail env then (\<lambda>k. None) else fetch_user_seq t db);
            columns = concat (map (\<lambda>r. extract_code_columns (re_columns env) (text_or_empty (tr_executed_sql r))) rows)
        in result_bind (map_result (\<lambda>r. extract_table_names (re_loads env) (tr_process_summary r)) rows) (\<lambda>names.
           result_bind (map_result as_key (concat names)) (\<lambda>keys.
           if \<not> sortable keys then Inl TypeErr
           else
             result_bind (index_tables env (remdups keys)) (\<lambda>tables.
             result_bind (index_codes env (remdups columns)) (\<lambda>codes.
               Inr (sort_key rt_user_message_seq (kept_snapshots env user_seq tables codes rows)))))))"

section \<open>What is restored\<close>

declare map_of_append [simp del]

lemma map_of_entry [simp]: "map_of (entry c k v @ d) k' = (if c \<and> k' = k then Some v else map_of d k')"
  by (simp add: entry_def)

lemma map_of_entry_only [simp]: "map_of (entry c k v) k' = (if c \<and> k' = k then Some v else None)"
  by (simp add: entry_def)

lemma sub_get_dict: "map_of d k = Some (JObj p) \<Longrightarrow> sub_get d k k' = Inr (case map_of p k' of None \<Rightarrow> JNull | Some v \<Rightarrow> v)"
  by (cases p) (simp_all add: sub_get_def obj_get_def py_or_def)

lemma sub_get_none: "map_of d k = None \<Longrightarrow> sub_get d k k' = Inr JNull"
  by (simp add: sub_get_def obj_get_def py_or_def)

lemma if_dict_JObj [simp]: "if_dict loads (JObj d) x f = f d"
  by (simp add: if_dict_def safe_dict_def)

lemma summary_keys:
  assumes "build_process_summary env s = Some d"
  shows "map_of d ''interpretation'' = Some (JObj (build_interpretation_dict s))"
    and "map_of d ''context'' = Some (JObj (build_context_dict env s))"
    and "map_of d ''ai_decisions'' = map_option JObj (build_ai_decision_dict s)"
    and "map_of d ''_query_decomposition'' =
      (if query_decomposition (reason s) = empty_decomposition then None else Some (JObj (decomposition_dict (query_decomposition (reason s)))))"
  using assms by (auto simp: build_process_summary_def Let_def split: if_splits option.splits)

lemma interpretation_raw:
  "map_of (build_interpretation_dict s) ''_raw'' = map_option dump_normalized_query (normalized_query s)"
  by (auto simp: build_interpretation_dict_def Let_def split: option.split)

lemma context_knowledge:
  "map_of (build_context_dict env s) ''_knowledge_items'' =
     (if knowledge_items (reason s) = [] then None else Some (JList (map dump_knowledge_item (knowledge_items (reason s)))))"
  by (simp add: build_context_dict_def Let_def)

lemma context_tables:
  "map_of (build_context_dict env s) ''tables'' =
     (let ts = filter (\<lambda>t. tm_selection_status t \<noteq> REJECTED) (explored_tables (reason s))
      in if ts = [] then None
         else Some (JList (map (\<lambda>t. JObj
           [(''name'', JStr (tm_table_name t)), (''label'', JStr (table_label t)),
            (''status'', JStr (selection_status_value (tm_selection_status t))), (''used'', JBool (used_table env (reason s) t)),
            (''reason'', JStr (tm_selection_reason t))]) ts)))"
  by (simp add: build_context_dict_def Let_def)


lemma extract_normalized_query_summary:
  assumes "build_process_summary env s = Some d" and "\<forall>q. normalized_query s = Some q \<longrightarrow> dict_ambiguities q"
  shows "extract_normalized_query loads num (JObj d) = Inr (normalized_query s)"
proof (cases "normalized_query s")
  case None
  then show ?thesis
    by (simp add: extract_normalized_query_def sub_get_dict [OF summary_keys(1) [OF assms(1)]] interpretation_raw)
next
  case (Some q)
  then obtain x xs where raw: "dump_normalized_query q = JObj (x # xs)" by (simp add: dump_normalized_query_def)
  with read_dump_query [of q num] Some assms(2) have "read_normalized_query num (JObj (x # xs)) = Inr q" by simp
  with Some raw show ?thesis
    by (simp add: extract_normalized_query_def sub_get_dict [OF summary_keys(1) [OF assms(1)]] interpretation_raw)
qed

lemma dicts_of_map: "(\<And>x. g x = JObj (h x)) \<Longrightarrow> dicts_of (map g xs) = map h xs"
  by (induction xs) (simp_all add: dicts_of_def)

lemma read_items: "map_result (read_knowledge_item num) (dicts_of (map dump_knowledge_item ks)) = Inr ks"
proof (induction ks)
  case (Cons k ks)
  obtain e where e: "dump_knowledge_item k = JObj e" by (simp add: dump_knowledge_item_def)
  have "read_knowledge_item num e = Inr k" using read_dump_knowledge [of k num] e by simp
  with Cons e show ?case by (simp add: dicts_of_def)
qed (simp add: dicts_of_def)

lemma extract_knowledge_summary:
  assumes "build_process_summary env s = Some d"
  shows "extract_knowledge_items loads num (JObj d) = Inr (knowledge_items (reason s))"
  by (simp add: extract_knowledge_items_def sub_get_dict [OF summary_keys(2) [OF assms]] context_knowledge read_items)

lemma extract_decomposition_summary:
  assumes "build_process_summary env s = Some d"
  shows "extract_query_decomposition loads (JObj d) =
    Inr (if query_decomposition (reason s) = empty_decomposition then [] else decomposition_dict (query_decomposition (reason s)))"
  by (simp add: extract_query_decomposition_def obj_get_def summary_keys(4) [OF assms])

lemma used_names_map:
  "concat (map used_names (map (\<lambda>t. JObj
     [(''name'', JStr (nm t)), (''label'', l t), (''status'', st t), (''used'', JBool (u t)), (''reason'', w t)]) ts)) =
   map (JStr \<circ> nm) (filter (\<lambda>t. u t \<and> nm t \<noteq> []) ts)"
  by (induction ts) (simp_all add: used_names_def obj_get_def)

lemma extract_tables_summary:
  assumes "build_process_summary env s = Some d"
  shows "extract_table_names loads (JObj d) =
    Inr (map (JStr \<circ> tm_table_name) (filter (\<lambda>t. used_table env (reason s) t \<and> tm_table_name t \<noteq> [])
      (filter (\<lambda>t. tm_selection_status t \<noteq> REJECTED) (explored_tables (reason s)))))"
  by (simp add: extract_table_names_def sub_get_dict [OF summary_keys(2) [OF assms]] context_tables Let_def py_or_def
      used_names_map del: map_map filter_filter)


definition restored_signal :: "inference \<Rightarrow> json" where
  "restored_signal i = JObj [(''question'', JStr (inf_question i)), (''value'', JStr (inf_value i)),
     (''source_node'', JStr (inf_source_node i)), (''reason'', JStr (text_or_empty (inf_reason i)))]"

lemma inferred_signal_json:
  "inferred_signal (inference_json i) = (if inf_source_node i = ''intent_classifier'' then [] else [restored_signal i])"
  by (cases "inf_reason i") (auto simp: inferred_signal_def inference_json_def restored_signal_def obj_get_def py_or_def text_or_empty_def)

lemma inferred_signals_json:
  "concat (map inferred_signal (map inference_json is)) =
     map restored_signal (filter (\<lambda>i. inf_source_node i \<noteq> ''intent_classifier'') is)"
  by (induction "is") (simp_all add: inferred_signal_json)

lemma extract_signals_summary:
  assumes "build_process_summary env s = Some d"
  shows "extract_signals loads (JObj d) =
    Inr (map restored_signal (filter (\<lambda>i. inf_source_node i \<noteq> ''intent_classifier'') (inferences_of s)))"
proof (cases "build_ai_decision_dict s")
  case None
  then have "inferences_of s = []" by (auto simp: build_ai_decision_dict_def Let_def split: if_splits)
  with None show ?thesis
    by (simp add: extract_signals_def sub_get_none summary_keys(3) [OF assms] py_or_def)
next
  case (Some a)
  then have "map_of a ''inferences'' =
      (if inferences_of s = [] then None else Some (JList (map inference_json (inferences_of s))))"
    by (auto simp: build_ai_decision_dict_def Let_def split: if_splits)
  with Some show ?thesis
    by (simp add: extract_signals_def sub_get_dict [of d _ a] summary_keys(3) [OF assms] py_or_def inferred_signals_json del: map_map)
qed

definition hydrated :: "pipeline_state \<Rightarrow> restored_turn \<Rightarrow> bool" where
  "hydrated s x \<longleftrightarrow> rt_normalized_query x = sn_normalized_query (build_snapshot s) \<and>
     rt_knowledge_items x = sn_knowledge_items (build_snapshot s) \<and>
     rt_query_decomposition x = (if sn_query_decomposition (build_snapshot s) = empty_decomposition then []
                                 else decomposition_dict (sn_query_decomposition (build_snapshot s))) \<and>
     rt_inferred_signals x =
       map restored_signal (filter (\<lambda>i. inf_source_node i \<noteq> ''intent_classifier'') (inferences_of s))"

text \<open>
  C16: What continuing a conversation needs survives the store.  When a row with the summary the builder
  made of a turn is restored, the query as it was understood, the knowledge gathered and the
  decomposition are those of the snapshot that was kept in memory, and the guesses are the ones
  shown to the user without those of the intent classifier.
\<close>
theorem hydration_roundtrip:
  assumes "build_process_summary env s = Some d" and "\<forall>q. normalized_query s = Some q \<longrightarrow> dict_ambiguities q"
    and "build_snapshot_from_row renv user_seq tables codes (row\<lparr>tr_process_summary := JObj d\<rparr>) = Inr x"
  shows "hydrated s x"
  using assms(3)
  by (auto simp: build_snapshot_from_row_def Let_def result_bind_Inr_iff hydrated_def build_snapshot_def
      extract_normalized_query_summary [OF assms(1,2)] extract_knowledge_summary [OF assms(1)]
      extract_decomposition_summary [OF assms(1)] extract_signals_summary [OF assms(1)])

section \<open>What is not restored\<close>

lemma map_result_fails: "x \<in> set xs \<Longrightarrow> f x = Inl e \<Longrightarrow> \<exists>e'. map_result f xs = Inl e'"
proof (induction xs)
  case (Cons y ys)
  then show ?case by (cases "f y") auto
qed simp

lemma str_intent_rejected: "parse_intent (str_intent i) = Inl ValueError"
  by (cases i) (simp_all add: parse_intent_def str_intent_def all_intents_def)

lemma intent_value_accepted: "parse_intent (intent_type_value i) = Inr i"
  by (cases i) (simp_all add: parse_intent_def all_intents_def)

definition written_by_runner :: "message_data \<Rightarrow> bool" where
  "written_by_runner d \<longleftrightarrow> (\<exists>env rn s. d = (answer_message env rn (md_thread_id d) s)\<lparr>md_metadata := md_metadata d\<rparr>)"

lemma answer_intent: "md_intent ((answer_message env rn t s)\<lparr>md_metadata := md\<rparr>) = Some (str_intent (intent s))"
  by (simp add: answer_message_def Let_def)

lemma written_intent: "written_by_runner d \<Longrightarrow> \<exists>i. md_intent d = Some (str_intent i)"
  unfolding written_by_runner_def
proof (elim exE)
  fix env rn s
  assume "d = (answer_message env rn (md_thread_id d) s)\<lparr>md_metadata := md_metadata d\<rparr>"
  from arg_cong [OF this, of md_intent] show ?thesis by (simp only: answer_intent) blast
qed

lemma fetched_row:
  "r \<in> set (fetch_assistant_rows t n db) \<Longrightarrow> \<exists>m\<in>set (thread_messages t db). answered_turn m \<and> r = turn_row_of m"
  by (auto simp: fetch_assistant_rows_def dest!: in_set_takeD)

text \<open>
  C17: No turn is ever restored from the rows the runner writes.  It stores the name of the intent's
  member, \<open>IntentType.DATA_EXTRACTION\<close>, where the reader expects its value, \<open>data_extraction\<close>; the
  reader rejects the row, and a session that is opened again starts without its earlier turns.
\<close>
theorem no_turn_restored:
  assumes "\<forall>m\<in>set (thread_messages t db). answered_turn m \<longrightarrow> written_by_runner (sm_data m)"
    and "restore_from_db env t n db = Inr xs"
  shows "xs = []"
proof -
  have "build_snapshot_from_row env us tables codes r = Inl ValueError"
    if "r \<in> set (fetch_assistant_rows t n db)" for r us tables codes
  proof -
    from fetched_row [OF that] assms(1) obtain m where "r = turn_row_of m" "written_by_runner (sm_data m)" by blast
    with written_intent obtain i where "tr_intent r = Some (str_intent i)" by (fastforce simp: turn_row_of_def Let_def)
    then show ?thesis by (simp add: build_snapshot_from_row_def text_or_empty_def str_intent_rejected Let_def)
  qed
  then have "kept_snapshots env us tables codes (fetch_assistant_rows t n db) = []" for us tables codes
    by (simp add: kept_snapshots_def)
  with assms(2) show ?thesis
    by (auto simp: restore_from_db_def Let_def result_bind_Inr_iff split: if_splits)
qed

text \<open>
  At most the requested number of turns is restored, in the order the user asked them.
\<close>
theorem restored_bounded_in_order:
  assumes "restore_from_db env t n db = Inr xs"
  shows "length xs \<le> n \<and> sorted (map rt_user_message_seq xs)"
proof -
  have "length (kept_snapshots env us tables codes rows) \<le> length rows" for us tables codes rows
    by (induction rows) (auto simp: kept_snapshots_def split: sum.splits intro: le_SucI)
  moreover have "length (fetch_assistant_rows t n db) \<le> n" by (simp add: fetch_assistant_rows_def)
  ultimately have "length (kept_snapshots env us tables codes (fetch_assistant_rows t n db)) \<le> n" for us tables codes
    using le_trans by blast
  with assms show ?thesis
    by (auto simp: restore_from_db_def Let_def result_bind_Inr_iff split: if_splits)
qed

text \<open>
  One summary that cannot be read loses every turn.  The names of the tables are taken from all
  rows before the first is built, outside the handler that is to skip a single turn.
\<close>
theorem corrupt_summary_loses_all:
  assumes "re_pool env" and "\<not> re_rows_fail env" and "row \<in> set (fetch_assistant_rows t n db)"
    and "tr_process_summary row = JStr v" and "re_loads env v = None"
  shows "\<exists>e. restore_from_db env t n db = Inl e"
proof -
  have "extract_table_names (re_loads env) (tr_process_summary row) = Inl ValueError"
    by (simp add: extract_table_names_def if_dict_def safe_dict_def assms(4,5))
  with assms(3) obtain e where
    "map_result (\<lambda>r. extract_table_names (re_loads env) (tr_process_summary r)) (fetch_assistant_rows t n db) = Inl e"
    using map_result_fails [of row _ "\<lambda>r. extract_table_names (re_loads env) (tr_process_summary r)" ValueError] by blast
  with assms(1,2) show ?thesis by (simp add: restore_from_db_def Let_def)
qed


section \<open>Witnesses\<close>

definition sample_summary_env :: summary_env where
  "sample_summary_env = \<lparr>se_tables = (\<lambda>q. [''LOAN'']), se_lib = \<lparr>lib_parse = (\<lambda>q. Inl ParseError), lib_identifiers = id\<rparr>, se_depth = 1\<rparr>"

definition sample_restore_env :: "settings \<Rightarrow> restore_env" where
  "sample_restore_env cfg = \<lparr>re_pool = True, re_rows_fail = False, re_seqs_fail = False, re_settings = cfg, re_loads = (\<lambda>t. None),
     re_num = (\<lambda>t. None), re_columns = (\<lambda>q. []), re_table_meta = (\<lambda>n. Inr (JList [])), re_code_meta = (\<lambda>c. Inr (JList []))\<rparr>"

definition sample_run :: run_info where
  "sample_run = \<lparr>rn_user_input = ''loans'', rn_client_ip = None, rn_user_agent = None, rn_latency_ms = None, rn_exit_node = None,
     rn_model_id = ''m'', rn_run_id = ''r'', rn_trace_files = JList [], rn_insight = JObj []\<rparr>"

definition stored_turn :: pipeline_state where
  "stored_turn = new_pipeline_state\<lparr>intent := DATA_EXTRACTION, normalized_query := Some (new_normalized_query ''loans''),
     reason := new_reasoning_state\<lparr>validated_sql := Some ''SELECT 1'', knowledge_items := [new_knowledge_item ''k'' CONFIRMED]\<rparr>\<rparr>"

lemma summary_exists: "\<exists>d. build_process_summary env s = Some d"
  by (simp add: build_process_summary_def build_intent_dict_def Let_def)

lemma stored_turn_dicts: "\<forall>q. normalized_query stored_turn = Some q \<longrightarrow> dict_ambiguities q"
  by (simp add: stored_turn_def dict_ambiguities_def new_normalized_query_def)

definition stored_row :: turn_row where
  "stored_row = \<lparr>tr_seq = 2, tr_intent = Some ''data_extraction'', tr_executed_sql = Some ''SELECT 1'', tr_sql_explanation = None,
     tr_target_db = None, tr_result_data = JNull, tr_visualization = JNull, tr_process_summary = JNull\<rparr>"

theorem hydration_roundtrip_witness:
  "\<forall>cfg. \<exists>d x. build_process_summary sample_summary_env stored_turn = Some d \<and>
     build_snapshot_from_row (sample_restore_env cfg) (\<lambda>n. Some 1) [] [] (stored_row\<lparr>tr_process_summary := JObj d\<rparr>) = Inr x \<and>
     hydrated stored_turn x \<and> rt_knowledge_items x \<noteq> []"
proof
  fix cfg
  obtain d where d: "build_process_summary sample_summary_env stored_turn = Some d" using summary_exists by blast
  have "\<exists>x. build_snapshot_from_row (sample_restore_env cfg) (\<lambda>n. Some 1) [] [] (stored_row\<lparr>tr_process_summary := JObj d\<rparr>) = Inr x"
    using intent_value_accepted [of DATA_EXTRACTION]
    by (simp add: build_snapshot_from_row_def Let_def stored_row_def text_or_empty_def safe_dict_def
        extract_tables_summary [OF d] extract_signals_summary [OF d] extract_normalized_query_summary [OF d stored_turn_dicts]
        extract_knowledge_summary [OF d] extract_decomposition_summary [OF d])
  then obtain x where x: "build_snapshot_from_row (sample_restore_env cfg) (\<lambda>n. Some 1) [] [] (stored_row\<lparr>tr_process_summary := JObj d\<rparr>) = Inr x" by blast
  from hydration_roundtrip [OF d stored_turn_dicts x] have h: "hydrated stored_turn x" .
  then have "rt_knowledge_items x \<noteq> []"
    by (simp add: hydrated_def build_snapshot_def stored_turn_def Let_def)
  with d x h show "\<exists>d x. build_process_summary sample_summary_env stored_turn = Some d \<and>
     build_snapshot_from_row (sample_restore_env cfg) (\<lambda>n. Some 1) [] [] (stored_row\<lparr>tr_process_summary := JObj d\<rparr>) = Inr x \<and>
     hydrated stored_turn x \<and> rt_knowledge_items x \<noteq> []" by blast
qed

text \<open>One turn answered and stored by the runner, its summary lost, in an otherwise empty store.\<close>

definition sample_db :: message_db where
  "sample_db = insert_message 0 ''u2'' (answer_message sample_summary_env sample_run ''t'' stored_turn) \<lparr>db_messages = [], db_sessions = []\<rparr>"

lemma sample_messages:
  "thread_messages ''t'' sample_db =
     [\<lparr>sm_data = answer_message sample_summary_env sample_run ''t'' stored_turn, sm_seq = 1, sm_uuid = ''u2'', sm_created_at = 0,
       sm_is_liked = None, sm_feedback = None, sm_liked_at = None, sm_is_downloaded = False, sm_downloaded_at = None\<rparr>]"
  by (simp add: sample_db_def thread_messages_def insert_message_def next_seq_def answer_message_def run_message_def Let_def)

lemma sample_written: "written_by_runner (answer_message sample_summary_env sample_run ''t'' stored_turn)"
  unfolding written_by_runner_def
  by (rule exI [of _ sample_summary_env], rule exI [of _ sample_run], rule exI [of _ stored_turn])
    (simp add: answer_message_def run_message_def Let_def)

lemma sample_answered:
  "answered_turn \<lparr>sm_data = answer_message sample_summary_env sample_run ''t'' stored_turn, sm_seq = 1, sm_uuid = ''u2'', sm_created_at = 0,
       sm_is_liked = None, sm_feedback = None, sm_liked_at = None, sm_is_downloaded = False, sm_downloaded_at = None\<rparr>"
  by (simp add: answered_turn_def answer_message_def run_message_def stored_turn_def new_pipeline_state_def sql_or_none_def Let_def)

lemma sample_fetched: "fetch_assistant_rows ''t'' MAX_SNAPSHOTS sample_db =
    [turn_row_of \<lparr>sm_data = answer_message sample_summary_env sample_run ''t'' stored_turn, sm_seq = 1, sm_uuid = ''u2'', sm_created_at = 0,
       sm_is_liked = None, sm_feedback = None, sm_liked_at = None, sm_is_downloaded = False, sm_downloaded_at = None\<rparr>]"
  by (simp add: fetch_assistant_rows_def sample_messages sample_answered MAX_SNAPSHOTS_def)

lemma sample_rows: "\<exists>r. fetch_assistant_rows ''t'' MAX_SNAPSHOTS sample_db = [r] \<and> tr_process_summary r = JNull"
  unfolding sample_fetched by (simp add: turn_row_of_def Let_def answer_message_def run_message_def obj_get_def)

lemma sample_restores: "\<exists>xs. restore_from_db (sample_restore_env cfg) ''t'' MAX_SNAPSHOTS sample_db = Inr xs"
proof -
  obtain r where r: "fetch_assistant_rows ''t'' MAX_SNAPSHOTS sample_db = [r]" "tr_process_summary r = JNull" using sample_rows by blast
  then show ?thesis
    by (simp add: restore_from_db_def sample_restore_env_def extract_table_names_def if_dict_def safe_dict_def
        sortable_def extract_code_columns_def Let_def)
qed

theorem no_turn_restored_witness:
  "\<forall>cfg. fetch_assistant_rows ''t'' MAX_SNAPSHOTS sample_db \<noteq> [] \<and>
   restore_from_db (sample_restore_env cfg) ''t'' MAX_SNAPSHOTS sample_db = Inr []"
proof
  fix cfg
  obtain xs where xs: "restore_from_db (sample_restore_env cfg) ''t'' MAX_SNAPSHOTS sample_db = Inr xs" using sample_restores by blast
  have "xs = []"
    by (rule no_turn_restored [OF _ xs]) (simp add: sample_messages sample_written)
  with xs sample_rows show "fetch_assistant_rows ''t'' MAX_SNAPSHOTS sample_db \<noteq> [] \<and>
   restore_from_db (sample_restore_env cfg) ''t'' MAX_SNAPSHOTS sample_db = Inr []" by auto
qed

text \<open>A row whose intent is the value of its member is restored.\<close>

definition readable_db :: message_db where
  "readable_db = insert_message 0 ''u2''
     ((answer_message sample_summary_env sample_run ''t'' stored_turn)\<lparr>md_intent := Some ''data_extraction''\<rparr>)
     \<lparr>db_messages = [], db_sessions = []\<rparr>"

lemma readable_rows:
  "\<exists>r. fetch_assistant_rows ''t'' MAX_SNAPSHOTS readable_db = [r] \<and> tr_process_summary r = JNull \<and> tr_result_data r = JNull \<and>
     tr_visualization r = JNull \<and> tr_intent r = Some ''data_extraction''"
proof -
  let ?m = "\<lparr>sm_data = (answer_message sample_summary_env sample_run ''t'' stored_turn)\<lparr>md_intent := Some ''data_extraction''\<rparr>,
       sm_seq = 1, sm_uuid = ''u2'', sm_created_at = 0,
       sm_is_liked = None, sm_feedback = None, sm_liked_at = None, sm_is_downloaded = False, sm_downloaded_at = None\<rparr>"
  have "thread_messages ''t'' readable_db = [?m]"
    by (simp add: readable_db_def thread_messages_def insert_message_def next_seq_def answer_message_def run_message_def Let_def)
  moreover have "answered_turn ?m" using sample_answered by (simp add: answered_turn_def)
  ultimately have "fetch_assistant_rows ''t'' MAX_SNAPSHOTS readable_db = [turn_row_of ?m]"
    by (simp add: fetch_assistant_rows_def MAX_SNAPSHOTS_def)
  moreover have "md_metadata (answer_message sample_summary_env sample_run ''t'' stored_turn) = []"
    by (simp add: answer_message_def run_message_def Let_def)
  ultimately show ?thesis by (simp add: turn_row_of_def Let_def obj_get_def)
qed

theorem restored_bounded_in_order_witness:
  "\<forall>cfg. \<exists>x. restore_from_db (sample_restore_env cfg) ''t'' MAX_SNAPSHOTS readable_db = Inr [x] \<and> length [x] \<le> MAX_SNAPSHOTS"
proof
  fix cfg
  obtain r where r: "fetch_assistant_rows ''t'' MAX_SNAPSHOTS readable_db = [r]" "tr_process_summary r = JNull"
    "tr_result_data r = JNull" "tr_visualization r = JNull" "tr_intent r = Some ''data_extraction''" using readable_rows by blast
  have "\<exists>x. restore_from_db (sample_restore_env cfg) ''t'' MAX_SNAPSHOTS readable_db = Inr [x]"
    using intent_value_accepted [of DATA_EXTRACTION]
    by (simp add: restore_from_db_def sample_restore_env_def extract_table_names_def if_dict_def safe_dict_def r
        sortable_def extract_code_columns_def kept_snapshots_def build_snapshot_from_row_def text_or_empty_def
        extract_signals_def extract_normalized_query_def extract_knowledge_items_def extract_query_decomposition_def Let_def)
  then obtain x where x: "restore_from_db (sample_restore_env cfg) ''t'' MAX_SNAPSHOTS readable_db = Inr [x]" by blast
  with restored_bounded_in_order [OF x] show "\<exists>x. restore_from_db (sample_restore_env cfg) ''t'' MAX_SNAPSHOTS readable_db = Inr [x] \<and>
      length [x] \<le> MAX_SNAPSHOTS" by blast
qed

text \<open>
  The statement of the row is the formatted one.  Blanks inside a text of the statement that was
  validated and executed are lost there, and the restored statement asks for something else.
\<close>
theorem stored_sql_differs:
  assumes "validated_sql (reason s) = Some (CHR 0x27 # ''A  B'' @ [CHR 0x27])" and "0 < se_depth env"
    and "lib_parse (se_lib env) (CHR 0x27 # ''A  B'' @ [CHR 0x27]) = Inr [[Leaf T_Other (CHR 0x27 # ''A  B'' @ [CHR 0x27])]]"
  shows "md_executed_sql (answer_message env rn t s) = Some (CHR 0x27 # ''A B'' @ [CHR 0x27])"
proof -
  obtain n where n: "se_depth env = Suc n" using assms(2) by (cases "se_depth env") simp_all
  have "format_sql (se_lib env) (Suc n) True (CHR 0x27 # ''A  B'' @ [CHR 0x27]) = CHR 0x27 # ''A B'' @ [CHR 0x27]"
    using assms(3) literal_blanks_collapsed [of "se_lib env" "format_sql (se_lib env) n" True]
    by (simp add: py_strip_def py_lstrip_def is_ascii_space_def)
  with assms(1) n show ?thesis
    by (simp add: answer_message_def sql_or_none_def Let_def)
qed

end
