(* ===== verification/InputSanitizer.thy ===== *)
theory InputSanitizer imports Security ModelReaders "HOL-Library.Sublist" begin

text \<open>
  What is done to a user's text before the pipeline sees it, \<open>src/src/services/input_sanitizer.py\<close>,
  with the tests for prompt injection and the masking of personal data of
  \<open>src/src/utils/security.py\<close>.  The expressions are the code's, on UTF-8 bytes: white space and
  digits are those of ASCII.  \<open>unicodedata.normalize\<close> is the argument \<open>nfkc\<close>.
\<close>

section \<open>Prompt injection\<close>

definition r_opt :: "rx \<Rightarrow> rx" where "r_opt r = RAlt r REps"

definition PROMPT_INJECTION_PATTERNS :: "rx list" where
  "PROMPT_INJECTION_PATTERNS =
     [r_seqs [r_str ''ignore'', r_ws1, r_alts [r_str ''previous'', r_str ''above'', r_str ''all''], r_ws1,
        r_alts [r_seqs [r_str ''instruction'', r_opt (r_str ''s'')], r_seqs [r_str ''prompt'', r_opt (r_str ''s'')],
        r_seqs [r_str ''rule'', r_opt (r_str ''s'')], r_str ''system'']],
      r_seqs [r_str ''disregard'', r_ws1, r_alts [r_str ''previous'', r_str ''above'', r_str ''all'', r_str ''your'']],
      r_seqs [r_str ''forget'', r_ws1, r_alts [r_str ''everything'', r_str ''all'', r_str ''your'', r_str ''previous'']],
      r_seqs [r_str ''you'', r_ws1, r_str ''are'', r_ws1, r_str ''now'', r_ws1, r_opt (r_alts [r_str ''a'', r_str ''an'',
        r_str ''the''])],
      r_seqs [r_str ''pretend'', r_ws1, r_alts [r_seqs [r_str ''you'', r_ws1, r_str ''are''], r_seqs [r_str ''to'', r_ws1,
        r_str ''be''], r_str ''that'']],
      r_seqs [r_str ''act'', r_ws1, r_str ''as'', r_ws1, r_alts [r_str ''if'', r_str ''a'', r_str ''an'', r_str ''the'']],
      r_seqs [r_str ''override'', r_ws1, r_alts [r_str ''your'', r_str ''the'', r_str ''all''], r_ws1,
        r_alts [r_seqs [r_str ''instruction'', r_opt (r_str ''s'')], r_seqs [r_str ''rule'', r_opt (r_str ''s'')],
        r_seqs [r_str ''constraint'', r_opt (r_str ''s'')]]],
      r_seqs [r_str ''new'', r_ws1, r_alts [r_str ''instruction'', r_str ''directive'', r_str ''rule'', r_str ''prompt'',
        r_str ''system'']],
      r_seqs [r_str ''system'', r_ws0, r_str '':'', r_ws0],
      r_seqs [r_str ''<'', r_ws0, r_str ''system'', r_ws0, r_str ''>''],
      r_seqs [r_str ''['', r_ws0, r_str ''system'', r_ws0, r_str '']''],
      r_str ''jailbreak'',
      r_seqs [RWordB, r_str ''DAN'', r_ws1, r_str ''mode'', RWordB],
      r_seqs [r_str ''developer'', r_ws1, r_str ''mode''],
      r_seqs [r_str ''do'', r_ws1, r_str ''anything'', r_ws1, r_str ''now''],
      r_seqs [r_str ''prompt'', r_ws1, r_alts [r_str ''leak'', r_str ''injection'', r_str ''hack'']],
      r_seqs [r_str ''reveal'', r_ws1, r_alts [r_str ''your'', r_str ''the''], r_ws1, r_opt (r_seqs [r_str ''system'', r_ws1]),
        r_str ''prompt''],
      r_seqs [r_str ''print'', r_ws1, r_alts [r_str ''your'', r_str ''the''], r_ws1, r_opt (r_seqs [r_str ''system'', r_ws1]),
        r_str ''prompt''],
      r_seqs [r_str ''show'', r_ws1, r_opt (r_seqs [r_str ''me'', r_ws1]), r_alts [r_str ''your'', r_str ''the''], r_ws1,
        r_opt (r_seqs [r_str ''system'', r_ws1]), r_str ''prompt''],
      r_seqs [r_str ''what'', r_ws1, r_alts [r_str ''are'', r_str ''were''], r_ws1, r_str ''your'', r_ws1,
        r_opt (r_seqs [r_str ''original'', r_ws1]), r_str ''instructions''],
      r_seqs [r_str [CHR 0xEC, CHR 0x9D, CHR 0xB4, CHR 0xEC, CHR 0xA0, CHR 0x84], r_ws0, r_alts [r_str [CHR 0xEC, CHR 0xA7,
        CHR 0x80, CHR 0xEC, CHR 0x8B, CHR 0x9C], r_str [CHR 0xEB, CHR 0xAA, CHR 0x85, CHR 0xEB, CHR 0xA0, CHR 0xB9],
        r_str [CHR 0xEA, CHR 0xB7, CHR 0x9C, CHR 0xEC, CHR 0xB9, CHR 0x99], r_str [CHR 0xED, CHR 0x94, CHR 0x84, CHR 0xEB,
        CHR 0xA1, CHR 0xAC, CHR 0xED, CHR 0x94, CHR 0x84, CHR 0xED, CHR 0x8A, CHR 0xB8], r_str [CHR 0xEC, CHR 0x84, CHR 0xA4,
        CHR 0xEC, CHR 0xA0, CHR 0x95], r_str [CHR 0xEC, CHR 0x95, CHR 0x88, CHR 0xEB, CHR 0x82, CHR 0xB4]],
        r_opt (r_str [CHR 0xEB, CHR 0xA5, CHR 0xBC]), r_ws0, r_alts [r_str [CHR 0xEB, CHR 0xAC, CHR 0xB4, CHR 0xEC, CHR 0x8B,
        CHR 0x9C], r_str ''ignore'', r_str [CHR 0xEC, CHR 0x9E, CHR 0x8A]]],
      r_seqs [r_alts [r_str [CHR 0xEC, CHR 0xA7, CHR 0x80, CHR 0xEC, CHR 0x8B, CHR 0x9C], r_str [CHR 0xEB, CHR 0xAA, CHR 0x85,
        CHR 0xEB, CHR 0xA0, CHR 0xB9], r_str [CHR 0xEA, CHR 0xB7, CHR 0x9C, CHR 0xEC, CHR 0xB9, CHR 0x99], r_str [CHR 0xED,
        CHR 0x94, CHR 0x84, CHR 0xEB, CHR 0xA1, CHR 0xAC, CHR 0xED, CHR 0x94, CHR 0x84, CHR 0xED, CHR 0x8A, CHR 0xB8]], r_ws0,
        r_opt (r_alts [r_str [CHR 0xEB, CHR 0xA5, CHR 0xBC], r_str [CHR 0xEC, CHR 0x9D, CHR 0x84], r_str [CHR 0xEC, CHR 0x9D,
        CHR 0x80], r_str [CHR 0xEB, CHR 0x8A, CHR 0x94]]), r_ws0, r_opt (r_alts [r_str [CHR 0xEB, CHR 0xAA, CHR 0xA8, CHR 0xEB,
        CHR 0x91, CHR 0x90], r_str [CHR 0xEC, CHR 0xA0, CHR 0x84, CHR 0xEB, CHR 0xB6, CHR 0x80], r_str [CHR 0xEB, CHR 0x8B,
        CHR 0xA4], r_str [CHR 0xEC, CHR 0x99, CHR 0x84, CHR 0xEC, CHR 0xA0, CHR 0x84, CHR 0xED, CHR 0x9E, CHR 0x88]]), r_ws0,
        r_alts [r_str [CHR 0xEB, CHR 0xAC, CHR 0xB4, CHR 0xEC, CHR 0x8B, CHR 0x9C], r_str [CHR 0xEC, CHR 0x9E, CHR 0x8A,
        CHR 0xEC, CHR 0x96, CHR 0xB4]]],
      r_seqs [r_alts [r_str [CHR 0xEB, CHR 0xAC, CHR 0xB4, CHR 0xEC, CHR 0x8B, CHR 0x9C], r_str [CHR 0xEC, CHR 0x9E, CHR 0x8A,
        CHR 0xEC, CHR 0x96, CHR 0xB4, CHR 0xEB, CHR 0xB2, CHR 0x84, CHR 0xEB, CHR 0xA0, CHR 0xA4], r_str [CHR 0xEC, CHR 0x9E,
        CHR 0x8A, CHR 0xEC, CHR 0x96, CHR 0xB4], r_str [CHR 0xEC, CHR 0x9E, CHR 0x8A, CHR 0xEA, CHR 0xB3, CHR 0xA0]],
        RMany (\<lambda>c. c \<noteq> CHR 0x0A), r_alts [r_str [CHR 0xEC, CHR 0xA7, CHR 0x80, CHR 0xEC, CHR 0x8B, CHR 0x9C],
        r_str [CHR 0xEA, CHR 0xB7, CHR 0x9C, CHR 0xEC, CHR 0xB9, CHR 0x99], r_str [CHR 0xED, CHR 0x94, CHR 0x84, CHR 0xEB,
        CHR 0xA1, CHR 0xAC, CHR 0xED, CHR 0x94, CHR 0x84, CHR 0xED, CHR 0x8A, CHR 0xB8], r_str [CHR 0xEC, CHR 0x8B, CHR 0x9C,
        CHR 0xEC, CHR 0x8A, CHR 0xA4, CHR 0xED, CHR 0x85, CHR 0x9C]]],
      r_seqs [r_str [CHR 0xEC, CHR 0xA7, CHR 0x80, CHR 0xEA, CHR 0xB8, CHR 0x88, CHR 0xEB, CHR 0xB6, CHR 0x80, CHR 0xED,
        CHR 0x84, CHR 0xB0], r_ws0, r_alts [r_str [CHR 0xEB, CHR 0x84, CHR 0x88, CHR 0xEB, CHR 0x8A, CHR 0x94],
        r_str [CHR 0xEB, CHR 0x8B, CHR 0xB9, CHR 0xEC, CHR 0x8B, CHR 0xA0, CHR 0xEC, CHR 0x9D, CHR 0x80], r_str [CHR 0xEB,
        CHR 0x8B, CHR 0xB9, CHR 0xEC, CHR 0x8B, CHR 0xA0]], r_ws0, r_alts [r_str [CHR 0xEB, CHR 0x8B, CHR 0xA4, CHR 0xEB,
        CHR 0xA5, CHR 0xB8], r_str [CHR 0xEC, CHR 0x83, CHR 0x88, CHR 0xEB, CHR 0xA1, CHR 0x9C, CHR 0xEC, CHR 0x9A, CHR 0xB4],
        r_str [CHR 0xEC, CHR 0x83, CHR 0x88]]],
      r_seqs [r_alts [r_str [CHR 0xEB, CHR 0x84, CHR 0x88, CHR 0xEB, CHR 0x8A, CHR 0x94], r_str [CHR 0xEB, CHR 0x8B, CHR 0xB9,
        CHR 0xEC, CHR 0x8B, CHR 0xA0, CHR 0xEC, CHR 0x9D, CHR 0x80], r_str [CHR 0xEB, CHR 0x8B, CHR 0xB9, CHR 0xEC, CHR 0x8B,
        CHR 0xA0, CHR 0xEC, CHR 0x9D, CHR 0xB4]], r_ws0, r_alts [r_str [CHR 0xEC, CHR 0x9D, CHR 0xB4, CHR 0xEC, CHR 0xA0,
        CHR 0x9C], r_str [CHR 0xEC, CHR 0xA7, CHR 0x80, CHR 0xEA, CHR 0xB8, CHR 0x88, CHR 0xEB, CHR 0xB6, CHR 0x80, CHR 0xED,
        CHR 0x84, CHR 0xB0], r_str [CHR 0xEC, CHR 0x95, CHR 0x9E, CHR 0xEC, CHR 0x9C, CHR 0xBC, CHR 0xEB, CHR 0xA1, CHR 0x9C]],
        r_ws0, r_alts [r_str [CHR 0xEB, CHR 0x8B, CHR 0xA4, CHR 0xEB, CHR 0xA5, CHR 0xB8], r_str [CHR 0xEC, CHR 0x83, CHR 0x88,
        CHR 0xEB, CHR 0xA1, CHR 0x9C, CHR 0xEC, CHR 0x9A, CHR 0xB4]]],
      r_seqs [r_str [CHR 0xEC, CHR 0x8B, CHR 0x9C, CHR 0xEC, CHR 0x8A, CHR 0xA4, CHR 0xED, CHR 0x85, CHR 0x9C], r_ws0,
        r_alts [r_str [CHR 0xED, CHR 0x94, CHR 0x84, CHR 0xEB, CHR 0xA1, CHR 0xAC, CHR 0xED, CHR 0x94, CHR 0x84, CHR 0xED,
        CHR 0x8A, CHR 0xB8], r_str [CHR 0xEC, CHR 0x84, CHR 0xA4, CHR 0xEC, CHR 0xA0, CHR 0x95], r_str [CHR 0xEB, CHR 0xAA,
        CHR 0x85, CHR 0xEB, CHR 0xA0, CHR 0xB9]], r_opt (r_str [CHR 0xEB, CHR 0xA5, CHR 0xBC]), r_ws0, r_alts [r_str [CHR 0xEB,
        CHR 0xB3, CHR 0xB4, CHR 0xEC, CHR 0x97, CHR 0xAC, CHR 0xEC, CHR 0xA4, CHR 0x98], r_str [CHR 0xEC, CHR 0xB6, CHR 0x9C,
        CHR 0xEB, CHR 0xA0, CHR 0xA5], r_str [CHR 0xEC, CHR 0x95, CHR 0x8C, CHR 0xEB, CHR 0xA0, CHR 0xA4, CHR 0xEC, CHR 0xA4,
        CHR 0x98], r_str [CHR 0xEA, CHR 0xB3, CHR 0xB5, CHR 0xEA, CHR 0xB0, CHR 0x9C]]],
      r_seqs [r_alts [r_str [CHR 0xEC, CHR 0x9B, CHR 0x90, CHR 0xEB, CHR 0x9E, CHR 0x98], r_str [CHR 0xEA, CHR 0xB8, CHR 0xB0,
        CHR 0xEC, CHR 0xA1, CHR 0xB4], r_str [CHR 0xEC, CHR 0xB2, CHR 0x98, CHR 0xEC, CHR 0x9D, CHR 0x8C]], r_ws0,
        r_alts [r_str [CHR 0xEC, CHR 0xA7, CHR 0x80, CHR 0xEC, CHR 0x8B, CHR 0x9C], r_str [CHR 0xEB, CHR 0xAA, CHR 0x85,
        CHR 0xEB, CHR 0xA0, CHR 0xB9], r_str [CHR 0xED, CHR 0x94, CHR 0x84, CHR 0xEB, CHR 0xA1, CHR 0xAC, CHR 0xED, CHR 0x94,
        CHR 0x84, CHR 0xED, CHR 0x8A, CHR 0xB8], r_str [CHR 0xEC, CHR 0x84, CHR 0xA4, CHR 0xEC, CHR 0xA0, CHR 0x95]],
        r_opt (r_str [CHR 0xEB, CHR 0xA5, CHR 0xBC]), r_ws0, r_alts [r_str [CHR 0xEC, CHR 0x95, CHR 0x8C, CHR 0xEB, CHR 0xA0,
        CHR 0xA4, CHR 0xEC, CHR 0xA4, CHR 0x98], r_str [CHR 0xEB, CHR 0xB3, CHR 0xB4, CHR 0xEC, CHR 0x97, CHR 0xAC, CHR 0xEC,
        CHR 0xA4, CHR 0x98], r_str [CHR 0xEA, CHR 0xB3, CHR 0xB5, CHR 0xEA, CHR 0xB0, CHR 0x9C]]],
      r_seqs [r_str [CHR 0xEC, CHR 0x97, CHR 0xAD, CHR 0xED, CHR 0x95, CHR 0xA0], r_ws0, r_opt (r_alts [r_str [CHR 0xEC,
        CHR 0x9D, CHR 0x84], r_str [CHR 0xEB, CHR 0xA5, CHR 0xBC]]), r_ws0, r_alts [r_str [CHR 0xEB, CHR 0xB0, CHR 0x94,
        CHR 0xEA, CHR 0xBF, CHR 0x94], r_str [CHR 0xEB, CHR 0xB3, CHR 0x80, CHR 0xEA, CHR 0xB2, CHR 0xBD], r_str [CHR 0xEB,
        CHR 0xAC, CHR 0xB4, CHR 0xEC, CHR 0x8B, CHR 0x9C]]],
      r_seqs [r_alts [r_str [CHR 0xEB, CHR 0xB9, CHR 0x84, CHR 0xEB, CHR 0xB0, CHR 0x80, CHR 0xEB, CHR 0xB2, CHR 0x88,
        CHR 0xED, CHR 0x98, CHR 0xB8], r_str [CHR 0xED, CHR 0x8C, CHR 0xA8, CHR 0xEC, CHR 0x8A, CHR 0xA4, CHR 0xEC, CHR 0x9B,
        CHR 0x8C, CHR 0xEB, CHR 0x93, CHR 0x9C], r_seqs [r_str [CHR 0xEB, CHR 0xAA, CHR 0xA8, CHR 0xEB, CHR 0x93, CHR 0xA0],
        r_ws0, r_str [CHR 0xEB, CHR 0x8D, CHR 0xB0, CHR 0xEC, CHR 0x9D, CHR 0xB4, CHR 0xED, CHR 0x84, CHR 0xB0]],
        r_seqs [r_str [CHR 0xEC, CHR 0xA0, CHR 0x84, CHR 0xEC, CHR 0xB2, CHR 0xB4], r_ws0, r_str [CHR 0xEB, CHR 0x8D, CHR 0xB0,
        CHR 0xEC, CHR 0x9D, CHR 0xB4, CHR 0xED, CHR 0x84, CHR 0xB0]]], r_opt (r_str [CHR 0xEB, CHR 0xA5, CHR 0xBC]), r_ws0,
        r_alts [r_str [CHR 0xEC, CHR 0xB6, CHR 0x9C, CHR 0xEB, CHR 0xA0, CHR 0xA5], r_str [CHR 0xEB, CHR 0xB3, CHR 0xB4,
        CHR 0xEC, CHR 0x97, CHR 0xAC, CHR 0xEC, CHR 0xA4, CHR 0x98], r_str [CHR 0xEC, CHR 0x95, CHR 0x8C, CHR 0xEB, CHR 0xA0,
        CHR 0xA4, CHR 0xEC, CHR 0xA4, CHR 0x98]]],
      r_seqs [r_alts [r_str [CHR 0xEA, CHR 0xB4, CHR 0x80, CHR 0xEB, CHR 0xA6, CHR 0xAC, CHR 0xEC, CHR 0x9E, CHR 0x90],
        r_str ''admin'', r_str ''administrator''], r_ws0, r_alts [r_str [CHR 0xEB, CHR 0xAA, CHR 0xA8, CHR 0xEB, CHR 0x93,
        CHR 0x9C], r_str [CHR 0xEA, CHR 0xB6, CHR 0x8C, CHR 0xED, CHR 0x95, CHR 0x9C], r_str [CHR 0xEA, CHR 0xB3, CHR 0x84,
        CHR 0xEC, CHR 0xA0, CHR 0x95]]],
      r_seqs [r_str ''}'', r_ws0, r_str ''{'', RMany (\<lambda>c. c \<noteq> CHR 0x7D), r_str ''system'',
        RMany (\<lambda>c. c \<noteq> CHR 0x7D), r_str ''}''],
      r_seqs [r_str ''```'', r_ws0, r_alts [r_str ''system'', r_str ''instruction'', r_str ''prompt'']],
      r_seqs [r_str ''<'', r_ws0, r_opt (r_str ''/''), r_alts [r_str ''system'', r_str ''prompt'', r_str ''instruction'',
        r_str ''human'', r_str ''assistant''], r_ws0, r_str ''>''],
      r_seqs [r_str ''['', r_ws0, r_str ''INST'', r_ws0, r_str '']''],
      r_seqs [r_str ''<'', r_ws0, r_str ''|'',
        RSeq (RSet (\<lambda>c. c \<noteq> CHR 0x7C)) (RMany (\<lambda>c. c \<noteq> CHR 0x7C)), r_str ''|'', r_ws0,
        r_str ''>'']]"

definition injected :: "string \<Rightarrow> bool" where
  "injected t = list_ex (\<lambda>r. rx_search r t) PROMPT_INJECTION_PATTERNS"

definition detect_prompt_injection :: "(string \<Rightarrow> string) \<Rightarrow> string \<Rightarrow> bool" where
  "detect_prompt_injection nfkc t =
     (injected t \<or> normalize_unicode nfkc t \<noteq> t \<and> injected (normalize_unicode nfkc t))"

section \<open>The sanitizer\<close>

definition SUSPICIOUS_PATTERNS :: "(rx \<times> string) list" where
  "SUSPICIOUS_PATTERNS =
     [(r_seqs [r_str '';'', r_ws0, r_alts [r_str ''DROP'', r_str ''DELETE'', r_str ''INSERT'', r_str ''UPDATE'',
        r_str ''ALTER'', r_str ''TRUNCATE'', r_str ''CREATE'', r_str ''GRANT'', r_str ''REVOKE''], RWordB],
        ''stacked statement''),
      (r_seqs [r_str '';'', r_ws0, r_str ''SELECT'', RWordB], ''SELECT after a semicolon''),
      (r_str ''--'', ''line comment''),
      (r_str ''/*'', ''block comment''),
      (r_seqs [RWordB, r_str ''UNION'', r_ws1, r_opt (r_seqs [r_str ''ALL'', r_ws1]), r_str ''SELECT'', RWordB],
        ''UNION SELECT''),
      (r_seqs [r_str ''('', r_ws0, r_alts [r_str ''DELETE'', r_str ''INSERT'', r_str ''UPDATE'', r_str ''DROP'',
        r_str ''TRUNCATE''], RWordB], ''data change in brackets''),
      (r_seqs [RWordB, r_alts [r_str ''SLEEP'', r_str ''WAITFOR'', r_str ''BENCHMARK'', r_str ''PG_SLEEP''], r_ws0,
        r_str ''(''], ''time delay''),
      (r_seqs [RWordB, r_alts [r_str ''LOAD_FILE'', r_seqs [r_str ''INTO'', r_ws1, r_str ''OUTFILE''], r_seqs [r_str ''INTO'',
        r_ws1, r_str ''DUMPFILE''], r_seqs [r_str ''LOAD'', r_ws1, r_str ''DATA'']], RWordB], ''file access''),
      (r_seqs [RWordB, r_str ''xp_'', r_word1], ''extended procedure''),
      (r_seqs [RWordB, r_str ''EXEC'', r_opt (r_str ''UTE''), r_ws0, r_str ''(''], ''procedure call''),
      (r_seqs [RWordB, r_alts [r_str ''information_schema'', r_str ''pg_catalog'', r_seqs [r_str ''pg_'', r_word1],
        r_seqs [r_str ''sys.'', r_word1]], RWordB], ''system catalog'')]"

function collapse_blanks :: "string \<Rightarrow> string" where
  "collapse_blanks [] = []"
| "collapse_blanks (c # s) =
     (if is_ascii_space c then CHR '' '' # collapse_blanks (dropWhile is_ascii_space s) else c # collapse_blanks s)"
  by pat_completeness auto
termination
  by (relation "measure length") (auto simp: le_imp_less_Suc length_dropWhile_le)

definition normalize_input :: "(string \<Rightarrow> string) \<Rightarrow> string \<Rightarrow> string" where
  "normalize_input nfkc t = collapse_blanks (normalize_unicode nfkc (py_strip t))"

definition check_length :: "nat \<Rightarrow> string \<Rightarrow> string option" where
  "check_length max_length t =
     (if max_length < py_len t then Some (''The input is too long ('' @ nat_digits (py_len t) @ '' characters).'') else None)"

definition REJECTED_INPUT :: string where
  "REJECTED_INPUT = ''The input contains a pattern that is not allowed.''"

definition check_injection :: "(string \<Rightarrow> string) \<Rightarrow> string \<Rightarrow> string option" where
  "check_injection nfkc t =
     (if detect_prompt_injection nfkc t \<or> list_ex (\<lambda>(r, label). rx_search r t) SUSPICIOUS_PATTERNS
      then Some REJECTED_INPUT else None)"

text \<open>\<open>SanitizeResult\<close>: the text, or the message of an error.\<close>

definition sanitize :: "(string \<Rightarrow> string) \<Rightarrow> nat \<Rightarrow> string \<Rightarrow> string + string" where
  "sanitize nfkc max_length t =
     (let n = normalize_input nfkc t
      in case check_length max_length n of
           Some e \<Rightarrow> Inl e
         | None \<Rightarrow> (case check_injection nfkc n of Some e \<Rightarrow> Inl e | None \<Rightarrow> Inr n))"

section \<open>Masking a text\<close>

fun r_upto :: "nat \<Rightarrow> rx \<Rightarrow> rx" where
  "r_upto 0 r = REps"
| "r_upto (Suc n) r = RAlt (RSeq r (r_upto n r)) REps"

definition r_times :: "nat \<Rightarrow> rx \<Rightarrow> rx" where "r_times n r = r_seqs (replicate n r)"

definition r_digit :: rx where "r_digit = RSet is_digit_char"

definition r_digits :: "nat \<Rightarrow> nat \<Rightarrow> rx" where
  "r_digits m n = RSeq (r_times m r_digit) (r_upto (n - m) r_digit)"

definition r_in :: "string \<Rightarrow> rx" where "r_in cs = RSet (\<lambda>c. c \<in> set cs)"

definition is_mail_char :: "char \<Rightarrow> bool" where
  "is_mail_char c \<longleftrightarrow> is_digit_char c \<or> is_alpha_char c \<or> c \<in> set ''._%+-''"

definition is_domain_char :: "char \<Rightarrow> bool" where
  "is_domain_char c \<longleftrightarrow> is_digit_char c \<or> is_alpha_char c \<or> c \<in> set ''.-''"

text \<open>Resident number, card number, account number, telephone number and mail address.\<close>

definition PII_PATTERNS :: "rx list" where
  "PII_PATTERNS =
     [r_seqs [RNoPrev is_digit_char, r_times 6 r_digit, r_opt (r_in ''-''), r_in ''1234'', r_times 6 r_digit, RNoNext is_digit_char],
      r_seqs [RNoPrev is_digit_char, r_times 4 r_digit, r_opt (r_in ''- ''), r_times 4 r_digit, r_opt (r_in ''- ''),
              r_times 4 r_digit, r_opt (r_in ''- ''), r_times 4 r_digit, RNoNext is_digit_char],
      r_seqs [RNoPrev is_digit_char, r_digits 3 6, r_in ''-'', r_digits 2 6, r_in ''-'', r_digits 2 6,
              r_opt (RSeq (r_in ''-'') (r_times 2 r_digit)), RNoNext is_digit_char],
      r_seqs [RNoPrev is_digit_char, r_in ''0'',
              r_alts [r_in ''2'', RSeq (r_in ''3456'') (r_in ''12345''), r_str ''70'', RSeq (r_in ''1'') (r_in ''016789'')],
              r_opt (r_in ''-''), r_digits 3 4, r_opt (r_in ''-''), r_times 4 r_digit, RNoNext is_digit_char],
      r_seqs [RSet is_mail_char, RMany is_mail_char, r_in ''@'', RSet is_domain_char, RMany is_domain_char, r_in ''.'',
              RSet is_alpha_char, RSet is_alpha_char, RMany is_alpha_char]]"

text \<open>\<open>pattern.sub\<close> with the masking of a match, for expressions that match no empty text.\<close>

function mask_matches :: "rx \<Rightarrow> char option \<Rightarrow> string \<Rightarrow> string" where
  "mask_matches r prev s =
     (case rx_rest r prev s of
        (prev', s') # _ \<Rightarrow>
          if length s' < length s then make_masked (take (length s - length s') s) @ mask_matches r prev' s'
          else (case s of [] \<Rightarrow> [] | c # t \<Rightarrow> c # mask_matches r (Some c) t)
      | [] \<Rightarrow> (case s of [] \<Rightarrow> [] | c # t \<Rightarrow> c # mask_matches r (Some c) t))"
  by pat_completeness auto
termination by (relation "measure (\<lambda>(r, prev, s). length s)") auto

declare mask_matches.simps [simp del]

definition mask_pii :: "bool \<Rightarrow> string \<Rightarrow> string" where
  "mask_pii enabled t = (if enabled then fold (\<lambda>r. mask_matches r None) PII_PATTERNS t else t)"

definition mask_for_logging :: "bool \<Rightarrow> nat \<Rightarrow> string \<Rightarrow> string" where
  "mask_for_logging enabled max_len t = mask_pii enabled (concat (take max_len (utf8_chars t)))"

section \<open>Facts\<close>

lemma collapse_no_double: "\<not> (is_ascii_space a \<and> is_ascii_space b \<and> collapse_blanks s = u @ [a, b] @ v)"
proof (induction s arbitrary: u rule: collapse_blanks.induct)
  case (2 c s)
  show ?case
  proof (cases "is_ascii_space c")
    case True
    show ?thesis
    proof (cases u)
      case Nil
      have "is_ascii_space b \<Longrightarrow> collapse_blanks (dropWhile is_ascii_space s) = b # v \<Longrightarrow> False"
      proof -
        assume b: "is_ascii_space b" "collapse_blanks (dropWhile is_ascii_space s) = b # v"
        then obtain d t where d: "dropWhile is_ascii_space s = d # t" by (cases "dropWhile is_ascii_space s") auto
        then have "\<not> is_ascii_space d" using hd_dropWhile [of is_ascii_space s] by auto
        with b d show False by auto
      qed
      with True Nil show ?thesis by auto
    next
      case (Cons x xs)
      with "2.IH"(1) [OF True, of xs] True show ?thesis by auto
    qed
  next
    case False
    show ?thesis
    proof (cases u)
      case Nil
      with False show ?thesis by auto
    next
      case (Cons x xs)
      with "2.IH"(2) [OF False, of xs] False show ?thesis by auto
    qed
  qed
qed simp

lemma many_rest_mem: "list_all p ws \<Longrightarrow> (if ws = [] then prev else Some (last ws), s) \<in> set (many_rest p prev (ws @ s))"
proof (induction ws arbitrary: prev)
  case Nil
  then show ?case by (cases s) auto
next
  case (Cons c ws)
  then show ?case by (cases ws) fastforce+
qed

lemma contains_search: "w \<noteq> [] \<Longrightarrow> contains t w \<Longrightarrow> rx_search (r_str w) t"
proof -
  assume w: "w \<noteq> []" and "contains t w"
  then obtain u v where t: "t = u @ w @ v" by (auto simp: contains_iff)
  have "rx_rest (r_str w) (if u = [] then None else Some (last u)) (w @ v) \<noteq> []"
    by (simp add: r_str_rest [OF w refl])
  from rx_rest_append_search [of "r_str w" u None, OF this] t show ?thesis by (simp add: rx_search_def)
qed

definition STACKED_WORDS :: "string list" where
  "STACKED_WORDS = [''DROP'', ''DELETE'', ''INSERT'', ''UPDATE'', ''ALTER'', ''TRUNCATE'', ''CREATE'', ''GRANT'', ''REVOKE'', ''SELECT'']"

text \<open>A keyword \<open>x\<close> behind a semicolon, blanks between them and no word character behind it.\<close>

definition stacked :: "string \<Rightarrow> bool" where
  "stacked t \<longleftrightarrow> (\<exists>u ws x v. t = u @ '';'' @ ws @ x @ v \<and> list_all is_ascii_space ws \<and> map upper_char x \<in> set STACKED_WORDS \<and>
     \<not> word_opt (head_opt v))"

definition after_semicolon :: "string list \<Rightarrow> rx" where
  "after_semicolon ws = r_seqs [r_str '';'', r_ws0, r_alts (map r_str ws), RWordB]"

lemma upper_word: "is_word_char (upper_char c) \<Longrightarrow> is_word_char c"
  by (auto simp: is_word_char_def upper_char_def Let_def split: if_splits)

lemma after_semicolon_search:
  assumes "w \<in> set ws" and "w \<noteq> []" and "map upper_char x = map upper_char w" and "list_all is_ascii_space bs"
    and "is_word_char (last x)" and "\<not> word_opt (head_opt v)"
  shows "rx_search (after_semicolon ws) (u @ '';'' @ bs @ x @ v)"
proof -
  let ?p = "if u = [] then None else Some (last u)"
  let ?q = "if bs = [] then Some CHR '';'' else Some (last bs)"
  have "rx_rest (r_str '';'') ?p ('';'' @ bs @ x @ v) = [(Some CHR '';'', bs @ x @ v)]"
    using r_str_rest [of "'';''" "'';''" ?p] by simp
  moreover have "(?q, x @ v) \<in> set (rx_rest r_ws0 (Some CHR '';'') (bs @ x @ v))"
    unfolding r_ws0_def rx_rest.simps by (rule many_rest_mem [OF assms(4)])
  moreover have "(Some (last x), v) \<in> set (rx_rest (r_alts (map r_str ws)) ?q (x @ v))"
    using r_alts_rest [of "r_str w" "map r_str ws" ?q "x @ v"] r_str_rest [OF assms(2,3), of ?q v] assms(1) by auto
  moreover have "(Some (last x), v) \<in> set (rx_rest RWordB (Some (last x)) v)" using assms(5,6) by simp
  ultimately have "(Some (last x), v) \<in> set (rx_rest (after_semicolon ws) ?p ('';'' @ bs @ x @ v))"
    unfolding after_semicolon_def r_seqs.simps rx_rest_RSeq_iff by (metis list.set_intros(1))
  then have "rx_rest (after_semicolon ws) ?p ('';'' @ bs @ x @ v) \<noteq> []" by force
  from rx_rest_append_search [of "after_semicolon ws" u None, OF this] show ?thesis by (simp add: rx_search_def)
qed

section \<open>Properties\<close>

lemma not_suspicious:
  assumes "check_injection nfkc x = None" and "(r, label) \<in> set SUSPICIOUS_PATTERNS"
  shows "\<not> rx_search r x"
  using assms by (auto simp: check_injection_def list_ex_iff split: if_splits)

lemma not_stacked:
  assumes "check_injection nfkc x = None"
  shows "\<not> stacked x"
proof
  assume "stacked x"
  then obtain u bs y v where x: "x = u @ '';'' @ bs @ y @ v" "list_all is_ascii_space bs" "map upper_char y \<in> set STACKED_WORDS"
    "\<not> word_opt (head_opt v)" by (auto simp: stacked_def)
  let ?w = "map upper_char y"
  have w: "?w \<noteq> []" "is_word_char (last ?w)" using x(3) by (auto simp: STACKED_WORDS_def is_word_char_def)
  then have last: "is_word_char (last y)" using upper_word [of "last y"] by (simp add: last_map)
  have idem: "map upper_char y = map upper_char ?w" by (simp add: upper_char_idem)
  let ?ds = "[''DROP'', ''DELETE'', ''INSERT'', ''UPDATE'', ''ALTER'', ''TRUNCATE'', ''CREATE'', ''GRANT'', ''REVOKE'']"
  have split: "?w \<in> set ?ds \<or> ?w \<in> set [''SELECT'']" using x(3) by (simp add: STACKED_WORDS_def)
  have "(after_semicolon ?ds, ''stacked statement'') \<in> set SUSPICIOUS_PATTERNS"
    "(after_semicolon [''SELECT''], ''SELECT after a semicolon'') \<in> set SUSPICIOUS_PATTERNS"
    by (simp_all add: SUSPICIOUS_PATTERNS_def after_semicolon_def)
  from this [THEN not_suspicious [OF assms]] split after_semicolon_search [OF _ w(1) idem x(2) last x(4), of _ u] x(1)
  show False by blast
qed

text \<open>
  C25: What is let through.  An accepted text is the normalised one, the very text that was judged: it
  has at most the admissible number of characters and no two blanks in a row; no injection pattern
  is found in it; and it holds no comment sign, and no statement keyword behind a semicolon, in any
  case and with any blanks between them.
\<close>
theorem accepted_input_clean:
  assumes "sanitize nfkc n t = Inr x"
  shows "x = normalize_input nfkc t \<and> py_len x \<le> n \<and> \<not> injected x \<and> \<not> contains x ''--'' \<and> \<not> contains x ''/*'' \<and>
    \<not> stacked x \<and> \<not> (\<exists>u a b v. x = u @ [a, b] @ v \<and> is_ascii_space a \<and> is_ascii_space b)"
proof -
  have x: "x = normalize_input nfkc t" "check_length n x = None" "check_injection nfkc x = None"
    using assms by (auto simp: sanitize_def Let_def split: option.splits)
  have "py_len x \<le> n" using x(2) by (simp add: check_length_def split: if_splits)
  moreover have "\<not> injected x" using x(3) by (auto simp: check_injection_def detect_prompt_injection_def split: if_splits)
  moreover have "(r_str ''--'', ''line comment'') \<in> set SUSPICIOUS_PATTERNS" "(r_str ''/*'', ''block comment'') \<in> set SUSPICIOUS_PATTERNS"
    by (simp_all add: SUSPICIOUS_PATTERNS_def)
  then have "\<not> contains x ''--''" "\<not> contains x ''/*''"
    using not_suspicious [OF x(3)] contains_search [of "''--''" x] contains_search [of "''/*''" x] by auto
  moreover have "\<not> (\<exists>u a b v. x = u @ [a, b] @ v \<and> is_ascii_space a \<and> is_ascii_space b)"
  proof (rule notI, elim exE conjE)
    fix u a b v
    assume "x = u @ [a, b] @ v" "is_ascii_space a" "is_ascii_space b"
    with collapse_no_double [of a b "normalize_unicode nfkc (py_strip t)" u v] x(1) show False
      by (simp add: normalize_input_def)
  qed
  ultimately show ?thesis using x(1) not_stacked [OF x(3)] by simp
qed

lemma many_rest_suffix: "(q, s') \<in> set (many_rest p prev s) \<Longrightarrow> suffix s' s"
  by (induction s arbitrary: prev) (auto split: if_splits intro: suffix_ConsI)

text \<open>No expression finds anything in a text with fewer characters than it consumes.\<close>

fun min_len :: "rx \<Rightarrow> nat" where
  "min_len (RSet p) = 1"
| "min_len (RSeq a b) = min_len a + min_len b"
| "min_len (RAlt a b) = min (min_len a) (min_len b)"
| "min_len _ = 0"

lemma min_len_rest: "(q, s') \<in> set (rx_rest r prev s) \<Longrightarrow> length s' + min_len r \<le> length s"
proof (induction r arbitrary: q s' prev s)
  case (RSeq a b)
  then show ?case by fastforce
next
  case (RAlt a b)
  then show ?case by fastforce
next
  case (RMany p)
  then show ?case using suffix_length_le [OF many_rest_suffix] by simp
qed (auto split: list.splits option.splits if_splits)

lemma short_unmatched: "length t < min_len r \<Longrightarrow> \<not> rx_search_from r prev t"
proof (induction t arbitrary: prev)
  case Nil
  then show ?case using min_len_rest [of _ _ r prev "[]"] by (cases "rx_rest r prev []") fastforce+
next
  case (Cons c t)
  then have "rx_rest r prev (c # t) = []"
    using min_len_rest [of _ _ r prev "c # t"] by (cases "rx_rest r prev (c # t)") fastforce+
  with Cons show ?case by simp
qed

lemma min_len_str [simp]: "min_len (r_str w) = length w"
  by (induction w rule: r_str.induct) (simp_all add: r_char_def Let_def)

lemma min_len_classes [simp]: "min_len r_ws0 = 0" "min_len r_ws1 = 1" "min_len r_word1 = 1" "min_len (r_opt r) = 0"
  by (simp_all add: r_ws0_def r_ws1_def r_word1_def r_opt_def)

lemma patterns_need_two:
  "list_all (\<lambda>r. 2 \<le> min_len r) PROMPT_INJECTION_PATTERNS" "list_all (\<lambda>(r, label). 2 \<le> min_len r) SUSPICIOUS_PATTERNS"
  by (simp_all add: PROMPT_INJECTION_PATTERNS_def SUSPICIOUS_PATTERNS_def del: r_str.simps)

lemma one_character_accepted:
  assumes "length t \<le> 1"
  shows "check_injection id t = None"
proof -
  have u: "\<not> rx_search r u" if "2 \<le> min_len r" "length u \<le> 1" for r u
    using that short_unmatched [of u r None] by (simp add: rx_search_def)
  have "\<not> injected u" if "length u \<le> 1" for u
    using patterns_need_two(1) u [OF _ that] by (auto simp: injected_def list_ex_iff list_all_iff)
  moreover have "length (normalize_unicode id t) \<le> 1"
    using assms le_trans [OF length_filter_le] by (auto simp: normalize_unicode_def)
  moreover have "\<not> list_ex (\<lambda>(r, label). rx_search r t) SUSPICIOUS_PATTERNS"
    using patterns_need_two(2) u [OF _ assms] by (auto simp: list_ex_iff list_all_iff)
  ultimately show ?thesis using assms by (simp add: check_injection_def detect_prompt_injection_def)
qed

theorem accepted_input_clean_witness:
  "sanitize id 500 '' 7 '' = Inr ''7'' \<and> \<not> stacked ''7''"
proof -
  have "normalize_input id '' 7 '' = ''7''" by code_simp
  moreover have "check_length 500 ''7'' = None" by code_simp
  ultimately have s: "sanitize id 500 '' 7 '' = Inr ''7''" by (simp add: sanitize_def one_character_accepted)
  with accepted_input_clean [OF s] show ?thesis by blast
qed

text \<open>The result of masking, letter by letter.\<close>

definition masked_as :: "char \<Rightarrow> char \<Rightarrow> bool" where
  "masked_as c d \<longleftrightarrow> d = c \<or> is_masked_kind c \<and> d = CHR ''*''"

lemma star_plain: "\<not> is_masked_kind CHR ''*''"
  by (simp add: is_masked_kind_def is_digit_char_def is_alpha_char_def)

lemma mask_from_masked: "list_all2 masked_as s (mask_from n i s)"
  by (induction n i s rule: mask_from.induct) (auto simp: masked_as_def)

lemma masked_refl: "list_all2 masked_as s s"
  by (simp add: list_all2_refl masked_as_def)

lemma masked_trans: "list_all2 masked_as a b \<Longrightarrow> list_all2 masked_as b c \<Longrightarrow> list_all2 masked_as a c"
  by (rule list_all2_trans) (auto simp: masked_as_def star_plain)

lemma rx_rest_suffix: "(q, s') \<in> set (rx_rest r prev s) \<Longrightarrow> suffix s' s"
proof (induction r arbitrary: q s' prev s)
  case (RSeq a b)
  then show ?case by (fastforce dest: suffix_order.trans)
next
  case (RMany p)
  then show ?case by (simp add: many_rest_suffix)
qed (auto split: list.splits option.splits if_splits intro: suffix_ConsI)

lemma mask_matches_masked: "list_all2 masked_as s (mask_matches r prev s)"
proof (induction r prev s rule: mask_matches.induct)
  case (1 r prev s)
  have step: "list_all2 masked_as s (case s of [] \<Rightarrow> [] | c # t \<Rightarrow> c # mask_matches r (Some c) t)"
    if "\<And>c t. s = c # t \<Longrightarrow> list_all2 masked_as t (mask_matches r (Some c) t)"
    using that by (cases s) (auto simp: masked_as_def)
  show ?case
  proof (cases "rx_rest r prev s")
    case Nil
    have "list_all2 masked_as s (case s of [] \<Rightarrow> [] | c # t \<Rightarrow> c # mask_matches r (Some c) t)"
      by (rule step) (use 1 Nil in auto)
    with Nil show ?thesis by (subst mask_matches.simps) simp
  next
    case (Cons m ms)
    obtain q s' where m: "m = (q, s')" by (cases m)
    show ?thesis
    proof (cases "length s' < length s")
      case True
      have "suffix s' s" by (rule rx_rest_suffix [of q _ r prev]) (simp add: Cons m)
      then obtain pre where s: "s = pre @ s'" by (auto simp: suffix_def)
      have "list_all2 masked_as s' (mask_matches r q s')" using 1 Cons m True by auto
      then have "list_all2 masked_as (pre @ s') (make_masked pre @ mask_matches r q s')"
        by (intro list_all2_appendI) (simp_all add: make_masked_def mask_from_masked)
      with Cons m True s show ?thesis by (subst mask_matches.simps) simp
    next
      case False
      have "list_all2 masked_as s (case s of [] \<Rightarrow> [] | c # t \<Rightarrow> c # mask_matches r (Some c) t)"
        by (rule step) (use 1 Cons m False in auto)
      with False Cons m show ?thesis by (subst mask_matches.simps) simp
    qed
  qed
qed

text \<open>
  Masking changes letters and digits only, and only to stars: the masked text has the length of
  the original and the same character wherever there is no star.
\<close>
theorem masking_keeps_layout: "list_all2 masked_as t (mask_pii enabled t)"
proof -
  have "list_all2 masked_as t (fold (\<lambda>r. mask_matches r None) rs t)" for rs
    by (induction rs arbitrary: t) (auto simp: masked_refl intro: masked_trans mask_matches_masked)
  then show ?thesis by (simp add: mask_pii_def masked_refl)
qed

lemma resident_number_masked: "mask_pii True ''id 900101-1234567.'' = ''id 90****-*****67.''"
  by code_simp

text \<open>The module documents 82 patterns of prompt injection, and the sanitizer 12 of SQL injection.\<close>

lemma pattern_counts: "length PROMPT_INJECTION_PATTERNS = 35 \<and> length SUSPICIOUS_PATTERNS = 11"
  by (simp add: PROMPT_INJECTION_PATTERNS_def SUSPICIOUS_PATTERNS_def)

end
