(* ===== verification/Runner.thy ===== *)
theory Runner imports TurnRestore InputSanitizer CancelCheck begin

text \<open>
  One run of the pipeline for one message of a user, \<open>src/src/agents/graph/runner.py\<close>: the text is
  checked, the message stored, the graph run or resumed, and the outcome stored and returned.  What
  the graph, the servers and the trace files answer are arguments; the stores are those of
  \<open>RunStores\<close> and \<open>MessageStore\<close>.
\<close>

section \<open>Results\<close>

record pipeline_result =
  pr_response :: string
  pr_trace_log :: "trace_entry list"
  pr_visualization :: visualization_data
  pr_insight :: json
  pr_sql_result :: sql_result
  pr_trace_files :: json
  pr_cancelled :: bool
  pr_error :: bool
  pr_streaming_delivered :: bool
  pr_awaiting_clarification :: bool
  pr_clarification_request :: "json option"
  pr_preprocessed_input :: string
  pr_message_uuid :: "string option"
  pr_user_message_uuid :: "string option"
  pr_result_data :: "json option"
  pr_process_summary :: "json option"

definition new_result :: "string \<Rightarrow> pipeline_result" where
  "new_result response =
     \<lparr>pr_response = response, pr_trace_log = [], pr_visualization = new_visualization_data, pr_insight = JObj [],
      pr_sql_result = new_sql_result, pr_trace_files = JList [], pr_cancelled = False, pr_error = False,
      pr_streaming_delivered = False, pr_awaiting_clarification = False, pr_clarification_request = None,
      pr_preprocessed_input = [], pr_message_uuid = None, pr_user_message_uuid = None, pr_result_data = None,
      pr_process_summary = None\<rparr>"

definition ERR_GENERIC :: string where "ERR_GENERIC = ''An error occurred while the request was processed.''"

definition build_result :: "run_info \<Rightarrow> pipeline_state \<Rightarrow> pipeline_result" where
  "build_result rn s =
     (new_result (formatted_response s))
       \<lparr>pr_trace_log := trace_log s, pr_visualization := visualization s, pr_insight := rn_insight rn,
        pr_sql_result := sql_result s, pr_trace_files := rn_trace_files rn, pr_cancelled := (status s = QS_CANCELLED),
        pr_error := (status s = QS_ERROR), pr_streaming_delivered := streaming_delivered s,
        pr_preprocessed_input := preprocessed_input s, pr_result_data := result_data s,
        pr_process_summary := process_summary s\<rparr>"

section \<open>The world of a run\<close>

text \<open>
  What the graph does with its input: it answers with a final state, stops at a question for the
  user, or raises an exception (its type and text).
\<close>

datatype graph_outcome =
    Answered pipeline_state
  | Interrupted json
  | Raised string string

datatype graph_input = Resume string | Start string

record run_world =
  rw_cancel :: "cancel_flags option"
  rw_active :: "active_runs option"
  rw_store :: store_state

record run_env =
  ne_pool :: bool
  ne_clock :: nat
  ne_active_fails :: bool
  ne_index_fails :: bool
  ne_meta_fails :: bool
  ne_connect_fails :: bool
  ne_files_fail :: bool
  ne_max_pending :: int
  ne_user_answer :: "nat \<Rightarrow> insert_outcome"
  ne_late_user_answer :: "nat \<Rightarrow> insert_outcome"
  ne_answer :: "nat \<Rightarrow> insert_outcome"
  ne_error_answer :: "nat \<Rightarrow> insert_outcome"
  ne_waiting :: bool
  ne_graph :: "graph_input \<Rightarrow> graph_outcome"
  ne_sanitize :: "string \<Rightarrow> string + string"
  ne_summary :: summary_env
  ne_files_error :: "string \<times> string"
  ne_error_metadata :: "graph_outcome \<Rightarrow> (string \<times> json) list"

section \<open>Preparation\<close>

definition session_title :: "string \<Rightarrow> string" where
  "session_title t = concat (take 50 (utf8_chars t)) @ (if py_len t > 50 then ''...'' else [])"

text \<open>\<open>_prepare_input\<close>: the cancel flag is taken, the text judged, the session registered.\<close>

definition prepare_input ::
  "run_env \<Rightarrow> string \<Rightarrow> string \<Rightarrow> run_world \<Rightarrow> (pipeline_result + string) \<times> string option \<times> run_world" where
  "prepare_input env sid raw w =
     (case pop_cancel (rw_cancel w) sid of (previous, flags) \<Rightarrow>
      let w1 = w\<lparr>rw_cancel := flags\<rparr>
      in case ne_sanitize env raw of
           Inl msg \<Rightarrow> (Inl (new_result msg), previous, w1)
         | Inr clean \<Rightarrow>
             (Inr clean, previous,
              if ne_pool env \<and> \<not> ne_index_fails env
              then w1\<lparr>rw_store := (rw_store w1)\<lparr>ss_db :=
                     upsert_session_index (ne_clock env) sid ''anonymous'' None (Some (session_title raw)) (ss_db (rw_store w1))\<rparr>\<rparr>
              else w1))"

definition check_interrupt :: "run_env \<Rightarrow> string option \<Rightarrow> bool" where
  "check_interrupt env previous_cancel = (ne_waiting env \<and> previous_cancel = None)"

section \<open>Storing the outcome\<close>

text \<open>\<open>save_message\<close> with the pool; without a pool nothing is called.\<close>

definition save_with ::
  "run_env \<Rightarrow> (nat \<Rightarrow> insert_outcome) \<Rightarrow> message_data \<Rightarrow> store_state \<Rightarrow> store_state \<times> (string option \<times> int) option" where
  "save_with env answer d st =
     (if ne_pool env then save_message (ne_max_pending env) (ne_clock env) answer d st else (st, None))"

definition uuid_or :: "string option \<Rightarrow> (string option \<times> int) option \<Rightarrow> string option" where
  "uuid_or early saved = (case saved of None \<Rightarrow> early | Some (u, n) \<Rightarrow> u)"

definition uuid_of :: "(string option \<times> int) option \<Rightarrow> string option" where
  "uuid_of saved = (case saved of None \<Rightarrow> None | Some (u, n) \<Rightarrow> u)"

text \<open>The user's message when it was not stored at the start of the run.\<close>

definition save_user_late ::
  "run_env \<Rightarrow> run_info \<Rightarrow> bool \<Rightarrow> string option \<Rightarrow> string \<Rightarrow> string \<Rightarrow> store_state \<Rightarrow> store_state \<times> string option" where
  "save_user_late env rn saved_early early sid kind st =
     (if saved_early then (st, early)
      else case save_with env (ne_late_user_answer env) (user_message rn sid kind) st of (st1, saved) \<Rightarrow> (st1, uuid_or early saved))"

text \<open>
  The handler of an exception: an error row, its metadata, and the generic answer.  By then the
  user's message may have been stored by the part that failed.
\<close>

definition finish_error ::
  "run_env \<Rightarrow> run_info \<Rightarrow> bool \<Rightarrow> string option \<Rightarrow> string \<Rightarrow> graph_outcome \<Rightarrow> string \<times> string \<Rightarrow> store_state \<Rightarrow> store_state \<times> pipeline_result" where
  "finish_error env rn user_saved early sid oc why st =
     (case save_user_late env rn user_saved early sid ''error'' st of (st1, user_uuid) \<Rightarrow>
      case save_with env (ne_error_answer env) (error_row rn sid ERR_GENERIC (fst why) (snd why)) st1 of (st2, saved) \<Rightarrow>
      let meta = ne_error_metadata env oc;
          st3 = (case uuid_of saved of
                   None \<Rightarrow> st2
                 | Some u \<Rightarrow> if ne_pool env then st2\<lparr>ss_db := update_message_metadata (ne_meta_fails env) u meta (ss_db st2)\<rparr> else st2)
      in (st3, (new_result ERR_GENERIC)
                 \<lparr>pr_error := True, pr_message_uuid := uuid_of saved, pr_user_message_uuid := user_uuid,
                  pr_insight := obj_get meta ''insight'' (JObj []), pr_trace_files := obj_get meta ''trace_files'' (JList []),
                  pr_process_summary := (case obj_get meta ''process_summary'' JNull of JNull \<Rightarrow> None | v \<Rightarrow> Some v)\<rparr>))"

definition finish_question ::
  "run_env \<Rightarrow> run_info \<Rightarrow> bool \<Rightarrow> string option \<Rightarrow> string \<Rightarrow> json \<Rightarrow> store_state \<Rightarrow> store_state \<times> pipeline_result" where
  "finish_question env rn saved_early early sid request st =
     (case save_user_late env rn saved_early early sid ''clarification'' st of (st1, user_uuid) \<Rightarrow>
      let row = clarification_message rn sid request
      in case save_with env (ne_answer env) row st1 of (st2, saved) \<Rightarrow>
         if ne_files_fail env
         then finish_error env rn (saved_early \<or> ne_pool env) early sid (Interrupted request) (ne_files_error env) st2
         else (st2, (new_result (md_content row))
                 \<lparr>pr_awaiting_clarification := True, pr_clarification_request := Some request,
                  pr_user_message_uuid := user_uuid, pr_message_uuid := uuid_of saved\<rparr>))"

definition finish_answer ::
  "run_env \<Rightarrow> run_info \<Rightarrow> bool \<Rightarrow> string option \<Rightarrow> string \<Rightarrow> pipeline_state \<Rightarrow> store_state \<Rightarrow> store_state \<times> pipeline_result" where
  "finish_answer env rn saved_early early sid s st =
     (case save_user_late env rn saved_early early sid ''normal'' st of (st1, user_uuid) \<Rightarrow>
      case save_with env (ne_answer env) (answer_message (ne_summary env) rn sid s) st1 of (st2, saved) \<Rightarrow>
         if ne_files_fail env
         then finish_error env rn (saved_early \<or> ne_pool env) early sid (Answered s) (ne_files_error env) st2
         else
           let st3 = (case uuid_of saved of
                        None \<Rightarrow> st2
                      | Some u \<Rightarrow> if ne_pool env
                          then st2\<lparr>ss_db := update_message_metadata (ne_meta_fails env) u (answer_metadata rn s) (ss_db st2)\<rparr> else st2)
           in (st3, (build_result rn s)\<lparr>pr_message_uuid := uuid_of saved, pr_user_message_uuid := user_uuid\<rparr>))"

definition execute_and_finalize ::
  "run_env \<Rightarrow> run_info \<Rightarrow> graph_input \<Rightarrow> bool \<Rightarrow> string option \<Rightarrow> string \<Rightarrow> store_state \<Rightarrow> store_state \<times> pipeline_result" where
  "execute_and_finalize env rn inp saved_early early sid st =
     (case ne_graph env inp of
        Answered s \<Rightarrow> finish_answer env rn saved_early early sid s st
      | Interrupted request \<Rightarrow> finish_question env rn saved_early early sid request st
      | Raised kind why \<Rightarrow> finish_error env rn saved_early early sid (Raised kind why) (kind, why) st)"

section \<open>A run\<close>

text \<open>
  \<open>run_pipeline\<close>: the registration of the run is removed at the end whatever happens; a failing
  connection ends the run with the exception, after the user's message has been stored.
\<close>

definition run_pipeline ::
  "run_env \<Rightarrow> run_info \<Rightarrow> string \<Rightarrow> string \<Rightarrow> run_world \<Rightarrow> run_world \<times> pipeline_result result" where
  "run_pipeline env rn sid run_key w =
     (let w0 = w\<lparr>rw_active := mark_active (ne_active_fails env) sid run_key (rw_active w)\<rparr>
      in case prepare_input env sid (rn_user_input rn) w0 of (prepared, previous, w1) \<Rightarrow>
         case (case prepared of
                 Inl early_result \<Rightarrow> (w1, Inr early_result)
               | Inr clean \<Rightarrow>
                   (case save_with env (ne_user_answer env) (user_message rn sid ''normal'') (rw_store w1) of (st, saved) \<Rightarrow>
                    if ne_connect_fails env then (w1\<lparr>rw_store := st\<rparr>, Inl OtherError)
                    else
                      let inp = (if check_interrupt env previous then Resume clean else Start clean)
                      in case execute_and_finalize env rn inp (saved \<noteq> None) (uuid_of saved) sid st of (st', r) \<Rightarrow>
                           (w1\<lparr>rw_store := st'\<rparr>, Inr r))) of (w2, r) \<Rightarrow>
           (w2\<lparr>rw_active := clear_active (ne_active_fails env) sid run_key (rw_active w2)\<rparr>, r))"

section \<open>Rows of a turn\<close>

text \<open>What a row shows of its message, and the rows of a session.\<close>

definition row_view :: "message_data \<Rightarrow> string \<times> string \<times> string \<times> string" where
  "row_view d = (md_role d, md_message_type d, md_status d, md_content d)"

definition thread_view :: "string \<Rightarrow> store_state \<Rightarrow> (string \<times> string \<times> string \<times> string) list" where
  "thread_view t st = map row_view (stored_data t st)"

lemma view_metadata [simp]: "thread_view t (st\<lparr>ss_db := update_message_metadata b u md (ss_db st)\<rparr>) = thread_view t st"
proof -
  have "thread_messages t (update_message_metadata b u md db) =
      map (\<lambda>m. if u \<noteq> [] \<and> \<not> b \<and> sm_uuid m = u then m\<lparr>sm_data := (sm_data m)\<lparr>md_metadata := json_concat (md_metadata (sm_data m)) md\<rparr>\<rparr> else m)
        (thread_messages t db)" for db
    by (auto simp: update_message_metadata_def on_messages_def thread_messages_def filter_map comp_def intro!: arg_cong [of _ _ "map _"] filter_cong)
  then show ?thesis by (simp add: thread_view_def stored_data_def row_view_def)
qed

lemma view_index [simp]: "thread_view t (st\<lparr>ss_db := upsert_session_index now sid user dept title (ss_db st)\<rparr>) = thread_view t st"
  by (simp add: thread_view_def stored_data_def thread_messages_def upsert_session_index_def)

lemma pending_keeps [simp]: "pending_of t (st\<lparr>ss_db := db\<rparr>) = pending_of t st"
  by (simp add: pending_of_def)

definition inserts :: "(nat \<Rightarrow> insert_outcome) \<Rightarrow> bool" where
  "inserts f \<longleftrightarrow> (\<forall>k. \<exists>u. f k = Inserted u)"

lemma saved_rows:
  assumes "ne_pool env" and "inserts f" and "pending_of (md_thread_id d) st = []"
  shows "\<exists>u n. snd (save_with env f d st) = Some (Some u, n) \<and>
    (\<forall>t. thread_view t (fst (save_with env f d st)) = thread_view t st @ (if t = md_thread_id d then [row_view d] else [])) \<and>
    (\<forall>t. pending_of t (fst (save_with env f d st)) = pending_of t st)"
proof -
  obtain u where "f 0 = Inserted u" using assms(2) by (auto simp: inserts_def)
  moreover have "pending_of t (st\<lparr>ss_pending := dict_remove (md_thread_id d) (ss_pending st)\<rparr>) = pending_of t st" for t
    using assms(3) by (simp add: pending_of_def map_of_dict_remove)
  ultimately show ?thesis using assms(1,3)
    by (simp add: save_with_def save_message_def begin_save_def end_save_def thread_view_def stored_data_def
        thread_messages_insert pending_of_def)
qed

text \<open>The store's part of a step: rows appended to the session, nothing else seen or buffered.\<close>

definition appends :: "string \<Rightarrow> (string \<times> string \<times> string \<times> string) list \<Rightarrow> store_state \<Rightarrow> store_state \<Rightarrow> bool" where
  "appends sid rows st st' \<longleftrightarrow> (\<forall>t. thread_view t st' = thread_view t st @ (if t = sid then rows else [])) \<and>
     (\<forall>t. pending_of t st' = pending_of t st)"

lemma appends_refl: "appends sid [] st st"
  by (simp add: appends_def)

lemma appends_trans: "appends sid a st st1 \<Longrightarrow> appends sid b st1 st2 \<Longrightarrow> appends sid (a @ b) st st2"
  by (simp add: appends_def)

lemma appends_metadata: "appends sid a st st1 \<Longrightarrow> appends sid a st (st1\<lparr>ss_db := update_message_metadata b u md (ss_db st1)\<rparr>)"
  by (simp add: appends_def)

lemma appends_saved:
  assumes "ne_pool env" and "inserts f" and "md_thread_id d = sid" and "pending_of sid st = []"
  obtains u n st1 where "save_with env f d st = (st1, Some (Some u, n))" and "appends sid [row_view d] st st1"
proof -
  obtain st1 r where r: "save_with env f d st = (st1, r)" by (cases "save_with env f d st")
  with saved_rows [of env f d st] assms obtain u n where "r = Some (Some u, n)" "appends sid [row_view d] st st1"
    by (auto simp: appends_def)
  with r that show ?thesis by blast
qed

lemma message_threads [simp]:
  "md_thread_id (user_message rn sid k) = sid" "md_thread_id (answer_message e rn sid s) = sid"
  "md_thread_id (clarification_message rn sid q) = sid" "md_thread_id (error_row rn sid g k y) = sid"
  by (simp_all add: user_message_def run_message_def answer_message_def clarification_message_def error_row_def Let_def)

definition error_view :: "string \<times> string \<times> string \<times> string" where
  "error_view = (''assistant'', ''error'', ''failure'', ERR_GENERIC)"

definition answer_view :: "pipeline_state \<Rightarrow> string \<times> string \<times> string \<times> string" where
  "answer_view s = (''assistant'', ''normal'', if status s = QS_CANCELLED then ''cancelled'' else ''success'', formatted_response s)"

definition question_view :: "json \<Rightarrow> string \<times> string \<times> string \<times> string" where
  "question_view request = (''assistant'', ''clarification'', ''success'',
     case request of JObj d \<Rightarrow> (case obj_get d ''question'' (JStr []) of JStr q \<Rightarrow> q | _ \<Rightarrow> []) | _ \<Rightarrow> [])"

lemma row_views [simp]:
  "row_view (error_row rn sid ERR_GENERIC k y) = error_view" "row_view (answer_message e rn sid s) = answer_view s"
  "row_view (clarification_message rn sid q) = question_view q"
  "row_view (user_message rn sid k) = (''user'', k, ''success'', rn_user_input rn)"
  by (simp_all add: row_view_def error_row_def run_message_def error_view_def answer_message_def answer_view_def
      clarification_message_def question_view_def user_message_def Let_def)

lemma error_rows:
  assumes "ne_pool env" and "inserts (ne_error_answer env)" and "pending_of sid st = []"
  shows "\<exists>st' r. finish_error env rn True early sid oc why st = (st', r) \<and> appends sid [error_view] st st' \<and>
    pr_error r \<and> pr_message_uuid r \<noteq> None"
proof -
  obtain u n st1 where s: "save_with env (ne_error_answer env) (error_row rn sid ERR_GENERIC (fst why) (snd why)) st = (st1, Some (Some u, n))"
    "appends sid [error_view] st st1" using appends_saved [OF assms(1,2) message_threads(4) assms(3)] by (metis row_views(1))
  then show ?thesis using assms(1)
    by (simp add: finish_error_def save_user_late_def uuid_of_def Let_def appends_metadata)
qed

lemma appends_pending: "appends sid rows st st' \<Longrightarrow> pending_of sid st = [] \<Longrightarrow> pending_of sid st' = []"
  by (simp add: appends_def)

definition outcome_rows :: "run_env \<Rightarrow> graph_outcome \<Rightarrow> (string \<times> string \<times> string \<times> string) list" where
  "outcome_rows env oc =
     (case oc of
        Answered s \<Rightarrow> [answer_view s] @ (if ne_files_fail env then [error_view] else [])
      | Interrupted request \<Rightarrow> [question_view request] @ (if ne_files_fail env then [error_view] else [])
      | Raised kind why \<Rightarrow> [error_view])"

lemma execute_rows:
  assumes "ne_pool env" and "inserts (ne_answer env)" and "inserts (ne_error_answer env)" and "pending_of sid st = []"
  shows "\<exists>st' r. execute_and_finalize env rn inp True early sid st = (st', r) \<and>
    appends sid (outcome_rows env (ne_graph env inp)) st st' \<and> pr_message_uuid r \<noteq> None"
proof (cases "ne_graph env inp")
  case (Answered s)
  obtain u n st1 where s: "save_with env (ne_answer env) (answer_message (ne_summary env) rn sid s) st = (st1, Some (Some u, n))"
    "appends sid [answer_view s] st st1" using appends_saved [OF assms(1,2) message_threads(2) assms(4)] by (metis row_views(2))
  obtain st' r where e: "finish_error env rn True early sid (Answered s) (ne_files_error env) st1 = (st', r)"
    "appends sid [error_view] st1 st'" "pr_message_uuid r \<noteq> None"
    using error_rows [OF assms(1,3) appends_pending [OF s(2) assms(4)]] by blast
  show ?thesis
    using s e(1,3) assms(1) appends_trans [OF s(2) e(2)] appends_metadata [OF s(2)]
    by (cases "ne_files_fail env")
      (simp_all add: execute_and_finalize_def Answered finish_answer_def save_user_late_def uuid_of_def outcome_rows_def Let_def)
next
  case (Interrupted q)
  obtain u n st1 where s: "save_with env (ne_answer env) (clarification_message rn sid q) st = (st1, Some (Some u, n))"
    "appends sid [question_view q] st st1" using appends_saved [OF assms(1,2) message_threads(3) assms(4)] by (metis row_views(3))
  obtain st' r where e: "finish_error env rn True early sid (Interrupted q) (ne_files_error env) st1 = (st', r)"
    "appends sid [error_view] st1 st'" "pr_message_uuid r \<noteq> None"
    using error_rows [OF assms(1,3) appends_pending [OF s(2) assms(4)]] by blast
  show ?thesis
    using s e(1,3) assms(1) appends_trans [OF s(2) e(2)]
    by (cases "ne_files_fail env")
      (simp_all add: execute_and_finalize_def Interrupted finish_question_def save_user_late_def uuid_of_def outcome_rows_def Let_def)
next
  case (Raised kind why)
  with error_rows [OF assms(1,3,4), of rn early "Raised kind why" "(kind, why)"] show ?thesis
    by (auto simp: execute_and_finalize_def outcome_rows_def)
qed

lemma prepared_store:
  assumes "ne_sanitize env raw = Inr clean"
  shows "\<exists>previous w1. prepare_input env sid raw w = (Inr clean, previous, w1) \<and> appends sid [] (rw_store w) (rw_store w1) \<and>
    previous = fst (pop_cancel (rw_cancel w) sid)"
  using assms by (auto simp: prepare_input_def Let_def appends_def split: prod.splits)


text \<open>
  A run leaves no flag behind.  Whatever happens, an accepted or rejected text, an answer, a
  question, an exception or a failed connection, the session is no longer registered as active at
  the end of a run that no later run has overtaken, its cancel flag is taken, and the flags of
  other sessions are as they were.
\<close>
theorem run_leaves_no_flags:
  assumes "rw_active w = Some act" and "rw_cancel w = Some flags" and "\<not> ne_active_fails env"
  shows "rw_active (fst (run_pipeline env rn sid key w)) = Some (act(sid := None)) \<and>
    rw_cancel (fst (run_pipeline env rn sid key w)) = Some (flags(sid := None))"
proof -
  let ?w0 = "w\<lparr>rw_active := mark_active False sid key (rw_active w)\<rparr>"
  obtain prepared previous w1 where p: "prepare_input env sid (rn_user_input rn) ?w0 = (prepared, previous, w1)"
    by (cases "prepare_input env sid (rn_user_input rn) ?w0") blast
  have f: "rw_active w1 = Some (act(sid \<mapsto> key)) \<and> rw_cancel w1 = Some (flags(sid := None))"
    using p assms(1,2)
    by (auto simp: prepare_input_def pop_cancel_def mem_pop_cancel_def mark_active_def mem_set_active_def Let_def
        split: sum.splits if_splits)
  show ?thesis
    using p f assms(3)
    by (simp add: run_pipeline_def Let_def clear_active_def mem_clear_active_def split: sum.split prod.split)
qed

text \<open>
  A message that could not be stored at the start of a run is stored twice.  The store keeps it
  to be stored later; the runner does not know and submits it again at the end of the run.
\<close>
theorem user_message_doubled:
  assumes "ne_pool env" and "\<not> ne_connect_fails env" and "\<not> ne_files_fail env" and "ne_sanitize env (rn_user_input rn) = Inr clean"
    and "\<And>k. ne_user_answer env k = Refused" and "inserts (ne_late_user_answer env)" and "inserts (ne_answer env)"
    and "\<And>inp. ne_graph env inp = Answered s" and "pending_of sid (rw_store w) = []" and "1 \<le> ne_max_pending env"
  shows "thread_view sid (rw_store (fst (run_pipeline env rn sid key w))) = thread_view sid (rw_store w) @
    [(''user'', ''normal'', ''success'', rn_user_input rn), (''user'', ''normal'', ''success'', rn_user_input rn), answer_view s]"
proof -
  let ?w0 = "w\<lparr>rw_active := mark_active (ne_active_fails env) sid key (rw_active w)\<rparr>"
  let ?u = "user_message rn sid ''normal''"
  obtain previous w1 where p: "prepare_input env sid (rn_user_input rn) ?w0 = (Inr clean, previous, w1)"
    "appends sid [] (rw_store w) (rw_store w1)" using prepared_store [OF assms(4), of sid ?w0] by auto
  have pend: "pending_of sid (rw_store w1) = []" using appends_pending [OF p(2) assms(9)] .
  define st where "st = (rw_store w1)\<lparr>ss_pending := dict_set sid [?u] (dict_remove sid (ss_pending (rw_store w1)))\<rparr>"
  have e: "save_with env (ne_user_answer env) ?u (rw_store w1) = (st, None)"
    using assms(1,5,10) pend
    by (simp add: save_with_def save_message_def begin_save_def end_save_def kept_unsaved_def st_def Let_def)
  obtain a b where ab: "ne_late_user_answer env 0 = Inserted a" "ne_late_user_answer env (Suc 0) = Inserted b"
    using assms(6) unfolding inserts_def by metis
  have pst: "pending_of sid st = [?u]" by (simp add: st_def pending_of_def map_of_dict_set)
  define st2 where "st2 = st\<lparr>ss_pending := dict_remove sid (ss_pending st),
     ss_db := insert_message (ne_clock env) b ?u (insert_message (ne_clock env) a ?u (ss_db st))\<rparr>"
  have l: "save_with env (ne_late_user_answer env) ?u st =
      (st2, Some (Some b, next_seq sid (insert_message (ne_clock env) a ?u (ss_db st))))"
    using assms(1) pst ab by (simp add: save_with_def save_message_def begin_save_def end_save_def st2_def)
  have v2: "thread_view sid st2 = thread_view sid (rw_store w1) @ [row_view ?u, row_view ?u]"
    by (simp add: st2_def st_def thread_view_def stored_data_def thread_messages_insert)
  have "pending_of sid st2 = []" by (simp add: st2_def pending_of_def)
  from appends_saved [OF assms(1,7) message_threads(2) this] obtain u n st3 where
    a: "save_with env (ne_answer env) (answer_message (ne_summary env) rn sid s) st2 = (st3, Some (Some u, n))"
    "appends sid [answer_view s] st2 st3" by (metis row_views(2))
  have "thread_view sid (rw_store (fst (run_pipeline env rn sid key w))) = thread_view sid st3"
    using p(1) e l a(1) assms(1,2,3)
    by (simp add: run_pipeline_def execute_and_finalize_def assms(8) finish_answer_def save_user_late_def uuid_of_def Let_def)
  then show ?thesis using a(2) v2 p(2) by (simp add: appends_def)
qed

section \<open>Witnesses\<close>

definition sample_run_env :: run_env where
  "sample_run_env = \<lparr>ne_pool = True, ne_clock = 5, ne_active_fails = False, ne_index_fails = False, ne_meta_fails = False,
     ne_connect_fails = False, ne_files_fail = False, ne_max_pending = 50, ne_user_answer = (\<lambda>k. Inserted ''u1''),
     ne_late_user_answer = (\<lambda>k. Inserted ''u2''), ne_answer = (\<lambda>k. Inserted ''u3''), ne_error_answer = (\<lambda>k. Inserted ''u4''),
     ne_waiting = True, ne_graph = (\<lambda>i. case i of Start t \<Rightarrow> Raised ''TimeoutError'' [] | Resume t \<Rightarrow> Answered (stored_turn\<lparr>formatted_response := ''3 loans''\<rparr>)),
     ne_sanitize = (\<lambda>t. Inr t), ne_summary = sample_summary_env, ne_files_error = (''OSError'', []), ne_error_metadata = (\<lambda>oc. [])\<rparr>"

definition sample_world :: "cancel_flags \<Rightarrow> run_world" where
  "sample_world flags = \<lparr>rw_cancel = Some flags, rw_active = Some (\<lambda>_. None), rw_store = empty_store\<rparr>"


theorem run_leaves_no_flags_witness:
  "rw_cancel (fst (run_pipeline sample_run_env sample_run ''t'' ''k'' (sample_world (\<lambda>_. Some ''old'')))) =
     Some ((\<lambda>_. Some ''old'')(''t'' := None))"
  using run_leaves_no_flags [of "sample_world (\<lambda>_. Some ''old'')" "\<lambda>_. None" "\<lambda>_. Some ''old''" sample_run_env sample_run "''t''" "''k''"]
  by (simp add: sample_world_def sample_run_env_def)

theorem user_message_doubled_witness:
  "thread_view ''t'' (rw_store (fst (run_pipeline (sample_run_env\<lparr>ne_user_answer := (\<lambda>k. Refused)\<rparr>
       \<lparr>ne_graph := (\<lambda>i. Answered stored_turn)\<rparr>) sample_run ''t'' ''k'' (sample_world (\<lambda>_. None))))) =
     [(''user'', ''normal'', ''success'', ''loans''), (''user'', ''normal'', ''success'', ''loans''), answer_view stored_turn]"
proof -
  let ?env = "sample_run_env\<lparr>ne_user_answer := (\<lambda>k. Refused), ne_graph := (\<lambda>i. Answered stored_turn)\<rparr>"
  have c: "ne_pool ?env" "\<not> ne_connect_fails ?env" "\<not> ne_files_fail ?env" "ne_sanitize ?env (rn_user_input sample_run) = Inr ''loans''"
    "\<And>k. ne_user_answer ?env k = Refused" "inserts (ne_late_user_answer ?env)" "inserts (ne_answer ?env)"
    "\<And>inp. ne_graph ?env inp = Answered stored_turn" "pending_of ''t'' (rw_store (sample_world (\<lambda>_. None))) = []" "1 \<le> ne_max_pending ?env"
    by (simp_all add: sample_run_env_def sample_run_def inserts_def sample_world_def empty_store_def pending_of_def)
  from user_message_doubled [OF c, of "''k''"] show ?thesis
    by (simp add: sample_world_def empty_store_def thread_view_def stored_data_def thread_messages_def sample_run_def)
qed

end
