(* ===== verification/Server.thy ===== *)
theory Server imports Runner Present begin

text \<open>
  The server around the pipeline, \<open>src/src/main.py\<close>, and its session requests,
  \<open>src/src/routers/sessions.py\<close>: messages received and sent over a web socket, the query and
  download requests, and the answers of the store as HTTP results.  Whether a transmission
  succeeds is an argument; so are \<open>json.loads\<close> and the texts of numbers.
\<close>

section \<open>Sessions\<close>

definition is_id_char :: "char \<Rightarrow> bool" where
  "is_id_char c \<longleftrightarrow> is_digit_char c \<or> is_alpha_char c \<or> c = CHR ''_'' \<or> c = CHR ''-''"

text \<open>\<open>$\<close> also matches before a line end at the end of the text.\<close>

definition is_valid_session_id :: "string \<Rightarrow> bool" where
  "is_valid_session_id s =
     (let t = (if s \<noteq> [] \<and> last s = CHR 0x0A then butlast s else s)
      in 1 \<le> length t \<and> length t \<le> 128 \<and> list_all is_id_char t)"

section \<open>Sending\<close>

record ws =
  ws_delivered :: "json list"
  ws_closed :: bool
  ws_attempts :: nat

definition safe_send :: "(nat \<Rightarrow> bool) \<Rightarrow> json \<Rightarrow> ws \<Rightarrow> bool \<times> ws" where
  "safe_send ok msg w =
     (if ws_closed w then (False, w)
      else if ok (ws_attempts w) then (True, w\<lparr>ws_delivered := ws_delivered w @ [msg], ws_attempts := ws_attempts w + 1\<rparr>)
      else (False, w\<lparr>ws_closed := True, ws_attempts := ws_attempts w + 1\<rparr>))"

definition end_status :: "pipeline_result \<Rightarrow> string" where
  "end_status r =
     (if pr_cancelled r then ''cancelled'' else if pr_awaiting_clarification r then ''awaiting_clarification''
      else if pr_error r then ''failure'' else ''success'')"

definition truthy_option :: "json option \<Rightarrow> bool" where
  "truthy_option v = (case v of None \<Rightarrow> False | Some j \<Rightarrow> json_true j)"

definition viz_message :: "pipeline_result \<Rightarrow> json" where
  "viz_message r =
     (case dump_visualization (pr_visualization r) of JObj d \<Rightarrow> JObj (d @ [(''type'', JStr ''viz'')]) | v \<Rightarrow> v)"

definition start_message :: json where
  "start_message = JObj [(''type'', JStr ''stream''), (''action'', JStr ''start''), (''label'', JStr ''writing the answer'')]"

definition data_message :: "json \<Rightarrow> json" where
  "data_message d = JObj [(''type'', JStr ''result_data''), (''data'', d)]"

definition chunk_message :: "string \<Rightarrow> json" where
  "chunk_message t = JObj [(''type'', JStr ''stream''), (''action'', JStr ''chunk''), (''text'', JStr t)]"

definition end_message :: "pipeline_result \<Rightarrow> json" where
  "end_message r =
     JObj ([(''type'', JStr ''stream''), (''action'', JStr ''end''), (''status'', JStr (end_status r)), (''insight'', pr_insight r),
            (''message_uuid'', json_option JStr (pr_message_uuid r)), (''user_message_uuid'', json_option JStr (pr_user_message_uuid r)),
            (''trace_files'', py_or (pr_trace_files r) (JList []))] @
           entry (truthy_option (pr_clarification_request r)) ''clarification_request'' (json_option id (pr_clarification_request r)) @
           entry (truthy_option (pr_result_data r)) ''has_result_data'' (JBool True) @
           entry (truthy_option (pr_process_summary r)) ''process_summary'' (json_option id (pr_process_summary r)))"

definition download_message :: "string \<Rightarrow> json \<Rightarrow> pipeline_result \<Rightarrow> json" where
  "download_message sid rows r =
     JObj [(''type'', JStr ''download_ready''), (''session_id'', JStr sid), (''row_count'', rows),
           (''formats'', jstrs [''csv'', ''json'']), (''message_uuid'', json_option JStr (pr_message_uuid r))]"

section \<open>Results for download\<close>

type_synonym result_cache = "(string \<times> string list \<times> (string \<times> cell) list list) list"

definition MAX_CACHE :: nat where "MAX_CACHE = 100"

text \<open>The oldest entry is the one inserted first; storing a session again does not make it newer.\<close>

definition cache_sql_result :: "string \<Rightarrow> sql_result \<Rightarrow> result_cache \<Rightarrow> result_cache" where
  "cache_sql_result sid r cache =
     dict_set sid (sr_columns r, sr_rows r) (if length cache \<ge> MAX_CACHE then tl cache else cache)"

text \<open>\<open>n > 0\<close> for the row count of the statistics.\<close>

definition positive :: "json \<Rightarrow> bool result" where
  "positive v = (case v of JNum q \<Rightarrow> Inr (q > 0) | JBool b \<Rightarrow> Inr b | _ \<Rightarrow> Inl TypeErr)"

definition result_rows :: "pipeline_result \<Rightarrow> json result" where
  "result_rows r =
     result_bind (json_get (pr_insight r) ''result_stats'' (JObj [])) (\<lambda>stats. json_get stats ''row_count'' (JNum 0))"

section \<open>A turn on a web socket\<close>

text \<open>After the pipeline's result: what is sent, and the cache of results.\<close>

definition send_answer :: "(nat \<Rightarrow> bool) \<Rightarrow> bool \<Rightarrow> pipeline_result \<Rightarrow> ws \<Rightarrow> ws" where
  "send_answer ok pii r w =
     (let w1 = (if truthy_option (pr_result_data r) then snd (safe_send ok (data_message (json_option id (pr_result_data r))) w) else w);
          w2 = (if pr_streaming_delivered r then w1 else snd (safe_send ok (chunk_message (mask_pii pii (pr_response r))) w1))
      in snd (safe_send ok (end_message r) w2))"

definition ws_turn ::
  "(nat \<Rightarrow> bool) \<Rightarrow> bool \<Rightarrow> string \<Rightarrow> pipeline_result \<Rightarrow> ws \<times> result_cache \<Rightarrow> (ws \<times> result_cache) result" where
  "ws_turn ok pii sid r wc =
     (case wc of (w, cache) \<Rightarrow>
      if ws_closed w then Inr (w, cache)
      else
        case (if vz_svg_code (pr_visualization r) \<noteq> [] then safe_send ok (viz_message r) w else (True, w)) of (sent, w1) \<Rightarrow>
        if \<not> sent then Inr (w1, cache)
        else
          case safe_send ok start_message w1 of (started, w2) \<Rightarrow>
          if \<not> started then Inr (w2, cache)
          else
            let w3 = send_answer ok pii r w2
            in result_bind (result_rows r) (\<lambda>rows.
               if pr_awaiting_clarification r then Inr (w3, cache)
               else result_bind (positive rows) (\<lambda>p.
                 if p then Inr (snd (safe_send ok (download_message sid rows r) w3), cache_sql_result sid (pr_sql_result r) cache)
                 else Inr (w3, cache))))"

section \<open>Receiving\<close>

definition should_stream :: "bool \<Rightarrow> bool \<Rightarrow> string \<Rightarrow> bool" where
  "should_stream streaming_disabled client_streaming t =
     (\<not> streaming_disabled \<and> client_streaming \<and> py_strip t \<noteq> [] \<and> \<not> starts_with (py_strip t) ''/'')"

text \<open>
  What the server does with a received text: the history command, a refused text, or a turn with
  or without streaming.  \<open>user_text.strip()\<close> raises when the field \<open>text\<close> is no string.
\<close>

datatype ws_action = Show_history | Refuse | Run_turn string bool

definition read_envelope :: "(string \<Rightarrow> json option) \<Rightarrow> string \<Rightarrow> json \<times> bool" where
  "read_envelope loads raw =
     (case loads raw of
        Some (JObj d) \<Rightarrow> (obj_get d ''text'' (JStr raw), json_true (obj_get d ''streaming'' (JBool False)))
      | _ \<Rightarrow> (JStr raw, False))"

definition ws_receive ::
  "(string \<Rightarrow> json option) \<Rightarrow> (string \<Rightarrow> string) \<Rightarrow> bool \<Rightarrow> string \<Rightarrow> ws_action result" where
  "ws_receive loads nfkc streaming_disabled raw =
     (case read_envelope loads raw of (text_field, client_streaming) \<Rightarrow>
      case text_field of
        JStr t \<Rightarrow>
          if py_strip t = ''/history'' then Inr Show_history
          else if detect_prompt_injection nfkc t then Inr Refuse
          else Inr (Run_turn t (should_stream streaming_disabled client_streaming t))
      | _ \<Rightarrow> Inl AttributeError)"

definition history_text :: "int \<Rightarrow> history_turn list \<Rightarrow> string" where
  "history_text log_limit h =
     (if h = [] then ''(no conversation yet)''
      else py_join newline (map (\<lambda>(i, t). nat_digits i @ ''. ['' @ (if ht_role t = ''user'' then ''user'' else ''system'') @ ''] '' @
             truncate_at log_limit (ht_content t)) (zip [1..<Suc (length h)] h)))"

text \<open>
  The handler of an exception in a turn: the stream is closed with a status, and a message; a
  failing transmission ends the connection.
\<close>

definition ws_failure :: "(nat \<Rightarrow> bool) \<Rightarrow> ws \<Rightarrow> ws" where
  "ws_failure ok w =
     (case safe_send ok (JObj [(''type'', JStr ''stream''), (''action'', JStr ''end''), (''status'', JStr ''error'')]) w of (sent, w1) \<Rightarrow>
      if sent then snd (safe_send ok (JObj [(''type'', JStr ''error''), (''message'', JStr (format_error True ERR_GENERIC))]) w1) else w1)"

section \<open>The query request\<close>

datatype 'a http = Http_ok 'a | Http_error nat

definition api_status :: "pipeline_result \<Rightarrow> string" where
  "api_status r = (if pr_cancelled r then ''cancelled'' else if pr_error r then ''failure'' else ''success'')"

definition query_body :: "bool \<Rightarrow> string \<Rightarrow> bool \<Rightarrow> bool \<Rightarrow> pipeline_result \<Rightarrow> (string \<times> json) list" where
  "query_body pii sid include_trace include_insight r =
     [(''session_id'', JStr sid), (''response'', JStr (mask_pii pii (pr_response r))), (''status'', JStr (api_status r))] @
     entry (truthy_option (pr_result_data r)) ''result_data'' (json_option id (pr_result_data r)) @
     entry (truthy_option (pr_process_summary r)) ''process_summary'' (json_option id (pr_process_summary r)) @
     entry (include_insight \<and> json_true (pr_insight r)) ''insight'' (pr_insight r) @
     entry (vz_svg_code (pr_visualization r) \<noteq> []) ''visualization'' (dump_visualization (pr_visualization r)) @
     entry include_trace ''trace'' (JList (map dump_trace_entry (pr_trace_log r)))"

text \<open>\<open>fresh\<close> is the generated identifier, \<open>run\<close> the pipeline; the length of the text is checked by the request model.\<close>

definition query_endpoint ::
  "(string \<Rightarrow> string) \<Rightarrow> bool \<Rightarrow> (string \<Rightarrow> string \<Rightarrow> pipeline_result result) \<Rightarrow> string \<Rightarrow> string \<Rightarrow> string option \<Rightarrow> bool \<Rightarrow> bool \<Rightarrow>
   (string \<times> json) list http" where
  "query_endpoint nfkc pii run fresh query session include_trace include_insight =
     (if py_len query < 1 \<or> 2000 < py_len query then Http_error 422
      else
        let sid = (case session of None \<Rightarrow> fresh | Some s \<Rightarrow> if s = [] then fresh else s)
        in if (case session of None \<Rightarrow> False | Some s \<Rightarrow> s \<noteq> [] \<and> \<not> is_valid_session_id s) then Http_error 400
           else if detect_prompt_injection nfkc query then Http_error 422
           else (case run query sid of
                   Inl e \<Rightarrow> Http_error 500
                 | Inr r \<Rightarrow> Http_ok (query_body pii sid include_trace include_insight r)))"

section \<open>Downloads\<close>

definition csv_needs_quotes :: "string \<Rightarrow> bool" where
  "csv_needs_quotes f \<longleftrightarrow> list_ex (\<lambda>c. c \<in> {CHR '','', CHR 0x22, CHR 0x0D, CHR 0x0A}) f"

fun csv_double :: "string \<Rightarrow> string" where
  "csv_double [] = []"
| "csv_double (c # s) = (if c = CHR 0x22 then [CHR 0x22, CHR 0x22] else [c]) @ csv_double s"

definition csv_quoted :: "string \<Rightarrow> string" where
  "csv_quoted f = CHR 0x22 # csv_double f @ [CHR 0x22]"

definition csv_field :: "bool \<Rightarrow> string \<Rightarrow> string" where
  "csv_field alone f = (if csv_needs_quotes f \<or> alone \<and> f = [] then csv_quoted f else f)"

text \<open>A line of \<open>csv.writer\<close>; an empty text is quoted when it is the only field.\<close>

definition csv_line :: "string list \<Rightarrow> string" where
  "csv_line fs = py_join '','' (map (csv_field (length fs = 1)) fs) @ [CHR 0x0D, CHR 0x0A]"

text \<open>\<open>str\<close> of a cell; \<open>None\<close> and a missing key are empty.\<close>

definition csv_cell :: "(cell \<Rightarrow> string) \<Rightarrow> cell option \<Rightarrow> string" where
  "csv_cell show_cell v =
     (case v of None \<Rightarrow> [] | Some (Plain JNull) \<Rightarrow> [] | Some (Plain (JStr t)) \<Rightarrow> t | Some c \<Rightarrow> show_cell c)"

definition csv_rows :: "(cell \<Rightarrow> string) \<Rightarrow> string list \<Rightarrow> (string \<times> cell) list list \<Rightarrow> string list list" where
  "csv_rows show_cell columns rows = columns # map (\<lambda>r. map (\<lambda>k. csv_cell show_cell (map_of r k)) columns) rows"

definition csv_text :: "string list list \<Rightarrow> string" where
  "csv_text rows = concat (map csv_line rows)"

datatype download = Csv_file string | Json_rows "string list" "(string \<times> cell) list list" nat

definition BOM :: string where "BOM = [CHR 0xEF, CHR 0xBB, CHR 0xBF]"

definition download_data :: "(cell \<Rightarrow> string) \<Rightarrow> bool \<Rightarrow> string \<Rightarrow> result_cache \<Rightarrow> download http" where
  "download_data show_cell as_json sid cache =
     (case map_of cache sid of
        None \<Rightarrow> Http_error 404
      | Some (columns, rows) \<Rightarrow>
          if rows = [] then Http_error 404
          else if as_json then Http_ok (Json_rows columns rows (length rows))
          else Http_ok (Csv_file (BOM @ csv_text (csv_rows show_cell columns rows))))"

section \<open>Session requests\<close>

text \<open>Without the database 503, without the session or message 404.\<close>

definition with_pool :: "message_db option \<Rightarrow> (message_db \<Rightarrow> 'a http) \<Rightarrow> 'a http" where
  "with_pool db f = (case db of None \<Rightarrow> Http_error 503 | Some d \<Rightarrow> f d)"

definition found :: "'a option \<Rightarrow> 'a http" where
  "found v = (case v of None \<Rightarrow> Http_error 404 | Some a \<Rightarrow> Http_ok a)"

definition changed :: "'d \<times> bool \<Rightarrow> 'd http" where
  "changed r = (if snd r then Http_ok (fst r) else Http_error 404)"

definition api_list_sessions :: "message_db option \<Rightarrow> string \<Rightarrow> int \<Rightarrow> int \<Rightarrow> (session_row list \<times> nat) http" where
  "api_list_sessions db user max_rows offset =
     (if max_rows < 1 \<or> 100 < max_rows \<or> offset < 0 then Http_error 422
      else with_pool db (\<lambda>d. Http_ok (get_sessions_for_user user (nat max_rows) (nat offset) d)))"

definition api_get_session ::
  "(json \<Rightarrow> string list \<Rightarrow> json result) \<Rightarrow> (string \<Rightarrow> json option) \<Rightarrow> message_db option \<Rightarrow> string \<Rightarrow>
   (string \<times> (message_view \<times> json list) list) http" where
  "api_get_session delete_path loads db sid =
     with_pool db (\<lambda>d. case get_session_detail delete_path loads sid d of Inl e \<Rightarrow> Http_error 500 | Inr v \<Rightarrow> found v)"

definition api_delete_session :: "message_db option \<Rightarrow> string \<Rightarrow> message_db http" where
  "api_delete_session db sid = with_pool db (\<lambda>d. changed (archive_session sid d))"

definition api_unarchive_session :: "message_db option \<Rightarrow> string \<Rightarrow> message_db http" where
  "api_unarchive_session db sid = with_pool db (\<lambda>d. changed (unarchive_session sid d))"

definition api_update_title :: "message_db option \<Rightarrow> string \<Rightarrow> string \<Rightarrow> message_db http" where
  "api_update_title db sid title = with_pool db (\<lambda>d. changed (update_session_title sid title d))"

definition api_metadata :: "message_db option \<Rightarrow> string \<Rightarrow> (string \<times> json) list http" where
  "api_metadata db uuid = with_pool db (\<lambda>d. found (get_message_metadata uuid d))"

definition api_cancel :: "cancel_flags option \<Rightarrow> string \<Rightarrow> string \<Rightarrow> cancel_flags http" where
  "api_cancel flags sid tid = (case flags of None \<Rightarrow> Http_error 503 | Some f \<Rightarrow> Http_ok (mem_set_cancel sid tid f))"

definition api_active :: "bool \<Rightarrow> active_runs option \<Rightarrow> string \<Rightarrow> bool http" where
  "api_active fails act sid =
     (if length sid \<le> 128 \<and> sid \<noteq> [] \<and> list_all is_id_char sid then Http_ok (check_active fails sid act) else Http_error 422)"

section \<open>A reader of the downloaded file\<close>

fun csv_unquote :: "string \<Rightarrow> string \<times> string" where
  "csv_unquote [] = ([], [])"
| "csv_unquote (c # s) =
     (if c \<noteq> CHR 0x22 then (case csv_unquote s of (f, r) \<Rightarrow> (c # f, r))
      else case s of
             [] \<Rightarrow> ([], [])
           | d # t \<Rightarrow> if d = CHR 0x22 then (case csv_unquote t of (f, r) \<Rightarrow> (CHR 0x22 # f, r)) else ([], d # t))"

definition csv_plain :: "char \<Rightarrow> bool" where
  "csv_plain c \<longleftrightarrow> c \<notin> {CHR '','', CHR 0x0D, CHR 0x0A}"

definition read_field :: "string \<Rightarrow> string \<times> string" where
  "read_field s =
     (case s of
        [] \<Rightarrow> ([], [])
      | c # t \<Rightarrow> if c = CHR 0x22 then csv_unquote t else (takeWhile csv_plain s, dropWhile csv_plain s))"

lemma csv_unquote_shorter: "length (snd (csv_unquote s)) \<le> length s"
proof (induction s rule: length_induct)
  case (1 s)
  show ?case
  proof (cases s)
    case (Cons c u)
    have u: "length (snd (csv_unquote u)) \<le> length u" using 1 Cons by simp
    show ?thesis
    proof (cases u)
      case Nil
      with Cons show ?thesis by (simp add: split_beta)
    next
      case (Cons d t)
      have t: "length (snd (csv_unquote t)) \<le> length t" using 1 \<open>s = c # u\<close> Cons by simp
      have "csv_unquote s = (if c \<noteq> CHR 0x22 then (c # fst (csv_unquote u), snd (csv_unquote u))
          else if d = CHR 0x22 then (CHR 0x22 # fst (csv_unquote t), snd (csv_unquote t)) else ([], u))"
        unfolding \<open>s = c # u\<close> by (subst csv_unquote.simps) (simp only: Cons list.case split_beta)
      moreover have "length s = Suc (length u)" "length u = Suc (length t)" using \<open>s = c # u\<close> Cons by simp_all
      ultimately show ?thesis using u t by (simp del: csv_unquote.simps split: if_split)
    qed
  qed simp
qed

lemma read_field_shorter: "read_field s = (f, r) \<Longrightarrow> length r \<le> length s"
proof (cases s)
  case (Cons c t)
  assume a: "read_field s = (f, r)"
  show ?thesis
  proof (cases "c = CHR 0x22")
    case True
    with a Cons have "r = snd (csv_unquote t)" by (simp add: read_field_def)
    with csv_unquote_shorter [of t] Cons show ?thesis by simp
  next
    case False
    with a Cons have "r = dropWhile csv_plain s" by (simp add: read_field_def)
    then show ?thesis using length_dropWhile_le [of csv_plain s] by simp
  qed
qed (simp add: read_field_def)

function read_row :: "string \<Rightarrow> string list \<times> string" where
  "read_row s =
     (case read_field s of (f, r) \<Rightarrow>
      case r of
        [] \<Rightarrow> ([f], [])
      | c # t \<Rightarrow>
          if c = CHR '','' then (case read_row t of (fs, r') \<Rightarrow> (f # fs, r'))
          else ([f], if c = CHR 0x0D \<and> t \<noteq> [] \<and> hd t = CHR 0x0A then tl t else t))"
  by pat_completeness auto
termination
  by (relation "measure length", simp, drule sym, frule read_field_shorter, simp)

declare read_row.simps [simp del]

function read_csv :: "string \<Rightarrow> string list list" where
  "read_csv s =
     (if s = [] then []
      else case read_row s of (fs, r) \<Rightarrow> if length r < length s then fs # read_csv r else [fs])"
  by pat_completeness auto
termination by (relation "measure length") auto

declare read_csv.simps [simp del]

lemma csv_unquote_double: "r = [] \<or> hd r \<noteq> CHR 0x22 \<Longrightarrow> csv_unquote (csv_double f @ CHR 0x22 # r) = (f, r)"
  by (induction f) (auto split: list.split)

lemma read_field_written:
  assumes "r = [] \<or> hd r \<in> {CHR '','', CHR 0x0D}" and "alone \<or> r \<noteq> []"
  shows "read_field (csv_field alone f @ r) = (f, r)"
proof (cases "csv_needs_quotes f \<or> alone \<and> f = []")
  case True
  have "r = [] \<or> hd r \<noteq> CHR 0x22" using assms(1) by auto
  from csv_unquote_double [OF this, of f] True show ?thesis
    by (simp add: csv_field_def csv_quoted_def read_field_def)
next
  case False
  then have plain: "list_all csv_plain f" "list_all (\<lambda>c. c \<noteq> CHR 0x22) f"
    by (auto simp: csv_needs_quotes_def csv_plain_def list_ex_iff list_all_iff)
  have stop: "r = [] \<or> \<not> csv_plain (hd r)" using assms(1) by (auto simp: csv_plain_def)
  have take: "takeWhile csv_plain (f @ r) = f" "dropWhile csv_plain (f @ r) = r"
    using plain(1) stop by (induction f) (auto simp: takeWhile_eq_Nil_iff dropWhile_eq_self_iff)
  show ?thesis
  proof (cases f)
    case Nil
    with False assms obtain c t where "r = c # t" by (cases r) auto
    with Nil False assms(1) stop show ?thesis by (auto simp: csv_field_def read_field_def)
  next
    case (Cons c t)
    with plain(2) take False show ?thesis by (simp add: csv_field_def read_field_def)
  qed
qed

lemma read_fields_written:
  "fs \<noteq> [] \<Longrightarrow> (length fs = 1 \<longrightarrow> alone) \<or> \<not> alone \<Longrightarrow>
   read_row (py_join '','' (map (csv_field alone) fs) @ [CHR 0x0D, CHR 0x0A] @ r) = (fs, r)"
proof (induction fs)
  case (Cons f fs)
  show ?case
  proof (cases fs)
    case Nil
    have "read_field (csv_field alone f @ [CHR 0x0D, CHR 0x0A] @ r) = (f, [CHR 0x0D, CHR 0x0A] @ r)"
      by (rule read_field_written) simp_all
    then show ?thesis using Nil by (subst read_row.simps) simp
  next
    case (Cons g gs)
    let ?rest = "py_join '','' (map (csv_field alone) fs) @ [CHR 0x0D, CHR 0x0A] @ r"
    have "read_field (csv_field alone f @ '','' @ ?rest) = (f, '','' @ ?rest)"
      by (rule read_field_written) simp_all
    moreover have "read_row ?rest = (fs, r)" using Cons Cons.IH Cons.prems by auto
    ultimately show ?thesis using Cons by (subst read_row.simps) simp
  qed
qed simp

lemma read_row_written: "fs \<noteq> [] \<Longrightarrow> read_row (csv_line fs @ r) = (fs, r)"
  using read_fields_written [of fs "length fs = 1" r] by (auto simp: csv_line_def)

lemma csv_line_nonempty: "csv_line fs \<noteq> []"
  by (simp add: csv_line_def)

text \<open>
  A downloaded file is read back as the table.  Whatever texts the columns and cells hold, commas,
  quotes and line ends included, a reader of the format gets the header and, row by row, the texts
  of the cells; an empty line is never taken for a row.
\<close>
theorem csv_roundtrip:
  assumes "columns \<noteq> []"
  shows "read_csv (csv_text (csv_rows show_cell columns rows)) =
    columns # map (\<lambda>r. map (\<lambda>k. csv_cell show_cell (map_of r k)) columns) rows"
proof -
  have "read_csv (csv_text rs) = rs" if "\<forall>fs\<in>set rs. fs \<noteq> []" for rs
    using that
  proof (induction rs)
    case Nil
    then show ?case by (subst read_csv.simps) (simp add: csv_text_def)
  next
    case (Cons fs rs)
    then have "read_row (csv_line fs @ csv_text rs) = (fs, csv_text rs)" by (simp add: read_row_written)
    with Cons csv_line_nonempty [of fs] show ?case by (subst read_csv.simps) (simp add: csv_text_def)
  qed
  then show ?thesis using assms by (simp add: csv_rows_def)
qed

theorem csv_roundtrip_witness:
  "read_csv (csv_text (csv_rows (\<lambda>c. ''1'') [''branch'', ''memo''] [[(''memo'', Plain (JStr ''a, b''))]])) =
     [[''branch'', ''memo''], [[], ''a, b'']]"
  by (subst csv_roundtrip) (simp_all add: csv_cell_def)

section \<open>The messages of a turn\<close>

definition turn_messages :: "bool \<Rightarrow> string \<Rightarrow> pipeline_result \<Rightarrow> json list" where
  "turn_messages pii sid r =
     (if vz_svg_code (pr_visualization r) \<noteq> [] then [viz_message r] else []) @ [start_message] @
     (if truthy_option (pr_result_data r) then [data_message (json_option id (pr_result_data r))] else []) @
     (if pr_streaming_delivered r then [] else [chunk_message (mask_pii pii (pr_response r))]) @ [end_message r] @
     (case result_rows r of
        Inl e \<Rightarrow> []
      | Inr rows \<Rightarrow> if \<not> pr_awaiting_clarification r \<and> positive rows = Inr True then [download_message sid rows r] else [])"

definition send_all :: "(nat \<Rightarrow> bool) \<Rightarrow> json list \<Rightarrow> ws \<Rightarrow> ws" where
  "send_all ok ms w = fold (\<lambda>m w. snd (safe_send ok m w)) ms w"

lemma send_all_simps [simp]:
  "send_all ok [] w = w" "send_all ok (m # ms) w = send_all ok ms (snd (safe_send ok m w))"
  "send_all ok (ms @ ns) w = send_all ok ns (send_all ok ms w)"
  by (simp_all add: send_all_def)

lemma send_all_closed [simp]: "ws_closed w \<Longrightarrow> send_all ok ms w = w"
  by (induction ms) (simp_all add: safe_send_def)

lemma safe_send_fails: "safe_send ok m w = (False, w') \<Longrightarrow> ws_closed w'"
  by (auto simp: safe_send_def split: if_splits)

lemma send_all_prefix:
  "\<exists>pre. prefix pre ms \<and> ws_delivered (send_all ok ms w) = ws_delivered w @ pre \<and> (\<not> ws_closed (send_all ok ms w) \<longrightarrow> pre = ms)"
proof (induction ms arbitrary: w)
  case (Cons m ms)
  show ?case
  proof (cases "fst (safe_send ok m w)")
    case True
    then have "ws_delivered (snd (safe_send ok m w)) = ws_delivered w @ [m]" by (auto simp: safe_send_def split: if_splits)
    with Cons [of "snd (safe_send ok m w)"] obtain pre where "prefix pre ms"
      "ws_delivered (send_all ok (m # ms) w) = ws_delivered w @ m # pre"
      "\<not> ws_closed (send_all ok (m # ms) w) \<longrightarrow> pre = ms" by auto
    then show ?thesis by (intro exI [of _ "m # pre"]) simp
  next
    case False
    then have "ws_closed (snd (safe_send ok m w))" "ws_delivered (snd (safe_send ok m w)) = ws_delivered w"
      by (auto simp: safe_send_def split: if_splits)
    then show ?thesis by (intro exI [of _ "[]"]) simp
  qed
qed simp

lemma ws_turn_sends:
  assumes "ws_turn ok pii sid r (w, cache) = Inr (w', cache')"
  shows "w' = send_all ok (turn_messages pii sid r) w"
proof (cases "ws_closed w")
  case False
  obtain sent w1 where v: "(if vz_svg_code (pr_visualization r) \<noteq> [] then safe_send ok (viz_message r) w else (True, w)) = (sent, w1)"
    by (cases "if vz_svg_code (pr_visualization r) \<noteq> [] then safe_send ok (viz_message r) w else (True, w)")
  then have w1: "w1 = send_all ok (if vz_svg_code (pr_visualization r) \<noteq> [] then [viz_message r] else []) w"
    "\<not> sent \<longrightarrow> ws_closed w1"
    using safe_send_fails [of ok "viz_message r" w] by (auto split: if_splits)
  obtain started w2 where st: "safe_send ok start_message w1 = (started, w2)" by (cases "safe_send ok start_message w1")
  show ?thesis
  proof (cases "sent \<and> started")
    case True
    define D where "D = (case result_rows r of Inl e \<Rightarrow> []
        | Inr rows \<Rightarrow> if \<not> pr_awaiting_clarification r \<and> positive rows = Inr True then [download_message sid rows r] else [])"
    let ?V = "if vz_svg_code (pr_visualization r) \<noteq> [] then [viz_message r] else []"
    let ?A = "(if truthy_option (pr_result_data r) then [data_message (json_option id (pr_result_data r))] else []) @
         (if pr_streaming_delivered r then [] else [chunk_message (mask_pii pii (pr_response r))]) @ [end_message r]"
    have ans: "send_answer ok pii r w2 = send_all ok ?A w2"
      by (simp add: send_answer_def Let_def)
    have "turn_messages pii sid r = ?V @ [start_message] @ ?A @ D" by (simp add: turn_messages_def D_def)
    then have all: "send_all ok (turn_messages pii sid r) w = send_all ok D (send_answer ok pii r w2)"
      by (simp only: send_all_simps(3) w1(1) [symmetric] ans) (simp add: st)
    have turn: "result_bind (result_rows r) (\<lambda>rows.
        if pr_awaiting_clarification r then Inr (send_answer ok pii r w2, cache)
        else result_bind (positive rows) (\<lambda>p.
          if p then Inr (snd (safe_send ok (download_message sid rows r) (send_answer ok pii r w2)), cache_sql_result sid (pr_sql_result r) cache)
          else Inr (send_answer ok pii r w2, cache))) = Inr (w', cache')"
      using assms True \<open>\<not> ws_closed w\<close> unfolding ws_turn_def prod.case v st Let_def by simp
    then obtain rows where rows: "result_rows r = Inr rows" by (auto simp: result_bind_Inr_iff)
    show ?thesis
    proof (cases "pr_awaiting_clarification r")
      case True
      with turn rows show ?thesis by (simp add: all D_def)
    next
      case False
      with turn rows obtain q where q: "positive rows = Inr q" by (auto simp: result_bind_Inr_iff)
      with turn rows False show ?thesis by (cases q) (simp_all add: all D_def)
    qed
  next
    case False
    then have "ws_closed w1 \<or> ws_closed w2 \<and> sent" using w1(2) st safe_send_fails [of ok start_message w1] by auto
    moreover have "w' = (if sent then w2 else w1)"
      using assms False \<open>\<not> ws_closed w\<close> v st by (auto simp: ws_turn_def split: if_splits)
    moreover have "w2 = w1" if "ws_closed w1" using that st by (simp add: safe_send_def)
    moreover obtain rest where "turn_messages pii sid r =
        (if vz_svg_code (pr_visualization r) \<noteq> [] then [viz_message r] else []) @ [start_message] @ rest"
      by (simp add: turn_messages_def)
    then have "send_all ok (turn_messages pii sid r) w = send_all ok rest w2"
      by (simp only: send_all_simps(3) w1(1) [symmetric]) (simp add: st)
    ultimately show ?thesis by auto
  qed
qed (use assms in \<open>simp add: ws_turn_def\<close>)

text \<open>
  C18: What a client receives of a turn.  Whichever transmission fails, the messages delivered are a
  beginning of the list: the chart if there is one, the start of the stream, the table, the masked
  text unless it was streamed, the end with its status, and the offer to download; all of them
  unless the connection is closed.  So no connection that is still open waits for the end of a stream.
\<close>
theorem turn_protocol:
  assumes "ws_turn ok pii sid r (w, cache) = Inr (w', cache')"
  shows "\<exists>pre. prefix pre (turn_messages pii sid r) \<and> ws_delivered w' = ws_delivered w @ pre \<and>
    (\<not> ws_closed w' \<longrightarrow> pre = turn_messages pii sid r)"
  unfolding ws_turn_sends [OF assms] by (rule send_all_prefix)

lemma dict_set_length: "length (dict_set k v d) \<le> Suc (length d)"
  by (induction k v d rule: dict_set.induct) auto

text \<open>The cache of results never holds more than its bound, and the latest result is in it.\<close>
theorem cache_bounded:
  assumes "length cache \<le> MAX_CACHE"
  shows "length (cache_sql_result sid r cache) \<le> MAX_CACHE \<and>
    map_of (cache_sql_result sid r cache) sid = Some (sr_columns r, sr_rows r)"
proof -
  have "length (dict_set sid v (if length cache \<ge> MAX_CACHE then tl cache else cache)) \<le> MAX_CACHE" for v
  proof (cases "length cache \<ge> MAX_CACHE")
    case True
    have "1 \<le> MAX_CACHE" by (simp add: MAX_CACHE_def)
    then show ?thesis using dict_set_length [of sid v "tl cache"] assms True by simp
  next
    case False
    then show ?thesis using dict_set_length [of sid v cache] by simp
  qed
  then show ?thesis by (simp add: cache_sql_result_def map_of_dict_set)
qed

text \<open>
  The table is sent as it is: a resident number in a cell reaches the client although the same
  number in the text is masked.
\<close>
lemma rows_not_masked:
  assumes "pr_result_data r = Some d" and "json_true d"
  shows "data_message d \<in> set (turn_messages pii sid r)"
  using assms by (simp add: turn_messages_def truthy_option_def json_option_def)

text \<open>A session identifier holds no path separator and no dot; but it may end with a line end.\<close>
theorem valid_session_id:
  assumes "is_valid_session_id s"
  shows "length s \<le> 129 \<and> (\<forall>c\<in>set s. is_id_char c \<or> c = CHR 0x0A) \<and> CHR ''/'' \<notin> set s \<and> CHR ''.'' \<notin> set s"
proof -
  have c: "\<forall>c\<in>set s. is_id_char c \<or> c = CHR 0x0A" and l: "length s \<le> 129"
    using assms by (cases s rule: rev_cases; auto simp: is_valid_session_id_def list_all_iff Let_def split: if_splits)+
  moreover have "\<not> is_id_char CHR ''/''" "\<not> is_id_char CHR ''.''"
    by (simp_all add: is_id_char_def is_digit_char_def is_alpha_char_def)
  ultimately show ?thesis by auto
qed

theorem valid_session_id_witness:
  "CHR ''/'' \<notin> set (''s-1'' @ [CHR 0x0A])"
proof -
  have "is_valid_session_id (''s-1'' @ [CHR 0x0A])"
    by (simp add: is_valid_session_id_def is_id_char_def is_digit_char_def is_alpha_char_def)
  from valid_session_id [OF this] show ?thesis by blast
qed

text \<open>A field \<open>text\<close> that is no string ends the connection: the exception is not one the loop catches.\<close>
lemma text_number_escapes:
  assumes "loads raw = Some (JObj [(''text'', JNum q)])"
  shows "ws_receive loads nfkc off raw = Inl AttributeError"
  using assms by (simp add: ws_receive_def read_envelope_def obj_get_def)

section \<open>Witnesses\<close>

definition sample_answer :: pipeline_result where
  "sample_answer = (new_result ''3 loans'')\<lparr>pr_insight := JObj [(''result_stats'', JObj [(''row_count'', JNum 3)])]\<rparr>"

lemma sample_answer_turn:
  "ws_turn (\<lambda>n. n < 2) True ''t'' sample_answer (\<lparr>ws_delivered = [], ws_closed = False, ws_attempts = 0\<rparr>, []) =
     Inr (\<lparr>ws_delivered = [start_message, chunk_message (mask_pii True ''3 loans'')], ws_closed = True, ws_attempts = 3\<rparr>,
          [(''t'', [], [])])"
  by (simp add: ws_turn_def send_answer_def sample_answer_def new_result_def new_visualization_data_def safe_send_def truthy_option_def
      result_rows_def positive_def cache_sql_result_def MAX_CACHE_def new_sql_result_def Let_def)

theorem turn_protocol_witness:
  "\<exists>pre. prefix pre (turn_messages True ''t'' sample_answer) \<and> pre = [start_message, chunk_message (mask_pii True ''3 loans'')]"
  using turn_protocol [OF sample_answer_turn] by simp

theorem cache_bounded_witness:
  "length (cache_sql_result ''t'' new_sql_result []) \<le> MAX_CACHE"
  using cache_bounded [of "[]" "''t''" new_sql_result] by (simp add: MAX_CACHE_def)

end
