(* ===== verification/LlmClient.thy ===== *)
theory LlmClient imports LlmRetry CircuitBreaker Enums begin

text \<open>
  The model client, \<open>src/src/utils/llm/client.py\<close>, with the thinking modes of
  \<open>src/src/agents/nodes/thinking_modes.py\<close>: the arguments each provider is called with, the
  reading of replies and of stream events, the filter that separates \<open><think>\<close> blocks from
  streamed text, the record of a call, the circuit breaker around the adapter and the single
  client of a process.  The vendors' libraries are arguments: a function from the call's keyword
  arguments to its reply, an object of the library being the \<open>JObj\<close> of its attributes.
\<close>

section \<open>Thinking modes\<close>

definition NODE_THINKING_MODES :: "(string \<times> string) list" where
  "NODE_THINKING_MODES =
     [(''intent_classifier'', ''high''), (''continue_orchestrator'', ''medium''),
      (''normalize_query_phase1'', ''high''), (''normalize_query_phase2'', ''medium''),
      (''context_interpreter'', ''medium''), (''sql_generator'', ''high''), (''sql_validator'', ''medium''),
      (''recovery_agent'', ''high''), (''analyzer'', ''medium''), (''visualizer_judgment'', ''off''),
      (''visualizer_svg'', ''off'')]"

definition get_thinking_mode :: "string \<Rightarrow> string" where
  "get_thinking_mode node = (case map_of NODE_THINKING_MODES node of Some m \<Rightarrow> m | None \<Rightarrow> ''off'')"

definition resolve_thinking_mode :: "string \<Rightarrow> string option \<Rightarrow> string" where
  "resolve_thinking_mode current_node explicit =
     (case explicit of Some m \<Rightarrow> m | None \<Rightarrow> get_thinking_mode current_node)"

definition is_openai_reasoning_model :: "string \<Rightarrow> bool" where
  "is_openai_reasoning_model model \<longleftrightarrow>
     list_ex (starts_with (py_lower model)) [''o1'', ''o3'', ''o4'']"

definition is_qwen :: "string \<Rightarrow> bool" where
  "is_qwen model \<longleftrightarrow> contains (py_lower model) ''qwen''"

definition REASONING_MAX_COMPLETION :: int where "REASONING_MAX_COMPLETION = 32768"

definition effort_of :: "string \<Rightarrow> string" where
  "effort_of mode = (if mode \<in> {''low'', ''medium'', ''high''} then mode else ''none'')"

definition resolve_openai_thinking_params :: "string \<Rightarrow> string \<Rightarrow> (string \<times> json) list" where
  "resolve_openai_thinking_params model mode =
     (if is_qwen model then
        [(''extra_body'', JObj [(''chat_template_kwargs'',
            JObj [(''enable_thinking'', JBool (mode \<notin> {''off'', ''none''}))])])]
      else if is_openai_reasoning_model model \<or> contains (py_lower model) ''gemini''
        then [(''reasoning_effort'', JStr (effort_of mode))]
      else [])"

definition thinking_budget :: "string \<Rightarrow> int option" where
  "thinking_budget mode =
     (if mode = ''low'' then Some 1024 else if mode = ''medium'' then Some 4096
      else if mode = ''high'' then Some 8192 else None)"

definition resolve_anthropic_thinking_params :: "string \<Rightarrow> (string \<times> json) list" where
  "resolve_anthropic_thinking_params mode =
     (case thinking_budget mode of
        None \<Rightarrow> []
      | Some budget \<Rightarrow> [(''thinking'', JObj [(''type'', JStr ''enabled''), (''budget_tokens'', JNum (of_int budget))])])"

section \<open>The arguments of a call\<close>

record llm_request =
  rq_model :: string
  rq_max_tokens :: int
  rq_system :: "string option"
  rq_messages :: messages
  rq_timeout :: "rat option"
  rq_temperature :: "rat option"
  rq_thinking :: "string option"

definition message_json :: "string \<times> string \<Rightarrow> json" where
  "message_json m = JObj [(''role'', JStr (fst m)), (''content'', JStr (snd m))]"

definition given :: "string \<Rightarrow> json option \<Rightarrow> (string \<times> json) list" where
  "given k v = (case v of None \<Rightarrow> [] | Some x \<Rightarrow> [(k, x)])"

definition anthropic_kwargs :: "llm_request \<Rightarrow> (string \<times> json) list" where
  "anthropic_kwargs rq =
     [(''model'', JStr (rq_model rq)), (''max_tokens'', JNum (of_int (rq_max_tokens rq))),
      (''messages'', JList (map message_json (rq_messages rq)))] @
     given ''system'' (map_option JStr (rq_system rq)) @ given ''timeout'' (map_option JNum (rq_timeout rq)) @
     given ''temperature'' (map_option JNum (rq_temperature rq)) @
     (case rq_thinking rq of None \<Rightarrow> [] | Some m \<Rightarrow> resolve_anthropic_thinking_params m)"

definition openai_messages :: "llm_request \<Rightarrow> messages" where
  "openai_messages rq =
     (case rq_system rq of
        None \<Rightarrow> rq_messages rq
      | Some s \<Rightarrow> (if s \<noteq> [] then [(''system'', s)] else []) @ rq_messages rq)"

definition build_openai_call_kwargs :: "string \<Rightarrow> bool \<Rightarrow> llm_request \<Rightarrow> (string \<times> json) list" where
  "build_openai_call_kwargs current_node stream rq =
     (let is_reasoning = is_openai_reasoning_model (rq_model rq);
          mode = resolve_thinking_mode current_node (rq_thinking rq)
      in [(''model'', JStr (rq_model rq)), (''messages'', JList (map message_json (openai_messages rq))),
          (if is_reasoning then (''max_completion_tokens'', JNum (of_int (max (rq_max_tokens rq) REASONING_MAX_COMPLETION)))
           else (''max_tokens'', JNum (of_int (rq_max_tokens rq))))] @
         (if stream then [(''stream'', JBool True), (''stream_options'', JObj [(''include_usage'', JBool True)])] else []) @
         given ''timeout'' (map_option JNum (rq_timeout rq)) @
         (if is_reasoning then [] else given ''temperature'' (map_option JNum (rq_temperature rq))) @
         resolve_openai_thinking_params (rq_model rq) mode)"

text \<open>\<open>create\<close> of the OpenAI adapter builds its arguments itself.\<close>

definition openai_create_kwargs :: "string \<Rightarrow> llm_request \<Rightarrow> (string \<times> json) list" where
  "openai_create_kwargs current_node rq =
     (let head = (case rq_system rq of Some (c # s) \<Rightarrow> [(''system'', c # s)] | _ \<Rightarrow> []);
          budget = (if is_openai_reasoning_model (rq_model rq)
            then (''max_completion_tokens'', JNum (of_int (max (rq_max_tokens rq) REASONING_MAX_COMPLETION)))
            else (''max_tokens'', JNum (of_int (rq_max_tokens rq))));
          temperature = (case rq_temperature rq of
              Some t \<Rightarrow> if is_openai_reasoning_model (rq_model rq) then [] else [(''temperature'', JNum t)]
            | None \<Rightarrow> [])
      in [(''model'', JStr (rq_model rq)), (''messages'', JList (map message_json (head @ rq_messages rq))), budget] @
         given ''timeout'' (map_option JNum (rq_timeout rq)) @ temperature @
         resolve_openai_thinking_params (rq_model rq) (resolve_thinking_mode current_node (rq_thinking rq)))"

section \<open>Attributes of the library's objects\<close>

text \<open>\<open>getattr(obj, name, default)\<close>, and \<open>x or ""\<close> of a text that may be missing.\<close>

fun attr :: "json \<Rightarrow> string \<Rightarrow> json \<Rightarrow> json" where
  "attr (JObj kvs) k d = (case map_of kvs k of None \<Rightarrow> d | Some v \<Rightarrow> v)"
| "attr _ k d = d"

fun text_of :: "json \<Rightarrow> string" where
  "text_of (JStr t) = t"
| "text_of _ = []"

definition json_or :: "json \<Rightarrow> json \<Rightarrow> json" where
  "json_or a b = (if json_true a then a else b)"

fun items_of :: "json \<Rightarrow> json list" where
  "items_of (JList xs) = xs"
| "items_of _ = []"

definition extract_text :: "json \<Rightarrow> string" where
  "extract_text blocks =
     concat (map (\<lambda>b. text_of (attr b ''text'' JNull))
       (filter (\<lambda>b. attr b ''type'' JNull = JStr ''text'') (items_of blocks)))"

section \<open>The record of a call\<close>

record llm_env =
  le_node :: string
  le_trace_limit :: int
  le_elapsed :: rat

record llm_call =
  lc_node :: string
  lc_prompt_summary :: string
  lc_response_text :: string
  lc_model :: string
  lc_prompt_tokens :: json
  lc_response_tokens :: json
  lc_latency_ms :: rat

record llm_response =
  lr_content :: "string list"
  lr_model :: string
  lr_stop_reason :: json

text \<open>Roles are never empty; \<open>[0].upper()\<close> is their first letter.\<close>

definition build_prompt_summary :: "int \<Rightarrow> string option \<Rightarrow> messages \<Rightarrow> string" where
  "build_prompt_summary limit system msgs =
     truncate_at limit (py_join '' | ''
       ((case system of Some (c # s) \<Rightarrow> [''[S] '' @ truncate_at limit (c # s)] | _ \<Rightarrow> []) @
        map (\<lambda>(role, content). ''['' @ take 1 (py_upper role) @ ''] '' @ truncate_at limit content)
          (drop (length msgs - 2) msgs)))"

definition llm_call_event :: "llm_env \<Rightarrow> llm_request \<Rightarrow> string \<Rightarrow> json \<Rightarrow> json \<Rightarrow> llm_call" where
  "llm_call_event env rq text prompt_tokens response_tokens =
     \<lparr>lc_node = le_node env,
      lc_prompt_summary = build_prompt_summary (le_trace_limit env) (rq_system rq) (rq_messages rq),
      lc_response_text = text, lc_model = rq_model rq, lc_prompt_tokens = prompt_tokens,
      lc_response_tokens = response_tokens, lc_latency_ms = le_elapsed env\<rparr>"

section \<open>The Anthropic adapter\<close>

definition anthropic_create ::
  "llm_env \<Rightarrow> ((string \<times> json) list \<Rightarrow> json result) \<Rightarrow> llm_request \<Rightarrow> llm_response result \<times> llm_call list" where
  "anthropic_create env server rq =
     (case server (anthropic_kwargs rq) of
        Inl e \<Rightarrow> (Inl e, [])
      | Inr reply \<Rightarrow>
          let text = extract_text (attr reply ''content'' JNull); usage = attr reply ''usage'' JNull
          in (Inr \<lparr>lr_content = [text],
                   lr_model = text_of (json_or (attr reply ''model'' (JStr (rq_model rq))) (JStr (rq_model rq))),
                   lr_stop_reason = attr reply ''stop_reason'' JNull\<rparr>,
              [llm_call_event env rq (truncate_at (le_trace_limit env) text)
                 (attr usage ''input_tokens'' (JNum 0)) (attr usage ''output_tokens'' (JNum 0))]))"

definition nonempty_item :: "(string \<Rightarrow> stream_item) \<Rightarrow> string \<Rightarrow> stream_item list" where
  "nonempty_item kind t = (if t \<noteq> [] then [kind t] else [])"

definition parse_content_block_delta :: "json \<Rightarrow> stream_item list" where
  "parse_content_block_delta event =
     (let delta = attr event ''delta'' JNull; dtype = attr delta ''type'' JNull
      in if dtype = JStr ''text_delta'' then nonempty_item Text (text_of (attr delta ''text'' JNull))
         else if dtype = JStr ''thinking_delta'' then nonempty_item Thinking (text_of (attr delta ''thinking'' JNull))
         else [])"

definition update_usage_from_event :: "json \<Rightarrow> json \<Rightarrow> json \<times> json \<Rightarrow> json \<times> json" where
  "update_usage_from_event event etype usage_state =
     (if etype = JStr ''message_start'' then
        let usage = attr (attr event ''message'' JNull) ''usage'' JNull
        in if usage = JNull then usage_state
           else (json_or (attr usage ''input_tokens'' (JNum 0)) (JNum 0), snd usage_state)
      else if etype = JStr ''message_delta'' then
        let usage = attr event ''usage'' JNull
        in if usage = JNull then usage_state
           else (fst usage_state, json_or (attr usage ''output_tokens'' (snd usage_state)) (snd usage_state))
      else usage_state)"

definition parse_anthropic_event :: "json \<Rightarrow> json \<times> json \<Rightarrow> stream_item list \<times> json \<times> json" where
  "parse_anthropic_event event usage_state =
     (let etype = attr event ''type'' JNull
      in if etype = JStr ''content_block_delta'' then (parse_content_block_delta event, usage_state)
         else ([], update_usage_from_event event etype usage_state))"

fun anthropic_events :: "json list \<Rightarrow> json \<times> json \<Rightarrow> stream_item list \<times> json \<times> json" where
  "anthropic_events [] usage = ([], usage)"
| "anthropic_events (e # es) usage =
     (let (items, usage') = parse_anthropic_event e usage; (rest, final) = anthropic_events es usage'
      in (items @ rest, final))"

fun item_text :: "stream_item \<Rightarrow> string" where
  "item_text (Text t) = t"
| "item_text _ = []"

definition streamed_text :: "stream_item list \<Rightarrow> string" where
  "streamed_text items = concat (map item_text items)"

text \<open>
  A stream read to its end: the events the library yields and the exception it ends with, if
  any.  The call is recorded on either way out.
\<close>

type_synonym event_source = "(string \<times> json) list \<Rightarrow> json list \<times> py_error option"

definition broken :: "py_error option \<Rightarrow> stream_item list" where
  "broken err = (case err of None \<Rightarrow> [] | Some e \<Rightarrow> [Broken e])"

definition anthropic_stream :: "llm_env \<Rightarrow> event_source \<Rightarrow> llm_request \<Rightarrow> stream_item list \<times> llm_call" where
  "anthropic_stream env source rq =
     (let (events, err) = source (anthropic_kwargs rq);
          (items, n_in, n_out) = anthropic_events events (JNum 0, JNum 0)
      in (items @ broken err,
          llm_call_event env rq (truncate_at (le_trace_limit env) (streamed_text items)) n_in n_out))"

section \<open>Thinking blocks in texts\<close>

definition THINK_OPEN :: string where "THINK_OPEN = ''<think>''"
definition THINK_CLOSE :: string where "THINK_CLOSE = ''</think>''"

definition think_tag :: "bool \<Rightarrow> string" where
  "think_tag in_think = (if in_think then THINK_CLOSE else THINK_OPEN)"

lemma split_once_rest: "split_once p s = Some (a, b) \<Longrightarrow> length a + length p + length b = length s"
  using split_once_Some by fastforce

text \<open>\<open>_THINK_TAG_RE.sub("", text)\<close>\<close>

function remove_thinking :: "string \<Rightarrow> string" where
  "remove_thinking s =
     (case split_once THINK_OPEN s of
        None \<Rightarrow> s
      | Some (before, inner) \<Rightarrow>
          (case split_once THINK_CLOSE inner of
             None \<Rightarrow> s
           | Some (thoughts, rest) \<Rightarrow> before @ remove_thinking (dropWhile is_ascii_space rest)))"
  by pat_completeness auto
termination
proof (relation "measure length", simp)
  fix s and p q :: "string \<times> string" and before inner thoughts rest
  assume a: "split_once THINK_OPEN s = Some p" "(before, inner) = p"
    and b: "split_once THINK_CLOSE inner = Some q" "(thoughts, rest) = q"
  have "length (dropWhile is_ascii_space rest) \<le> length rest" by (rule length_dropWhile_le)
  moreover have "length before + 7 + length inner = length s"
    using split_once_rest [of THINK_OPEN s before inner] a by (simp add: THINK_OPEN_def)
  moreover have "length thoughts + 8 + length rest = length inner"
    using split_once_rest [of THINK_CLOSE inner thoughts rest] b by (simp add: THINK_CLOSE_def)
  ultimately show "(dropWhile is_ascii_space rest, s) \<in> measure length" by simp
qed

declare remove_thinking.simps [simp del]

definition strip_thinking_tags :: "string \<Rightarrow> string" where
  "strip_thinking_tags text = py_strip (remove_thinking text)"

text \<open>
  The filter of streamed text.  It holds back a suffix that could be the start of the tag it
  waits for; \<open>feed\<close> is its loop over the buffer.
\<close>

record think_filter =
  tf_buf :: string
  tf_in_think :: bool

definition new_think_filter :: think_filter where
  "new_think_filter = \<lparr>tf_buf = [], tf_in_think = False\<rparr>"

fun prefix_len_below :: "nat \<Rightarrow> string \<Rightarrow> string \<Rightarrow> nat" where
  "prefix_len_below 0 buf tag = 0"
| "prefix_len_below (Suc n) buf tag =
     (if starts_with tag (drop (length buf - Suc n) buf) then Suc n else prefix_len_below n buf tag)"

definition tag_prefix_len :: "string \<Rightarrow> string \<Rightarrow> nat" where
  "tag_prefix_len buf tag = prefix_len_below (min (length buf) (length tag - 1)) buf tag"

definition kind_of :: "bool \<Rightarrow> string \<Rightarrow> stream_item" where
  "kind_of in_think = (if in_think then Thinking else Text)"

definition flush_except_prefix :: "bool \<Rightarrow> string \<Rightarrow> stream_item list \<times> think_filter" where
  "flush_except_prefix in_think buf =
     (let hold = tag_prefix_len buf (think_tag in_think)
      in (nonempty_item (kind_of in_think) (take (length buf - hold) buf),
          \<lparr>tf_buf = drop (length buf - hold) buf, tf_in_think = in_think\<rparr>))"

function feed_loop :: "bool \<Rightarrow> string \<Rightarrow> stream_item list \<times> think_filter" where
  "feed_loop in_think buf =
     (if buf = [] then ([], \<lparr>tf_buf = [], tf_in_think = in_think\<rparr>)
      else case split_once (think_tag in_think) buf of
          None \<Rightarrow> flush_except_prefix in_think buf
        | Some (head, rest) \<Rightarrow>
            let (items, f) = feed_loop (\<not> in_think) rest
            in (nonempty_item (kind_of in_think) head @ items, f))"
  by pat_completeness auto
termination
proof (relation "measure (length \<circ> snd)", simp)
  fix in_think and buf :: string and p :: "string \<times> string" and head rest
  assume "split_once (think_tag in_think) buf = Some p" "(head, rest) = p"
  then show "((\<not> in_think, rest), (in_think, buf)) \<in> measure (length \<circ> snd)"
    using split_once_rest [of "think_tag in_think" buf head rest]
    by (simp add: think_tag_def THINK_OPEN_def THINK_CLOSE_def split: if_splits)
qed

declare feed_loop.simps [simp del]

definition feed :: "string \<Rightarrow> think_filter \<Rightarrow> stream_item list \<times> think_filter" where
  "feed chunk f = feed_loop (tf_in_think f) (tf_buf f @ chunk)"

definition flush :: "think_filter \<Rightarrow> stream_item list \<times> think_filter" where
  "flush f = (nonempty_item (kind_of (tf_in_think f)) (tf_buf f), f\<lparr>tf_buf := []\<rparr>)"

section \<open>The OpenAI adapter\<close>

definition openai_create ::
  "llm_env \<Rightarrow> ((string \<times> json) list \<Rightarrow> json result) \<Rightarrow> llm_request \<Rightarrow> llm_response result \<times> llm_call list" where
  "openai_create env server rq =
     (case server (openai_create_kwargs (le_node env) rq) of
        Inl e \<Rightarrow> (Inl e, [])
      | Inr reply \<Rightarrow>
          (case items_of (attr reply ''choices'' JNull) of
             [] \<Rightarrow> (Inl IndexErr, [])
           | choice # _ \<Rightarrow>
               let content = text_of (attr (attr choice ''message'' JNull) ''content'' JNull);
                   text = (if is_qwen (rq_model rq) then strip_thinking_tags content else content);
                   usage = attr reply ''usage'' JNull
               in (Inr \<lparr>lr_content = [text],
                        lr_model = text_of (json_or (attr reply ''model'' JNull) (JStr (rq_model rq))),
                        lr_stop_reason = attr choice ''finish_reason'' JNull\<rparr>,
                   [llm_call_event env rq text
                      (attr usage ''prompt_tokens'' (JNum 0)) (attr usage ''completion_tokens'' (JNum 0))])))"

definition absorb_openai_usage :: "json \<Rightarrow> json \<times> json \<Rightarrow> json \<times> json" where
  "absorb_openai_usage chunk usage_state =
     (let usage = attr chunk ''usage'' JNull
      in if usage = JNull then usage_state
         else (json_or (attr usage ''prompt_tokens'' (fst usage_state)) (fst usage_state),
               json_or (attr usage ''completion_tokens'' (snd usage_state)) (snd usage_state)))"

definition parse_openai_chunk ::
  "json \<Rightarrow> think_filter option \<Rightarrow> stream_item list \<times> think_filter option" where
  "parse_openai_chunk chunk qwen =
     (case items_of (attr chunk ''choices'' JNull) of
        [] \<Rightarrow> ([], qwen)
      | choice # _ \<Rightarrow>
          let delta = attr choice ''delta'' JNull;
              reasoning = nonempty_item Thinking (text_of (attr delta ''reasoning_content'' JNull));
              content = text_of (attr delta ''content'' JNull)
          in if content = [] then (reasoning, qwen)
             else (case qwen of
                 None \<Rightarrow> (reasoning @ [Text content], None)
               | Some f \<Rightarrow> (case feed content f of (items, f') \<Rightarrow> (reasoning @ items, Some f'))))"

fun openai_events ::
  "json list \<Rightarrow> think_filter option \<Rightarrow> json \<times> json \<Rightarrow> stream_item list \<times> think_filter option \<times> json \<times> json" where
  "openai_events [] qwen usage = ([], qwen, usage)"
| "openai_events (c # cs) qwen usage =
     (let (items, qwen') = parse_openai_chunk c qwen;
          (rest, final) = openai_events cs qwen' (absorb_openai_usage c usage)
      in (items @ rest, final))"

text \<open>An exception leaves the loop before the filter is flushed.\<close>

definition openai_stream :: "llm_env \<Rightarrow> event_source \<Rightarrow> llm_request \<Rightarrow> stream_item list \<times> llm_call" where
  "openai_stream env source rq =
     (let (chunks, err) = source (build_openai_call_kwargs (le_node env) True rq);
          (items, qwen, n_in, n_out) =
            openai_events chunks (if is_qwen (rq_model rq) then Some new_think_filter else None) (JNum 0, JNum 0);
          held = (case (err, qwen) of (None, Some f) \<Rightarrow> fst (flush f) | _ \<Rightarrow> []);
          sent = items @ held
      in (sent @ broken err,
          llm_call_event env rq (truncate_at (le_trace_limit env) (streamed_text sent)) n_in n_out))"

section \<open>The gateway adapter\<close>

definition py_rstrip_char :: "char \<Rightarrow> string \<Rightarrow> string" where
  "py_rstrip_char c s = rev (dropWhile (\<lambda>x. x = c) (rev s))"

record gateway =
  gw_base_url :: string
  gw_token :: string
  gw_placeholder :: string
  gw_timeout :: rat

definition new_gateway :: "string \<Rightarrow> string \<Rightarrow> string \<Rightarrow> rat \<Rightarrow> gateway" where
  "new_gateway url token placeholder timeout =
     \<lparr>gw_base_url = py_rstrip_char (CHR ''/'') url, gw_token = token, gw_placeholder = placeholder, gw_timeout = timeout\<rparr>"

definition combine_prompt :: "string option \<Rightarrow> messages \<Rightarrow> string" where
  "combine_prompt system msgs =
     py_join (nl @ nl)
       (filter (\<lambda>p. p \<noteq> []) ((case system of Some s \<Rightarrow> [s] | None \<Rightarrow> []) @ map snd msgs))"

definition gateway_body :: "gateway \<Rightarrow> string \<Rightarrow> json" where
  "gateway_body gw prompt =
     JObj [(''token'', JStr (gw_token gw)), (''extra'', JObj [(gw_placeholder gw, JStr prompt)])]"

text \<open>
  \<open>post url body timeout\<close> is the JSON of the reply, or the exception of the request, of its
  status code or of its body.  The gateway's \<open>answer\<close> is a text or missing.
\<close>

type_synonym poster = "string \<Rightarrow> json \<Rightarrow> rat \<Rightarrow> json result"

definition gateway_create ::
  "llm_env \<Rightarrow> string \<Rightarrow> poster \<Rightarrow> gateway \<Rightarrow> llm_request \<Rightarrow> llm_response result \<times> llm_call list" where
  "gateway_create env thread_id post gw rq =
     (case post (gw_base_url gw @ ''/gpt/api/'' @ thread_id)
             (gateway_body gw (combine_prompt (rq_system rq) (rq_messages rq)))
             (case rq_timeout rq of Some t \<Rightarrow> t | None \<Rightarrow> gw_timeout gw) of
        Inl e \<Rightarrow> (Inl e, [])
      | Inr reply \<Rightarrow>
          (case (json_get reply ''status'' (JStr []), json_get reply ''answer'' (JStr [])) of
             (Inr status, Inr answer) \<Rightarrow>
               if status \<noteq> JStr ''success'' then (Inl RuntimeErr, [])
               else let text = (if is_qwen (rq_model rq) then strip_thinking_tags (text_of answer) else text_of answer)
                    in (Inr \<lparr>lr_content = [text], lr_model = rq_model rq, lr_stop_reason = JStr ''stop''\<rparr>,
                        [llm_call_event env rq (truncate_at (le_trace_limit env) text) (JNum 0) (JNum 0)])
           | _ \<Rightarrow> (Inl AttributeError, [])))"

definition gateway_stream ::
  "llm_env \<Rightarrow> string \<Rightarrow> poster \<Rightarrow> gateway \<Rightarrow> llm_request \<Rightarrow> stream_item list \<times> llm_call list" where
  "gateway_stream env thread_id post gw rq =
     (case gateway_create env thread_id post gw rq of
        (Inl e, calls) \<Rightarrow> ([Broken e], calls)
      | (Inr r, calls) \<Rightarrow> (nonempty_item Text (concat (lr_content r)), calls))"

section \<open>The client of the process\<close>

datatype adapter = Anthropic_adapter | Openai_adapter | Gateway_adapter gateway

record llm_client =
  ul_adapter :: adapter
  ul_breaker :: "breaker option"

record llm_settings =
  ls_provider :: string
  ls_base_url :: string
  ls_token :: string
  ls_placeholder :: string
  ls_default_timeout :: rat
  ls_cb_enabled :: bool
  ls_cb_threshold :: int
  ls_cb_reset :: rat

definition new_llm_client :: "llm_settings \<Rightarrow> adapter \<Rightarrow> llm_client" where
  "new_llm_client st a =
     \<lparr>ul_adapter = a,
      ul_breaker = (if ls_cb_enabled st then Some (new_breaker (ls_cb_threshold st) (ls_cb_reset st)) else None)\<rparr>"

definition get_llm_client :: "llm_settings \<Rightarrow> llm_client option \<Rightarrow> llm_client result \<times> llm_client option" where
  "get_llm_client st singleton =
     (case singleton of
        Some c \<Rightarrow> (Inr c, Some c)
      | None \<Rightarrow>
          let provider = py_lower (ls_provider st); made = (\<lambda>a. (Inr (new_llm_client st a), Some (new_llm_client st a)))
          in if provider = ''anthropic'' then made Anthropic_adapter
             else if provider = ''openai_compatible'' then made Openai_adapter
             else if provider = ''ibk_custom'' then
               (if ls_base_url st = [] \<or> ls_token st = [] then (Inl ValueError, None)
                else made (Gateway_adapter
                  (new_gateway (ls_base_url st) (ls_token st) (ls_placeholder st) (ls_default_timeout st))))
             else (Inl ValueError, None))"

definition reset_llm_client :: "llm_client option \<Rightarrow> llm_client option" where
  "reset_llm_client singleton = None"

text \<open>The argument is what closing the connections ends with.\<close>

definition close_llm_client :: "unit result \<Rightarrow> llm_client option \<Rightarrow> unit result \<times> llm_client option" where
  "close_llm_client closing singleton = (case singleton of None \<Rightarrow> (Inr (), None) | Some c \<Rightarrow> (closing, None))"

text \<open>
  A call behind the breaker at the times it is entered and left; \<open>exc\<close> tells what the breaker
  can see of an exception.  A rejected call raises \<open>CircuitOpenError\<close>.
\<close>

definition outcome_of :: "(py_error \<Rightarrow> block_exc) \<Rightarrow> py_error option \<Rightarrow> block_outcome" where
  "outcome_of exc err = (case err of None \<Rightarrow> Completed | Some e \<Rightarrow> Raised (exc e))"

fun error_of :: "'a result \<Rightarrow> py_error option" where
  "error_of (Inl e) = Some e"
| "error_of (Inr a) = None"

fun stream_error :: "stream_item list \<Rightarrow> py_error option" where
  "stream_error [] = None"
| "stream_error (Broken e # items) = Some e"
| "stream_error (i # items) = stream_error items"

definition client_create ::
  "rat \<Rightarrow> rat \<Rightarrow> (py_error \<Rightarrow> block_exc) \<Rightarrow> (adapter \<Rightarrow> llm_response result \<times> llm_call list) \<Rightarrow> llm_client \<Rightarrow>
   llm_response result \<times> llm_call list \<times> llm_client" where
  "client_create t1 t2 exc run c =
     (case ul_breaker c of
        None \<Rightarrow> (case run (ul_adapter c) of (r, calls) \<Rightarrow> (r, calls, c))
      | Some b \<Rightarrow>
          (case guard_enter t1 b of
             (admitted, b1) \<Rightarrow>
               if \<not> admitted then (Inl OtherError, [], c\<lparr>ul_breaker := Some b1\<rparr>)
               else case run (ul_adapter c) of
                   (r, calls) \<Rightarrow> (r, calls, c\<lparr>ul_breaker := Some (guard_exit t2 (outcome_of exc (error_of r)) b1)\<rparr>)))"

definition client_stream ::
  "rat \<Rightarrow> rat \<Rightarrow> (py_error \<Rightarrow> block_exc) \<Rightarrow> (adapter \<Rightarrow> stream_item list \<times> llm_call list) \<Rightarrow> llm_client \<Rightarrow>
   stream_item list \<times> llm_call list \<times> llm_client" where
  "client_stream t1 t2 exc run c =
     (case ul_breaker c of
        None \<Rightarrow> (case run (ul_adapter c) of (items, calls) \<Rightarrow> (items, calls, c))
      | Some b \<Rightarrow>
          (case guard_enter t1 b of
             (admitted, b1) \<Rightarrow>
               if \<not> admitted then ([Broken OtherError], [], c\<lparr>ul_breaker := Some b1\<rparr>)
               else case run (ul_adapter c) of
                   (items, calls) \<Rightarrow>
                     (items, calls, c\<lparr>ul_breaker := Some (guard_exit t2 (outcome_of exc (stream_error items)) b1)\<rparr>)))"

text \<open>\<open>run\<close> for each adapter: the vendor's functions and the gateway's thread id are given.\<close>

definition run_create ::
  "llm_env \<Rightarrow> string \<Rightarrow> ((string \<times> json) list \<Rightarrow> json result) \<Rightarrow> poster \<Rightarrow> llm_request \<Rightarrow> adapter \<Rightarrow>
   llm_response result \<times> llm_call list" where
  "run_create env thread_id server post rq a =
     (case a of
        Anthropic_adapter \<Rightarrow> anthropic_create env server rq
      | Openai_adapter \<Rightarrow> openai_create env server rq
      | Gateway_adapter gw \<Rightarrow> gateway_create env thread_id post gw rq)"

definition run_stream ::
  "llm_env \<Rightarrow> string \<Rightarrow> event_source \<Rightarrow> poster \<Rightarrow> llm_request \<Rightarrow> adapter \<Rightarrow> stream_item list \<times> llm_call list" where
  "run_stream env thread_id source post rq a =
     (case a of
        Anthropic_adapter \<Rightarrow> (case anthropic_stream env source rq of (items, call) \<Rightarrow> (items, [call]))
      | Openai_adapter \<Rightarrow> (case openai_stream env source rq of (items, call) \<Rightarrow> (items, [call]))
      | Gateway_adapter gw \<Rightarrow> gateway_stream env thread_id post gw rq)"

section \<open>The filter against its specification\<close>

text \<open>
  The specification reads the whole text at once: every character outside a tag, with whether
  it is inside a thinking block.  The second argument counts the characters of a tag still to skip.
\<close>

fun tag_stream :: "bool \<Rightarrow> nat \<Rightarrow> string \<Rightarrow> (bool \<times> char) list" where
  "tag_stream m k [] = []"
| "tag_stream m (Suc k) (c # cs) = tag_stream m k cs"
| "tag_stream m 0 (c # cs) =
     (if starts_with (c # cs) (think_tag m) then tag_stream (\<not> m) (length (think_tag m) - 1) cs
      else (m, c) # tag_stream m 0 cs)"

fun item_chars :: "stream_item \<Rightarrow> (bool \<times> char) list" where
  "item_chars (Text t) = map (Pair False) t"
| "item_chars (Thinking t) = map (Pair True) t"
| "item_chars (Broken e) = []"

definition items_chars :: "stream_item list \<Rightarrow> (bool \<times> char) list" where
  "items_chars items = concat (map item_chars items)"

lemma items_chars_simps [simp]:
  "items_chars [] = []" "items_chars (i # is) = item_chars i @ items_chars is"
  "items_chars (is @ js) = items_chars is @ items_chars js"
  by (simp_all add: items_chars_def)

lemma nonempty_item_chars [simp]: "items_chars (nonempty_item (kind_of m) t) = map (Pair m) t"
  by (simp add: nonempty_item_def kind_of_def)

lemma tag_nonempty [simp]: "think_tag m \<noteq> []" "0 < length (think_tag m)"
  by (simp_all add: think_tag_def THINK_OPEN_def THINK_CLOSE_def)

lemma tag_stream_skip: "tag_stream m k s = tag_stream m 0 (drop k s)"
  by (induction k arbitrary: s) (simp, case_tac s, simp_all)

lemma starts_with_long: "length p \<le> length s \<Longrightarrow> starts_with (s @ t) p \<longleftrightarrow> starts_with s p"
  by (induction s p rule: starts_with.induct) auto

lemma starts_with_length: "starts_with s p \<Longrightarrow> length p \<le> length s"
  by (auto simp: starts_with_iff)

lemma tag_stream_tag:
  assumes "starts_with s (think_tag m)"
  shows "tag_stream m 0 s = tag_stream (\<not> m) 0 (drop (length (think_tag m)) s)"
proof (cases s)
  case (Cons c cs)
  obtain n where "length (think_tag m) = Suc n" by (cases "length (think_tag m)") simp_all
  with assms Cons show ?thesis by (simp add: tag_stream_skip [of "\<not> m" n])
qed (use assms in \<open>simp add: starts_with_iff\<close>)

lemma tag_stream_found:
  "split_once (think_tag m) s = Some (a, b) \<Longrightarrow>
   tag_stream m 0 (s @ t) = map (Pair m) a @ tag_stream (\<not> m) 0 (b @ t)"
proof (induction s arbitrary: a)
  case (Cons c s)
  show ?case
  proof (cases "starts_with (c # s) (think_tag m)")
    case True
    then have "tag_stream m 0 ((c # s) @ t) = tag_stream (\<not> m) 0 (drop (length (think_tag m)) ((c # s) @ t))"
      by (intro tag_stream_tag) (metis append_assoc starts_with_iff)
    moreover have "a = []" "b = drop (length (think_tag m)) (c # s)" using Cons.prems True by auto
    moreover have "drop (length (think_tag m)) ((c # s) @ t) = drop (length (think_tag m)) (c # s) @ t"
      using starts_with_length [OF True] by (simp only: drop_append) simp
    ultimately show ?thesis by (simp only:) simp
  next
    case False
    then obtain a' where a': "a = c # a'" "split_once (think_tag m) s = Some (a', b)" using Cons.prems by auto
    then have "length (think_tag m) \<le> length (c # s)" using split_once_rest [OF a'(2)] by simp
    then have "\<not> starts_with ((c # s) @ t) (think_tag m)" using False starts_with_long by blast
    with Cons.IH a' show ?thesis by simp
  qed
qed simp

lemma prefix_len_max:
  "0 < k \<Longrightarrow> k \<le> n \<Longrightarrow> starts_with tag (drop (length buf - k) buf) \<Longrightarrow> k \<le> prefix_len_below n buf tag"
  by (induction n) (auto simp: le_Suc_eq)

lemma prefix_len_bound: "prefix_len_below n buf tag \<le> n"
  by (induction n) auto

lemma tag_prefix_bounds:
  "tag_prefix_len buf tag \<le> length buf" "tag \<noteq> [] \<Longrightarrow> tag_prefix_len buf tag < length tag"
  using prefix_len_bound [of "min (length buf) (length tag - 1)" buf tag]
  by (auto simp: tag_prefix_len_def intro: le_less_trans)

lemma no_tag_here:
  assumes none: "\<not> contains s (think_tag m)" and i: "i < length s - tag_prefix_len s (think_tag m)"
  shows "\<not> starts_with (drop i s @ t) (think_tag m)"
proof
  assume sw: "starts_with (drop i s @ t) (think_tag m)"
  let ?r = "drop i s" and ?n = "length s - i"
  have le: "?n < length (think_tag m)"
  proof (rule ccontr)
    assume "\<not> ?n < length (think_tag m)"
    then have "starts_with ?r (think_tag m)" using sw starts_with_long [of "think_tag m" ?r t] by simp
    then obtain v where "?r = think_tag m @ v" by (auto simp: starts_with_iff)
    then have "s = take i s @ think_tag m @ v" by (metis append_take_drop_id)
    then have "contains s (think_tag m)" unfolding contains_iff by blast
    with none show False ..
  qed
  obtain u where u: "?r @ t = think_tag m @ u" using sw by (auto simp: starts_with_iff)
  have "?r = take ?n (think_tag m)" using arg_cong [OF u, of "take ?n"] le by simp
  then have "starts_with (think_tag m) ?r" unfolding starts_with_iff by (metis append_take_drop_id)
  then have "starts_with (think_tag m) (drop (length s - ?n) s)" using i by simp
  then have "?n \<le> tag_prefix_len s (think_tag m)"
    unfolding tag_prefix_len_def using i le by (intro prefix_len_max) auto
  with i show False by simp
qed

lemma tag_stream_none:
  assumes "\<not> contains s (think_tag m)" "i \<le> length s - tag_prefix_len s (think_tag m)"
  shows "tag_stream m 0 (s @ t) = map (Pair m) (take i s) @ tag_stream m 0 (drop i s @ t)"
  using assms(2)
proof (induction i)
  case (Suc i)
  then have i: "i < length s" by simp
  have "\<not> starts_with (drop i s @ t) (think_tag m)" using no_tag_here assms(1) Suc.prems by simp
  then have "tag_stream m 0 (drop i s @ t) = (m, s ! i) # tag_stream m 0 (drop (Suc i) s @ t)"
    using Cons_nth_drop_Suc [OF i] by (metis append_Cons tag_stream.simps(3))
  then show ?case using Suc by (simp add: take_Suc_conv_app_nth [OF i])
qed simp

lemma tag_stream_short:
  assumes "length s < length (think_tag m)"
  shows "tag_stream m 0 s = map (Pair m) s"
  using assms
proof (induction s)
  case (Cons c s)
  then have "\<not> starts_with (c # s) (think_tag m)" using starts_with_length by fastforce
  with Cons show ?case by simp
qed simp

lemma feed_loop_spec:
  "feed_loop m buf = (items, f) \<Longrightarrow>
   tag_stream m 0 (buf @ t) = items_chars items @ tag_stream (tf_in_think f) 0 (tf_buf f @ t) \<and>
   length (tf_buf f) < length (think_tag (tf_in_think f))"
proof (induction m buf arbitrary: items f rule: feed_loop.induct)
  case (1 m buf)
  consider "buf = []" | "buf \<noteq> []" "split_once (think_tag m) buf = None"
    | head rest where "buf \<noteq> []" "split_once (think_tag m) buf = Some (head, rest)"
    by (cases "split_once (think_tag m) buf") auto
  then show ?case
  proof cases
    case 1
    then show ?thesis using "1.prems" by (auto simp: feed_loop.simps)
  next
    case 2
    let ?h = "tag_prefix_len buf (think_tag m)"
    have f: "items = nonempty_item (kind_of m) (take (length buf - ?h) buf)"
      "f = \<lparr>tf_buf = drop (length buf - ?h) buf, tf_in_think = m\<rparr>"
      using "1.prems" 2 by (auto simp: feed_loop.simps flush_except_prefix_def Let_def)
    have "\<not> contains buf (think_tag m)" using 2 split_once_None by blast
    from tag_stream_none [OF this, of "length buf - ?h" t] f show ?thesis
      using tag_prefix_bounds [where buf = buf and tag = "think_tag m"] by simp
  next
    case 3
    obtain more g where g: "feed_loop (\<not> m) rest = (more, g)" by fastforce
    then have "items = nonempty_item (kind_of m) head @ more" "f = g"
      using "1.prems" 3 by (auto simp: feed_loop.simps [of m])
    moreover note "1.IH" [OF 3 refl g] tag_stream_found [OF 3(2), of t]
    ultimately show ?thesis by simp
  qed
qed

fun feed_all :: "string list \<Rightarrow> think_filter \<Rightarrow> stream_item list \<times> think_filter" where
  "feed_all [] f = ([], f)"
| "feed_all (c # cs) f =
     (let (items, f') = feed c f; (rest, f'') = feed_all cs f' in (items @ rest, f''))"

lemma feed_all_spec:
  "feed_all cs f = (items, g) \<Longrightarrow> length (tf_buf f) < length (think_tag (tf_in_think f)) \<Longrightarrow>
   tag_stream (tf_in_think f) 0 (tf_buf f @ concat cs) =
     items_chars items @ tag_stream (tf_in_think g) 0 (tf_buf g) \<and>
   length (tf_buf g) < length (think_tag (tf_in_think g))"
proof (induction cs arbitrary: f items)
  case (Cons c cs)
  obtain i1 f1 where 1: "feed c f = (i1, f1)" by fastforce
  obtain i2 where 2: "feed_all cs f1 = (i2, g)" "items = i1 @ i2" using Cons.prems(1) 1 by (auto split: prod.splits)
  note a = feed_loop_spec [of "tf_in_think f" "tf_buf f @ c" i1 f1 "concat cs", folded feed_def, OF 1]
  show ?case using Cons.IH [OF 2(1)] a 2(2) by simp
qed simp

text \<open>
  A filter that was fed a text in any pieces and then flushed has sent exactly the characters of
  the whole text, without the tags, in their order and each with its kind.
\<close>

theorem filter_independent_of_chunks:
  "items_chars (fst (feed_all cs new_think_filter) @ fst (flush (snd (feed_all cs new_think_filter)))) =
   tag_stream False 0 (concat cs)"
proof -
  obtain items g where 1: "feed_all cs new_think_filter = (items, g)" by fastforce
  then show ?thesis
    using feed_all_spec [OF 1] tag_stream_short [of "tf_buf g" "tf_in_think g"]
    by (simp add: new_think_filter_def flush_def)
qed

section \<open>Streams of the OpenAI adapter\<close>

definition chunk_content :: "json \<Rightarrow> string" where
  "chunk_content chunk =
     (case items_of (attr chunk ''choices'' JNull) of
        [] \<Rightarrow> [] | choice # _ \<Rightarrow> text_of (attr (attr choice ''delta'' JNull) ''content'' JNull))"

definition chunk_reasoning :: "json \<Rightarrow> string" where
  "chunk_reasoning chunk =
     (case items_of (attr chunk ''choices'' JNull) of
        [] \<Rightarrow> [] | choice # _ \<Rightarrow> text_of (attr (attr choice ''delta'' JNull) ''reasoning_content'' JNull))"

lemma parse_chunk_plain:
  "chunk_reasoning c = [] \<Longrightarrow>
   parse_openai_chunk c (Some f) =
     (if chunk_content c = [] then ([], Some f)
      else case feed (chunk_content c) f of (items, f') \<Rightarrow> (items, Some f'))"
  by (auto simp: parse_openai_chunk_def chunk_reasoning_def chunk_content_def nonempty_item_def Let_def
      split: list.splits prod.splits)

lemma openai_events_spec:
  "openai_events cs (Some f) usage = (items, qwen, final) \<Longrightarrow> list_all (\<lambda>c. chunk_reasoning c = []) cs \<Longrightarrow>
   length (tf_buf f) < length (think_tag (tf_in_think f)) \<Longrightarrow>
   \<exists>g. qwen = Some g \<and>
     tag_stream (tf_in_think f) 0 (tf_buf f @ concat (map chunk_content cs)) =
       items_chars items @ tag_stream (tf_in_think g) 0 (tf_buf g) \<and>
     length (tf_buf g) < length (think_tag (tf_in_think g))"
proof (induction cs arbitrary: f items usage)
  case (Cons c cs)
  define p where "p = parse_openai_chunk c (Some f)"
  obtain i1 f1 where p: "p = (i1, Some f1)"
    and step: "tag_stream (tf_in_think f) 0 (tf_buf f @ chunk_content c @ concat (map chunk_content cs)) =
        items_chars i1 @ tag_stream (tf_in_think f1) 0 (tf_buf f1 @ concat (map chunk_content cs))"
      "length (tf_buf f1) < length (think_tag (tf_in_think f1))"
  proof (cases "chunk_content c = []")
    case True
    then show ?thesis using that [of "[]" f] Cons.prems by (simp add: p_def parse_chunk_plain)
  next
    case False
    obtain i1 f1 where fd: "feed (chunk_content c) f = (i1, f1)" by fastforce
    show ?thesis
      using that [of i1 f1] False fd Cons.prems(2)
        feed_loop_spec [of "tf_in_think f" "tf_buf f @ chunk_content c" i1 f1 "concat (map chunk_content cs)",
          folded feed_def, OF fd]
      by (simp add: p_def parse_chunk_plain)
  qed
  obtain i2 final' where 2: "openai_events cs (Some f1) (absorb_openai_usage c usage) = (i2, qwen, final)"
      "items = i1 @ i2"
    using Cons.prems(1) p by (auto simp: p_def split: prod.splits)
  show ?case using Cons.IH [OF 2(1)] Cons.prems(2) step 2(2) by auto
qed auto

fun is_broken :: "stream_item \<Rightarrow> bool" where
  "is_broken (Broken e) = True"
| "is_broken i = False"

lemma nonempty_not_broken [simp]: "\<not> list_ex is_broken (nonempty_item (kind_of m) t)"
  by (simp add: nonempty_item_def kind_of_def)

lemma feed_loop_not_broken: "\<not> list_ex is_broken (fst (feed_loop m buf))"
proof (induction m buf rule: feed_loop.induct)
  case (1 m buf)
  show ?case
  proof (cases "buf = [] \<or> split_once (think_tag m) buf = None")
    case True
    then show ?thesis by (auto simp: feed_loop.simps [of m buf] flush_except_prefix_def Let_def)
  next
    case False
    then obtain head rest where s: "buf \<noteq> []" "split_once (think_tag m) buf = Some (head, rest)" by auto
    from "1.IH" [OF s refl] show ?thesis using s
      by (cases "feed_loop (\<not> m) rest") (simp add: feed_loop.simps [of m buf])
  qed
qed

lemma parse_chunk_filter:
  assumes "chunk_reasoning c = []"
  obtains i1 f1 where "parse_openai_chunk c (Some f) = (i1, Some f1)" "\<not> list_ex is_broken i1"
proof (cases "chunk_content c = []")
  case True
  then show ?thesis using that [of "[]" f] assms by (simp add: parse_chunk_plain)
next
  case False
  obtain i1 f1 where fd: "feed (chunk_content c) f = (i1, f1)" by fastforce
  then have "\<not> list_ex is_broken i1"
    using feed_loop_not_broken [of "tf_in_think f" "tf_buf f @ chunk_content c"] by (simp add: feed_def)
  with that [of i1 f1] False fd assms show ?thesis by (simp add: parse_chunk_plain)
qed

lemma openai_events_not_broken:
  "openai_events cs (Some f) usage = (items, qwen, final) \<Longrightarrow> list_all (\<lambda>c. chunk_reasoning c = []) cs \<Longrightarrow>
   \<not> list_ex is_broken items"
proof (induction cs arbitrary: f items usage)
  case (Cons c cs)
  from Cons.prems(2) obtain i1 f1 where p: "parse_openai_chunk c (Some f) = (i1, Some f1)" "\<not> list_ex is_broken i1"
    by (auto intro: parse_chunk_filter [of c f])
  obtain i2 where 2: "openai_events cs (Some f1) (absorb_openai_usage c usage) = (i2, qwen, final)" "items = i1 @ i2"
    using Cons.prems(1) p(1) by (auto split: prod.splits)
  show ?case using Cons.IH [OF 2(1)] Cons.prems(2) 2(2) p(2) by simp
qed simp

lemma accumulated_text:
  "\<not> list_ex is_broken items \<Longrightarrow>
   fst (stream_accumulate (map (\<lambda>i. (i, False)) items)) = Inr (map snd (filter (\<lambda>p. \<not> fst p) (items_chars items)))"
proof (induction items)
  case (Cons i items)
  then show ?case by (cases i) (auto simp: filter_map comp_def split: prod.splits)
qed simp

text \<open>
  C27: A Qwen model's stream that ends normally gives the same characters, in the same order and with
  the same kinds, however its text is cut into chunks; what the retry loop of the caller collects
  from it is the text outside the thinking blocks.
\<close>

theorem streamed_thinking_separated:
  assumes "is_qwen (rq_model rq)"
    and "source (build_openai_call_kwargs (le_node env) True rq) = (chunks, None)"
    and "list_all (\<lambda>c. chunk_reasoning c = []) chunks"
  shows "items_chars (fst (openai_stream env source rq)) = tag_stream False 0 (concat (map chunk_content chunks)) \<and>
    fst (stream_accumulate (map (\<lambda>i. (i, False)) (fst (openai_stream env source rq)))) =
      Inr (map snd (filter (\<lambda>p. \<not> fst p) (tag_stream False 0 (concat (map chunk_content chunks)))))"
proof -
  obtain items qwen n_in n_out where
      ev: "openai_events chunks (Some new_think_filter) (JNum 0, JNum 0) = (items, qwen, n_in, n_out)"
    using prod_cases4 by blast
  from openai_events_spec [OF ev assms(3)] obtain g where g: "qwen = Some g"
      "tag_stream False 0 (concat (map chunk_content chunks)) = items_chars items @ tag_stream (tf_in_think g) 0 (tf_buf g)"
      "length (tf_buf g) < length (think_tag (tf_in_think g))"
    by (auto simp: new_think_filter_def)
  have sent: "fst (openai_stream env source rq) = items @ fst (flush g)"
    using assms ev g(1) by (simp add: openai_stream_def broken_def Let_def)
  have all: "items_chars (fst (openai_stream env source rq)) = tag_stream False 0 (concat (map chunk_content chunks))"
    using sent g(2) tag_stream_short [OF g(3)] by (simp add: flush_def)
  have "\<not> list_ex is_broken (fst (openai_stream env source rq))"
    using sent openai_events_not_broken [OF ev assms(3)] by (simp add: flush_def)
  from all accumulated_text [OF this] show ?thesis by simp
qed

definition content_chunk :: "string \<Rightarrow> json" where
  "content_chunk t = JObj [(''choices'', JList [JObj [(''delta'', JObj [(''content'', JStr t)])]])]"

definition qwen_request :: llm_request where
  "qwen_request = \<lparr>rq_model = ''Qwen3'', rq_max_tokens = 256, rq_system = None, rq_messages = [(''user'', ''hi'')],
     rq_timeout = None, rq_temperature = None, rq_thinking = Some ''low''\<rparr>"

definition quiet_env :: llm_env where
  "quiet_env = \<lparr>le_node = ''analyzer'', le_trace_limit = 0, le_elapsed = 0\<rparr>"

lemma streamed_thinking_separated_witness:
  "fst (stream_accumulate (map (\<lambda>i. (i, False)) (fst (openai_stream quiet_env
      (\<lambda>kwargs. (map content_chunk [''<th'', ''ink>why</thi'', ''nk>so''], None)) qwen_request)))) = Inr ''so''"
proof -
  have "is_qwen (rq_model qwen_request)" by code_simp
  moreover have "list_all (\<lambda>c. chunk_reasoning c = []) (map content_chunk [''<th'', ''ink>why</thi'', ''nk>so''])"
    by code_simp
  moreover have "map snd (filter (\<lambda>p. \<not> fst p)
      (tag_stream False 0 (concat (map chunk_content (map content_chunk [''<th'', ''ink>why</thi'', ''nk>so'']))))) = ''so''"
    by code_simp
  ultimately show ?thesis
    using streamed_thinking_separated [of qwen_request "\<lambda>kwargs. (map content_chunk [''<th'', ''ink>why</thi'', ''nk>so''], None)"
        quiet_env] by simp
qed

section \<open>Calls and their records\<close>

text \<open>The two places that build the arguments of a call agree.\<close>

theorem openai_kwargs_agree: "openai_create_kwargs node rq = build_openai_call_kwargs node False rq"
  by (simp add: openai_create_kwargs_def build_openai_call_kwargs_def openai_messages_def given_def Let_def
      split: option.split list.split)

text \<open>
  A block that is never closed, as in a reply cut off at its token limit, stays in the text of a
  plain call, although the stream of the same text sends it as thoughts.
\<close>

theorem unclosed_thinking_kept:
  assumes "\<not> contains s THINK_CLOSE"
  shows "strip_thinking_tags s = py_strip s"
proof (cases "split_once THINK_OPEN s")
  case None
  then show ?thesis by (simp add: strip_thinking_tags_def remove_thinking.simps)
next
  case (Some p)
  obtain a b where p: "p = (a, b)" by fastforce
  then have "\<exists>u. s = u @ b" using split_once_Some [of THINK_OPEN s a b] Some by auto
  then have "\<not> contains b THINK_CLOSE" using assms unfolding contains_iff by (metis append_assoc)
  then have "split_once THINK_CLOSE b = None" using split_once_None by blast
  with Some p show ?thesis by (simp add: strip_thinking_tags_def remove_thinking.simps)
qed

lemma unclosed_thinking_kept_witness:
  "strip_thinking_tags ''<think>let me see'' = ''<think>let me see'' \<and>
   filter (\<lambda>p. \<not> fst p) (tag_stream False 0 ''<think>let me see'') = []"
proof -
  have a: "\<not> contains ''<think>let me see'' THINK_CLOSE" by (simp add: THINK_CLOSE_def)
  have b: "py_strip ''<think>let me see'' = ''<think>let me see''"
    by (simp add: py_strip_def py_lstrip_def is_ascii_space_def)
  have c: "filter (\<lambda>p. \<not> fst p) (tag_stream False 0 ''<think>let me see'') = []"
    by (simp add: think_tag_def THINK_OPEN_def THINK_CLOSE_def numeral_eq_Suc)
  show ?thesis using trans [OF unclosed_thinking_kept [OF a] b] c by (rule conjI)
qed

text \<open>A failed call leaves no record, a failed stream always leaves one.\<close>

theorem failed_calls_unrecorded:
  "fst (run_create env tid server post rq a) = Inl e \<Longrightarrow> snd (run_create env tid server post rq a) = []"
  "a \<in> {Anthropic_adapter, Openai_adapter} \<Longrightarrow> length (snd (run_stream env tid source post rq a)) = 1"
  by (auto simp: run_create_def run_stream_def anthropic_create_def openai_create_def gateway_create_def Let_def
      split: adapter.splits sum.splits list.splits if_splits prod.splits)

text \<open>The documented mode \<open>auto\<close> means no thinking to two of the providers.\<close>

theorem auto_thinking_is_off:
  "effort_of ''auto'' = ''none'' \<and> resolve_anthropic_thinking_params ''auto'' = []"
  by code_simp

end
