(* ===== verification/Charts.thy ===== *)
theory Charts imports ResponseFormat begin

text \<open>
  The template charts, \<open>src/src/services/visualization/chart_generator.py\<close>: the bar, line and pie
  charts and the info card as SVG texts, and the choice of the columns they show.  Arithmetic is
  exact where Python has floats; the text of a float in an f-string, the type of a number (int or
  float), \<open>float\<close> of a text and the points of the circle are arguments.
\<close>

section \<open>Texts and style\<close>

definition DQ :: char where "DQ = CHR 0x22"
definition SQ :: char where "SQ = CHR 0x27"

definition esc_char :: "char \<Rightarrow> string" where
  "esc_char c =
     (if c = CHR ''&'' then ''&amp;'' else if c = CHR ''<'' then ''&lt;'' else if c = CHR ''>'' then ''&gt;''
      else if c = DQ then ''&quot;'' else if c = SQ then ''&#x27;'' else [c])"

text \<open>\<open>html.escape\<close>\<close>

definition esc :: "string \<Rightarrow> string" where
  "esc s = concat (map esc_char s)"

definition single_quoted :: "string \<Rightarrow> string" where
  "single_quoted s = SQ # s @ [SQ]"

definition MALGUN :: string where
  "MALGUN = utf8 [235, 167, 145, 236, 157, 128, 32, 234, 179, 160, 235, 148, 149]"

definition DEFAULT_COLORS :: "string list" where
  "DEFAULT_COLORS = [''#1a56db'', ''#3b82f6'', ''#60a5fa'', ''#93c5fd'', ''#f59e0b'', ''#10b981'', ''#ef4444'']"

definition DEFAULT_FONT :: string where
  "DEFAULT_FONT = single_quoted ''Malgun Gothic'' @ '','' @ single_quoted MALGUN @ '',sans-serif''"

record chart_style =
  cs_colors :: "string list"
  cs_font :: string

text \<open>
  \<open>_load_chart_config\<close>: the data of the style file, in which \<open>fonts\<close> and \<open>colors\<close> are
  dictionaries and \<open>palette\<close> a list of texts.
\<close>

definition dict_or_empty :: "json option \<Rightarrow> (string \<times> json) list" where
  "dict_or_empty v = (case v of Some (JObj kvs) \<Rightarrow> kvs | _ \<Rightarrow> [])"

definition text_or :: "(string \<times> json) list \<Rightarrow> string \<Rightarrow> string \<Rightarrow> string" where
  "text_or d k missing = (case map_of d k of Some (JStr t) \<Rightarrow> t | _ \<Rightarrow> missing)"

definition load_chart_config :: "(string \<times> json) list option \<Rightarrow> chart_style" where
  "load_chart_config data =
     (case data of
        None \<Rightarrow> \<lparr>cs_colors = DEFAULT_COLORS, cs_font = DEFAULT_FONT\<rparr>
      | Some d \<Rightarrow>
          let fonts = dict_or_empty (map_of d ''fonts'')
          in \<lparr>cs_colors = (case map_of (dict_or_empty (map_of d ''colors'')) ''palette'' of
                   Some (JList cs) \<Rightarrow> List.map_filter as_str cs | _ \<Rightarrow> DEFAULT_COLORS),
              cs_font = (if fonts \<noteq> []
                 then py_join '','' (map single_quoted
                   [text_or fonts ''primary'' ''Malgun Gothic'', text_or fonts ''fallback'' MALGUN,
                    text_or fonts ''system'' ''sans-serif''])
                 else DEFAULT_FONT)\<rparr>)"

record chart_env =
  ce_style :: chart_style
  ce_float :: "rat \<Rightarrow> string"
  ce_width :: int
  ce_height :: int
  ce_left :: int
  ce_right :: int
  ce_top :: int
  ce_bottom :: int
  ce_eok :: rat
  ce_man :: rat

text \<open>The default layout of the settings.\<close>

definition default_chart_env :: "chart_style \<Rightarrow> (rat \<Rightarrow> string) \<Rightarrow> chart_env" where
  "default_chart_env style show_float =
     \<lparr>ce_style = style, ce_float = show_float, ce_width = 600, ce_height = 400, ce_left = 80, ce_right = 40,
      ce_top = 60, ce_bottom = 70, ce_eok = 100000000, ce_man = 10000\<rparr>"

definition plot_width :: "chart_env \<Rightarrow> int" where
  "plot_width env = ce_width env - ce_left env - ce_right env"

definition plot_height :: "chart_env \<Rightarrow> int" where
  "plot_height env = ce_height env - ce_top env - ce_bottom env"

definition base_line :: "chart_env \<Rightarrow> int" where
  "base_line env = ce_height env - ce_bottom env"

text \<open>\<open>_format_number\<close> of a float.\<close>

definition rounded_commas :: "rat \<Rightarrow> string" where
  "rounded_commas q = sign_text (q < 0) @ commas (nat (round_half_even \<bar>q\<bar>))"

definition format_number :: "chart_env \<Rightarrow> rat \<Rightarrow> string" where
  "format_number env v =
     (if \<bar>v\<bar> \<ge> ce_eok env then fixed 1 True (v / ce_eok env) @ EOK
      else if \<bar>v\<bar> \<ge> ce_man env then rounded_commas (v / ce_man env) @ MAN
      else fixed 1 True v)"

section \<open>Elements\<close>

definition attribute :: "string \<times> string \<Rightarrow> string" where
  "attribute a = '' '' @ fst a @ ''='' @ DQ # snd a @ [DQ]"

definition attributes :: "(string \<times> string) list \<Rightarrow> string" where
  "attributes as = concat (map attribute as)"

definition empty_element :: "string \<Rightarrow> (string \<times> string) list \<Rightarrow> string" where
  "empty_element tag as = ''  <'' @ tag @ attributes as @ ''/>''"

definition text_element :: "(string \<times> string) list \<Rightarrow> string \<Rightarrow> string" where
  "text_element as content = ''  <text'' @ attributes as @ ''>'' @ content @ ''</text>''"

definition svg_open :: "(string \<times> string) list \<Rightarrow> string" where
  "svg_open as = ''<svg'' @ attributes as @ ''>''"

definition XMLNS :: "string \<times> string" where
  "XMLNS = (''xmlns'', ''http://www.w3.org/2000/svg'')"

definition chart_open :: "chart_env \<Rightarrow> string" where
  "chart_open env = svg_open [(''viewBox'', ''0 0 '' @ str_int (ce_width env) @ '' '' @ str_int (ce_height env)), XMLNS]"

definition title_part :: "chart_env \<Rightarrow> string \<Rightarrow> string list" where
  "title_part env title =
     (if title \<noteq> [] then
        [text_element [(''x'', ce_float env (of_int (ce_width env) / 2)), (''y'', ''30''), (''text-anchor'', ''middle''),
           (''font-size'', ''16''), (''font-weight'', ''bold''), (''font-family'', cs_font (ce_style env)),
           (''fill'', ''#1f2937'')] (esc title)]
      else [])"

definition line_element :: "string \<Rightarrow> string \<Rightarrow> string \<Rightarrow> string \<Rightarrow> (string \<times> string) list \<Rightarrow> string" where
  "line_element x1 y1 x2 y2 style =
     empty_element ''line'' ([(''x1'', x1), (''y1'', y1), (''x2'', x2), (''y2'', y2)] @ style)"

definition axes :: "chart_env \<Rightarrow> string list" where
  "axes env =
     (let left = str_int (ce_left env); base = str_int (base_line env);
          style = [(''stroke'', ''#e5e7eb''), (''stroke-width'', ''1'')]
      in [line_element left (str_int (ce_top env)) left base style,
          line_element left base (str_int (ce_width env - ce_right env)) base style])"

definition color_at :: "chart_env \<Rightarrow> nat \<Rightarrow> string" where
  "color_at env i = (let colors = cs_colors (ce_style env) in colors ! (i mod length colors))"

definition label_element :: "chart_env \<Rightarrow> string \<Rightarrow> string \<Rightarrow> string \<Rightarrow> string \<Rightarrow> string \<Rightarrow> string" where
  "label_element env x y sz fill content =
     text_element [(''x'', x), (''y'', y), (''text-anchor'', ''middle''), (''font-size'', sz),
       (''font-family'', cs_font (ce_style env)), (''fill'', fill)] content"

section \<open>Bars\<close>

definition max_of :: "rat list \<Rightarrow> rat" where
  "max_of vs = fold max (tl vs) (hd vs)"

definition min_of :: "rat list \<Rightarrow> rat" where
  "min_of vs = fold min (tl vs) (hd vs)"

definition bar_scale :: "rat list \<Rightarrow> rat" where
  "bar_scale values = (if max_of values = 0 then 1 else max_of values)"

definition BAR_GAP :: rat where "BAR_GAP = 20"

definition raw_bar_width :: "chart_env \<Rightarrow> nat \<Rightarrow> rat" where
  "raw_bar_width env n = (of_int (plot_width env) - BAR_GAP * (of_nat n + 1)) / of_nat n"

definition bar_width :: "chart_env \<Rightarrow> nat \<Rightarrow> rat" where
  "bar_width env n = max 20 (min 80 (raw_bar_width env n))"

text \<open>The limits are ints, the width between them a float.\<close>

definition bar_width_text :: "chart_env \<Rightarrow> nat \<Rightarrow> string" where
  "bar_width_text env n =
     (let w = raw_bar_width env n in if 80 \<le> w then ''80'' else if w \<le> 20 then ''20'' else ce_float env w)"

definition bars_start :: "chart_env \<Rightarrow> nat \<Rightarrow> rat" where
  "bars_start env n =
     of_int (ce_left env) +
     (of_int (plot_width env) - (of_nat n * bar_width env n + (of_nat n + 1) * BAR_GAP)) / 2 + BAR_GAP"

definition bar_x :: "chart_env \<Rightarrow> nat \<Rightarrow> nat \<Rightarrow> rat" where
  "bar_x env n i = bars_start env n + of_nat i * (bar_width env n + BAR_GAP)"

definition bar_height :: "chart_env \<Rightarrow> rat list \<Rightarrow> rat \<Rightarrow> rat" where
  "bar_height env values v = v / bar_scale values * of_int (plot_height env)"

definition bar_y :: "chart_env \<Rightarrow> rat list \<Rightarrow> rat \<Rightarrow> rat" where
  "bar_y env values v = of_int (base_line env) - bar_height env values v"

definition grid_line :: "chart_env \<Rightarrow> rat \<Rightarrow> nat \<Rightarrow> string list" where
  "grid_line env scale i =
     (let y = of_int (base_line env) - of_int (plot_height env) * of_nat i / 4; v = scale * of_nat i / 4
      in [line_element (str_int (ce_left env)) (ce_float env y) (str_int (ce_width env - ce_right env)) (ce_float env y)
            [(''stroke'', ''#f3f4f6''), (''stroke-width'', ''1''), (''stroke-dasharray'', ''4,4'')],
          text_element [(''x'', str_int (ce_left env - 8)), (''y'', ce_float env (y + 4)), (''text-anchor'', ''end''),
            (''font-size'', ''10''), (''font-family'', cs_font (ce_style env)), (''fill'', ''#9ca3af'')]
            (format_number env v)])"

definition bar_parts :: "chart_env \<Rightarrow> nat \<Rightarrow> rat list \<Rightarrow> nat \<Rightarrow> string \<times> rat \<Rightarrow> string list" where
  "bar_parts env n values i lv =
     (let label = fst lv; v = snd lv; x = bar_x env n i; y = bar_y env values v; mid = x + bar_width env n / 2
      in [empty_element ''rect'' [(''x'', ce_float env x), (''y'', ce_float env y), (''width'', bar_width_text env n),
            (''height'', ce_float env (bar_height env values v)), (''fill'', color_at env i), (''rx'', ''4'')],
          label_element env (ce_float env mid) (ce_float env (y - 8)) ''11'' ''#1f2937'' (format_number env v),
          label_element env (ce_float env mid) (str_int (base_line env + 20)) ''11'' ''#6b7280'' (esc label)])"

definition enumerated :: "'a list \<Rightarrow> (nat \<times> 'a) list" where
  "enumerated xs = zip [0..<length xs] xs"

definition generate_bar_chart :: "chart_env \<Rightarrow> string list \<Rightarrow> rat list \<Rightarrow> string \<Rightarrow> string" where
  "generate_bar_chart env labels values title =
     (if labels = [] \<or> values = [] then []
      else py_join newline
        ([chart_open env] @ title_part env title @ axes env @
         concat (map (grid_line env (bar_scale values)) [1..<5]) @
         concat (map (\<lambda>(i, lv). bar_parts env (length labels) values i lv) (enumerated (zip labels values))) @
         [''</svg>'']))"

section \<open>Lines\<close>

definition line_top :: "rat list \<Rightarrow> rat" where
  "line_top values = (if max_of values = min_of values then min_of values + 1 else max_of values)"

definition line_step :: "chart_env \<Rightarrow> nat \<Rightarrow> rat" where
  "line_step env n = (if n > 1 then of_int (plot_width env) / (of_nat n - 1) else 0)"

definition line_point :: "chart_env \<Rightarrow> nat \<Rightarrow> rat list \<Rightarrow> nat \<Rightarrow> rat \<Rightarrow> rat \<times> rat" where
  "line_point env n values i v =
     (of_int (ce_left env) + of_nat i * line_step env n,
      of_int (base_line env) - (v - min_of values) / (line_top values - min_of values) * of_int (plot_height env))"

definition point_text :: "chart_env \<Rightarrow> rat \<times> rat \<Rightarrow> string" where
  "point_text env p = ce_float env (fst p) @ '','' @ ce_float env (snd p)"

definition point_parts :: "chart_env \<Rightarrow> (rat \<times> rat) \<times> string \<times> rat \<Rightarrow> string list" where
  "point_parts env plv =
     (let x = fst (fst plv); y = snd (fst plv); label = fst (snd plv); v = snd (snd plv)
      in [empty_element ''circle'' [(''cx'', ce_float env x), (''cy'', ce_float env y), (''r'', ''4''), (''fill'', ''white''),
            (''stroke'', ''#1a56db''), (''stroke-width'', ''2'')],
          label_element env (ce_float env x) (ce_float env (y - 12)) ''10'' ''#1f2937'' (format_number env v),
          label_element env (ce_float env x) (str_int (base_line env + 20)) ''10'' ''#6b7280'' (esc label)])"

definition line_points :: "chart_env \<Rightarrow> nat \<Rightarrow> rat list \<Rightarrow> (rat \<times> rat) list" where
  "line_points env n values = map (\<lambda>(i, v). line_point env n values i v) (enumerated values)"

definition generate_line_chart :: "chart_env \<Rightarrow> string list \<Rightarrow> rat list \<Rightarrow> string \<Rightarrow> string" where
  "generate_line_chart env labels values title =
     (if labels = [] \<or> values = [] \<or> length labels < 2 then []
      else
        let points = line_points env (length labels) values;
            path = py_join '' '' (map (point_text env) points);
            base = '','' @ str_int (base_line env);
            bottom = ce_float env (fst (last points)) @ base @ '' '' @ ce_float env (fst (hd points)) @ base
        in py_join newline
          ([chart_open env] @ title_part env title @ axes env @
           [empty_element ''polygon'' [(''points'', path @ '' '' @ bottom), (''fill'', ''#1a56db''), (''fill-opacity'', ''0.1'')],
            empty_element ''polyline'' [(''points'', path), (''fill'', ''none''), (''stroke'', ''#1a56db''),
              (''stroke-width'', ''2.5''), (''stroke-linejoin'', ''round'')]] @
           concat (map (point_parts env) (zip points (zip labels values))) @
           [''</svg>'']))"

section \<open>Pies\<close>

text \<open>
  \<open>circle t\<close> is the point of the unit circle \<open>t\<close> turns after twelve o'clock.  A slice starts
  where the one before it ended.
\<close>

record slice =
  sl_label :: string
  sl_value :: rat
  sl_ratio :: rat
  sl_start :: rat

fun slices_from :: "rat \<Rightarrow> rat \<Rightarrow> (string \<times> rat) list \<Rightarrow> slice list" where
  "slices_from sm start [] = []"
| "slices_from sm start ((label, v) # lvs) =
     \<lparr>sl_label = label, sl_value = v, sl_ratio = v / sm, sl_start = start\<rparr> # slices_from sm (start + v / sm) lvs"

definition on_circle :: "(rat \<Rightarrow> rat \<times> rat) \<Rightarrow> rat \<Rightarrow> rat \<Rightarrow> rat \<times> rat" where
  "on_circle circle r t = (260 + r * fst (circle t), 210 + r * snd (circle t))"

definition slice_parts :: "chart_env \<Rightarrow> (rat \<Rightarrow> rat \<times> rat) \<Rightarrow> nat \<Rightarrow> slice \<Rightarrow> string list" where
  "slice_parts env circle i s =
     (let p1 = on_circle circle 140 (sl_start s); p2 = on_circle circle 140 (sl_start s + sl_ratio s);
          large_arc = (if sl_ratio s > 1 / 2 then ''1'' else ''0'');
          d = ''M 260,210 L '' @ point_text env p1 @ '' A 140,140 0 '' @ large_arc @ '',1 '' @ point_text env p2 @ '' Z'';
          l = on_circle circle 91 (sl_start s + sl_ratio s / 2)
      in [empty_element ''path'' [(''d'', d), (''fill'', color_at env i)],
          text_element [(''x'', ce_float env (fst l)), (''y'', ce_float env (snd l)), (''text-anchor'', ''middle''),
            (''font-size'', ''11''), (''font-family'', cs_font (ce_style env)), (''fill'', ''white''),
            (''font-weight'', ''bold'')] (fixed 1 False (sl_ratio s * 100) @ ''%'')])"

definition legend_parts :: "chart_env \<Rightarrow> nat \<Rightarrow> slice \<Rightarrow> string list" where
  "legend_parts env i s =
     (let y = 80 + int i * 28
      in [empty_element ''rect'' [(''x'', ''440''), (''y'', str_int (y - 10)), (''width'', ''14''), (''height'', ''14''),
            (''fill'', color_at env i), (''rx'', ''2'')],
          text_element [(''x'', ''462''), (''y'', str_int (y + 2)), (''font-size'', ''12''),
            (''font-family'', cs_font (ce_style env)), (''fill'', ''#374151'')]
            (esc (sl_label s) @ '' ('' @ format_number env (sl_value s) @ '')'')])"

definition generate_pie_chart ::
  "chart_env \<Rightarrow> (rat \<Rightarrow> rat \<times> rat) \<Rightarrow> string list \<Rightarrow> rat list \<Rightarrow> string \<Rightarrow> string" where
  "generate_pie_chart env circle labels values title =
     (if labels = [] \<or> values = [] \<or> sum_list values = 0 then []
      else
        let slices = enumerated (slices_from (sum_list values) 0 (zip labels values))
        in py_join newline
          ([chart_open env] @ title_part env title @
           concat (map (\<lambda>(i, s). slice_parts env circle i s) slices) @
           concat (map (\<lambda>(i, s). legend_parts env i s) slices) @
           [''</svg>'']))"

section \<open>The info card\<close>

definition CARD_FONT :: string where "CARD_FONT = DEFAULT_FONT"

text \<open>\<open>is_float\<close> tells a float from an int; a boolean is an int.\<close>

definition card_value :: "(cell \<Rightarrow> string) \<Rightarrow> (cell \<Rightarrow> bool) \<Rightarrow> cell \<Rightarrow> string" where
  "card_value show_cell is_float c =
     (case plain_number c of
        None \<Rightarrow> cell_text show_cell c
      | Some q \<Rightarrow> if is_float c then fixed 2 True q else comma_int \<lfloor>q\<rfloor>)"

definition card_width :: "nat \<Rightarrow> int" where
  "card_width n = min 300 (700 div int (max n 1))"

definition cards_start :: "nat \<Rightarrow> int" where
  "cards_start n = (800 - (card_width n * int n + 20 * (int n - 1))) div 2"

definition card_x :: "nat \<Rightarrow> nat \<Rightarrow> int" where
  "card_x n i = cards_start n + int i * (card_width n + 20)"

definition card_text :: "string \<Rightarrow> string \<Rightarrow> (string \<times> string) list \<Rightarrow> string \<Rightarrow> string" where
  "card_text x y style content =
     ''<text'' @ attributes ([(''x'', x), (''y'', y), (''font-family'', CARD_FONT)] @ style) @ ''>'' @
     esc content @ ''</text>''"

definition card_parts :: "nat \<Rightarrow> nat \<Rightarrow> string \<times> string \<Rightarrow> string list" where
  "card_parts n i item =
     (let x = card_x n i; cx = str_int (x + card_width n div 2)
      in [''<rect'' @ attributes [(''x'', str_int x), (''y'', ''80''), (''width'', str_int (card_width n)), (''height'', ''200''),
            (''rx'', ''12''), (''fill'', ''#f8fafc''), (''stroke'', ''#e2e8f0''), (''stroke-width'', ''1'')] @ ''/>'',
          card_text cx ''150'' [(''font-size'', ''16''), (''fill'', ''#6b7280''), (''text-anchor'', ''middle'')] (fst item),
          card_text cx ''210'' [(''font-size'', ''32''), (''font-weight'', ''700''), (''fill'', ''#1f2937''),
            (''text-anchor'', ''middle'')] (snd item)])"

text \<open>The items of a second row are computed and never drawn.\<close>

definition generate_info_card ::
  "(cell \<Rightarrow> string) \<Rightarrow> (cell \<Rightarrow> bool) \<Rightarrow> string list \<Rightarrow> (string \<times> cell) list list \<Rightarrow> string \<Rightarrow> string" where
  "generate_info_card show_cell is_float columns rows title =
     (case rows of
        [] \<Rightarrow> []
      | row # _ \<Rightarrow>
          let items = map (\<lambda>col. (col, card_value show_cell is_float (row_cell row col))) columns; n = length items
          in py_join newline
            ([svg_open [XMLNS, (''viewBox'', ''0 0 800 500'')],
              card_text ''400'' ''35'' [(''font-size'', ''20''), (''font-weight'', ''bold''), (''fill'', ''#1f2937''),
                (''text-anchor'', ''middle'')] title] @
             concat (map (\<lambda>(i, item). card_parts n i item) (enumerated items)) @
             [''</svg>'']))"

section \<open>The chart of a result\<close>

text \<open>\<open>float(value)\<close>\<close>

definition to_float :: "(string \<Rightarrow> rat option) \<Rightarrow> cell \<Rightarrow> rat result" where
  "to_float parse c =
     (case c of
        Decimal q \<Rightarrow> Inr q
      | Plain (JNum q) \<Rightarrow> Inr q
      | Plain (JBool b) \<Rightarrow> Inr (if b then 1 else 0)
      | Plain (JStr t) \<Rightarrow> (case parse t of None \<Rightarrow> Inl ValueError | Some q \<Rightarrow> Inr q)
      | _ \<Rightarrow> Inl TypeErr)"

definition sample_cell :: "(string \<times> cell) list \<Rightarrow> string \<Rightarrow> cell" where
  "sample_cell row col = (case map_of row col of Some c \<Rightarrow> c | None \<Rightarrow> Plain JNull)"

definition is_text_cell :: "cell \<Rightarrow> bool" where
  "is_text_cell c = (case c of Plain (JStr t) \<Rightarrow> True | _ \<Rightarrow> False)"

definition label_column :: "string list \<Rightarrow> (string \<times> cell) list \<Rightarrow> string option" where
  "label_column columns row = first_with (\<lambda>col. is_text_cell (sample_cell row col)) columns"

definition value_column :: "string list \<Rightarrow> (string \<times> cell) list \<Rightarrow> string option" where
  "value_column columns row = first_with (\<lambda>col. plain_number (sample_cell row col) \<noteq> None) columns"

definition ITEM_LABEL :: string where "ITEM_LABEL = utf8 [237, 149, 173, 235, 170, 169]"

definition row_label :: "(cell \<Rightarrow> string) \<Rightarrow> string \<Rightarrow> nat \<Rightarrow> (string \<times> cell) list \<Rightarrow> string" where
  "row_label show_cell col i row =
     (case map_of row col of Some c \<Rightarrow> cell_text show_cell c | None \<Rightarrow> ITEM_LABEL @ nat_digits (i + 1))"

definition row_value :: "(string \<Rightarrow> rat option) \<Rightarrow> string \<Rightarrow> (string \<times> cell) list \<Rightarrow> rat result" where
  "row_value parse col row = (case map_of row col of Some c \<Rightarrow> to_float parse c | None \<Rightarrow> Inr 0)"

fun all_results :: "'a result list \<Rightarrow> 'a list result" where
  "all_results [] = Inr []"
| "all_results (r # rs) = result_bind r (\<lambda>x. result_bind (all_results rs) (\<lambda>xs. Inr (x # xs)))"

record chart_lib =
  cl_show :: "cell \<Rightarrow> string"
  cl_is_float :: "cell \<Rightarrow> bool"
  cl_parse :: "string \<Rightarrow> rat option"
  cl_circle :: "rat \<Rightarrow> rat \<times> rat"

definition draw_chart ::
  "chart_env \<Rightarrow> chart_lib \<Rightarrow> visualization_type \<Rightarrow> string list \<Rightarrow> rat list \<Rightarrow> string \<Rightarrow> string" where
  "draw_chart env lib chart_type labels values title =
     (if chart_type \<in> {Vis_BAR_CHART, Vis_STACKED_BAR} then generate_bar_chart env labels values title
      else if chart_type = Vis_LINE_CHART then generate_line_chart env labels values title
      else if chart_type = Vis_PIE_CHART then generate_pie_chart env (cl_circle lib) labels values title
      else [])"

definition generate_chart_from_result ::
  "chart_env \<Rightarrow> chart_lib \<Rightarrow> sql_result \<Rightarrow> visualization_type \<Rightarrow> string \<Rightarrow> string result" where
  "generate_chart_from_result env lib res chart_type title =
     (case sr_rows res of
        [] \<Rightarrow> Inr []
      | row # _ \<Rightarrow>
          if chart_type = Vis_NONE then Inr []
          else (case (label_column (sr_columns res) row, value_column (sr_columns res) row) of
              (Some label_col, Some value_col) \<Rightarrow>
                result_bind (all_results (map (row_value (cl_parse lib) value_col) (sr_rows res))) (\<lambda>values.
                  let labels = map (\<lambda>(i, r). row_label (cl_show lib) label_col i r) (enumerated (sr_rows res))
                  in Inr (if chart_type = Vis_INFO_CARD
                       then generate_info_card (cl_show lib) (cl_is_float lib) (sr_columns res) (sr_rows res) title
                       else draw_chart env lib chart_type labels values title))
            | _ \<Rightarrow> Inr []))"

section \<open>No text becomes markup\<close>

definition is_markup :: "char \<Rightarrow> bool" where
  "is_markup c \<longleftrightarrow> c = CHR ''<'' \<or> c = CHR ''>'' \<or> c = DQ \<or> c = SQ"

definition markup :: "string \<Rightarrow> string" where
  "markup s = filter is_markup s"

lemma markup_simps [simp]:
  "markup [] = []" "markup (c # s) = (if is_markup c then c # markup s else markup s)"
  "markup (s @ t) = markup s @ markup t" "markup (concat ss) = concat (map markup ss)"
  by (simp_all add: markup_def filter_concat cong: map_cong)

lemma markup_esc [simp]: "markup (esc s) = []"
proof -
  have "filter is_markup (esc_char c) = []" for c
    by (simp add: esc_char_def is_markup_def DQ_def SQ_def)
  then show ?thesis by (simp add: markup_def esc_def filter_concat comp_def)
qed

lemma markup_join: "map markup ss = map markup ts \<Longrightarrow> markup (py_join sep ss) = markup (py_join sep ts)"
proof (induction ss arbitrary: ts rule: py_join.induct)
  case (3 sep x y zs)
  then obtain x' y' zs' where ts: "ts = x' # y' # zs'" by (auto simp: Cons_eq_map_conv map_eq_Cons_conv)
  with "3.prems" have "markup x = markup x'" "map markup (y # zs) = map markup (y' # zs')" by simp_all
  with "3.IH" [of "y' # zs'"] ts show ?case by simp
qed (auto simp: map_eq_Cons_conv)

lemma markup_text_element: "markup (text_element as (esc s)) = markup (text_element as (esc t))"
  by (simp add: text_element_def)

lemma markup_label: "markup (label_element env x y sz fill (esc s)) = markup (label_element env x y sz fill (esc t))"
  by (simp add: label_element_def text_element_def)

lemma markup_card_text: "markup (card_text x y style s) = markup (card_text x y style t)"
  by (simp add: card_text_def)

lemma markup_title:
  "(title = [] \<longleftrightarrow> title' = []) \<Longrightarrow> map markup (title_part env title) = map markup (title_part env title')"
  by (auto simp: title_part_def intro: markup_text_element)

lemma map_concat_cong:
  "list_all2 (\<lambda>x y. map f (g x) = map f (h y)) xs ys \<Longrightarrow> map f (concat (map g xs)) = map f (concat (map h ys))"
  by (induction rule: list_all2_induct) auto

lemma zip_values:
  "length labels = length labels' \<Longrightarrow> list_all2 (\<lambda>a b. snd a = snd b) (zip labels vs) (zip labels' vs)"
proof (induction labels labels' arbitrary: vs rule: list_induct2)
  case (Cons x xs y ys)
  then show ?case by (cases vs) auto
qed simp

lemma enumerated_all2:
  "list_all2 R xs ys \<Longrightarrow> list_all2 (\<lambda>a b. fst a = fst b \<and> R (snd a) (snd b)) (enumerated xs) (enumerated ys)"
  by (auto simp: list_all2_conv_all_nth enumerated_def)

lemma bar_chart_markup:
  assumes "length labels = length labels'" "title = [] \<longleftrightarrow> title' = []"
  shows "markup (generate_bar_chart env labels values title) = markup (generate_bar_chart env labels' values title')"
proof -
  have "list_all2 (\<lambda>a b. map markup (case a of (i, lv) \<Rightarrow> bar_parts env (length labels) values i lv) =
      map markup (case b of (i, lv) \<Rightarrow> bar_parts env (length labels) values i lv))
      (enumerated (zip labels values)) (enumerated (zip labels' values))"
    by (rule list_all2_mono [OF enumerated_all2 [OF zip_values [OF assms(1)]]])
      (auto simp: bar_parts_def Let_def intro: markup_label)
  from map_concat_cong [OF this] show ?thesis
    using assms markup_title [OF assms(2)]
    unfolding generate_bar_chart_def by (auto intro!: markup_join)
qed

lemma line_chart_markup:
  assumes "length labels = length labels'" "title = [] \<longleftrightarrow> title' = []"
  shows "markup (generate_line_chart env labels values title) = markup (generate_line_chart env labels' values title')"
proof -
  let ?points = "line_points env (length labels) values"
  have "list_all2 (\<lambda>a b. fst a = fst b \<and> snd (snd a) = snd (snd b)) (zip ?points (zip labels values)) (zip ?points (zip labels' values))"
    by (simp add: list_all2_conv_all_nth assms(1))
  then have "list_all2 (\<lambda>a b. map markup (point_parts env a) = map markup (point_parts env b))
      (zip ?points (zip labels values)) (zip ?points (zip labels' values))"
    by (rule list_all2_mono) (auto simp: point_parts_def Let_def intro: markup_label)
  from map_concat_cong [OF this] show ?thesis
    using assms markup_title [OF assms(2)]
    unfolding generate_line_chart_def Let_def by (auto intro!: markup_join)
qed

lemma slices_related:
  "list_all2 (\<lambda>a b. snd a = snd b) lvs lvs' \<Longrightarrow>
   list_all2 (\<lambda>a b. sl_value a = sl_value b \<and> sl_ratio a = sl_ratio b \<and> sl_start a = sl_start b)
     (slices_from sm start lvs) (slices_from sm start lvs')"
  by (induction lvs lvs' arbitrary: start rule: list_all2_induct) (auto split: prod.split)

lemma pie_chart_markup:
  assumes "length labels = length labels'" "title = [] \<longleftrightarrow> title' = []"
  shows "markup (generate_pie_chart env circle labels vs title) = markup (generate_pie_chart env circle labels' vs title')"
proof -
  let ?slices = "\<lambda>ls. enumerated (slices_from (sum_list vs) 0 (zip ls vs))"
  note rel = enumerated_all2 [OF slices_related [OF zip_values [OF assms(1)]], of "sum_list vs" 0 vs]
  have slices: "list_all2 (\<lambda>a b. map markup (case a of (i, s) \<Rightarrow> slice_parts env circle i s) =
      map markup (case b of (i, s) \<Rightarrow> slice_parts env circle i s)) (?slices labels) (?slices labels')"
    by (rule list_all2_mono [OF rel]) (auto simp: slice_parts_def Let_def)
  have legend: "list_all2 (\<lambda>a b. map markup (case a of (i, s) \<Rightarrow> legend_parts env i s) =
      map markup (case b of (i, s) \<Rightarrow> legend_parts env i s)) (?slices labels) (?slices labels')"
    by (rule list_all2_mono [OF rel]) (auto simp: legend_parts_def Let_def text_element_def)
  show ?thesis
    using assms markup_title [OF assms(2)] map_concat_cong [OF slices] map_concat_cong [OF legend]
    unfolding generate_pie_chart_def Let_def by (auto intro!: markup_join)
qed

lemma info_card_markup:
  assumes "length columns = length columns'"
  shows "markup (generate_info_card show_cell is_float columns (row # rows) title) =
    markup (generate_info_card show_cell is_float columns' (row' # rows') title')"
proof -
  let ?items = "\<lambda>cols r. map (\<lambda>col. (col, card_value show_cell is_float (row_cell r col))) cols"
  have "list_all2 (\<lambda>a b. True) (?items columns row) (?items columns' row')"
    using assms by (simp add: list_all2_conv_all_nth)
  then have "list_all2 (\<lambda>a b. map markup (case a of (i, item) \<Rightarrow> card_parts (length columns) i item) =
      map markup (case b of (i, item) \<Rightarrow> card_parts (length columns) i item))
      (enumerated (?items columns row)) (enumerated (?items columns' row'))"
    by (rule list_all2_mono [OF enumerated_all2]) (auto simp: card_parts_def Let_def intro: markup_card_text)
  from map_concat_cong [OF this] show ?thesis
    using assms by (auto simp: generate_info_card_def Let_def intro!: markup_join markup_card_text)
qed

text \<open>
  C30: The tags and quotes of a template chart do not depend on the labels of the data or on the title
  the model chose: no text in them can add or close an element or an attribute.
\<close>

theorem chart_texts_escaped:
  assumes "length labels = length labels'" "title = [] \<longleftrightarrow> title' = []"
  shows "markup (draw_chart env lib chart_type labels vs title) = markup (draw_chart env lib chart_type labels' vs title')"
  using bar_chart_markup [OF assms] line_chart_markup [OF assms] pie_chart_markup [OF assms]
  by (simp add: draw_chart_def)

lemma chart_texts_escaped_witness:
  "\<forall>env lib. markup (draw_chart env lib Vis_PIE_CHART [''<b>'', ''x''] [1, 2] ''</text>'') =
     markup (draw_chart env lib Vis_PIE_CHART [''r'', ''s''] [1, 2] ''t'')"
  by (intro allI chart_texts_escaped) simp_all

section \<open>Geometry\<close>

lemma fold_max_ge: "x \<le> fold max xs x \<and> list_all (\<lambda>v. v \<le> fold max xs x) xs" for x :: rat
proof (induction xs arbitrary: x)
  case (Cons y ys)
  from Cons.IH [of "max y x"] show ?case by (auto simp: list_all_iff)
qed simp

lemma fold_min_le: "fold min xs x \<le> x \<and> list_all (\<lambda>v. fold min xs x \<le> v) xs" for x :: rat
proof (induction xs arbitrary: x)
  case (Cons y ys)
  from Cons.IH [of "min y x"] show ?case by (auto simp: list_all_iff)
qed simp

lemma max_of_ge: "v \<in> set vs \<Longrightarrow> v \<le> max_of vs"
  using fold_max_ge [of "hd vs" "tl vs"] by (cases vs) (auto simp: max_of_def list_all_iff)

lemma min_of_le: "v \<in> set vs \<Longrightarrow> min_of vs \<le> v"
  using fold_min_le [of "tl vs" "hd vs"] by (cases vs) (auto simp: min_of_def list_all_iff)

lemma scaled_between:
  assumes "0 \<le> (r :: rat)" "r \<le> 1" "0 \<le> h"
  shows "0 \<le> r * of_int h \<and> r * of_int h \<le> of_int h"
proof -
  have "r * of_int h \<le> 1 * of_int h" using assms by (intro mult_right_mono) auto
  with assms show ?thesis by simp
qed

text \<open>
  The points of a line chart, and the bars of a chart without negative values, stay between the
  top margin and the base line.
\<close>

theorem chart_marks_in_plot:
  assumes "v \<in> set vs" "0 \<le> plot_height env"
  shows "of_int (ce_top env) \<le> snd (line_point env n vs i v)"
    and "snd (line_point env n vs i v) \<le> of_int (base_line env)"
    and "list_all (\<lambda>x. 0 \<le> x) vs \<Longrightarrow> 0 \<le> bar_height env vs v"
    and "list_all (\<lambda>x. 0 \<le> x) vs \<Longrightarrow> of_int (ce_top env) \<le> bar_y env vs v"
proof -
  have base: "of_int (base_line env) = of_int (ce_top env) + (of_int (plot_height env) :: rat)"
    by (simp add: base_line_def plot_height_def)
  have "min_of vs \<le> v" "v \<le> line_top vs" "min_of vs < line_top vs"
    using min_of_le [OF assms(1)] max_of_ge [OF assms(1)] by (auto simp: line_top_def)
  then have r: "0 \<le> (v - min_of vs) / (line_top vs - min_of vs)" "(v - min_of vs) / (line_top vs - min_of vs) \<le> 1"
    by auto
  from scaled_between [OF r assms(2)] base
  show "of_int (ce_top env) \<le> snd (line_point env n vs i v)"
    and "snd (line_point env n vs i v) \<le> of_int (base_line env)"
    by (auto simp: line_point_def)
  assume "list_all (\<lambda>x. 0 \<le> x) vs"
  then have "0 \<le> v" "v \<le> bar_scale vs" "0 < bar_scale vs"
    using assms(1) max_of_ge [OF assms(1)] by (auto simp: bar_scale_def list_all_iff)
  then have b: "0 \<le> v / bar_scale vs" "v / bar_scale vs \<le> 1" by auto
  from scaled_between [OF b assms(2)] base
  show "0 \<le> bar_height env vs v" and "of_int (ce_top env) \<le> bar_y env vs v"
    by (auto simp: bar_height_def bar_y_def)
qed

text \<open>A bar below zero has a negative height, and all bars of a negative column rise above the plot.\<close>

theorem negative_bar_height:
  "v < 0 \<Longrightarrow> 0 < max_of vs \<Longrightarrow> 0 < plot_height env \<Longrightarrow> bar_height env vs v < 0"
  by (simp add: bar_height_def bar_scale_def divide_neg_pos mult_neg_pos)

theorem negative_column_overshoots:
  assumes "v \<in> set vs" "max_of vs < 0" "0 < plot_height env"
  shows "bar_y env vs v \<le> of_int (ce_top env)"
proof -
  have "1 \<le> v / max_of vs" using max_of_ge [OF assms(1)] assms(2) by (simp add: le_divide_eq)
  then have "1 * of_int (plot_height env) \<le> v / max_of vs * of_int (plot_height env)"
    using assms(3) by (intro mult_right_mono) auto
  then show ?thesis using assms(2) by (simp add: bar_y_def bar_height_def bar_scale_def base_line_def plot_height_def)
qed

text \<open>With seventeen bars or more the first one starts left of the canvas.\<close>

theorem bars_leave_canvas:
  assumes "17 \<le> n"
  shows "bar_x (default_chart_env style f) n 0 < 0"
proof -
  let ?e = "default_chart_env style f"
  define w where "w = bar_width ?e n"
  have "20 \<le> w" by (simp add: w_def bar_width_def)
  then have "of_nat n * 20 \<le> of_nat n * w" by (intro mult_left_mono) auto
  moreover have "17 \<le> (of_nat n :: rat)" using assms by (metis of_nat_le_iff of_nat_numeral)
  moreover have "bar_x ?e n 0 = 80 + (480 - (of_nat n * w + (of_nat n + 1) * 20)) / 2 + 20"
    by (simp only: bar_x_def bars_start_def w_def BAR_GAP_def)
      (simp add: default_chart_env_def plot_width_def)
  moreover have "80 + (480 - (x + (m + 1) * 20)) / 2 + 20 < 0" if "m * 20 \<le> x" "17 \<le> m" for x m :: rat
    using that by (simp add: field_simps)
  ultimately show ?thesis by (simp only:)
qed

lemma slice_ratios: "sum_list (map sl_ratio (slices_from sm start lvs)) = sum_list (map snd lvs) / sm"
  by (induction sm start lvs rule: slices_from.induct) (auto simp: add_divide_distrib)

text \<open>The slices of a pie make up one turn; a slice of one whole turn ends where it starts, so its arc is empty.\<close>

theorem pie_slices_fill_circle:
  "length labels = length vs \<Longrightarrow> sum_list vs \<noteq> 0 \<Longrightarrow>
   sum_list (map sl_ratio (slices_from (sum_list vs) 0 (zip labels vs))) = 1"
  by (simp add: slice_ratios)

theorem whole_slice_has_no_arc:
  assumes "circle 1 = circle (0 :: rat)" "v \<noteq> 0"
    and "slices_from v 0 [(label, v)] = [s]"
  shows "on_circle circle r (sl_start s) = on_circle circle r (sl_start s + sl_ratio s)"
  using assms by (auto simp: on_circle_def)

section \<open>Results that cannot be drawn\<close>

lemma all_results_error: "Inl e \<in> set rs \<Longrightarrow> \<exists>e'. all_results rs = Inl e'"
proof (induction rs)
  case (Cons r rs)
  then show ?case by (cases r) auto
qed simp

text \<open>A missing value in the column of the values is an exception, which the node does not catch.\<close>

theorem null_value_breaks_chart:
  assumes "sr_rows res = first # rest" "chart_type \<noteq> Vis_NONE"
    and "label_column (sr_columns res) first = Some l" "value_column (sr_columns res) first = Some v"
    and "row \<in> set (sr_rows res)" "map_of row v = Some (Plain JNull)"
  shows "\<exists>e. generate_chart_from_result env lib res chart_type title = Inl e"
proof -
  have "Inl TypeErr \<in> set (map (row_value (cl_parse lib) v) (sr_rows res))"
    using assms(5,6) by (force simp: row_value_def to_float_def)
  from all_results_error [OF this] show ?thesis
    using assms(1-4) by (auto simp: generate_chart_from_result_def)
qed

text \<open>An info card is never drawn for a row of numbers only.\<close>

theorem info_card_needs_text:
  "label_column (sr_columns res) row = None \<Longrightarrow> sr_rows res = row # rows \<Longrightarrow>
   generate_chart_from_result env lib res Vis_INFO_CARD title = Inr []"
  by (simp add: generate_chart_from_result_def)

end
