(* ===== verification/DataAnalysis.thy ===== *)
theory DataAnalysis imports Charts IntentService Present begin

text \<open>
  The analysis service, \<open>src/src/services/data_analyzer.py\<close>: the readers of the model's analysis and
  of its judgement of a chart, the extraction of an SVG from a reply, and the two pipelines the
  analyzer and visualizer nodes call.  The model client, \<open>json.loads\<close>, the filling of a
  template by \<open>str.format\<close> and the cancel test are arguments.
\<close>

section \<open>Notes for the prompts\<close>

definition NO_NOTE :: string where "NO_NOTE = utf8 [40, 236, 151, 134, 236, 157, 140, 41]"

definition normalize_handoff_note :: "string \<Rightarrow> string" where
  "normalize_handoff_note note = (if py_strip note \<noteq> [] then py_strip note else NO_NOTE)"

definition normalize_previous_sql :: "string \<Rightarrow> string" where
  "normalize_previous_sql v = (if py_strip v \<noteq> [] then py_strip v else NO_NOTE)"

section \<open>The judgement of a chart\<close>

definition parse_viz_judgment ::
  "(string \<Rightarrow> json option) \<Rightarrow> (json \<Rightarrow> string) \<Rightarrow> string \<Rightarrow> (visualization_type \<times> string \<times> string) parsed" where
  "parse_viz_judgment loads show_json text =
     (case extract_json loads text of
        None \<Rightarrow> Inl (ValueError, ''the model returned no valid JSON'')
      | Some data \<Rightarrow>
          (case (json_get data ''chart_type'' (JStr []), json_get data ''chart_title'' (JStr []),
                 json_get data ''reason'' (JStr [])) of
             (Inr ty, Inr title, Inr why) \<Rightarrow>
               let raw_type = py_lower (py_strip (py_str show_json ty))
               in if raw_type = [] then Inl (ValueError, ''chart_type is empty: '' @ take 200 text)
                  else (case visualization_type_of (JStr raw_type) of
                      Inl e \<Rightarrow> Inl (ValueError, ''chart_type is not allowed: '' @ raw_type)
                    | Inr ct \<Rightarrow> Inr (ct, py_strip (py_str show_json title), py_strip (py_str show_json why)))
           | _ \<Rightarrow> Inl (AttributeError, [])))"

text \<open>
  What a call leaves in the trace: the variables of its prompt and the reply, or the mark of a
  failure or of a skipped call.
\<close>

record llm_interaction =
  li_prompt_variables :: "(string \<times> string) list"
  li_raw_response :: string

definition llm_skip_sentinel :: "string \<Rightarrow> string" where
  "llm_skip_sentinel why = py_strip (''[SKIP] '' @ why)"

definition llm_failure_sentinel :: "string \<Rightarrow> string \<Rightarrow> string" where
  "llm_failure_sentinel kind err = ''[FAIL] '' @ kind @ '': '' @ err"

text \<open>
  The client's part of an analysis: the calls with their limits, the texts of exceptions and the
  last reply a parse error carries.
\<close>

record analysis_llm =
  al_max_retries :: int
  al_log_limit :: int
  al_loads :: "string \<Rightarrow> json option"
  al_show :: "json \<Rightarrow> string"
  al_err_text :: "py_error \<Rightarrow> string"
  al_last_reply :: string

definition given_or_none :: "string \<Rightarrow> string" where
  "given_or_none t = (if py_strip t \<noteq> [] then py_strip t else NO_NOTE)"

definition judge_visualization ::
  "analysis_llm \<Rightarrow> (nat \<Rightarrow> messages \<Rightarrow> string result) \<Rightarrow> string \<Rightarrow> string \<Rightarrow> string \<Rightarrow> string \<Rightarrow>
   (visualization_type \<times> string \<times> string \<times> llm_interaction) result" where
  "judge_visualization al client user_template data_summary note question =
     (let (message, vars) = render_prompt user_template
            [(''{data}'', data_summary), (''{handoff_note}'', normalize_handoff_note note),
             (''{user_input}'', given_or_none question)]
      in case llm_call_with_parse_retry (al_max_retries al) (al_log_limit al) client
                (parse_viz_judgment (al_loads al) (al_show al)) [(''user'', message)] of
           Inr (raw, ct, title, why) \<Rightarrow> Inr (ct, title, why, \<lparr>li_prompt_variables = vars, li_raw_response = raw\<rparr>)
         | Inl CancelledErr \<Rightarrow> Inl CancelledErr
         | Inl ParseError \<Rightarrow>
             Inr (Vis_NONE, [], [],
               \<lparr>li_prompt_variables = vars,
                li_raw_response = (if al_last_reply al \<noteq> [] then al_last_reply al
                  else llm_failure_sentinel ''judgement ParseError'' (al_err_text al ParseError))\<rparr>)
         | Inl e \<Rightarrow>
             Inr (Vis_NONE, [], [],
               \<lparr>li_prompt_variables = vars,
                li_raw_response = llm_failure_sentinel ''judgement LLM failure'' (al_err_text al e)\<rparr>))"

section \<open>The SVG in a reply\<close>

definition inside_fence :: "string \<Rightarrow> string \<Rightarrow> string option" where
  "inside_fence marker text =
     (case split_once marker text of
        None \<Rightarrow> None
      | Some (_, rest) \<Rightarrow>
          Some (py_strip (case split_once fence rest of None \<Rightarrow> rest | Some (inner, _) \<Rightarrow> inner)))"

definition strip_svg_fence :: "string \<Rightarrow> string" where
  "strip_svg_fence text =
     (case inside_fence (fence @ ''svg'') text of
        Some t \<Rightarrow> t
      | None \<Rightarrow> (case inside_fence (fence @ ''xml'') text of
          Some t \<Rightarrow> t
        | None \<Rightarrow> (case inside_fence fence text of Some t \<Rightarrow> t | None \<Rightarrow> text)))"

definition SVG_OPEN :: string where "SVG_OPEN = ''<svg''"
definition SVG_CLOSE :: string where "SVG_CLOSE = ''</svg>''"

text \<open>The first match of \<open><svg[\s\S]*?</svg>\<close>, whatever the case of its letters.\<close>

definition svg_match :: "string \<Rightarrow> string option" where
  "svg_match s =
     (case split_once SVG_OPEN (py_lower s) of
        None \<Rightarrow> None
      | Some (before, after) \<Rightarrow>
          (case split_once SVG_CLOSE after of
             None \<Rightarrow> None
           | Some (inner, _) \<Rightarrow>
               Some (take (length SVG_OPEN + length inner + length SVG_CLOSE) (drop (length before) s))))"

definition extract_svg_block :: "string \<Rightarrow> string parsed" where
  "extract_svg_block text =
     (let cleaned = strip_svg_fence (py_strip text)
      in if \<not> contains cleaned SVG_OPEN \<or> \<not> contains cleaned SVG_CLOSE
         then Inl (ValueError, ''no valid SVG block'')
         else case svg_match cleaned of None \<Rightarrow> Inl (ValueError, ''no SVG match'') | Some b \<Rightarrow> Inr b)"

text \<open>
  The two ways to ask for an SVG.  \<open>stream\<close> is the client's stream of an attempt with the
  answers of the cancel test; a cancellation is the only exception that leaves.
\<close>

definition generate_svg_streaming ::
  "analysis_llm \<Rightarrow> (nat \<Rightarrow> messages \<Rightarrow> (stream_item \<times> bool) list) \<Rightarrow> string \<Rightarrow> string result \<times> delta_event list" where
  "generate_svg_streaming al stream message =
     (case llm_stream_with_parse_retry (al_max_retries al) (al_log_limit al) stream extract_svg_block [(''user'', message)] of
        (Inr (_, svg), events) \<Rightarrow> (Inr svg, events)
      | (Inl CancelledErr, events) \<Rightarrow> (Inl CancelledErr, events)
      | (Inl _, events) \<Rightarrow> (Inr [], events))"

record svg_request =
  sq_examples :: "(string \<times> string) list"
  sq_system_base :: string
  sq_fill :: "(string \<times> string) list \<Rightarrow> string result"
  sq_streaming :: bool
  sq_turn_id :: string

definition svg_system_prompt :: "svg_request \<Rightarrow> string \<Rightarrow> string" where
  "svg_system_prompt rq example = py_replace ''{example_block}'' example (sq_system_base rq)"

text \<open>\<open>client\<close> and \<open>stream\<close> answer for a system prompt.\<close>

definition generate_svg_via_llm ::
  "analysis_llm \<Rightarrow> (string \<Rightarrow> nat \<Rightarrow> messages \<Rightarrow> string result) \<Rightarrow>
   (string \<Rightarrow> nat \<Rightarrow> messages \<Rightarrow> (stream_item \<times> bool) list) \<Rightarrow> svg_request \<Rightarrow>
   string \<Rightarrow> string \<Rightarrow> string \<Rightarrow> string \<Rightarrow> string result \<times> delta_event list" where
  "generate_svg_via_llm al client stream rq chart_type chart_title data_summary question =
     (case map_of (sq_examples rq) chart_type of
        None \<Rightarrow> (Inr [], [])
      | Some example \<Rightarrow>
          let system = svg_system_prompt rq example
          in (case sq_fill rq [(''chart_type'', chart_type), (''chart_title'', chart_title), (''data'', data_summary),
                  (''user_input'', given_or_none question)] of
               Inl e \<Rightarrow> (Inl e, [])
             | Inr message \<Rightarrow>
                 if sq_streaming rq \<and> sq_turn_id rq \<noteq> [] then generate_svg_streaming al (stream system) message
                 else (case client system 0 [(''user'', message)] of
                     Inl CancelledErr \<Rightarrow> (Inl CancelledErr, [])
                   | Inl e \<Rightarrow> (Inr [], [])
                   | Inr reply \<Rightarrow> (case extract_svg_block (py_strip reply) of Inl _ \<Rightarrow> (Inr [], []) | Inr svg \<Rightarrow> (Inr svg, [])))))"

section \<open>The chart of a result\<close>

record viz_env =
  ve_judge :: "nat \<Rightarrow> messages \<Rightarrow> string result"
  ve_judge_template :: string
  ve_client :: "string \<Rightarrow> nat \<Rightarrow> messages \<Rightarrow> string result"
  ve_stream :: "string \<Rightarrow> nat \<Rightarrow> messages \<Rightarrow> (stream_item \<times> bool) list"
  ve_request :: svg_request
  ve_chart :: chart_env
  ve_lib :: chart_lib
  ve_max_rows :: nat
  ve_cancelled :: bool

definition full_visualization :: "string \<Rightarrow> visualization_type \<Rightarrow> string \<Rightarrow> string \<Rightarrow> visualization_data" where
  "full_visualization svg ct title why =
     \<lparr>vz_svg_code = svg, vz_chart_type = ct, vz_title = title, vz_judgment_reason = why\<rparr>"

definition build_visualization ::
  "analysis_llm \<Rightarrow> viz_env \<Rightarrow> sql_result \<Rightarrow> string \<Rightarrow> string \<Rightarrow>
   (visualization_data \<times> llm_interaction) result \<times> delta_event list" where
  "build_visualization al env res note question =
     (let data_summary = format_report_table (cl_show (ve_lib env)) (sr_columns res) (sr_rows res) [] (ve_max_rows env)
      in case judge_visualization al (ve_judge env) (ve_judge_template env) data_summary note question of
           Inl e \<Rightarrow> (Inl e, [])
         | Inr (ct, title, why, interaction) \<Rightarrow>
             if ct = Vis_NONE then (Inr (new_visualization_data\<lparr>vz_judgment_reason := why\<rparr>, interaction), [])
             else if ve_cancelled env then (Inr (new_visualization_data, interaction), [])
             else
               (case generate_svg_via_llm al (ve_client env) (ve_stream env) (ve_request env)
                       (visualization_type_value ct) title data_summary question of
                  (Inl e, events) \<Rightarrow> (Inl e, events)
                | (Inr svg, events) \<Rightarrow>
                    (result_bind (if svg = [] then generate_chart_from_result (ve_chart env) (ve_lib env) res ct title else Inr svg)
                       (\<lambda>code. Inr (if code \<noteq> [] then full_visualization code ct title why else new_visualization_data, interaction)),
                     events)))"

section \<open>The analysis\<close>

text \<open>
  \<open>_MD_SECTION_RE\<close> and \<open>_MD_BULLET_RE\<close> match single lines: a heading is \<open>##\<close>, blanks and one
  of the four titles, a bullet a dash, a star or a number with a point, and a text.
\<close>

definition is_blank_char :: "char \<Rightarrow> bool" where
  "is_blank_char c \<longleftrightarrow> c = CHR '' '' \<or> c = CHR 0x09"

definition MD_TITLES :: "string list" where
  "MD_TITLES = [SUMMARY_TITLE, READING_TITLE, INSIGHT_TITLE, ACTION_TITLE]"

definition heading_of :: "string \<Rightarrow> string option" where
  "heading_of line =
     (if starts_with line ''##'' \<and> (case drop 2 line of [] \<Rightarrow> False | c # _ \<Rightarrow> is_blank_char c)
      then let title = rev (dropWhile is_blank_char (rev (dropWhile is_blank_char (drop 2 line))))
           in if title \<in> set MD_TITLES then Some title else None
      else None)"

definition is_digit_char :: "char \<Rightarrow> bool" where
  "is_digit_char c \<longleftrightarrow> CHR ''0'' \<le> c \<and> c \<le> CHR ''9''"

definition after_marker :: "string \<Rightarrow> string option" where
  "after_marker t =
     (case t of
        [] \<Rightarrow> None
      | c # cs \<Rightarrow>
          if c = CHR ''-'' \<or> c = CHR ''*'' then Some cs
          else if is_digit_char c then
            (case dropWhile is_digit_char cs of
               d # ds \<Rightarrow> if d = CHR ''.'' then Some ds else None
             | [] \<Rightarrow> None)
          else None)"

definition bullet_of :: "string \<Rightarrow> string option" where
  "bullet_of line =
     (case after_marker (dropWhile is_blank_char line) of
        Some (c # cs) \<Rightarrow> if is_blank_char c \<and> py_strip cs \<noteq> [] then Some (py_strip cs) else None
      | _ \<Rightarrow> None)"

fun md_sections :: "string list \<Rightarrow> (string \<times> string list) list" where
  "md_sections [] = []"
| "md_sections (line # lines) =
     (case heading_of line of
        None \<Rightarrow> md_sections lines
      | Some title \<Rightarrow> (title, takeWhile (\<lambda>l. heading_of l = None) lines) # md_sections lines)"

definition split_markdown_sections :: "string \<Rightarrow> (string \<times> string) list" where
  "split_markdown_sections text =
     fold (\<lambda>(title, body) d. dict_set title (py_strip (py_join newline body)) d)
       (md_sections (split_char (CHR 0x0A) text)) []"

definition extract_bullets :: "string \<Rightarrow> string list" where
  "extract_bullets body = List.map_filter bullet_of (split_char (CHR 0x0A) body)"

definition section_text :: "(string \<times> string) list \<Rightarrow> string \<Rightarrow> string" where
  "section_text d k = (case map_of d k of None \<Rightarrow> [] | Some t \<Rightarrow> t)"

definition parse_analysis_markdown :: "string \<Rightarrow> analysis_result parsed" where
  "parse_analysis_markdown text =
     (let d = split_markdown_sections text
      in if map_of d SUMMARY_TITLE = None then Inl (ValueError, ''the summary section is missing'')
         else Inr \<lparr>ar_summary = py_strip (section_text d SUMMARY_TITLE),
                   ar_initial_reading = extract_bullets (section_text d READING_TITLE),
                   ar_insights = extract_bullets (section_text d INSIGHT_TITLE),
                   ar_statistics = [],
                   ar_action_items = extract_bullets (section_text d ACTION_TITLE),
                   ar_reasoning_summary = []\<rparr>)"

text \<open>\<open>parse_analysis_json\<close>: the part of the reply that is read, and the fields, checked by pydantic.\<close>

definition JSON_FENCE :: string where "JSON_FENCE = fence @ ''json''"

definition analysis_json_text :: "string \<Rightarrow> string result" where
  "analysis_json_text text =
     (case split_once JSON_FENCE text of
        Some (_, rest) \<Rightarrow> Inr (case split_once fence rest of None \<Rightarrow> rest | Some (inner, _) \<Rightarrow> inner)
      | None \<Rightarrow>
          (case split_once fence text of
             Some (_, rest) \<Rightarrow> Inr (case split_once fence rest of None \<Rightarrow> text | Some (inner, _) \<Rightarrow> inner)
           | None \<Rightarrow>
               if contains text ''{'' then
                 (if contains text ''}'' then
                    (let s = dropWhile (\<lambda>c. c \<noteq> CHR ''{'') text in Inr (rev (dropWhile (\<lambda>c. c \<noteq> CHR ''}'') (rev s))))
                  else Inl ValueError)
               else Inr text))"

definition texts_field :: "(string \<times> json) list \<Rightarrow> string \<Rightarrow> string list result" where
  "texts_field d k = (case obj_get d k (JList []) of JList vs \<Rightarrow> str_items vs | _ \<Rightarrow> Inl ValueError)"

definition read_analysis :: "json \<Rightarrow> analysis_result result" where
  "read_analysis v =
     (case v of
        JObj d \<Rightarrow>
          result_bind (str_field (obj_get d ''summary'' (JStr []))) (\<lambda>summary.
          result_bind (texts_field d ''initial_reading'') (\<lambda>reading.
          result_bind (texts_field d ''insights'') (\<lambda>insights.
          result_bind (case obj_get d ''statistics'' (JObj []) of JObj st \<Rightarrow> Inr st | _ \<Rightarrow> Inl ValueError) (\<lambda>st.
          result_bind (texts_field d ''action_items'') (\<lambda>actions.
          result_bind (str_field (obj_get d ''reasoning_summary'' (JStr []))) (\<lambda>why.
            Inr \<lparr>ar_summary = summary, ar_initial_reading = reading, ar_insights = insights, ar_statistics = st,
                 ar_action_items = actions, ar_reasoning_summary = why\<rparr>))))))
      | _ \<Rightarrow> Inl ValueError)"

definition parse_analysis_json :: "(string \<Rightarrow> json option) \<Rightarrow> (py_error \<Rightarrow> string) \<Rightarrow> string \<Rightarrow> analysis_result parsed" where
  "parse_analysis_json loads err_text text =
     (case result_bind (analysis_json_text text) (\<lambda>t. case loads t of None \<Rightarrow> Inl ValueError | Some v \<Rightarrow> read_analysis v) of
        Inl e \<Rightarrow> Inl (e, err_text e)
      | Inr a \<Rightarrow> Inr a)"

definition NO_DATA_SUMMARY :: string where
  "NO_DATA_SUMMARY = ''There is no data to analyse.''"

definition NO_DATA_INSIGHT :: string where
  "NO_DATA_INSIGHT = ''Please change the conditions of the data and try again.''"

record analysis_env =
  ae_markdown :: bool
  ae_client :: "nat \<Rightarrow> messages \<Rightarrow> string result"
  ae_stream :: "nat \<Rightarrow> messages \<Rightarrow> (stream_item \<times> bool) list"
  ae_template :: string
  ae_show :: "cell \<Rightarrow> string"
  ae_max_rows :: nat
  ae_streaming :: bool
  ae_turn_id :: string

definition analyze_data ::
  "analysis_llm \<Rightarrow> analysis_env \<Rightarrow> string \<Rightarrow> sql_result \<Rightarrow> string \<Rightarrow>
   (analysis_result \<times> bool \<times> llm_interaction) result \<times> delta_event list" where
  "analyze_data al env question res note =
     (if sr_rows res = [] then
        (Inr (new_analysis_result\<lparr>ar_summary := NO_DATA_SUMMARY, ar_insights := [NO_DATA_INSIGHT]\<rparr>, False,
           \<lparr>li_prompt_variables = [], li_raw_response = llm_skip_sentinel ''no data''\<rparr>), [])
      else
        let table = format_report_table (ae_show env) (sr_columns res) (sr_rows res) [] (ae_max_rows env);
            (message, vars) = render_prompt (ae_template env)
              [(''{user_input}'', question), (''{query_result}'', table), (''{handoff_note}'', normalize_handoff_note note)];
            parse = (if ae_markdown env then parse_analysis_markdown else parse_analysis_json (al_loads al) (al_err_text al));
            use_streaming = ae_streaming env \<and> ae_turn_id env \<noteq> [] \<and> ae_markdown env;
            (r, events) = (if use_streaming
              then llm_stream_with_parse_retry (al_max_retries al) (al_log_limit al) (ae_stream env) parse [(''user'', message)]
              else (llm_call_with_parse_retry (al_max_retries al) (al_log_limit al) (ae_client env) parse [(''user'', message)], []))
        in (case r of
              Inr (raw, a) \<Rightarrow> Inr (a, use_streaming, \<lparr>li_prompt_variables = vars, li_raw_response = raw\<rparr>)
            | Inl ParseError \<Rightarrow>
                Inr (new_analysis_result\<lparr>ar_summary := al_last_reply al\<rparr>, False,
                  \<lparr>li_prompt_variables = vars, li_raw_response = al_last_reply al\<rparr>)
            | Inl e \<Rightarrow> Inl e, events))"

section \<open>The report is read back\<close>

lemma newline_char: "newline = [CHR 0x0A]"
  by (simp add: newline_def char_of_10)

lemma split_char_no: "c \<notin> set s \<Longrightarrow> split_char c s = [s]"
  by (induction s) auto

lemma split_char_join:
  "ls \<noteq> [] \<Longrightarrow> list_all (\<lambda>l. c \<notin> set l) ls \<Longrightarrow> split_char c (py_join [c] ls) = ls"
proof (induction "[c]" ls rule: py_join.induct)
  case (3 x y zs)
  then show ?case using split_char_append [of c x "py_join [c] (y # zs)"] by (simp add: split_char_no)
qed (auto simp: split_char_no)

definition part_text :: "string \<times> string list \<Rightarrow> string" where
  "part_text sec = ''## '' @ fst sec @ newline @ py_join newline (snd sec)"

definition good_section :: "string \<times> string list \<Rightarrow> bool" where
  "good_section sec \<longleftrightarrow> fst sec \<in> set MD_TITLES \<and> snd sec \<noteq> [] \<and>
     list_all (\<lambda>l. CHR 0x0A \<notin> set l \<and> heading_of l = None) (snd sec)"

fun doc_lines :: "(string \<times> string list) list \<Rightarrow> string list" where
  "doc_lines [] = []"
| "doc_lines [sec] = (''## '' @ fst sec) # snd sec"
| "doc_lines (sec # rest) = (''## '' @ fst sec) # snd sec @ [] # doc_lines rest"

lemma title_line: "t \<in> set MD_TITLES \<Longrightarrow> CHR 0x0A \<notin> set (''## '' @ t)"
proof -
  have "list_all (\<lambda>t. CHR 0x0A \<notin> set (''## '' @ t)) MD_TITLES" by code_simp
  then show "t \<in> set MD_TITLES \<Longrightarrow> ?thesis" unfolding list_all_iff by (rule bspec)
qed

lemma heading_title: "t \<in> set MD_TITLES \<Longrightarrow> heading_of (''## '' @ t) = Some t"
proof -
  have "list_all (\<lambda>t. heading_of (''## '' @ t) = Some t) MD_TITLES" by code_simp
  then show "t \<in> set MD_TITLES \<Longrightarrow> ?thesis" unfolding list_all_iff by (rule bspec)
qed

lemma part_lines: "good_section sec \<Longrightarrow> split_char (CHR 0x0A) (part_text sec) = (''## '' @ fst sec) # snd sec"
proof -
  assume g: "good_section sec"
  have "part_text sec = (''## '' @ fst sec) @ CHR 0x0A # py_join [CHR 0x0A] (snd sec)"
    by (simp add: part_text_def newline_char)
  moreover have "split_char (CHR 0x0A) (py_join [CHR 0x0A] (snd sec)) = snd sec"
    using g by (intro split_char_join) (auto simp: good_section_def list_all_iff)
  moreover have "split_char (CHR 0x0A) (''## '' @ fst sec) = [''## '' @ fst sec]"
    using g title_line by (intro split_char_no) (simp add: good_section_def)
  ultimately show ?thesis by (simp only: split_char_append) simp
qed

lemma report_lines:
  "secs \<noteq> [] \<Longrightarrow> list_all good_section secs \<Longrightarrow>
   split_char (CHR 0x0A) (py_join (newline @ newline) (map part_text secs)) = doc_lines secs"
proof (induction secs rule: doc_lines.induct)
  case (3 sec s2 rest)
  let ?others = "py_join (newline @ newline) (map part_text (s2 # rest))"
  have "py_join (newline @ newline) (map part_text (sec # s2 # rest)) = part_text sec @ CHR 0x0A # ([] @ CHR 0x0A # ?others)"
    by (simp add: newline_char)
  then have "split_char (CHR 0x0A) (py_join (newline @ newline) (map part_text (sec # s2 # rest))) =
      split_char (CHR 0x0A) (part_text sec) @ split_char (CHR 0x0A) [] @ split_char (CHR 0x0A) ?others"
    by (simp only: split_char_append)
  with 3 part_lines [of sec] show ?case by simp
qed (simp_all add: part_lines)

lemma strip_final_newline: "py_strip (s @ newline) = py_strip s"
proof -
  have "is_ascii_space (CHR 0x0A)" by (simp add: is_ascii_space_def)
  moreover have "dropWhile is_ascii_space s = []" if "\<forall>x\<in>set s. is_ascii_space x" using that by simp
  ultimately show ?thesis
    by (auto simp: py_strip_def py_lstrip_def newline_char dropWhile_append simp del: dropWhile_eq_Nil_conv)
qed

lemma join_snoc_empty: "ls \<noteq> [] \<Longrightarrow> py_join sep (ls @ [[]]) = py_join sep ls @ sep"
  by (induction sep ls rule: py_join.induct) auto

lemma takeWhile_body:
  "list_all (\<lambda>l. heading_of l = None) b \<Longrightarrow> heading_of h \<noteq> None \<Longrightarrow>
   takeWhile (\<lambda>l. heading_of l = None) (b @ h # rest) = b"
  "list_all (\<lambda>l. heading_of l = None) b \<Longrightarrow> takeWhile (\<lambda>l. heading_of l = None) b = b"
  "list_all (\<lambda>l. heading_of l = None) b \<Longrightarrow> md_sections (b @ rest) = md_sections rest"
  by (induction b) auto

lemma sections_of_doc:
  "list_all good_section secs \<Longrightarrow>
   map (\<lambda>(t, b). (t, py_strip (py_join newline b))) (md_sections (doc_lines secs)) =
   map (\<lambda>(t, b). (t, py_strip (py_join newline b))) secs"
proof (induction secs rule: doc_lines.induct)
  case (2 sec)
  then have body: "list_all (\<lambda>l. heading_of l = None) (snd sec)" by (auto simp: good_section_def list_all_iff)
  have "md_sections (doc_lines [sec]) = (fst sec, takeWhile (\<lambda>l. heading_of l = None) (snd sec)) # md_sections (snd sec)"
    using 2 heading_title [of "fst sec"] by (simp add: good_section_def)
  then have "md_sections (doc_lines [sec]) = [(fst sec, snd sec)]"
    using takeWhile_body(3) [OF body, of "[]"] by (simp only: takeWhile_body(2) [OF body]) simp
  then show ?case by simp
next
  case (3 sec s2 rest)
  let ?others = "doc_lines (s2 # rest)"
  obtain h hs where h: "?others = h # hs" "heading_of h \<noteq> None"
    using 3(2) heading_title by (cases rest) (auto simp: good_section_def)
  have "heading_of [] = None" by (simp add: heading_of_def)
  then have body: "list_all (\<lambda>l. heading_of l = None) (snd sec @ [[]])"
    using 3(2) by (auto simp: good_section_def list_all_iff)
  have doc: "doc_lines (sec # s2 # rest) = (''## '' @ fst sec) # (snd sec @ [[]]) @ ?others" by simp
  have hd: "heading_of (''## '' @ fst sec) = Some (fst sec)"
    using 3(2) by (intro heading_title) (simp add: good_section_def)
  have "md_sections (doc_lines (sec # s2 # rest)) =
      (fst sec, takeWhile (\<lambda>l. heading_of l = None) ((snd sec @ [[]]) @ h # hs)) # md_sections ((snd sec @ [[]]) @ ?others)"
    unfolding doc h(1) by (simp only: md_sections.simps hd option.case)
  then have "md_sections (doc_lines (sec # s2 # rest)) = (fst sec, snd sec @ [[]]) # md_sections ?others"
    by (simp only: takeWhile_body(1) [OF body h(2)] takeWhile_body(3) [OF body])
  moreover have "py_strip (py_join newline (snd sec @ [[]])) = py_strip (py_join newline (snd sec))"
    using 3(2) join_snoc_empty strip_final_newline by (simp add: good_section_def)
  ultimately show ?case using 3 by (simp split: prod.split)
qed simp

lemma map_of_fold_dict_set:
  "map_of (fold (\<lambda>(k, v) d. dict_set k (f v) d) kvs d) x =
   (case map_of (rev kvs) x of None \<Rightarrow> map_of d x | Some v \<Rightarrow> Some (f v))"
proof (induction kvs arbitrary: d)
  case (Cons kv kvs)
  then show ?case by (cases kv) (auto simp: map_of_dict_set map_add_def split: option.splits)
qed simp

definition clean_text :: "string \<Rightarrow> bool" where
  "clean_text t \<longleftrightarrow> t \<noteq> [] \<and> py_strip t = t \<and> CHR 0x0A \<notin> set t"

definition regular_analysis :: "analysis_result \<Rightarrow> bool" where
  "regular_analysis a \<longleftrightarrow>
     ar_summary a \<noteq> [] \<and> py_strip (ar_summary a) = ar_summary a \<and>
     list_all (\<lambda>l. heading_of l = None) (split_char (CHR 0x0A) (ar_summary a)) \<and>
     list_all clean_text (ar_initial_reading a @ ar_insights a @ ar_action_items a)"

definition bullets :: "string list \<Rightarrow> string list" where
  "bullets items = map (\<lambda>i. ''- '' @ i) items"

definition bullet_section :: "string \<Rightarrow> string list \<Rightarrow> (string \<times> string list) list" where
  "bullet_section t items = (if items = [] then [] else [(t, bullets items)])"

definition sections_of :: "analysis_result \<Rightarrow> (string \<times> string list) list" where
  "sections_of a =
     (SUMMARY_TITLE, split_char (CHR 0x0A) (ar_summary a)) #
     bullet_section READING_TITLE (ar_initial_reading a) @ bullet_section INSIGHT_TITLE (ar_insights a) @
     bullet_section ACTION_TITLE (ar_action_items a)"

lemma strip_id: "s \<noteq> [] \<Longrightarrow> \<not> is_ascii_space (hd s) \<Longrightarrow> \<not> is_ascii_space (last s) \<Longrightarrow> py_strip s = s"
proof -
  assume s: "s \<noteq> []" "\<not> is_ascii_space (hd s)" "\<not> is_ascii_space (last s)"
  have "dropWhile is_ascii_space s = s" using s(1,2) by (cases s) auto
  moreover have "dropWhile is_ascii_space (rev s) = rev s"
    using s(1,3) by (cases s rule: rev_cases) auto
  ultimately show ?thesis by (simp add: py_strip_def py_lstrip_def)
qed

lemma strip_last: "py_strip t = t \<Longrightarrow> t \<noteq> [] \<Longrightarrow> \<not> is_ascii_space (last t)"
proof -
  assume t: "py_strip t = t" "t \<noteq> []"
  then have "rev t = dropWhile is_ascii_space (rev (py_lstrip t))" by (metis py_lstrip_def py_strip_def rev_swap)
  then have "\<not> is_ascii_space (hd (rev t))" using t(2) hd_dropWhile by (metis rev_is_Nil_conv)
  then show ?thesis using t(2) by (simp add: hd_rev)
qed

lemma last_join: "ls \<noteq> [] \<Longrightarrow> list_all (\<lambda>l. l \<noteq> []) ls \<Longrightarrow> py_join sep ls \<noteq> [] \<and> last (py_join sep ls) = last (last ls)"
  by (induction sep ls rule: py_join.induct) auto

lemma hd_join: "ls \<noteq> [] \<Longrightarrow> hd ls \<noteq> [] \<Longrightarrow> hd (py_join sep ls) = hd (hd ls)"
  by (cases "(sep, ls)" rule: py_join.cases) auto

lemma bullet_line: "clean_text t \<Longrightarrow> bullet_of (CHR ''-'' # CHR '' '' # t) = Some t"
  by (simp add: bullet_of_def clean_text_def is_blank_char_def after_marker_def)

lemma bullets_read:
  assumes "list_all clean_text items"
  shows "extract_bullets (py_strip (py_join newline (bullets items))) = items"
proof (cases "items = []")
  case True
  then show ?thesis
    by (simp add: bullets_def extract_bullets_def py_strip_def py_lstrip_def bullet_of_def after_marker_def map_filter_simps)
next
  case False
  let ?body = "py_join newline (bullets items)"
  have ne: "bullets items \<noteq> []" "list_all (\<lambda>l. l \<noteq> []) (bullets items)"
    using False by (auto simp: bullets_def list_all_iff)
  have "last (bullets items) = ''- '' @ last items" using False by (simp add: bullets_def last_map)
  moreover have "clean_text (last items)" using assms False by (simp add: list_all_iff)
  ultimately have l: "\<not> is_ascii_space (last ?body)"
    using last_join [OF ne, of newline] strip_last [of "last items"] by (simp add: clean_text_def)
  have "hd (bullets items) = ''- '' @ hd items" using False by (simp add: bullets_def hd_map)
  then have "hd ?body = CHR ''-''" using hd_join [OF ne(1), of newline] by simp
  then have "\<not> is_ascii_space (hd ?body)" by (simp add: is_ascii_space_def)
  with l have "py_strip ?body = ?body" using last_join [OF ne, of newline] by (intro strip_id) auto
  moreover have "split_char (CHR 0x0A) ?body = bullets items"
    unfolding newline_char using assms ne by (intro split_char_join) (auto simp: bullets_def clean_text_def list_all_iff)
  moreover have "List.map_filter bullet_of (bullets items) = items"
    using assms by (induction items) (simp_all add: bullets_def bullet_line map_filter_simps)
  ultimately show ?thesis by (simp add: extract_bullets_def)
qed

lemma bullets_good: "list_all clean_text items \<Longrightarrow> t \<in> set MD_TITLES \<Longrightarrow> list_all good_section (bullet_section t items)"
  by (auto simp: bullet_section_def bullets_def good_section_def list_all_iff clean_text_def heading_of_def)

lemma titles_in: "{SUMMARY_TITLE, READING_TITLE, INSIGHT_TITLE, ACTION_TITLE} \<subseteq> set MD_TITLES"
  by (simp add: MD_TITLES_def)

lemma sections_good:
  assumes "regular_analysis a"
  shows "list_all good_section (sections_of a)"
proof -
  have "CHR 0x0A \<notin> set l" if "l \<in> set (split_char (CHR 0x0A) s)" for l s
    using that by (induction s arbitrary: l) (auto split: if_splits list.splits)
  then have "good_section (SUMMARY_TITLE, split_char (CHR 0x0A) (ar_summary a))"
    using assms titles_in by (auto simp: good_section_def regular_analysis_def list_all_iff)
  then show ?thesis
    using assms titles_in bullets_good by (simp add: sections_of_def regular_analysis_def)
qed

lemma part_of_bullets: "map part_text (bullet_section t items) = report_section t items"
  by (simp add: bullet_section_def bullets_def part_text_def report_section_def)

lemma report_of_sections:
  assumes "regular_analysis a"
  shows "build_analysis_report a = py_join (newline @ newline) (map part_text (sections_of a))"
proof -
  have "part_text (SUMMARY_TITLE, split_char (CHR 0x0A) (ar_summary a)) = ''## '' @ SUMMARY_TITLE @ newline @ ar_summary a"
    by (simp add: part_text_def newline_char py_join_split_char)
  then show ?thesis
    using assms unfolding build_analysis_report_def sections_of_def list.map map_append part_of_bullets
    by (simp only: regular_analysis_def append_Cons append_Nil if_True simp_thms)
qed

lemma fold_sections:
  "fold (\<lambda>(t, b) d. dict_set t (g b) d) xs d = fold (\<lambda>(t, v) d. dict_set t v d) (map (\<lambda>(t, b). (t, g b)) xs) d"
  by (induction xs arbitrary: d) (auto split: prod.split)

lemma split_report:
  assumes "regular_analysis a"
  shows "map_of (split_markdown_sections (build_analysis_report a)) t =
    map_option (\<lambda>b. py_strip (py_join newline b)) (map_of (rev (sections_of a)) t)"
proof -
  have "sections_of a \<noteq> []" by (simp add: sections_of_def)
  then have lines: "split_char (CHR 0x0A) (build_analysis_report a) = doc_lines (sections_of a)"
    using report_lines sections_good [OF assms] report_of_sections [OF assms] by simp
  have "split_markdown_sections (build_analysis_report a) =
      fold (\<lambda>(t, v) d. dict_set t v d)
        (map (\<lambda>(t, b). (t, py_strip (py_join newline b))) (md_sections (doc_lines (sections_of a)))) []"
    unfolding split_markdown_sections_def lines by (rule fold_sections)
  also have "\<dots> = fold (\<lambda>(t, v) d. dict_set t v d) (map (\<lambda>(t, b). (t, py_strip (py_join newline b))) (sections_of a)) []"
    by (simp only: sections_of_doc [OF sections_good [OF assms]])
  also have "\<dots> = fold (\<lambda>(t, b) d. dict_set t (py_strip (py_join newline b)) d) (sections_of a) []"
    by (rule fold_sections [symmetric])
  finally show ?thesis by (simp add: map_of_fold_dict_set split: option.split)
qed

lemma titles_distinct: "distinct MD_TITLES"
  by code_simp

lemma sections_lookup:
  "map_of (rev (sections_of a)) SUMMARY_TITLE = Some (split_char (CHR 0x0A) (ar_summary a))"
  "map_of (rev (sections_of a)) READING_TITLE = (if ar_initial_reading a = [] then None else Some (bullets (ar_initial_reading a)))"
  "map_of (rev (sections_of a)) INSIGHT_TITLE = (if ar_insights a = [] then None else Some (bullets (ar_insights a)))"
  "map_of (rev (sections_of a)) ACTION_TITLE = (if ar_action_items a = [] then None else Some (bullets (ar_action_items a)))"
  using titles_distinct by (auto simp: MD_TITLES_def sections_of_def bullet_section_def)

text \<open>
  C28: The report the formatter shows is read back by the reader of the model's analysis: a report of
  a summary and of clean items gives the same summary and the same items again.
\<close>

theorem analysis_report_roundtrip:
  assumes "regular_analysis a"
  shows "parse_analysis_markdown (build_analysis_report a) = Inr (a\<lparr>ar_statistics := [], ar_reasoning_summary := []\<rparr>)"
proof -
  have items: "list_all clean_text (ar_initial_reading a)" "list_all clean_text (ar_insights a)"
    "list_all clean_text (ar_action_items a)"
    using assms by (auto simp: regular_analysis_def)
  have none: "extract_bullets [] = []"
    using bullets_read [of "[]"] by (simp add: bullets_def py_strip_def py_lstrip_def)
  show ?thesis
    using assms bullets_read [OF items(1)] bullets_read [OF items(2)] bullets_read [OF items(3)]
    by (simp add: parse_analysis_markdown_def Let_def section_text_def split_report [OF assms] sections_lookup none
        newline_char py_join_split_char regular_analysis_def)
qed

definition sample_analysis :: analysis_result where
  "sample_analysis = new_analysis_result\<lparr>ar_summary := ''Up 3%'', ar_initial_reading := [''two rows''],
     ar_action_items := [''check June'', ''- a dash'']\<rparr>"

lemma analysis_report_roundtrip_witness:
  "parse_analysis_markdown (build_analysis_report sample_analysis) = Inr sample_analysis"
proof -
  have "regular_analysis sample_analysis"
    by (simp add: regular_analysis_def sample_analysis_def new_analysis_result_def clean_text_def heading_of_def
        py_strip_def py_lstrip_def is_ascii_space_def)
  from analysis_report_roundtrip [OF this] show ?thesis
    by (simp add: sample_analysis_def new_analysis_result_def)
qed

section \<open>The chart\<close>

lemma lower_length [simp]: "length (py_lower s) = length s"
  by (simp add: py_lower_def)

lemma svg_match_shape:
  assumes "svg_match s = Some b"
  obtains inner where "py_lower b = SVG_OPEN @ inner @ SVG_CLOSE" "\<exists>u v. s = u @ b @ v"
proof -
  from assms obtain before after inner rest where
      1: "split_once SVG_OPEN (py_lower s) = Some (before, after)" "split_once SVG_CLOSE after = Some (inner, rest)"
      "b = take (length SVG_OPEN + length inner + length SVG_CLOSE) (drop (length before) s)"
    by (auto simp: svg_match_def split: option.splits)
  have "py_lower s = before @ SVG_OPEN @ inner @ SVG_CLOSE @ rest"
    using split_once_Some [OF 1(1)] split_once_Some [OF 1(2)] by simp
  then have "py_lower b = SVG_OPEN @ inner @ SVG_CLOSE"
    unfolding 1(3) py_lower_def take_map [symmetric] drop_map [symmetric] by simp
  moreover have "s = take (length before) s @ b @
      drop (length SVG_OPEN + length inner + length SVG_CLOSE) (drop (length before) s)"
    unfolding 1(3) by (simp only: append_take_drop_id)
  ultimately show ?thesis using that by blast
qed

text \<open>An SVG taken from a reply is one block of it, from an opening tag to a closing one.\<close>

theorem svg_block_delimited:
  assumes "extract_svg_block text = Inr b"
  shows "starts_with (py_lower b) SVG_OPEN \<and> ends_with (py_lower b) SVG_CLOSE \<and>
    contains (strip_svg_fence (py_strip text)) b"
proof -
  have "svg_match (strip_svg_fence (py_strip text)) = Some b"
    using assms by (auto simp: extract_svg_block_def Let_def split: if_splits option.splits)
  then obtain inner where "py_lower b = SVG_OPEN @ inner @ SVG_CLOSE"
      "\<exists>u v. strip_svg_fence (py_strip text) = u @ b @ v"
    by (rule svg_match_shape)
  then show ?thesis by (simp add: ends_with_def contains_iff)
qed

text \<open>The match is lazy: an SVG with another one inside is cut at the first closing tag.\<close>

theorem nested_svg_cut:
  "svg_match ''<svg>a<svg>b</svg>c</svg>'' = Some ''<svg>a<svg>b</svg>''"
  by code_simp

text \<open>
  What the visualizer node receives: a turn has a chart type other than none, and a title, only
  with the code of a chart, and a chart always has its type.
\<close>

theorem visualization_complete:
  assumes "build_visualization al env res note q = (Inr (v, li), events)"
  shows "(vz_svg_code v \<noteq> [] \<longleftrightarrow> vz_chart_type v \<noteq> Vis_NONE) \<and> (vz_title v \<noteq> [] \<longrightarrow> vz_svg_code v \<noteq> [])"
  using assms
  by (auto simp: build_visualization_def full_visualization_def new_visualization_data_def Let_def result_bind_Inr_iff
      split: sum.splits prod.splits if_splits)

definition sample_llm :: analysis_llm where
  "sample_llm = \<lparr>al_max_retries = 0, al_log_limit = 0,
     al_loads = (\<lambda>t. Some (JObj [(''chart_type'', JStr ''pie_chart''), (''chart_title'', JStr ''Share'')])),
     al_show = (\<lambda>v. []), al_err_text = (\<lambda>e. []), al_last_reply = []\<rparr>"

definition sample_viz :: "chart_env \<Rightarrow> chart_lib \<Rightarrow> viz_env" where
  "sample_viz ce lib = \<lparr>ve_judge = (\<lambda>i ms. Inr ''x''), ve_judge_template = [], ve_client = (\<lambda>sys i ms. Inr ''<svg></svg>''),
     ve_stream = (\<lambda>sys i ms. []),
     ve_request = \<lparr>sq_examples = [(''pie_chart'', [])], sq_system_base = [], sq_fill = (\<lambda>vars. Inr []),
       sq_streaming = False, sq_turn_id = []\<rparr>,
     ve_chart = ce, ve_lib = lib, ve_max_rows = 1, ve_cancelled = False\<rparr>"

lemma sample_viz_built:
  "\<exists>v li. build_visualization sample_llm (sample_viz ce lib) new_sql_result [] [] = (Inr (v, li), []) \<and>
     vz_svg_code v = ''<svg></svg>''"
proof -
  have judged: "parse_viz_judgment (al_loads sample_llm) (al_show sample_llm) ''x'' = Inr (Vis_PIE_CHART, ''Share'', [])"
    by code_simp
  have strip: "py_strip ''x'' = ''x''" by (simp add: py_strip_def py_lstrip_def is_ascii_space_def)
  have svg: "extract_svg_block (py_strip ''<svg></svg>'') = Inr ''<svg></svg>''" by code_simp
  define d where "d = format_report_table (cl_show (ve_lib (sample_viz ce lib))) (sr_columns new_sql_result)
    (sr_rows new_sql_result) [] (ve_max_rows (sample_viz ce lib))"
  have "\<exists>li. judge_visualization sample_llm (ve_judge (sample_viz ce lib)) (ve_judge_template (sample_viz ce lib)) d [] [] =
      Inr (Vis_PIE_CHART, ''Share'', [], li)"
    using judged strip
    by (simp add: judge_visualization_def llm_call_with_parse_retry_def sample_llm_def sample_viz_def Let_def split: prod.split)
  then obtain li where "judge_visualization sample_llm (ve_judge (sample_viz ce lib)) (ve_judge_template (sample_viz ce lib)) d [] [] =
      Inr (Vis_PIE_CHART, ''Share'', [], li)" ..
  moreover have "generate_svg_via_llm sample_llm (ve_client (sample_viz ce lib)) (ve_stream (sample_viz ce lib))
      (ve_request (sample_viz ce lib)) ''pie_chart'' ''Share'' d [] = (Inr ''<svg></svg>'', [])"
    using svg by (simp add: generate_svg_via_llm_def sample_viz_def Let_def)
  moreover have "\<not> ve_cancelled (sample_viz ce lib)" by (simp add: sample_viz_def)
  ultimately show ?thesis
    by (simp add: build_visualization_def full_visualization_def d_def [symmetric] Let_def)
qed

lemma visualization_complete_witness:
  "\<forall>ce lib. \<exists>v li. build_visualization sample_llm (sample_viz ce lib) new_sql_result [] [] = (Inr (v, li), []) \<and>
     vz_chart_type v \<noteq> Vis_NONE"
proof (intro allI)
  fix ce lib
  obtain v li where v: "build_visualization sample_llm (sample_viz ce lib) new_sql_result [] [] = (Inr (v, li), [])"
      "vz_svg_code v = ''<svg></svg>''" using sample_viz_built by blast
  from visualization_complete [OF v(1)] v show "\<exists>v li. build_visualization sample_llm (sample_viz ce lib) new_sql_result [] [] =
      (Inr (v, li), []) \<and> vz_chart_type v \<noteq> Vis_NONE" by simp
qed

lemma judge_raises:
  "judge_visualization al client template data note q = Inl e \<Longrightarrow> e = CancelledErr"
  by (auto simp: judge_visualization_def Let_def split: sum.splits prod.splits py_error.splits)

lemma svg_raises:
  "generate_svg_via_llm al client stream rq ct title data q = (Inl e, events) \<Longrightarrow>
   e = CancelledErr \<or> (\<exists>vars. sq_fill rq vars = Inl e)"
  by (auto simp: generate_svg_via_llm_def generate_svg_streaming_def Let_def
      split: option.splits sum.splits prod.splits if_splits py_error.splits)

text \<open>
  Whatever the model does, the chart service raises only a cancellation, an error of its template
  or an error of the template chart.
\<close>

theorem visualization_errors:
  assumes "build_visualization al env res note q = (Inl e, events)"
  shows "e = CancelledErr \<or> (\<exists>vars. sq_fill (ve_request env) vars = Inl e) \<or>
    (\<exists>ct title. generate_chart_from_result (ve_chart env) (ve_lib env) res ct title = Inl e)"
  using assms judge_raises svg_raises
  by (fastforce simp: build_visualization_def Let_def result_bind_Inl_iff split: sum.splits prod.splits if_splits)

text \<open>
  A reply that never parses is not lost: the analysis then has the last reply as its summary, and
  a parse error never leaves the service.
\<close>

theorem analysis_never_parse_error:
  "fst (analyze_data al env q res note) \<noteq> Inl ParseError"
  by (auto simp: analyze_data_def Let_def split: sum.splits prod.splits py_error.splits if_splits)

end
