(* ===== verification/Insight.thy ===== *)
theory Insight imports ResponseFormat begin

text \<open>
  The insight panel of an answer, \<open>src/src/services/insight_builder.py\<close>: how the question was
  read, which tables were used, considered and rejected, the checks of the SQL, the times, and the
  journey through the hypotheses.  The state's models are the \<open>JObj\<close> of their fields, what
  \<open>model_dump\<close> gives for them; an enumeration's member is the text of its value, except where the
  code takes \<open>str\<close> of a failure type (\<open>failure_type_text\<close>).  The
  tables of an SQL text, the reading of a time stamp, the layout of SQL and Python's text of a
  value are arguments.
\<close>

section \<open>Access to models and dictionaries\<close>

definition get_attr_or_key :: "json \<Rightarrow> string \<Rightarrow> json \<Rightarrow> json" where
  "get_attr_or_key v k d = (case v of JObj kvs \<Rightarrow> obj_get kvs k d | _ \<Rightarrow> d)"

fun to_dict :: "json \<Rightarrow> (string \<times> json) list option" where
  "to_dict (JObj kvs) = Some kvs"
| "to_dict _ = None"

fun list_items :: "json \<Rightarrow> json list" where
  "list_items (JList xs) = xs"
| "list_items _ = []"

definition attr_list :: "json \<Rightarrow> string \<Rightarrow> json list" where
  "attr_list v k = list_items (get_attr_or_key v k (JList []))"

definition attr_text :: "json \<Rightarrow> string \<Rightarrow> json" where
  "attr_text v k = get_attr_or_key v k (JStr [])"

fun plain_text :: "json \<Rightarrow> string" where
  "plain_text (JStr t) = t"
| "plain_text _ = []"

record insight_lib =
  il_tables :: "string \<Rightarrow> string list result"
  il_time :: "string \<Rightarrow> rat option"
  il_layout :: "string \<Rightarrow> string"
  il_show :: "json \<Rightarrow> string"
  il_int :: "string \<Rightarrow> int option"

text \<open>\<open>str\<close> of a member of \<open>FailureType\<close>, a \<open>str\<close> enumeration, names its class.\<close>

definition failure_type_text :: "insight_lib \<Rightarrow> json \<Rightarrow> string" where
  "failure_type_text lib v =
     (case v of JStr t \<Rightarrow> if t = [] then [] else ''FailureType.'' @ t | _ \<Rightarrow> il_show lib v)"

section \<open>SQL and tables\<close>

definition reason_sql :: "json \<Rightarrow> json" where
  "reason_sql r = py_or (attr_text r ''validated_sql'') (attr_text r ''generated_sql'')"

definition extract_tables_from_sql :: "insight_lib \<Rightarrow> json \<Rightarrow> string list" where
  "extract_tables_from_sql lib r =
     (if \<not> json_true (reason_sql r) then []
      else case il_tables lib (plain_text (reason_sql r)) of Inl e \<Rightarrow> [] | Inr ts \<Rightarrow> ts)"

definition extract_sql :: "json \<Rightarrow> string" where
  "extract_sql r = (if json_true r then plain_text (reason_sql r) else [])"

definition dict_name :: "(string \<times> json) list \<Rightarrow> json" where
  "dict_name td = obj_get td ''table_name'' (obj_get td ''name'' (JStr []))"

definition is_one_of :: "json \<Rightarrow> string list \<Rightarrow> bool" where
  "is_one_of v names = (case v of JStr t \<Rightarrow> t \<in> set names | _ \<Rightarrow> False)"

definition is_rejected :: "(string \<times> json) list \<Rightarrow> bool" where
  "is_rejected td \<longleftrightarrow> obj_get td ''selection_status'' (JStr []) = JStr ''REJECTED''"

definition explored_dicts :: "json \<Rightarrow> (string \<times> json) list list" where
  "explored_dicts r = List.map_filter to_dict (attr_list r ''explored_tables'')"

definition table_desc :: "(string \<times> json) list \<Rightarrow> json" where
  "table_desc td = py_or (obj_get td ''selection_reason'' (JStr [])) (obj_get td ''description'' (JStr []))"

definition used_entry :: "(string \<times> json) list \<Rightarrow> json" where
  "used_entry td =
     JObj [(''name'', dict_name td), (''alt_name'', obj_get td ''alt_name'' (JStr [])), (''desc'', table_desc td),
           (''reason'', obj_get td ''selection_reason'' (JStr [])),
           (''columns'', obj_get td ''columns_used'' (obj_get td ''key_columns'' (JList [])))]"

definition candidate_entry :: "(string \<times> json) list \<Rightarrow> json" where
  "candidate_entry td =
     JObj [(''name'', dict_name td), (''alt_name'', obj_get td ''alt_name'' (JStr [])), (''desc'', table_desc td),
           (''reason'', obj_get td ''selection_reason'' (JStr []))]"

definition rejected_entry :: "(string \<times> json) list \<Rightarrow> json" where
  "rejected_entry td =
     JObj [(''name'', dict_name td), (''alt_name'', obj_get td ''alt_name'' (JStr [])),
           (''desc'', obj_get td ''description'' (JStr [])), (''reason'', obj_get td ''selection_reason'' (JStr []))]"

definition build_tables_used :: "json \<Rightarrow> string list \<Rightarrow> json list" where
  "build_tables_used r sql_tables =
     (if \<not> json_true r \<or> sql_tables = [] then []
      else map used_entry (filter (\<lambda>td. is_one_of (dict_name td) sql_tables) (explored_dicts r)))"

definition build_tables_candidate :: "json \<Rightarrow> string list \<Rightarrow> json list" where
  "build_tables_candidate r sql_tables =
     (if \<not> json_true r then []
      else map candidate_entry
        (filter (\<lambda>td. \<not> (is_rejected td \<or> is_one_of (dict_name td) sql_tables)) (explored_dicts r)))"

definition build_tables_rejected :: "json \<Rightarrow> json list" where
  "build_tables_rejected r =
     (if \<not> json_true r then [] else map rejected_entry (filter is_rejected (explored_dicts r)))"

definition build_sql_summary :: "json \<Rightarrow> string list \<Rightarrow> string" where
  "build_sql_summary r sql_tables =
     (let used = filter (\<lambda>t. is_one_of (attr_text t ''table_name'') sql_tables) (attr_list r ''explored_tables'');
          names = map (\<lambda>t.
            let label = plain_text (py_or (attr_text t ''alt_name'') (attr_text t ''description''));
                name = plain_text (attr_text t ''table_name'')
            in if label \<noteq> [] then label @ ''('' @ name @ '')'' else name) used
      in if \<not> json_true r \<or> sql_tables = [] \<or> names = [] then []
         else ''Data was read from '' @ py_join '', '' names @ ''.'')"

section \<open>The question and the sources\<close>

definition build_query_interpretation :: "insight_lib \<Rightarrow> json \<Rightarrow> json \<Rightarrow> json" where
  "build_query_interpretation lib state normalized =
     (let nq = (case to_dict normalized of Some d \<Rightarrow> d | None \<Rightarrow> [])
      in JObj [(''original'', attr_text state ''user_input''),
               (''period'', obj_get nq ''period'' (obj_get nq ''date_range'' (JStr []))),
               (''target'', obj_get nq ''target'' (obj_get nq ''entity'' (JStr []))),
               (''metric'', obj_get nq ''metric'' (obj_get nq ''measure'' (JStr []))),
               (''category'', JStr (py_str (il_show lib) (attr_text state ''query_category'')))])"

definition reference_entry :: "string \<Rightarrow> string \<Rightarrow> string \<Rightarrow> json" where
  "reference_entry source title detail = JObj [(''source'', JStr source), (''title'', JStr title), (''detail'', JStr detail)]"

definition from_manual :: "insight_lib \<Rightarrow> json \<Rightarrow> bool" where
  "from_manual lib k =
     (let source = py_lower (py_str (il_show lib) (attr_text k ''source''))
      in contains source ''manual'' \<or> contains source ''qdrant'')"

definition build_references :: "insight_lib \<Rightarrow> json \<Rightarrow> json list" where
  "build_references lib r =
     (if \<not> json_true r then []
      else
        let use_cases = attr_list r ''explored_use_cases'';
            manuals = length (filter (from_manual lib) (attr_list r ''knowledge_items''));
            sampled = length (filter (\<lambda>t. json_true (get_attr_or_key t ''sample_rows'' (JList []))) (attr_list r ''explored_tables''))
        in (if use_cases \<noteq> [] then
              [reference_entry ''use_cases'' ''similar SQL'' (nat_digits (length use_cases) @ '' similar queries were consulted.'')] else []) @
           (if manuals \<noteq> 0 then
              [reference_entry ''biz_manual'' ''business manual'' (nat_digits manuals @ '' business rules were checked.'')] else []) @
           (if sampled \<noteq> 0 then
              [reference_entry ''data_sample'' ''data samples'' (nat_digits sampled @ '' tables were sampled.'')] else []))"

section \<open>Times\<close>

definition calc_total_elapsed :: "insight_lib \<Rightarrow> json list \<Rightarrow> rat" where
  "calc_total_elapsed lib trace =
     (let stamps = filter json_true (map (\<lambda>e. attr_text e ''timestamp'') trace)
      in if length stamps < 2 then 0
         else case (il_time lib (plain_text (hd stamps)), il_time lib (plain_text (last stamps))) of
             (Some a, Some z) \<Rightarrow> max (z - a) 0
           | _ \<Rightarrow> 0)"

definition NODE_LABELS :: "(string \<times> string) list" where
  "NODE_LABELS =
     [(''preprocess'', ''input''), (''resolve_history'', ''history''), (''classify_intent'', ''intent''),
      (''query_normalizer'', ''normalization''), (''reasoning_preparer'', ''preparation''),
      (''context_explorer'', ''exploration''), (''context_retriever'', ''collection''),
      (''context_interpreter'', ''interpretation''), (''readiness_gate'', ''assessment''),
      (''recovery_agent'', ''recovery''), (''sql_generator'', ''SQL generation''), (''sql_validator'', ''SQL validation''),
      (''recovery_planner'', ''alternatives''), (''result_finalizer'', ''result''), (''sql_executor'', ''query''),
      (''analyzer'', ''analysis''), (''visualizer'', ''chart''), (''formatter'', ''report'')]"

definition step_timing :: "string \<Rightarrow> rat \<Rightarrow> json" where
  "step_timing node elapsed =
     JObj [(''label'', JStr (case map_of NODE_LABELS node of Some l \<Rightarrow> l | None \<Rightarrow> node)), (''node'', JStr node),
           (''elapsed'', JNum (of_int (round_half_even (elapsed * 10)) / 10))]"

fun paired_timings :: "insight_lib \<Rightarrow> (string \<times> rat) list \<Rightarrow> json list \<Rightarrow> json list" where
  "paired_timings lib seen [] = []"
| "paired_timings lib seen (e # es) =
     (let node = plain_text (attr_text e ''node''); ts = plain_text (attr_text e ''timestamp'')
      in if node = [] \<or> ts = [] then paired_timings lib seen es
         else case il_time lib ts of
             None \<Rightarrow> paired_timings lib seen es
           | Some t \<Rightarrow>
               (case map_of seen node of
                  None \<Rightarrow> paired_timings lib (dict_set node t seen) es
                | Some t0 \<Rightarrow> step_timing node (max (t - t0) 0) # paired_timings lib (dict_set node t seen) es))"

fun known_nodes :: "string list \<Rightarrow> json list \<Rightarrow> string list" where
  "known_nodes done [] = []"
| "known_nodes done (e # es) =
     (let node = plain_text (attr_text e ''node'')
      in if node \<noteq> [] \<and> map_of NODE_LABELS node \<noteq> None \<and> node \<notin> set done
         then node # known_nodes (node # done) es else known_nodes done es)"

definition build_step_timings :: "insight_lib \<Rightarrow> json list \<Rightarrow> json list" where
  "build_step_timings lib trace =
     (let steps = paired_timings lib [] trace
      in if steps \<noteq> [] then steps else map (\<lambda>node. step_timing node 0) (known_nodes [] trace))"

section \<open>Confidence, caveats and checks\<close>

definition assess_confidence :: "json \<Rightarrow> string" where
  "assess_confidence r =
     (case get_attr_or_key r ''confidence_score'' (JNum 0) of
        JNum q \<Rightarrow>
          if \<not> json_true r \<or> q = 0 then ''medium''
          else (if q \<ge> 8 / 10 then ''high'' else if q \<ge> 1 / 2 then ''medium'' else ''low'') @ '' ('' @ fixed 2 False q @ '')''
      | _ \<Rightarrow> ''medium'')"

definition JOIN_CAVEAT :: string where
  "JOIN_CAVEAT = ''Several tables are used; the join conditions were inferred from column names.''"

definition REPLAN_CAVEAT :: string where
  "REPLAN_CAVEAT = ''The first approach did not fit, so another one was tried.''"

definition replanned :: "json \<Rightarrow> bool" where
  "replanned r =
     (let guard = get_attr_or_key r ''loop_guard'' JNull
      in json_true guard \<and> (case get_attr_or_key guard ''replan_count'' (JNum 0) of JNum n \<Rightarrow> n > 0 | _ \<Rightarrow> False))"

definition join_caveats :: "json \<Rightarrow> string list" where
  "join_caveats r =
     (if length (filter (\<lambda>t. attr_text t ''selection_status'' \<noteq> JStr ''REJECTED'') (attr_list r ''explored_tables'')) > 1
      then [JOIN_CAVEAT] else [])"

definition target_caveats :: "json \<Rightarrow> json list" where
  "target_caveats r =
     (let decision = get_attr_or_key r ''target_db_decision'' JNull; rationale = attr_text decision ''decision_rationale''
      in if decision \<noteq> JNull \<and> attr_text decision ''status'' = JStr ''AMBIGUOUS'' \<and> json_true rationale then [rationale] else [])"

definition build_caveats :: "json \<Rightarrow> json list" where
  "build_caveats r =
     (if \<not> json_true r then []
      else
        let dead = attr_list r ''dead_ends''
        in (if replanned r then [JStr REPLAN_CAVEAT] else []) @ map JStr (join_caveats r) @
           (if dead \<noteq> [] then [JStr (nat_digits (length dead) @ '' dead ends were found and avoided.'')] else []) @
           target_caveats r)"

definition build_result_stats :: "json \<Rightarrow> (string \<times> json) list" where
  "build_result_stats res =
     (if \<not> json_true res then []
      else [(''row_count'', get_attr_or_key res ''row_count'' (JNum 0)),
            (''column_count'', JNum (of_nat (length (attr_list res ''columns'')))),
            (''execution_time_ms'', get_attr_or_key res ''execution_time_ms'' (JNum 0))])"

text \<open>The Korean words for absence, shortage, failure and limits.\<close>

definition WARNING_WORDS :: "string list" where
  "WARNING_WORDS = [utf8 [235, 182, 128, 236, 158, 172],
     utf8 [235, 182, 128, 236, 161, 177],
     utf8 [235, 182, 136, 234, 176, 128],
     utf8 [236, 151, 134, 236, 150, 180],
     utf8 [236, 151, 134, 236, 157, 140],
     utf8 [236, 139, 164, 237, 140, 168],
     utf8 [236, 160, 156, 237, 149, 156]]"

definition build_reasoning_trail :: "json \<Rightarrow> json list" where
  "build_reasoning_trail r =
     (if \<not> json_true r then []
      else List.map_filter (\<lambda>step.
          let text = plain_text (py_or (obj_get step ''insight'' (JStr [])) (JStr []))
          in if text = [] then None
             else Some (JObj [(''text'', JStr text), (''tool'', obj_get step ''tool'' (JStr [])),
                              (''warning'', JBool (list_ex (contains text) WARNING_WORDS))]))
        (List.map_filter to_dict (attr_list r ''execution_plan'')))"

definition CHECK_LABELS :: "(string \<times> string) list" where
  "CHECK_LABELS =
     [(''filters_reflected'', ''filters''), (''group_by_reflected'', ''grouping''), (''order_rank_reflected'', ''order and rank''),
      (''no_unconfirmed_values'', ''unconfirmed values''), (''no_dead_end_repeat'', ''repeated failures''),
      (''logical_consistency'', ''consistency''), (''db_execution'', ''database run''), (''code_name_paired'', ''names of codes'')]"

definition label_in :: "(string \<times> string) list \<Rightarrow> string \<Rightarrow> string" where
  "label_in labels k = (case map_of labels k of Some l \<Rightarrow> l | None \<Rightarrow> k)"

definition check_passed :: "(string \<times> json) list \<Rightarrow> bool" where
  "check_passed c \<longleftrightarrow> map_of c ''verdict'' \<noteq> Some (JStr ''FAIL'')"

definition checks_of :: "json \<Rightarrow> (string \<times> (string \<times> json) list) list" where
  "checks_of r =
     List.map_filter (\<lambda>(k, v). map_option (Pair k) (to_dict v))
       (case get_attr_or_key r ''validation_checks'' (JObj []) of JObj kvs \<Rightarrow> kvs | _ \<Rightarrow> [])"

definition build_validation_detail :: "json \<Rightarrow> json list" where
  "build_validation_detail r =
     (if \<not> json_true r \<or> \<not> json_true (get_attr_or_key r ''validation_checks'' (JObj [])) then []
      else
        let summary = attr_text r ''validation_summary''
        in List.map_filter (\<lambda>(k, c).
             let detail = obj_get c ''detail'' (JStr [])
             in if json_true detail
                then Some (JObj [(''label'', JStr (label_in CHECK_LABELS k)), (''detail'', detail), (''pass'', JBool (check_passed c))])
                else None) (checks_of r) @
           (if json_true summary
            then [JObj [(''label'', JStr ''overall''), (''detail'', summary), (''pass'', JBool True)]] else []))"

definition build_failure_narrative :: "insight_lib \<Rightarrow> json \<Rightarrow> json \<Rightarrow> string" where
  "build_failure_narrative lib state r =
     (let err = py_str (il_show lib) (attr_text state ''error_message''); summary = attr_text r ''exploration_summary''
      in if \<not> json_true r then err else if json_true summary then py_str (il_show lib) summary else err)"

definition build_dead_end_trail :: "insight_lib \<Rightarrow> json \<Rightarrow> json list" where
  "build_dead_end_trail lib r =
     (if \<not> json_true r then []
      else map (\<lambda>d. JObj [(''failure_type'', JStr (failure_type_text lib (obj_get d ''failure_type'' (JStr [])))),
             (''reason'', obj_get d ''reason'' (JStr [])), (''lessons_learned'', obj_get d ''lessons_learned'' (JStr []))])
           (List.map_filter to_dict (attr_list r ''dead_ends'')))"

section \<open>The journey\<close>

definition TOOL_LABELS :: "(string \<times> string) list" where
  "TOOL_LABELS =
     [(''search_table_meta'', ''table search''), (''lookup_table_meta'', ''table lookup''), (''search_use_cases'', ''similar SQL''),
      (''search_manual'', ''business manual''), (''search_biz_terms'', ''business terms''), (''lookup_code_meta'', ''code lookup''),
      (''get_sample_rows'', ''sample rows''), (''get_column_values'', ''column values''),
      (''get_column_profile'', ''column profile''), (''get_date_distribution'', ''date distribution'')]"

definition VERDICT_LABELS :: "(string \<times> string) list" where
  "VERDICT_LABELS =
     [(''generate_sql'', ''SQL generation''), (''explore'', ''more exploration''), (''replan'', ''new plan''),
      (''ask_user'', ''question to the user''), (''conclude_failure'', ''end of the search'')]"

text \<open>\<open>_parse_tool_input\<close>: the search text and the page of a tool's input.\<close>

definition tool_input_step ::
  "insight_lib \<Rightarrow> string list \<Rightarrow> string \<Rightarrow> string list \<times> int option \<Rightarrow> string list \<times> int option" where
  "tool_input_step lib parts p acc =
     (if starts_with p ''page='' then
        (case il_int lib (split_char (CHR ''='') p ! 1) of
           Some n \<Rightarrow> (fst acc, Some n) | None \<Rightarrow> (fst acc @ [p], snd acc))
      else if length parts > 1 \<and> p = last parts \<and> p \<noteq> [] \<and> list_all (\<lambda>c. CHR ''0'' \<le> c \<and> c \<le> CHR ''9'') p
        then (fst acc, il_int lib p)
      else (fst acc @ [p], snd acc))"

definition parse_tool_input :: "insight_lib \<Rightarrow> string \<Rightarrow> string \<times> int option" where
  "parse_tool_input lib raw =
     (if raw = [] then ([], None)
      else
        let parts = map py_strip (split_char (CHR '','') raw); acc = fold (tool_input_step lib parts) parts ([], None)
        in (py_join '', '' (fst acc), snd acc))"

definition matches_step :: "json \<Rightarrow> json \<Rightarrow> json \<Rightarrow> bool" where
  "matches_step item step_num hid \<longleftrightarrow>
     get_attr_or_key item ''source_step'' (JNum 0) = step_num \<and> attr_text item ''hypothesis_id'' = hid"

definition has_status :: "string \<Rightarrow> json \<Rightarrow> bool" where
  "has_status st item \<longleftrightarrow> attr_text item ''selection_status'' = JStr st"

definition journey_item :: "string \<Rightarrow> json \<Rightarrow> json \<Rightarrow> json \<Rightarrow> json" where
  "journey_item kind name label why =
     JObj [(''type'', JStr kind), (''name'', name), (''label'', label), (''reason'', why)]"

definition table_to_item :: "json \<Rightarrow> json" where
  "table_to_item t =
     (let name = plain_text (attr_text t ''table_name''); alt = plain_text (attr_text t ''alt_name'')
      in journey_item ''table'' (JStr (if alt \<noteq> [] then name @ '' ('' @ alt @ '')'' else name)) (JStr [])
           (attr_text t ''selection_reason''))"

definition use_case_to_item :: "json \<Rightarrow> json" where
  "use_case_to_item u =
     journey_item ''use_case'' (py_or (attr_text u ''description'') (attr_text u ''id'')) (JStr []) (attr_text u ''eval_reason'')"

definition ELLIPSIS :: string where "ELLIPSIS = utf8 [226, 128, 166]"

definition manual_to_item :: "json \<Rightarrow> json" where
  "manual_to_item m =
     (let content = plain_text (attr_text m ''content'')
      in journey_item ''manual'' (attr_text m ''biz_manual_id'')
           (JStr (if py_len content > 60 then take_chars 60 content @ ELLIPSIS else content)) (attr_text m ''selection_reason''))"

definition biz_term_to_item :: "json \<Rightarrow> json" where
  "biz_term_to_item b =
     journey_item ''biz_term'' (attr_text b ''term'') (attr_text b ''definition'') (attr_text b ''selection_reason'')"

text \<open>What the hypotheses found: the four lists of the state.\<close>

record explored =
  ex_tables :: "json list"
  ex_use_cases :: "json list"
  ex_manuals :: "json list"
  ex_terms :: "json list"

definition split_items ::
  "(json \<Rightarrow> bool) \<Rightarrow> (json \<Rightarrow> bool) \<Rightarrow> (json \<Rightarrow> json) \<Rightarrow> json list \<Rightarrow> json list \<times> json list" where
  "split_items adopted rejected item xs = (map item (filter adopted xs), map item (filter (\<lambda>x. \<not> adopted x \<and> rejected x) xs))"

definition match_explored_items :: "string \<Rightarrow> json \<Rightarrow> json \<Rightarrow> explored \<Rightarrow> json list \<times> json list" where
  "match_explored_items tool step_num hid ex =
     (let here = filter (\<lambda>x. matches_step x step_num hid);
          selected = has_status ''SELECTED''; rejected = has_status ''REJECTED''
      in if tool = ''search_table_meta'' \<or> tool = ''lookup_table_meta'' then
           split_items selected (\<lambda>x. True) table_to_item (here (ex_tables ex))
         else if tool = ''search_use_cases'' then
           split_items (\<lambda>u. json_true (get_attr_or_key u ''relevant'' (JBool False))) (\<lambda>x. True) use_case_to_item
             (here (ex_use_cases ex))
         else if tool = ''search_manual'' then split_items selected rejected manual_to_item (here (ex_manuals ex))
         else if tool = ''search_biz_terms'' then split_items selected rejected biz_term_to_item (here (ex_terms ex))
         else ([], []))"

definition tool_call :: "insight_lib \<Rightarrow> json \<Rightarrow> explored \<Rightarrow> (string \<times> json) list \<Rightarrow> json" where
  "tool_call lib hid ex step =
     (let tool = plain_text (obj_get step ''tool'' (JStr [])); step_num = obj_get step ''step'' (JNum 0);
          (query, page) = parse_tool_input lib (plain_text (obj_get step ''input'' (JStr [])));
          (adopted, rejected) = match_explored_items tool step_num hid ex
      in JObj ([(''step'', step_num), (''tool'', JStr tool), (''label'', JStr (label_in TOOL_LABELS tool)), (''query'', JStr query),
                (''result_count'', JNum (of_nat (length adopted + length rejected))), (''adopted'', JList adopted),
                (''rejected'', JList rejected)] @
               (case page of Some p \<Rightarrow> if p \<noteq> 0 then [(''page'', JNum (of_int p))] else [] | None \<Rightarrow> [])))"

definition build_tool_calls :: "insight_lib \<Rightarrow> json list \<Rightarrow> json \<Rightarrow> explored \<Rightarrow> json list" where
  "build_tool_calls lib steps hid ex = map (tool_call lib hid ex) (List.map_filter to_dict steps)"

definition all_checks_pass :: "json \<Rightarrow> bool" where
  "all_checks_pass r \<longleftrightarrow> list_all (\<lambda>(k, c). check_passed c) (checks_of r)"

definition build_journey_validation :: "json \<Rightarrow> json option" where
  "build_journey_validation r =
     (if \<not> json_true (get_attr_or_key r ''validation_checks'' (JObj [])) then None
      else
        let all_pass = all_checks_pass r
        in Some (JObj [(''pass'', JBool all_pass), (''summary'', attr_text r ''validation_summary''),
             (''items'', JList (map (\<lambda>(k, c). JObj [(''label'', JStr (label_in CHECK_LABELS k)), (''pass'', JBool (check_passed c)),
                  (''detail'', obj_get c ''detail'' (JStr []))])
                (filter (\<lambda>(k, c). all_pass \<or> \<not> check_passed c) (checks_of r))))]))"

definition build_journey_caveats :: "json \<Rightarrow> json list" where
  "build_journey_caveats r = (if \<not> json_true r then [] else map JStr (join_caveats r) @ target_caveats r)"

definition hypothesis_steps :: "json \<Rightarrow> json list \<Rightarrow> json list" where
  "hypothesis_steps hid plan =
     filter (\<lambda>s. attr_text s ''hypothesis_id'' = hid \<and> attr_text s ''status'' \<noteq> JStr ''PENDING'') plan"

definition hypothesis_readiness :: "(string \<times> json) list \<Rightarrow> (string \<times> json) list" where
  "hypothesis_readiness hy =
     (case obj_get hy ''readiness_score'' JNull of
        JNull \<Rightarrow> []
      | score \<Rightarrow>
          let verdict = obj_get hy ''readiness_verdict'' (JStr [])
          in [(''readiness'', JObj [(''score'', score), (''verdict'', verdict),
                (''label'', case verdict of JStr t \<Rightarrow> JStr (label_in VERDICT_LABELS t) | _ \<Rightarrow> verdict)])])"

definition hypothesis_sql :: "insight_lib \<Rightarrow> json \<Rightarrow> (string \<times> json) list \<Rightarrow> (string \<times> json) list" where
  "hypothesis_sql lib r hy =
     (if json_true (reason_sql r) \<and> obj_get hy ''status'' (JStr []) \<noteq> JStr ''FAILED''
      then (''sql'', JStr (il_layout lib (plain_text (reason_sql r)))) #
           (case build_journey_validation r of None \<Rightarrow> [] | Some v \<Rightarrow> [(''validation'', v)])
      else [])"

definition hypothesis_failure :: "insight_lib \<Rightarrow> json \<Rightarrow> json list \<Rightarrow> (string \<times> json) list" where
  "hypothesis_failure lib hid dead =
     (case find (\<lambda>d. d \<noteq> [] \<and> map_of d ''hypothesis_id'' = Some hid) (List.map_filter to_dict dead) of
        None \<Rightarrow> []
      | Some d \<Rightarrow> [(''failure'', JObj [(''type'', JStr (failure_type_text lib (obj_get d ''failure_type'' (JStr [])))),
            (''reason'', obj_get d ''reason'' (JStr [])), (''lesson'', obj_get d ''lessons_learned'' (JStr []))])])"

definition build_journey_hypothesis ::
  "insight_lib \<Rightarrow> json \<Rightarrow> json list \<Rightarrow> explored \<Rightarrow> json list \<Rightarrow> (string \<times> json) list \<Rightarrow> json" where
  "build_journey_hypothesis lib r plan ex dead hy =
     (let hid = obj_get hy ''hypothesis_id'' (JStr [])
      in JObj ([(''id'', hid), (''description'', obj_get hy ''description'' (JStr [])),
                (''strategy'', obj_get hy ''strategy'' (JStr [])), (''status'', obj_get hy ''status'' (JStr ''PENDING'')),
                (''tool_calls'', JList (build_tool_calls lib (hypothesis_steps hid plan) hid ex))] @
               hypothesis_readiness hy @ hypothesis_sql lib r hy @ hypothesis_failure lib hid dead))"

definition explored_of :: "json \<Rightarrow> explored" where
  "explored_of r =
     \<lparr>ex_tables = attr_list r ''explored_tables'', ex_use_cases = attr_list r ''explored_use_cases'',
      ex_manuals = attr_list r ''explored_biz_manuals'', ex_terms = attr_list r ''explored_biz_terms''\<rparr>"

definition build_journey :: "insight_lib \<Rightarrow> json \<Rightarrow> json list \<Rightarrow> json option" where
  "build_journey lib r trace =
     (let hypotheses = attr_list r ''hypotheses''; plan = attr_list r ''execution_plan''
      in if \<not> json_true r \<or> hypotheses = [] \<or> \<not> list_ex (\<lambda>s. json_true (attr_text s ''hypothesis_id'')) plan then None
         else Some (JObj
           [(''hypotheses'', JList (map (build_journey_hypothesis lib r plan (explored_of r) (attr_list r ''dead_ends''))
               (List.map_filter to_dict hypotheses))),
            (''caveats'', JList (build_journey_caveats r)),
            (''total_elapsed'', JNum (calc_total_elapsed lib trace)),
            (''step_timings'', JList (build_step_timings lib trace))]))"

section \<open>The insight of a turn\<close>

definition build_insight :: "insight_lib \<Rightarrow> json \<Rightarrow> (string \<times> json) list" where
  "build_insight lib state =
     (let r = get_attr_or_key state ''reason'' JNull;
          normalized = py_or (get_attr_or_key state ''normalized_query'' JNull) (JObj []);
          trace = attr_list state ''trace_log'';
          sql_tables = extract_tables_from_sql lib r
      in [(''is_success'', JBool (json_true r \<and> json_true (attr_text r ''validated_sql''))),
          (''query_interpretation'', build_query_interpretation lib state normalized),
          (''reasoning_trail'', JList (build_reasoning_trail r)),
          (''tables_used'', JList (build_tables_used r sql_tables)),
          (''tables_candidate'', JList (build_tables_candidate r sql_tables)),
          (''tables_rejected'', JList (build_tables_rejected r)),
          (''validation_detail'', JList (build_validation_detail r)),
          (''sql_summary'', JStr (build_sql_summary r sql_tables)),
          (''sql_code'', JStr (extract_sql r)),
          (''join_path'', JStr []),
          (''references'', JList (build_references lib r)),
          (''confidence'', JStr (assess_confidence r)),
          (''caveats'', JList (build_caveats r)),
          (''total_elapsed'', JNum (calc_total_elapsed lib trace)),
          (''step_timings'', JList (build_step_timings lib trace)),
          (''result_stats'', JObj (build_result_stats (get_attr_or_key state ''sql_result'' JNull))),
          (''failure_narrative'', JStr (build_failure_narrative lib state r)),
          (''dead_end_trail'', JList (build_dead_end_trail lib r))] @
         (case build_journey lib r trace of Some j \<Rightarrow> [(''journey'', j)] | None \<Rightarrow> []))"

section \<open>Properties\<close>

text \<open>
  Every explored table is shown: it is used, considered or rejected by its name in the SQL and by
  the model's verdict, and in one of the lists only, unless the SQL uses a table that was rejected.
\<close>

theorem explored_tables_classified:
  assumes "json_true r" "sql_tables \<noteq> []"
  shows "length (build_tables_used r sql_tables) + length (build_tables_candidate r sql_tables) +
      length (build_tables_rejected r) =
    length (explored_dicts r) +
      length (filter (\<lambda>td. is_rejected td \<and> is_one_of (dict_name td) sql_tables) (explored_dicts r))"
proof -
  have "length (filter P xs) + length (filter (\<lambda>x. \<not> (Q x \<or> P x)) xs) + length (filter Q xs) =
      length xs + length (filter (\<lambda>x. Q x \<and> P x) xs)" for P Q and xs :: "(string \<times> json) list list"
    by (induction xs) auto
  then show ?thesis
    using assms by (simp add: build_tables_used_def build_tables_candidate_def build_tables_rejected_def)
qed

definition sample_reason :: json where
  "sample_reason = JObj [(''explored_tables'', JList
     [JObj [(''table_name'', JStr ''A''), (''selection_status'', JStr ''SELECTED'')],
      JObj [(''table_name'', JStr ''B''), (''selection_status'', JStr ''REJECTED'')],
      JObj [(''table_name'', JStr ''C''), (''selection_status'', JStr ''PENDING'')]])]"

lemma explored_tables_classified_witness:
  "length (build_tables_used sample_reason [''A'']) + length (build_tables_candidate sample_reason [''A'']) +
     length (build_tables_rejected sample_reason) = 3"
proof -
  have "length (explored_dicts sample_reason) +
      length (filter (\<lambda>td. is_rejected td \<and> is_one_of (dict_name td) [''A'']) (explored_dicts sample_reason)) = 3"
    by code_simp
  then show ?thesis using explored_tables_classified [of sample_reason "[''A'']"] by (simp add: sample_reason_def)
qed

text \<open>
  The keys of a normalized query are the fields of its model; none of the keys the panel asks for
  is among them, so the period, the target and the metric of a question are always empty.
\<close>

definition NORMALIZED_FIELDS :: "string list" where
  "NORMALIZED_FIELDS = [''original_query'', ''rewritten_query'', ''intent'', ''entities'', ''measures'', ''dimensions'',
     ''filters'', ''time'', ''modifiers'', ''output_hint'', ''ambiguities'', ''search_keywords'']"

lemma map_of_outside: "list_all (\<lambda>kv. fst kv \<in> set ks) kvs \<Longrightarrow> k \<notin> set ks \<Longrightarrow> map_of kvs k = None"
  by (force simp: map_of_eq_None_iff list_all_iff)

theorem interpretation_always_empty:
  assumes "list_all (\<lambda>kv. fst kv \<in> set NORMALIZED_FIELDS) nq"
  shows "get_attr_or_key (build_query_interpretation lib state (JObj nq)) ''period'' JNull = JStr [] \<and>
    get_attr_or_key (build_query_interpretation lib state (JObj nq)) ''target'' JNull = JStr [] \<and>
    get_attr_or_key (build_query_interpretation lib state (JObj nq)) ''metric'' JNull = JStr []"
proof -
  have "map_of nq k = None" if "k \<in> {''period'', ''date_range'', ''target'', ''entity'', ''metric'', ''measure''}" for k
    using that by (intro map_of_outside [OF assms]) (auto simp: NORMALIZED_FIELDS_def)
  then show ?thesis by (simp add: build_query_interpretation_def get_attr_or_key_def obj_get_def)
qed

text \<open>
  A trace in which every node occurs once, under a name of its own, gives no times at all.
\<close>

definition entry_node :: "json \<Rightarrow> string" where
  "entry_node e = plain_text (attr_text e ''node'')"

lemma paired_none:
  "distinct (map entry_node es) \<Longrightarrow> list_all (\<lambda>e. map_of seen (entry_node e) = None) es \<Longrightarrow>
   paired_timings lib seen es = []"
proof (induction es arbitrary: seen)
  case (Cons e es)
  have fresh: "map_of seen (entry_node e) = None" using Cons.prems(2) by simp
  have "list_all (\<lambda>e'. map_of (dict_set (entry_node e) t seen) (entry_node e') = None) es" for t
    using Cons.prems by (auto simp: map_of_dict_set list_all_iff image_iff)
  then have "paired_timings lib (dict_set (entry_node e) t seen) es = []" for t using Cons by simp
  moreover have "paired_timings lib seen es = []" using Cons by simp
  ultimately show ?case using fresh by (simp add: entry_node_def Let_def split: option.split)
qed simp

theorem no_step_timings:
  assumes "distinct (map entry_node trace)" and "list_all (\<lambda>e. map_of NODE_LABELS (entry_node e) = None) trace"
  shows "build_step_timings lib trace = []"
proof -
  have "known_nodes done trace = []" for "done"
    using assms(2) by (induction trace) (auto simp: Let_def entry_node_def)
  then show ?thesis
    using paired_none [OF assms(1), of "[]" lib] by (simp add: build_step_timings_def list_all_iff)
qed

text \<open>The SQL is shown with every hypothesis that has not failed, also with one that was never tried.\<close>

theorem pending_hypothesis_has_sql:
  "json_true (reason_sql r) \<Longrightarrow> obj_get hy ''status'' (JStr []) = JStr ''PENDING'' \<Longrightarrow>
   map_of (hypothesis_sql lib r hy) ''sql'' = Some (JStr (il_layout lib (plain_text (reason_sql r))))"
  by (simp add: hypothesis_sql_def)

text \<open>A check that failed is never hidden: the journey lists all failed checks, and then only those.\<close>

theorem failed_checks_listed:
  assumes "build_journey_validation r = Some j" "(k, c) \<in> set (checks_of r)" "\<not> check_passed c"
  shows "get_attr_or_key j ''pass'' JNull = JBool False \<and>
    list_all (\<lambda>i. get_attr_or_key i ''pass'' JNull = JBool False) (attr_list j ''items'') \<and>
    list_ex (\<lambda>i. get_attr_or_key i ''label'' JNull = JStr (label_in CHECK_LABELS k)) (attr_list j ''items'')"
proof -
  have no: "\<not> all_checks_pass r" using assms(2,3) by (auto simp: all_checks_pass_def list_all_iff)
  then have "j = JObj [(''pass'', JBool False), (''summary'', attr_text r ''validation_summary''),
      (''items'', JList (map (\<lambda>(k, c). JObj [(''label'', JStr (label_in CHECK_LABELS k)), (''pass'', JBool (check_passed c)),
          (''detail'', obj_get c ''detail'' (JStr []))]) (filter (\<lambda>(k, c). \<not> check_passed c) (checks_of r))))]"
    using assms(1) by (auto simp: build_journey_validation_def Let_def split: if_splits)
  then show ?thesis
    using assms(2,3) by (auto simp: get_attr_or_key_def obj_get_def attr_list_def list_all_iff list_ex_iff intro!: bexI [of _ "(k, c)"])
qed

end
