(* ===== verification/Tools.thy ===== *)
theory Tools imports ContextRetriever Security ResponseFormat begin

text \<open>
  The exploration tools, \<open>src/src/agents/nodes/reason/tools.py\<close>: the reading of a tool's input,
  the searches, and the statements the tools send to a business database, behind the guard the
  connectors put before a statement (\<open>src/src/connectors/impl/adw_connector.py\<close>).  The search
  engines, the drivers, \<open>int\<close> of a text and Python's text of a value are arguments.
  \<open>tool_answer\<close> is what the context retriever calls.
\<close>

section \<open>Pages\<close>

definition MAX_PAGE :: int where "MAX_PAGE = 5"

definition page_step :: "(string \<Rightarrow> int option) \<Rightarrow> string \<Rightarrow> string list \<times> int \<Rightarrow> string list \<times> int" where
  "page_step to_int part acc =
     (if starts_with part ''page='' then
        (case to_int (drop 5 part) of Some p \<Rightarrow> (fst acc, max 1 (min p MAX_PAGE)) | None \<Rightarrow> acc)
      else (fst acc @ [part], snd acc))"

definition extract_page :: "(string \<Rightarrow> int option) \<Rightarrow> string list \<Rightarrow> string list \<times> int" where
  "extract_page to_int parts = fold (page_step to_int) parts ([], 1)"

text \<open>\<open>[p.strip() for p in tool_input.split(",")]\<close>\<close>

definition stripped_parts :: "string \<Rightarrow> string list" where
  "stripped_parts inp = map py_strip (split_char (CHR '','') inp)"

definition part_at :: "string list \<Rightarrow> nat \<Rightarrow> string" where
  "part_at parts i = (if i < length parts then parts ! i else [])"

section \<open>Names in a statement\<close>

text \<open>\<open>^[A-Za-z_]\w*$\<close>: the end may stand before a final line feed.\<close>

definition ident_match :: "string \<Rightarrow> bool" where
  "ident_match s =
     (let t = (if s \<noteq> [] \<and> last s = CHR 0x0A then butlast s else s)
      in case t of
           [] \<Rightarrow> False
         | c # cs \<Rightarrow> (c = CHR ''_'' \<or> (is_word_char c \<and> \<not> is_digit_char c \<and> (of_char c :: nat) < 128)) \<and> list_all is_word_char cs)"

definition qualified_table :: "string \<Rightarrow> string \<Rightarrow> string" where
  "qualified_table schema table = (if schema \<noteq> [] then schema @ ''.'' @ table else table)"

text \<open>\<open>qualified.rpartition(".")\<close>\<close>

definition split_qualified_name :: "string \<Rightarrow> string \<times> string" where
  "split_qualified_name q =
     (if CHR ''.'' \<in> set q
      then (py_join ''.'' (butlast (split_char (CHR ''.'') q)), last (split_char (CHR ''.'') q))
      else ([], q))"

definition names_ok :: "string \<Rightarrow> string list \<Rightarrow> bool" where
  "names_ok schema names \<longleftrightarrow> list_all ident_match names \<and> (schema \<noteq> [] \<longrightarrow> ident_match schema)"

section \<open>Statements\<close>

definition sample_rows_sql :: "string \<Rightarrow> nat \<Rightarrow> string \<Rightarrow> string" where
  "sample_rows_sql dialect limit table =
     (if dialect = ''tsql'' then ''SELECT TOP '' @ nat_digits limit @ '' * FROM '' @ table
      else ''SELECT * FROM '' @ table @ '' LIMIT '' @ nat_digits limit)"

definition SQL_QUOTE :: string where "SQL_QUOTE = [CHR 0x27]"

definition double_char :: "char \<Rightarrow> string \<Rightarrow> string" where
  "double_char q s = concat (map (\<lambda>c. if c = q then [c, c] else [c]) s)"

definition sanitized_keyword :: "string \<Rightarrow> string" where
  "sanitized_keyword keyword = double_char (CHR 0x5C) (double_char (CHR 0x27) keyword)"

definition like_clause :: "string \<Rightarrow> string \<Rightarrow> string \<Rightarrow> string" where
  "like_clause column type kw =
     ''WHERE CAST('' @ column @ '' AS '' @ type @ '') LIKE '' @ SQL_QUOTE @ ''%'' @ kw @ ''%'' @ SQL_QUOTE @
     '' ORDER BY '' @ column"

definition column_values_sql :: "string \<Rightarrow> nat \<Rightarrow> nat \<Rightarrow> string \<Rightarrow> string \<Rightarrow> string \<Rightarrow> string" where
  "column_values_sql dialect limit offset column table kw =
     (if dialect = ''tsql'' then
        ''SELECT DISTINCT TOP '' @ nat_digits limit @ '' START AT '' @ nat_digits (offset + 1) @ '' '' @ column @
        '' FROM '' @ table @ '' '' @ like_clause column ''VARCHAR'' kw
      else
        ''SELECT DISTINCT '' @ column @ '' FROM '' @ table @ '' '' @
        like_clause column (if dialect = ''hive'' then ''STRING'' else ''TEXT'') kw @
        '' LIMIT '' @ nat_digits limit @ '' OFFSET '' @ nat_digits offset)"

definition column_profile_sql :: "string \<Rightarrow> string \<Rightarrow> string" where
  "column_profile_sql column table =
     ''SELECT COUNT(*) AS total_rows, COUNT('' @ column @ '') AS non_null_count, COUNT(DISTINCT '' @ column @
     '') AS distinct_count, MIN('' @ column @ '') AS min_val, MAX('' @ column @ '') AS max_val FROM '' @ table"

definition date_distribution_sql :: "string \<Rightarrow> nat \<Rightarrow> string \<Rightarrow> string \<Rightarrow> string" where
  "date_distribution_sql dialect limit column table =
     (if dialect = ''tsql''
      then ''SELECT DISTINCT TOP '' @ nat_digits limit @ '' '' @ column @ '' FROM '' @ table @ '' ORDER BY '' @ column
      else ''SELECT DISTINCT '' @ column @ '' FROM '' @ table @ '' ORDER BY '' @ column @ '' LIMIT '' @ nat_digits limit)"

section \<open>The tools\<close>

record tool_env =
  te_table_meta :: "string \<Rightarrow> string list \<Rightarrow> int \<Rightarrow> json result"
  te_code_meta :: "string \<Rightarrow> int \<Rightarrow> json result"
  te_biz_terms :: "string \<Rightarrow> int \<Rightarrow> json result"
  te_sql_history :: "string \<Rightarrow> string list \<Rightarrow> json result"
  te_manual :: "string \<Rightarrow> string list \<Rightarrow> json result"
  te_run :: "connector \<Rightarrow> string \<Rightarrow> json result"
  te_int :: "string \<Rightarrow> int option"
  te_show :: "json \<Rightarrow> string"

fun list_or_empty :: "json \<Rightarrow> json" where
  "list_or_empty (JList xs) = JList xs"
| "list_or_empty _ = JList []"

definition safe_search :: "json result \<Rightarrow> json result" where
  "safe_search answer = result_bind answer (\<lambda>r. Inr (list_or_empty r))"

text \<open>
  The connector's guard \<open>^\s*(SELECT|WITH)\b\<close> before its driver.
\<close>

definition SELECT_GUARD :: rx where
  "SELECT_GUARD = r_seqs [r_ws0, r_alts (map r_str [''SELECT'', ''WITH'']), RWordB]"

definition execute_query :: "(string \<Rightarrow> json result) \<Rightarrow> string \<Rightarrow> json result" where
  "execute_query driver query =
     (if rx_rest SELECT_GUARD None query = [] then Inl ValueError else driver query)"

text \<open>The part the four database tools share: the connector, the statement, the rows.\<close>

definition run_statement ::
  "settings \<Rightarrow> (string \<times> connector) list \<Rightarrow> tool_env \<Rightarrow> string \<Rightarrow> (string \<Rightarrow> string) \<Rightarrow> json result" where
  "run_statement cfg dbs env source sql =
     result_bind (get_query_db cfg dbs [] source) (\<lambda>db. execute_query (te_run env db) (sql (conn_dialect db)))"

definition SAMPLE_LIMIT :: nat where "SAMPLE_LIMIT = 10"
definition VALUES_LIMIT :: nat where "VALUES_LIMIT = 20"
definition DATES_LIMIT :: nat where "DATES_LIMIT = 30"

definition get_sample_rows ::
  "settings \<Rightarrow> (string \<times> connector) list \<Rightarrow> tool_env \<Rightarrow> string \<Rightarrow> string \<Rightarrow> string \<Rightarrow> json result" where
  "get_sample_rows cfg dbs env table schema source =
     (if \<not> names_ok schema [table] then Inr (JList [])
      else safe_search (run_statement cfg dbs env source
             (\<lambda>dialect. sample_rows_sql dialect SAMPLE_LIMIT (qualified_table schema table))))"

text \<open>\<open>[str(row.get(column, "")) for row in result]\<close>\<close>

fun column_texts :: "(json \<Rightarrow> string) \<Rightarrow> string \<Rightarrow> json list \<Rightarrow> json list result" where
  "column_texts show_json column [] = Inr []"
| "column_texts show_json column (row # rows) =
     result_bind (json_get row column (JStr [])) (\<lambda>v.
     result_bind (column_texts show_json column rows) (\<lambda>vs. Inr (JStr (py_str show_json v) # vs)))"

definition texts_of_rows :: "(json \<Rightarrow> string) \<Rightarrow> string \<Rightarrow> json \<Rightarrow> json result" where
  "texts_of_rows show_json column answer =
     (case answer of
        JList rows \<Rightarrow> result_bind (column_texts show_json column rows) (\<lambda>vs. Inr (JList vs))
      | _ \<Rightarrow> Inr (JList []))"

definition get_column_values ::
  "settings \<Rightarrow> (string \<times> connector) list \<Rightarrow> tool_env \<Rightarrow> string \<Rightarrow> string \<Rightarrow> string \<Rightarrow> string \<Rightarrow> string \<Rightarrow> int \<Rightarrow> json result" where
  "get_column_values cfg dbs env table column keyword schema source page =
     (if \<not> names_ok schema [table, column] then Inr (JList [])
      else result_bind (run_statement cfg dbs env source
             (\<lambda>dialect. column_values_sql dialect VALUES_LIMIT (nat (page - 1) * VALUES_LIMIT) column
                (qualified_table schema table) (sanitized_keyword keyword)))
             (texts_of_rows (te_show env) column))"

text \<open>\<open>int(value)\<close> of a value of a row.\<close>

fun int_of_value :: "(string \<Rightarrow> int option) \<Rightarrow> json \<Rightarrow> int result" where
  "int_of_value to_int (JNum q) = Inr (py_int q)"
| "int_of_value to_int (JBool b) = Inr (if b then 1 else 0)"
| "int_of_value to_int (JStr t) = (case to_int t of Some n \<Rightarrow> Inr n | None \<Rightarrow> Inl ValueError)"
| "int_of_value to_int _ = Inl TypeErr"

definition null_rate :: "int \<Rightarrow> int \<Rightarrow> rat" where
  "null_rate n_rows non_null = (if n_rows > 0 then py_round3 (of_int (n_rows - non_null) / of_int n_rows) else 0)"

definition profile_of_row :: "tool_env \<Rightarrow> json \<Rightarrow> json result" where
  "profile_of_row env row =
     result_bind (result_bind (json_get row ''total_rows'' (JNum 0)) (int_of_value (te_int env))) (\<lambda>n_rows.
     result_bind (result_bind (json_get row ''non_null_count'' (JNum 0)) (int_of_value (te_int env))) (\<lambda>non_null.
     result_bind (result_bind (json_get row ''distinct_count'' (JNum 0)) (int_of_value (te_int env))) (\<lambda>dist.
     result_bind (json_get row ''min_val'' (JStr [])) (\<lambda>lo.
     result_bind (json_get row ''max_val'' (JStr [])) (\<lambda>hi.
       Inr (JObj [(''total_rows'', jint n_rows), (''non_null_count'', jint non_null), (''null_count'', jint (n_rows - non_null)),
                  (''null_rate'', JNum (null_rate n_rows non_null)), (''distinct_count'', jint dist),
                  (''min_val'', JStr (py_str (te_show env) lo)), (''max_val'', JStr (py_str (te_show env) hi))]))))))"

definition get_column_profile ::
  "settings \<Rightarrow> (string \<times> connector) list \<Rightarrow> tool_env \<Rightarrow> string \<Rightarrow> string \<Rightarrow> string \<Rightarrow> string \<Rightarrow> json result" where
  "get_column_profile cfg dbs env table column schema source =
     (if \<not> names_ok schema [table, column] then Inr (JObj [])
      else result_bind (run_statement cfg dbs env source
             (\<lambda>dialect. column_profile_sql column (qualified_table schema table)))
             (\<lambda>answer. case answer of JList (row # rows) \<Rightarrow> profile_of_row env row | _ \<Rightarrow> Inr (JObj [])))"

definition get_date_distribution ::
  "settings \<Rightarrow> (string \<times> connector) list \<Rightarrow> tool_env \<Rightarrow> string \<Rightarrow> string \<Rightarrow> string \<Rightarrow> string \<Rightarrow> json result" where
  "get_date_distribution cfg dbs env table column schema source =
     (if \<not> names_ok schema [table, column] then Inr (JList [])
      else result_bind (run_statement cfg dbs env source
             (\<lambda>dialect. date_distribution_sql dialect DATES_LIMIT column (qualified_table schema table)))
             (texts_of_rows (te_show env) column))"

section \<open>Patterns of dates\<close>

definition compact_date :: "string \<Rightarrow> string" where
  "compact_date d = filter (\<lambda>c. c \<noteq> CHR ''-'' \<and> c \<noteq> CHR ''/'') d"

definition leap_year :: "int \<Rightarrow> bool" where
  "leap_year y \<longleftrightarrow> y mod 4 = 0 \<and> (y mod 100 \<noteq> 0 \<or> y mod 400 = 0)"

definition days_in_month :: "int \<Rightarrow> int \<Rightarrow> int option" where
  "days_in_month y m =
     (if m < 1 \<or> 12 < m then None
      else Some (if m = 2 then (if leap_year y then 29 else 28) else if m \<in> {4, 6, 9, 11} then 30 else 31))"

definition is_month_end :: "(string \<Rightarrow> int option) \<Rightarrow> string \<Rightarrow> bool" where
  "is_month_end to_int d =
     (let c = compact_date d
      in if py_len c \<noteq> 8 then False
         else (case (to_int (take 4 c), to_int (take 2 (drop 4 c)), to_int (drop 6 c)) of
             (Some y, Some m, Some day) \<Rightarrow> days_in_month y m = Some day
           | _ \<Rightarrow> False))"

text \<open>\<open>detect_date_pattern\<close>; the display texts are in English.\<close>

definition counted :: "string \<Rightarrow> nat \<Rightarrow> string" where
  "counted what n = what @ '' ('' @ nat_digits n @ '' values)''"

definition detect_date_pattern :: "(string \<Rightarrow> int option) \<Rightarrow> string list \<Rightarrow> string" where
  "detect_date_pattern to_int dates =
     (let n = length dates
      in if n < 2 then nat_digits n @ '' values''
         else
           let k = py_len (compact_date (hd dates))
           in if k = 6 then counted ''monthly'' n
              else if k = 4 then counted ''yearly'' n
              else if k = 8 then
                (if list_all (is_month_end to_int) dates then counted ''month ends'' n else counted ''daily'' n)
              else nat_digits n @ '' values'')"

section \<open>The input of a tool\<close>

definition tool_lookup_table_meta :: "tool_env \<Rightarrow> string \<Rightarrow> json result" where
  "tool_lookup_table_meta env inp =
     (let table = py_strip inp in safe_search (te_table_meta env table [table] 1))"

text \<open>A search: the parts without the page, joined again, and the page.\<close>

definition paged_input :: "tool_env \<Rightarrow> string \<Rightarrow> string \<times> int" where
  "paged_input env inp =
     (let (parts, page) = extract_page (te_int env) (stripped_parts inp) in (py_join '', '' parts, page))"

definition tool_search_table_meta :: "tool_env \<Rightarrow> string \<Rightarrow> json result" where
  "tool_search_table_meta env inp =
     (let (keywords, page) = paged_input env inp in safe_search (te_table_meta env keywords [] page))"

definition tool_search_use_cases :: "tool_env \<Rightarrow> string \<Rightarrow> string list \<Rightarrow> json result" where
  "tool_search_use_cases env inp exclude = safe_search (te_sql_history env (fst (paged_input env inp)) exclude)"

definition tool_lookup_code_meta :: "tool_env \<Rightarrow> string \<Rightarrow> json result" where
  "tool_lookup_code_meta env inp =
     (let (column, page) = paged_input env inp in safe_search (te_code_meta env column page))"

definition tool_search_manual :: "tool_env \<Rightarrow> string \<Rightarrow> string list \<Rightarrow> json result" where
  "tool_search_manual env inp exclude = safe_search (te_manual env (fst (paged_input env inp)) exclude)"

definition tool_search_biz_terms :: "tool_env \<Rightarrow> string \<Rightarrow> json result" where
  "tool_search_biz_terms env inp =
     (let (words, page) = paged_input env inp in safe_search (te_biz_terms env words page))"

definition tool_get_sample_rows ::
  "settings \<Rightarrow> (string \<times> connector) list \<Rightarrow> tool_env \<Rightarrow> string \<Rightarrow> json result" where
  "tool_get_sample_rows cfg dbs env inp =
     (let (schema, table) = split_qualified_name (part_at (stripped_parts inp) 0)
      in get_sample_rows cfg dbs env table schema (parse_db_source cfg table))"

definition tool_get_column_values ::
  "settings \<Rightarrow> (string \<times> connector) list \<Rightarrow> tool_env \<Rightarrow> string \<Rightarrow> json result" where
  "tool_get_column_values cfg dbs env inp =
     (let (parts, page) = extract_page (te_int env) (stripped_parts inp);
          raw_table = part_at parts 0; column = part_at parts 1; keyword = part_at parts 2;
          (schema, table) = split_qualified_name raw_table
      in if raw_table = [] \<or> column = [] \<or> keyword = [] then Inr (JList [])
         else get_column_values cfg dbs env table column keyword schema (parse_db_source cfg table) page)"

definition tool_get_column_profile ::
  "settings \<Rightarrow> (string \<times> connector) list \<Rightarrow> tool_env \<Rightarrow> string \<Rightarrow> json result" where
  "tool_get_column_profile cfg dbs env inp =
     (let parts = stripped_parts inp; raw_table = part_at parts 0; column = part_at parts 1;
          (schema, table) = split_qualified_name raw_table
      in if raw_table = [] \<or> column = [] then Inr (JObj [])
         else get_column_profile cfg dbs env table column schema (parse_db_source cfg table))"

definition tool_get_date_distribution ::
  "settings \<Rightarrow> (string \<times> connector) list \<Rightarrow> tool_env \<Rightarrow> string \<Rightarrow> json result" where
  "tool_get_date_distribution cfg dbs env inp =
     (let parts = stripped_parts inp; raw_table = part_at parts 0; column = part_at parts 1;
          (schema, table) = split_qualified_name raw_table
      in if raw_table = [] \<or> column = [] then Inr (JList [])
         else get_date_distribution cfg dbs env table column schema (parse_db_source cfg table))"

text \<open>The dispatch of \<open>TOOL_MAP\<close>; \<open>execute_tool\<close> of ContextRetriever has tested the name.\<close>

definition tool_answer ::
  "settings \<Rightarrow> (string \<times> connector) list \<Rightarrow> tool_env \<Rightarrow> string \<Rightarrow> string \<Rightarrow> string list \<Rightarrow> json result" where
  "tool_answer cfg dbs env tool inp exclude =
     (if tool = ''search_use_cases'' then tool_search_use_cases env inp exclude
      else if tool = ''lookup_table_meta'' then tool_lookup_table_meta env inp
      else if tool = ''search_table_meta'' then tool_search_table_meta env inp
      else if tool = ''lookup_code_meta'' then tool_lookup_code_meta env inp
      else if tool = ''search_manual'' then tool_search_manual env inp exclude
      else if tool = ''search_biz_terms'' then tool_search_biz_terms env inp
      else if tool = ''get_sample_rows'' then tool_get_sample_rows cfg dbs env inp
      else if tool = ''get_column_values'' then tool_get_column_values cfg dbs env inp
      else if tool = ''get_column_profile'' then tool_get_column_profile cfg dbs env inp
      else if tool = ''get_date_distribution'' then tool_get_date_distribution cfg dbs env inp
      else Inr JNull)"

section \<open>What a statement is outside its literals\<close>

text \<open>
  The text of a statement outside its quoted literals, in a database where a backslash escapes
  the next character of a literal (\<open>esc\<close>) and in one where it does not; no value when a literal
  is not closed.  A doubled quote closes a literal and opens the next one.
\<close>

fun sql_outside :: "bool \<Rightarrow> bool \<Rightarrow> string \<Rightarrow> string option" where
  "sql_outside esc inside [] = (if inside then None else Some [])"
| "sql_outside esc inside (c # cs) =
     (if c = CHR 0x27 then sql_outside esc (\<not> inside) cs
      else if \<not> inside then map_option ((#) c) (sql_outside esc False cs)
      else if esc \<and> c = CHR 0x5C then (case cs of [] \<Rightarrow> None | d # ds \<Rightarrow> sql_outside esc True ds)
      else sql_outside esc True cs)"

text \<open>Characters that neither end a statement nor begin a comment, a literal or a quoted name.\<close>

definition plain_char :: "char \<Rightarrow> bool" where
  "plain_char c \<longleftrightarrow> c \<notin> {CHR 0x27, CHR 0x22, CHR 0x5C, CHR '';'', CHR ''-'', CHR ''/'', CHR ''#''}"

definition plain_outside :: "bool \<Rightarrow> string \<Rightarrow> bool" where
  "plain_outside esc q = (case sql_outside esc False q of None \<Rightarrow> False | Some t \<Rightarrow> list_all plain_char t)"

definition read_only :: "string \<Rightarrow> bool" where
  "read_only q \<longleftrightarrow> starts_with q ''SELECT '' \<and> plain_outside False q \<and> plain_outside True q"

lemma word_char_plain: "is_word_char c \<Longrightarrow> plain_char c"
  by (auto simp: is_word_char_def plain_char_def)

lemma ident_chars: "ident_match s \<Longrightarrow> list_all (\<lambda>c. is_word_char c \<or> c = CHR 0x0A) s"
proof -
  assume m: "ident_match s"
  define t where "t = (if s \<noteq> [] \<and> last s = CHR 0x0A then butlast s else s)"
  have "list_all (\<lambda>c. is_word_char c \<or> c = CHR 0x0A) t"
    using m unfolding ident_match_def t_def [symmetric] Let_def
    by (auto simp: list_all_iff split: list.splits) (simp_all add: is_word_char_def)
  moreover have "s = t \<or> s = t @ [CHR 0x0A]"
    unfolding t_def by (auto simp: append_butlast_last_id) (metis append_butlast_last_id)
  ultimately show ?thesis by auto
qed

lemma ident_plain: "ident_match s \<Longrightarrow> list_all plain_char s"
proof -
  have "is_word_char c \<or> c = CHR 0x0A \<Longrightarrow> plain_char c" for c
    by (elim disjE) (simp add: word_char_plain, simp add: plain_char_def)
  then show "ident_match s \<Longrightarrow> list_all plain_char s" using ident_chars [of s] by (auto simp: list_all_iff)
qed

lemma outside_plain:
  "list_all plain_char t \<Longrightarrow> sql_outside esc False (t @ s) = map_option ((@) t) (sql_outside esc False s)"
  by (induction t; cases "sql_outside esc False s") (auto simp: plain_char_def)

lemma inside_keyword: "sql_outside esc True (sanitized_keyword kw @ s) = sql_outside esc True s"
  by (induction kw) (auto simp: sanitized_keyword_def double_char_def)

lemma plain_statement: "list_all plain_char q \<Longrightarrow> plain_outside esc q"
  using outside_plain [of q esc "[]"] by (simp add: plain_outside_def)

lemma plain_with_keyword:
  "list_all plain_char a \<Longrightarrow> list_all plain_char b \<Longrightarrow>
   plain_outside esc (a @ SQL_QUOTE @ ''%'' @ sanitized_keyword kw @ ''%'' @ SQL_QUOTE @ b)"
  using outside_plain [of b esc "[]"]
  by (simp add: plain_outside_def outside_plain SQL_QUOTE_def inside_keyword)

lemma digits_plain: "list_all plain_char (nat_digits n)"
proof (induction n rule: nat_digits.induct)
  case (1 n)
  have d: "k < 10 \<Longrightarrow> plain_char (char_of (48 + k))" for k :: nat
  proof -
    assume "k < 10"
    then have "of_char (char_of (48 + k) :: char) = 48 + k" by (simp add: of_char_of)
    with \<open>k < 10\<close> have "is_word_char (char_of (48 + k))" by (simp add: is_word_char_def)
    then show ?thesis by (rule word_char_plain)
  qed
  show ?case using 1 d [of n] d [of "n mod 10"] by (subst nat_digits.simps) auto
qed

lemma qualified_plain: "names_ok schema (table # names) \<Longrightarrow> list_all plain_char (qualified_table schema table)"
  by (auto simp: names_ok_def qualified_table_def ident_plain) (simp add: plain_char_def)

lemma names_plain: "names_ok schema names \<Longrightarrow> n \<in> set names \<Longrightarrow> list_all plain_char n"
  by (auto simp: names_ok_def list_all_iff ident_plain[unfolded list_all_iff])

lemma sample_read_only: "names_ok schema [table] \<Longrightarrow> read_only (sample_rows_sql d limit (qualified_table schema table))"
  by (auto simp: read_only_def sample_rows_sql_def intro!: plain_statement qualified_plain digits_plain)
     (simp_all add: plain_char_def)

lemma values_read_only:
  assumes "names_ok schema [table, column]"
  shows "read_only (column_values_sql d limit offset column (qualified_table schema table) (sanitized_keyword kw))"
proof -
  have t: "list_all plain_char (qualified_table schema table)" using assms by (rule qualified_plain)
  have c: "list_all plain_char column" using assms by (auto intro: names_plain)
  have pre: "list_all plain_char (''SELECT DISTINCT TOP '' @ nat_digits limit @ '' START AT '' @ nat_digits (offset + 1) @ '' '' @
      column @ '' FROM '' @ qualified_table schema table @ '' '' @ ''WHERE CAST('' @ column @ '' AS '' @ ''VARCHAR'' @ '') LIKE '')"
    "list_all plain_char (''SELECT DISTINCT '' @ column @ '' FROM '' @ qualified_table schema table @ '' '' @ ''WHERE CAST('' @ column @
      '' AS '' @ (if d = ''hive'' then ''STRING'' else ''TEXT'') @ '') LIKE '')"
    using t c digits_plain [of limit] digits_plain [of "offset + 1"] by (simp_all add: plain_char_def)
  have post: "list_all plain_char ('' ORDER BY '' @ column)"
    "list_all plain_char ('' ORDER BY '' @ column @ '' LIMIT '' @ nat_digits limit @ '' OFFSET '' @ nat_digits offset)"
    using c digits_plain [of limit] digits_plain [of offset] by (simp_all add: plain_char_def)
  show ?thesis
    using plain_with_keyword [OF pre(1) post(1), of _ kw] plain_with_keyword [OF pre(2) post(2), of _ kw]
    by (simp add: read_only_def column_values_sql_def like_clause_def)
qed

lemma profile_read_only:
  assumes "names_ok schema [table, column]"
  shows "read_only (column_profile_sql column (qualified_table schema table))"
  unfolding read_only_def column_profile_sql_def
  using qualified_plain [OF assms] names_plain [OF assms, of column]
  by (auto intro!: plain_statement simp: plain_char_def)

lemma dates_read_only:
  assumes "names_ok schema [table, column]"
  shows "read_only (date_distribution_sql d limit column (qualified_table schema table))"
  unfolding read_only_def date_distribution_sql_def
  using qualified_plain [OF assms] names_plain [OF assms, of column] digits_plain [of limit]
  by (auto intro!: plain_statement simp: plain_char_def)

lemma run_statement_same:
  assumes "\<And>db q. read_only q \<Longrightarrow> run db q = run' db q" "\<And>d. read_only (sql d)"
  shows "run_statement cfg dbs (env\<lparr>te_run := run\<rparr>) src sql = run_statement cfg dbs (env\<lparr>te_run := run'\<rparr>) src sql"
  using assms by (cases "get_query_db cfg dbs [] src") (simp_all add: run_statement_def execute_query_def)

lemma tools_send_reads:
  assumes same: "\<And>db q. read_only q \<Longrightarrow> run db q = run' db q"
  shows "tool_answer cfg dbs (env\<lparr>te_run := run\<rparr>) tool inp exclude = tool_answer cfg dbs (env\<lparr>te_run := run'\<rparr>) tool inp exclude"
proof -
  note st = run_statement_same [OF same]
  have rows: "get_sample_rows cfg dbs (env\<lparr>te_run := run\<rparr>) t s d = get_sample_rows cfg dbs (env\<lparr>te_run := run'\<rparr>) t s d" for t s d
    by (cases "names_ok s [t]") (simp_all add: get_sample_rows_def st sample_read_only)
  have vals: "get_column_values cfg dbs (env\<lparr>te_run := run\<rparr>) t c k s d p = get_column_values cfg dbs (env\<lparr>te_run := run'\<rparr>) t c k s d p"
    for t c k s d p
    by (cases "names_ok s [t, c]") (simp_all add: get_column_values_def st values_read_only)
  have prof: "get_column_profile cfg dbs (env\<lparr>te_run := run\<rparr>) t c s d = get_column_profile cfg dbs (env\<lparr>te_run := run'\<rparr>) t c s d" for t c s d
    by (cases "names_ok s [t, c]") (simp_all add: get_column_profile_def profile_of_row_def st profile_read_only)
  have dates: "get_date_distribution cfg dbs (env\<lparr>te_run := run\<rparr>) t c s d = get_date_distribution cfg dbs (env\<lparr>te_run := run'\<rparr>) t c s d" for t c s d
    by (cases "names_ok s [t, c]") (simp_all add: get_date_distribution_def st dates_read_only)
  show ?thesis
    by (simp add: tool_answer_def tool_search_use_cases_def tool_lookup_table_meta_def tool_search_table_meta_def
        tool_lookup_code_meta_def tool_search_manual_def tool_search_biz_terms_def tool_get_sample_rows_def
        tool_get_column_values_def tool_get_column_profile_def tool_get_date_distribution_def paged_input_def
        Let_def case_prod_unfold rows vals prof dates)
qed

text \<open>What passes is also let through by the connectors' guard.\<close>

lemma starts_with_word:
  "starts_with q ''SELECT '' \<Longrightarrow> rx_rest SELECT_GUARD None q \<noteq> []"
proof -
  assume "starts_with q ''SELECT ''"
  then obtain t where q: "q = ''SELECT '' @ t" by (auto simp: starts_with_iff)
  show ?thesis
    unfolding q by (simp add: SELECT_GUARD_def r_ws0_def r_char_def is_ascii_space_def upper_char_def lower_char_def is_word_char_def)
qed

lemma reads_pass_guard: "read_only q \<Longrightarrow> execute_query driver q = driver q"
  using starts_with_word by (simp add: read_only_def execute_query_def)

section \<open>Properties\<close>

text \<open>
  C7: Exploration reads only, and no text of the model or of the user leaves its literal.  A run of
  the context retriever with the program's own tools does not depend on what a driver does with
  any statement but a single SELECT without comment, second statement, quoted name or open
  literal, under both customs for a backslash in a literal: no other statement is ever sent.
\<close>

theorem exploration_is_read_only:
  assumes "\<And>db q. read_only q \<Longrightarrow> run db q = run' db q"
  shows "context_retriever_node cfg dbs (env\<lparr>rv_tool := tool_answer cfg dbs (te\<lparr>te_run := run\<rparr>)\<rparr>) s =
    context_retriever_node cfg dbs (env\<lparr>rv_tool := tool_answer cfg dbs (te\<lparr>te_run := run'\<rparr>)\<rparr>) s"
proof -
  have "tool_answer cfg dbs (te\<lparr>te_run := run\<rparr>) = tool_answer cfg dbs (te\<lparr>te_run := run'\<rparr>)"
    by (intro ext tools_send_reads [OF assms])
  then show ?thesis by simp
qed

definition dropping :: "connector \<Rightarrow> string \<Rightarrow> json result" where
  "dropping db q = (if read_only q then Inr (JList []) else Inl RuntimeErr)"

lemma exploration_is_read_only_witness:
  "\<forall>cfg dbs env te s.
     context_retriever_node cfg dbs (env\<lparr>rv_tool := tool_answer cfg dbs (te\<lparr>te_run := dropping\<rparr>)\<rparr>) s =
     context_retriever_node cfg dbs (env\<lparr>rv_tool := tool_answer cfg dbs (te\<lparr>te_run := \<lambda>db q. Inr (JList [])\<rparr>)\<rparr>) s"
  by (intro allI exploration_is_read_only) (simp add: dropping_def)

text \<open>The page of an input is between 1 and 5, whatever the input says.\<close>

theorem page_in_bounds: "1 \<le> snd (extract_page to_int parts) \<and> snd (extract_page to_int parts) \<le> MAX_PAGE"
proof -
  have "1 \<le> snd acc \<Longrightarrow> snd acc \<le> MAX_PAGE \<Longrightarrow> 1 \<le> snd (fold (page_step to_int) parts acc) \<and> snd (fold (page_step to_int) parts acc) \<le> MAX_PAGE" for acc
  proof (induction parts arbitrary: acc)
    case (Cons p parts)
    have "1 \<le> snd (page_step to_int p acc) \<and> snd (page_step to_int p acc) \<le> MAX_PAGE"
      using Cons.prems by (auto simp: page_step_def MAX_PAGE_def split: option.split)
    with Cons.IH [of "page_step to_int p acc"] show ?case by simp
  qed simp
  from this [of "([], 1)"] show ?thesis by (simp add: extract_page_def MAX_PAGE_def)
qed

text \<open>
  A name with a database and a schema has two dots: its schema part is no identifier, and the
  tools answer as for a table without rows, without asking the database.
\<close>

lemma dot_no_ident: "CHR ''.'' \<in> set s \<Longrightarrow> \<not> ident_match s"
proof
  assume "CHR ''.'' \<in> set s" "ident_match s"
  then have "is_word_char (CHR ''.'') \<or> CHR ''.'' = CHR 0x0A" using ident_chars [of s] by (auto simp: list_all_iff)
  then show False by (simp add: is_word_char_def)
qed

theorem three_part_name_not_queried:
  assumes "CHR ''.'' \<in> set schema"
  shows "get_sample_rows cfg dbs env table schema src = Inr (JList [])"
  using dot_no_ident [OF assms] assms by (auto simp: get_sample_rows_def names_ok_def)

text \<open>
  The distribution of dates asks for the first \<open>DATES_LIMIT\<close> dates in ascending order.  In a table
  with more dates, the newest ones are never seen, although the range and the recent values shown
  to the model are taken from this answer.
\<close>

lemma column_texts_rows:
  "column_texts show_json column (map (\<lambda>d. JObj [(column, JStr d)]) ds) = Inr (map JStr ds)"
  by (induction ds) (simp_all add: py_str_def)

lemma strictly_before_last:
  assumes "sorted ds" "distinct ds" "n < length ds" "v \<in> set (take n ds)"
  shows "v < (last ds :: string)"
proof -
  from assms(4) obtain i where i: "i < n" "v = ds ! i" using assms(3) by (auto simp: in_set_conv_nth)
  let ?k = "length ds - 1"
  have "i < ?k" "?k < length ds" using i(1) assms(3) by auto
  then have "ds ! i \<le> ds ! ?k" "ds ! i \<noteq> ds ! ?k"
    using sorted_nth_mono [OF assms(1), of i ?k] nth_eq_iff_index_eq [OF assms(2), of i ?k] by auto
  moreover have "last ds = ds ! ?k" using assms(3) by (intro last_conv_nth) auto
  ultimately show ?thesis using i(2) by simp
qed

theorem newest_dates_missed:
  assumes "names_ok schema [table, column]" "get_query_db cfg dbs [] src = Inr db"
    and "te_run env db (date_distribution_sql (conn_dialect db) DATES_LIMIT column (qualified_table schema table)) =
      Inr (JList (map (\<lambda>d. JObj [(column, JStr d)]) (take DATES_LIMIT ds)))"
    and "sorted ds" "distinct ds" "DATES_LIMIT < length ds"
  shows "\<exists>vs. get_date_distribution cfg dbs env table column schema src = Inr (JList (map JStr vs)) \<and>
    (\<forall>v \<in> set vs. v < last ds)"
proof -
  have "get_date_distribution cfg dbs env table column schema src = Inr (JList (map JStr (take DATES_LIMIT ds)))"
    using assms(1-3) reads_pass_guard [OF dates_read_only [OF assms(1)]]
    by (simp add: get_date_distribution_def run_statement_def texts_of_rows_def column_texts_rows)
  moreover have "\<forall>v \<in> set (take DATES_LIMIT ds). v < last ds"
    using strictly_before_last [OF assms(4-6)] by blast
  ultimately show ?thesis by blast
qed

text \<open>A column of NULL has the bounds \<open>None\<close>, a text the renderer does not tell from a value.\<close>

theorem null_bounds_shown:
  assumes "te_show env JNull = ''None''"
  shows "profile_of_row env (JObj [(''total_rows'', JNum 5), (''non_null_count'', JNum 0), (''distinct_count'', JNum 0),
      (''min_val'', JNull), (''max_val'', JNull)]) =
    Inr (JObj [(''total_rows'', JNum 5), (''non_null_count'', JNum 0), (''null_count'', JNum 5), (''null_rate'', JNum 1),
      (''distinct_count'', JNum 0), (''min_val'', JStr ''None''), (''max_val'', JStr ''None'')])"
  using assms
  by (simp add: profile_of_row_def py_int_def jint_def null_rate_def py_round3_def round_half_even_def py_str_def)

text \<open>A profile is consistent: the counts add up, and the rate is a fraction when they are sensible.\<close>

theorem null_rate_bounds:
  assumes "0 \<le> non_null" "non_null \<le> n_rows"
  shows "0 \<le> null_rate n_rows non_null \<and> null_rate n_rows non_null \<le> 1"
proof (cases "0 < n_rows")
  case True
  with assms have "(0 :: rat) \<le> of_int (n_rows - non_null) / of_int n_rows"
    "(of_int (n_rows - non_null) / of_int n_rows :: rat) \<le> 1"
    by (simp_all add: divide_le_eq)
  with py_round3_ge [of 0 "of_int (n_rows - non_null) / of_int n_rows"]
    py_round3_le [of "of_int (n_rows - non_null) / of_int n_rows" 1000]
  show ?thesis using True by (simp add: null_rate_def)
qed (simp add: null_rate_def)

end
