(* ===== verification/MongoSearch.thy ===== *)
theory MongoSearch imports Tools IntentService begin

text \<open>
  The metadata searches, \<open>src/src/connectors/impl/mongo_connector.py\<close>: keywords, the aggregation
  pipelines they become, and the pages.  A pipeline is the list of its stages as JSON.  The
  server's \<open>aggregate\<close>, \<open>json.dumps\<close>, \<open>json.loads\<close> and the stage templates of the resource files
  are arguments; the mode without a server is left out.
\<close>

section \<open>Keywords\<close>

definition is_keyword_separator :: "char \<Rightarrow> bool" where
  "is_keyword_separator c \<longleftrightarrow> is_ascii_space c \<or> c = CHR '',''"

text \<open>\<open>re.split\<close> at single separators: a run of them gives empty parts, which are dropped.\<close>

fun split_where :: "(char \<Rightarrow> bool) \<Rightarrow> string \<Rightarrow> string list" where
  "split_where p [] = [[]]"
| "split_where p (x # xs) =
     (if p x then [] # split_where p xs
      else (case split_where p xs of [] \<Rightarrow> [[x]] | y # ys \<Rightarrow> (x # y) # ys))"

definition split_keywords :: "string \<Rightarrow> string list" where
  "split_keywords query =
     (let ks = filter (\<lambda>k. 2 \<le> py_len k) (map py_strip (split_where is_keyword_separator query))
      in if ks \<noteq> [] then ks else [py_strip query])"

text \<open>\<open>re.escape\<close>\<close>

definition RE_SPECIAL :: string where
  "RE_SPECIAL = ''()[]{}?*+-|^$.&~# '' @ [CHR 0x5C, CHR 0x09, CHR 0x0A, CHR 0x0D, CHR 0x0B, CHR 0x0C]"

definition re_escape :: "string \<Rightarrow> string" where
  "re_escape s = concat (map (\<lambda>c. if c \<in> set RE_SPECIAL then [CHR 0x5C, c] else [c]) s)"

definition regex_condition :: "string \<Rightarrow> string \<Rightarrow> json" where
  "regex_condition kw field = JObj [(field, JObj [(''$regex'', JStr (re_escape kw)), (''$options'', JStr ''i'')])]"

definition build_regex_match :: "string \<Rightarrow> string list \<Rightarrow> json" where
  "build_regex_match query fs =
     (let conds = concat (map (\<lambda>kw. map (regex_condition kw) fs) (split_keywords query))
      in case conds of [c] \<Rightarrow> c | _ \<Rightarrow> JObj [(''$or'', JList conds)])"

definition field_check :: "string \<Rightarrow> string \<Rightarrow> json" where
  "field_check kw field =
     JObj [(''$regexMatch'', JObj [(''input'', JObj [(''$ifNull'', JList [JStr (CHR ''$'' # field), JStr []])]),
       (''regex'', JStr (re_escape kw)), (''options'', JStr ''i'')])]"

definition score_term :: "string list \<Rightarrow> string \<Rightarrow> json" where
  "score_term fs kw = JObj [(''$cond'', JList [JObj [(''$or'', JList (map (field_check kw) fs))], JNum 1, JNum 0])]"

definition build_keyword_score_stages :: "string \<Rightarrow> string list \<Rightarrow> json list" where
  "build_keyword_score_stages query fs =
     (let keywords = split_keywords query
      in if length keywords \<le> 1 then []
         else [JObj [(''$addFields'', JObj [(''_keyword_score'', JObj [(''$add'', JList (map (score_term fs) keywords))])])],
               JObj [(''$sort'', JObj [(''_keyword_score'', JNum (- 1))])]])"

section \<open>Pipelines\<close>

record mongo =
  mg_aggregate :: "string \<Rightarrow> json list \<Rightarrow> json list result"
  mg_dumps :: "json \<Rightarrow> string"
  mg_loads :: "string \<Rightarrow> json option"
  mg_show :: "json \<Rightarrow> string"
  mg_table_size :: nat
  mg_code_size :: nat
  mg_term_size :: nat
  mg_table_collection :: string
  mg_column_collection :: string
  mg_code_collection :: string
  mg_value_collection :: string
  mg_term_collection :: string
  mg_table_lookup :: json
  mg_table_project :: json
  mg_code_lookup :: json
  mg_code_project :: json
  mg_term_lookup :: json
  mg_term_unwind :: json
  mg_term_project :: json

definition resolve_collection_ref :: "mongo \<Rightarrow> json \<Rightarrow> string \<Rightarrow> string \<Rightarrow> json result" where
  "resolve_collection_ref mg stage placeholder actual =
     (case mg_loads mg (py_replace placeholder actual (mg_dumps mg stage)) of
        Some v \<Rightarrow> Inr v | None \<Rightarrow> Inl ValueError)"

definition match_stage :: "json \<Rightarrow> json" where
  "match_stage cond = JObj [(''$match'', cond)]"

definition names_match :: "string list \<Rightarrow> json" where
  "names_match names = JObj [(''name'', JObj [(''$in'', JList (map JStr names))])]"

definition page_stages :: "nat \<Rightarrow> int \<Rightarrow> json list" where
  "page_stages limit page =
     [JObj [(''$skip'', JNum (of_int ((page - 1) * int limit)))], JObj [(''$limit'', JNum (of_nat limit))]]"

definition TABLE_FIELDS :: "string list" where "TABLE_FIELDS = [''alt_name'', ''desc'', ''name'']"
definition TERM_FIELDS :: "string list" where "TERM_FIELDS = [''name'', ''biz_term_definition'']"

text \<open>The stages before the page: the condition, the score, the joined columns and the order.\<close>

definition table_stages :: "mongo \<Rightarrow> string \<Rightarrow> string list \<Rightarrow> json list result" where
  "table_stages mg query names =
     result_bind (resolve_collection_ref mg (mg_table_lookup mg) ''${column_meta_collection}'' (mg_column_collection mg)) (\<lambda>lookup.
       let score = (if names \<noteq> [] then [] else build_keyword_score_stages query TABLE_FIELDS)
       in Inr (match_stage (if names \<noteq> [] then names_match names else build_regex_match query TABLE_FIELDS) # score @
               [lookup, JObj [(''$sort'', JObj ((if score \<noteq> [] then [(''_keyword_score'', JNum (- 1))] else []) @ [(''_id'', JNum 1)]))]]))"

definition mongo_table_meta :: "mongo \<Rightarrow> string \<Rightarrow> string list \<Rightarrow> int \<Rightarrow> json result" where
  "mongo_table_meta mg query names page =
     result_bind (table_stages mg query names) (\<lambda>stages.
     result_bind (mg_aggregate mg (mg_table_collection mg) (stages @ page_stages (mg_table_size mg) page @ [mg_table_project mg]))
       (\<lambda>docs. Inr (JList docs)))"

text \<open>\<open>{cv["code_value"]: cv["code_name"] for cv in ...}\<close>; a code that is no text is its text.\<close>

fun codes_of :: "(json \<Rightarrow> string) \<Rightarrow> json list \<Rightarrow> (string \<times> json) list \<Rightarrow> (string \<times> json) list result" where
  "codes_of show_json [] acc = Inr acc"
| "codes_of show_json (JObj cv # cvs) acc =
     (case (map_of cv ''code_value'', map_of cv ''code_name'') of
        (Some k, Some v) \<Rightarrow> codes_of show_json cvs (dict_set (py_str show_json k) v acc)
      | _ \<Rightarrow> Inl KeyErr)"
| "codes_of show_json (_ # cvs) acc = Inl TypeErr"

fun code_entries :: "(json \<Rightarrow> string) \<Rightarrow> json list \<Rightarrow> json list result" where
  "code_entries show_json [] = Inr []"
| "code_entries show_json (JObj item # items) =
     (case obj_get item ''code_values'' (JList []) of
        JList cvs \<Rightarrow>
          result_bind (codes_of show_json cvs []) (\<lambda>codes.
          result_bind (code_entries show_json items) (\<lambda>rest.
            Inr (JObj [(''code_field'', obj_get item ''code_field'' (JStr [])),
                       (''code_field_desc'', obj_get item ''code_field_desc'' (JStr [])), (''codes'', JObj codes)] # rest)))
      | _ \<Rightarrow> Inl TypeErr)"
| "code_entries show_json (_ # items) = Inl AttributeError"

definition mongo_code_meta :: "mongo \<Rightarrow> string \<Rightarrow> string list \<Rightarrow> int \<Rightarrow> json result" where
  "mongo_code_meta mg query names page =
     result_bind (resolve_collection_ref mg (mg_code_lookup mg) ''${code_value_collection}'' (mg_value_collection mg)) (\<lambda>lookup.
     result_bind (mg_aggregate mg (mg_code_collection mg)
        ([match_stage (if names \<noteq> [] then names_match names else JObj []), lookup, JObj [(''$sort'', JObj [(''_id'', JNum 1)])]] @
         page_stages (mg_code_size mg) page @ [mg_code_project mg])) (\<lambda>docs.
     result_bind (code_entries (mg_show mg) docs) (\<lambda>entries. Inr (JList entries))))"

definition mongo_biz_terms :: "mongo \<Rightarrow> string \<Rightarrow> string list \<Rightarrow> int \<Rightarrow> json result" where
  "mongo_biz_terms mg query names page =
     result_bind (resolve_collection_ref mg (mg_term_lookup mg) ''${table_meta_collection}'' (mg_table_collection mg)) (\<lambda>lookup.
     result_bind (mg_aggregate mg (mg_term_collection mg)
        ([match_stage (if names \<noteq> [] then names_match names else build_regex_match query TERM_FIELDS), lookup, mg_term_unwind mg,
          JObj [(''$sort'', JObj [(''_id'', JNum 1), (''name'', JNum 1)])]] @
         page_stages (mg_term_size mg) page @ [mg_term_project mg])) (\<lambda>docs. Inr (JList docs)))"

text \<open>The searches as the tools call them.\<close>

definition mongo_tools :: "mongo \<Rightarrow> tool_env \<Rightarrow> tool_env" where
  "mongo_tools mg te =
     te\<lparr>te_table_meta := mongo_table_meta mg,
        te_code_meta := \<lambda>column. mongo_code_meta mg column [],
        te_biz_terms := \<lambda>words. mongo_biz_terms mg words []\<rparr>"

section \<open>Properties\<close>

text \<open>
  A pattern read as a literal text: a special character counts only behind a backslash.
\<close>

fun re_literal :: "string \<Rightarrow> string option" where
  "re_literal [] = Some []"
| "re_literal (c # cs) =
     (if c = CHR 0x5C then (case cs of [] \<Rightarrow> None | d # ds \<Rightarrow> map_option ((#) d) (re_literal ds))
      else if c \<in> set RE_SPECIAL then None
      else map_option ((#) c) (re_literal cs))"

text \<open>A keyword is searched as it is: its pattern is the literal text, whatever characters it has.\<close>

theorem escaped_keyword_literal: "re_literal (re_escape s) = Some s"
proof (induction s)
  case (Cons c s)
  have "CHR 0x5C \<in> set RE_SPECIAL" by (simp add: RE_SPECIAL_def)
  then show ?case using Cons by (auto simp: re_escape_def)
qed (simp add: re_escape_def)

text \<open>
  The look-up of codes never asks for the column it is called with: the condition of the
  pipeline is empty, and every column has the same answer, the first page of all codes.
\<close>

theorem code_lookup_ignores_column:
  assumes "snd (paged_input (mongo_tools mg te) inp) = snd (paged_input (mongo_tools mg te) inp')"
  shows "tool_lookup_code_meta (mongo_tools mg te) inp = tool_lookup_code_meta (mongo_tools mg te) inp'"
  using assms by (auto simp: tool_lookup_code_meta_def mongo_tools_def mongo_code_meta_def split: prod.splits)

lemma code_lookup_ignores_column_witness:
  "\<forall>mg te. tool_lookup_code_meta (mongo_tools mg te) ''STAT_CD'' = tool_lookup_code_meta (mongo_tools mg te) ''LOAN_DCD''"
  by (intro allI code_lookup_ignores_column)
     (simp add: paged_input_def stripped_parts_def extract_page_def page_step_def py_strip_def py_lstrip_def is_ascii_space_def)

text \<open>A server that orders the documents of a pipeline the same way for every page.\<close>

definition serves_pages :: "mongo \<Rightarrow> json list \<Rightarrow> json list \<Rightarrow> (json \<Rightarrow> json) \<Rightarrow> bool" where
  "serves_pages mg stages docs f \<longleftrightarrow>
     (\<forall>page. mg_aggregate mg (mg_table_collection mg) (stages @ page_stages (mg_table_size mg) page @ [mg_table_project mg]) =
        Inr (map f (take (mg_table_size mg) (drop (nat (page - 1) * mg_table_size mg) docs))))"

definition items_of_answer :: "json result \<Rightarrow> json list" where
  "items_of_answer r = (case r of Inr (JList xs) \<Rightarrow> xs | _ \<Rightarrow> [])"

lemma take_pages: "concat (map (\<lambda>p. take k (drop (p * k) xs)) [0..<n]) = take (n * k) xs"
proof (induction n)
  case (Suc n)
  have "take (n * k + k) xs = take (n * k) xs @ take k (drop (n * k) xs)" by (rule take_add)
  then show ?case using Suc by (simp add: add.commute)
qed simp

text \<open>
  Paging loses and repeats nothing: the pages of a search, one after the other, are the first
  documents of the server's order, the best ones when the keywords are scored.
\<close>

theorem pages_cover:
  assumes "table_stages mg query [] = Inr stages" "serves_pages mg stages docs f"
  shows "concat (map (\<lambda>p. items_of_answer (mongo_table_meta mg query [] (int p + 1))) [0..<n]) =
    map f (take (n * mg_table_size mg) docs)"
proof -
  have "items_of_answer (mongo_table_meta mg query [] (int p + 1)) = map f (take (mg_table_size mg) (drop (p * mg_table_size mg) docs))" for p
    using assms by (simp add: mongo_table_meta_def serves_pages_def items_of_answer_def)
  then have "concat (map (\<lambda>p. items_of_answer (mongo_table_meta mg query [] (int p + 1))) [0..<n]) =
      map f (concat (map (\<lambda>p. take (mg_table_size mg) (drop (p * mg_table_size mg) docs)) [0..<n]))"
    by (simp add: map_concat comp_def)
  then show ?thesis by (simp add: take_pages)
qed

definition sample_mongo :: "json list \<Rightarrow> mongo" where
  "sample_mongo docs = \<lparr>mg_aggregate = \<lambda>c st. (case (st ! 3, st ! 4) of
       (JObj [(_, JNum k)], JObj [(_, JNum n)]) \<Rightarrow> Inr (take (nat (py_int n)) (drop (nat (py_int k)) docs)) | _ \<Rightarrow> Inl OtherError),
     mg_dumps = \<lambda>j. [], mg_loads = \<lambda>t. Some JNull, mg_show = \<lambda>j. [], mg_table_size = 2, mg_code_size = 2, mg_term_size = 2,
     mg_table_collection = ''t'', mg_column_collection = ''c'', mg_code_collection = ''k'', mg_value_collection = ''v'',
     mg_term_collection = ''b'', mg_table_lookup = JNull, mg_table_project = JNull, mg_code_lookup = JNull,
     mg_code_project = JNull, mg_term_lookup = JNull, mg_term_unwind = JNull, mg_term_project = JNull\<rparr>"

lemma py_int_of_int [simp]: "py_int (of_int k) = k"
  by (simp add: py_int_def)

lemma sample_mongo_serves: "length stages = 3 \<Longrightarrow> serves_pages (sample_mongo docs) stages docs id"
proof -
  assume "length stages = 3"
  moreover have "nat (py_int ((of_int p - 1) * 2)) = nat (p - 1) * 2" for p
    using py_int_of_int [of "(p - 1) * 2"] by (simp add: nat_mult_distrib)
  moreover have "py_int 2 = 2" using py_int_of_int [of 2] by simp
  ultimately show ?thesis
    by (simp add: serves_pages_def sample_mongo_def page_stages_def nth_append)
qed

lemma pages_cover_witness:
  "\<forall>docs n. concat (map (\<lambda>p. items_of_answer (mongo_table_meta (sample_mongo docs) ''loan'' [] (int p + 1))) [0..<n]) =
     take (n * 2) docs"
proof (intro allI)
  fix docs n
  have kw: "split_keywords ''loan'' = [''loan'']"
    by (simp add: split_keywords_def is_keyword_separator_def py_strip_def py_lstrip_def is_ascii_space_def py_len_def)
  obtain stages where st: "table_stages (sample_mongo docs) ''loan'' [] = Inr stages" "length stages = 3"
    by (simp add: table_stages_def resolve_collection_ref_def sample_mongo_def build_keyword_score_stages_def kw)
  from pages_cover [OF st(1) sample_mongo_serves [OF st(2)]]
  show "concat (map (\<lambda>p. items_of_answer (mongo_table_meta (sample_mongo docs) ''loan'' [] (int p + 1))) [0..<n]) = take (n * 2) docs"
    by (simp add: sample_mongo_def)
qed

end
