(* ===== verification/VectorSearch.thy ===== *)
theory VectorSearch imports Tools begin

text \<open>
  The vector searches, \<open>src/src/connectors/impl/qdrant_connector.py\<close>, and the reranker behind the
  search of earlier SQL, \<open>src/src/connectors/impl/reranker.py\<close>.  The vector store, the embedding
  model and the scoring model are arguments; times and the events of the tracker are left out,
  as are the loading and conversion of model files and the mode without a server.
\<close>

section \<open>Points and embeddings\<close>

datatype point_id = Int_id int | Str_id string

definition parse_point_ids :: "(string \<Rightarrow> int option) \<Rightarrow> point_id list \<Rightarrow> point_id list" where
  "parse_point_ids to_int ids =
     map (\<lambda>i. case i of Int_id n \<Rightarrow> Int_id n
                | Str_id t \<Rightarrow> (case to_int t of Some n \<Rightarrow> Int_id n | None \<Rightarrow> Str_id t)) ids"

record embedding_result =
  er_dense :: "rat list"
  er_sparse_indices :: "int list"
  er_sparse_values :: "rat list"

text \<open>The sparse part of one text: \<open>sorted(weights.items())\<close>, without the weights that are not positive.\<close>

fun sparse_entries :: "(string \<Rightarrow> int option) \<Rightarrow> (string \<times> rat) list \<Rightarrow> (int \<times> rat) list result" where
  "sparse_entries to_int [] = Inr []"
| "sparse_entries to_int ((token, weight) # ws) =
     (case to_int token of
        None \<Rightarrow> Inl ValueError
      | Some i \<Rightarrow> result_bind (sparse_entries to_int ws) (\<lambda>es. Inr (if weight > 0 then (i, weight) # es else es)))"

definition embedding_of :: "(string \<Rightarrow> int option) \<Rightarrow> rat list \<times> (string \<times> rat) list \<Rightarrow> embedding_result result" where
  "embedding_of to_int out =
     result_bind (sparse_entries to_int (sort_key fst (snd out))) (\<lambda>es.
       Inr \<lparr>er_dense = fst out, er_sparse_indices = map fst es, er_sparse_values = map snd es\<rparr>)"

fun encode_batch ::
  "(string \<Rightarrow> int option) \<Rightarrow> (string \<Rightarrow> rat list \<times> (string \<times> rat) list) \<Rightarrow> string list \<Rightarrow> embedding_result list result" where
  "encode_batch to_int model [] = Inr []"
| "encode_batch to_int model (t # ts) =
     result_bind (embedding_of to_int (model t)) (\<lambda>e.
     result_bind (encode_batch to_int model ts) (\<lambda>es. Inr (e # es)))"

section \<open>The reranker\<close>

record rerank_candidate =
  rc_text :: string
  rc_payload :: "(string \<times> json) list"
  rc_score :: rat
  rc_rerank_score :: rat

record rerank_stats =
  rs_input_count :: nat
  rs_filtered_count :: nat

record rerank_settings =
  rk_enabled :: bool
  rk_score_threshold :: rat
  rk_min_candidates :: nat

definition sort_by_score :: "rerank_candidate list \<Rightarrow> rerank_candidate list" where
  "sort_by_score cs = sort_key (\<lambda>c. - rc_score c) cs"

definition prefilter :: "rerank_settings \<Rightarrow> rerank_candidate list \<Rightarrow> rerank_candidate list" where
  "prefilter rk cs =
     (if rk_score_threshold rk \<le> 0 then cs
      else
        let sorted_cands = sort_by_score cs;
            kept = filter (\<lambda>c. rc_score c \<ge> rk_score_threshold rk) sorted_cands
        in if length kept < rk_min_candidates rk
           then take (max (rk_min_candidates rk) (length kept)) sorted_cands else kept)"

text \<open>
  The ONNX backend: the pairs in the order of their length, one run of the model, and the
  scores put back to the order of the documents.
\<close>

definition sort_by_length :: "string \<Rightarrow> string list \<Rightarrow> (string \<times> string) list \<times> nat list" where
  "sort_by_length query documents =
     (let indexed = sort_key (\<lambda>p. py_len (snd p)) (zip [0..<length documents] documents)
      in (map (\<lambda>p. (query, snd p)) indexed, map fst indexed))"

definition compute_scores :: "((string \<times> string) list \<Rightarrow> rat list) \<Rightarrow> string \<Rightarrow> string list \<Rightarrow> rat list" where
  "compute_scores infer query documents =
     (let (pairs, orig_indices) = sort_by_length query documents; scores_sorted = infer pairs
      in fold (\<lambda>(i, orig) scores. scores[orig := scores_sorted ! i]) (zip [0..<length orig_indices] orig_indices)
           (replicate (length documents) 0))"

definition set_rerank_score :: "rerank_candidate \<times> rat \<Rightarrow> rerank_candidate" where
  "set_rerank_score cr = (fst cr)\<lparr>rc_rerank_score := snd cr\<rparr>"

text \<open>\<open>Reranker.rerank\<close>; \<open>backend\<close> scores the documents for the query.\<close>

definition rerank ::
  "rerank_settings \<Rightarrow> (string \<Rightarrow> string list \<Rightarrow> rat list result) \<Rightarrow> string \<Rightarrow> rerank_candidate list \<Rightarrow> nat \<Rightarrow>
   (rerank_candidate list \<times> rerank_stats) result" where
  "rerank rk backend query cs top_k =
     (if cs = [] then Inr ([], \<lparr>rs_input_count = 0, rs_filtered_count = 0\<rparr>)
      else if \<not> rk_enabled rk then
        Inr (take top_k (sort_by_score cs), \<lparr>rs_input_count = length cs, rs_filtered_count = length cs\<rparr>)
      else
        let filtered = prefilter rk cs
        in result_bind (backend query (map rc_text filtered)) (\<lambda>scores.
             let scored = map set_rerank_score (zip filtered scores) @ drop (length scores) filtered;
                 reranked = sort_key (\<lambda>c. - rc_rerank_score c) scored
             in Inr (take top_k reranked, \<lparr>rs_input_count = length cs, rs_filtered_count = length filtered\<rparr>)))"

section \<open>The searches\<close>

record qdrant_settings =
  qs_top_k :: nat
  qs_manual_max_limit :: nat
  qs_prefetch_limit :: nat
  qs_history_top_k :: nat
  qs_max_prefetch :: nat

text \<open>A hit of the store: its identifier, score and payload.\<close>

record hit =
  h_id :: string
  h_score :: rat
  h_payload :: "(string \<times> json) list"

record qdrant =
  qd_ready :: bool
  qd_to_int :: "string \<Rightarrow> int option"
  qd_dense :: "string \<Rightarrow> rat list"
  qd_encode :: "string \<Rightarrow> rat list \<times> (string \<times> rat) list"
  qd_search :: "rat list \<Rightarrow> nat \<Rightarrow> point_id list \<Rightarrow> hit list result"
  qd_query_points :: "embedding_result \<Rightarrow> nat \<Rightarrow> point_id list \<Rightarrow> hit list result"

definition dict_text :: "(string \<times> json) list \<Rightarrow> string \<Rightarrow> string result" where
  "dict_text d k = (case obj_get d k (JStr []) of JStr t \<Rightarrow> Inr t | _ \<Rightarrow> Inl TypeErr)"

text \<open>The excluded points raise the limit, up to a bound.\<close>

definition effective_limit :: "nat \<Rightarrow> nat \<Rightarrow> string list \<Rightarrow> nat" where
  "effective_limit limit bound exclude = (if exclude = [] then limit else min (limit + length exclude) bound)"

definition excluded_points :: "qdrant \<Rightarrow> string list \<Rightarrow> point_id list" where
  "excluded_points qd exclude = parse_point_ids (qd_to_int qd) (map Str_id exclude)"

definition manual_hit :: "hit \<Rightarrow> json" where
  "manual_hit h = JObj (dict_set ''_point_id'' (JStr (h_id h)) (h_payload h))"

definition search_manual :: "qdrant_settings \<Rightarrow> qdrant \<Rightarrow> string \<Rightarrow> string list \<Rightarrow> json result" where
  "search_manual qs qd query exclude =
     (if \<not> qd_ready qd then Inl RuntimeErr
      else result_bind (qd_search qd (qd_dense qd query) (effective_limit (qs_top_k qs) (qs_manual_max_limit qs) exclude)
                          (excluded_points qd exclude))
             (\<lambda>hits. Inr (JList (map manual_hit (take (qs_top_k qs) hits)))))"

definition history_payload :: "hit \<Rightarrow> (string \<times> json) list" where
  "history_payload h = dict_set ''_point_id'' (JStr (h_id h)) (dict_set ''_score'' (JNum (h_score h)) (h_payload h))"

fun candidates_of :: "(string \<times> json) list list \<Rightarrow> rerank_candidate list result" where
  "candidates_of [] = Inr []"
| "candidates_of (c # cs) =
     result_bind (dict_text c ''description'') (\<lambda>description.
     result_bind (dict_text c ''sql'') (\<lambda>sql.
     result_bind (candidates_of cs) (\<lambda>rest.
       Inr (\<lparr>rc_text = description @ '' '' @ sql, rc_payload = c,
             rc_score = (case obj_get c ''_score'' (JNum 0) of JNum q \<Rightarrow> q | _ \<Rightarrow> 0), rc_rerank_score = 0\<rparr> # rest))))"

definition reranked_dict :: "rerank_candidate \<Rightarrow> json" where
  "reranked_dict c =
     JObj (dict_set ''similarity'' (JNum (rc_rerank_score c)) (dict_set ''_score'' (JNum (rc_rerank_score c)) (rc_payload c)))"

definition rerank_results ::
  "rerank_settings \<Rightarrow> (string \<Rightarrow> string list \<Rightarrow> rat list result) \<Rightarrow> string \<Rightarrow> (string \<times> json) list list \<Rightarrow> nat \<Rightarrow> json list result" where
  "rerank_results rk backend query payloads top_k =
     result_bind (candidates_of payloads) (\<lambda>cs.
     result_bind (rerank rk backend query cs top_k) (\<lambda>(best, stats). Inr (map reranked_dict best)))"

definition search_sql_history ::
  "qdrant_settings \<Rightarrow> qdrant \<Rightarrow> rerank_settings \<Rightarrow> (string \<Rightarrow> string list \<Rightarrow> rat list result) \<Rightarrow> string \<Rightarrow> string list \<Rightarrow> json result" where
  "search_sql_history qs qd rk backend query exclude =
     (if \<not> qd_ready qd then Inl RuntimeErr
      else result_bind (embedding_of (qd_to_int qd) (qd_encode qd query)) (\<lambda>emb.
           result_bind (qd_query_points qd emb (effective_limit (qs_prefetch_limit qs) (qs_max_prefetch qs) exclude)
                          (excluded_points qd exclude)) (\<lambda>hits.
           result_bind (rerank_results rk backend query (map history_payload hits) (qs_history_top_k qs))
             (\<lambda>ds. Inr (JList ds)))))"

text \<open>The searches as the tools call them.\<close>

definition vector_tools ::
  "qdrant_settings \<Rightarrow> qdrant \<Rightarrow> rerank_settings \<Rightarrow> (string \<Rightarrow> string list \<Rightarrow> rat list result) \<Rightarrow> tool_env \<Rightarrow> tool_env" where
  "vector_tools qs qd rk backend te =
     te\<lparr>te_sql_history := search_sql_history qs qd rk backend, te_manual := search_manual qs qd\<rparr>"

section \<open>Properties of the reranker\<close>

lemma sorted_filter_take:
  "sorted (map f xs) \<Longrightarrow> \<exists>k. filter (\<lambda>x. f x \<le> a) xs = take k xs" for f :: "'a \<Rightarrow> 'b :: linorder"
proof (induction xs)
  case (Cons x xs)
  show ?case
  proof (cases "f x \<le> a")
    case True
    from Cons obtain k where "filter (\<lambda>x. f x \<le> a) xs = take k xs" by auto
    with True have "filter (\<lambda>x. f x \<le> a) (x # xs) = take (Suc k) (x # xs)" by simp
    then show ?thesis by blast
  next
    case False
    with Cons.prems have "filter (\<lambda>x. f x \<le> a) (x # xs) = take 0 (x # xs)" by (force simp: filter_empty_conv)
    then show ?thesis by blast
  qed
qed simp

text \<open>
  The filter before the scoring keeps the best candidates by the store's score: all that reach the
  threshold, and never fewer than the minimum while there are candidates.
\<close>

theorem prefilter_keeps_best:
  assumes "0 < rk_score_threshold rk"
  shows "(\<exists>k. prefilter rk cs = take k (sort_by_score cs)) \<and>
    min (rk_min_candidates rk) (length cs) \<le> length (prefilter rk cs) \<and>
    {c \<in> set cs. rk_score_threshold rk \<le> rc_score c} \<subseteq> set (prefilter rk cs)"
proof -
  define kept where "kept = filter (\<lambda>c. rc_score c \<ge> rk_score_threshold rk) (sort_by_score cs)"
  have "sorted (map (\<lambda>c. - rc_score c) (sort_by_score cs))" by (simp add: sort_by_score_def)
  from sorted_filter_take [OF this, of "- rk_score_threshold rk"]
  obtain k where k: "kept = take k (sort_by_score cs)" by (auto simp: kept_def)
  have n: "length (sort_by_score cs) = length cs" by (simp add: sort_by_score_def)
  have all: "{c \<in> set cs. rk_score_threshold rk \<le> rc_score c} = set kept" by (auto simp: kept_def sort_by_score_def)
  have pre: "prefilter rk cs = (if length kept < rk_min_candidates rk
      then take (max (rk_min_candidates rk) (length kept)) (sort_by_score cs) else kept)"
    using assms by (simp add: prefilter_def kept_def Let_def)
  show ?thesis
  proof (cases "length kept < rk_min_candidates rk")
    case True
    then have p: "prefilter rk cs = take (rk_min_candidates rk) (sort_by_score cs)" by (simp add: pre max_def)
    have "kept = take (length kept) (sort_by_score cs)" by (simp add: k min_def)
    then have "set kept \<subseteq> set (take (rk_min_candidates rk) (sort_by_score cs))"
      using True set_take_subset_set_take [of "length kept" "rk_min_candidates rk" "sort_by_score cs"] by simp
    with p n all show ?thesis by auto
  next
    case False
    with pre k n all show ?thesis by auto
  qed
qed

lemma fold_update_length: "length (fold (\<lambda>o' s. s[o' := g o']) os s0) = length s0"
  by (induction os arbitrary: s0) auto

lemma fold_update_nth:
  "j < length s0 \<Longrightarrow> fold (\<lambda>o' s. s[o' := g o']) os s0 ! j = (if j \<in> set os then g j else s0 ! j)"
  by (induction os arbitrary: s0) (auto simp: nth_list_update)

lemma fold_zip_update:
  "(\<And>j. j < length os \<Longrightarrow> S ! (k + j) = g (os ! j)) \<Longrightarrow>
   fold (\<lambda>(i, o') s. s[o' := S ! i]) (zip [k..<k + length os] os) s0 = fold (\<lambda>o' s. s[o' := g o']) os s0"
proof (induction os arbitrary: k s0)
  case (Cons o' os)
  have "S ! (Suc k + j) = g (os ! j)" if "j < length os" for j using Cons.prems [of "Suc j"] that by simp
  from Cons.IH [OF this] Cons.prems [of 0] show ?case by (simp add: upt_rec)
qed simp

text \<open>
  Sorting the pairs by length for the model does not mix up the scores: with a model that scores
  each pair by itself, the backend gives every document its own score, in the order asked for.
\<close>

theorem scores_in_document_order:
  assumes "\<And>ps. infer ps = map f ps"
  shows "compute_scores infer query documents = map (\<lambda>d. f (query, d)) documents"
proof -
  define n where "n = length documents"
  define ps where "ps = sort_key (\<lambda>p. py_len (snd p)) (zip [0..<n] documents)"
  define os where "os = map fst ps"
  have len: "length os = n" by (simp add: os_def ps_def n_def)
  have mem: "p \<in> set ps \<Longrightarrow> fst p < n \<and> snd p = documents ! fst p" for p
    by (auto simp: ps_def n_def set_zip)
  have os_set: "set os = {0..<n}"
    by (force simp: os_def ps_def n_def set_zip image_def)
  have "infer (map (\<lambda>p. (query, snd p)) ps) ! (0 + j) = f (query, documents ! (os ! j))" if "j < length os" for j
    using that mem [of "ps ! j"] by (simp add: assms os_def)
  from fold_zip_update [where g = "\<lambda>o'. f (query, documents ! o')", OF this]
  have "compute_scores infer query documents = fold (\<lambda>o' s. s[o' := f (query, documents ! o')]) os (replicate n 0)"
    by (simp add: compute_scores_def sort_by_length_def Let_def n_def [symmetric] ps_def [symmetric] os_def [symmetric])
  moreover have "\<dots> = map (\<lambda>d. f (query, d)) documents"
    by (rule nth_equalityI) (simp_all add: fold_update_length fold_update_nth os_set n_def)
  ultimately show ?thesis by simp
qed

lemma scores_in_document_order_witness:
  "compute_scores (map (\<lambda>p. of_nat (length (snd p)))) ''q'' [''long text'', ''x'', ''ab''] = [9, 1, 2]"
  by (subst scores_in_document_order [OF refl]) simp

text \<open>
  A rerank answers with at most \<open>top_k\<close> candidates, best first by the model's score, and only with
  candidates it was given.
\<close>

lemma take_by_score: "c \<in> set (take n (sort_by_score cs)) \<Longrightarrow> c \<in> set cs"
  using set_take_subset [of n "sort_by_score cs"] by (auto simp: sort_by_score_def)

lemma scored_payload:
  "c \<in> set (map set_rerank_score (zip cs scores) @ drop n cs) \<Longrightarrow> \<exists>c0 \<in> set cs. rc_payload c = rc_payload c0"
  by (auto simp: set_rerank_score_def dest: set_zip_leftD in_set_dropD)

lemma prefilter_subset: "set (prefilter rk cs) \<subseteq> set cs"
  by (auto simp: prefilter_def Let_def sort_by_score_def dest: in_set_takeD)

lemma rerank_payloads:
  assumes "rerank rk backend query cs top_k = Inr (best, st)" "c \<in> set best"
  shows "\<exists>c0 \<in> set cs. rc_payload c = rc_payload c0"
proof -
  have "c \<in> set (take top_k (sort_by_score cs)) \<or>
    (\<exists>scores. c \<in> set (map set_rerank_score (zip (prefilter rk cs) scores) @ drop (length scores) (prefilter rk cs)))"
    using assms
    by (auto simp: rerank_def Let_def result_bind_Inr_iff split: if_splits dest!: in_set_takeD)
  then show ?thesis
  proof
    assume "c \<in> set (take top_k (sort_by_score cs))"
    then show ?thesis using take_by_score by blast
  next
    assume "\<exists>scores. c \<in> set (map set_rerank_score (zip (prefilter rk cs) scores) @ drop (length scores) (prefilter rk cs))"
    then show ?thesis using scored_payload prefilter_subset by blast
  qed
qed

lemma rerank_length: "rerank rk backend query cs top_k = Inr (best, st) \<Longrightarrow> length best \<le> top_k"
  by (auto simp: rerank_def Let_def result_bind_Inr_iff split: if_splits)

theorem rerank_best_first:
  assumes "rerank rk backend query cs top_k = Inr (best, st)" "rk_enabled rk"
  shows "length best \<le> top_k \<and> sorted (map (\<lambda>c. - rc_rerank_score c) best)"
  using assms rerank_length [OF assms(1)]
  by (auto simp: rerank_def Let_def result_bind_Inr_iff take_map [symmetric] intro!: sorted_wrt_take split: if_splits)

section \<open>Properties of the searches\<close>

lemma candidates_payloads: "candidates_of ds = Inr cs \<Longrightarrow> map rc_payload cs = ds \<and> (\<forall>c\<in>set cs. rc_rerank_score c = 0)"
  by (induction ds arbitrary: cs) (auto simp: result_bind_Inr_iff)

lemma map_of_sets: "k \<noteq> k' \<Longrightarrow> map_of (dict_set k' v d) k = map_of d k"
  by (simp add: map_of_dict_set)

lemma history_point: "map_of (history_payload h) ''_point_id'' = Some (JStr (h_id h))"
  by (simp add: history_payload_def map_of_dict_set)

definition returned_id :: "json \<Rightarrow> string option" where
  "returned_id d = (case d of JObj kvs \<Rightarrow> (case map_of kvs ''_point_id'' of Some (JStr i) \<Rightarrow> Some i | _ \<Rightarrow> None) | _ \<Rightarrow> None)"

lemma returned_reranked: "returned_id (reranked_dict c) = returned_id (JObj (rc_payload c))"
  by (simp add: returned_id_def reranked_dict_def map_of_dict_set)

lemma returned_history: "returned_id (JObj (history_payload h)) = Some (h_id h)"
  by (simp add: returned_id_def history_point)

lemma reranked_ids:
  assumes "rerank_results rk backend query (map history_payload hits) top_k = Inr ds" "d \<in> set ds"
  shows "\<exists>h \<in> set hits. returned_id d = Some (h_id h)"
proof -
  from assms obtain cs best st c where c: "candidates_of (map history_payload hits) = Inr cs"
    "rerank rk backend query cs top_k = Inr (best, st)" "c \<in> set best" "d = reranked_dict c"
    by (auto simp: rerank_results_def result_bind_Inr_iff)
  from rerank_payloads [OF c(2,3)] obtain c0 where c0: "c0 \<in> set cs" "rc_payload c = rc_payload c0" by blast
  from candidates_payloads [OF c(1)] c0(1) obtain h where "h \<in> set hits" "rc_payload c0 = history_payload h"
    by (metis (no_types, opaque_lifting) image_eqI image_iff list.set_map)
  then show ?thesis using c(4) c0(2) returned_reranked [of c] returned_history [of h] by auto
qed

text \<open>A store that keeps its filter: it never answers with an excluded point.\<close>

definition not_excluded :: "qdrant \<Rightarrow> point_id list \<Rightarrow> hit \<Rightarrow> bool" where
  "not_excluded qd ids h \<longleftrightarrow> hd (parse_point_ids (qd_to_int qd) [Str_id (h_id h)]) \<notin> set ids"

definition keeps_filter :: "qdrant \<Rightarrow> bool" where
  "keeps_filter qd \<longleftrightarrow>
     (\<forall>emb n ids hits. qd_query_points qd emb n ids = Inr hits \<longrightarrow> list_all (not_excluded qd ids) hits) \<and>
     (\<forall>v n ids hits. qd_search qd v n ids = Inr hits \<longrightarrow> list_all (not_excluded qd ids) hits)"

lemma excluded_new: "not_excluded qd (excluded_points qd exclude) h \<Longrightarrow> h_id h \<notin> set exclude"
  by (auto simp: not_excluded_def excluded_points_def parse_point_ids_def)

text \<open>
  What the exploration relies on in a search of points: its answer is a list of points that are
  not among the excluded ones, as long as the store keeps its filter.
\<close>

locale point_search =
  fixes search :: "qdrant_settings \<Rightarrow> qdrant \<Rightarrow> string \<Rightarrow> string list \<Rightarrow> json result"
    and limit :: "qdrant_settings \<Rightarrow> nat"
  assumes new_points: "keeps_filter qd \<Longrightarrow> search qs qd query exclude = Inr answer \<Longrightarrow>
      \<exists>ds. answer = JList ds \<and> length ds \<le> limit qs \<and>
        (\<forall>d \<in> set ds. \<exists>i. returned_id d = Some i \<and> i \<notin> set exclude)"
begin

lemma safe_new:
  assumes "keeps_filter qd" "safe_search (search qs qd query exclude) = Inr answer"
  obtains ds where "answer = JList ds" "length ds \<le> limit qs"
    "\<forall>d \<in> set ds. \<exists>i. returned_id d = Some i \<and> i \<notin> set exclude"
  using assms new_points by (fastforce simp: safe_search_def result_bind_Inr_iff)

lemma tool_new:
  assumes "keeps_filter qd" "tool \<in> set QDRANT_TOOLS"
    and "\<And>ex. rv_tool env tool inp ex = safe_search (search qs qd query ex)"
    and "execute_tool env tool inp exclude = Inr answer"
  shows "\<exists>ds. answer = JList ds \<and> length ds \<le> limit qs \<and> (\<forall>d \<in> set ds. \<exists>i. returned_id d = Some i \<and> i \<notin> set exclude)"
proof -
  have "tool \<in> set TOOL_MAP" using assms(2) by (auto simp: QDRANT_TOOLS_def TOOL_MAP_def)
  then have "safe_search (search qs qd query exclude) = Inr answer" using assms(2-4) by (simp add: execute_tool_def)
  from safe_new [OF assms(1) this] show ?thesis by blast
qed

end

lemma history_new:
  assumes "keeps_filter qd" "search_sql_history qs qd rk backend query exclude = Inr answer"
  shows "\<exists>ds. answer = JList ds \<and> length ds \<le> qs_history_top_k qs \<and>
    (\<forall>d \<in> set ds. \<exists>i. returned_id d = Some i \<and> i \<notin> set exclude)"
proof -
  from assms(2) obtain emb hits ds where h:
      "qd_query_points qd emb (effective_limit (qs_prefetch_limit qs) (qs_max_prefetch qs) exclude) (excluded_points qd exclude) = Inr hits"
      "rerank_results rk backend query (map history_payload hits) (qs_history_top_k qs) = Inr ds" "answer = JList ds"
    by (auto simp: search_sql_history_def result_bind_Inr_iff split: if_splits)
  have "h_id x \<notin> set exclude" if "x \<in> set hits" for x
    using assms(1) h(1) that by (intro excluded_new [of qd]) (auto simp: keeps_filter_def list_all_iff)
  moreover have "length ds \<le> qs_history_top_k qs"
    using h(2) by (auto simp: rerank_results_def result_bind_Inr_iff dest: rerank_length)
  ultimately show ?thesis using reranked_ids [OF h(2)] h(3) by metis
qed

lemma manual_new:
  assumes "keeps_filter qd" "search_manual qs qd query exclude = Inr answer"
  shows "\<exists>ds. answer = JList ds \<and> length ds \<le> qs_top_k qs \<and>
    (\<forall>d \<in> set ds. \<exists>i. returned_id d = Some i \<and> i \<notin> set exclude)"
proof -
  from assms(2) obtain hits where h:
      "qd_search qd (qd_dense qd query) (effective_limit (qs_top_k qs) (qs_manual_max_limit qs) exclude) (excluded_points qd exclude) = Inr hits"
      "answer = JList (map manual_hit (take (qs_top_k qs) hits))"
    by (auto simp: search_manual_def result_bind_Inr_iff split: if_splits)
  have "h_id x \<notin> set exclude" if "x \<in> set hits" for x
    using assms(1) h(1) that by (intro excluded_new [of qd]) (auto simp: keeps_filter_def list_all_iff)
  moreover have "returned_id (manual_hit x) = Some (h_id x)" for x
    by (simp add: manual_hit_def returned_id_def map_of_dict_set)
  ultimately show ?thesis using h(2) by (auto dest: in_set_takeD)
qed

interpretation history: point_search "\<lambda>qs qd. search_sql_history qs qd rk backend" qs_history_top_k for rk backend
  by unfold_locales (rule history_new)

interpretation manuals: point_search search_manual qs_top_k
  by unfold_locales (rule manual_new)

section \<open>The exploration brings new earlier SQL\<close>

lemma enriched_id: "returned_id (enrich_one fetched codes known h uc) = returned_id uc"
  by (cases uc) (auto simp: enrich_one_def Let_def returned_id_def map_of_dict_set)

lemma enriched_ids:
  assumes "enrich_use_cases cfg dbs env kc ucs b = (b1, Inr out)" "uc \<in> set out"
  shows "\<exists>u \<in> set ucs. returned_id uc = returned_id u"
  using assms by (fastforce simp: enrich_use_cases_def Let_def enriched_id dest: set_zip_rightD split: sum.splits prod.splits)

lemma batch_members:
  "run_batch cfg dbs env kc seen n sts b = (b1, Inr sts1) \<Longrightarrow> st1 \<in> set sts1 \<Longrightarrow>
   st1 \<in> set sts \<or> (\<exists>st b0 b2. st \<in> set sts \<and> is_pending st \<and> run_step cfg dbs env kc seen st b0 = (b2, Inr st1))"
  by (induction cfg dbs env kc seen n sts b arbitrary: b1 sts1 rule: run_batch.induct)
     (auto split: if_splits prod.splits sum.splits, blast+)

lemma new_case_of_step:
  assumes "run_step cfg dbs (env\<lparr>rv_tool := tool_answer cfg dbs (vector_tools qs qd rk backend te)\<rparr>) kc seen st b = (b1, Inr st1)"
    and "keeps_filter qd" "es_tool st = ''search_use_cases''" "es_raw_result st = None" "es_status st1 = Step_DONE"
    and "es_raw_result st1 = Some raw"
  shows "\<exists>ucs. raw = JObj [(''use_cases'', JList ucs)] \<and> (\<forall>uc \<in> set ucs. \<exists>i. returned_id uc = Some i \<and>
    i \<notin> set (case map_of seen ''search_use_cases'' of None \<Rightarrow> [] | Some ids \<Rightarrow> ids))"
proof -
  let ?env = "env\<lparr>rv_tool := tool_answer cfg dbs (vector_tools qs qd rk backend te)\<rparr>"
  let ?ex = "case map_of seen ''search_use_cases'' of None \<Rightarrow> [] | Some ids \<Rightarrow> ids"
  have tool: "''search_use_cases'' \<in> set QDRANT_TOOLS" "''search_use_cases'' \<notin> set TABLE_META_TOOLS"
    by (simp_all add: QDRANT_TOOLS_def TABLE_META_TOOLS_def)
  from assms(1,5) obtain inp where run: "run_tool cfg dbs ?env kc seen (st\<lparr>es_input := inp\<rparr>) b = (b1, Inr st1)"
    by (auto simp: run_step_def failed_step_def Let_def split: sum.splits prod.splits py_error.splits)
  from run assms(3) obtain answer where ans: "execute_tool ?env ''search_use_cases'' inp ?ex = Inr answer"
    by (auto simp: run_tool_def Let_def split: sum.splits)
  have "rv_tool ?env ''search_use_cases'' inp ex =
      safe_search (search_sql_history qs qd rk backend (fst (paged_input (vector_tools qs qd rk backend te) inp)) ex)" for ex
    by (simp add: tool_answer_def tool_search_use_cases_def vector_tools_def)
  from history.tool_new [OF assms(2) tool(1) this ans] obtain ds where ds: "answer = JList ds"
    "\<forall>d \<in> set ds. \<exists>i. returned_id d = Some i \<and> i \<notin> set ?ex" by blast
  from run assms(3,4,6) ans tool(2)
  have "\<exists>b2 b3. apply_tool_result cfg dbs ?env kc ''search_use_cases'' (JList ds) b2 = (b3, Inr (Some raw))"
    by (auto simp: run_tool_def Let_def ds(1) simp del: split_paired_All split_paired_Ex split: sum.splits prod.splits option.splits)
      (rule exI, rule exI, assumption)+
  then obtain b2 b3 where out: "apply_tool_result cfg dbs ?env kc ''search_use_cases'' (JList ds) b2 = (b3, Inr (Some raw))"
    by blast
  then obtain b4 ucs where e: "enrich_use_cases cfg dbs ?env kc ds b2 = (b4, Inr ucs)" "raw = JObj [(''use_cases'', JList ucs)]"
    by (auto simp: apply_tool_result_def split: if_splits prod.splits sum.splits)
  with enriched_ids [OF e(1)] ds(2) show ?thesis by metis
qed

lemma marked_pending:
  "st \<in> set (marked_plan r) \<Longrightarrow> is_pending st \<Longrightarrow> st \<in> set (execution_plan r)"
  by (auto simp: marked_plan_def mark_skipped_def should_skip_step_def is_pending_def split: if_splits option.splits)


definition sample_hits :: "hit list" where
  "sample_hits = [\<lparr>h_id = ''7'', h_score = 1 / 2, h_payload = [(''sql'', JStr ''SELECT 1'')]\<rparr>]"

definition sample_qdrant :: qdrant where
  "sample_qdrant = \<lparr>qd_ready = True, qd_to_int = \<lambda>t. None, qd_dense = \<lambda>t. [], qd_encode = \<lambda>t. ([], []),
     qd_search = \<lambda>v n ids. Inr [], qd_query_points = \<lambda>e n ids. Inr (filter (\<lambda>h. Str_id (h_id h) \<notin> set ids) sample_hits)\<rparr>"

definition sample_qdrant_settings :: qdrant_settings where
  "sample_qdrant_settings = \<lparr>qs_top_k = 3, qs_manual_max_limit = 20, qs_prefetch_limit = 10, qs_history_top_k = 5, qs_max_prefetch = 50\<rparr>"

definition no_reranker :: rerank_settings where
  "no_reranker = \<lparr>rk_enabled = False, rk_score_threshold = 0, rk_min_candidates = 15\<rparr>"

lemma sample_search:
  "search_sql_history sample_qdrant_settings sample_qdrant no_reranker (\<lambda>q ds. Inr []) ''loans'' [''3''] =
     Inr (JList [JObj [(''sql'', JStr ''SELECT 1''), (''_score'', JNum 0), (''_point_id'', JStr ''7''), (''similarity'', JNum 0)]])"
  by (simp add: search_sql_history_def sample_qdrant_def sample_qdrant_settings_def no_reranker_def sample_hits_def embedding_of_def
      effective_limit_def excluded_points_def parse_point_ids_def rerank_results_def history_payload_def dict_text_def obj_get_def
      rerank_def sort_by_score_def reranked_dict_def)

text \<open>
  Without the reranker the results keep the store's order but lose its scores: every similarity the
  model and the scorer see is 0, although the search is documented to fall back to the store's score.
\<close>

theorem disabled_reranker_loses_scores:
  assumes "rerank_results rk backend query ds top_k = Inr out" "\<not> rk_enabled rk" "JObj d \<in> set out"
  shows "map_of d ''similarity'' = Some (JNum 0) \<and> map_of d ''_score'' = Some (JNum 0)"
proof -
  from assms obtain cs c where c: "candidates_of ds = Inr cs" "c \<in> set cs" "JObj d = reranked_dict c"
    by (auto simp: rerank_results_def result_bind_Inr_iff rerank_def split: if_splits dest!: take_by_score)
  with candidates_payloads [OF c(1)] show ?thesis by (auto simp: reranked_dict_def map_of_dict_set)
qed

text \<open>The sparse vector has one positive weight per index.\<close>

lemma sparse_positive: "sparse_entries to_int ws = Inr es \<Longrightarrow> list_all (\<lambda>e. 0 < snd e) es \<and> length es \<le> length ws"
  by (induction ws arbitrary: es) (fastforce simp: result_bind_Inr_iff split: option.splits if_splits)+

theorem sparse_vector_well_formed:
  assumes "embedding_of to_int out = Inr e"
  shows "length (er_sparse_indices e) = length (er_sparse_values e) \<and> (\<forall>v \<in> set (er_sparse_values e). 0 < v)"
proof -
  from assms obtain es where "sparse_entries to_int (sort_key fst (snd out)) = Inr es" "er_sparse_indices e = map fst es"
    "er_sparse_values e = map snd es" by (auto simp: embedding_of_def result_bind_Inr_iff)
  with sparse_positive [OF this(1)] show ?thesis by (auto simp: list_all_iff)
qed


definition seen_case :: use_case_entry where
  "seen_case = \<lparr>uc_id = ''UC-1'', uc_description = [], uc_sql = [], uc_domain = [], uc_score = 0, uc_point_id = ''3'',
     uc_source_step = 1, uc_hypothesis_id = ''H1'', uc_relevant = True, uc_eval_reason = [], uc_enrichment_tables = [],
     uc_enrichment_codes = []\<rparr>"

definition quiet_tools :: tool_env where
  "quiet_tools = \<lparr>te_table_meta = \<lambda>q ns p. Inr (JList []), te_code_meta = \<lambda>q p. Inr (JList []),
     te_biz_terms = \<lambda>q p. Inr (JList []), te_sql_history = \<lambda>q ex. Inr (JList []), te_manual = \<lambda>q ex. Inr (JList []),
     te_run = \<lambda>db q. Inr (JList []), te_int = \<lambda>t. None, te_show = \<lambda>v. []\<rparr>"

definition sample_tool_env :: retriever_env where
  "sample_tool_env = sample_env\<lparr>rv_tool := tool_answer default_settings []
     (vector_tools sample_qdrant_settings sample_qdrant no_reranker (\<lambda>q ds. Inr []) quiet_tools)\<rparr>"

definition case_state :: pipeline_state where
  "case_state = new_pipeline_state\<lparr>reason := new_reasoning_state
     \<lparr>execution_plan := [sample_step ''search_use_cases'' ''loans''], explored_use_cases := [seen_case]\<rparr>\<rparr>"

definition found_case :: json where
  "found_case = JObj [(''sql'', JStr ''SELECT 1''), (''_score'', JNum 0), (''_point_id'', JStr ''7''), (''similarity'', JNum 0),
     (''enrichment_tables'', JList []), (''enrichment_codes'', JObj [])]"

definition found_step :: execution_step where
  "found_step = (sample_step ''search_use_cases'' ''loans'')
     \<lparr>es_status := Step_DONE, es_raw_result := Some (JObj [(''use_cases'', JList [found_case])])\<rparr>"

lemma loans_input: "fst (paged_input te ''loans'') = ''loans''"
  by (simp add: paged_input_def extract_page_def stripped_parts_def page_step_def py_strip_def py_lstrip_def py_rstrip_def
      is_ascii_space_def)

lemma sample_case_answer: "tool_answer default_settings [] (vector_tools sample_qdrant_settings sample_qdrant no_reranker (\<lambda>q ds. Inr []) quiet_tools)
    ''search_use_cases'' ''loans'' [''3''] = Inr (JList [JObj [(''sql'', JStr ''SELECT 1''), (''_score'', JNum 0),
      (''_point_id'', JStr ''7''), (''similarity'', JNum 0)]])"
  by (simp add: tool_answer_def tool_search_use_cases_def loans_input vector_tools_def sample_search safe_search_def)

lemma sample_case_run: "\<exists>s'. context_retriever_node default_settings [] sample_tool_env case_state = Inr s' \<and>
    execution_plan (reason s') = [found_step]"
  by (simp add: context_retriever_node_def marked_plan_def mark_skipped_def should_skip_step_def skip_reason_def case_state_def
      new_reasoning_state_def sample_step_def steps_to_run_def is_pending_def default_settings_def new_loop_guard_def
      py_take_nonneg run_step_def qualify_table_in_input_def DB_QUERY_TOOLS_def run_tool_def execute_tool_def
      sample_tool_env_def sample_env_def TOOL_MAP_def QDRANT_TOOLS_def extract_tables_def TABLE_META_TOOLS_def apply_tool_result_def Let_def
      seen_ids_def seen_case_def found_step_def found_case_def sample_case_answer [unfolded default_settings_def] enrich_use_cases_def
      use_case_hints_def obj_get_def first_occurrences_def enrich_one_def)



end
