(* ===== verification/OntologyCache.thy ===== *)
theory OntologyCache imports Enums begin

text \<open>
  The graph searches, \<open>src/src/connectors/impl/neo4j_connector.py\<close>: the clamped path length and the
  cache with a time limit and a bound on its entries.  The server's answer to a query and the clock
  are arguments; the mode without a server is left out.
\<close>

section \<open>The cache\<close>

type_synonym cypher_cache = "(string \<times> rat \<times> json list) list"

record cache_settings =
  cs_ttl :: rat
  cs_max_entries :: nat
  cs_max_path_hops :: int

text \<open>Every exception of the driver but a cancellation is an empty answer.\<close>

definition execute_cypher :: "json list result \<Rightarrow> json list result" where
  "execute_cypher answer = (case answer of Inl CancelledErr \<Rightarrow> Inl CancelledErr | Inl e \<Rightarrow> Inr [] | Inr rs \<Rightarrow> Inr rs)"

definition forget :: "string \<Rightarrow> cypher_cache \<Rightarrow> cypher_cache" where
  "forget key cache = filter (\<lambda>e. fst e \<noteq> key) cache"

text \<open>\<open>while len(cache) > max: cache.popitem(last=False)\<close>\<close>

definition trim_cache :: "nat \<Rightarrow> cypher_cache \<Rightarrow> cypher_cache" where
  "trim_cache limit cache = drop (length cache - limit) cache"

definition execute_cypher_cached ::
  "cache_settings \<Rightarrow> rat \<Rightarrow> string \<Rightarrow> json list result \<Rightarrow> cypher_cache \<Rightarrow> json list result \<times> cypher_cache" where
  "execute_cypher_cached cs now key answer cache =
     (let ask = (\<lambda>c. case execute_cypher answer of
                   Inl e \<Rightarrow> (Inl e, c)
                 | Inr rs \<Rightarrow> (Inr rs, trim_cache (cs_max_entries cs) (c @ [(key, now, rs)])))
      in case map_of cache key of
           Some (ts, data) \<Rightarrow>
             if now - ts < cs_ttl cs then (Inr data, forget key cache @ [(key, ts, data)])
             else ask (forget key cache)
         | None \<Rightarrow> ask cache)"

definition invalidate_cache :: "cypher_cache \<Rightarrow> cypher_cache" where
  "invalidate_cache cache = []"

section \<open>The searches\<close>

text \<open>\<open>min(max_hops or limit, limit)\<close>, then between 1 and 10.\<close>

definition path_hops :: "cache_settings \<Rightarrow> int option \<Rightarrow> int" where
  "path_hops cs max_hops =
     (let raw = (case max_hops of Some h \<Rightarrow> if h \<noteq> 0 then h else cs_max_path_hops cs | None \<Rightarrow> cs_max_path_hops cs)
      in max 1 (min (min raw (cs_max_path_hops cs)) 10))"

text \<open>The five searches: the key of the cache; \<open>server\<close> answers a key's query with its parameters.\<close>

definition search_join_paths ::
  "cache_settings \<Rightarrow> (string \<Rightarrow> int \<Rightarrow> json list result) \<Rightarrow> rat \<Rightarrow> string \<Rightarrow> string \<Rightarrow> int option \<Rightarrow> cypher_cache \<Rightarrow>
   json list result \<times> cypher_cache" where
  "search_join_paths cs server now source target max_hops cache =
     (let key = ''join:'' @ source @ '':'' @ target
      in execute_cypher_cached cs now key (server key (path_hops cs max_hops)) cache)"

definition keyed_search ::
  "string \<Rightarrow> cache_settings \<Rightarrow> (string \<Rightarrow> json list result) \<Rightarrow> rat \<Rightarrow> string \<Rightarrow> cypher_cache \<Rightarrow> json list result \<times> cypher_cache" where
  "keyed_search prefix cs server now name cache =
     execute_cypher_cached cs now (prefix @ '':'' @ name) (server (prefix @ '':'' @ name)) cache"

definition search_domain_tables where "search_domain_tables = keyed_search ''domain''"
definition search_formula where "search_formula = keyed_search ''formula''"
definition search_code_hierarchy where "search_code_hierarchy = keyed_search ''code''"
definition search_table_relations where "search_table_relations = keyed_search ''rel''"

section \<open>The cache as a list of recent keys\<close>

text \<open>The specification: the last keys asked for, each once, the latest at the end.\<close>

definition recent :: "nat \<Rightarrow> 'a list \<Rightarrow> 'a list" where
  "recent n ks = drop (length (remdups ks) - n) (remdups ks)"

lemma remdups_snoc: "remdups (ks @ [k]) = filter (\<lambda>x. x \<noteq> k) (remdups ks) @ [k]"
  by (induction ks) auto

lemma filter_absent: "k \<notin> set xs \<Longrightarrow> filter (\<lambda>x. x \<noteq> k) xs = xs"
  by (induction xs) auto

lemma filter_one: "distinct xs \<Longrightarrow> k \<in> set xs \<Longrightarrow> Suc (length (filter (\<lambda>x. x \<noteq> k) xs)) = length xs"
  by (induction xs) (auto simp: filter_absent)

lemma recent_snoc:
  "recent n (ks @ [k]) =
     (if k \<in> set (recent n ks) then filter (\<lambda>x. x \<noteq> k) (recent n ks) @ [k]
      else drop (Suc (length (recent n ks)) - n) (recent n ks @ [k]))"
proof -
  define R where "R = remdups ks"
  define A where "A = take (length R - n) R"
  define C where "C = drop (length R - n) R"
  have R: "R = A @ C" by (simp add: A_def C_def)
  have d: "distinct R" by (simp add: R_def)
  have C: "recent n ks = C" by (simp add: recent_def C_def R_def)
  have new: "recent n (ks @ [k]) = drop (Suc (length (filter (\<lambda>x. x \<noteq> k) R)) - n) (filter (\<lambda>x. x \<noteq> k) R @ [k])"
    unfolding recent_def remdups_snoc R_def [symmetric] by simp
  have lenA: "length A = length R - n" by (simp add: A_def)
  have lenC: "length C = min n (length R)" by (simp add: C_def)
  show ?thesis
  proof (cases "k \<in> set C")
    case True
    then have "k \<notin> set A" using d R by auto
    then have f: "filter (\<lambda>x. x \<noteq> k) R = A @ filter (\<lambda>x. x \<noteq> k) C" by (simp add: R filter_absent)
    have "k \<in> set R" using True R by simp
    with filter_one [OF d this] have "Suc (length (filter (\<lambda>x. x \<noteq> k) R)) = length R" by simp
    note this f
    with True lenA show ?thesis by (simp add: new C)
  next
    case False
    show ?thesis
    proof (cases "k \<in> set A")
      case True
      then have "0 < length A" by (cases A) auto
      then have full: "n \<le> length R" "length C = n" using lenA lenC by auto
      have f: "filter (\<lambda>x. x \<noteq> k) R = filter (\<lambda>x. x \<noteq> k) A @ C" using False by (simp add: R filter_absent)
      have "distinct A" using d R by simp
      from filter_one [OF this True] have "Suc (length (filter (\<lambda>x. x \<noteq> k) A)) = length A" .
      then have "length (filter (\<lambda>x. x \<noteq> k) A) = length A - 1" by simp
      moreover have "length A = length (filter (\<lambda>x. x \<noteq> k) A) + 1" using \<open>Suc _ = length A\<close> by simp
      ultimately show ?thesis using f full False by (simp add: new C)
    next
      case k: False
      then have f: "filter (\<lambda>x. x \<noteq> k) R = A @ C" using False R filter_absent by (metis Un_iff set_append)
      show ?thesis
      proof (cases "n \<le> length R")
        case True
        then have "length C = n" using lenC by simp
        then show ?thesis using f False by (simp add: new C)
      next
        case False
        then have "A = []" using lenA by auto
        with f \<open>k \<notin> set C\<close> show ?thesis by (simp add: new C)
      qed
    qed
  qed
qed

section \<open>Properties\<close>

definition cache_keys :: "cypher_cache \<Rightarrow> string list" where
  "cache_keys cache = map fst cache"

lemma keys_forget: "cache_keys (forget key cache) = filter (\<lambda>k. k \<noteq> key) (cache_keys cache)"
  by (simp add: cache_keys_def forget_def filter_map comp_def)

lemma keys_trim: "cache_keys (trim_cache n cache) = drop (length cache - n) (cache_keys cache)"
  by (simp add: cache_keys_def trim_cache_def drop_map)

lemma in_keys: "map_of cache key \<noteq> None \<longleftrightarrow> key \<in> set (cache_keys cache)"
  by (simp add: cache_keys_def map_of_eq_None_iff)

lemma keys_length: "length (cache_keys cache) = length cache"
  by (simp add: cache_keys_def)

lemma answered:
  assumes "answer \<noteq> Inl CancelledErr"
  obtains rs where "execute_cypher answer = Inr rs"
proof (cases answer)
  case (Inl e)
  with assms show ?thesis by (cases e) (auto simp: execute_cypher_def intro: that)
qed (auto simp: execute_cypher_def intro: that)

text \<open>One search that is answered, with every entry young enough, moves its key to the end of the recent ones.\<close>

lemma answered_search_keys:
  assumes "\<forall>e \<in> set cache. now - fst (snd e) < cs_ttl cs" "answer \<noteq> Inl CancelledErr"
    and "cache_keys cache = recent (cs_max_entries cs) ks"
  shows "cache_keys (snd (execute_cypher_cached cs now key answer cache)) = recent (cs_max_entries cs) (ks @ [key])"
proof (cases "map_of cache key")
  case None
  then have out: "key \<notin> set (cache_keys cache)" using in_keys [of cache key] by simp
  obtain rs where "execute_cypher answer = Inr rs" using assms(2) by (rule answered)
  with None have "cache_keys (snd (execute_cypher_cached cs now key answer cache)) =
      drop (Suc (length cache) - cs_max_entries cs) (cache_keys cache @ [key])"
    by (simp add: execute_cypher_cached_def keys_trim) (simp add: cache_keys_def)
  then show ?thesis using out assms(3) keys_length [of cache] by (simp add: recent_snoc)
next
  case (Some e)
  then have "now - fst e < cs_ttl cs" using assms(1) map_of_SomeD [OF Some] by force
  moreover have "key \<in> set (cache_keys cache)" using in_keys [of cache key] Some by simp
  ultimately have "key \<in> set (recent (cs_max_entries cs) ks)"
    "snd (execute_cypher_cached cs now key answer cache) = forget key cache @ [(key, fst e, snd e)]"
    using Some assms(3) by (auto simp: execute_cypher_cached_def split: prod.splits)
  then show ?thesis
    using assms(3) keys_forget [of key cache] by (simp add: recent_snoc) (simp add: cache_keys_def)
qed

text \<open>A run of searches: the time, the key and the server's answer of each.\<close>

definition run_searches :: "cache_settings \<Rightarrow> (rat \<times> string \<times> json list result) list \<Rightarrow> cypher_cache" where
  "run_searches cs reqs = fold (\<lambda>(now, key, answer) c. snd (execute_cypher_cached cs now key answer c)) reqs []"

lemma cached_times:
  "e \<in> set (snd (execute_cypher_cached cs now key answer cache)) \<Longrightarrow>
   fst (snd e) = now \<or> (\<exists>e' \<in> set cache. fst (snd e) = fst (snd e'))"
  by (auto simp: execute_cypher_cached_def forget_def trim_cache_def Let_def
      split: option.splits sum.splits if_splits dest!: in_set_dropD map_of_SomeD) force+

lemma run_times: "e \<in> set (run_searches cs reqs) \<Longrightarrow> fst (snd e) \<in> fst ` set reqs"
proof (induction reqs arbitrary: e rule: rev_induct)
  case (snoc r reqs)
  obtain now key answer where r: "r = (now, key, answer)" by (cases r) auto
  from snoc.prems have "e \<in> set (snd (execute_cypher_cached cs now key answer (run_searches cs reqs)))"
    by (simp add: run_searches_def r)
  from cached_times [OF this] show ?case using snoc.IH by (fastforce simp: r)
qed (simp add: run_searches_def)

text \<open>
  C40: The cache is a least-recently-used cache: after searches within the time limit it holds exactly
  the last \<open>max_entries\<close> keys asked for, the latest at the end, whatever the server answered.
\<close>

theorem cache_is_lru:
  assumes "\<forall>r \<in> set reqs. \<forall>r' \<in> set reqs. fst r - fst r' < cs_ttl cs"
    and "\<forall>r \<in> set reqs. snd (snd r) \<noteq> Inl CancelledErr"
  shows "cache_keys (run_searches cs reqs) = recent (cs_max_entries cs) (map (fst \<circ> snd) reqs)"
  using assms
proof (induction reqs rule: rev_induct)
  case Nil
  show ?case by (simp add: run_searches_def cache_keys_def recent_def)
next
  case (snoc r reqs)
  obtain now key answer where r: "r = (now, key, answer)" by (cases r) auto
  have "cache_keys (run_searches cs reqs) = recent (cs_max_entries cs) (map (fst \<circ> snd) reqs)"
    using snoc.prems by (intro snoc.IH) auto
  moreover have "\<forall>e \<in> set (run_searches cs reqs). now - fst (snd e) < cs_ttl cs"
    using run_times [of _ cs reqs] snoc.prems(1) by (fastforce simp: r)
  moreover have "answer \<noteq> Inl CancelledErr" using snoc.prems(2) by (simp add: r)
  ultimately have "cache_keys (snd (execute_cypher_cached cs now key answer (run_searches cs reqs))) =
      recent (cs_max_entries cs) (map (fst \<circ> snd) reqs @ [key])"
    by (intro answered_search_keys) auto
  then show ?case by (simp add: run_searches_def r comp_def)
qed

lemma cache_is_lru_witness:
  "cache_keys (run_searches \<lparr>cs_ttl = 300, cs_max_entries = 2, cs_max_path_hops = 4\<rparr>
     [(0, ''a'', Inr []), (1, ''b'', Inr []), (2, ''a'', Inr []), (3, ''c'', Inr [])]) = [''a'', ''c'']"
  by (subst cache_is_lru) (simp_all add: recent_def)

text \<open>The cache never grows beyond its bound.\<close>

lemma trim_bounded: "length (trim_cache n c) \<le> n"
  by (simp add: trim_cache_def)

lemma forget_shorter: "map_of cache key \<noteq> None \<Longrightarrow> Suc (length (forget key cache)) \<le> length cache"
  by (induction cache) (auto simp: forget_def le_imp_less_Suc)

theorem cypher_cache_bounded:
  assumes "length cache \<le> cs_max_entries cs"
  shows "length (snd (execute_cypher_cached cs now key answer cache)) \<le> cs_max_entries cs"
  using assms forget_shorter [of cache key] trim_bounded [of "cs_max_entries cs"]
  by (auto simp: execute_cypher_cached_def Let_def split: option.splits sum.splits)

lemma cached_answer:
  "map_of cache key = Some (ts, data) \<Longrightarrow> now - ts < cs_ttl cs \<Longrightarrow> fst (execute_cypher_cached cs now key answer cache) = Inr data"
  by (simp add: execute_cypher_cached_def)

text \<open>
  An outage of the server is remembered: its empty answer is stored like a real one and given for
  the whole time limit, although the server answers again.
\<close>

theorem outage_is_cached:
  assumes "map_of cache key = None" "e \<noteq> CancelledErr" "0 < cs_max_entries cs" "later - now < cs_ttl cs"
  shows "fst (execute_cypher_cached cs later key (Inr rs) (snd (execute_cypher_cached cs now key (Inl e) cache))) = Inr []"
proof -
  have "execute_cypher (Inl e) = Inr []" using assms(2) by (cases e) (simp_all add: execute_cypher_def)
  then have c: "snd (execute_cypher_cached cs now key (Inl e) cache) = trim_cache (cs_max_entries cs) (cache @ [(key, now, [])])"
    using assms(1) by (simp add: execute_cypher_cached_def)
  obtain pre where pre: "trim_cache (cs_max_entries cs) (cache @ [(key, now, [])]) = pre @ [(key, now, [])]" "set pre \<subseteq> set cache"
    using assms(3) set_drop_subset [of "Suc (length cache) - cs_max_entries cs" cache]
    by (auto simp: trim_cache_def)
  have "map_of pre key = None" using assms(1) pre(2) by (auto simp: map_of_eq_None_iff)
  then have "map_of (pre @ [(key, now, [])]) key = Some (now, [])" by (simp add: map_add_def)
  from cached_answer [OF this assms(4)] show ?thesis by (simp add: c pre(1))
qed

text \<open>The length of a path is between 1 and 10 and never above the setting, unless that is below 1.\<close>

theorem path_hops_bounds:
  "1 \<le> path_hops cs h \<and> path_hops cs h \<le> 10 \<and> (1 \<le> cs_max_path_hops cs \<longrightarrow> path_hops cs h \<le> cs_max_path_hops cs)"
  by (auto simp: path_hops_def Let_def)

end
