(* ===== verification/ToolRenderers.thy ===== *)
theory ToolRenderers imports Tools VectorSearch ModelReaders begin

text \<open>
  The texts of the tools' results in the interpreter's prompt,
  \<open>src/src/agents/nodes/reason/tool_renderers.py\<close>.  \<open>show_json\<close> is Python's text of a value that
  is no text.  Names of tables and dates are texts, as the tools write them.
\<close>

section \<open>Parts of a block\<close>

definition quoted :: "string \<Rightarrow> string" where
  "quoted s = [CHR 0x22] @ s @ [CHR 0x22]"

definition step_header :: "execution_step \<Rightarrow> string" where
  "step_header st =
     ''### [Step '' @ str_int (es_step st) @ ''] '' @ es_tool st @ ''('' @ quoted (es_input st) @ '')'' @ newline @
     ''purpose: '' @ es_purpose st"

definition no_results :: "execution_step \<Rightarrow> string \<Rightarrow> string" where
  "no_results st what = step_header st @ newline @ newline @ ''no results: '' @ what"

definition block :: "string list \<Rightarrow> string" where
  "block lines = py_join newline lines"

definition with_dict :: "json \<Rightarrow> ((string \<times> json) list \<Rightarrow> 'a result) \<Rightarrow> 'a result" where
  "with_dict v f = (case v of JObj d \<Rightarrow> f d | _ \<Rightarrow> Inl AttributeError)"

text \<open>\<open>f"{v:.2f}"\<close> and \<open>f"{v:,}"\<close>; a text has no such format, \<open>None\<close> has none at all.\<close>

definition two_decimals :: "json \<Rightarrow> string result" where
  "two_decimals v =
     (case v of JNum q \<Rightarrow> Inr (fixed 2 False q) | JBool b \<Rightarrow> Inr (fixed 2 False (if b then 1 else 0))
      | JStr t \<Rightarrow> Inl ValueError | _ \<Rightarrow> Inl TypeErr)"

definition with_commas :: "(json \<Rightarrow> string) \<Rightarrow> json \<Rightarrow> string result" where
  "with_commas show_json v =
     (case v of JNum q \<Rightarrow> Inr (if of_int \<lfloor>q\<rfloor> = q then comma_int \<lfloor>q\<rfloor> else show_json v)
      | JBool b \<Rightarrow> Inr (if b then ''1'' else ''0'') | JStr t \<Rightarrow> Inl ValueError | _ \<Rightarrow> Inl TypeErr)"

definition shown :: "(json \<Rightarrow> string) \<Rightarrow> (string \<times> json) list \<Rightarrow> string \<Rightarrow> string" where
  "shown show_json d k = py_str show_json (obj_get d k (JStr []))"

definition entry_list :: "(string \<times> json) list \<Rightarrow> string \<Rightarrow> json list result" where
  "entry_list d k = json_iter (obj_get d k (JList []))"

section \<open>Earlier SQL\<close>

definition table_name_of :: "(json \<Rightarrow> string) \<Rightarrow> json \<Rightarrow> string result" where
  "table_name_of show_json t = with_dict t (\<lambda>d. Inr (shown show_json d ''table_name''))"

text \<open>The tables of all use cases, the first entry of each name.\<close>

fun index_enrichment :: "(json \<Rightarrow> string) \<Rightarrow> json list \<Rightarrow> (string \<times> json) list \<Rightarrow> (string \<times> json) list result" where
  "index_enrichment show_json [] index = Inr index"
| "index_enrichment show_json (t # ts) index =
     result_bind (table_name_of show_json t) (\<lambda>name.
       index_enrichment show_json ts (if name \<noteq> [] \<and> map_of index name = None then index @ [(name, t)] else index))"

fun index_use_cases :: "(json \<Rightarrow> string) \<Rightarrow> json list \<Rightarrow> (string \<times> json) list \<Rightarrow> (string \<times> json) list result" where
  "index_use_cases show_json [] index = Inr index"
| "index_use_cases show_json (uc # ucs) index =
     result_bind (with_dict uc (\<lambda>d. entry_list d ''enrichment_tables'')) (\<lambda>ts.
     result_bind (index_enrichment show_json ts index) (index_use_cases show_json ucs))"

text \<open>\<open>f"{c['name']}({c.get('alt_name', '')})"\<close>\<close>

definition column_label :: "(json \<Rightarrow> string) \<Rightarrow> json \<Rightarrow> string result" where
  "column_label show_json c =
     with_dict c (\<lambda>d. case map_of d ''name'' of
       None \<Rightarrow> Inl KeyErr
     | Some n \<Rightarrow> Inr (py_str show_json n @ ''('' @ shown show_json d ''alt_name'' @ '')''))"

definition is_key_column :: "json \<Rightarrow> bool" where
  "is_key_column c = (case c of JObj d \<Rightarrow> json_true (obj_get d ''is_pk'' JNull) | _ \<Rightarrow> False)"

definition columns_line :: "(json \<Rightarrow> string) \<Rightarrow> string \<Rightarrow> json list \<Rightarrow> string list result" where
  "columns_line show_json label cs =
     (if cs = [] then Inr []
      else result_bind (map_result (column_label show_json) cs) (\<lambda>ls. Inr [''     '' @ label @ py_join '', '' ls]))"

definition label_with :: "string \<Rightarrow> string \<Rightarrow> string" where
  "label_with name alt = (if alt \<noteq> [] then name @ '' ('' @ alt @ '')'' else name)"

definition table_details :: "(json \<Rightarrow> string) \<Rightarrow> string \<Rightarrow> json \<Rightarrow> string list result" where
  "table_details show_json name meta =
     with_dict meta (\<lambda>d.
       result_bind (entry_list d ''columns'') (\<lambda>cols.
       result_bind (map_result (\<lambda>c. with_dict c Inr) cols) (\<lambda>dicts.
       result_bind (columns_line show_json ''PK: '' (filter is_key_column cols)) (\<lambda>pk.
       result_bind (columns_line show_json ''other columns: '' (filter (\<lambda>c. \<not> is_key_column c) cols)) (\<lambda>other.
         Inr ((''   - table: '' @ label_with name (shown show_json d ''alt_name'')) # pk @ other))))))"

text \<open>The tables of a use case: each is described once in the whole block.\<close>

fun use_case_tables ::
  "(json \<Rightarrow> string) \<Rightarrow> (string \<times> json) list \<Rightarrow> string list \<Rightarrow> string list \<Rightarrow> (string list \<times> string list) result" where
  "use_case_tables show_json index [] rendered = Inr ([], rendered)"
| "use_case_tables show_json index (name # names) rendered =
     (if name = [] then use_case_tables show_json index names rendered
      else if name \<in> set rendered then
        result_bind (use_case_tables show_json index names rendered) (\<lambda>(ls, r).
          Inr ([''   - table: '' @ name, ''     (as above)''] @ ls, r))
      else (case map_of index name of
          None \<Rightarrow> result_bind (use_case_tables show_json index names rendered) (\<lambda>(ls, r). Inr ((''   - '' @ name) # ls, r))
        | Some meta \<Rightarrow>
            result_bind (table_details show_json name meta) (\<lambda>here.
            result_bind (use_case_tables show_json index names (rendered @ [name])) (\<lambda>(ls, r). Inr (here @ ls, r)))))"

definition use_case_head :: "(json \<Rightarrow> string) \<Rightarrow> nat \<Rightarrow> (string \<times> json) list \<Rightarrow> string list result" where
  "use_case_head show_json i d =
     (let desc = py_str show_json (obj_get d ''description'' (obj_get d ''query_desc'' (JStr [])));
          domain = obj_get d ''domain'' (JStr []); sql = obj_get d ''sql'' (obj_get d ''query_sql'' (JStr []))
      in result_bind (two_decimals (obj_get d ''score'' (obj_get d ''similarity'' (JNum 0)))) (\<lambda>score.
           Inr ([newline @ nat_digits i @ ''. '' @ quoted desc @ '' (similarity: '' @ score @ '', sql_id: '' @
                 shown show_json d ''_point_id'' @ '')''] @
                (if json_true domain then [''   domain: '' @ py_str show_json domain] else []) @
                (if json_true sql then [''   SQL: '' @ py_str show_json sql] else []))))"

fun use_case_lines ::
  "(json \<Rightarrow> string) \<Rightarrow> (string \<times> json) list \<Rightarrow> nat \<Rightarrow> json list \<Rightarrow> string list \<Rightarrow> string list result" where
  "use_case_lines show_json index i [] rendered = Inr []"
| "use_case_lines show_json index i (uc # ucs) rendered =
     result_bind (with_dict uc (use_case_head show_json i)) (\<lambda>head_lines.
     result_bind (with_dict uc (\<lambda>d. entry_list d ''enrichment_tables'')) (\<lambda>ts.
     result_bind (map_result (table_name_of show_json) ts) (\<lambda>names.
     result_bind (use_case_tables show_json index names rendered) (\<lambda>(table_lines, rendered1).
     result_bind (use_case_lines show_json index (Suc i) ucs rendered1) (\<lambda>rest.
       Inr (head_lines @ table_lines @ rest))))))"

definition render_use_cases :: "(json \<Rightarrow> string) \<Rightarrow> execution_step \<Rightarrow> json \<Rightarrow> string result" where
  "render_use_cases show_json st raw =
     (case raw of
        JObj d \<Rightarrow>
          if \<not> json_true (obj_get d ''use_cases'' (JList [])) then Inr (no_results st ''no similar SQL'')
          else result_bind (entry_list d ''use_cases'') (\<lambda>ucs.
               result_bind (index_use_cases show_json ucs []) (\<lambda>index.
               result_bind (use_case_lines show_json index 1 ucs []) (\<lambda>lines.
                 Inr (block ([step_header st, newline @ nat_digits (length ucs) @ '' similar SQL:''] @ lines @
                   [newline @ ''Decide which tables, joins and filters can be used again.''])))))
      | _ \<Rightarrow> Inr [])"

section \<open>Tables\<close>

definition TABLE_TYPE :: "(char \<times> string) list" where
  "TABLE_TYPE =
     [(CHR ''M'', ''master''), (CHR ''D'', ''detail''), (CHR ''L'', ''entries''), (CHR ''H'', ''history''), (CHR ''G'', ''log''),
      (CHR ''S'', ''totals''), (CHR ''P'', ''snapshot''), (CHR ''C'', ''codes''), (CHR ''F'', ''interface'')]"

definition table_type_line :: "string \<Rightarrow> string result" where
  "table_type_line name =
     (if name = [] then Inl IndexErr
      else Inr (newline @ ''  table type: '' @ [last name] @ ''('' @
             (case map_of TABLE_TYPE (last name) of Some t \<Rightarrow> t | None \<Rightarrow> ''other'') @ '')''))"

definition column_line :: "(json \<Rightarrow> string) \<Rightarrow> json \<Rightarrow> string result" where
  "column_line show_json c =
     with_dict c (\<lambda>d. case map_of d ''name'' of
       None \<Rightarrow> Inl KeyErr
     | Some n \<Rightarrow>
         let name = py_str show_json n; alt = obj_get d ''alt_name'' (JStr []); ty = obj_get d ''col_type'' (JStr [])
         in Inr (''   - '' @ (if json_true alt then name @ ''('' @ py_str show_json alt @ '')'' else name) @
                 (if json_true ty then '' '' @ py_str show_json ty else []) @ (if is_key_column c then '' (PK)'' else [])))"

text \<open>\<open>[str(row.get(k, "")) for k in keys]\<close>\<close>

definition row_texts :: "(json \<Rightarrow> string) \<Rightarrow> string list \<Rightarrow> json \<Rightarrow> string list result" where
  "row_texts show_json keys row = with_dict row (\<lambda>d. Inr (map (shown show_json d) keys))"

definition first_keys :: "json list \<Rightarrow> string list result" where
  "first_keys rows = (case rows of [] \<Rightarrow> Inr [] | row # _ \<Rightarrow> with_dict row (\<lambda>d. Inr (map fst d)))"

text \<open>The sample of a table: the header names all rows, five are shown.\<close>

definition sample_lines :: "(json \<Rightarrow> string) \<Rightarrow> json list \<Rightarrow> string list result" where
  "sample_lines show_json rows =
     result_bind (first_keys rows) (\<lambda>keys.
     result_bind (if keys = [] then Inr [] else map_result (row_texts show_json keys) (take 5 rows)) (\<lambda>texts.
       Inr ((newline @ ''   - sample of '' @ nat_digits (length rows) @ '' rows:'') #
            (if keys = [] then []
             else (''   '' @ py_join '' | '' keys) # (''   '' @ concat (replicate (length keys) ''--- | '')) #
                  map (\<lambda>ts. ''   '' @ py_join '' | '' ts) texts))))"

definition table_block :: "(json \<Rightarrow> string) \<Rightarrow> nat \<times> json \<Rightarrow> string list result" where
  "table_block show_json p =
     with_dict (snd p) (\<lambda>d.
       let name = shown show_json d ''table_name''; desc = obj_get d ''description'' (JStr [])
       in result_bind (table_type_line name) (\<lambda>type_line.
          result_bind (entry_list d ''columns'') (\<lambda>cols.
          result_bind (map_result (column_line show_json) cols) (\<lambda>col_lines.
          result_bind (case obj_get d ''sample_rows'' JNull of JList rows \<Rightarrow> if rows = [] then Inr [] else sample_lines show_json rows | _ \<Rightarrow> Inr [])
            (\<lambda>samples.
            Inr ([newline @ nat_digits (fst p) @ ''. '' @ label_with name (shown show_json d ''alt_name'') @
                  (if json_true desc then '' -- '' @ py_str show_json desc else []), type_line] @ col_lines @ samples))))))"

definition numbered_from_one :: "'a list \<Rightarrow> (nat \<times> 'a) list" where
  "numbered_from_one xs = zip [1..<Suc (length xs)] xs"

definition render_table_meta :: "(json \<Rightarrow> string) \<Rightarrow> execution_step \<Rightarrow> json \<Rightarrow> string result" where
  "render_table_meta show_json st raw =
     (case raw of
        JObj d \<Rightarrow>
          if \<not> json_true (obj_get d ''tables'' (JList [])) then Inr (no_results st ''no table was found'')
          else result_bind (entry_list d ''tables'') (\<lambda>ts.
               result_bind (map_result (table_block show_json) (numbered_from_one ts)) (\<lambda>blocks.
                 Inr (block ([step_header st, newline @ nat_digits (length ts) @ '' tables:''] @ concat blocks @
                   [newline @ ''Decide whether each table fits the question.'']))))
      | _ \<Rightarrow> Inr [])"

section \<open>Codes, terms and manuals\<close>

definition code_block :: "(json \<Rightarrow> string) \<Rightarrow> json \<Rightarrow> string list result" where
  "code_block show_json item =
     with_dict item (\<lambda>d.
       case obj_get d ''codes'' (JObj []) of
         JObj codes \<Rightarrow>
           Inr ((newline @ label_with (shown show_json d ''code_field'') (shown show_json d ''code_field_desc'') @ '': '' @
                 nat_digits (length codes) @ '' codes:'') #
                map (\<lambda>(k, v). ''  - '' @ k @ '': '' @ py_str show_json v) codes)
       | _ \<Rightarrow> Inl AttributeError)"

definition term_block :: "(json \<Rightarrow> string) \<Rightarrow> json \<Rightarrow> string list result" where
  "term_block show_json item =
     with_dict item (\<lambda>d.
       let synonyms = obj_get d ''synonyms'' (JList []); related = obj_get d ''table_name'' (JStr [])
       in result_bind (if json_true synonyms then result_bind (join_json '', '' synonyms) (\<lambda>t. Inr [''  synonyms: '' @ t]) else Inr [])
            (\<lambda>syn. Inr ([newline @ ''- '' @ shown show_json d ''name'' @ '': '' @ shown show_json d ''biz_term_definition''] @ syn @
               (if json_true related then [''  table: '' @ py_str show_json related] else []))))"

definition manual_block :: "(json \<Rightarrow> string) \<Rightarrow> nat \<times> json \<Rightarrow> string list result" where
  "manual_block show_json p =
     with_dict (snd p) (\<lambda>d.
       result_bind (two_decimals (obj_get d ''score'' (JNum 0))) (\<lambda>score.
         Inr [newline @ nat_digits (fst p) @ ''. (similarity: '' @ score @ '')'', ''   '' @ shown show_json d ''content'']))"

text \<open>The frame of the results that are lists.\<close>

definition list_block ::
  "execution_step \<Rightarrow> json \<Rightarrow> string \<Rightarrow> string \<Rightarrow> (json list \<Rightarrow> string list list result) \<Rightarrow> string result" where
  "list_block st raw nothing advice body =
     (case raw of
        JList items \<Rightarrow>
          if items = [] then Inr (no_results st nothing)
          else result_bind (body items) (\<lambda>blocks. Inr (block ([step_header st] @ concat blocks @ [newline @ advice])))
      | _ \<Rightarrow> Inr (no_results st nothing))"

definition render_code_meta :: "(json \<Rightarrow> string) \<Rightarrow> execution_step \<Rightarrow> json \<Rightarrow> string result" where
  "render_code_meta show_json st raw =
     list_block st raw ''no code was found'' ''Name the codes of the question's conditions, all that apply.''
       (map_result (code_block show_json))"

definition render_biz_terms :: "(json \<Rightarrow> string) \<Rightarrow> execution_step \<Rightarrow> json \<Rightarrow> string result" where
  "render_biz_terms show_json st raw =
     list_block st raw ''no term was found'' ''Decide what the definitions say about aggregates, filters and formulas.''
       (map_result (term_block show_json))"

definition render_biz_manuals :: "(json \<Rightarrow> string) \<Rightarrow> execution_step \<Rightarrow> json \<Rightarrow> string result" where
  "render_biz_manuals show_json st raw =
     list_block st raw ''no manual was found'' ''Decide whether formulas, rules or conventions bear on the SQL.''
       (\<lambda>items. map_result (manual_block show_json) (numbered_from_one items))"

section \<open>Rows, dates, values and statistics\<close>

definition row_lines :: "(json \<Rightarrow> string) \<Rightarrow> string \<Rightarrow> json list \<Rightarrow> string list list result" where
  "row_lines show_json table rows =
     result_bind (first_keys rows) (\<lambda>keys.
     result_bind (if keys = [] then Inr [] else map_result (row_texts show_json keys) rows) (\<lambda>texts.
       Inr [(newline @ table @ '' sample of '' @ nat_digits (length rows) @ '' rows:'') #
            (if keys = [] then []
             else py_join '' | '' keys # py_join '' | '' (replicate (length keys) ''---'') # map (py_join '' | '') texts)]))"

definition render_sample_rows :: "(json \<Rightarrow> string) \<Rightarrow> execution_step \<Rightarrow> json \<Rightarrow> string result" where
  "render_sample_rows show_json st raw =
     list_block st raw ''no sample rows'' ''Look at the formats of dates, the codes and the NULLs of the data.''
       (row_lines show_json (part_at (stripped_parts (es_input st)) 0))"

definition date_format_of :: "string \<Rightarrow> string" where
  "date_format_of sample =
     (if py_len sample = 8 then ''YYYYMMDD''
      else if py_len sample = 6 then ''YYYYMM''
      else if py_len sample = 10 \<and> CHR ''-'' \<in> set sample then ''YYYY-MM-DD''
      else sample)"

definition date_lines :: "(json \<Rightarrow> string) \<Rightarrow> string \<Rightarrow> string list \<Rightarrow> json list \<Rightarrow> string list" where
  "date_lines show_json column dates recent_values =
     (if dates = [] then []
      else
        let ds = sort dates
        in [newline @ column @ '':'', ''  range: '' @ hd ds @ '' ~ '' @ last ds, ''  pattern: '' @ date_format_of (hd ds)] @
           (if recent_values \<noteq> []
            then [''  latest '' @ nat_digits (length recent_values) @ '': '' @ py_join '', '' (map (py_str show_json) recent_values)] else []))"

text \<open>\<open>f"{table_name}.{column_name}"\<close>\<close>

definition named_column :: "execution_step \<Rightarrow> string" where
  "named_column st = (let parts = stripped_parts (es_input st) in part_at parts 0 @ ''.'' @ part_at parts 1)"

definition dates_and_recent :: "json \<Rightarrow> (string list \<times> json list) result" where
  "dates_and_recent raw =
     (case raw of
        JObj d \<Rightarrow>
          result_bind (result_bind (entry_list d ''dates'') json_strings) (\<lambda>dates.
          result_bind (entry_list d ''recent_values'') (\<lambda>recent_values. Inr (dates, recent_values)))
      | JList xs \<Rightarrow> result_bind (json_strings xs) (\<lambda>dates. Inr (dates, map JStr (take 10 (rev (sort dates)))))
      | _ \<Rightarrow> Inr ([], []))"

definition render_date_distribution :: "(json \<Rightarrow> string) \<Rightarrow> execution_step \<Rightarrow> json \<Rightarrow> string result" where
  "render_date_distribution show_json st raw =
     (if \<not> json_true raw then Inr (no_results st ''no dates'')
      else result_bind (dates_and_recent raw) (\<lambda>(dates, recent_values).
        Inr (block ([step_header st] @ date_lines show_json (named_column st) dates recent_values @
          [newline @ ''Check whether the question's period is in this range, and the loading cycle and format.'']))))"

definition render_column_values :: "(json \<Rightarrow> string) \<Rightarrow> execution_step \<Rightarrow> json \<Rightarrow> string result" where
  "render_column_values show_json st raw =
     list_block st raw ''nothing was found'' ''Name the exact values for the question's conditions.''
       (\<lambda>items.
         let term = part_at (stripped_parts (es_input st)) 2
         in Inr [(newline @ named_column st @ (if term \<noteq> [] then '' with '' @ quoted term else []) @ '': '' @
                  nat_digits (length items) @ '' values:'') #
                 map (\<lambda>v. ''  - '' @ py_str show_json v) items])"

definition optional_line :: "(json \<Rightarrow> string) \<Rightarrow> string \<Rightarrow> json \<Rightarrow> string list" where
  "optional_line show_json label v = (if v = JNull then [] else [label @ py_str show_json v])"

definition rate_line :: "json \<Rightarrow> string list result" where
  "rate_line v =
     (case v of JNull \<Rightarrow> Inr [] | JNum q \<Rightarrow> Inr [''  NULL rate: '' @ fixed 1 False (q * 100) @ ''%'']
      | JBool b \<Rightarrow> Inr [''  NULL rate: '' @ fixed 1 False (if b then 100 else 0) @ ''%''] | JStr t \<Rightarrow> Inl ValueError | _ \<Rightarrow> Inl TypeErr)"

definition count_of :: "(json \<Rightarrow> string) \<Rightarrow> (string \<times> json) list \<Rightarrow> string \<Rightarrow> string result" where
  "count_of show_json d k = with_commas show_json (obj_get d k (JStr ''N/A''))"

definition render_column_profile :: "(json \<Rightarrow> string) \<Rightarrow> execution_step \<Rightarrow> json \<Rightarrow> string result" where
  "render_column_profile show_json st raw =
     (case raw of
        JObj d \<Rightarrow>
          if d = [] then Inr (no_results st ''no statistics'')
          else result_bind (count_of show_json d ''total_rows'') (\<lambda>n_rows.
               result_bind (count_of show_json d ''non_null_count'') (\<lambda>filled.
               result_bind (rate_line (obj_get d ''null_rate'' JNull)) (\<lambda>rate.
               result_bind (count_of show_json d ''distinct_count'') (\<lambda>distinct_values.
                 Inr (block ([step_header st, newline @ named_column st @ '' statistics:'', ''  rows: '' @ n_rows,
                   ''  NOT NULL: '' @ filled] @ rate @ [''  distinct values: '' @ distinct_values] @
                   optional_line show_json ''  MIN: '' (obj_get d ''min_val'' JNull) @
                   optional_line show_json ''  MAX: '' (obj_get d ''max_val'' JNull) @
                   [newline @ ''Report a high NULL rate or an unexpected number of distinct values.'']))))))
      | _ \<Rightarrow> Inr (no_results st ''no statistics''))"

definition render_unknown :: "execution_step \<Rightarrow> string" where
  "render_unknown st = step_header st @ newline @ newline @ ''(no renderer for this tool; see its result)''"

section \<open>The results of a plan\<close>

definition render_step :: "(json \<Rightarrow> string) \<Rightarrow> execution_step \<Rightarrow> json \<Rightarrow> string result" where
  "render_step show_json st raw =
     (let tool = es_tool st
      in if tool = ''search_use_cases'' then render_use_cases show_json st raw
         else if tool = ''search_table_meta'' \<or> tool = ''lookup_table_meta'' then render_table_meta show_json st raw
         else if tool = ''lookup_code_meta'' then render_code_meta show_json st raw
         else if tool = ''search_biz_terms'' then render_biz_terms show_json st raw
         else if tool = ''search_manual'' then render_biz_manuals show_json st raw
         else if tool = ''get_sample_rows'' then render_sample_rows show_json st raw
         else if tool = ''get_date_distribution'' then render_date_distribution show_json st raw
         else if tool = ''get_column_values'' then render_column_values show_json st raw
         else if tool = ''get_column_profile'' then render_column_profile show_json st raw
         else Inr (render_unknown st))"

definition serialize_single_step :: "(json \<Rightarrow> string) \<Rightarrow> execution_step \<Rightarrow> string result" where
  "serialize_single_step show_json st =
     (case es_raw_result st of
        Some raw \<Rightarrow> if es_status st = Step_DONE then render_step show_json st raw else Inr []
      | None \<Rightarrow> Inr [])"

fun result_blocks :: "(json \<Rightarrow> string) \<Rightarrow> execution_step list \<Rightarrow> string list result" where
  "result_blocks show_json [] = Inr []"
| "result_blocks show_json (st # sts) =
     (case es_raw_result st of
        Some raw \<Rightarrow>
          if es_status st \<noteq> Step_DONE then result_blocks show_json sts
          else result_bind (render_step show_json st raw) (\<lambda>b.
               result_bind (result_blocks show_json sts) (\<lambda>bs. Inr (if b \<noteq> [] then b # bs else bs)))
      | None \<Rightarrow> result_blocks show_json sts)"

definition serialize_tool_results_by_step :: "(json \<Rightarrow> string) \<Rightarrow> execution_step list \<Rightarrow> string result" where
  "serialize_tool_results_by_step show_json plan =
     result_bind (result_blocks show_json plan) (\<lambda>bs.
       Inr (if bs \<noteq> [] then py_join (newline @ newline) bs else ''(no tool results)''))"

section \<open>Properties\<close>

text \<open>
  The two modes of the interpreter's prompt agree: the text of a plan is the texts of its steps,
  the empty ones left out, and it fails exactly when the text of a step fails.
\<close>

lemma blocks_of_steps:
  "result_blocks show_json plan = result_bind (map_result (serialize_single_step show_json) plan) (\<lambda>bs. Inr (filter (\<lambda>b. b \<noteq> []) bs))"
proof (induction plan)
  case (Cons st plan)
  show ?case
  proof (cases "es_raw_result st")
    case None
    with Cons show ?thesis
      by (cases "map_result (serialize_single_step show_json) plan") (simp_all add: serialize_single_step_def [of show_json st])
  next
    case (Some raw)
    with Cons show ?thesis
      by (cases "render_step show_json st raw"; cases "map_result (serialize_single_step show_json) plan")
         (simp_all add: serialize_single_step_def [of show_json st])
  qed
qed simp

theorem plan_text_of_steps:
  "serialize_tool_results_by_step show_json plan =
     result_bind (map_result (serialize_single_step show_json) plan) (\<lambda>bs.
       let texts = filter (\<lambda>b. b \<noteq> []) bs
       in Inr (if texts \<noteq> [] then py_join (newline @ newline) texts else ''(no tool results)''))"
  by (cases "map_result (serialize_single_step show_json) plan")
     (simp_all add: serialize_tool_results_by_step_def blocks_of_steps Let_def)

section \<open>The program's own results\<close>

lemma map_result_total: "(\<And>x. x \<in> set xs \<Longrightarrow> \<exists>y. f x = Inr y) \<Longrightarrow> \<exists>ys. map_result f xs = Inr ys"
  by (induction xs) fastforce+

lemma column_lines_total: "\<exists>ls. map_result (column_line show_json) (map dump_column cs) = Inr ls"
  by (rule map_result_total) (auto simp: column_line_def dump_column_def with_dict_def Let_def)

lemma sample_lines_total: "\<exists>ls. sample_lines show_json (map JObj rs) = Inr ls"
proof -
  obtain keys where "first_keys (map JObj rs) = Inr keys" by (cases rs) (auto simp: first_keys_def with_dict_def)
  moreover have "\<exists>ts. map_result (row_texts show_json keys) (take 5 (map JObj rs)) = Inr ts"
    by (rule map_result_total) (auto simp: row_texts_def with_dict_def dest!: in_set_takeD)
  ultimately show ?thesis by (auto simp: sample_lines_def)
qed

lemma table_block_total:
  assumes "tm_table_name t \<noteq> []"
  shows "\<exists>ls. table_block show_json (i, dump_table t) = Inr ls"
proof -
  obtain cl where cl: "map_result (column_line show_json) (map dump_column (tm_columns t)) = Inr cl"
    using column_lines_total by blast
  show ?thesis
  proof (cases "tm_sample_rows t")
    case None
    with assms cl show ?thesis
      by (simp add: table_block_def with_dict_def dump_table_def shown_def py_str_def obj_get_def table_type_line_def
          entry_list_def json_option_def Let_def)
  next
    case (Some rs)
    obtain sl where "sample_lines show_json (map JObj rs) = Inr sl" using sample_lines_total by blast
    with assms cl Some show ?thesis
      by (simp add: table_block_def with_dict_def dump_table_def shown_def py_str_def obj_get_def table_type_line_def
          entry_list_def json_option_def Let_def)
  qed
qed

lemma from_meta_named:
  assumes "from_meta cfg m = Inr (Some t)"
  shows "tm_table_name t \<noteq> []"
proof (cases m)
  case (JObj meta)
  with assms show ?thesis
    by (cases "py_or (obj_get meta ''name'' (JStr [])) (obj_get meta ''table_name'' (JStr []))")
       (auto simp: result_bind_Inr_iff Let_def split: if_splits)
qed (use assms in simp_all)

lemma finalized_name: "finalize_table_meta cfg dbs ds meta ct = Inr t \<Longrightarrow> tm_table_name t = tm_table_name ct"
  by (auto simp: finalize_table_meta_def result_bind_Inr_iff split: if_splits prod.splits)

lemma metas_named: "tables_of_metas cfg dbs ds ms = Inr ts \<Longrightarrow> \<forall>t \<in> set ts. tm_table_name t \<noteq> []"
proof (induction ms arbitrary: ts)
  case (Cons m ms)
  then show ?case
    by (auto simp: result_bind_Inr_iff split: option.splits) (metis finalized_name from_meta_named)+
qed simp

lemma extracted_named: "extract_tables cfg dbs ds tool answer = Inr ts \<Longrightarrow> \<forall>t \<in> set ts. tm_table_name t \<noteq> []"
  by (auto simp: extract_tables_def result_bind_Inr_iff filter_by_forced_target_def dest!: metas_named split: if_splits json.splits)

lemma tables_render:
  assumes "\<forall>t \<in> set ts. tm_table_name t \<noteq> []"
  shows "\<exists>b. render_table_meta show_json st (JObj [(''tables'', JList (map dump_table ts))]) = Inr b"
proof -
  have "\<exists>bs. map_result (table_block show_json) (numbered_from_one (map dump_table ts)) = Inr bs"
    using assms table_block_total
    by (intro map_result_total) (auto simp: numbered_from_one_def set_zip)
  then show ?thesis by (auto simp: render_table_meta_def entry_list_def obj_get_def)
qed

lemma column_texts_texts: "column_texts show_json c rows = Inr vs \<Longrightarrow> \<exists>ts. vs = map JStr ts"
proof (induction rows arbitrary: vs)
  case (Cons row rows)
  then show ?case by (auto simp: result_bind_Inr_iff) (metis list.simps(9))
qed simp

lemma rows_texts: "texts_of_rows show_json c answer = Inr a \<Longrightarrow> \<exists>ts. a = JList (map JStr ts)"
  by (cases answer) (auto simp: texts_of_rows_def result_bind_Inr_iff dest: column_texts_texts)

lemma dates_answer:
  assumes "tool_get_date_distribution cfg dbs te inp = Inr a"
  shows "\<exists>ts. a = JList (map JStr ts)"
proof -
  have "get_date_distribution cfg dbs te t c s src = Inr a \<Longrightarrow> ?thesis" for t c s src
    by (auto simp: get_date_distribution_def result_bind_Inr_iff dest: rows_texts split: if_splits)
  then show ?thesis using assms by (auto simp: tool_get_date_distribution_def Let_def split: prod.splits if_splits)
qed

lemma values_answer:
  assumes "tool_get_column_values cfg dbs te inp = Inr a"
  shows "\<exists>ts. a = JList (map JStr ts)"
proof -
  have "get_column_values cfg dbs te t c k s src p = Inr a \<Longrightarrow> ?thesis" for t c k s src p
    by (auto simp: get_column_values_def result_bind_Inr_iff dest: rows_texts split: if_splits)
  then show ?thesis using assms by (auto simp: tool_get_column_values_def Let_def split: prod.splits if_splits)
qed

lemma json_strings_texts [simp]: "json_strings (map JStr ts) = Inr ts"
  by (induction ts) auto

lemma profile_renders: "profile_of_row te row = Inr p \<Longrightarrow> \<exists>t. render_column_profile show_json st p = Inr t"
  by (auto simp: profile_of_row_def result_bind_Inr_iff render_column_profile_def count_of_def obj_get_def with_commas_def
      jint_def rate_line_def)

lemma profile_of_answer:
  "(case answer of JList (row # rows) \<Rightarrow> profile_of_row te row | _ \<Rightarrow> Inr (JObj [])) = Inr a \<Longrightarrow>
   a = JObj [] \<or> (\<exists>row. profile_of_row te row = Inr a)"
proof (cases answer)
  case (JList xs)
  then show "(case answer of JList (row # rows) \<Rightarrow> profile_of_row te row | _ \<Rightarrow> Inr (JObj [])) = Inr a \<Longrightarrow> ?thesis"
    by (cases xs) auto
qed simp_all

lemma profile_answer:
  assumes "tool_get_column_profile cfg dbs te inp = Inr a"
  shows "a = JObj [] \<or> (\<exists>row. profile_of_row te row = Inr a)"
proof -
  have "get_column_profile cfg dbs te t c s src = Inr a \<Longrightarrow> ?thesis" for t c s src
    by (auto simp: get_column_profile_def result_bind_Inr_iff dest!: profile_of_answer split: if_splits)
  then show ?thesis using assms by (auto simp: tool_get_column_profile_def Let_def split: prod.splits if_splits)
qed

lemma profile_answer_renders:
  "tool_get_column_profile cfg dbs te inp = Inr a \<Longrightarrow> \<exists>t. render_column_profile show_json st a = Inr t"
  by (auto dest!: profile_answer profile_renders simp: render_column_profile_def [where raw = "JObj []"])

lemma list_block_total: "(\<And>items. raw = JList items \<Longrightarrow> \<exists>bs. body items = Inr bs) \<Longrightarrow> \<exists>t. list_block st raw nothing advice body = Inr t"
  by (cases raw) (auto simp: list_block_def)

lemma dates_render:
  "\<exists>t. render_date_distribution show_json st (JObj [(''dates'', JList (map JStr ds)), (''recent_values'', jstrs rs)]) = Inr t"
  by (simp add: render_date_distribution_def dates_and_recent_def entry_list_def obj_get_def jstrs_def)

definition RENDERED_TOOLS :: "string list" where
  "RENDERED_TOOLS = TABLE_META_TOOLS @ [''get_column_values'', ''get_column_profile'', ''get_date_distribution'']"

lemma applied_results_render:
  assumes "apply_tool_result cfg dbs env kc (es_tool st) answer b = (b1, Inr (Some raw))"
    and "tool_answer cfg dbs te (es_tool st) inp ex = Inr answer"
    and "es_tool st \<in> {''get_column_values'', ''get_column_profile'', ''get_date_distribution''}"
    and same: "es_tool st' = es_tool st"
  shows "\<exists>t. render_step show_json st' raw = Inr t"
proof -
  consider (vals) "es_tool st = ''get_column_values''" | (prof) "es_tool st = ''get_column_profile''"
    | (dates) "es_tool st = ''get_date_distribution''" using assms(3) by blast
  then show ?thesis
  proof cases
    case vals
    then have "raw = answer" using assms(1) by (auto simp: apply_tool_result_def split: if_splits)
    moreover obtain ts where "answer = JList (map JStr ts)"
      using assms(2) vals values_answer by (fastforce simp: tool_answer_def)
    ultimately show ?thesis using vals same
      by (simp add: render_step_def Let_def TABLE_META_TOOLS_def render_column_values_def list_block_def)
  next
    case prof
    then have "raw = answer" using assms(1) by (auto simp: apply_tool_result_def split: if_splits)
    moreover have "\<exists>t. render_column_profile show_json st' answer = Inr t"
      using assms(2) prof profile_answer_renders by (fastforce simp: tool_answer_def)
    ultimately show ?thesis using prof same by (auto simp: render_step_def Let_def TABLE_META_TOOLS_def)
  next
    case dates
    obtain ts where ts: "answer = JList (map JStr ts)"
      using assms(2) dates dates_answer by (fastforce simp: tool_answer_def)
    then have "raw = JObj [(''dates'', JList (map JStr ts)), (''recent_values'', jstrs (take 10 (rev (sort ts))))]"
      using assms(1) dates by (auto simp: apply_tool_result_def split: if_splits)
    then show ?thesis using dates dates_render same by (auto simp: render_step_def Let_def TABLE_META_TOOLS_def)
  qed
qed

text \<open>
  C9: What the program's tools find can always be shown: a step that has looked up tables, or read the
  values, statistics or dates of a column, has a text, with any answer of the stores and drivers
  that ends the step well, so that no such result keeps the interpreter from its prompt.
\<close>

theorem finished_steps_render:
  assumes "run_tool cfg dbs (env\<lparr>rv_tool := tool_answer cfg dbs te\<rparr>) kc seen st b = (b1, Inr st1)"
    and "es_tool st \<in> set RENDERED_TOOLS" "es_raw_result st = None"
  shows "\<exists>t. serialize_single_step show_json st1 = Inr t"
proof -
  let ?env = "env\<lparr>rv_tool := tool_answer cfg dbs te\<rparr>"
  have known: "es_tool st \<in> set TOOL_MAP" using assms(2) by (auto simp: RENDERED_TOOLS_def TABLE_META_TOOLS_def TOOL_MAP_def)
  from assms(1) obtain answer new where r: "execute_tool ?env (es_tool st) (es_input st)
        (case map_of seen (es_tool st) of None \<Rightarrow> [] | Some ids \<Rightarrow> ids) = Inr answer"
      "extract_tables cfg dbs (rv_schema ?env) (es_tool st) answer = Inr new"
    by (auto simp: run_tool_def Let_def split: sum.splits)
  show ?thesis
  proof (cases "es_tool st \<in> set TABLE_META_TOOLS")
    case True
    then have st1: "st1 = st\<lparr>es_status := Step_DONE, es_raw_result := Some (JObj [(''tables'', JList (map dump_table new))])\<rparr>"
      using assms(1) r by (auto simp: run_tool_def Let_def)
    from tables_render [OF extracted_named [OF r(2)]] True show ?thesis
      by (auto simp: st1 serialize_single_step_def render_step_def TABLE_META_TOOLS_def)
  next
    case False
    then have tool: "es_tool st \<in> {''get_column_values'', ''get_column_profile'', ''get_date_distribution''}"
      using assms(2) by (auto simp: RENDERED_TOOLS_def)
    from r(1) known have answer: "\<exists>ex. tool_answer cfg dbs te (es_tool st) (es_input st) ex = Inr answer"
      by (auto simp: execute_tool_def)
    from assms(1) r False obtain b2 out where out: "apply_tool_result cfg dbs ?env kc (es_tool st) answer
          (insert (tool_key (es_tool st) (es_input st)) (fst b), snd b @ new) = (b2, Inr out)"
        "st1 = (case out of None \<Rightarrow> st\<lparr>es_status := Step_DONE\<rparr> | Some raw \<Rightarrow> st\<lparr>es_status := Step_DONE, es_raw_result := Some raw\<rparr>)"
      by (auto simp: run_tool_def Let_def split: prod.splits sum.splits option.splits)
    show ?thesis
    proof (cases out)
      case None
      then show ?thesis using out(2) assms(3) by (simp add: serialize_single_step_def)
    next
      case (Some raw)
      with out(2) have "es_tool st1 = es_tool st" "es_raw_result st1 = Some raw" "es_status st1 = Step_DONE" by simp_all
      with applied_results_render [OF out(1) [unfolded Some] _ tool, of te "es_input st" _ st1 show_json] answer
      show ?thesis by (auto simp: serialize_single_step_def)
    qed
  qed
qed


definition city_step :: execution_step where
  "city_step = sample_step ''get_column_values'' ''orders, city, Seo''"

definition city_env :: tool_env where
  "city_env = \<lparr>te_table_meta = (\<lambda>_ _ _. Inr (JList [])), te_code_meta = (\<lambda>_ _. Inr (JList [])),
     te_biz_terms = (\<lambda>_ _. Inr (JList [])), te_sql_history = (\<lambda>_ _. Inr (JList [])),
     te_manual = (\<lambda>_ _. Inr (JList [])), te_run = (\<lambda>_ _. Inr (JList [JObj [(''city'', JStr ''Seoul'')]])),
     te_int = (\<lambda>_. None), te_show = (\<lambda>_. [])\<rparr>"

definition city_dbs :: "(string \<times> connector) list" where
  "city_dbs = [(''TEST'', \<lparr>conn_name = ''TEST'', conn_dialect = ''postgres''\<rparr>)]"

lemma city_answer:
  "tool_answer default_settings city_dbs city_env ''get_column_values'' ''orders, city, Seo'' [] = Inr (JList [JStr ''Seoul''])"
  by code_simp


lemma city_run:
  "\<exists>b1. run_tool default_settings city_dbs (sample_env\<lparr>rv_tool := tool_answer default_settings city_dbs city_env\<rparr>)
     {} [] city_step ({}, []) = (b1, Inr (city_step\<lparr>es_status := Step_DONE, es_raw_result := Some (JList [JStr ''Seoul''])\<rparr>))"
  by (simp add: run_tool_def execute_tool_def city_step_def sample_step_def TOOL_MAP_def QDRANT_TOOLS_def city_answer extract_tables_def
      TABLE_META_TOOLS_def apply_tool_result_def)

lemma finished_steps_render_witness:
  "\<exists>t. serialize_single_step (\<lambda>_. [])
     (city_step\<lparr>es_status := Step_DONE, es_raw_result := Some (JList [JStr ''Seoul''])\<rparr>) = Inr t"
proof -
  obtain b1 where "run_tool default_settings city_dbs
      (sample_env\<lparr>rv_tool := tool_answer default_settings city_dbs city_env\<rparr>) {} [] city_step ({}, []) =
    (b1, Inr (city_step\<lparr>es_status := Step_DONE, es_raw_result := Some (JList [JStr ''Seoul''])\<rparr>))"
    using city_run by blast
  then show ?thesis
    by (rule finished_steps_render) (simp_all add: city_step_def sample_step_def RENDERED_TOOLS_def)
qed

end
