(* ===== verification/SqlAnalysis.thy ===== *)
theory SqlAnalysis imports IntentService Tools begin

text \<open>
  The structure read from a SQL text, \<open>src/src/utils/sqlglot_analyzer.py\<close>: the tables it uses, the
  hints for the language model and their merge.  The parser \<open>sqlglot\<close> is an argument: a record of
  what the code asks of a tree, whose nodes are of any type.  The scanners for comments, quoted
  texts and table names are those of the source's regular expressions.
\<close>

section \<open>Scanners\<close>

text \<open>
  \<open>re.sub(r, repl, s)\<close>: \<open>m s\<close> is the rest behind a match at the start of \<open>s\<close>; the expressions below
  match no empty text.
\<close>

function replace_spans :: "(string \<Rightarrow> string option) \<Rightarrow> string \<Rightarrow> string \<Rightarrow> string" where
  "replace_spans m repl [] = []"
| "replace_spans m repl (c # cs) =
     (case m (c # cs) of
        Some rest \<Rightarrow> if length rest \<le> length cs then repl @ replace_spans m repl rest else c # replace_spans m repl cs
      | None \<Rightarrow> c # replace_spans m repl cs)"
  by pat_completeness auto
termination by (relation "measure (\<lambda>(m, repl, s). length s)") auto

text \<open>The rest behind the first \<open>*/\<close>; without \<open>DOTALL\<close>, a line end before it stops the search.\<close>

fun behind_close :: "bool \<Rightarrow> string \<Rightarrow> string option" where
  "behind_close lines (CHR ''*'' # CHR ''/'' # cs) = Some cs"
| "behind_close lines (c # cs) = (if c = CHR 0x0A \<and> \<not> lines then None else behind_close lines cs)"
| "behind_close lines [] = None"

text \<open>
  \<open>(?:[^q]|qq)*q\<close> behind an opening quote \<open>q\<close>: the longest such text; a doubled quote without a
  closing one behind it is given back.
\<close>

fun behind_quote :: "char \<Rightarrow> string \<Rightarrow> string option" where
  "behind_quote q [] = None"
| "behind_quote q [c] = (if c = q then Some [] else None)"
| "behind_quote q (c # d # cs) =
     (if c \<noteq> q then behind_quote q (d # cs)
      else if d \<noteq> q then Some (d # cs)
      else (case behind_quote q cs of Some rest \<Rightarrow> Some rest | None \<Rightarrow> Some (d # cs)))"

definition line_rest :: "string \<Rightarrow> string" where
  "line_rest s = dropWhile (\<lambda>c. c \<noteq> CHR 0x0A) s"

text \<open>\<open>_COMMENT_OR_LITERAL_RE\<close>\<close>

definition comment_or_literal :: "string \<Rightarrow> string option" where
  "comment_or_literal s =
     (case s of
        CHR ''-'' # CHR ''-'' # cs \<Rightarrow> Some (line_rest cs)
      | CHR ''/'' # CHR ''*'' # cs \<Rightarrow> behind_close True cs
      | c # cs \<Rightarrow> if c = CHR 0x27 \<or> c = CHR 0x22 then behind_quote c cs else None
      | [] \<Rightarrow> None)"

definition strip_comments_and_literals :: "string \<Rightarrow> string" where
  "strip_comments_and_literals sql = replace_spans comment_or_literal '' '' sql"

text \<open>\<open>TB_[A-Z]{3}_[A-Z0-9]{7}\<close> between word boundaries, without regard to case.\<close>

definition TABLE_NAME_LENGTH :: nat where "TABLE_NAME_LENGTH = 14"

definition is_upper_letter :: "char \<Rightarrow> bool" where
  "is_upper_letter c \<longleftrightarrow> CHR ''A'' \<le> c \<and> c \<le> CHR ''Z''"

definition is_table_name :: "string \<Rightarrow> bool" where
  "is_table_name t \<longleftrightarrow>
     (let u = py_upper t
      in length t = TABLE_NAME_LENGTH \<and> take 3 u = ''TB_'' \<and> list_all is_upper_letter (take 3 (drop 3 u)) \<and> u ! 6 = CHR ''_'' \<and>
         list_all (\<lambda>c. is_upper_letter c \<or> is_digit_char c) (drop 7 u))"

definition name_at :: "char option \<Rightarrow> string \<Rightarrow> bool" where
  "name_at prev s \<longleftrightarrow>
     is_table_name (take TABLE_NAME_LENGTH s) \<and> \<not> word_opt prev \<and> \<not> word_opt (head_opt (drop TABLE_NAME_LENGTH s))"

text \<open>\<open>findall\<close>; \<open>skip\<close> counts the characters of the last match still to pass.\<close>

fun find_names :: "char option \<Rightarrow> nat \<Rightarrow> string \<Rightarrow> string list" where
  "find_names prev skip [] = []"
| "find_names prev (Suc skip) (c # cs) = find_names (Some c) skip cs"
| "find_names prev 0 (c # cs) =
     (if name_at prev (c # cs)
      then take TABLE_NAME_LENGTH (c # cs) # find_names (Some c) (TABLE_NAME_LENGTH - 1) cs
      else find_names (Some c) 0 cs)"

definition table_names :: "string \<Rightarrow> string list" where
  "table_names sql = find_names None 0 (strip_comments_and_literals sql)"

text \<open>\<open>_preprocess_dialect_quirks\<close>: Hive's optimizer comments and join marks.\<close>

definition hive_hint :: "string \<Rightarrow> string option" where
  "hive_hint s =
     (case s of
        CHR ''/'' # CHR ''*'' # cs \<Rightarrow>
          (case dropWhile is_ascii_space cs of CHR ''+'' # r \<Rightarrow> behind_close False r | _ \<Rightarrow> None)
      | _ \<Rightarrow> None)"

definition JOIN_MARKS :: "string list" where "JOIN_MARKS = [''broadcast'', ''shuffle'', ''noshuffle'']"

definition join_mark :: "string \<Rightarrow> string option" where
  "join_mark s =
     (case s of
        CHR ''['' # cs \<Rightarrow>
          (let inner = dropWhile is_ascii_space cs
           in case find (\<lambda>w. starts_with inner w) JOIN_MARKS of
                None \<Rightarrow> None
              | Some w \<Rightarrow> (case dropWhile is_ascii_space (drop (length w) inner) of CHR '']'' # r \<Rightarrow> Some r | _ \<Rightarrow> None))
      | _ \<Rightarrow> None)"

definition preprocess_dialect_quirks :: "string \<Rightarrow> string \<Rightarrow> string" where
  "preprocess_dialect_quirks sql dialect =
     (if dialect = ''hive'' then replace_spans join_mark [] (replace_spans hive_hint [] sql) else sql)"

section \<open>The parser's trees\<close>

datatype ast_kind = K_Command | K_Table | K_Alias | K_Column | K_Literal | K_Select | K_Join | K_EQ | K_GTE | K_LTE | K_Between |
  K_In | K_AggFunc | K_Group | K_Order | K_Limit | K_Distinct | K_Subquery | K_Having

text \<open>
  What the code asks of \<open>sqlglot\<close>: \<open>al_parse\<close> is \<open>parse_one\<close> for a text and a dialect, with
  \<open>ParseError\<close> or another error; \<open>al_find_all\<close>, \<open>al_is\<close> are \<open>find_all\<close> and \<open>isinstance\<close>; \<open>al_sources\<close> lists the
  selected sources of all scopes, alias and source; the others are attributes of a node.
\<close>

record 'n ast_lib =
  al_parse :: "string \<Rightarrow> string \<Rightarrow> 'n result"
  al_is :: "ast_kind \<Rightarrow> 'n \<Rightarrow> bool"
  al_find_all :: "ast_kind list \<Rightarrow> 'n \<Rightarrow> 'n list"
  al_sources :: "'n \<Rightarrow> (string \<times> 'n) list"
  al_name :: "'n \<Rightarrow> string"
  al_alias :: "'n \<Rightarrow> string"
  al_table :: "'n \<Rightarrow> string"
  al_this :: "'n \<Rightarrow> 'n"
  al_expression :: "'n \<Rightarrow> 'n option"
  al_text :: "'n \<Rightarrow> string"
  al_on :: "'n \<Rightarrow> 'n option"
  al_expressions :: "'n \<Rightarrow> 'n list"
  al_sql :: "string \<Rightarrow> 'n \<Rightarrow> string"
  al_int :: "string \<Rightarrow> int option"

definition parse_sql_safe :: "'n ast_lib \<Rightarrow> string \<Rightarrow> string \<Rightarrow> 'n option result" where
  "parse_sql_safe al sql dialect =
     (case al_parse al (preprocess_dialect_quirks sql dialect) dialect of
        Inl ParseError \<Rightarrow> Inr None
      | Inl e \<Rightarrow> Inl e
      | Inr ast \<Rightarrow> Inr (if al_is al K_Command ast then None else Some ast))"

definition find_first :: "'n ast_lib \<Rightarrow> ast_kind \<Rightarrow> 'n \<Rightarrow> 'n option" where
  "find_first al k ast = (case al_find_all al [k] ast of [] \<Rightarrow> None | n # _ \<Rightarrow> Some n)"

text \<open>\<open>if x not in xs: xs.append(x)\<close>\<close>

definition add_new :: "'a \<Rightarrow> 'a list \<Rightarrow> 'a list" where
  "add_new x xs = (if x \<in> set xs then xs else xs @ [x])"

definition add_all :: "'a list \<Rightarrow> 'a list \<Rightarrow> 'a list" where
  "add_all ys xs = fold add_new ys xs"

definition is_named_table :: "'n ast_lib \<Rightarrow> string \<times> 'n \<Rightarrow> bool" where
  "is_named_table al p \<longleftrightarrow> al_is al K_Table (snd p) \<and> al_name al (snd p) \<noteq> []"

definition extract_tables_from_ast :: "'n ast_lib \<Rightarrow> 'n \<Rightarrow> string list" where
  "extract_tables_from_ast al ast = add_all (map (\<lambda>p. al_name al (snd p)) (filter (is_named_table al) (al_sources al ast))) []"

text \<open>The names found in the text are added to those of the tree, unless they differ in case only.\<close>

fun add_found :: "string list \<Rightarrow> string list \<Rightarrow> string list" where
  "add_found [] ts = ts"
| "add_found (n # ns) ts = add_found ns (if py_upper n \<in> py_upper ` set ts then ts else ts @ [n])"

definition get_real_tables :: "'n ast_lib \<Rightarrow> string \<Rightarrow> string \<Rightarrow> string list result" where
  "get_real_tables al sql dialect =
     result_bind (parse_sql_safe al sql dialect) (\<lambda>ast.
       Inr (add_found (table_names sql) (case ast of None \<Rightarrow> [] | Some a \<Rightarrow> extract_tables_from_ast al a)))"

definition select_aliases :: "'n ast_lib \<Rightarrow> 'n \<Rightarrow> string list" where
  "select_aliases al ast = filter (\<lambda>a. a \<noteq> []) (map (al_alias al) (al_find_all al [K_Alias] ast))"

definition get_real_columns :: "'n ast_lib \<Rightarrow> 'n \<Rightarrow> string list" where
  "get_real_columns al ast =
     sorted_list_of_set (set (filter (\<lambda>n. n \<noteq> [] \<and> n \<noteq> ''*'' \<and> n \<notin> set (select_aliases al ast))
       (map (al_name al) (al_find_all al [K_Column] ast))))"

definition select_entry :: "'n ast_lib \<Rightarrow> 'n \<Rightarrow> (string \<times> string option) option" where
  "select_entry al e =
     (if al_is al K_Alias e
      then Some (al_alias al e, if al_is al K_Column (al_this al e) then Some (al_name al (al_this al e)) else None)
      else if al_is al K_Column e then Some (al_name al e, Some (al_name al e))
      else None)"

definition extract_select_alias_map :: "'n ast_lib \<Rightarrow> string \<Rightarrow> string \<Rightarrow> (string \<times> string option) list result" where
  "extract_select_alias_map al sql dialect =
     result_bind (parse_sql_safe al sql dialect) (\<lambda>ast.
       Inr (case ast of
              None \<Rightarrow> []
            | Some a \<Rightarrow>
                (case find_first al K_Select a of
                   None \<Rightarrow> []
                 | Some sel \<Rightarrow>
                     fold (\<lambda>e m. case select_entry al e of None \<Rightarrow> m | Some (k, v) \<Rightarrow> dict_set k v m) (al_expressions al sel) [])))"

section \<open>Hints\<close>

definition build_alias_map :: "'n ast_lib \<Rightarrow> 'n \<Rightarrow> (string \<times> string) list" where
  "build_alias_map al ast =
     fold (\<lambda>p m. dict_set (fst p) (al_name al (snd p)) m) (filter (is_named_table al) (al_sources al ast)) []"

definition resolve_column_table :: "'n ast_lib \<Rightarrow> (string \<times> string) list \<Rightarrow> 'n \<Rightarrow> string" where
  "resolve_column_table al alias_map col =
     (let ref = al_table al col; real = (case map_of alias_map ref of Some t \<Rightarrow> t | None \<Rightarrow> ref)
      in if real \<noteq> [] then real @ ''.'' @ al_name al col else al_name al col)"

definition join_pattern :: "'n ast_lib \<Rightarrow> (string \<times> string) list \<Rightarrow> 'n \<Rightarrow> string list" where
  "join_pattern al alias_map eq =
     (case al_expression al eq of
        Some right \<Rightarrow>
          if al_is al K_Column (al_this al eq) \<and> al_is al K_Column right
          then [resolve_column_table al alias_map (al_this al eq) @ '' = '' @ resolve_column_table al alias_map right] else []
      | None \<Rightarrow> [])"

definition extract_join_patterns :: "'n ast_lib \<Rightarrow> (string \<times> string) list \<Rightarrow> 'n \<Rightarrow> string list" where
  "extract_join_patterns al alias_map ast =
     add_all (concat (map (\<lambda>j. case al_on al j of
         None \<Rightarrow> [] | Some on \<Rightarrow> concat (map (join_pattern al alias_map) (al_find_all al [K_EQ] on))) (al_find_all al [K_Join] ast))) []"

definition extract_col_literal :: "'n ast_lib \<Rightarrow> 'n \<Rightarrow> (string \<times> string) option" where
  "extract_col_literal al eq =
     (case al_expression al eq of
        None \<Rightarrow> None
      | Some right \<Rightarrow>
          let left = al_this al eq
          in if al_is al K_Column left \<and> al_is al K_Literal right then Some (al_name al left, al_text al right)
             else if al_is al K_Column right \<and> al_is al K_Literal left then Some (al_name al right, al_text al left)
             else None)"

text \<open>\<open>codes.setdefault(col, [])\<close>, then the value unless it is there.\<close>

definition add_code :: "string \<Rightarrow> string \<Rightarrow> (string \<times> string list) list \<Rightarrow> (string \<times> string list) list" where
  "add_code col v m = dict_set col (add_new v (case map_of m col of Some vs \<Rightarrow> vs | None \<Rightarrow> [])) m"

definition equal_codes :: "'n ast_lib \<Rightarrow> 'n \<Rightarrow> (string \<times> string) list" where
  "equal_codes al ast =
     concat (map (\<lambda>eq. case extract_col_literal al eq of Some (c, v) \<Rightarrow> if c \<noteq> [] \<and> v \<noteq> [] then [(c, v)] else [] | None \<Rightarrow> [])
       (al_find_all al [K_EQ] ast))"

definition listed_codes :: "'n ast_lib \<Rightarrow> 'n \<Rightarrow> (string \<times> string) list" where
  "listed_codes al ast =
     concat (map (\<lambda>i. if al_is al K_Column (al_this al i)
         then map (\<lambda>v. (al_name al (al_this al i), v)) (filter (\<lambda>v. v \<noteq> []) (map (al_text al) (al_find_all al [K_Literal] i))) else [])
       (al_find_all al [K_In] ast))"

definition extract_code_values :: "'n ast_lib \<Rightarrow> 'n \<Rightarrow> (string \<times> string list) list" where
  "extract_code_values al ast = fold (\<lambda>(c, v). add_code c v) (equal_codes al ast @ listed_codes al ast) []"


text \<open>An alias before a dot is replaced by its table, wherever these letters stand.\<close>

definition resolve_text :: "(string \<times> string) list \<Rightarrow> string \<Rightarrow> string" where
  "resolve_text alias_map t =
     fold (\<lambda>(a, table) u. if contains u (a @ ''.'') then py_replace (a @ ''.'') (table @ ''.'') u else u) alias_map t"

definition resolved_texts :: "'n ast_lib \<Rightarrow> string \<Rightarrow> (string \<times> string) list \<Rightarrow> 'n list \<Rightarrow> string list" where
  "resolved_texts al dialect alias_map nodes =
     add_all (filter (\<lambda>t. t \<noteq> []) (map (\<lambda>n. resolve_text alias_map (al_sql al dialect n)) nodes)) []"

definition extract_agg_expressions :: "'n ast_lib \<Rightarrow> string \<Rightarrow> (string \<times> string) list \<Rightarrow> 'n \<Rightarrow> string list" where
  "extract_agg_expressions al dialect alias_map ast = resolved_texts al dialect alias_map (al_find_all al [K_AggFunc] ast)"

definition extract_select_columns :: "'n ast_lib \<Rightarrow> string \<Rightarrow> (string \<times> string) list \<Rightarrow> 'n \<Rightarrow> string list" where
  "extract_select_columns al dialect alias_map ast =
     (case find_first al K_Select ast of None \<Rightarrow> [] | Some s \<Rightarrow> resolved_texts al dialect alias_map (al_expressions al s))"

definition extract_group_by :: "'n ast_lib \<Rightarrow> string \<Rightarrow> (string \<times> string) list \<Rightarrow> 'n \<Rightarrow> string list" where
  "extract_group_by al dialect alias_map ast =
     (case find_first al K_Group ast of None \<Rightarrow> [] | Some g \<Rightarrow> resolved_texts al dialect alias_map (al_expressions al g))"

definition extract_order_by :: "'n ast_lib \<Rightarrow> string \<Rightarrow> 'n \<Rightarrow> string list" where
  "extract_order_by al dialect ast =
     (case find_first al K_Order ast of None \<Rightarrow> [] | Some s \<Rightarrow> map (al_sql al dialect) (al_expressions al s))"

definition extract_limit :: "'n ast_lib \<Rightarrow> 'n \<Rightarrow> int option" where
  "extract_limit al ast =
     (case find_first al K_Limit ast of
        None \<Rightarrow> None
      | Some l \<Rightarrow> (case al_expression al l of None \<Rightarrow> None | Some e \<Rightarrow> al_int al (al_sql al [] e)))"

definition has_kind :: "'n ast_lib \<Rightarrow> ast_kind \<Rightarrow> 'n \<Rightarrow> bool" where
  "has_kind al k ast \<longleftrightarrow> find_first al k ast \<noteq> None"

text \<open>\<open>value.strip("'\"")\<close>; the end sign of the expressions also matches before a final line end.\<close>

definition is_quote_char :: "char \<Rightarrow> bool" where
  "is_quote_char c \<longleftrightarrow> c = CHR 0x27 \<or> c = CHR 0x22"

definition unquoted :: "string \<Rightarrow> string" where
  "unquoted v = rev (dropWhile is_quote_char (rev (dropWhile is_quote_char v)))"

definition without_final_newline :: "string \<Rightarrow> string" where
  "without_final_newline s = (if s \<noteq> [] \<and> last s = CHR 0x0A then butlast s else s)"

text \<open>The shape of a text: D for a digit.\<close>

definition digit_shape :: "string \<Rightarrow> string" where
  "digit_shape s = map (\<lambda>c. if is_digit_char c then CHR ''D'' else if c = CHR ''D'' then CHR ''?'' else c) s"

definition infer_date_format :: "string \<Rightarrow> string option" where
  "infer_date_format v =
     (let shape = digit_shape (without_final_newline (unquoted v))
      in if v = [] then None
         else if shape = ''DDDDDDDD'' then Some ''YYYYMMDD''
         else if shape = ''DDDD-DD-DD'' then Some ''YYYY-MM-DD''
         else if shape = ''DDDDDD'' then Some ''YYYYMM''
         else if shape = ''DDDD-DD'' then Some ''YYYY-MM''
         else None)"

text \<open>\<open>(DT|DATE|YMD|YYMM|_DT$|_DATE$)\<close>: the last two add nothing to the first two.\<close>

definition is_date_column :: "string \<Rightarrow> bool" where
  "is_date_column n \<longleftrightarrow> list_ex (contains (py_upper n)) [''DT'', ''DATE'', ''YMD'', ''YYMM'']"

definition date_entries :: "'n ast_lib \<Rightarrow> 'n \<Rightarrow> (string \<times> string) list list" where
  "date_entries al cmp =
     (let fmt = (case List.map_filter (\<lambda>l. infer_date_format (al_text al l)) (al_find_all al [K_Literal] cmp) of
                   [] \<Rightarrow> None | f # _ \<Rightarrow> Some f)
      in case fmt of
           None \<Rightarrow> []
         | Some f \<Rightarrow> map (\<lambda>c. [(''column'', c), (''format'', f)]) (filter is_date_column (map (al_name al) (al_find_all al [K_Column] cmp))))"

definition extract_date_filters :: "'n ast_lib \<Rightarrow> 'n \<Rightarrow> (string \<times> string) list list" where
  "extract_date_filters al ast =
     add_all (concat (map (date_entries al) (al_find_all al [K_EQ, K_GTE, K_LTE, K_Between] ast))) []"

text \<open>The hints as \<open>StructuralHints\<close>; a key that is missing in the dictionary has the default.\<close>

definition no_hints :: structural_hints where
  "no_hints = \<lparr>join_patterns = [], code_columns = [], agg_expressions = [], date_filters = [],
     source_tables = [], select_columns = [], group_by_columns = [], order_by_columns = [], limit_value = None,
     has_distinct = False, has_subquery = False, has_having = False\<rparr>"

definition extract_structural_hints :: "'n ast_lib \<Rightarrow> string \<Rightarrow> string \<Rightarrow> structural_hints result" where
  "extract_structural_hints al sql dialect =
     result_bind (get_real_tables al sql dialect) (\<lambda>tables.
     result_bind (parse_sql_safe al sql dialect) (\<lambda>parsed.
       Inr (case parsed of
              None \<Rightarrow> no_hints\<lparr>source_tables := tables\<rparr>
            | Some ast \<Rightarrow>
                let alias_map = build_alias_map al ast
                in \<lparr>join_patterns = extract_join_patterns al alias_map ast, code_columns = extract_code_values al ast,
                    agg_expressions = extract_agg_expressions al dialect alias_map ast,
                    date_filters = extract_date_filters al ast, source_tables = tables,
                    select_columns = extract_select_columns al dialect alias_map ast,
                    group_by_columns = extract_group_by al dialect alias_map ast,
                    order_by_columns = extract_order_by al dialect ast, limit_value = extract_limit al ast,
                    has_distinct = has_kind al K_Distinct ast, has_subquery = has_kind al K_Subquery ast,
                    has_having = has_kind al K_Having ast\<rparr>)))"

section \<open>The merge\<close>

definition normalize_join :: "string \<Rightarrow> string" where
  "normalize_join j = py_join ''='' (sort (split_char CHR ''='' (filter (\<lambda>c. c \<noteq> CHR '' '') j)))"

text \<open>The first entry of each key, as the loops with a set of seen keys keep it.\<close>

fun add_first :: "('a \<Rightarrow> 'k) \<Rightarrow> 'a list \<Rightarrow> 'a list \<Rightarrow> 'a list" where
  "add_first key [] xs = xs"
| "add_first key (y # ys) xs = add_first key ys (if key y \<in> key ` set xs then xs else xs @ [y])"

definition add_codes_of :: "(string \<times> string list) \<Rightarrow> (string \<times> string list) list \<Rightarrow> (string \<times> string list) list" where
  "add_codes_of cv m = dict_set (fst cv) (add_all (snd cv) (case map_of m (fst cv) of Some vs \<Rightarrow> vs | None \<Rightarrow> [])) m"

definition merge_two :: "structural_hints \<Rightarrow> structural_hints \<Rightarrow> structural_hints" where
  "merge_two h m =
     \<lparr>join_patterns = add_first normalize_join (join_patterns h) (join_patterns m),
      code_columns = fold add_codes_of (code_columns h) (code_columns m),
      agg_expressions = add_first py_upper (agg_expressions h) (agg_expressions m),
      date_filters = add_all (date_filters h) (date_filters m),
      source_tables = add_all (source_tables h) (source_tables m),
      select_columns = add_all (select_columns h) (select_columns m),
      group_by_columns = add_all (group_by_columns h) (group_by_columns m),
      order_by_columns = add_all (order_by_columns h) (order_by_columns m),
      limit_value = (case limit_value m of Some n \<Rightarrow> Some n | None \<Rightarrow> limit_value h),
      has_distinct = (has_distinct m \<or> has_distinct h),
      has_subquery = (has_subquery m \<or> has_subquery h),
      has_having = (has_having m \<or> has_having h)\<rparr>"

definition merge_hints :: "structural_hints list \<Rightarrow> structural_hints" where
  "merge_hints hs = fold merge_two hs no_hints"


section \<open>The tables of a text\<close>

definition before :: "char option \<Rightarrow> string \<Rightarrow> char option" where
  "before prev pre = (if pre = [] then prev else Some (last pre))"

lemma upper_word_char: "is_word_char (upper_char c) \<Longrightarrow> is_word_char c"
  by (auto simp: is_word_char_def upper_char_def Let_def split: if_splits)

lemma letter_word: "is_upper_letter c \<Longrightarrow> is_word_char c" "is_digit_char c \<Longrightarrow> is_word_char c"
  by (auto simp: is_upper_letter_def is_word_char_def is_digit_char_def less_eq_char_def Let_def)

lemma table_name_words:
  assumes "is_table_name t"
  shows "list_all is_word_char t"
proof -
  define u where "u = py_upper t"
  from assms have n: "length u = 14" "take 3 u = ''TB_''" "list_all is_upper_letter (take 3 (drop 3 u))" "u ! 6 = CHR ''_''"
    "list_all (\<lambda>c. is_upper_letter c \<or> is_digit_char c) (drop 7 u)"
    by (simp_all add: is_table_name_def Let_def u_def py_upper_def TABLE_NAME_LENGTH_def)
  have "drop 3 u = take 3 (drop 3 u) @ drop 3 (drop 3 u)" by (rule append_take_drop_id [symmetric])
  then have "drop 3 u = take 3 (drop 3 u) @ drop 6 u" by (simp add: drop_drop)
  moreover have "drop 6 u = u ! 6 # drop 7 u" using n(1) by (simp add: Cons_nth_drop_Suc [symmetric])
  ultimately have "u = ''TB_'' @ take 3 (drop 3 u) @ CHR ''_'' # drop 7 u" using n(2,4) append_take_drop_id [of 3 u] by simp
  moreover have "list_all is_word_char (''TB_'' @ take 3 (drop 3 u) @ CHR ''_'' # drop 7 u)"
    using n(3,5) letter_word by (auto simp: list_all_iff is_word_char_def [of "CHR ''T''"] is_word_char_def [of "CHR ''B''"]
        is_word_char_def [of "CHR ''_''"])
  ultimately have "list_all is_word_char u" by simp
  then show ?thesis using upper_word_char by (auto simp: u_def py_upper_def list_all_iff)
qed

lemma find_names_sound:
  "n \<in> set (find_names prev k s) \<Longrightarrow> \<exists>pre t. s = pre @ t \<and> name_at (before prev pre) t \<and> n = take TABLE_NAME_LENGTH t"
proof (induction prev k s rule: find_names.induct)
  case (2 prev k c cs)
  then obtain pre t where "cs = pre @ t" "name_at (before (Some c) pre) t" "n = take TABLE_NAME_LENGTH t" by auto
  then show ?case by (intro exI [of _ "c # pre"] exI [of _ t]) (auto simp: before_def split: if_splits)
next
  case (3 prev c cs)
  show ?case
  proof (cases "name_at prev (c # cs) \<and> n = take TABLE_NAME_LENGTH (c # cs)")
    case True
    then show ?thesis by (intro exI [of _ "[]"] exI [of _ "c # cs"]) (simp add: before_def)
  next
    case False
    with 3 obtain pre t where "cs = pre @ t" "name_at (before (Some c) pre) t" "n = take TABLE_NAME_LENGTH t"
      by (auto split: if_splits)
    then show ?thesis by (intro exI [of _ "c # pre"] exI [of _ t]) (auto simp: before_def split: if_splits)
  qed
qed simp


text \<open>A name is bounded by characters that are no part of a word, so two names never overlap.\<close>

lemma find_names_complete:
  "s = pre @ t \<Longrightarrow> name_at (before prev pre) t \<Longrightarrow> list_all is_word_char (take k s) \<Longrightarrow> (0 < k \<longrightarrow> word_opt prev) \<Longrightarrow>
   take TABLE_NAME_LENGTH t \<in> set (find_names prev k s)"
proof (induction prev k s arbitrary: pre rule: find_names.induct)
  case (1 prev k)
  then show ?case by (simp add: name_at_def is_table_name_def TABLE_NAME_LENGTH_def Let_def)
next
  case (2 prev k c cs)
  from 2 obtain pre' where pre: "pre = c # pre'" by (cases pre) (auto simp: before_def name_at_def)
  with "2.prems" have "name_at (before (Some c) pre') t" by (auto simp: before_def split: if_splits)
  with "2.IH" [of pre'] "2.prems" pre show ?case by simp
next
  case (3 prev c cs)
  show ?case
  proof (cases pre)
    case Nil
    with 3 show ?thesis by (auto simp: before_def)
  next
    case (Cons d pre')
    with "3.prems" have t: "cs = pre' @ t" "name_at (before (Some c) pre') t" by (auto simp: before_def split: if_splits)
    show ?thesis
    proof (cases "name_at prev (c # cs)")
      case True
      then have "list_all is_word_char (take TABLE_NAME_LENGTH (c # cs))" by (simp add: name_at_def table_name_words)
      then have "list_all is_word_char (take (TABLE_NAME_LENGTH - 1) cs)" "is_word_char c" by (simp_all add: TABLE_NAME_LENGTH_def)
      with "3.IH"(1) [OF True t] True show ?thesis by simp
    next
      case False
      with "3.IH"(2) [OF False t] show ?thesis by simp
    qed
  qed
qed

lemma add_found_spec:
  "\<exists>ms. add_found ns ts = ts @ ms \<and> set ms \<subseteq> set ns \<and> distinct (map py_upper ms) \<and>
     py_upper ` set ms \<inter> py_upper ` set ts = {} \<and> py_upper ` set ns \<subseteq> py_upper ` set (ts @ ms)"
proof (induction ns arbitrary: ts)
  case (Cons n ns)
  show ?case
  proof (cases "py_upper n \<in> py_upper ` set ts")
    case True
    with Cons [of ts] show ?thesis by fastforce
  next
    case False
    from Cons [of "ts @ [n]"] obtain ms where ms: "add_found ns (ts @ [n]) = (ts @ [n]) @ ms" "set ms \<subseteq> set ns"
      "distinct (map py_upper ms)" "py_upper ` set ms \<inter> py_upper ` set (ts @ [n]) = {}"
      "py_upper ` set ns \<subseteq> py_upper ` set ((ts @ [n]) @ ms)" by blast
    with False show ?thesis by (intro exI [of _ "n # ms"]) auto
  qed
qed simp


definition named_in :: "string \<Rightarrow> string \<Rightarrow> bool" where
  "named_in text n \<longleftrightarrow> (\<exists>pre t. text = pre @ t \<and> name_at (before None pre) t \<and> n = take TABLE_NAME_LENGTH t)"

lemma table_names_exact: "n \<in> set (table_names sql) \<longleftrightarrow> named_in (strip_comments_and_literals sql) n"
  using find_names_sound [of n None 0] find_names_complete [where prev = None and k = 0]
  by (fastforce simp: table_names_def named_in_def)


section \<open>Comments and quoted texts\<close>

lemma double_Cons: "double_char q (c # body) = (if c = q then [q, q] else [c]) @ double_char q body"
  by (simp add: double_char_def)

lemma behind_quote_literal:
  "post = [] \<or> hd post \<noteq> q \<Longrightarrow> behind_quote q (double_char q body @ q # post) = Some post"
proof (induction body)
  case Nil
  then show ?case by (cases post) (simp_all add: double_char_def)
next
  case (Cons c body)
  obtain d ds where rest: "double_char q body @ q # post = d # ds" by (cases "double_char q body") auto
  show ?case
  proof (cases "c = q")
    case True
    with Cons show ?thesis by (simp add: double_Cons)
  next
    case False
    with Cons rest show ?thesis by (simp add: double_Cons)
  qed
qed

definition opens_nothing :: "char \<Rightarrow> bool" where
  "opens_nothing c \<longleftrightarrow> c \<noteq> CHR ''-'' \<and> c \<noteq> CHR ''/'' \<and> \<not> is_quote_char c"

lemma strip_plain: "list_all opens_nothing pre \<Longrightarrow> strip_comments_and_literals (pre @ s) = pre @ strip_comments_and_literals s"
proof (induction pre)
  case (Cons c pre)
  then have "comment_or_literal (c # pre @ s) = None"
    by (auto simp: comment_or_literal_def opens_nothing_def is_quote_char_def split: char.splits bool.splits list.splits)
  with Cons show ?case by (simp add: strip_comments_and_literals_def)
qed simp

text \<open>
  What is written as a literal, its quotes doubled, is one blank for the search: no name inside it
  is taken for a table.
\<close>

theorem literal_hides_names:
  assumes "list_all opens_nothing pre" "is_quote_char q" "post = [] \<or> hd post \<noteq> q"
  shows "strip_comments_and_literals (pre @ q # double_char q body @ q # post) = pre @ '' '' @ strip_comments_and_literals post"
proof -
  have "comment_or_literal (q # double_char q body @ q # post) = Some post"
    using assms(2) behind_quote_literal [OF assms(3), of body]
    by (auto simp: comment_or_literal_def is_quote_char_def split: list.splits)
  then show ?thesis by (simp add: strip_plain [OF assms(1)]) (simp add: strip_comments_and_literals_def)
qed


section \<open>The merge of the hints\<close>

lemma first_occurrences_snoc:
  "first_occurrences (ys @ [y]) = (if y \<in> set ys then first_occurrences ys else first_occurrences ys @ [y])"
  by (simp add: first_occurrences_def)

lemma set_first_occurrences [simp]: "set (first_occurrences ys) = set ys"
  by (simp add: first_occurrences_def)

lemma add_all_first: "add_all ys [] = first_occurrences ys"
proof (induction ys rule: rev_induct)
  case (snoc y ys)
  have "add_all (ys @ [y]) [] = add_new y (add_all ys [])" by (simp add: add_all_def)
  then show ?case by (simp add: snoc add_new_def first_occurrences_snoc)
qed (simp add: add_all_def first_occurrences_def)

lemma add_all_append: "add_all (ys @ zs) xs = add_all zs (add_all ys xs)"
  by (simp add: add_all_def)

lemma set_add_all [simp]: "set (add_all ys xs) = set ys \<union> set xs"
  unfolding add_all_def by (induction ys arbitrary: xs) (auto simp: add_new_def)

text \<open>A field that is merged by adding what is new collects the first occurrences of all.\<close>

lemma merged_lists:
  assumes "\<And>h m. field (merge_two h m) = add_all (field h) (field m)" "field no_hints = []"
  shows "field (merge_hints hs) = first_occurrences (concat (map field hs))"
proof -
  have "field (fold merge_two hs m) = add_all (concat (map field hs)) (field m)" for m
    by (induction hs arbitrary: m) (simp_all add: assms(1) add_all_append, simp add: add_all_def)
  then show ?thesis by (simp add: merge_hints_def assms(2) add_all_first)
qed

lemma add_first_spec:
  "distinct (map key xs) \<Longrightarrow> distinct (map key (add_first key ys xs)) \<and> key ` set (add_first key ys xs) = key ` (set ys \<union> set xs)"
  by (induction ys arbitrary: xs) (auto simp: image_iff)

lemma merged_firsts:
  assumes "\<And>h m. field (merge_two h m) = add_first key (field h) (field m)" "field no_hints = []"
  shows "distinct (map key (field (merge_hints hs))) \<and> key ` set (field (merge_hints hs)) = key ` (\<Union>h \<in> set hs. set (field h))"
proof -
  have "distinct (map key (field m)) \<Longrightarrow> distinct (map key (field (fold merge_two hs m))) \<and>
      key ` set (field (fold merge_two hs m)) = key ` ((\<Union>h \<in> set hs. set (field h)) \<union> set (field m))" for m
  proof (induction hs arbitrary: m)
    case (Cons h hs)
    from add_first_spec [OF Cons.prems, of "field h"] Cons.IH [of "merge_two h m"] show ?case
      by (simp add: assms(1) image_Un Un_ac)
  qed simp
  from this [of no_hints] show ?thesis by (simp add: merge_hints_def assms(2))
qed

definition code_pairs :: "(string \<times> string list) list \<Rightarrow> (string \<times> string) set" where
  "code_pairs m = {(c, v). \<exists>vs. map_of m c = Some vs \<and> v \<in> set vs}"

lemma code_pairs_add: "code_pairs (add_codes_of (c, vs) m) = code_pairs m \<union> {c} \<times> set vs"
  by (auto simp: code_pairs_def add_codes_of_def map_of_dict_set split: option.splits if_splits)

lemma code_pairs_fold: "code_pairs (fold add_codes_of cvs m) = code_pairs m \<union> (\<Union>(c, vs) \<in> set cvs. {c} \<times> set vs)"
  by (induction cvs arbitrary: m) (auto simp: code_pairs_add split: prod.splits)

lemma code_pairs_merged:
  "code_pairs (code_columns (merge_hints hs)) = (\<Union>h \<in> set hs. \<Union>(c, vs) \<in> set (code_columns h). {c} \<times> set vs)"
proof -
  have "code_pairs (code_columns (fold merge_two hs m)) =
      code_pairs (code_columns m) \<union> (\<Union>h \<in> set hs. \<Union>(c, vs) \<in> set (code_columns h). {c} \<times> set vs)" for m
    by (induction hs arbitrary: m) (auto simp: code_pairs_fold merge_two_def)
  from this [of no_hints] show ?thesis by (simp add: merge_hints_def no_hints_def code_pairs_def)
qed

text \<open>
  The merge of the hints of several statements: the lists are the first occurrences in order, the
  joins are kept once whatever the order of their sides, the aggregates once whatever their case,
  every column keeps all its codes, and no join, aggregate or code is lost.  How often an entry
  occurs plays no part.
\<close>

theorem merge_hints_spec:
  "source_tables (merge_hints hs) = first_occurrences (concat (map source_tables hs)) \<and>
   date_filters (merge_hints hs) = first_occurrences (concat (map date_filters hs)) \<and>
   select_columns (merge_hints hs) = first_occurrences (concat (map select_columns hs)) \<and>
   group_by_columns (merge_hints hs) = first_occurrences (concat (map group_by_columns hs)) \<and>
   order_by_columns (merge_hints hs) = first_occurrences (concat (map order_by_columns hs)) \<and>
   (distinct (map normalize_join (join_patterns (merge_hints hs))) \<and>
    normalize_join ` set (join_patterns (merge_hints hs)) = normalize_join ` (\<Union>h \<in> set hs. set (join_patterns h))) \<and>
   (distinct (map py_upper (agg_expressions (merge_hints hs))) \<and>
    py_upper ` set (agg_expressions (merge_hints hs)) = py_upper ` (\<Union>h \<in> set hs. set (agg_expressions h))) \<and>
   code_pairs (code_columns (merge_hints hs)) = (\<Union>h \<in> set hs. \<Union>(c, vs) \<in> set (code_columns h). {c} \<times> set vs)"
  by (intro conjI code_pairs_merged merged_lists merged_firsts [THEN conjunct1] merged_firsts [THEN conjunct2])
     (simp_all add: merge_two_def no_hints_def)

lemma sort_two: "sort [a, b] = sort [b, a]" for a b :: "'a :: linorder"
  by auto

text \<open>The order of the sides of a join does not matter.\<close>

theorem join_sides_swapped:
  assumes "CHR ''='' \<notin> set l" "CHR ''='' \<notin> set r"
  shows "normalize_join (l @ '' = '' @ r) = normalize_join (r @ '' = '' @ l)"
proof -
  have no: "CHR ''='' \<notin> set u \<Longrightarrow> split_char CHR ''='' (u @ CHR ''='' # v) = u # split_char CHR ''='' v"
    "CHR ''='' \<notin> set u \<Longrightarrow> split_char CHR ''='' u = [u]" for u v
    by (induction u) auto
  have "normalize_join (u @ '' = '' @ v) = py_join ''='' (sort [filter (\<lambda>c. c \<noteq> CHR '' '') u, filter (\<lambda>c. c \<noteq> CHR '' '') v])"
    if "CHR ''='' \<notin> set u" "CHR ''='' \<notin> set v" for u v
    using that by (simp add: normalize_join_def no)
  from this [OF assms] this [OF assms(2,1)] show ?thesis by (simp only: sort_two)
qed

text \<open>
  An alias is replaced inside longer names too: with the alias \<open>A\<close> of a table, a column of \<open>DATA\<close>
  gets a table that does not exist.
\<close>

theorem alias_inside_name:
  "resolve_text [(''A'', ''TB_ADW_LOAN001'')] ''DATA.AMT'' = ''DATTB_ADW_LOAN001.AMT''"
  by code_simp

text \<open>A column with the name of an output of the statement is no column of it, wherever it is used.\<close>

theorem output_name_hides_column:
  assumes "a \<in> set (map (al_alias al) (al_find_all al [K_Alias] ast))"
  shows "a \<notin> set (get_real_columns al ast)"
  using assms by (auto simp: get_real_columns_def select_aliases_def)

text \<open>Another error than \<open>ParseError\<close> of the parser is raised through the extraction, the tables of the text included.\<close>

theorem other_errors_escape:
  assumes "al_parse al (preprocess_dialect_quirks sql dialect) dialect = Inl e" "e \<noteq> ParseError"
  shows "get_real_tables al sql dialect = Inl e \<and> extract_structural_hints al sql dialect = Inl e"
proof -
  have "parse_sql_safe al sql dialect = Inl e" using assms by (cases e) (simp_all add: parse_sql_safe_def)
  then show ?thesis by (simp add: get_real_tables_def extract_structural_hints_def)
qed


definition blind_parser :: "unit ast_lib" where
  "blind_parser = \<lparr>al_parse = \<lambda>q d. Inl ParseError, al_is = \<lambda>k n. False, al_find_all = \<lambda>ks n. [], al_sources = \<lambda>n. [],
     al_name = \<lambda>n. [], al_alias = \<lambda>n. [], al_table = \<lambda>n. [], al_this = \<lambda>n. n, al_expression = \<lambda>n. None, al_text = \<lambda>n. [],
     al_on = \<lambda>n. None, al_expressions = \<lambda>n. [], al_sql = \<lambda>d n. [], al_int = \<lambda>t. None\<rparr>"

lemma blind_tables:
  "get_real_tables blind_parser ''BEGIN SELECT * FROM tb_adw_loan001; -- TB_BDP_DEPO001'' '''' = Inr [''tb_adw_loan001'']"
  by code_simp



section \<open>What the validator accepts\<close>

lemma real_tables_named:
  assumes "get_real_tables al sql dialect = Inr ts" "named_in (strip_comments_and_literals sql) n"
  shows "py_upper n \<in> py_upper ` set ts"
proof -
  from assms(1) obtain tree where "ts = add_found (table_names sql) tree"
    by (auto simp: get_real_tables_def result_bind_Inr_iff)
  with add_found_spec [of "table_names sql" tree] assms(2) show ?thesis by (auto simp: table_names_exact [symmetric])
qed

text \<open>The validator with the analysis of this file; a parser's error other than \<open>ParseError\<close> is not caught.\<close>

definition analysed :: "'n ast_lib \<Rightarrow> validator_env \<Rightarrow> validator_env" where
  "analysed al env = env\<lparr>
     ve_parses := \<lambda>d q. case parse_sql_safe al q d of Inr (Some a) \<Rightarrow> True | _ \<Rightarrow> False,
     ve_tables := \<lambda>d q. case get_real_tables al q d of Inr ts \<Rightarrow> ts | Inl e \<Rightarrow> [],
     ve_columns := \<lambda>d q. case parse_sql_safe al q d of Inr (Some a) \<Rightarrow> get_real_columns al a | _ \<Rightarrow> []\<rparr>"



definition open_parser :: "unit ast_lib" where
  "open_parser = blind_parser\<lparr>al_parse := \<lambda>q d. Inr ()\<rparr>"

definition loan_query :: string where
  "loan_query = ''SELECT 1 FROM tb_adw_loan001 LIMIT 5''"

lemma loan_names: "table_names loan_query = [''tb_adw_loan001'']"
  by code_simp

lemma loan_parsed: "parse_sql_safe open_parser q d = Inr (Some ())"
  by (simp add: parse_sql_safe_def open_parser_def blind_parser_def)

lemma loan_tables: "get_real_tables open_parser loan_query d = Inr [''tb_adw_loan001'']"
proof -
  have "extract_tables_from_ast open_parser () = []"
    by (simp add: extract_tables_from_ast_def open_parser_def blind_parser_def add_all_def)
  then show ?thesis by (simp add: get_real_tables_def loan_parsed loan_names)
qed

lemma loan_accepted:
  "validate_layer1 default_settings (analysed open_parser idle_env) loan_query
     (new_reasoning_state\<lparr>explored_tables := [sample_table ''TB_ADW_LOAN001'' ''ADW'' SELECTED]\<rparr>) ''tsql'' = Layer_pass"
proof -
  let ?r = "new_reasoning_state\<lparr>explored_tables := [sample_table ''TB_ADW_LOAN001'' ''ADW'' SELECTED]\<rparr>"
  have "normalize_unicode id (py_strip loan_query) = loan_query"
    and "check_forbidden_patterns loan_query = []" and "starts_with (py_upper loan_query) ''SELECT''"
    and "contains (py_upper loan_query) ''LIMIT''" by code_simp+
  then have "is_safe (validate_sql_safety default_settings id (\<lambda>_. True) [] loan_query ''tsql'')"
    by (simp add: safe_iff Let_def has_row_limit_def check_pii_columns_def loan_query_def)
  moreover have "active_tables ?r = [sample_table ''TB_ADW_LOAN001'' ''ADW'' SELECTED]"
    by (simp add: active_tables_def sample_table_def)
  moreover have "unknown_tables [''tb_adw_loan001''] [sample_table ''TB_ADW_LOAN001'' ''ADW'' SELECTED] = []" by code_simp
  moreover have "unknown_columns [] [sample_table ''TB_ADW_LOAN001'' ''ADW'' SELECTED] = []"
    by (simp add: unknown_columns_def)
  moreover have "get_real_columns open_parser () = []" by (simp add: get_real_columns_def open_parser_def blind_parser_def)
  ultimately show ?thesis by (simp add: validate_layer1_def analysed_def idle_env_def loan_parsed loan_tables)
qed


end
