(* ===== verification/TraceHandler.thy ===== *)
theory TraceHandler imports IntentService ModelReaders begin

text \<open>
  The record of a run, \<open>src/src/utils/tracker/callback_handler.py\<close>, with the models it fills,
  \<open>src/src/utils/tracker/evaluation.py\<close>: what the handler does at the start and the end of a node, for
  an event, and when a run is resumed, and the messages it sends to the client.  The clock, the
  texts of time stamps and whether a client listens are arguments; a failed transmission is only
  logged.  The texts of labels are in English.
\<close>

section \<open>The models\<close>

text \<open>A value of the graph's state: an enumeration's member, plain data, the reasoning state with its text, another object with its text.\<close>

datatype state_value = Enum_value string | Json_value json | Reason_value reasoning_state string | Object_value string

record timeline_entry =
  tl_seq :: int
  tl_event :: string
  tl_node :: string
  tl_parent :: "int option"
  tl_summary :: string
  tl_detail :: "(string \<times> json) list"
  tl_duration :: rat
  tl_status :: string
  tl_timestamp :: string

record llm_call_record =
  lc_node :: string
  lc_prompt_summary :: string
  lc_prompt_tokens :: int
  lc_response_text :: string
  lc_response_tokens :: int
  lc_model :: string
  lc_latency :: rat
  lc_timestamp :: string

record node_record =
  nr_node :: string
  nr_input :: "(string \<times> state_value) list"
  nr_output :: "(string \<times> state_value) list"
  nr_duration :: rat
  nr_status :: string
  nr_error :: string
  nr_timestamp :: string

record decision_record =
  dr_node :: string
  dr_type :: string
  dr_chosen :: string
  dr_alternatives :: "string list"
  dr_confidence :: rat
  dr_reason :: string
  dr_timestamp :: string

record context_record =
  cx_source :: string
  cx_query :: string
  cx_count :: int
  cx_summary :: "string list"
  cx_latency :: rat
  cx_timestamp :: string

record sql_record =
  sq_generated :: string
  sq_validated :: bool
  sq_errors :: "string list"
  sq_retries :: int
  sq_feedback :: string
  sq_success :: bool
  sq_rows :: int
  sq_time :: rat

record routing_decision =
  rd_next_node :: string
  rd_reason :: string
  rd_is_retry :: bool
  rd_retry_count :: int

record reasoning_record =
  rp_seq :: int
  rp_node :: string
  rp_phase :: string
  rp_round :: int
  rp_hypothesis :: string
  rp_step_type :: string
  rp_inputs :: "(string \<times> json) list"
  rp_output :: "(string \<times> json) list"
  rp_routing :: routing_decision
  rp_duration :: rat
  rp_model :: string
  rp_tokens :: int
  rp_timestamp :: string

record evaluation_trace =
  et_run_id :: string
  et_user_input :: string
  et_session_id :: string
  et_start_time :: string
  et_end_time :: string
  et_total_duration :: rat
  et_final_intent :: string
  et_final_status :: string
  et_final_response :: string
  et_error :: string
  et_nodes :: "node_record list"
  et_llm_calls :: "llm_call_record list"
  et_decisions :: "decision_record list"
  et_context :: "context_record list"
  et_sql :: sql_record
  et_timeline :: "timeline_entry list"
  et_reasoning_flow :: "reasoning_record list"
  et_total_llm_calls :: int
  et_total_llm_latency :: rat
  et_total_llm_tokens :: int
  et_node_path :: "string list"

definition new_sql_record :: sql_record where
  "new_sql_record = \<lparr>sq_generated = [], sq_validated = False, sq_errors = [], sq_retries = 0, sq_feedback = [], sq_success = False,
     sq_rows = 0, sq_time = 0\<rparr>"

definition new_routing :: routing_decision where
  "new_routing = \<lparr>rd_next_node = [], rd_reason = [], rd_is_retry = False, rd_retry_count = 0\<rparr>"

definition new_trace :: "string \<Rightarrow> evaluation_trace" where
  "new_trace run_id = \<lparr>et_run_id = run_id, et_user_input = [], et_session_id = [], et_start_time = [], et_end_time = [],
     et_total_duration = 0, et_final_intent = [], et_final_status = [], et_final_response = [], et_error = [], et_nodes = [],
     et_llm_calls = [], et_decisions = [], et_context = [], et_sql = new_sql_record, et_timeline = [], et_reasoning_flow = [],
     et_total_llm_calls = 0, et_total_llm_latency = 0, et_total_llm_tokens = 0, et_node_path = []\<rparr>"

section \<open>The handler\<close>

text \<open>What Python and the settings give: numbers of texts, texts of values, the limit of a trace text.\<close>

record trace_env =
  tv_num :: "string \<Rightarrow> rat option"
  tv_show :: "json \<Rightarrow> string"
  tv_limit :: int

record handler =
  th_trace :: evaluation_trace
  th_enabled :: bool
  th_listening :: bool
  th_seq :: int
  th_reasoning_seq :: int
  th_run_to_node :: "(string \<times> string) list"
  th_timers :: "(string \<times> rat \<times> int) list"
  th_inputs :: "(string \<times> (string \<times> state_value) list) list"
  th_explore_count :: int
  th_visits :: "(string \<times> int) list"
  th_active :: "string list"
  th_nested :: "string list"
  th_start_time :: rat

definition new_handler :: "string \<Rightarrow> bool \<Rightarrow> bool \<Rightarrow> handler" where
  "new_handler run_id enabled listening = \<lparr>th_trace = new_trace run_id, th_enabled = enabled, th_listening = listening,
     th_seq = 0, th_reasoning_seq = 0, th_run_to_node = [], th_timers = [], th_inputs = [], th_explore_count = 0, th_visits = [],
     th_active = [], th_nested = [], th_start_time = 0\<rparr>"

definition remove_key :: "'k \<Rightarrow> ('k \<times> 'v) list \<Rightarrow> ('k \<times> 'v) list" where
  "remove_key k m = filter (\<lambda>p. fst p \<noteq> k) m"

definition append_timeline ::
  "string \<Rightarrow> string \<Rightarrow> string \<Rightarrow> string \<Rightarrow> (string \<times> json) list \<Rightarrow> rat \<Rightarrow> string \<Rightarrow> int option \<Rightarrow> handler \<Rightarrow> handler" where
  "append_timeline stamp event node summary detail duration outcome parent h =
     (let seq = th_seq h + 1
      in h\<lparr>th_seq := seq, th_trace := (th_trace h)\<lparr>et_timeline := et_timeline (th_trace h) @
           [\<lparr>tl_seq = seq, tl_event = event, tl_node = node, tl_parent = parent, tl_summary = summary, tl_detail = detail,
             tl_duration = duration, tl_status = outcome, tl_timestamp = stamp\<rparr>]\<rparr>\<rparr>)"

definition get_active_parent_seq :: "string \<Rightarrow> handler \<Rightarrow> int option" where
  "get_active_parent_seq node h = map_option snd (map_of (th_timers h) node)"

section \<open>Progress\<close>

definition NODE_PROGRESS_MAP :: "(string \<times> string \<times> string \<times> string) list" where
  "NODE_PROGRESS_MAP =
     [(''preprocess'', ''interpret'', ''preparing the question, security check'', ''preparing the input''),
      (''intent_classifier'', ''interpret'', ''reading the conversation, classifying the question'', ''finding the intent''),
      (''query_normalizer'', ''interpret'', ''normalizing the question'', ''normalizing the question''),
      (''clarify'', ''interpret'', ''writing a question back'', ''writing a question back''),
      (''reasoning_preparer'', ''reason'', ''preparing the exploration'', ''planning the exploration''),
      (''context_explorer'', ''reason'', ''exploring tables and data'', ''exploring the sources''),
      (''context_retriever'', ''reason'', ''collecting tables and data'', ''collecting from the sources''),
      (''context_interpreter'', ''reason'', ''reading what was collected'', ''reading the data''),
      (''readiness_gate'', ''reason'', ''judging what was collected'', ''scoring the readiness''),
      (''sql_generator'', ''reason'', ''writing the conditions'', ''writing SQL''),
      (''sql_validator'', ''reason'', ''checking the conditions'', ''checking SQL''),
      (''recovery_planner'', ''reason'', ''looking for alternatives'', ''looking for alternatives''),
      (''recovery_agent'', ''reason'', ''exploring to recover'', ''exploring to recover''),
      (''result_finalizer'', ''reason'', ''closing the result'', ''closing the result''),
      (''simple_responder'', ''present'', ''writing a short answer'', ''writing the answer''),
      (''sql_executor'', ''present'', ''fetching the data'', ''asking the database''),
      (''analyzer'', ''present'', ''analysing the result'', ''analysing the data''),
      (''visualizer'', ''present'', ''drawing the result'', ''drawing the result''),
      (''formatter'', ''present'', ''writing the report'', ''arranging the result'')]"

definition PHASE_LABELS :: "(string \<times> string) list" where
  "PHASE_LABELS = [(''interpret'', ''reading the question''), (''reason'', ''exploring data and writing SQL''),
     (''present'', ''arranging the result'')]"

definition EXPLORING_NODES :: "string list" where
  "EXPLORING_NODES = [''context_explorer'', ''context_retriever'']"

definition emit_progress :: "string \<Rightarrow> string \<Rightarrow> handler \<Rightarrow> handler \<times> json list" where
  "emit_progress node action h =
     (if \<not> th_listening h then (h, [])
      else case map_of NODE_PROGRESS_MAP node of
             None \<Rightarrow> (h, [])
           | Some (ph, label, thinking) \<Rightarrow>
               let n = th_explore_count h + (if node \<in> set EXPLORING_NODES \<and> action = ''add'' then 1 else 0)
               in (h\<lparr>th_explore_count := n\<rparr>,
                   [JObj [(''type'', JStr ''progress''), (''action'', JStr action), (''phase'', JStr ph),
                      (''phaseLabel'', JStr (case map_of PHASE_LABELS ph of Some l \<Rightarrow> l | None \<Rightarrow> ph)),
                      (''label'', JStr (if node \<in> set EXPLORING_NODES \<and> n > 1
                                        then ''further exploration (no. '' @ str_int n @ '')'' else label)),
                      (''thinkingLabel'', JStr thinking)]]))"

section \<open>Values of the state\<close>

definition TRACKED_STATE_KEYS :: "string list" where
  "TRACKED_STATE_KEYS = [''intent'', ''intent_confidence'', ''query_category'', ''preprocessed_input'', ''is_continuation'',
     ''reason'', ''status'', ''error_message'', ''formatted_response'']"

text \<open>\<open>str\<close> of a member of a \<open>(str, Enum)\<close> class is the class with the member's name, not its value.\<close>

fun phase_text :: "phase \<Rightarrow> string" where
  "phase_text PLANNING = ''Phase.PLANNING''"
| "phase_text EXPLORING = ''Phase.EXPLORING''"
| "phase_text GENERATING = ''Phase.GENERATING''"
| "phase_text VALIDATING = ''Phase.VALIDATING''"
| "phase_text REPLANNING = ''Phase.REPLANNING''"
| "phase_text DONE = ''Phase.DONE''"

fun final_status_text :: "final_status \<Rightarrow> string" where
  "final_status_text Fin_PENDING = ''FinalStatus.PENDING''"
| "final_status_text Fin_SUCCESS = ''FinalStatus.SUCCESS''"
| "final_status_text Fin_CANCELLED = ''FinalStatus.CANCELLED''"
| "final_status_text Fin_FAILURE = ''FinalStatus.FAILURE''"
| "final_status_text Fin_AWAITING_CLARIFICATION = ''FinalStatus.AWAITING_CLARIFICATION''"

definition confidence_status_text :: "confidence_status \<Rightarrow> string" where
  "confidence_status_text st = ''ConfidenceStatus.'' @ confidence_status_value st"

definition reason_summary :: "reasoning_state \<Rightarrow> json" where
  "reason_summary r =
     JObj [(''phase'', JStr (phase_text (phase r))), (''hypotheses_count'', jint (int (length (hypotheses r)))),
       (''explored_tables_count'', jint (int (length (explored_tables r)))),
       (''knowledge_confirmed'',
         jint (int (length (filter (\<lambda>k. confidence_status_text (ki_status k) = ''CONFIRMED'') (knowledge_items r))))),
       (''generated_sql'', JBool (generated_sql r \<notin> {None, Some []})),
       (''validated_sql'', JBool (validated_sql r \<notin> {None, Some []})),
       (''final_status'', JStr (final_status_text (final_status r)))]"

definition snapshot_value :: "trace_env \<Rightarrow> string \<Rightarrow> state_value \<Rightarrow> state_value" where
  "snapshot_value tv key v =
     (case v of
        Reason_value r t \<Rightarrow> if key = ''reason'' then Json_value (reason_summary r) else v
      | Enum_value e \<Rightarrow> Json_value (JStr e)
      | Json_value (JStr t) \<Rightarrow> Json_value (JStr (truncate_at (tv_limit tv) t))
      | _ \<Rightarrow> v)"

definition snapshot_state :: "trace_env \<Rightarrow> (string \<times> state_value) list \<Rightarrow> (string \<times> state_value) list" where
  "snapshot_state tv state =
     List.map_filter (\<lambda>k. map_option (\<lambda>v. (k, snapshot_value tv k v)) (map_of state k)) TRACKED_STATE_KEYS"

definition format_state_value :: "trace_env \<Rightarrow> state_value \<Rightarrow> string" where
  "format_state_value tv v =
     (case v of
        Enum_value e \<Rightarrow> e
      | Json_value j \<Rightarrow> truncate_at (tv_limit tv) (py_str (tv_show tv) j)
      | Reason_value r t \<Rightarrow> truncate_at (tv_limit tv) t
      | Object_value t \<Rightarrow> truncate_at (tv_limit tv) t)"

definition is_none_value :: "state_value \<Rightarrow> bool" where
  "is_none_value v \<longleftrightarrow> v = Json_value JNull"

definition state_change :: "trace_env \<Rightarrow> (string \<times> state_value) list \<Rightarrow> string \<times> state_value \<Rightarrow> json list" where
  "state_change tv before_state kv =
     (let (key, v) = kv; shown = format_state_value tv v
      in if key = ''trace_log'' then []
         else case map_of before_state key of
                Some old \<Rightarrow>
                  if is_none_value old then [JObj [(''field'', JStr key), (''after'', JStr shown)]]
                  else if format_state_value tv old \<noteq> shown
                  then [JObj [(''field'', JStr key), (''before'', JStr (format_state_value tv old)), (''after'', JStr shown)]]
                  else []
              | None \<Rightarrow> [JObj [(''field'', JStr key), (''after'', JStr shown)]])"

text \<open>The output of a node is a dictionary, \<open>Inr\<close>, or another value with its text.\<close>

definition compute_state_diff ::
  "trace_env \<Rightarrow> (string \<times> state_value) list \<Rightarrow> string + (string \<times> state_value) list \<Rightarrow> json list" where
  "compute_state_diff tv before_state outputs =
     (case outputs of Inl t \<Rightarrow> [] | Inr kvs \<Rightarrow> concat (map (state_change tv before_state) kvs))"

definition summarize_value :: "trace_env \<Rightarrow> state_value \<Rightarrow> state_value" where
  "summarize_value tv v =
     (case v of
        Json_value (JStr t) \<Rightarrow> Json_value (JStr (truncate_at (tv_limit tv) t))
      | Json_value (JList xs) \<Rightarrow> Json_value (JStr (''(list, len='' @ nat_digits (length xs) @ '')''))
      | Json_value (JObj kvs) \<Rightarrow> Json_value (JStr (''(dict, len='' @ nat_digits (length kvs) @ '')''))
      | Enum_value e \<Rightarrow> Json_value (JStr e)
      | _ \<Rightarrow> v)"

definition summarize_state ::
  "trace_env \<Rightarrow> string + (string \<times> state_value) list \<Rightarrow> (string \<times> state_value) list" where
  "summarize_state tv state =
     (case state of
        Inl t \<Rightarrow> [(''raw'', Json_value (JStr (truncate_at (tv_limit tv) t)))]
      | Inr kvs \<Rightarrow> map (\<lambda>(k, v). (k, summarize_value tv v)) kvs)"


section \<open>The hooks of a node\<close>

definition round_ms :: "rat \<Rightarrow> rat" where
  "round_ms d = of_int (round_half_even (d * 10)) / 10"

definition add_name :: "string \<Rightarrow> string list \<Rightarrow> string list" where
  "add_name n ns = (if n \<in> set ns then ns else ns @ [n])"

text \<open>
  The framework starts a node twice, once for its wrapper: a start of a node that is under way
  is remembered as nested, and its end is ignored.
\<close>

definition on_chain_start ::
  "trace_env \<Rightarrow> rat \<Rightarrow> string \<Rightarrow> string \<Rightarrow> string \<Rightarrow> (string \<times> state_value) list \<Rightarrow> handler \<Rightarrow> handler \<times> json list" where
  "on_chain_start tv now stamp rid node inputs h =
     (if node = [] then (h, [])
      else if node \<in> set (th_active h) then (h\<lparr>th_nested := add_name rid (th_nested h)\<rparr>, [])
      else
        let (h1, msgs) = emit_progress node ''add''
              (h\<lparr>th_active := th_active h @ [node], th_run_to_node := dict_set rid node (th_run_to_node h)\<rparr>)
        in if \<not> th_enabled h then (h1, msgs)
           else
             let h2 = append_timeline stamp ''node_start'' node (node @ '' started'') [] 0 [] None h1;
                 visits = (case map_of (th_visits h2) node of Some n \<Rightarrow> n | None \<Rightarrow> 0)
             in (h2\<lparr>th_visits := dict_set node (visits + 1) (th_visits h2),
                   th_timers := dict_set node (now, th_seq h2) (th_timers h2),
                   th_inputs := dict_set node (snapshot_state tv inputs) (th_inputs h2),
                   th_trace := (th_trace h2)\<lparr>et_node_path := et_node_path (th_trace h2) @ [node]\<rparr>\<rparr>, msgs))"

text \<open>What the two ends of a node share: the node of the run, its time and its start in the timeline.\<close>

definition close_node :: "rat \<Rightarrow> string \<Rightarrow> string \<Rightarrow> handler \<Rightarrow> (handler \<times> json list) \<times> rat \<times> int option" where
  "close_node now rid node h =
     (let timer = map_of (th_timers h) node;
          (h1, msgs) = emit_progress node ''done''
            (h\<lparr>th_run_to_node := remove_key rid (th_run_to_node h), th_active := filter (\<lambda>n. n \<noteq> node) (th_active h)\<rparr>)
      in ((if th_enabled h then h1\<lparr>th_timers := remove_key node (th_timers h1), th_inputs := remove_key node (th_inputs h1)\<rparr> else h1, msgs),
          case timer of Some (t, s) \<Rightarrow> ((now - t) * 1000, Some s) | None \<Rightarrow> (0, None)))"

definition with_run ::
  "string \<Rightarrow> (string \<Rightarrow> handler \<Rightarrow> handler \<times> json list) \<Rightarrow> handler \<Rightarrow> handler \<times> json list" where
  "with_run rid f h =
     (if rid \<in> set (th_nested h) then (h\<lparr>th_nested := filter (\<lambda>r. r \<noteq> rid) (th_nested h)\<rparr>, [])
      else case map_of (th_run_to_node h) rid of None \<Rightarrow> (h, []) | Some node \<Rightarrow> f node h)"

definition add_node_record :: "node_record \<Rightarrow> handler \<Rightarrow> handler" where
  "add_node_record n h = h\<lparr>th_trace := (th_trace h)\<lparr>et_nodes := et_nodes (th_trace h) @ [n]\<rparr>\<rparr>"

definition on_chain_end ::
  "trace_env \<Rightarrow> rat \<Rightarrow> string \<Rightarrow> string \<Rightarrow> string + (string \<times> state_value) list \<Rightarrow> handler \<Rightarrow> handler \<times> json list" where
  "on_chain_end tv now stamp rid outputs =
     with_run rid (\<lambda>node h.
       let before_state = (case map_of (th_inputs h) node of Some b \<Rightarrow> b | None \<Rightarrow> []);
           ((h1, msgs), duration, parent) = close_node now rid node h
       in if \<not> th_enabled h then (h1, msgs)
          else (add_node_record \<lparr>nr_node = node, nr_input = summarize_state tv (Inr before_state),
                  nr_output = summarize_state tv outputs, nr_duration = round_ms duration, nr_status = ''success'',
                  nr_error = [], nr_timestamp = stamp\<rparr>
                 (append_timeline stamp ''node_end'' node (node @ '' finished'')
                   [(''state_changes'', JList (compute_state_diff tv before_state outputs))] duration ''success'' parent h1), msgs))"

definition on_chain_error :: "trace_env \<Rightarrow> rat \<Rightarrow> string \<Rightarrow> string \<Rightarrow> string \<Rightarrow> handler \<Rightarrow> handler \<times> json list" where
  "on_chain_error tv now stamp rid error =
     with_run rid (\<lambda>node h.
       let ((h1, msgs), duration, parent) = close_node now rid node h
       in if \<not> th_enabled h then (h1, msgs)
          else (add_node_record \<lparr>nr_node = node, nr_input = [], nr_output = [], nr_duration = round_ms duration,
                  nr_status = ''error'', nr_error = truncate_at (tv_limit tv) error, nr_timestamp = stamp\<rparr>
                 (append_timeline stamp ''node_end'' node (node @ '' failed: '' @ error) [] duration ''error'' parent h1), msgs))"

section \<open>Events\<close>

text \<open>
  A record is read from the event's data by pydantic; an event that does not fit raises, which the
  framework only logs: the state reached so far stays.
\<close>

definition read_decision :: "trace_env \<Rightarrow> string \<Rightarrow> string \<Rightarrow> (string \<times> json) list \<Rightarrow> decision_record result" where
  "read_decision tv stamp node d =
     result_bind (str_field (obj_get d ''node'' (JStr node))) (\<lambda>n.
     result_bind (str_at d ''decision_type'') (\<lambda>ty.
     result_bind (str_at d ''chosen'') (\<lambda>chosen.
     result_bind (list_field str_field (obj_get d ''alternatives'' (JList []))) (\<lambda>alternatives.
     result_bind (float_field (tv_num tv) (obj_get d ''confidence'' (JNum 0))) (\<lambda>confidence.
     result_bind (str_at d ''reason'') (\<lambda>why.
       Inr \<lparr>dr_node = n, dr_type = ty, dr_chosen = chosen, dr_alternatives = alternatives, dr_confidence = confidence,
            dr_reason = why, dr_timestamp = stamp\<rparr>))))))"

definition record_decision ::
  "trace_env \<Rightarrow> string \<Rightarrow> string \<Rightarrow> (string \<times> json) list \<Rightarrow> handler \<Rightarrow> handler \<times> unit result" where
  "record_decision tv stamp node d h =
     (case read_decision tv stamp node d of
        Inl e \<Rightarrow> (h, Inl e)
      | Inr r \<Rightarrow>
          (append_timeline stamp ''decision'' (dr_node r) (dr_type r @ '': '' @ dr_chosen r)
             ([(''confidence'', obj_get d ''confidence'' (JNum 0)), (''alternatives'', obj_get d ''alternatives'' (JList [])),
               (''reason'', obj_get d ''reason'' (JStr []))] @ (case map_of d ''detail'' of Some v \<Rightarrow> [(''detail'', v)] | None \<Rightarrow> []))
             0 [] (get_active_parent_seq (dr_node r) h)
             (h\<lparr>th_trace := (th_trace h)\<lparr>et_decisions := et_decisions (th_trace h) @ [r]\<rparr>\<rparr>), Inr ()))"

definition read_context :: "trace_env \<Rightarrow> string \<Rightarrow> (string \<times> json) list \<Rightarrow> context_record result" where
  "read_context tv stamp d =
     result_bind (str_at d ''source'') (\<lambda>source.
     result_bind (str_at d ''query'') (\<lambda>query.
     result_bind (int_field (tv_num tv) (obj_get d ''results_count'' (JNum 0))) (\<lambda>n.
     result_bind (list_field str_field (obj_get d ''results_summary'' (JList []))) (\<lambda>summary.
     result_bind (float_field (tv_num tv) (obj_get d ''latency_ms'' (JNum 0))) (\<lambda>latency.
       Inr \<lparr>cx_source = source, cx_query = query, cx_count = n, cx_summary = summary, cx_latency = latency,
            cx_timestamp = stamp\<rparr>)))))"

text \<open>The status is checked by the entry of the timeline, after its number has been taken.\<close>

definition record_context_retrieval ::
  "trace_env \<Rightarrow> string \<Rightarrow> string \<Rightarrow> (string \<times> json) list \<Rightarrow> handler \<Rightarrow> handler \<times> unit result" where
  "record_context_retrieval tv stamp node d h =
     (case read_context tv stamp d of
        Inl e \<Rightarrow> (h, Inl e)
      | Inr r \<Rightarrow>
          let h1 = h\<lparr>th_trace := (th_trace h)\<lparr>et_context := et_context (th_trace h) @ [r]\<rparr>\<rparr>
          in case str_field (obj_get d ''status'' (JStr ''success'')) of
               Inl e \<Rightarrow> (h1\<lparr>th_seq := th_seq h1 + 1\<rparr>, Inl e)
             | Inr outcome \<Rightarrow>
                 (append_timeline stamp ''tool_call'' node
                    (cx_source r @ '': '' @ py_str (tv_show tv) (obj_get d ''results_count'' (JNum 0)) @ '' results'')
                    [(''source'', JStr (cx_source r)), (''query'', JStr (truncate_at (tv_limit tv) (cx_query r))),
                     (''results_count'', obj_get d ''results_count'' (JNum 0))]
                    (cx_latency r) outcome (get_active_parent_seq node h) h1, Inr ()))"

definition read_llm_call :: "trace_env \<Rightarrow> json \<Rightarrow> (string \<times> json) list \<Rightarrow> llm_call_record result" where
  "read_llm_call tv stamp d =
     result_bind (str_at d ''node'') (\<lambda>node.
     result_bind (str_at d ''prompt_summary'') (\<lambda>summary.
     result_bind (int_field (tv_num tv) (obj_get d ''prompt_tokens'' (JNum 0))) (\<lambda>n_in.
     result_bind (str_at d ''response_text'') (\<lambda>text.
     result_bind (int_field (tv_num tv) (obj_get d ''response_tokens'' (JNum 0))) (\<lambda>n_out.
     result_bind (str_at d ''model'') (\<lambda>model.
     result_bind (float_field (tv_num tv) (obj_get d ''latency_ms'' (JNum 0))) (\<lambda>latency.
     result_bind (str_field stamp) (\<lambda>t.
       Inr \<lparr>lc_node = node, lc_prompt_summary = summary, lc_prompt_tokens = n_in, lc_response_text = text,
            lc_response_tokens = n_out, lc_model = model, lc_latency = latency, lc_timestamp = t\<rparr>))))))))"

definition call_tokens :: "llm_call_record \<Rightarrow> int" where
  "call_tokens r = lc_prompt_tokens r + lc_response_tokens r"

definition record_llm_call :: "trace_env \<Rightarrow> string \<Rightarrow> (string \<times> json) list \<Rightarrow> handler \<Rightarrow> handler \<times> unit result" where
  "record_llm_call tv stamp d h =
     (case read_llm_call tv (JStr stamp) d of
        Inl e \<Rightarrow> (h, Inl e)
      | Inr r \<Rightarrow>
          let t = th_trace h;
              h1 = h\<lparr>th_trace := t\<lparr>et_llm_calls := et_llm_calls t @ [r], et_total_llm_calls := et_total_llm_calls t + 1,
                et_total_llm_latency := et_total_llm_latency t + lc_latency r,
                et_total_llm_tokens := et_total_llm_tokens t + call_tokens r\<rparr>\<rparr>
          in (append_timeline stamp ''llm_call'' (lc_node r)
                (''LLM('' @ py_str (tv_show tv) (obj_get d ''model'' (JStr ''?'')) @ '') '' @ str_int (call_tokens r) @ ''tok'')
                [(''model'', JStr (lc_model r)), (''prompt_tokens'', jint (lc_prompt_tokens r)),
                 (''response_tokens'', jint (lc_response_tokens r))]
                (lc_latency r) [] (get_active_parent_seq (lc_node r) h) h1, Inr ()))"

definition read_sql :: "trace_env \<Rightarrow> (string \<times> json) list \<Rightarrow> sql_record result" where
  "read_sql tv d =
     result_bind (str_at d ''generated_sql'') (\<lambda>sql.
     result_bind (bool_field (obj_get d ''validated'' (JBool False))) (\<lambda>validated.
     result_bind (list_field str_field (obj_get d ''validation_errors'' (JList []))) (\<lambda>errors.
     result_bind (int_field (tv_num tv) (obj_get d ''retry_count'' (JNum 0))) (\<lambda>retries.
     result_bind (str_at d ''validation_feedback'') (\<lambda>feedback.
     result_bind (bool_field (obj_get d ''execution_success'' (JBool False))) (\<lambda>success.
     result_bind (int_field (tv_num tv) (obj_get d ''row_count'' (JNum 0))) (\<lambda>n.
     result_bind (float_field (tv_num tv) (obj_get d ''execution_time_ms'' (JNum 0))) (\<lambda>time.
       Inr \<lparr>sq_generated = sql, sq_validated = validated, sq_errors = errors, sq_retries = retries, sq_feedback = feedback,
            sq_success = success, sq_rows = n, sq_time = time\<rparr>))))))))"

definition record_sql_data :: "trace_env \<Rightarrow> (string \<times> json) list \<Rightarrow> handler \<Rightarrow> handler \<times> unit result" where
  "record_sql_data tv d h =
     (case read_sql tv d of
        Inl e \<Rightarrow> (h, Inl e) | Inr r \<Rightarrow> (h\<lparr>th_trace := (th_trace h)\<lparr>et_sql := r\<rparr>\<rparr>, Inr ()))"

definition record_sql :: "trace_env \<Rightarrow> (string \<times> json) list \<Rightarrow> handler \<Rightarrow> handler \<times> unit result" where
  "record_sql tv d h = (if th_enabled h then record_sql_data tv d h else (h, Inr ()))"


definition read_routing :: "trace_env \<Rightarrow> (string \<times> json) list \<Rightarrow> routing_decision result" where
  "read_routing tv d =
     result_bind (str_at d ''next_node'') (\<lambda>next_node.
     result_bind (str_at d ''reason'') (\<lambda>why.
     result_bind (bool_field (obj_get d ''is_retry'' (JBool False))) (\<lambda>retry.
     result_bind (int_field (tv_num tv) (obj_get d ''retry_count'' (JNum 0))) (\<lambda>n.
       Inr \<lparr>rd_next_node = next_node, rd_reason = why, rd_is_retry = retry, rd_retry_count = n\<rparr>))))"

text \<open>The fields of a reasoning step after its number; \<open>routing\<close> has been read.\<close>

definition read_reasoning ::
  "trace_env \<Rightarrow> int \<Rightarrow> string \<Rightarrow> json \<Rightarrow> routing_decision \<Rightarrow> (string \<times> json) list \<Rightarrow> reasoning_record result" where
  "read_reasoning tv seq node stamp routing d =
     result_bind (str_field (obj_get d ''node'' (JStr node))) (\<lambda>n.
     result_bind (str_at d ''phase'') (\<lambda>ph.
     result_bind (int_field (tv_num tv) (obj_get d ''round'' (JNum 0))) (\<lambda>rnd.
     result_bind (str_at d ''hypothesis_id'') (\<lambda>hyp.
     result_bind (str_at d ''step_type'') (\<lambda>ty.
     result_bind (dict_field (obj_get d ''inputs'' (JObj []))) (\<lambda>inputs.
     result_bind (dict_field (obj_get d ''output'' (JObj []))) (\<lambda>output.
     result_bind (float_field (tv_num tv) (obj_get d ''duration_ms'' (JNum 0))) (\<lambda>duration.
     result_bind (str_at d ''model'') (\<lambda>model.
     result_bind (int_field (tv_num tv) (obj_get d ''tokens'' (JNum 0))) (\<lambda>tokens.
     result_bind (str_field stamp) (\<lambda>t.
       Inr \<lparr>rp_seq = seq, rp_node = n, rp_phase = ph, rp_round = rnd, rp_hypothesis = hyp, rp_step_type = ty, rp_inputs = inputs,
            rp_output = output, rp_routing = routing, rp_duration = duration, rp_model = model, rp_tokens = tokens,
            rp_timestamp = t\<rparr>)))))))))))"

definition add_reasoning :: "reasoning_record \<Rightarrow> handler \<Rightarrow> handler" where
  "add_reasoning r h = h\<lparr>th_trace := (th_trace h)\<lparr>et_reasoning_flow := et_reasoning_flow (th_trace h) @ [r]\<rparr>\<rparr>"

definition record_reasoning_step ::
  "trace_env \<Rightarrow> string \<Rightarrow> string \<Rightarrow> (string \<times> json) list \<Rightarrow> handler \<Rightarrow> handler \<times> unit result" where
  "record_reasoning_step tv stamp node d h =
     (let seq = th_reasoning_seq h + 1; h1 = h\<lparr>th_reasoning_seq := seq\<rparr>
      in case result_bind (case obj_get d ''routing'' JNull of JObj rd \<Rightarrow> read_routing tv rd | _ \<Rightarrow> Inr new_routing)
                (\<lambda>routing. read_reasoning tv seq node (JStr stamp) routing d) of
           Inl e \<Rightarrow> (h1, Inl e)
         | Inr r \<Rightarrow> (add_reasoning r h1, Inr ()))"

definition DELTA_END_KEYS :: "string list" where "DELTA_END_KEYS = [''cancelled'', ''error'', ''error_code'']"

definition emit_llm_delta :: "string \<Rightarrow> (string \<times> json) list \<Rightarrow> handler \<Rightarrow> json list" where
  "emit_llm_delta name d h =
     (if \<not> th_listening h then []
      else
        let event = last (split_char CHR ''.'' name); ws_event = (if event = ''chunk'' then ''delta'' else event);
            part_type = obj_get d ''part_type'' JNull
        in [JObj ([(''type'', JStr ''llm_delta''), (''turn_id'', obj_get d ''turn_id'' (JStr [])),
                   (''part_id'', obj_get d ''part_id'' (JStr [])), (''event'', JStr ws_event)] @
                  (if json_true part_type then [(''part_type'', part_type)] else []) @
                  (if ws_event = ''delta'' then [(''text'', obj_get d ''text'' (JStr []))] else []) @
                  (if ws_event = ''reset'' then [(''reason'', obj_get d ''reason'' (JStr []))] else []) @
                  (if ws_event = ''end''
                   then List.map_filter (\<lambda>k. map_option (\<lambda>v. (k, v)) (map_of d k)) DELTA_END_KEYS else []))])"

definition on_custom_event ::
  "trace_env \<Rightarrow> string \<Rightarrow> string \<Rightarrow> string \<Rightarrow> (string \<times> json) list \<Rightarrow> handler \<Rightarrow> (handler \<times> unit result) \<times> json list" where
  "on_custom_event tv stamp rid name d h =
     (if \<not> th_enabled h then ((h, Inr ()), [])
      else
        let node = (case map_of (th_run_to_node h) rid of Some n \<Rightarrow> n | None \<Rightarrow> []);
            domain = hd (split_char CHR ''.'' name)
        in if domain = ''decision'' then (record_decision tv stamp node d h, [])
           else if domain = ''context'' then (record_context_retrieval tv stamp node d h, [])
           else if domain = ''llm'' then
             (if name = ''llm.call'' then (record_llm_call tv stamp d h, [])
              else if starts_with name ''llm.delta.'' then ((h, Inr ()), emit_llm_delta name d h)
              else ((h, Inr ()), []))
           else if domain = ''sql'' then (record_sql_data tv d h, [])
           else if domain = ''reasoning'' then (record_reasoning_step tv stamp node d h, [])
           else ((h, Inr ()), []))"

section \<open>The run\<close>

definition start_run :: "rat \<Rightarrow> string \<Rightarrow> string \<Rightarrow> string \<Rightarrow> handler \<Rightarrow> handler" where
  "start_run now stamp user_text sid h =
     h\<lparr>th_start_time := now,
       th_trace := (th_trace h)\<lparr>et_user_input := user_text, et_session_id := sid, et_start_time := stamp\<rparr>\<rparr>"

definition end_run :: "rat \<Rightarrow> string \<Rightarrow> string \<Rightarrow> string \<Rightarrow> string \<Rightarrow> string \<Rightarrow> handler \<Rightarrow> handler" where
  "end_run now stamp intent_text status_text response error h =
     h\<lparr>th_trace := (th_trace h)\<lparr>et_end_time := stamp, et_total_duration := (now - th_start_time h) * 1000,
       et_final_intent := intent_text, et_final_status := status_text, et_final_response := response, et_error := error\<rparr>\<rparr>"

text \<open>The files of a run: their names, and which are written.\<close>

definition four_digits :: "int \<Rightarrow> string" where
  "four_digits n = (let t = str_int (abs n); w = (if n < 0 then 3 else 4)
     in (if n < 0 then ''-'' else []) @ replicate (w - length t) CHR ''0'' @ t)"

record trace_switches =
  ts_json :: bool
  ts_report :: bool
  ts_reasoning :: bool

definition saved_files :: "trace_switches \<Rightarrow> string \<Rightarrow> int \<Rightarrow> string \<Rightarrow> bool \<Rightarrow> handler \<Rightarrow> (string \<times> string) list" where
  "saved_files ts date turn_seq user_id with_report h =
     (let t = th_trace h; sid = (if et_session_id t \<noteq> [] then et_session_id t else et_run_id t);
          prefix = date @ ''_'' @ user_id @ ''_'' @ sid @ ''_'' @ four_digits turn_seq
      in if \<not> th_enabled h then []
         else (if ts_json ts then [(''telemetry (JSON)'', ''trace_telemetry_'' @ prefix @ ''.json'')] else []) @
              (if ts_report ts \<and> with_report \<and> et_timeline t \<noteq> [] then [(''report'', ''trace_report_'' @ prefix @ ''.md'')] else []) @
              (if ts_reasoning ts \<and> et_reasoning_flow t \<noteq> [] then [(''reasoning'', ''trace_reasoning_'' @ prefix @ ''.md'')] else []))"

section \<open>Resuming\<close>

text \<open>A loop that reads every entry and appends it; an entry that does not fit ends it with what has been appended.\<close>

fun append_read :: "(json \<Rightarrow> 'a result) \<Rightarrow> ('a \<Rightarrow> handler \<Rightarrow> handler) \<Rightarrow> json list \<Rightarrow> handler \<Rightarrow> handler \<times> unit result" where
  "append_read read add [] h = (h, Inr ())"
| "append_read read add (v # vs) h =
     (case read v of Inl e \<Rightarrow> (h, Inl e) | Inr x \<Rightarrow> append_read read add vs (add x h))"

definition then_do :: "handler \<times> unit result \<Rightarrow> (handler \<Rightarrow> handler \<times> unit result) \<Rightarrow> handler \<times> unit result" where
  "then_do r f = (case r of (h, Inl e) \<Rightarrow> (h, Inl e) | (h, Inr u) \<Rightarrow> f h)"

definition with_value :: "'a result \<Rightarrow> ('a \<Rightarrow> handler \<Rightarrow> handler) \<Rightarrow> handler \<Rightarrow> handler \<times> unit result" where
  "with_value r f h = (case r of Inl e \<Rightarrow> (h, Inl e) | Inr x \<Rightarrow> (f x h, Inr ()))"

definition entry_dict :: "json \<Rightarrow> (string \<times> json) list result" where
  "entry_dict v = (case v of JObj d \<Rightarrow> Inr d | _ \<Rightarrow> Inl AttributeError)"

definition restored_reasoning :: "trace_env \<Rightarrow> json \<Rightarrow> reasoning_record result" where
  "restored_reasoning tv v =
     result_bind (entry_dict v) (\<lambda>d.
     result_bind (int_field (tv_num tv) (obj_get d ''seq'' (JNum 0))) (\<lambda>seq.
     result_bind (let rd = obj_get d ''routing'' (JObj [])
                  in if json_true rd then (case rd of JObj r \<Rightarrow> read_routing tv r | _ \<Rightarrow> Inl TypeErr) else Inr new_routing) (\<lambda>routing.
       read_reasoning tv seq [] (obj_get d ''timestamp'' (JStr [])) routing d)))"

definition restored_entry :: "trace_env \<Rightarrow> json \<Rightarrow> timeline_entry result" where
  "restored_entry tv v =
     result_bind (entry_dict v) (\<lambda>d.
     result_bind (int_field (tv_num tv) (obj_get d ''seq'' (JNum 0))) (\<lambda>seq.
     result_bind (str_at d ''event_type'') (\<lambda>event.
     result_bind (str_at d ''node'') (\<lambda>node.
     result_bind (option_field (int_field (tv_num tv)) (obj_get d ''parent_seq'' JNull)) (\<lambda>parent.
     result_bind (str_at d ''summary'') (\<lambda>summary.
     result_bind (dict_field (obj_get d ''detail'' (JObj []))) (\<lambda>detail.
     result_bind (float_field (tv_num tv) (obj_get d ''duration_ms'' (JNum 0))) (\<lambda>duration.
     result_bind (str_at d ''status'') (\<lambda>outcome.
     result_bind (str_at d ''timestamp'') (\<lambda>stamp.
       Inr \<lparr>tl_seq = seq, tl_event = event, tl_node = node, tl_parent = parent, tl_summary = summary, tl_detail = detail,
            tl_duration = duration, tl_status = outcome, tl_timestamp = stamp\<rparr>))))))))))"

definition restored_call :: "trace_env \<Rightarrow> json \<Rightarrow> llm_call_record result" where
  "restored_call tv v = result_bind (entry_dict v) (\<lambda>d. read_llm_call tv (obj_get d ''timestamp'' (JStr [])) d)"

definition add_entry :: "timeline_entry \<Rightarrow> handler \<Rightarrow> handler" where
  "add_entry e h = h\<lparr>th_trace := (th_trace h)\<lparr>et_timeline := et_timeline (th_trace h) @ [e]\<rparr>\<rparr>"

definition add_call :: "llm_call_record \<Rightarrow> handler \<Rightarrow> handler" where
  "add_call r h = h\<lparr>th_trace := (th_trace h)\<lparr>et_llm_calls := et_llm_calls (th_trace h) @ [r]\<rparr>\<rparr>"

text \<open>\<open>max(e.get("seq", 0) for e in entries)\<close>, for the entries read before.\<close>

definition json_number :: "json \<Rightarrow> rat result" where
  "json_number v = (case v of JNum q \<Rightarrow> Inr q | JBool b \<Rightarrow> Inr (if b then 1 else 0) | _ \<Rightarrow> Inl TypeErr)"

definition largest_seq :: "json list \<Rightarrow> int result" where
  "largest_seq vs =
     result_bind (map_result (\<lambda>v. result_bind (entry_dict v) (\<lambda>d. json_number (obj_get d ''seq'' (JNum 0)))) vs)
       (\<lambda>qs. Inr \<lfloor>Max (set qs)\<rfloor>)"

definition text_value :: "json \<Rightarrow> string result" where
  "text_value v = (case v of JStr t \<Rightarrow> Inr t | _ \<Rightarrow> Inl TypeErr)"

definition append_all :: "(json \<Rightarrow> 'a result) \<Rightarrow> ('a \<Rightarrow> handler \<Rightarrow> handler) \<Rightarrow> json \<Rightarrow> handler \<Rightarrow> handler \<times> unit result" where
  "append_all read add v h = (case json_iter v of Inl e \<Rightarrow> (h, Inl e) | Inr vs \<Rightarrow> append_read read add vs h)"

definition set_counter :: "(int \<Rightarrow> handler \<Rightarrow> handler) \<Rightarrow> json \<Rightarrow> handler \<Rightarrow> handler \<times> unit result" where
  "set_counter upd v h =
     (if json_true v then with_value (result_bind (json_iter v) largest_seq) upd h else (h, Inr ()))"

definition add_total :: "(rat \<Rightarrow> evaluation_trace \<Rightarrow> evaluation_trace) \<Rightarrow> json \<Rightarrow> handler \<Rightarrow> handler \<times> unit result" where
  "add_total upd v = with_value (json_number v) (\<lambda>q h. h\<lparr>th_trace := upd q (th_trace h)\<rparr>)"

text \<open>The statements of \<open>resume_from\<close> in their order; the first that raises is the last.\<close>

definition resume_from :: "trace_env \<Rightarrow> (string \<times> json) list \<Rightarrow> handler \<Rightarrow> handler \<times> unit result" where
  "resume_from tv previous h =
     (let steps = obj_get previous ''reasoning_flow'' (JList []); entries = obj_get previous ''timeline'' (JList [])
      in fold (\<lambda>f r. then_do r f)
           [append_all (restored_reasoning tv) add_reasoning steps,
            append_all (restored_entry tv) add_entry entries,
            append_all (restored_call tv) add_call (obj_get previous ''llm_calls'' (JList [])),
            with_value (list_field text_value (obj_get previous ''node_path'' (JList [])))
              (\<lambda>path h. h\<lparr>th_trace := (th_trace h)\<lparr>et_node_path := path @ et_node_path (th_trace h)\<rparr>\<rparr>),
            with_value (text_value (obj_get previous ''start_time'' (JStr (et_start_time (th_trace h)))))
              (\<lambda>t h. h\<lparr>th_trace := (th_trace h)\<lparr>et_start_time := t\<rparr>\<rparr>),
            with_value (text_value (obj_get previous ''user_input'' (JStr (et_user_input (th_trace h)))))
              (\<lambda>t h. h\<lparr>th_trace := (th_trace h)\<lparr>et_user_input := t\<rparr>\<rparr>),
            set_counter (\<lambda>n h. h\<lparr>th_seq := n\<rparr>) entries,
            set_counter (\<lambda>n h. h\<lparr>th_reasoning_seq := n\<rparr>) steps,
            add_total (\<lambda>q t. t\<lparr>et_total_llm_calls := et_total_llm_calls t + \<lfloor>q\<rfloor>\<rparr>)
              (obj_get previous ''total_llm_calls'' (JNum 0)),
            add_total (\<lambda>q t. t\<lparr>et_total_llm_tokens := et_total_llm_tokens t + \<lfloor>q\<rfloor>\<rparr>)
              (obj_get previous ''total_llm_tokens'' (JNum 0)),
            add_total (\<lambda>q t. t\<lparr>et_total_llm_latency := et_total_llm_latency t + q\<rparr>)
              (obj_get previous ''total_llm_latency_ms'' (JNum 0))]
           (h, Inr ()))"

definition node_display_name :: "string \<Rightarrow> handler \<Rightarrow> string \<times> nat option" where
  "node_display_name node h =
     (let count = (case map_of (th_visits h) node of Some n \<Rightarrow> n | None \<Rightarrow> 0)
      in if count \<le> 1 then (node, None) else (node, Some (nat (min count 10))))"


section \<open>The dump of a trace\<close>

definition dump_routing :: "routing_decision \<Rightarrow> json" where
  "dump_routing r = JObj [(''next_node'', JStr (rd_next_node r)), (''reason'', JStr (rd_reason r)),
     (''is_retry'', JBool (rd_is_retry r)), (''retry_count'', jint (rd_retry_count r))]"

definition dump_reasoning :: "reasoning_record \<Rightarrow> json" where
  "dump_reasoning r = JObj [(''seq'', jint (rp_seq r)), (''node'', JStr (rp_node r)), (''phase'', JStr (rp_phase r)),
     (''round'', jint (rp_round r)), (''hypothesis_id'', JStr (rp_hypothesis r)), (''step_type'', JStr (rp_step_type r)),
     (''inputs'', JObj (rp_inputs r)), (''output'', JObj (rp_output r)), (''routing'', dump_routing (rp_routing r)),
     (''duration_ms'', JNum (rp_duration r)), (''model'', JStr (rp_model r)), (''tokens'', jint (rp_tokens r)),
     (''timestamp'', JStr (rp_timestamp r))]"

definition dump_entry :: "timeline_entry \<Rightarrow> json" where
  "dump_entry e = JObj [(''seq'', jint (tl_seq e)), (''event_type'', JStr (tl_event e)), (''node'', JStr (tl_node e)),
     (''parent_seq'', json_option jint (tl_parent e)), (''summary'', JStr (tl_summary e)), (''detail'', JObj (tl_detail e)),
     (''duration_ms'', JNum (tl_duration e)), (''status'', JStr (tl_status e)), (''timestamp'', JStr (tl_timestamp e))]"

definition dump_call :: "llm_call_record \<Rightarrow> json" where
  "dump_call r = JObj [(''node'', JStr (lc_node r)), (''prompt_summary'', JStr (lc_prompt_summary r)),
     (''prompt_tokens'', jint (lc_prompt_tokens r)), (''response_text'', JStr (lc_response_text r)),
     (''response_tokens'', jint (lc_response_tokens r)), (''model'', JStr (lc_model r)), (''latency_ms'', JNum (lc_latency r)),
     (''timestamp'', JStr (lc_timestamp r))]"

text \<open>\<open>to_dict\<close>: the entries a later run reads back, with the others as an argument; the order of the keys does not matter.\<close>

definition trace_dict :: "(string \<times> json) list \<Rightarrow> evaluation_trace \<Rightarrow> (string \<times> json) list" where
  "trace_dict others t =
     [(''user_input'', JStr (et_user_input t)), (''start_time'', JStr (et_start_time t)),
      (''llm_calls'', JList (map dump_call (et_llm_calls t))), (''timeline'', JList (map dump_entry (et_timeline t))),
      (''reasoning_flow'', JList (map dump_reasoning (et_reasoning_flow t))),
      (''total_llm_calls'', jint (et_total_llm_calls t)), (''total_llm_latency_ms'', JNum (et_total_llm_latency t)),
      (''total_llm_tokens'', jint (et_total_llm_tokens t)), (''node_path'', jstrs (et_node_path t))] @ others"

lemma routing_roundtrip: "\<exists>kvs. dump_routing r = JObj kvs \<and> kvs \<noteq> [] \<and> read_routing tv kvs = Inr r"
  by (simp add: dump_routing_def read_routing_def str_at_def obj_get_def str_field_def bool_field_def)

lemma reasoning_roundtrip: "restored_reasoning tv (dump_reasoning r) = Inr r"
proof -
  obtain kvs where kvs: "dump_routing (rp_routing r) = JObj kvs" "kvs \<noteq> []" "read_routing tv kvs = Inr (rp_routing r)"
    using routing_roundtrip by blast
  then show ?thesis
    by (simp add: restored_reasoning_def dump_reasoning_def entry_dict_def obj_get_def read_reasoning_def str_at_def
        str_field_def dict_field_def float_field_def Let_def)
qed

lemma entry_roundtrip: "restored_entry tv (dump_entry e) = Inr e"
  by (simp add: restored_entry_def dump_entry_def entry_dict_def obj_get_def str_at_def str_field_def dict_field_def float_field_def)

lemma call_roundtrip: "restored_call tv (dump_call r) = Inr r"
  by (simp add: restored_call_def dump_call_def entry_dict_def read_llm_call_def obj_get_def str_at_def str_field_def float_field_def)

section \<open>The record is consistent\<close>

definition starts_node :: "timeline_entry list \<Rightarrow> int \<Rightarrow> string \<Rightarrow> bool" where
  "starts_node es q node \<longleftrightarrow> (\<exists>s \<in> set es. tl_seq s = q \<and> tl_event s = ''node_start'' \<and> tl_node s = node)"

definition entries_ok :: "timeline_entry list \<Rightarrow> int \<Rightarrow> bool" where
  "entries_ok es n \<longleftrightarrow> sorted_wrt (<) (map tl_seq es) \<and> 0 \<le> n \<and>
     (\<forall>e \<in> set es. 1 \<le> tl_seq e \<and> tl_seq e \<le> n \<and>
        (\<forall>p. tl_parent e = Some p \<longrightarrow> p < tl_seq e \<and> starts_node es p (tl_node e)))"

definition timers_ok :: "timeline_entry list \<Rightarrow> (string \<times> rat \<times> int) list \<Rightarrow> bool" where
  "timers_ok es ts \<longleftrightarrow> (\<forall>node t q. map_of ts node = Some (t, q) \<longrightarrow> starts_node es q node)"

definition totals_ok :: "evaluation_trace \<Rightarrow> bool" where
  "totals_ok t \<longleftrightarrow> et_total_llm_calls t = int (length (et_llm_calls t)) \<and>
     et_total_llm_latency t = sum_list (map lc_latency (et_llm_calls t)) \<and>
     et_total_llm_tokens t = sum_list (map call_tokens (et_llm_calls t))"

definition trace_ok :: "handler \<Rightarrow> bool" where
  "trace_ok h \<longleftrightarrow> entries_ok (et_timeline (th_trace h)) (th_seq h) \<and> timers_ok (et_timeline (th_trace h)) (th_timers h) \<and>
     totals_ok (th_trace h)"

lemma starts_more: "starts_node es q node \<Longrightarrow> starts_node (es @ ds) q node"
  by (auto simp: starts_node_def)

lemma entries_snoc:
  assumes "entries_ok es n" "tl_seq e = n + 1" "\<And>p. tl_parent e = Some p \<Longrightarrow> starts_node es p (tl_node e)"
  shows "entries_ok (es @ [e]) (n + 1)"
proof -
  have "p < tl_seq e" if "tl_parent e = Some p" for p
    using assms(1,2) assms(3) [OF that] by (fastforce simp: entries_ok_def starts_node_def)
  with assms starts_more [of es _ _ "[e]"] show ?thesis
    by (fastforce simp: entries_ok_def sorted_wrt_append)
qed

lemma append_timeline_ok:
  assumes "trace_ok h" "\<And>p. parent = Some p \<Longrightarrow> starts_node (et_timeline (th_trace h)) p node"
  shows "trace_ok (append_timeline stamp event node summary detail duration outcome parent h)"
proof -
  let ?e = "\<lparr>tl_seq = th_seq h + 1, tl_event = event, tl_node = node, tl_parent = parent, tl_summary = summary,
    tl_detail = detail, tl_duration = duration, tl_status = outcome, tl_timestamp = stamp\<rparr>"
  have "entries_ok (et_timeline (th_trace h) @ [?e]) (th_seq h + 1)"
    using assms by (intro entries_snoc) (auto simp: trace_ok_def)
  moreover have "timers_ok (et_timeline (th_trace h) @ [?e]) (th_timers h)"
    using assms(1) starts_more by (fastforce simp: trace_ok_def timers_ok_def)
  ultimately show ?thesis using assms(1) by (simp add: trace_ok_def append_timeline_def totals_ok_def Let_def)
qed

lemma active_parent_starts:
  "trace_ok h \<Longrightarrow> get_active_parent_seq node h = Some p \<Longrightarrow> starts_node (et_timeline (th_trace h)) p node"
  by (auto simp: trace_ok_def timers_ok_def get_active_parent_seq_def)


text \<open>The fields the consistency does not look at.\<close>

lemma trace_ok_frame [simp]:
  "trace_ok (h\<lparr>th_explore_count := c\<rparr>) = trace_ok h" "trace_ok (h\<lparr>th_nested := ns\<rparr>) = trace_ok h"
  "trace_ok (h\<lparr>th_active := a\<rparr>) = trace_ok h" "trace_ok (h\<lparr>th_run_to_node := m\<rparr>) = trace_ok h"
  "trace_ok (h\<lparr>th_visits := v\<rparr>) = trace_ok h" "trace_ok (h\<lparr>th_inputs := i\<rparr>) = trace_ok h"
  "trace_ok (h\<lparr>th_reasoning_seq := n\<rparr>) = trace_ok h" "trace_ok (h\<lparr>th_start_time := t\<rparr>) = trace_ok h"
  "trace_ok (h\<lparr>th_trace := (th_trace h)\<lparr>et_node_path := p\<rparr>\<rparr>) = trace_ok h"
  "trace_ok (h\<lparr>th_trace := (th_trace h)\<lparr>et_nodes := ns'\<rparr>\<rparr>) = trace_ok h"
  "trace_ok (h\<lparr>th_trace := (th_trace h)\<lparr>et_decisions := ds\<rparr>\<rparr>) = trace_ok h"
  "trace_ok (h\<lparr>th_trace := (th_trace h)\<lparr>et_context := cs\<rparr>\<rparr>) = trace_ok h"
  "trace_ok (h\<lparr>th_trace := (th_trace h)\<lparr>et_sql := q\<rparr>\<rparr>) = trace_ok h"
  "trace_ok (h\<lparr>th_trace := (th_trace h)\<lparr>et_reasoning_flow := rf\<rparr>\<rparr>) = trace_ok h"
  by (simp_all add: trace_ok_def totals_ok_def)

lemma emit_progress_frame: "\<exists>c. fst (emit_progress node action h) = h\<lparr>th_explore_count := c\<rparr>"
  by (auto simp: emit_progress_def Let_def split: option.split intro: exI [of _ "th_explore_count h"])

lemma emitted_ok [simp]: "trace_ok (fst (emit_progress node action h)) = trace_ok h"
  using emit_progress_frame [of node action h] by auto

lemma timers_removed:
  assumes "trace_ok h"
  shows "trace_ok (h\<lparr>th_timers := remove_key node (th_timers h)\<rparr>)"
proof -
  have "map_of (filter (\<lambda>p. fst p \<noteq> node) ts) k = (if k = node then None else map_of ts k)" for ts :: "(string \<times> rat \<times> int) list" and k
    by (induction ts) auto
  with assms show ?thesis by (auto simp: trace_ok_def timers_ok_def remove_key_def totals_ok_def)
qed

lemma timer_added:
  assumes "trace_ok h" "starts_node (et_timeline (th_trace h)) q node"
  shows "trace_ok (h\<lparr>th_timers := dict_set node (now, q) (th_timers h)\<rparr>)"
  using assms by (auto simp: trace_ok_def timers_ok_def map_of_dict_set totals_ok_def)

lemma appended_starts:
  "starts_node (et_timeline (th_trace (append_timeline stamp ''node_start'' node summary detail duration outcome parent h)))
     (th_seq (append_timeline stamp ''node_start'' node summary detail duration outcome parent h)) node"
  by (auto simp: starts_node_def append_timeline_def Let_def)

lemma start_ok:
  assumes "trace_ok h"
  shows "trace_ok (fst (on_chain_start tv now stamp rid node inputs h))"
proof -
  let ?h0 = "h\<lparr>th_active := th_active h @ [node], th_run_to_node := dict_set rid node (th_run_to_node h)\<rparr>"
  obtain h1 msgs where e: "emit_progress node ''add'' ?h0 = (h1, msgs)" by fastforce
  have h1: "trace_ok h1" using emitted_ok [of node "''add''" ?h0] assms by (simp add: e)
  let ?h2 = "append_timeline stamp ''node_start'' node (node @ '' started'') [] 0 [] None h1"
  have "trace_ok ?h2" using h1 by (intro append_timeline_ok) simp_all
  then have "trace_ok (?h2\<lparr>th_timers := dict_set node (now, th_seq ?h2) (th_timers ?h2)\<rparr>)"
    by (intro timer_added appended_starts)
  then show ?thesis using assms h1 by (simp add: on_chain_start_def e Let_def trace_ok_def totals_ok_def)
qed

lemma close_node_ok:
  assumes "trace_ok h" "close_node now rid node h = ((h1, msgs), duration, parent)"
  shows "trace_ok h1 \<and> (\<forall>p. parent = Some p \<longrightarrow> starts_node (et_timeline (th_trace h1)) p node)"
proof -
  let ?h0 = "h\<lparr>th_run_to_node := remove_key rid (th_run_to_node h), th_active := filter (\<lambda>n. n \<noteq> node) (th_active h)\<rparr>"
  obtain h2 msgs2 where e: "emit_progress node ''done'' ?h0 = (h2, msgs2)" by fastforce
  have h2: "trace_ok h2" "th_trace h2 = th_trace h"
    using emitted_ok [of node "''done''" ?h0] emit_progress_frame [of node "''done''" ?h0] assms(1) by (auto simp: e)
  have parents: "parent = Some p \<Longrightarrow> starts_node (et_timeline (th_trace h)) p node" for p
    using assms by (auto simp: close_node_def e Let_def trace_ok_def timers_ok_def split: option.splits)
  have "h1 = (if th_enabled h then h2\<lparr>th_timers := remove_key node (th_timers h2), th_inputs := remove_key node (th_inputs h2)\<rparr> else h2)"
    using assms(2) by (auto simp: close_node_def e Let_def)
  then show ?thesis using parents timers_removed [OF h2(1), of node] h2 by auto
qed

lemma with_run_ok:
  "trace_ok h \<Longrightarrow> (\<And>node. trace_ok (fst (f node h))) \<Longrightarrow> trace_ok (fst (with_run rid f h))"
  by (auto simp: with_run_def split: option.split)

lemma reasoning_added_ok [simp]: "trace_ok (add_reasoning r h) = trace_ok h"
  by (simp add: add_reasoning_def)

lemma node_record_ok [simp]: "trace_ok (add_node_record r h) = trace_ok h"
  by (simp add: add_node_record_def)

lemma end_ok:
  assumes "trace_ok h"
  shows "trace_ok (fst (on_chain_end tv now stamp rid outputs h))" "trace_ok (fst (on_chain_error tv now stamp rid error h))"
proof -
  have "trace_ok h1 \<and> (\<forall>p. parent = Some p \<longrightarrow> starts_node (et_timeline (th_trace h1)) p node)"
    if "close_node now rid node h = ((h1, msgs), duration, parent)" for node h1 msgs duration parent
    using close_node_ok [OF assms that] .
  note close = this
  show "trace_ok (fst (on_chain_end tv now stamp rid outputs h))"
    unfolding on_chain_end_def using close
    by (intro with_run_ok [OF assms]) (auto simp: Let_def split: prod.split intro!: append_timeline_ok)
  show "trace_ok (fst (on_chain_error tv now stamp rid error h))"
    unfolding on_chain_error_def using close
    by (intro with_run_ok [OF assms]) (auto simp: Let_def split: prod.split intro!: append_timeline_ok)
qed


lemma call_added:
  assumes "trace_ok h"
  shows "trace_ok (h\<lparr>th_trace := (th_trace h)\<lparr>et_llm_calls := et_llm_calls (th_trace h) @ [r],
    et_total_llm_calls := et_total_llm_calls (th_trace h) + 1, et_total_llm_latency := et_total_llm_latency (th_trace h) + lc_latency r,
    et_total_llm_tokens := et_total_llm_tokens (th_trace h) + call_tokens r\<rparr>\<rparr>)"
  using assms by (simp add: trace_ok_def totals_ok_def)

lemma number_taken: "trace_ok h \<Longrightarrow> trace_ok (h\<lparr>th_seq := th_seq h + 1\<rparr>)"
  by (fastforce simp: trace_ok_def entries_ok_def totals_ok_def)

lemma records_ok:
  assumes "trace_ok h"
  shows "trace_ok (fst (record_decision tv stamp node d h))"
    "trace_ok (fst (record_context_retrieval tv stamp node d h))"
    "trace_ok (fst (record_llm_call tv stamp d h))"
    "trace_ok (fst (record_sql_data tv d h))"
    "trace_ok (fst (record_reasoning_step tv stamp node d h))"
proof -
  show "trace_ok (fst (record_decision tv stamp node d h))"
    using assms active_parent_starts [OF assms]
    by (auto simp: record_decision_def split: sum.split intro!: append_timeline_ok)
  show "trace_ok (fst (record_context_retrieval tv stamp node d h))"
    using assms active_parent_starts [OF assms]
      number_taken [of "h\<lparr>th_trace := (th_trace h)\<lparr>et_context := et_context (th_trace h) @ [r]\<rparr>\<rparr>" for r]
    by (auto simp: record_context_retrieval_def Let_def split: sum.split intro!: append_timeline_ok)
  show "trace_ok (fst (record_llm_call tv stamp d h))"
    using call_added [OF assms] assms active_parent_starts [OF assms]
    by (auto simp: record_llm_call_def Let_def split: sum.split intro!: append_timeline_ok)
  show "trace_ok (fst (record_sql_data tv d h))"
    using assms by (auto simp: record_sql_data_def split: sum.split)
  show "trace_ok (fst (record_reasoning_step tv stamp node d h))"
    using assms by (auto simp: record_reasoning_step_def Let_def split: sum.split)
qed


text \<open>What can happen to a handler, in any order and for any nodes and runs.\<close>

datatype trace_event =
  Node_start rat string string string "(string \<times> state_value) list"
| Node_end rat string string "string + (string \<times> state_value) list"
| Node_error rat string string string
| Custom_event string string string "(string \<times> json) list"
| Sql_recorded "(string \<times> json) list"
| Run_start rat string string string
| Run_end rat string string string string string

fun th_step :: "trace_env \<Rightarrow> trace_event \<Rightarrow> handler \<Rightarrow> handler" where
  "th_step tv (Node_start now stamp rid node inputs) h = fst (on_chain_start tv now stamp rid node inputs h)"
| "th_step tv (Node_end now stamp rid outputs) h = fst (on_chain_end tv now stamp rid outputs h)"
| "th_step tv (Node_error now stamp rid error) h = fst (on_chain_error tv now stamp rid error h)"
| "th_step tv (Custom_event stamp rid name d) h = fst (fst (on_custom_event tv stamp rid name d h))"
| "th_step tv (Sql_recorded d) h = fst (record_sql tv d h)"
| "th_step tv (Run_start now stamp user_text sid) h = start_run now stamp user_text sid h"
| "th_step tv (Run_end now stamp intent_text status_text response error) h =
     end_run now stamp intent_text status_text response error h"

lemma run_ok:
  "trace_ok h \<Longrightarrow> trace_ok (start_run now stamp user_text sid h)"
  "trace_ok h \<Longrightarrow> trace_ok (end_run now stamp intent_text status_text response error h)"
  by (simp_all add: start_run_def end_run_def trace_ok_def totals_ok_def)

lemma th_step_ok: "trace_ok h \<Longrightarrow> trace_ok (th_step tv ev h)"
  by (cases ev) (simp_all add: start_ok end_ok records_ok run_ok on_custom_event_def record_sql_def Let_def)

lemma trace_events_ok: "trace_ok h \<Longrightarrow> trace_ok (fold (th_step tv) evs h)"
  by (induction evs arbitrary: h) (simp_all add: th_step_ok)

lemma new_handler_ok: "trace_ok (new_handler run_id enabled listening)"
  by (simp add: trace_ok_def new_handler_def new_trace_def entries_ok_def timers_ok_def totals_ok_def)

text \<open>
  The record is consistent after any events in any order: the entries are numbered upwards, every
  entry with a parent follows the start of its own node that the parent names, and the totals are
  those of the calls recorded.
\<close>
theorem trace_consistent: "trace_ok (fold (th_step tv) evs (new_handler run_id enabled listening))"
  by (intro trace_events_ok new_handler_ok)

lemma no_knowledge_confirmed: "obj_get (case reason_summary r of JObj d \<Rightarrow> d) ''knowledge_confirmed'' JNull = jint 0"
  by (simp add: reason_summary_def obj_get_def confidence_status_text_def)

section \<open>A run resumed\<close>

lemma append_read_dump:
  assumes "\<And>x. read (dump x) = Inr x"
  shows "append_read read add (map dump xs) h = (fold add xs h, Inr ())"
  by (induction xs arbitrary: h) (simp_all add: assms)

lemma fold_add_reasoning:
  "fold add_reasoning rs h = h\<lparr>th_trace := (th_trace h)\<lparr>et_reasoning_flow := et_reasoning_flow (th_trace h) @ rs\<rparr>\<rparr>"
  by (induction rs arbitrary: h) (simp_all add: add_reasoning_def)

lemma fold_add_entry:
  "fold add_entry es h = h\<lparr>th_trace := (th_trace h)\<lparr>et_timeline := et_timeline (th_trace h) @ es\<rparr>\<rparr>"
  by (induction es arbitrary: h) (simp_all add: add_entry_def)

lemma fold_add_call:
  "fold add_call cs h = h\<lparr>th_trace := (th_trace h)\<lparr>et_llm_calls := et_llm_calls (th_trace h) @ cs\<rparr>\<rparr>"
  by (induction cs arbitrary: h) (simp_all add: add_call_def)

lemmas folded = fold_add_reasoning fold_add_entry fold_add_call

definition top_seq :: "int list \<Rightarrow> int" where
  "top_seq qs = (if qs = [] then 0 else Max (set qs))"

lemma floor_max:
  assumes "qs \<noteq> []"
  shows "\<lfloor>Max ((of_int :: int \<Rightarrow> rat) ` set qs)\<rfloor> = Max (set qs)"
proof -
  have "mono (of_int :: int \<Rightarrow> rat)" by (simp add: mono_def)
  then have "Max ((of_int :: int \<Rightarrow> rat) ` set qs) = of_int (Max (set qs))"
    using mono_Max_commute [of "of_int :: int \<Rightarrow> rat" "set qs"] assms by simp
  then show ?thesis by simp
qed

lemma largest_dumped:
  "es \<noteq> [] \<Longrightarrow> largest_seq (map dump_entry es) = Inr (top_seq (map tl_seq es))"
  "rs \<noteq> [] \<Longrightarrow> largest_seq (map dump_reasoning rs) = Inr (top_seq (map rp_seq rs))"
proof -
  have "map_result (\<lambda>v. result_bind (entry_dict v) (\<lambda>d. json_number (obj_get d ''seq'' (JNum 0)))) (map dump_entry es) =
      Inr (map (of_int \<circ> tl_seq) es)" for es
    by (induction es) (simp_all add: dump_entry_def entry_dict_def obj_get_def json_number_def jint_def)
  then show "es \<noteq> [] \<Longrightarrow> largest_seq (map dump_entry es) = Inr (top_seq (map tl_seq es))"
    using floor_max [of "map tl_seq es"] by (simp add: largest_seq_def top_seq_def image_image)
  have "map_result (\<lambda>v. result_bind (entry_dict v) (\<lambda>d. json_number (obj_get d ''seq'' (JNum 0)))) (map dump_reasoning rs) =
      Inr (map (of_int \<circ> rp_seq) rs)" for rs
    by (induction rs) (simp_all add: dump_reasoning_def entry_dict_def obj_get_def json_number_def jint_def)
  then show "rs \<noteq> [] \<Longrightarrow> largest_seq (map dump_reasoning rs) = Inr (top_seq (map rp_seq rs))"
    using floor_max [of "map rp_seq rs"] by (simp add: largest_seq_def top_seq_def image_image)
qed


definition resumed :: "evaluation_trace \<Rightarrow> evaluation_trace \<Rightarrow> evaluation_trace" where
  "resumed t fresh = fresh\<lparr>et_reasoning_flow := et_reasoning_flow t, et_timeline := et_timeline t, et_llm_calls := et_llm_calls t,
     et_node_path := et_node_path t, et_start_time := et_start_time t, et_user_input := et_user_input t,
     et_total_llm_calls := et_total_llm_calls t, et_total_llm_tokens := et_total_llm_tokens t,
     et_total_llm_latency := et_total_llm_latency t\<rparr>"

lemma path_read: "list_field text_value (jstrs path) = Inr path"
  by (simp add: list_field_def jstrs_def map_result_all text_value_def)

lemma dict_entries:
  "obj_get (trace_dict others t) ''reasoning_flow'' v = JList (map dump_reasoning (et_reasoning_flow t))"
  "obj_get (trace_dict others t) ''timeline'' v = JList (map dump_entry (et_timeline t))"
  "obj_get (trace_dict others t) ''llm_calls'' v = JList (map dump_call (et_llm_calls t))"
  "obj_get (trace_dict others t) ''node_path'' v = jstrs (et_node_path t)"
  "obj_get (trace_dict others t) ''start_time'' v = JStr (et_start_time t)"
  "obj_get (trace_dict others t) ''user_input'' v = JStr (et_user_input t)"
  "obj_get (trace_dict others t) ''total_llm_calls'' v = jint (et_total_llm_calls t)"
  "obj_get (trace_dict others t) ''total_llm_tokens'' v = jint (et_total_llm_tokens t)"
  "obj_get (trace_dict others t) ''total_llm_latency_ms'' v = JNum (et_total_llm_latency t)"
  by (simp_all add: trace_dict_def obj_get_def)

lemma counter_set:
  "set_counter upd (JList (map dump_entry es)) h = (if es = [] then h else upd (top_seq (map tl_seq es)) h, Inr ())"
  "set_counter upd (JList (map dump_reasoning rs)) h = (if rs = [] then h else upd (top_seq (map rp_seq rs)) h, Inr ())"
  by (simp_all add: set_counter_def largest_dumped with_value_def)

lemma then_do_Inr [simp]: "then_do (h, Inr u) f = f h"
  by (simp add: then_do_def)

lemma with_value_Inr [simp]: "with_value (Inr x) f h = (f x h, Inr ())"
  by (simp add: with_value_def)

lemma total_added: "add_total upd (jint n) h = (h\<lparr>th_trace := upd (of_int n) (th_trace h)\<rparr>, Inr ())"
  "add_total upd (JNum q) h = (h\<lparr>th_trace := upd q (th_trace h)\<rparr>, Inr ())"
  by (simp_all add: add_total_def json_number_def jint_def)

lemma all_appended:
  "append_all (restored_reasoning tv) add_reasoning (JList (map dump_reasoning rs)) h = (fold add_reasoning rs h, Inr ())"
  "append_all (restored_entry tv) add_entry (JList (map dump_entry es)) h = (fold add_entry es h, Inr ())"
  "append_all (restored_call tv) add_call (JList (map dump_call cs)) h = (fold add_call cs h, Inr ())"
  by (simp_all add: append_all_def append_read_dump reasoning_roundtrip entry_roundtrip call_roundtrip)

lemma resume_fresh:
  "resume_from tv (trace_dict others t) (start_run now stamp user_text sid (new_handler run_id enabled listening)) =
   (let h = start_run now stamp user_text sid (new_handler run_id enabled listening)
    in h\<lparr>th_trace := resumed t (th_trace h), th_seq := top_seq (map tl_seq (et_timeline t)),
         th_reasoning_seq := top_seq (map rp_seq (et_reasoning_flow t))\<rparr>, Inr ())"
  by (simp add: resume_from_def dict_entries all_appended folded path_read text_value_def counter_set total_added Let_def
      start_run_def new_handler_def new_trace_def resumed_def top_seq_def)


lemma entries_top:
  assumes "entries_ok es n"
  shows "entries_ok es (top_seq (map tl_seq es))"
proof -
  have "tl_seq e \<le> top_seq (map tl_seq es)" if "e \<in> set es" for e
    using that by (auto simp: top_seq_def)
  moreover have "0 \<le> top_seq (map tl_seq es)"
    using assms by (cases es) (auto simp: top_seq_def entries_ok_def Max_ge_iff)
  ultimately show ?thesis using assms by (auto simp: entries_ok_def)
qed

text \<open>Nothing that happens later takes an entry away or changes one.\<close>

definition extends_timeline :: "handler \<Rightarrow> handler \<Rightarrow> bool" where
  "extends_timeline h0 h \<longleftrightarrow> (\<exists>ds. et_timeline (th_trace h) = et_timeline (th_trace h0) @ ds)"

lemma emitted_trace: "emit_progress node action h = (h1, msgs) \<Longrightarrow> th_trace h1 = th_trace h"
  using emit_progress_frame [of node action h] by auto

lemma close_node_trace:
  assumes "close_node now rid node h = ((h1, msgs), duration, parent)"
  shows "th_trace h1 = th_trace h"
proof -
  obtain h2 msgs2 where e: "emit_progress node ''done'' (h\<lparr>th_run_to_node := remove_key rid (th_run_to_node h),
      th_active := filter (\<lambda>n. n \<noteq> node) (th_active h)\<rparr>) = (h2, msgs2)" by fastforce
  show ?thesis using assms emitted_trace [OF e] by (auto simp: close_node_def e Let_def split: if_splits)
qed

lemma step_extends: "extends_timeline h (th_step tv ev h)"
proof (cases ev)
  case (Node_start now stamp rid node inputs)
  obtain h1 msgs where e: "emit_progress node ''add'' (h\<lparr>th_active := th_active h @ [node],
      th_run_to_node := dict_set rid node (th_run_to_node h)\<rparr>) = (h1, msgs)" by fastforce
  then show ?thesis using emitted_trace [OF e]
    by (simp add: Node_start on_chain_start_def e Let_def extends_timeline_def append_timeline_def)
next
  case (Node_end now stamp rid outputs)
  then show ?thesis
    by (auto simp: on_chain_end_def with_run_def Let_def extends_timeline_def append_timeline_def add_node_record_def
        dest!: close_node_trace split: option.split prod.split)
next
  case (Node_error now stamp rid error)
  then show ?thesis
    by (auto simp: on_chain_error_def with_run_def Let_def extends_timeline_def append_timeline_def add_node_record_def
        dest!: close_node_trace split: option.split prod.split)
next
  case (Custom_event stamp rid name d)
  then show ?thesis
    by (simp add: on_custom_event_def Let_def record_decision_def record_context_retrieval_def record_llm_call_def
        record_sql_data_def record_reasoning_step_def add_reasoning_def extends_timeline_def append_timeline_def
        split: sum.split)
qed (simp_all add: record_sql_def record_sql_data_def start_run_def end_run_def extends_timeline_def split: sum.split)

lemma events_extend: "extends_timeline h (fold (th_step tv) evs h)"
proof (induction evs arbitrary: h)
  case (Cons ev evs)
  show ?case using step_extends [of h tv ev] Cons.IH [of "th_step tv ev h"] by (auto simp: extends_timeline_def)
qed (simp add: extends_timeline_def)


lemma resumed_ok:
  assumes "trace_ok h0"
  shows "trace_ok ((start_run now stamp user_text sid (new_handler run_id enabled listening))\<lparr>th_trace := resumed (th_trace h0) fresh,
    th_seq := top_seq (map tl_seq (et_timeline (th_trace h0))), th_reasoning_seq := n\<rparr>)"
  using assms entries_top by (auto simp: trace_ok_def resumed_def start_run_def new_handler_def timers_ok_def totals_ok_def)

text \<open>
  C37: A run resumed from a stored trace continues it.  Whatever happened in the first run, its stored
  record is read without an error by a new handler; the timeline, the model calls, the reasoning
  steps, the path of nodes and the question are the first run's, its nodes and decisions are not
  taken over; and whatever happens then only adds to the timeline, and the record stays
  consistent: the numbers go on upwards, every parent is the start of the entry's node, and the
  totals count the calls of both runs.
\<close>
theorem resumed_trace_continues:
  "let t = th_trace (fold (th_step tv) evs (new_handler first_id enabled0 listening0));
       (h, outcome) = resume_from tv (trace_dict others t) (start_run now stamp user_text sid (new_handler run_id enabled listening));
       h' = fold (th_step tv) evs' h
   in outcome = Inr () \<and> et_timeline (th_trace h) = et_timeline t \<and> et_llm_calls (th_trace h) = et_llm_calls t \<and>
      et_reasoning_flow (th_trace h) = et_reasoning_flow t \<and> et_node_path (th_trace h) = et_node_path t \<and>
      et_user_input (th_trace h) = et_user_input t \<and> et_nodes (th_trace h) = [] \<and> et_decisions (th_trace h) = [] \<and>
      trace_ok h' \<and> extends_timeline h h'"
proof -
  let ?t = "th_trace (fold (th_step tv) evs (new_handler first_id enabled0 listening0))"
  have ok: "trace_ok (fold (th_step tv) evs (new_handler first_id enabled0 listening0))"
    by (intro trace_events_ok new_handler_ok)
  show ?thesis
    using trace_events_ok [OF resumed_ok [OF ok]] events_extend
    by (simp add: Let_def resume_fresh) (simp add: resumed_def start_run_def new_handler_def new_trace_def)
qed

section \<open>What is passed over\<close>

text \<open>The second start the framework makes for a node's wrapper, and its end, leave no mark.\<close>

lemma wrapper_run_ignored:
  assumes "node \<in> set (th_active h)" "node \<noteq> []" "rid \<notin> set (th_nested h)"
  shows "fst (on_chain_end tv later stamp' rid outputs (fst (on_chain_start tv now stamp rid node inputs h))) = h"
proof -
  have "filter (\<lambda>r. r \<noteq> rid) (th_nested h) = th_nested h" using assms(3) by (auto intro: filter_True)
  then show ?thesis using assms by (simp add: on_chain_start_def on_chain_end_def with_run_def add_name_def)
qed

text \<open>With every trace file switched off the handler also passes no text of the model on to the client.\<close>

lemma no_traces_no_stream: "\<not> th_enabled h \<Longrightarrow> on_custom_event tv stamp rid name d h = ((h, Inr ()), [])"
  by (simp add: on_custom_event_def)

text \<open>The progress messages do not depend on the traces.\<close>

lemma progress_without_traces:
  "snd (on_chain_start tv now stamp rid node inputs h) =
   snd (on_chain_start tv now stamp rid node inputs (h\<lparr>th_enabled := False\<rparr>))"
  by (simp add: on_chain_start_def emit_progress_def Let_def split: option.split)

end
