(* ===== verification/TraceAnalysis.thy ===== *)
theory TraceAnalysis imports TraceHandler ResponseFormat begin

text \<open>
  The rules that look for weak points in a stored trace, \<open>src/src/utils/tracker/trace_analyzer.py\<close>,
  for one trace and for all traces of a directory.  A trace is the dictionary read from its file;
  a value that does not fit raises where the code uses it.  The texts of the messages are in
  English; \<open>show\<close> is the text Python prints of a value.
\<close>

section \<open>Values of a trace\<close>

record weakness =
  wk_severity :: string
  wk_category :: string
  wk_stage :: json
  wk_message :: string
  wk_detail :: json

record trace_report =
  rt_run_id :: json
  rt_user_input :: json
  rt_final_status :: json
  rt_weaknesses :: "weakness list"
  rt_metrics :: "(string \<times> json) list"

definition weak :: "string \<Rightarrow> string \<Rightarrow> string \<Rightarrow> string \<Rightarrow> weakness" where
  "weak severity category stage message = \<lparr>wk_severity = severity, wk_category = category, wk_stage = JStr stage,
     wk_message = message, wk_detail = JStr []\<rparr>"

definition number_at :: "(string \<times> json) list \<Rightarrow> string \<Rightarrow> rat \<Rightarrow> rat result" where
  "number_at d k q = json_number (obj_get d k (JNum q))"

text \<open>\<open>for x in v\<close> over dictionaries, each looked at when its turn comes; and \<open>len(v)\<close>.\<close>

definition each_dict :: "((string \<times> json) list \<Rightarrow> 'a result) \<Rightarrow> json \<Rightarrow> 'a list result" where
  "each_dict f v = result_bind (json_iter v) (map_result (\<lambda>x. result_bind (entry_dict x) f))"

definition json_size :: "json \<Rightarrow> nat result" where
  "json_size v =
     (case v of JList xs \<Rightarrow> Inr (length xs) | JObj kvs \<Rightarrow> Inr (length kvs) | JStr s \<Rightarrow> Inr (py_len s) | _ \<Rightarrow> Inl TypeErr)"

definition is_zero :: "json \<Rightarrow> bool" where
  "is_zero v \<longleftrightarrow> v = JNum 0 \<or> v = JBool False"

definition join_texts :: "string \<Rightarrow> json list \<Rightarrow> string result" where
  "join_texts sep vs = result_bind (map_result text_value vs) (\<lambda>ts. Inr (py_join sep ts))"

text \<open>\<open>f"{q:.0f}"\<close>.\<close>

definition rounded :: "rat \<Rightarrow> string" where
  "rounded q = sign_text (q < 0) @ nat_digits (nat (round_half_even \<bar>q\<bar>))"

section \<open>Metrics\<close>

definition collect_metrics :: "(string \<times> json) list \<Rightarrow> (string \<times> json) list result" where
  "collect_metrics d =
     (let calls = obj_get d ''llm_calls'' (JList [])
      in result_bind (json_size calls) (\<lambda>n_calls.
         result_bind (each_dict (\<lambda>c. number_at c ''latency_ms'' 0) calls) (\<lambda>latencies.
         result_bind (each_dict (\<lambda>c. result_bind (number_at c ''prompt_tokens'' 0) (\<lambda>n_in.
                        result_bind (number_at c ''response_tokens'' 0) (\<lambda>n_out. Inr (n_in + n_out)))) calls) (\<lambda>tokens.
         result_bind (json_size (obj_get d ''nodes'' (JList []))) (\<lambda>n_nodes.
         result_bind (json_size (obj_get d ''context_retrievals'' (JList []))) (\<lambda>n_context.
         result_bind (entry_dict (obj_get d ''sql'' (JObj []))) (\<lambda>sql.
           Inr [(''total_duration_ms'', obj_get d ''total_duration_ms'' (JNum 0)), (''llm_call_count'', jint (int n_calls)),
                (''total_llm_latency_ms'', JNum (sum_list latencies)), (''total_llm_tokens'', JNum (sum_list tokens)),
                (''node_count'', jint (int n_nodes)), (''context_retrieval_count'', jint (int n_context)),
                (''sql_retry_count'', obj_get sql ''retry_count'' (JNum 0)), (''sql_validated'', obj_get sql ''validated'' (JBool False)),
                (''sql_execution_success'', obj_get sql ''execution_success'' (JBool False)),
                (''sql_row_count'', obj_get sql ''row_count'' (JNum 0))])))))))"

section \<open>The rules\<close>

definition NON_SQL_STATUSES :: "string list" where
  "NON_SQL_STATUSES = [''casual_response'', ''clarification'', ''greeting'', ''out_of_scope'']"

definition TABLE_META_NAMES :: "string list" where
  "TABLE_META_NAMES = [''lookup_table_meta'', ''search_table_meta'']"

definition without_sql :: "(string \<times> json) list \<Rightarrow> bool result" where
  "without_sql d = result_bind (as_key (obj_get d ''final_status'' JNull)) (\<lambda>v. Inr (v \<in> JStr ` set NON_SQL_STATUSES))"

text \<open>One retrieval: its source, and that of an empty or a slow one.\<close>

definition look_at_retrieval ::
  "(json \<Rightarrow> string) \<Rightarrow> (string \<times> json) list \<Rightarrow> (json \<times> json list \<times> string list) result" where
  "look_at_retrieval show r =
     result_bind (as_key (obj_get r ''source'' (JStr []))) (\<lambda>source.
     result_bind (number_at r ''latency_ms'' 0) (\<lambda>latency.
       Inr (source, if is_zero (obj_get r ''results_count'' (JNum 0)) then [source] else [],
            if latency > 5000 then [py_str show source @ ''('' @ rounded latency @ ''ms)''] else [])))"

definition check_context_retrieval :: "(json \<Rightarrow> string) \<Rightarrow> (string \<times> json) list \<Rightarrow> weakness list result" where
  "check_context_retrieval show d =
     (let retrievals = obj_get d ''context_retrievals'' (JList [])
      in result_bind (without_sql d) (\<lambda>skip.
         if skip then Inr []
         else if \<not> json_true retrievals
         then Inr [weak ''CRITICAL'' ''context'' ''context_explorer'' ''no search recorded: the tools were not traced at all'']
         else
           result_bind (each_dict (look_at_retrieval show) retrievals) (\<lambda>looked.
           let empties = concat (map (fst \<circ> snd) looked); slow = concat (map (snd \<circ> snd) looked)
           in result_bind (join_texts '', '' empties) (\<lambda>names.
              Inr ((if empties \<noteq> [] then [weak ''WARNING'' ''context'' ''context_explorer''
                      (''tools without results: '' @ names @ '': check the keywords or the metadata'')] else []) @
                   (if slow \<noteq> [] then [weak ''WARNING'' ''context'' ''context_explorer''
                      (''answers later than 5 seconds: '' @ py_join '', '' slow)] else []) @
                   (if set (map fst looked) \<inter> JStr ` set TABLE_META_NAMES = {}
                    then [weak ''CRITICAL'' ''context'' ''context_explorer''
                      ''no search of the table metadata: there may be no candidate tables''] else []))))))"

definition check_llm_calls :: "(string \<times> json) list \<Rightarrow> weakness list result" where
  "check_llm_calls d =
     (let calls = obj_get d ''llm_calls'' (JList [])
      in if \<not> json_true calls then Inr [weak ''WARNING'' ''llm'' ''pipeline'' ''no model call recorded'']
         else
           result_bind (each_dict (\<lambda>c. case obj_get c ''response_text'' (JStr []) of
                          JStr t \<Rightarrow> Inr (if py_strip t = [] then [obj_get c ''node'' (JStr ''?'')] else []) | _ \<Rightarrow> Inl AttributeError) calls) (\<lambda>empties.
           result_bind (join_texts '', '' (concat empties)) (\<lambda>names.
           result_bind (each_dict (\<lambda>c. number_at c ''latency_ms'' 0) calls) (\<lambda>latencies.
           result_bind (json_size calls) (\<lambda>n.
             let n_empty = length (concat empties); n_slow = length (filter (\<lambda>q. q > 10000) latencies)
             in Inr ((if n_empty > 0 then [weak ''CRITICAL'' ''llm'' names
                        (nat_digits n_empty @ '' empty model replies, nodes: '' @ names)] else []) @
                     (if n_slow > 0 then [weak ''WARNING'' ''llm'' ''pipeline''
                        (''model replies later than 10 seconds: '' @ nat_digits n_slow @ '': consider switching thinking off'')] else []) @
                     (if n > 15 then [weak ''WARNING'' ''llm'' ''pipeline''
                        (nat_digits n @ '' model calls: reduce cost and latency'')] else [])))))))"


definition has_text :: "(string \<times> json) list \<Rightarrow> string \<Rightarrow> string \<Rightarrow> bool" where
  "has_text d k t \<longleftrightarrow> obj_get d k JNull = JStr t"

text \<open>The dictionaries of a list that pass a test, \<open>[x for x in v if test(x)]\<close>.\<close>

definition dicts_with :: "((string \<times> json) list \<Rightarrow> bool) \<Rightarrow> json \<Rightarrow> (string \<times> json) list list result" where
  "dicts_with P v = result_bind (each_dict Inr v) (\<lambda>ds. Inr (filter P ds))"

definition low_readiness :: "(string \<times> json) list \<Rightarrow> weakness list result" where
  "low_readiness r =
     (if has_text r ''chosen'' ''generate_sql'' then
        result_bind (number_at r ''confidence'' 1) (\<lambda>q.
          Inr (if q < 6/10 then [(weak ''WARNING'' ''accuracy'' ''readiness_gate''
                 (''SQL generation entered with a low confidence ('' @ fixed 2 False q @ ''): its correctness is at risk''))
                 \<lparr>wk_detail := obj_get r ''reason'' (JStr [])\<rparr>] else []))
      else Inr [])"

definition check_decisions :: "(string \<times> json) list \<Rightarrow> weakness list result" where
  "check_decisions d =
     (let decisions = obj_get d ''decisions'' (JList [])
      in result_bind (dicts_with (\<lambda>x. has_text x ''decision_type'' ''readiness_verdict'') decisions) (\<lambda>readiness.
         result_bind (if readiness = [] then Inr [weak ''INFO'' ''pipeline'' ''readiness_gate'' ''no readiness verdict recorded'']
                      else result_bind (map_result low_readiness readiness) (\<lambda>ws. Inr (concat ws))) (\<lambda>ws.
         result_bind (dicts_with (\<lambda>x. has_text x ''decision_type'' ''intent_classification'') decisions) (\<lambda>intents.
           case intents of
             [] \<Rightarrow> Inr ws
           | x # xs \<Rightarrow> result_bind (number_at x ''confidence'' 1) (\<lambda>q.
               Inr (ws @ (if q < 5/10 then [weak ''WARNING'' ''accuracy'' ''intent_classifier''
                 (''low confidence of the intent: '' @ fixed 2 False q @ '': it may be routed wrongly'')] else [])))))))"

definition check_sql_quality :: "(json \<Rightarrow> string) \<Rightarrow> (string \<times> json) list \<Rightarrow> weakness list result" where
  "check_sql_quality show d =
     result_bind (entry_dict (obj_get d ''sql'' (JObj []))) (\<lambda>sql.
       let validated = json_true (obj_get sql ''validated'' JNull); executed = json_true (obj_get sql ''execution_success'' JNull);
           errors = obj_get sql ''validation_errors'' (JList [])
       in if \<not> json_true (obj_get sql ''generated_sql'' JNull)
          then result_bind (without_sql d) (\<lambda>skip. Inr (if skip then []
                 else [weak ''CRITICAL'' ''sql'' ''sql_generator'' ''no SQL: the run did not reach the generator'']))
          else
            result_bind (if validated then Inr []
                         else result_bind (if json_true errors then result_bind (json_iter errors) (join_texts ''; '')
                                           else Inr ''no error recorded'') (\<lambda>t.
                              Inr [(weak ''CRITICAL'' ''sql'' ''sql_validator'' ''the SQL did not pass the validation'')\<lparr>wk_detail := JStr t\<rparr>])) (\<lambda>invalid.
            result_bind (number_at sql ''retry_count'' 0) (\<lambda>retries.
              Inr (invalid @
                (if validated \<and> \<not> executed
                 then [weak ''CRITICAL'' ''sql'' ''sql_executor'' ''validated, but the execution failed''] else []) @
                (if retries \<ge> 2
                 then [(weak ''WARNING'' ''sql'' ''sql_generator''
                        (''SQL generated again '' @ py_str show (obj_get sql ''retry_count'' (JNum 0)) @ '' times: check the prompt or the context''))
                        \<lparr>wk_detail := obj_get sql ''validation_feedback'' (JStr [])\<rparr>] else []) @
                (if executed \<and> is_zero (obj_get sql ''row_count'' (JNum 0))
                 then [weak ''WARNING'' ''accuracy'' ''sql_executor'' ''executed without a row: the conditions or the tables may be wrong''] else [])))))"

text \<open>\<open>v.count(t)\<close>: the equal elements of a list, the occurrences in a text.\<close>

definition json_count :: "string \<Rightarrow> json \<Rightarrow> nat result" where
  "json_count t v =
     (case v of JList xs \<Rightarrow> Inr (length (filter (\<lambda>x. x = JStr t) xs))
      | JStr s \<Rightarrow> Inr (length (py_replace t (t @ [CHR ''x'']) s) - length s)
      | _ \<Rightarrow> Inl AttributeError)"

definition check_pipeline_flow :: "(json \<Rightarrow> string) \<Rightarrow> (string \<times> json) list \<Rightarrow> weakness list result" where
  "check_pipeline_flow show d =
     result_bind (json_count ''recovery_planner'' (obj_get d ''node_path'' (JList []))) (\<lambda>n.
       Inr ((if n \<ge> 2 then [weak ''WARNING'' ''pipeline'' ''recovery_planner''
               (nat_digits n @ '' new plans: the first hypotheses or the metadata may be poor'')] else []) @
            (if has_text d ''final_status'' ''failure'' then [weak ''CRITICAL'' ''pipeline'' ''result_finalizer''
               (''the run failed: '' @ py_str show (obj_get d ''error_message'' (JStr ''cause unknown'')))] else [])))"

definition look_at_node :: "(json \<Rightarrow> string) \<Rightarrow> (string \<times> json) list \<Rightarrow> weakness list result" where
  "look_at_node show n =
     (let name = obj_get n ''node'' (JStr ''?'')
      in result_bind (number_at n ''duration_ms'' 0) (\<lambda>duration.
           Inr ((if duration > 30000 then [(weak ''WARNING'' ''pipeline'' []
                   (''node '' @ py_str show name @ '' took '' @ rounded duration @ ''ms (more than 30 seconds)''))\<lparr>wk_stage := name\<rparr>] else []) @
                (if has_text n ''status'' ''error'' then [(weak ''CRITICAL'' ''pipeline'' []
                   (''node '' @ py_str show name @ '' failed: '' @ py_str show (obj_get n ''error_message'' (JStr []))))\<lparr>wk_stage := name\<rparr>] else []))))"

definition check_node_performance :: "(json \<Rightarrow> string) \<Rightarrow> (string \<times> json) list \<Rightarrow> weakness list result" where
  "check_node_performance show d =
     result_bind (each_dict (look_at_node show) (obj_get d ''nodes'' (JList []))) (\<lambda>ws. Inr (concat ws))"


section \<open>The timeline\<close>

text \<open>\<open>v[:40]\<close>.\<close>

definition cut_summary :: "json \<Rightarrow> json result" where
  "cut_summary v = (case v of JStr s \<Rightarrow> Inr (JStr (take_chars 40 s)) | JList xs \<Rightarrow> Inr (JList (take 40 xs)) | _ \<Rightarrow> Inl TypeErr)"

text \<open>The longest row of events that are model calls, from the length of the row under way.\<close>

fun longest_row :: "nat \<Rightarrow> nat \<Rightarrow> (string \<times> json) list list \<Rightarrow> nat" where
  "longest_row consec best [] = best"
| "longest_row consec best (e # es) =
     (if has_text e ''event_type'' ''llm_call'' then longest_row (Suc consec) (max best (Suc consec)) es
      else longest_row 0 best es)"

definition NODE_EVENTS :: "string list" where "NODE_EVENTS = [''node_start'', ''node_end'']"

definition event_node :: "(string \<times> json) list \<Rightarrow> json list result" where
  "event_node e =
     (if obj_get e ''event_type'' (JStr []) \<in> JStr ` set NODE_EVENTS then Inr []
      else result_bind (as_key (obj_get e ''node'' (JStr []))) (\<lambda>n. Inr [n]))"

definition check_timeline :: "(string \<times> json) list \<Rightarrow> weakness list result" where
  "check_timeline d =
     (let timeline = obj_get d ''timeline'' (JList [])
      in if \<not> json_true timeline then Inr [weak ''INFO'' ''pipeline'' ''tracker'' ''no timeline: check the version of the tracker'']
         else
           result_bind (each_dict Inr timeline) (\<lambda>es.
           let failed = filter (\<lambda>e. has_text e ''event_type'' ''tool_call'' \<and> has_text e ''status'' ''error'') es;
               row = longest_row 0 0 es; started = filter (\<lambda>e. has_text e ''event_type'' ''node_start'') es
           in result_bind (map_result (\<lambda>e. cut_summary (obj_get e ''summary'' (JStr ''?''))) failed) (\<lambda>cut.
              result_bind (join_texts '', '' (take 5 cut)) (\<lambda>names.
              result_bind (map_result event_node es) (\<lambda>busy.
              result_bind (map_result (\<lambda>e. as_key (obj_get e ''node'' (JStr []))) started) (\<lambda>nodes.
              let idle = filter (\<lambda>n. n \<notin> set (concat busy)) nodes
              in result_bind (join_texts '', '' (take 5 idle)) (\<lambda>idle_names.
                 Inr ((if failed \<noteq> [] then [weak ''WARNING'' ''context'' ''context_explorer''
                         (nat_digits (length failed) @ '' failed tool calls: '' @ names)] else []) @
                      (if row \<ge> 3 then [weak ''WARNING'' ''llm'' ''pipeline''
                         (nat_digits row @ '' model calls in a row without a tool'')] else []) @
                      (if idle \<noteq> [] then [weak ''INFO'' ''pipeline'' ''tracker''
                         (''nodes without events: '' @ idle_names)] else [])))))))))"

section \<open>The reports\<close>

definition analyze_trace_data :: "(json \<Rightarrow> string) \<Rightarrow> (string \<times> json) list \<Rightarrow> trace_report result" where
  "analyze_trace_data show d =
     result_bind (collect_metrics d) (\<lambda>metrics.
     result_bind (check_context_retrieval show d) (\<lambda>w1.
     result_bind (check_llm_calls d) (\<lambda>w2.
     result_bind (check_decisions d) (\<lambda>w3.
     result_bind (check_sql_quality show d) (\<lambda>w4.
     result_bind (check_pipeline_flow show d) (\<lambda>w5.
     result_bind (check_node_performance show d) (\<lambda>w6.
     result_bind (check_timeline d) (\<lambda>w7.
       Inr \<lparr>rt_run_id = obj_get d ''run_id'' (JStr []), rt_user_input = obj_get d ''user_input'' (JStr []),
            rt_final_status = obj_get d ''final_status'' (JStr []), rt_weaknesses = w1 @ w2 @ w3 @ w4 @ w5 @ w6 @ w7,
            rt_metrics = metrics\<rparr>))))))))"

definition analyze_trace :: "(json \<Rightarrow> string) \<Rightarrow> json result \<Rightarrow> trace_report result" where
  "analyze_trace show file = result_bind (result_bind file entry_dict) (analyze_trace_data show)"

record batch_report =
  bt_total :: nat
  bt_success :: nat
  bt_failure :: nat
  bt_by_severity :: "(string \<times> nat) list"
  bt_top :: "weakness list"
  bt_per_run :: "trace_report list"

definition count_more :: "'k \<Rightarrow> ('k \<times> nat) list \<Rightarrow> ('k \<times> nat) list" where
  "count_more k m = dict_set k ((case map_of m k of Some n \<Rightarrow> n | None \<Rightarrow> 0) + 1) m"

text \<open>Weaknesses with the same first 80 characters count together; the first one stands for them.\<close>

definition count_message :: "weakness \<Rightarrow> (string \<times> nat \<times> weakness) list \<Rightarrow> (string \<times> nat \<times> weakness) list" where
  "count_message w m =
     (let k = take_chars 80 (wk_message w)
      in case map_of m k of Some (n, f) \<Rightarrow> dict_set k (n + 1, f) m | None \<Rightarrow> dict_set k (1, w) m)"

definition analyze_batch :: "(json \<Rightarrow> string) \<Rightarrow> json result list \<Rightarrow> batch_report result" where
  "analyze_batch show files =
     result_bind (map_result (analyze_trace show) files) (\<lambda>reports.
       let won = length (filter (\<lambda>r. rt_final_status r = JStr ''success'') reports);
           ws = concat (map rt_weaknesses reports); tally = map snd (fold count_message ws [])
       in Inr \<lparr>bt_total = length reports, bt_success = won, bt_failure = length reports - won,
               bt_by_severity = fold (count_more \<circ> wk_severity) ws [],
               bt_top = take 15 (map snd (sort_key (\<lambda>p. - int (fst p)) tally)), bt_per_run = reports\<rparr>)"

definition success_rate :: "batch_report \<Rightarrow> rat" where
  "success_rate b = (if bt_total b = 0 then 0 else of_nat (bt_success b) / of_nat (bt_total b))"

definition SEVERITIES :: "string list" where "SEVERITIES = [''CRITICAL'', ''WARNING'', ''INFO'']"

definition batch_summary :: "batch_report \<Rightarrow> string" where
  "batch_summary b =
     py_join nl
       ([''=== Traces analysed ('' @ nat_digits (bt_total b) @ '') ==='',
         ''Success: '' @ rounded (success_rate b * 100) @ ''% ('' @ nat_digits (bt_success b) @ ''/'' @ nat_digits (bt_total b) @ '')'',
         [], ''By severity:''] @
        List.map_filter (\<lambda>s. case map_of (bt_by_severity b) s of
            Some n \<Rightarrow> if n > 0 then Some (''  '' @ s @ '': '' @ nat_digits n) else None | None \<Rightarrow> None) SEVERITIES @
        (if bt_top b = [] then []
         else [[], ''Most frequent:''] @
              map (\<lambda>w. ''  ['' @ wk_severity w @ ''] '' @ wk_message w) (take 10 (bt_top b))))"


section \<open>The file of a trace\<close>

text \<open>The entries of \<open>model_dump\<close> the handler does not read back; \<open>summary\<close> is the dump of a node's summary.\<close>

definition dump_node :: "((string \<times> state_value) list \<Rightarrow> json) \<Rightarrow> node_record \<Rightarrow> json" where
  "dump_node summary n = JObj [(''node'', JStr (nr_node n)), (''input_summary'', summary (nr_input n)),
     (''output_summary'', summary (nr_output n)), (''duration_ms'', JNum (nr_duration n)), (''status'', JStr (nr_status n)),
     (''error_message'', JStr (nr_error n)), (''timestamp'', JStr (nr_timestamp n))]"

definition dump_decision :: "decision_record \<Rightarrow> json" where
  "dump_decision r = JObj [(''node'', JStr (dr_node r)), (''decision_type'', JStr (dr_type r)), (''chosen'', JStr (dr_chosen r)),
     (''alternatives'', jstrs (dr_alternatives r)), (''confidence'', JNum (dr_confidence r)), (''reason'', JStr (dr_reason r)),
     (''timestamp'', JStr (dr_timestamp r))]"

definition dump_context :: "context_record \<Rightarrow> json" where
  "dump_context r = JObj [(''source'', JStr (cx_source r)), (''query'', JStr (cx_query r)), (''results_count'', jint (cx_count r)),
     (''results_summary'', jstrs (cx_summary r)), (''latency_ms'', JNum (cx_latency r)), (''timestamp'', JStr (cx_timestamp r))]"

definition dump_sql :: "sql_record \<Rightarrow> json" where
  "dump_sql r = JObj [(''generated_sql'', JStr (sq_generated r)), (''validated'', JBool (sq_validated r)),
     (''validation_errors'', jstrs (sq_errors r)), (''retry_count'', jint (sq_retries r)),
     (''validation_feedback'', JStr (sq_feedback r)), (''execution_success'', JBool (sq_success r)),
     (''row_count'', jint (sq_rows r)), (''execution_time_ms'', JNum (sq_time r))]"

definition other_entries :: "((string \<times> state_value) list \<Rightarrow> json) \<Rightarrow> evaluation_trace \<Rightarrow> (string \<times> json) list" where
  "other_entries summary t =
     [(''run_id'', JStr (et_run_id t)), (''session_id'', JStr (et_session_id t)), (''end_time'', JStr (et_end_time t)),
      (''total_duration_ms'', JNum (et_total_duration t)), (''final_intent'', JStr (et_final_intent t)),
      (''final_status'', JStr (et_final_status t)), (''final_response_summary'', JStr (et_final_response t)),
      (''error_message'', JStr (et_error t)), (''nodes'', JList (map (dump_node summary) (et_nodes t))),
      (''decisions'', JList (map dump_decision (et_decisions t))),
      (''context_retrievals'', JList (map dump_context (et_context t))), (''sql'', dump_sql (et_sql t))]"

definition written_trace :: "((string \<times> state_value) list \<Rightarrow> json) \<Rightarrow> evaluation_trace \<Rightarrow> (string \<times> json) list" where
  "written_trace summary t = trace_dict (other_entries summary t) t"

section \<open>Every written trace can be analysed\<close>

definition dict_of :: "json \<Rightarrow> (string \<times> json) list" where
  "dict_of v = (case v of JObj d \<Rightarrow> d | _ \<Rightarrow> [])"

lemma written_entries [simp]:
  "obj_get (written_trace summary t) ''run_id'' v = JStr (et_run_id t)"
  "obj_get (written_trace summary t) ''user_input'' v = JStr (et_user_input t)"
  "obj_get (written_trace summary t) ''total_duration_ms'' v = JNum (et_total_duration t)"
  "obj_get (written_trace summary t) ''final_status'' v = JStr (et_final_status t)"
  "obj_get (written_trace summary t) ''error_message'' v = JStr (et_error t)"
  "obj_get (written_trace summary t) ''nodes'' v = JList (map (dump_node summary) (et_nodes t))"
  "obj_get (written_trace summary t) ''llm_calls'' v = JList (map dump_call (et_llm_calls t))"
  "obj_get (written_trace summary t) ''decisions'' v = JList (map dump_decision (et_decisions t))"
  "obj_get (written_trace summary t) ''context_retrievals'' v = JList (map dump_context (et_context t))"
  "obj_get (written_trace summary t) ''sql'' v = dump_sql (et_sql t)"
  "obj_get (written_trace summary t) ''timeline'' v = JList (map dump_entry (et_timeline t))"
  "obj_get (written_trace summary t) ''node_path'' v = jstrs (et_node_path t)"
  by (simp_all add: written_trace_def trace_dict_def other_entries_def obj_get_def)

text \<open>A rule over dumped records, by what it gives for one.\<close>

lemma each_dumped:
  assumes "\<And>x. f (dict_of (dump x)) = Inr (g x)" "\<And>x. dump x = JObj (dict_of (dump x))"
  shows "each_dict f (JList (map dump xs)) = Inr (map g xs)"
proof -
  have "result_bind (entry_dict (dump x)) f = Inr (g x)" for x
    by (subst assms(2)) (simp add: entry_dict_def assms(1))
  then have "map_result (\<lambda>x. result_bind (entry_dict x) f) (map dump xs) = Inr (map g xs)"
    by (induction xs) simp_all
  then show ?thesis by (simp add: each_dict_def)
qed

definition known_severities :: "weakness list result \<Rightarrow> bool" where
  "known_severities r \<longleftrightarrow> (\<exists>ws. r = Inr ws \<and> list_all (\<lambda>w. wk_severity w \<in> set SEVERITIES) ws)"

lemma known_Inr [simp]: "known_severities (Inr ws) \<longleftrightarrow> list_all (\<lambda>w. wk_severity w \<in> set SEVERITIES) ws"
  by (simp add: known_severities_def)

lemma weak_known [simp]:
  "wk_severity (weak s c st m) = s"
  "''CRITICAL'' \<in> set SEVERITIES" "''WARNING'' \<in> set SEVERITIES" "''INFO'' \<in> set SEVERITIES"
  by (simp_all add: weak_def SEVERITIES_def)

lemma texts_joined: "set vs \<subseteq> range JStr \<Longrightarrow> \<exists>t. join_texts sep vs = Inr t"
proof -
  assume "set vs \<subseteq> range JStr"
  then have "\<exists>ts. map_result text_value vs = Inr ts"
    by (induction vs) (auto simp: text_value_def)
  then show ?thesis by (auto simp: join_texts_def)
qed


lemma dumped:
  "dump_call c = JObj (dict_of (dump_call c))" "dump_entry e = JObj (dict_of (dump_entry e))"
  "dump_node summary n = JObj (dict_of (dump_node summary n))" "dump_decision r = JObj (dict_of (dump_decision r))"
  "dump_context x = JObj (dict_of (dump_context x))" "dump_sql q = JObj (dict_of (dump_sql q))"
  by (simp_all add: dict_of_def dump_call_def dump_entry_def dump_node_def dump_decision_def dump_context_def dump_sql_def)

lemma call_entries:
  "obj_get (dict_of (dump_call c)) ''latency_ms'' v = JNum (lc_latency c)"
  "obj_get (dict_of (dump_call c)) ''prompt_tokens'' v = jint (lc_prompt_tokens c)"
  "obj_get (dict_of (dump_call c)) ''response_tokens'' v = jint (lc_response_tokens c)"
  "obj_get (dict_of (dump_call c)) ''response_text'' v = JStr (lc_response_text c)"
  "obj_get (dict_of (dump_call c)) ''node'' v = JStr (lc_node c)"
  by (simp_all add: dict_of_def dump_call_def obj_get_def)

lemma context_entries:
  "obj_get (dict_of (dump_context x)) ''source'' v = JStr (cx_source x)"
  "obj_get (dict_of (dump_context x)) ''latency_ms'' v = JNum (cx_latency x)"
  "obj_get (dict_of (dump_context x)) ''results_count'' v = jint (cx_count x)"
  by (simp_all add: dict_of_def dump_context_def obj_get_def)

lemma node_entries:
  "obj_get (dict_of (dump_node summary n)) ''node'' v = JStr (nr_node n)"
  "obj_get (dict_of (dump_node summary n)) ''duration_ms'' v = JNum (nr_duration n)"
  by (simp_all add: dict_of_def dump_node_def obj_get_def)

lemma decision_entries:
  "obj_get (dict_of (dump_decision r)) ''confidence'' v = JNum (dr_confidence r)"
  by (simp_all add: dict_of_def dump_decision_def obj_get_def)

lemma entry_entries:
  "obj_get (dict_of (dump_entry e)) ''event_type'' v = JStr (tl_event e)"
  "obj_get (dict_of (dump_entry e)) ''node'' v = JStr (tl_node e)"
  "obj_get (dict_of (dump_entry e)) ''summary'' v = JStr (tl_summary e)"
  by (simp_all add: dict_of_def dump_entry_def obj_get_def)

lemma sql_entries:
  "obj_get (dict_of (dump_sql q)) ''retry_count'' v = jint (sq_retries q)"
  "obj_get (dict_of (dump_sql q)) ''validation_errors'' v = jstrs (sq_errors q)"
  by (simp_all add: dict_of_def dump_sql_def obj_get_def)

lemmas record_entries = call_entries context_entries node_entries decision_entries entry_entries sql_entries

lemma number_of_num [simp]: "json_number (JNum q) = Inr q" "json_number (jint i) = Inr (of_int i)"
  by (simp_all add: json_number_def jint_def)

lemma dict_of_dumped [simp]: "entry_dict (dump_sql q) = Inr (dict_of (dump_sql q))"
  by (subst dumped) (simp add: entry_dict_def)

lemma each_call:
  "(\<And>c. f (dict_of (dump_call c)) = Inr (g c)) \<Longrightarrow> each_dict f (JList (map dump_call cs)) = Inr (map g cs)"
  using each_dumped [of f dump_call g, OF _ dumped(1)] by blast

lemma of_int_sum: "sum_list (map (of_int \<circ> f) xs) = (of_int (sum_list (map f xs)) :: rat)"
  by (induction xs) simp_all

lemma metrics_written:
  assumes "totals_ok t"
  shows "\<exists>m. collect_metrics (written_trace summary t) = Inr m \<and>
    obj_get m ''llm_call_count'' JNull = jint (et_total_llm_calls t) \<and>
    obj_get m ''total_llm_latency_ms'' JNull = JNum (et_total_llm_latency t) \<and>
    obj_get m ''total_llm_tokens'' JNull = jint (et_total_llm_tokens t)"
proof -
  let ?cs = "et_llm_calls t"
  have latencies: "each_dict (\<lambda>c. number_at c ''latency_ms'' 0) (JList (map dump_call ?cs)) = Inr (map lc_latency ?cs)"
    by (rule each_call) (simp add: number_at_def record_entries)
  have tokens: "each_dict (\<lambda>c. result_bind (number_at c ''prompt_tokens'' 0) (\<lambda>n_in.
      result_bind (number_at c ''response_tokens'' 0) (\<lambda>n_out. Inr (n_in + n_out)))) (JList (map dump_call ?cs)) =
      Inr (map (of_int \<circ> call_tokens) ?cs)"
    by (rule each_call) (simp add: number_at_def record_entries call_tokens_def)
  have "sum_list (map (of_int \<circ> call_tokens) ?cs) = (of_int (et_total_llm_tokens t) :: rat)"
    using assms by (simp add: totals_ok_def of_int_sum)
  then show ?thesis
    using assms
    by (simp add: collect_metrics_def Let_def latencies tokens json_size_def) (simp add: totals_ok_def obj_get_def jint_def)
qed


lemma skips_known: "\<exists>b. without_sql (written_trace summary t) = Inr b"
  by (simp add: without_sql_def as_key_def)

lemma context_checked: "known_severities (check_context_retrieval show (written_trace summary t))"
proof -
  let ?g = "\<lambda>x. (JStr (cx_source x), if cx_count x = 0 then [JStr (cx_source x)] else [],
    if cx_latency x > 5000 then [py_str show (JStr (cx_source x)) @ ''('' @ rounded (cx_latency x) @ ''ms)''] else [])"
  have looked: "each_dict (look_at_retrieval show) (JList (map dump_context (et_context t))) = Inr (map ?g (et_context t))"
    by (rule each_dumped) (auto simp: look_at_retrieval_def record_entries number_at_def as_key_def is_zero_def jint_def dumped(5) [symmetric])
  have "set (concat (map (fst \<circ> snd) (map ?g (et_context t)))) \<subseteq> range JStr" by auto
  then obtain names where "join_texts '', '' (concat (map (fst \<circ> snd) (map ?g (et_context t)))) = Inr names"
    using texts_joined by blast
  moreover obtain b where "without_sql (written_trace summary t) = Inr b" using skips_known by blast
  ultimately show ?thesis
    by (simp add: check_context_retrieval_def Let_def looked del: map_map)
qed

lemma calls_checked: "known_severities (check_llm_calls (written_trace summary t))"
proof -
  let ?cs = "et_llm_calls t"
  let ?g = "\<lambda>c. if py_strip (lc_response_text c) = [] then [JStr (lc_node c)] else []"
  have latencies: "each_dict (\<lambda>c. number_at c ''latency_ms'' 0) (JList (map dump_call ?cs)) = Inr (map lc_latency ?cs)"
    by (rule each_call) (simp add: number_at_def record_entries)
  have empties: "each_dict (\<lambda>c. case obj_get c ''response_text'' (JStr []) of
      JStr t \<Rightarrow> Inr (if py_strip t = [] then [obj_get c ''node'' (JStr ''?'')] else []) | _ \<Rightarrow> Inl AttributeError)
      (JList (map dump_call ?cs)) = Inr (map ?g ?cs)"
    by (rule each_call) (simp add: record_entries)
  have "set (concat (map ?g ?cs)) \<subseteq> range JStr" by auto
  then obtain names where "join_texts '', '' (concat (map ?g ?cs)) = Inr names" using texts_joined by blast
  then show ?thesis
    by (simp add: check_llm_calls_def Let_def empties latencies json_size_def)
qed

lemma filtered_dicts:
  "dicts_with P (JList (map dump_decision rs)) = Inr (filter P (map (dict_of \<circ> dump_decision) rs))"
proof -
  have "each_dict Inr (JList (map dump_decision rs)) = Inr (map (dict_of \<circ> dump_decision) rs)"
    by (rule each_dumped) (simp_all add: dumped(4) [symmetric])
  then show ?thesis by (simp add: dicts_with_def)
qed

lemma known_of_each:
  assumes "\<And>x. x \<in> set xs \<Longrightarrow> known_severities (f x)"
  shows "known_severities (result_bind (map_result f xs) (\<lambda>ws. Inr (concat ws)))"
  using assms
proof (induction xs)
  case (Cons x xs)
  then have "known_severities (result_bind (map_result f xs) (\<lambda>ws. Inr (concat ws)))" "known_severities (f x)" by simp_all
  then show ?case by (auto simp: known_severities_def result_bind_Inr_iff)
qed simp

lemma low_readiness_known: "known_severities (low_readiness (dict_of (dump_decision r)))"
  by (simp add: low_readiness_def number_at_def record_entries)

lemma readiness_checked:
  "set ds \<subseteq> range (dict_of \<circ> dump_decision) \<Longrightarrow>
     known_severities (result_bind (map_result low_readiness ds) (\<lambda>ws. Inr (concat ws)))"
  by (rule known_of_each) (auto intro: low_readiness_known)

lemma decisions_checked: "known_severities (check_decisions (written_trace summary t))"
proof -
  let ?rs = "filter (\<lambda>x. has_text x ''decision_type'' ''readiness_verdict'') (map (dict_of \<circ> dump_decision) (et_decisions t))"
  let ?is = "filter (\<lambda>x. has_text x ''decision_type'' ''intent_classification'') (map (dict_of \<circ> dump_decision) (et_decisions t))"
  have "known_severities (result_bind (map_result low_readiness ?rs) (\<lambda>ws. Inr (concat ws)))"
    by (rule readiness_checked) auto
  then obtain ws where ws: "(if ?rs = [] then Inr [weak ''INFO'' ''pipeline'' ''readiness_gate'' ''no readiness verdict recorded'']
      else result_bind (map_result low_readiness ?rs) (\<lambda>ws. Inr (concat ws))) = Inr ws" "list_all (\<lambda>w. wk_severity w \<in> set SEVERITIES) ws"
    by (cases "?rs = []") (auto simp: known_severities_def)
  show ?thesis
  proof (cases ?is)
    case (Cons x xs)
    have "x \<in> set ?is" by (simp only: Cons) simp
    then obtain r where "x = dict_of (dump_decision r)" by auto
    then show ?thesis using ws Cons
      by (simp add: check_decisions_def Let_def filtered_dicts number_at_def record_entries del: filter_map if_splits)
  qed (use ws in \<open>simp add: check_decisions_def Let_def filtered_dicts\<close>)
qed


lemma sql_checked: "known_severities (check_sql_quality show (written_trace summary t))"
proof -
  obtain b where b: "without_sql (written_trace summary t) = Inr b" using skips_known by blast
  obtain e where e: "join_texts ''; '' (map JStr (sq_errors (et_sql t))) = Inr e"
    using texts_joined [of "map JStr (sq_errors (et_sql t))"] by auto
  show ?thesis
    by (simp add: check_sql_quality_def Let_def b record_entries number_at_def jstrs_def e)
qed

lemma flow_checked: "known_severities (check_pipeline_flow show (written_trace summary t))"
  by (simp add: check_pipeline_flow_def json_count_def jstrs_def)

lemma node_looked: "known_severities (look_at_node show (dict_of (dump_node summary n)))"
  by (simp add: look_at_node_def Let_def number_at_def record_entries)

lemma nodes_checked: "known_severities (check_node_performance show (written_trace summary t))"
proof -
  have e: "entry_dict (dump_node summary n) = Inr (dict_of (dump_node summary n))" for n
    by (subst dumped) (simp add: entry_dict_def)
  have "known_severities (result_bind (map_result (\<lambda>x. result_bind (entry_dict x) (look_at_node show))
      (map (dump_node summary) (et_nodes t))) (\<lambda>ws. Inr (concat ws)))"
    by (rule known_of_each) (auto simp: e node_looked)
  then show ?thesis by (simp add: check_node_performance_def each_dict_def)
qed

lemma all_cut:
  "set es \<subseteq> range (dict_of \<circ> dump_entry) \<Longrightarrow>
     \<exists>vs. map_result (\<lambda>e. cut_summary (obj_get e ''summary'' (JStr ''?''))) es = Inr vs \<and> set vs \<subseteq> range JStr"
  by (induction es) (auto simp: record_entries cut_summary_def)

lemma all_named:
  "set es \<subseteq> range (dict_of \<circ> dump_entry) \<Longrightarrow>
     \<exists>vs. map_result (\<lambda>e. as_key (obj_get e ''node'' (JStr []))) es = Inr vs \<and> set vs \<subseteq> range JStr"
  by (induction es) (auto simp: record_entries as_key_def)

lemma all_events: "set es \<subseteq> range (dict_of \<circ> dump_entry) \<Longrightarrow> \<exists>vs. map_result event_node es = Inr vs"
  by (induction es) (auto simp: event_node_def record_entries as_key_def)

lemma timeline_checked: "known_severities (check_timeline (written_trace summary t))"
proof (cases "et_timeline t = []")
  case False
  let ?es = "map (dict_of \<circ> dump_entry) (et_timeline t)"
  let ?failed = "filter (\<lambda>e. has_text e ''event_type'' ''tool_call'' \<and> has_text e ''status'' ''error'') ?es"
  let ?started = "filter (\<lambda>e. has_text e ''event_type'' ''node_start'') ?es"
  have es: "each_dict Inr (JList (map dump_entry (et_timeline t))) = Inr ?es"
    by (rule each_dumped) (simp_all add: dumped(2) [symmetric])
  obtain cut where cut: "map_result (\<lambda>e. cut_summary (obj_get e ''summary'' (JStr ''?''))) ?failed = Inr cut" "set cut \<subseteq> range JStr"
    using all_cut [of ?failed] by auto
  obtain nodes where nodes: "map_result (\<lambda>e. as_key (obj_get e ''node'' (JStr []))) ?started = Inr nodes" "set nodes \<subseteq> range JStr"
    using all_named [of ?started] by auto
  obtain busy where busy: "map_result event_node ?es = Inr busy" using all_events [of ?es] by auto
  obtain names where names: "join_texts '', '' (take 5 cut) = Inr names"
    using texts_joined [of "take 5 cut"] cut(2) by (meson order_trans set_take_subset)
  obtain idle where idle: "join_texts '', '' (take 5 (filter (\<lambda>n. n \<notin> set (concat busy)) nodes)) = Inr idle"
    using texts_joined [of "take 5 (filter (\<lambda>n. n \<notin> set (concat busy)) nodes)"] nodes(2)
    by (meson filter_is_subset order_trans set_take_subset)
  show ?thesis
    using False idle by (simp add: check_timeline_def Let_def es cut names nodes busy del: map_map filter_map set_concat)
qed (simp add: check_timeline_def)



section \<open>The counts of a batch\<close>

definition tally :: "('k \<times> nat) list \<Rightarrow> 'k \<Rightarrow> nat" where
  "tally m k = (case map_of m k of Some n \<Rightarrow> n | None \<Rightarrow> 0)"

lemma tally_more: "tally (count_more k m) j = tally m j + (if j = k then 1 else 0)"
  by (simp add: tally_def count_more_def map_of_dict_set)

lemma counts_fold: "tally (fold (count_more \<circ> f) ws m) k = tally m k + length (filter (\<lambda>w. f w = k) ws)"
  by (induction ws arbitrary: m) (simp_all add: tally_more)

lemma severities_counted:
  "analyze_batch show files = Inr b \<Longrightarrow>
     tally (bt_by_severity b) s = length (filter (\<lambda>w. wk_severity w = s) (concat (map rt_weaknesses (bt_per_run b))))"
  using counts_fold [of wk_severity _ "[]"] by (auto simp: analyze_batch_def result_bind_Inr_iff Let_def tally_def)

text \<open>The value of a status, the final status the runner gives the trace.\<close>

fun query_status_value :: "query_status \<Rightarrow> string" where
  "query_status_value QS_PENDING = ''pending''"
| "query_status_value QS_PREPROCESSING = ''preprocessing''"
| "query_status_value QS_INTENT_CLASSIFIED = ''intent_classified''"
| "query_status_value QS_QUERY_NORMALIZED = ''query_normalized''"
| "query_status_value QS_AWAITING_CLARIFICATION = ''awaiting_clarification''"
| "query_status_value QS_CONTINUE_ORCHESTRATION_PENDING = ''continue_orchestration_pending''"
| "query_status_value QS_CONTEXT_COLLECTED = ''context_collected''"
| "query_status_value QS_SQL_GENERATED = ''sql_generated''"
| "query_status_value QS_SQL_VALIDATED = ''sql_validated''"
| "query_status_value QS_SQL_RETRY = ''sql_retry''"
| "query_status_value QS_EXECUTED = ''executed''"
| "query_status_value QS_ANALYZED = ''analyzed''"
| "query_status_value QS_FORMATTED = ''formatted''"
| "query_status_value QS_COMPLETED = ''completed''"
| "query_status_value QS_CANCELLED = ''cancelled''"
| "query_status_value QS_ERROR = ''error''"

text \<open>No turn is tally as a success, and none of a conversation is taken for one without SQL.\<close>

lemma status_no_success: "query_status_value st \<noteq> ''success''" "query_status_value st \<noteq> ''failure''"
  "query_status_value st \<notin> set NON_SQL_STATUSES"
  by (cases st; simp add: NON_SQL_STATUSES_def)+

lemma map_result_members:
  "map_result f xs = Inr ys \<Longrightarrow> (\<And>x y. x \<in> set xs \<Longrightarrow> f x = Inr y \<Longrightarrow> P y) \<Longrightarrow> list_all P ys"
  unfolding list_all_iff by (blast dest: map_result_set)

lemma success_never_counted:
  assumes "analyze_batch show files = Inr b"
    and "\<And>f. f \<in> set files \<Longrightarrow> \<exists>summary t st. f = Inr (JObj (written_trace summary t)) \<and> et_final_status t = query_status_value st"
  shows "bt_success b = 0"
proof -
  obtain reports where r: "map_result (analyze_trace show) files = Inr reports"
      "bt_success b = length (filter (\<lambda>r. rt_final_status r = JStr ''success'') reports)"
    using assms(1) by (auto simp: analyze_batch_def result_bind_Inr_iff Let_def)
  have "list_all (\<lambda>r. rt_final_status r \<noteq> JStr ''success'') reports"
  proof (rule map_result_members [OF r(1)])
    fix x y assume x: "x \<in> set files" "analyze_trace show x = Inr y"
    obtain summary t st where "x = Inr (JObj (written_trace summary t))" "et_final_status t = query_status_value st"
      using assms(2) [OF x(1)] by blast
    with x(2) show "rt_final_status y \<noteq> JStr ''success''"
      by (auto simp: analyze_trace_def entry_dict_def analyze_trace_data_def result_bind_Inr_iff status_no_success)
  qed
  then show ?thesis using r(2) by (simp add: list_all_iff)
qed

end
